(* ===== verification/Prelude.thy ===== *)
theory Prelude
  imports Main "HOL-Library.Word" "HOL-Library.Sublist" "HOL-Library.AList"
begin

text \<open>
  Shared base of the development: machine integer names, the outcomes of a Rust call
  (a value, an error passed on by \<open>?\<close>, a panic, no return), actions on a state, and the parts of the
  Rust standard library on strings that the agent uses (\<open>split\<close>, \<open>lines\<close>, \<open>trim\<close>,
  \<open>parse\<close>, \<open>to_string\<close>), with the lemmas the component theories share.
  Strings are lists of bytes; only ASCII white space is trimmed.
\<close>

unbundle bit_operations_syntax

named_theorems act_simps \<open>unfolding of actions: one step of a run\<close>
named_theorems str_simps \<open>splitting, printing and parsing of strings\<close>

type_synonym u8 = "8 word"
type_synonym u16 = "16 word"
type_synonym u32 = "32 word"
type_synonym u64 = "64 word"

lemma map_filter_append:
  "List.map_filter f (xs @ ys) = List.map_filter f xs @ List.map_filter f ys"
  by (simp add: List.map_filter_def)

section \<open>Errors and results\<close>

text \<open>The kernel's error numbers that the code tests for; any other is \<open>ErrnoOther n\<close>.\<close>

datatype errno = EPERM | ENOENT | EINTR | EIO | EBADF | EAGAIN | EACCES | EEXIST | ENODEV
  | ENOTDIR | EISDIR | EINVAL | EPIPE | ERANGE | ETIME | EBADMSG | ETIMEDOUT | EADDRNOTAVAIL
  | UnknownErrno | ErrnoOther nat

text \<open>\<open>std::io::ErrorKind\<close> of an operating system error, as the standard library decodes it.\<close>

datatype io_kind = NotFound | PermissionDenied | AlreadyExists | InvalidInput | BrokenPipe
  | Interrupted | WouldBlock | TimedOut | OtherKind

fun io_kind_of :: "errno \<Rightarrow> io_kind" where
  "io_kind_of ENOENT = NotFound"
| "io_kind_of EPERM = PermissionDenied"
| "io_kind_of EACCES = PermissionDenied"
| "io_kind_of EEXIST = AlreadyExists"
| "io_kind_of EINVAL = InvalidInput"
| "io_kind_of EPIPE = BrokenPipe"
| "io_kind_of EINTR = Interrupted"
| "io_kind_of EAGAIN = WouldBlock"
| "io_kind_of ETIMEDOUT = TimedOut"
| "io_kind_of _ = OtherKind"

text \<open>The error kinds of \<open>rustjail/src/errors.rs\<close> that the modelled code produces.\<close>

datatype error = Io errno | Nix errno | ErrorCode string | Msg string | Ffi | Parse | UTF8
  | Scanfmt | Ip | Caps errno

text \<open>
  The outcome of a call: a value, an error for the caller, a panic of the thread, no return at
  all (a loop cut off by its fuel, a read that blocks for ever), or undefined behaviour (an
  \<open>unsafe\<close> access outside of its buffer), after which the model says nothing.
\<close>

datatype 'a res = Ok 'a | Err error | Panic | Hang | Undefined

primrec map_res :: "('a \<Rightarrow> 'b) \<Rightarrow> 'a res \<Rightarrow> 'b res" where
  "map_res f (Ok x) = Ok (f x)"
| "map_res f (Err e) = Err e"
| "map_res f Panic = Panic"
| "map_res f Hang = Hang"
| "map_res f Undefined = Undefined"

primrec bind_res :: "'a res \<Rightarrow> ('a \<Rightarrow> 'b res) \<Rightarrow> 'b res" where
  "bind_res (Ok x) f = f x"
| "bind_res (Err e) f = Err e"
| "bind_res Panic f = Panic"
| "bind_res Hang f = Hang"
| "bind_res Undefined f = Undefined"

definition unwrap :: "'a option \<Rightarrow> 'a res" where
  "unwrap x = (case x of None \<Rightarrow> Panic | Some v \<Rightarrow> Ok v)"

lemma unwrap_simps [simp]: "unwrap None = Panic" "unwrap (Some v) = Ok v"
  by (simp_all add: unwrap_def)

lemma bind_res_Ok: "bind_res r f = Ok y \<longleftrightarrow> (\<exists>x. r = Ok x \<and> f x = Ok y)"
  by (cases r) auto

lemma map_res_Ok: "map_res f r = Ok y \<longleftrightarrow> (\<exists>x. r = Ok x \<and> y = f x)"
  by (cases r) auto

section \<open>Actions\<close>

text \<open>
  A fallible operation on a state. \<open>bindR\<close> is Rust's \<open>?\<close>: anything but a value of the first
  action ends the whole; \<open>catchR\<close> is a \<open>match\<close> on \<open>Err\<close>, which a panic passes through.
\<close>

type_synonym ('s, 'a) act = "'s \<Rightarrow> 'a res \<times> 's"

definition ret :: "'a \<Rightarrow> ('s, 'a) act" where
  "ret x = (\<lambda>s. (Ok x, s))"

definition throw :: "error \<Rightarrow> ('s, 'a) act" where
  "throw e = (\<lambda>s. (Err e, s))"

definition panicR :: "('s, 'a) act" where
  "panicR = (\<lambda>s. (Panic, s))"

definition hangR :: "('s, 'a) act" where
  "hangR = (\<lambda>s. (Hang, s))"

definition liftR :: "'a res \<Rightarrow> ('s, 'a) act" where
  "liftR r = (\<lambda>s. (r, s))"

definition getsR :: "('s \<Rightarrow> 'a) \<Rightarrow> ('s, 'a) act" where
  "getsR f = (\<lambda>s. (Ok (f s), s))"

definition modifyR :: "('s \<Rightarrow> 's) \<Rightarrow> ('s, unit) act" where
  "modifyR f = (\<lambda>s. (Ok (), f s))"

definition bindR :: "('s, 'a) act \<Rightarrow> ('a \<Rightarrow> ('s, 'b) act) \<Rightarrow> ('s, 'b) act" where
  "bindR m f = (\<lambda>s. case m s of (Ok x, s') \<Rightarrow> f x s' | (Err e, s') \<Rightarrow> (Err e, s')
     | (Panic, s') \<Rightarrow> (Panic, s') | (Hang, s') \<Rightarrow> (Hang, s') | (Undefined, s') \<Rightarrow> (Undefined, s'))"

definition thenR :: "('s, 'a) act \<Rightarrow> ('s, 'b) act \<Rightarrow> ('s, 'b) act" where
  "thenR m k = bindR m (\<lambda>_. k)"

definition catchR :: "('s, 'a) act \<Rightarrow> (error \<Rightarrow> ('s, 'a) act) \<Rightarrow> ('s, 'a) act" where
  "catchR m h = (\<lambda>s. case m s of (Err e, s') \<Rightarrow> h e s' | r \<Rightarrow> r)"

text \<open>\<open>let _ = m;\<close> and the like: the error is dropped, a panic is not.\<close>

definition ignoreR :: "('s, 'a) act \<Rightarrow> ('s, unit) act" where
  "ignoreR m = (\<lambda>s. case m s of (Panic, s') \<Rightarrow> (Panic, s') | (Hang, s') \<Rightarrow> (Hang, s')
     | (Undefined, s') \<Rightarrow> (Undefined, s') | (_, s') \<Rightarrow> (Ok (), s'))"

primrec run_all :: "('s, unit) act list \<Rightarrow> ('s, unit) act" where
  "run_all [] = ret ()"
| "run_all (m # ms) = thenR m (run_all ms)"

text \<open>\<open>for x in xs { m(x)?; }\<close>\<close>

definition for_each :: "'x list \<Rightarrow> ('x \<Rightarrow> ('s, unit) act) \<Rightarrow> ('s, unit) act" where
  "for_each xs m = run_all (map m xs)"

text \<open>\<open>for x in xs { v.push(m(x)?); }\<close>\<close>

primrec collectR :: "('x \<Rightarrow> ('s, 'a) act) \<Rightarrow> 'x list \<Rightarrow> ('s, 'a list) act" where
  "collectR m [] = ret []"
| "collectR m (x # xs) = bindR (m x) (\<lambda>y. bindR (collectR m xs) (\<lambda>ys. ret (y # ys)))"

definition whenR :: "bool \<Rightarrow> ('s, unit) act \<Rightarrow> ('s, unit) act" where
  "whenR b m = (if b then m else ret ())"

lemma act_basic [act_simps, simp]:
  "ret x s = (Ok x, s)" "throw e s = (Err e, s)" "panicR s = (Panic, s)"
  "hangR s = (Hang, s)"
  "liftR r s = (r, s)" "getsR f s = (Ok (f s), s)" "modifyR g s = (Ok (), g s)"
  by (simp_all add: ret_def throw_def panicR_def hangR_def liftR_def getsR_def modifyR_def)

lemma bindR_step [act_simps, simp]:
  "m s = (Ok x, s') \<Longrightarrow> bindR m f s = f x s'"
  "m s = (Err e, s') \<Longrightarrow> bindR m f s = (Err e, s')"
  "m s = (Panic, s') \<Longrightarrow> bindR m f s = (Panic, s')"
  "m s = (Hang, s') \<Longrightarrow> bindR m f s = (Hang, s')"
  "m s = (Undefined, s') \<Longrightarrow> bindR m f s = (Undefined, s')"
  by (simp_all add: bindR_def)

lemma thenR_step [act_simps, simp]:
  "m s = (Ok x, s') \<Longrightarrow> thenR m k s = k s'"
  "m s = (Err e, s') \<Longrightarrow> thenR m k s = (Err e, s')"
  "m s = (Panic, s') \<Longrightarrow> thenR m k s = (Panic, s')"
  "m s = (Hang, s') \<Longrightarrow> thenR m k s = (Hang, s')"
  "m s = (Undefined, s') \<Longrightarrow> thenR m k s = (Undefined, s')"
  by (simp_all add: thenR_def)

lemma catchR_step [act_simps, simp]:
  "m s = (Ok x, s') \<Longrightarrow> catchR m h s = (Ok x, s')"
  "m s = (Err e, s') \<Longrightarrow> catchR m h s = h e s'"
  "m s = (Panic, s') \<Longrightarrow> catchR m h s = (Panic, s')"
  "m s = (Hang, s') \<Longrightarrow> catchR m h s = (Hang, s')"
  "m s = (Undefined, s') \<Longrightarrow> catchR m h s = (Undefined, s')"
  by (simp_all add: catchR_def)

lemma ignoreR_step [act_simps, simp]:
  "m s = (Ok x, s') \<Longrightarrow> ignoreR m s = (Ok (), s')"
  "m s = (Err e, s') \<Longrightarrow> ignoreR m s = (Ok (), s')"
  "m s = (Panic, s') \<Longrightarrow> ignoreR m s = (Panic, s')"
  "m s = (Hang, s') \<Longrightarrow> ignoreR m s = (Hang, s')"
  "m s = (Undefined, s') \<Longrightarrow> ignoreR m s = (Undefined, s')"
  by (simp_all add: ignoreR_def)

lemma whenR_simps [act_simps, simp]: "whenR True m = m" "whenR False m = ret ()"
  by (simp_all add: whenR_def)

lemma for_each_simps [act_simps, simp]:
  "for_each [] m = ret ()"
  "for_each (x # xs) m = thenR (m x) (for_each xs m)"
  by (simp_all add: for_each_def)

lemma for_each_append: "for_each (xs @ ys) m s = thenR (for_each xs m) (for_each ys m) s"
  by (induction xs arbitrary: s) (auto simp: thenR_def bindR_def split: prod.split res.split)

lemma run_all_append: "run_all (ms @ ns) s = thenR (run_all ms) (run_all ns) s"
  by (induction ms arbitrary: s) (auto simp: thenR_def bindR_def split: prod.split res.split)

lemma thenR_assoc: "thenR (thenR a b) c = thenR a (thenR b c)"
  by (rule ext) (simp add: thenR_def bindR_def split: prod.split res.split)

lemma thenR_done: "thenR m (ret ()) = m"
  by (rule ext) (simp add: thenR_def bindR_def split: prod.split res.split)

lemma run_all_cat: "run_all (ms @ ns) = thenR (run_all ms) (run_all ns)"
  by (rule ext) (rule run_all_append)

lemma for_each_cat: "for_each (xs @ ys) m = thenR (for_each xs m) (for_each ys m)"
  by (rule ext) (rule for_each_append)

text \<open>Inversion: what a successful run of a composed action went through.\<close>

lemma bindR_OkD:
  "bindR m f s = (Ok y, t) \<Longrightarrow> \<exists>x u. m s = (Ok x, u) \<and> f x u = (Ok y, t)"
  by (auto simp: bindR_def split: prod.splits res.splits)

lemma thenR_OkD:
  "thenR m k s = (Ok y, t) \<Longrightarrow> \<exists>x u. m s = (Ok x, u) \<and> k u = (Ok y, t)"
  by (auto simp: thenR_def dest: bindR_OkD)

lemma bindR_Ok_iff:
  "bindR m f s = (Ok y, t) \<longleftrightarrow> (\<exists>x u. m s = (Ok x, u) \<and> f x u = (Ok y, t))"
  by (auto simp: bindR_def split: prod.splits res.splits)

lemma thenR_Ok_iff:
  "thenR m k s = (Ok y, t) \<longleftrightarrow> (\<exists>x u. m s = (Ok x, u) \<and> k u = (Ok y, t))"
  by (simp add: thenR_def bindR_Ok_iff)

text \<open>A relation between states that is reflexive and transitive is kept by composition.\<close>

definition keeps :: "('s \<Rightarrow> 's \<Rightarrow> bool) \<Rightarrow> ('s, 'a) act \<Rightarrow> bool" where
  "keeps R m \<longleftrightarrow> (\<forall>s. R s (snd (m s)))"

lemma keepsD: "keeps R m \<Longrightarrow> m s = (r, t) \<Longrightarrow> R s t"
  by (metis keeps_def snd_conv)

lemma keepsI: "(\<And>s r t. m s = (r, t) \<Longrightarrow> R s t) \<Longrightarrow> keeps R m"
  by (simp add: keeps_def) (metis prod.collapse)

lemma keeps_ret: "reflp R \<Longrightarrow> keeps R (ret x)"
  by (simp add: keeps_def reflp_def)

lemma keeps_throw: "reflp R \<Longrightarrow> keeps R (throw e)"
  by (simp add: keeps_def reflp_def)

lemma keeps_panic: "reflp R \<Longrightarrow> keeps R panicR"
  by (simp add: keeps_def reflp_def)

lemma keeps_hang: "reflp R \<Longrightarrow> keeps R hangR"
  by (simp add: keeps_def reflp_def)

lemma keeps_lift: "reflp R \<Longrightarrow> keeps R (liftR r)"
  by (simp add: keeps_def reflp_def)

lemma keeps_gets: "reflp R \<Longrightarrow> keeps R (getsR f)"
  by (simp add: keeps_def reflp_def)

text \<open>Composition; what follows has to be considered for the values the first action can return only.\<close>

lemma keeps_bind_value:
  assumes "transp R" "keeps R m" "\<And>s x u. m s = (Ok x, u) \<Longrightarrow> keeps R (f x)"
  shows "keeps R (bindR m f)"
proof (rule keepsI)
  fix s r t assume run: "bindR m f s = (r, t)"
  obtain q u where m: "m s = (q, u)" by fastforce
  have su: "R s u" using assms(2) m by (rule keepsD)
  show "R s t"
  proof (cases q)
    case (Ok x)
    with run m have "f x u = (r, t)" by simp
    then have "R u t" using assms(3) m Ok by (metis keepsD)
    with su show ?thesis using assms(1) by (meson transpD)
  qed (use run m su in auto)
qed

lemma keeps_bind: "transp R \<Longrightarrow> keeps R m \<Longrightarrow> (\<And>x. keeps R (f x)) \<Longrightarrow> keeps R (bindR m f)"
  by (rule keeps_bind_value)

lemma keeps_then:
  "transp R \<Longrightarrow> keeps R m \<Longrightarrow> keeps R k \<Longrightarrow> keeps R (thenR m k)"
  by (simp add: thenR_def keeps_bind)

lemma keeps_catch:
  assumes "transp R" "keeps R m" "\<And>e. keeps R (h e)"
  shows "keeps R (catchR m h)"
proof (rule keepsI)
  fix s r t assume run: "catchR m h s = (r, t)"
  obtain q u where m: "m s = (q, u)" by fastforce
  have su: "R s u" using assms(2) m by (rule keepsD)
  show "R s t"
  proof (cases q)
    case (Err e)
    with run m have "h e u = (r, t)" by simp
    then have "R u t" using assms(3) by (metis keepsD)
    with su show ?thesis using assms(1) by (meson transpD)
  qed (use run m su in auto)
qed

lemma keeps_ignore: "keeps R m \<Longrightarrow> keeps R (ignoreR m)"
  by (auto simp: keeps_def ignoreR_def split: prod.split res.split) (metis snd_conv)+

lemma keeps_when: "reflp R \<Longrightarrow> keeps R m \<Longrightarrow> keeps R (whenR b m)"
  by (cases b) (auto simp del: act_basic intro: keeps_ret)

lemma keeps_for_each:
  assumes "reflp R" "transp R" "\<And>x. keeps R (m x)"
  shows "keeps R (for_each xs m)"
  by (induction xs) (auto simp del: act_basic intro: keeps_ret keeps_then assms)

lemma keeps_collect:
  assumes "reflp R" "transp R" "\<And>x. keeps R (m x)"
  shows "keeps R (collectR m xs)"
  by (induction xs) (auto simp del: act_basic intro: keeps_ret keeps_bind assms)

lemmas keeps_intros = keeps_ret keeps_throw keeps_panic keeps_hang keeps_lift keeps_gets keeps_bind
  keeps_then keeps_catch keeps_ignore keeps_when keeps_for_each keeps_collect

end
