(* ===== verification/Text.thy ===== *)
theory Text
  imports Prelude
begin

text \<open>
  The string functions of the Rust standard library that the agent calls, on lists of bytes:
  \<open>split\<close> by a character or a string, \<open>lines\<close>, \<open>trim\<close>, \<open>to_string\<close> of integers and
  \<open>str::parse\<close> / \<open>from_str_radix\<close>, with the round-trip lemmas the parsers rest on.
\<close>

section \<open>White space\<close>

definition nl :: char where
  "nl = CHR 0x0A"

definition is_ws :: "char \<Rightarrow> bool" where
  "is_ws c \<longleftrightarrow> of_char c \<in> {9, 10, 11, 12, 13, 32 :: nat}"

definition trim_start :: "string \<Rightarrow> string" where
  "trim_start s = dropWhile is_ws s"

definition trim :: "string \<Rightarrow> string" where
  "trim s = rev (dropWhile is_ws (rev (trim_start s)))"

lemma dropWhile_none: "\<forall>c \<in> set s. \<not> P c \<Longrightarrow> dropWhile P s = s"
  by (cases s) auto

lemma trim_id: "\<forall>c \<in> set s. \<not> is_ws c \<Longrightarrow> trim s = s"
  by (simp add: trim_def trim_start_def dropWhile_none)

lemma trim_snoc_ws:
  assumes "is_ws c" "\<forall>x \<in> set s. \<not> is_ws x"
  shows "trim (s @ [c]) = s"
proof -
  have "rev (dropWhile is_ws (rev s)) = s"
    using assms by (simp add: dropWhile_none)
  moreover have "trim_start (s @ [c]) = (if s = [] then [] else s @ [c])"
    using assms by (cases s) (auto simp: trim_start_def)
  ultimately show ?thesis using assms by (simp add: trim_def)
qed

section \<open>Splitting and joining\<close>

fun split_on :: "char \<Rightarrow> string \<Rightarrow> string list" where
  "split_on c [] = [[]]"
| "split_on c (x # xs) =
     (if x = c then [] # split_on c xs
      else (case split_on c xs of [] \<Rightarrow> [[x]] | p # ps \<Rightarrow> (x # p) # ps))"

fun join_on :: "string \<Rightarrow> string list \<Rightarrow> string" where
  "join_on sep [] = []"
| "join_on sep [p] = p"
| "join_on sep (p # q # ps) = p @ sep @ join_on sep (q # ps)"

text \<open>\<open>str::contains\<close> and \<open>str::to_lowercase\<close> (ASCII letters only).\<close>

fun contains :: "string \<Rightarrow> string \<Rightarrow> bool" where
  "contains pat [] \<longleftrightarrow> pat = []"
| "contains pat (c # cs) \<longleftrightarrow> prefix pat (c # cs) \<or> contains pat cs"

lemma contains_sublist: "contains pat s \<longleftrightarrow> sublist pat s"
  by (induction s) (simp_all add: sublist_Cons_right)

definition lower_char :: "char \<Rightarrow> char" where
  "lower_char c = (let n = of_char c :: nat in if 65 \<le> n \<and> n \<le> 90 then char_of (n + 32) else c)"

definition to_lowercase :: "string \<Rightarrow> string" where
  "to_lowercase s = List.map lower_char s"

lemma split_on_nonempty [simp]: "split_on c s \<noteq> []"
  by (cases s) (auto split: list.split)

lemma split_on_no [simp]: "c \<notin> set s \<Longrightarrow> split_on c s = [s]"
  by (induction s) auto

lemma split_on_append_sep: "c \<notin> set p \<Longrightarrow> split_on c (p @ c # s) = p # split_on c s"
  by (induction p) (auto split: list.split)

lemma split_on_join [str_simps]:
  "ps \<noteq> [] \<Longrightarrow> \<forall>p \<in> set ps. c \<notin> set p \<Longrightarrow> split_on c (join_on [c] ps) = ps"
proof (induction "[c]" ps rule: join_on.induct)
  case (3 p q ps)
  then show ?case using split_on_append_sep [of c p "join_on [c] (q # ps)"] by simp
qed auto

lemma join_split_on [str_simps]: "join_on [c] (split_on c s) = s"
proof (induction s)
  case (Cons x xs)
  obtain p ps where p: "split_on c xs = p # ps"
    using split_on_nonempty by (metis list.exhaust)
  show ?case
    using Cons p by (cases ps) auto
qed simp

lemma split_on_pieces: "p \<in> set (split_on c s) \<Longrightarrow> c \<notin> set p"
proof (induction s arbitrary: p)
  case (Cons x xs)
  then show ?case by (cases "split_on c xs") (auto split: if_splits)
qed simp

lemma split_on_chars: "p \<in> set (split_on c s) \<Longrightarrow> set p \<subseteq> set s"
proof (induction s arbitrary: p)
  case (Cons x xs)
  then show ?case by (cases "split_on c xs") (fastforce split: if_splits)+
qed simp

text \<open>\<open>splitn(2, c)\<close>: the text before the first \<open>c\<close> and the rest, where there is a \<open>c\<close>.\<close>

fun splitn2 :: "char \<Rightarrow> string \<Rightarrow> string list" where
  "splitn2 c [] = [[]]"
| "splitn2 c (x # xs) =
     (if x = c then [[], xs] else (case splitn2 c xs of [] \<Rightarrow> [[x]] | p # ps \<Rightarrow> (x # p) # ps))"

lemma splitn2_append: "c \<notin> set k \<Longrightarrow> splitn2 c (k @ c # v) = [k, v]"
  by (induction k) auto

lemma splitn2_no: "c \<notin> set k \<Longrightarrow> splitn2 c k = [k]"
  by (induction k) auto

text \<open>\<open>str::split\<close> with a non-empty string pattern.\<close>

fun split_str_aux :: "string \<Rightarrow> string \<Rightarrow> nat \<Rightarrow> string \<Rightarrow> string list" where
  "split_str_aux pat acc k [] = [rev acc]"
| "split_str_aux pat acc (Suc k) (x # xs) = split_str_aux pat acc k xs"
| "split_str_aux pat acc 0 (x # xs) =
     (if prefix pat (x # xs) then rev acc # split_str_aux pat [] (length pat - 1) xs
      else split_str_aux pat (x # acc) 0 xs)"

definition split_str :: "string \<Rightarrow> string \<Rightarrow> string list" where
  "split_str pat s = split_str_aux pat [] 0 s"

lemma split_str_aux_nonempty: "split_str_aux pat acc k s \<noteq> []"
  by (induction pat acc k s rule: split_str_aux.induct) auto

lemma split_str_nonempty [simp]: "split_str pat s \<noteq> []"
  by (simp add: split_str_def split_str_aux_nonempty)

fun split_ws_aux :: "string \<Rightarrow> string \<Rightarrow> string list" where
  "split_ws_aux acc [] = (if acc = [] then [] else [rev acc])"
| "split_ws_aux acc (x # xs) =
     (if is_ws x then (if acc = [] then split_ws_aux [] xs else rev acc # split_ws_aux [] xs)
      else split_ws_aux (x # acc) xs)"

definition split_whitespace :: "string \<Rightarrow> string list" where
  "split_whitespace s = split_ws_aux [] s"

text \<open>\<open>str::lines\<close>: pieces between line feeds, the last one only when it is not empty, each
  without a carriage return at its end.\<close>

definition strip_cr :: "string \<Rightarrow> string" where
  "strip_cr s = (if s \<noteq> [] \<and> last s = CHR 0x0D then butlast s else s)"

definition lines :: "string \<Rightarrow> string list" where
  "lines s = (let ps = split_on nl s
     in map strip_cr (if last ps = [] then butlast ps else ps))"

definition unlines :: "string list \<Rightarrow> string" where
  "unlines ls = concat (map (\<lambda>l. l @ [nl]) ls)"

lemma split_unlines:
  "\<forall>l \<in> set ls. nl \<notin> set l \<Longrightarrow> split_on nl (unlines ls) = ls @ [[]]"
  by (induction ls) (auto simp: unlines_def split_on_append_sep)

lemma lines_unlines [str_simps]:
  assumes "\<forall>l \<in> set ls. nl \<notin> set l \<and> strip_cr l = l"
  shows "lines (unlines ls) = ls"
proof -
  have "map strip_cr ls = ls" using assms by (simp add: map_idI)
  then show ?thesis using assms by (simp add: lines_def split_unlines)
qed

lemma lines_Nil [simp]: "lines [] = []"
  by (simp add: lines_def)

text \<open>The part before the last \<open>c\<close> (\<open>rfind\<close> and a slice), and the part after it.\<close>

fun before_last :: "char \<Rightarrow> string \<Rightarrow> string option" where
  "before_last c [] = None"
| "before_last c (x # xs) =
     (case before_last c xs of Some p \<Rightarrow> Some (x # p) | None \<Rightarrow> if x = c then Some [] else None)"

definition after_last :: "char \<Rightarrow> string \<Rightarrow> string" where
  "after_last c s = last (split_on c s)"

lemma before_last_None: "before_last c s = None \<longleftrightarrow> c \<notin> set s"
  by (induction s) (auto split: option.split)

lemma before_last_Some:
  "before_last c s = Some p \<Longrightarrow> \<exists>q. s = p @ c # q \<and> c \<notin> set q"
proof (induction s arbitrary: p)
  case (Cons x xs)
  then show ?case
    by (auto simp: before_last_None split: option.splits if_splits)
qed simp

lemma before_last_append [simp]: "c \<notin> set q \<Longrightarrow> before_last c (p @ c # q) = Some p"
  by (induction p) (auto simp: before_last_None [THEN iffD2])

lemma before_last_length: "before_last c s = Some p \<Longrightarrow> length p < length s"
  by (drule before_last_Some) auto

section \<open>Decimal and hexadecimal numbers\<close>

definition digit_char :: "nat \<Rightarrow> char" where
  "digit_char d = (if d < 10 then char_of (48 + d) else char_of (55 + d))"

definition digit_val :: "char \<Rightarrow> nat option" where
  "digit_val c = (let n = of_char c :: nat in
     if 48 \<le> n \<and> n \<le> 57 then Some (n - 48)
     else if 65 \<le> n \<and> n \<le> 90 then Some (n - 55)
     else if 97 \<le> n \<and> n \<le> 122 then Some (n - 87)
     else None)"

fun show_radix :: "nat \<Rightarrow> nat \<Rightarrow> string" where
  "show_radix r n = (if n < r \<or> r < 2 then [digit_char n]
     else show_radix r (n div r) @ [digit_char (n mod r)])"

declare show_radix.simps [simp del]

definition show_nat :: "nat \<Rightarrow> string" where
  "show_nat n = show_radix 10 n"

definition show_int :: "int \<Rightarrow> string" where
  "show_int i = (if i < 0 then ''-'' @ show_nat (nat (- i)) else show_nat (nat i))"

abbreviation show_word :: "'a::len word \<Rightarrow> string" where
  "show_word w \<equiv> show_nat (unat w)"

fun read_digits :: "nat \<Rightarrow> nat \<Rightarrow> string \<Rightarrow> nat option" where
  "read_digits r acc [] = Some acc"
| "read_digits r acc (c # cs) =
     (case digit_val c of None \<Rightarrow> None
      | Some d \<Rightarrow> if d < r then read_digits r (acc * r + d) cs else None)"

text \<open>
  \<open>from_str_radix\<close> for an unsigned type with values below \<open>bound\<close>: an optional \<open>+\<close>, at least
  one digit, and no overflow; for a signed type an optional \<open>+\<close> or \<open>-\<close>.
\<close>

definition from_str_radix :: "nat \<Rightarrow> nat \<Rightarrow> string \<Rightarrow> nat res" where
  "from_str_radix bound r s =
     (let ds = (case s of c # cs \<Rightarrow> if c = CHR ''+'' then cs else s | [] \<Rightarrow> s)
      in if ds = [] then Err Parse
         else (case read_digits r 0 ds of None \<Rightarrow> Err Parse
               | Some n \<Rightarrow> if n < bound then Ok n else Err Parse))"

definition parse_u64 :: "string \<Rightarrow> u64 res" where
  "parse_u64 s = map_res of_nat (from_str_radix (2 ^ 64) 10 s)"

definition parse_u32 :: "string \<Rightarrow> u32 res" where
  "parse_u32 s = map_res of_nat (from_str_radix (2 ^ 32) 10 s)"

definition parse_i32 :: "string \<Rightarrow> int res" where
  "parse_i32 s =
     (case s of
        c # cs \<Rightarrow>
          if c = CHR ''-'' then
            (if cs = [] then Err Parse
             else (case read_digits 10 0 cs of None \<Rightarrow> Err Parse
                   | Some n \<Rightarrow> if n \<le> 2 ^ 31 then Ok (- int n) else Err Parse))
          else map_res int (from_str_radix (2 ^ 31) 10 s)
      | [] \<Rightarrow> Err Parse)"

lemma of_char_of [simp]: "n < 256 \<Longrightarrow> of_char (char_of (n :: nat) :: char) = n"
  by simp

lemma digit_char_eval [simp]:
  "digit_char 0 = CHR ''0''" "digit_char (Suc 0) = CHR ''1''" "digit_char 1 = CHR ''1''"
  "digit_char 2 = CHR ''2''" "digit_char 3 = CHR ''3''" "digit_char 4 = CHR ''4''"
  "digit_char 5 = CHR ''5''" "digit_char 6 = CHR ''6''" "digit_char 7 = CHR ''7''"
  "digit_char 8 = CHR ''8''" "digit_char 9 = CHR ''9''" "digit_char 10 = CHR ''A''"
  "digit_char 11 = CHR ''B''" "digit_char 12 = CHR ''C''" "digit_char 13 = CHR ''D''"
  "digit_char 14 = CHR ''E''" "digit_char 15 = CHR ''F''"
  by code_simp+

text \<open>Printing a numeral, one digit at a time.\<close>

lemmas show_eval = show_nat_def show_int_def show_radix.simps

lemma digit_val_char [simp]: "d < 36 \<Longrightarrow> digit_val (digit_char d) = Some d"
  by (auto simp: digit_val_def digit_char_def Let_def)

lemma digit_char_not_ws: "d < 36 \<Longrightarrow> \<not> is_ws (digit_char d)"
  by (auto simp: is_ws_def digit_char_def)

lemma digit_char_ne:
  assumes "d < 36" "of_char c < (48 :: nat)"
  shows "digit_char d \<noteq> c"
proof
  assume "digit_char d = c"
  then have "of_char (digit_char d) = (of_char c :: nat)" by simp
  with assms show False by (auto simp: digit_char_def split: if_splits)
qed

lemma show_radix_digits:
  "2 \<le> r \<Longrightarrow> r \<le> 36 \<Longrightarrow> c \<in> set (show_radix r n) \<Longrightarrow> \<exists>d < r. c = digit_char d"
proof (induction r n rule: show_radix.induct)
  case (1 r n)
  show ?case
  proof (cases "n < r \<or> r < 2")
    case True
    with 1 show ?thesis by (auto simp: show_radix.simps [of r n])
  next
    case False
    then have "n mod r < r" by simp
    with False 1 consider "c \<in> set (show_radix r (n div r))" | "c = digit_char (n mod r)"
      by (auto simp: show_radix.simps [of r n])
    then show ?thesis
    proof cases
      case 1
      with False "1.IH" "1.prems" show ?thesis by blast
    next
      case 2
      with \<open>n mod r < r\<close> show ?thesis by blast
    qed
  qed
qed

lemma show_radix_nonempty [simp]: "show_radix r n \<noteq> []"
  by (subst show_radix.simps) simp

lemma read_digits_append:
  "read_digits r a (xs @ ys) =
     (case read_digits r a xs of None \<Rightarrow> None | Some b \<Rightarrow> read_digits r b ys)"
  by (induction xs arbitrary: a) (auto split: option.split)

lemma read_show_radix:
  "2 \<le> r \<Longrightarrow> r \<le> 36 \<Longrightarrow> read_digits r 0 (show_radix r n) = Some n"
proof (induction r n rule: show_radix.induct)
  case (1 r n)
  show ?case
  proof (cases "n < r \<or> r < 2")
    case True
    with 1 show ?thesis by (auto simp: show_radix.simps [of r n])
  next
    case False
    have "n mod r < r" "n mod r < 36"
      using 1 False by (auto intro: less_le_trans [of _ r])
    with 1 False show ?thesis
      by (simp add: show_radix.simps [of r n] read_digits_append)
  qed
qed

lemma show_nat_chars: "c \<in> set (show_nat n) \<Longrightarrow> \<exists>d < 10. c = digit_char d"
  using show_radix_digits [of 10 c n] by (simp add: show_nat_def)

lemma show_nat_nonempty [simp]: "show_nat n \<noteq> []"
  by (simp add: show_nat_def)

lemma show_nat_not_ws: "c \<in> set (show_nat n) \<Longrightarrow> \<not> is_ws c"
  by (drule show_nat_chars) (auto simp: digit_char_not_ws)

lemma show_nat_no_char:
  assumes "of_char c < (48 :: nat) \<or> (57 :: nat) < of_char c"
  shows "c \<notin> set (show_nat n)"
proof
  assume "c \<in> set (show_nat n)"
  then obtain d where "d < 10" "c = digit_char d" by (auto dest: show_nat_chars)
  then have "of_char c = 48 + d" by (simp add: digit_char_def)
  with \<open>d < 10\<close> assms show False by simp
qed

lemma nl_show [simp]: "nl \<notin> set (show_nat n)" "nl \<noteq> CHR '' ''"
  by (simp_all add: show_nat_no_char nl_def)

lemma is_ws_cr: "is_ws (CHR 0x0D)"
  by (simp add: is_ws_def)

lemma strip_cr_last: "s \<noteq> [] \<Longrightarrow> last s \<noteq> CHR 0x0D \<Longrightarrow> strip_cr s = s"
  by (simp add: strip_cr_def)

lemma strip_cr_show [simp]: "strip_cr (a @ show_nat n) = a @ show_nat n"
    "strip_cr (a @ c # show_nat n) = a @ c # show_nat n"
proof -
  have "last (show_nat n) \<noteq> CHR 0x0D"
    by (metis (full_types) last_in_set show_nat_nonempty show_nat_not_ws is_ws_cr)
  then show "strip_cr (a @ show_nat n) = a @ show_nat n"
    "strip_cr (a @ c # show_nat n) = a @ c # show_nat n"
    by (auto intro!: strip_cr_last)
qed

text \<open>A line that ends in a printed number is kept by \<open>lines\<close>.\<close>

definition number_line :: "string \<Rightarrow> bool" where
  "number_line l \<longleftrightarrow> (\<exists>p n. l = p @ show_nat n \<and> nl \<notin> set p)"

lemma number_lineI: "nl \<notin> set p \<Longrightarrow> number_line (p @ show_nat n)"
  by (auto simp: number_line_def)

lemma lines_unlines_numbers: "\<forall>l \<in> set ls. number_line l \<Longrightarrow> lines (unlines ls) = ls"
  by (rule lines_unlines) (auto simp: number_line_def)

lemma trim_show_nat [simp, str_simps]: "trim (show_nat n) = show_nat n"
  by (rule trim_id) (auto dest: show_nat_not_ws)

lemma from_str_radix_show [str_simps]:
  assumes "n < b"
  shows "from_str_radix b 10 (show_nat n) = Ok n"
proof -
  obtain c cs where s: "show_nat n = c # cs"
    by (metis show_nat_nonempty list.exhaust)
  have "c \<noteq> CHR ''+''"
    using show_nat_no_char [of "CHR ''+''" n] s by auto
  with s assms show ?thesis
    using read_show_radix [of 10 n] by (simp add: from_str_radix_def show_nat_def)
qed

lemma parse_u64_show [simp, str_simps]: "parse_u64 (show_word (w :: u64)) = Ok w"
proof -
  have "unat w < 2 ^ 64" using unsigned_less [of w] by simp
  then show ?thesis by (simp add: parse_u64_def from_str_radix_show)
qed

lemma parse_u32_show [simp, str_simps]: "parse_u32 (show_word (w :: u32)) = Ok w"
proof -
  have "unat w < 2 ^ 32" using unsigned_less [of w] by simp
  then show ?thesis by (simp add: parse_u32_def from_str_radix_show)
qed

lemma parse_u64_cases: "parse_u64 s = Err Parse \<or> (\<exists>w. parse_u64 s = Ok w)"
  by (auto simp: parse_u64_def from_str_radix_def Let_def split: option.split list.split)

section \<open>UTF-8\<close>

type_synonym bytes = "u8 list"

text \<open>\<open>String::from_utf8\<close>.\<close>

definition cont :: "u8 \<Rightarrow> bool" where
  "cont b \<longleftrightarrow> 0x80 \<le> b \<and> b \<le> 0xBF"

fun valid_utf8 :: "bytes \<Rightarrow> bool" where
  "valid_utf8 [] \<longleftrightarrow> True"
| "valid_utf8 (b # bs) \<longleftrightarrow>
     (if b < 0x80 then valid_utf8 bs
      else if 0xC2 \<le> b \<and> b \<le> 0xDF then
        (case bs of c # cs \<Rightarrow> cont c \<and> valid_utf8 cs | _ \<Rightarrow> False)
      else if 0xE0 \<le> b \<and> b \<le> 0xEF then
        (case bs of c # d # ds \<Rightarrow> cont c \<and> cont d \<and> (b = 0xE0 \<longrightarrow> 0xA0 \<le> c) \<and> (b = 0xED \<longrightarrow> c \<le> 0x9F)
           \<and> valid_utf8 ds | _ \<Rightarrow> False)
      else if 0xF0 \<le> b \<and> b \<le> 0xF4 then
        (case bs of c # d # e # es \<Rightarrow> cont c \<and> cont d \<and> cont e \<and> (b = 0xF0 \<longrightarrow> 0x90 \<le> c)
           \<and> (b = 0xF4 \<longrightarrow> c \<le> 0x8F) \<and> valid_utf8 es | _ \<Rightarrow> False)
      else False)"

definition string_of :: "bytes \<Rightarrow> string" where
  "string_of bs = map (\<lambda>b. char_of (unat b)) bs"

definition bytes_of :: "string \<Rightarrow> bytes" where
  "bytes_of s = map of_char s"

definition from_utf8 :: "bytes \<Rightarrow> string res" where
  "from_utf8 bs = (if valid_utf8 bs then Ok (string_of bs) else Err UTF8)"

lemma unat_of_char: "unat (of_char c :: u8) = of_char c"
proof -
  have "(of_char c :: u8) = of_nat (of_char c)" by (simp add: of_nat_of_char)
  then show ?thesis by (simp add: unsigned_of_nat take_bit_eq_mod)
qed

lemma bytes_of_length [simp]: "length (bytes_of s) = length s"
  by (simp add: bytes_of_def)

lemma string_bytes [simp]: "string_of (bytes_of s) = s"
  by (simp add: string_of_def bytes_of_def comp_def unat_of_char)

end
