(* ===== verification/Sys.thy ===== *)
theory Sys
  imports Text
begin

text \<open>
  The operating system as the agent sees it. A \<open>world\<close> holds the regular files (by path), the
  answers of the kernel and the history of system calls; \<open>listing\<close>, \<open>canon\<close>, \<open>link\<close>, \<open>st_mode\<close> and
  \<open>st_dev\<close> are what a directory read, a path resolution, the target of a
  symbolic link and a metadata query would return (the type and mode bits, the major and minor
  number of a node); \<open>cwd\<close> is the working directory. The kernel's answer to a call is an
  arbitrary function of the whole history and the call, so a theorem about every \<open>world\<close> covers
  every sequence of failures. The functions of \<open>std::fs\<close> and the \<open>nix\<close>/\<open>libc\<close> wrappers are
  actions on the world; each call is recorded, whether it succeeds or not.
\<close>

section \<open>System calls and the world\<close>

text \<open>Calls about the process itself.\<close>

datatype procop =
    SysGetcwd
  | SysUmask u32
  | SysFchdir int
  | SysChroot string
  | SysPivotRoot string string
  | SysMkfifo string u32
  | SysUnshare u64
  | SysSetns int u64
  | SysSethostname string
  | SysSetrlimit int u64 u64
  | SysSetgroups "u32 list"
  | SysPrctl string bool
  | SysDup2 int int
  | SysSetsid
  | SysPty string
  | SysSendmsg int string
  | SysRecvmsg int
  | SysPipe2 string
  | SysSocketpair string
  | SysExec string "string list" "(string \<times> string) list"

datatype sysop =
    FsWrite string string
  | FsRead string
  | FsMkdirAll string
  | FsRemoveAll string
  | FsReadDir string
  | FsCanonicalize string
  | FsSetMode string u32
  | FsCreate string
  | FsSymlink string string
  | FsReadLink string
  | SysStat string
  | SysChdir string
  | SysChmod string u32
  | SysChown string u32 u32
  | SysRename string string
  | SysWriteAt string string nat
  | SysMknod string u32 u32 u64
  | SysMount "string option" string "string option" u64 "string option"
  | SysUmount string
  | SysUmount2 string
  | SysOpen string
  | SysKill int int
  | SysClose int
  | SysRead int nat
  | SysWrite int string
  | SysCapset string "string set"
  | SysCapdrop string
  | SysSetId u32 u32
  | SysHook string
  | SysOther string int
  | SysProc procop
  | FsRemove string
  | FsOpen string string
  | SysLstat string
  | SysIoctl int string "int list"
  | SysSettime int int

record world =
  files :: "string \<Rightarrow> string option"
  is_dir :: "string \<Rightarrow> bool"
  listing :: "string \<Rightarrow> string list"
  canon :: "string \<Rightarrow> string"
  link :: "string \<Rightarrow> string option"
  cwd :: string
  st_mode :: "string \<Rightarrow> u32"
  st_dev :: "string \<Rightarrow> u32 \<times> u32"
  kernel :: "sysop list \<Rightarrow> sysop \<Rightarrow> errno + int"
  hist :: "sysop list"

type_synonym 'a io = "(world, 'a) act"

text \<open>A world with no file, no directory and a kernel that answers 0 to everything.\<close>

definition quiet :: world where
  "quiet = \<lparr>files = (\<lambda>_. None), is_dir = (\<lambda>_. False), listing = (\<lambda>_. []), canon = (\<lambda>p. p), link = (\<lambda>_. None), cwd = ''/'',
     st_mode = (\<lambda>_. 0), st_dev = (\<lambda>_. (0, 0)), kernel = (\<lambda>_ _. Inr 0), hist = []\<rparr>"

definition sys_with :: "(errno \<Rightarrow> error) \<Rightarrow> sysop \<Rightarrow> int io" where
  "sys_with mk p = (\<lambda>w. let w' = w\<lparr>hist := hist w @ [p]\<rparr> in
     case kernel w (hist w) p of Inl e \<Rightarrow> (Err (mk e), w') | Inr v \<Rightarrow> (Ok v, w'))"

text \<open>The same call reported as \<open>std::io::Error\<close> (\<open>Io\<close>) or as \<open>nix::Error\<close> (\<open>Nix\<close>).\<close>

definition io_sys :: "sysop \<Rightarrow> int io" where
  "io_sys = sys_with Io"

definition nix_sys :: "sysop \<Rightarrow> int io" where
  "nix_sys = sys_with Nix"

definition nix_do :: "sysop \<Rightarrow> unit io" where
  "nix_do p = thenR (nix_sys p) (ret ())"

text \<open>The working directory, kept as a path.\<close>

definition nix_chdir :: "string \<Rightarrow> unit io" where
  "nix_chdir p = thenR (nix_do (SysChdir p))
     (modifyR (\<lambda>w. w\<lparr>cwd := (if prefix ''/'' p then p else cwd w @ ''/'' @ p)\<rparr>))"

definition nix_getcwd :: "string io" where
  "nix_getcwd = thenR (nix_do (SysProc SysGetcwd)) (getsR cwd)"

text \<open>\<open>umask\<close> cannot fail; it returns the mask before.\<close>

definition nix_umask :: "u32 \<Rightarrow> u32 io" where
  "nix_umask m = (\<lambda>w. (Ok (case kernel w (hist w) (SysProc (SysUmask m)) of Inl _ \<Rightarrow> 0 | Inr v \<Rightarrow> word_of_int v),
     w\<lparr>hist := hist w @ [SysProc (SysUmask m)]\<rparr>))"

text \<open>\<open>defer!(close(fd).unwrap())\<close> before \<open>m\<close>: the descriptor is closed however \<open>m\<close> ends.\<close>

definition defer_close :: "int \<Rightarrow> 'a io \<Rightarrow> 'a io" where
  "defer_close fd m = (\<lambda>w. case m w of (r, u) \<Rightarrow>
     if r = Hang \<or> r = Undefined then (r, u)
     else case nix_do (SysClose fd) u of (Ok _, v) \<Rightarrow> (r, v) | (_, v) \<Rightarrow> (Panic, v))"

section \<open>\<open>std::fs\<close>\<close>

definition fs_write :: "string \<Rightarrow> string \<Rightarrow> unit io" where
  "fs_write p c = thenR (io_sys (FsWrite p c)) (modifyR (\<lambda>w. w\<lparr>files := (files w)(p \<mapsto> c)\<rparr>))"

definition fs_read :: "string \<Rightarrow> string io" where
  "fs_read p = thenR (io_sys (FsRead p)) (bindR (getsR (\<lambda>w. files w p))
     (\<lambda>c. case c of None \<Rightarrow> throw (Io ENOENT) | Some s \<Rightarrow> ret s))"

definition fs_create_dir_all :: "string \<Rightarrow> unit io" where
  "fs_create_dir_all p = (if p = [] then ret () else thenR (io_sys (FsMkdirAll p))
     (modifyR (\<lambda>w. w\<lparr>is_dir := (is_dir w)(p := True)\<rparr>)))"

definition fs_remove_dir_all :: "string \<Rightarrow> unit io" where
  "fs_remove_dir_all p = thenR (io_sys (FsRemoveAll p))
     (modifyR (\<lambda>w. w\<lparr>is_dir := (is_dir w)(p := False),
        files := (\<lambda>q. if prefix (p @ ''/'') q then None else files w q)\<rparr>))"

definition fs_read_dir :: "string \<Rightarrow> string list io" where
  "fs_read_dir p = thenR (io_sys (FsReadDir p)) (getsR (\<lambda>w. listing w p))"

definition fs_canonicalize :: "string \<Rightarrow> string io" where
  "fs_canonicalize p = thenR (io_sys (FsCanonicalize p)) (getsR (\<lambda>w. canon w p))"

text \<open>\<open>fs::metadata\<close>, with the part of the result that the caller looks at.\<close>

definition fs_metadata :: "(world \<Rightarrow> string \<Rightarrow> 'a) \<Rightarrow> string \<Rightarrow> 'a io" where
  "fs_metadata f p = thenR (io_sys (SysStat p)) (getsR (\<lambda>w. f w p))"

text \<open>\<open>Path::exists\<close>: a metadata query whose error is read as "no".\<close>

definition path_exists :: "string \<Rightarrow> bool io" where
  "path_exists p = (\<lambda>w. case io_sys (SysStat p) w of
     (Ok _, w') \<Rightarrow> (Ok True, w') | (_, w') \<Rightarrow> (Ok False, w'))"

text \<open>\<open>Path::is_dir\<close> and \<open>Path::is_file\<close>, the same way.\<close>

definition path_is_dir :: "string \<Rightarrow> bool io" where
  "path_is_dir p = bindR (path_exists p) (\<lambda>b. getsR (\<lambda>w. b \<and> is_dir w p))"

definition path_is_file :: "string \<Rightarrow> bool io" where
  "path_is_file p = bindR (path_exists p) (\<lambda>b. getsR (\<lambda>w. b \<and> files w p \<noteq> None))"

text \<open>\<open>Path::read_link\<close>, and whether \<open>symlink_metadata\<close> says "symbolic link".\<close>

definition fs_read_link :: "string \<Rightarrow> string io" where
  "fs_read_link p = thenR (io_sys (FsReadLink p)) (bindR (getsR (\<lambda>w. link w p))
     (\<lambda>l. case l of None \<Rightarrow> throw (Io EINVAL) | Some q \<Rightarrow> ret q))"

definition fs_is_symlink :: "string \<Rightarrow> bool io" where
  "fs_is_symlink p = thenR (io_sys (SysLstat p)) (getsR (\<lambda>w. link w p \<noteq> None))"

section \<open>Frame: what no call changes\<close>

definition grows :: "world \<Rightarrow> world \<Rightarrow> bool" where
  "grows w w' \<longleftrightarrow> (\<exists>h. hist w' = hist w @ h) \<and> kernel w' = kernel w \<and> listing w' = listing w
     \<and> canon w' = canon w \<and> link w' = link w \<and> st_mode w' = st_mode w \<and> st_dev w' = st_dev w"

lemma grows_refl [simp]: "grows w w"
  by (simp add: grows_def)

lemma grows_trans: "grows a b \<Longrightarrow> grows b c \<Longrightarrow> grows a c"
  by (auto simp: grows_def)

lemma reflp_grows [simp]: "reflp grows"
  by (simp add: reflp_def)

lemma transp_grows [simp]: "transp grows"
  by (meson grows_trans transpI)

lemma sys_with_keeps: "keeps grows (sys_with mk p)"
  by (rule keepsI) (auto simp: sys_with_def grows_def Let_def split: sum.splits)

lemma io_sys_keeps: "keeps grows (io_sys p)" and nix_sys_keeps: "keeps grows (nix_sys p)"
  by (simp_all add: io_sys_def nix_sys_def sys_with_keeps)

lemma modify_files_keeps:
  "keeps grows (modifyR (\<lambda>w. w\<lparr>files := f w\<rparr>))"
  "keeps grows (modifyR (\<lambda>w. w\<lparr>is_dir := g w\<rparr>))"
  "keeps grows (modifyR (\<lambda>w. w\<lparr>is_dir := g w, files := f w\<rparr>))"
  by (auto simp: keeps_def grows_def)

lemma nix_do_keeps: "keeps grows (nix_do p)"
  unfolding nix_do_def by (intro keeps_then keeps_ret nix_sys_keeps) simp_all

lemma fs_write_keeps: "keeps grows (fs_write p c)"
  unfolding fs_write_def by (intro keeps_then io_sys_keeps modify_files_keeps) simp_all

lemma fs_read_keeps: "keeps grows (fs_read p)"
  unfolding fs_read_def
  by (intro keeps_then keeps_bind io_sys_keeps keeps_gets)
    (auto split: option.split intro: keeps_throw keeps_ret simp del: act_basic)

lemma fs_create_dir_all_keeps: "keeps grows (fs_create_dir_all p)"
  unfolding fs_create_dir_all_def
  by (auto simp del: act_basic intro!: keeps_then keeps_ret io_sys_keeps modify_files_keeps)

lemma fs_remove_dir_all_keeps: "keeps grows (fs_remove_dir_all p)"
  unfolding fs_remove_dir_all_def by (intro keeps_then io_sys_keeps modify_files_keeps) simp_all

lemmas sys_keeps = io_sys_keeps nix_sys_keeps nix_do_keeps fs_write_keeps fs_read_keeps
  fs_create_dir_all_keeps fs_remove_dir_all_keeps

section \<open>Outcomes of the calls\<close>

lemma sys_with_cases:
  obtains (err) e where "kernel w (hist w) p = Inl e"
      "sys_with mk p w = (Err (mk e), w\<lparr>hist := hist w @ [p]\<rparr>)"
  | (ok) v where "kernel w (hist w) p = Inr v"
      "sys_with mk p w = (Ok v, w\<lparr>hist := hist w @ [p]\<rparr>)"
  by (cases "kernel w (hist w) p") (simp_all add: sys_with_def Let_def)

lemma fs_write_cases:
  obtains (err) e where "kernel w (hist w) (FsWrite p c) = Inl e"
      "fs_write p c w = (Err (Io e), w\<lparr>hist := hist w @ [FsWrite p c]\<rparr>)"
  | (ok) v where "kernel w (hist w) (FsWrite p c) = Inr v"
      "fs_write p c w = (Ok (), w\<lparr>hist := hist w @ [FsWrite p c], files := (files w)(p \<mapsto> c)\<rparr>)"
  by (cases "kernel w (hist w) (FsWrite p c)")
    (simp_all add: fs_write_def io_sys_def sys_with_def thenR_def bindR_def Let_def)

lemma fs_read_cases:
  obtains (err) e where "kernel w (hist w) (FsRead p) = Inl e"
      "fs_read p w = (Err (Io e), w\<lparr>hist := hist w @ [FsRead p]\<rparr>)"
  | (missing) v where "kernel w (hist w) (FsRead p) = Inr v" "files w p = None"
      "fs_read p w = (Err (Io ENOENT), w\<lparr>hist := hist w @ [FsRead p]\<rparr>)"
  | (ok) v c where "kernel w (hist w) (FsRead p) = Inr v" "files w p = Some c"
      "fs_read p w = (Ok c, w\<lparr>hist := hist w @ [FsRead p]\<rparr>)"
  by (cases "kernel w (hist w) (FsRead p)"; cases "files w p")
    (simp_all add: fs_read_def io_sys_def sys_with_def thenR_def bindR_def Let_def)

section \<open>The calls a run may make\<close>

text \<open>
  \<open>only P w w'\<close>: from \<open>w\<close> to \<open>w'\<close> every call satisfied \<open>P\<close> (and the fixed answers are the same).
  An action that keeps \<open>only P\<close> makes no other call, whether it succeeds or fails.
\<close>

definition only :: "(sysop \<Rightarrow> bool) \<Rightarrow> world \<Rightarrow> world \<Rightarrow> bool" where
  "only P w w' \<longleftrightarrow> grows w w' \<and> (\<exists>h. hist w' = hist w @ h \<and> list_all P h)"

lemma reflp_only [simp]: "reflp (only P)"
  by (simp add: reflp_def only_def)

lemma transp_only [simp]: "transp (only P)"
  by (rule transpI) (auto simp: only_def intro: grows_trans)

lemma only_mono: "(\<And>p. P p \<Longrightarrow> Q p) \<Longrightarrow> only P w w' \<Longrightarrow> only Q w w'"
  by (auto simp: only_def list_all_iff)

lemma keeps_mono: "(\<And>w w'. R w w' \<Longrightarrow> Q w w') \<Longrightarrow> keeps R m \<Longrightarrow> keeps Q m"
  by (simp add: keeps_def)

lemma only_sys_with: "P p \<Longrightarrow> keeps (only P) (sys_with mk p)"
  by (rule keepsI) (auto simp: only_def sys_with_def grows_def Let_def split: sum.splits)

lemma only_io: "P p \<Longrightarrow> keeps (only P) (io_sys p)"
  and only_nix: "P p \<Longrightarrow> keeps (only P) (nix_sys p)"
  by (simp_all add: io_sys_def nix_sys_def only_sys_with)

lemma only_nix_do: "P p \<Longrightarrow> keeps (only P) (nix_do p)"
  unfolding nix_do_def by (intro keeps_then keeps_ret only_nix) simp_all

lemma only_chdir: "P (SysChdir p) \<Longrightarrow> keeps (only P) (nix_chdir p)"
  unfolding nix_chdir_def
  by (intro keeps_then only_nix_do) (simp_all, auto simp: keeps_def only_def grows_def)

lemma only_getcwd: "P (SysProc SysGetcwd) \<Longrightarrow> keeps (only P) nix_getcwd"
  unfolding nix_getcwd_def by (intro keeps_then keeps_gets only_nix_do) simp_all

lemma only_umask: "P (SysProc (SysUmask m)) \<Longrightarrow> keeps (only P) (nix_umask m)"
  by (rule keepsI) (auto simp: nix_umask_def only_def grows_def)

lemma only_mkdir: "P (FsMkdirAll p) \<Longrightarrow> keeps (only P) (fs_create_dir_all p)"
  unfolding fs_create_dir_all_def
  by (auto intro!: keeps_then keeps_ret only_io simp del: act_basic) (auto simp: keeps_def only_def grows_def)

lemma only_canonicalize: "P (FsCanonicalize p) \<Longrightarrow> keeps (only P) (fs_canonicalize p)"
  unfolding fs_canonicalize_def by (intro keeps_then keeps_gets only_io) simp_all

lemma only_exists: "P (SysStat p) \<Longrightarrow> keeps (only P) (path_exists p)"
proof (rule keepsI)
  fix w r w' assume P: "P (SysStat p)" and run: "path_exists p w = (r, w')"
  obtain q u where u: "io_sys (SysStat p) w = (q, u)" by fastforce
  with run have "w' = u" by (cases q) (auto simp: path_exists_def)
  with keepsD [OF only_io [of P, OF P] u] show "only P w w'" by simp
qed

lemma only_is_file: "P (SysStat p) \<Longrightarrow> keeps (only P) (path_is_file p)"
  unfolding path_is_file_def by (intro keeps_bind keeps_gets only_exists) simp_all

lemmas only_intros = only_nix only_io only_nix_do only_chdir only_getcwd only_umask only_mkdir
  only_canonicalize only_exists only_is_file

section \<open>The calls of a successful run\<close>

text \<open>\<open>calls ps m\<close>: whenever \<open>m\<close> succeeds it has made exactly the calls \<open>ps\<close>, in this order.\<close>

definition calls :: "sysop list \<Rightarrow> 'a io \<Rightarrow> bool" where
  "calls ps m \<longleftrightarrow> (\<forall>w x w'. m w = (Ok x, w') \<longrightarrow> hist w' = hist w @ ps)"

lemma callsI: "(\<And>w x w'. m w = (Ok x, w') \<Longrightarrow> hist w' = hist w @ ps) \<Longrightarrow> calls ps m"
  by (simp add: calls_def)

lemma callsD: "calls ps m \<Longrightarrow> m w = (Ok x, w') \<Longrightarrow> hist w' = hist w @ ps"
  by (simp add: calls_def)

lemma calls_ret: "calls [] (ret x)"
  and calls_gets: "calls [] (getsR f)"
  and calls_throw: "calls ps (throw e)"
  and calls_panic: "calls ps panicR"
  and calls_hang: "calls ps hangR"
  by (simp_all add: calls_def)

lemma calls_bind: "calls ps m \<Longrightarrow> (\<And>x. calls qs (f x)) \<Longrightarrow> calls (ps @ qs) (bindR m f)"
  unfolding calls_def by (fastforce simp: bindR_Ok_iff)

lemma calls_then: "calls ps m \<Longrightarrow> calls qs k \<Longrightarrow> calls (ps @ qs) (thenR m k)"
  by (simp add: thenR_def calls_bind)

lemma calls_sys_with: "calls [p] (sys_with mk p)"
  by (rule callsI) (auto simp: sys_with_def Let_def split: sum.splits)

lemma calls_nix_do: "calls [p] (nix_do p)"
  unfolding nix_do_def nix_sys_def using calls_then [OF calls_sys_with calls_ret] by auto

lemma calls_when: "calls ps m \<Longrightarrow> calls (if b then ps else []) (whenR b m)"
  by (cases b) (simp_all add: calls_ret del: act_basic)

lemma calls_for_each: "(\<And>x. calls (f x) (m x)) \<Longrightarrow> calls (concat (map f xs)) (for_each xs m)"
  by (induction xs) (auto simp: calls_ret simp del: act_basic intro: calls_then)

text \<open>A call whose failure is ignored is made all the same.\<close>

lemma calls_ignore_sys: "calls [p] (ignoreR (thenR (sys_with mk p) (ret ())))"
  by (rule callsI) (auto simp: ignoreR_def thenR_def bindR_def sys_with_def Let_def split: sum.splits)

lemma calls_ignore_nix: "calls [p] (ignoreR (nix_do p))"
  unfolding nix_do_def nix_sys_def by (rule calls_ignore_sys)

lemma calls_cong: "calls ps m \<Longrightarrow> ps = qs \<Longrightarrow> calls qs m"
  by simp

section \<open>The contract of a file store\<close>

text \<open>
  What the cgroup and storage code relies on: a write that succeeds is what a later read of the
  same path returns, other paths keep their contents, and a failed call changes no file.
\<close>

locale file_store =
  fixes wr :: "string \<Rightarrow> string \<Rightarrow> ('s, unit) act"
    and rd :: "string \<Rightarrow> ('s, string) act"
    and look :: "'s \<Rightarrow> string \<Rightarrow> string option"
  assumes wr_ok: "wr p c s = (Ok (), t) \<Longrightarrow> look t = (look s)(p \<mapsto> c)"
    and wr_err: "wr p c s = (Err e, t) \<Longrightarrow> look t = look s"
    and wr_returns: "wr p c s \<noteq> (Panic, t) \<and> wr p c s \<noteq> (Hang, t) \<and> wr p c s \<noteq> (Undefined, t)"
    and rd_ok: "rd p s = (Ok c, t) \<Longrightarrow> look s p = Some c \<and> look t = look s"
    and rd_err: "rd p s = (Err e, t) \<Longrightarrow> look t = look s"
    and rd_returns: "rd p s \<noteq> (Panic, t) \<and> rd p s \<noteq> (Hang, t) \<and> rd p s \<noteq> (Undefined, t)"
begin

text \<open>A run of writes leaves the last value written to each path.\<close>

lemma writes_look:
  "for_each pcs (\<lambda>(p, c). wr p c) s = (Ok (), t) \<Longrightarrow> look t = (look s) ++ map_of (rev pcs)"
proof (induction pcs arbitrary: s)
  case (Cons pc pcs)
  obtain p c where pc: "pc = (p, c)" by fastforce
  from Cons.prems pc obtain u where
    w: "wr p c s = (Ok (), u)" and rest: "for_each pcs (\<lambda>(p, c). wr p c) u = (Ok (), t)"
    by (auto simp: thenR_Ok_iff)
  from wr_ok [OF w] Cons.IH [OF rest] pc show ?case
    by (simp add: map_add_def fun_eq_iff split: option.split)
qed simp

lemma write_then_read:
  "wr p c s = (Ok (), t) \<Longrightarrow> rd p t = (Ok d, u) \<Longrightarrow> d = c"
  using wr_ok rd_ok by fastforce

lemma wr_outcome: "wr p c s = (r, t) \<Longrightarrow> look t = look s \<or> look t = (look s)(p \<mapsto> c)"
  using wr_ok wr_err wr_returns by (cases r) auto

end

interpretation fs: file_store fs_write fs_read files
proof
  fix p c s t assume "fs_write p c s = (Ok (), t)"
  then show "files t = (files s)(p \<mapsto> c)" by (cases rule: fs_write_cases [of s p c]) auto
next
  fix p c s e t assume "fs_write p c s = (Err e, t)"
  then show "files t = files s" by (cases rule: fs_write_cases [of s p c]) auto
next
  fix p c s t show "fs_write p c s \<noteq> (Panic, t) \<and> fs_write p c s \<noteq> (Hang, t) \<and> fs_write p c s \<noteq> (Undefined, t)"
    by (cases rule: fs_write_cases [of s p c]) auto
next
  fix p s c t assume "fs_read p s = (Ok c, t)"
  then show "files s p = Some c \<and> files t = files s"
    by (cases rule: fs_read_cases [of s p]) auto
next
  fix p s e t assume "fs_read p s = (Err e, t)"
  then show "files t = files s" by (cases rule: fs_read_cases [of s p]) auto
next
  fix p s t show "fs_read p s \<noteq> (Panic, t) \<and> fs_read p s \<noteq> (Hang, t) \<and> fs_read p s \<noteq> (Undefined, t)"
    by (cases rule: fs_read_cases [of s p]) auto
qed

end
