(* ===== verification/Oci_Types.thy ===== *)
theory Oci_Types
  imports Text
begin

text \<open>
  The OCI specification as the agent receives it over gRPC: one record per message of
  \<open>protocols/src/oci.rs\<close>, in the order the messages depend on each other, with the message's
  field names behind a two-letter prefix. A \<open>SingularPtrField\<close> is an option, a
  \<open>RepeatedField\<close> a list, a \<open>HashMap\<close> that the code iterates an association list in
  iteration order; an \<open>i64\<close> is an \<open>int\<close> (the code only compares, prints and casts it).
  The serialisation bookkeeping (\<open>unknown_fields\<close>, \<open>cached_size\<close>) and the
  Solaris and Windows parts, which the agent never reads, are left out.
\<close>

type_synonym i64 = int
type_synonym i32 = int

record g_Box =
  bx_Height :: u32
  bx_Width :: u32

record g_User =
  us_UID :: u32
  us_GID :: u32
  us_AdditionalGids :: "u32 list"
  us_Username :: string

record g_LinuxCapabilities =
  lc_Bounding :: "string list"
  lc_Effective :: "string list"
  lc_Inheritable :: "string list"
  lc_Permitted :: "string list"
  lc_Ambient :: "string list"

record g_POSIXRlimit =
  rl_Type :: string
  rl_Hard :: u64
  rl_Soft :: u64

record g_Process =
  pr_Terminal :: bool
  pr_ConsoleSize :: "g_Box option"
  pr_User :: "g_User option"
  pr_Args :: "string list"
  pr_Env :: "string list"
  pr_Cwd :: string
  pr_Capabilities :: "g_LinuxCapabilities option"
  pr_Rlimits :: "g_POSIXRlimit list"
  pr_NoNewPrivileges :: bool
  pr_ApparmorProfile :: string
  pr_OOMScoreAdj :: i64
  pr_SelinuxLabel :: string

record g_Mount =
  mt_destination :: string
  mt_source :: string
  mt_field_type :: string
  mt_options :: "string list"

record g_Root =
  rt_Path :: string
  rt_Readonly :: bool

record g_Hook =
  hk_Path :: string
  hk_Args :: "string list"
  hk_Env :: "string list"
  hk_Timeout :: i64

record g_Hooks =
  hs_Prestart :: "g_Hook list"
  hs_Poststart :: "g_Hook list"
  hs_Poststop :: "g_Hook list"

record g_LinuxIDMapping =
  im_HostID :: u32
  im_ContainerID :: u32
  im_Size :: u32

record g_LinuxNamespace =
  ns_Type :: string
  ns_Path :: string

record g_LinuxDevice =
  ld_Path :: string
  ld_Type :: string
  ld_Major :: i64
  ld_Minor :: i64
  ld_FileMode :: u32
  ld_UID :: u32
  ld_GID :: u32

record g_LinuxMemory =
  me_Limit :: i64
  me_Reservation :: i64
  me_Swap :: i64
  me_Kernel :: i64
  me_KernelTCP :: i64
  me_Swappiness :: u64
  me_DisableOOMKiller :: bool

record g_LinuxCPU =
  cu_Shares :: u64
  cu_Quota :: i64
  cu_Period :: u64
  cu_RealtimeRuntime :: i64
  cu_RealtimePeriod :: u64
  cu_Cpus :: string
  cu_Mems :: string

record g_LinuxWeightDevice =
  wd_Major :: i64
  wd_Minor :: i64
  wd_Weight :: u32
  wd_LeafWeight :: u32

record g_LinuxThrottleDevice =
  td_Major :: i64
  td_Minor :: i64
  td_Rate :: u64

record g_LinuxBlockIO =
  bl_Weight :: u32
  bl_LeafWeight :: u32
  bl_WeightDevice :: "g_LinuxWeightDevice list"
  bl_ThrottleReadBpsDevice :: "g_LinuxThrottleDevice list"
  bl_ThrottleWriteBpsDevice :: "g_LinuxThrottleDevice list"
  bl_ThrottleReadIOPSDevice :: "g_LinuxThrottleDevice list"
  bl_ThrottleWriteIOPSDevice :: "g_LinuxThrottleDevice list"

record g_LinuxPids =
  pd_Limit :: i64

record g_LinuxDeviceCgroup =
  dc_Allow :: bool
  dc_Type :: string
  dc_Major :: i64
  dc_Minor :: i64
  dc_Access :: string

record g_LinuxInterfacePriority =
  ip_Name :: string
  ip_Priority :: u32

record g_LinuxNetwork =
  nw_ClassID :: u32
  nw_Priorities :: "g_LinuxInterfacePriority list"

record g_LinuxHugepageLimit =
  hl_Pagesize :: string
  hl_Limit :: u64

record g_LinuxResources =
  rs_Devices :: "g_LinuxDeviceCgroup list"
  rs_Memory :: "g_LinuxMemory option"
  rs_CPU :: "g_LinuxCPU option"
  rs_Pids :: "g_LinuxPids option"
  rs_BlockIO :: "g_LinuxBlockIO option"
  rs_HugepageLimits :: "g_LinuxHugepageLimit list"
  rs_Network :: "g_LinuxNetwork option"

record g_LinuxSeccompArg =
  sa_Index :: u64
  sa_Value :: u64
  sa_ValueTwo :: u64
  sa_Op :: string

record g_LinuxSyscall =
  sy_Names :: "string list"
  sy_Action :: string
  sy_Args :: "g_LinuxSeccompArg list"

record g_LinuxSeccomp =
  se_DefaultAction :: string
  se_Architectures :: "string list"
  se_Syscalls :: "g_LinuxSyscall list"

record g_LinuxIntelRdt =
  ir_L3CacheSchema :: string

record g_Linux =
  lx_UIDMappings :: "g_LinuxIDMapping list"
  lx_GIDMappings :: "g_LinuxIDMapping list"
  lx_Sysctl :: "(string \<times> string) list"
  lx_Resources :: "g_LinuxResources option"
  lx_CgroupsPath :: string
  lx_Namespaces :: "g_LinuxNamespace list"
  lx_Devices :: "g_LinuxDevice list"
  lx_Seccomp :: "g_LinuxSeccomp option"
  lx_RootfsPropagation :: string
  lx_MaskedPaths :: "string list"
  lx_ReadonlyPaths :: "string list"
  lx_MountLabel :: string
  lx_IntelRdt :: "g_LinuxIntelRdt option"

record g_Spec =
  sp_Version :: string
  sp_Process :: "g_Process option"
  sp_Root :: "g_Root option"
  sp_Hostname :: string
  sp_Mounts :: "g_Mount list"
  sp_Hooks :: "g_Hooks option"
  sp_Annotations :: "(string \<times> string) list"
  sp_Linux :: "g_Linux option"

end
