(* ===== verification/State.thy ===== *)
theory State
  imports Sys Oci_Types
begin

text \<open>
  The records of the agent's state: the cgroup manager, a process, a container, the sandbox that
  holds them (\<open>src/sandbox.rs\<close>), and the \<open>agent\<close>: the sandbox with the operating system below it.
  Loggers and the channel to the shutdown thread are left out. A \<open>HashMap\<close> that is iterated over is
  an association list.
\<close>

section \<open>Containers\<close>

record Manager =
  m_paths :: "(string \<times> string) list"
  m_mounts :: "(string \<times> string) list"
  m_rels :: "(string \<times> string) list"
  m_cpath :: string

text \<open>File descriptors are integers; \<open>None\<close> is a descriptor that is not there.\<close>

record Process =
  exec_id :: string
  p_stdin :: "int option"
  p_stdout :: "int option"
  p_stderr :: "int option"
  exit_pipe_r :: "int option"
  exit_pipe_w :: "int option"
  console_socket :: "int option"
  term_master :: "int option"
  parent_console_socket :: "int option"
  parent_stdin :: "int option"
  parent_stdout :: "int option"
  parent_stderr :: "int option"
  p_init :: bool
  p_pid :: int
  exit_code :: int
  p_oci :: g_Process

record CreateOpts =
  cgroup_name :: string
  use_systemd_cgroup :: bool
  no_pivot_root :: bool
  no_new_keyring :: bool
  co_spec :: "g_Spec option"
  rootless_euid :: bool
  rootless_cgroup :: bool

record LinuxContainer =
  c_id :: string
  c_root :: string
  c_config :: CreateOpts
  cgroup_manager :: "Manager option"
  init_process_pid :: int
  init_process_start_time :: u64
  uid_map_path :: string
  gid_map_path :: string
  c_processes :: "(int \<times> Process) list"
  c_status :: "string option"

section \<open>The sandbox and the agent\<close>

record Sandbox =
  sb_id :: string
  sb_hostname :: string
  sb_containers :: "(string \<times> LinuxContainer) list"
  sb_mounts :: "string list"
  sb_container_mounts :: "(string \<times> string list) list"
  sb_pci_device_map :: "(string \<times> string) list"
  sb_shared_utsns :: string
  sb_shared_ipcns :: string
  sb_storages :: "string \<Rightarrow> u32 option"
  sb_running :: bool
  sb_no_pivot_root :: bool
  sb_sandbox_pid_ns :: bool

text \<open>
  \<open>ag_hotplug\<close> is what the hotplug thread delivers to a watcher of a device address before its
  timeout: the device path and the device name, or nothing. \<open>ag_lock\<close> is the mutex of the sandbox
  between two operations: a thread that panics while it holds the lock poisons it, and
  \<open>lock().unwrap()\<close> panics from then on; a thread that never returns holds it for ever.
\<close>

datatype lock = Free | Poisoned | Held

record agent =
  ag_sandbox :: Sandbox
  ag_world :: world
  ag_hotplug :: "string \<Rightarrow> (string \<times> string) option"
  ag_lock :: lock

type_synonym 'a ag = "(agent, 'a) act"

text \<open>An operation on the operating system alone, and one on the sandbox alone.\<close>

definition os :: "'a io \<Rightarrow> 'a ag" where
  "os m = (\<lambda>s. case m (ag_world s) of (r, w) \<Rightarrow> (r, s\<lparr>ag_world := w\<rparr>))"

text \<open>The scope of a \<open>lock().unwrap()\<close>, and the two short ones: read a field, change a field.\<close>

definition locked :: "'a ag \<Rightarrow> 'a ag" where
  "locked m = (\<lambda>s. case ag_lock s of Poisoned \<Rightarrow> (Panic, s) | Held \<Rightarrow> (Hang, s)
     | Free \<Rightarrow> (case m s of (Panic, t) \<Rightarrow> (Panic, t\<lparr>ag_lock := Poisoned\<rparr>)
         | (Hang, t) \<Rightarrow> (Hang, t\<lparr>ag_lock := Held\<rparr>) | r \<Rightarrow> r))"

definition sb_get :: "(Sandbox \<Rightarrow> 'a) \<Rightarrow> 'a ag" where
  "sb_get f = locked (getsR (\<lambda>s. f (ag_sandbox s)))"

definition sb_mod :: "(Sandbox \<Rightarrow> Sandbox) \<Rightarrow> unit ag" where
  "sb_mod f = locked (modifyR (\<lambda>s. s\<lparr>ag_sandbox := f (ag_sandbox s)\<rparr>))"

lemma os_step [act_simps, simp]: "m (ag_world s) = (r, w) \<Longrightarrow> os m s = (r, s\<lparr>ag_world := w\<rparr>)"
  by (simp add: os_def)

lemma locked_steps [act_simps, simp]:
  "ag_lock s = Poisoned \<Longrightarrow> locked m s = (Panic, s)"
  "ag_lock s = Held \<Longrightarrow> locked m s = (Hang, s)"
  "ag_lock s = Free \<Longrightarrow> m s = (Ok x, t) \<Longrightarrow> locked m s = (Ok x, t)"
  "ag_lock s = Free \<Longrightarrow> m s = (Err e, t) \<Longrightarrow> locked m s = (Err e, t)"
  "ag_lock s = Free \<Longrightarrow> m s = (Panic, t) \<Longrightarrow> locked m s = (Panic, t\<lparr>ag_lock := Poisoned\<rparr>)"
  "ag_lock s = Free \<Longrightarrow> m s = (Hang, t) \<Longrightarrow> locked m s = (Hang, t\<lparr>ag_lock := Held\<rparr>)"
  "ag_lock s = Free \<Longrightarrow> m s = (Undefined, t) \<Longrightarrow> locked m s = (Undefined, t)"
  by (simp_all add: locked_def)

lemma sb_steps [act_simps, simp]:
  "ag_lock s = Free \<Longrightarrow> sb_get f s = (Ok (f (ag_sandbox s)), s)"
  "ag_lock s = Free \<Longrightarrow> sb_mod g s = (Ok (), s\<lparr>ag_sandbox := g (ag_sandbox s)\<rparr>)"
  by (simp_all add: sb_get_def sb_mod_def)

lemma os_keeps_sandbox: "os m s = (r, t) \<Longrightarrow> ag_sandbox t = ag_sandbox s \<and> ag_hotplug t = ag_hotplug s"
  by (auto simp: os_def split: prod.splits)

definition empty_sandbox :: Sandbox where
  "empty_sandbox = \<lparr>sb_id = [], sb_hostname = [], sb_containers = [], sb_mounts = [],
     sb_container_mounts = [], sb_pci_device_map = [], sb_shared_utsns = [], sb_shared_ipcns = [],
     sb_storages = Map.empty, sb_running = False, sb_no_pivot_root = False, sb_sandbox_pid_ns = False\<rparr>"

definition quiet_agent :: agent where
  "quiet_agent = \<lparr>ag_sandbox = empty_sandbox, ag_world = quiet, ag_hotplug = Map.empty,
     ag_lock = Free\<rparr>"

end
