(* ===== verification/Device.thy ===== *)
theory Device
  imports State
begin

text \<open>
  \<open>src/device.rs\<close>: finding a hot-plugged device by its PCI or SCSI address and writing its numbers
  into the OCI specification. Waiting for the hotplug thread is one step here: \<open>ag_hotplug\<close> says
  what it delivers in time. The interleaving of waiters with the thread is the subject of
  \<open>Hotplug\<close>. Messages of errors keep their constant part.
\<close>

section \<open>Addresses\<close>

definition ROOT_BUS_PATH :: string where
  "ROOT_BUS_PATH = ''/devices/pci0000:00''"

definition online_device :: "string \<Rightarrow> unit io" where
  "online_device path = fs_write path ''1''"

definition rescan_pci_bus :: "unit io" where
  "rescan_pci_bus = online_device ''/sys/bus/pci/rescan''"

text \<open>\<open>read_dir(..).unwrap()\<close> panics when the directory cannot be read.\<close>

definition get_device_pci_address :: "string \<Rightarrow> string io" where
  "get_device_pci_address pci_id = (case split_on CHR ''/'' pci_id of
     [bridge_id, device_id] \<Rightarrow>
       (let pci_bridge_addr = ''0000:00:'' @ bridge_id @ ''.0'';
            bridge_bus_path = ''/sys/bus/pci/devices/'' @ pci_bridge_addr @ ''/pci_bus/''
        in bindR (catchR (fs_read_dir bridge_bus_path) (\<lambda>_. panicR)) (\<lambda>buses. case buses of
             [bus] \<Rightarrow> ret (pci_bridge_addr @ ''/'' @ bus @ '':'' @ device_id @ ''.0'')
           | _ \<Rightarrow> throw (ErrorCode ''Expected an entry for bus'')))
   | _ \<Rightarrow> throw (ErrorCode ''PCI Identifier for device should be of format [bridgeAddr/deviceAddr]''))"

definition scan_scsi_bus :: "string \<Rightarrow> unit io" where
  "scan_scsi_bus scsi_addr = (case split_on CHR '':'' scsi_addr of
     [scsi_id, lun] \<Rightarrow> bindR (fs_read_dir ''/sys/class/scsi_host'') (\<lambda>hosts.
       for_each hosts (\<lambda>host. fs_write (''/sys/class/scsi_host/'' @ host @ ''/scan'')
         (''0 '' @ scsi_id @ '' '' @ lun)))
   | _ \<Rightarrow> throw (Msg ''Unexpected format for SCSI Address''))"

section \<open>Device names\<close>

text \<open>The first entry of the device map whose path contains the address.\<close>

definition find_device :: "(string \<times> string) list \<Rightarrow> string \<Rightarrow> string" where
  "find_device m dev_addr = (case find (\<lambda>(key, _). contains dev_addr key) m of
     None \<Rightarrow> [] | Some (_, v) \<Rightarrow> v)"

definition get_device_name :: "string \<Rightarrow> string ag" where
  "get_device_name dev_addr = bindR (sb_get (\<lambda>sb. find_device (sb_pci_device_map sb) dev_addr)) (\<lambda>name.
     if name \<noteq> [] then ret (''/dev/'' @ name)
     else bindR (getsR (\<lambda>s. ag_hotplug s dev_addr)) (\<lambda>ev. case ev of
        None \<Rightarrow> throw (ErrorCode ''Timeout reached waiting for device'')
      | Some (devpath, devname) \<Rightarrow>
          thenR (sb_mod (\<lambda>sb. sb\<lparr>sb_pci_device_map := AList.update devpath devname (sb_pci_device_map sb)\<rparr>))
            (ret (''/dev/'' @ devname))))"

definition scsi_sub_path :: "string \<Rightarrow> string" where
  "scsi_sub_path scsi_addr = ''0:0:'' @ scsi_addr @ ''/block''"

definition get_scsi_device_name :: "string \<Rightarrow> string ag" where
  "get_scsi_device_name scsi_addr = thenR (os (scan_scsi_bus scsi_addr))
     (get_device_name (scsi_sub_path scsi_addr))"

definition get_pci_device_name :: "string \<Rightarrow> string ag" where
  "get_pci_device_name pci_id = bindR (os (get_device_pci_address pci_id))
     (\<lambda>pci_addr. thenR (os rescan_pci_bus) (get_device_name pci_addr))"

section \<open>The device list of the specification\<close>

record device =
  dv_id :: string
  dv_type :: string
  dv_vm_path :: string
  dv_container_path :: string
  dv_options :: "string list"

text \<open>
  The two nested loops: each listed device with the container path gets the guest's numbers, and
  every cgroup rule that has, at that moment, the device's old numbers gets them too.
\<close>

definition retarget :: "i64 \<times> i64 \<Rightarrow> i64 \<times> i64 \<Rightarrow> g_LinuxDeviceCgroup \<Rightarrow> g_LinuxDeviceCgroup" where
  "retarget host guest d = (if dc_Major d = fst host \<and> dc_Minor d = snd host
     then d\<lparr>dc_Major := fst guest, dc_Minor := snd guest\<rparr> else d)"

fun update_devices :: "string \<Rightarrow> i64 \<times> i64 \<Rightarrow> g_LinuxDevice list \<Rightarrow> g_LinuxDeviceCgroup list
    \<Rightarrow> g_LinuxDevice list \<times> g_LinuxDeviceCgroup list" where
  "update_devices path guest [] rules = ([], rules)"
| "update_devices path guest (dev # devs) rules =
     (if ld_Path dev = path then
        (let rules' = map (retarget (ld_Major dev, ld_Minor dev) guest) rules;
             (devs', rules'') = update_devices path guest devs rules'
         in (dev\<lparr>ld_Major := fst guest, ld_Minor := snd guest\<rparr> # devs', rules''))
      else (let (devs', rules') = update_devices path guest devs rules in (dev # devs', rules')))"

definition update_linux_devices :: "string \<Rightarrow> i64 \<times> i64 \<Rightarrow> g_Linux \<Rightarrow> g_Linux" where
  "update_linux_devices path guest linux = (case lx_Resources linux of
     None \<Rightarrow> linux\<lparr>lx_Devices := fst (update_devices path guest (lx_Devices linux) [])\<rparr>
   | Some res \<Rightarrow>
       (let (devs, rules) = update_devices path guest (lx_Devices linux) (rs_Devices res)
        in linux\<lparr>lx_Devices := devs, lx_Resources := Some (res\<lparr>rs_Devices := rules\<rparr>)\<rparr>))"

definition update_spec_device_list :: "device \<Rightarrow> g_Spec \<Rightarrow> g_Spec io" where
  "update_spec_device_list device spec =
     (if dv_container_path device = [] then throw (Msg ''container_path  cannot empty for device'')
      else case sp_Linux spec of
        None \<Rightarrow> throw (ErrorCode ''Spec didn't container linux field'')
      | Some linux \<Rightarrow> bindR (path_exists (dv_vm_path device)) (\<lambda>ex.
          if \<not> ex then throw (Msg ''vm_path doesn't exist'')
          else bindR (fs_metadata st_dev (dv_vm_path device)) (\<lambda>(maj, mnr).
            ret (spec\<lparr>sp_Linux := Some
              (update_linux_devices (dv_container_path device) (uint maj, uint mnr) linux)\<rparr>))))"

section \<open>The handlers\<close>

definition virtiommio_blk_device_handler :: "device \<Rightarrow> g_Spec \<Rightarrow> g_Spec ag" where
  "virtiommio_blk_device_handler device spec =
     (if dv_vm_path device = [] then throw (Msg ''Invalid path for virtiommioblkdevice'')
      else os (update_spec_device_list device spec))"

definition virtio_blk_device_handler :: "device \<Rightarrow> g_Spec \<Rightarrow> g_Spec ag" where
  "virtio_blk_device_handler device spec = bindR (get_pci_device_name (dv_id device))
     (\<lambda>p. os (update_spec_device_list (device\<lparr>dv_vm_path := p\<rparr>) spec))"

definition virtio_scsi_device_handler :: "device \<Rightarrow> g_Spec \<Rightarrow> g_Spec ag" where
  "virtio_scsi_device_handler device spec = bindR (get_scsi_device_name (dv_id device))
     (\<lambda>p. os (update_spec_device_list (device\<lparr>dv_vm_path := p\<rparr>) spec))"

definition virtio_nvdimm_device_handler :: "device \<Rightarrow> g_Spec \<Rightarrow> g_Spec ag" where
  "virtio_nvdimm_device_handler device spec = os (update_spec_device_list device spec)"

definition DEVICEHANDLERLIST :: "string \<Rightarrow> (device \<Rightarrow> g_Spec \<Rightarrow> g_Spec ag) option" where
  "DEVICEHANDLERLIST = [''blk'' \<mapsto> virtio_blk_device_handler,
     ''mmioblk'' \<mapsto> virtiommio_blk_device_handler, ''nvdimm'' \<mapsto> virtio_nvdimm_device_handler,
     ''scsi'' \<mapsto> virtio_scsi_device_handler]"

definition add_device :: "device \<Rightarrow> g_Spec \<Rightarrow> g_Spec ag" where
  "add_device device spec =
     (if dv_type device = [] then throw (Msg ''invalid type for device'')
      else if dv_id device = [] \<and> dv_vm_path device = [] then throw (Msg ''invalid ID and VM path for device'')
      else if dv_container_path device = [] then throw (Msg ''invalid container path for device'')
      else case DEVICEHANDLERLIST (dv_type device) of
        None \<Rightarrow> throw (Msg ''Unknown device type'')
      | Some handler \<Rightarrow> handler device spec)"

primrec add_devices :: "device list \<Rightarrow> g_Spec \<Rightarrow> g_Spec ag" where
  "add_devices [] spec = ret spec"
| "add_devices (d # ds) spec = bindR (add_device d spec) (add_devices ds)"

section \<open>Several devices\<close>

text \<open>The updates that \<open>add_devices\<close> makes to the two lists, device after device.\<close>

definition update_all :: "(string \<times> i64 \<times> i64) list \<Rightarrow> g_LinuxDevice list \<times> g_LinuxDeviceCgroup list
    \<Rightarrow> g_LinuxDevice list \<times> g_LinuxDeviceCgroup list" where
  "update_all ups dr = fold (\<lambda>(path, guest) (devs, rules). update_devices path guest devs rules) ups dr"

definition renumber :: "i64 \<times> i64 \<Rightarrow> g_LinuxDevice \<Rightarrow> g_LinuxDevice" where
  "renumber guest d = d\<lparr>ld_Major := fst guest, ld_Minor := snd guest\<rparr>"

definition dev_of :: "g_LinuxDevice \<Rightarrow> i64 \<times> i64" where
  "dev_of d = (ld_Major d, ld_Minor d)"

definition rule_of :: "g_LinuxDeviceCgroup \<Rightarrow> i64 \<times> i64" where
  "rule_of d = (dc_Major d, dc_Minor d)"

lemma retarget_rule: "rule_of (retarget host guest d) = (if rule_of d = host then guest else rule_of d)"
  by (cases host) (auto simp: retarget_def rule_of_def)

lemma update_devices_none:
  "path \<notin> ld_Path ` set devs \<Longrightarrow> update_devices path guest devs rules = (devs, rules)"
  by (induction devs arbitrary: rules) auto

lemma update_devices_one:
  assumes "distinct (map ld_Path devs)" "d \<in> set devs"
  shows "update_devices (ld_Path d) guest devs rules =
    (map (\<lambda>e. if ld_Path e = ld_Path d then renumber guest e else e) devs,
     map (retarget (dev_of d) guest) rules)"
  using assms
proof (induction devs arbitrary: rules)
  case (Cons e es)
  show ?case
  proof (cases "e = d")
    case True
    then have "ld_Path d \<notin> ld_Path ` set es" using Cons.prems(1) by auto
    with True show ?thesis
      by (auto simp: update_devices_none renumber_def dev_of_def rev_image_eqI intro!: map_idI [symmetric])
  next
    case False
    then have "d \<in> set es" "ld_Path e \<noteq> ld_Path d" using Cons.prems by (auto simp: rev_image_eqI)
    with Cons show ?thesis by simp
  qed
qed simp

definition host_of :: "g_LinuxDevice list \<Rightarrow> string \<Rightarrow> (i64 \<times> i64) option" where
  "host_of devs path = map_of (map (\<lambda>d. (ld_Path d, dev_of d)) devs) path"

lemma host_of_mem: "distinct (map ld_Path devs) \<Longrightarrow> d \<in> set devs \<Longrightarrow> host_of devs (ld_Path d) = Some (dev_of d)"
  by (auto simp: host_of_def comp_def intro!: map_of_is_SomeI)

lemma host_of_Some: "host_of devs path = Some h \<Longrightarrow> \<exists>d \<in> set devs. ld_Path d = path \<and> dev_of d = h"
  by (auto simp: host_of_def dest!: map_of_SomeD)

text \<open>No guest number given to a device is the host number of a device updated later.\<close>

fun no_clash :: "g_LinuxDevice list \<Rightarrow> (string \<times> i64 \<times> i64) list \<Rightarrow> bool" where
  "no_clash devs [] \<longleftrightarrow> True"
| "no_clash devs ((path, guest) # ups) \<longleftrightarrow>
     (\<forall>q \<in> fst ` set ups. host_of devs q \<noteq> Some guest \<and> host_of devs q \<noteq> host_of devs path)
     \<and> no_clash devs ups"

definition new_number :: "g_LinuxDevice list \<Rightarrow> (string \<times> i64 \<times> i64) list \<Rightarrow> i64 \<times> i64 \<Rightarrow> i64 \<times> i64" where
  "new_number devs ups n = (case find (\<lambda>(path, _). host_of devs path = Some n) ups of
     None \<Rightarrow> n | Some (_, guest) \<Rightarrow> guest)"

lemma no_clash_cong:
  "(\<And>q. q \<in> fst ` set ups \<Longrightarrow> host_of devs q = host_of devs' q) \<Longrightarrow> no_clash devs ups = no_clash devs' ups"
  by (induction ups) auto

lemma find_hosts_cong:
  "(\<And>q. q \<in> fst ` set ups \<Longrightarrow> host_of devs q = host_of devs' q) \<Longrightarrow>
   find (\<lambda>(path, _). host_of devs path = Some n) ups = find (\<lambda>(path, _). host_of devs' path = Some n) ups"
  by (rule find_cong) (auto simp: rev_image_eqI)

lemma host_of_renumber:
  "q \<noteq> path \<Longrightarrow> host_of (map (\<lambda>e. if ld_Path e = path then renumber g e else e) devs) q = host_of devs q"
  by (induction devs) (auto simp: host_of_def renumber_def)

lemma renumber_paths:
  "ld_Path ` set (map (\<lambda>e. if ld_Path e = path then renumber g e else e) devs) = ld_Path ` set devs"
  by (induction devs) (auto simp: renumber_def)

lemma update_all_rules:
  assumes "distinct (map ld_Path devs)" "distinct (map fst ups)" "fst ` set ups \<subseteq> ld_Path ` set devs"
    and "no_clash devs ups"
  shows "map rule_of (snd (update_all ups (devs, rules))) = map (new_number devs ups \<circ> rule_of) rules"
  using assms
proof (induction ups arbitrary: devs rules)
  case (Cons up ups)
  obtain path guest where up: "up = (path, guest)" by (cases up)
  from Cons.prems(3) up obtain d where d: "d \<in> set devs" "ld_Path d = path" by auto
  let ?devs = "map (\<lambda>e. if ld_Path e = path then renumber guest e else e) devs"
  let ?rules = "map (retarget (dev_of d) guest) rules"
  have one: "update_devices path guest devs rules = (?devs, ?rules)"
    using update_devices_one [OF Cons.prems(1) d(1)] d(2) by simp
  have paths: "map ld_Path ?devs = map ld_Path devs" by (simp add: renumber_def)
  have later: "q \<in> fst ` set ups \<Longrightarrow> host_of ?devs q = host_of devs q" for q
    using Cons.prems(2) up by (intro host_of_renumber) auto
  have host: "host_of devs path = Some (dev_of d)" using host_of_mem [OF Cons.prems(1) d(1)] d(2) by simp
  have "map rule_of (snd (update_all ups (?devs, ?rules))) = map (new_number ?devs ups \<circ> rule_of) ?rules"
  proof (rule Cons.IH)
    show "fst ` set ups \<subseteq> ld_Path ` set ?devs"
      unfolding renumber_paths using Cons.prems(3) by auto
    show "no_clash ?devs ups" using Cons.prems(4) up no_clash_cong [OF later] by simp
    show "distinct (map ld_Path ?devs)" unfolding paths by (rule Cons.prems(1))
    show "distinct (map fst ups)" using Cons.prems(2) by simp
  qed
  moreover have "new_number ?devs ups (rule_of (retarget (dev_of d) guest r)) = new_number devs (up # ups) (rule_of r)" for r
  proof -
    have "find (\<lambda>(path, _). host_of devs path = Some guest) ups = None"
      using Cons.prems(4) up by (auto simp: find_None_iff)
    then show ?thesis
      using host by (auto simp: new_number_def retarget_rule up find_hosts_cong [OF later])
  qed
  ultimately show ?case using one up by (simp add: update_all_def comp_def)
qed (simp add: update_all_def new_number_def comp_def)

lemma update_all_devices:
  assumes "distinct (map ld_Path devs)" "fst ` set ups \<subseteq> ld_Path ` set devs"
    and "distinct (map fst ups)"
  shows "fst (update_all ups (devs, rules)) =
    map (\<lambda>d. case map_of ups (ld_Path d) of None \<Rightarrow> d | Some g \<Rightarrow> renumber g d) devs"
  using assms
proof (induction ups arbitrary: devs rules)
  case (Cons up ups)
  obtain path guest where up: "up = (path, guest)" by (cases up)
  from Cons.prems(2) up obtain d where d: "d \<in> set devs" "ld_Path d = path" by auto
  let ?devs = "map (\<lambda>e. if ld_Path e = path then renumber guest e else e) devs"
  have one: "update_devices path guest devs rules = (?devs, map (retarget (dev_of d) guest) rules)"
    using update_devices_one [OF Cons.prems(1) d(1)] d(2) by simp
  have paths: "map ld_Path ?devs = map ld_Path devs" by (simp add: renumber_def)
  have none: "map_of ups path = None" using Cons.prems(3) up by (auto simp: map_of_eq_None_iff)
  have "fst (update_all ups (?devs, map (retarget (dev_of d) guest) rules)) =
      map (\<lambda>d. case map_of ups (ld_Path d) of None \<Rightarrow> d | Some g \<Rightarrow> renumber g d) ?devs"
  proof (rule Cons.IH)
    show "fst ` set ups \<subseteq> ld_Path ` set ?devs" unfolding renumber_paths using Cons.prems(2) by auto
    show "distinct (map ld_Path ?devs)" unfolding paths by (rule Cons.prems(1))
    show "distinct (map fst ups)" using Cons.prems(3) by simp
  qed
  then show ?case
    using one up none by (auto simp: update_all_def renumber_def intro!: map_cong split: option.split)
qed (simp add: update_all_def)

section \<open>Properties\<close>

text \<open>C3: adding several devices: when no number that the guest gives to a device is the number the
  host used for a device added later, every listed device gets the guest's numbers and every cgroup
  rule follows its device; rules of other numbers stay.\<close>
theorem devices_follow:
  assumes "distinct (map ld_Path devs)" "distinct (map fst ups)" "fst ` set ups \<subseteq> ld_Path ` set devs"
    and "no_clash devs ups"
  shows "fst (update_all ups (devs, rules)) =
      map (\<lambda>d. case map_of ups (ld_Path d) of None \<Rightarrow> d | Some g \<Rightarrow> renumber g d) devs
    \<and> map rule_of (snd (update_all ups (devs, rules))) = map (new_number devs ups \<circ> rule_of) rules"
  using update_all_rules [OF assms] update_all_devices [OF assms(1,3,2)] by blast

definition listed :: "string \<Rightarrow> i64 \<Rightarrow> g_LinuxDevice" where
  "listed p n = \<lparr>ld_Path = p, ld_Type = ''b'', ld_Major = 8, ld_Minor = n, ld_FileMode = 0, ld_UID = 0,
     ld_GID = 0\<rparr>"

definition rule :: "i64 \<Rightarrow> g_LinuxDeviceCgroup" where
  "rule n = \<lparr>dc_Allow = True, dc_Type = ''b'', dc_Major = 8, dc_Minor = n, dc_Access = ''rwm''\<rparr>"

lemma devices_follow_witness:
  "map rule_of (snd (update_all [(''/dev/a'', 254, 0), (''/dev/b'', 254, 16)]
     ([listed ''/dev/a'' 0, listed ''/dev/b'' 16], [rule 0, rule 16]))) = [(254, 0), (254, 16)]"
  by (subst devices_follow [THEN conjunct2])
    (auto simp: listed_def rule_def rule_of_def new_number_def host_of_def dev_of_def)



end
