(* ===== verification/Steps.thy ===== *)
theory Steps
  imports Prelude
begin

text \<open>
  Transition systems: the states reachable from the initial ones, and the interface between a
  system and its invariant. A component with concurrent parties states its steps as a relation,
  proves the two laws of \<open>safe_system\<close>, and gets the invariant of every reachable state.
\<close>

definition reachable :: "('s \<Rightarrow> bool) \<Rightarrow> ('s \<Rightarrow> 's \<Rightarrow> bool) \<Rightarrow> 's \<Rightarrow> bool" where
  "reachable init step s \<longleftrightarrow> (\<exists>i. init i \<and> step\<^sup>*\<^sup>* i s)"

lemma reachable_init: "init s \<Longrightarrow> reachable init step s"
  by (auto simp: reachable_def)

lemma reachable_step: "reachable init step s \<Longrightarrow> step s t \<Longrightarrow> reachable init step t"
  by (auto simp: reachable_def intro: rtranclp.rtrancl_into_rtrancl)

lemma reachable_steps: "reachable init step s \<Longrightarrow> step\<^sup>*\<^sup>* s t \<Longrightarrow> reachable init step t"
  by (auto simp: reachable_def)

locale safe_system =
  fixes init :: "'s \<Rightarrow> bool"
    and step :: "'s \<Rightarrow> 's \<Rightarrow> bool"
    and inv :: "'s \<Rightarrow> bool"
  assumes init_inv: "init s \<Longrightarrow> inv s"
    and step_inv: "inv s \<Longrightarrow> step s t \<Longrightarrow> inv t"
begin

lemma steps_inv: "step\<^sup>*\<^sup>* s t \<Longrightarrow> inv s \<Longrightarrow> inv t"
  by (induction rule: rtranclp_induct) (auto intro: step_inv)

lemma reachable_inv: "reachable init step s \<Longrightarrow> inv s"
  by (auto simp: reachable_def intro: steps_inv init_inv)

text \<open>A property kept by the steps out of states that satisfy the invariant.\<close>

lemma reachable_rel:
  assumes "reachable init step s" "\<And>s. init s \<Longrightarrow> P s"
    and "\<And>s t. inv s \<Longrightarrow> P s \<Longrightarrow> step s t \<Longrightarrow> P t"
  shows "P s"
proof -
  obtain i where i: "init i" "step\<^sup>*\<^sup>* i s" using assms(1) by (auto simp: reachable_def)
  from i(2) have "inv s \<and> P s"
    by (induction rule: rtranclp_induct) (use i(1) assms init_inv step_inv in blast)+
  then show ?thesis ..
qed

end

text \<open>
  Progress: with a measure that some step always decreases while the goal is open, the goal can be
  reached from every state of the invariant.
\<close>

locale progress_system = safe_system init step inv
  for init :: "'s \<Rightarrow> bool" and step :: "'s \<Rightarrow> 's \<Rightarrow> bool" and inv :: "'s \<Rightarrow> bool" +
  fixes goal :: "'s \<Rightarrow> bool"
    and rank :: "'s \<Rightarrow> nat"
  assumes move: "inv s \<Longrightarrow> \<not> goal s \<Longrightarrow> \<exists>t. step s t \<and> rank t < rank s"
begin

lemma can_reach_goal: "inv s \<Longrightarrow> \<exists>t. step\<^sup>*\<^sup>* s t \<and> goal t"
proof (induction "rank s" arbitrary: s rule: less_induct)
  case less
  show ?case
  proof (cases "goal s")
    case False
    with move [OF less.prems] obtain t where t: "step s t" "rank t < rank s" by blast
    from less.hyps [OF t(2) step_inv [OF less.prems t(1)]] t(1) show ?thesis
      by (meson converse_rtranclp_into_rtranclp)
  qed auto
qed

lemma reachable_can_reach_goal: "reachable init step s \<Longrightarrow> \<exists>t. step\<^sup>*\<^sup>* s t \<and> goal t"
  by (rule can_reach_goal) (rule reachable_inv)

end

end
