(* ===== verification/Hotplug.thy ===== *)
theory Hotplug
  imports Device Steps
begin

text \<open>
  Hotplug: the uevent thread of \<open>src/uevent.rs\<close> and the request threads that wait in
  \<open>get_device_name\<close> (\<open>src/device.rs\<close>), as a step relation. The shared state is the device map of the
  sandbox and the watcher map; each request owns a channel. What a thread does under the two locks
  is one step, as is taking a message, giving up at the timeout, and the clean-up after it.
\<close>

section \<open>Uevents\<close>

record Uevent =
  ev_action :: string
  ev_devpath :: string
  ev_devname :: string
  ev_subsystem :: string
  ev_seqnum :: string
  ev_interface :: string

definition no_event :: Uevent where
  "no_event = \<lparr>ev_action = [], ev_devpath = [], ev_devname = [], ev_subsystem = [], ev_seqnum = [],
     ev_interface = []\<rparr>"

definition set_key :: "string \<Rightarrow> string \<Rightarrow> Uevent \<Rightarrow> Uevent" where
  "set_key k v ev =
     (if k = ''ACTION'' then ev\<lparr>ev_action := v\<rparr>
      else if k = ''DEVNAME'' then ev\<lparr>ev_devname := v\<rparr>
      else if k = ''SUBSYSTEM'' then ev\<lparr>ev_subsystem := v\<rparr>
      else if k = ''DEVPATH'' then ev\<lparr>ev_devpath := v\<rparr>
      else if k = ''SEQNUM'' then ev\<lparr>ev_seqnum := v\<rparr>
      else if k = ''INTERFACE'' then ev\<lparr>ev_interface := v\<rparr>
      else ev)"

fun set_keys :: "string list \<Rightarrow> Uevent \<Rightarrow> Uevent" where
  "set_keys [] ev = ev"
| "set_keys (arg # args) ev = (case splitn2 CHR ''='' arg of
     [k, v] \<Rightarrow> set_keys args (set_key k v ev) | _ \<Rightarrow> set_keys args ev)"

definition parse_uevent :: "string \<Rightarrow> Uevent" where
  "parse_uevent message = set_keys (tl (split_on (CHR 0x00) message)) no_event"

text \<open>The device events the thread records; any other event can only put memory online.\<close>

definition block_event :: "Uevent \<Rightarrow> bool" where
  "block_event ev \<longleftrightarrow> ev_devname ev \<noteq> [] \<and> prefix ROOT_BUS_PATH (ev_devpath ev)
     \<and> ev_subsystem ev = ''block''"

definition online_memory_path :: "Uevent \<Rightarrow> string option" where
  "online_memory_path ev =
     (let p = ''/sys'' @ ''/'' @ ev_devpath ev @ ''/online''
      in if prefix ''/sys/devices/system/memory'' p then Some p else None)"

definition watch_match :: "string \<Rightarrow> string \<Rightarrow> bool" where
  "watch_match devpath dev_addr \<longleftrightarrow> prefix (ROOT_BUS_PATH @ ''/'' @ dev_addr) devpath
     \<or> suffix ''block'' dev_addr \<and> contains dev_addr devpath"

section \<open>State and steps\<close>

text \<open>A request is waiting for an address, has given up but not cleaned up, or has its answer.\<close>

datatype request = Waiting string | Expired string | Named string string | TimedOut string

text \<open>\<open>hp_seen\<close> is a ghost: every device path and name the thread has recorded so far.\<close>

record hotplug =
  hp_map :: "(string \<times> string) list"
  hp_watchers :: "(string \<times> nat) list"
  hp_chan :: "nat \<Rightarrow> string list"
  hp_req :: "nat \<Rightarrow> request option"
  hp_seen :: "(string \<times> string) list"

definition hp_init :: "hotplug \<Rightarrow> bool" where
  "hp_init s \<longleftrightarrow> s = \<lparr>hp_map = [], hp_watchers = [], hp_chan = (\<lambda>_. []), hp_req = Map.empty,
     hp_seen = []\<rparr>"

text \<open>The critical section at the start of \<open>get_device_name\<close>, for request \<open>t\<close>.\<close>

definition enter_request :: "nat \<Rightarrow> string \<Rightarrow> hotplug \<Rightarrow> hotplug" where
  "enter_request t dev_addr s =
     (let name = find_device (hp_map s) dev_addr
      in if name \<noteq> [] then s\<lparr>hp_req := (hp_req s)(t \<mapsto> Named dev_addr name)\<rparr>
         else s\<lparr>hp_watchers := AList.update dev_addr t (hp_watchers s),
                hp_req := (hp_req s)(t \<mapsto> Waiting dev_addr)\<rparr>)"

text \<open>The critical section of the uevent thread for a device event.\<close>

definition block_uevent :: "string \<Rightarrow> string \<Rightarrow> hotplug \<Rightarrow> hotplug" where
  "block_uevent devpath devname s =
     (let empties = filter (\<lambda>(dev_addr, _). watch_match devpath dev_addr) (hp_watchers s)
      in s\<lparr>hp_map := AList.update devpath devname (hp_map s),
           hp_chan := fold (\<lambda>(_, t) ch. ch(t := ch t @ [devname])) empties (hp_chan s),
           hp_watchers := fold (\<lambda>(k, _) w. AList.delete k w) empties (hp_watchers s),
           hp_seen := (devpath, devname) # hp_seen s\<rparr>)"

definition handle_uevent :: "string \<Rightarrow> hotplug \<Rightarrow> hotplug" where
  "handle_uevent message s =
     (let ev = parse_uevent message
      in if block_event ev then block_uevent (ev_devpath ev) (ev_devname ev) s else s)"

definition take_message :: "nat \<Rightarrow> hotplug \<Rightarrow> hotplug option" where
  "take_message t s = (case (hp_req s t, hp_chan s t) of
     (Some (Waiting dev_addr), name # rest) \<Rightarrow>
       Some (s\<lparr>hp_chan := (hp_chan s)(t := rest), hp_req := (hp_req s)(t \<mapsto> Named dev_addr name)\<rparr>)
   | _ \<Rightarrow> None)"

text \<open>\<open>recv_timeout\<close> fails only on an empty channel; the entry of the address is removed later.\<close>

definition give_up :: "nat \<Rightarrow> hotplug \<Rightarrow> hotplug option" where
  "give_up t s = (case (hp_req s t, hp_chan s t) of
     (Some (Waiting dev_addr), []) \<Rightarrow> Some (s\<lparr>hp_req := (hp_req s)(t \<mapsto> Expired dev_addr)\<rparr>)
   | _ \<Rightarrow> None)"

definition clean_up :: "nat \<Rightarrow> hotplug \<Rightarrow> hotplug option" where
  "clean_up t s = (case hp_req s t of
     Some (Expired dev_addr) \<Rightarrow>
       Some (s\<lparr>hp_watchers := AList.delete dev_addr (hp_watchers s),
              hp_req := (hp_req s)(t \<mapsto> TimedOut dev_addr)\<rparr>)
   | _ \<Rightarrow> None)"

definition active_on :: "hotplug \<Rightarrow> string \<Rightarrow> nat \<Rightarrow> bool" where
  "active_on s dev_addr t \<longleftrightarrow> hp_req s t = Some (Waiting dev_addr) \<or> hp_req s t = Some (Expired dev_addr)"

text \<open>
  One step. With \<open>excl\<close>, a request for an address starts only while no other request for the same
  address is in progress; the code does not enforce it.
\<close>

inductive hp_step :: "bool \<Rightarrow> hotplug \<Rightarrow> hotplug \<Rightarrow> bool" for excl where
  enter: "hp_req s t = None \<Longrightarrow> (excl \<Longrightarrow> \<forall>u. \<not> active_on s dev_addr u)
    \<Longrightarrow> hp_step excl s (enter_request t dev_addr s)"
| uevent: "hp_step excl s (handle_uevent message s)"
| recv: "take_message t s = Some s' \<Longrightarrow> hp_step excl s s'"
| expire: "give_up t s = Some s' \<Longrightarrow> hp_step excl s s'"
| clean: "clean_up t s = Some s' \<Longrightarrow> hp_step excl s s'"

section \<open>Lemmas\<close>

lemma watch_contains:
  assumes "watch_match devpath dev_addr"
  shows "contains dev_addr devpath"
proof -
  consider z where "devpath = (ROOT_BUS_PATH @ ''/'') @ dev_addr @ z" | "contains dev_addr devpath"
    using assms by (auto simp: watch_match_def prefix_def)
  then show ?thesis
  proof cases
    case (1 z)
    then show ?thesis unfolding contains_sublist by (simp only: sublist_appendI)
  qed
qed

lemma find_device_None:
  assumes "find_device m a = []" "(p, n) \<in> set m" "\<forall>(p, n) \<in> set m. n \<noteq> []"
  shows "\<not> contains a p"
proof (cases "find (\<lambda>(key, _). contains a key) m")
  case None
  with assms(2) show ?thesis by (auto simp: find_None_iff)
next
  case (Some kv)
  then have "kv \<in> set m" by (metis find_Some_iff nth_mem)
  with Some assms(1,3) show ?thesis by (auto simp: find_device_def split: prod.splits)
qed

lemma find_device_Some:
  assumes "find_device m a \<noteq> []"
  shows "\<exists>p. (p, find_device m a) \<in> set m \<and> contains a p"
proof -
  obtain kv where kv: "find (\<lambda>(key, _). contains a key) m = Some kv"
    using assms by (auto simp: find_device_def split: option.splits)
  then have "kv \<in> set m" "contains a (fst kv)" by (auto simp: find_Some_iff case_prod_beta')
  with kv show ?thesis by (auto simp: find_device_def split: prod.split)
qed

lemma update_set: "(p, n) \<in> set (AList.update q m xs) \<Longrightarrow> (p, n) = (q, m) \<or> (p, n) \<in> set xs"
  by (induction xs) (auto split: if_splits)

lemma fold_delete: "fold (\<lambda>x. AList.delete (fst x)) es ws = filter (\<lambda>kv. fst kv \<notin> fst ` set es) ws"
  by (induction es arbitrary: ws) (auto simp: AList.delete_eq case_prod_beta' intro!: filter_cong)

lemma fold_send:
  "fold (\<lambda>x ch. ch(snd x := ch (snd x) @ [n])) es ch t =
     ch t @ replicate (length (filter (\<lambda>e. snd e = t) es)) n"
  by (induction es arbitrary: ch) (auto simp: replicate_app_Cons_same)

section \<open>The invariant\<close>

fun addr_of :: "request \<Rightarrow> string" where
  "addr_of (Waiting a) = a"
| "addr_of (Expired a) = a"
| "addr_of (Named a n) = a"
| "addr_of (TimedOut a) = a"

text \<open>Answers: the device map and the messages come from recorded devices.\<close>

definition from_seen :: "hotplug \<Rightarrow> string \<Rightarrow> string \<Rightarrow> bool" where
  "from_seen s a n \<longleftrightarrow> (\<exists>p. (p, n) \<in> set (hp_seen s) \<and> contains a p)"

definition ok_names :: "hotplug \<Rightarrow> bool" where
  "ok_names s \<longleftrightarrow> set (hp_map s) \<subseteq> set (hp_seen s)
     \<and> (\<forall>a t. (a, t) \<in> set (hp_watchers s) \<longrightarrow> (\<exists>r. hp_req s t = Some r \<and> addr_of r = a))
     \<and> (\<forall>t n. n \<in> set (hp_chan s t) \<longrightarrow> (\<exists>r. hp_req s t = Some r \<and> from_seen s (addr_of r) n))
     \<and> (\<forall>t a n. hp_req s t = Some (Named a n) \<longrightarrow> from_seen s a n)"

text \<open>Waiting requests: with one request per address, each is watched until it has a message.\<close>

definition hp_inv :: "hotplug \<Rightarrow> bool" where
  "hp_inv s \<longleftrightarrow> (\<forall>(p, n) \<in> set (hp_map s). n \<noteq> [])
     \<and> distinct (map fst (hp_watchers s))
     \<and> (\<forall>a t. (a, t) \<in> set (hp_watchers s) \<longrightarrow> active_on s a t)
     \<and> (\<forall>a t u. active_on s a t \<longrightarrow> active_on s a u \<longrightarrow> t = u)
     \<and> (\<forall>a t. hp_req s t = Some (Waiting a) \<longrightarrow> (a, t) \<in> set (hp_watchers s) \<or> hp_chan s t \<noteq> [])
     \<and> (\<forall>a t p n. hp_req s t = Some (Waiting a) \<longrightarrow> (p, n) \<in> set (hp_map s) \<longrightarrow> watch_match p a
          \<longrightarrow> hp_chan s t \<noteq> [])
     \<and> (\<forall>a t. (a, t) \<in> set (hp_watchers s) \<longrightarrow> hp_chan s t = [])
     \<and> (\<forall>t. hp_req s t = None \<longrightarrow> hp_chan s t = [])"

lemma take_messageD:
  "take_message t s = Some s' \<Longrightarrow> \<exists>a n rest. hp_req s t = Some (Waiting a) \<and> hp_chan s t = n # rest
     \<and> s' = s\<lparr>hp_chan := (hp_chan s)(t := rest), hp_req := (hp_req s)(t \<mapsto> Named a n)\<rparr>"
  by (auto simp: take_message_def split: option.splits request.splits list.splits)

lemma give_upD:
  "give_up t s = Some s' \<Longrightarrow> \<exists>a. hp_req s t = Some (Waiting a) \<and> hp_chan s t = []
     \<and> s' = s\<lparr>hp_req := (hp_req s)(t \<mapsto> Expired a)\<rparr>"
  by (auto simp: give_up_def split: option.splits request.splits list.splits)

lemma clean_upD:
  "clean_up t s = Some s' \<Longrightarrow> \<exists>a. hp_req s t = Some (Expired a)
     \<and> s' = s\<lparr>hp_watchers := AList.delete a (hp_watchers s), hp_req := (hp_req s)(t \<mapsto> TimedOut a)\<rparr>"
  by (auto simp: clean_up_def split: option.splits request.splits)

lemma block_uevent_fields:
  "hp_map (block_uevent p n s) = AList.update p n (hp_map s)"
  "hp_watchers (block_uevent p n s) = filter (\<lambda>kv. \<not> watch_match p (fst kv)) (hp_watchers s)"
  "hp_req (block_uevent p n s) = hp_req s"
  "hp_seen (block_uevent p n s) = (p, n) # hp_seen s"
  "hp_chan (block_uevent p n s) t = hp_chan s t @
     replicate (length (filter (\<lambda>kv. snd kv = t) (filter (\<lambda>kv. watch_match p (fst kv)) (hp_watchers s)))) n"
  by (simp_all add: block_uevent_def Let_def fold_delete fold_send case_prod_beta')
    (auto intro!: filter_cong)

lemma matching_iff: "filter (\<lambda>kv. snd kv = t) (filter (\<lambda>kv. watch_match p (fst kv)) ws) \<noteq> []
    \<longleftrightarrow> (\<exists>a. (a, t) \<in> set ws \<and> watch_match p a)"
  by (force simp: filter_empty_conv)

lemma block_chan_mem: "m \<in> set (hp_chan (block_uevent p n s) t) \<longleftrightarrow> m \<in> set (hp_chan s t)
    \<or> m = n \<and> (\<exists>a. (a, t) \<in> set (hp_watchers s) \<and> watch_match p a)"
  unfolding block_uevent_fields set_append set_replicate_conv_if Un_iff length_0_conv
  using matching_iff [of t p "hp_watchers s"] by auto

lemma hp_step_cases:
  assumes "hp_step excl s s'"
  obtains (named) t a where "hp_req s t = None" "find_device (hp_map s) a \<noteq> []"
      "s' = s\<lparr>hp_req := (hp_req s)(t \<mapsto> Named a (find_device (hp_map s) a))\<rparr>"
  | (wait) t a where "hp_req s t = None" "excl \<longrightarrow> (\<forall>u. \<not> active_on s a u)"
      "find_device (hp_map s) a = []"
      "s' = s\<lparr>hp_watchers := AList.update a t (hp_watchers s), hp_req := (hp_req s)(t \<mapsto> Waiting a)\<rparr>"
  | (other) "s' = s"
  | (block) p n where "n \<noteq> []" "prefix ROOT_BUS_PATH p" "s' = block_uevent p n s"
  | (recv) t a n rest where "hp_req s t = Some (Waiting a)" "hp_chan s t = n # rest"
      "s' = s\<lparr>hp_chan := (hp_chan s)(t := rest), hp_req := (hp_req s)(t \<mapsto> Named a n)\<rparr>"
  | (expire) t a where "hp_req s t = Some (Waiting a)" "hp_chan s t = []"
      "s' = s\<lparr>hp_req := (hp_req s)(t \<mapsto> Expired a)\<rparr>"
  | (clean) t a where "hp_req s t = Some (Expired a)"
      "s' = s\<lparr>hp_watchers := AList.delete a (hp_watchers s), hp_req := (hp_req s)(t \<mapsto> TimedOut a)\<rparr>"
  using assms
proof cases
  case (enter t a)
  with named [of t a] wait [of t a] show thesis
    by (cases "find_device (hp_map s) a = []") (auto simp: enter_request_def)
next
  case (uevent message)
  with other block show thesis
    by (cases "block_event (parse_uevent message)") (auto simp: handle_uevent_def Let_def block_event_def)
next
  case (recv t)
  from take_messageD [OF this] that(5) show thesis by blast
next
  case (expire t)
  from give_upD [OF this] that(6) show thesis by blast
next
  case (clean t)
  from clean_upD [OF this] that(7) show thesis by blast
qed

lemma from_seen_cong: "hp_seen s' = hp_seen s \<Longrightarrow> from_seen s' a n = from_seen s a n"
  by (simp add: from_seen_def)

lemma set_update_subset: "set (AList.update k v xs) \<subseteq> insert (k, v) (set xs)"
  by (induction xs) auto

text \<open>A step that only moves request \<open>t\<close> on, keeping its address.\<close>

lemma names_move:
  assumes "ok_names s" "hp_seen s' = hp_seen s" "hp_map s' = hp_map s"
    and "hp_req s' = (hp_req s)(t \<mapsto> r)" "\<And>q. hp_req s t = Some q \<Longrightarrow> addr_of q = addr_of r"
    and "set (hp_watchers s') \<subseteq> insert (addr_of r, t) (set (hp_watchers s))"
    and "\<And>u. set (hp_chan s' u) \<subseteq> set (hp_chan s u)"
    and "\<And>a n. r = Named a n \<Longrightarrow> from_seen s a n"
  shows "ok_names s'"
proof -
  have okw: "\<exists>r. hp_req s u = Some r \<and> addr_of r = a" if "(a, u) \<in> set (hp_watchers s)" for a u
    using assms(1) that unfolding ok_names_def by blast
  have okc: "\<exists>r. hp_req s u = Some r \<and> from_seen s (addr_of r) n" if "n \<in> set (hp_chan s u)" for u n
    using assms(1) that unfolding ok_names_def by blast
  have okn: "from_seen s a n" if "hp_req s u = Some (Named a n)" for u a n
    using assms(1) that unfolding ok_names_def by blast
  have keep: "\<exists>q'. hp_req s' u = Some q' \<and> addr_of q' = addr_of q" if "hp_req s u = Some q" for u q
    using that assms(4,5) by (cases "u = t") auto
  have w: "\<exists>r. hp_req s' u = Some r \<and> addr_of r = a" if "(a, u) \<in> set (hp_watchers s')" for a u
  proof (cases "(a, u) = (addr_of r, t)")
    case False
    with that assms(6) okw keep show ?thesis by blast
  qed (simp add: assms(4))
  have c: "\<exists>r. hp_req s' u = Some r \<and> from_seen s' (addr_of r) n" if "n \<in> set (hp_chan s' u)" for u n
    using that assms(7) okc keep unfolding from_seen_cong [OF assms(2)] by (metis subsetD)
  have n: "from_seen s' a n" if "hp_req s' u = Some (Named a n)" for u a n
    using that assms(4,8) okn unfolding from_seen_cong [OF assms(2)] by (cases "u = t") auto
  have "set (hp_map s') \<subseteq> set (hp_seen s')"
    using assms(1,2,3) unfolding ok_names_def by simp
  with w c n show ?thesis unfolding ok_names_def by blast
qed

lemma names_step:
  assumes inv: "ok_names s" and step: "hp_step excl s s'"
  shows "ok_names s'"
  using step
proof (cases rule: hp_step_cases)
  case (named t a)
  have "from_seen s a (find_device (hp_map s) a)"
    using find_device_Some [OF named(2)] inv by (auto simp: from_seen_def ok_names_def)
  then show ?thesis
    by (intro names_move [OF inv, where t = t and r = "Named a (find_device (hp_map s) a)"])
      (auto simp: named)
next
  case (wait t a)
  then show ?thesis
    by (intro names_move [OF inv, where t = t and r = "Waiting a"]) (auto dest!: update_set)
next
  case (block p n)
  have seen: "from_seen s a m \<Longrightarrow> from_seen s' a m" for a m
    by (auto simp: block(3) block_uevent_fields from_seen_def)
  have "\<exists>r. hp_req s' t = Some r \<and> from_seen s' (addr_of r) m" if "m \<in> set (hp_chan s' t)" for m t
  proof (cases "m \<in> set (hp_chan s t)")
    case True
    with inv obtain r where "hp_req s t = Some r" "from_seen s (addr_of r) m"
      unfolding ok_names_def by blast
    with seen show ?thesis by (auto simp: block(3) block_uevent_fields)
  next
    case False
    with that obtain a where a: "m = n" "(a, t) \<in> set (hp_watchers s)" "watch_match p a"
      by (auto simp: block(3) block_chan_mem)
    with inv obtain r where "hp_req s t = Some r" "addr_of r = a" unfolding ok_names_def by blast
    with a show ?thesis
      by (auto simp: block(3) block_uevent_fields from_seen_def dest: watch_contains)
  qed
  then show ?thesis
    using inv seen set_update_subset [of p n "hp_map s"]
    by (auto simp: ok_names_def block(3) block_uevent_fields)
next
  case (recv t a n rest)
  have "n \<in> set (hp_chan s t)" using recv by simp
  then obtain r where "hp_req s t = Some r" "from_seen s (addr_of r) n"
    using inv unfolding ok_names_def by blast
  then have "from_seen s a n" using recv by auto
  with recv show ?thesis
    by (intro names_move [OF inv, where t = t and r = "Named a n"]) auto
next
  case (expire t a)
  then show ?thesis by (intro names_move [OF inv, where t = t and r = "Expired a"]) auto
next
  case (clean t a)
  then show ?thesis
    by (intro names_move [OF inv, where t = t and r = "TimedOut a"]) (auto simp: AList.delete_eq)
qed (use inv in simp)

text \<open>The second invariant, in the names of its parts.\<close>

lemma hp_invD:
  assumes "hp_inv s"
  shows "(p, n) \<in> set (hp_map s) \<Longrightarrow> n \<noteq> []" and "distinct (map fst (hp_watchers s))"
    and "(a, t) \<in> set (hp_watchers s) \<Longrightarrow> active_on s a t"
    and "active_on s a t \<Longrightarrow> active_on s a u \<Longrightarrow> t = u"
    and "hp_req s t = Some (Waiting a) \<Longrightarrow> (a, t) \<in> set (hp_watchers s) \<or> hp_chan s t \<noteq> []"
    and "hp_req s t = Some (Waiting a) \<Longrightarrow> (p, n) \<in> set (hp_map s) \<Longrightarrow> watch_match p a \<Longrightarrow> hp_chan s t \<noteq> []"
    and "(a, t) \<in> set (hp_watchers s) \<Longrightarrow> hp_chan s t = []"
    and "hp_req s t = None \<Longrightarrow> hp_chan s t = []"
  using assms unfolding hp_inv_def by blast+

lemma hp_invI:
  assumes "\<And>p n. (p, n) \<in> set (hp_map s) \<Longrightarrow> n \<noteq> []" "distinct (map fst (hp_watchers s))"
    and "\<And>a t. (a, t) \<in> set (hp_watchers s) \<Longrightarrow> active_on s a t"
    and "\<And>a t u. active_on s a t \<Longrightarrow> active_on s a u \<Longrightarrow> t = u"
    and "\<And>a t. hp_req s t = Some (Waiting a) \<Longrightarrow> (a, t) \<in> set (hp_watchers s) \<or> hp_chan s t \<noteq> []"
    and "\<And>a t p n. hp_req s t = Some (Waiting a) \<Longrightarrow> (p, n) \<in> set (hp_map s) \<Longrightarrow> watch_match p a
       \<Longrightarrow> hp_chan s t \<noteq> []"
    and "\<And>a t. (a, t) \<in> set (hp_watchers s) \<Longrightarrow> hp_chan s t = []"
    and "\<And>t. hp_req s t = None \<Longrightarrow> hp_chan s t = []"
  shows "hp_inv s"
  unfolding hp_inv_def using assms by blast

lemma update_mem: "distinct (map fst xs) \<Longrightarrow>
    (b, u) \<in> set (AList.update a t xs) \<longleftrightarrow> (b, u) = (a, t) \<or> b \<noteq> a \<and> (b, u) \<in> set xs"
  by (induction xs) (auto simp: rev_image_eqI)

lemma inv_wait:
  assumes inv: "hp_inv s" and t: "hp_req s t = None" and a: "\<forall>u. \<not> active_on s a u"
    and none: "find_device (hp_map s) a = []"
    and s': "s' = s\<lparr>hp_watchers := AList.update a t (hp_watchers s), hp_req := (hp_req s)(t \<mapsto> Waiting a)\<rparr>"
  shows "hp_inv s'"
proof -
  note I = hp_invD [OF inv]
  have act: "active_on s' b u \<longleftrightarrow> (if u = t then b = a else active_on s b u)" for b u
    by (auto simp: active_on_def s')
  have no_dev: "\<not> watch_match p a" if "(p, n) \<in> set (hp_map s)" for p n
    using find_device_None [OF none that] I(1) watch_contains by auto
  show ?thesis
  proof (rule hp_invI)
    show "distinct (map fst (hp_watchers s'))" using I(2) by (simp add: s' distinct_update)
    fix b u
    show "(b, u) \<in> set (hp_watchers s') \<Longrightarrow> active_on s' b u"
      using I(2) I(3) [of b u] a t by (auto simp: s' update_mem active_on_def)
    fix v show "active_on s' b u \<Longrightarrow> active_on s' b v \<Longrightarrow> u = v"
      using I(4) a by (auto simp: act split: if_splits)
  next
    fix b u assume "hp_req s' u = Some (Waiting b)"
    then show "(b, u) \<in> set (hp_watchers s') \<or> hp_chan s' u \<noteq> []"
      using I(2,5) a by (auto simp: s' update_mem active_on_def split: if_splits)
  next
    fix b u p n assume "hp_req s' u = Some (Waiting b)" "(p, n) \<in> set (hp_map s')" "watch_match p b"
    then show "hp_chan s' u \<noteq> []" using I(6) no_dev by (auto simp: s' split: if_splits)
  next
    fix b u
    show "(b, u) \<in> set (hp_watchers s') \<Longrightarrow> hp_chan s' u = []"
      using I(2,7) I(8) [OF t] by (auto simp: s' update_mem)
    show "hp_req s' u = None \<Longrightarrow> hp_chan s' u = []" using I(8) by (auto simp: s' split: if_splits)
  qed (use I(1) in \<open>simp add: s'\<close>)
qed

lemma inv_block:
  assumes inv: "hp_inv s" and n: "n \<noteq> []" and s': "s' = block_uevent p n s"
  shows "hp_inv s'"
proof -
  note I = hp_invD [OF inv] and F = block_uevent_fields [of p n s, folded s']
  have act: "active_on s' b u = active_on s b u" for b u by (simp add: active_on_def F)
  have sent: "hp_chan s' u \<noteq> []" if "(b, u) \<in> set (hp_watchers s)" "watch_match p b" for b u
    using that block_chan_mem [of n p n s u] by (auto simp: s')
  show ?thesis
  proof (rule hp_invI)
    show "distinct (map fst (hp_watchers s'))" using I(2) by (simp add: F distinct_map_filter)
    fix b u
    show "(b, u) \<in> set (hp_watchers s') \<Longrightarrow> active_on s' b u" using I(3) by (simp add: F act)
    fix v show "active_on s' b u \<Longrightarrow> active_on s' b v \<Longrightarrow> u = v" using I(4) by (simp add: act)
  next
    fix q m show "(q, m) \<in> set (hp_map s') \<Longrightarrow> m \<noteq> []" using I(1) n by (auto simp: F dest!: update_set)
  next
    fix b u assume "hp_req s' u = Some (Waiting b)"
    then show "(b, u) \<in> set (hp_watchers s') \<or> hp_chan s' u \<noteq> []"
      using I(5) [of u b] sent [of b u] by (auto simp: F)
  next
    fix b u q m assume w: "hp_req s' u = Some (Waiting b)" and q: "(q, m) \<in> set (hp_map s')" "watch_match q b"
    show "hp_chan s' u \<noteq> []"
    proof (cases "hp_chan s u = []")
      case True
      with w I(5,6) have "(b, u) \<in> set (hp_watchers s)" "(q, m) \<notin> set (hp_map s)"
        using q(2) by (auto simp: F)
      with q sent show ?thesis by (auto simp: F dest!: update_set)
    qed (simp add: F)
  next
    fix b u
    have quiet: "hp_chan s' u = []" if "hp_chan s u = []" "\<And>c. (c, u) \<in> set (hp_watchers s) \<Longrightarrow> \<not> watch_match p c"
      using that block_chan_mem [of _ p n s u] by (metis neq_Nil_conv list.set_intros(1) s' empty_iff empty_set)
    have one: "c = b" if "(c, u) \<in> set (hp_watchers s)" "active_on s b u" for c
      using I(3) [OF that(1)] that(2) by (auto simp: active_on_def)
    show "(b, u) \<in> set (hp_watchers s') \<Longrightarrow> hp_chan s' u = []"
      using I(3,7) [of b u] one by (intro quiet) (auto simp: F)
    show "hp_req s' u = None \<Longrightarrow> hp_chan s' u = []"
      using I(8) [of u] I(3) [of _ u] by (intro quiet) (auto simp: F active_on_def)
  qed
qed

text \<open>A step that takes request \<open>t\<close> out of waiting.\<close>

lemma inv_move:
  assumes inv: "hp_inv s" and map: "hp_map s' = hp_map s" and r: "hp_req s' = (hp_req s)(t \<mapsto> r)"
    and nw: "\<And>a. r \<noteq> Waiting a" and act: "\<And>a. r = Expired a \<Longrightarrow> active_on s a t"
    and w: "hp_watchers s' = filter P (hp_watchers s)"
    and drop: "\<And>a u. (a, u) \<in> set (hp_watchers s) \<Longrightarrow> u = t \<Longrightarrow> r = Expired a \<or> \<not> P (a, u)"
    and keep: "\<And>a u. (a, u) \<in> set (hp_watchers s) \<Longrightarrow> u \<noteq> t \<Longrightarrow> P (a, u)"
    and ch: "\<And>u. u \<noteq> t \<Longrightarrow> hp_chan s' u = hp_chan s u"
    and cht: "\<And>a. r = Expired a \<Longrightarrow> hp_chan s' t = []"
  shows "hp_inv s'"
proof -
  note I = hp_invD [OF inv]
  have a: "active_on s' b u \<Longrightarrow> active_on s b u" for b u
    using nw act by (auto simp: active_on_def r split: if_splits)
  show ?thesis
  proof (rule hp_invI)
    show "distinct (map fst (hp_watchers s'))" using I(2) by (simp add: w distinct_map_filter)
    fix b u
    show "active_on s' b u" if "(b, u) \<in> set (hp_watchers s')"
      using that I(3) [of b u] drop [of b u] by (auto simp: w r active_on_def)
    fix v show "active_on s' b u \<Longrightarrow> active_on s' b v \<Longrightarrow> u = v" using I(4) a by blast
  next
    fix b u assume "hp_req s' u = Some (Waiting b)"
    then have u: "u \<noteq> t" "hp_req s u = Some (Waiting b)" using nw by (auto simp: r split: if_splits)
    then show "(b, u) \<in> set (hp_watchers s') \<or> hp_chan s' u \<noteq> []"
      using I(5) [of u b] keep [of b u] by (auto simp: w ch)
    fix p n show "(p, n) \<in> set (hp_map s') \<Longrightarrow> watch_match p b \<Longrightarrow> hp_chan s' u \<noteq> []"
      using I(6) [of u b p n] u by (simp add: map ch)
  next
    fix b u
    show "(b, u) \<in> set (hp_watchers s') \<Longrightarrow> hp_chan s' u = []"
      using I(7) [of b u] drop [of b u] cht ch [of u] by (cases "u = t") (auto simp: w)
    show "hp_req s' u = None \<Longrightarrow> hp_chan s' u = []"
      using I(8) [of u] ch [of u] by (auto simp: r split: if_splits)
  qed (use I(1) in \<open>simp add: map\<close>)
qed

lemma inv_step: "hp_inv s \<Longrightarrow> hp_step True s s' \<Longrightarrow> hp_inv s'"
proof (erule hp_step_cases, goal_cases)
  case (1 t a)
  then have "(b, t) \<notin> set (hp_watchers s)" for b
    using hp_invD(3) [of s b t] by (auto simp: active_on_def)
  with 1 show ?case
    by (intro inv_move [of s s' t "Named a (find_device (hp_map s) a)" "\<lambda>_. True"]) auto
next
  case (2 t a)
  then show ?case by (intro inv_wait [of s t a s']) auto
next
  case (4 p n)
  then show ?case by (intro inv_block [of s n s' p]) auto
next
  case (5 t a n rest)
  then have "(b, t) \<notin> set (hp_watchers s)" for b using hp_invD(7) [of s b t] by auto
  with 5 show ?case by (intro inv_move [of s s' t "Named a n" "\<lambda>_. True"]) auto
next
  case (6 t a)
  then show ?case
    by (intro inv_move [of s s' t "Expired a" "\<lambda>_. True"]) (auto simp: active_on_def dest: hp_invD(3))
next
  case (7 t a)
  have "active_on s a t" using 7 by (simp add: active_on_def)
  then have k: "b \<noteq> a" if "(b, u) \<in> set (hp_watchers s)" "u \<noteq> t" for b u
    using that hp_invD(3,4) [OF 7(1)] by blast
  have d: "b = a" if "(b, t) \<in> set (hp_watchers s)" for b
    using hp_invD(3) [OF 7(1) that] 7(2) by (simp add: active_on_def)
  have w: "hp_watchers s' = filter (\<lambda>kv. fst kv \<noteq> a) (hp_watchers s)"
    by (auto simp: 7(3) AList.delete_eq case_prod_beta' intro!: filter_cong)
  show ?case
    by (rule inv_move [of s s' t "TimedOut a" "\<lambda>kv. fst kv \<noteq> a", OF 7(1) _ _ _ _ w])
      (use k d in \<open>simp_all add: 7(3)\<close>)
qed auto

interpretation hot: safe_system hp_init "hp_step True" hp_inv
proof
  show "hp_init s \<Longrightarrow> hp_inv s" for s by (auto simp: hp_init_def hp_inv_def active_on_def)
qed (rule inv_step)

interpretation names: safe_system hp_init "hp_step excl" ok_names
proof
  show "hp_init s \<Longrightarrow> ok_names s" for s by (auto simp: hp_init_def ok_names_def)
qed (rule names_step)

text \<open>Parsing a message: the fields of the printed event, the last value of a key winning.\<close>

definition uevent_message :: "string \<Rightarrow> (string \<times> string) list \<Rightarrow> string" where
  "uevent_message header kvs = join_on [CHR 0x00] (header # map (\<lambda>(k, v). k @ ''='' @ v) kvs)"

lemma set_keys_fold:
  "\<forall>(k, v) \<in> set kvs. CHR ''='' \<notin> set k \<Longrightarrow>
   set_keys (map (\<lambda>(k, v). k @ ''='' @ v) kvs) ev = fold (\<lambda>(k, v). set_key k v) kvs ev"
  by (induction kvs arbitrary: ev) (auto simp: splitn2_append)

section \<open>Properties\<close>

text \<open>C1: no hotplug notification is lost, in any interleaving of requests and events in which no two
  requests wait for one address at a time: when a device that the thread would announce to a
  waiting request is in the device map, the request has the name in its channel, so it can take it
  and cannot time out.\<close>
theorem no_lost_notification:
  assumes "reachable hp_init (hp_step True) s" "hp_req s t = Some (Waiting a)"
    and "(p, n) \<in> set (hp_map s)" "watch_match p a"
  shows "\<exists>s'. take_message t s = Some s' \<and> (\<exists>name. hp_req s' t = Some (Named a name)) \<and> give_up t s = None"
proof -
  have "hp_chan s t \<noteq> []" using hp_invD(6) [OF hot.reachable_inv [OF assms(1)] assms(2-4)] .
  then obtain name rest where "hp_chan s t = name # rest" by (cases "hp_chan s t") auto
  with assms(2) show ?thesis by (simp add: take_message_def give_up_def)
qed

definition vda_message :: string where
  "vda_message = uevent_message ''add@'' [(''DEVPATH'', ''/devices/pci0000:00/0:2/virtio''),
     (''DEVNAME'', ''vda''), (''SUBSYSTEM'', ''block'')]"

lemma vda_event: "parse_uevent vda_message = no_event\<lparr>ev_devpath := ''/devices/pci0000:00/0:2/virtio'',
    ev_devname := ''vda'', ev_subsystem := ''block''\<rparr>"
  by (simp add: parse_uevent_def vda_message_def uevent_message_def set_key_def no_event_def)

definition waiting_then_vda :: hotplug where
  "waiting_then_vda = \<lparr>hp_map = [(''/devices/pci0000:00/0:2/virtio'', ''vda'')], hp_watchers = [],
     hp_chan = (\<lambda>_. [])(7 := [''vda'']), hp_req = [7 \<mapsto> Waiting ''0:2''],
     hp_seen = [(''/devices/pci0000:00/0:2/virtio'', ''vda'')]\<rparr>"

lemma waiting_then_vda_reachable: "reachable hp_init (hp_step True) waiting_then_vda"
proof -
  let ?i = "\<lparr>hp_map = [], hp_watchers = [], hp_chan = (\<lambda>_. []), hp_req = Map.empty, hp_seen = []\<rparr>"
  let ?s = "enter_request 7 ''0:2'' ?i"
  have "hp_step True ?i ?s" by (rule hp_step.enter) (simp_all add: active_on_def)
  moreover have "handle_uevent vda_message ?s = waiting_then_vda"
    by (simp add: handle_uevent_def vda_event block_event_def ROOT_BUS_PATH_def enter_request_def
        find_device_def block_uevent_def watch_match_def waiting_then_vda_def no_event_def fun_eq_iff)
  ultimately show ?thesis
    by (metis hp_init_def hp_step.uevent reachable_init reachable_step)
qed

lemma no_lost_notification_witness: "give_up 7 waiting_then_vda = None"
proof -
  have "hp_req waiting_then_vda 7 = Some (Waiting ''0:2'')"
    "(''/devices/pci0000:00/0:2/virtio'', ''vda'') \<in> set (hp_map waiting_then_vda)"
    by (simp_all add: waiting_then_vda_def)
  moreover have "watch_match ''/devices/pci0000:00/0:2/virtio'' ''0:2''"
    by (simp add: watch_match_def ROOT_BUS_PATH_def)
  ultimately show ?thesis using no_lost_notification [OF waiting_then_vda_reachable] by blast
qed

text \<open>C2: the answers are right in every interleaving: a name given to a request is the name of a
  device that the thread recorded, below the root bus, whose path contains the address asked for.\<close>
theorem hotplug_answers_right:
  assumes "reachable hp_init (hp_step excl) s" "hp_req s t = Some (Named a n)"
  shows "\<exists>p. (p, n) \<in> set (hp_seen s) \<and> contains a p"
  using names.reachable_inv [OF assms(1)] assms(2) unfolding ok_names_def from_seen_def by blast

lemma hotplug_answers_right_witness:
  "\<exists>s'. take_message 7 waiting_then_vda = Some s' \<and> (\<exists>p. (p, ''vda'') \<in> set (hp_seen s') \<and> contains ''0:2'' p)"
proof -
  obtain s' where s': "take_message 7 waiting_then_vda = Some s'" "hp_req s' 7 = Some (Named ''0:2'' ''vda'')"
    by (simp add: take_message_def waiting_then_vda_def)
  have "reachable hp_init (hp_step True) s'"
    using waiting_then_vda_reachable hp_step.recv [OF s'(1)] by (rule reachable_step)
  from hotplug_answers_right [OF this s'(2)] s'(1) show ?thesis by blast
qed

text \<open>Without that exclusion a notification can be lost: two requests for one address, the second
  replaces the sender of the first in the watcher map; the device then appears, yet the first
  request has nothing in its channel, is no longer watched, and times out.\<close>
lemma duplicate_request_loses_notification:
  "\<exists>s. reachable hp_init (hp_step False) s \<and> hp_req s 1 = Some (Waiting ''0:2'')
     \<and> (''/devices/pci0000:00/0:2/virtio'', ''vda'') \<in> set (hp_map s)
     \<and> watch_match ''/devices/pci0000:00/0:2/virtio'' ''0:2''
     \<and> hp_chan s 1 = [] \<and> 1 \<notin> snd ` set (hp_watchers s) \<and> give_up 1 s \<noteq> None"
proof -
  let ?i = "\<lparr>hp_map = [], hp_watchers = [], hp_chan = (\<lambda>_. []), hp_req = Map.empty, hp_seen = []\<rparr>"
  let ?s1 = "\<lparr>hp_map = [], hp_watchers = [(''0:2'', 1)], hp_chan = (\<lambda>_. []),
     hp_req = [1 \<mapsto> Waiting ''0:2''], hp_seen = []\<rparr>"
  let ?s2 = "\<lparr>hp_map = [], hp_watchers = [(''0:2'', 2)], hp_chan = (\<lambda>_. []),
     hp_req = [1 \<mapsto> Waiting ''0:2'', 2 \<mapsto> Waiting ''0:2''], hp_seen = []\<rparr>"
  let ?p = "''/devices/pci0000:00/0:2/virtio''"
  have m: "watch_match ?p ''0:2''" by (simp add: watch_match_def ROOT_BUS_PATH_def)
  have e: "enter_request 1 ''0:2'' ?i = ?s1" "enter_request 2 ''0:2'' ?s1 = ?s2"
    by (simp_all add: enter_request_def find_device_def)
  have "reachable hp_init (hp_step False) ?i"
    by (rule reachable_init) (simp add: hp_init_def)
  moreover have "hp_step False ?i (enter_request 1 ''0:2'' ?i)" by (rule hp_step.enter) simp_all
  ultimately have "reachable hp_init (hp_step False) ?s1" unfolding e by (rule reachable_step)
  moreover have "hp_step False ?s1 (enter_request 2 ''0:2'' ?s1)" by (rule hp_step.enter) simp_all
  ultimately have "reachable hp_init (hp_step False) ?s2" unfolding e by (rule reachable_step)
  then have "reachable hp_init (hp_step False) (handle_uevent vda_message ?s2)"
    by (rule reachable_step) (rule hp_step.uevent)
  moreover have "handle_uevent vda_message ?s2 = block_uevent ?p ''vda'' ?s2"
    by (simp add: handle_uevent_def vda_event block_event_def ROOT_BUS_PATH_def no_event_def)
  ultimately have "reachable hp_init (hp_step False) (block_uevent ?p ''vda'' ?s2)" by simp
  moreover have "hp_req (block_uevent ?p ''vda'' ?s2) 1 = Some (Waiting ''0:2'')"
    by (simp add: block_uevent_fields)
  moreover have "hp_chan (block_uevent ?p ''vda'' ?s2) 1 = []" by (simp add: block_uevent_fields)
  ultimately show ?thesis
    using m by (intro exI [of _ "block_uevent ?p ''vda'' ?s2"]) (simp add: block_uevent_fields give_up_def)
qed

text \<open>Memory that is hot-plugged is never put online by the uevent thread: the path it builds from
  an event's absolute device path has a double slash and never starts with the memory directory.\<close>
lemma memory_event_ignored:
  assumes "prefix ''/'' (ev_devpath ev)"
  shows "online_memory_path ev = None"
  using assms by (auto simp: online_memory_path_def prefix_def)

lemma memory_event_ignored_witness:
  "online_memory_path (no_event\<lparr>ev_devpath := ''/devices/system/memory/memory32''\<rparr>) = None"
  by (rule memory_event_ignored) simp

text \<open>An event that the kernel prints as a header and \<open>KEY=value\<close> fields is read back field by
  field, the last value of a repeated key winning and unknown keys being ignored.\<close>
lemma parse_uevent_fields:
  assumes "CHR 0x00 \<notin> set header" "\<forall>(k, v) \<in> set kvs. CHR ''='' \<notin> set k \<and> CHR 0x00 \<notin> set (k @ v)"
  shows "parse_uevent (uevent_message header kvs) = fold (\<lambda>(k, v). set_key k v) kvs no_event"
proof -
  have "split_on (CHR 0x00) (uevent_message header kvs) = header # map (\<lambda>(k, v). k @ ''='' @ v) kvs"
    unfolding uevent_message_def by (rule split_on_join) (use assms in auto)
  moreover have "\<forall>(k, v) \<in> set kvs. CHR ''='' \<notin> set k" using assms(2) by auto
  ultimately show ?thesis unfolding parse_uevent_def by (simp only: list.sel set_keys_fold)
qed

lemma parse_uevent_fields_witness:
  "ev_devname (parse_uevent (uevent_message ''add@'' [(''DEVNAME'', ''sda=1''), (''X'', [])])) = ''sda=1''"
  by (subst parse_uevent_fields) (simp_all add: set_key_def no_event_def)

end
