(* ===== verification/Netlink_Wire.thy ===== *)
theory Netlink_Wire
  imports Text
begin

text \<open>
  The wire format of netlink messages (\<open>src/netlink.rs\<close>): the length macros on \<open>u32\<close>, the
  attribute writers and readers, and the table of attributes of a message. A buffer is a list of
  bytes and a pointer an offset into it; an access outside the buffer is \<open>Undefined\<close>. Numbers are in
  the byte order of a little-endian machine, arithmetic wraps as in a release build.
\<close>

section \<open>Buffers\<close>

definition peek :: "bytes \<Rightarrow> nat \<Rightarrow> nat \<Rightarrow> bytes res" where
  "peek m off n = (if off + n \<le> length m then Ok (take n (drop off m)) else Undefined)"

definition poke :: "bytes \<Rightarrow> nat \<Rightarrow> bytes \<Rightarrow> bytes res" where
  "poke m off bs =
     (if off + length bs \<le> length m then Ok (take off m @ bs @ drop (off + length bs) m)
      else Undefined)"

text \<open>What the message code relies on: reads of a written area and of areas apart from it.\<close>

locale byte_store =
  fixes rd :: "'m \<Rightarrow> nat \<Rightarrow> nat \<Rightarrow> bytes res"
    and wr :: "'m \<Rightarrow> nat \<Rightarrow> bytes \<Rightarrow> 'm res"
    and len :: "'m \<Rightarrow> nat"
  assumes rd_ok: "rd m off n = Ok bs \<Longrightarrow> length bs = n \<and> off + n \<le> len m"
    and rd_in: "off + n \<le> len m \<Longrightarrow> \<exists>bs. rd m off n = Ok bs"
    and wr_in: "off + length bs \<le> len m \<Longrightarrow> \<exists>m'. wr m off bs = Ok m'"
    and wr_len: "wr m off bs = Ok m' \<Longrightarrow> len m' = len m"
    and rd_wr: "wr m off bs = Ok m' \<Longrightarrow> rd m' off (length bs) = Ok bs"
    and rd_wr_before: "wr m off bs = Ok m' \<Longrightarrow> o' + n \<le> off \<Longrightarrow> rd m' o' n = rd m o' n"
    and rd_wr_after: "wr m off bs = Ok m' \<Longrightarrow> off + length bs \<le> o' \<Longrightarrow> rd m' o' n = rd m o' n"
begin

text \<open>Two areas side by side are both read back.\<close>

lemma rd_wr_two:
  assumes "wr m off bs = Ok m1" "wr m1 (off + length bs) cs = Ok m2"
  shows "rd m2 off (length bs) = Ok bs \<and> rd m2 (off + length bs) (length cs) = Ok cs"
  using rd_wr [OF assms(1)] rd_wr [OF assms(2)] rd_wr_before [OF assms(2)] by simp

lemma wr_two_in:
  assumes "off + length bs + length cs \<le> len m"
  obtains m1 m2 where "wr m off bs = Ok m1" "wr m1 (off + length bs) cs = Ok m2" "len m2 = len m"
proof -
  obtain m1 where 1: "wr m off bs = Ok m1" using wr_in assms by (metis add_leD1)
  then have "len m1 = len m" by (rule wr_len)
  with assms obtain m2 where "wr m1 (off + length bs) cs = Ok m2" using wr_in by metis
  with 1 wr_len that show thesis by metis
qed

end

lemma peek_Ok: "peek m off n = Ok bs \<longleftrightarrow> off + n \<le> length m \<and> bs = take n (drop off m)"
  by (auto simp: peek_def)

lemma poke_Ok: "poke m off bs = Ok m' \<longleftrightarrow>
    off + length bs \<le> length m \<and> m' = take off m @ bs @ drop (off + length bs) m"
  by (auto simp: poke_def)

interpretation mem: byte_store peek poke length
proof
  fix m :: bytes and off n o' bs m'
  show "peek m off n = Ok bs \<Longrightarrow> length bs = n \<and> off + n \<le> length m"
    by (auto simp: peek_Ok)
  show "off + n \<le> length m \<Longrightarrow> \<exists>bs. peek m off n = Ok bs" by (simp add: peek_Ok)
  show "off + length bs \<le> length m \<Longrightarrow> \<exists>m'. poke m off bs = Ok m'" by (simp add: poke_Ok)
  show "poke m off bs = Ok m' \<Longrightarrow> length m' = length m" by (auto simp: poke_Ok)
  show "poke m off bs = Ok m' \<Longrightarrow> peek m' off (length bs) = Ok bs" by (auto simp: poke_Ok peek_Ok)
  show "poke m off bs = Ok m' \<Longrightarrow> o' + n \<le> off \<Longrightarrow> peek m' o' n = peek m o' n"
    by (auto simp: poke_Ok peek_def drop_take)
  assume p: "poke m off bs = Ok m'" and o: "off + length bs \<le> o'"
  then obtain k where "o' = off + length bs + k" using le_Suc_ex by blast
  with p show "peek m' o' n = peek m o' n" by (auto simp: poke_Ok peek_def ac_simps)
qed

text \<open>Little-endian numbers of \<open>n\<close> bytes.\<close>

primrec put_le :: "nat \<Rightarrow> 'a::len word \<Rightarrow> bytes" where
  "put_le 0 w = []"
| "put_le (Suc n) w = ucast w # put_le n (drop_bit 8 w)"

primrec get_le :: "bytes \<Rightarrow> 'a::len word" where
  "get_le [] = 0"
| "get_le (b # bs) = ucast b OR push_bit 8 (get_le bs)"

lemma length_put_le [simp]: "length (put_le n w) = n"
  by (induction n arbitrary: w) auto

lemma get_put_le_take: "get_le (put_le n w) = take_bit (8 * n) w"
proof (induction n arbitrary: w)
  case (Suc n)
  show ?case
    by (rule bit_word_eqI)
      (auto simp: Suc bit_simps bit_or_iff not_less)
qed simp

lemma get_put_le: "LENGTH('a) \<le> 8 * n \<Longrightarrow> get_le (put_le n w) = (w :: 'a::len word)"
  by (simp add: get_put_le_take take_bit_word_eq_self)

section \<open>The macros\<close>

definition RTA_ALIGNTO :: u32 where "RTA_ALIGNTO = 4"
definition NLMSG_ALIGNTO :: u32 where "NLMSG_ALIGNTO = 4"

definition RTA_ALIGN :: "u32 \<Rightarrow> u32" where
  "RTA_ALIGN x = (x + (RTA_ALIGNTO - 1)) AND NOT (RTA_ALIGNTO - 1)"

definition NLMSG_ALIGN :: "u32 \<Rightarrow> u32" where
  "NLMSG_ALIGN l = (l + NLMSG_ALIGNTO - 1) AND NOT (NLMSG_ALIGNTO - 1)"

text \<open>\<open>mem::size_of\<close> of \<open>rtattr\<close> is 4, of \<open>nlmsghdr\<close> 16.\<close>

definition RTA_LENGTH :: "u32 \<Rightarrow> u32" where
  "RTA_LENGTH l = RTA_ALIGN (l + 4)"

definition NLMSG_HDRLEN :: u32 where
  "NLMSG_HDRLEN = NLMSG_ALIGN 16"

definition NLMSG_LENGTH :: "u32 \<Rightarrow> u32" where
  "NLMSG_LENGTH l = l + NLMSG_HDRLEN"

definition NLMSG_SPACE :: "u32 \<Rightarrow> u32" where
  "NLMSG_SPACE l = NLMSG_ALIGN (NLMSG_LENGTH l)"

text \<open>\<open>RTA_OK\<close> and \<open>NLMSG_OK\<close> look at the length in the header only once the rest is long enough.\<close>

definition RTA_OK :: "u16 \<Rightarrow> u32 \<Rightarrow> bool" where
  "RTA_OK rta_len l \<longleftrightarrow> 4 \<le> l \<and> 4 \<le> (ucast rta_len :: u32) \<and> ucast rta_len \<le> l"

definition NLMSG_OK :: "u32 \<Rightarrow> u32 \<Rightarrow> bool" where
  "NLMSG_OK nlmsg_len l \<longleftrightarrow> 16 \<le> l \<and> 16 \<le> nlmsg_len \<and> nlmsg_len \<le> l"

definition RTA_PAYLOAD :: "u16 \<Rightarrow> u32" where
  "RTA_PAYLOAD rta_len = ucast rta_len - RTA_LENGTH 0"

definition NLMSG_PAYLOAD :: "u32 \<Rightarrow> u32 \<Rightarrow> u32" where
  "NLMSG_PAYLOAD nlmsg_len l = nlmsg_len - NLMSG_SPACE l"

lemma Suc_pred2: "2 \<le> n \<Longrightarrow> Suc (Suc (n - 2)) = n"
  by simp

lemma and_not_3: "(x :: u32) AND - 4 = push_bit 2 (drop_bit 2 x)"
proof (rule bit_word_eqI)
  fix n assume "n < LENGTH(32)"
  have m: "(- 4 :: u32) = NOT (mask 2)" by (simp add: mask_eq_exp_minus_1)
  show "bit (x AND - 4) n = bit (push_bit 2 (drop_bit 2 x)) n"
    unfolding m using \<open>n < LENGTH(32)\<close> Suc_pred2
    by (auto simp: bit_and_iff bit_not_iff bit_mask_iff bit_push_bit_iff bit_drop_bit_eq not_less)
qed

lemma unat_and_not_3: "unat ((x :: u32) AND - 4) = 4 * (unat x div 4)"
proof -
  have "unat x < 2 ^ 32"
    using unsigned_less [of x] by simp
  then have "4 * (unat x div 4) < 2 ^ 32" by simp
  then show ?thesis
    by (simp only: and_not_3 unsigned_push_bit_eq unsigned_drop_bit_eq)
      (simp add: drop_bit_eq_div push_bit_eq_mult take_bit_eq_mod mult.commute)
qed

lemma unat_RTA_ALIGN:
  assumes "unat x + 3 < 2 ^ 32"
  shows "unat (RTA_ALIGN x) = 4 * ((unat x + 3) div 4)"
proof -
  have "unat (x + 3) = unat x + 3"
    using assms by (simp add: unat_plus_if')
  then show ?thesis
    by (simp only: RTA_ALIGN_def RTA_ALIGNTO_def) (simp add: unat_and_not_3)
qed

lemma NLMSG_ALIGN_eq: "NLMSG_ALIGN = RTA_ALIGN"
  by (rule ext) (simp add: NLMSG_ALIGN_def RTA_ALIGN_def NLMSG_ALIGNTO_def RTA_ALIGNTO_def
      add.commute)

lemma RTA_LENGTH_0 [simp]: "RTA_LENGTH 0 = 4"
  by (simp add: RTA_LENGTH_def RTA_ALIGN_def RTA_ALIGNTO_def)

section \<open>Headers\<close>

text \<open>The fixed structures, with their C layout (\<open>repr(C)\<close>).\<close>

record rtattr =
  rta_len :: u16
  rta_type :: u16

record nlmsghdr =
  nlmsg_len :: u32
  nlmsg_type :: u16
  nlmsg_flags :: u16
  nlmsg_seq :: u32
  nlmsg_pid :: u32

record ifinfomsg =
  ifi_family :: u8
  ifi_pad :: u8
  ifi_type :: u16
  ifi_index :: u32
  ifi_flags :: u32
  ifi_change :: u32

record ifaddrmsg =
  ifa_family :: u8
  ifa_prefixlen :: u8
  ifa_flags :: u8
  ifa_scope :: u8
  ifa_index :: u32

record rtmsg =
  rtm_family :: u8
  rtm_dst_len :: u8
  rtm_src_len :: u8
  rtm_tos :: u8
  rtm_table :: u8
  rtm_protocol :: u8
  rtm_scope :: u8
  rtm_type :: u8
  rtm_flags :: u32

definition rtattr_bytes :: "rtattr \<Rightarrow> bytes" where
  "rtattr_bytes a = put_le 2 (rta_len a) @ put_le 2 (rta_type a)"

definition get_rtattr :: "bytes \<Rightarrow> rtattr" where
  "get_rtattr bs = \<lparr>rta_len = get_le (take 2 bs), rta_type = get_le (drop 2 bs)\<rparr>"

definition nlmsghdr_bytes :: "nlmsghdr \<Rightarrow> bytes" where
  "nlmsghdr_bytes h = put_le 4 (nlmsg_len h) @ put_le 2 (nlmsg_type h) @ put_le 2 (nlmsg_flags h)
     @ put_le 4 (nlmsg_seq h) @ put_le 4 (nlmsg_pid h)"

definition get_nlmsghdr :: "bytes \<Rightarrow> nlmsghdr" where
  "get_nlmsghdr bs = \<lparr>nlmsg_len = get_le (take 4 bs), nlmsg_type = get_le (take 2 (drop 4 bs)),
     nlmsg_flags = get_le (take 2 (drop 6 bs)), nlmsg_seq = get_le (take 4 (drop 8 bs)),
     nlmsg_pid = get_le (take 4 (drop 12 bs))\<rparr>"

definition ifinfomsg_bytes :: "ifinfomsg \<Rightarrow> bytes" where
  "ifinfomsg_bytes i = [ifi_family i, ifi_pad i] @ put_le 2 (ifi_type i) @ put_le 4 (ifi_index i)
     @ put_le 4 (ifi_flags i) @ put_le 4 (ifi_change i)"

definition get_ifinfomsg :: "bytes \<Rightarrow> ifinfomsg" where
  "get_ifinfomsg bs = \<lparr>ifi_family = get_le (take 1 bs), ifi_pad = get_le (take 1 (drop 1 bs)),
     ifi_type = get_le (take 2 (drop 2 bs)), ifi_index = get_le (take 4 (drop 4 bs)),
     ifi_flags = get_le (take 4 (drop 8 bs)), ifi_change = get_le (take 4 (drop 12 bs))\<rparr>"

definition ifaddrmsg_bytes :: "ifaddrmsg \<Rightarrow> bytes" where
  "ifaddrmsg_bytes i = [ifa_family i, ifa_prefixlen i, ifa_flags i, ifa_scope i]
     @ put_le 4 (ifa_index i)"

definition get_ifaddrmsg :: "bytes \<Rightarrow> ifaddrmsg" where
  "get_ifaddrmsg bs = \<lparr>ifa_family = get_le (take 1 bs), ifa_prefixlen = get_le (take 1 (drop 1 bs)),
     ifa_flags = get_le (take 1 (drop 2 bs)), ifa_scope = get_le (take 1 (drop 3 bs)),
     ifa_index = get_le (take 4 (drop 4 bs))\<rparr>"

definition rtmsg_bytes :: "rtmsg \<Rightarrow> bytes" where
  "rtmsg_bytes r = [rtm_family r, rtm_dst_len r, rtm_src_len r, rtm_tos r, rtm_table r,
     rtm_protocol r, rtm_scope r, rtm_type r] @ put_le 4 (rtm_flags r)"

definition get_rtmsg :: "bytes \<Rightarrow> rtmsg" where
  "get_rtmsg bs = \<lparr>rtm_family = get_le (take 1 bs), rtm_dst_len = get_le (take 1 (drop 1 bs)),
     rtm_src_len = get_le (take 1 (drop 2 bs)), rtm_tos = get_le (take 1 (drop 3 bs)),
     rtm_table = get_le (take 1 (drop 4 bs)), rtm_protocol = get_le (take 1 (drop 5 bs)),
     rtm_scope = get_le (take 1 (drop 6 bs)), rtm_type = get_le (take 1 (drop 7 bs)),
     rtm_flags = get_le (take 4 (drop 8 bs))\<rparr>"

lemma get_le_1 [simp]: "get_le [b] = ucast b"
  by simp

lemma drop_Cons_num: "drop (numeral n) (x # xs) = drop (numeral n - 1) xs"
  by (simp add: drop_Cons')

lemma take_Cons_num: "take (numeral n) (x # xs) = x # take (numeral n - 1) xs"
  by (simp add: take_Cons')

lemma struct_roundtrips:
  "get_rtattr (rtattr_bytes a) = a"
  "get_nlmsghdr (nlmsghdr_bytes h) = h"
  "get_ifinfomsg (ifinfomsg_bytes i) = i"
  "get_ifaddrmsg (ifaddrmsg_bytes f) = f"
  "get_rtmsg (rtmsg_bytes r) = r"
  by (simp_all add: get_rtattr_def rtattr_bytes_def get_nlmsghdr_def nlmsghdr_bytes_def
      get_ifinfomsg_def ifinfomsg_bytes_def get_ifaddrmsg_def ifaddrmsg_bytes_def
      get_rtmsg_def rtmsg_bytes_def get_put_le drop_Cons_num take_Cons_num)

lemma struct_lengths [simp]:
  "length (rtattr_bytes a) = 4" "length (nlmsghdr_bytes h) = 16" "length (ifinfomsg_bytes i) = 16"
  "length (ifaddrmsg_bytes f) = 8" "length (rtmsg_bytes r) = 12"
  by (simp_all add: rtattr_bytes_def nlmsghdr_bytes_def ifinfomsg_bytes_def ifaddrmsg_bytes_def
      rtmsg_bytes_def)

section \<open>Writing attributes\<close>

text \<open>
  A message lies at the start of its buffer \<open>m\<close>, so that \<open>NLMSG_TAIL\<close> is the aligned length.
  \<open>data\<close> holds the \<open>len\<close> bytes the pointer of the source leads to.
\<close>

definition msg_len :: "bytes \<Rightarrow> u32 res" where
  "msg_len m = map_res get_le (peek m 0 4)"

definition nlmsg_tail :: "bytes \<Rightarrow> nat res" where
  "nlmsg_tail m = map_res (\<lambda>l. unat (NLMSG_ALIGN l)) (msg_len m)"

definition grow_msg :: "bytes \<Rightarrow> u16 \<Rightarrow> bytes res" where
  "grow_msg m alen = bind_res (msg_len m) (\<lambda>l.
     poke m 0 (put_le 4 (NLMSG_ALIGN l + RTA_ALIGN (ucast alen))))"

definition addattr_var :: "bytes \<Rightarrow> u16 \<Rightarrow> bytes \<Rightarrow> bytes res" where
  "addattr_var m cat data = bind_res (nlmsg_tail m) (\<lambda>rta.
     let alen = ucast (RTA_LENGTH (of_nat (length data))) :: u16
     in bind_res (poke m (rta + 2) (put_le 2 cat)) (\<lambda>m.
        bind_res (poke m rta (put_le 2 alen)) (\<lambda>m.
        bind_res (if length data > 0 then poke m (rta + 4) data else Ok m) (\<lambda>m.
        grow_msg m alen))))"

definition addattr_str :: "bytes \<Rightarrow> u16 \<Rightarrow> bytes \<Rightarrow> bytes res" where
  "addattr_str m cat data = bind_res (nlmsg_tail m) (\<lambda>rta.
     let alen = ucast (RTA_LENGTH (of_nat (length data + 1))) :: u16
     in bind_res (poke m (rta + 2) (put_le 2 cat)) (\<lambda>m.
        bind_res (poke m rta (put_le 2 alen)) (\<lambda>m.
        bind_res (poke m (rta + 4) data) (\<lambda>m. grow_msg m alen))))"

definition addattr_size :: "bytes \<Rightarrow> u16 \<Rightarrow> u64 \<Rightarrow> nat \<Rightarrow> bytes res" where
  "addattr_size m cat val sz =
     (if \<not> (sz = 1 \<or> sz = 2 \<or> sz = 4 \<or> sz = 8) then Panic
      else bind_res (nlmsg_tail m) (\<lambda>rta.
        let alen = ucast (RTA_LENGTH (of_nat sz)) :: u16
        in bind_res (poke m (rta + 2) (put_le 2 cat)) (\<lambda>m.
           bind_res (poke m (rta + 4) (put_le sz val)) (\<lambda>m.
           bind_res (poke m rta (put_le 2 alen)) (\<lambda>m. grow_msg m alen)))))"

definition addattr8 :: "bytes \<Rightarrow> u16 \<Rightarrow> u8 \<Rightarrow> bytes res" where
  "addattr8 m cat val = addattr_size m cat (ucast val) 1"

definition addattr16 :: "bytes \<Rightarrow> u16 \<Rightarrow> u16 \<Rightarrow> bytes res" where
  "addattr16 m cat val = addattr_size m cat (ucast val) 2"

definition addattr32 :: "bytes \<Rightarrow> u16 \<Rightarrow> u32 \<Rightarrow> bytes res" where
  "addattr32 m cat val = addattr_size m cat (ucast val) 4"

definition addattr64 :: "bytes \<Rightarrow> u16 \<Rightarrow> u64 \<Rightarrow> bytes res" where
  "addattr64 m cat val = addattr_size m cat val 8"

section \<open>Reading attributes\<close>

definition read_rtattr :: "bytes \<Rightarrow> nat \<Rightarrow> rtattr res" where
  "read_rtattr m p = map_res get_rtattr (peek m p 4)"

text \<open>The table of \<open>parse_attrs\<close>: for each type below \<open>max\<close> the offset of its first attribute.\<close>

function attrs_loop :: "bytes \<Rightarrow> nat \<Rightarrow> u32 \<Rightarrow> nat option list \<Rightarrow> nat option list res" where
  "attrs_loop m rta rtalen attrs =
     (if rtalen < 4 then Ok attrs
      else (case read_rtattr m rta of
        Ok a \<Rightarrow>
          if RTA_OK (rta_len a) rtalen then
            (let rtype = unat (rta_type a);
                 attrs' = (if rtype < length attrs \<and> attrs ! rtype = None
                           then attrs[rtype := Some rta] else attrs);
                 step = RTA_ALIGN (ucast (rta_len a))
             in attrs_loop m (rta + unat step) (rtalen - step) attrs')
          else Ok attrs
      | Err e \<Rightarrow> Err e | Panic \<Rightarrow> Panic | Hang \<Rightarrow> Hang | Undefined \<Rightarrow> Undefined))"
  by auto

definition parse_attrs :: "bytes \<Rightarrow> nat \<Rightarrow> u32 \<Rightarrow> nat \<Rightarrow> nat option list res" where
  "parse_attrs m rta rtalen max_ty = attrs_loop m rta rtalen (replicate max_ty None)"

definition getattr_var :: "bytes \<Rightarrow> nat option \<Rightarrow> bytes res" where
  "getattr_var m rta = bind_res (unwrap rta) (\<lambda>p. bind_res (read_rtattr m p) (\<lambda>a.
     peek m (p + 4) (unat (RTA_PAYLOAD (rta_len a)))))"

definition getattr_size :: "bytes \<Rightarrow> nat \<Rightarrow> u64 res" where
  "getattr_size m p = bind_res (read_rtattr m p) (\<lambda>a.
     let alen = unat (RTA_PAYLOAD (rta_len a))
     in if alen = 1 \<or> alen = 2 \<or> alen = 4 \<or> alen = 8 then map_res get_le (peek m (p + 4) alen)
        else Panic)"

definition getattr_n :: "nat \<Rightarrow> bytes \<Rightarrow> nat \<Rightarrow> u64 res" where
  "getattr_n n m p = bind_res (read_rtattr m p) (\<lambda>a.
     if RTA_PAYLOAD (rta_len a) = of_nat n then getattr_size m p else Panic)"

definition getattr8 :: "bytes \<Rightarrow> nat \<Rightarrow> u8 res" where
  "getattr8 m p = map_res ucast (getattr_n 1 m p)"

definition getattr16 :: "bytes \<Rightarrow> nat \<Rightarrow> u16 res" where
  "getattr16 m p = map_res ucast (getattr_n 2 m p)"

definition getattr32 :: "bytes \<Rightarrow> nat \<Rightarrow> u32 res" where
  "getattr32 m p = map_res ucast (getattr_n 4 m p)"

definition getattr64 :: "bytes \<Rightarrow> nat \<Rightarrow> u64 res" where
  "getattr64 m p = getattr_n 8 m p"


lemma unat_u16: "unat (l :: u16) < 65536"
  using unsigned_less [of l] by simp

lemma unat_ucast_u16 [simp]: "unat (ucast (l :: u16) :: u32) = unat l"
  using unat_u16 [of l] by (simp add: unsigned_ucast_eq take_bit_eq_mod)

lemma RTA_ALIGN_pos:
  assumes "4 \<le> (ucast (l :: u16) :: u32)"
  shows "4 \<le> unat (RTA_ALIGN (ucast l))"
proof -
  have "4 \<le> unat l"
    using assms by (simp add: word_le_nat_alt)
  then show ?thesis
    using unat_u16 [of l] by (subst unat_RTA_ALIGN) auto
qed

termination attrs_loop
proof (relation "measure (\<lambda>(m, rta, rtalen, attrs). length m + 1 - rta)", goal_cases)
  case (2 m rta rtalen attrs a rtype attrs' st)
  then have "rta + 4 \<le> length m"
    by (auto simp: read_rtattr_def map_res_Ok peek_Ok)
  moreover have "4 \<le> unat st" using 2 RTA_ALIGN_pos by (simp add: RTA_OK_def)
  ultimately show ?case by simp
qed simp

declare attrs_loop.simps [simp del]

section \<open>The attributes in a buffer\<close>

definition pad4 :: "bytes \<Rightarrow> bytes" where
  "pad4 d = d @ replicate ((4 - length d mod 4) mod 4) 0"

definition attr_size :: "u16 \<times> bytes \<Rightarrow> nat" where
  "attr_size a = 4 + length (pad4 (snd a))"

text \<open>
  \<open>attrs_at m off as e\<close>: the area of \<open>m\<close> from \<open>off\<close> to \<open>e\<close> holds the attributes \<open>as\<close> (type and
  payload) one after the other, each at a multiple of four from \<open>off\<close>.
\<close>

fun attrs_at :: "bytes \<Rightarrow> nat \<Rightarrow> (u16 \<times> bytes) list \<Rightarrow> nat \<Rightarrow> bool" where
  "attrs_at m off [] e \<longleftrightarrow> off = e"
| "attrs_at m off ((t, d) # as) e \<longleftrightarrow>
     length d + 4 < 2 ^ 16
     \<and> peek m off 4 = Ok (rtattr_bytes \<lparr>rta_len = of_nat (length d + 4), rta_type = t\<rparr>)
     \<and> peek m (off + 4) (length d) = Ok d
     \<and> attrs_at m (off + attr_size (t, d)) as e"

fun first_at :: "nat \<Rightarrow> (u16 \<times> bytes) list \<Rightarrow> nat \<Rightarrow> nat option" where
  "first_at off [] i = None"
| "first_at off ((t, d) # as) i = (if unat t = i then Some off else first_at (off + attr_size (t, d)) as i)"

lemma length_pad4: "length (pad4 d) = 4 * ((length d + 3) div 4)"
proof -
  obtain q r where "length d = 4 * q + r" "r < 4"
    by (metis mod_less_divisor mult_div_mod_eq zero_less_numeral)
  then have "r = 0 \<or> r = 1 \<or> r = 2 \<or> r = 3" and d: "length d = 4 * q + r" by auto
  then show ?thesis by (auto simp: pad4_def)
qed

lemma pad4_aligned: "length d mod 4 = 0 \<Longrightarrow> pad4 d = d"
  by (simp add: pad4_def)

lemma attrs_at_le: "attrs_at m off as e \<Longrightarrow> off \<le> e"
  by (induction m off as e rule: attrs_at.induct) auto

lemma attr_size_ge: "length (snd a) + 4 \<le> attr_size a"
  by (simp add: attr_size_def pad4_def)

lemma attr_size_nat: "attr_size (t, d) = 4 * ((length d + 7) div 4)"
proof -
  have "(length d + 7) div 4 = 1 + (length d + 3) div 4" by presburger
  then show ?thesis by (simp add: attr_size_def length_pad4)
qed

lemma attrs_at_poke:
  assumes "poke m p bs = Ok m'" "e \<le> p \<or> p + length bs \<le> off"
  shows "attrs_at m off as e \<Longrightarrow> attrs_at m' off as e"
  using assms
proof (induction m off as e rule: attrs_at.induct)
  case (2 m off t d as e)
  then have r: "attrs_at m (off + attr_size (t, d)) as e" by simp
  then have "off + attr_size (t, d) \<le> e" by (rule attrs_at_le)
  moreover have "length d + 4 \<le> attr_size (t, d)" using attr_size_ge [of "(t, d)"] by simp
  ultimately have "off + 4 + length d \<le> p \<or> p + length bs \<le> off" using 2 by auto
  then have "peek m' off 4 = peek m off 4" "peek m' (off + 4) (length d) = peek m (off + 4) (length d)"
    using mem.rd_wr_before [OF 2(3)] mem.rd_wr_after [OF 2(3)] by auto
  moreover have "attrs_at m' (off + attr_size (t, d)) as e"
    using 2 r by auto
  ultimately show ?case using 2 by simp
qed simp

lemma attrs_at_append:
  "attrs_at m off as e \<Longrightarrow> attrs_at m e bs e' \<Longrightarrow> attrs_at m off (as @ bs) e'"
  by (induction m off as e rule: attrs_at.induct) auto

section \<open>The attribute table\<close>

fun fill :: "nat option list \<Rightarrow> nat \<Rightarrow> (u16 \<times> bytes) list \<Rightarrow> nat option list" where
  "fill tbl off [] = tbl"
| "fill tbl off ((t, d) # as) =
     fill (if unat t < length tbl \<and> tbl ! unat t = None then tbl[unat t := Some off] else tbl)
       (off + attr_size (t, d)) as"

lemma length_fill [simp]: "length (fill tbl off as) = length tbl"
  by (induction tbl off as rule: fill.induct) auto

lemma fill_nth: "i < length tbl \<Longrightarrow>
    fill tbl off as ! i = (case tbl ! i of None \<Rightarrow> first_at off as i | Some p \<Rightarrow> Some p)"
  by (induction tbl off as rule: fill.induct)
    (auto simp: nth_list_update split: option.split)

lemma unat_eq [simp]: "unat (a :: u16) = unat b \<longleftrightarrow> a = b"
  by (simp add: word_unat_eq_iff)

lemma u16_length:
  assumes "n + 4 < 65536"
  shows "unat (of_nat n + 4 :: u16) = n + 4"
proof -
  have "unat (of_nat (n + 4) :: u16) = n + 4"
    using assms by (simp only: unsigned_of_nat of_nat_id take_bit_eq_mod) simp
  then show ?thesis by simp
qed

lemma unat_align_attr:
  assumes "length d + 4 < 2 ^ 16"
  shows "unat (RTA_ALIGN (ucast (of_nat (length d + 4) :: u16))) = attr_size (t, d)"
proof -
  have "unat (of_nat (length d) + 4 :: u16) = length d + 4" using assms by (simp add: u16_length)
  then show ?thesis using assms by (subst unat_RTA_ALIGN) (auto simp: attr_size_nat ac_simps)
qed

lemma attrs_loop_at:
  "attrs_at m off as e \<Longrightarrow> e < 2 ^ 32 \<Longrightarrow>
    attrs_loop m off (of_nat (e - off)) tbl = Ok (fill tbl off as)"
proof (induction m off as e arbitrary: tbl rule: attrs_at.induct)
  case (1 m off e)
  then show ?case by (simp add: attrs_loop.simps)
next
  case (2 m off t d as e)
  let ?l = "of_nat (length d + 4) :: u16" and ?s = "attr_size (t, d)"
  have n: "length d + 4 < 2 ^ 16" and r: "attrs_at m (off + ?s) as e"
    using 2 by simp_all
  have ge: "length d + 4 \<le> ?s" using attr_size_ge [of "(t, d)"] by simp
  have le: "off + ?s \<le> e" using r by (rule attrs_at_le)
  have a: "read_rtattr m off = Ok \<lparr>rta_len = ?l, rta_type = t\<rparr>"
    using 2 by (simp add: read_rtattr_def struct_roundtrips)
  have l: "unat ?l = length d + 4" using n by (simp add: u16_length)
  have rl: "unat (of_nat (e - off) :: u32) = e - off"
    using 2 by (simp add: unat_of_nat take_bit_eq_mod)
  have ok: "RTA_OK ?l (of_nat (e - off))" and big: "\<not> (of_nat (e - off) :: u32) < 4"
    using l rl le ge by (auto simp: RTA_OK_def word_le_nat_alt word_less_nat_alt)
  have al: "unat (RTA_ALIGN (ucast ?l)) = ?s" by (rule unat_align_attr [OF n])
  then have s: "RTA_ALIGN (ucast ?l) = of_nat ?s" by (metis of_nat_unat ucast_id)
  have "(of_nat (e - off) :: u32) - of_nat ?s = of_nat (e - off - ?s)"
    using le by (subst of_nat_diff) auto
  then have rest: "(of_nat (e - off) :: u32) - RTA_ALIGN (ucast ?l) = of_nat (e - (off + ?s))"
    using le by (simp only: s) (simp add: algebra_simps)
  show ?case
    using 2(1) [OF r 2(3)] al
    by (subst attrs_loop.simps) (simp add: a ok big rest Let_def ac_simps del: of_nat_add of_nat_diff)
qed

lemma parse_attrs_at:
  "attrs_at m off as e \<Longrightarrow> e < 2 ^ 32 \<Longrightarrow>
    parse_attrs m off (of_nat (e - off)) n = Ok (map (first_at off as) [0..<n])"
  by (simp add: parse_attrs_def attrs_loop_at) (rule nth_equalityI, auto simp: fill_nth)

lemma getattr_var_at:
  assumes "peek m p 4 = Ok (rtattr_bytes \<lparr>rta_len = of_nat (length d + 4), rta_type = t\<rparr>)"
    and "peek m (p + 4) (length d) = Ok d" "length d + 4 < 2 ^ 16"
  shows "getattr_var m (Some p) = Ok d"
proof -
  have "unat (RTA_PAYLOAD (of_nat (length d + 4))) = length d"
    using assms(3)
    by (simp add: RTA_PAYLOAD_def unat_sub_if' u16_length)
  then show ?thesis
    using assms by (simp add: getattr_var_def read_rtattr_def struct_roundtrips)
qed

lemma first_at_data:
  "attrs_at m off as e \<Longrightarrow> (case map_of as t of None \<Rightarrow> first_at off as (unat t) = None
     | Some d \<Rightarrow> \<exists>p. first_at off as (unat t) = Some p \<and> getattr_var m (Some p) = Ok d)"
  by (induction m off as e rule: attrs_at.induct) (auto simp: getattr_var_at split: option.splits)

section \<open>Messages built by the writers\<close>

text \<open>
  \<open>blank m e\<close>: from \<open>e\<close> on the buffer holds zeros, as the code allocates it.
  \<open>message m off as e\<close>: \<open>m\<close> starts with a message of length \<open>e\<close> that has the attributes \<open>as\<close>
  from \<open>off\<close> on.
\<close>

definition blank :: "bytes \<Rightarrow> nat \<Rightarrow> bool" where
  "blank m e \<longleftrightarrow> (\<forall>k n. e \<le> k \<longrightarrow> k + n \<le> length m \<longrightarrow> peek m k n = Ok (replicate n 0))"

definition message :: "bytes \<Rightarrow> nat \<Rightarrow> (u16 \<times> bytes) list \<Rightarrow> nat \<Rightarrow> bool" where
  "message m off as e \<longleftrightarrow> 4 \<le> off \<and> e mod 4 = 0 \<and> e \<le> length m \<and> length m < 2 ^ 16
     \<and> msg_len m = Ok (of_nat e) \<and> attrs_at m off as e \<and> blank m e"

lemma peek_append:
  "peek m off a = Ok x \<Longrightarrow> peek m (off + a) b = Ok y \<Longrightarrow> peek m off (a + b) = Ok (x @ y)"
  by (auto simp: peek_Ok take_add ac_simps)

lemma poke_nothing: "p \<le> length m \<Longrightarrow> poke m p [] = Ok m"
  by (simp add: poke_def)

lemma unat_u32_of_nat [simp]: "n < 4294967296 \<Longrightarrow> unat (of_nat n :: u32) = n"
  by (simp add: unsigned_of_nat take_bit_eq_mod)

lemma align_id: "e mod 4 = 0 \<Longrightarrow> e < 65536 \<Longrightarrow> RTA_ALIGN (of_nat e) = of_nat e"
  by (rule word_unat_eq_iff [THEN iffD2], subst unat_RTA_ALIGN) auto

lemma RTA_LENGTH_nat:
  assumes "length d < 65536"
  shows "RTA_LENGTH (of_nat (length d)) = of_nat (attr_size (t, d))"
proof -
  have "unat (of_nat (length d) + 4 :: u32) = length d + 4"
    using assms unat_u32_of_nat [of "length d + 4"] by simp
  moreover have div7: "(7 + length d) div 4 = 1 + (length d + 3) div 4" by presburger
  ultimately have "unat (RTA_LENGTH (of_nat (length d))) = attr_size (t, d)"
    using assms div7 by (simp add: RTA_LENGTH_def unat_RTA_ALIGN attr_size_def length_pad4)
  then show ?thesis by (metis of_nat_unat ucast_id)
qed

lemma attr_size_mod: "attr_size a mod 4 = 0"
  by (simp add: attr_size_def length_pad4)

text \<open>The steps of \<open>addattr_var\<close> in a message with enough room.\<close>

lemma ucast_u32_nat: "n < 65536 \<Longrightarrow> ucast (of_nat n :: u32) = (of_nat n :: u16)"
  by (rule word_unat_eq_iff [THEN iffD2])
    (simp add: unsigned_ucast_eq unsigned_of_nat take_bit_eq_mod)

lemma addattr_var_steps:
  assumes "message m off as e" "e + attr_size (t, d) \<le> length m"
  obtains m1 m2 m3 m4 where
    "poke m (e + 2) (put_le 2 t) = Ok m1"
    "poke m1 e (put_le 2 (of_nat (attr_size (t, d)) :: u16)) = Ok m2"
    "poke m2 (e + 4) d = Ok m3"
    "poke m3 0 (put_le 4 (of_nat (e + attr_size (t, d)) :: u32)) = Ok m4"
    "addattr_var m t d = Ok m4" "length m4 = length m"
proof -
  note m = assms(1) [unfolded message_def]
  have sz: "length d + 4 \<le> attr_size (t, d)" using attr_size_ge [of "(t, d)"] by simp
  have len: "e + 4 + length d \<le> length m" using assms(2) sz by simp
  obtain m1 where m1: "poke m (e + 2) (put_le 2 t) = Ok m1"
    using mem.wr_in [of "e + 2" "put_le 2 t" m] len by auto
  obtain m2 where m2: "poke m1 e (put_le 2 (of_nat (attr_size (t, d)) :: u16)) = Ok m2"
    using mem.wr_in [of e "put_le 2 (of_nat (attr_size (t, d)) :: u16)" m1] len mem.wr_len [OF m1] by auto
  obtain m3 where m3: "poke m2 (e + 4) d = Ok m3"
    using mem.wr_in [of "e + 4" d m2] len mem.wr_len [OF m1] mem.wr_len [OF m2] by auto
  have l3: "length m3 = length m"
    using mem.wr_len [OF m1] mem.wr_len [OF m2] mem.wr_len [OF m3] by simp
  obtain m4 where m4: "poke m3 0 (put_le 4 (of_nat (e + attr_size (t, d)) :: u32)) = Ok m4"
    using mem.wr_in [of 0 "put_le 4 (of_nat (e + attr_size (t, d)) :: u32)" m3] l3 len by auto
  have e: "4 \<le> e" "e < 65536" using m attrs_at_le [of m off as e] by auto
  have "peek m3 0 4 = peek m2 0 4" "peek m2 0 4 = peek m1 0 4" "peek m1 0 4 = peek m 0 4"
    using mem.rd_wr_before [OF m1, of 0 4] mem.rd_wr_before [OF m2, of 0 4]
      mem.rd_wr_before [OF m3, of 0 4] e by auto
  then have l: "msg_len m3 = Ok (of_nat e)" using m by (simp add: msg_len_def)
  have asz: "attr_size (t, d) < 65536" using assms(2) m by simp
  have g: "grow_msg m3 (of_nat (attr_size (t, d))) = Ok m4"
  proof -
    have "unat (of_nat (attr_size (t, d)) :: u16) = attr_size (t, d)"
      using asz by (simp add: unsigned_of_nat take_bit_eq_mod)
    then have "ucast (of_nat (attr_size (t, d)) :: u16) = (of_nat (attr_size (t, d)) :: u32)"
      by (metis unat_ucast_u16 of_nat_unat ucast_id)
    then show ?thesis
      using m4 asz e m attr_size_mod [of "(t, d)"]
      by (simp add: grow_msg_def l NLMSG_ALIGN_eq align_id)
  qed
  have tail: "nlmsg_tail m = Ok e"
    using m e by (simp add: nlmsg_tail_def NLMSG_ALIGN_eq align_id)
  have "ucast (RTA_LENGTH (of_nat (length d))) = (of_nat (attr_size (t, d)) :: u16)"
    using RTA_LENGTH_nat [of d t] asz sz by (simp add: ucast_u32_nat)
  moreover have "(if length d > 0 then poke m2 (e + 4) d else Ok m2) = Ok m3"
    using m3 poke_nothing [of "e + 4" m2] len mem.wr_len [OF m1] mem.wr_len [OF m2] by auto
  ultimately have "addattr_var m t d = Ok m4"
    using m1 m2 g by (simp add: addattr_var_def tail Let_def del: zero_less_iff_neq_zero length_greater_0_conv)
  then show thesis using that m1 m2 m3 m4 l3 mem.wr_len [OF m4] by simp
qed

lemma blank_poke:
  assumes "blank m e" "poke m p bs = Ok m'" "p + length bs \<le> e'" "e \<le> e'"
  shows "blank m' e'"
  using assms mem.rd_wr_after [OF assms(2)] mem.wr_len [OF assms(2)]
  by (simp add: blank_def)

lemma addattr_var_message:
  assumes "message m off as e" "e + attr_size (t, d) \<le> length m"
  obtains m' where "addattr_var m t d = Ok m'" "length m' = length m"
    "message m' off (as @ [(t, pad4 d)]) (e + attr_size (t, d))"
    "\<And>k n. 4 \<le> k \<Longrightarrow> k + n \<le> e \<Longrightarrow> peek m' k n = peek m k n"
proof -
  note m = assms(1) [unfolded message_def]
  let ?s = "attr_size (t, d)"
  obtain m1 m2 m3 m4 where
    m1: "poke m (e + 2) (put_le 2 t) = Ok m1" and
    m2: "poke m1 e (put_le 2 (of_nat ?s :: u16)) = Ok m2" and
    m3: "poke m2 (e + 4) d = Ok m3" and
    m4: "poke m3 0 (put_le 4 (of_nat (e + ?s) :: u32)) = Ok m4" and
    add: "addattr_var m t d = Ok m4" "length m4 = length m"
    using addattr_var_steps [OF assms] .
  have sz: "?s = 4 + length (pad4 d)" by (simp add: attr_size_def)
  have e: "4 \<le> e" using m attrs_at_le [of m off as e] by simp
  have mod: "length (pad4 d) mod 4 = 0" by (simp add: length_pad4)
  have old: "peek m4 k n = peek m k n" if "4 \<le> k" "k + n \<le> e" for k n
    using that mem.rd_wr_before [OF m1, of k n] mem.rd_wr_before [OF m2, of k n]
      mem.rd_wr_before [OF m3, of k n] mem.rd_wr_after [OF m4, of k n] by simp
  have oldas: "attrs_at m4 off as e"
    using m attrs_at_poke [OF m1, of e off as] attrs_at_poke [OF m2, of e off as]
      attrs_at_poke [OF m3, of e off as] attrs_at_poke [OF m4, of e off as] by simp
  have b3: "blank m3 (e + 4 + length d)"
    using m blank_poke [OF _ m1, of e "e + 4"] blank_poke [OF _ m2, of "e + 4" "e + 4"]
      blank_poke [OF _ m3, of "e + 4" "e + 4 + length d"] by simp
  have b4: "blank m4 (e + 4 + length d)"
    using b3 e blank_poke [OF _ m4] by simp
  have "peek m4 e 2 = Ok (put_le 2 (of_nat ?s :: u16))"
    using mem.rd_wr [OF m2] mem.rd_wr_before [OF m3, of e 2] mem.rd_wr_after [OF m4, of e 2] e by simp
  moreover have "peek m4 (e + 2) 2 = Ok (put_le 2 t)"
    using mem.rd_wr [OF m1] mem.rd_wr_after [OF m2, of "e + 2" 2]
      mem.rd_wr_before [OF m3, of "e + 2" 2] mem.rd_wr_after [OF m4, of "e + 2" 2] e by simp
  ultimately have hd: "peek m4 e 4 = Ok (rtattr_bytes \<lparr>rta_len = of_nat (length (pad4 d) + 4), rta_type = t\<rparr>)"
    using peek_append [of m4 e 2 _ 2] by (simp add: rtattr_bytes_def sz ac_simps)
  have "peek m4 (e + 4) (length d) = Ok d"
    using mem.rd_wr [OF m3] mem.rd_wr_after [OF m4, of "e + 4" "length d"] e by simp
  moreover have "peek m4 (e + 4 + length d) (length (pad4 d) - length d)
      = Ok (replicate (length (pad4 d) - length d) 0)"
    using b4 assms(2) add by (simp add: blank_def sz pad4_def)
  ultimately have data: "peek m4 (e + 4) (length (pad4 d)) = Ok (pad4 d)"
    using peek_append [of m4 "e + 4" "length d" d] by (simp add: pad4_def)
  have "attr_size (t, pad4 d) = ?s" using mod by (simp add: attr_size_def pad4_aligned)
  then have "attrs_at m4 e [(t, pad4 d)] (e + ?s)"
    using hd data assms(2) m by (simp add: sz)
  with oldas have "attrs_at m4 off (as @ [(t, pad4 d)]) (e + ?s)" by (rule attrs_at_append)
  moreover have "msg_len m4 = Ok (of_nat (e + ?s))"
    using mem.rd_wr [OF m4] by (simp add: msg_len_def get_put_le)
  moreover have "blank m4 (e + ?s)"
    using b4 by (simp add: blank_def sz pad4_def)
  moreover have "(e + ?s) mod 4 = 0"
    using m attr_size_mod [of "(t, d)"] by (simp add: mod_add_eq [symmetric])
  ultimately have "message m4 off (as @ [(t, pad4 d)]) (e + ?s)"
    using m assms(2) add by (simp add: message_def)
  with that add old show thesis by blast
qed

text \<open>An attribute that does not fit is written beyond the buffer.\<close>

lemma addattr_var_beyond:
  assumes "message m off as e" "length m < e + 4 + length d"
  shows "addattr_var m t d = Undefined"
proof -
  note m = assms(1) [unfolded message_def]
  have tail: "nlmsg_tail m = Ok e"
    using m attrs_at_le [of m off as e] by (simp add: nlmsg_tail_def NLMSG_ALIGN_eq align_id)
  have l: "poke m1 p bs = Ok m2 \<Longrightarrow> length m2 = length m1" for m1 p bs m2
    by (rule mem.wr_len)
  show ?thesis
  proof (cases "e + 4 \<le> length m")
    case True
    then obtain m1 where m1: "poke m (e + 2) (put_le 2 t) = Ok m1" by (auto simp: poke_def)
    moreover obtain m2 where m2: "poke m1 e (put_le 2 (ucast (RTA_LENGTH (of_nat (length d))) :: u16)) = Ok m2"
      using True l [OF m1] by (auto simp: poke_def)
    moreover have "poke m2 (e + 4) d = Undefined" "d \<noteq> []"
      using True l [OF m1] l [OF m2] assms(2) by (auto simp: poke_def)
    ultimately show ?thesis by (simp add: addattr_var_def tail Let_def)
  next
    case False
    then show ?thesis by (simp add: addattr_var_def tail Let_def poke_def)
  qed
qed

lemma poke_commute:
  assumes "poke m q b = Ok m1" "poke m1 p a = Ok m2" "p + length a \<le> q"
  shows "bind_res (poke m p a) (\<lambda>m. poke m q b) = Ok m2"
proof -
  have q: "q + length b \<le> length m" "m1 = take q m @ b @ drop (q + length b) m"
    and p: "p + length a \<le> length m1" "m2 = take p m1 @ a @ drop (p + length a) m1"
    using assms(1,2) by (simp_all add: poke_Ok)
  obtain x y z where m: "m = x @ y @ z" "length x = p" "length y = length a"
    using q(1) assms(3) by (metis (no_types, lifting) add_leD1 append_take_drop_id
        diff_add_inverse le_trans length_drop length_take min.absorb2 nat_le_linear
        ordered_cancel_comm_monoid_diff_class.le_diff_conv2)
  obtain k where k: "q = p + length a + k" using assms(3) le_Suc_ex by blast
  show ?thesis using q p m k by (simp add: poke_def)
qed

text \<open>A number is written like the bytes it consists of.\<close>

lemma addattr_size_var:
  assumes "message m off as e" "e + attr_size (t, put_le sz v) \<le> length m" "sz \<in> {1, 2, 4, 8}"
  shows "addattr_size m t v sz = addattr_var m t (put_le sz v)"
proof -
  let ?d = "put_le sz v" and ?s = "attr_size (t, put_le sz v)"
  note m = assms(1) [unfolded message_def]
  have tail: "nlmsg_tail m = Ok e"
    using m attrs_at_le [of m off as e] by (simp add: nlmsg_tail_def NLMSG_ALIGN_eq align_id)
  obtain m1 m2 m3 m4 where
    m1: "poke m (e + 2) (put_le 2 t) = Ok m1" and
    m2: "poke m1 e (put_le 2 (of_nat ?s :: u16)) = Ok m2" and
    m3: "poke m2 (e + 4) ?d = Ok m3" and
    m4: "poke m3 0 (put_le 4 (of_nat (e + ?s) :: u32)) = Ok m4" and
    add: "addattr_var m t ?d = Ok m4" "length m4 = length m"
    using addattr_var_steps [OF assms(1,2)] .
  have len: "e + 4 + length ?d \<le> length m"
    using assms(2) attr_size_ge [of "(t, put_le sz v)"] by simp
  obtain m2' where m2': "poke m1 (e + 4) ?d = Ok m2'"
    using mem.wr_in [of "e + 4" ?d m1] mem.wr_len [OF m1] len by auto
  obtain m3' where m3': "poke m2' e (put_le 2 (of_nat ?s :: u16)) = Ok m3'"
    using mem.wr_in [of e "put_le 2 (of_nat ?s :: u16)" m2'] mem.wr_len [OF m1] mem.wr_len [OF m2'] len
    by auto
  have "bind_res (poke m1 e (put_le 2 (of_nat ?s :: u16))) (\<lambda>m. poke m (e + 4) ?d) = Ok m3'"
    using m2' m3' by (rule poke_commute) simp
  then have same: "m3' = m3" using m2 m3 by simp
  have alen: "ucast (RTA_LENGTH (of_nat sz)) = (of_nat ?s :: u16)"
    using RTA_LENGTH_nat [of ?d t] assms(2) m attr_size_ge [of "(t, put_le sz v)"]
    by (simp add: ucast_u32_nat)
  have "ucast (RTA_LENGTH (of_nat (length ?d))) = (of_nat ?s :: u16)" using alen by simp
  have nz: "0 < sz" using assms(3) by auto
  then have "grow_msg m3 (of_nat ?s) = addattr_var m t ?d"
    using m1 m2 m3 nz by (simp add: addattr_var_def tail Let_def alen)
  then show ?thesis
    using assms(3) m1 m2' m3' by (simp add: addattr_size_def tail Let_def alen same)
qed

section \<open>Round trips\<close>

primrec add_attrs :: "bytes \<Rightarrow> (u16 \<times> bytes) list \<Rightarrow> bytes res" where
  "add_attrs m [] = Ok m"
| "add_attrs m (a # as) = bind_res (addattr_var m (fst a) (snd a)) (\<lambda>m. add_attrs m as)"

abbreviation padded :: "(u16 \<times> bytes) list \<Rightarrow> (u16 \<times> bytes) list" where
  "padded ats \<equiv> map (\<lambda>(t, d). (t, pad4 d)) ats"

lemma add_attrs_message:
  "message m off as e \<Longrightarrow> e + sum_list (map attr_size bs) \<le> length m \<Longrightarrow>
    \<exists>m'. add_attrs m bs = Ok m' \<and> length m' = length m
      \<and> message m' off (as @ padded bs) (e + sum_list (map attr_size bs))"
proof (induction bs arbitrary: m as e)
  case (Cons b bs)
  obtain t d where b: "b = (t, d)" by (cases b)
  have fit: "e + attr_size (t, d) \<le> length m" using Cons.prems(2) b by simp
  obtain m1 where m1: "addattr_var m t d = Ok m1" "length m1 = length m"
    "message m1 off (as @ [(t, pad4 d)]) (e + attr_size (t, d))"
    using addattr_var_message [OF Cons.prems(1) fit] .
  have "e + attr_size (t, d) + sum_list (map attr_size bs) \<le> length m1"
    using Cons.prems(2) b m1(2) by simp
  from Cons.IH [OF m1(3) this] m1(1,2) b show ?case by (auto simp: ac_simps)
qed auto

lemma map_of_padded: "map_of (padded ats) t = map_option pad4 (map_of ats t)"
  by (induction ats) auto

text \<open>C34: Attributes written with \<open>addattr_var\<close> into an empty message whose buffer has room for them
  are read back by \<open>parse_attrs\<close> and \<open>getattr_var\<close>: the table has, for every type below its size,
  the first attribute of that type and nothing for a type that was not written; its bytes are those
  written, with zeros up to a multiple of four.\<close>

theorem attrs_roundtrip:
  assumes "message m e [] e" "e + sum_list (map attr_size ats) \<le> length m"
  shows "\<exists>m' tbl. add_attrs m ats = Ok m'
    \<and> parse_attrs m' e (of_nat (sum_list (map attr_size ats))) n = Ok tbl \<and> length tbl = n
    \<and> (\<forall>t. unat t < n \<longrightarrow> (case map_of ats t of
         None \<Rightarrow> tbl ! unat t = None
       | Some d \<Rightarrow> getattr_var m' (tbl ! unat t) = Ok (pad4 d)))"
proof -
  let ?e = "e + sum_list (map attr_size ats)"
  obtain m' where m': "add_attrs m ats = Ok m'" "length m' = length m" "message m' e (padded ats) ?e"
    using add_attrs_message [OF assms] by auto
  have at: "attrs_at m' e (padded ats) ?e" and le: "?e < 2 ^ 32"
    using m'(2,3) assms by (auto simp: message_def)
  have p: "parse_attrs m' e (of_nat (sum_list (map attr_size ats))) n
      = Ok (map (first_at e (padded ats)) [0..<n])"
    using parse_attrs_at [OF at le] by simp
  have "case map_of ats t of None \<Rightarrow> map (first_at e (padded ats)) [0..<n] ! unat t = None
      | Some d \<Rightarrow> getattr_var m' (map (first_at e (padded ats)) [0..<n] ! unat t) = Ok (pad4 d)"
    if "unat t < n" for t
    using first_at_data [OF at, of t] that by (auto simp: map_of_padded split: option.splits)
  with m'(1) p show ?thesis by auto
qed

lemma addattr_var_ok:
  assumes "message m off as e" "e + attr_size (t, d) \<le> length m"
  shows "\<exists>m'. addattr_var m t d = Ok m' \<and> message m' off (as @ [(t, pad4 d)]) (e + attr_size (t, d))"
  by (rule addattr_var_message [OF assms]) blast

text \<open>Reading a number back needs a payload of exactly its size.\<close>

lemma read_back:
  assumes "message m e [] e" "e + attr_size (t, put_le sz v) \<le> length m" "sz \<in> {1, 2, 4, 8}"
  obtains m' where "addattr_size m t v sz = Ok m'"
    "\<And>k. k < 65536 \<Longrightarrow>
       getattr_n k m' e = (if k = length (pad4 (put_le sz v)) then getattr_size m' e else Panic)"
    "getattr_size m' e = (if length (pad4 (put_le sz v)) \<in> {1, 2, 4, 8}
       then Ok (get_le (pad4 (put_le sz v))) else Panic)"
proof -
  let ?d = "pad4 (put_le sz v)"
  obtain m' where m': "addattr_var m t (put_le sz v) = Ok m'"
      "message m' e [(t, ?d)] (e + attr_size (t, put_le sz v))"
    using addattr_var_ok [OF assms(1,2)] by auto
  then have at: "length ?d + 4 < 65536" "peek m' (e + 4) (length ?d) = Ok ?d"
    and a: "read_rtattr m' e = Ok \<lparr>rta_len = of_nat (length ?d + 4), rta_type = t\<rparr>"
    by (auto simp: message_def read_rtattr_def struct_roundtrips)
  have pl: "RTA_PAYLOAD (of_nat (length ?d + 4)) = of_nat (length ?d)"
    using at(1) by (simp add: RTA_PAYLOAD_def word_unat_eq_iff unat_sub_if' u16_length)
  have eq: "k < 65536 \<Longrightarrow> (of_nat (length ?d) :: u32) = of_nat k \<longleftrightarrow> k = length ?d" for k
    using at(1) by (auto simp: word_unat_eq_iff)
  show thesis
  proof
    show "addattr_size m t v sz = Ok m'"
      using m'(1) addattr_size_var [OF assms] by simp
    show "getattr_size m' e = (if length ?d \<in> {1, 2, 4, 8} then Ok (get_le ?d) else Panic)"
      using at pl by (auto simp: getattr_size_def a Let_def simp del: of_nat_add)
    show "getattr_n k m' e = (if k = length ?d then getattr_size m' e else Panic)"
      if "k < 65536" for k
      using eq [OF that] by (simp add: getattr_n_def a pl del: of_nat_add)
  qed
qed

lemma pad4_numbers:
  "length (pad4 (put_le 1 v)) = 4" "length (pad4 (put_le 2 v)) = 4"
  "pad4 (put_le 4 v) = put_le 4 v" "pad4 (put_le 8 v) = put_le 8 v"
  by (simp_all add: length_pad4 pad4_aligned)

lemma ucast_take32: "ucast (take_bit 32 (ucast (v :: u32) :: u64)) = v"
  by (rule bit_word_eqI) (simp add: bit_simps)

text \<open>A number of 4 or 8 bytes written into an empty message is read back by the reader of its
  width. A number of 1 or 2 bytes is not: \<open>RTA_LENGTH\<close> rounds its length up, the attribute has a
  payload of 4 bytes, and \<open>getattr8\<close>/\<open>getattr16\<close> panic on it.\<close>

lemma number_attrs:
  assumes "message m e [] e" "e + 12 \<le> length m"
  shows "(\<exists>m'. addattr32 m t v32 = Ok m' \<and> getattr32 m' e = Ok v32)
    \<and> (\<exists>m'. addattr64 m t v64 = Ok m' \<and> getattr64 m' e = Ok v64)
    \<and> (\<exists>m'. addattr16 m t v16 = Ok m' \<and> getattr16 m' e = Panic)
    \<and> (\<exists>m'. addattr8 m t v8 = Ok m' \<and> getattr8 m' e = Panic)"
proof -
  have fit: "e + attr_size (t, put_le sz v) \<le> length m" if "sz \<in> {1, 2, 4, 8}" for sz and v :: u64
    using that assms(2) by (auto simp: attr_size_def length_pad4)
  have "\<exists>m'. addattr32 m t v32 = Ok m' \<and> getattr32 m' e = Ok v32"
    by (rule read_back [OF assms(1) fit, of 4 "ucast v32"])
      (auto simp: addattr32_def getattr32_def pad4_numbers get_put_le_take ucast_take32)
  moreover have "\<exists>m'. addattr64 m t v64 = Ok m' \<and> getattr64 m' e = Ok v64"
    by (rule read_back [OF assms(1) fit, of 8 v64])
      (auto simp: addattr64_def getattr64_def pad4_numbers get_put_le)
  moreover have "\<exists>m'. addattr16 m t v16 = Ok m' \<and> getattr16 m' e = Panic"
    by (rule read_back [OF assms(1) fit, of 2 "ucast v16"])
      (auto simp: addattr16_def getattr16_def pad4_numbers)
  moreover have "\<exists>m'. addattr8 m t v8 = Ok m' \<and> getattr8 m' e = Panic"
    by (rule read_back [OF assms(1) fit, of 1 "ucast v8"])
      (auto simp: addattr8_def getattr8_def pad4_numbers simp del: One_nat_def)
  ultimately show ?thesis by blast
qed

text \<open>A fresh message: a header (and a fixed structure) in a zeroed buffer.\<close>

lemma peek_zeros:
  "length pre \<le> k \<Longrightarrow> k + n \<le> length pre + l \<Longrightarrow> peek (pre @ replicate l 0) k n = Ok (replicate n 0)"
  by (simp add: peek_def)

lemma message_init:
  assumes "4 + length hdr = e" "e mod 4 = 0" "e + n < 2 ^ 16"
  shows "message (put_le 4 (of_nat e :: u32) @ hdr @ replicate n 0) e [] e"
proof -
  let ?m = "put_le 4 (of_nat e :: u32) @ hdr @ replicate n 0"
  have "msg_len ?m = Ok (of_nat e)"
    by (simp add: msg_len_def peek_def get_put_le)
  moreover have "blank ?m e"
    using peek_zeros [of "put_le 4 (of_nat e :: u32) @ hdr" _ _ n] assms(1) by (simp add: blank_def)
  ultimately show ?thesis using assms by (simp add: message_def)
qed

lemma replicate_num: "replicate (numeral k) x = x # replicate (pred_numeral k) x"
  by (simp add: numeral_eq_Suc)

lemma message_16: "message (put_le 4 (16 :: u32) @ replicate 12 0 @ replicate 64 0) 16 [] 16"
  using message_init [of "replicate 12 0" 16 64] by simp

lemma attrs_roundtrip_witness:
  "\<exists>m' tbl. add_attrs (put_le 4 (16 :: u32) @ replicate 12 0 @ replicate 64 0)
        [(3, [101, 116, 104, 48, 49]), (4, [1, 2]), (3, [9])] = Ok m'
    \<and> parse_attrs m' 16 28 8 = Ok tbl \<and> length tbl = 8
    \<and> getattr_var m' (tbl ! 3) = Ok [101, 116, 104, 48, 49, 0, 0, 0]
    \<and> getattr_var m' (tbl ! 4) = Ok [1, 2, 0, 0] \<and> tbl ! 5 = None"
proof -
  let ?m = "put_le 4 (16 :: u32) @ replicate 12 0 @ replicate 64 0"
  let ?as = "[(3, [101, 116, 104, 48, 49]), (4, [1, 2]), (3, [9])] :: (u16 \<times> bytes) list"
  have fit: "16 + sum_list (map attr_size ?as) \<le> length ?m"
    by (simp add: attr_size_def length_pad4)
  have n: "sum_list (map attr_size ?as) = 28" by (simp add: attr_size_def length_pad4)
  obtain m' tbl where r: "add_attrs ?m ?as = Ok m'" "parse_attrs m' 16 28 8 = Ok tbl" "length tbl = 8"
    and t: "\<forall>t. unat t < 8 \<longrightarrow> (case map_of ?as t of None \<Rightarrow> tbl ! unat t = None
       | Some d \<Rightarrow> getattr_var m' (tbl ! unat t) = Ok (pad4 d))"
    using attrs_roundtrip [OF message_16 fit, of 8, unfolded n] by auto
  have p: "pad4 [101, 116, 104, 48, 49] = [101, 116, 104, 48, 49, 0, 0, 0]" "pad4 [1, 2] = [1, 2, 0, 0]"
    by (simp_all add: pad4_def replicate_num)
  have g: "getattr_var m' (tbl ! 3) = Ok [101, 116, 104, 48, 49, 0, 0, 0]"
    "getattr_var m' (tbl ! 4) = Ok [1, 2, 0, 0]" "tbl ! 5 = None"
    using t [rule_format, of 3] t [rule_format, of 4] t [rule_format, of 5] by (simp_all add: p)
  show ?thesis
    by (rule exI [of _ m'], rule exI [of _ tbl], intro conjI) (rule r g)+
qed

lemma number_attrs_witness:
  "\<exists>m'. addattr32 (put_le 4 (16 :: u32) @ replicate 12 0 @ replicate 64 0) 4 1500 = Ok m'
    \<and> getattr32 m' 16 = Ok 1500"
  using number_attrs [OF message_16, of 4 1500] by simp

end
