(* ===== verification/Ip_Text.thy ===== *)
theory Ip_Text
  imports Netlink_Wire
begin

text \<open>
  Addresses as text: \<open>format_address\<close> (IPv4, hardware and IPv6 addresses), \<open>parse_ipaddr\<close> and
  \<open>parse_cider\<close> of \<open>src/netlink.rs\<close>, over the printers and parsers of \<open>std::net\<close>. The pattern
  scanner \<open>scan_fmt\<close> is a package of its own and a parameter (\<open>scan_cidr\<close>).
\<close>

section \<open>\<open>std::net\<close>: parsing\<close>

definition is_digit :: "nat \<Rightarrow> char \<Rightarrow> bool" where
  "is_digit r c \<longleftrightarrow> (case digit_val c of None \<Rightarrow> False | Some d \<Rightarrow> d < r)"

definition read_number :: "nat \<Rightarrow> nat \<Rightarrow> nat \<Rightarrow> string \<Rightarrow> (nat \<times> string) option" where
  "read_number r max_digits bound s =
     (let ds = takeWhile (is_digit r) s
      in if ds = [] \<or> max_digits < length ds then None
         else (case read_digits r 0 ds of None \<Rightarrow> None
               | Some n \<Rightarrow> if bound \<le> n then None else Some (n, drop (length ds) s)))"

definition read_given_char :: "char \<Rightarrow> string \<Rightarrow> string option" where
  "read_given_char c s = (case s of [] \<Rightarrow> None | x # xs \<Rightarrow> if x = c then Some xs else None)"

fun read_octets :: "nat \<Rightarrow> string \<Rightarrow> (bytes \<times> string) option" where
  "read_octets 0 s = Some ([], s)"
| "read_octets (Suc n) s =
     (case read_number 10 3 256 s of None \<Rightarrow> None
      | Some (b, s1) \<Rightarrow>
          (if n = 0 then Some ([of_nat b], s1)
           else (case read_given_char (CHR ''.'') s1 of None \<Rightarrow> None
                 | Some s2 \<Rightarrow> map_option (apfst ((#) (of_nat b))) (read_octets n s2))))"

definition read_ipv4_addr :: "string \<Rightarrow> (bytes \<times> string) option" where
  "read_ipv4_addr s = read_octets 4 s"

text \<open>Up to \<open>k\<close> more groups of an IPv6 address (as pairs of octets), the last two of which may be
  an IPv4 address; \<open>True\<close> when they were.\<close>

definition after_colon :: "bool \<Rightarrow> string \<Rightarrow> string option" where
  "after_colon first s = (if first then Some s else read_given_char (CHR '':'') s)"

fun read_groups :: "bool \<Rightarrow> nat \<Rightarrow> string \<Rightarrow> bytes \<times> bool \<times> string" where
  "read_groups first 0 s = ([], False, s)"
| "read_groups first (Suc k) s =
     (case (if 0 < k then Option.bind (after_colon first s) read_ipv4_addr else None) of
        Some (v4, s1) \<Rightarrow> (v4, True, s1)
      | None \<Rightarrow>
          (case Option.bind (after_colon first s) (read_number 16 4 65536) of
             None \<Rightarrow> ([], False, s)
           | Some (g, s1) \<Rightarrow>
               (case read_groups False k s1 of (gs, v4, s2) \<Rightarrow>
                  ([of_nat (g div 256), of_nat (g mod 256)] @ gs, v4, s2))))"

definition read_ipv6_addr :: "string \<Rightarrow> (bytes \<times> string) option" where
  "read_ipv6_addr s =
     (case read_groups True 8 s of (hd_part, v4, s1) \<Rightarrow>
        if length hd_part = 16 then Some (hd_part, s1)
        else if v4 then None
        else (case Option.bind (read_given_char (CHR '':'') s1) (read_given_char (CHR '':'')) of
          None \<Rightarrow> None
        | Some s2 \<Rightarrow>
            (case read_groups True (7 - length hd_part div 2) s2 of (tl_part, _, s3) \<Rightarrow>
               Some (hd_part @ replicate (16 - length hd_part - length tl_part) 0 @ tl_part, s3))))"

definition till_eof :: "(bytes \<times> string) option \<Rightarrow> bytes option" where
  "till_eof r = (case r of Some (bs, []) \<Rightarrow> Some bs | _ \<Rightarrow> None)"

definition parse_ipaddr :: "string \<Rightarrow> bytes res" where
  "parse_ipaddr s = (case till_eof (read_ipv6_addr s) of Some v6 \<Rightarrow> Ok v6
     | None \<Rightarrow> (case till_eof (read_ipv4_addr s) of Some v4 \<Rightarrow> Ok v4 | None \<Rightarrow> Err Ip))"

definition parse_cider :: "(string \<Rightarrow> (string \<times> u8) res) \<Rightarrow> string \<Rightarrow> (bytes \<times> u8) res" where
  "parse_cider scan_cidr s =
     bind_res (if contains ''/'' s then scan_cidr s else Ok (s, 0)) (\<lambda>(addr, mask).
     bind_res (parse_ipaddr addr) (\<lambda>ip. Ok (ip, mask)))"

section \<open>\<open>std::net\<close>: printing\<close>

definition show_v4 :: "bytes \<Rightarrow> string" where
  "show_v4 bs = join_on ''.'' (map show_word bs)"

fun groups_of :: "bytes \<Rightarrow> nat list" where
  "groups_of (a # b # bs) = (256 * unat a + unat b) # groups_of bs"
| "groups_of _ = []"

definition show_group :: "nat \<Rightarrow> string" where
  "show_group g = to_lowercase (show_radix 16 g)"

text \<open>The longest run of zero groups, the first one of several: where it starts and its length.\<close>

fun zero_run :: "nat \<Rightarrow> nat \<times> nat \<Rightarrow> nat \<times> nat \<Rightarrow> nat list \<Rightarrow> nat \<times> nat" where
  "zero_run i cur best [] = best"
| "zero_run i (at, n) best (g # gs) =
     (if g = 0 then
        (let cur = (if n = 0 then (i, 1) else (at, n + 1))
         in zero_run (i + 1) cur (if snd best < snd cur then cur else best) gs)
      else zero_run (i + 1) (0, 0) best gs)"

definition show_v6 :: "bytes \<Rightarrow> string" where
  "show_v6 bs =
     (let gs = groups_of bs; (at, n) = zero_run 0 (0, 0) (0, 0) gs;
          part = (\<lambda>xs. join_on '':'' (map show_group xs))
      in if gs = replicate 8 0 then ''::''
         else if gs = replicate 7 0 @ [1] then ''::1''
         else if take 6 gs = replicate 6 0 then ''::'' @ show_v4 (drop 12 bs)
         else if take 6 gs = replicate 5 0 @ [65535] then ''::ffff:'' @ show_v4 (drop 12 bs)
         else if 1 < n then part (take at gs) @ ''::'' @ part (drop (at + n) gs)
         else part gs)"

section \<open>\<open>format_address\<close>\<close>

text \<open>\<open>{:0<2X}\<close>: upper-case hexadecimal, at the left of a field of two filled with zeros.\<close>

definition hex_left :: "u8 \<Rightarrow> string" where
  "hex_left b = (let s = show_radix 16 (unat b) in s @ replicate (2 - length s) (CHR ''0''))"

definition format_address :: "bytes \<Rightarrow> nat \<Rightarrow> u32 \<Rightarrow> string res" where
  "format_address m addr l =
     (if l = 4 then map_res show_v4 (peek m addr 4)
      else if l = 6 then map_res (\<lambda>bs. join_on '':'' (map hex_left bs)) (peek m addr 6)
      else if l = 16 then map_res show_v6 (peek m addr 16)
      else Err (Nix EINVAL))"

text \<open>The usual text of a hardware address: two digits for each byte.\<close>

definition hex2 :: "u8 \<Rightarrow> string" where
  "hex2 b = [digit_char (unat b div 16), digit_char (unat b mod 16)]"

lemma unat_u8: "unat (b :: u8) < 256"
  using unsigned_less [of b] by simp

lemma digit_char_inj:
  assumes "d < 16" "e < 16"
  shows "digit_char d = digit_char e \<longleftrightarrow> d = e"
proof
  assume "digit_char d = digit_char e"
  then have "digit_val (digit_char d) = digit_val (digit_char e)" by simp
  then show "d = e" using assms by simp
qed simp

lemma hex_left_cases:
  "hex_left b = (if unat b < 16 then [digit_char (unat b), CHR ''0''] else hex2 b)"
proof (cases "unat b < 16")
  case True
  then show ?thesis by (simp add: hex_left_def show_radix.simps)
next
  case False
  have "unat b div 16 < 16" using unat_u8 [of b] by simp
  with False show ?thesis by (simp add: hex_left_def hex2_def show_radix.simps)
qed

lemma hex_left_ok: "hex_left b = hex2 b \<longleftrightarrow> b = 0 \<or> 16 \<le> unat b"
proof -
  have "CHR ''0'' = digit_char 0" by simp
  moreover have "unat b < 16 \<Longrightarrow> hex_left b = hex2 b \<longleftrightarrow> unat b = 0"
    unfolding hex_left_cases hex2_def calculation
    by (auto simp: digit_char_inj simp del: digit_char_eval)
  ultimately show ?thesis by (auto simp: hex_left_cases unat_eq_0)
qed

lemma hex_chars: "c \<in> set (hex_left b) \<union> set (hex2 b) \<Longrightarrow> \<exists>d < 16. c = digit_char d"
proof -
  have d: "unat b div 16 < 16" "unat b mod 16 < 16" "(0 :: nat) < 16"
    using unat_u8 [of b] by simp_all
  have "CHR ''0'' = digit_char 0" by simp
  moreover assume "c \<in> set (hex_left b) \<union> set (hex2 b)"
  ultimately consider "unat b < 16" "c = digit_char (unat b)" | "c = digit_char 0"
    | "c = digit_char (unat b div 16)" | "c = digit_char (unat b mod 16)"
    unfolding hex_left_cases hex2_def by (auto simp del: digit_char_eval split: if_splits)
  then show ?thesis using d by cases blast+
qed

lemma colon_no_hex: "CHR '':'' \<notin> set (hex_left b)" "CHR '':'' \<notin> set (hex2 b)"
proof -
  have "d < 16 \<Longrightarrow> CHR '':'' \<noteq> digit_char d" for d
  proof
    assume "d < 16" "CHR '':'' = digit_char d"
    then have "of_char (digit_char d) = (58 :: nat)" by (simp flip: \<open>CHR '':'' = digit_char d\<close>)
    with \<open>d < 16\<close> show False by (auto simp: digit_char_def split: if_splits)
  qed
  then show "CHR '':'' \<notin> set (hex_left b)" "CHR '':'' \<notin> set (hex2 b)"
    using hex_chars [of "CHR '':''" b] by auto
qed

lemma join_on_inj:
  assumes "\<forall>x \<in> set xs. c \<notin> set (f x) \<and> c \<notin> set (g x)"
  shows "join_on [c] (map f xs) = join_on [c] (map g xs) \<longleftrightarrow> (\<forall>x \<in> set xs. f x = g x)"
proof (cases "xs = []")
  case False
  then have "split_on c (join_on [c] (map f xs)) = map f xs"
      "split_on c (join_on [c] (map g xs)) = map g xs"
    using assms by (simp_all add: split_on_join)
  then have "join_on [c] (map f xs) = join_on [c] (map g xs) \<Longrightarrow> map f xs = map g xs" by metis
  then show ?thesis by (metis map_eq_conv)
qed simp

text \<open>\<open>format_address\<close> writes a hardware address in its usual form (two hexadecimal digits for
  each byte) exactly when no byte lies between 1 and 15: such a byte is filled up with a zero on the
  wrong side, 0A is written A0.\<close>

lemma format_mac_exact:
  assumes "peek m p 6 = Ok bs"
  shows "format_address m p 6 = Ok (join_on '':'' (map hex2 bs)) \<longleftrightarrow> (\<forall>b \<in> set bs. b = 0 \<or> 16 \<le> unat b)"
  using assms join_on_inj [of bs "CHR '':''" hex_left hex2]
  by (simp add: format_address_def colon_no_hex hex_left_ok)

lemma format_mac_exact_witness:
  "format_address [2, 66, 172, 17, 0, 10] 0 6 \<noteq> Ok (join_on '':'' (map hex2 [2, 66, 172, 17, 0, 10]))"
proof -
  have "peek [2, 66, 172, 17, 0, 10] 0 6 = Ok [2, 66, 172, 17, 0, 10]"
    by (simp add: peek_def)
  from format_mac_exact [OF this] show ?thesis by simp
qed

section \<open>Round trip of IPv4 addresses\<close>

lemma digit_show: "c \<in> set (show_nat n) \<Longrightarrow> is_digit 10 c"
  by (auto simp: is_digit_def dest!: show_nat_chars simp del: digit_char_eval)

lemma length_show_byte: "n < 256 \<Longrightarrow> length (show_nat n) \<le> 3"
  by (simp add: show_nat_def show_radix.simps)

lemma read_number_show:
  assumes "n < 256" "rest = [] \<or> \<not> is_digit 10 (hd rest)"
  shows "read_number 10 3 256 (show_nat n @ rest) = Some (n, rest)"
proof -
  have "takeWhile (is_digit 10) rest = []" using assms(2) by (cases rest) auto
  then have "takeWhile (is_digit 10) (show_nat n @ rest) = show_nat n"
    by (simp add: takeWhile_append digit_show)
  then show ?thesis
    using assms(1) length_show_byte [of n] read_show_radix [of 10 n]
    by (simp add: read_number_def Let_def show_nat_def not_less)
qed

lemma not_digit_dot: "\<not> is_digit 10 (CHR ''.'')"
  by (simp add: is_digit_def digit_val_def)

lemma read_octets_show:
  "0 < length bs \<Longrightarrow> read_octets (length bs) (show_v4 bs) = Some (bs, [])"
proof (induction bs)
  case (Cons b bs)
  have n: "unat b < 256" by (rule unat_u8)
  show ?case
  proof (cases bs)
    case Nil
    then show ?thesis using read_number_show [OF n, of "[]"] by (simp add: show_v4_def)
  next
    case (Cons c cs)
    then have s: "show_v4 (b # bs) = show_word b @ CHR ''.'' # show_v4 bs" by (simp add: show_v4_def)
    have "read_number 10 3 256 (show_v4 (b # bs)) = Some (unat b, CHR ''.'' # show_v4 bs)"
      unfolding s by (rule read_number_show [OF n]) (simp add: not_digit_dot)
    moreover have "length bs \<noteq> 0" using Cons by simp
    ultimately show ?thesis using Cons.IH by (simp add: read_given_char_def)
  qed
qed simp

lemma parse_show_v4:
  assumes "length bs = 4"
  shows "parse_ipaddr (show_v4 bs) = Ok bs"
proof -
  have v4: "read_ipv4_addr (show_v4 bs) = Some (bs, [])"
    using read_octets_show [of bs] assms by (simp add: read_ipv4_addr_def)
  have "read_groups True 8 (show_v4 bs) = (bs, True, [])"
    using v4 by (simp add: numeral_eq_Suc after_colon_def)
  then show ?thesis using v4 assms by (simp add: parse_ipaddr_def read_ipv6_addr_def till_eof_def)
qed

lemma set_join: "set (join_on sep ps) \<subseteq> set sep \<union> \<Union> (set ` set ps)"
  by (induction sep ps rule: join_on.induct) auto

lemma slash_v4: "CHR ''/'' \<notin> set (show_v4 bs)"
proof
  assume "CHR ''/'' \<in> set (show_v4 bs)"
  then have "CHR ''/'' \<in> set ''.'' \<union> \<Union> (set ` set (map show_word bs))"
    unfolding show_v4_def by (rule subsetD [OF set_join])
  then obtain b :: u8 where "CHR ''/'' \<in> set (show_word b)" by auto
  then show False by (simp add: show_nat_no_char)
qed

text \<open>The text of an IPv4 address, with or without a prefix length, is parsed back: \<open>scan_fmt\<close>
  with the pattern \<open>{}/{}\<close> is only assumed to split a printed address and number.\<close>

theorem cidr_roundtrip:
  assumes "length bs = 4"
    and "\<And>ip (l :: u8). scan (show_v4 ip @ ''/'' @ show_word l) = Ok (show_v4 ip, l)"
  shows "parse_cider scan (show_v4 bs @ ''/'' @ show_word (n :: u8)) = Ok (bs, n)
    \<and> parse_cider scan (show_v4 bs) = Ok (bs, 0)"
proof
  have "contains ''/'' (show_v4 bs @ ''/'' @ show_word n)"
    by (simp only: contains_sublist sublist_appendI)
  then show "parse_cider scan (show_v4 bs @ ''/'' @ show_word n) = Ok (bs, n)"
    using assms(2) [of bs n] parse_show_v4 [OF assms(1)] by (simp add: parse_cider_def)
  have "\<not> contains ''/'' (show_v4 bs)"
    using slash_v4 set_mono_sublist [of "''/''" "show_v4 bs"] by (auto simp: contains_sublist)
  then show "parse_cider scan (show_v4 bs) = Ok (bs, 0)"
    using parse_show_v4 [OF assms(1)] by (simp add: parse_cider_def)
qed

lemma cidr_roundtrip_witness:
  "\<exists>scan. parse_cider scan (show_v4 [10, 0, 2, 15] @ ''/'' @ show_word (24 :: u8)) = Ok ([10, 0, 2, 15], 24)"
proof
  let ?scan = "\<lambda>s. case split_on (CHR ''/'') s of [a, b] \<Rightarrow>
      map_res (\<lambda>n. (a, of_nat n :: u8)) (from_str_radix 256 10 b) | _ \<Rightarrow> Err Scanfmt"
  have "?scan (show_v4 ip @ ''/'' @ show_word l) = Ok (show_v4 ip, l)" for ip and l :: u8
    by (simp add: split_on_append_sep slash_v4 show_nat_no_char from_str_radix_show unat_u8)
  from cidr_roundtrip [of "[10, 0, 2, 15]" ?scan 24, OF _ this]
  show "parse_cider ?scan (show_v4 [10, 0, 2, 15] @ ''/'' @ show_word (24 :: u8)) = Ok ([10, 0, 2, 15], 24)"
    by simp
qed

end
