(* ===== verification/Netlink_Msg.thy ===== *)
theory Netlink_Msg
  imports Ip_Text
begin

text \<open>
  The messages of \<open>src/netlink.rs\<close>: the constants the code uses, the requests it builds (in buffers
  of 2048 zeros), and the scans of a received datagram that \<open>rtnl_talk\<close> and
  \<open>recv_dump_message\<close> make.
\<close>

named_theorems nl_consts \<open>numbers of the netlink interface\<close>

section \<open>Constants\<close>

definition RTM_NEWLINK :: u16 where [nl_consts]: "RTM_NEWLINK = 16"
definition RTM_DELLINK :: u16 where [nl_consts]: "RTM_DELLINK = 17"
definition RTM_GETLINK :: u16 where [nl_consts]: "RTM_GETLINK = 18"
definition RTM_NEWADDR :: u16 where [nl_consts]: "RTM_NEWADDR = 20"
definition RTM_DELADDR :: u16 where [nl_consts]: "RTM_DELADDR = 21"
definition RTM_GETADDR :: u16 where [nl_consts]: "RTM_GETADDR = 22"
definition RTM_NEWROUTE :: u16 where [nl_consts]: "RTM_NEWROUTE = 24"
definition RTM_DELROUTE :: u16 where [nl_consts]: "RTM_DELROUTE = 25"
definition RTM_GETROUTE :: u16 where [nl_consts]: "RTM_GETROUTE = 26"
definition NLM_F_REQUEST :: u16 where [nl_consts]: "NLM_F_REQUEST = 1"
definition NLM_F_ACK :: u16 where [nl_consts]: "NLM_F_ACK = 4"
definition NLM_F_DUMP :: u16 where [nl_consts]: "NLM_F_DUMP = 0x300"
definition NLM_F_EXCL :: u16 where [nl_consts]: "NLM_F_EXCL = 0x200"
definition NLM_F_CREATE :: u16 where [nl_consts]: "NLM_F_CREATE = 0x400"
definition NLMSG_ERROR :: u16 where [nl_consts]: "NLMSG_ERROR = 2"
definition NLMSG_DONE :: u16 where [nl_consts]: "NLMSG_DONE = 3"
definition IFLA_ADDRESS :: u16 where [nl_consts]: "IFLA_ADDRESS = 1"
definition IFLA_IFNAME :: u16 where [nl_consts]: "IFLA_IFNAME = 3"
definition IFLA_MTU :: u16 where [nl_consts]: "IFLA_MTU = 4"
definition IFLA_EXT_MASK :: u16 where [nl_consts]: "IFLA_EXT_MASK = 29"
definition IFLA_MAX :: u16 where [nl_consts]: "IFLA_MAX = 51"
definition IFA_ADDRESS :: u16 where [nl_consts]: "IFA_ADDRESS = 1"
definition IFA_LOCAL :: u16 where [nl_consts]: "IFA_LOCAL = 2"
definition IFA_MAX :: u16 where [nl_consts]: "IFA_MAX = 9"
definition IFA_F_SECONDARY :: u32 where [nl_consts]: "IFA_F_SECONDARY = 1"
definition RTEXT_FILTER_VF :: u32 where [nl_consts]: "RTEXT_FILTER_VF = 1"
definition RTEXT_FILTER_SKIP_STATS :: u32 where [nl_consts]: "RTEXT_FILTER_SKIP_STATS = 8"
definition RTA_DST :: u16 where [nl_consts]: "RTA_DST = 1"
definition RTA_SRC :: u16 where [nl_consts]: "RTA_SRC = 2"
definition RTA_OIF :: u16 where [nl_consts]: "RTA_OIF = 4"
definition RTA_GATEWAY :: u16 where [nl_consts]: "RTA_GATEWAY = 5"
definition RTA_PREFSRC :: u16 where [nl_consts]: "RTA_PREFSRC = 7"
definition RTA_TABLE :: u16 where [nl_consts]: "RTA_TABLE = 15"
definition RTA_MAX :: u16 where [nl_consts]: "RTA_MAX = 29"
definition RT_TABLE_MAIN :: u32 where [nl_consts]: "RT_TABLE_MAIN = 254"
definition RT_SCOPE_UNIVERSE :: u8 where [nl_consts]: "RT_SCOPE_UNIVERSE = 0"
definition RT_SCOPE_NOWHERE :: u8 where [nl_consts]: "RT_SCOPE_NOWHERE = 255"
definition RTPROTO_UNSPEC :: u8 where [nl_consts]: "RTPROTO_UNSPEC = 0"
definition RTPROTO_KERNEL :: u8 where [nl_consts]: "RTPROTO_KERNEL = 2"
definition RTPROTO_BOOT :: u8 where [nl_consts]: "RTPROTO_BOOT = 3"
definition RTN_UNICAST :: u8 where [nl_consts]: "RTN_UNICAST = 1"

text \<open>\<open>libc\<close>: address families and interface flags.\<close>

definition AF_INET :: u8 where [nl_consts]: "AF_INET = 2"
definition AF_INET6 :: u8 where [nl_consts]: "AF_INET6 = 10"
definition AF_NETLINK :: u16 where [nl_consts]: "AF_NETLINK = 16"
definition IFF_UP :: u32 where [nl_consts]: "IFF_UP = 1"
definition IFF_NOARP :: u32 where [nl_consts]: "IFF_NOARP = 0x80"

section \<open>Requests\<close>

definition hdr0 :: nlmsghdr where
  "hdr0 = \<lparr>nlmsg_len = 0, nlmsg_type = 0, nlmsg_flags = 0, nlmsg_seq = 0, nlmsg_pid = 0\<rparr>"

definition ifi0 :: ifinfomsg where
  "ifi0 = \<lparr>ifi_family = 0, ifi_pad = 0, ifi_type = 0, ifi_index = 0, ifi_flags = 0, ifi_change = 0\<rparr>"

definition ifa0 :: ifaddrmsg where
  "ifa0 = \<lparr>ifa_family = 0, ifa_prefixlen = 0, ifa_flags = 0, ifa_scope = 0, ifa_index = 0\<rparr>"

definition rtm0 :: rtmsg where
  "rtm0 = \<lparr>rtm_family = 0, rtm_dst_len = 0, rtm_src_len = 0, rtm_tos = 0, rtm_table = 0,
     rtm_protocol = 0, rtm_scope = 0, rtm_type = 0, rtm_flags = 0\<rparr>"

text \<open>\<open>vec![0; 2048]\<close> with its header and fixed structure filled in.\<close>

definition new_msg :: "u16 \<Rightarrow> u16 \<Rightarrow> u32 \<Rightarrow> bytes \<Rightarrow> bytes res" where
  "new_msg ty flags sq body =
     bind_res (poke (replicate 2048 0) 0 (nlmsghdr_bytes (hdr0\<lparr>nlmsg_len := NLMSG_LENGTH (of_nat (length body)),
        nlmsg_type := ty, nlmsg_flags := flags, nlmsg_seq := sq\<rparr>))) (\<lambda>m. poke m 16 body)"

record RtRoute =
  rr_dest :: "bytes option"
  rr_source :: "bytes option"
  rr_gateway :: "bytes option"
  rr_index :: u32
  rr_scope :: u8
  rr_dst_len :: u8
  rr_src_len :: u8
  rr_protocol :: u8

record RtIPAddr =
  ip_family :: u8
  ip_mask :: u8
  ip_addr :: bytes

definition dump_links_msg :: "u32 \<Rightarrow> bytes res" where
  "dump_links_msg sq =
     bind_res (new_msg RTM_GETLINK (NLM_F_DUMP OR NLM_F_REQUEST) sq (ifinfomsg_bytes ifi0))
       (\<lambda>m. addattr32 m IFLA_EXT_MASK RTEXT_FILTER_VF)"

definition dump_addresses_msg :: "u32 \<Rightarrow> u32 \<Rightarrow> bytes res" where
  "dump_addresses_msg sq ifindex =
     new_msg RTM_GETADDR (NLM_F_DUMP OR NLM_F_REQUEST) sq (ifaddrmsg_bytes (ifa0\<lparr>ifa_index := ifindex\<rparr>))"

definition dump_routes_msg :: "u32 \<Rightarrow> bytes res" where
  "dump_routes_msg sq =
     bind_res (new_msg RTM_GETROUTE (NLM_F_REQUEST OR NLM_F_DUMP) sq
         (rtmsg_bytes (rtm0\<lparr>rtm_family := AF_INET, rtm_table := ucast RT_TABLE_MAIN\<rparr>)))
       (\<lambda>m. addattr32 m RTA_TABLE RT_TABLE_MAIN)"

text \<open>
  \<open>find_link_by_name\<close> copies \<open>name.len() + 1\<close> bytes of a string that has no terminator: \<open>after\<close> is
  the byte that follows it in memory.
\<close>

definition link_by_name_msg :: "u32 \<Rightarrow> bytes \<Rightarrow> u8 \<Rightarrow> bytes res" where
  "link_by_name_msg sq name after =
     bind_res (new_msg RTM_GETLINK NLM_F_REQUEST sq (ifinfomsg_bytes ifi0)) (\<lambda>m.
     bind_res (addattr_var m IFLA_IFNAME (name @ [after])) (\<lambda>m.
     addattr32 m IFLA_EXT_MASK (RTEXT_FILTER_VF OR RTEXT_FILTER_SKIP_STATS)))"

definition link_by_index_msg :: "u32 \<Rightarrow> u32 \<Rightarrow> bytes res" where
  "link_by_index_msg sq index =
     bind_res (new_msg RTM_GETLINK NLM_F_REQUEST sq (ifinfomsg_bytes (ifi0\<lparr>ifi_index := index\<rparr>))) (\<lambda>m.
     addattr32 m IFLA_EXT_MASK (RTEXT_FILTER_VF OR RTEXT_FILTER_SKIP_STATS))"

definition link_status_msg :: "u32 \<Rightarrow> ifinfomsg \<Rightarrow> bool \<Rightarrow> bytes res" where
  "link_status_msg sq ifinfo up =
     new_msg RTM_NEWLINK NLM_F_REQUEST sq (ifinfomsg_bytes (ifi0\<lparr>ifi_family := ifi_family ifinfo,
       ifi_type := ifi_type ifinfo, ifi_index := ifi_index ifinfo, ifi_change := IFF_UP,
       ifi_flags := (if up then IFF_UP else 0 AND NOT IFF_UP)\<rparr>))"

definition del_addr_msg :: "u32 \<Rightarrow> ifinfomsg \<Rightarrow> RtIPAddr \<Rightarrow> bytes res" where
  "del_addr_msg sq ifinfo a =
     bind_res (new_msg RTM_DELADDR NLM_F_REQUEST sq (ifaddrmsg_bytes (ifa0\<lparr>ifa_family := ip_family a,
       ifa_prefixlen := ip_mask a, ifa_index := ifi_index ifinfo\<rparr>)))
       (\<lambda>m. addattr_var m IFA_ADDRESS (ip_addr a))"

definition add_addr_msg :: "u32 \<Rightarrow> ifinfomsg \<Rightarrow> RtIPAddr \<Rightarrow> bytes res" where
  "add_addr_msg sq ifinfo ip =
     bind_res (new_msg RTM_NEWADDR (NLM_F_REQUEST OR NLM_F_CREATE OR NLM_F_EXCL) sq
       (ifaddrmsg_bytes (ifa0\<lparr>ifa_family := ip_family ip,
       ifa_prefixlen := ip_mask ip, ifa_index := ifi_index ifinfo\<rparr>))) (\<lambda>m.
     bind_res (addattr_var m IFA_ADDRESS (ip_addr ip)) (\<lambda>m.
     addattr_var m IFA_LOCAL (ip_addr ip)))"

text \<open>The request of \<open>update_interface\<close> that sets the name, the MTU and, when asked for, NOARP.\<close>

definition set_link_msg :: "u32 \<Rightarrow> ifinfomsg \<Rightarrow> u32 \<Rightarrow> u64 \<Rightarrow> bytes \<Rightarrow> bytes res" where
  "set_link_msg sq ifinfo raw_flags mtu name =
     (let noarp = (raw_flags AND IFF_NOARP \<noteq> 0)
      in bind_res (new_msg RTM_NEWLINK NLM_F_REQUEST sq (ifinfomsg_bytes (ifi0\<lparr>
           ifi_family := ifi_family ifinfo, ifi_type := ifi_type ifinfo, ifi_index := ifi_index ifinfo,
           ifi_change := (if noarp then IFF_NOARP else 0),
           ifi_flags := (if noarp then IFF_NOARP else 0)\<rparr>))) (\<lambda>m.
         bind_res (addattr32 m IFLA_MTU (ucast mtu)) (\<lambda>m. addattr_var m IFLA_IFNAME name)))"

definition del_link_msg :: "u32 \<Rightarrow> ifinfomsg \<Rightarrow> bytes res" where
  "del_link_msg sq ifinfo =
     new_msg RTM_DELLINK NLM_F_REQUEST sq (ifinfomsg_bytes (ifi0\<lparr>ifi_family := ifi_family ifinfo,
       ifi_index := ifi_index ifinfo, ifi_type := ifi_type ifinfo\<rparr>))"

text \<open>The attributes of a route, the same for adding and deleting it.\<close>

definition addattr_opt :: "bytes \<Rightarrow> u16 \<Rightarrow> bytes option \<Rightarrow> bytes res" where
  "addattr_opt m cat d = (case d of None \<Rightarrow> Ok m | Some b \<Rightarrow> addattr_var m cat b)"

definition route_attrs :: "bytes \<Rightarrow> RtRoute \<Rightarrow> bytes res" where
  "route_attrs m r =
     bind_res (addattr_opt m (if 0 < rr_src_len r then RTA_SRC else RTA_PREFSRC) (rr_source r)) (\<lambda>m.
     bind_res (addattr_opt m RTA_DST (rr_dest r)) (\<lambda>m.
     bind_res (addattr_opt m RTA_GATEWAY (rr_gateway r)) (\<lambda>m.
     addattr32 m RTA_OIF (rr_index r))))"

definition add_route_msg :: "u32 \<Rightarrow> RtRoute \<Rightarrow> bytes res" where
  "add_route_msg sq r =
     bind_res (new_msg RTM_NEWROUTE (NLM_F_REQUEST OR NLM_F_CREATE OR NLM_F_EXCL) sq
       (rtmsg_bytes (rtm0\<lparr>rtm_family := AF_INET, rtm_table := ucast RT_TABLE_MAIN,
          rtm_protocol := RTPROTO_BOOT, rtm_type := RTN_UNICAST, rtm_dst_len := rr_dst_len r,
          rtm_src_len := rr_src_len r, rtm_scope := rr_scope r\<rparr>)))
       (\<lambda>m. route_attrs m r)"

definition del_route_msg :: "u32 \<Rightarrow> RtRoute \<Rightarrow> bytes res" where
  "del_route_msg sq r =
     bind_res (new_msg RTM_DELROUTE NLM_F_REQUEST sq
       (rtmsg_bytes (rtm0\<lparr>rtm_family := AF_INET, rtm_table := ucast RT_TABLE_MAIN,
          rtm_dst_len := rr_dst_len r, rtm_src_len := rr_src_len r, rtm_scope := rr_scope r\<rparr>)))
       (\<lambda>m. route_attrs m r)"

section \<open>Datagrams\<close>

definition read_hdr :: "bytes \<Rightarrow> nat \<Rightarrow> nlmsghdr res" where
  "read_hdr m p = map_res get_nlmsghdr (peek m p 16)"

text \<open>\<open>Errno::from_i32\<close> of the negated code of an error message.\<close>

definition errno_of :: "int \<Rightarrow> errno" where
  "errno_of n =
     (if n = 1 then EPERM else if n = 2 then ENOENT else if n = 4 then EINTR else if n = 5 then EIO
      else if n = 9 then EBADF else if n = 11 then EAGAIN else if n = 13 then EACCES
      else if n = 17 then EEXIST else if n = 19 then ENODEV else if n = 20 then ENOTDIR
      else if n = 21 then EISDIR else if n = 22 then EINVAL else if n = 32 then EPIPE
      else if n = 34 then ERANGE else if n = 62 then ETIME else if n = 74 then EBADMSG
      else if n = 99 then EADDRNOTAVAIL else if n = 110 then ETIMEDOUT
      else if 0 < n \<and> n \<le> 133 then ErrnoOther (nat n) else UnknownErrno)"

definition nl_error :: "bytes \<Rightarrow> nat \<Rightarrow> u32 res" where
  "nl_error buf p = bind_res (read_hdr buf p) (\<lambda>h.
     if nlmsg_len h < NLMSG_LENGTH 20 then Err (ErrorCode ''truncated message'')
     else map_res get_le (peek buf (p + 16) 4))"

function talk_scan :: "u32 \<Rightarrow> bool \<Rightarrow> bytes \<Rightarrow> nat \<Rightarrow> u32 \<Rightarrow> bytes res" where
  "talk_scan pid answer buf p msglen =
     (if msglen < 16 then Err (Nix EINVAL)
      else (case read_hdr buf p of
        Ok h \<Rightarrow>
          if \<not> NLMSG_OK (nlmsg_len h) msglen then Err (Nix EINVAL)
          else if nlmsg_pid h \<noteq> pid then
            if NLMSG_ALIGN (nlmsg_len h) = 0 then Hang
            else talk_scan pid answer buf (p + unat (NLMSG_ALIGN (nlmsg_len h))) (msglen - NLMSG_ALIGN (nlmsg_len h))
          else if nlmsg_type h = NLMSG_ERROR then
            bind_res (nl_error buf p) (\<lambda>e. if e = 0 then Ok [] else Err (Nix (errno_of (sint (- e)))))
          else if answer then peek buf p (unat (nlmsg_len h)) else Ok []
      | Err e \<Rightarrow> Err e | Panic \<Rightarrow> Panic | Hang \<Rightarrow> Hang | Undefined \<Rightarrow> Undefined))"
  by auto

text \<open>
  (An aligned length of 0, after a length within 3 of \<open>2 ^ 32\<close>, does not move the pointer: the scan
  never ends.)

  The offsets of the messages of a dump in one datagram, whether the last one was reached, and the
  number of bytes left. The code keeps the final message (\<open>NLMSG_DONE\<close>) in its list.
\<close>

function dump_scan :: "u32 \<Rightarrow> u32 \<Rightarrow> bytes \<Rightarrow> nat \<Rightarrow> u32 \<Rightarrow> (nat list \<times> bool \<times> u32) res" where
  "dump_scan pid sq buf p msglen =
     (if msglen < 16 then Ok ([], False, msglen)
      else (case read_hdr buf p of
        Ok h \<Rightarrow>
          if \<not> NLMSG_OK (nlmsg_len h) msglen then Ok ([], False, msglen)
          else if nlmsg_pid h \<noteq> pid \<or> nlmsg_seq h \<noteq> sq then
            if NLMSG_ALIGN (nlmsg_len h) = 0 then Hang
            else dump_scan pid sq buf (p + unat (NLMSG_ALIGN (nlmsg_len h))) (msglen - NLMSG_ALIGN (nlmsg_len h))
          else if nlmsg_type h = NLMSG_ERROR then
            bind_res (nl_error buf p) (\<lambda>e. Err (Nix (errno_of (sint (- e)))))
          else if nlmsg_type h = NLMSG_DONE then Ok ([p], True, msglen)
          else if NLMSG_ALIGN (nlmsg_len h) = 0 then Hang
          else map_res (\<lambda>(ps, d, l). (p # ps, d, l))
            (dump_scan pid sq buf (p + unat (NLMSG_ALIGN (nlmsg_len h))) (msglen - NLMSG_ALIGN (nlmsg_len h)))
      | Err e \<Rightarrow> Err e | Panic \<Rightarrow> Panic | Hang \<Rightarrow> Hang | Undefined \<Rightarrow> Undefined))"
  by auto

lemma read_hdr_in: "read_hdr m p = Ok h \<Longrightarrow> p + 16 \<le> length m"
  by (auto simp: read_hdr_def map_res_Ok peek_Ok)

lemma step_down:
  assumes "p + 16 \<le> n" "a \<noteq> 0"
  shows "Suc n - (p + unat (a :: u32)) < Suc n - p"
proof -
  have "0 < unat a" using assms(2) by (simp add: unat_gt_0)
  with assms(1) show ?thesis by simp
qed

termination talk_scan
  by (relation "measure (\<lambda>(pid, answer, buf, p, l). length buf + 1 - p)")
    (auto dest!: read_hdr_in intro: step_down)

termination dump_scan
  by (relation "measure (\<lambda>(pid, sq, buf, p, l). length buf + 1 - p)")
    (auto dest!: read_hdr_in intro: step_down)

declare talk_scan.simps [simp del] dump_scan.simps [simp del]

end
