(* ===== verification/Netlink_Decode.thy ===== *)
theory Netlink_Decode
  imports Netlink_Msg
begin

text \<open>
  What the handle of \<open>src/netlink.rs\<close> reads out of the messages of a dump: links, addresses and
  routes. Each reader gives one message of the list; \<open>Skip\<close> is \<open>continue\<close>, \<open>Stop\<close> is \<open>break\<close>.
\<close>

section \<open>The loops over messages\<close>

datatype 'a item = Skip | Stop | Take 'a

text \<open>A pointer to a message: its buffer and the offset in it.\<close>

type_synonym msg_ptr = "bytes \<times> nat"

fun collect_items :: "('m \<Rightarrow> 'a item res) \<Rightarrow> 'm list \<Rightarrow> 'a list res" where
  "collect_items f [] = Ok []"
| "collect_items f (m # ms) = bind_res (f m) (\<lambda>i. case i of
     Skip \<Rightarrow> collect_items f ms
   | Stop \<Rightarrow> Ok []
   | Take x \<Rightarrow> map_res (\<lambda>xs. x # xs) (collect_items f ms))"

lemma collect_items_take:
  "(\<And>m. m \<in> set ms \<Longrightarrow> f m = Ok (Take (g m))) \<Longrightarrow> collect_items f ms = Ok (map g ms)"
  by (induction ms) auto

lemma collect_items_filter:
  "(\<And>m. m \<in> set ms \<Longrightarrow> f m = Ok (case g m of None \<Rightarrow> Skip | Some x \<Rightarrow> Take x)) \<Longrightarrow>
    collect_items f ms = Ok (List.map_filter g ms)"
  by (induction ms) (auto simp: List.map_filter_simps split: option.splits)

text \<open>The same loop with a \<open>return\<close> in place of the push.\<close>

fun find_item :: "('m \<Rightarrow> 'a item res) \<Rightarrow> 'm list \<Rightarrow> 'a option res" where
  "find_item f [] = Ok None"
| "find_item f (m # ms) = bind_res (f m) (\<lambda>i. case i of
     Skip \<Rightarrow> find_item f ms
   | Stop \<Rightarrow> Ok None
   | Take x \<Rightarrow> Ok (Some x))"

section \<open>Parts of a message\<close>

text \<open>The attributes after a fixed structure of \<open>fixed\<close> bytes: \<open>IFLA_RTA\<close> and \<open>IFLA_PAYLOAD\<close>, and
  the like for addresses and routes.\<close>

definition msg_attrs :: "msg_ptr \<Rightarrow> u32 \<Rightarrow> u16 \<Rightarrow> nat option list res" where
  "msg_attrs mp fixed max_ty = (case mp of (buf, p) \<Rightarrow>
     bind_res (read_hdr buf p) (\<lambda>h.
     parse_attrs buf (p + 16 + unat (NLMSG_ALIGN fixed)) (NLMSG_PAYLOAD (nlmsg_len h) fixed)
       (unat (max_ty + 1))))"

abbreviation nth_attr :: "nat option list \<Rightarrow> u16 \<Rightarrow> nat option" where
  "nth_attr attrs t \<equiv> attrs ! unat t"

definition opt_attr :: "bytes \<Rightarrow> nat option \<Rightarrow> bytes option res" where
  "opt_attr buf t = (case t of None \<Rightarrow> Ok None | Some p \<Rightarrow> map_res Some (getattr_var buf (Some p)))"

text \<open>An address attribute as text; a null pointer is dereferenced.\<close>

definition attr_text :: "bytes \<Rightarrow> nat option \<Rightarrow> string res" where
  "attr_text buf t = (case t of None \<Rightarrow> Undefined
     | Some p \<Rightarrow> bind_res (read_rtattr buf p) (\<lambda>a. format_address buf (p + 4) (RTA_PAYLOAD (rta_len a))))"

definition opt_text :: "bytes \<Rightarrow> nat option \<Rightarrow> string res" where
  "opt_text buf t = (case t of None \<Rightarrow> Ok [] | Some p \<Rightarrow> attr_text buf (Some p))"

section \<open>The messages of \<open>protocols/src/types.rs\<close>\<close>

datatype IPFamily = v4 | v6

record IPAddress =
  ipa_family :: IPFamily
  ipa_address :: string
  ipa_mask :: string

record Interface =
  if_device :: string
  if_name :: string
  if_IPAddresses :: "IPAddress list"
  if_mtu :: u64
  if_hwAddr :: string
  if_pciAddr :: string
  if_field_type :: string
  if_raw_flags :: u32

record Route =
  rt_dest :: string
  rt_gateway :: string
  rt_device :: string
  rt_source :: string
  rt_scope :: u32

section \<open>Links\<close>

text \<open>The guards every reader of links starts with.\<close>

definition link_item :: "(nat option list \<Rightarrow> 'a item res) \<Rightarrow> msg_ptr \<Rightarrow> 'a item res" where
  "link_item k mp = (case mp of (buf, p) \<Rightarrow> bind_res (read_hdr buf p) (\<lambda>h.
     if nlmsg_type h \<noteq> RTM_NEWLINK \<and> nlmsg_type h \<noteq> RTM_DELLINK then Ok Skip
     else if nlmsg_len h < NLMSG_SPACE 16 then Ok Stop
     else bind_res (msg_attrs mp 16 IFLA_MAX) k))"

definition read_ifi :: "msg_ptr \<Rightarrow> ifinfomsg res" where
  "read_ifi mp = (case mp of (buf, p) \<Rightarrow> map_res get_ifinfomsg (peek buf (p + 16) 16))"

definition read_ifa :: "msg_ptr \<Rightarrow> ifaddrmsg res" where
  "read_ifa mp = (case mp of (buf, p) \<Rightarrow> map_res get_ifaddrmsg (peek buf (p + 16) 8))"

definition read_rtm :: "msg_ptr \<Rightarrow> rtmsg res" where
  "read_rtm mp = (case mp of (buf, p) \<Rightarrow> map_res get_rtmsg (peek buf (p + 16) 12))"

text \<open>\<open>find_link_by_hwaddr\<close>: \<open>memcmp\<close> over the length of the attribute, against the six bytes asked
  for.\<close>

definition hw_item :: "bytes \<Rightarrow> msg_ptr \<Rightarrow> ifinfomsg item res" where
  "hw_item hw mp = link_item (\<lambda>attrs. case nth_attr attrs IFLA_ADDRESS of
       None \<Rightarrow> Ok Skip
     | Some q \<Rightarrow> bind_res (getattr_var (fst mp) (Some q)) (\<lambda>a.
         if length hw < length a then Undefined
         else if take (length a) hw = a then map_res Take (read_ifi mp) else Ok Skip)) mp"

definition find_hw :: "bytes \<Rightarrow> msg_ptr list \<Rightarrow> ifinfomsg res" where
  "find_hw hw lv = bind_res (find_item (hw_item hw) lv) (\<lambda>i. case i of
     None \<Rightarrow> Err (Nix ENODEV) | Some ifi \<Rightarrow> Ok ifi)"

section \<open>Addresses\<close>

text \<open>The guards of the readers of addresses, up to the fixed structure.\<close>

definition addr_item :: "(ifaddrmsg \<Rightarrow> 'a item res) \<Rightarrow> msg_ptr \<Rightarrow> 'a item res" where
  "addr_item k mp = (case mp of (buf, p) \<Rightarrow> bind_res (read_hdr buf p) (\<lambda>h.
     if nlmsg_type h \<noteq> RTM_NEWADDR then Ok Skip
     else if nlmsg_len h < NLMSG_SPACE 8 then Ok Stop
     else bind_res (read_ifa mp) k))"

definition addr_attr :: "nat option list \<Rightarrow> nat option" where
  "addr_attr attrs = (if nth_attr attrs IFA_ADDRESS \<noteq> None then nth_attr attrs IFA_ADDRESS
     else nth_attr attrs IFA_LOCAL)"

text \<open>The addresses of a link in \<open>get_link_addresses\<close>; secondary ones go with their primary.\<close>

definition link_addr_item :: "u32 \<Rightarrow> msg_ptr \<Rightarrow> RtIPAddr item res" where
  "link_addr_item index mp = addr_item (\<lambda>ifa.
     if (ucast (ifa_flags ifa) :: u32) AND IFA_F_SECONDARY \<noteq> 0 then Ok Skip
     else if index = ifa_index ifa then
       bind_res (msg_attrs mp 8 IFA_MAX) (\<lambda>attrs.
       bind_res (getattr_var (fst mp) (addr_attr attrs)) (\<lambda>a.
       Ok (Take \<lparr>ip_family = ifa_family ifa, ip_mask = ifa_prefixlen ifa, ip_addr = a\<rparr>)))
     else Ok Skip) mp"

text \<open>The addresses of a link in \<open>list_interfaces\<close>, as text.\<close>

definition list_addr_item :: "u32 \<Rightarrow> msg_ptr \<Rightarrow> IPAddress item res" where
  "list_addr_item index mp = addr_item (\<lambda>ifa.
     if ifa_index ifa = index then
       bind_res (msg_attrs mp 8 IFA_MAX) (\<lambda>attrs.
       bind_res (attr_text (fst mp) (addr_attr attrs)) (\<lambda>a.
       Ok (Take \<lparr>ipa_family = (if ifa_family ifa = AF_INET6 then v6 else v4), ipa_address = a,
         ipa_mask = show_word (ifa_prefixlen ifa)\<rparr>)))
     else Ok Skip) mp"

definition interface0 :: Interface where
  "interface0 = \<lparr>if_device = [], if_name = [], if_IPAddresses = [], if_mtu = 0, if_hwAddr = [],
     if_pciAddr = [], if_field_type = [], if_raw_flags = 0\<rparr>"

definition iface_item :: "msg_ptr list \<Rightarrow> msg_ptr \<Rightarrow> Interface item res" where
  "iface_item av mp = link_item (\<lambda>attrs. let buf = fst mp in
     bind_res (case nth_attr attrs IFLA_IFNAME of None \<Rightarrow> Ok []
       | Some q \<Rightarrow> bind_res (getattr_var buf (Some q)) from_utf8) (\<lambda>name.
     bind_res (case nth_attr attrs IFLA_MTU of None \<Rightarrow> Ok 0 | Some q \<Rightarrow> getattr32 buf q) (\<lambda>mtu.
     bind_res (opt_text buf (nth_attr attrs IFLA_ADDRESS)) (\<lambda>hw.
     bind_res (if av = [] then Ok [] else bind_res (read_ifi mp) (\<lambda>ifi.
         collect_items (list_addr_item (ifi_index ifi)) av)) (\<lambda>ads.
     Ok (Take (interface0\<lparr>if_name := name, if_mtu := ucast mtu, if_hwAddr := hw,
       if_IPAddresses := ads\<rparr>))))))) mp"

section \<open>Routes\<close>

definition route_item :: "(rtmsg \<Rightarrow> nat option list \<Rightarrow> 'a item res) \<Rightarrow> msg_ptr \<Rightarrow> 'a item res" where
  "route_item k mp = (case mp of (buf, p) \<Rightarrow> bind_res (read_hdr buf p) (\<lambda>h.
     if nlmsg_type h \<noteq> RTM_NEWROUTE \<and> nlmsg_type h \<noteq> RTM_DELROUTE then Ok Skip
     else if nlmsg_len h < NLMSG_SPACE 12 then Ok Stop
     else bind_res (read_rtm mp) (\<lambda>rtm.
       if rtm_table rtm \<noteq> ucast RT_TABLE_MAIN then Ok Skip
       else bind_res (msg_attrs mp 12 RTA_MAX) (\<lambda>attrs.
         bind_res (case nth_attr attrs RTA_TABLE of None \<Rightarrow> Ok RT_TABLE_MAIN
           | Some q \<Rightarrow> getattr32 buf q) (\<lambda>tbl.
         if tbl \<noteq> RT_TABLE_MAIN then Ok Skip else k rtm attrs)))))"

definition source_attr :: "nat option list \<Rightarrow> nat option" where
  "source_attr attrs = (if nth_attr attrs RTA_SRC = None then nth_attr attrs RTA_PREFSRC
     else nth_attr attrs RTA_SRC)"

text \<open>\<open>get_all_routes\<close>.\<close>

definition rtroute_item :: "msg_ptr \<Rightarrow> RtRoute item res" where
  "rtroute_item mp = route_item (\<lambda>rtm attrs. let buf = fst mp in
     bind_res (opt_attr buf (nth_attr attrs RTA_DST)) (\<lambda>dst.
     bind_res (opt_attr buf (nth_attr attrs RTA_GATEWAY)) (\<lambda>gw.
     bind_res (opt_attr buf (source_attr attrs)) (\<lambda>src.
     bind_res (case nth_attr attrs RTA_OIF of None \<Rightarrow> Ok 0 | Some q \<Rightarrow> getattr32 buf q) (\<lambda>oif.
     Ok (Take \<lparr>rr_dest = (if gw \<noteq> None \<and> dst = None then Some [0, 0, 0, 0] else dst),
       rr_source = src, rr_gateway = gw, rr_index = oif, rr_scope = rtm_scope rtm,
       rr_dst_len = rtm_dst_len rtm, rr_src_len = rtm_src_len rtm,
       rr_protocol = rtm_protocol rtm\<rparr>)))))) mp"

text \<open>
  \<open>list_routes\<close>: a route as text, and the index of its device when it has one (whose name the
  caller then asks for).
\<close>

definition text_route_item :: "msg_ptr \<Rightarrow> (Route \<times> u32 option) item res" where
  "text_route_item mp = route_item (\<lambda>rtm attrs. let buf = fst mp in
     bind_res (case nth_attr attrs RTA_DST of None \<Rightarrow> Ok []
       | Some q \<Rightarrow> map_res (\<lambda>a. a @ ''/'' @ show_word (rtm_dst_len rtm)) (attr_text buf (Some q))) (\<lambda>dst.
     bind_res (opt_text buf (nth_attr attrs RTA_GATEWAY)) (\<lambda>gw.
     bind_res (case source_attr attrs of None \<Rightarrow> Ok []
       | Some q \<Rightarrow> map_res (\<lambda>a. if rtm_src_len rtm \<noteq> 0 then a @ ''/'' @ show_word (rtm_src_len rtm) else a)
           (attr_text buf (Some q))) (\<lambda>src.
     bind_res (case nth_attr attrs RTA_OIF of None \<Rightarrow> Ok None
       | Some q \<Rightarrow> bind_res (read_rtattr buf q) (\<lambda>a.
           if RTA_PAYLOAD (rta_len a) = 4 then map_res (\<lambda>ix. Some (get_le ix)) (peek buf (q + 4) 4)
           else Panic)) (\<lambda>oif.
     Ok (Take (\<lparr>rt_dest = (if nth_attr attrs RTA_GATEWAY \<noteq> None then ''0.0.0.0'' else dst),
       rt_gateway = gw, rt_device = [], rt_source = src,
       rt_scope = ucast (rtm_scope rtm)\<rparr>, oif))))))) mp"

text \<open>\<open>get_name_by_index\<close>: the name in one answer, \<open>None\<close> when the code asks again.\<close>

definition name_in :: "bytes \<Rightarrow> string option res" where
  "name_in retv = bind_res (read_hdr retv 0) (\<lambda>h.
     if nlmsg_type h \<noteq> RTM_NEWLINK \<and> nlmsg_type h \<noteq> RTM_DELLINK then Ok None
     else if nlmsg_len h < NLMSG_SPACE 16 then Ok None
     else bind_res (msg_attrs (retv, 0) 16 IFLA_MAX) (\<lambda>attrs.
       case nth_attr attrs IFLA_IFNAME of None \<Rightarrow> Ok None
       | Some q \<Rightarrow> bind_res (getattr_var retv (Some q)) (\<lambda>d. map_res Some (from_utf8 d))))"

end
