(* ===== verification/Netlink_Requests.thy ===== *)
theory Netlink_Requests
  imports Netlink_Decode
begin

text \<open>
  Requests and readers fit together: what a reader of \<open>Netlink_Decode\<close> makes of a message that a
  builder of \<open>Netlink_Msg\<close> produced.
\<close>

section \<open>The shape of a request\<close>

text \<open>\<open>req m ty fl sq body as e\<close>: the buffer \<open>m\<close> holds a request of length \<open>e\<close> with the given header
  fields, fixed structure and attributes.\<close>

definition req :: "bytes \<Rightarrow> u16 \<Rightarrow> u16 \<Rightarrow> u32 \<Rightarrow> bytes \<Rightarrow> (u16 \<times> bytes) list \<Rightarrow> nat \<Rightarrow> bool" where
  "req m ty fl sq body as e \<longleftrightarrow> message m (16 + length body) as e \<and> length m = 2048
     \<and> peek m 4 12 = Ok (put_le 2 ty @ put_le 2 fl @ put_le 4 sq @ put_le 4 (0 :: u32))
     \<and> peek m 16 (length body) = Ok body"

lemma NLMSG_HDRLEN_16: "NLMSG_HDRLEN = 16"
  by (simp add: NLMSG_HDRLEN_def NLMSG_ALIGN_def NLMSG_ALIGNTO_def)

lemma new_msg_req:
  assumes "length body mod 4 = 0" "length body \<le> 2000"
  obtains m where "new_msg ty fl sq body = Ok m" "req m ty fl sq body [] (16 + length body)"
proof -
  let ?e = "16 + length body"
  let ?h = "put_le 2 ty @ put_le 2 fl @ put_le 4 sq @ put_le 4 (0 :: u32)"
  let ?m = "put_le 4 (of_nat ?e :: u32) @ (?h @ body) @ replicate (2048 - ?e) 0"
  have "take 16 (replicate 2048 (0 :: u8)) = replicate 16 0" by simp
  have "nlmsghdr_bytes (hdr0\<lparr>nlmsg_len := NLMSG_LENGTH (of_nat (length body)),
        nlmsg_type := ty, nlmsg_flags := fl, nlmsg_seq := sq\<rparr>) = put_le 4 (of_nat ?e :: u32) @ ?h"
    by (simp add: nlmsghdr_bytes_def hdr0_def NLMSG_LENGTH_def NLMSG_HDRLEN_16 add.commute)
  then have new: "new_msg ty fl sq body = Ok ?m"
    using assms(2) by (simp add: new_msg_def poke_def)
  have "message ?m ?e [] ?e"
    using assms by (intro message_init) (auto simp: mod_add_eq [symmetric])
  moreover have "length ?m = 2048" using assms(2) by simp
  moreover have "peek ?m 4 12 = Ok ?h" using assms(2) by (simp add: peek_def)
  moreover have "peek ?m 16 (length body) = Ok body" using assms(2) by (simp add: peek_def)
  ultimately have "req ?m ty fl sq body [] ?e" by (simp add: req_def)
  with new that show thesis by blast
qed

lemma new_msg_structs:
  "\<exists>m. new_msg ty fl sq (rtmsg_bytes r) = Ok m \<and> req m ty fl sq (rtmsg_bytes r) [] 28"
  "\<exists>m. new_msg ty fl sq (ifinfomsg_bytes i) = Ok m \<and> req m ty fl sq (ifinfomsg_bytes i) [] 32"
  "\<exists>m. new_msg ty fl sq (ifaddrmsg_bytes a) = Ok m \<and> req m ty fl sq (ifaddrmsg_bytes a) [] 24"
proof -
  show "\<exists>m. new_msg ty fl sq (rtmsg_bytes r) = Ok m \<and> req m ty fl sq (rtmsg_bytes r) [] 28"
    by (rule new_msg_req [of "rtmsg_bytes r" ty fl sq]) auto
  show "\<exists>m. new_msg ty fl sq (ifinfomsg_bytes i) = Ok m \<and> req m ty fl sq (ifinfomsg_bytes i) [] 32"
    by (rule new_msg_req [of "ifinfomsg_bytes i" ty fl sq]) auto
  show "\<exists>m. new_msg ty fl sq (ifaddrmsg_bytes a) = Ok m \<and> req m ty fl sq (ifaddrmsg_bytes a) [] 24"
    by (rule new_msg_req [of "ifaddrmsg_bytes a" ty fl sq]) auto
qed

lemma addattr_var_req:
  assumes "req m ty fl sq body as e" "e + attr_size (t, d) \<le> 2048"
  obtains m' where "addattr_var m t d = Ok m'"
    "req m' ty fl sq body (as @ [(t, pad4 d)]) (e + attr_size (t, d))"
proof -
  note r = assms(1) [unfolded req_def]
  have le: "16 + length body \<le> e" using r attrs_at_le by (auto simp: message_def)
  have fit: "e + attr_size (t, d) \<le> length m" using r assms(2) by simp
  obtain m' where m': "addattr_var m t d = Ok m'" "length m' = length m"
    "message m' (16 + length body) (as @ [(t, pad4 d)]) (e + attr_size (t, d))"
    "\<And>k n. 4 \<le> k \<Longrightarrow> k + n \<le> e \<Longrightarrow> peek m' k n = peek m k n"
    using r addattr_var_message [OF _ fit, of "16 + length body" as] by metis
  then have "req m' ty fl sq body (as @ [(t, pad4 d)]) (e + attr_size (t, d))"
    using r le by (simp add: req_def)
  with m'(1) that show thesis by blast
qed

lemma put_le_ucast: "put_le 4 (ucast (v :: u32) :: u64) = put_le 4 v"
  by (simp add: numeral_eq_Suc) (intro conjI; rule bit_word_eqI; auto simp: bit_simps)

lemma addattr32_req:
  assumes "req m ty fl sq body as e" "e + 8 \<le> 2048"
  obtains m' where "addattr32 m t v = Ok m'"
    "req m' ty fl sq body (as @ [(t, put_le 4 v)]) (e + 8)"
proof -
  note r = assms(1) [unfolded req_def]
  have s: "attr_size (t, put_le 4 v) = 8" by (simp add: attr_size_def length_pad4)
  have eq: "addattr32 m t v = addattr_var m t (put_le 4 v)"
    using r assms(2) s addattr_size_var [of m "16 + length body" as e t 4 "ucast v"]
    by (simp add: addattr32_def put_le_ucast)
  show thesis
    using addattr_var_req [OF assms(1), of t "put_le 4 v"] assms(2) s that eq
    by (metis pad4_numbers(3))
qed

section \<open>Reading a request\<close>

lemma read_hdr_req:
  assumes "req m ty fl sq body as e"
  shows "read_hdr m 0 = Ok \<lparr>nlmsg_len = of_nat e, nlmsg_type = ty, nlmsg_flags = fl, nlmsg_seq = sq,
    nlmsg_pid = 0\<rparr>"
proof -
  note r = assms [unfolded req_def message_def]
  obtain x where x: "peek m 0 4 = Ok x" "get_le x = (of_nat e :: u32)"
    using r by (auto simp: msg_len_def map_res_Ok)
  then have "length x = 4" by (auto simp: peek_Ok)
  moreover have "peek m 0 16 = Ok (x @ put_le 2 ty @ put_le 2 fl @ put_le 4 sq @ put_le 4 (0 :: u32))"
    using peek_append [OF x(1), of 12] r by simp
  ultimately show ?thesis
    using x(2) by (simp add: read_hdr_def get_nlmsghdr_def get_put_le)
qed

lemma parse_req:
  assumes "req m ty fl sq body as e"
  shows "parse_attrs m (16 + length body) (of_nat e - of_nat (16 + length body)) n
    = Ok (map (first_at (16 + length body) as) [0..<n])"
proof -
  have at: "attrs_at m (16 + length body) as e" "e < 2 ^ 32" "16 + length body \<le> e"
    using assms attrs_at_le by (auto simp: req_def message_def)
  have "(of_nat e - of_nat (16 + length body) :: u32) = of_nat (e - (16 + length body))"
    using at(3) by (simp add: of_nat_diff)
  then show ?thesis using parse_attrs_at [OF at(1,2)] by simp
qed

lemma attr_of_req:
  assumes "req m ty fl sq body as e"
  shows "case map_of as t of None \<Rightarrow> first_at (16 + length body) as (unat t) = None
    | Some d \<Rightarrow> \<exists>p. first_at (16 + length body) as (unat t) = Some p \<and> getattr_var m (Some p) = Ok d"
  using assms first_at_data [of m "16 + length body" as e t] by (simp add: req_def message_def)

lemma ucast_get_le: "ucast (get_le d :: u64) = (get_le d :: u32)"
proof (induction d)
  case (Cons b d)
  have ih: "bit (get_le d :: u32) k \<longleftrightarrow> k < 32 \<and> bit (get_le d :: u64) k" for k
    unfolding Cons [symmetric] by (simp add: bit_simps)
  show ?case
  proof (rule bit_word_eqI)
    fix k assume "k < LENGTH(32)"
    then show "bit (ucast (get_le (b # d) :: u64) :: u32) k = bit (get_le (b # d) :: u32) k"
      by (simp add: bit_simps ih less_imp_diff_less)
  qed
qed simp

lemma getattr32_var:
  assumes "getattr_var m (Some p) = Ok d" "length d = 4"
  shows "getattr32 m p = Ok (get_le d)"
proof -
  obtain a where a: "read_rtattr m p = Ok a" "peek m (p + 4) (unat (RTA_PAYLOAD (rta_len a))) = Ok d"
    using assms(1) by (auto simp: getattr_var_def bind_res_Ok)
  then have "unat (RTA_PAYLOAD (rta_len a)) = 4" using assms(2) by (auto simp: peek_Ok)
  then have "RTA_PAYLOAD (rta_len a) = 4" by (metis of_nat_numeral of_nat_unat ucast_id)
  with a show ?thesis
    by (simp add: getattr32_def getattr_n_def getattr_size_def ucast_get_le)
qed

section \<open>Routes\<close>

definition opt_at :: "u16 \<Rightarrow> bytes option \<Rightarrow> (u16 \<times> bytes) list" where
  "opt_at t d = (case d of None \<Rightarrow> [] | Some b \<Rightarrow> [(t, pad4 b)])"

definition route_ats :: "RtRoute \<Rightarrow> (u16 \<times> bytes) list" where
  "route_ats r = opt_at (if 0 < rr_src_len r then RTA_SRC else RTA_PREFSRC) (rr_source r)
     @ opt_at RTA_DST (rr_dest r) @ opt_at RTA_GATEWAY (rr_gateway r)
     @ [(RTA_OIF, put_le 4 (rr_index r))]"

text \<open>The fields of a route whose bytes the attributes keep: a multiple of four, at most 16 bytes.\<close>

definition plain :: "bytes option \<Rightarrow> bool" where
  "plain d \<longleftrightarrow> (\<forall>b. d = Some b \<longrightarrow> length b mod 4 = 0 \<and> length b \<le> 16)"

lemma addattr_opt_req:
  assumes "req m ty fl sq body as e" "e + 20 \<le> 2048" "plain d"
  obtains m' e' where "addattr_opt m t d = Ok m'" "req m' ty fl sq body (as @ opt_at t d) e'"
    "e' \<le> e + 20"
proof (cases d)
  case None
  with assms that [of m e] show thesis by (simp add: addattr_opt_def opt_at_def)
next
  case (Some b)
  have s: "attr_size (t, b) \<le> 20"
    using assms(3) Some by (simp add: plain_def attr_size_def pad4_aligned)
  then have "e + attr_size (t, b) \<le> 2048" using assms(2) by simp
  then obtain m' where "addattr_var m t b = Ok m'" "req m' ty fl sq body (as @ [(t, pad4 b)]) (e + attr_size (t, b))"
    using addattr_var_req [OF assms(1)] by metis
  with s Some that show thesis by (simp add: addattr_opt_def opt_at_def)
qed

lemma route_attrs_req:
  assumes "req m ty fl sq body [] 28" "plain (rr_source r)" "plain (rr_dest r)" "plain (rr_gateway r)"
  obtains m' e where "route_attrs m r = Ok m'" "req m' ty fl sq body (route_ats r) e"
proof -
  let ?t = "if 0 < rr_src_len r then RTA_SRC else RTA_PREFSRC"
  obtain m1 e1 where 1: "addattr_opt m ?t (rr_source r) = Ok m1" "req m1 ty fl sq body ([] @ opt_at ?t (rr_source r)) e1" "e1 \<le> 28 + 20"
    using addattr_opt_req [OF assms(1) _ assms(2), of ?t] by auto
  have f1: "e1 + 20 \<le> 2048" using 1(3) by simp
  obtain m2 e2 where 2: "addattr_opt m1 RTA_DST (rr_dest r) = Ok m2"
    "req m2 ty fl sq body (([] @ opt_at ?t (rr_source r)) @ opt_at RTA_DST (rr_dest r)) e2" "e2 \<le> e1 + 20"
    using addattr_opt_req [OF 1(2) f1 assms(3), of RTA_DST] by auto
  have f2: "e2 + 20 \<le> 2048" using 1(3) 2(3) by simp
  obtain m3 e3 where 3: "addattr_opt m2 RTA_GATEWAY (rr_gateway r) = Ok m3"
    "req m3 ty fl sq body ((([] @ opt_at ?t (rr_source r)) @ opt_at RTA_DST (rr_dest r)) @ opt_at RTA_GATEWAY (rr_gateway r)) e3" "e3 \<le> e2 + 20"
    using addattr_opt_req [OF 2(2) f2 assms(4), of RTA_GATEWAY] by auto
  have f3: "e3 + 8 \<le> 2048" using 1(3) 2(3) 3(3) by simp
  obtain m4 where "addattr32 m3 RTA_OIF (rr_index r) = Ok m4"
    "req m4 ty fl sq body (((([] @ opt_at ?t (rr_source r)) @ opt_at RTA_DST (rr_dest r)) @ opt_at RTA_GATEWAY (rr_gateway r)) @ [(RTA_OIF, put_le 4 (rr_index r))]) (e3 + 8)"
    using addattr32_req [OF 3(2) f3, of RTA_OIF "rr_index r"] by auto
  with 1(1) 2(1) 3(1) that show thesis
    by (simp add: route_attrs_def route_ats_def)
qed

text \<open>What the reader of routes sees of a request with the attributes of \<open>r\<close>.\<close>

lemma opt_attr_req:
  assumes "req m ty fl sq body as e"
  shows "opt_attr m (first_at (16 + length body) as (unat t)) = Ok (map_of as t)"
  using attr_of_req [OF assms, of t] by (auto simp: opt_attr_def split: option.splits)

lemma route_ats_lookup:
  assumes "plain (rr_source r)" "plain (rr_dest r)" "plain (rr_gateway r)"
  shows "map_of (route_ats r) RTA_DST = rr_dest r" "map_of (route_ats r) RTA_GATEWAY = rr_gateway r"
    "map_of (route_ats r) RTA_OIF = Some (put_le 4 (rr_index r))" "map_of (route_ats r) RTA_TABLE = None"
    "map_of (route_ats r) RTA_SRC = (if 0 < rr_src_len r then rr_source r else None)"
    "map_of (route_ats r) RTA_PREFSRC = (if 0 < rr_src_len r then None else rr_source r)"
  using assms by (auto simp: route_ats_def opt_at_def plain_def nl_consts pad4_aligned split: option.splits)

lemma NLMSG_SPACE_eqs: "NLMSG_SPACE 12 = 28" "NLMSG_SPACE 16 = 32" "NLMSG_SPACE 8 = 24"
  "NLMSG_ALIGN 12 = 12" "NLMSG_ALIGN 16 = 16" "NLMSG_ALIGN 8 = 8"
  by (simp_all add: NLMSG_SPACE_def NLMSG_LENGTH_def NLMSG_HDRLEN_16 NLMSG_ALIGN_def NLMSG_ALIGNTO_def)

lemma req_len:
  assumes "req m ty fl sq body as e" "16 + length body = n"
  shows "n \<le> e" "e < 65536" "unat (of_nat e :: u32) = e"
  using assms attrs_at_le by (auto simp: req_def message_def)

text \<open>The reader of routes on a request whose fixed structure is \<open>rtm\<close>.\<close>

lemma rtroute_item_req:
  assumes "req m ty fl sq (rtmsg_bytes rtm) (route_ats r) e"
    and "plain (rr_source r)" "plain (rr_dest r)" "plain (rr_gateway r)"
    and "ty = RTM_NEWROUTE \<or> ty = RTM_DELROUTE" "rtm_table rtm = ucast RT_TABLE_MAIN"
  shows "rtroute_item (m, 0) = Ok (Take \<lparr>
    rr_dest = (if rr_gateway r \<noteq> None \<and> rr_dest r = None then Some [0, 0, 0, 0] else rr_dest r),
    rr_source = rr_source r, rr_gateway = rr_gateway r, rr_index = rr_index r,
    rr_scope = rtm_scope rtm, rr_dst_len = rtm_dst_len rtm, rr_src_len = rtm_src_len rtm,
    rr_protocol = rtm_protocol rtm\<rparr>)"
proof -
  let ?at = "first_at 28 (route_ats r)"
  have len: "28 \<le> e" "e < 65536" "unat (of_nat e :: u32) = e"
    using req_len [OF assms(1), of 28] by simp_all
  have rd: "read_rtm (m, 0) = Ok rtm"
    using assms(1) by (simp add: read_rtm_def req_def struct_roundtrips)
  have big: "\<not> (of_nat e :: u32) < 28" using len by (simp add: word_less_nat_alt)
  obtain T where attrs: "msg_attrs (m, 0) 12 RTA_MAX = Ok T"
    and nth: "\<And>t. unat t < 30 \<Longrightarrow> nth_attr T t = ?at (unat t)"
  proof
    show "msg_attrs (m, 0) 12 RTA_MAX = Ok (map ?at [0..<30])"
      using parse_req [OF assms(1), of 30]
      by (simp add: msg_attrs_def read_hdr_req [OF assms(1)] NLMSG_SPACE_eqs NLMSG_PAYLOAD_def nl_consts)
  qed (simp add: nth_map_upt del: upt_rec_numeral)
  note at = opt_attr_req [OF assms(1), simplified] attr_of_req [OF assms(1), simplified]
  note look = route_ats_lookup [OF assms(2-4)]
  have none: "?at (unat RTA_TABLE) = None" using at(2) [of RTA_TABLE] look by simp
  obtain q where q: "?at (unat RTA_OIF) = Some q" "getattr_var m (Some q) = Ok (put_le 4 (rr_index r))"
    using at(2) [of RTA_OIF] look by auto
  have oif: "getattr32 m q = Ok (rr_index r)"
    using getattr32_var [OF q(2)] by (simp add: get_put_le)
  have src: "opt_attr m (source_attr T) = Ok (rr_source r)"
    using at(1) [of RTA_SRC] at(1) [of RTA_PREFSRC] at(2) [of RTA_SRC] look
    using nth [of RTA_SRC] nth [of RTA_PREFSRC]
    by (auto simp: source_attr_def nl_consts split: if_splits option.splits)
  show ?thesis
    using assms(5) at(1) [of RTA_DST] at(1) [of RTA_GATEWAY] look none q(1) oif src
      nth [of RTA_DST] nth [of RTA_GATEWAY] nth [of RTA_TABLE] nth [of RTA_OIF]
    by (auto simp: rtroute_item_def route_item_def read_hdr_req [OF assms(1)] NLMSG_SPACE_eqs big rd
        assms(6) attrs [unfolded nl_consts] nl_consts Let_def)
qed

text \<open>C5: The request that adds a route (or deletes it) is read back by \<open>get_all_routes\<close> as that route:
  destination, source (sent as \<open>RTA_SRC\<close> with a prefix length and as \<open>RTA_PREFSRC\<close> without), gateway,
  device and lengths are all kept, for addresses of a multiple of four and at most 16 bytes.\<close>

theorem route_roundtrip:
  assumes "plain (rr_source r)" "plain (rr_dest r)" "plain (rr_gateway r)"
  shows "\<exists>m m'. add_route_msg sq r = Ok m \<and> del_route_msg sq r = Ok m'
    \<and> (let r' = r\<lparr>rr_dest := (if rr_gateway r \<noteq> None \<and> rr_dest r = None then Some [0, 0, 0, 0] else rr_dest r)\<rparr>
       in rtroute_item (m, 0) = Ok (Take (r'\<lparr>rr_protocol := RTPROTO_BOOT\<rparr>))
        \<and> rtroute_item (m', 0) = Ok (Take (r'\<lparr>rr_protocol := RTPROTO_UNSPEC\<rparr>)))"
proof -
  let ?r = "rtm0\<lparr>rtm_family := AF_INET, rtm_table := ucast RT_TABLE_MAIN,
          rtm_dst_len := rr_dst_len r, rtm_src_len := rr_src_len r, rtm_scope := rr_scope r\<rparr>"
  let ?a = "rtm0\<lparr>rtm_family := AF_INET, rtm_table := ucast RT_TABLE_MAIN,
          rtm_protocol := RTPROTO_BOOT, rtm_type := RTN_UNICAST, rtm_dst_len := rr_dst_len r,
          rtm_src_len := rr_src_len r, rtm_scope := rr_scope r\<rparr>"
  obtain a0 where a0: "new_msg RTM_NEWROUTE (NLM_F_REQUEST OR NLM_F_CREATE OR NLM_F_EXCL) sq (rtmsg_bytes ?a) = Ok a0"
    "req a0 RTM_NEWROUTE (NLM_F_REQUEST OR NLM_F_CREATE OR NLM_F_EXCL) sq (rtmsg_bytes ?a) [] 28"
    using new_msg_structs(1) by blast
  obtain d0 where d0: "new_msg RTM_DELROUTE NLM_F_REQUEST sq (rtmsg_bytes ?r) = Ok d0"
    "req d0 RTM_DELROUTE NLM_F_REQUEST sq (rtmsg_bytes ?r) [] 28"
    using new_msg_structs(1) by blast
  obtain m e where m: "route_attrs a0 r = Ok m"
    "req m RTM_NEWROUTE (NLM_F_REQUEST OR NLM_F_CREATE OR NLM_F_EXCL) sq (rtmsg_bytes ?a) (route_ats r) e"
    using route_attrs_req [OF a0(2) assms] .
  obtain m' e' where m': "route_attrs d0 r = Ok m'"
    "req m' RTM_DELROUTE NLM_F_REQUEST sq (rtmsg_bytes ?r) (route_ats r) e'"
    using route_attrs_req [OF d0(2) assms] .
  have "add_route_msg sq r = Ok m" using a0(1) m(1) by (simp add: add_route_msg_def)
  moreover have "del_route_msg sq r = Ok m'" using d0(1) m'(1) by (simp add: del_route_msg_def)
  ultimately show ?thesis
    using rtroute_item_req [OF m(2) assms] rtroute_item_req [OF m'(2) assms]
    by (auto simp: Let_def rtm0_def RTPROTO_UNSPEC_def)
qed

definition demo_route :: RtRoute where
  "demo_route = \<lparr>rr_dest = None, rr_source = Some [10, 0, 0, 2], rr_gateway = Some [10, 0, 0, 1],
     rr_index = 3, rr_scope = 0, rr_dst_len = 0, rr_src_len = 0, rr_protocol = 0\<rparr>"

lemma route_roundtrip_witness:
  "\<exists>m. add_route_msg 5 demo_route = Ok m
    \<and> rtroute_item (m, 0) = Ok (Take (demo_route\<lparr>rr_dest := Some [0, 0, 0, 0], rr_protocol := RTPROTO_BOOT\<rparr>))"
proof -
  have "plain (rr_source demo_route)" "plain (rr_dest demo_route)" "plain (rr_gateway demo_route)"
    by (simp_all add: plain_def demo_route_def)
  from route_roundtrip [OF this, of 5] show ?thesis by (auto simp: demo_route_def Let_def)
qed

end
