(* ===== verification/Netlink_Handle.thy ===== *)
theory Netlink_Handle
  imports Netlink_Decode
begin

text \<open>
  \<open>RtnlHandle\<close> of \<open>src/netlink.rs\<close>: the socket, the exchange of requests and answers with the kernel,
  and the operations on links, addresses and routes. Every system call is recorded in \<open>nl_hist\<close>; the
  kernel's answer to a call and the datagram it delivers are arbitrary functions of that history.
  \<open>scan_fmt\<close> is a package of its own: its three uses are the fields of \<open>scanners\<close>.
\<close>

section \<open>State\<close>

datatype nl_op = NlSocket int | NlSndbuf int int | NlRcvbuf int int | NlExtAck int | NlBind int u32
  | NlName int | NlClose int | NlTime | NlSend int bytes | NlRecv int

record handle =
  fd :: int
  local_pid :: u32
  seq :: u32
  dump :: u32

record datagram =
  dg_pid :: u32
  dg_trunc :: bool
  dg_data :: bytes

record nl =
  nl_kernel :: "nl_op list \<Rightarrow> nl_op \<Rightarrow> errno + int"
  nl_name :: "nl_op list \<Rightarrow> u16 \<times> u32 \<times> u32"
  nl_data :: "nl_op list \<Rightarrow> datagram"
  nl_hist :: "nl_op list"
  cur :: handle

record scanners =
  scan_hw :: "string \<Rightarrow> bytes res"
  scan_u8 :: "string \<Rightarrow> u8 res"
  scan_cidr :: "string \<Rightarrow> (string \<times> u8) res"

type_synonym 'a nla = "(nl, 'a) act"

definition nl_sys :: "nl_op \<Rightarrow> int nla" where
  "nl_sys p = (\<lambda>s. (case nl_kernel s (nl_hist s) p of Inl e \<Rightarrow> Err (Nix e) | Inr v \<Rightarrow> Ok v,
     s\<lparr>nl_hist := nl_hist s @ [p]\<rparr>))"

section \<open>Opening and closing\<close>

text \<open>A failed step of the set-up closes the socket and reports the error.\<close>

definition or_close :: "int \<Rightarrow> 'a nla \<Rightarrow> 'a nla" where
  "or_close f m = catchR m (\<lambda>e. thenR (ignoreR (nl_sys (NlClose f))) (throw e))"

definition getsockname :: "int \<Rightarrow> (u16 \<times> u32 \<times> u32) nla" where
  "getsockname f = (\<lambda>s. (case nl_kernel s (nl_hist s) (NlName f) of Inl e \<Rightarrow> Err (Nix e)
     | Inr _ \<Rightarrow> Ok (nl_name s (nl_hist s)), s\<lparr>nl_hist := nl_hist s @ [NlName f]\<rparr>))"

text \<open>\<open>libc::time\<close> gives -1 when it fails.\<close>

definition now :: "int nla" where
  "now = catchR (nl_sys NlTime) (\<lambda>_. ret (- 1))"

definition rtnl_new :: "int \<Rightarrow> u32 \<Rightarrow> handle nla" where
  "rtnl_new protocol grp =
     bindR (nl_sys (NlSocket protocol)) (\<lambda>tmpfd.
     thenR (or_close tmpfd (nl_sys (NlSndbuf tmpfd 32768)))
     (thenR (or_close tmpfd (nl_sys (NlRcvbuf tmpfd (1024 * 1024))))
     (thenR (ignoreR (nl_sys (NlExtAck tmpfd)))
     (thenR (or_close tmpfd (nl_sys (NlBind tmpfd grp)))
     (bindR (or_close tmpfd (bindR (getsockname tmpfd) (\<lambda>(family, pid, addrlen).
        if family \<noteq> AF_NETLINK \<or> addrlen \<noteq> 12 then throw (Nix EINVAL) else ret pid))) (\<lambda>pid.
     bindR now (\<lambda>t.
     ret \<lparr>fd = tmpfd, local_pid = pid, seq = of_int t, dump = 0\<rparr>)))))))"

text \<open>\<open>Drop\<close>.\<close>

definition rtnl_drop :: "handle \<Rightarrow> unit nla" where
  "rtnl_drop h = ignoreR (nl_sys (NlClose (fd h)))"

section \<open>Messages\<close>

definition send_message :: "bytes \<Rightarrow> unit nla" where
  "send_message m = bindR (liftR (bind_res (msg_len m) (\<lambda>l. peek m 0 (unat l)))) (\<lambda>d.
     bindR (getsR (\<lambda>s. fd (cur s))) (\<lambda>f. thenR (nl_sys (NlSend f d)) (ret ())))"

text \<open>The first \<open>recvmsg\<close> only looks at the length; the second one takes the datagram.\<close>

definition recv_message :: "bytes nla" where
  "recv_message = bindR (getsR (\<lambda>s. fd (cur s))) (\<lambda>f.
     thenR (nl_sys (NlRecv f)) (
     bindR (getsR (\<lambda>s. nl_data s (nl_hist s))) (\<lambda>d.
     thenR (nl_sys (NlRecv f)) (
       if dg_pid d \<noteq> 0 then throw (Nix EBADMSG)
       else if dg_trunc d then throw (Nix EBADMSG)
       else ret (dg_data d)))))"

text \<open>\<open>self.seq += 1\<close>, and the request made with the new number.\<close>

definition next_seq :: "u32 nla" where
  "next_seq = thenR (modifyR (\<lambda>s. s\<lparr>cur := (cur s)\<lparr>seq := seq (cur s) + 1\<rparr>\<rparr>)) (getsR (\<lambda>s. seq (cur s)))"

definition next_dump :: "u32 nla" where
  "next_dump = bindR next_seq (\<lambda>n. thenR (modifyR (\<lambda>s. s\<lparr>cur := (cur s)\<lparr>dump := n\<rparr>\<rparr>)) (ret n))"

definition set_ack :: "bytes \<Rightarrow> bytes res" where
  "set_ack m = bind_res (peek m 6 2) (\<lambda>fl. poke m 6 (put_le 2 (get_le fl OR NLM_F_ACK)))"

definition rtnl_talk :: "bytes \<Rightarrow> bool \<Rightarrow> bytes nla" where
  "rtnl_talk data answer =
     bindR (liftR (if answer then Ok data else set_ack data)) (\<lambda>m.
     thenR (send_message m) (
     bindR recv_message (\<lambda>buf.
     bindR (getsR (\<lambda>s. local_pid (cur s))) (\<lambda>pid.
     liftR (talk_scan pid answer buf 0 (of_nat (length buf)))))))"

text \<open>
  A dump ends with \<open>NLMSG_DONE\<close> in one of its datagrams. A kernel that never sends it keeps the loop
  going: the number of datagrams read is bounded by the fuel, and \<open>Hang\<close> is the outcome beyond it.
\<close>

fun recv_dump_message :: "nat \<Rightarrow> msg_ptr list nla" where
  "recv_dump_message 0 = hangR"
| "recv_dump_message (Suc k) =
     bindR recv_message (\<lambda>buf.
     bindR (getsR (\<lambda>s. (local_pid (cur s), dump (cur s)))) (\<lambda>(pid, sq).
     bindR (liftR (dump_scan pid sq buf 0 (of_nat (length buf)))) (\<lambda>(ps, finished, left).
       if finished then ret (map (Pair buf) ps)
       else if left \<noteq> 0 then throw (Nix EINVAL)
       else bindR (recv_dump_message k) (\<lambda>ms. ret (map (Pair buf) ps @ ms)))))"

definition request :: "(u32 \<Rightarrow> bytes res) \<Rightarrow> bool \<Rightarrow> bytes nla" where
  "request mk answer = bindR next_seq (\<lambda>n. bindR (liftR (mk n)) (\<lambda>m. rtnl_talk m answer))"

definition dump_request :: "nat \<Rightarrow> (u32 \<Rightarrow> bytes res) \<Rightarrow> msg_ptr list nla" where
  "dump_request k mk = bindR next_dump (\<lambda>n. bindR (liftR (mk n)) (\<lambda>m.
     thenR (send_message m) (recv_dump_message k)))"

definition dump_all_links :: "nat \<Rightarrow> msg_ptr list nla" where
  "dump_all_links k = dump_request k dump_links_msg"

definition dump_all_addresses :: "nat \<Rightarrow> u32 \<Rightarrow> msg_ptr list nla" where
  "dump_all_addresses k ifindex = dump_request k (\<lambda>n. dump_addresses_msg n ifindex)"

definition dump_all_route_msgs :: "nat \<Rightarrow> msg_ptr list nla" where
  "dump_all_route_msgs k = dump_request k dump_routes_msg"

section \<open>Links\<close>

definition list_interfaces :: "nat \<Rightarrow> Interface list nla" where
  "list_interfaces k = bindR (dump_all_links k) (\<lambda>lv. bindR (dump_all_addresses k 0) (\<lambda>av.
     liftR (collect_items (iface_item av) lv)))"

definition find_link_by_hwaddr :: "nat \<Rightarrow> scanners \<Rightarrow> string \<Rightarrow> ifinfomsg nla" where
  "find_link_by_hwaddr k sc hwaddr = bindR (liftR (scan_hw sc hwaddr)) (\<lambda>hw.
     bindR (dump_all_links k) (\<lambda>lv. liftR (find_hw hw lv)))"

definition find_link_by_name :: "u8 \<Rightarrow> string \<Rightarrow> ifinfomsg nla" where
  "find_link_by_name after name =
     bindR (request (\<lambda>n. link_by_name_msg n (bytes_of name) after) True) (\<lambda>retv. liftR (read_ifi (retv, 0)))"

definition set_link_status :: "ifinfomsg \<Rightarrow> bool \<Rightarrow> unit nla" where
  "set_link_status ifinfo up = thenR (request (\<lambda>n. link_status_msg n ifinfo up) False) (ret ())"

definition delete_one_addr :: "ifinfomsg \<Rightarrow> RtIPAddr \<Rightarrow> unit nla" where
  "delete_one_addr ifinfo addr = thenR (request (\<lambda>n. del_addr_msg n ifinfo addr) False) (ret ())"

definition delete_all_addrs :: "ifinfomsg \<Rightarrow> RtIPAddr list \<Rightarrow> unit nla" where
  "delete_all_addrs ifinfo addrs = for_each addrs (delete_one_addr ifinfo)"

definition get_link_addresses :: "nat \<Rightarrow> ifinfomsg \<Rightarrow> RtIPAddr list nla" where
  "get_link_addresses k ifinfo = bindR (dump_all_addresses k (ifi_index ifinfo)) (\<lambda>av.
     liftR (collect_items (link_addr_item (ifi_index ifinfo)) av))"

definition add_one_address :: "ifinfomsg \<Rightarrow> RtIPAddr \<Rightarrow> unit nla" where
  "add_one_address ifinfo ip = thenR (request (\<lambda>n. add_addr_msg n ifinfo ip) False) (ret ())"

text \<open>\<open>Result::unwrap\<close>.\<close>

primrec unwrap_res :: "'a res \<Rightarrow> 'a res" where
  "unwrap_res (Ok x) = Ok x"
| "unwrap_res (Err e) = Panic"
| "unwrap_res Panic = Panic"
| "unwrap_res Hang = Hang"
| "unwrap_res Undefined = Undefined"

text \<open>\<open>impl From<IPAddress> for RtIPAddr\<close>.\<close>

definition rtip_from :: "scanners \<Rightarrow> IPAddress \<Rightarrow> RtIPAddr res" where
  "rtip_from sc ipi = bind_res (unwrap_res (scan_u8 sc (ipa_mask ipi))) (\<lambda>m.
     bind_res (unwrap_res (parse_ipaddr (ipa_address ipi))) (\<lambda>a.
     Ok \<lparr>ip_family = (if ipa_family ipi = v4 then AF_INET else AF_INET6), ip_mask = m, ip_addr = a\<rparr>))"

definition update_interface :: "nat \<Rightarrow> scanners \<Rightarrow> Interface \<Rightarrow> Interface nla" where
  "update_interface k sc iface =
     bindR (find_link_by_hwaddr k sc (if_hwAddr iface)) (\<lambda>ifinfo.
     thenR (whenR (ifi_flags ifinfo AND IFF_UP \<noteq> 0) (set_link_status ifinfo False)) (
     bindR (get_link_addresses k ifinfo) (\<lambda>del_addrs.
     thenR (delete_all_addrs ifinfo del_addrs) (
     thenR (for_each (if_IPAddresses iface) (\<lambda>a. bindR (liftR (rtip_from sc a)) (add_one_address ifinfo))) (
     thenR (request (\<lambda>n. set_link_msg n ifinfo (if_raw_flags iface) (if_mtu iface)
        (bytes_of (if_name iface))) False) (
     thenR (ignoreR (set_link_status ifinfo True)) (ret iface)))))))"

definition remove_interface :: "nat \<Rightarrow> scanners \<Rightarrow> Interface \<Rightarrow> Interface nla" where
  "remove_interface k sc iface =
     bindR (find_link_by_hwaddr k sc (if_hwAddr iface)) (\<lambda>ifinfo.
     thenR (set_link_status ifinfo False) (
     thenR (request (\<lambda>n. del_link_msg n ifinfo) False) (ret iface)))"

text \<open>\<open>get_name_by_index\<close> asks up to five times.\<close>

primrec name_by_index :: "nat \<Rightarrow> u32 \<Rightarrow> string nla" where
  "name_by_index 0 index = throw (ErrorCode ''no name'')"
| "name_by_index (Suc n) index = bindR (request (\<lambda>sq. link_by_index_msg sq index) True) (\<lambda>retv.
     bindR (liftR (name_in retv)) (\<lambda>r. case r of Some name \<Rightarrow> ret name | None \<Rightarrow> name_by_index n index))"

definition get_name_by_index :: "u32 \<Rightarrow> string nla" where
  "get_name_by_index index = name_by_index 5 index"

definition handle_localhost :: "u8 \<Rightarrow> unit nla" where
  "handle_localhost after = bindR (find_link_by_name after ''lo'') (\<lambda>ifi. set_link_status ifi True)"

section \<open>Routes\<close>

fun text_routes :: "msg_ptr list \<Rightarrow> Route list nla" where
  "text_routes [] = ret []"
| "text_routes (m # ms) = bindR (liftR (text_route_item m)) (\<lambda>i. case i of
     Skip \<Rightarrow> text_routes ms
   | Stop \<Rightarrow> ret []
   | Take (r, oif) \<Rightarrow>
       bindR (case oif of None \<Rightarrow> ret []
         | Some ix \<Rightarrow> catchR (get_name_by_index ix) (\<lambda>_. ret ''unknown'')) (\<lambda>dev.
       bindR (text_routes ms) (\<lambda>rs. ret (r\<lparr>rt_device := dev\<rparr> # rs))))"

definition list_routes :: "nat \<Rightarrow> Route list nla" where
  "list_routes k = bindR (dump_all_route_msgs k) text_routes"

definition get_all_routes :: "nat \<Rightarrow> RtRoute list nla" where
  "get_all_routes k = bindR (dump_all_route_msgs k) (\<lambda>rv. liftR (collect_items rtroute_item rv))"

text \<open>Requests about one route also set \<open>self.dump\<close>.\<close>

definition route_request :: "(u32 \<Rightarrow> bytes res) \<Rightarrow> unit nla" where
  "route_request mk = bindR next_dump (\<lambda>n. bindR (liftR (mk n)) (\<lambda>m. thenR (rtnl_talk m False) (ret ())))"

definition add_one_route :: "RtRoute \<Rightarrow> unit nla" where
  "add_one_route r = route_request (\<lambda>n. add_route_msg n r)"

definition delete_one_route :: "RtRoute \<Rightarrow> unit nla" where
  "delete_one_route r = route_request (\<lambda>n. del_route_msg n r)"

definition kept_device :: "string \<Rightarrow> bool" where
  "kept_device name \<longleftrightarrow> contains ''lo'' name \<or> contains ''::1'' name"

definition delete_all_routes :: "RtRoute list \<Rightarrow> unit nla" where
  "delete_all_routes rs = for_each rs (\<lambda>r. bindR (get_name_by_index (rr_index r)) (\<lambda>name.
     if kept_device name then ret ()
     else if rr_protocol r = RTPROTO_KERNEL then ret ()
     else delete_one_route r))"

text \<open>\<open>impl From<Route> for RtRoute\<close> looks the device up over a socket of its own, which is closed
  when the conversion ends.\<close>

definition unwrapR :: "'a nla \<Rightarrow> 'a nla" where
  "unwrapR m = (\<lambda>s. apfst unwrap_res (m s))"

definition with_handle :: "handle \<Rightarrow> 'a nla \<Rightarrow> 'a nla" where
  "with_handle h m = (\<lambda>s. case m (s\<lparr>cur := h\<rparr>) of (r, s1) \<Rightarrow>
     (r, (snd (rtnl_drop h s1))\<lparr>cur := cur s\<rparr>))"

definition device_index :: "u8 \<Rightarrow> string \<Rightarrow> u32 nla" where
  "device_index after name = bindR (unwrapR (rtnl_new 0 0)) (\<lambda>h.
     with_handle h (bindR (unwrapR (find_link_by_name after name)) (\<lambda>ifi. ret (ifi_index ifi))))"

definition cidr_from :: "scanners \<Rightarrow> string \<Rightarrow> (bytes \<times> u8) res" where
  "cidr_from sc s = unwrap_res (parse_cider (scan_cidr sc) s)"

definition rtroute_from :: "u8 \<Rightarrow> scanners \<Rightarrow> Route \<Rightarrow> RtRoute nla" where
  "rtroute_from after sc r = bindR (device_index after (rt_device r)) (\<lambda>index.
     liftR (
       bind_res (if rt_dest r = [] then Ok ([0, 0, 0, 0], 0) else cidr_from sc (rt_dest r)) (\<lambda>(dst, dst_len).
       bind_res (if rt_source r = [] then Ok (None, 0)
         else map_res (\<lambda>(a, l). (Some a, l)) (cidr_from sc (rt_source r))) (\<lambda>(src, src_len).
       bind_res (if rt_gateway r = [] then Ok None
         else map_res Some (unwrap_res (parse_ipaddr (rt_gateway r)))) (\<lambda>gw.
       Ok \<lparr>rr_dest = Some dst, rr_source = src, rr_gateway = gw, rr_index = index,
         rr_scope = ucast (rt_scope r), rr_dst_len = dst_len, rr_src_len = src_len,
         rr_protocol = RTPROTO_UNSPEC\<rparr>)))))"

definition add_grpc_route :: "u8 \<Rightarrow> scanners \<Rightarrow> Route \<Rightarrow> unit nla" where
  "add_grpc_route after sc r = bindR (rtroute_from after sc r) add_one_route"

definition update_routes :: "nat \<Rightarrow> u8 \<Rightarrow> scanners \<Rightarrow> Route list \<Rightarrow> Route list nla" where
  "update_routes k after sc rt = bindR (get_all_routes k) (\<lambda>rs.
     thenR (delete_all_routes rs) (
     thenR (for_each rt (\<lambda>r. whenR (rt_gateway r = []) (add_grpc_route after sc r))) (
     thenR (for_each rt (\<lambda>r. whenR (rt_gateway r \<noteq> []) (add_grpc_route after sc r))) (
     ret rt))))"

end
