(* ===== verification/Netlink_Props.thy ===== *)
theory Netlink_Props
  imports Netlink_Requests Netlink_Handle
begin

text \<open>
  Properties of the netlink handle: the answer \<open>rtnl_talk\<close> finds in a datagram, the socket set-up, the
  dumps, and the requests that \<open>update_interface\<close> and \<open>update_routes\<close> make, in their order.
\<close>

section \<open>The answer in a datagram\<close>

type_synonym nlmsg = "nlmsghdr \<times> bytes"

definition msg_bytes :: "nlmsg \<Rightarrow> bytes" where
  "msg_bytes m = nlmsghdr_bytes (fst m) @ snd m"

definition ok_msg :: "nlmsg \<Rightarrow> bool" where
  "ok_msg m \<longleftrightarrow> unat (nlmsg_len (fst m)) = 16 + length (snd m) \<and> length (snd m) mod 4 = 0"

text \<open>What a caller of \<open>rtnl_talk\<close> expects: the first message for this socket decides.\<close>

fun talk_ref :: "u32 \<Rightarrow> bool \<Rightarrow> nlmsg list \<Rightarrow> bytes res" where
  "talk_ref pid answer [] = Err (Nix EINVAL)"
| "talk_ref pid answer ((h, d) # ms) =
     (if nlmsg_pid h \<noteq> pid then talk_ref pid answer ms
      else if nlmsg_type h = NLMSG_ERROR then
        (if length d < 20 then Err (ErrorCode ''truncated message'')
         else let e = get_le (take 4 d) :: u32 in
           if e = 0 then Ok [] else Err (Nix (errno_of (sint (- e)))))
      else Ok (if answer then msg_bytes (h, d) else []))"

lemma peek_mid: "length x = n \<Longrightarrow> peek (pre @ x @ post) (length pre) n = Ok x"
  by (simp add: peek_def)

lemma read_hdr_mid: "read_hdr (pre @ msg_bytes (h, d) @ post) (length pre) = Ok h"
  using peek_mid [of "nlmsghdr_bytes h" 16 pre "d @ post"]
  by (simp add: read_hdr_def msg_bytes_def struct_roundtrips)

lemma length_msg_bytes [simp]: "length (msg_bytes m) = 16 + length (snd m)"
  by (simp add: msg_bytes_def)

lemma NLMSG_ALIGN_id:
  assumes "unat x mod 4 = 0" "unat x + 3 < 2 ^ 32"
  shows "NLMSG_ALIGN x = x"
proof -
  have "4 * ((unat x + 3) div 4) = unat x" using assms(1) by presburger
  then show ?thesis
    using assms(2) by (simp add: NLMSG_ALIGN_eq word_unat_eq_iff unat_RTA_ALIGN)
qed

lemma msg_step:
  assumes "ok_msg (h, d)" "16 + length d + length rest < 2 ^ 31"
  shows "NLMSG_OK (nlmsg_len h) (of_nat (16 + length d + length rest))"
    and "NLMSG_ALIGN (nlmsg_len h) = nlmsg_len h" "nlmsg_len h \<noteq> 0" "unat (nlmsg_len h) = 16 + length d"
    and "of_nat (16 + length d + length rest) - nlmsg_len h = (of_nat (length rest) :: u32)"
    and "\<not> (of_nat (16 + length d + length rest) :: u32) < 16"
proof -
  have l: "unat (nlmsg_len h) = 16 + length d" "length d mod 4 = 0"
    using assms(1) by (simp_all add: ok_msg_def)
  have u: "unat (of_nat (16 + length d + length rest) :: u32) = 16 + length d + length rest"
    by (rule unat_u32_of_nat) (use assms(2) in simp)
  show "unat (nlmsg_len h) = 16 + length d" by (rule l)
  show "nlmsg_len h \<noteq> 0" using l(1) by auto
  have "(16 + length d) mod 4 = 0" using l(2) by presburger
  then show "NLMSG_ALIGN (nlmsg_len h) = nlmsg_len h"
    using l assms(2) by (intro NLMSG_ALIGN_id) simp_all
  show "NLMSG_OK (nlmsg_len h) (of_nat (16 + length d + length rest))"
    using l u by (simp add: NLMSG_OK_def word_le_nat_alt)
  show "\<not> (of_nat (16 + length d + length rest) :: u32) < 16"
    using u by (simp add: word_less_nat_alt)
  have "nlmsg_len h = of_nat (16 + length d)" using l(1) by (metis of_nat_unat ucast_id)
  then show "of_nat (16 + length d + length rest) - nlmsg_len h = (of_nat (length rest) :: u32)"
    by simp
qed

lemma nl_error_mid:
  assumes "ok_msg (h, d)"
  shows "nl_error (pre @ msg_bytes (h, d) @ post) (length pre) =
    (if length d < 20 then Err (ErrorCode ''truncated message'') else Ok (get_le (take 4 d)))"
proof -
  have l: "unat (nlmsg_len h) = 16 + length d" using assms by (simp add: ok_msg_def)
  have "nlmsg_len h < NLMSG_LENGTH 20 \<longleftrightarrow> length d < 20"
    using l by (simp add: NLMSG_LENGTH_def NLMSG_HDRLEN_16 word_less_nat_alt)
  moreover have "20 \<le> length d \<Longrightarrow> peek (pre @ msg_bytes (h, d) @ post) (length pre + 16) 4 = Ok (take 4 d)"
    by (simp add: peek_def msg_bytes_def)
  ultimately show ?thesis by (simp add: nl_error_def read_hdr_mid)
qed

lemma talk_scan_mid:
  "\<forall>m \<in> set ms. ok_msg m \<Longrightarrow> length (concat (map msg_bytes ms)) < 2 ^ 31 \<Longrightarrow>
    talk_scan pid answer (pre @ concat (map msg_bytes ms)) (length pre)
      (of_nat (length (concat (map msg_bytes ms)))) = talk_ref pid answer ms"
proof (induction ms arbitrary: pre)
  case Nil
  then show ?case by (simp add: talk_scan.simps)
next
  case (Cons m ms)
  obtain h d where m: "m = (h, d)" by (cases m)
  let ?r = "concat (map msg_bytes ms)"
  have ok: "ok_msg (h, d)" and small: "16 + length d + length ?r < 2 ^ 31"
    using Cons.prems m by (simp_all)
  note st = msg_step [OF ok small]
  have ih: "talk_scan pid answer (pre @ msg_bytes (h, d) @ ?r) (length pre + (16 + length d))
      (of_nat (length ?r)) = talk_ref pid answer ms"
    using Cons.IH [of "pre @ msg_bytes (h, d)"] Cons.prems by (simp add: add.assoc)
  have pk: "peek (pre @ msg_bytes (h, d) @ ?r) (length pre) (16 + length d) = Ok (msg_bytes (h, d))"
    by (rule peek_mid) simp
  have len: "length (concat (map msg_bytes (m # ms))) = 16 + length d + length ?r"
    by (simp add: m)
  have buf: "concat (map msg_bytes (m # ms)) = msg_bytes (h, d) @ ?r" by (simp add: m)
  show ?case
    unfolding len unfolding buf
    by (subst talk_scan.simps)
      (simp add: read_hdr_mid st ih pk nl_error_mid [OF ok] m Let_def del: of_nat_add)
qed

text \<open>C35: On a datagram made of well-formed messages, \<open>rtnl_talk\<close>'s scan agrees with the reference: the
  first message addressed to this socket decides, an error message is reported (0 is success), any other
  is the answer, and no message for the socket is EINVAL.\<close>

theorem talk_scan_reference:
  assumes "\<forall>m \<in> set ms. ok_msg m" "length (concat (map msg_bytes ms)) < 2 ^ 31"
  shows "talk_scan pid answer (concat (map msg_bytes ms)) 0 (of_nat (length (concat (map msg_bytes ms))))
    = talk_ref pid answer ms"
  using talk_scan_mid [OF assms, of pid answer "[]"] by simp

lemma talk_scan_reference_witness:
  "talk_scan 7 False (concat (map msg_bytes
      [(\<lparr>nlmsg_len = 16, nlmsg_type = NLMSG_DONE, nlmsg_flags = 0, nlmsg_seq = 0, nlmsg_pid = 3\<rparr>, []),
       (\<lparr>nlmsg_len = 36, nlmsg_type = NLMSG_ERROR, nlmsg_flags = 0, nlmsg_seq = 1, nlmsg_pid = 7\<rparr>,
        put_le 4 (- 17 :: u32) @ replicate 16 0)])) 0 52 = Err (Nix EEXIST)"
proof -
  let ?ms = "[(\<lparr>nlmsg_len = 16, nlmsg_type = NLMSG_DONE, nlmsg_flags = 0, nlmsg_seq = 0, nlmsg_pid = 3\<rparr>, []),
       (\<lparr>nlmsg_len = 36, nlmsg_type = NLMSG_ERROR, nlmsg_flags = 0, nlmsg_seq = 1, nlmsg_pid = 7\<rparr>,
        put_le 4 (- 17 :: u32) @ replicate 16 0)]"
  have ok: "\<forall>m \<in> set ?ms. ok_msg m" by (simp add: ok_msg_def)
  have len: "length (concat (map msg_bytes ?ms)) = 52" by simp
  have "talk_ref 7 False ?ms = Err (Nix EEXIST)"
    by (simp add: get_put_le errno_of_def Let_def)
  then show ?thesis using talk_scan_reference [OF ok, of 7 False, unfolded len] by simp
qed

section \<open>Opening the socket\<close>

text \<open>When the set-up of a netlink socket fails after the socket was made, the last system call is
  the \<open>close\<close> of that socket: no descriptor is leaked.\<close>

lemma rtnl_new_no_leak:
  assumes "rtnl_new protocol grp s = (Err e, t)" "nl_kernel s (nl_hist s) (NlSocket protocol) = Inr f"
  shows "\<exists>ops. nl_hist t = nl_hist s @ NlSocket protocol # ops @ [NlClose f]"
proof -
  note defs = rtnl_new_def or_close_def nl_sys_def bindR_def thenR_def catchR_def ignoreR_def
    getsockname_def now_def ret_def throw_def
  show ?thesis
    using assms
    by (simp add: defs) (auto split: sum.splits res.splits if_splits prod.splits)
qed

text \<open>A kernel that refuses to bind.\<close>

definition refusing :: nl where
  "refusing = \<lparr>nl_kernel = (\<lambda>_ p. case p of NlBind _ _ \<Rightarrow> Inl EACCES | _ \<Rightarrow> Inr 5), nl_name = (\<lambda>_. (0, 0, 0)),
     nl_data = (\<lambda>_. \<lparr>dg_pid = 0, dg_trunc = False, dg_data = []\<rparr>), nl_hist = [],
     cur = \<lparr>fd = 0, local_pid = 0, seq = 0, dump = 0\<rparr>\<rparr>"

lemma rtnl_new_no_leak_witness:
  "\<exists>ops. nl_hist (snd (rtnl_new 0 0 refusing)) = NlSocket 0 # ops @ [NlClose 5]"
proof -
  have "fst (rtnl_new 0 0 refusing) = Err (Nix EACCES)"
    by (simp add: refusing_def rtnl_new_def or_close_def nl_sys_def bindR_def thenR_def catchR_def
        ignoreR_def ret_def throw_def)
  then have "rtnl_new 0 0 refusing = (Err (Nix EACCES), snd (rtnl_new 0 0 refusing))"
    by (metis prod.collapse)
  from rtnl_new_no_leak [OF this, of 5] show ?thesis by (simp add: refusing_def)
qed

section \<open>The requests sent\<close>

definition sent :: "nl \<Rightarrow> bytes list" where
  "sent s = List.map_filter (\<lambda>p. case p of NlSend f d \<Rightarrow> Some d | _ \<Rightarrow> None) (nl_hist s)"

text \<open>The bytes that go out for a message: with the ACK flag when no answer is wanted.\<close>

definition wire :: "bool \<Rightarrow> bytes \<Rightarrow> bytes res" where
  "wire ack m = bind_res (if ack then set_ack m else Ok m) (\<lambda>m. bind_res (msg_len m) (\<lambda>l. peek m 0 (unat l)))"

text \<open>A script: requests with consecutive numbers, of which \<open>n\<close> is the last one used before.\<close>

type_synonym script = "(bool \<times> (u32 \<Rightarrow> bytes res)) list"

fun script_bytes :: "u32 \<Rightarrow> script \<Rightarrow> bytes res list" where
  "script_bytes n [] = []"
| "script_bytes n ((ack, mk) # ps) = bind_res (mk (n + 1)) (wire ack) # script_bytes (n + 1) ps"

text \<open>\<open>follows ps s t\<close>: from \<open>s\<close> to \<open>t\<close> exactly the requests of the script \<open>ps\<close> were sent.\<close>

definition follows :: "script \<Rightarrow> nl \<Rightarrow> nl \<Rightarrow> bool" where
  "follows ps s t \<longleftrightarrow> map Ok (sent t) = map Ok (sent s) @ script_bytes (seq (cur s)) ps
     \<and> seq (cur t) = seq (cur s) + of_nat (length ps)"

lemma script_bytes_append:
  "script_bytes n (ps @ qs) = script_bytes n ps @ script_bytes (n + of_nat (length ps)) qs"
  by (induction n ps rule: script_bytes.induct) (simp_all add: ac_simps)

lemma follows_refl: "follows [] s s"
  by (simp add: follows_def)

lemma follows_append: "follows ps s u \<Longrightarrow> follows qs u t \<Longrightarrow> follows (ps @ qs) s t"
  by (simp add: follows_def script_bytes_append ac_simps)

lemma sent_sys [simp]:
  assumes "\<And>f d. p \<noteq> NlSend f d"
  shows "sent (s\<lparr>nl_hist := nl_hist s @ [p]\<rparr>) = sent s"
proof (cases p)
  case (NlSend f d)
  with assms show ?thesis by blast
qed (simp_all add: sent_def map_filter_append)

lemma sent_send [simp]: "sent (s\<lparr>nl_hist := nl_hist s @ [NlSend f d]\<rparr>) = sent s @ [d]"
  by (simp add: sent_def map_filter_append)

lemma sent_cur [simp]: "sent (s\<lparr>cur := c\<rparr>) = sent s"
  by (simp add: sent_def)

text \<open>Receiving sends nothing and leaves the handle as it is.\<close>

definition quiet_step :: "nl \<Rightarrow> nl \<Rightarrow> bool" where
  "quiet_step s t \<longleftrightarrow> sent t = sent s \<and> cur t = cur s"

lemma quiet_refl_trans: "reflp quiet_step" "transp quiet_step"
  by (auto simp: quiet_step_def reflp_def intro: transpI)

lemma nl_sys_quiet: "(\<And>f d. p \<noteq> NlSend f d) \<Longrightarrow> keeps quiet_step (nl_sys p)"
  by (simp add: keeps_def quiet_step_def nl_sys_def)

lemma recv_message_quiet: "keeps quiet_step recv_message"
  unfolding recv_message_def
  by (intro keeps_bind keeps_then quiet_refl_trans keeps_gets nl_sys_quiet)
    (auto simp del: act_basic intro: keeps_throw keeps_ret quiet_refl_trans)

lemma recv_dump_quiet: "keeps quiet_step (recv_dump_message k)"
proof (induction k)
  case 0
  show ?case by (simp del: act_basic add: keeps_hang quiet_refl_trans)
next
  case (Suc k)
  show ?case
    unfolding recv_dump_message.simps
    by (intro keeps_bind recv_message_quiet quiet_refl_trans keeps_gets)
      (auto split: prod.splits simp del: act_basic
        intro!: keeps_bind keeps_ret keeps_throw keeps_lift quiet_refl_trans Suc)
qed

lemma quietD: "keeps quiet_step m \<Longrightarrow> m s = (r, t) \<Longrightarrow> sent t = sent s \<and> cur t = cur s"
  by (drule keepsD) (auto simp: quiet_step_def)

lemma send_message_sent:
  assumes "send_message m s = (r, t)" "wire False m = Ok d"
  shows "sent t = sent s @ [d] \<and> cur t = cur s"
  using assms
  by (auto simp: send_message_def wire_def nl_sys_def bindR_def thenR_def split: sum.splits)

lemma rtnl_talk_sent:
  assumes "rtnl_talk m answer s = (r, t)" "wire (\<not> answer) m = Ok d"
  shows "sent t = sent s @ [d] \<and> cur t = cur s"
proof -
  obtain m' where m': "(if answer then Ok m else set_ack m) = Ok m'" "wire False m' = Ok d"
    using assms(2) by (auto simp: wire_def bind_res_Ok split: if_splits)
  let ?rest = "bindR recv_message (\<lambda>buf. bindR (getsR (\<lambda>s. local_pid (cur s))) (\<lambda>pid.
     liftR (talk_scan pid answer buf 0 (of_nat (length buf)))))"
  have run: "thenR (send_message m') ?rest s = (r, t)"
    using assms(1) m'(1) by (simp add: rtnl_talk_def)
  have q: "keeps quiet_step ?rest"
    by (intro keeps_bind recv_message_quiet quiet_refl_trans keeps_gets keeps_lift)
  obtain a u where a: "send_message m' s = (a, u)" by (cases "send_message m' s")
  have u: "sent u = sent s @ [d]" "cur u = cur s" using send_message_sent [OF a m'(2)] by auto
  show ?thesis
  proof (cases a)
    case (Ok x)
    then have "?rest u = (r, t)" using run a by simp
    from quietD [OF q this] u show ?thesis by simp
  qed (use run a u in auto)
qed

lemma next_seq_step: "next_seq s = (Ok (seq (cur s) + 1), s\<lparr>cur := (cur s)\<lparr>seq := seq (cur s) + 1\<rparr>\<rparr>)"
  by (simp add: next_seq_def thenR_def bindR_def)

lemma next_dump_step: "\<exists>u. next_dump s = (Ok (seq (cur s) + 1), u) \<and> sent u = sent s
    \<and> seq (cur u) = seq (cur s) + 1"
  by (simp add: next_dump_def next_seq_step thenR_def bindR_def)

lemma request_follows:
  assumes "request mk answer s = (r, t)" "mk (seq (cur s) + 1) = Ok m" "wire (\<not> answer) m = Ok d"
  shows "follows [(\<not> answer, mk)] s t"
  using assms rtnl_talk_sent [of m answer _ r t d]
  by (auto simp: request_def next_seq_step follows_def bindR_def)

lemma wire_of_Ok:
  assumes "rtnl_talk m answer s = (Ok x, t)"
  obtains d where "wire (\<not> answer) m = Ok d"
  using assms
  by (auto simp: rtnl_talk_def send_message_def wire_def bindR_Ok_iff thenR_Ok_iff bind_res_Ok split: if_splits)

lemma request_Ok:
  assumes "request mk answer s = (Ok x, t)"
  shows "follows [(\<not> answer, mk)] s t"
proof -
  obtain m where m: "mk (seq (cur s) + 1) = Ok m"
    "rtnl_talk m answer (s\<lparr>cur := (cur s)\<lparr>seq := seq (cur s) + 1\<rparr>\<rparr>) = (Ok x, t)"
    using assms by (auto simp: request_def next_seq_step bindR_Ok_iff)
  then obtain d where "wire (\<not> answer) m = Ok d" using wire_of_Ok by metis
  then show ?thesis by (rule request_follows [OF assms m(1)])
qed

lemma dump_request_Ok:
  assumes "dump_request k mk s = (Ok ms, t)"
  shows "follows [(False, mk)] s t"
proof -
  obtain u where u: "next_dump s = (Ok (seq (cur s) + 1), u)" "sent u = sent s" "seq (cur u) = seq (cur s) + 1"
    using next_dump_step by blast
  obtain m v where m: "mk (seq (cur s) + 1) = Ok m" "send_message m u = (Ok (), v)"
    "recv_dump_message k v = (Ok ms, t)"
    using assms u(1) by (auto simp: dump_request_def bindR_Ok_iff thenR_Ok_iff)
  then obtain d where d: "wire False m = Ok d"
    by (auto simp: send_message_def wire_def bindR_Ok_iff thenR_Ok_iff)
  show ?thesis
    using send_message_sent [OF m(2) d] quietD [OF recv_dump_quiet m(3)] u m(1) d
    by (simp add: follows_def)
qed

lemma for_each_follows:
  assumes "\<And>x s t. m x s = (Ok (), t) \<Longrightarrow> follows (p x) s t"
  shows "for_each xs m s = (Ok (), t) \<Longrightarrow> follows (concat (map p xs)) s t"
proof (induction xs arbitrary: s)
  case Nil
  then show ?case by (simp add: follows_refl)
next
  case (Cons x xs)
  then obtain u where "m x s = (Ok (), u)" "for_each xs m u = (Ok (), t)"
    by (auto simp: thenR_Ok_iff)
  with Cons.IH assms follows_append show ?case by simp blast
qed

lemma unit_request_Ok:
  "thenR (request mk False) (ret ()) s = (Ok (), t) \<Longrightarrow> follows [(True, mk)] s t"
  using request_Ok [of mk False s] by (auto simp: thenR_Ok_iff)

text \<open>The last step sends its request whatever comes back.\<close>

lemma wire_req:
  assumes "req m ty fl sq body as e"
  shows "\<exists>d. wire ack m = Ok d"
proof -
  have l: "length m = 2048" "16 \<le> e" "e \<le> length m" "unat (of_nat e :: u32) = e" "msg_len m = Ok (of_nat e)"
    using assms attrs_at_le [of m "16 + length body" as e] by (auto simp: req_def message_def)
  show ?thesis
  proof (cases ack)
    case False
    then show ?thesis using l by (simp add: wire_def peek_def)
  next
    case True
    obtain fl where fl: "peek m 6 2 = Ok fl" using mem.rd_in [of 6 2 m] l by auto
    obtain m' where m': "poke m 6 (put_le 2 (get_le fl OR NLM_F_ACK)) = Ok m'"
      using mem.wr_in [of 6 "put_le 2 (get_le fl OR NLM_F_ACK)" m] l by auto
    have "peek m' 0 4 = peek m 0 4" by (rule mem.rd_wr_before [OF m']) simp
    then have "msg_len m' = Ok (of_nat e)" using l by (simp add: msg_len_def)
    moreover have "length m' = 2048" using mem.wr_len [OF m'] l by simp
    ultimately show ?thesis using True l fl m' by (simp add: wire_def set_ack_def peek_def)
  qed
qed

lemma set_link_status_follows:
  assumes "ignoreR (set_link_status i up) s = (r, t)"
  shows "follows [(True, \<lambda>n. link_status_msg n i up)] s t"
proof -
  let ?mk = "\<lambda>n. link_status_msg n i up"
  obtain a u where a: "request ?mk False s = (a, u)" by (cases "request ?mk False s")
  then have "t = u"
    using assms
    by (cases a) (auto simp: set_link_status_def ignoreR_def thenR_def bindR_def)
  obtain m where m: "?mk (seq (cur s) + 1) = Ok m" "\<exists>ty fl sq b as e. req m ty fl sq b as e"
    using new_msg_structs(2) unfolding link_status_msg_def by metis
  then obtain d where "wire True m = Ok d" using wire_req by metis
  then show ?thesis using request_follows [OF a m(1), of d] \<open>t = u\<close> by simp
qed

lemma lift_bind_Ok: "bindR (liftR r) m s = (Ok x, t) \<longleftrightarrow> (\<exists>y. r = Ok y \<and> m y s = (Ok x, t))"
  by (cases r) (simp_all add: bindR_def liftR_def)

lemma map_Ok_for_each:
  "for_each xs (\<lambda>x. bindR (liftR (f x)) m) s = (Ok (), t) \<Longrightarrow>
    \<exists>ys. map f xs = map Ok ys \<and> for_each ys m s = (Ok (), t)"
proof (induction xs arbitrary: s)
  case (Cons x xs)
  then obtain u where u: "bindR (liftR (f x)) m s = (Ok (), u)"
    "for_each xs (\<lambda>x. bindR (liftR (f x)) m) u = (Ok (), t)"
    by (auto simp: thenR_Ok_iff simp del: act_basic)
  from u(1) obtain y where y: "f x = Ok y" "m y s = (Ok (), u)" unfolding lift_bind_Ok by blast
  from Cons.IH [OF u(2)] obtain ys where "map f xs = map Ok ys" "for_each ys m u = (Ok (), t)" by blast
  with y show ?case by (intro exI [of _ "y # ys"]) (simp add: thenR_Ok_iff)
qed auto

text \<open>The requests of \<open>update_interface\<close> for the link \<open>i\<close> that it found, the addresses \<open>olds\<close> that
  the link had and the addresses \<open>ips\<close> asked for.\<close>

definition interface_script :: "Interface \<Rightarrow> ifinfomsg \<Rightarrow> RtIPAddr list \<Rightarrow> RtIPAddr list \<Rightarrow> script" where
  "interface_script iface i olds ips =
     [(False, dump_links_msg)]
     @ (if ifi_flags i AND IFF_UP \<noteq> 0 then [(True, \<lambda>n. link_status_msg n i False)] else [])
     @ [(False, \<lambda>n. dump_addresses_msg n (ifi_index i))]
     @ map (\<lambda>a. (True, \<lambda>n. del_addr_msg n i a)) olds
     @ map (\<lambda>ip. (True, \<lambda>n. add_addr_msg n i ip)) ips
     @ [(True, \<lambda>n. set_link_msg n i (if_raw_flags iface) (if_mtu iface) (bytes_of (if_name iface))),
        (True, \<lambda>n. link_status_msg n i True)]"


text \<open>A run: a kernel that answers every call with the same datagram, which holds one link and the
  ends of two dumps.\<close>

definition demo_hdr :: "u32 \<Rightarrow> u16 \<Rightarrow> u32 \<Rightarrow> nlmsghdr" where
  "demo_hdr l ty sq = \<lparr>nlmsg_len = l, nlmsg_type = ty, nlmsg_flags = 0, nlmsg_seq = sq, nlmsg_pid = 7\<rparr>"

definition demo_link :: nlmsg where
  "demo_link = (demo_hdr 44 RTM_NEWLINK 1, ifinfomsg_bytes (ifi0\<lparr>ifi_index := 2\<rparr>)
     @ rtattr_bytes \<lparr>rta_len = 10, rta_type = IFLA_ADDRESS\<rparr> @ [2, 0, 0, 0, 0, 1, 0, 0])"

definition demo_buf :: bytes where
  "demo_buf = msg_bytes demo_link @ msg_bytes (demo_hdr 16 NLMSG_DONE 1, [])
     @ msg_bytes (demo_hdr 16 NLMSG_DONE 2, [])"

definition demo_nl :: nl where
  "demo_nl = \<lparr>nl_kernel = (\<lambda>_ _. Inr 0), nl_name = (\<lambda>_. (0, 0, 0)),
     nl_data = (\<lambda>_. \<lparr>dg_pid = 0, dg_trunc = False, dg_data = demo_buf\<rparr>), nl_hist = [],
     cur = \<lparr>fd = 0, local_pid = 7, seq = 0, dump = 0\<rparr>\<rparr>"

definition demo :: "u32 \<Rightarrow> nl \<Rightarrow> bool" where
  "demo n s \<longleftrightarrow> nl_kernel s = (\<lambda>_ _. Inr 0)
     \<and> nl_data s = (\<lambda>_. \<lparr>dg_pid = 0, dg_trunc = False, dg_data = demo_buf\<rparr>)
     \<and> local_pid (cur s) = 7 \<and> seq (cur s) = n"

definition demo_sc :: scanners where
  "demo_sc = \<lparr>scan_hw = (\<lambda>_. Ok [2, 0, 0, 0, 0, 1]), scan_u8 = (\<lambda>_. Ok 24), scan_cidr = (\<lambda>_. Err Scanfmt)\<rparr>"

definition demo_iface :: Interface where
  "demo_iface = interface0\<lparr>if_name := ''eth0'', if_mtu := 1500,
     if_IPAddresses := [\<lparr>ipa_family = v4, ipa_address = show_v4 [10, 0, 0, 2], ipa_mask = ''24''\<rparr>]\<rparr>"

lemma demo_lengths: "length (snd demo_link) = 28" "length demo_buf = 76"
  by (simp_all add: demo_buf_def demo_link_def)

lemma demo_hdrs:
  "read_hdr demo_buf 0 = Ok (demo_hdr 44 RTM_NEWLINK 1)"
  "read_hdr demo_buf 44 = Ok (demo_hdr 16 NLMSG_DONE 1)"
  "read_hdr demo_buf 60 = Ok (demo_hdr 16 NLMSG_DONE 2)"
  using read_hdr_mid [of "[]" "fst demo_link" "snd demo_link"]
    read_hdr_mid [of "msg_bytes demo_link" "demo_hdr 16 NLMSG_DONE 1" "[]"]
    read_hdr_mid [of "msg_bytes demo_link @ msg_bytes (demo_hdr 16 NLMSG_DONE 1, [])" "demo_hdr 16 NLMSG_DONE 2" "[]" "[]"]
  by (simp_all add: demo_buf_def demo_lengths) (simp add: demo_link_def)

lemma demo_align: "NLMSG_ALIGN 44 = 44" "NLMSG_ALIGN 16 = 16"
  by (simp_all add: NLMSG_ALIGN_def NLMSG_ALIGNTO_def)

lemma demo_scans:
  "dump_scan 7 1 demo_buf 0 76 = Ok ([0, 44], True, 32)"
  "dump_scan 7 2 demo_buf 0 76 = Ok ([60], True, 16)"
  "talk_scan 7 False demo_buf 0 76 = Ok []"
  by ((subst dump_scan.simps | subst talk_scan.simps)?,
      simp add: demo_hdrs demo_hdr_def NLMSG_OK_def demo_align nl_consts dump_scan.simps)+

lemma demo_attrs: "attrs_at demo_buf 32 [(IFLA_ADDRESS, [2, 0, 0, 0, 0, 1])] 44"
proof -
  have b: "demo_buf = (nlmsghdr_bytes (demo_hdr 44 RTM_NEWLINK 1) @ ifinfomsg_bytes (ifi0\<lparr>ifi_index := 2\<rparr>))
      @ rtattr_bytes \<lparr>rta_len = 10, rta_type = IFLA_ADDRESS\<rparr> @ [2, 0, 0, 0, 0, 1] @ [0, 0]
      @ msg_bytes (demo_hdr 16 NLMSG_DONE 1, []) @ msg_bytes (demo_hdr 16 NLMSG_DONE 2, [])"
    by (simp add: demo_buf_def demo_link_def msg_bytes_def)
  have "peek demo_buf 32 4 = Ok (rtattr_bytes \<lparr>rta_len = 10, rta_type = IFLA_ADDRESS\<rparr>)"
    unfolding b by (simp add: peek_def)
  moreover have "peek demo_buf 36 (length [2, 0, 0, 0, 0, 1 :: u8]) = Ok [2, 0, 0, 0, 0, 1]"
    unfolding b by (simp add: peek_def)
  ultimately show ?thesis by (simp add: attr_size_def length_pad4)
qed

lemma demo_ifi: "read_ifi (demo_buf, 0) = Ok (ifi0\<lparr>ifi_index := 2\<rparr>)"
proof -
  have "peek demo_buf 16 16 = Ok (ifinfomsg_bytes (ifi0\<lparr>ifi_index := 2\<rparr>))"
    by (simp add: demo_buf_def demo_link_def msg_bytes_def peek_def)
  then show ?thesis by (simp add: read_ifi_def struct_roundtrips)
qed

lemma demo_found: "find_hw [2, 0, 0, 0, 0, 1] [(demo_buf, 0), (demo_buf, 44)] = Ok (ifi0\<lparr>ifi_index := 2\<rparr>)"
proof -
  have "parse_attrs demo_buf 32 12 52 = Ok (map (first_at 32 [(IFLA_ADDRESS, [2, 0, 0, 0, 0, 1])]) [0..<52])"
    using parse_attrs_at [OF demo_attrs, of 52] by simp
  then have T: "msg_attrs (demo_buf, 0) 16 IFLA_MAX = Ok (map (first_at 32 [(IFLA_ADDRESS, [2, 0, 0, 0, 0, 1])]) [0..<52])"
    by (simp add: msg_attrs_def demo_hdrs demo_hdr_def NLMSG_SPACE_eqs NLMSG_PAYLOAD_def nl_consts)
  have n: "map (first_at 32 [(IFLA_ADDRESS, [2, 0, 0, 0, 0, 1])]) [0..<52] ! unat IFLA_ADDRESS = Some 32"
    by (simp add: nth_map_upt nl_consts del: upt_rec_numeral)
  have a: "getattr_var demo_buf (Some 32) = Ok [2, 0, 0, 0, 0, 1]"
    using demo_attrs by (intro getattr_var_at) auto
  have "hw_item [2, 0, 0, 0, 0, 1] (demo_buf, 0) = Ok (Take (ifi0\<lparr>ifi_index := 2\<rparr>))"
    using T n a
    by (simp add: hw_item_def link_item_def demo_hdrs demo_ifi demo_hdr_def NLMSG_SPACE_eqs
        RTM_NEWLINK_def del: upt_rec_numeral)
  then show ?thesis by (simp add: find_hw_def)
qed

lemma demo_recv: "demo n s \<Longrightarrow> \<exists>t. recv_message s = (Ok demo_buf, t) \<and> demo n t \<and> cur t = cur s"
  by (simp add: recv_message_def nl_sys_def demo_def)

lemma demo_send:
  assumes "demo n s" "wire False m = Ok d"
  shows "\<exists>t. send_message m s = (Ok (), t) \<and> demo n t \<and> cur t = cur s"
  using assms by (auto simp: send_message_def wire_def nl_sys_def demo_def bindR_def)

lemma demo_dump:
  assumes "demo n s" "mk (n + 1) = Ok m" "wire False m = Ok d"
    and "dump_scan 7 (n + 1) demo_buf 0 76 = Ok (ps, True, l)"
  shows "\<exists>t. dump_request 1 mk s = (Ok (map (Pair demo_buf) ps), t) \<and> demo (n + 1) t"
proof -
  let ?u = "s\<lparr>cur := (cur s)\<lparr>seq := n + 1, dump := n + 1\<rparr>\<rparr>"
  have u: "next_dump s = (Ok (n + 1), ?u)" "demo (n + 1) ?u"
    using assms(1) by (simp_all add: next_dump_def next_seq_def demo_def)
  obtain v where v: "send_message m ?u = (Ok (), v)" "demo (n + 1) v" "cur v = cur ?u"
    using demo_send [OF u(2) assms(3)] by auto
  obtain w where w: "recv_message v = (Ok demo_buf, w)" "demo (n + 1) w" "cur w = cur v"
    using demo_recv [OF v(2)] by auto
  have d: "local_pid (cur w) = 7" "dump (cur w) = n + 1" using w v by (simp_all add: demo_def)
  show ?thesis
    using u v w d assms by (simp add: dump_request_def demo_lengths numeral_eq_Suc)
qed

lemma demo_request:
  assumes "demo n s" "mk (n + 1) = Ok m" "wire True m = Ok d"
  shows "\<exists>t. request mk False s = (Ok [], t) \<and> demo (n + 1) t"
proof -
  let ?u = "s\<lparr>cur := (cur s)\<lparr>seq := n + 1\<rparr>\<rparr>"
  have u: "next_seq s = (Ok (n + 1), ?u)" "demo (n + 1) ?u"
    using assms(1) by (simp_all add: next_seq_def demo_def)
  obtain m' where m': "set_ack m = Ok m'" "wire False m' = Ok d"
    using assms(3) by (auto simp: wire_def bind_res_Ok)
  obtain v where v: "send_message m' ?u = (Ok (), v)" "demo (n + 1) v" "cur v = cur ?u"
    using demo_send [OF u(2) m'(2)] by auto
  obtain w where w: "recv_message v = (Ok demo_buf, w)" "demo (n + 1) w" "cur w = cur v"
    using demo_recv [OF v(2)] by auto
  have "local_pid (cur w) = 7" using w by (simp add: demo_def)
  then show ?thesis
    using u v w m' assms(2) by (simp add: request_def rtnl_talk_def demo_lengths demo_scans)
qed

definition is_req :: "bytes \<Rightarrow> bool" where
  "is_req m \<longleftrightarrow> (\<exists>ty fl sq b as e. req m ty fl sq b as e)"

lemma demo_unit_request:
  assumes "demo n s" "mk (n + 1) = Ok m" "is_req m"
  shows "\<exists>t. request mk False s = (Ok [], t) \<and> demo (n + 1) t"
  using demo_request [of n s mk m, OF assms(1,2)] wire_req assms(3) unfolding is_req_def by metis

lemma demo_reqs:
  "\<exists>m. dump_links_msg n = Ok m \<and> (\<exists>d. wire False m = Ok d)"
  "\<exists>m. dump_addresses_msg n i = Ok m \<and> (\<exists>d. wire False m = Ok d)"
  "\<exists>m. link_status_msg n f up = Ok m \<and> is_req m"
  "length (ip_addr a) = 4 \<Longrightarrow> \<exists>m. add_addr_msg n f a = Ok m \<and> is_req m"
  "length name = 4 \<Longrightarrow> \<exists>m. set_link_msg n f fl mtu name = Ok m \<and> is_req m"
proof -
  obtain m0 where m0: "new_msg RTM_GETLINK (NLM_F_DUMP OR NLM_F_REQUEST) n (ifinfomsg_bytes ifi0) = Ok m0"
    "req m0 RTM_GETLINK (NLM_F_DUMP OR NLM_F_REQUEST) n (ifinfomsg_bytes ifi0) [] 32"
    using new_msg_structs(2) by blast
  then obtain m where "addattr32 m0 IFLA_EXT_MASK RTEXT_FILTER_VF = Ok m"
    "req m RTM_GETLINK (NLM_F_DUMP OR NLM_F_REQUEST) n (ifinfomsg_bytes ifi0) ([] @ [(IFLA_EXT_MASK, put_le 4 RTEXT_FILTER_VF)]) (32 + 8)"
    using addattr32_req [OF m0(2), of IFLA_EXT_MASK RTEXT_FILTER_VF] by auto
  with m0(1) wire_req show "\<exists>m. dump_links_msg n = Ok m \<and> (\<exists>d. wire False m = Ok d)"
    by (fastforce simp: dump_links_msg_def)
  show "\<exists>m. dump_addresses_msg n i = Ok m \<and> (\<exists>d. wire False m = Ok d)"
    using new_msg_structs(3) wire_req unfolding dump_addresses_msg_def by metis
  show "\<exists>m. link_status_msg n f up = Ok m \<and> is_req m"
    using new_msg_structs(2) unfolding link_status_msg_def is_req_def by metis
  show "\<exists>m. add_addr_msg n f a = Ok m \<and> is_req m"
    if l: "length (ip_addr a) = 4"
  proof -
    let ?b = "ifaddrmsg_bytes (ifa0\<lparr>ifa_family := ip_family a, ifa_prefixlen := ip_mask a, ifa_index := ifi_index f\<rparr>)"
    let ?fl = "NLM_F_REQUEST OR NLM_F_CREATE OR NLM_F_EXCL"
    have sz: "attr_size (t, ip_addr a) = 8" for t using l by (simp add: attr_size_def length_pad4)
    obtain m1 where 1: "new_msg RTM_NEWADDR ?fl n ?b = Ok m1" "req m1 RTM_NEWADDR ?fl n ?b [] 24"
      using new_msg_structs(3) by blast
    obtain m2 where 2: "addattr_var m1 IFA_ADDRESS (ip_addr a) = Ok m2"
      "req m2 RTM_NEWADDR ?fl n ?b ([] @ [(IFA_ADDRESS, pad4 (ip_addr a))]) (24 + 8)"
      using addattr_var_req [OF 1(2), of IFA_ADDRESS "ip_addr a"] sz by auto
    obtain m3 where "addattr_var m2 IFA_LOCAL (ip_addr a) = Ok m3"
      "req m3 RTM_NEWADDR ?fl n ?b (([] @ [(IFA_ADDRESS, pad4 (ip_addr a))]) @ [(IFA_LOCAL, pad4 (ip_addr a))]) (24 + 8 + 8)"
      using addattr_var_req [OF 2(2), of IFA_LOCAL "ip_addr a"] sz by auto
    with 1 2 show ?thesis unfolding is_req_def add_addr_msg_def by fastforce
  qed
  show "\<exists>m. set_link_msg n f fl mtu name = Ok m \<and> is_req m"
    if l: "length name = 4"
  proof -
    obtain b m1 where 1: "set_link_msg n f fl mtu name = bind_res (addattr32 m1 IFLA_MTU (ucast mtu)) (\<lambda>m. addattr_var m IFLA_IFNAME name)"
      "req m1 RTM_NEWLINK NLM_F_REQUEST n (ifinfomsg_bytes b) [] 32"
      using new_msg_structs(2) unfolding set_link_msg_def Let_def by (metis bind_res.simps(1))
    obtain m2 where 2: "addattr32 m1 IFLA_MTU (ucast mtu) = Ok m2"
      "req m2 RTM_NEWLINK NLM_F_REQUEST n (ifinfomsg_bytes b) ([] @ [(IFLA_MTU, put_le 4 (ucast mtu :: u32))]) (32 + 8)"
      using addattr32_req [OF 1(2), of IFLA_MTU "ucast mtu"] by auto
    obtain m3 where "addattr_var m2 IFLA_IFNAME name = Ok m3"
      "req m3 RTM_NEWLINK NLM_F_REQUEST n (ifinfomsg_bytes b) (([] @ [(IFLA_MTU, put_le 4 (ucast mtu :: u32))]) @ [(IFLA_IFNAME, pad4 name)]) (32 + 8 + 8)"
      using addattr_var_req [OF 2(2), of IFLA_IFNAME name] l by (auto simp: attr_size_def length_pad4)
    with 1 2 show ?thesis unfolding is_req_def by fastforce
  qed
qed

lemma demo_run: "\<exists>t. update_interface 1 demo_sc demo_iface demo_nl = (Ok demo_iface, t)"
proof -
  let ?i = "ifi0\<lparr>ifi_index := 2\<rparr>" and ?ip = "\<lparr>ip_family = AF_INET, ip_mask = 24, ip_addr = [10, 0, 0, 2]\<rparr>"
  have 0: "demo 0 demo_nl" by (simp add: demo_def demo_nl_def)
  obtain m d where "dump_links_msg (0 + 1) = Ok m" "wire False m = Ok d" using demo_reqs(1) by blast
  then obtain t1 where t1: "dump_all_links 1 demo_nl = (Ok [(demo_buf, 0), (demo_buf, 44)], t1)" "demo 1 t1"
    using demo_dump [OF 0, of dump_links_msg m d] demo_scans(1) by (auto simp: dump_all_links_def)
  have f: "find_link_by_hwaddr 1 demo_sc (if_hwAddr demo_iface) demo_nl = (Ok ?i, t1)"
    using t1(1) demo_found by (simp add: find_link_by_hwaddr_def demo_sc_def bindR_def)
  obtain m d where "dump_addresses_msg (1 + 1) 2 = Ok m" "wire False m = Ok d" using demo_reqs(2) by blast
  then obtain t2 where t2: "dump_all_addresses 1 2 t1 = (Ok [(demo_buf, 60)], t2)" "demo 2 t2"
    using demo_dump [OF t1(2), of "\<lambda>n. dump_addresses_msg n 2" m d] demo_scans(2)
    by (auto simp: dump_all_addresses_def)
  have g: "get_link_addresses 1 ?i t1 = (Ok [], t2)"
    using t2(1) by (simp add: get_link_addresses_def link_addr_item_def addr_item_def demo_hdrs
        demo_hdr_def nl_consts)
  obtain m where "add_addr_msg (2 + 1) ?i ?ip = Ok m" "is_req m"
    using demo_reqs(4) [of ?ip "2 + 1" ?i] by auto
  then obtain t3 where t3: "request (\<lambda>n. add_addr_msg n ?i ?ip) False t2 = (Ok [], t3)" "demo 3 t3"
    using demo_unit_request [OF t2(2), of "\<lambda>n. add_addr_msg n ?i ?ip" m] by auto
  let ?set = "\<lambda>n. set_link_msg n ?i 0 1500 (bytes_of ''eth0'')"
  obtain m where "?set (3 + 1) = Ok m" "is_req m"
    using demo_reqs(5) [of "bytes_of ''eth0''" "3 + 1" ?i 0 1500] by (auto simp: bytes_of_def)
  then obtain t4 where t4: "request ?set False t3 = (Ok [], t4)" "demo 4 t4"
    using demo_unit_request [OF t3(2), of ?set m] by auto
  obtain m where "link_status_msg (4 + 1) ?i True = Ok m" "is_req m"
    using demo_reqs(3) by blast
  then obtain t5 where t5: "request (\<lambda>n. link_status_msg n ?i True) False t4 = (Ok [], t5)"
    using demo_unit_request [OF t4(2), of "\<lambda>n. link_status_msg n ?i True" m] by auto
  have ip: "rtip_from demo_sc \<lparr>ipa_family = v4, ipa_address = show_v4 [10, 0, 0, 2], ipa_mask = ''24''\<rparr> = Ok ?ip"
    by (simp add: rtip_from_def demo_sc_def parse_show_v4)
  show ?thesis
    using f g t3(1) t4(1) t5 ip
    by (simp add: update_interface_def demo_iface_def interface0_def ifi0_def delete_all_addrs_def
        add_one_address_def set_link_status_def)
qed



section \<open>Dumps end\<close>



section \<open>Names\<close>

lemma char_0: "char_of (0 :: nat) = CHR 0x00"
  by code_simp

lemma utf8_ascii: "\<forall>b \<in> set bs. b < 0x80 \<Longrightarrow> valid_utf8 bs"
  by (induction bs rule: valid_utf8.induct) auto

text \<open>
  The kernel terminates an interface name with a zero byte, which \<open>getattr_var\<close> takes for part of it:
  every name the code reads ends with that byte.
\<close>

lemma names_keep_nul:
  assumes "read_hdr m 0 = Ok h" "nlmsg_type h = RTM_NEWLINK" "nlmsg_len h = of_nat e" "32 \<le> e" "e < 2 ^ 32"
    and "attrs_at m 32 as e" "map_of as IFLA_IFNAME = Some (bytes_of name @ [0])"
    and "\<forall>b \<in> set (bytes_of name). b < 0x80"
  shows "name_in m = Ok (Some (name @ [CHR 0x00]))"
proof -
  have "(of_nat e - 32 :: u32) = of_nat (e - 32)" using assms(4) by (simp add: of_nat_diff)
  then have p: "msg_attrs (m, 0) 16 IFLA_MAX = Ok (map (first_at 32 as) [0..<52])"
    using parse_attrs_at [OF assms(6,5), of 52] assms(1,3)
    by (simp add: msg_attrs_def NLMSG_SPACE_eqs NLMSG_PAYLOAD_def nl_consts)
  obtain q where q: "first_at 32 as (unat IFLA_IFNAME) = Some q" "getattr_var m (Some q) = Ok (bytes_of name @ [0])"
    using first_at_data [OF assms(6), of IFLA_IFNAME] assms(7) by auto
  have "map (first_at 32 as) [0..<52] ! unat IFLA_IFNAME = Some q"
    using q(1) by (simp add: nth_map_upt nl_consts del: upt_rec_numeral)
  moreover have "\<not> nlmsg_len h < 32"
    using assms(3-5) by (simp add: word_less_nat_alt)
  moreover have "from_utf8 (bytes_of name @ [0]) = Ok (name @ [CHR 0x00])"
    using utf8_ascii [of "bytes_of name @ [0]"] assms(8)
    by (simp add: from_utf8_def string_of_def bytes_of_def comp_def unat_of_char char_0)
  ultimately show ?thesis
    using assms(1,2) p q(2) by (simp add: name_in_def NLMSG_SPACE_eqs nl_consts del: upt_rec_numeral)
qed

end
