(* ===== verification/Agent_Mount.thy ===== *)
theory Agent_Mount
  imports Device
begin

text \<open>
  \<open>src/mount.rs\<close>: the agent's mounts. The storage counters of \<open>src/sandbox.rs\<close> come first, because
  the storage handlers use them. \<open>MsFlags\<close> are the bits of the kernel's mount flags. A storage
  handler gets the sandbox by its lock and is an action on the agent.
\<close>

section \<open>The storage counters of the sandbox\<close>

definition set_sandbox_storage :: "string \<Rightarrow> Sandbox \<Rightarrow> bool \<times> Sandbox" where
  "set_sandbox_storage path sb = (case sb_storages sb path of
     None \<Rightarrow> (True, sb\<lparr>sb_storages := (sb_storages sb)(path \<mapsto> 1)\<rparr>)
   | Some count \<Rightarrow> (False, sb\<lparr>sb_storages := (sb_storages sb)(path \<mapsto> count + 1)\<rparr>))"

definition unset_sandbox_storage :: "string \<Rightarrow> Sandbox \<Rightarrow> bool \<times> Sandbox" where
  "unset_sandbox_storage path sb = (case sb_storages sb path of
     None \<Rightarrow> (False, sb)
   | Some count \<Rightarrow> (True, if count - 1 < 1
        then sb\<lparr>sb_storages := (sb_storages sb)(path := None)\<rparr>
        else sb\<lparr>sb_storages := (sb_storages sb)(path \<mapsto> count - 1)\<rparr>))"

definition remove_mounts :: "string list \<Rightarrow> unit io" where
  "remove_mounts mounts = for_each mounts (\<lambda>m. nix_do (SysUmount m))"

definition remove_sandbox_storage :: "string \<Rightarrow> unit io" where
  "remove_sandbox_storage path = thenR (remove_mounts [path]) (fs_remove_dir_all path)"

text \<open>A sandbox operation with a result, as an action.\<close>

definition sb_run :: "(Sandbox \<Rightarrow> 'a \<times> Sandbox) \<Rightarrow> 'a ag" where
  "sb_run f = (\<lambda>s. case f (ag_sandbox s) of (x, sb) \<Rightarrow> (Ok x, s\<lparr>ag_sandbox := sb\<rparr>))"

lemma sb_run_step [act_simps, simp]: "f (ag_sandbox s) = (x, sb) \<Longrightarrow> sb_run f s = (Ok x, s\<lparr>ag_sandbox := sb\<rparr>)"
  by (simp add: sb_run_def)

definition unset_and_remove_sandbox_storage :: "string \<Rightarrow> unit ag" where
  "unset_and_remove_sandbox_storage path = bindR (sb_run (unset_sandbox_storage path))
     (\<lambda>b. whenR b (os (remove_sandbox_storage path)))"

section \<open>Mount options\<close>

definition MS_RDONLY :: u64 where "MS_RDONLY = 1"
definition MS_NOSUID :: u64 where "MS_NOSUID = 2"
definition MS_NODEV :: u64 where "MS_NODEV = 4"
definition MS_NOEXEC :: u64 where "MS_NOEXEC = 8"
definition MS_SYNCHRONOUS :: u64 where "MS_SYNCHRONOUS = 16"
definition MS_REMOUNT :: u64 where "MS_REMOUNT = 32"
definition MS_MANDLOCK :: u64 where "MS_MANDLOCK = 64"
definition MS_DIRSYNC :: u64 where "MS_DIRSYNC = 128"
definition MS_NOATIME :: u64 where "MS_NOATIME = 1024"
definition MS_NODIRATIME :: u64 where "MS_NODIRATIME = 2048"
definition MS_BIND :: u64 where "MS_BIND = 4096"
definition MS_MOVE :: u64 where "MS_MOVE = 8192"
definition MS_REC :: u64 where "MS_REC = 16384"
definition MS_UNBINDABLE :: u64 where "MS_UNBINDABLE = 0x20000"
definition MS_PRIVATE :: u64 where "MS_PRIVATE = 0x40000"
definition MS_SLAVE :: u64 where "MS_SLAVE = 0x80000"
definition MS_SHARED :: u64 where "MS_SHARED = 0x100000"
definition MS_RELATIME :: u64 where "MS_RELATIME = 0x200000"
definition MS_STRICTATIME :: u64 where "MS_STRICTATIME = 0x1000000"

text \<open>The flag table: whether the option clears the bits, and the bits.\<close>

definition FLAGS :: "string \<Rightarrow> (bool \<times> u64) option" where
  "FLAGS = map_of
    [(''defaults'', (False, 0)), (''ro'', (False, MS_RDONLY)), (''rw'', (True, MS_RDONLY)),
     (''suid'', (True, MS_NOSUID)), (''nosuid'', (False, MS_NOSUID)), (''dev'', (True, MS_NODEV)),
     (''nodev'', (False, MS_NODEV)), (''exec'', (True, MS_NOEXEC)), (''noexec'', (False, MS_NOEXEC)),
     (''sync'', (False, MS_SYNCHRONOUS)), (''async'', (True, MS_SYNCHRONOUS)),
     (''dirsync'', (False, MS_DIRSYNC)), (''remount'', (False, MS_REMOUNT)),
     (''mand'', (False, MS_MANDLOCK)), (''nomand'', (True, MS_MANDLOCK)), (''atime'', (True, MS_NOATIME)),
     (''noatime'', (False, MS_NOATIME)), (''diratime'', (True, MS_NODIRATIME)),
     (''nodiratime'', (False, MS_NODIRATIME)), (''bind'', (False, MS_BIND)),
     (''rbind'', (False, MS_BIND OR MS_REC)), (''unbindable'', (False, MS_UNBINDABLE)),
     (''runbindable'', (False, MS_UNBINDABLE OR MS_REC)), (''private'', (False, MS_PRIVATE)),
     (''rprivate'', (False, MS_PRIVATE OR MS_REC)), (''shared'', (False, MS_SHARED)),
     (''rshared'', (False, MS_SHARED OR MS_REC)), (''slave'', (False, MS_SLAVE)),
     (''rslave'', (False, MS_SLAVE OR MS_REC)), (''relatime'', (False, MS_RELATIME)),
     (''norelatime'', (True, MS_RELATIME)), (''strictatime'', (False, MS_STRICTATIME)),
     (''nostrictatime'', (True, MS_STRICTATIME))]"

definition parse_mount_flags_and_options :: "string list \<Rightarrow> u64 \<times> string" where
  "parse_mount_flags_and_options options_vec = fold (\<lambda>opt (flags, options).
     if opt = [] then (flags, options)
     else case FLAGS opt of
       Some (_, f) \<Rightarrow> (flags OR f, options)
     | None \<Rightarrow> (flags, if options \<noteq> [] then options @ '','' @ opt else opt)) options_vec (0, [])"

definition parse_options :: "string list \<Rightarrow> string \<Rightarrow> string option" where
  "parse_options option_list = fold (\<lambda>opt m. case split_on CHR ''='' opt of
     [k, v] \<Rightarrow> m(k \<mapsto> v) | _ \<Rightarrow> m) option_list Map.empty"

section \<open>Mounting\<close>

record BareMount =
  bm_source :: string
  bm_destination :: string
  bm_fs_type :: string
  bm_flags :: u64
  bm_options :: string

text \<open>\<open>CString::new\<close> refuses a string with a zero byte.\<close>

definition cstring :: "string \<Rightarrow> (world, unit) act" where
  "cstring s = (if CHR 0x00 \<in> set s then throw Ffi else ret ())"

definition bare_mount :: "BareMount \<Rightarrow> unit io" where
  "bare_mount b =
     (if bm_source b = [] then throw (ErrorCode ''need mount source'')
      else if bm_destination b = [] then throw (ErrorCode ''need mount destination'')
      else run_all [cstring (bm_source b), cstring (bm_destination b),
        (if bm_fs_type b = [] then throw (ErrorCode ''need mount FS type'') else ret ()),
        cstring (bm_fs_type b),
        whenR (bm_options b \<noteq> []) (cstring (bm_options b)),
        catchR (nix_do (SysMount (Some (bm_source b)) (bm_destination b) (Some (bm_fs_type b)) (bm_flags b)
            (if bm_options b \<noteq> [] then Some (bm_options b) else None)))
          (\<lambda>_. throw (ErrorCode ''failed to mount''))])"

text \<open>\<open>Path::parent\<close> of a path without \<open>.\<close> components.\<close>

definition drop_slashes :: "string \<Rightarrow> string" where
  "drop_slashes p = rev (dropWhile (\<lambda>c. c = CHR ''/'') (rev p))"

definition path_parent :: "string \<Rightarrow> string option" where
  "path_parent p = (if drop_slashes p = [] then None
     else case before_last CHR ''/'' (drop_slashes p) of
       None \<Rightarrow> Some []
     | Some d \<Rightarrow> Some (if drop_slashes d = [] then ''/'' else drop_slashes d))"

text \<open>
  \<open>OpenOptions::new().create(true).open(d)\<close> asks for neither read nor write access, which the
  standard library refuses with EINVAL before any system call.
\<close>

definition create_without_access :: "string \<Rightarrow> unit io" where
  "create_without_access p = throw (Io EINVAL)"

definition ensure_destination_exists :: "string \<Rightarrow> string \<Rightarrow> unit io" where
  "ensure_destination_exists destination fs_type =
     bindR (path_exists destination) (\<lambda>ex.
     thenR (if ex then ret ()
        else case path_parent destination of
          None \<Rightarrow> throw (ErrorCode ''mount destination doesn't exist'')
        | Some dir \<Rightarrow> bindR (path_exists dir) (\<lambda>dex. whenR (\<not> dex) (fs_create_dir_all dir)))
     (if fs_type \<noteq> ''bind'' then fs_create_dir_all destination
      else bindR (path_is_dir destination) (\<lambda>d.
        if d then fs_create_dir_all destination else create_without_access destination)))"

record Storage =
  s_driver :: string
  s_driver_options :: "string list"
  s_source :: string
  s_fstype :: string
  s_options :: "string list"
  s_mount_point :: string

definition mount_storage :: "Storage \<Rightarrow> unit io" where
  "mount_storage storage = thenR
     (if s_fstype storage = ''9p'' \<or> s_fstype storage = ''virtio-fs''
      then bindR (path_exists (s_mount_point storage))
             (\<lambda>ex. whenR (\<not> ex) (catchR (fs_create_dir_all (s_mount_point storage))
                (\<lambda>_. throw (Msg ''Create mount destination failed''))))
      else ensure_destination_exists (s_mount_point storage) (s_fstype storage))
     (let (flags, options) = parse_mount_flags_and_options (s_options storage)
      in bare_mount \<lparr>bm_source = s_source storage, bm_destination = s_mount_point storage,
           bm_fs_type = s_fstype storage, bm_flags = flags, bm_options = options\<rparr>)"

definition common_storage_handler :: "Storage \<Rightarrow> string io" where
  "common_storage_handler storage = thenR (mount_storage storage) (ret (s_mount_point storage))"

section \<open>Storage handlers\<close>

definition ephemeral_storage_handler :: "Storage \<Rightarrow> string ag" where
  "ephemeral_storage_handler storage = locked (bindR (sb_run (set_sandbox_storage (s_mount_point storage)))
     (\<lambda>new. if \<not> new then ret []
        else thenR (os (fs_create_dir_all (s_mount_point storage))) (os (common_storage_handler storage))))"

definition local_storage_handler :: "Storage \<Rightarrow> string ag" where
  "local_storage_handler storage = locked (bindR (sb_run (set_sandbox_storage (s_mount_point storage)))
     (\<lambda>new. if \<not> new then ret []
        else thenR (os (fs_create_dir_all (s_mount_point storage)))
          (case parse_options (s_options storage) ''mode'' of
             None \<Rightarrow> ret []
           | Some mode \<Rightarrow> thenR (os (fs_metadata st_mode (s_mount_point storage)))
               (bindR (liftR (from_str_radix (2 ^ 32) 8 mode)) (\<lambda>o_mode.
                thenR (os (io_sys (FsSetMode (s_mount_point storage) (of_nat o_mode)))) (ret []))))))"

definition virtio9p_storage_handler :: "Storage \<Rightarrow> string ag" where
  "virtio9p_storage_handler storage = os (common_storage_handler storage)"

definition virtiommio_blk_storage_handler :: "Storage \<Rightarrow> string ag" where
  "virtiommio_blk_storage_handler storage = os (common_storage_handler storage)"

definition virtiofs_storage_handler :: "Storage \<Rightarrow> string ag" where
  "virtiofs_storage_handler storage = os (common_storage_handler storage)"

definition S_IFBLK :: u32 where
  "S_IFBLK = 0x6000"

definition virtio_blk_storage_handler :: "Storage \<Rightarrow> string ag" where
  "virtio_blk_storage_handler storage =
     (if prefix ''/dev'' (s_source storage) then
        bindR (os (fs_metadata st_mode (s_source storage))) (\<lambda>mode.
          if mode AND S_IFBLK = 0 then throw (ErrorCode ''Invalid device'')
          else os (common_storage_handler storage))
      else bindR (get_pci_device_name (s_source storage))
        (\<lambda>dev_path. os (common_storage_handler (storage\<lparr>s_source := dev_path\<rparr>))))"

definition virtio_scsi_storage_handler :: "Storage \<Rightarrow> string ag" where
  "virtio_scsi_storage_handler storage = bindR (get_scsi_device_name (s_source storage))
     (\<lambda>dev_path. os (common_storage_handler (storage\<lparr>s_source := dev_path\<rparr>)))"

definition STORAGEHANDLERLIST :: "string \<Rightarrow> (Storage \<Rightarrow> string ag) option" where
  "STORAGEHANDLERLIST = [''blk'' \<mapsto> virtio_blk_storage_handler, ''9p'' \<mapsto> virtio9p_storage_handler,
     ''virtio-fs'' \<mapsto> virtiofs_storage_handler, ''ephemeral'' \<mapsto> ephemeral_storage_handler,
     ''mmioblk'' \<mapsto> virtiommio_blk_storage_handler, ''local'' \<mapsto> local_storage_handler,
     ''scsi'' \<mapsto> virtio_scsi_storage_handler]"

text \<open>The loop of \<open>add_storages\<close> with the mount list so far.\<close>

fun add_storages_loop :: "Storage list \<Rightarrow> string list \<Rightarrow> string list ag" where
  "add_storages_loop [] mount_list = ret mount_list"
| "add_storages_loop (storage # storages) mount_list =
     (case STORAGEHANDLERLIST (s_driver storage) of
        None \<Rightarrow> throw (ErrorCode ''Failed to find the storage handler'')
      | Some handler \<Rightarrow> bindR (handler storage) (\<lambda>mount_point.
          add_storages_loop storages (if mount_point \<noteq> [] then mount_list @ [mount_point] else mount_list)))"

definition add_storages :: "Storage list \<Rightarrow> string list ag" where
  "add_storages storages = add_storages_loop storages []"

section \<open>The mounts of the guest\<close>

record INIT_MOUNT =
  in_fstype :: string
  in_src :: string
  in_dest :: string
  in_options :: "string list"

abbreviation init_mount :: "string \<Rightarrow> string \<Rightarrow> string \<Rightarrow> string list \<Rightarrow> INIT_MOUNT" where
  "init_mount f s d opts \<equiv> \<lparr>in_fstype = f, in_src = s, in_dest = d, in_options = opts\<rparr>"

definition INIT_ROOTFS_MOUNTS :: "INIT_MOUNT list" where
  "INIT_ROOTFS_MOUNTS =
    [init_mount ''proc'' ''proc'' ''/proc'' [''nosuid'', ''nodev'', ''noexec''],
     init_mount ''sysfs'' ''sysfs'' ''/sys'' [''nosuid'', ''nodev'', ''noexec''],
     init_mount ''devtmpfs'' ''dev'' ''/dev'' [''nosuid''],
     init_mount ''tmpfs'' ''tmpfs'' ''/dev/shm'' [''nosuid'', ''nodev''],
     init_mount ''devpts'' ''devpts'' ''/dev/pts'' [''nosuid'', ''noexec''],
     init_mount ''tmpfs'' ''tmpfs'' ''/run'' [''nosuid'', ''nodev'']]"

definition mount_to_rootfs :: "INIT_MOUNT \<Rightarrow> unit io" where
  "mount_to_rootfs m =
     (let (flags, options) = parse_mount_flags_and_options (in_options m)
      in thenR (catchR (fs_create_dir_all (in_dest m)) (\<lambda>_. throw (Msg ''could not create directory'')))
           (catchR (bare_mount \<lparr>bm_source = in_src m, bm_destination = in_dest m,
              bm_fs_type = in_fstype m, bm_flags = flags, bm_options = options\<rparr>)
              (\<lambda>err. if in_src m \<noteq> ''dev'' then throw err else ret ())))"

definition general_mount :: "unit io" where
  "general_mount = for_each INIT_ROOTFS_MOUNTS mount_to_rootfs"

text \<open>
  One line against \<open>device .+ mounted on <mp> with fstype (.+)\<close>, for a mount point without
  characters that are special in a pattern: the first \<open>device\<close>, then the last place where the
  middle part fits and leaves a file system type.
\<close>

fun after_first :: "string \<Rightarrow> string \<Rightarrow> string option" where
  "after_first pat [] = (if pat = [] then Some [] else None)"
| "after_first pat (c # cs) = (if prefix pat (c # cs) then Some (drop (length pat) (c # cs))
     else after_first pat cs)"

definition match_fstype :: "string \<Rightarrow> string \<Rightarrow> string option" where
  "match_fstype mp line = (case after_first ''device '' line of
     None \<Rightarrow> None
   | Some rest \<Rightarrow>
       (let pat = '' mounted on '' @ mp @ '' with fstype '';
            ks = filter (\<lambda>k. prefix pat (drop k rest) \<and> k + length pat < length rest) [1..<length rest]
        in if ks = [] then None else Some (drop (last ks + length pat) rest)))"

definition get_mount_fs_type_from_file :: "string \<Rightarrow> string \<Rightarrow> string io" where
  "get_mount_fs_type_from_file mount_file mount_point =
     (if mount_point = [] then throw (ErrorCode ''Invalid mount point '')
      else bindR (fs_read mount_file) (\<lambda>c.
        case List.map_filter (match_fstype mount_point) (lines c) of
          t # _ \<Rightarrow> ret t
        | [] \<Rightarrow> throw (ErrorCode ''failed to find FS type for mount point'')))"

definition get_mount_fs_type :: "string \<Rightarrow> string io" where
  "get_mount_fs_type mount_point = get_mount_fs_type_from_file ''/proc/self/mountstats'' mount_point"

definition CGROUPPATH :: string where
  "CGROUPPATH = ''/sys/fs/cgroup''"

definition CGROUPS :: "string list" where
  "CGROUPS = [''cpu'', ''cpuacct'', ''blkio'', ''cpuset'', ''memory'', ''devices'', ''freezer'',
     ''net_cls'', ''perf_event'', ''net_prio'', ''hugetlb'', ''pids'', ''rdma'']"

text \<open>The controller that a line of \<open>/proc/cgroups\<close> enables, if the agent knows it.\<close>

definition cgroup_line :: "string \<Rightarrow> string option" where
  "cgroup_line line =
     (let fields = split_on CHR 0x09 line
      in if prefix ''#'' (fields ! 0) then None
         else if length fields < 4 then None
         else if fields ! 3 = ''0'' then None
         else if \<exists>f \<in> set [fields ! 1, fields ! 2, fields ! 3]. \<forall>v. parse_u64 f \<noteq> Ok v then None
         else if fields ! 0 \<in> set CGROUPS then Some (fields ! 0)
         else None)"

definition cgroup_mounts :: "string list \<Rightarrow> INIT_MOUNT list" where
  "cgroup_mounts ls =
     (let keys = List.map_filter cgroup_line ls
      in if ''devices'' \<notin> set keys then []
         else [init_mount ''tmpfs'' ''tmpfs'' CGROUPPATH [''nosuid'', ''nodev'', ''noexec'', ''mode=755'']]
           @ map (\<lambda>key. init_mount ''cgroup'' ''cgroup'' (CGROUPPATH @ ''/'' @ key)
                [''nosuid'', ''nodev'', ''noexec'', ''relatime'', key]) keys
           @ [init_mount ''tmpfs'' ''tmpfs'' CGROUPPATH
                [''remount'', ''ro'', ''nosuid'', ''nodev'', ''noexec'', ''mode=755'']])"

definition get_cgroup_mounts :: "string \<Rightarrow> INIT_MOUNT list io" where
  "get_cgroup_mounts cg_path = bindR (fs_read cg_path) (\<lambda>c. ret (cgroup_mounts (lines c)))"

definition cgroups_mount :: "unit io" where
  "cgroups_mount = bindR (get_cgroup_mounts ''/proc/cgroups'')
     (\<lambda>cgroups. thenR (for_each cgroups mount_to_rootfs)
        (online_device ''/sys/fs/cgroup/memory//memory.use_hierarchy''))"

section \<open>Lemmas\<close>

text \<open>The contract of a reference counter with room for one more reference.\<close>

locale ref_counter =
  fixes acquire :: "'k \<Rightarrow> 's \<Rightarrow> 's"
    and release :: "'k \<Rightarrow> 's \<Rightarrow> 's"
    and refs :: "'s \<Rightarrow> 'k \<Rightarrow> nat"
    and ok :: "'s \<Rightarrow> bool"
    and limit :: nat
  assumes refs_acquire: "ok s \<Longrightarrow> Suc (refs s k) < limit \<Longrightarrow>
      refs (acquire k s) = (refs s)(k := Suc (refs s k))"
    and refs_release: "ok s \<Longrightarrow> refs (release k s) = (refs s)(k := refs s k - 1)"
    and ok_acquire: "ok s \<Longrightarrow> Suc (refs s k) < limit \<Longrightarrow> ok (acquire k s)"
    and ok_release: "ok s \<Longrightarrow> ok (release k s)"
begin

text \<open>\<open>Inl k\<close> acquires, \<open>Inr k\<close> releases.\<close>

fun run :: "('k + 'k) list \<Rightarrow> 's \<Rightarrow> 's" where
  "run [] s = s"
| "run (Inl k # ops) s = run ops (acquire k s)"
| "run (Inr k # ops) s = run ops (release k s)"

fun count :: "('k + 'k) list \<Rightarrow> ('k \<Rightarrow> nat) \<Rightarrow> 'k \<Rightarrow> nat" where
  "count [] c = c"
| "count (Inl k # ops) c = count ops (c(k := Suc (c k)))"
| "count (Inr k # ops) c = count ops (c(k := c k - 1))"

lemma run_count:
  "ok s \<Longrightarrow> (\<And>k. refs s k + length ops < limit) \<Longrightarrow> ok (run ops s) \<and> refs (run ops s) = count ops (refs s)"
proof (induction ops arbitrary: s)
  case (Cons x ops)
  show ?case
  proof (cases x)
    case (Inl k)
    have l: "Suc (refs s k) < limit" using Cons.prems(2) [of k] by simp
    note r = refs_acquire [OF Cons.prems(1) l]
    have "ok (run ops (acquire k s)) \<and> refs (run ops (acquire k s)) = count ops (refs (acquire k s))"
      by (rule Cons.IH) (use Cons.prems ok_acquire [OF _ l] in \<open>auto simp: r intro: Suc_lessD\<close>)
    with Inl r show ?thesis by simp
  next
    case (Inr k)
    note r = refs_release [OF Cons.prems(1), of k]
    have "refs (release k s) i + length ops < limit" for i
      using Cons.prems(2) [of i] by (auto simp: r)
    then have "ok (run ops (release k s)) \<and> refs (run ops (release k s)) = count ops (refs (release k s))"
      by (intro Cons.IH ok_release Cons.prems(1))
    with Inr r show ?thesis by simp
  qed
qed simp

end

definition storage_refs :: "Sandbox \<Rightarrow> string \<Rightarrow> nat" where
  "storage_refs sb path = (case sb_storages sb path of None \<Rightarrow> 0 | Some count \<Rightarrow> unat count)"

definition storages_ok :: "Sandbox \<Rightarrow> bool" where
  "storages_ok sb \<longleftrightarrow> (\<forall>path. sb_storages sb path \<noteq> Some 0)"

lemma unat_dec: "c \<noteq> 0 \<Longrightarrow> unat (c - 1 :: u32) = unat c - 1"
  by (simp add: unat_minus_one)

lemma word_lt_one: "(c :: u32) < 1 \<longleftrightarrow> c = 0"
  by (simp add: word_less_nat_alt unat_eq_0)

lemma storages_okD: "storages_ok sb \<Longrightarrow> sb_storages sb path = Some c \<Longrightarrow> c \<noteq> 0"
  by (auto simp: storages_ok_def)

lemma release_refs:
  assumes "storages_ok sb"
  shows "storage_refs (snd (unset_sandbox_storage path sb)) = (storage_refs sb)(path := storage_refs sb path - 1)
    \<and> storages_ok (snd (unset_sandbox_storage path sb))"
proof (cases "sb_storages sb path")
  case None
  with assms show ?thesis by (auto simp: unset_sandbox_storage_def storage_refs_def fun_eq_iff)
next
  case (Some c)
  with assms have c: "c \<noteq> 0" by (rule storages_okD)
  with Some assms unat_dec [OF c] show ?thesis
    by (cases "c - 1 = 0")
      (auto simp: unset_sandbox_storage_def storage_refs_def storages_ok_def word_lt_one fun_eq_iff)
qed

lemma acquire_refs:
  assumes "storages_ok sb" "Suc (storage_refs sb path) < 2 ^ 32"
  shows "storage_refs (snd (set_sandbox_storage path sb)) = (storage_refs sb)(path := Suc (storage_refs sb path))
    \<and> storages_ok (snd (set_sandbox_storage path sb))"
proof (cases "sb_storages sb path")
  case None
  with assms show ?thesis
    by (auto simp: set_sandbox_storage_def storage_refs_def storages_ok_def fun_eq_iff)
next
  case (Some c)
  with assms(2) have u: "unat (c + 1) = Suc (unat c)"
    by (simp add: storage_refs_def unat_word_ariths)
  then have "c + 1 \<noteq> 0" by (metis unat_0 nat.distinct(1))
  with Some assms(1) u show ?thesis
    by (auto simp: set_sandbox_storage_def storage_refs_def storages_ok_def fun_eq_iff)
qed

interpretation storage_counter: ref_counter "\<lambda>k sb. snd (set_sandbox_storage k sb)"
    "\<lambda>k sb. snd (unset_sandbox_storage k sb)" storage_refs storages_ok "2 ^ 32"
  by unfold_locales (use acquire_refs release_refs in blast)+

text \<open>Sequences of uses (\<open>Inl\<close>) and releases (\<open>Inr\<close>) of storages, and their count.\<close>

definition storage_run :: "(string + string) list \<Rightarrow> Sandbox \<Rightarrow> Sandbox" where
  "storage_run ops sb = fold (\<lambda>op sb. case op of Inl path \<Rightarrow> snd (set_sandbox_storage path sb)
     | Inr path \<Rightarrow> snd (unset_sandbox_storage path sb)) ops sb"

definition users :: "(string + string) list \<Rightarrow> (string \<Rightarrow> nat) \<Rightarrow> string \<Rightarrow> nat" where
  "users ops c = fold (\<lambda>op c. case op of Inl path \<Rightarrow> c(path := Suc (c path))
     | Inr path \<Rightarrow> c(path := c path - 1)) ops c"

lemma storage_run_counter: "storage_run ops sb = storage_counter.run ops sb"
  by (induction ops arbitrary: sb) (auto simp: storage_run_def split: sum.split)

lemma users_counter: "users ops c = storage_counter.count ops c"
  by (induction ops arbitrary: c) (auto simp: users_def split: sum.split)

text \<open>Mount options.\<close>

definition unknown_options :: "string list \<Rightarrow> string list" where
  "unknown_options opts = filter (\<lambda>opt. opt \<noteq> [] \<and> FLAGS opt = None) opts"

definition option_bits :: "string \<Rightarrow> u64" where
  "option_bits opt = (case FLAGS opt of None \<Rightarrow> 0 | Some (_, f) \<Rightarrow> f)"

definition all_bits :: "string list \<Rightarrow> u64" where
  "all_bits opts = foldr (\<lambda>opt f. option_bits opt OR f) opts 0"

abbreviation option_step :: "string \<Rightarrow> u64 \<times> string \<Rightarrow> u64 \<times> string" where
  "option_step opt st \<equiv> (case st of (flags, options) \<Rightarrow>
     if opt = [] then (flags, options)
     else case FLAGS opt of
       Some (_, f) \<Rightarrow> (flags OR f, options)
     | None \<Rightarrow> (flags, if options \<noteq> [] then options @ '','' @ opt else opt))"

lemma FLAGS_Nil: "FLAGS [] = None"
  by (simp add: FLAGS_def)

lemma join_on_snoc: "xs \<noteq> [] \<Longrightarrow> join_on sep (xs @ [y]) = join_on sep xs @ sep @ y"
  by (induction sep xs rule: join_on.induct) (auto simp: neq_Nil_conv)

lemma join_on_empty: "\<forall>x \<in> set xs. x \<noteq> [] \<Longrightarrow> join_on sep xs = [] \<longleftrightarrow> xs = []"
  by (induction sep xs rule: join_on.induct) auto

lemma all_bits_append: "all_bits (xs @ [x]) = all_bits xs OR option_bits x"
proof -
  have "foldr (\<lambda>opt f. option_bits opt OR f) xs b = all_bits xs OR b" for b
  proof (induction xs)
    case (Cons y ys)
    have "all_bits (y # ys) = option_bits y OR all_bits ys" by (simp add: all_bits_def)
    with Cons show ?case by (simp add: or.assoc)
  qed (simp add: all_bits_def)
  then show ?thesis unfolding all_bits_def [of "xs @ [x]"] by simp
qed

lemma parse_flags_fold:
  "fold option_step opts (0, []) = (all_bits opts, join_on '','' (unknown_options opts))"
proof (induction opts rule: rev_induct)
  case (snoc opt opts)
  have "join_on '','' (unknown_options opts) = [] \<longleftrightarrow> unknown_options opts = []"
    by (rule join_on_empty) (auto simp: unknown_options_def)
  with snoc show ?case
    by (cases "opt = []"; cases "FLAGS opt")
      (auto simp: all_bits_append unknown_options_def option_bits_def join_on_snoc FLAGS_Nil split: prod.splits)
qed (simp add: all_bits_def unknown_options_def)

lemma parse_flags_eq:
  "parse_mount_flags_and_options opts = (all_bits opts, join_on '','' (unknown_options opts))"
  unfolding parse_mount_flags_and_options_def parse_flags_fold [symmetric] by (rule refl)

lemma option_bits_in_all: "opt \<in> set opts \<Longrightarrow> option_bits opt AND all_bits opts = option_bits opt"
proof (induction opts)
  case (Cons o1 opts)
  have a1: "x AND (x OR y) = x" for x y :: u64
    by (rule bit_word_eqI) (auto simp: bit_and_iff bit_or_iff)
  have a2: "x AND (z OR y) = x" if "x AND y = x" for x y z :: u64
  proof (rule bit_word_eqI)
    fix n show "bit (x AND (z OR y)) n = bit x n"
      using arg_cong [OF that, of "\<lambda>v. bit v n"] by (auto simp: bit_and_iff bit_or_iff)
  qed
  show ?case
  proof (cases "opt = o1")
    case True
    then show ?thesis using a1 by (simp add: all_bits_def)
  next
    case False
    with Cons show ?thesis using a2 by (simp add: all_bits_def)
  qed
qed simp

text \<open>A table of \<open>/proc/cgroups\<close>: name, hierarchy, number of cgroups, enabled.\<close>

type_synonym cgroup_row = "string \<times> u64 \<times> u64 \<times> bool"

definition cgroup_row_line :: "cgroup_row \<Rightarrow> string" where
  "cgroup_row_line row = (case row of (name, h, n, en) \<Rightarrow>
     join_on [CHR 0x09] [name, show_word h, show_word n, show_nat (if en then 1 else 0)])"

definition enabled_controllers :: "cgroup_row list \<Rightarrow> string list" where
  "enabled_controllers rows =
     map fst (filter (\<lambda>(name, _, _, en). en \<and> name \<in> set CGROUPS) rows)"

lemma cgroup_line_row:
  assumes "CHR 0x09 \<notin> set name" "name \<noteq> []" "hd name \<noteq> CHR ''#''"
  shows "cgroup_line (cgroup_row_line (name, h, n, en)) = (if en \<and> name \<in> set CGROUPS then Some name else None)"
proof -
  have "split_on CHR 0x09 (cgroup_row_line (name, h, n, en)) =
      [name, show_word h, show_word n, show_nat (if en then 1 else 0)]"
    unfolding cgroup_row_line_def prod.case
    by (rule split_on_join) (use assms(1) in \<open>auto simp: show_nat_no_char\<close>)
  moreover have "\<not> prefix ''#'' name" using assms(2,3) by (cases name) auto
  moreover have "show_nat 0 = ''0''" "show_nat (Suc 0) = ''1''" "show_nat 1 = ''1''"
    by (simp_all add: show_eval)
  moreover have "parse_u64 ''1'' = Ok 1"
    using parse_u64_show [of 1] by (simp add: show_eval)
  ultimately show ?thesis by (cases en) (auto simp: cgroup_line_def Let_def)
qed

lemma cgroup_lines_rows:
  assumes "\<forall>row \<in> set rows. CHR 0x09 \<notin> set (fst row) \<and> fst row \<noteq> [] \<and> hd (fst row) \<noteq> CHR ''#''"
  shows "List.map_filter cgroup_line (map cgroup_row_line rows) = enabled_controllers rows"
  using assms
proof (induction rows)
  case (Cons row rows)
  then show ?case
    by (cases row) (auto simp: enabled_controllers_def cgroup_line_row List.map_filter_simps split: if_splits)
qed (simp add: enabled_controllers_def)

section \<open>Properties\<close>

text \<open>C22: the storage counters count: after any sequence of uses and releases (fewer than 2^32 of them)
  the counter of every path is the number of uses not yet released, and no path is kept with a
  count of zero.\<close>
theorem storage_counts:
  assumes "storages_ok sb" "\<And>path. storage_refs sb path + length ops < 2 ^ 32"
  shows "storage_refs (storage_run ops sb) = users ops (storage_refs sb) \<and> storages_ok (storage_run ops sb)"
  using storage_counter.run_count [OF assms(1), of ops] assms(2)
  by (simp add: storage_run_counter users_counter)

lemma storage_counts_witness:
  "storage_refs (storage_run [Inl ''/s'', Inl ''/s'', Inr ''/s''] empty_sandbox) ''/s'' = 1"
  by (subst storage_counts [THEN conjunct1])
    (simp_all add: storages_ok_def empty_sandbox_def storage_refs_def users_def)

text \<open>C28: \<open>unset_and_remove_sandbox_storage\<close> unmounts and deletes a storage that other containers still
  use: the flag it acts on says that the path was known, not that the last use ended.\<close>
theorem storage_removed_while_used:
  assumes "storages_ok (ag_sandbox s)" "storage_refs (ag_sandbox s) path = Suc (Suc n)"
    and "\<And>h p. \<exists>v. kernel (ag_world s) h p = Inr v"
  shows "\<exists>s'. unset_and_remove_sandbox_storage path s = (Ok (), s')
     \<and> storage_refs (ag_sandbox s') path = Suc n
     \<and> hist (ag_world s') = hist (ag_world s) @ [SysUmount path, FsRemoveAll path]"
proof -
  obtain c where c: "sb_storages (ag_sandbox s) path = Some c" "unat c = Suc (Suc n)"
    using assms(2) by (auto simp: storage_refs_def split: option.splits)
  then have "c \<noteq> 0" by auto
  then have u: "unat (c - 1) = Suc n" using unat_dec c(2) by simp
  then have "c - 1 \<noteq> 0" by (metis unat_0 nat.distinct(1))
  then have unset: "unset_sandbox_storage path (ag_sandbox s) =
      (True, ag_sandbox s\<lparr>sb_storages := (sb_storages (ag_sandbox s))(path \<mapsto> c - 1)\<rparr>)"
    using c(1) by (simp add: unset_sandbox_storage_def word_lt_one)
  obtain v1 where k1: "kernel (ag_world s) (hist (ag_world s)) (SysUmount path) = Inr v1"
    using assms(3) by blast
  obtain v2 where k2: "kernel (ag_world s) (hist (ag_world s) @ [SysUmount path]) (FsRemoveAll path) = Inr v2"
    using assms(3) by blast
  have "\<exists>w'. remove_sandbox_storage path (ag_world s) = (Ok (), w')
      \<and> hist w' = hist (ag_world s) @ [SysUmount path, FsRemoveAll path]"
    using k1 k2 by (simp add: remove_sandbox_storage_def remove_mounts_def nix_do_def nix_sys_def
        fs_remove_dir_all_def io_sys_def sys_with_def thenR_def bindR_def)
  with unset u show ?thesis
    by (auto simp: unset_and_remove_sandbox_storage_def storage_refs_def)
qed

definition used_twice :: agent where
  "used_twice = quiet_agent\<lparr>ag_sandbox := empty_sandbox\<lparr>sb_storages := [''/s'' \<mapsto> 2]\<rparr>\<rparr>"

lemma used_twice: "storages_ok (ag_sandbox used_twice)" "storage_refs (ag_sandbox used_twice) ''/s'' = 2"
    "kernel (ag_world used_twice) h p = Inr 0" "hist (ag_world used_twice) = []" "ag_lock used_twice = Free"
  by (auto simp: used_twice_def storages_ok_def storage_refs_def quiet_agent_def quiet_def split: if_splits)

lemma storage_removed_while_used_witness:
  "\<exists>s'. unset_and_remove_sandbox_storage ''/s'' used_twice = (Ok (), s') \<and> storage_refs (ag_sandbox s') ''/s'' = 1"
  using storage_removed_while_used [of used_twice "''/s''" 0] by (auto simp: used_twice)

text \<open>A storage that is already in use is shared, not mounted again: the ephemeral and the local
  handler answer with no mount point, add one use, and make no system call.\<close>
lemma used_storage_shared:
  assumes "storages_ok (ag_sandbox s)" "0 < storage_refs (ag_sandbox s) (s_mount_point st)"
    and "Suc (storage_refs (ag_sandbox s) (s_mount_point st)) < 2 ^ 32"
    and "handler \<in> {ephemeral_storage_handler, local_storage_handler}" "ag_lock s = Free"
  shows "\<exists>s'. handler st s = (Ok [], s') \<and> ag_world s' = ag_world s
     \<and> storage_refs (ag_sandbox s') = (storage_refs (ag_sandbox s))(s_mount_point st :=
          Suc (storage_refs (ag_sandbox s) (s_mount_point st)))"
proof -
  have "fst (set_sandbox_storage (s_mount_point st) (ag_sandbox s)) = False"
    using assms(2) by (auto simp: set_sandbox_storage_def storage_refs_def split: option.splits)
  then obtain sb where sb: "set_sandbox_storage (s_mount_point st) (ag_sandbox s) = (False, sb)"
    by (cases "set_sandbox_storage (s_mount_point st) (ag_sandbox s)") auto
  then have "storage_refs sb = (storage_refs (ag_sandbox s))(s_mount_point st :=
      Suc (storage_refs (ag_sandbox s) (s_mount_point st)))"
    using acquire_refs [OF assms(1,3)] by simp
  moreover have "sb_run (set_sandbox_storage (s_mount_point st)) s = (Ok False, s\<lparr>ag_sandbox := sb\<rparr>)"
    using sb by simp
  then have "handler st s = (Ok [], s\<lparr>ag_sandbox := sb\<rparr>)"
    using assms(4,5) by (auto simp: ephemeral_storage_handler_def local_storage_handler_def locked_def bindR_def)
  ultimately show ?thesis by simp
qed

definition tmp_storage :: Storage where
  "tmp_storage = \<lparr>s_driver = ''ephemeral'', s_driver_options = [], s_source = ''tmpfs'',
     s_fstype = ''tmpfs'', s_options = [], s_mount_point = ''/s''\<rparr>"

lemma used_storage_shared_witness:
  "\<exists>s'. ephemeral_storage_handler tmp_storage used_twice = (Ok [], s') \<and> hist (ag_world s') = []"
  using used_storage_shared [of used_twice tmp_storage ephemeral_storage_handler]
  by (auto simp: used_twice tmp_storage_def)

text \<open>The agent's mount options: the flags are the union of the bits of every known option, and the
  data string has the other options, in order, separated by commas.\<close>
lemma mount_options_parsed:
  "parse_mount_flags_and_options opts = (all_bits opts, join_on '','' (unknown_options opts))"
  by (rule parse_flags_eq)

text \<open>An option whose table entry says that it clears its bits sets them: a storage with the option
  \<open>rw\<close> is mounted read-only, whatever the other options are.\<close>
lemma rw_mounts_read_only:
  assumes "''rw'' \<in> set opts"
  shows "FLAGS ''rw'' = Some (True, MS_RDONLY)
    \<and> fst (parse_mount_flags_and_options opts) AND MS_RDONLY = MS_RDONLY"
  using option_bits_in_all [OF assms]
  by (simp add: parse_flags_eq option_bits_def FLAGS_def and.commute)

lemma rw_mounts_read_only_witness: "fst (parse_mount_flags_and_options [''rw'']) AND MS_RDONLY = MS_RDONLY"
  by (rule rw_mounts_read_only [THEN conjunct2]) simp

text \<open>A bind mount on a file cannot be prepared: when the destination is not a directory the agent
  opens it for creation without write access, which always fails, so the call never succeeds.\<close>
lemma bind_on_file_fails:
  assumes "\<not> is_dir w destination" "path_parent destination \<noteq> Some destination"
  shows "fst (ensure_destination_exists destination ''bind'' w) \<noteq> Ok ()"
proof
  assume "fst (ensure_destination_exists destination ''bind'' w) = Ok ()"
  then obtain w' where run: "ensure_destination_exists destination ''bind'' w = (Ok (), w')"
    by (metis prod.collapse)
  have ex: "is_dir w2 = is_dir w1" if "path_exists p w1 = (r, w2)" for p w1 r w2
    using that by (auto simp: path_exists_def io_sys_def sys_with_def Let_def split: sum.splits)
  have mk: "is_dir w2 destination = is_dir w1 destination"
    if "fs_create_dir_all d w1 = (Ok (), w2)" "d \<noteq> destination" for d w1 w2
    using that by (auto simp: fs_create_dir_all_def io_sys_def sys_with_def Let_def thenR_def bindR_def
        split: if_splits sum.splits)
  from run obtain b w1 w2 where b: "path_exists destination w = (Ok b, w1)" and
    pre: "(if b then ret () else case path_parent destination of
          None \<Rightarrow> throw (ErrorCode ''mount destination doesn't exist'')
        | Some dir \<Rightarrow> bindR (path_exists dir) (\<lambda>dex. whenR (\<not> dex) (fs_create_dir_all dir))) w1 = (Ok (), w2)"
    and last: "bindR (path_is_dir destination) (\<lambda>d. if d then fs_create_dir_all destination
        else create_without_access destination) w2 = (Ok (), w')"
    by (auto simp: ensure_destination_exists_def bindR_Ok_iff thenR_Ok_iff)
  have "is_dir w2 destination = is_dir w1 destination"
    using pre assms(2) ex mk
    by (auto simp: bindR_Ok_iff whenR_def split: if_splits option.splits)
  then have nd: "\<not> is_dir w2 destination" using ex [OF b] assms(1) by simp
  from last obtain d w3 where "path_is_dir destination w2 = (Ok d, w3)"
    "(if d then fs_create_dir_all destination else create_without_access destination) w3 = (Ok (), w')"
    by (auto simp: bindR_Ok_iff)
  with nd ex show False
    by (auto simp: path_is_dir_def bindR_Ok_iff create_without_access_def)
qed

lemma bind_on_file_fails_witness:
  "fst (ensure_destination_exists ''/etc/hosts'' ''bind'' (quiet\<lparr>files := [''/etc/hosts'' \<mapsto> []]\<rparr>)) \<noteq> Ok ()"
  by (rule bind_on_file_fails) (simp_all add: quiet_def path_parent_def drop_slashes_def)

text \<open>The cgroup mounts of the guest: from a printed \<open>/proc/cgroups\<close>, one mount for each enabled
  controller that the agent knows, in order, between the tmpfs and its read-only remount; and none
  at all when the \<open>devices\<close> controller is not enabled.\<close>
lemma cgroup_mounts_of_table:
  assumes "\<forall>row \<in> set rows. CHR 0x09 \<notin> set (fst row) \<and> nl \<notin> set (fst row) \<and> fst row \<noteq> []
      \<and> hd (fst row) \<noteq> CHR ''#''"
  shows "cgroup_mounts (lines (unlines (map cgroup_row_line rows))) =
    (if ''devices'' \<notin> set (enabled_controllers rows) then []
     else [init_mount ''tmpfs'' ''tmpfs'' CGROUPPATH [''nosuid'', ''nodev'', ''noexec'', ''mode=755'']]
       @ map (\<lambda>key. init_mount ''cgroup'' ''cgroup'' (CGROUPPATH @ ''/'' @ key)
            [''nosuid'', ''nodev'', ''noexec'', ''relatime'', key]) (enabled_controllers rows)
       @ [init_mount ''tmpfs'' ''tmpfs'' CGROUPPATH
            [''remount'', ''ro'', ''nosuid'', ''nodev'', ''noexec'', ''mode=755'']])"
proof -
  have "number_line (cgroup_row_line row)" if "row \<in> set rows" for row
  proof -
    obtain name h n en where row: "row = (name, h, n, en)" by (cases row)
    have tab: "nl \<noteq> CHR 0x09" by (simp add: nl_def)
    have "nl \<notin> set (name @ [CHR 0x09] @ show_word h @ [CHR 0x09] @ show_word n @ [CHR 0x09])"
      using assms that row tab by auto
    from number_lineI [OF this, of "if en then 1 else 0"] row show ?thesis
      by (simp add: cgroup_row_line_def)
  qed
  then have "lines (unlines (map cgroup_row_line rows)) = map cgroup_row_line rows"
    by (intro lines_unlines_numbers) auto
  with assms show ?thesis by (simp add: cgroup_mounts_def Let_def cgroup_lines_rows)
qed

lemma cgroup_mounts_of_table_witness:
  "map in_dest (cgroup_mounts (lines (unlines (map cgroup_row_line
     [(''devices'', 3, 40, True), (''cpu'', 2, 1, False), (''pids'', 4, 44, True)]))))
   = [''/sys/fs/cgroup'', ''/sys/fs/cgroup/devices'', ''/sys/fs/cgroup/pids'', ''/sys/fs/cgroup'']"
  by (subst cgroup_mounts_of_table) (auto simp: nl_def enabled_controllers_def CGROUPS_def CGROUPPATH_def)

end
