(* ===== verification/Validator.thy ===== *)
theory Validator
  imports Agent_Mount
begin

text \<open>
  \<open>rustjail/src/validator.rs\<close>: the checks a container configuration passes before a container is
  made from it. Each check is an action on the world, since some of them look at paths; the first
  one that fails gives the result.
\<close>

definition einval :: "'a io" where
  "einval = throw (Nix EINVAL)"

definition checkR :: "bool \<Rightarrow> unit io" where
  "checkR b = (if b then ret () else einval)"

section \<open>Namespaces\<close>

definition contain_namespace :: "g_LinuxNamespace list \<Rightarrow> string \<Rightarrow> bool" where
  "contain_namespace nses key = list_ex (\<lambda>n. ns_Type n = key) nses"

definition get_namespace_path :: "g_LinuxNamespace list \<Rightarrow> string \<Rightarrow> string io" where
  "get_namespace_path nses key = (case find (\<lambda>n. ns_Type n = key) nses of
     Some n \<Rightarrow> ret (ns_Path n) | None \<Rightarrow> einval)"

section \<open>The root file system\<close>

text \<open>
  \<open>Path::components\<close> of an absolute path without its root: repeated slashes and \<open>.\<close> vanish. The
  stack of the code holds the names; \<open>..\<close> takes the last one off, and is skipped at the top.
\<close>

definition components :: "string \<Rightarrow> string list" where
  "components p = filter (\<lambda>c. c \<noteq> [] \<and> c \<noteq> ''.'') (split_on CHR ''/'' p)"

definition push_component :: "string \<Rightarrow> string list \<Rightarrow> string list" where
  "push_component c stack = (if c = ''..'' then butlast stack else stack @ [c])"

definition clean_components :: "string \<Rightarrow> string list" where
  "clean_components p = fold push_component (components p) []"

definition validate_rootfs :: "string \<Rightarrow> unit io" where
  "validate_rootfs root = bindR (path_exists root) (\<lambda>ex.
     thenR (checkR (ex \<and> prefix ''/'' root))
     (bindR (fs_canonicalize root) (\<lambda>c. checkR (clean_components root = components c))))"

section \<open>The checks\<close>

definition network :: "g_Spec \<Rightarrow> unit io" where
  "network oci = ret ()"

definition validate_hostname :: "g_Spec \<Rightarrow> unit io" where
  "validate_hostname oci = (if sp_Hostname oci = [] then ret ()
     else case sp_Linux oci of None \<Rightarrow> einval
     | Some linux \<Rightarrow> checkR (contain_namespace (lx_Namespaces linux) ''uts''))"

definition security :: "g_Linux \<Rightarrow> unit io" where
  "security linux = checkR (lx_MaskedPaths linux = [] \<and> lx_ReadonlyPaths linux = []
     \<or> contain_namespace (lx_Namespaces linux) ''mount'')"

definition idmapping :: "g_LinuxIDMapping list \<Rightarrow> unit io" where
  "idmapping maps = checkR (list_ex (\<lambda>m. im_Size m > 0) maps)"

definition usernamespace :: "g_Linux \<Rightarrow> unit io" where
  "usernamespace linux =
     (if contain_namespace (lx_Namespaces linux) ''user''
      then bindR (path_exists ''/proc/self/ns/user'') (\<lambda>ex.
        if \<not> ex then throw (ErrorCode ''user namespace not supported!'')
        else thenR (idmapping (lx_UIDMappings linux)) (idmapping (lx_GIDMappings linux)))
      else checkR (lx_UIDMappings linux = [] \<and> lx_GIDMappings linux = []))"

definition cgroupnamespace :: "g_Linux \<Rightarrow> unit io" where
  "cgroupnamespace linux =
     (if contain_namespace (lx_Namespaces linux) ''cgroup''
      then bindR (path_exists ''/proc/self/ns/cgroup'') (\<lambda>ex.
        if \<not> ex then throw (ErrorCode ''cgroup unsupported!'') else ret ())
      else ret ())"

definition SYSCTLS :: "string list" where
  "SYSCTLS = [''kernel.msgmax'', ''kernel.msgmnb'', ''kernel.msgmni'', ''kernel.sem'', ''kernel.shmall'',
     ''kernel.shmmax'', ''kernel.shmmni'', ''kernel.shm_rmid_forced'']"

definition check_host_ns :: "string \<Rightarrow> unit io" where
  "check_host_ns path = bindR (fs_read_link ''/proc/self/ns/net'') (\<lambda>real_hpath.
     bindR (fs_is_symlink path) (\<lambda>sym. if \<not> sym then ret ()
       else bindR (fs_read_link path) (\<lambda>real_cpath. checkR (real_cpath \<noteq> real_hpath))))"

text \<open>
  One round of the loop over the kernel parameters. After a \<open>net.\<close> key whose namespace has a path
  the round goes on to the rules for the host name, and ends in EINVAL.
\<close>

definition sysctl_key :: "g_Linux \<Rightarrow> string \<Rightarrow> unit io" where
  "sysctl_key linux key =
     (let nses = lx_Namespaces linux;
          names = (if contain_namespace nses ''uts'' \<and> key = ''kernel.domainname'' then ret () else einval)
      in if key \<in> set SYSCTLS \<or> prefix ''fs.mqueue.'' key then checkR (contain_namespace nses ''ipc'')
         else if prefix ''net.'' key
           then (if \<not> contain_namespace nses ''network'' then einval
                 else bindR (get_namespace_path nses ''network'') (\<lambda>net.
                   if net = [] then ret () else thenR (check_host_ns net) names))
         else names)"

definition sysctl :: "g_Linux \<Rightarrow> unit io" where
  "sysctl linux = for_each (map fst (lx_Sysctl linux)) (sysctl_key linux)"

section \<open>Rootless containers\<close>

definition rootless_euid_mapping :: "g_Linux \<Rightarrow> unit io" where
  "rootless_euid_mapping linux = thenR (checkR (contain_namespace (lx_Namespaces linux) ''user''))
     (checkR (lx_UIDMappings linux \<noteq> [] \<and> lx_GIDMappings linux \<noteq> []))"

text \<open>The sum of two \<open>u32\<close> wraps around (a release build).\<close>

definition has_idmapping :: "g_LinuxIDMapping list \<Rightarrow> u32 \<Rightarrow> bool" where
  "has_idmapping maps i = list_ex (\<lambda>m. i \<ge> im_ContainerID m \<and> i < im_ContainerID m + im_Size m) maps"

definition mount_option_ids :: "g_Linux \<Rightarrow> string \<Rightarrow> unit io" where
  "mount_option_ids linux opt =
     (if prefix ''uid='' opt \<or> prefix ''gid='' opt
      then case split_on CHR ''='' opt of
          [_, v] \<Rightarrow> bindR (liftR (parse_u32 (trim v))) (\<lambda>i.
            thenR (checkR (prefix ''uid='' opt \<longrightarrow> has_idmapping (lx_UIDMappings linux) i))
              (checkR (prefix ''gid='' opt \<longrightarrow> has_idmapping (lx_GIDMappings linux) i)))
        | _ \<Rightarrow> einval
      else ret ())"

definition rootless_euid_mount :: "g_Spec \<Rightarrow> g_Linux \<Rightarrow> unit io" where
  "rootless_euid_mount oci linux =
     for_each (sp_Mounts oci) (\<lambda>m. for_each (mt_options m) (mount_option_ids linux))"

definition validate_rootless_euid :: "g_Spec \<Rightarrow> g_Linux \<Rightarrow> unit io" where
  "validate_rootless_euid oci linux = thenR (rootless_euid_mapping linux) (rootless_euid_mount oci linux)"

text \<open>The checks that take the Linux part unwrap it; \<open>validate\<close> has seen that it is there.\<close>

definition validate :: "CreateOpts \<Rightarrow> unit io" where
  "validate conf = (case co_spec conf of None \<Rightarrow> panicR
   | Some oci \<Rightarrow> (case sp_Linux oci of None \<Rightarrow> einval
     | Some linux \<Rightarrow> (case sp_Root oci of None \<Rightarrow> einval
       | Some root \<Rightarrow> run_all [validate_rootfs (rt_Path root), network oci, validate_hostname oci,
           security linux, usernamespace linux, cgroupnamespace linux, sysctl linux,
           whenR (rootless_euid conf) (validate_rootless_euid oci linux)])))"

section \<open>Lemmas\<close>

lemma check_steps [simp]: "checkR True w = (Ok (), w)" "checkR False w = (Err (Nix EINVAL), w)"
    "einval w = (Err (Nix EINVAL), w)"
  by (simp_all add: checkR_def einval_def)

lemma checkR_Ok: "checkR b w = (Ok (), w') \<longleftrightarrow> b \<and> w' = w"
  by (cases b) auto

lemma einval_Ok: "einval w \<noteq> (Ok x, w')"
  by simp

lemma for_each_pure:
  assumes "\<And>x w w'. m x w = (Ok (), w') \<longleftrightarrow> P x \<and> w' = w"
  shows "for_each xs m w = (Ok (), w') \<longleftrightarrow> list_all P xs \<and> w' = w"
  by (induction xs arbitrary: w) (auto simp: thenR_Ok_iff assms)

text \<open>The kernel parameters that are accepted, by the rules the code states one by one.\<close>

definition sysctl_allowed :: "g_Linux \<Rightarrow> string \<Rightarrow> bool" where
  "sysctl_allowed linux key =
     (let nses = lx_Namespaces linux; has = contain_namespace nses
      in if key \<in> set SYSCTLS \<or> prefix ''fs.mqueue.'' key then has ''ipc''
         else if prefix ''net.'' key
           then map_option ns_Path (find (\<lambda>n. ns_Type n = ''network'') nses) = Some []
         else key = ''kernel.domainname'' \<and> has ''uts'')"

lemma contain_find: "contain_namespace nses key \<longleftrightarrow> find (\<lambda>n. ns_Type n = key) nses \<noteq> None"
  by (auto simp: contain_namespace_def find_None_iff list_ex_iff)

lemma net_not_domain: "prefix ''net.'' key \<Longrightarrow> key \<noteq> ''kernel.domainname''"
  by (auto simp: prefix_def)

lemma sysctl_key_Ok: "sysctl_key linux key w = (Ok (), w') \<longleftrightarrow> sysctl_allowed linux key \<and> w' = w"
proof (cases "key \<in> set SYSCTLS \<or> prefix ''fs.mqueue.'' key")
  case True
  then show ?thesis by (auto simp: sysctl_key_def sysctl_allowed_def Let_def checkR_Ok)
next
  case other: False
  show ?thesis
  proof (cases "prefix ''net.'' key")
    case True
    with other net_not_domain [OF True] show ?thesis
      by (auto simp: sysctl_key_def sysctl_allowed_def Let_def get_namespace_path_def contain_find
          bindR_Ok_iff thenR_Ok_iff split: option.splits)
  next
    case False
    with other show ?thesis by (auto simp: sysctl_key_def sysctl_allowed_def Let_def)
  qed
qed

lemma sysctl_Ok:
  "sysctl linux w = (Ok (), w') \<longleftrightarrow> list_all (sysctl_allowed linux) (map fst (lx_Sysctl linux)) \<and> w' = w"
  unfolding sysctl_def by (rule for_each_pure) (rule sysctl_key_Ok)

text \<open>What the options of a mount of a rootless container must satisfy.\<close>

definition option_mapped :: "g_Linux \<Rightarrow> string \<Rightarrow> bool" where
  "option_mapped linux opt = ((prefix ''uid='' opt \<or> prefix ''gid='' opt) \<longrightarrow>
     (case split_on CHR ''='' opt of [_, v] \<Rightarrow> (case parse_u32 (trim v) of Ok i \<Rightarrow>
         has_idmapping (if prefix ''uid='' opt then lx_UIDMappings linux else lx_GIDMappings linux) i
       | _ \<Rightarrow> False) | _ \<Rightarrow> False))"

lemma liftR_Ok: "liftR r w = (Ok x, w') \<longleftrightarrow> r = Ok x \<and> w' = w"
  by (auto simp: liftR_def)

lemma uid_or_gid: "prefix ''uid='' opt \<Longrightarrow> \<not> prefix ''gid='' opt"
  by (auto simp: prefix_def)

lemma mount_option_ids_Ok: "mount_option_ids linux opt w = (Ok (), w') \<longleftrightarrow> option_mapped linux opt \<and> w' = w"
proof (cases "prefix ''uid='' opt \<or> prefix ''gid='' opt")
  case True
  then show ?thesis
    by (auto simp: mount_option_ids_def option_mapped_def thenR_Ok_iff bindR_Ok_iff liftR_Ok checkR_Ok
        dest: uid_or_gid split: list.split res.split simp del: act_basic)
qed (auto simp: mount_option_ids_def option_mapped_def)

lemma rootless_mount_Ok:
  "rootless_euid_mount oci linux w = (Ok (), w')
    \<longleftrightarrow> list_all (\<lambda>m. list_all (option_mapped linux) (mt_options m)) (sp_Mounts oci) \<and> w' = w"
  unfolding rootless_euid_mount_def
  by (rule for_each_pure) (rule for_each_pure, rule mount_option_ids_Ok)

lemma io_sys_canon: "io_sys p w = (r, w') \<Longrightarrow> canon w' = canon w \<and> link w' = link w"
  using keepsD [OF io_sys_keeps] by (auto simp: grows_def)

lemma path_exists_keeps: "keeps grows (path_exists p)"
proof (rule keepsI)
  fix w r w' assume "path_exists p w = (r, w')"
  moreover obtain q u where u: "io_sys (SysStat p) w = (q, u)" by fastforce
  ultimately have "w' = u" by (cases q) (auto simp: path_exists_def)
  with keepsD [OF io_sys_keeps u] show "grows w w'" by simp
qed

lemma path_exists_canon: "path_exists p w = (r, w') \<Longrightarrow> canon w' = canon w"
  using keepsD [OF path_exists_keeps] by (auto simp: grows_def)

lemma validate_rootfs_Ok:
  assumes "validate_rootfs root w = (Ok (), w')"
  shows "prefix ''/'' root" "clean_components root = components (canon w root)"
proof -
  from assms obtain ex u c v where s: "path_exists root w = (Ok ex, u)"
      "ex" "prefix ''/'' root" "fs_canonicalize root u = (Ok c, v)" "clean_components root = components c"
    by (auto simp: validate_rootfs_def bindR_Ok_iff thenR_Ok_iff checkR_Ok)
  then show "prefix ''/'' root" by simp
  from s(4) have "c = canon u root"
    by (auto simp: fs_canonicalize_def thenR_Ok_iff dest!: io_sys_canon)
  with s path_exists_canon [OF s(1)] show "clean_components root = components (canon w root)" by simp
qed

lemma user_Ok:
  assumes "usernamespace linux w = (Ok (), w')"
  shows "if contain_namespace (lx_Namespaces linux) ''user''
     then list_ex (\<lambda>m. im_Size m > 0) (lx_UIDMappings linux) \<and> list_ex (\<lambda>m. im_Size m > 0) (lx_GIDMappings linux)
     else lx_UIDMappings linux = [] \<and> lx_GIDMappings linux = []"
  using assms by (auto simp: usernamespace_def idmapping_def bindR_Ok_iff thenR_Ok_iff checkR_Ok split: if_splits)

text \<open>The order of the checks, as the inversion of a successful run.\<close>

lemma validate_runs:
  assumes "validate conf w = (Ok (), w')"
    and "co_spec conf = Some oci" "sp_Linux oci = Some linux"
  shows "\<exists>root w1 w2 w3 w4 w5. sp_Root oci = Some root \<and> validate_rootfs (rt_Path root) w = (Ok (), w1)
     \<and> validate_hostname oci w1 = (Ok (), w1) \<and> security linux w1 = (Ok (), w1)
     \<and> usernamespace linux w1 = (Ok (), w2) \<and> cgroupnamespace linux w2 = (Ok (), w3)
     \<and> sysctl linux w3 = (Ok (), w4) \<and> (rootless_euid conf \<longrightarrow> validate_rootless_euid oci linux w4 = (Ok (), w5))"
proof -
  have h: "validate_hostname oci v = (Ok (), v') \<Longrightarrow> v' = v" for v v'
    by (auto simp: validate_hostname_def checkR_Ok split: if_splits option.splits)
  have s: "security linux v = (Ok (), v') \<Longrightarrow> v' = v" for v v'
    by (auto simp: security_def checkR_Ok)
  from assms obtain root where root: "sp_Root oci = Some root"
    by (auto simp: validate_def split: option.splits)
  with assms show ?thesis
    by (cases "rootless_euid conf"; clarsimp simp: validate_def thenR_Ok_iff network_def)
      (metis h s)+
qed

section \<open>Properties\<close>

lemma validate_accepts_parts:
  assumes "validate conf w = (Ok (), w')"
    and "co_spec conf = Some oci" "sp_Linux oci = Some linux"
  shows "\<exists>root. sp_Root oci = Some root \<and> prefix ''/'' (rt_Path root)
      \<and> clean_components (rt_Path root) = components (canon w (rt_Path root))"
    and "sp_Hostname oci = [] \<or> contain_namespace (lx_Namespaces linux) ''uts''"
    and "lx_MaskedPaths linux = [] \<and> lx_ReadonlyPaths linux = []
      \<or> contain_namespace (lx_Namespaces linux) ''mount''"
    and "if contain_namespace (lx_Namespaces linux) ''user''
      then list_ex (\<lambda>m. im_Size m > 0) (lx_UIDMappings linux) \<and> list_ex (\<lambda>m. im_Size m > 0) (lx_GIDMappings linux)
      else lx_UIDMappings linux = [] \<and> lx_GIDMappings linux = []"
    and "list_all (sysctl_allowed linux) (map fst (lx_Sysctl linux))"
    and "rootless_euid conf \<Longrightarrow> contain_namespace (lx_Namespaces linux) ''user''
      \<and> list_all (\<lambda>m. list_all (option_mapped linux) (mt_options m)) (sp_Mounts oci)"
proof -
  obtain root w1 w2 w3 w4 w5 where root: "sp_Root oci = Some root" "validate_rootfs (rt_Path root) w = (Ok (), w1)"
    and host: "validate_hostname oci w1 = (Ok (), w1)" and sec: "security linux w1 = (Ok (), w1)"
    and user: "usernamespace linux w1 = (Ok (), w2)" and ctl: "sysctl linux w3 = (Ok (), w4)"
    and less: "rootless_euid conf \<longrightarrow> validate_rootless_euid oci linux w4 = (Ok (), w5)"
    using validate_runs [OF assms] by blast
  show "\<exists>root. sp_Root oci = Some root \<and> prefix ''/'' (rt_Path root)
      \<and> clean_components (rt_Path root) = components (canon w (rt_Path root))"
    using root(1) validate_rootfs_Ok [OF root(2)] by blast
  show "sp_Hostname oci = [] \<or> contain_namespace (lx_Namespaces linux) ''uts''"
    using host assms(3) by (auto simp: validate_hostname_def checkR_Ok split: if_splits)
  show "lx_MaskedPaths linux = [] \<and> lx_ReadonlyPaths linux = []
      \<or> contain_namespace (lx_Namespaces linux) ''mount''"
    using sec by (auto simp: security_def checkR_Ok)
  show "if contain_namespace (lx_Namespaces linux) ''user''
      then list_ex (\<lambda>m. im_Size m > 0) (lx_UIDMappings linux) \<and> list_ex (\<lambda>m. im_Size m > 0) (lx_GIDMappings linux)
      else lx_UIDMappings linux = [] \<and> lx_GIDMappings linux = []"
    by (rule user_Ok [OF user])
  show "list_all (sysctl_allowed linux) (map fst (lx_Sysctl linux))"
    using ctl by (simp add: sysctl_Ok)
  show "rootless_euid conf \<Longrightarrow> contain_namespace (lx_Namespaces linux) ''user''
      \<and> list_all (\<lambda>m. list_all (option_mapped linux) (mt_options m)) (sp_Mounts oci)"
    using less by (auto simp: validate_rootless_euid_def rootless_euid_mapping_def thenR_Ok_iff checkR_Ok rootless_mount_Ok)
qed

text \<open>C31: a configuration that passes \<open>validate\<close> has an absolute root path that no symbolic link
  changes, the uts namespace when it sets a host name, the mount namespace when it hides or protects
  paths, id mappings exactly with a user namespace (a non-empty one of each kind), only allowed
  kernel parameters, and, when it is rootless, only mounts whose uid and gid options are mapped.\<close>
theorem validate_accepts:
  assumes "validate conf w = (Ok (), w')"
    and "co_spec conf = Some oci" "sp_Linux oci = Some linux"
  shows "(\<exists>root. sp_Root oci = Some root \<and> prefix ''/'' (rt_Path root)
        \<and> clean_components (rt_Path root) = components (canon w (rt_Path root)))
    \<and> (sp_Hostname oci = [] \<or> contain_namespace (lx_Namespaces linux) ''uts'')
    \<and> (lx_MaskedPaths linux = [] \<and> lx_ReadonlyPaths linux = []
        \<or> contain_namespace (lx_Namespaces linux) ''mount'')
    \<and> (if contain_namespace (lx_Namespaces linux) ''user''
        then list_ex (\<lambda>m. im_Size m > 0) (lx_UIDMappings linux) \<and> list_ex (\<lambda>m. im_Size m > 0) (lx_GIDMappings linux)
        else lx_UIDMappings linux = [] \<and> lx_GIDMappings linux = [])
    \<and> list_all (sysctl_allowed linux) (map fst (lx_Sysctl linux))
    \<and> (rootless_euid conf \<longrightarrow> contain_namespace (lx_Namespaces linux) ''user''
        \<and> list_all (\<lambda>m. list_all (option_mapped linux) (mt_options m)) (sp_Mounts oci))"
  using validate_accepts_parts [OF assms] by blast

text \<open>The kernel parameters of a specification are accepted, without looking at any path, exactly
  when each is allowed: an IPC parameter with an ipc namespace, a \<open>net.\<close> parameter with a new
  network namespace, or \<open>kernel.domainname\<close> with a uts namespace. A \<open>net.\<close> parameter together
  with the path of an existing network namespace is refused, whatever that namespace is.\<close>
lemma sysctl_accepts:
  "fst (sysctl linux w) = Ok () \<longleftrightarrow> list_all (sysctl_allowed linux) (map fst (lx_Sysctl linux))"
  using sysctl_Ok [of linux w "snd (sysctl linux w)"] sysctl_Ok [of linux w w]
  by (cases "sysctl linux w") auto

definition empty_linux :: g_Linux where
  "empty_linux = \<lparr>lx_UIDMappings = [], lx_GIDMappings = [], lx_Sysctl = [], lx_Resources = None,
     lx_CgroupsPath = [], lx_Namespaces = [], lx_Devices = [], lx_Seccomp = None, lx_RootfsPropagation = [],
     lx_MaskedPaths = [], lx_ReadonlyPaths = [], lx_MountLabel = [], lx_IntelRdt = None\<rparr>"

definition small_linux :: g_Linux where
  "small_linux = empty_linux\<lparr>lx_Sysctl := [(''net.core.somaxconn'', ''1'')], lx_Namespaces :=
     [\<lparr>ns_Type = ''uts'', ns_Path = []\<rparr>, \<lparr>ns_Type = ''network'', ns_Path = []\<rparr>]\<rparr>"

definition small_spec :: g_Spec where
  "small_spec = \<lparr>sp_Version = ''1.0'', sp_Process = None, sp_Root = Some \<lparr>rt_Path = ''/r'', rt_Readonly = False\<rparr>,
     sp_Hostname = ''h'', sp_Mounts = [], sp_Hooks = None, sp_Annotations = [], sp_Linux = Some small_linux\<rparr>"

definition small_conf :: CreateOpts where
  "small_conf = \<lparr>cgroup_name = [], use_systemd_cgroup = False, no_pivot_root = False, no_new_keyring = False,
     co_spec = Some small_spec, rootless_euid = False, rootless_cgroup = False\<rparr>"

lemma small_valid: "fst (validate small_conf quiet) = Ok ()"
  by (simp add: validate_def small_conf_def small_spec_def small_linux_def empty_linux_def validate_rootfs_def
      validate_hostname_def network_def security_def usernamespace_def cgroupnamespace_def sysctl_def
      sysctl_key_def SYSCTLS_def contain_namespace_def get_namespace_path_def path_exists_def io_sys_def
      sys_with_def Let_def quiet_def fs_canonicalize_def clean_components_def components_def
      push_component_def thenR_def bindR_def)

lemma validate_accepts_witness: "list_all (sysctl_allowed small_linux) (map fst (lx_Sysctl small_linux))"
proof -
  obtain w' where "validate small_conf quiet = (Ok (), w')"
    using small_valid by (metis prod.collapse)
  from validate_accepts [OF this, of small_spec small_linux] show ?thesis
    by (simp add: small_conf_def small_spec_def)
qed

end
