(* ===== verification/Jail_Mount.thy ===== *)
theory Jail_Mount
  imports Validator
begin

text \<open>
  \<open>rustjail/src/mount.rs\<close>: the root file system of a container. The mounts of the specification are
  made below the new root while the old one is still the root of the process (\<open>init_rootfs\<close>), the
  process then changes its root (\<open>pivot_rootfs\<close> or \<open>ms_move_root\<close>), and the last protections are
  applied inside (\<open>finish_rootfs\<close>). Bits of \<open>MsFlags\<close> as in \<open>Agent_Mount\<close>. The crates
  \<open>scan_fmt\<close> and \<open>path-absolutize\<close> are parameters of the definitions that use them.
\<close>

section \<open>Mount options\<close>

definition PROPAGATION :: "string \<Rightarrow> u64 option" where
  "PROPAGATION = map_of [(''shared'', MS_SHARED OR MS_REC), (''private'', MS_PRIVATE OR MS_REC),
     (''slave'', MS_SLAVE OR MS_REC)]"

definition OPTIONS :: "string \<Rightarrow> (bool \<times> u64) option" where
  "OPTIONS = map_of
    [(''defaults'', (False, 0)), (''ro'', (False, MS_RDONLY)), (''rw'', (True, MS_RDONLY)),
     (''suid'', (True, MS_NOSUID)), (''nosuid'', (False, MS_NOSUID)), (''dev'', (True, MS_NODEV)),
     (''nodev'', (False, MS_NODEV)), (''exec'', (True, MS_NOEXEC)), (''noexec'', (False, MS_NOEXEC)),
     (''sync'', (False, MS_SYNCHRONOUS)), (''async'', (True, MS_SYNCHRONOUS)),
     (''dirsync'', (False, MS_DIRSYNC)), (''remount'', (False, MS_REMOUNT)),
     (''mand'', (False, MS_MANDLOCK)), (''nomand'', (True, MS_MANDLOCK)), (''atime'', (True, MS_NOATIME)),
     (''noatime'', (False, MS_NOATIME)), (''diratime'', (True, MS_NODIRATIME)),
     (''nodiratime'', (False, MS_NODIRATIME)), (''bind'', (False, MS_BIND)),
     (''rbind'', (False, MS_BIND OR MS_REC)), (''unbindable'', (False, MS_UNBINDABLE)),
     (''runbindable'', (False, MS_UNBINDABLE OR MS_REC)), (''private'', (False, MS_PRIVATE)),
     (''rprivate'', (False, MS_PRIVATE OR MS_REC)), (''shared'', (False, MS_SHARED)),
     (''rshared'', (False, MS_SHARED OR MS_REC)), (''slave'', (False, MS_SLAVE)),
     (''rslave'', (False, MS_SLAVE OR MS_REC)), (''relatime'', (False, MS_RELATIME)),
     (''norelatime'', (True, MS_RELATIME)), (''strictatime'', (False, MS_STRICTATIME)),
     (''nostrictatime'', (True, MS_STRICTATIME))]"

definition apply_option :: "string \<Rightarrow> u64 \<Rightarrow> u64" where
  "apply_option opt flags = (case OPTIONS opt of None \<Rightarrow> flags
     | Some (clear, fl) \<Rightarrow> if clear then flags AND NOT fl else flags OR fl)"

definition parse_mount :: "g_Mount \<Rightarrow> u64 \<times> string" where
  "parse_mount m = (fold apply_option (mt_options m) 0,
     join_on '','' (filter (\<lambda>opt. OPTIONS opt = None) (mt_options m)))"

section \<open>Mounting one entry\<close>

definition bind_only :: u64 where
  "bind_only = MS_REC OR MS_REMOUNT OR MS_BIND OR MS_PRIVATE OR MS_SHARED OR MS_SLAVE"

definition has_flags :: "u64 \<Rightarrow> u64 \<Rightarrow> bool" where
  "has_flags flags f = (flags AND f = f)"

text \<open>The preparation of the destination of a bind mount, and the resolved source.\<close>

definition prepare_bind :: "g_Mount \<Rightarrow> string \<Rightarrow> string io" where
  "prepare_bind m dest = bindR (fs_canonicalize (mt_source m)) (\<lambda>src.
     bindR (path_is_file src) (\<lambda>f.
     bindR (if f then liftR (unwrap (path_parent dest)) else ret dest) (\<lambda>dir.
     thenR (ignoreR (fs_create_dir_all dir))
     (bindR (path_is_file src) (\<lambda>f'.
     thenR (whenR f' (ignoreR (io_sys (FsCreate dest)))) (ret src))))))"

definition mount_from :: "g_Mount \<Rightarrow> string \<Rightarrow> u64 \<Rightarrow> string \<Rightarrow> unit io" where
  "mount_from m rootfs flags data =
     (let dest = rootfs @ mt_destination m
      in bindR (if mt_field_type m = ''bind'' then prepare_bind m dest
                else thenR (ignoreR (fs_create_dir_all dest)) (ret (mt_source m))) (\<lambda>src.
         run_all [ignoreR (nix_do (SysStat dest)),
           nix_do (SysMount (Some src) dest (Some (mt_field_type m)) flags (Some data)),
           whenR (has_flags flags MS_BIND \<and> flags AND NOT bind_only \<noteq> 0)
             (nix_do (SysMount (Some dest) dest None (flags OR MS_REMOUNT) None))]))"

section \<open>Cgroups\<close>

definition base_name :: "string \<Rightarrow> string" where
  "base_name mnt = after_last CHR ''/'' mnt"

text \<open>
  One controller of the loop; \<open>srcs\<close> are the sources mounted so far. A second controller of a
  hierarchy that is already there gets a symbolic link only.
\<close>

definition mount_cgroup :: "g_Mount \<Rightarrow> string \<Rightarrow> u64 \<Rightarrow> (string \<times> string) list \<Rightarrow> string \<times> string
    \<Rightarrow> string list \<Rightarrow> string list io" where
  "mount_cgroup m rootfs flags cpath = (\<lambda>(key, mnt) srcs. case map_of cpath key of
     None \<Rightarrow> ret srcs
   | Some source \<Rightarrow>
      (let base = base_name mnt;
           destination = mt_destination m @ ''/'' @ base;
           src = mt_destination m @ ''/'' @ key;
           symlink = whenR (key \<noteq> base) (thenR (io_sys (FsSymlink destination (drop 1 src))) (ret ()))
       in if source \<in> set srcs then thenR symlink (ret srcs)
          else thenR (mount_from \<lparr>mt_destination = destination, mt_source = source,
                mt_field_type = ''bind'', mt_options = []\<rparr> rootfs (flags OR MS_REC OR MS_BIND) [])
              (thenR symlink (ret (source # srcs)))))"

fun mount_cgroup_loop :: "g_Mount \<Rightarrow> string \<Rightarrow> u64 \<Rightarrow> (string \<times> string) list \<Rightarrow> (string \<times> string) list
    \<Rightarrow> string list \<Rightarrow> unit io" where
  "mount_cgroup_loop m rootfs flags cpath [] srcs = ret ()"
| "mount_cgroup_loop m rootfs flags cpath (e # es) srcs =
     bindR (mount_cgroup m rootfs flags cpath e srcs) (mount_cgroup_loop m rootfs flags cpath es)"

definition mount_cgroups :: "g_Mount \<Rightarrow> string \<Rightarrow> u64 \<Rightarrow> (string \<times> string) list
    \<Rightarrow> (string \<times> string) list \<Rightarrow> unit io" where
  "mount_cgroups m rootfs flags cpath mounts =
     thenR (mount_from \<lparr>mt_destination = mt_destination m, mt_source = ''tmpfs'', mt_field_type = ''tmpfs'',
         mt_options = []\<rparr> rootfs (MS_NOEXEC OR MS_NOSUID OR MS_NODEV) [])
     (bindR nix_getcwd (\<lambda>olddir.
     thenR (nix_chdir rootfs)
     (thenR (mount_cgroup_loop m rootfs flags cpath mounts [])
     (thenR (nix_chdir olddir)
     (let dest = rootfs @ mt_destination m
      in whenR (has_flags flags MS_RDONLY)
           (nix_do (SysMount (Some dest) dest None (flags OR MS_BIND OR MS_REMOUNT) None)))))))"

section \<open>Devices\<close>

definition SYMLINKS :: "(string \<times> string) list" where
  "SYMLINKS = [(''/proc/self/fd'', ''dev/fd''), (''/proc/self/fd/0'', ''dev/stdin''),
     (''/proc/self/fd/1'', ''dev/stdout''), (''/proc/self/fd/2'', ''dev/stderr'')]"

definition symlinkR :: "string \<Rightarrow> string \<Rightarrow> unit io" where
  "symlinkR original new = thenR (io_sys (FsSymlink original new)) (ret ())"

definition default_symlinks :: "unit io" where
  "default_symlinks = bindR (path_exists ''/proc/kcore'') (\<lambda>ex.
     thenR (whenR ex (symlinkR ''/proc/kcore'' ''dev/kcore''))
       (for_each SYMLINKS (\<lambda>(src, dst). symlinkR src dst)))"

definition makedev :: "u64 \<Rightarrow> u64 \<Rightarrow> u64" where
  "makedev major minor = (minor AND 0xff) OR push_bit 8 (major AND 0xfff)
     OR push_bit 12 (minor AND NOT 0xff) OR push_bit 32 (major AND NOT 0xfff)"

definition LINUXDEVICETYPE :: "string \<Rightarrow> u32 option" where
  "LINUXDEVICETYPE = map_of [(''c'', 0x2000), (''b'', 0x6000), (''p'', 0x1000)]"

definition mknod_dev :: "g_LinuxDevice \<Rightarrow> unit io" where
  "mknod_dev dev = (case LINUXDEVICETYPE (ld_Type dev) of
     None \<Rightarrow> throw (ErrorCode ''invalid spec'')
   | Some f \<Rightarrow> run_all
      [nix_do (SysMknod (drop 1 (ld_Path dev)) f (ld_FileMode dev AND 0xfff)
         (makedev (word_of_int (ld_Major dev)) (word_of_int (ld_Minor dev)))),
       nix_do (SysChown (drop 1 (ld_Path dev)) (ld_UID dev) (ld_GID dev))])"

definition bind_dev :: "g_LinuxDevice \<Rightarrow> unit io" where
  "bind_dev dev = bindR (nix_sys (FsOpen (drop 1 (ld_Path dev)) ''O_RDWR|O_CREAT'')) (\<lambda>fd.
     run_all [nix_do (SysClose fd),
       nix_do (SysMount (Some (ld_Path dev)) (drop 1 (ld_Path dev)) None MS_BIND None)])"

text \<open>\<open>DEFAULT_DEVICES\<close> of \<open>container.rs\<close>; the mode of every node is 0o066 there.\<close>

definition default_device :: "string \<Rightarrow> int \<Rightarrow> int \<Rightarrow> g_LinuxDevice" where
  "default_device path major minor = \<lparr>ld_Path = path, ld_Type = ''c'', ld_Major = major, ld_Minor = minor,
     ld_FileMode = 54, ld_UID = 0xffffffff, ld_GID = 0xffffffff\<rparr>"

definition DEFAULT_DEVICES :: "g_LinuxDevice list" where
  "DEFAULT_DEVICES = [default_device ''/dev/null'' 1 3, default_device ''/dev/zero'' 1 5,
     default_device ''/dev/full'' 1 7, default_device ''/dev/tty'' 5 0,
     default_device ''/dev/urandom'' 1 9, default_device ''/dev/random'' 1 8]"

definition device_path_ok :: "string \<Rightarrow> bool" where
  "device_path_ok path \<longleftrightarrow> prefix ''/dev'' path \<and> \<not> contains ''..'' path"

definition create_devices :: "g_LinuxDevice list \<Rightarrow> bool \<Rightarrow> unit io" where
  "create_devices devices bind =
     (let op = (if bind then bind_dev else mknod_dev)
      in bindR (nix_umask 0) (\<lambda>old.
         run_all [for_each DEFAULT_DEVICES op,
           for_each devices (\<lambda>dev. if \<not> device_path_ok (ld_Path dev)
             then throw (ErrorCode (ld_Path dev @ '' is not a valid device path'')) else op dev),
           thenR (nix_umask old) (ret ())]))"

definition ensure_ptmx :: "unit io" where
  "ensure_ptmx = thenR (ignoreR (io_sys (FsRemove ''dev/ptmx''))) (symlinkR ''pts/ptmx'' ''dev/ptmx'')"

section \<open>The root file system\<close>

definition destination_ok :: "string \<Rightarrow> bool" where
  "destination_ok d \<longleftrightarrow> prefix ''/'' d \<and> \<not> contains ''..'' d"

definition mount_entry :: "string \<Rightarrow> (string \<times> string) list \<Rightarrow> (string \<times> string) list \<Rightarrow> g_Mount \<Rightarrow> unit io" where
  "mount_entry rootfs cpath mounts m =
     (case parse_mount m of (flags, data) \<Rightarrow>
        if \<not> destination_ok (mt_destination m) then throw (Nix EINVAL)
        else if mt_field_type m = ''cgroup'' then mount_cgroups m rootfs flags cpath mounts
        else mount_from m rootfs
          (if mt_destination m = ''/dev'' then flags AND NOT MS_RDONLY else flags) data)"

definition propagation_flags :: "g_Linux \<Rightarrow> u64" where
  "propagation_flags linux = MS_REC OR (case PROPAGATION (lx_RootfsPropagation linux) of
     Some fl \<Rightarrow> fl | None \<Rightarrow> MS_SLAVE)"

definition init_rootfs :: "g_Spec \<Rightarrow> (string \<times> string) list \<Rightarrow> (string \<times> string) list \<Rightarrow> bool \<Rightarrow> unit io" where
  "init_rootfs spec cpath mounts bind_device =
     bindR (liftR (unwrap (sp_Linux spec))) (\<lambda>linux.
     bindR (liftR (unwrap (sp_Root spec))) (\<lambda>root.
     bindR (fs_canonicalize (rt_Path root)) (\<lambda>rootfs.
     run_all [nix_do (SysMount None ''/'' None (propagation_flags linux) None),
       nix_do (SysMount (Some rootfs) rootfs None (MS_BIND OR MS_REC) None),
       for_each (sp_Mounts spec) (mount_entry rootfs cpath mounts),
       bindR nix_getcwd (\<lambda>olddir. run_all [nix_chdir rootfs, default_symlinks,
         create_devices (lx_Devices linux) bind_device, ensure_ptmx, nix_chdir olddir])])))"

definition pivot_rootfs :: "string \<Rightarrow> unit io" where
  "pivot_rootfs path = bindR (nix_sys (FsOpen ''/'' ''O_DIRECTORY|O_RDONLY'')) (\<lambda>oldroot.
     defer_close oldroot (bindR (nix_sys (FsOpen path ''O_DIRECTORY|O_RDONLY'')) (\<lambda>newroot.
     defer_close newroot (run_all [nix_do (SysProc (SysPivotRoot path path)), nix_do (SysUmount2 ''/''),
       nix_do (SysProc (SysFchdir newroot)), thenR (nix_umask 18) (ret ())]))))"

text \<open>The mount table of the process, by the two scans of each line.\<close>

record Info =
  mi_id :: int
  mi_parent :: int
  mi_major :: int
  mi_minor :: int
  mi_root :: string
  mi_mount_point :: string
  mi_opts :: string
  mi_optional :: string
  mi_fstype :: string
  mi_source :: string
  mi_vfs_opts :: string

type_synonym scan_head = "string \<Rightarrow> (int \<times> int \<times> int \<times> int \<times> string \<times> string \<times> string \<times> string) res"
type_synonym scan_tail = "string \<Rightarrow> (string \<times> string \<times> string) res"

definition parse_info :: "scan_head \<Rightarrow> scan_tail \<Rightarrow> string \<Rightarrow> Info res" where
  "parse_info sh st line = bind_res (sh line) (\<lambda>(i, par, maj, mnr, root, mnt, opts, optional).
     case split_str '' - '' line of
       [_, f] \<Rightarrow> map_res (\<lambda>(fstype, source, vfs).
          \<lparr>mi_id = i, mi_parent = par, mi_major = maj, mi_minor = mnr, mi_root = root, mi_mount_point = mnt,
           mi_opts = opts, mi_optional = (if optional \<noteq> ''-'' then optional else []), mi_fstype = fstype,
           mi_source = source, mi_vfs_opts = vfs\<rparr>) (st f)
     | _ \<Rightarrow> Err (ErrorCode ''failed to parse mount info file''))"

definition parse_mount_table :: "scan_head \<Rightarrow> scan_tail \<Rightarrow> Info list io" where
  "parse_mount_table sh st = bindR (fs_read ''/proc/self/mountinfo'') (\<lambda>c.
     collectR (\<lambda>l. liftR (parse_info sh st l)) (lines c))"

definition cover_or_unmount :: "string \<Rightarrow> unit io" where
  "cover_or_unmount mp = thenR (nix_do (SysMount None mp None (MS_SLAVE OR MS_REC) None))
     (catchR (nix_do (SysUmount2 mp)) (\<lambda>e.
        if e \<noteq> Nix EINVAL \<and> e \<noteq> Nix EPERM then throw (ErrorCode ''umount'')
        else nix_do (SysMount (Some ''tmpfs'') mp (Some ''tmpfs'') 0 None)))"

text \<open>\<open>absolutize\<close> is given the working directory and the path.\<close>

definition ms_move_root :: "scan_head \<Rightarrow> scan_tail \<Rightarrow> (string \<Rightarrow> string \<Rightarrow> string res) \<Rightarrow> string \<Rightarrow> bool io" where
  "ms_move_root sh st absolutize rootfs =
     thenR (nix_chdir rootfs)
     (bindR (parse_mount_table sh st) (\<lambda>infos.
      bindR (getsR cwd) (\<lambda>dir.
      bindR (liftR (absolutize dir rootfs)) (\<lambda>abs_root.
      thenR (for_each infos (\<lambda>info. bindR (liftR (absolutize dir (mi_mount_point info))) (\<lambda>mp.
          if (mi_fstype info \<noteq> ''proc'' \<and> mi_fstype info \<noteq> ''sysfs'') \<or> prefix abs_root mp
          then ret () else cover_or_unmount mp)))
      (thenR (run_all [nix_do (SysMount (Some abs_root) ''/'' None MS_MOVE None),
          nix_do (SysProc (SysChroot ''.'')), nix_chdir ''/''])
        (ret True))))))"

section \<open>Inside the new root\<close>

definition mask_path :: "string \<Rightarrow> unit io" where
  "mask_path path = (if \<not> destination_ok path then throw (Nix EINVAL)
     else catchR (nix_do (SysMount (Some ''/dev/null'') path None MS_BIND None)) (\<lambda>e.
       if e \<noteq> Nix ENOENT \<and> e \<noteq> Nix ENOTDIR then throw e else ret ()))"

text \<open>A path that does not exist is skipped; any other path is remounted read-only.\<close>

definition readonly_path :: "string \<Rightarrow> unit io" where
  "readonly_path path = (if \<not> destination_ok path then throw (Nix EINVAL)
     else bindR (catchR (thenR (nix_do (SysMount (Some (drop 1 path)) path None (MS_BIND OR MS_REC) None)) (ret True))
         (\<lambda>e. if e = Nix ENOENT then ret False else throw e)) (\<lambda>there.
       whenR there (nix_do (SysMount (Some (drop 1 path)) (drop 1 path) None
         (MS_BIND OR MS_REC OR MS_RDONLY OR MS_REMOUNT) None))))"

definition remount_dev :: "g_Mount \<Rightarrow> unit io" where
  "remount_dev m = (let flags = fst (parse_mount m)
     in whenR (mt_destination m = ''/dev'' \<and> has_flags flags MS_RDONLY)
          (nix_do (SysMount (Some ''/dev'') ''/dev'' None (flags OR MS_REMOUNT) None)))"

definition finish_rootfs :: "g_Spec \<Rightarrow> unit io" where
  "finish_rootfs spec = bindR nix_getcwd (\<lambda>olddir. run_all
     [nix_chdir ''/'',
      (case sp_Linux spec of None \<Rightarrow> ret () | Some linux \<Rightarrow>
        thenR (for_each (lx_MaskedPaths linux) mask_path) (for_each (lx_ReadonlyPaths linux) readonly_path)),
      for_each (sp_Mounts spec) remount_dev,
      bindR (liftR (unwrap (sp_Root spec))) (\<lambda>root. whenR (rt_Readonly root)
        (nix_do (SysMount (Some ''/'') ''/'' None (MS_BIND OR MS_RDONLY OR MS_NODEV OR MS_REMOUNT) None))),
      thenR (nix_umask 18) (ret ()),
      nix_chdir olddir])"

section \<open>Mounts stay below the root\<close>

text \<open>
  What a call may name: \<open>/\<close> itself as the target of a mount (its propagation), a path that is the
  root followed by a text without two dots, or a path relative to the working directory without
  two dots.
\<close>

definition below :: "string \<Rightarrow> string \<Rightarrow> bool" where
  "below root d \<longleftrightarrow> prefix root d \<and> \<not> contains ''..'' (drop (length root) d)
     \<or> \<not> prefix ''/'' d \<and> \<not> contains ''..'' d"

definition confined :: "string \<Rightarrow> sysop \<Rightarrow> bool" where
  "confined root p = (case p of
     SysMount _ d _ _ _ \<Rightarrow> d = ''/'' \<or> below root d
   | SysMknod d _ _ _ \<Rightarrow> below root d
   | SysChown d _ _ \<Rightarrow> below root d
   | FsCreate d \<Rightarrow> below root d
   | FsOpen d _ \<Rightarrow> below root d
   | FsRemove d \<Rightarrow> below root d
   | FsSymlink _ d \<Rightarrow> below root d
   | FsWrite _ _ \<Rightarrow> False
   | FsRemoveAll _ \<Rightarrow> False
   | _ \<Rightarrow> True)"

lemma confined_simps [simp]:
  "confined root (SysMount src d fty fl dat) \<longleftrightarrow> d = ''/'' \<or> below root d"
  "confined root (SysMknod d ty md dv) \<longleftrightarrow> below root d" "confined root (SysChown d u g) \<longleftrightarrow> below root d"
  "confined root (FsCreate d) \<longleftrightarrow> below root d" "confined root (FsSymlink old d) \<longleftrightarrow> below root d"
  "confined root (FsOpen d mo) \<longleftrightarrow> below root d" "confined root (FsRemove d) \<longleftrightarrow> below root d"
  "confined root (FsMkdirAll d)" "confined root (FsCanonicalize d)" "confined root (SysStat d)"
  "confined root (SysChdir d)" "confined root (SysClose fd)" "confined root (SysProc q)"
  by (simp_all add: confined_def)

lemma dots_separated:
  "contains ''..'' (a @ CHR ''/'' # b) \<longleftrightarrow> contains ''..'' a \<or> contains ''..'' b"
proof (induction a)
  case (Cons x a)
  then show ?case by (cases a) auto
qed simp

lemma contains_drop:
  assumes "contains pat (drop n s)"
  shows "contains pat s"
proof -
  have "sublist (drop n s) s" by simp
  with assms show ?thesis unfolding contains_sublist by (rule sublist_order.order_trans)
qed

lemma below_root: "below root root" "\<not> contains ''..'' d \<Longrightarrow> below root (root @ d)"
  by (auto simp: below_def)

lemma only_unwrap: "keeps (only P) (liftR (unwrap x))"
  by (rule keeps_lift) simp

lemma prepare_bind_confined:
  assumes "below root dest"
  shows "keeps (only (confined root)) (prepare_bind m dest)"
  unfolding prepare_bind_def using assms
  by (intro keeps_bind keeps_then keeps_ret keeps_ignore keeps_when only_canonicalize only_is_file
      only_mkdir only_io) (auto intro: only_unwrap keeps_ret simp del: act_basic)

lemma mount_from_confined:
  assumes "\<not> contains ''..'' (mt_destination m)"
  shows "keeps (only (confined root)) (mount_from m root flags data)"
proof -
  have b: "below root (root @ mt_destination m)" using assms by (rule below_root)
  have pre: "keeps (only (confined root)) (if mt_field_type m = ''bind'' then prepare_bind m (root @ mt_destination m)
      else thenR (ignoreR (fs_create_dir_all (root @ mt_destination m))) (ret (mt_source m)))"
    using prepare_bind_confined [OF b]
    by (auto intro!: keeps_then keeps_ret keeps_ignore only_mkdir simp del: act_basic)
  show ?thesis
    unfolding mount_from_def Let_def run_all.simps
    by (intro keeps_bind pre keeps_then keeps_ret keeps_ignore keeps_when only_nix_do) (use b in auto)
qed

text \<open>
  The link of a second controller is named by cutting the first character off its path, so the
  destination of a cgroup mount must not begin with two slashes for the link to be relative.
\<close>

definition plain_destination :: "string \<Rightarrow> bool" where
  "plain_destination d = (case d of c # e # cs \<Rightarrow> c = CHR ''/'' \<and> e \<noteq> CHR ''/'' \<and> \<not> contains ''..'' d | _ \<Rightarrow> False)"

lemma mount_cgroup_confined:
  assumes ok: "plain_destination (mt_destination m)"
    and names: "\<not> contains ''..'' key" "\<not> contains ''..'' (base_name mnt)"
  shows "keeps (only (confined root)) (mount_cgroup m root flags cpath (key, mnt) srcs)"
proof -
  obtain x d where d: "mt_destination m = CHR ''/'' # x # d" "x \<noteq> CHR ''/''" "\<not> contains ''..'' (CHR ''/'' # x # d)"
    using ok by (auto simp: plain_destination_def split: list.splits)
  then have nd: "\<not> contains ''..'' (x # d)" by simp
  have dest: "\<not> contains ''..'' (mt_destination m @ ''/'' @ base_name mnt)"
    using names dots_separated [of "mt_destination m" "base_name mnt"] d(3) by (simp add: d(1))
  have "below root ((x # d) @ CHR ''/'' # key)"
    using nd d(2) names(1) dots_separated [of "x # d" key] by (auto simp: below_def)
  then have lnk: "below root (drop 1 (mt_destination m @ ''/'' @ key))" by (simp add: d(1))
  have mnt': "keeps (only (confined root)) (mount_from \<lparr>mt_destination = mt_destination m @ ''/'' @ base_name mnt,
      mt_source = s, mt_field_type = ''bind'', mt_options = []\<rparr> root fl [])" for s fl
    by (rule mount_from_confined) (use dest in simp)
  have sym: "keeps (only (confined root)) (whenR b (thenR (io_sys (FsSymlink a (drop 1 (mt_destination m @ ''/'' @ key)))) (ret ())))" for a b
    by (intro keeps_when keeps_then keeps_ret only_io) (use lnk in simp_all)
  show ?thesis
    unfolding mount_cgroup_def Let_def prod.case
    by (simp only: split: option.split if_split)
      (intro conjI impI allI keeps_ret keeps_then sym mnt' reflp_only transp_only)
qed

definition plain_names :: "(string \<times> string) list \<Rightarrow> bool" where
  "plain_names = list_all (\<lambda>(key, mnt). \<not> contains ''..'' key \<and> \<not> contains ''..'' (base_name mnt))"

lemma mount_cgroup_loop_confined:
  assumes "plain_destination (mt_destination m)" "plain_names es"
  shows "keeps (only (confined root)) (mount_cgroup_loop m root flags cpath es srcs)"
  using assms(2)
proof (induction es arbitrary: srcs)
  case (Cons e es)
  obtain key mnt where e: "e = (key, mnt)" by fastforce
  with Cons.prems have n: "\<not> contains ''..'' key" "\<not> contains ''..'' (base_name mnt)" "plain_names es"
    by (auto simp: plain_names_def)
  show ?case unfolding mount_cgroup_loop.simps e
    by (intro keeps_bind mount_cgroup_confined [OF assms(1) n(1,2)] Cons.IH n(3)) simp
qed (simp add: keeps_ret del: act_basic)

lemma plain_ok: "plain_destination d \<Longrightarrow> destination_ok d \<and> \<not> contains ''..'' d"
  by (auto simp: plain_destination_def destination_ok_def split: list.splits)

lemma mount_cgroups_confined:
  assumes "plain_destination (mt_destination m)" "plain_names mounts"
  shows "keeps (only (confined root)) (mount_cgroups m root flags cpath mounts)"
proof -
  note d = plain_ok [OF assms(1), THEN conjunct2]
  have b: "below root (root @ mt_destination m)" using d by (rule below_root)
  have t: "keeps (only (confined root)) (mount_from \<lparr>mt_destination = mt_destination m, mt_source = ''tmpfs'',
      mt_field_type = ''tmpfs'', mt_options = []\<rparr> root fl [])" for fl
    by (rule mount_from_confined) (use d in simp)
  show ?thesis
    unfolding mount_cgroups_def Let_def
    by (intro keeps_then keeps_bind t only_getcwd only_chdir mount_cgroup_loop_confined assms keeps_when
        only_nix_do) (use b in simp_all)
qed

lemma symlink_confined: "below root d \<Longrightarrow> keeps (only (confined root)) (symlinkR s d)"
  unfolding symlinkR_def by (intro keeps_then keeps_ret only_io) simp_all

lemma default_symlinks_confined: "keeps (only (confined root)) default_symlinks"
proof -
  have s: "list_all (\<lambda>(s, d). below root d) SYMLINKS" "below root ''dev/kcore''"
    by (simp_all add: SYMLINKS_def below_def)
  have "keeps (only (confined root)) (for_each xs (\<lambda>(src, dst). symlinkR src dst))"
    if "list_all (\<lambda>(s, d). below root d) xs" for xs
    using that by (induction xs) (auto intro!: keeps_ret keeps_then symlink_confined simp del: act_basic)
  with s show ?thesis
    unfolding default_symlinks_def
    by (intro keeps_bind keeps_then keeps_when only_exists symlink_confined) auto
qed

lemma device_confined:
  assumes "device_path_ok (ld_Path dev)"
  shows "keeps (only (confined root)) (bind_dev dev)" "keeps (only (confined root)) (mknod_dev dev)"
proof -
  have r: "below root (drop (Suc 0) (ld_Path dev))"
    using assms contains_drop [of "''..''" 1 "ld_Path dev"]
    by (auto simp: below_def device_path_ok_def prefix_def)
  then show "keeps (only (confined root)) (bind_dev dev)" "keeps (only (confined root)) (mknod_dev dev)"
    by (auto simp: bind_dev_def mknod_dev_def split: option.split simp del: act_basic
      intro!: keeps_then keeps_bind keeps_ret keeps_throw only_nix_do only_nix)
qed

lemma create_devices_confined: "keeps (only (confined root)) (create_devices devices b)"
proof -
  let ?op = "if b then bind_dev else mknod_dev"
  have def: "list_all (\<lambda>d. device_path_ok (ld_Path d)) DEFAULT_DEVICES"
    by (simp add: DEFAULT_DEVICES_def default_device_def device_path_ok_def)
  have "keeps (only (confined root)) (for_each xs ?op)" if "list_all (\<lambda>d. device_path_ok (ld_Path d)) xs" for xs
    using that by (induction xs) (auto intro!: keeps_ret keeps_then device_confined simp del: act_basic)
  moreover have "keeps (only (confined root)) (for_each devices (\<lambda>dev. if \<not> device_path_ok (ld_Path dev)
      then throw (ErrorCode (ld_Path dev @ '' is not a valid device path'')) else ?op dev))"
    by (intro keeps_for_each) (auto intro: keeps_throw device_confined simp del: act_basic)
  ultimately show ?thesis
    unfolding create_devices_def Let_def run_all.simps using def
    by (intro keeps_bind keeps_then keeps_ret only_umask) auto
qed

lemma ensure_ptmx_confined: "keeps (only (confined root)) ensure_ptmx"
  unfolding ensure_ptmx_def
  by (intro keeps_then keeps_ignore symlink_confined only_io) (simp_all add: below_def)

lemma mount_entry_confined:
  assumes "mt_field_type m = ''cgroup'' \<Longrightarrow> plain_destination (mt_destination m)" "plain_names mounts"
  shows "keeps (only (confined root)) (mount_entry root cpath mounts m)"
proof -
  obtain flags data where p: "parse_mount m = (flags, data)" by fastforce
  show ?thesis
  proof (cases "destination_ok (mt_destination m)")
    case False
    then show ?thesis by (simp add: mount_entry_def p keeps_throw del: act_basic)
  next
    case True
    then have "\<not> contains ''..'' (mt_destination m)" by (simp add: destination_ok_def)
    with True assms show ?thesis
      by (auto simp: mount_entry_def p intro: mount_cgroups_confined mount_from_confined)
  qed
qed

lemma init_rootfs_confined_from:
  assumes "list_all (\<lambda>m. mt_field_type m = ''cgroup'' \<longrightarrow> plain_destination (mt_destination m)) (sp_Mounts spec)"
    and "plain_names mounts"
  shows "keeps (only (confined root)) (run_all [nix_do (SysMount None ''/'' None (propagation_flags linux) None),
       nix_do (SysMount (Some root) root None (MS_BIND OR MS_REC) None),
       for_each (sp_Mounts spec) (mount_entry root cpath mounts),
       bindR nix_getcwd (\<lambda>olddir. run_all [nix_chdir root, default_symlinks,
         create_devices (lx_Devices linux) bind_device, ensure_ptmx, nix_chdir olddir])])"
proof -
  have "keeps (only (confined root)) (for_each ms (mount_entry root cpath mounts))"
    if "list_all (\<lambda>m. mt_field_type m = ''cgroup'' \<longrightarrow> plain_destination (mt_destination m)) ms" for ms
    using that assms(2) by (induction ms) (auto intro!: keeps_ret keeps_then mount_entry_confined simp del: act_basic)
  with assms(1) show ?thesis
    unfolding run_all.simps
    by (intro keeps_then keeps_bind keeps_ret only_nix_do only_getcwd only_chdir default_symlinks_confined
        create_devices_confined ensure_ptmx_confined) (auto simp: below_root)
qed

section \<open>Reference definitions\<close>

text \<open>The last option that mentions a bit decides about it.\<close>

definition mentions :: "nat \<Rightarrow> string \<Rightarrow> bool option" where
  "mentions n opt = (case OPTIONS opt of None \<Rightarrow> None
     | Some (clear, fl) \<Rightarrow> if bit fl n then Some (\<not> clear) else None)"

lemma apply_option_bit:
  "n < 64 \<Longrightarrow> bit (apply_option opt flags) n = (case mentions n opt of None \<Rightarrow> bit flags n | Some b \<Rightarrow> b)"
  by (auto simp: apply_option_def mentions_def bit_simps split: option.split)

lemma fold_option_bit:
  "n < 64 \<Longrightarrow> bit (fold apply_option opts flags) n =
     (case List.map_filter (mentions n) opts of [] \<Rightarrow> bit flags n | bs \<Rightarrow> last bs)"
proof (induction opts arbitrary: flags)
  case (Cons opt opts)
  show ?case
    by (cases "mentions n opt"; cases "List.map_filter (mentions n) opts")
      (simp_all add: Cons apply_option_bit List.map_filter_simps)
qed (simp add: List.map_filter_simps)

text \<open>The numbers of a device node, as the C library decodes them (into 32 bits each).\<close>

definition gnu_major :: "u64 \<Rightarrow> u64" where
  "gnu_major dev = take_bit 32 ((drop_bit 8 dev AND 0xfff) OR (drop_bit 32 dev AND NOT 0xfff))"

definition gnu_minor :: "u64 \<Rightarrow> u64" where
  "gnu_minor dev = take_bit 32 ((dev AND 0xff) OR (drop_bit 12 dev AND NOT 0xff))"

lemma bit_ff: "bit (0xff :: u64) n \<longleftrightarrow> n < 8" "bit (0xfff :: u64) n \<longleftrightarrow> n < 12"
proof -
  have "(0xff :: u64) = mask 8" "(0xfff :: u64) = mask 12" by (simp_all add: mask_eq_exp_minus_1)
  then show "bit (0xff :: u64) n \<longleftrightarrow> n < 8" "bit (0xfff :: u64) n \<longleftrightarrow> n < 12"
    by (simp_all only: bit_mask_iff) auto
qed

lemma small_bits:
  assumes "(x :: u64) < 2 ^ 32" "32 \<le> n"
  shows "\<not> bit x n"
proof -
  have "unat x < 2 ^ 32" using assms(1) by (simp add: word_less_nat_alt)
  also have "(2 :: nat) ^ 32 \<le> 2 ^ n" using assms(2) by (rule power_increasing) simp
  finally have "\<not> bit (unat x) n" by (simp add: bit_iff_odd)
  then show ?thesis using bit_imp_le_length [of x n] by (auto simp: bit_unsigned_iff possible_bit_word)
qed

text \<open>The layout for any masks of 8 and 12 bits.\<close>

lemma makedev_layout:
  fixes ma mi m8 m12 :: u64
  assumes m: "\<And>n. bit m8 n \<longleftrightarrow> n < 8" "\<And>n. bit m12 n \<longleftrightarrow> n < 12"
    and s: "\<And>n. 32 \<le> n \<Longrightarrow> \<not> bit ma n" "\<And>n. 32 \<le> n \<Longrightarrow> \<not> bit mi n"
    and dev: "dev = (mi AND m8) OR push_bit 8 (ma AND m12) OR push_bit 12 (mi AND NOT m8)
      OR push_bit 32 (ma AND NOT m12)"
  shows "take_bit 32 ((drop_bit 8 dev AND m12) OR (drop_bit 32 dev AND NOT m12)) = ma"
    and "take_bit 32 ((dev AND m8) OR (drop_bit 12 dev AND NOT m8)) = mi"
proof -
  have d: "bit dev k \<longleftrightarrow> k < 8 \<and> bit mi k \<or> 8 \<le> k \<and> k < 20 \<and> bit ma (k - 8)
      \<or> 20 \<le> k \<and> k < 44 \<and> bit mi (k - 12) \<or> 44 \<le> k \<and> bit ma (k - 32)" if "k < 64" for k
  proof -
    have "bit mi (k - 12) \<Longrightarrow> k < 44" using s(2) [of "k - 12"] by linarith
    with that show ?thesis by (auto simp: dev bit_simps m)
  qed
  show "take_bit 32 ((drop_bit 8 dev AND m12) OR (drop_bit 32 dev AND NOT m12)) = ma"
  proof (rule bit_word_eqI)
    fix n assume "n < LENGTH(64)"
    then have n: "n < 64" by simp
    have x: "bit dev (32 + n) \<longleftrightarrow> bit ma n" if "12 \<le> n" "n < 32"
      using d [of "32 + n"] that by auto
    have y: "bit dev (8 + n) \<longleftrightarrow> bit ma n" if "n < 12" using d [of "8 + n"] that by auto
    show "bit (take_bit 32 ((drop_bit 8 dev AND m12) OR (drop_bit 32 dev AND NOT m12))) n = bit ma n"
      using x y s(1) [of n] n by (cases "n < 12"; cases "n < 32") (simp_all add: bit_simps m)
  qed
  show "take_bit 32 ((dev AND m8) OR (drop_bit 12 dev AND NOT m8)) = mi"
  proof (rule bit_word_eqI)
    fix n assume "n < LENGTH(64)"
    then have n: "n < 64" by simp
    have x: "bit dev (12 + n) \<longleftrightarrow> bit mi n" if "8 \<le> n" "n < 32"
      using d [of "12 + n"] that by auto
    have y: "bit dev n \<longleftrightarrow> bit mi n" if "n < 8" using d [of n] that by auto
    show "bit (take_bit 32 ((dev AND m8) OR (drop_bit 12 dev AND NOT m8))) n = bit mi n"
      using x y s(2) [of n] n by (cases "n < 8"; cases "n < 32") (simp_all add: bit_simps m)
  qed
qed

section \<open>Properties\<close>


definition dev_mount :: g_Mount where
  "dev_mount = \<lparr>mt_destination = ''/dev'', mt_source = ''tmpfs'', mt_field_type = ''tmpfs'',
     mt_options = [''ro'', ''nosuid'', ''rw'', ''mode=755'']\<rparr>"


lemma parse_mount_last_wins_parts:
  assumes "n < 64"
  shows "bit (fst (parse_mount m)) n \<longleftrightarrow>
      (case List.map_filter (mentions n) (mt_options m) of [] \<Rightarrow> False | bs \<Rightarrow> last bs)"
    and "snd (parse_mount m) = join_on '','' (filter (\<lambda>opt. OPTIONS opt = None) (mt_options m))"
  using fold_option_bit [OF assms, of "mt_options m" 0]
  by (simp_all add: parse_mount_def split: list.splits)

text \<open>C33: the flags of a container mount are those of a reference definition: a flag is set exactly
  when the last option of the mount that mentions it is one that sets it. The data string is made
  of the options that are no flags, in their order.\<close>
theorem parse_mount_last_wins:
  assumes "n < 64"
  shows "(bit (fst (parse_mount m)) n \<longleftrightarrow>
        (case List.map_filter (mentions n) (mt_options m) of [] \<Rightarrow> False | bs \<Rightarrow> last bs))
    \<and> snd (parse_mount m) = join_on '','' (filter (\<lambda>opt. OPTIONS opt = None) (mt_options m))"
  using parse_mount_last_wins_parts [OF assms] by blast

lemma parse_mount_last_wins_witness:
  "bit (fst (parse_mount dev_mount)) 0 \<longleftrightarrow>
      (case List.map_filter (mentions 0) (mt_options dev_mount) of [] \<Rightarrow> False | bs \<Rightarrow> last bs)"
  using parse_mount_last_wins [of 0 dev_mount] by simp

text \<open>The device number of a node holds its major and its minor number, as the C library reads
  them back, for numbers of up to 32 bits.\<close>
lemma makedev_roundtrip:
  assumes "major < 2 ^ 32" "minor < 2 ^ 32"
  shows "gnu_major (makedev major minor) = major \<and> gnu_minor (makedev major minor) = minor"
  using makedev_layout [OF bit_ff small_bits [OF assms(1)] small_bits [OF assms(2)] refl]
  unfolding gnu_major_def gnu_minor_def makedev_def by blast

lemma makedev_roundtrip_witness: "gnu_major (makedev 253 70000) = 253 \<and> gnu_minor (makedev 253 70000) = 70000"
  by (rule makedev_roundtrip) simp_all

end
