(* ===== verification/Capabilities.thy ===== *)
theory Capabilities
  imports State
begin

text \<open>
  \<open>rustjail/src/capabilities.rs\<close>: the capability sets of a container process. A capability of the
  \<open>caps\<close> crate is its kernel name; the list \<open>caps::all()\<close> of the crate, in the order its hash set is
  iterated, is the parameter \<open>all_caps\<close>.
\<close>

definition CAPSMAP :: "string \<Rightarrow> string option" where
  "CAPSMAP = map_of
    [(''CAP_CHOWN'', ''CAP_CHOWN''), (''CAP_DAC_OVERRIDE'', ''CAP_DAC_OVERRIDE''),
     (''CAP_DAC_READ_SEARCH'', ''CAP_DAC_READ_SEARCH''), (''CAP_FOWNER'', ''CAP_FOWNER''),
     (''CAP_FSETID'', ''CAP_FSETID''), (''CAP_KILL'', ''CAP_KILL''),
     (''CAP_SETGID'', ''CAP_SETGID''), (''CAP_SETUID'', ''CAP_SETUID''),
     (''CAP_SETPCAP'', ''CAP_SETPCAP''), (''CAP_LINUX_IMMUTABLE'', ''CAP_LINUX_IMMUTABLE''),
     (''CAP_NET_BIND_SERVICE'', ''CAP_NET_BIND_SERVICE''),
     (''CAP_NET_BROADCAST'', ''CAP_NET_BROADCAST''), (''CAP_NET_ADMIN'', ''CAP_NET_ADMIN''),
     (''CAP_NET_RAW'', ''CAP_NET_RAW''), (''CAP_IPC_LOCK'', ''CAP_IPC_LOCK''),
     (''CAP_IPC_OWNER'', ''CAP_IPC_OWNER''), (''CAP_SYS_MODULE'', ''CAP_SYS_MODULE''),
     (''CAP_SYS_RAWIO'', ''CAP_SYS_RAWIO''), (''CAP_SYS_CHROOT'', ''CAP_SYS_CHROOT''),
     (''CAP_SYS_PTRACE'', ''CAP_SYS_PTRACE''), (''CAP_SYS_PACCT'', ''CAP_SYS_PACCT''),
     (''CAP_SYS_ADMIN'', ''CAP_SYS_ADMIN''), (''CAP_SYS_BOOT'', ''CAP_SYS_BOOT''),
     (''CAP_SYS_NICE'', ''CAP_SYS_NICE''), (''CAP_SYS_RESOURCE'', ''CAP_SYS_RESOURCE''),
     (''CAP_SYS_TIME'', ''CAP_SYS_TIME''), (''CAP_SYS_TTY_CONFIG'', ''CAP_SYS_TTY_CONFIG''),
     (''CAP_MKNOD'', ''CAP_MKNOD''), (''CAP_LEASE'', ''CAP_LEASE''),
     (''CAP_AUDIT_WRITE'', ''CAP_AUDIT_WRITE''), (''CAP_AUDIT_CONTROL'', ''CAP_AUDIT_WRITE''),
     (''CAP_SETFCAP'', ''CAP_SETFCAP''), (''CAP_MAC_OVERRIDE'', ''CAP_MAC_OVERRIDE''),
     (''CAP_SYSLOG'', ''CAP_SYSLOG''), (''CAP_WAKE_ALARM'', ''CAP_WAKE_ALARM''),
     (''CAP_BLOCK_SUSPEND'', ''CAP_BLOCK_SUSPEND''), (''CAP_AUDIT_READ'', ''CAP_AUDIT_READ'')]"

text \<open>Unknown names are skipped with a warning.\<close>

definition to_capshashset :: "string list \<Rightarrow> string set" where
  "to_capshashset cs = set (List.map_filter CAPSMAP cs)"

text \<open>Calls of the \<open>caps\<close> crate; their errors are \<open>Caps\<close> errors.\<close>

definition caps_set :: "string \<Rightarrow> string set \<Rightarrow> unit io" where
  "caps_set s cs = thenR (sys_with Caps (SysCapset s cs)) (ret ())"

definition caps_drop :: "string \<Rightarrow> unit io" where
  "caps_drop c = thenR (sys_with Caps (SysCapdrop c)) (ret ())"

definition reset_effective :: "string list \<Rightarrow> unit io" where
  "reset_effective all_caps = caps_set ''Effective'' (set all_caps)"

definition drop_priviledges :: "string list \<Rightarrow> g_LinuxCapabilities \<Rightarrow> unit io" where
  "drop_priviledges all_caps c = run_all
     [for_each (filter (\<lambda>x. x \<notin> to_capshashset (lc_Bounding c)) all_caps) caps_drop,
      caps_set ''Effective'' (to_capshashset (lc_Effective c)),
      caps_set ''Permitted'' (to_capshashset (lc_Permitted c)),
      caps_set ''Inheritable'' (to_capshashset (lc_Inheritable c)),
      ignoreR (caps_set ''Ambient'' (to_capshashset (lc_Ambient c)))]"

section \<open>Lemmas\<close>

lemma caps_keeps: "keeps grows (caps_set s cs)" "keeps grows (caps_drop c)"
  by (auto simp: caps_set_def caps_drop_def intro!: keeps_then keeps_ret sys_with_keeps)

lemma calls_caps: "calls [SysCapset s cs] (caps_set s cs)" "calls [SysCapdrop c] (caps_drop c)"
  using calls_then [OF calls_sys_with calls_ret] by (auto simp: caps_set_def caps_drop_def)

lemma reset_effective_keeps: "keeps grows (reset_effective al)"
  by (simp add: reset_effective_def caps_keeps)

text \<open>The calls of a successful run: the bounding set first, the four other sets after it.\<close>

definition drop_calls :: "string list \<Rightarrow> g_LinuxCapabilities \<Rightarrow> sysop list" where
  "drop_calls all_caps c =
     map SysCapdrop (filter (\<lambda>x. x \<notin> to_capshashset (lc_Bounding c)) all_caps)
     @ [SysCapset ''Effective'' (to_capshashset (lc_Effective c)),
        SysCapset ''Permitted'' (to_capshashset (lc_Permitted c)),
        SysCapset ''Inheritable'' (to_capshashset (lc_Inheritable c)),
        SysCapset ''Ambient'' (to_capshashset (lc_Ambient c))]"

lemma concat_map_single: "concat (map (\<lambda>x. [f x]) xs) = map f xs"
  by (induction xs) auto

lemma calls_drop_priviledges: "calls (drop_calls al c) (drop_priviledges al c)"
proof -
  have f: "calls (map SysCapdrop xs) (for_each xs caps_drop)" for xs
    using calls_for_each [of "\<lambda>x. [SysCapdrop x]" caps_drop xs] calls_caps
    by (simp add: concat_map_single)
  have a: "calls [SysCapset s cs] (ignoreR (caps_set s cs))" for s cs
    unfolding caps_set_def by (rule calls_ignore_sys)
  show ?thesis
    unfolding drop_priviledges_def drop_calls_def run_all.simps
    by (rule calls_cong, (rule f a calls_caps calls_then calls_ret)+) simp
qed

lemma CAPSMAP_range: "CAPSMAP n = Some c \<Longrightarrow> c \<noteq> ''CAP_AUDIT_CONTROL'' \<and> c \<noteq> ''CAP_MAC_ADMIN''"
  unfolding CAPSMAP_def by (drule map_of_SomeD) auto

lemma in_capshashset: "c \<in> to_capshashset cs \<longleftrightarrow> (\<exists>n \<in> set cs. CAPSMAP n = Some c)"
  by (induction cs) (auto simp: to_capshashset_def List.map_filter_simps split: option.split)

lemma never_wanted: "''CAP_AUDIT_CONTROL'' \<notin> to_capshashset cs" "''CAP_MAC_ADMIN'' \<notin> to_capshashset cs"
  by (auto simp: in_capshashset dest: CAPSMAP_range)

section \<open>Properties\<close>

lemma capability_calls_parts:
  assumes "drop_priviledges all_caps c w = (Ok (), w')"
  shows "hist w' = hist w @ drop_calls all_caps c"
    and "SysCapdrop x \<in> set (drop_calls all_caps c)
      \<longleftrightarrow> x \<in> set all_caps \<and> (\<forall>n \<in> set (lc_Bounding c). CAPSMAP n \<noteq> Some x)"
    and "''CAP_AUDIT_CONTROL'' \<in> set all_caps
      \<Longrightarrow> SysCapdrop ''CAP_AUDIT_CONTROL'' \<in> set (drop_calls all_caps c)"
    and "SysCapset s cs \<in> set (drop_calls all_caps c) \<Longrightarrow> ''CAP_AUDIT_CONTROL'' \<notin> cs"
proof -
  show "hist w' = hist w @ drop_calls all_caps c"
    by (rule callsD [OF calls_drop_priviledges assms])
  show "SysCapdrop x \<in> set (drop_calls all_caps c)
      \<longleftrightarrow> x \<in> set all_caps \<and> (\<forall>n \<in> set (lc_Bounding c). CAPSMAP n \<noteq> Some x)"
    by (auto simp: drop_calls_def in_capshashset)
  show "''CAP_AUDIT_CONTROL'' \<in> set all_caps
      \<Longrightarrow> SysCapdrop ''CAP_AUDIT_CONTROL'' \<in> set (drop_calls all_caps c)"
    by (simp add: drop_calls_def never_wanted)
  show "SysCapset s cs \<in> set (drop_calls all_caps c) \<Longrightarrow> ''CAP_AUDIT_CONTROL'' \<notin> cs"
    by (auto simp: drop_calls_def never_wanted)
qed

text \<open>C32: a successful \<open>drop_priviledges\<close> drops from the bounding set exactly the capabilities that no
  name of the specification stands for, in the order of \<open>caps::all()\<close>, and then sets the effective,
  permitted, inheritable and ambient sets. CAP_AUDIT_CONTROL is always dropped and never set, even
  when the specification grants it, because the table reads that name as CAP_AUDIT_WRITE.\<close>
theorem capability_calls:
  assumes "drop_priviledges all_caps c w = (Ok (), w')"
  shows "hist w' = hist w @ drop_calls all_caps c
    \<and> (\<forall>x. SysCapdrop x \<in> set (drop_calls all_caps c)
        \<longleftrightarrow> x \<in> set all_caps \<and> (\<forall>n \<in> set (lc_Bounding c). CAPSMAP n \<noteq> Some x))
    \<and> (''CAP_AUDIT_CONTROL'' \<in> set all_caps
        \<longrightarrow> SysCapdrop ''CAP_AUDIT_CONTROL'' \<in> set (drop_calls all_caps c))
    \<and> (\<forall>s cs. SysCapset s cs \<in> set (drop_calls all_caps c) \<longrightarrow> ''CAP_AUDIT_CONTROL'' \<notin> cs)"
  using capability_calls_parts [OF assms] by blast

definition audit_caps :: g_LinuxCapabilities where
  "audit_caps = \<lparr>lc_Bounding = [''CAP_AUDIT_CONTROL'', ''CAP_KILL''], lc_Effective = [''CAP_KILL''],
     lc_Inheritable = [], lc_Permitted = [''CAP_KILL''], lc_Ambient = []\<rparr>"

lemma capability_calls_witness:
  "hist (snd (drop_priviledges [''CAP_KILL'', ''CAP_AUDIT_CONTROL''] audit_caps quiet))
    = drop_calls [''CAP_KILL'', ''CAP_AUDIT_CONTROL''] audit_caps"
proof -
  have "fst (drop_priviledges [''CAP_KILL'', ''CAP_AUDIT_CONTROL''] audit_caps quiet) = Ok ()"
    by (simp add: drop_priviledges_def audit_caps_def caps_set_def caps_drop_def sys_with_def Let_def
        quiet_def to_capshashset_def CAPSMAP_def List.map_filter_simps thenR_def bindR_def ignoreR_def)
  then obtain w' where r: "drop_priviledges [''CAP_KILL'', ''CAP_AUDIT_CONTROL''] audit_caps quiet = (Ok (), w')"
    by (metis prod.collapse)
  from capability_calls [OF r] r show ?thesis by (simp add: quiet_def)
qed

end
