(* ===== verification/Cgroup_Fs.thy ===== *)
theory Cgroup_Fs
  imports Sys Oci_Types
begin

text \<open>
  \<open>rustjail/src/cgroups/fs/mod.rs\<close>, the writing half: the file helpers, \<open>copy_parent\<close>, and the
  \<open>set\<close> operation of every cgroup v1 subsystem, with the \<open>Subsystem\<close> trait object as a datatype.
  Log lines are left out. \<open>Errno::last()\<close> after a failed write is the error number of that write.
\<close>

section \<open>Files of a cgroup\<close>

definition cg_path :: "string \<Rightarrow> string \<Rightarrow> string" where
  "cg_path dir file = dir @ ''/'' @ file"

definition write_file :: "string \<Rightarrow> string \<Rightarrow> string \<Rightarrow> unit io" where
  "write_file dir file v = fs_write (cg_path dir file) v"

definition read_file :: "string \<Rightarrow> string \<Rightarrow> string io" where
  "read_file dir file = fs_read (cg_path dir file)"

text \<open>
  \<open>copy_parent\<close>: the recursion has no bound in the code (a kernel whose files stay empty after a
  write keeps it going), so it takes fuel; \<open>Hang\<close> is the outcome without return.
\<close>

fun copy_parent :: "nat \<Rightarrow> string \<Rightarrow> string \<Rightarrow> unit io" where
  "copy_parent 0 dir file = hangR"
| "copy_parent (Suc n) dir file =
     (case before_last CHR ''/'' dir of
        None \<Rightarrow> throw (ErrorCode ''cannot copy file from parent'')
      | Some parent \<Rightarrow> (\<lambda>w. case read_file parent file w of
          (Ok v, w1) \<Rightarrow>
            (if trim v \<noteq> [] then write_file dir file v w1
             else thenR (copy_parent n parent file) (copy_parent n dir file) w1)
        | (Err (Io e), w1) \<Rightarrow>
            (if io_kind_of e = NotFound
             then thenR (copy_parent n parent file) (copy_parent n dir file) w1
             else (Err (Io e), w1))
        | (Err e, w1) \<Rightarrow> (Err e, w1)
        | (Panic, w1) \<Rightarrow> (Panic, w1)
        | (Hang, w1) \<Rightarrow> (Hang, w1) | (Undefined, w1) \<Rightarrow> (Undefined, w1)))"

text \<open>The fuel the code's callers are modelled with: one step per \<open>/\<close> of the path, and one.\<close>

definition copy_fuel :: "string \<Rightarrow> nat" where
  "copy_fuel dir = Suc (length (filter (\<lambda>c. c = CHR ''/'') dir))"

definition write_nonzero :: "string \<Rightarrow> string \<Rightarrow> int \<Rightarrow> unit io" where
  "write_nonzero dir file v = whenR (v \<noteq> 0) (write_file dir file (show_int v))"

definition try_write_nonzero :: "string \<Rightarrow> string \<Rightarrow> int \<Rightarrow> unit io" where
  "try_write_nonzero dir file v = catchR (write_nonzero dir file v)
     (\<lambda>err. case err of Io e \<Rightarrow> if io_kind_of e = PermissionDenied then ret () else throw (Io e)
            | _ \<Rightarrow> throw err)"

definition remove_cg :: "string \<Rightarrow> unit io" where
  "remove_cg dir = fs_remove_dir_all dir"

definition apply_cg :: "string \<Rightarrow> int \<Rightarrow> unit io" where
  "apply_cg dir pid = write_file dir ''cgroup.procs'' (show_int pid)"

definition try_write_file :: "string \<Rightarrow> string \<Rightarrow> string \<Rightarrow> unit io" where
  "try_write_file dir file v = catchR (write_file dir file v)
     (\<lambda>err. case err of Io e \<Rightarrow> if e = EINVAL \<or> e = ENODEV \<or> e = ERANGE then ret () else throw err
            | _ \<Rightarrow> throw err)"

definition try_write :: "string \<Rightarrow> string \<Rightarrow> string \<Rightarrow> unit io" where
  "try_write dir file v = catchR (write_file dir file v)
     (\<lambda>err. case err of
        Io e \<Rightarrow> if io_kind_of e \<noteq> PermissionDenied \<and> io_kind_of e \<noteq> OtherKind then throw (Io e) else ret ()
      | _ \<Rightarrow> throw err)"

definition write_blkio_device :: "string \<Rightarrow> string \<Rightarrow> string \<Rightarrow> unit io" where
  "write_blkio_device dir file v = catchR (write_file dir file v)
     (\<lambda>err. case err of
        Io e \<Rightarrow> if io_kind_of e = OtherKind \<and> e = ENODEV then ret () else throw (Io e)
      | _ \<Rightarrow> throw err)"

section \<open>The subsystems\<close>

datatype subsystem = CpuSet | Cpu | Devices | Memory | CpuAcct | Pids | Blkio | HugeTLB | NetCls
  | NetPrio | PerfEvent | Freezer | Named

definition get_subsystem :: "string \<Rightarrow> subsystem res" where
  "get_subsystem name =
     (if name = ''cpuset'' then Ok CpuSet
      else if name = ''cpu'' then Ok Cpu
      else if name = ''devices'' then Ok Devices
      else if name = ''memory'' then Ok Memory
      else if name = ''cpuacct'' then Ok CpuAcct
      else if name = ''pids'' then Ok Pids
      else if name = ''blkio'' then Ok Blkio
      else if name = ''hugetlb'' then Ok HugeTLB
      else if name = ''net_cls'' then Ok NetCls
      else if name = ''net_prio'' then Ok NetPrio
      else if name = ''perf_event'' then Ok PerfEvent
      else if name = ''freezer'' then Ok Freezer
      else if name = ''name=systemd'' then Ok Named
      else Err (Nix EINVAL))"

fun subsystem_name :: "subsystem \<Rightarrow> string" where
  "subsystem_name CpuSet = ''cpuset''"
| "subsystem_name Cpu = ''cpu''"
| "subsystem_name Devices = ''devices''"
| "subsystem_name Memory = ''memory''"
| "subsystem_name CpuAcct = ''cpuacct''"
| "subsystem_name Pids = ''pids''"
| "subsystem_name Blkio = ''blkio''"
| "subsystem_name HugeTLB = ''hugetlb''"
| "subsystem_name NetCls = ''net_cls''"
| "subsystem_name NetPrio = ''net_prio''"
| "subsystem_name PerfEvent = ''perf_event''"
| "subsystem_name Freezer = ''freezer''"
| "subsystem_name Named = ''name=systemd''"

definition cpuset_set :: "string \<Rightarrow> g_LinuxResources \<Rightarrow> bool \<Rightarrow> unit io" where
  "cpuset_set dir r update =
     (let cpus = (case rs_CPU r of None \<Rightarrow> [] | Some cpu \<Rightarrow> cu_Cpus cpu);
          mems = (case rs_CPU r of None \<Rightarrow> [] | Some cpu \<Rightarrow> cu_Mems cpu)
      in if update then
           run_all [whenR (cpus \<noteq> []) (try_write_file dir ''cpuset.cpus'' cpus),
                    whenR (mems \<noteq> []) (try_write_file dir ''cpuset.mems'' mems)]
         else
           run_all [copy_parent (copy_fuel dir) dir ''cpuset.cpus'',
                    copy_parent (copy_fuel dir) dir ''cpuset.mems'',
                    whenR (cpus \<noteq> []) (try_write_file dir ''cpuset.cpus'' cpus),
                    whenR (mems \<noteq> []) (try_write_file dir ''cpuset.mems'' mems)])"

definition cpu_set :: "string \<Rightarrow> g_LinuxResources \<Rightarrow> unit io" where
  "cpu_set dir r = (case rs_CPU r of None \<Rightarrow> ret () | Some cpu \<Rightarrow> run_all
     [try_write_nonzero dir ''cpu.rt_period_us'' (uint (cu_RealtimePeriod cpu)),
      try_write_nonzero dir ''cpu.rt_runtime_us'' (cu_RealtimeRuntime cpu),
      write_nonzero dir ''cpu.shares'' (uint (cu_Shares cpu)),
      write_nonzero dir ''cpu.cfs_quota_us'' (cu_Quota cpu),
      write_nonzero dir ''cpu.cfs_period_us'' (uint (cu_Period cpu))])"

definition WILDCARD :: i64 where
  "WILDCARD = - 1"

definition dev_num :: "i64 \<Rightarrow> string" where
  "dev_num n = (if n = WILDCARD then ''*'' else show_int n)"

definition write_device :: "g_LinuxDeviceCgroup \<Rightarrow> string \<Rightarrow> unit io" where
  "write_device d dir =
     (let file = (if dc_Allow d then ''devices.allow'' else ''devices.deny'');
          t = (if dc_Type d = [] then ''a'' else dc_Type d);
          v = t @ '' '' @ dev_num (dc_Major d) @ '':'' @ dev_num (dc_Minor d) @ '' '' @ dc_Access d
      in write_file dir file v)"

definition DEFAULT_ALLOWED_DEVICES :: "g_LinuxDeviceCgroup list" where
  "DEFAULT_ALLOWED_DEVICES =
    [\<lparr>dc_Allow = True, dc_Type = ''c'', dc_Major = WILDCARD, dc_Minor = WILDCARD, dc_Access = ''m''\<rparr>,
     \<lparr>dc_Allow = True, dc_Type = ''b'', dc_Major = WILDCARD, dc_Minor = WILDCARD, dc_Access = ''m''\<rparr>,
     \<lparr>dc_Allow = True, dc_Type = ''c'', dc_Major = 5, dc_Minor = 1, dc_Access = ''rwm''\<rparr>,
     \<lparr>dc_Allow = True, dc_Type = ''c'', dc_Major = 136, dc_Minor = WILDCARD, dc_Access = ''rwm''\<rparr>,
     \<lparr>dc_Allow = True, dc_Type = ''c'', dc_Major = 5, dc_Minor = 2, dc_Access = ''rwm''\<rparr>,
     \<lparr>dc_Allow = True, dc_Type = ''c'', dc_Major = 10, dc_Minor = 200, dc_Access = ''rwm''\<rparr>]"

definition default_dev :: "string \<Rightarrow> i64 \<Rightarrow> i64 \<Rightarrow> g_LinuxDevice" where
  "default_dev path major minor = \<lparr>ld_Path = path, ld_Type = ''c'', ld_Major = major, ld_Minor = minor,
     ld_FileMode = 54, ld_UID = 0xffffffff, ld_GID = 0xffffffff\<rparr>"

definition DEFAULT_DEVICES :: "g_LinuxDevice list" where
  "DEFAULT_DEVICES = [default_dev ''/dev/null'' 1 3, default_dev ''/dev/zero'' 1 5,
     default_dev ''/dev/full'' 1 7, default_dev ''/dev/tty'' 5 0, default_dev ''/dev/urandom'' 1 9,
     default_dev ''/dev/random'' 1 8]"

definition devices_set :: "string \<Rightarrow> g_LinuxResources \<Rightarrow> unit io" where
  "devices_set dir r = run_all
     [for_each (rs_Devices r) (\<lambda>d. write_device d dir),
      for_each DEFAULT_DEVICES (\<lambda>d. write_device
        \<lparr>dc_Allow = True, dc_Type = ld_Type d, dc_Major = ld_Major d, dc_Minor = ld_Minor d,
         dc_Access = ''rwm''\<rparr> dir),
      for_each DEFAULT_ALLOWED_DEVICES (\<lambda>d. write_device d dir)]"

definition memory_set :: "string \<Rightarrow> g_LinuxResources \<Rightarrow> bool \<Rightarrow> unit io" where
  "memory_set dir r update = (case rs_Memory r of None \<Rightarrow> ret () | Some memory \<Rightarrow> run_all
     [whenR (\<not> update) (try_write dir ''memory.kmem.limit_in_bytes'' ''1''),
      whenR (\<not> update) (try_write dir ''memory.kmem.limit_in_bytes'' ''-1''),
      write_nonzero dir ''memory.limit_in_bytes'' (me_Limit memory),
      write_nonzero dir ''memory.soft_limit_in_bytes'' (me_Reservation memory),
      try_write_nonzero dir ''memory.memsw.limit_in_bytes'' (me_Swap memory),
      try_write_nonzero dir ''memory.kmem.limit_in_bytes'' (me_Kernel memory),
      write_nonzero dir ''memory.kmem.tcp.limit_in_bytes'' (me_KernelTCP memory),
      whenR (me_Swappiness memory \<le> 100)
        (write_file dir ''memory.swappiness'' (show_word (me_Swappiness memory))),
      whenR (me_DisableOOMKiller memory) (write_file dir ''memory.oom_control'' ''1'')])"

definition pids_set :: "string \<Rightarrow> g_LinuxResources \<Rightarrow> unit io" where
  "pids_set dir r = (case rs_Pids r of None \<Rightarrow> ret () | Some pids \<Rightarrow>
     write_file dir ''pids.max'' (if pd_Limit pids > 0 then show_int (pd_Limit pids) else ''max''))"

definition weight :: "g_LinuxWeightDevice \<Rightarrow> string \<times> string" where
  "weight d =
     (show_int (wd_Major d) @ '':'' @ show_int (wd_Minor d) @ '' '' @ show_word (wd_Weight d),
      show_int (wd_Major d) @ '':'' @ show_int (wd_Minor d) @ '' '' @ show_word (wd_LeafWeight d))"

definition rate :: "g_LinuxThrottleDevice \<Rightarrow> string" where
  "rate d = show_int (td_Major d) @ '':'' @ show_int (td_Minor d) @ '' '' @ show_word (td_Rate d)"

definition blkio_set :: "string \<Rightarrow> g_LinuxResources \<Rightarrow> unit io" where
  "blkio_set dir r = (case rs_BlockIO r of None \<Rightarrow> ret () | Some blkio \<Rightarrow> run_all
     [write_nonzero dir ''blkio.weight'' (uint (bl_Weight blkio)),
      write_nonzero dir ''blkio.leaf_weight'' (uint (bl_LeafWeight blkio)),
      for_each (bl_WeightDevice blkio) (\<lambda>d. run_all
        [write_blkio_device dir ''blkio.weight_device'' (fst (weight d)),
         write_blkio_device dir ''blkio.leaf_weight_device'' (snd (weight d))]),
      for_each (bl_ThrottleReadBpsDevice blkio)
        (\<lambda>d. write_blkio_device dir ''blkio.throttle.read_bps_device'' (rate d)),
      for_each (bl_ThrottleWriteBpsDevice blkio)
        (\<lambda>d. write_blkio_device dir ''blkio.throttle.write_bps_device'' (rate d)),
      for_each (bl_ThrottleReadIOPSDevice blkio)
        (\<lambda>d. write_blkio_device dir ''blkio.throttle.read_iops_device'' (rate d)),
      for_each (bl_ThrottleWriteIOPSDevice blkio)
        (\<lambda>d. write_blkio_device dir ''blkio.throttle.write_iops_device'' (rate d))])"

definition hugetlb_set :: "string \<Rightarrow> g_LinuxResources \<Rightarrow> unit io" where
  "hugetlb_set dir r = for_each (rs_HugepageLimits r)
     (\<lambda>l. write_file dir (''hugetlb.'' @ hl_Pagesize l @ ''.limit_in_bytes'') (show_word (hl_Limit l)))"

definition netcls_set :: "string \<Rightarrow> g_LinuxResources \<Rightarrow> unit io" where
  "netcls_set dir r = (case rs_Network r of None \<Rightarrow> ret ()
     | Some network \<Rightarrow> write_nonzero dir ''net_cls.classid'' (uint (nw_ClassID network)))"

definition netprio_set :: "string \<Rightarrow> g_LinuxResources \<Rightarrow> unit io" where
  "netprio_set dir r = (case rs_Network r of None \<Rightarrow> ret ()
     | Some network \<Rightarrow> for_each (nw_Priorities network)
         (\<lambda>p. try_write_file dir ''net_prio.ifpriomap'' (ip_Name p @ '' '' @ show_word (ip_Priority p))))"

fun subsystem_set :: "subsystem \<Rightarrow> string \<Rightarrow> g_LinuxResources \<Rightarrow> bool \<Rightarrow> unit io" where
  "subsystem_set CpuSet dir r update = cpuset_set dir r update"
| "subsystem_set Cpu dir r update = cpu_set dir r"
| "subsystem_set Devices dir r update = devices_set dir r"
| "subsystem_set Memory dir r update = memory_set dir r update"
| "subsystem_set CpuAcct dir r update = ret ()"
| "subsystem_set Pids dir r update = pids_set dir r"
| "subsystem_set Blkio dir r update = blkio_set dir r"
| "subsystem_set HugeTLB dir r update = hugetlb_set dir r"
| "subsystem_set NetCls dir r update = netcls_set dir r"
| "subsystem_set NetPrio dir r update = netprio_set dir r"
| "subsystem_set PerfEvent dir r update = ret ()"
| "subsystem_set Freezer dir r update = ret ()"
| "subsystem_set Named dir r update = ret ()"

lemma get_subsystem_name: "get_subsystem (subsystem_name s) = Ok s"
  by (cases s) (simp_all add: get_subsystem_def)

lemma get_subsystem_Ok: "get_subsystem n = Ok s \<Longrightarrow> subsystem_name s = n"
  by (auto simp: get_subsystem_def split: if_splits)

section \<open>Correctness of \<open>copy_parent\<close>\<close>

text \<open>A kernel that refuses nothing.\<close>

definition reliable :: "world \<Rightarrow> bool" where
  "reliable w \<longleftrightarrow> (\<forall>h p. \<exists>v. kernel w h p = Inr v)"

lemma reliableD: "reliable w \<Longrightarrow> kernel w h p = Inl e \<Longrightarrow> False"
  by (metis reliable_def Inl_Inr_False)

lemma reliable_quiet [simp]: "reliable quiet"
  by (simp add: reliable_def quiet_def)

lemma reliable_grows: "grows w w' \<Longrightarrow> reliable w' = reliable w"
  by (simp add: reliable_def grows_def)

lemma reliable_write:
  assumes "reliable w"
  shows "fs_write p c w = (Ok (), w\<lparr>hist := hist w @ [FsWrite p c], files := (files w)(p \<mapsto> c)\<rparr>)"
  using assms by (cases rule: fs_write_cases [of w p c]) (auto dest: reliableD)

lemma reliable_read:
  assumes "reliable w"
  shows "fs_read p w = (case files w p of None \<Rightarrow> Err (Io ENOENT) | Some c \<Rightarrow> Ok c,
     w\<lparr>hist := hist w @ [FsRead p]\<rparr>)"
  using assms by (cases rule: fs_read_cases [of w p]) (auto dest: reliableD)

text \<open>
  The reference definition: the directories above \<open>dir\<close>, nearest first; the nearest one whose file
  is not blank gives the value, and \<open>dir\<close> and the blank directories below that one get it.
\<close>

function ancestors :: "string \<Rightarrow> string list" where
  "ancestors dir = (case before_last CHR ''/'' dir of None \<Rightarrow> [] | Some p \<Rightarrow> p # ancestors p)"
  by pat_completeness auto
termination
  by (relation "measure length") (auto dest: before_last_length)

declare ancestors.simps [simp del]

definition content :: "(string \<Rightarrow> string option) \<Rightarrow> string \<Rightarrow> string \<Rightarrow> string" where
  "content fs file d = (case fs (cg_path d file) of None \<Rightarrow> [] | Some c \<Rightarrow> c)"

definition blank :: "(string \<Rightarrow> string option) \<Rightarrow> string \<Rightarrow> string \<Rightarrow> bool" where
  "blank fs file d \<longleftrightarrow> trim (content fs file d) = []"

definition inherit :: "(string \<Rightarrow> string option) \<Rightarrow> string \<Rightarrow> string
    \<Rightarrow> (string \<Rightarrow> string option) option" where
  "inherit fs dir file =
     (case dropWhile (blank fs file) (ancestors dir) of
        [] \<Rightarrow> None
      | a # _ \<Rightarrow> Some (fs ++ map_of (map (\<lambda>d. (cg_path d file, content fs file a))
                   (dir # takeWhile (blank fs file) (ancestors dir)))))"

abbreviation slashes :: "string \<Rightarrow> nat" where
  "slashes s \<equiv> length (filter (\<lambda>c. c = CHR ''/'') s)"

lemma slashes_parent: "before_last CHR ''/'' dir = Some p \<Longrightarrow> slashes p < slashes dir"
  by (drule before_last_Some) auto

lemma inherit_top: "before_last CHR ''/'' dir = None \<Longrightarrow> inherit fs dir file = None"
  by (simp add: inherit_def ancestors.simps [of dir])

lemma inherit_direct:
  "before_last CHR ''/'' dir = Some p \<Longrightarrow> \<not> blank fs file p
   \<Longrightarrow> inherit fs dir file = Some (fs(cg_path dir file \<mapsto> content fs file p))"
  by (simp add: inherit_def ancestors.simps [of dir])

lemma inherit_blank:
  "before_last CHR ''/'' dir = Some p \<Longrightarrow> blank fs file p
   \<Longrightarrow> inherit fs dir file = (case inherit fs p file of None \<Rightarrow> None
        | Some f \<Rightarrow> Some (f(cg_path dir file \<mapsto> content f file p)))"
  by (cases "dropWhile (blank fs file) (ancestors p)")
    (simp_all add: inherit_def ancestors.simps [of dir] content_def del: dropWhile_eq_Nil_conv)

lemma inherit_not_blank: "inherit fs dir file = Some f \<Longrightarrow> \<not> blank f file dir"
proof -
  assume i: "inherit fs dir file = Some f"
  then obtain a rest where a: "dropWhile (blank fs file) (ancestors dir) = a # rest"
    by (auto simp: inherit_def split: list.splits)
  then have "\<not> blank fs file a" by (metis dropWhile_eq_Cons_conv)
  moreover have "content f file dir = content fs file a"
    using i a by (simp add: inherit_def content_def [of f])
      (auto simp: content_def)
  ultimately show ?thesis by (simp add: blank_def)
qed

text \<open>One unfolding of the code on a reliable kernel.\<close>

lemma copy_parent_step:
  assumes "reliable w" "before_last CHR ''/'' dir = Some p"
  shows "copy_parent (Suc n) dir file w =
     (if blank (files w) file p
      then thenR (copy_parent n p file) (copy_parent n dir file)
        (w\<lparr>hist := hist w @ [FsRead (cg_path p file)]\<rparr>)
      else write_file dir file (content (files w) file p)
        (w\<lparr>hist := hist w @ [FsRead (cg_path p file)]\<rparr>))"
  using assms
  by (auto simp: read_file_def reliable_read blank_def content_def trim_def trim_start_def
      split: option.splits)

lemma copy_parent_reliable:
  assumes "reliable w" "slashes dir < n"
  shows "\<exists>r w'. copy_parent n dir file w = (r, w') \<and> reliable w' \<and>
     (case inherit (files w) dir file of
        None \<Rightarrow> r = Err (ErrorCode ''cannot copy file from parent'') \<and> files w' = files w
      | Some f \<Rightarrow> r = Ok () \<and> files w' = f)"
  using assms
proof (induction n arbitrary: dir w)
  case (Suc n)
  note rel = Suc.prems(1)
  show ?case
  proof (cases "before_last CHR ''/'' dir")
    case None
    with rel show ?thesis by (simp add: inherit_top)
  next
    case (Some p)
    note parent = Some
    let ?w1 = "w\<lparr>hist := hist w @ [FsRead (cg_path p file)]\<rparr>"
    note step = copy_parent_step [OF rel Some]
    have r1: "reliable ?w1" using rel by (simp add: reliable_def)
    have n: "slashes p < n" "0 < n" using slashes_parent [OF Some] Suc.prems(2) by auto
    show ?thesis
    proof (cases "blank (files w) file p")
      case False
      with step r1 Some show ?thesis
        by (simp add: inherit_direct write_file_def reliable_write) (simp add: reliable_def)
    next
      case True
      from Suc.IH [OF r1 n(1)] obtain r w2 where
        c: "copy_parent n p file ?w1 = (r, w2)" and r2: "reliable w2" and
        i: "case inherit (files ?w1) p file of
              None \<Rightarrow> r = Err (ErrorCode ''cannot copy file from parent'') \<and> files w2 = files ?w1
            | Some f \<Rightarrow> r = Ok () \<and> files w2 = f" by blast
      show ?thesis
      proof (cases "inherit (files w) p file")
        case None
        with i c step True Some r2 show ?thesis by (simp add: inherit_blank)
      next
        case (Some f)
        with i have r: "r = Ok ()" and f: "files w2 = f" by auto
        from n(2) obtain m where m: "n = Suc m" by (cases n) auto
        have nb: "\<not> blank (files w2) file p" using inherit_not_blank [OF Some] f by simp
        from copy_parent_step [OF r2 parent] nb m
        have "copy_parent n dir file w2 =
          write_file dir file (content f file p) (w2\<lparr>hist := hist w2 @ [FsRead (cg_path p file)]\<rparr>)"
          using f by simp
        with c r step True Some f r2 parent show ?thesis
          by (simp add: inherit_blank write_file_def reliable_write reliable_def)
      qed
    qed
  qed
qed simp

section \<open>Writes of the subsystems\<close>

text \<open>Only files of the cgroup's own directory change.\<close>

definition only_below :: "string \<Rightarrow> world \<Rightarrow> world \<Rightarrow> bool" where
  "only_below dir w w' \<longleftrightarrow> (\<forall>q. \<not> prefix (dir @ ''/'') q \<longrightarrow> files w' q = files w q)"

lemma only_below_order [simp]: "reflp (only_below dir)" "transp (only_below dir)"
  by (auto simp: only_below_def reflp_def transp_def)

lemma write_file_below: "keeps (only_below dir) (write_file dir file v)"
  by (rule keepsI) (auto simp: write_file_def only_below_def cg_path_def
      dest!: fs.wr_outcome)

lemma write_nonzero_below: "keeps (only_below dir) (write_nonzero dir file v)"
  unfolding write_nonzero_def by (intro keeps_when write_file_below) simp

lemma try_writes_below:
  "keeps (only_below dir) (try_write_nonzero dir file v)"
  "keeps (only_below dir) (try_write_file dir file s)"
  "keeps (only_below dir) (try_write dir file s)"
  "keeps (only_below dir) (write_blkio_device dir file s)"
  unfolding try_write_nonzero_def try_write_file_def try_write_def write_blkio_device_def
  by (intro keeps_catch write_file_below write_nonzero_below; (rule only_below_order)?;
      auto split: error.split intro: keeps_ret keeps_throw simp del: act_basic)+

lemma write_device_below: "keeps (only_below dir) (write_device d dir)"
  unfolding write_device_def Let_def by (rule write_file_below)

lemmas below_intros = write_file_below write_nonzero_below try_writes_below write_device_below

lemma keeps_run_all: "reflp R \<Longrightarrow> transp R \<Longrightarrow> (\<And>m. m \<in> set ms \<Longrightarrow> keeps R m) \<Longrightarrow> keeps R (run_all ms)"
  by (induction ms) (auto simp del: act_basic intro: keeps_ret keeps_then)

lemmas set_defs = cpuset_set_def cpu_set_def devices_set_def memory_set_def pids_set_def
  blkio_set_def hugetlb_set_def netcls_set_def netprio_set_def

lemma set_below:
  assumes "s \<noteq> CpuSet \<or> update"
  shows "keeps (only_below dir) (subsystem_set s dir r update)"
  using assms
  by (cases s)
    (auto simp: set_defs Let_def simp del: act_basic run_all.simps for_each_simps split: option.split
      intro!: keeps_ret keeps_run_all keeps_for_each keeps_when below_intros)

text \<open>On a reliable kernel a list of writes is the same list of entries in the history.\<close>

lemma write_file_reliable:
  "reliable w \<Longrightarrow> write_file dir file v w = (Ok (),
     w\<lparr>hist := hist w @ [FsWrite (cg_path dir file) v], files := (files w)(cg_path dir file \<mapsto> v)\<rparr>)"
  by (simp add: write_file_def reliable_write)

definition device_line :: "g_LinuxDeviceCgroup \<Rightarrow> string \<times> string" where
  "device_line d = (if dc_Allow d then ''devices.allow'' else ''devices.deny'',
     (if dc_Type d = [] then ''a'' else dc_Type d) @ '' '' @
     join_on '':'' [dev_num (dc_Major d), dev_num (dc_Minor d)] @ '' '' @ dc_Access d)"

definition device_op :: "string \<Rightarrow> g_LinuxDeviceCgroup \<Rightarrow> sysop" where
  "device_op dir d = FsWrite (cg_path dir (fst (device_line d))) (snd (device_line d))"

lemma write_devices_reliable:
  "reliable w \<Longrightarrow> \<exists>w'. for_each ds (\<lambda>d. write_device d dir) w = (Ok (), w') \<and> reliable w'
     \<and> hist w' = hist w @ map (device_op dir) ds"
proof (induction ds arbitrary: w)
  case (Cons d ds)
  let ?w = "snd (write_device d dir w)"
  have d: "write_device d dir w = (Ok (), ?w)" and r: "reliable ?w"
    and h: "hist ?w = hist w @ [device_op dir d]"
    using Cons.prems
    by (auto simp: write_device_def Let_def write_file_reliable device_op_def device_line_def
        reliable_def)
  from Cons.IH [OF r] d h show ?case by auto
qed simp

definition default_rule :: "g_LinuxDevice \<Rightarrow> g_LinuxDeviceCgroup" where
  "default_rule d = \<lparr>dc_Allow = True, dc_Type = ld_Type d, dc_Major = ld_Major d,
     dc_Minor = ld_Minor d, dc_Access = ''rwm''\<rparr>"

lemma devices_set_one_list:
  "devices_set dir r = for_each (rs_Devices r @ map default_rule DEFAULT_DEVICES
      @ DEFAULT_ALLOWED_DEVICES) (\<lambda>d. write_device d dir)"
  by (simp add: devices_set_def for_each_cat thenR_done for_each_def [of "map f xs" for f xs]
      del: act_basic for_each_simps)
    (simp add: for_each_def default_rule_def comp_def)

section \<open>Properties\<close>


definition cpuset_world :: world where
  "cpuset_world = quiet\<lparr>files := [''/cg/cpuset.cpus'' \<mapsto> ''0-3'']\<rparr>"



definition shares_only :: g_LinuxResources where
  "shares_only = \<lparr>rs_Devices = [], rs_Memory = None, rs_CPU = Some \<lparr>cu_Shares = 512, cu_Quota = 0,
     cu_Period = 0, cu_RealtimeRuntime = 950000, cu_RealtimePeriod = 1000000, cu_Cpus = ''0'', cu_Mems = []\<rparr>,
     rs_Pids = None, rs_BlockIO = None, rs_HugepageLimits = [], rs_Network = None\<rparr>"


text \<open>The device rules reach the kernel in the order of the code: the rules of the request, then
  the default devices, then the default allowed rules, one write for each, to \<open>devices.allow\<close> or
  \<open>devices.deny\<close>, with \<open>*\<close> for a wildcard number.\<close>
lemma devices_set_order:
  assumes "reliable w"
  shows "\<exists>w'. devices_set dir r w = (Ok (), w') \<and> hist w' = hist w @
     map (device_op dir) (rs_Devices r @ map default_rule DEFAULT_DEVICES @ DEFAULT_ALLOWED_DEVICES)"
  using write_devices_reliable [OF assms] unfolding devices_set_one_list by blast

lemma devices_set_order_witness:
  "\<exists>w'. devices_set ''/cg'' (shares_only\<lparr>rs_Devices := [\<lparr>dc_Allow = False, dc_Type = [],
       dc_Major = -1, dc_Minor = -1, dc_Access = ''rwm''\<rparr>]\<rparr>) quiet = (Ok (), w')
     \<and> hd (hist w') = FsWrite ''/cg/devices.deny'' ''a *:* rwm'' \<and> length (hist w') = 13"
proof -
  let ?r = "shares_only\<lparr>rs_Devices := [\<lparr>dc_Allow = False, dc_Type = [],
       dc_Major = -1, dc_Minor = -1, dc_Access = ''rwm''\<rparr>]\<rparr>"
  from devices_set_order [OF reliable_quiet, of "''/cg''" ?r]
  show ?thesis
    by (auto simp: quiet_def device_op_def device_line_def dev_num_def WILDCARD_def cg_path_def
        DEFAULT_DEVICES_def DEFAULT_ALLOWED_DEVICES_def)
qed

end
