(* ===== verification/Cgroup_Stats.thy ===== *)
theory Cgroup_Stats
  imports Cgroup_Fs Complex_Main
begin

text \<open>
  \<open>rustjail/src/cgroups/fs/mod.rs\<close>, the reading half: the parsers of the kernel's cgroup files and
  the \<open>get_stats\<close> operations, with the messages of \<open>protocols/src/agent.rs\<close> they fill. A Rust
  \<open>HashMap\<close> that is only looked up is a map. The conversion from clock ticks divides two \<open>f64\<close>
  values; it is the parameter \<open>ticks\<close>. Sizes of huge pages are \<open>f64\<close> in the code and \<open>rat\<close> here;
  they are divided by 1024 only, which is exact; their printing is the parameter \<open>show_f64\<close>.
\<close>

section \<open>Messages\<close>

record ThrottlingData =
  periods :: u64
  throttled_periods :: u64
  throttled_time :: u64

record CpuUsage =
  total_usage :: u64
  percpu_usage :: "u64 list"
  usage_in_kernelmode :: u64
  usage_in_usermode :: u64

record CpuStats =
  cpu_usage :: "CpuUsage option"
  throttling_data :: "ThrottlingData option"

record PidsStats =
  ps_current :: u64
  ps_limit :: u64

record MemoryData =
  md_usage :: u64
  md_max_usage :: u64
  md_failcnt :: u64
  md_limit :: u64

record MemoryStats =
  cache :: u64
  usage :: "MemoryData option"
  swap_usage :: "MemoryData option"
  kernel_usage :: "MemoryData option"
  use_hierarchy :: bool
  stats :: "string \<Rightarrow> u64 option"

record BlkioStatsEntry =
  be_major :: u64
  be_minor :: u64
  be_op :: string
  be_value :: u64

record BlkioStats =
  io_service_bytes_recursive :: "BlkioStatsEntry list"
  io_serviced_recursive :: "BlkioStatsEntry list"
  io_queued_recursive :: "BlkioStatsEntry list"
  io_service_time_recursive :: "BlkioStatsEntry list"
  io_wait_time_recursive :: "BlkioStatsEntry list"
  io_merged_recursive :: "BlkioStatsEntry list"
  io_time_recursive :: "BlkioStatsEntry list"
  sectors_recursive :: "BlkioStatsEntry list"

record HugetlbStats =
  hg_usage :: u64
  hg_max_usage :: u64
  hg_failcnt :: u64

section \<open>Parsers\<close>

text \<open>The result of a loop over lines that pushes one value per line or stops at an error.\<close>

primrec collect_res :: "('x \<Rightarrow> 'a res) \<Rightarrow> 'x list \<Rightarrow> 'a list res" where
  "collect_res f [] = Ok []"
| "collect_res f (x # xs) = bind_res (f x) (\<lambda>y. map_res (\<lambda>ys. y # ys) (collect_res f xs))"

fun parse_key_value :: "string list \<Rightarrow> (string \<Rightarrow> string option) \<Rightarrow> string \<Rightarrow> string option" where
  "parse_key_value [] m = m"
| "parse_key_value (l # ls) m = (case split_on CHR '' '' l of
     [k, v] \<Rightarrow> parse_key_value ls (m(k \<mapsto> v))
   | _ \<Rightarrow> parse_key_value ls m)"

definition get_param_key_value :: "string \<Rightarrow> string \<Rightarrow> (string \<Rightarrow> string option) io" where
  "get_param_key_value dir file = bindR (fs_read (cg_path dir file))
     (\<lambda>c. ret (parse_key_value (lines c) Map.empty))"

fun parse_key_u64 :: "string list \<Rightarrow> (string \<Rightarrow> u64 option) \<Rightarrow> (string \<Rightarrow> u64 option) res" where
  "parse_key_u64 [] m = Ok m"
| "parse_key_u64 (l # ls) m = (case split_on CHR '' '' l of
     [k, v] \<Rightarrow> bind_res (parse_u64 (trim v)) (\<lambda>n. parse_key_u64 ls (m(k \<mapsto> n)))
   | _ \<Rightarrow> parse_key_u64 ls m)"

definition get_param_key_u64 :: "string \<Rightarrow> string \<Rightarrow> (string \<Rightarrow> u64 option) io" where
  "get_param_key_u64 dir file = bindR (fs_read (cg_path dir file))
     (\<lambda>c. liftR (parse_key_u64 (lines c) Map.empty))"

definition get_param_u64 :: "string \<Rightarrow> string \<Rightarrow> u64 io" where
  "get_param_u64 dir file = bindR (fs_read (cg_path dir file)) (\<lambda>c. liftR (parse_u64 (trim c)))"

definition get_param_string :: "string \<Rightarrow> string \<Rightarrow> string io" where
  "get_param_string dir file = fs_read (cg_path dir file)"

definition cpu_get_stats :: "string \<Rightarrow> ThrottlingData io" where
  "cpu_get_stats dir = bindR (get_param_key_u64 dir ''cpu.stat'') (\<lambda>h.
     bindR (liftR (unwrap (h ''nr_periods''))) (\<lambda>p.
     bindR (liftR (unwrap (h ''nr_throttled''))) (\<lambda>tp.
     bindR (liftR (unwrap (h ''throttled_time''))) (\<lambda>tt.
     ret \<lparr>periods = p, throttled_periods = tp, throttled_time = tt\<rparr>))))"

definition get_cpuacct_percpu_usage :: "string \<Rightarrow> u64 list io" where
  "get_cpuacct_percpu_usage dir = bindR (fs_read (cg_path dir ''cpuacct.usage_percpu''))
     (\<lambda>c. liftR (collect_res (\<lambda>n. parse_u64 (trim n)) (split_on CHR '' '' c)))"

definition get_percpu_usage :: "string \<Rightarrow> string \<Rightarrow> u64 list io" where
  "get_percpu_usage dir file = bindR (fs_read (cg_path dir file))
     (\<lambda>c. liftR (collect_res (\<lambda>n. parse_u64 (trim n))
        (filter (\<lambda>n. trim n \<noteq> []) (split_on CHR '' '' c))))"

definition NANO_PER_SECOND :: u64 where
  "NANO_PER_SECOND = 1000000000"

definition cpuacct_get_stats :: "(u64 \<Rightarrow> u64) \<Rightarrow> string \<Rightarrow> CpuUsage io" where
  "cpuacct_get_stats ticks dir = bindR (get_param_key_u64 dir ''cpuacct.stat'') (\<lambda>h.
     bindR (liftR (unwrap (h ''user''))) (\<lambda>u.
     bindR (liftR (unwrap (h ''system''))) (\<lambda>k.
     bindR (get_param_u64 dir ''cpuacct.usage'') (\<lambda>total.
     bindR (get_percpu_usage dir ''cpuacct.usage_percpu'') (\<lambda>percpu.
     ret \<lparr>total_usage = total, percpu_usage = percpu,
          usage_in_kernelmode = ticks (k * NANO_PER_SECOND),
          usage_in_usermode = ticks (u * NANO_PER_SECOND)\<rparr>)))))"

definition memory_file :: "string \<Rightarrow> string \<Rightarrow> string" where
  "memory_file sub what = (if sub = [] then ''memory.'' @ what else ''memory.'' @ sub @ ''.'' @ what)"

definition get_memory_data :: "string \<Rightarrow> string \<Rightarrow> MemoryData io" where
  "get_memory_data dir sub =
     bindR (get_param_u64 dir (memory_file sub ''usage_in_bytes'')) (\<lambda>u.
     bindR (get_param_u64 dir (memory_file sub ''max_usage_in_bytes'')) (\<lambda>m.
     bindR (get_param_u64 dir (memory_file sub ''failcnt'')) (\<lambda>f.
     bindR (get_param_u64 dir (memory_file sub ''limit_in_bytes'')) (\<lambda>l.
     ret \<lparr>md_usage = u, md_max_usage = m, md_failcnt = f, md_limit = l\<rparr>))))"

definition get_exist_memory_data :: "string \<Rightarrow> string \<Rightarrow> MemoryData option io" where
  "get_exist_memory_data dir sub = catchR (bindR (get_memory_data dir sub) (\<lambda>r. ret (Some r)))
     (\<lambda>err. case err of Io e \<Rightarrow> if io_kind_of e = NotFound then ret None else throw (Io e)
            | _ \<Rightarrow> throw err)"

definition memory_get_stats :: "string \<Rightarrow> MemoryStats io" where
  "memory_get_stats dir = bindR (get_param_key_u64 dir ''memory.stat'') (\<lambda>h.
     bindR (liftR (unwrap (h ''cache''))) (\<lambda>c.
     bindR (get_param_u64 dir ''memory.use_hierarchy'') (\<lambda>v.
     bindR (get_exist_memory_data dir []) (\<lambda>u.
     bindR (get_exist_memory_data dir ''memsw'') (\<lambda>s.
     bindR (get_exist_memory_data dir ''kmem'') (\<lambda>k.
     ret \<lparr>cache = c, usage = u, swap_usage = s, kernel_usage = k, use_hierarchy = (v = 1),
          stats = h\<rparr>))))))"

definition pids_get_stats :: "string \<Rightarrow> PidsStats io" where
  "pids_get_stats dir = bindR (get_param_u64 dir ''pids.current'') (\<lambda>cur.
     bindR (get_param_string dir ''pids.max'') (\<lambda>c.
     bindR (if contains ''max'' c then ret 0 else liftR (parse_u64 (trim c))) (\<lambda>l.
     ret \<lparr>ps_current = cur, ps_limit = l\<rparr>)))"

definition parse_blkio_line :: "string \<Rightarrow> BlkioStatsEntry option res" where
  "parse_blkio_line l =
     (let parts = split_on CHR '' '' l
      in if length parts < 3 then
           (if length parts = 2 \<and> to_lowercase (parts ! 0) = ''total'' then Ok None
            else Err (Nix EINVAL))
         else bind_res (parse_u64 (parts ! 2)) (\<lambda>value.
           let devno = split_on CHR '':'' (parts ! 0)
           in if length devno \<noteq> 2 then Err (Nix EINVAL)
              else bind_res (parse_u64 (devno ! 0)) (\<lambda>major.
                bind_res (parse_u64 (devno ! 1)) (\<lambda>minor.
                Ok (Some \<lparr>be_major = major, be_minor = minor, be_op = parts ! 1, be_value = value\<rparr>)))))"

definition get_blkio_stat :: "string \<Rightarrow> string \<Rightarrow> BlkioStatsEntry list io" where
  "get_blkio_stat dir file = bindR (fs_read (cg_path dir file))
     (\<lambda>c. liftR (map_res (List.map_filter id) (collect_res parse_blkio_line (lines c))))"

definition no_blkio :: BlkioStats where
  "no_blkio = \<lparr>io_service_bytes_recursive = [], io_serviced_recursive = [], io_queued_recursive = [],
     io_service_time_recursive = [], io_wait_time_recursive = [], io_merged_recursive = [],
     io_time_recursive = [], sectors_recursive = []\<rparr>"

definition blkio_get_stats :: "string \<Rightarrow> BlkioStats io" where
  "blkio_get_stats dir = bindR (get_blkio_stat dir ''blkio.io_serviced_recursive'') (\<lambda>entry.
     if entry = [] then
       bindR (get_blkio_stat dir ''blkio.throttle.io_service_bytes'') (\<lambda>sb.
       bindR (get_blkio_stat dir ''blkio.throttle.io_serviced'') (\<lambda>sd.
       ret (no_blkio\<lparr>io_service_bytes_recursive := sb, io_serviced_recursive := sd\<rparr>)))
     else
       bindR (get_blkio_stat dir ''blkio.sectors_recursive'') (\<lambda>se.
       bindR (get_blkio_stat dir ''blkio.io_service_bytes_recursive'') (\<lambda>sb.
       bindR (get_blkio_stat dir ''blkio.io_serviced_recursive'') (\<lambda>sd.
       bindR (get_blkio_stat dir ''blkio.io_queued_recursive'') (\<lambda>qu.
       bindR (get_blkio_stat dir ''blkio.io_service_time_recursive'') (\<lambda>st.
       bindR (get_blkio_stat dir ''blkio.io_wait_time_recursive'') (\<lambda>wt.
       bindR (get_blkio_stat dir ''blkio.io_merged_recursive'') (\<lambda>me.
       bindR (get_blkio_stat dir ''blkio.time_recursive'') (\<lambda>ti.
       ret \<lparr>io_service_bytes_recursive = sb, io_serviced_recursive = sd, io_queued_recursive = qu,
            io_service_time_recursive = st, io_wait_time_recursive = wt, io_merged_recursive = me,
            io_time_recursive = ti, sectors_recursive = se\<rparr>)))))))))"

section \<open>Huge pages\<close>

definition is_digit :: "char \<Rightarrow> bool" where
  "is_digit c \<longleftrightarrow> (let n = of_char c :: nat in 48 \<le> n \<and> n \<le> 57)"

text \<open>
  The captures of \<open>(?P<num>\d+)(?P<mul>[kKmMgGtTpP]?)[bB]?$\<close>: the tail is a \<open>b\<close> or \<open>B\<close>, before it
  a multiplier, before it the longest run of digits, which must not be empty.
\<close>

definition match_size :: "string \<Rightarrow> (string \<times> string) option" where
  "match_size s =
     (let r = rev s;
          r1 = (case r of c # cs \<Rightarrow> if c \<in> set ''bB'' then cs else r | [] \<Rightarrow> []);
          (mul, r2) = (case r1 of c # cs \<Rightarrow> if c \<in> set ''kKmMgGtTpP'' then ([c], cs) else ([], r1)
                       | [] \<Rightarrow> ([], []));
          num = rev (takeWhile is_digit r2)
      in if num = [] then None else Some (num, mul))"

definition BMAP :: "string \<Rightarrow> nat option" where
  "BMAP = [''k'' \<mapsto> 1024, ''m'' \<mapsto> 1024 ^ 2, ''g'' \<mapsto> 1024 ^ 3, ''t'' \<mapsto> 1024 ^ 4, ''p'' \<mapsto> 1024 ^ 5]"

definition DMAP :: "string \<Rightarrow> nat option" where
  "DMAP = [''k'' \<mapsto> 1000, ''m'' \<mapsto> 1000 ^ 2, ''g'' \<mapsto> 1000 ^ 3, ''t'' \<mapsto> 1000 ^ 4, ''p'' \<mapsto> 1000 ^ 5]"

definition DABBRS :: "string list" where
  "DABBRS = [''B'', ''KB'', ''MB'', ''GB'', ''TB'', ''PB'', ''EB'', ''ZB'', ''YB'']"

definition BABBRS :: "string list" where
  "BABBRS = [''B'', ''KiB'', ''MiB'', ''GiB'', ''TiB'', ''PiB'', ''EiB'', ''ZiB'', ''YiB'']"

text \<open>A size is a \<open>u128\<close>; the product wraps as in a release build.\<close>

definition parse_size :: "string \<Rightarrow> (string \<Rightarrow> nat option) \<Rightarrow> nat res" where
  "parse_size s m = (case match_size s of
     None \<Rightarrow> Panic
   | Some (num, mul) \<Rightarrow> bind_res (from_str_radix (2 ^ 128) 10 (trim num)) (\<lambda>size.
       case m mul of None \<Rightarrow> Err (Nix EINVAL) | Some k \<Rightarrow> Ok (size * k mod 2 ^ 128)))"

text \<open>The loop of \<open>custom_size\<close>; \<open>fuel\<close> bounds the divisions, and a size above the names panics.\<close>

fun scale_size :: "nat \<Rightarrow> rat \<Rightarrow> rat \<Rightarrow> nat \<Rightarrow> (rat \<times> nat) res" where
  "scale_size 0 sz base i = Hang"
| "scale_size (Suc n) sz base i =
     (if base < sz then scale_size n (sz / base) base (Suc i) else Ok (sz, i))"

definition custom_size :: "(rat \<Rightarrow> string) \<Rightarrow> nat \<Rightarrow> rat \<Rightarrow> string list \<Rightarrow> string res" where
  "custom_size show_f64 sz base m = bind_res (scale_size (Suc sz) (of_nat sz) base 0)
     (\<lambda>(q, i). if i < length m then Ok (show_f64 q @ m ! i) else Panic)"

definition get_hugepage_sizes :: "(rat \<Rightarrow> string) \<Rightarrow> string list io" where
  "get_hugepage_sizes show_f64 = bindR (fs_read_dir ''/sys/kernel/mm/hugepages'')
     (\<lambda>names. liftR (collect_res
        (\<lambda>parts. bind_res (parse_size (parts ! 1) BMAP) (\<lambda>size. custom_size show_f64 size 1024 DABBRS))
        (filter (\<lambda>parts. length parts = 2) (map (split_on CHR ''-'') names))))"

definition hugetlb_get_stats :: "string list \<Rightarrow> string \<Rightarrow> (string \<Rightarrow> HugetlbStats option) io" where
  "hugetlb_get_stats pagesizes dir = bindR (collectR (\<lambda>pagesize.
       bindR (get_param_u64 dir (''hugetlb.'' @ pagesize @ ''.usage_in_bytes'')) (\<lambda>u.
       bindR (get_param_u64 dir (''hugetlb.'' @ pagesize @ ''.max_usage_in_bytes'')) (\<lambda>m.
       bindR (get_param_u64 dir (''hugetlb.'' @ pagesize @ ''.failcnt'')) (\<lambda>f.
       ret (pagesize, \<lparr>hg_usage = u, hg_max_usage = m, hg_failcnt = f\<rparr>))))) pagesizes)
     (\<lambda>h. ret (map_of (rev h)))"


section \<open>Lemmas\<close>

lemma collect_res_map: "(\<And>x. x \<in> set xs \<Longrightarrow> f (g x) = Ok (h x)) \<Longrightarrow> collect_res f (map g xs) = Ok (map h xs)"
  by (induction xs) auto

definition kv_line :: "string \<times> u64 \<Rightarrow> string" where
  "kv_line p = fst p @ '' '' @ show_word (snd p)"

lemma split_two: "c \<notin> set k \<Longrightarrow> c \<notin> set v \<Longrightarrow> split_on c (k @ c # v) = [k, v]"
  using split_on_join [of "[k, v]" c] by simp

lemma show_word_no_char [simp]: "of_char c < (48 :: nat) \<or> (57 :: nat) < of_char c \<Longrightarrow> c \<notin> set (show_word w)"
  by (rule show_nat_no_char)

lemma parse_kv_lines:
  "\<forall>k \<in> set (map fst kvs). CHR '' '' \<notin> set k \<Longrightarrow>
   parse_key_u64 (map kv_line kvs) m = Ok (m ++ map_of (rev kvs))"
proof (induction kvs arbitrary: m)
  case (Cons kv kvs)
  have "split_on CHR '' '' (kv_line kv) = [fst kv, show_word (snd kv)]"
    using Cons.prems by (simp add: kv_line_def split_two)
  with Cons show ?case
    by (cases kv) (auto simp: map_add_def fun_eq_iff split: option.split)
qed simp

lemma map_filter_Some: "List.map_filter id (map Some xs) = xs"
  by (induction xs) auto

lemma map_filter_total: "List.map_filter id (map Some xs @ [None]) = xs"
  by (induction xs) auto

definition blkio_line :: "BlkioStatsEntry \<Rightarrow> string" where
  "blkio_line e = join_on '' '' [join_on '':'' [show_word (be_major e), show_word (be_minor e)],
     be_op e, show_word (be_value e)]"

lemma kv_line_number: "nl \<notin> set (fst p) \<Longrightarrow> number_line (kv_line p)"
  using number_lineI [of "fst p @ '' ''" "unat (snd p)"] by (simp add: kv_line_def)

lemma blkio_line_number:
  assumes "nl \<notin> set (be_op e)"
  shows "number_line (blkio_line e)"
proof -
  have "nl \<notin> set (show_word (be_major e) @ '':'' @ show_word (be_minor e) @ '' '' @ be_op e @ '' '')"
    using assms by (simp add: nl_def show_nat_no_char)
  from number_lineI [OF this, of "unat (be_value e)"] show ?thesis by (simp add: blkio_line_def)
qed

lemma lower_total: "to_lowercase ''Total'' = ''total''"
  by code_simp

lemma parse_blkio_line_show:
  assumes "CHR '' '' \<notin> set (be_op e)"
  shows "parse_blkio_line (blkio_line e) = Ok (Some e)"
proof -
  have "split_on CHR '' '' (blkio_line e) =
      [join_on '':'' [show_word (be_major e), show_word (be_minor e)], be_op e, show_word (be_value e)]"
    unfolding blkio_line_def using assms by (intro split_on_join) auto
  moreover have "split_on CHR '':'' (join_on '':'' [show_word (be_major e), show_word (be_minor e)])
      = [show_word (be_major e), show_word (be_minor e)]"
    by (intro split_on_join) auto
  ultimately show ?thesis by (simp add: parse_blkio_line_def Let_def)
qed

lemma collect_res_append:
  "collect_res f (xs @ ys) = bind_res (collect_res f xs) (\<lambda>a. map_res ((@) a) (collect_res f ys))"
proof (induction xs)
  case Nil
  show ?case by (cases "collect_res f ys") simp_all
next
  case (Cons x xs)
  then show ?case by (cases "f x"; cases "collect_res f xs"; cases "collect_res f ys") simp_all
qed

text \<open>The scaling loop: with more fuel than the size it ends, at the first quotient not above the base.\<close>

lemma scale_size_steps:
  assumes "1 < base" "sz \<le> base ^ Suc k" "k < n"
  shows "\<exists>j \<le> k. scale_size n sz base i = Ok (sz / base ^ j, i + j) \<and> sz / base ^ j \<le> base
    \<and> (\<forall>l < j. base < sz / base ^ l)"
  using assms
proof (induction k arbitrary: sz n i)
  case 0
  then show ?case by (cases n) auto
next
  case (Suc k)
  then obtain m where n: "n = Suc m" by (cases n) auto
  show ?case
  proof (cases "base < sz")
    case True
    have "sz / base \<le> base ^ Suc k" using Suc.prems by (simp add: field_simps)
    with Suc n obtain j where j: "j \<le> k" "scale_size m (sz / base) base (Suc i)
        = Ok (sz / base / base ^ j, Suc i + j)" "sz / base / base ^ j \<le> base"
        "\<forall>l < j. base < sz / base / base ^ l" by (metis Suc_less_eq)
    have "\<forall>l < Suc j. base < sz / base ^ l"
    proof (intro allI impI)
      fix l assume "l < Suc j"
      with j(4) True show "base < sz / base ^ l" by (cases l) (auto simp: field_simps)
    qed
    with j True n show ?thesis by (intro exI [of _ "Suc j"]) (auto simp: field_simps)
  next
    case False
    with n show ?thesis by (intro exI [of _ 0]) auto
  qed
qed

lemma pow_above: "(of_nat s :: rat) \<le> 1024 ^ Suc s"
proof -
  have "s < 2 ^ s" by (rule less_exp)
  also have "(2 :: nat) ^ s \<le> 1024 ^ Suc s" by (rule order_trans [OF power_mono [of 2 1024 s]]) auto
  finally have "of_nat s \<le> (of_nat (1024 ^ Suc s) :: rat)" by (simp only: of_nat_le_iff)
  then show ?thesis by simp
qed

lemma blkio_stat_read:
  assumes "reliable w"
    and "files w (cg_path dir file) =
      Some (unlines (map blkio_line es @ [''Total '' @ show_word (tot :: u64)]))"
    and "\<forall>e \<in> set es. CHR '' '' \<notin> set (be_op e) \<and> nl \<notin> set (be_op e)"
  shows "get_blkio_stat dir file w = (Ok es, w\<lparr>hist := hist w @ [FsRead (cg_path dir file)]\<rparr>)"
proof -
  let ?ls = "map blkio_line es @ [''Total '' @ show_word tot]"
  have "number_line (''Total '' @ show_word tot)" by (rule number_lineI) (simp add: nl_def)
  then have "lines (unlines ?ls) = ?ls"
    using assms(3) blkio_line_number by (intro lines_unlines_numbers) auto
  moreover have "collect_res parse_blkio_line (map blkio_line es) = Ok (map Some es)"
    using assms(3) by (intro collect_res_map) (simp add: parse_blkio_line_show)
  moreover have "parse_blkio_line (''Total '' @ show_word tot) = Ok None"
    using split_two [of "CHR '' ''" "''Total''" "show_word tot"]
    by (simp add: parse_blkio_line_def lower_total)
  ultimately show ?thesis
    using assms(1,2) by (simp add: get_blkio_stat_def reliable_read collect_res_append
        map_filter_total)
qed


section \<open>Properties\<close>

text \<open>Reading a file of \<open>key value\<close> lines, as the kernel prints \<open>cpu.stat\<close>, \<open>cpuacct.stat\<close> and
  \<open>memory.stat\<close>, gives back the map that was printed, the last line of a key winning.\<close>
lemma key_u64_roundtrip:
  assumes "reliable w" and "files w (cg_path dir file) = Some (unlines (map kv_line kvs))"
    and "\<forall>k \<in> set (map fst kvs). CHR '' '' \<notin> set k \<and> nl \<notin> set k"
  shows "get_param_key_u64 dir file w =
     (Ok (map_of (rev kvs)), w\<lparr>hist := hist w @ [FsRead (cg_path dir file)]\<rparr>)"
proof -
  have "lines (unlines (map kv_line kvs)) = map kv_line kvs"
    by (rule lines_unlines_numbers) (use assms(3) kv_line_number in auto)
  with assms show ?thesis
    by (simp add: get_param_key_u64_def reliable_read parse_kv_lines)
qed


lemma key_u64_roundtrip_witness:
  "fst (get_param_key_u64 ''/cg'' ''cpu.stat'' (quiet\<lparr>files := [''/cg/cpu.stat'' \<mapsto>
     unlines (map kv_line [(''nr_periods'', 7), (''nr_throttled'', 2)])]\<rparr>))
   = Ok (map_of (rev [(''nr_periods'', 7), (''nr_throttled'', 2)]))"
  by (subst key_u64_roundtrip [of _ "''/cg''" "''cpu.stat''" "[(''nr_periods'', 7), (''nr_throttled'', 2)]"])
    (auto simp: reliable_def quiet_def cg_path_def nl_def)

text \<open>The block I/O statistics: a file of the kernel's lines \<open>major:minor op value\<close> closed by the
  line \<open>Total n\<close> is read back as exactly its entries, in order, without the total.\<close>
lemma blkio_stat_roundtrip:
  assumes "reliable w"
    and "files w (cg_path dir file) =
      Some (unlines (map blkio_line es @ [''Total '' @ show_word (tot :: u64)]))"
    and "\<forall>e \<in> set es. CHR '' '' \<notin> set (be_op e) \<and> nl \<notin> set (be_op e)"
  shows "get_blkio_stat dir file w = (Ok es, w\<lparr>hist := hist w @ [FsRead (cg_path dir file)]\<rparr>)"
  by (rule blkio_stat_read [OF assms])

definition one_disk :: world where
  "one_disk = quiet\<lparr>files := [''/cg/blkio.io_serviced_recursive'' \<mapsto>
       unlines (map blkio_line [\<lparr>be_major = 8, be_minor = 0, be_op = ''Read'', be_value = 12\<rparr>]
         @ [''Total '' @ show_word (12 :: u64)]),
     ''/cg/blkio.sectors_recursive'' \<mapsto> ''8:0 '' @ show_word (96 :: u64) @ [nl]]\<rparr>"

lemma reliable_one_disk: "reliable one_disk"
  by (simp add: reliable_def one_disk_def quiet_def)

lemma one_disk_served:
  "fst (get_blkio_stat ''/cg'' ''blkio.io_serviced_recursive'' one_disk)
     = Ok [\<lparr>be_major = 8, be_minor = 0, be_op = ''Read'', be_value = 12\<rparr>]"
  by (subst blkio_stat_read [OF reliable_one_disk, where tot = 12])
    (auto simp: one_disk_def cg_path_def nl_def)

lemma blkio_stat_roundtrip_witness:
  "fst (get_blkio_stat ''/cg'' ''blkio.io_serviced_recursive'' one_disk)
     = Ok [\<lparr>be_major = 8, be_minor = 0, be_op = ''Read'', be_value = 12\<rparr>]"
  by (subst blkio_stat_roundtrip [OF reliable_one_disk, where tot = 12])
    (auto simp: one_disk_def cg_path_def nl_def)

text \<open>On a kernel with the CFQ scheduler the statistics fail: the file of served requests has
  entries, so the code reads \<open>blkio.sectors_recursive\<close>, whose lines have the two fields
  \<open>major:minor n\<close>; the parser refuses every two-field line but the total, so the call ends in
  EINVAL.\<close>
lemma blkio_cfq_stats_fail:
  assumes "reliable w"
    and "fst (get_blkio_stat dir ''blkio.io_serviced_recursive'' w) = Ok (e # es)"
    and "files w (cg_path dir ''blkio.sectors_recursive'') = Some (dev @ '' '' @ show_word (n :: u64) @ [nl])"
    and "CHR '' '' \<notin> set dev" "nl \<notin> set dev" "to_lowercase dev \<noteq> ''total''"
  shows "fst (blkio_get_stats dir w) = Err (Nix EINVAL)"
proof -
  obtain w1 where r: "get_blkio_stat dir ''blkio.io_serviced_recursive'' w = (Ok (e # es), w1)"
    using assms(2) by (metis prod.collapse)
  have w1: "w1 = w\<lparr>hist := hist w @ [FsRead (cg_path dir ''blkio.io_serviced_recursive'')]\<rparr>"
    using r assms(1) by (auto simp: get_blkio_stat_def reliable_read bindR_Ok_iff)
  have "number_line (dev @ '' '' @ show_word n)"
    using number_lineI [of "dev @ '' ''" "unat n"] assms(5) by (simp add: nl_def)
  then have "lines (unlines [dev @ '' '' @ show_word n]) = [dev @ '' '' @ show_word n]"
    by (intro lines_unlines_numbers) simp
  then have "lines (dev @ '' '' @ show_word n @ [nl]) = [dev @ '' '' @ show_word n]"
    by (simp add: unlines_def)
  moreover have "parse_blkio_line (dev @ '' '' @ show_word n) = Err (Nix EINVAL)"
    using assms(4,6) by (simp add: parse_blkio_line_def split_two)
  moreover have "reliable w1" "files w1 = files w" using w1 assms(1) by (simp_all add: reliable_def)
  ultimately have "fst (get_blkio_stat dir ''blkio.sectors_recursive'' w1) = Err (Nix EINVAL)"
    using assms(3) by (simp add: get_blkio_stat_def reliable_read)
  then show ?thesis using r by (cases "get_blkio_stat dir ''blkio.sectors_recursive'' w1")
      (simp add: blkio_get_stats_def)
qed

lemma blkio_cfq_stats_fail_witness: "fst (blkio_get_stats ''/cg'' one_disk) = Err (Nix EINVAL)"
  by (rule blkio_cfq_stats_fail [OF reliable_one_disk one_disk_served, where dev = "''8:0''" and n = 96])
    (auto simp: one_disk_def cg_path_def nl_def to_lowercase_def lower_char_def)



end
