(* ===== verification/Cgroup_Manager.thy ===== *)
theory Cgroup_Manager
  imports Cgroup_Stats State
begin

text \<open>
  \<open>rustjail/src/cgroups/fs/mod.rs\<close>: the parsers of \<open>/proc/self/cgroup\<close> and
  \<open>/proc/self/mountinfo\<close> and the \<open>Manager\<close>. The maps that the manager iterates over are
  association lists with distinct keys: the list order stands for the iteration order of the
  \<open>HashMap\<close>, which is any order.
\<close>

section \<open>Parsers\<close>

fun parse_paths :: "string list \<Rightarrow> (string \<times> string) list \<Rightarrow> (string \<times> string) list" where
  "parse_paths [] m = m"
| "parse_paths (l # ls) m = (case split_on CHR '':'' l of
     [_, keys, path] \<Rightarrow>
       parse_paths ls (fold (\<lambda>key m. AList.update key path m) (split_on CHR '','' keys) m)
   | _ \<Rightarrow> parse_paths ls m)"

definition get_paths :: "(string \<times> string) list io" where
  "get_paths = bindR (fs_read ''/proc/self/cgroup'') (\<lambda>c. ret (parse_paths (lines c) []))"

definition add_mount :: "(string \<times> string) list \<Rightarrow> string list \<Rightarrow> string
    \<Rightarrow> (string \<times> string) list res \<Rightarrow> (string \<times> string) list res" where
  "add_mount paths pre name r = bind_res r (\<lambda>m.
     if map_of paths name = None then Ok m
     else if length pre \<le> 4 then Panic
     else Ok (AList.update name (pre ! 4) m))"

definition parse_mount_line :: "(string \<times> string) list \<Rightarrow> string \<Rightarrow> (string \<times> string) list
    \<Rightarrow> (string \<times> string) list res" where
  "parse_mount_line paths l m =
     (let p = split_str '' - '' l
      in if length p < 2 then Panic
         else let pre = split_on CHR '' '' (p ! 0); post = split_on CHR '' '' (p ! 1)
              in if length post \<noteq> 3 then Ok m
                 else if post ! 0 \<noteq> ''cgroup'' \<and> post ! 0 \<noteq> ''cgroup2'' then Ok m
                 else fold (add_mount paths pre) (split_on CHR '','' (post ! 2)) (Ok m))"

fun parse_mounts :: "(string \<times> string) list \<Rightarrow> string list \<Rightarrow> (string \<times> string) list
    \<Rightarrow> (string \<times> string) list res" where
  "parse_mounts paths [] m = Ok m"
| "parse_mounts paths (l # ls) m = bind_res (parse_mount_line paths l m) (parse_mounts paths ls)"

definition get_mounts :: "(string \<times> string) list io" where
  "get_mounts = bindR get_paths (\<lambda>paths. bindR (fs_read ''/proc/self/mountinfo'')
     (\<lambda>c. liftR (parse_mounts paths (lines c) [])))"

definition get_procs :: "string \<Rightarrow> int list io" where
  "get_procs dir = bindR (fs_read (cg_path dir ''cgroup.procs''))
     (\<lambda>c. liftR (collect_res (\<lambda>l. parse_i32 (trim l)) (lines c)))"

text \<open>
  The walk over the cgroup tree; \<open>fuel\<close> bounds its depth. A directory's entries come in the order
  of \<open>read_dir\<close>, and the first \<open>cgroup.procs\<close> found ends the walk of its directory.
\<close>

fun get_all_procs :: "nat \<Rightarrow> string \<Rightarrow> int list io"
  and walk_procs :: "nat \<Rightarrow> string \<Rightarrow> string list \<Rightarrow> int list \<Rightarrow> int list io" where
  "get_all_procs 0 dir = hangR"
| "get_all_procs (Suc n) dir = bindR (fs_read_dir dir) (\<lambda>names. walk_procs n dir names [])"
| "walk_procs n dir [] m = ret m"
| "walk_procs n dir (name # names) m =
     (let path = cg_path dir name
      in bindR (path_is_dir path) (\<lambda>d.
         bindR (if d then bindR (get_all_procs n path) (\<lambda>ps. ret (m @ ps)) else ret m) (\<lambda>m'.
         bindR (path_is_file path) (\<lambda>f.
         if f \<and> name = ''cgroup.procs'' then bindR (get_procs dir) (\<lambda>ps. ret (m' @ ps))
         else walk_procs n dir names m'))))"

section \<open>The manager\<close>

definition manager_apply :: "Manager \<Rightarrow> int \<Rightarrow> unit io" where
  "manager_apply m pid = for_each (m_paths m) (\<lambda>(key, value). apply_cg value pid)"

definition manager_set :: "Manager \<Rightarrow> g_LinuxResources \<Rightarrow> bool \<Rightarrow> unit io" where
  "manager_set m spec update = for_each (m_paths m) (\<lambda>(key, value).
     thenR (ignoreR (fs_create_dir_all value))
       (bindR (liftR (get_subsystem key)) (\<lambda>sub. subsystem_set sub value spec update)))"

record CgroupStats =
  cpu_stats :: "CpuStats option"
  memory_stats :: "MemoryStats option"
  pids_stats :: "PidsStats option"
  blkio_stats :: "BlkioStats option"
  hugetlb_stats :: "string \<Rightarrow> HugetlbStats option"

text \<open>A subsystem without a path has no statistics.\<close>

definition stats_of :: "Manager \<Rightarrow> string \<Rightarrow> (string \<Rightarrow> 'a io) \<Rightarrow> 'a option io" where
  "stats_of m key get = (case map_of (m_paths m) key of None \<Rightarrow> ret None
     | Some dir \<Rightarrow> bindR (get dir) (\<lambda>s. ret (Some s)))"

definition manager_get_stats :: "(u64 \<Rightarrow> u64) \<Rightarrow> string list \<Rightarrow> Manager \<Rightarrow> CgroupStats io" where
  "manager_get_stats ticks pagesizes m =
     bindR (stats_of m ''cpuacct'' (cpuacct_get_stats ticks)) (\<lambda>cu.
     bindR (stats_of m ''cpu'' cpu_get_stats) (\<lambda>td.
     bindR (stats_of m ''memory'' memory_get_stats) (\<lambda>me.
     bindR (stats_of m ''pids'' pids_get_stats) (\<lambda>pd.
     bindR (stats_of m ''blkio'' blkio_get_stats) (\<lambda>bl.
     bindR (case map_of (m_paths m) ''hugetlb'' of None \<Rightarrow> ret Map.empty
            | Some dir \<Rightarrow> hugetlb_get_stats pagesizes dir) (\<lambda>hg.
     ret \<lparr>cpu_stats = (if cu = None \<and> td = None then None
            else Some \<lparr>cpu_usage = cu, throttling_data = td\<rparr>),
          memory_stats = me, pids_stats = pd, blkio_stats = bl, hugetlb_stats = hg\<rparr>))))))"

definition manager_freeze :: "Manager \<Rightarrow> string \<Rightarrow> unit io" where
  "manager_freeze m state =
     (if state = ''THAWED'' \<or> state = ''FROZEN'' then
        (case map_of (m_paths m) ''freezer'' of None \<Rightarrow> ret ()
         | Some dir \<Rightarrow> write_file dir ''freezer.state'' state)
      else if state \<noteq> [] then throw (Nix EINVAL)
      else ret ())"

text \<open>\<open>destroy\<close> takes the manager by mutable reference: the result is the manager afterwards.\<close>

definition manager_destroy :: "Manager \<Rightarrow> world \<Rightarrow> unit res \<times> Manager \<times> world" where
  "manager_destroy m w = (case for_each (m_paths m) (\<lambda>(_, d). remove_cg d) w of
     (Ok _, w') \<Rightarrow> (Ok (), m\<lparr>m_paths := []\<rparr>, w')
   | (r, w') \<Rightarrow> (r, m, w'))"

definition manager_get_pids :: "Manager \<Rightarrow> int list io" where
  "manager_get_pids m = (case map_of (m_paths m) ''devices'' of
     None \<Rightarrow> throw (ErrorCode ''no devices cgroup'') | Some dir \<Rightarrow> get_procs dir)"

definition manager_get_all_pids :: "nat \<Rightarrow> Manager \<Rightarrow> int list io" where
  "manager_get_all_pids fuel m = (case map_of (m_paths m) ''devices'' of
     None \<Rightarrow> throw (ErrorCode ''no devices cgroup'') | Some dir \<Rightarrow> get_all_procs fuel dir)"

text \<open>The path of one controller below its mount point.\<close>

definition controller_path :: "string \<Rightarrow> string \<Rightarrow> string \<Rightarrow> string" where
  "controller_path mnt rel cpath = (if rel = ''/'' then mnt @ cpath else mnt @ rel @ cpath)"

definition join_paths :: "(string \<times> string) list \<Rightarrow> (string \<times> string) list \<Rightarrow> string
    \<Rightarrow> (string \<times> string) list" where
  "join_paths paths mounts cpath = fold (\<lambda>(key, value) m. case map_of mounts key of
       None \<Rightarrow> m | Some mnt \<Rightarrow> AList.update key (controller_path mnt value cpath) m) paths []"

definition manager_new :: "string \<Rightarrow> Manager io" where
  "manager_new cpath =
     (if \<not> prefix ''/'' cpath then throw (Nix EINVAL)
      else bindR get_paths (\<lambda>paths. bindR get_mounts (\<lambda>mounts.
        ret \<lparr>m_paths = join_paths paths mounts cpath, m_mounts = mounts, m_rels = paths,
             m_cpath = cpath\<rparr>)))"

text \<open>The loops of \<open>update_cpuset_path\<close>: each named component extends the directory.\<close>

fun write_cpuset_down :: "string \<Rightarrow> string list \<Rightarrow> string \<Rightarrow> string io" where
  "write_cpuset_down dir [] cpuset = ret dir"
| "write_cpuset_down dir (d # ds) cpuset =
     (if d = [] then write_cpuset_down dir ds cpuset
      else let dir' = dir @ ''/'' @ d
           in thenR (write_file dir' ''cpuset.cpus'' cpuset) (write_cpuset_down dir' ds cpuset))"

definition update_cpuset_path :: "Manager \<Rightarrow> string \<Rightarrow> unit io" where
  "update_cpuset_path m cpuset = (case map_of (m_mounts m) ''cpuset'' of
     None \<Rightarrow> throw (Nix ENOENT)
   | Some mnt \<Rightarrow> (case map_of (m_rels m) ''cpuset'' of
       None \<Rightarrow> throw (Nix ENOENT)
     | Some rels \<Rightarrow> bindR (write_cpuset_down mnt (split_on CHR ''/'' rels) cpuset) (\<lambda>dir.
         bindR (write_cpuset_down dir (split_on CHR ''/'' (m_cpath m)) cpuset) (\<lambda>_. ret ()))))"

definition get_guest_cpuset :: "string io" where
  "get_guest_cpuset = bindR get_mounts (\<lambda>m. case map_of m ''cpuset'' of
     None \<Rightarrow> throw (Nix ENOENT) | Some dir \<Rightarrow> get_param_string dir ''cpuset.cpus'')"

section \<open>Lemmas\<close>

lemma fold_update_distinct [simp]:
  "distinct (map fst m) \<Longrightarrow> distinct (map fst (fold (\<lambda>key. AList.update key path) ks m))"
  by (induction ks arbitrary: m) (auto simp: distinct_update)

lemma parse_paths_distinct: "distinct (map fst m) \<Longrightarrow> distinct (map fst (parse_paths ls m))"
  by (induction ls m rule: parse_paths.induct) (auto split: list.split)

lemma get_paths_distinct: "get_paths w = (Ok p, w') \<Longrightarrow> distinct (map fst p)"
  by (auto simp: get_paths_def bindR_Ok_iff intro!: parse_paths_distinct)

definition join_step :: "(string \<times> string) list \<Rightarrow> string \<Rightarrow> string \<times> string
    \<Rightarrow> (string \<times> string) list \<Rightarrow> (string \<times> string) list" where
  "join_step mounts cpath kv m = (case map_of mounts (fst kv) of
     None \<Rightarrow> m | Some mnt \<Rightarrow> AList.update (fst kv) (controller_path mnt (snd kv) cpath) m)"

lemma join_paths_step: "join_paths paths mounts cpath = fold (join_step mounts cpath) paths []"
  by (simp add: join_paths_def join_step_def [abs_def] case_prod_beta')

lemma fold_join:
  assumes "distinct (map fst paths)"
  shows "map_of (fold (join_step mounts cpath) paths m) key =
    (case (map_of paths key, map_of mounts key) of
       (Some v, Some mnt) \<Rightarrow> Some (controller_path mnt v cpath) | _ \<Rightarrow> map_of m key)"
  using assms
proof (induction paths arbitrary: m)
  case (Cons kv paths)
  have "map_of (join_step mounts cpath kv m) k = (case map_of mounts (fst kv) of
      Some mnt \<Rightarrow> if k = fst kv then Some (controller_path mnt (snd kv) cpath) else map_of m k
    | None \<Rightarrow> map_of m k)" for k
    by (simp add: join_step_def update_conv' split: option.split)
  moreover have "map_of paths (fst kv) = None" using Cons.prems by (simp add: map_of_eq_None_iff)
  ultimately show ?case
    using Cons by (cases kv) (auto split: option.splits)
qed (auto split: option.split)

lemma fold_join_distinct:
  "distinct (map fst m) \<Longrightarrow> distinct (map fst (fold (join_step mounts cpath) paths m))"
  by (induction paths arbitrary: m) (auto simp: join_step_def distinct_update split: option.split)

text \<open>The directories on the way down from \<open>dir\<close> along a list of names.\<close>

fun nested :: "string \<Rightarrow> string list \<Rightarrow> string list" where
  "nested dir [] = []"
| "nested dir (d # ds) = (dir @ ''/'' @ d) # nested (dir @ ''/'' @ d) ds"

abbreviation names :: "string \<Rightarrow> string list" where
  "names path \<equiv> filter (\<lambda>d. d \<noteq> []) (split_on CHR ''/'' path)"

lemma nested_append: "nested dir (xs @ ys) = nested dir xs @ nested (last (dir # nested dir xs)) ys"
  by (induction xs arbitrary: dir) auto

lemma write_cpuset_down_reliable:
  assumes "reliable w"
  shows "\<exists>w'. write_cpuset_down dir ds cpuset w =
      (Ok (last (dir # nested dir (filter (\<lambda>d. d \<noteq> []) ds))), w') \<and> reliable w'
    \<and> hist w' = hist w @ map (\<lambda>d. FsWrite (cg_path d ''cpuset.cpus'') cpuset)
        (nested dir (filter (\<lambda>d. d \<noteq> []) ds))"
  using assms
proof (induction ds arbitrary: dir w)
  case (Cons d ds)
  show ?case
  proof (cases "d = []")
    case False
    let ?w = "w\<lparr>hist := hist w @ [FsWrite (cg_path (dir @ ''/'' @ d) ''cpuset.cpus'') cpuset],
      files := (files w)(cg_path (dir @ ''/'' @ d) ''cpuset.cpus'' \<mapsto> cpuset)\<rparr>"
    have "reliable ?w" using Cons.prems by (simp add: reliable_def)
    from Cons.IH [OF this, of "dir @ ''/'' @ d"] False Cons.prems show ?thesis
      by (auto simp: Let_def write_file_reliable)
  qed (use Cons in simp)
qed simp

section \<open>Properties\<close>

text \<open>C25: a new manager has exactly one path for each controller that is both in
  \<open>/proc/self/cgroup\<close> and mounted: the mount point, the process's own path unless that is the
  root, and the cgroup path, which must be absolute.\<close>
theorem manager_new_paths:
  assumes "manager_new cpath w = (Ok m, w')"
  shows "prefix ''/'' cpath \<and> m_cpath m = cpath \<and> distinct (map fst (m_paths m))
    \<and> map_of (m_paths m) key = (case (map_of (m_rels m) key, map_of (m_mounts m) key) of
        (Some v, Some mnt) \<Rightarrow> Some (controller_path mnt v cpath) | _ \<Rightarrow> None)"
proof -
  from assms obtain paths mounts w1 where abs: "prefix ''/'' cpath" and
    p: "get_paths w = (Ok paths, w1)" and
    m: "m = \<lparr>m_paths = join_paths paths mounts cpath, m_mounts = mounts, m_rels = paths,
             m_cpath = cpath\<rparr>"
    by (auto simp: manager_new_def bindR_Ok_iff split: if_splits)
  have "distinct (map fst paths)" by (rule get_paths_distinct [OF p])
  with abs m show ?thesis
    by (auto simp: join_paths_step fold_join fold_join_distinct split: option.split)
qed

definition cpuset_mounted :: world where
  "cpuset_mounted = quiet\<lparr>files := [''/proc/self/cgroup'' \<mapsto> ''2:cpuset:/a'',
     ''/proc/self/mountinfo'' \<mapsto> ''1 2 0:2 / /cg rw - cgroup cgroup rw,cpuset'']\<rparr>"

definition cpuset_manager :: Manager where
  "cpuset_manager = \<lparr>m_paths = [(''cpuset'', ''/cg/a/kata'')], m_mounts = [(''cpuset'', ''/cg'')],
     m_rels = [(''cpuset'', ''/a'')], m_cpath = ''/kata''\<rparr>"

lemma cpuset_manager_new: "\<exists>w'. manager_new ''/kata'' cpuset_mounted = (Ok cpuset_manager, w')"
  by (simp add: manager_new_def get_paths_def get_mounts_def reliable_read reliable_def
      cpuset_mounted_def quiet_def lines_def nl_def strip_cr_def parse_mount_line_def split_str_def
      add_mount_def Let_def join_paths_def cpuset_manager_def controller_path_def)

lemma manager_new_paths_witness: "map_of (m_paths cpuset_manager) ''cpuset'' = Some ''/cg/a/kata''"
proof -
  obtain w' where "manager_new ''/kata'' cpuset_mounted = (Ok cpuset_manager, w')"
    using cpuset_manager_new by blast
  from manager_new_paths [OF this, of "''cpuset''"] show ?thesis
    by (simp add: cpuset_manager_def controller_path_def)
qed

text \<open>\<open>apply\<close> puts the process into the cgroup of every controller: when it succeeds, on any
  kernel, each controller's \<open>cgroup.procs\<close> was written with the process id and no other file
  changed.\<close>
lemma manager_apply_all:
  assumes "manager_apply m pid w = (Ok (), w')"
  shows "(\<forall>dir \<in> snd ` set (m_paths m). files w' (cg_path dir ''cgroup.procs'') = Some (show_int pid))
    \<and> (\<forall>q. q \<notin> (\<lambda>dir. cg_path dir ''cgroup.procs'') ` snd ` set (m_paths m) \<longrightarrow> files w' q = files w q)"
proof -
  let ?pcs = "map (\<lambda>kv. (cg_path (snd kv) ''cgroup.procs'', show_int pid)) (m_paths m)"
  have "for_each ?pcs (\<lambda>(p, c). fs_write p c) w = (Ok (), w')"
    using assms by (simp add: manager_apply_def apply_cg_def write_file_def for_each_def comp_def case_prod_beta')
  then have f: "files w' = files w ++ map_of (rev ?pcs)" by (rule fs.writes_look)
  have none: "map_of (rev ?pcs) q = None \<longleftrightarrow> q \<notin> (\<lambda>dir. cg_path dir ''cgroup.procs'') ` snd ` set (m_paths m)" for q
    by (simp add: map_of_eq_None_iff image_image)
  have v: "map_of (rev ?pcs) q = Some c \<Longrightarrow> c = show_int pid" for q c
    by (drule map_of_SomeD) auto
  have "files w' (cg_path dir ''cgroup.procs'') = Some (show_int pid)" if "dir \<in> snd ` set (m_paths m)" for dir
    using f v none [of "cg_path dir ''cgroup.procs''"] that
    by (cases "map_of (rev ?pcs) (cg_path dir ''cgroup.procs'')") (auto simp: map_add_def)
  moreover have "files w' q = files w q"
    if "q \<notin> (\<lambda>dir. cg_path dir ''cgroup.procs'') ` snd ` set (m_paths m)" for q
    using f none [of q] that by (simp add: map_add_def)
  ultimately show ?thesis by blast
qed

lemma manager_apply_all_witness:
  "\<exists>w'. manager_apply cpuset_manager 42 quiet = (Ok (), w')
     \<and> files w' ''/cg/a/kata/cgroup.procs'' = Some ''42''"
proof -
  obtain w' where run: "manager_apply cpuset_manager 42 quiet = (Ok (), w')"
    by (simp add: manager_apply_def cpuset_manager_def apply_cg_def write_file_reliable)
  from manager_apply_all [OF this] run show ?thesis
    by (auto simp: cpuset_manager_def cg_path_def show_eval)
qed

text \<open>\<open>update_cpuset_path\<close> gives the new CPU list to every directory from the top of the cpuset
  hierarchy down to the sandbox's cgroup, each directory after the one that contains it (a child's
  list must be a subset of its parent's).\<close>
lemma update_cpuset_path_order:
  assumes "reliable w" "map_of (m_mounts m) ''cpuset'' = Some mnt"
    and "map_of (m_rels m) ''cpuset'' = Some rels"
  shows "\<exists>w'. update_cpuset_path m cpuset w = (Ok (), w') \<and> hist w' = hist w @
     map (\<lambda>d. FsWrite (cg_path d ''cpuset.cpus'') cpuset) (nested mnt (names rels @ names (m_cpath m)))"
proof -
  let ?dir = "last (mnt # nested mnt (names rels))"
  obtain w1 where w1: "write_cpuset_down mnt (split_on CHR ''/'' rels) cpuset w = (Ok ?dir, w1)"
    "reliable w1" "hist w1 = hist w @ map (\<lambda>d. FsWrite (cg_path d ''cpuset.cpus'') cpuset)
        (nested mnt (names rels))"
    using write_cpuset_down_reliable [OF assms(1)] by blast
  obtain w2 d where "write_cpuset_down ?dir (split_on CHR ''/'' (m_cpath m)) cpuset w1 = (Ok d, w2)"
    "hist w2 = hist w1 @ map (\<lambda>d. FsWrite (cg_path d ''cpuset.cpus'') cpuset)
        (nested ?dir (names (m_cpath m)))"
    using write_cpuset_down_reliable [OF w1(2)] by blast
  with w1 assms show ?thesis
    by (simp add: update_cpuset_path_def nested_append del: last.simps)
qed

lemma update_cpuset_path_order_witness:
  "\<exists>w'. update_cpuset_path cpuset_manager ''0-1'' quiet = (Ok (), w') \<and> hist w' =
     [FsWrite ''/cg/a/cpuset.cpus'' ''0-1'', FsWrite ''/cg/a/kata/cpuset.cpus'' ''0-1'']"
  using update_cpuset_path_order [OF reliable_quiet, of cpuset_manager "''/cg''" "''/a''" "''0-1''"]
  by (auto simp: cpuset_manager_def quiet_def cg_path_def)

text \<open>\<open>set\<close> succeeds only when every controller of the manager is one that the code knows: any
  other mounted controller (\<open>rdma\<close>, \<open>misc\<close>) makes it fail with EINVAL.\<close>
lemma manager_set_known:
  assumes "manager_set m spec update w = (Ok (), w')"
  shows "\<forall>key \<in> fst ` set (m_paths m). \<exists>s. key = subsystem_name s"
proof -
  have "\<exists>s. key = subsystem_name s" if "for_each kvs (\<lambda>(key, value).
     thenR (ignoreR (fs_create_dir_all value))
       (bindR (liftR (get_subsystem key)) (\<lambda>sub. subsystem_set sub value spec update))) w = (Ok (), w')"
    "key \<in> fst ` set kvs" for kvs key w
    using that
  proof (induction kvs arbitrary: w)
    case (Cons kv kvs)
    then show ?case
      by (cases kv) (auto simp: thenR_Ok_iff bindR_Ok_iff dest: get_subsystem_Ok)
  qed simp
  with assms show ?thesis by (auto simp: manager_set_def)
qed

lemma manager_set_known_witness:
  "\<exists>w'. manager_set cpuset_manager shares_only True quiet = (Ok (), w')
     \<and> (\<exists>s. ''cpuset'' = subsystem_name s)"
proof -
  obtain w' where run: "manager_set cpuset_manager shares_only True quiet = (Ok (), w')"
    by (simp add: manager_set_def cpuset_manager_def shares_only_def get_subsystem_def cpuset_set_def
        fs_create_dir_all_def io_sys_def sys_with_def quiet_def thenR_def bindR_def ignoreR_def
        try_write_file_def write_file_def fs_write_def Let_def)
  from manager_set_known [OF run] run show ?thesis by (auto simp: cpuset_manager_def)
qed

end
