(* ===== verification/Container_Ops.thy ===== *)
theory Container_Ops
  imports Jail_Mount Capabilities Cgroup_Manager
begin

text \<open>
  The operations of \<open>rustjail/src/container.rs\<close> and \<open>process.rs\<close> that one process runs by itself:
  making a container and a process, the namespaces to enter, the pieces of the start-up of a child
  (limits, ids, mappings, standard streams, kernel parameters, the final \<open>exec\<close>), hooks, and the
  operations on a container that runs. The start-up itself, where three processes talk over pipes,
  is \<open>Join_Sync\<close>. A file descriptor is an integer; hash maps are association lists in iteration order.
\<close>

section \<open>Pairs of descriptors\<close>

text \<open>A call that makes two descriptors: the kernel's answer is asked for twice.\<close>

definition nix_pair :: "sysop \<Rightarrow> (int \<times> int) io" where
  "nix_pair p = (\<lambda>w. let h = hist w @ [p]; w' = w\<lparr>hist := h\<rparr> in
     case kernel w (hist w) p of Inl e \<Rightarrow> (Err (Nix e), w')
     | Inr a \<Rightarrow> (Ok (a, case kernel w h p of Inr b \<Rightarrow> b | Inl _ \<Rightarrow> 0), w'))"

abbreviation proc_do :: "procop \<Rightarrow> unit io" where
  "proc_do p \<equiv> nix_do (SysProc p)"

section \<open>Processes\<close>

definition process_new :: "g_Process \<Rightarrow> string \<Rightarrow> bool \<Rightarrow> Process io" where
  "process_new ocip i init =
     bindR (if pr_Terminal ocip then bindR (nix_pair (SysProc (SysSocketpair ''console'')))
         (\<lambda>(ps, cs). ret (Some ps, Some cs)) else ret (None, None)) (\<lambda>(psocket, csocket).
     bindR (nix_pair (SysProc (SysPipe2 ''stdin''))) (\<lambda>(stdin, pstdin).
     bindR (nix_pair (SysProc (SysPipe2 ''stdout''))) (\<lambda>(pstdout, stdout).
     bindR (nix_pair (SysProc (SysPipe2 ''stderr''))) (\<lambda>(pstderr, stderr).
     ret \<lparr>exec_id = i, p_stdin = Some stdin, p_stdout = Some stdout, p_stderr = Some stderr,
       exit_pipe_r = None, exit_pipe_w = None, console_socket = csocket, term_master = None,
       parent_console_socket = psocket, parent_stdin = Some pstdin, parent_stdout = Some pstdout,
       parent_stderr = Some pstderr, p_init = init, p_pid = - 1, exit_code = 0, p_oci = ocip\<rparr>))))"

definition process_signal :: "Process \<Rightarrow> int \<Rightarrow> unit io" where
  "process_signal p sig = nix_do (SysKill (p_pid p) sig)"

section \<open>Namespaces\<close>

definition CLONE_NEWNS :: u64 where "CLONE_NEWNS = 0x20000"
definition CLONE_NEWCGROUP :: u64 where "CLONE_NEWCGROUP = 0x2000000"
definition CLONE_NEWUTS :: u64 where "CLONE_NEWUTS = 0x4000000"
definition CLONE_NEWIPC :: u64 where "CLONE_NEWIPC = 0x8000000"
definition CLONE_NEWUSER :: u64 where "CLONE_NEWUSER = 0x10000000"
definition CLONE_NEWPID :: u64 where "CLONE_NEWPID = 0x20000000"
definition CLONE_NEWNET :: u64 where "CLONE_NEWNET = 0x40000000"

lemmas clone_flags = CLONE_NEWNS_def CLONE_NEWCGROUP_def CLONE_NEWUTS_def CLONE_NEWIPC_def
  CLONE_NEWUSER_def CLONE_NEWPID_def CLONE_NEWNET_def

definition NAMESPACES :: "(string \<times> u64) list" where
  "NAMESPACES = [(''user'', CLONE_NEWUSER), (''ipc'', CLONE_NEWIPC), (''pid'', CLONE_NEWPID),
     (''network'', CLONE_NEWNET), (''mount'', CLONE_NEWNS), (''uts'', CLONE_NEWUTS),
     (''cgroup'', CLONE_NEWCGROUP)]"

definition TYPETONAME :: "string \<Rightarrow> string option" where
  "TYPETONAME = map_of [(''ipc'', ''ipc''), (''user'', ''user''), (''pid'', ''pid''),
     (''network'', ''net''), (''mount'', ''mnt''), (''cgroup'', ''cgroup''), (''uts'', ''uts'')]"

text \<open>\<open>/proc/<pid>/ns/<name>\<close>.\<close>

definition ns_file :: "int \<Rightarrow> string \<Rightarrow> string" where
  "ns_file pid name = ''/proc/'' @ show_int pid @ ''/ns/'' @ name"

fun exec_namespaces :: "int \<Rightarrow> int \<Rightarrow> string list \<Rightarrow> g_LinuxNamespace list io" where
  "exec_namespaces self_pid init_pid [] = ret []"
| "exec_namespaces self_pid init_pid (i # is) =
     bindR (liftR (unwrap (TYPETONAME i))) (\<lambda>name.
     bindR (fs_read_link (ns_file init_pid name)) (\<lambda>ns_path_buf.
     bindR (fs_read_link (ns_file self_pid name)) (\<lambda>init_ns_path_buf.
     bindR (exec_namespaces self_pid init_pid is) (\<lambda>ns.
     ret (if ns_path_buf \<noteq> init_ns_path_buf
       then \<lparr>ns_Type = i, ns_Path = ns_file init_pid name\<rparr> # ns else ns)))))"

text \<open>
  The first process of a container enters the namespaces of the specification, a later one those of
  the first in which it differs from the agent.
\<close>

definition get_namespaces :: "int \<Rightarrow> g_Linux \<Rightarrow> bool \<Rightarrow> int \<Rightarrow> g_LinuxNamespace list io" where
  "get_namespaces self_pid linux init init_pid =
     (if init then ret (map (\<lambda>i. \<lparr>ns_Type = ns_Type i, ns_Path = ns_Path i\<rparr>) (lx_Namespaces linux))
      else exec_namespaces self_pid init_pid (map fst NAMESPACES))"

record ns_plan =
  to_new :: u64
  to_join :: "(u64 \<times> int) list"
  pidns :: bool

text \<open>The loop of \<open>start\<close>: a namespace without a path is made new, one with a path is opened to be joined.\<close>

fun plan_namespaces :: "g_LinuxNamespace list \<Rightarrow> ns_plan \<Rightarrow> ns_plan io" where
  "plan_namespaces [] p = ret p"
| "plan_namespaces (n # ns) p = (case map_of NAMESPACES (ns_Type n) of
     None \<Rightarrow> throw (ErrorCode ''invalid ns type'')
   | Some s \<Rightarrow>
      bindR (if ns_Path n = [] then ret (p\<lparr>to_new := to_new p OR s\<rparr>)
          else bindR (nix_sys (FsOpen (ns_Path n) [])) (\<lambda>fd. ret (p\<lparr>to_join := to_join p @ [(s, fd)]\<rparr>)))
        (\<lambda>q. plan_namespaces ns (if s = CLONE_NEWPID then q\<lparr>pidns := True\<rparr> else q)))"

definition no_plan :: ns_plan where
  "no_plan = \<lparr>to_new = 0, to_join = [], pidns = False\<rparr>"

definition userns_of :: "ns_plan \<Rightarrow> bool" where
  "userns_of p = has_flags (to_new p) CLONE_NEWUSER"

section \<open>Pieces of the start-up\<close>

definition RLIMITMAPS :: "string \<Rightarrow> int option" where
  "RLIMITMAPS = map_of [(''RLIMIT_CPU'', 0), (''RLIMIT_FSIZE'', 1), (''RLIMIT_DATA'', 2), (''RLIMIT_STACK'', 3),
     (''RLIMIT_CORE'', 4), (''RLIMIT_RSS'', 5), (''RLIMIT_NPROC'', 6), (''RLIMIT_NOFILE'', 7),
     (''RLIMIT_MEMLOCK'', 8), (''RLIMIT_AS'', 9), (''RLIMIT_LOCKS'', 10), (''RLIMIT_SIGPENDING'', 11),
     (''RLIMIT_MSGQUEUE'', 12), (''RLIMIT_NICE'', 13), (''RLIMIT_RTPRIO'', 14), (''RLIMIT_RTTIME'', 15)]"

definition setrlimit :: "g_POSIXRlimit \<Rightarrow> unit io" where
  "setrlimit limit = (case RLIMITMAPS (rl_Type limit) of
     None \<Rightarrow> throw (Nix EINVAL)
   | Some rs \<Rightarrow> proc_do (SysSetrlimit rs (rl_Soft limit) (rl_Hard limit)))"

definition setgroups :: "u32 list \<Rightarrow> unit io" where
  "setgroups grps = proc_do (SysSetgroups grps)"

definition mapping_line :: "g_LinuxIDMapping \<Rightarrow> string" where
  "mapping_line m = show_word (im_ContainerID m) @ '' '' @ show_word (im_HostID m) @ '' ''
     @ show_word (im_Size m) @ [nl]"

definition mapping_data :: "g_LinuxIDMapping list \<Rightarrow> string" where
  "mapping_data maps = concat (map mapping_line (filter (\<lambda>m. im_Size m \<noteq> 0) maps))"

definition write_mappings :: "string \<Rightarrow> g_LinuxIDMapping list \<Rightarrow> unit io" where
  "write_mappings path maps = (let data = mapping_data maps
     in whenR (data \<noteq> []) (bindR (nix_sys (FsOpen path ''O_WRONLY'')) (\<lambda>fd.
          defer_close fd (nix_do (SysWrite fd data)))))"

definition keep_capabilities :: "bool \<Rightarrow> unit io" where
  "keep_capabilities b = catchR (proc_do (SysPrctl ''PR_SET_KEEPCAPS'' b))
     (\<lambda>_. throw (Msg ''set keep capabilities returned''))"

definition setid :: "string list \<Rightarrow> u32 \<Rightarrow> u32 \<Rightarrow> unit io" where
  "setid all_caps uid gid = run_all
     [keep_capabilities True,
      nix_do (SysOther ''setresgid'' (uint gid)),
      nix_do (SysOther ''setresuid'' (uint uid)),
      whenR (uid \<noteq> 0) (reset_effective all_caps),
      keep_capabilities False]"

definition dot_to_slash :: "string \<Rightarrow> string" where
  "dot_to_slash key = map (\<lambda>c. if c = CHR ''.'' then CHR ''/'' else c) key"

definition set_sysctl :: "string \<times> string \<Rightarrow> unit io" where
  "set_sysctl = (\<lambda>(key, value). let name = ''/proc/sys/'' @ dot_to_slash key
     in bindR (catchR (thenR (io_sys (FsOpen name ''rw'')) (ret True))
          (\<lambda>e. if e = Io ENOENT then ret False else throw e)) (\<lambda>there. whenR there (fs_write name value)))"

definition set_sysctls :: "(string \<times> string) list \<Rightarrow> unit io" where
  "set_sysctls sysctls = for_each sysctls set_sysctl"

text \<open>Standard streams of the child: a new terminal whose master goes to the agent, or the pipes.\<close>

definition fd_of :: "int option \<Rightarrow> int io" where
  "fd_of x = liftR (unwrap x)"

definition dup_stream :: "int option \<Rightarrow> int \<Rightarrow> unit io" where
  "dup_stream x n = bindR (fd_of x) (\<lambda>fd. proc_do (SysDup2 fd n))"

definition close_high :: "int option \<Rightarrow> unit io" where
  "close_high x = bindR (fd_of x) (\<lambda>fd. whenR (fd > 2) (nix_do (SysClose fd)))"

definition close_fd :: "int option \<Rightarrow> unit io" where
  "close_fd x = bindR (fd_of x) (\<lambda>fd. nix_do (SysClose fd))"

definition setup_console :: "Process \<Rightarrow> int \<Rightarrow> unit io" where
  "setup_console p console_fd = bindR (nix_pair (SysProc (SysPty ''open''))) (\<lambda>(master, slave).
     defer_close master (run_all [proc_do (SysSendmsg console_fd ''/dev/ptmx''),
       nix_do (SysClose console_fd), close_fd (parent_console_socket p),
       proc_do SysSetsid, ignoreR (proc_do (SysPty ''TIOCSCTTY'')),
       proc_do (SysDup2 slave 0), proc_do (SysDup2 slave 1), proc_do (SysDup2 slave 2),
       whenR (slave > 2) (nix_do (SysClose slave))]))"

definition setup_stdio :: "Process \<Rightarrow> unit io" where
  "setup_stdio p = run_all
     [(case console_socket p of Some console_fd \<Rightarrow> setup_console p console_fd
       | None \<Rightarrow> run_all [dup_stream (p_stdin p) 0, dup_stream (p_stdout p) 1, dup_stream (p_stderr p) 2,
           close_high (p_stdin p), close_high (p_stdout p), close_high (p_stderr p)]),
      close_fd (parent_stdin p), close_fd (parent_stdout p), close_fd (parent_stderr p)]"

section \<open>The last step of a child\<close>

text \<open>
  \<open>do_exec\<close>: the environment is emptied and set anew from the strings of the specification, each cut
  at the equals signs; the second piece is the value. \<open>set_var\<close> panics on an empty name and on a
  zero byte; so does \<open>CString::new(path).unwrap()\<close>, while an argument with one becomes empty. When
  \<open>execvp\<close> fails the child exits with -2.
\<close>

definition set_var :: "string \<Rightarrow> string \<Rightarrow> (string \<times> string) list \<Rightarrow> (string \<times> string) list res" where
  "set_var k v env = (if k = [] \<or> CHR 0x00 \<in> set k \<or> CHR 0x00 \<in> set v then Panic else Ok (AList.update k v env))"

fun set_env :: "string list \<Rightarrow> (string \<times> string) list \<Rightarrow> (string \<times> string) list res" where
  "set_env [] env = Ok env"
| "set_env (e # es) env = (case split_on CHR ''='' e of
     k # v # _ \<Rightarrow> bind_res (set_var k v env) (set_env es)
   | _ \<Rightarrow> Panic)"

datatype exec_end = Execed | ProcessExit int

definition c_args :: "string list \<Rightarrow> string list" where
  "c_args args = map (\<lambda>a. if CHR 0x00 \<in> set a then [] else a) args"

definition do_exec :: "string \<Rightarrow> string list \<Rightarrow> string list \<Rightarrow> exec_end io" where
  "do_exec path args env =
     (if CHR 0x00 \<in> set path then panicR
      else bindR (liftR (set_env env [])) (\<lambda>vars.
        catchR (thenR (proc_do (SysExec path (c_args args) vars)) (ret Execed)) (\<lambda>_. ret (ProcessExit (- 2)))))"

section \<open>Hooks\<close>

text \<open>
  A hook runs below a forked process that waits for it and sends its status through a pipe. What the
  program of the hook does is the parameter: it makes the waiting thread die (it cannot be started,
  it closes its input early) or ends after some seconds.
\<close>

datatype hook_end = HookExit nat | HookSignal int | HookWaitError

datatype hook_run = HookDies | HookEnds hook_end nat

definition ETIMEDOUT_number :: int where "ETIMEDOUT_number = 110"
definition EPIPE_number :: int where "EPIPE_number = 32"

text \<open>\<open>(c as u32 | 0x80000000) as i32\<close> for an exit code.\<close>

definition hook_code :: "hook_end \<Rightarrow> int" where
  "hook_code e = (case e of HookExit c \<Rightarrow> if c = 0 then 0 else sint ((of_nat c :: u32) OR 0x80000000)
     | HookSignal s \<Rightarrow> s | HookWaitError \<Rightarrow> 0)"

text \<open>
  The status the forked process sends. A thread that dies (so also a variable of the hook without an
  equals sign) makes it panic before it sends one; the agent holds the other end of the pipe open
  itself and goes on waiting.
\<close>

definition hook_env_ok :: "g_Hook \<Rightarrow> bool" where
  "hook_env_ok h \<longleftrightarrow> list_all (\<lambda>e. CHR ''='' \<in> set e) (hk_Env h)"

definition hook_status :: "(g_Hook \<Rightarrow> hook_run) \<Rightarrow> g_Hook \<Rightarrow> int option" where
  "hook_status runs h = (if \<not> hook_env_ok h then None else case runs h of HookDies \<Rightarrow> None
     | HookEnds e t \<Rightarrow> Some (if 0 < hk_Timeout h \<and> hk_Timeout h < int t then - ETIMEDOUT_number else hook_code e))"

definition hook_result :: "int \<Rightarrow> unit res" where
  "hook_result status = (if status = 0 then Ok () else if status = - ETIMEDOUT_number then Err (Nix ETIMEDOUT)
     else if status = - EPIPE_number then Err (Nix EPIPE) else Err (Nix UnknownErrno))"

definition execute_hook :: "(g_Hook \<Rightarrow> hook_run) \<Rightarrow> g_Hook \<Rightarrow> unit io" where
  "execute_hook runs h =
     bindR (fs_canonicalize (hk_Path h)) (\<lambda>path.
     bindR (path_exists path) (\<lambda>ex. if \<not> ex then throw (Nix EINVAL)
       else thenR (proc_do (SysPipe2 ''hook'')) (thenR (nix_do (SysHook path))
         (case hook_status runs h of None \<Rightarrow> hangR | Some status \<Rightarrow> liftR (hook_result status)))))"

section \<open>Making a container\<close>

text \<open>\<open>ids\<close> are the user and group of the agent, \<open>now\<close> the time in seconds.\<close>

definition container_new :: "u32 \<times> u32 \<Rightarrow> u64 \<Rightarrow> string \<Rightarrow> string \<Rightarrow> CreateOpts \<Rightarrow> LinuxContainer io" where
  "container_new ids now i base config =
     (let root = base @ ''/'' @ i
      in thenR (validate config)
        (thenR (catchR (fs_create_dir_all root) (\<lambda>e. throw (if e = Io EEXIST
            then Msg (''container '' @ i @ '' already exists'') else Msg (''fail to create container directory '' @ root))))
        (thenR (catchR (nix_do (SysChown root (fst ids) (snd ids)))
            (\<lambda>_. throw (Msg (''cannot change onwer of container '' @ i @ '' root''))))
        (case co_spec config of None \<Rightarrow> throw (Nix EINVAL)
         | Some spec \<Rightarrow> (case sp_Linux spec of None \<Rightarrow> throw (Nix EINVAL)
           | Some linux \<Rightarrow>
              bindR (manager_new (if lx_CgroupsPath linux = [] then ''/'' @ i else lx_CgroupsPath linux)) (\<lambda>cm.
              ret \<lparr>c_id = i, c_root = root, c_config = config, cgroup_manager = Some cm,
                init_process_pid = - 1, init_process_start_time = now, uid_map_path = [], gid_map_path = [],
                c_processes = [], c_status = Some ''stopped''\<rparr>))))))"

section \<open>Operations on a container\<close>

text \<open>An operation on a container: the container and the world are the state.\<close>

type_synonym 'a cact = "(LinuxContainer \<times> world, 'a) act"

definition osC :: "'a io \<Rightarrow> 'a cact" where
  "osC m = (\<lambda>(c, w). case m w of (r, w') \<Rightarrow> (r, (c, w')))"

definition getC :: "(LinuxContainer \<Rightarrow> 'a) \<Rightarrow> 'a cact" where
  "getC f = getsR (\<lambda>(c, w). f c)"

definition modC :: "(LinuxContainer \<Rightarrow> LinuxContainer) \<Rightarrow> unit cact" where
  "modC f = modifyR (\<lambda>(c, w). (f c, w))"

record OCIState =
  st_version :: string
  st_id :: string
  st_status :: string
  st_pid :: int
  st_bundle :: string
  st_annotations :: "(string \<times> string) list"

definition oci_state :: "LinuxContainer \<Rightarrow> OCIState io" where
  "oci_state c =
     bindR (liftR (unwrap (co_spec (c_config c)))) (\<lambda>oci.
     bindR (liftR (unwrap (c_status c))) (\<lambda>status.
     bindR (liftR (unwrap (sp_Root oci))) (\<lambda>root.
     bindR (fs_canonicalize (rt_Path root)) (\<lambda>path.
     bindR (liftR (unwrap (path_parent path))) (\<lambda>bundle.
     ret \<lparr>st_version = sp_Version oci, st_id = c_id c, st_status = status,
       st_pid = (if status \<noteq> ''stopped'' then init_process_pid c else 0), st_bundle = bundle,
       st_annotations = sp_Annotations oci\<rparr>)))))"

definition c_pids :: "LinuxContainer \<Rightarrow> int list" where
  "c_pids c = map fst (c_processes c)"

definition get_process :: "LinuxContainer \<Rightarrow> string \<Rightarrow> Process res" where
  "get_process c eid = (case find (\<lambda>(_, v). eid = exec_id v) (c_processes c) of
     Some (_, v) \<Rightarrow> Ok v | None \<Rightarrow> Err (ErrorCode (''invalid eid '' @ eid)))"

definition container_stats :: "(u64 \<Rightarrow> u64) \<Rightarrow> string list \<Rightarrow> LinuxContainer \<Rightarrow> CgroupStats option io" where
  "container_stats ticks pagesizes c = (case cgroup_manager c of None \<Rightarrow> ret None
     | Some cm \<Rightarrow> bindR (manager_get_stats ticks pagesizes cm) (\<lambda>s. ret (Some s)))"

definition container_set :: "g_LinuxResources \<Rightarrow> unit cact" where
  "container_set r = bindR (getC cgroup_manager) (\<lambda>cm.
     thenR (case cm of None \<Rightarrow> ret () | Some m \<Rightarrow> osC (manager_set m r True))
     (bindR (getC (\<lambda>c. co_spec (c_config c))) (\<lambda>spec. case spec of None \<Rightarrow> panicR
      | Some sp \<Rightarrow> (case sp_Linux sp of None \<Rightarrow> panicR
        | Some lx \<Rightarrow> modC (\<lambda>c. c\<lparr>c_config := (c_config c)\<lparr>co_spec :=
            Some (sp\<lparr>sp_Linux := Some (lx\<lparr>lx_Resources := Some r\<rparr>)\<rparr>)\<rparr>\<rparr>)))))"

definition SIGKILL :: int where "SIGKILL = 9"

definition container_destroy :: "(g_Hook \<Rightarrow> hook_run) \<Rightarrow> unit cact" where
  "container_destroy runs = bindR (getC (\<lambda>c. c)) (\<lambda>c.
     bindR (liftR (unwrap (co_spec (c_config c)))) (\<lambda>spec.
     bindR (osC (oci_state c)) (\<lambda>st.
     run_all [osC (for_each (c_pids c) (\<lambda>pid. nix_do (SysKill pid SIGKILL))),
       (case sp_Hooks spec of None \<Rightarrow> ret () | Some hooks \<Rightarrow> osC (for_each (hs_Poststop hooks) (execute_hook runs))),
       modC (\<lambda>c. c\<lparr>c_status := Some ''stopped''\<rparr>)])))"

definition container_signal :: "LinuxContainer \<Rightarrow> int \<Rightarrow> bool \<Rightarrow> unit io" where
  "container_signal c sig every =
     thenR (whenR every (for_each (c_pids c) (\<lambda>pid. nix_do (SysKill pid sig))))
       (nix_do (SysKill (init_process_pid c) sig))"

definition fifo_path :: "LinuxContainer \<Rightarrow> string" where
  "fifo_path c = c_root c @ ''/exec.fifo''"

definition container_exec :: "u64 \<Rightarrow> unit cact" where
  "container_exec now = bindR (getC fifo_path) (\<lambda>fifo.
     bindR (osC (nix_sys (FsOpen fifo ''O_WRONLY''))) (\<lambda>fd.
     run_all [osC (nix_do (SysWrite fd [CHR 0x00])),
       modC (\<lambda>c. c\<lparr>init_process_start_time := now, c_status := Some ''running''\<rparr>),
       osC (nix_do (SysClose fd))]))"

end
