(* ===== verification/Sync_Io.thy ===== *)
theory Sync_Io
  imports Container_Ops
begin

text \<open>
  \<open>read_sync\<close> and \<open>write_sync\<close> of \<open>rustjail/src/container.rs\<close>: one number of 32 bits, in network
  byte order, over a pipe whose reads and writes may be short or interrupted. The answers of the
  kernel to the successive calls are a list; when it ends the call blocks.
\<close>

definition PIDSIZE :: nat where
  "PIDSIZE = 4"

section \<open>Byte order\<close>

definition to_be :: "u32 \<Rightarrow> u8 list" where
  "to_be w = [ucast (drop_bit 24 w), ucast (drop_bit 16 w), ucast (drop_bit 8 w), ucast w]"

definition from_be :: "u8 list \<Rightarrow> u32" where
  "from_be bs = fold (\<lambda>b acc. push_bit 8 acc OR ucast b) bs 0"

text \<open>\<open>pid_t::to_be_bytes\<close> and \<open>pid_t::from_be_bytes\<close>.\<close>

definition pid_bytes :: "int \<Rightarrow> u8 list" where
  "pid_bytes pid = to_be (word_of_int pid)"

definition bytes_pid :: "u8 list \<Rightarrow> int" where
  "bytes_pid bs = sint (from_be bs)"

section \<open>The loops\<close>

datatype read_answer = ReadBytes "u8 list" | ReadErr errno

datatype write_answer = Wrote nat | WriteErr errno

text \<open>A read takes at most the bytes that are missing; a read of none, at the end of the pipe, changes nothing.\<close>

fun read_loop :: "read_answer list \<Rightarrow> u8 list \<Rightarrow> u8 list res" where
  "read_loop [] v = Hang"
| "read_loop (ReadErr e # as) v = (if e = EINTR then read_loop as v else Err (Nix e))"
| "read_loop (ReadBytes bs # as) v =
     (let v' = v @ take (PIDSIZE - length v) bs
      in if length v' = PIDSIZE then Ok v' else read_loop as v')"

definition read_sync :: "read_answer list \<Rightarrow> int res" where
  "read_sync as = map_res bytes_pid (read_loop as [])"

text \<open>The result, and the bytes that have gone into the pipe.\<close>

fun write_loop :: "write_answer list \<Rightarrow> u8 list \<Rightarrow> nat \<Rightarrow> u8 list list \<Rightarrow> unit res \<times> u8 list list" where
  "write_loop [] buf len out = (Hang, out)"
| "write_loop (WriteErr e # as) buf len out =
     (if e = EINTR then write_loop as buf len out else (Err (Nix e), out))"
| "write_loop (Wrote n # as) buf len out =
     (let l = min n (length buf - len); len' = len + l; out' = out @ [take l (drop len buf)]
      in if len' = PIDSIZE then (Ok (), out') else write_loop as buf len' out')"

definition write_sync :: "write_answer list \<Rightarrow> int \<Rightarrow> unit res \<times> u8 list list" where
  "write_sync as pid = write_loop as (pid_bytes pid) 0 []"

section \<open>Lemmas\<close>

lemma length_to_be [simp]: "length (to_be w) = PIDSIZE" "length (pid_bytes pid) = PIDSIZE"
  by (simp_all add: to_be_def pid_bytes_def PIDSIZE_def)

lemma from_to_be [simp]: "from_be (to_be w) = w"
proof (rule bit_word_eqI)
  fix n assume "n < LENGTH(32)"
  then consider "n < 8" | "8 \<le> n" "n < 16" | "16 \<le> n" "n < 24" | "24 \<le> n" "n < 32" by fastforce
  then show "bit (from_be (to_be w)) n = bit w n"
    by cases (auto simp: from_be_def to_be_def bit_simps)
qed

lemma pid_roundtrip:
  assumes "- (2 ^ 31) \<le> pid" "pid < 2 ^ 31"
  shows "bytes_pid (pid_bytes pid) = pid"
  using assms by (simp add: bytes_pid_def pid_bytes_def sint_sbintrunc' signed_take_bit_int_eq_self)

definition interrupted :: "read_answer \<Rightarrow> bool" where
  "interrupted a \<longleftrightarrow> a = ReadErr EINTR"

text \<open>The bytes that the answers carry.\<close>

fun answer_bytes :: "read_answer \<Rightarrow> u8 list" where
  "answer_bytes (ReadBytes bs) = bs"
| "answer_bytes (ReadErr e) = []"

lemma read_loop_collects:
  assumes "list_all (\<lambda>a. \<forall>e. a = ReadErr e \<longrightarrow> e = EINTR) as"
    and "length v < PIDSIZE"
  shows "read_loop as v = (let all = v @ concat (map answer_bytes as)
    in if PIDSIZE \<le> length all then Ok (take PIDSIZE all) else Hang)"
  using assms
proof (induction as v rule: read_loop.induct)
  case (3 bs as v)
  let ?v = "v @ take (PIDSIZE - length v) bs"
  show ?case
  proof (cases "length ?v = PIDSIZE")
    case True
    then show ?thesis by (auto simp: Let_def min_def split: if_splits)
  next
    case False
    with 3 have "length bs < PIDSIZE - length v" by (auto simp: min_def split: if_splits)
    with False 3 show ?thesis by (simp add: Let_def)
  qed
qed (auto simp: Let_def)

lemma write_loop_sends:
  assumes "length buf = PIDSIZE" "len < PIDSIZE"
    and "write_loop as buf len out = (Ok (), out')" "concat out = take len buf"
  shows "concat out' = buf"
  using assms
proof (induction as buf len out rule: write_loop.induct)
  case (3 n as buf len out)
  let ?l = "min n (length buf - len)"
  have c: "concat (out @ [take ?l (drop len buf)]) = take (len + ?l) buf"
    using 3 by (simp add: take_add)
  show ?case
  proof (cases "len + ?l = PIDSIZE")
    case True
    with 3 c show ?thesis by (simp add: Let_def)
  next
    case False
    with 3 have "len + ?l < PIDSIZE" by auto
    with False 3 c show ?thesis by (simp add: Let_def)
  qed
qed (auto split: if_splits)

section \<open>Properties\<close>

text \<open>A number sent by \<open>write_sync\<close> is the number \<open>read_sync\<close> returns, however the kernel cuts the
  four bytes into writes and reads and however often a call is interrupted: when the answers to the
  reads carry at least the bytes that were written, in their order, the reader returns the number.\<close>
lemma sync_roundtrip:
  assumes "- (2 ^ 31) \<le> pid" "pid < 2 ^ 31"
    and "write_sync was pid = (Ok (), chunks)"
    and "list_all (\<lambda>a. \<forall>e. a = ReadErr e \<longrightarrow> e = EINTR) ras"
    and "concat (map answer_bytes ras) = concat chunks @ later"
  shows "read_sync ras = Ok pid"
proof -
  have "concat chunks = pid_bytes pid"
    using write_loop_sends [of "pid_bytes pid" 0 was "[]" chunks] assms(3)
    by (simp add: write_sync_def PIDSIZE_def)
  then show ?thesis
    using read_loop_collects [OF assms(4), of "[]"] assms(5) pid_roundtrip [OF assms(1,2)]
    by (simp add: read_sync_def Let_def) (simp add: PIDSIZE_def)
qed

lemma sync_roundtrip_witness:
  "read_sync [ReadErr EINTR, ReadBytes [0, 0], ReadBytes [], ReadBytes [1, 2, 9]] = Ok 258"
  by (rule sync_roundtrip [of 258 "[Wrote 3, WriteErr EINTR, Wrote 7]" "[[0, 0, 1], [2]]" _ "[9]"])
    (simp_all add: write_sync_def pid_bytes_def to_be_def PIDSIZE_def Let_def)

end
