(* ===== verification/Join_Sync.thy ===== *)
theory Join_Sync
  imports Sync_Io Steps
begin

text \<open>
  \<open>start\<close> and \<open>join_namespaces\<close> of \<open>rustjail/src/container.rs\<close>: the start-up of a container process.
  The agent forks a first child, which sets itself up and, for a new pid namespace, forks a second
  one; the last child becomes the program of the container. The three talk over pipes: \<open>Up\<close>
  (\<open>pfd\<close>/\<open>cfd\<close>, to the agent), \<open>Down\<close> (\<open>crfd\<close>/\<open>pwfd\<close>, to the children) and \<open>Link\<close> (\<open>chfd\<close>/\<open>phfd\<close>,
  from the first child to the second). The code of each party is the list of its instructions, in
  the order of the source, for given arguments; a pipe is the queue of the numbers in it
  (\<open>Sync_Io\<close> is about their bytes). The model begins after the first \<open>fork\<close>.
\<close>

section \<open>Tasks\<close>

text \<open>What a party does by itself between two messages.\<close>

datatype task = UidMap | GidMap | CgSet | CgApply | Prestart | Poststart
  | NeedProcess | OomScore | Rlimits | UnshareUser | RootIds | JoinNs | UnshareRest
  | Hostname | Canon | InitRootfs | SetMountNs | ChangeRoot | Sysctls
  | Stdio | FinishRootfs | ChangeDir | UserIds | NoNewPrivs | Caps | Fifo | Exec

text \<open>
  The arguments of \<open>join_namespaces\<close> and \<open>start\<close>, the numbers the two forks return, and the
  parameters of the code that is not the program's: the capabilities of the \<open>caps\<close> crate, the
  hooks' programs, \<open>scan_fmt\<close> and \<open>absolutize\<close>.
\<close>

record startup =
  su_spec :: g_Spec
  su_linux :: g_Linux
  su_plan :: ns_plan
  su_init :: bool
  su_no_pivot :: bool
  su_cm :: Manager
  su_process :: Process
  su_fifofd :: int
  su_pid1 :: int
  su_pid2 :: int
  su_caps :: "string list"
  su_hooks :: "g_Hook \<Rightarrow> hook_run"
  su_scan_head :: scan_head
  su_scan_tail :: scan_tail
  su_absolutize :: "string \<Rightarrow> string \<Rightarrow> string res"

definition userns :: "startup \<Rightarrow> bool" where
  "userns su = userns_of (su_plan su)"

definition news :: "startup \<Rightarrow> u64 \<Rightarrow> bool" where
  "news su flag = has_flags (to_new (su_plan su)) flag"

definition run_hooks :: "startup \<Rightarrow> (g_Hooks \<Rightarrow> g_Hook list) \<Rightarrow> unit io" where
  "run_hooks su sel = (case sp_Hooks (su_spec su) of None \<Rightarrow> ret ()
     | Some hooks \<Rightarrow> for_each (sel hooks) (execute_hook (su_hooks su)))"

text \<open>Joining one namespace; the mount namespace is left for later, and a user namespace that is
  already the own one is no error.\<close>

definition join_one :: "string list \<Rightarrow> u64 \<times> int \<Rightarrow> unit io" where
  "join_one all_caps = (\<lambda>(s, fd). if s = CLONE_NEWNS then ret ()
     else run_all [catchR (proc_do (SysSetns fd s))
          (\<lambda>e. if s = CLONE_NEWUSER \<and> e = Nix EINVAL then ret () else throw e),
        nix_do (SysClose fd),
        whenR (s = CLONE_NEWUSER) (setid all_caps 0 0)])"

definition mount_fds :: "ns_plan \<Rightarrow> int list" where
  "mount_fds p = map snd (filter (\<lambda>(s, fd). s = CLONE_NEWNS) (to_join p))"

definition bind_device :: "startup \<Rightarrow> bool" where
  "bind_device su \<longleftrightarrow> userns su \<or> list_ex (\<lambda>(s, fd). s = CLONE_NEWUSER) (to_join (su_plan su))"

definition spec_process :: "startup \<Rightarrow> (g_Process \<Rightarrow> unit io) \<Rightarrow> unit io" where
  "spec_process su k = (case sp_Process (su_spec su) of None \<Rightarrow> throw (Nix EINVAL) | Some p \<Rightarrow> k p)"

definition spec_root :: "startup \<Rightarrow> string io" where
  "spec_root su = bindR (liftR (unwrap (sp_Root (su_spec su)))) (\<lambda>r. ret (rt_Path r))"

definition change_root :: "startup \<Rightarrow> unit io" where
  "change_root su = bindR (spec_root su) (\<lambda>path. bindR (getsR (\<lambda>w. canon w path)) (\<lambda>rootfs.
     if su_no_pivot su
     then thenR (ms_move_root (su_scan_head su) (su_scan_tail su) (su_absolutize su) rootfs) (ret ())
     else pivot_rootfs rootfs))"

definition user_ids :: "startup \<Rightarrow> unit io" where
  "user_ids su = (case pr_User (p_oci (su_process su)) of None \<Rightarrow> ret ()
     | Some guser \<Rightarrow> thenR (setid (su_caps su) (us_UID guser) (us_GID guser))
         (whenR (us_AdditionalGids guser \<noteq> []) (setgroups (us_AdditionalGids guser))))"

definition exec_program :: "startup \<Rightarrow> unit io" where
  "exec_program su = (let oci = p_oci (su_process su) in case pr_Args oci of [] \<Rightarrow> panicR
     | path # _ \<Rightarrow> bindR (do_exec path (pr_Args oci) (pr_Env oci)) (\<lambda>e. case e of
         Execed \<Rightarrow> ret () | ProcessExit _ \<Rightarrow> throw (ErrorCode ''fail to create container'')))"

definition wait_fifo :: "startup \<Rightarrow> unit io" where
  "wait_fifo su = bindR (nix_sys (FsOpen (''/proc/self/fd/'' @ show_int (su_fifofd su)) ''O_RDONLY|O_CLOEXEC'')) (\<lambda>fd.
     thenR (nix_do (SysClose (su_fifofd su))) (nix_do (SysRead fd 1)))"

primrec run_task :: "startup \<Rightarrow> task \<Rightarrow> unit io" where
  "run_task su UidMap = write_mappings (''/proc/'' @ show_int (su_pid1 su) @ ''/uid_map'') (lx_UIDMappings (su_linux su))"
| "run_task su GidMap = write_mappings (''/proc/'' @ show_int (su_pid1 su) @ ''/gid_map'') (lx_GIDMappings (su_linux su))"
| "run_task su CgSet = (case lx_Resources (su_linux su) of None \<Rightarrow> ret () | Some rs \<Rightarrow> manager_set (su_cm su) rs False)"
| "run_task su CgApply = manager_apply (su_cm su) (su_pid1 su)"
| "run_task su Prestart = run_hooks su hs_Prestart"
| "run_task su Poststart = run_hooks su hs_Poststart"
| "run_task su NeedProcess = spec_process su (\<lambda>p. ret ())"
| "run_task su OomScore = spec_process su (\<lambda>p. whenR (pr_OOMScoreAdj p > 0)
     (fs_write ''/proc/self/oom_score_adj'' (show_int (pr_OOMScoreAdj p))))"
| "run_task su Rlimits = spec_process su (\<lambda>p. for_each (pr_Rlimits p) setrlimit)"
| "run_task su UnshareUser = proc_do (SysUnshare CLONE_NEWUSER)"
| "run_task su RootIds = setid (su_caps su) 0 0"
| "run_task su JoinNs = for_each (to_join (su_plan su)) (join_one (su_caps su))"
| "run_task su UnshareRest = proc_do (SysUnshare (to_new (su_plan su) AND NOT CLONE_NEWUSER))"
| "run_task su Hostname = proc_do (SysSethostname (sp_Hostname (su_spec su)))"
| "run_task su Canon = bindR (spec_root su) (\<lambda>p. thenR (fs_canonicalize p) (ret ()))"
| "run_task su InitRootfs = init_rootfs (su_spec su) (m_paths (su_cm su)) (m_mounts (su_cm su)) (bind_device su)"
| "run_task su SetMountNs = (case mount_fds (su_plan su) of [] \<Rightarrow> ret ()
     | fds \<Rightarrow> run_all [proc_do (SysSetns (last fds) CLONE_NEWNS), nix_do (SysClose (last fds))])"
| "run_task su ChangeRoot = change_root su"
| "run_task su Sysctls = run_all [set_sysctls (lx_Sysctl (su_linux su)), nix_chdir ''/'',
     ignoreR (nix_do (SysStat ''marker'')), ignoreR (nix_do (SysStat ''/bin/sh''))]"
| "run_task su Stdio = setup_stdio (su_process su)"
| "run_task su FinishRootfs = finish_rootfs (su_spec su)"
| "run_task su ChangeDir = (let cwd = pr_Cwd (p_oci (su_process su)) in whenR (cwd \<noteq> []) (nix_chdir cwd))"
| "run_task su UserIds = user_ids su"
| "run_task su NoNewPrivs = whenR (pr_NoNewPrivileges (p_oci (su_process su)))
     (catchR (proc_do (SysPrctl ''PR_SET_NO_NEW_PRIVS'' True))
       (\<lambda>_. throw (ErrorCode ''cannot set no new privileges'')))"
| "run_task su Caps = (case pr_Capabilities (p_oci (su_process su)) of None \<Rightarrow> ret ()
     | Some c \<Rightarrow> drop_priviledges (su_caps su) c)"
| "run_task su Fifo = wait_fifo su"
| "run_task su Exec = exec_program su"

section \<open>The code of the parties\<close>

datatype party = Agent | Child1 | Child2

datatype pipe = Up | Down | Link

datatype pend = ReadEnd | WriteEnd

text \<open>
  \<open>RecvPid\<close> keeps the number as the pid of the container process; \<open>OpenLink\<close> is the \<open>pipe2\<close> of the
  third pipe, \<open>Fork\<close> the second \<open>fork\<close> (the first child goes on), \<open>Quit\<close> the end of a child, by
  \<open>exit\<close> or because its program was replaced.
\<close>

datatype instr = Do task | Close pipe pend | Send pipe int | Recv pipe | RecvPid pipe
  | OpenLink | Fork | Quit

definition onlyif :: "bool \<Rightarrow> 'a list \<Rightarrow> 'a list" where
  "onlyif b xs = (if b then xs else [])"

definition agent_code :: "startup \<Rightarrow> instr list" where
  "agent_code su =
     [Close Up WriteEnd, Close Down ReadEnd, Recv Up]
     @ onlyif (userns su) [Do UidMap, Do GidMap]
     @ onlyif (su_init su \<and> lx_Resources (su_linux su) \<noteq> None) [Do CgSet]
     @ onlyif (lx_Resources (su_linux su) \<noteq> None) [Do CgApply]
     @ [Send Down 0]
     @ onlyif (pidns (su_plan su)) [RecvPid Up, Send Down 0]
     @ onlyif (su_init su) [Recv Up, Do Prestart, Send Down 0, Recv Up, Do Poststart]
     @ [Close Up ReadEnd, Close Down WriteEnd]"

definition final_code :: "startup \<Rightarrow> instr list" where
  "final_code su =
     onlyif (news su CLONE_NEWUTS) [Do Hostname] @ [Do Canon]
     @ onlyif (news su CLONE_NEWNS) [Do InitRootfs]
     @ onlyif (pidns (su_plan su)) [Recv Link] @ [Close Link ReadEnd]
     @ onlyif (su_init su) [Send Up 0, Recv Down] @ [Close Down ReadEnd, Do SetMountNs]
     @ onlyif (news su CLONE_NEWNS) [Do ChangeRoot, Do Sysctls]
     @ [Do Stdio] @ onlyif (news su CLONE_NEWNS) [Do FinishRootfs]
     @ [Do ChangeDir, Do UserIds, Do NoNewPrivs, Do Caps]
     @ onlyif (su_init su) [Send Up 0, Do Fifo] @ [Do Exec, Quit]"

definition child1_code :: "startup \<Rightarrow> instr list" where
  "child1_code su =
     [Close Up ReadEnd, Close Down WriteEnd, Do NeedProcess, Do OomScore, Do Rlimits]
     @ onlyif (userns su) [Do UnshareUser] @ [Send Up 0, Recv Down]
     @ onlyif (userns su) [Do RootIds] @ [Do JoinNs, Do UnshareRest, OpenLink]
     @ (if pidns (su_plan su)
        then [Fork, Close Link ReadEnd, Send Up (su_pid2 su), Recv Down, Send Link 0, Quit]
        else final_code su)"

definition child2_code :: "startup \<Rightarrow> instr list" where
  "child2_code su = onlyif (pidns (su_plan su)) (Close Link WriteEnd # final_code su)"

definition code_of :: "startup \<Rightarrow> party \<Rightarrow> instr list" where
  "code_of su p = (case p of Agent \<Rightarrow> agent_code su | Child1 \<Rightarrow> child1_code su | Child2 \<Rightarrow> child2_code su)"

section \<open>Steps\<close>

text \<open>
  A party that is \<open>Stuck\<close> has panicked or called something that does not return; one that \<open>Failed\<close>
  has left with an error. \<open>trace\<close> is the history of the instructions, for the properties only.
\<close>

datatype status = Waiting | Running | Finished | Failed | Stuck

record js =
  code :: "party \<Rightarrow> instr list"
  stat :: "party \<Rightarrow> status"
  ends :: "party \<Rightarrow> (pipe \<times> pend) set"
  queue :: "pipe \<Rightarrow> int list"
  pid_var :: int
  sys :: world
  trace :: "(party \<times> instr) list"

definition four_ends :: "(pipe \<times> pend) set" where
  "four_ends = {(Up, ReadEnd), (Up, WriteEnd), (Down, ReadEnd), (Down, WriteEnd)}"

definition start_state :: "startup \<Rightarrow> world \<Rightarrow> js" where
  "start_state su w = \<lparr>code = code_of su, stat = (\<lambda>p. if p = Child2 then Waiting else Running),
     ends = (\<lambda>p. if p = Child2 then {} else four_ends), queue = (\<lambda>_. []), pid_var = su_pid1 su,
     sys = w, trace = []\<rparr>"

text \<open>The error of the agent goes to the caller of \<open>start\<close>, its pipes stay open; a child exits.\<close>

definition fail :: "party \<Rightarrow> js \<Rightarrow> js" where
  "fail p s = s\<lparr>stat := (stat s)(p := Failed),
     ends := (if p = Agent then ends s else (ends s)(p := {}))\<rparr>"

definition advance :: "party \<Rightarrow> instr \<Rightarrow> instr list \<Rightarrow> js \<Rightarrow> js" where
  "advance p i is s = s\<lparr>code := (code s)(p := is), trace := trace s @ [(p, i)]\<rparr>"

definition call :: "party \<Rightarrow> unit io \<Rightarrow> (js \<Rightarrow> js) \<Rightarrow> js \<Rightarrow> js" where
  "call p m k s = (case m (sys s) of (Ok _, w) \<Rightarrow> k (s\<lparr>sys := w\<rparr>)
     | (Err _, w) \<Rightarrow> fail p (s\<lparr>sys := w\<rparr>)
     | (_, w) \<Rightarrow> s\<lparr>stat := (stat s)(p := Stuck), sys := w\<rparr>)"

text \<open>The second child, whose code is in place from the start, begins with the ends of the first.\<close>

definition fork_child :: "js \<Rightarrow> js" where
  "fork_child s = s\<lparr>stat := (stat s)(Child2 := Running),
     ends := (ends s)(Child2 := ends s Child1)\<rparr>"

text \<open>
  One step of a party. A receive from an empty pipe makes none: while the other end is open the read
  blocks, and after that \<open>read_sync\<close> reads nothing again and again. A write without a reader fails.
\<close>

definition pstep :: "startup \<Rightarrow> party \<Rightarrow> js \<Rightarrow> js option" where
  "pstep su p s =
     (if stat s p \<noteq> Running then None
      else case code s p of
        [] \<Rightarrow> Some (s\<lparr>stat := (stat s)(p := Finished)\<rparr>)
      | i # is \<Rightarrow> let go = advance p i is in case i of
          Do t \<Rightarrow> Some (call p (run_task su t) go s)
        | Close pp e \<Rightarrow> Some (if (pp, e) \<in> ends s p then go (s\<lparr>ends := (ends s)(p := ends s p - {(pp, e)})\<rparr>) else fail p s)
        | Send pp m \<Rightarrow> Some (if (pp, WriteEnd) \<in> ends s p
              \<and> ((pp, ReadEnd) \<in> ends s Agent \<or> (pp, ReadEnd) \<in> ends s Child1 \<or> (pp, ReadEnd) \<in> ends s Child2)
            then go (s\<lparr>queue := (queue s)(pp := queue s pp @ [m])\<rparr>) else fail p s)
        | Recv pp \<Rightarrow> (if (pp, ReadEnd) \<notin> ends s p then Some (fail p s)
            else case queue s pp of [] \<Rightarrow> None | m # ms \<Rightarrow> Some (go (s\<lparr>queue := (queue s)(pp := ms)\<rparr>)))
        | RecvPid pp \<Rightarrow> (if (pp, ReadEnd) \<notin> ends s p then Some (fail p s)
            else case queue s pp of [] \<Rightarrow> None
              | m # ms \<Rightarrow> Some (go (s\<lparr>queue := (queue s)(pp := ms), pid_var := m\<rparr>)))
        | OpenLink \<Rightarrow> Some (call p (proc_do (SysPipe2 ''link''))
            (\<lambda>s. go (s\<lparr>ends := (ends s)(p := ends s p \<union> {(Link, ReadEnd), (Link, WriteEnd)})\<rparr>)) s)
        | Fork \<Rightarrow> Some (call p (nix_do (SysOther ''fork'' 0)) (\<lambda>s. go (fork_child s)) s)
        | Quit \<Rightarrow> Some (go (s\<lparr>stat := (stat s)(p := Finished), ends := (ends s)(p := {})\<rparr>)))"

inductive jstep :: "startup \<Rightarrow> js \<Rightarrow> js \<Rightarrow> bool" for su where
  party_step: "pstep su p s = Some t \<Longrightarrow> jstep su s t"

inductive_cases jstepE [elim!]: "jstep su s t"

end
