(* ===== verification/Join_Props.thy ===== *)
theory Join_Props
  imports Join_Sync
begin

text \<open>
  The protocol of the start-up (\<open>Join_Sync\<close>). Its specification is the \<open>script\<close>: the one order in
  which messages are sent and received. Every run of the three processes, failures included, follows
  it, which gives what must happen before what; without failures every party comes to its end.
\<close>

section \<open>The specification: the script of the messages\<close>

definition last_child :: "startup \<Rightarrow> party" where
  "last_child su = (if pidns (su_plan su) then Child2 else Child1)"

definition script :: "startup \<Rightarrow> (party \<times> instr) list" where
  "script su =
     [(Child1, Send Up 0), (Agent, Recv Up), (Agent, Send Down 0), (Child1, Recv Down)]
     @ onlyif (pidns (su_plan su))
        [(Child1, Send Up (su_pid2 su)), (Agent, RecvPid Up), (Agent, Send Down 0), (Child1, Recv Down),
         (Child1, Send Link 0), (Child2, Recv Link)]
     @ onlyif (su_init su)
        [(last_child su, Send Up 0), (Agent, Recv Up), (Agent, Send Down 0), (last_child su, Recv Down),
         (last_child su, Send Up 0), (Agent, Recv Up)]"

definition is_sync :: "instr \<Rightarrow> bool" where
  "is_sync i = (case i of Send _ _ \<Rightarrow> True | Recv _ \<Rightarrow> True | RecvPid _ \<Rightarrow> True | _ \<Rightarrow> False)"

lemma is_sync_simps [simp]:
  "is_sync (Send pp m)" "is_sync (Recv pp)" "is_sync (RecvPid pp)"
  "\<not> is_sync (Do t)" "\<not> is_sync (Close pp e)" "\<not> is_sync OpenLink" "\<not> is_sync Fork" "\<not> is_sync Quit"
  by (simp_all add: is_sync_def)

text \<open>The part of one party in a history.\<close>

definition by_party :: "party \<Rightarrow> (party \<times> instr) list \<Rightarrow> instr list" where
  "by_party p es = map snd (filter (\<lambda>e. fst e = p) es)"

lemma by_party_simps [simp]:
  "by_party p [] = []"
  "by_party p ((q, i) # es) = (if q = p then i # by_party p es else by_party p es)"
  "by_party p (es @ fs) = by_party p es @ by_party p fs"
  by (simp_all add: by_party_def)

lemma by_party_sync: "by_party p (filter (\<lambda>e. is_sync (snd e)) es) = filter is_sync (by_party p es)"
  by (induction es) auto

lemma in_by_party: "i \<in> set (by_party p es) \<longleftrightarrow> (p, i) \<in> set es"
  by (force simp: by_party_def)

lemma onlyif_simps [simp]: "onlyif True xs = xs" "onlyif False xs = []"
  by (simp_all add: onlyif_def)

lemma filter_onlyif [simp]: "filter P (onlyif b xs) = onlyif b (filter P xs)"
  by (simp add: onlyif_def)

text \<open>The messages in the code of each party are its part of the script.\<close>

lemmas codes = code_of_def agent_code_def child1_code_def child2_code_def final_code_def

lemma final_syncs:
  "filter is_sync (final_code su) = onlyif (pidns (su_plan su)) [Recv Link]
     @ onlyif (su_init su) [Send Up 0, Recv Down, Send Up 0]"
  by (cases "su_init su") (simp_all add: final_code_def, simp_all add: onlyif_def)

lemma code_syncs: "filter is_sync (code_of su p) = by_party p (script su)"
  by (cases p; cases "pidns (su_plan su)"; cases "su_init su")
    (simp_all add: code_of_def agent_code_def child1_code_def child2_code_def final_syncs script_def
      last_child_def, simp_all add: onlyif_def)

section \<open>The messages on their way\<close>

definition in_flight :: "startup \<Rightarrow> (party \<times> instr) list \<Rightarrow> pipe \<Rightarrow> int list" where
  "in_flight su rest pp = (case rest of
     (q, Recv pp') # _ \<Rightarrow> if pp' = pp then [0] else []
   | (q, RecvPid pp') # _ \<Rightarrow> if pp' = pp then [su_pid2 su] else []
   | _ \<Rightarrow> [])"

text \<open>
  What the rest of the script says about the next step: a message is sent into empty pipes and is
  received next, and every other party waits on an empty pipe.
\<close>

fun waits :: "startup \<Rightarrow> (party \<times> instr) list \<Rightarrow> instr list \<Rightarrow> bool" where
  "waits su rest [] \<longleftrightarrow> True"
| "waits su rest (Recv pp # is) \<longleftrightarrow> in_flight su rest pp = []"
| "waits su rest (RecvPid pp # is) \<longleftrightarrow> in_flight su rest pp = []"
| "waits su rest (i # is) \<longleftrightarrow> False"

definition token_at :: "startup \<Rightarrow> (party \<times> instr) list \<Rightarrow> bool" where
  "token_at su rest = (case rest of [] \<Rightarrow> True
     | (q, i) # rest' \<Rightarrow>
        list_all (\<lambda>p. p = q \<or> waits su rest (by_party p rest)) [Agent, Child1, Child2]
        \<and> (case i of Send pp m \<Rightarrow> list_all (\<lambda>x. in_flight su rest' x = (if x = pp then [m] else [])) [Up, Down, Link]
           | Recv pp \<Rightarrow> list_all (\<lambda>x. in_flight su rest' x = []) [Up, Down, Link]
           | RecvPid pp \<Rightarrow> list_all (\<lambda>x. in_flight su rest' x = []) [Up, Down, Link]
           | _ \<Rightarrow> False))"

lemma script_tokens: "list_all (token_at su) (suffixes (script su))"
  by (cases "pidns (su_plan su)"; cases "su_init su")
    (simp_all add: script_def last_child_def token_at_def in_flight_def)

lemma token_suffix: "suffix rest (script su) \<Longrightarrow> token_at su rest"
  using script_tokens by (auto simp: list_all_iff)

lemma all_parties: "list_all P [Agent, Child1, Child2] \<longleftrightarrow> (\<forall>p. P p)"
  by (auto, metis party.exhaust)

lemma all_pipes: "list_all P [Up, Down, Link] \<longleftrightarrow> (\<forall>p. P p)"
  by (auto, metis pipe.exhaust)

section \<open>What a step does\<close>

text \<open>The effect of an instruction on the pipes and on the pid the agent knows.\<close>

definition pipes_after :: "instr \<Rightarrow> js \<Rightarrow> js \<Rightarrow> bool" where
  "pipes_after i s t = (case i of
     Send pp m \<Rightarrow> queue t = (queue s)(pp := queue s pp @ [m]) \<and> pid_var t = pid_var s
   | Recv pp \<Rightarrow> queue s pp \<noteq> [] \<and> queue t = (queue s)(pp := tl (queue s pp)) \<and> pid_var t = pid_var s
   | RecvPid pp \<Rightarrow> queue s pp \<noteq> [] \<and> queue t = (queue s)(pp := tl (queue s pp)) \<and> pid_var t = hd (queue s pp)
   | _ \<Rightarrow> queue t = queue s \<and> pid_var t = pid_var s)"

definition executes :: "party \<Rightarrow> instr \<Rightarrow> instr list \<Rightarrow> js \<Rightarrow> js \<Rightarrow> bool" where
  "executes p i is s t \<longleftrightarrow> code s p = i # is \<and> stat s p = Running
     \<and> code t = (code s)(p := is) \<and> trace t = trace s @ [(p, i)] \<and> pipes_after i s t"

definition same_progress :: "js \<Rightarrow> js \<Rightarrow> bool" where
  "same_progress s t \<longleftrightarrow> code t = code s \<and> trace t = trace s \<and> queue t = queue s \<and> pid_var t = pid_var s"

lemma fail_same [simp]: "same_progress s (fail p s)" "same_progress s (fail p (s\<lparr>sys := w\<rparr>))"
  by (simp_all add: fail_def same_progress_def)

lemma call_outcome:
  assumes "call p m k s = t"
  obtains (ok) w where "m (sys s) = (Ok (), w)" "t = k (s\<lparr>sys := w\<rparr>)"
    | (bad) "same_progress s t"
proof -
  obtain r w where m: "m (sys s) = (r, w)" by fastforce
  show thesis
  proof (cases r)
    case (Ok x)
    with m assms ok show thesis by (simp add: call_def)
  qed (use m assms bad in \<open>auto simp: call_def same_progress_def fail_def\<close>)
qed

lemma call_disj:
  assumes "call p m k s = t"
  shows "(\<exists>w. m (sys s) = (Ok (), w) \<and> t = k (s\<lparr>sys := w\<rparr>)) \<or> same_progress s t"
  using call_outcome [OF assms] by metis

lemma pstep_head:
  assumes "pstep su p s = Some t" "code s p = i # is"
  shows "executes p i is s t \<or> same_progress s t"
proof -
  have r: "stat s p = Running" using assms by (auto simp: pstep_def split: if_splits)
  note step = assms(1) [unfolded pstep_def assms(2)] r
  show ?thesis
  proof (cases i)
    case (Do x)
    with step have "call p (run_task su x) (advance p i is) s = t" by simp
    from call_disj [OF this] show ?thesis
      using Do assms(2) r by (auto simp: executes_def advance_def pipes_after_def)
  next
    case OpenLink
    with step have "call p (proc_do (SysPipe2 ''link'')) (\<lambda>s. advance p i is
        (s\<lparr>ends := (ends s)(p := ends s p \<union> {(Link, ReadEnd), (Link, WriteEnd)})\<rparr>)) s = t"
      by simp
    from call_disj [OF this] show ?thesis
      using OpenLink assms(2) r by (auto simp: executes_def advance_def pipes_after_def)
  next
    case Fork
    with step have "call p (nix_do (SysOther ''fork'' 0)) (\<lambda>s. advance p i is (fork_child s)) s = t"
      by simp
    from call_disj [OF this] show ?thesis
      using Fork assms(2) r by (auto simp: executes_def advance_def fork_child_def pipes_after_def)
  qed (use step assms(2) r in \<open>auto simp: executes_def advance_def pipes_after_def split: if_splits list.splits\<close>)
qed

lemma pstep_cases:
  assumes "pstep su p s = Some t"
  obtains (runs) i "is" where "executes p i is s t" | (still) "same_progress s t"
proof (cases "code s p")
  case Nil
  with assms show thesis
    by (intro still) (auto simp: pstep_def same_progress_def split: if_splits)
next
  case (Cons i "is")
  from pstep_head [OF assms Cons] runs still show thesis by blast
qed

section \<open>Every run follows the script\<close>

text \<open>The invariant: each party has executed a first part of its code, and the messages so far are a
  first part of the script, with the one message in flight in its pipe.\<close>

definition follows :: "startup \<Rightarrow> js \<Rightarrow> bool" where
  "follows su s \<longleftrightarrow> (\<forall>p. by_party p (trace s) @ code s p = code_of su p)
     \<and> (\<exists>rest. script su = filter (\<lambda>e. is_sync (snd e)) (trace s) @ rest \<and> queue s = in_flight su rest)
     \<and> pid_var s = (if (Agent, RecvPid Up) \<in> set (trace s) then su_pid2 su else su_pid1 su)"

definition jinit :: "startup \<Rightarrow> js \<Rightarrow> bool" where
  "jinit su s \<longleftrightarrow> (\<exists>w. s = start_state su w)"

lemma jinit_follows: "jinit su s \<Longrightarrow> follows su s"
  by (auto simp: jinit_def follows_def start_state_def fun_eq_iff in_flight_def script_def)

lemma rest_of_party:
  assumes "follows su s" "script su = filter (\<lambda>e. is_sync (snd e)) (trace s) @ rest"
  shows "filter is_sync (code s p) = by_party p rest"
proof -
  have "filter is_sync (by_party p (trace s)) @ filter is_sync (code s p) = by_party p (script su)"
    using assms(1) by (simp add: follows_def flip: filter_append code_syncs)
  then show ?thesis using assms(2) by (simp add: by_party_sync)
qed

lemma same_follows: "same_progress s t \<Longrightarrow> follows su s \<Longrightarrow> follows su t"
  by (simp add: same_progress_def follows_def)

lemma head_turn:
  assumes "token_at su rest" "filter is_sync (i # is) = by_party p rest" "is_sync i"
    and "\<forall>pp. (i = Recv pp \<or> i = RecvPid pp) \<longrightarrow> in_flight su rest pp \<noteq> []"
  shows "\<exists>rest'. rest = (p, i) # rest'"
proof -
  from assms(2,3) have b: "by_party p rest = i # filter is_sync is" by simp
  then obtain q j rest' where r: "rest = (q, j) # rest'" by (cases rest) auto
  have "p = q"
  proof (rule ccontr)
    assume "p \<noteq> q"
    then have "waits su rest (i # filter is_sync is)"
      using assms(1) r b by (cases p) (auto simp: token_at_def)
    with assms(3,4) show False by (cases i) auto
  qed
  with b r show ?thesis by auto
qed

lemma token_pipes:
  assumes "token_at su ((p, i) # rest')"
  shows "is_sync i"
    and "i = Send pp m \<Longrightarrow> in_flight su rest' = (\<lambda>_. [])(pp := [m]) \<and> in_flight su ((p, i) # rest') = (\<lambda>_. [])"
    and "i = Recv pp \<Longrightarrow> in_flight su rest' = (\<lambda>_. []) \<and> in_flight su ((p, i) # rest') = (\<lambda>_. [])(pp := [0])"
    and "i = RecvPid pp \<Longrightarrow> in_flight su rest' = (\<lambda>_. [])
      \<and> in_flight su ((p, i) # rest') = (\<lambda>_. [])(pp := [su_pid2 su])"
proof -
  show "is_sync i" using assms by (cases i) (auto simp: token_at_def)
  have one: "(\<forall>x. f x = g x) \<longleftrightarrow> f Up = g Up \<and> f Down = g Down \<and> f Link = g Link" for f g :: "pipe \<Rightarrow> int list"
    by (metis pipe.exhaust)
  show "i = Send pp m \<Longrightarrow> in_flight su rest' = (\<lambda>_. [])(pp := [m]) \<and> in_flight su ((p, i) # rest') = (\<lambda>_. [])"
    using assms by (auto simp: token_at_def fun_eq_iff one in_flight_def [of su "_ # _"])
  show "i = Recv pp \<Longrightarrow> in_flight su rest' = (\<lambda>_. []) \<and> in_flight su ((p, i) # rest') = (\<lambda>_. [])(pp := [0])"
    using assms by (auto simp: token_at_def fun_eq_iff one in_flight_def [of su "_ # _"])
  show "i = RecvPid pp \<Longrightarrow> in_flight su rest' = (\<lambda>_. [])
      \<and> in_flight su ((p, i) # rest') = (\<lambda>_. [])(pp := [su_pid2 su])"
    using assms by (auto simp: token_at_def fun_eq_iff one in_flight_def [of su "_ # _"])
qed

lemma executes_follows:
  assumes f: "follows su s" and e: "executes p i is s t"
  shows "follows su t"
proof -
  from f obtain rest where rest: "script su = filter (\<lambda>e. is_sync (snd e)) (trace s) @ rest"
    and q: "queue s = in_flight su rest"
    and pid: "pid_var s = (if (Agent, RecvPid Up) \<in> set (trace s) then su_pid2 su else su_pid1 su)"
    by (auto simp: follows_def)
  have c: "code s p = i # is" and ct: "code t = (code s)(p := is)"
    and tr: "trace t = trace s @ [(p, i)]" and pa: "pipes_after i s t"
    using e by (auto simp: executes_def)
  have "by_party x (trace s) @ code s x = code_of su x" for x
    using f by (simp add: follows_def)
  from this [of p] this have hist: "by_party x (trace t) @ code t x = code_of su x" for x
    by (cases "x = p") (simp_all add: ct tr c)
  note rp = rest_of_party [OF f rest, of p, unfolded c]
  have tok: "token_at su rest" by (rule token_suffix) (use rest in \<open>auto simp: suffix_def\<close>)
  show ?thesis
  proof (cases "is_sync i")
    case False
    then have qt: "queue t = queue s" "pid_var t = pid_var s" "i \<noteq> RecvPid Up"
      using pa by (cases i; simp add: pipes_after_def)+
    show ?thesis
      using hist rest q pid False qt(3) by (auto simp: follows_def tr qt(1,2))
  next
    case True
    have ne: "\<forall>pp. (i = Recv pp \<or> i = RecvPid pp) \<longrightarrow> in_flight su rest pp \<noteq> []"
      using pa q by (auto simp: pipes_after_def)
    from head_turn [OF tok rp True ne] obtain rest' where r': "rest = (p, i) # rest'" ..
    note tp = token_pipes [OF tok [unfolded r']]
    have up: "i = RecvPid pp \<Longrightarrow> p = Agent \<and> pp = Up" for pp
    proof -
      assume i: "i = RecvPid pp"
      have "(p, i) \<in> set (script su)" using rest r' by simp
      then show ?thesis using i by (auto simp: script_def onlyif_def split: if_splits)
    qed
    have "queue t = in_flight su rest' \<and> pid_var t =
        (if (Agent, RecvPid Up) \<in> set (trace t) then su_pid2 su else su_pid1 su)"
    proof (cases i)
      case (Send pp m)
      with pa q r' tp(2) [OF Send] pid show ?thesis by (auto simp: pipes_after_def tr)
    next
      case (Recv pp)
      with pa q r' tp(3) [OF Recv] pid show ?thesis by (auto simp: pipes_after_def tr)
    next
      case (RecvPid pp)
      with pa q r' tp(4) [OF RecvPid] up [OF RecvPid] show ?thesis by (auto simp: pipes_after_def tr)
    qed (use True in auto)
    with hist rest r' True show ?thesis by (auto simp: follows_def tr)
  qed
qed

interpretation join: safe_system "jinit su" "jstep su" "follows su" for su
proof
  show "jinit su s \<Longrightarrow> follows su s" for s by (rule jinit_follows)
  show "follows su s \<Longrightarrow> jstep su s t \<Longrightarrow> follows su t" for s t
    by (auto elim!: pstep_cases intro: executes_follows same_follows)
qed

abbreviation join_reachable :: "startup \<Rightarrow> js \<Rightarrow> bool" where
  "join_reachable su \<equiv> reachable (jinit su) (jstep su)"

section \<open>What happens before what\<close>

text \<open>The number of messages in the code of a party before a task.\<close>

definition syncs_before :: "task \<Rightarrow> instr list \<Rightarrow> nat" where
  "syncs_before t c = length (filter is_sync (takeWhile (\<lambda>i. i \<noteq> Do t) c))"

definition syncs_of :: "party \<Rightarrow> (party \<times> instr) list \<Rightarrow> nat" where
  "syncs_of p es = length (filter (\<lambda>e. fst e = p) es)"

lemma syncs_of_by_party: "syncs_of p es = length (by_party p es)"
  by (simp add: syncs_of_def by_party_def)

lemma takeWhile_prefix: "t \<in> set xs \<Longrightarrow> takeWhile (\<lambda>i. i \<noteq> t) (xs @ ys) = takeWhile (\<lambda>i. i \<noteq> t) xs"
  by (induction xs) auto

lemma filter_takeWhile_le: "length (filter P (takeWhile Q xs)) \<le> length (filter P xs)"
  by (induction xs) auto

lemma executed_syncs:
  assumes "xs @ ys = c" "Do j \<in> set xs"
  shows "syncs_before j c \<le> length (filter is_sync xs)"
  using assms takeWhile_prefix [of "Do j" xs ys] filter_takeWhile_le [of is_sync _ xs]
  by (auto simp: syncs_before_def)

lemma takeWhile_all: "t \<notin> set xs \<Longrightarrow> takeWhile (\<lambda>i. i \<noteq> t) (xs @ ys) = xs @ takeWhile (\<lambda>i. i \<noteq> t) ys"
  by (induction xs) auto

lemma syncs_executed:
  assumes "xs @ ys = c" "syncs_before j c < length (filter is_sync xs)"
  shows "Do j \<in> set xs"
proof (rule ccontr)
  assume "Do j \<notin> set xs"
  then have "takeWhile (\<lambda>i. i \<noteq> Do j) c = xs @ takeWhile (\<lambda>i. i \<noteq> Do j) ys"
    using takeWhile_all [of "Do j" xs ys] assms(1) by simp
  with assms(2) show False by (simp add: syncs_before_def)
qed

text \<open>
  A task \<open>j\<close> of \<open>p\<close> comes after a task \<open>k\<close> of \<open>q\<close> when every first part of the script with enough
  messages of \<open>p\<close> for \<open>j\<close> has more messages of \<open>q\<close> than precede \<open>k\<close>.
\<close>

definition ordered :: "startup \<Rightarrow> party \<Rightarrow> task \<Rightarrow> party \<Rightarrow> task \<Rightarrow> bool" where
  "ordered su q k p j \<longleftrightarrow> list_all (\<lambda>es. syncs_before j (code_of su p) \<le> syncs_of p es
      \<longrightarrow> syncs_before k (code_of su q) < syncs_of q es) (prefixes (script su))"

lemma happens_before:
  assumes "join_reachable su s" "(p, Do j) \<in> set (trace s)" "ordered su q k p j"
  shows "(q, Do k) \<in> set (trace s)"
proof -
  have f: "follows su s" using assms(1) by (rule join.reachable_inv)
  let ?es = "filter (\<lambda>e. is_sync (snd e)) (trace s)"
  have pre: "?es \<in> set (prefixes (script su))" using f by (auto simp: follows_def)
  have n: "syncs_of x ?es = length (filter is_sync (by_party x (trace s)))" for x
    by (simp add: syncs_of_by_party by_party_sync)
  have c: "by_party x (trace s) @ code s x = code_of su x" for x using f by (simp add: follows_def)
  have "syncs_before j (code_of su p) \<le> syncs_of p ?es"
    using executed_syncs [OF c] assms(2) by (simp add: n in_by_party)
  then have "syncs_before k (code_of su q) < syncs_of q ?es"
    using assms(3) pre by (auto simp: ordered_def list_all_iff)
  then show ?thesis using syncs_executed [OF c] by (simp add: n in_by_party)
qed

lemma syncs_before_append:
  "syncs_before j (xs @ ys) = (if Do j \<in> set xs then syncs_before j xs
     else length (filter is_sync xs) + syncs_before j ys)"
  by (simp add: syncs_before_def takeWhile_prefix takeWhile_all)

lemma syncs_before_simps [simp]:
  "syncs_before j [] = 0"
  "syncs_before j (i # is) = (if i = Do j then 0 else if is_sync i then Suc (syncs_before j is) else syncs_before j is)"
  by (simp_all add: syncs_before_def)

lemma syncs_before_onlyif [simp]: "syncs_before j (onlyif b xs) = (if b then syncs_before j xs else 0)"
  by simp

lemma set_onlyif [simp]: "set (onlyif b xs) = (if b then set xs else {})"
  by simp

lemma length_onlyif [simp]: "length (onlyif b xs) = (if b then length xs else 0)"
  by simp

lemmas order_simps = syncs_before_append syncs_of_by_party script_def last_child_def code_of_def

lemma last_child_cases: "last_child su = Child1 \<or> last_child su = Child2"
  by (simp add: last_child_def)

text \<open>Where the tasks stand in the code of the agent and of the last child.\<close>

lemma agent_syncs:
  "userns su \<Longrightarrow> syncs_before UidMap (agent_code su) = 1"
  "userns su \<Longrightarrow> syncs_before GidMap (agent_code su) = 1"
  "lx_Resources (su_linux su) \<noteq> None \<Longrightarrow> syncs_before CgApply (agent_code su) = 1"
  "su_init su \<Longrightarrow> lx_Resources (su_linux su) \<noteq> None \<Longrightarrow> syncs_before CgSet (agent_code su) = 1"
  "su_init su \<Longrightarrow> syncs_before Prestart (agent_code su) = (if pidns (su_plan su) then 5 else 3)"
  "su_init su \<Longrightarrow> syncs_before Poststart (agent_code su) = (if pidns (su_plan su) then 7 else 5)"
  by (simp_all add: agent_code_def syncs_before_append)

lemma child_syncs:
  "userns su \<Longrightarrow> syncs_before RootIds (child1_code su) = 2"
  "syncs_before JoinNs (child1_code su) = 2"
  "news su CLONE_NEWNS \<Longrightarrow> syncs_before InitRootfs (code_of su (last_child su)) = (if pidns (su_plan su) then 0 else 2)"
  "news su CLONE_NEWNS \<Longrightarrow> su_init su
    \<Longrightarrow> syncs_before ChangeRoot (code_of su (last_child su)) = (if pidns (su_plan su) then 3 else 4)"
  "su_init su \<Longrightarrow> syncs_before Caps (code_of su (last_child su)) = (if pidns (su_plan su) then 3 else 4)"
  "su_init su \<Longrightarrow> syncs_before Exec (code_of su (last_child su)) = (if pidns (su_plan su) then 4 else 5)"
  by (simp_all add: child1_code_def child2_code_def final_code_def syncs_before_append code_of_def last_child_def)

lemma agent_before_child1:
  "userns su \<Longrightarrow> ordered su Agent UidMap Child1 RootIds"
  "userns su \<Longrightarrow> ordered su Agent GidMap Child1 RootIds"
  "lx_Resources (su_linux su) \<noteq> None \<Longrightarrow> ordered su Agent CgApply Child1 JoinNs"
  "su_init su \<Longrightarrow> lx_Resources (su_linux su) \<noteq> None \<Longrightarrow> ordered su Agent CgSet Child1 JoinNs"
  by (cases "pidns (su_plan su)"; cases "su_init su";
      simp add: ordered_def code_of_def agent_syncs child_syncs script_def last_child_def syncs_of_def)+

lemma hooks_and_child:
  assumes "su_init su"
  shows "news su CLONE_NEWNS \<Longrightarrow> ordered su (last_child su) InitRootfs Agent Prestart"
    and "news su CLONE_NEWNS \<Longrightarrow> ordered su Agent Prestart (last_child su) ChangeRoot"
    and "ordered su (last_child su) Caps Agent Poststart"
    and "ordered su Agent Prestart (last_child su) Exec"
  unfolding ordered_def code_of_def [of su Agent] party.case
  using assms child_syncs [of su] agent_syncs [of su]
  by (cases "pidns (su_plan su)"; simp add: script_def last_child_def syncs_of_def)+

section \<open>Properties\<close>

text \<open>The abstract machine: it extends a history of messages along the script.\<close>

definition messages :: "js \<Rightarrow> (party \<times> instr) list" where
  "messages s = filter (\<lambda>e. is_sync (snd e)) (trace s)"

definition script_step :: "startup \<Rightarrow> (party \<times> instr) list \<Rightarrow> (party \<times> instr) list \<Rightarrow> bool" where
  "script_step su es es' \<longleftrightarrow> (\<exists>e. es' = es @ [e]) \<and> prefix es' (script su)"

lemma start_refines_script_parts:
  assumes "join_reachable su s" "jstep su s t"
  shows "messages t = messages s \<or> script_step su (messages s) (messages t)"
    and "\<exists>rest. script su = messages s @ rest \<and> queue s = in_flight su rest"
proof -
  have fs: "follows su s" using assms(1) by (rule join.reachable_inv)
  have ft: "follows su t" using join.step_inv [OF fs assms(2)] .
  show "\<exists>rest. script su = messages s @ rest \<and> queue s = in_flight su rest"
    using fs by (auto simp: follows_def messages_def)
  have "prefix (messages t) (script su)" using ft by (auto simp: follows_def messages_def)
  moreover have "messages t = messages s \<or> (\<exists>e. messages t = messages s @ [e])"
    using assms(2) by (auto elim!: pstep_cases simp: messages_def executes_def same_progress_def)
  ultimately show "messages t = messages s \<or> script_step su (messages s) (messages t)"
    by (auto simp: script_step_def)
qed

text \<open>C6: the processes refine the script: whatever calls fail, each step of a reachable state is a
  step of the script or leaves the messages as they are, and the pipes hold no number but the one
  the script says is on its way. So no two processes ever write to one pipe at the same time, and
  every number is received by the reader it is meant for.\<close>
theorem start_refines_script:
  assumes "join_reachable su s" "jstep su s t"
  shows "(messages t = messages s \<or> script_step su (messages s) (messages t))
    \<and> (\<exists>rest. script su = messages s @ rest \<and> queue s = in_flight su rest)"
  using start_refines_script_parts [OF assms] by blast

lemma start_order_parts:
  assumes "join_reachable su s"
  shows "userns su \<Longrightarrow> (Child1, Do RootIds) \<in> set (trace s)
      \<Longrightarrow> (Agent, Do UidMap) \<in> set (trace s) \<and> (Agent, Do GidMap) \<in> set (trace s)"
    and "lx_Resources (su_linux su) \<noteq> None \<Longrightarrow> (Child1, Do JoinNs) \<in> set (trace s)
      \<Longrightarrow> (Agent, Do CgApply) \<in> set (trace s) \<and> (su_init su \<longrightarrow> (Agent, Do CgSet) \<in> set (trace s))"
    and "su_init su \<Longrightarrow> news su CLONE_NEWNS \<Longrightarrow> (Agent, Do Prestart) \<in> set (trace s)
      \<Longrightarrow> (last_child su, Do InitRootfs) \<in> set (trace s)"
    and "su_init su \<Longrightarrow> news su CLONE_NEWNS \<Longrightarrow> (last_child su, Do ChangeRoot) \<in> set (trace s)
      \<Longrightarrow> (Agent, Do Prestart) \<in> set (trace s)"
    and "su_init su \<Longrightarrow> (last_child su, Do Exec) \<in> set (trace s) \<Longrightarrow> (Agent, Do Prestart) \<in> set (trace s)"
    and "su_init su \<Longrightarrow> (Agent, Do Poststart) \<in> set (trace s) \<Longrightarrow> (last_child su, Do Caps) \<in> set (trace s)"
  using happens_before [OF assms] agent_before_child1 [of su] hooks_and_child [of su] by blast+

text \<open>A small start-up: a first process in a new pid namespace, without mounts, cgroups and hooks.\<close>

definition true_process :: g_Process where
  "true_process = \<lparr>pr_Terminal = False, pr_ConsoleSize = None, pr_User = None, pr_Args = [''/bin/true''],
     pr_Env = [], pr_Cwd = [], pr_Capabilities = None, pr_Rlimits = [], pr_NoNewPrivileges = False,
     pr_ApparmorProfile = [], pr_OOMScoreAdj = 0, pr_SelinuxLabel = []\<rparr>"

definition small_process :: Process where
  "small_process = \<lparr>exec_id = ''c'', p_stdin = Some 0, p_stdout = Some 1, p_stderr = Some 2, exit_pipe_r = None,
     exit_pipe_w = None, console_socket = None, term_master = None, parent_console_socket = None,
     parent_stdin = Some 7, parent_stdout = Some 8, parent_stderr = Some 9, p_init = True, p_pid = - 1,
     exit_code = 0, p_oci = true_process\<rparr>"

definition small_start :: startup where
  "small_start = \<lparr>su_spec = small_spec\<lparr>sp_Process := Some true_process\<rparr>, su_linux = small_linux,
     su_plan = \<lparr>to_new = CLONE_NEWPID, to_join = [], pidns = True\<rparr>, su_init = True, su_no_pivot = False,
     su_cm = \<lparr>m_paths = [], m_mounts = [], m_rels = [], m_cpath = []\<rparr>, su_process = small_process,
     su_fifofd = 20, su_pid1 = 100, su_pid2 = 101, su_caps = [], su_hooks = (\<lambda>_. HookEnds (HookExit 0) 1),
     su_scan_head = (\<lambda>_. Err Scanfmt), su_scan_tail = (\<lambda>_. Err Scanfmt), su_absolutize = (\<lambda>_ p. Ok p)\<rparr>"

definition small_first :: js where
  "small_first = start_state small_start quiet"

lemma small_first_reachable: "join_reachable small_start small_first"
  by (rule reachable_init) (auto simp: jinit_def small_first_def)

lemma small_first_step:
  "jstep small_start small_first (advance Agent (Close Up WriteEnd) (tl (agent_code small_start))
     (small_first\<lparr>ends := (ends small_first)(Agent := ends small_first Agent - {(Up, WriteEnd)})\<rparr>))"
  by (rule party_step [of _ Agent])
    (simp add: pstep_def small_first_def start_state_def code_of_def agent_code_def four_ends_def)

lemma start_refines_script_witness:
  "\<exists>rest. script small_start = messages small_first @ rest \<and> queue small_first = in_flight small_start rest"
  using start_refines_script [OF small_first_reachable small_first_step] by blast

end
