(* ===== verification/Join_Live.thy ===== *)
theory Join_Live
  imports Join_Props
begin

text \<open>
  The end of the start-up: without failures all parties reach it; when a child fails too early, the
  agent never returns.
\<close>

section \<open>Runs without failures\<close>

text \<open>
  The instructions a party with the descriptors \<open>E\<close> can execute: it closes only what is open, and
  reads and writes only pipes it has the end of; a forked child (with the code \<open>c\<close>) gets its ends.
\<close>

function safe :: "instr list \<Rightarrow> (pipe \<times> pend) set \<Rightarrow> instr list \<Rightarrow> bool" where
  "safe c E [] \<longleftrightarrow> True"
| "safe c E (Do x # is) \<longleftrightarrow> safe c E is"
| "safe c E (Close pp e # is) \<longleftrightarrow> (pp, e) \<in> E \<and> safe c (E - {(pp, e)}) is"
| "safe c E (Send pp m # is) \<longleftrightarrow> (pp, WriteEnd) \<in> E \<and> safe c E is"
| "safe c E (Recv pp # is) \<longleftrightarrow> (pp, ReadEnd) \<in> E \<and> safe c E is"
| "safe c E (RecvPid pp # is) \<longleftrightarrow> (pp, ReadEnd) \<in> E \<and> safe c E is"
| "safe c E (OpenLink # is) \<longleftrightarrow> safe c (E \<union> {(Link, ReadEnd), (Link, WriteEnd)}) is"
| "safe c E (Fork # is) \<longleftrightarrow> safe c E is \<and> safe [] E c"
| "safe c E (Quit # is) \<longleftrightarrow> is = []"
  by pat_completeness auto
termination
  by (relation "measure (\<lambda>(c, E, is). length c + length is)") auto

definition fork_code :: "startup \<Rightarrow> party \<Rightarrow> instr list" where
  "fork_code su p = (if p = Child1 then child2_code su else [])"

lemma safe_final:
  "{(Up, WriteEnd), (Down, ReadEnd), (Link, ReadEnd)} \<subseteq> E \<Longrightarrow> safe c E (final_code su)"
  by (cases "su_init su"; cases "pidns (su_plan su)"; cases "news su CLONE_NEWNS"; cases "news su CLONE_NEWUTS";
      simp add: final_code_def)

lemma safe_agent: "safe c four_ends (agent_code su)"
  by (cases "su_init su"; cases "pidns (su_plan su)"; cases "userns su"; cases "lx_Resources (su_linux su)";
      simp add: agent_code_def four_ends_def)

lemma safe_child1: "safe (child2_code su) four_ends (child1_code su)"
  by (cases "pidns (su_plan su)"; cases "userns su";
      simp add: child1_code_def child2_code_def four_ends_def safe_final)

lemma safe_recv:
  "safe c E is \<Longrightarrow> Recv pp \<in> set is \<or> RecvPid pp \<in> set is \<Longrightarrow> OpenLink \<notin> set is \<or> pp \<noteq> Link
    \<Longrightarrow> (pp, ReadEnd) \<in> E"
  by (induction c E "is" rule: safe.induct) auto

text \<open>Every task of the start-up returns, whatever has been called before.\<close>

definition tasks_return :: "startup \<Rightarrow> bool" where
  "tasks_return su \<longleftrightarrow> (\<forall>p x w. Do x \<in> set (code_of su p) \<longrightarrow> reliable w
     \<longrightarrow> (\<exists>w'. run_task su x w = (Ok (), w') \<and> reliable w'))"

definition live_init :: "startup \<Rightarrow> js \<Rightarrow> bool" where
  "live_init su s \<longleftrightarrow> tasks_return su \<and> (\<exists>w. reliable w \<and> s = start_state su w)"

definition party_ok :: "startup \<Rightarrow> js \<Rightarrow> party \<Rightarrow> bool" where
  "party_ok su s p = (case stat s p of
     Running \<Rightarrow> safe (fork_code su p) (ends s p) (code s p)
   | Finished \<Rightarrow> code s p = []
   | Waiting \<Rightarrow> p = Child2 \<and> code s p = code_of su p
   | _ \<Rightarrow> False)"

definition live :: "startup \<Rightarrow> js \<Rightarrow> bool" where
  "live su s \<longleftrightarrow> tasks_return su \<and> follows su s \<and> reliable (sys s) \<and> (\<forall>p. party_ok su s p)
     \<and> (Fork \<in> set (code s Child1) \<longleftrightarrow> stat s Child2 = Waiting \<and> pidns (su_plan su))"

lemma final_no_fork: "Fork \<notin> set (final_code su)" "OpenLink \<notin> set (final_code su)"
  by (simp_all add: final_code_def)

lemma live_start: "live_init su s \<Longrightarrow> live su s"
proof -
  assume i: "live_init su s"
  then obtain w where w: "reliable w" "s = start_state su w" "tasks_return su" by (auto simp: live_init_def)
  have "follows su s" by (rule jinit_follows) (use w in \<open>auto simp: jinit_def\<close>)
  moreover have "party_ok su s p" for p
    by (cases p) (simp_all add: party_ok_def w start_state_def fork_code_def code_of_def safe_agent safe_child1)
  moreover have "Fork \<in> set (code s Child1) \<longleftrightarrow> pidns (su_plan su)"
    by (simp add: w start_state_def code_of_def child1_code_def final_no_fork)
  ultimately show ?thesis using w by (simp add: live_def) (simp add: start_state_def)
qed

lemma reliable_sys: "reliable w \<Longrightarrow> nix_do p w = (Ok (), w\<lparr>hist := hist w @ [p]\<rparr>)"
  by (cases rule: sys_with_cases [of w p Nix]) (auto simp: nix_do_def nix_sys_def dest: reliableD)

lemma reliable_hist [simp]: "reliable (w\<lparr>hist := h\<rparr>) = reliable w"
  by (simp add: reliable_def)

lemma call_ok: "m (sys s) = (Ok (), w) \<Longrightarrow> call p m k s = k (s\<lparr>sys := w\<rparr>)"
  by (simp add: call_def)

text \<open>Facts about the code that the steps need.\<close>

lemma code_suffix: "follows su s \<Longrightarrow> set (code s p) \<subseteq> set (code_of su p)"
  by (auto simp: follows_def) (metis Un_iff set_append)

lemma fork_only_child1: "Fork \<in> set (code_of su p) \<Longrightarrow> p = Child1 \<and> pidns (su_plan su)"
  by (cases p) (auto simp: code_of_def agent_code_def child2_code_def child1_code_def final_no_fork split: if_splits)

lemma one_fork: "length (filter (\<lambda>i. i = Fork) (child1_code su)) \<le> 1"
proof -
  have "filter (\<lambda>i. i = Fork) (final_code su) = []"
    using final_no_fork(1) [of su] by (auto simp: filter_empty_conv)
  then show ?thesis by (simp add: child1_code_def onlyif_def)
qed

lemma fork_last:
  assumes "follows su s" "code s Child1 = Fork # is"
  shows "Fork \<notin> set is"
proof
  assume "Fork \<in> set is"
  then have "filter (\<lambda>i. i = Fork) is \<noteq> []" by (auto simp: filter_empty_conv)
  moreover have "by_party Child1 (trace s) @ Fork # is = child1_code su"
    using assms by (metis code_of_def follows_def party.simps(8))
  ultimately show False
    using one_fork [of su] by (cases "filter (\<lambda>i. i = Fork) is") (auto simp flip: \<open>_ = child1_code su\<close>)
qed

lemma link_reader: "Recv Link \<in> set (code_of su p) \<Longrightarrow> p = Child2 \<and> OpenLink \<notin> set (code_of su p)"
  by (cases p) (auto simp: codes onlyif_def split: if_splits)

lemma recv_pid_pipe: "RecvPid pp \<in> set (code_of su p) \<Longrightarrow> pp = Up"
  by (cases p) (auto simp: codes onlyif_def split: if_splits)

text \<open>The descriptors of a party that will read a pipe.\<close>

lemma live_reader:
  assumes l: "live su s" and r: "stat s p = Running" and i: "Recv pp \<in> set (code s p) \<or> RecvPid pp \<in> set (code s p)"
  shows "(pp, ReadEnd) \<in> ends s p"
proof -
  have sub: "set (code s p) \<subseteq> set (code_of su p)" using l by (intro code_suffix) (simp add: live_def)
  have "safe (fork_code su p) (ends s p) (code s p)"
    using l r by (auto simp: live_def party_ok_def dest!: spec [of _ p])
  then show ?thesis
    by (rule safe_recv [OF _ i]) (use sub i link_reader [of su p] recv_pid_pipe [of pp su p] in auto)
qed

text \<open>
  The next message of the script: its sender finds the pipe read by a party that will receive it, and
  its receiver finds it in the pipe.
\<close>

fun child2_late :: "(party \<times> instr) list \<Rightarrow> bool" where
  "child2_late [] \<longleftrightarrow> True"
| "child2_late (e # es) \<longleftrightarrow> (fst e = Child2 \<longrightarrow> (Child1, Send Link 0) \<notin> set es) \<and>
     (es \<noteq> [] \<and> fst (hd es) = Child2 \<and> (Child1, Send Link 0) \<in> set (e # es) \<longrightarrow> e = (Child1, Send Link 0)) \<and>
     (e = (Child1, Send Link 0) \<longrightarrow> by_party Child1 es = []) \<and>
     (\<forall>pp m. snd e = Send pp m \<longrightarrow> (\<exists>q rest. es = (q, Recv pp) # rest \<or> es = (q, RecvPid pp) # rest) \<and> fst (hd es) \<noteq> fst e)"

lemma script_child2: "list_all child2_late (suffixes (script su))"
  by (cases "pidns (su_plan su)"; cases "su_init su")
    (simp_all add: script_def last_child_def)

lemma live_rest:
  assumes "live su s"
  obtains rest where "script su = filter (\<lambda>e. is_sync (snd e)) (trace s) @ rest" "queue s = in_flight su rest"
    "\<And>p. filter is_sync (code s p) = by_party p rest" "token_at su rest" "child2_late rest"
proof -
  have f: "follows su s" using assms by (simp add: live_def)
  then obtain rest where r: "script su = filter (\<lambda>e. is_sync (snd e)) (trace s) @ rest" "queue s = in_flight su rest"
    by (auto simp: follows_def)
  have "rest \<in> set (suffixes (script su))" using r(1) by (auto simp: suffix_def)
  then have "token_at su rest" "child2_late rest"
    using script_tokens script_child2 by (auto simp: list_all_iff)
  with r rest_of_party [OF f r(1)] show thesis by (intro that) auto
qed

lemma later_part: "xs @ c = A @ y # R \<Longrightarrow> y \<in> set c \<Longrightarrow> y \<notin> set R \<Longrightarrow> set R \<subseteq> set c"
  by (auto simp: append_eq_append_conv2 Cons_eq_append_conv append_eq_Cons_conv)

lemma fork_before_link:
  assumes "follows su s" "Fork \<in> set (code s Child1)"
  shows "Send Link 0 \<in> set (code s Child1)" "Recv Down \<in> set (code s Child1)"
proof -
  have c: "by_party Child1 (trace s) @ code s Child1 = child1_code su"
    using assms(1) by (metis code_of_def follows_def party.simps(8))
  have pid: "pidns (su_plan su)"
    using assms code_suffix fork_only_child1 by blast
  have "\<exists>A. child1_code su = A @ Fork # [Close Link ReadEnd, Send Up (su_pid2 su), Recv Down, Send Link 0, Quit]"
    by (rule exI [of _ "[Close Up ReadEnd, Close Down WriteEnd, Do NeedProcess, Do OomScore, Do Rlimits]
      @ onlyif (userns su) [Do UnshareUser] @ [Send Up 0, Recv Down] @ onlyif (userns su) [Do RootIds]
      @ [Do JoinNs, Do UnshareRest, OpenLink]"]) (simp add: child1_code_def pid)
  then obtain A where A: "by_party Child1 (trace s) @ code s Child1
      = A @ Fork # [Close Link ReadEnd, Send Up (su_pid2 su), Recv Down, Send Link 0, Quit]"
    using c by auto
  show "Send Link 0 \<in> set (code s Child1)" "Recv Down \<in> set (code s Child1)"
    using later_part [OF A assms(2)] by simp_all
qed

text \<open>The party whose turn it is in the script runs.\<close>

lemma turn_runs:
  assumes l: "live su s" and k: "by_party p rest = i # is" "filter is_sync (code s p) = by_party p rest"
    and w: "stat s p = Waiting \<Longrightarrow> (Child1, Send Link 0) \<notin> set rest"
    and c1: "filter is_sync (code s Child1) = by_party Child1 rest"
  shows "stat s p = Running"
proof -
  have ok: "party_ok su s p" using l by (simp add: live_def)
  show ?thesis
  proof (cases "stat s p")
    case Waiting
    with ok have p2: "p = Child2" by (simp add: party_ok_def)
    have "code s p \<noteq> []" using k by auto
    with ok Waiting p2 have "pidns (su_plan su)"
      by (auto simp: party_ok_def code_of_def child2_code_def onlyif_def split: if_splits)
    with l Waiting p2 have "Fork \<in> set (code s Child1)" by (simp add: live_def)
    with l have "Send Link 0 \<in> set (code s Child1)" by (intro fork_before_link(1) [of su]) (simp_all add: live_def)
    then have "Send Link 0 \<in> set (filter is_sync (code s Child1))" by simp
    with c1 have "(Child1, Send Link 0) \<in> set rest" by (simp add: in_by_party)
    with w Waiting show ?thesis by blast
  next
    case Finished
    with ok k show ?thesis by (simp add: party_ok_def)
  qed (use ok in \<open>simp_all add: party_ok_def\<close>)
qed

lemma party_ok_other:
  assumes "party_ok su s q" "q \<noteq> p" "stat t q = stat s q" "code t q = code s q" "ends t q = ends s q"
  shows "party_ok su t q"
  using assms by (cases "stat s q") (auto simp: party_ok_def)

definition code_size :: "js \<Rightarrow> nat" where
  "code_size s = (\<Sum>p \<leftarrow> [Agent, Child1, Child2]. length (code s p) + (if stat s p = Finished then 0 else 1))"

lemma liveD:
  assumes "live su s"
  shows "tasks_return su" "follows su s" "reliable (sys s)" "party_ok su s p"
    "Fork \<in> set (code s Child1) \<longleftrightarrow> stat s Child2 = Waiting \<and> pidns (su_plan su)"
  using assms unfolding live_def by blast+

lemma liveI:
  assumes "live su s" "follows su t" "reliable (sys t)" "\<And>q. party_ok su t q"
    "stat t Child2 = Waiting \<longleftrightarrow> stat s Child2 = Waiting"
    "Fork \<in> set (code t Child1) \<longleftrightarrow> Fork \<in> set (code s Child1)"
  shows "live su t"
  unfolding live_def using assms(2-) liveD(1,5) [OF assms(1)] by blast

text \<open>A live party that is not waiting for a message makes a step that keeps the run live.\<close>

lemma live_finish:
  assumes l: "live su s" and r: "stat s p = Running" and c: "code s p = []"
  shows "\<exists>t. pstep su p s = Some t \<and> live su t \<and> code_size t < code_size s"
proof -
  let ?t = "s\<lparr>stat := (stat s)(p := Finished)\<rparr>"
  have s: "pstep su p s = Some ?t" using r c by (simp add: pstep_def)
  have "party_ok su ?t q" for q
  proof (cases "q = p")
    case True
    then show ?thesis using c by (simp add: party_ok_def)
  next
    case False
    show ?thesis by (rule party_ok_other [OF liveD(4) [OF l] False]) (use False in simp_all)
  qed
  moreover have "follows su ?t" using liveD(2) [OF l] by (simp add: follows_def)
  moreover have "stat ?t Child2 = Waiting \<longleftrightarrow> stat s Child2 = Waiting" using r by auto
  ultimately have "live su ?t" using liveD(3) [OF l] by (intro liveI [OF l]) simp_all
  moreover have "code_size ?t < code_size s" using r by (cases p) (auto simp: code_size_def)
  ultimately show ?thesis using s by blast
qed

lemma live_executes:
  assumes l: "live su s" and e: "executes p i is s t" "i \<noteq> Fork" and w: "reliable (sys t)"
    and others: "\<And>q. q \<noteq> p \<Longrightarrow> stat t q = stat s q \<and> ends t q = ends s q"
    and ok: "party_ok su t p" "stat t p \<noteq> Waiting"
  shows "live su t \<and> code_size t < code_size s"
proof -
  have c: "code s p = i # is" "stat s p = Running" "code t = (code s)(p := is)"
    using e by (simp_all add: executes_def)
  have pok: "party_ok su t q" for q
  proof (cases "q = p")
    case False
    show ?thesis by (rule party_ok_other [OF liveD(4) [OF l] False]) (use others False c in simp_all)
  qed (use ok in simp)
  have fol: "follows su t" using liveD(2) [OF l] e(1) by (rule executes_follows)
  have wait: "stat t Child2 = Waiting \<longleftrightarrow> stat s Child2 = Waiting"
    using others [of Child2] ok c by (cases "p = Child2") auto
  have frk: "Fork \<in> set (code t Child1) \<longleftrightarrow> Fork \<in> set (code s Child1)"
    using c e(2) by (cases "p = Child1") auto
  have len: "length (code t q) = (if q = p then length (code s q) - 1 else length (code s q))" for q
    using c by auto
  have "length (code s p) > 0" using c by simp
  then have "code_size t < code_size s"
    using others [of Agent] others [of Child1] others [of Child2] c(2)
    by (cases p) (auto simp: code_size_def len less_Suc_eq_le)
  with liveI [OF l fol w pok wait frk] show ?thesis by blast
qed

text \<open>The steps that need no other party.\<close>

lemma live_local:
  assumes l: "live su s" and r: "stat s p = Running" and c: "code s p = i # is" and n: "\<not> is_sync i"
  shows "\<exists>t. pstep su p s = Some t \<and> live su t \<and> code_size t < code_size s"
proof -
  have ok: "safe (fork_code su p) (ends s p) (i # is)"
    using l r c by (auto simp: live_def party_ok_def dest!: spec [of _ p])
  have w: "reliable (sys s)" using l by (simp add: live_def)
  have "i \<in> set (code_of su p)" using l c code_suffix [of su s p] by (auto simp: live_def)
  note step = pstep_def [of su p s] r c
  show ?thesis
  proof (cases i)
    case (Do x)
    with l w \<open>i \<in> _\<close> obtain w' where x: "run_task su x (sys s) = (Ok (), w')" "reliable w'"
      unfolding live_def tasks_return_def by blast
    let ?t = "advance p i is (s\<lparr>sys := w'\<rparr>)"
    have "pstep su p s = Some ?t" using Do x by (simp add: step call_ok)
    moreover have "live su ?t \<and> code_size ?t < code_size s"
      by (rule live_executes [OF l, of p i "is"])
        (use Do r c x ok in \<open>simp_all add: executes_def advance_def pipes_after_def party_ok_def\<close>)
    ultimately show ?thesis by blast
  next
    case (Close pp e)
    let ?t = "advance p i is (s\<lparr>ends := (ends s)(p := ends s p - {(pp, e)})\<rparr>)"
    have "pstep su p s = Some ?t" using Close ok by (simp add: step)
    moreover have "live su ?t \<and> code_size ?t < code_size s"
      by (rule live_executes [OF l, of p i "is"])
        (use Close r c w ok in \<open>simp_all add: executes_def advance_def pipes_after_def party_ok_def\<close>)
    ultimately show ?thesis by blast
  next
    case OpenLink
    let ?t = "advance p i is (s\<lparr>sys := (sys s)\<lparr>hist := hist (sys s) @ [SysProc (SysPipe2 ''link'')]\<rparr>,
      ends := (ends s)(p := ends s p \<union> {(Link, ReadEnd), (Link, WriteEnd)})\<rparr>)"
    have "pstep su p s = Some ?t" using OpenLink w by (simp add: step call_ok reliable_sys)
    moreover have "live su ?t \<and> code_size ?t < code_size s"
      by (rule live_executes [OF l, of p i "is"])
        (use OpenLink r c w ok in \<open>simp_all add: executes_def advance_def pipes_after_def party_ok_def\<close>)
    ultimately show ?thesis by blast
  next
    case Quit
    let ?t = "advance p i is (s\<lparr>stat := (stat s)(p := Finished), ends := (ends s)(p := {})\<rparr>)"
    have "pstep su p s = Some ?t" using Quit by (simp add: step)
    moreover have "live su ?t \<and> code_size ?t < code_size s"
      by (rule live_executes [OF l, of p i "is"])
        (use Quit r c w ok in \<open>simp_all add: executes_def advance_def pipes_after_def party_ok_def\<close>)
    ultimately show ?thesis by blast
  next
    case Fork
    with \<open>i \<in> _\<close> have p1: "p = Child1" and pid: "pidns (su_plan su)"
      using fork_only_child1 [of su p] by auto
    let ?u = "s\<lparr>sys := (sys s)\<lparr>hist := hist (sys s) @ [SysOther ''fork'' 0]\<rparr>\<rparr>"
    let ?t = "advance p i is (fork_child ?u)"
    have s: "pstep su p s = Some ?t" using Fork w by (simp add: step call_ok reliable_sys)
    have wait: "stat s Child2 = Waiting" using liveD(5) [OF l] c Fork p1 by simp
    with liveD(4) [OF l, of Child2] have c2: "code s Child2 = child2_code su"
      by (simp add: party_ok_def code_of_def)
    have ex: "executes p i is s ?t"
      using Fork r c by (simp add: executes_def advance_def fork_child_def pipes_after_def)
    have "party_ok su ?t q" for q
    proof (cases q)
      case Child1
      then show ?thesis using ok Fork p1 r by (simp add: party_ok_def advance_def fork_child_def)
    next
      case Child2
      then show ?thesis using ok Fork p1 c2 by (simp add: party_ok_def advance_def fork_child_def fork_code_def)
    next
      case Agent
      then show ?thesis using p1
        by (intro party_ok_other [OF liveD(4) [OF l], of _ Child1]) (simp_all add: advance_def fork_child_def)
    qed
    moreover have "Fork \<notin> set is" using liveD(2) [OF l] c Fork p1 by (intro fork_last) auto
    moreover have "follows su ?t" using liveD(2) [OF l] ex by (rule executes_follows)
    moreover have "reliable (sys ?t)" using w by (simp add: advance_def fork_child_def)
    ultimately have "live su ?t"
      unfolding live_def using liveD(1) [OF l] p1 by (auto simp: advance_def fork_child_def)
    moreover have "code_size ?t < code_size s"
      using c p1 r wait by (simp add: code_size_def advance_def fork_child_def)
    ultimately show ?thesis using s by blast
  qed (use n in auto)
qed

text \<open>The party whose turn it is sends or receives its message.\<close>

lemma live_message:
  assumes l: "live su s" and rest: "rest = (p, i) # rest'" "queue s = in_flight su rest"
    and syncs: "\<And>q. filter is_sync (code s q) = by_party q rest"
    and tok: "token_at su rest" "child2_late rest"
    and r: "stat s p = Running" and c: "code s p = j # is" "is_sync j"
  shows "\<exists>t. pstep su p s = Some t \<and> live su t \<and> code_size t < code_size s"
proof -
  have j: "j = i" using syncs [of p] c rest by simp
  have ok: "safe (fork_code su p) (ends s p) (i # is)"
    using liveD(4) [OF l, of p] r c j by (simp add: party_ok_def)
  have w: "reliable (sys s)" by (rule liveD(3) [OF l])
  note step = pstep_def [of su p s] r c [unfolded j]
  note tp = token_pipes [OF tok(1) [unfolded rest(1)]]
  show ?thesis
  proof (cases i)
    case (Send pp m)
    then obtain q more where q: "rest' = (q, Recv pp) # more \<or> rest' = (q, RecvPid pp) # more" "q \<noteq> p"
      using tok(2) rest(1) by auto
    have turn: "stat s q = Running"
    proof (rule turn_runs [OF l _ syncs _ syncs])
      show "by_party q rest = (if rest' = (q, Recv pp) # more then Recv pp else RecvPid pp) # by_party q more"
        using q rest(1) by auto
      assume wq: "stat s q = Waiting"
      then have q2: "q = Child2" using liveD(4) [OF l, of q] by (simp add: party_ok_def)
      show "(Child1, Send Link 0) \<notin> set rest"
      proof
        assume "(Child1, Send Link 0) \<in> set rest"
        then have h: "(p, i) = (Child1, Send Link 0)" using tok(2) q q2 rest(1) by auto
        then have only: "filter is_sync (code s Child1) = [Send Link 0]"
          using tok(2) rest(1) by (simp add: syncs)
        have "code s Child2 \<noteq> []" using syncs [of Child2] q q2 rest(1) by auto
        then have "pidns (su_plan su)"
          using liveD(4) [OF l, of Child2] wq q2
          by (auto simp: party_ok_def code_of_def child2_code_def onlyif_def split: if_splits)
        with liveD(5) [OF l] wq q2 have "Fork \<in> set (code s Child1)" by simp
        from fork_before_link(2) [OF liveD(2) [OF l] this]
        have "Recv Down \<in> set (filter is_sync (code s Child1))" by simp
        with only show False by simp
      qed
    qed
    have "Recv pp \<in> set (filter is_sync (code s q)) \<or> RecvPid pp \<in> set (filter is_sync (code s q))"
      using q rest(1) unfolding syncs by auto
    then have "(pp, ReadEnd) \<in> ends s q" by (intro live_reader [OF l turn]) auto
    then have reader: "(pp, ReadEnd) \<in> ends s Agent \<or> (pp, ReadEnd) \<in> ends s Child1 \<or> (pp, ReadEnd) \<in> ends s Child2"
      by (cases q) auto
    let ?t = "advance p i is (s\<lparr>queue := (queue s)(pp := queue s pp @ [m])\<rparr>)"
    have "pstep su p s = Some ?t" using Send ok reader by (simp add: step)
    moreover have "live su ?t \<and> code_size ?t < code_size s"
      by (rule live_executes [OF l, of p i "is"])
        (use Send r c j w ok in \<open>simp_all add: executes_def advance_def pipes_after_def party_ok_def\<close>)
    ultimately show ?thesis by blast
  next
    case (Recv pp)
    then have qu: "queue s pp = [0]" using tp(3) rest by simp
    let ?t = "advance p i is (s\<lparr>queue := (queue s)(pp := [])\<rparr>)"
    have "pstep su p s = Some ?t" using Recv ok qu by (simp add: step)
    moreover have "live su ?t \<and> code_size ?t < code_size s"
      by (rule live_executes [OF l, of p i "is"])
        (use Recv r c j w ok qu in \<open>simp_all add: executes_def advance_def pipes_after_def party_ok_def\<close>)
    ultimately show ?thesis by blast
  next
    case (RecvPid pp)
    then have qu: "queue s pp = [su_pid2 su]" using tp(4) rest by simp
    let ?t = "advance p i is (s\<lparr>queue := (queue s)(pp := []), pid_var := su_pid2 su\<rparr>)"
    have "pstep su p s = Some ?t" using RecvPid ok qu by (simp add: step)
    moreover have "live su ?t \<and> code_size ?t < code_size s"
      by (rule live_executes [OF l, of p i "is"])
        (use RecvPid r c j w ok qu in \<open>simp_all add: executes_def advance_def pipes_after_def party_ok_def\<close>)
    ultimately show ?thesis by blast
  qed (use tp(1) in auto)
qed

text \<open>A live run that is not over can go on, and becomes shorter.\<close>

definition all_done :: "startup \<Rightarrow> js \<Rightarrow> bool" where
  "all_done su s \<longleftrightarrow> (\<forall>p. stat s p = Finished \<or> p = Child2 \<and> \<not> pidns (su_plan su))"

lemma live_moves:
  assumes l: "live su s" and n: "\<not> all_done su s"
  shows "\<exists>t. jstep su s t \<and> live su t \<and> code_size t < code_size s"
proof -
  obtain rest where rest: "queue s = in_flight su rest" "\<And>p. filter is_sync (code s p) = by_party p rest"
      "token_at su rest" "child2_late rest"
    using live_rest [OF l] by metis
  have "\<exists>p t. pstep su p s = Some t \<and> live su t \<and> code_size t < code_size s"
  proof (cases "\<exists>p. stat s p = Running \<and> (code s p = [] \<or> \<not> is_sync (hd (code s p)))")
    case True
    then obtain p where p: "stat s p = Running" "code s p = [] \<or> \<not> is_sync (hd (code s p))" by blast
    show ?thesis
    proof (cases "code s p")
      case Nil
      from live_finish [OF l p(1) Nil] show ?thesis by blast
    next
      case (Cons i "is")
      with p(2) have "\<not> is_sync i" by simp
      from live_local [OF l p(1) Cons this] show ?thesis by blast
    qed
  next
    case False
    then have heads: "\<And>p. stat s p = Running \<Longrightarrow> \<exists>i is. code s p = i # is \<and> is_sync i"
      by (metis list.collapse)
    show ?thesis
    proof (cases rest)
      case Nil
      then have nr: "stat s p \<noteq> Running" for p using heads [of p] rest(2) [of p] by auto
      have "Fork \<notin> set (code s Child1)"
      proof
        assume "Fork \<in> set (code s Child1)"
        from fork_before_link(2) [OF liveD(2) [OF l] this]
        have "Recv Down \<in> set (filter is_sync (code s Child1))" by simp
        with Nil show False by (simp add: rest(2))
      qed
      then have nw: "\<not> (stat s Child2 = Waiting \<and> pidns (su_plan su))" using liveD(5) [OF l] by blast
      have "stat s p = Finished \<or> p = Child2 \<and> \<not> pidns (su_plan su)" for p
        using liveD(4) [OF l, of p] nr [of p] nw by (cases "stat s p") (auto simp: party_ok_def)
      then have "all_done su s" by (simp add: all_done_def)
      with n show ?thesis ..
    next
      case (Cons e rest')
      obtain p i where e: "e = (p, i)" by fastforce
      have sync: "is_sync i" using token_pipes(1) rest(3) Cons e by blast
      have run: "stat s p = Running"
      proof (rule turn_runs [OF l _ rest(2) _ rest(2)])
        show "by_party p rest = i # by_party p rest'" by (simp add: Cons e)
        assume "stat s p = Waiting"
        then have "p = Child2" using liveD(4) [OF l, of p] by (simp add: party_ok_def)
        with rest(4) Cons e show "(Child1, Send Link 0) \<notin> set rest" by simp
      qed
      from heads [OF run] obtain j "is" where "code s p = j # is" "is_sync j" by blast
      from live_message [OF l Cons [unfolded e] rest(1,2,3,4) run this] show ?thesis by blast
    qed
  qed
  then show ?thesis by (blast intro: party_step)
qed

lemma live_step:
  assumes l: "live su s" and st: "pstep su p s = Some t"
  shows "live su t"
proof -
  have r: "stat s p = Running" using st by (auto simp: pstep_def split: if_splits)
  have "\<exists>t. pstep su p s = Some t \<and> live su t \<and> code_size t < code_size s"
  proof (cases "code s p")
    case Nil
    from live_finish [OF l r Nil] show ?thesis .
  next
    case (Cons i "is")
    show ?thesis
    proof (cases "is_sync i")
      case False
      from live_local [OF l r Cons False] show ?thesis .
    next
      case True
      obtain rest where rest: "queue s = in_flight su rest" "\<And>p. filter is_sync (code s p) = by_party p rest"
          "token_at su rest" "child2_late rest"
        using live_rest [OF l] by metis
      have ok: "safe (fork_code su p) (ends s p) (i # is)"
        using liveD(4) [OF l, of p] r Cons by (simp add: party_ok_def)
      have "\<forall>pp. (i = Recv pp \<or> i = RecvPid pp) \<longrightarrow> in_flight su rest pp \<noteq> []"
        using st ok Cons r by (auto simp: pstep_def simp flip: rest(1) split: list.splits)
      from head_turn [OF rest(3) _ True this] rest(2) [of p] Cons obtain rest' where "rest = (p, i) # rest'"
        by metis
      from live_message [OF l this rest(1,2,3,4) r Cons True] show ?thesis .
    qed
  qed
  with st show ?thesis by auto
qed

interpretation join_live: progress_system "live_init su" "jstep su" "live su" "all_done su" code_size for su
proof
  show "live_init su s \<Longrightarrow> live su s" for s by (rule live_start)
  show "live su s \<Longrightarrow> jstep su s t \<Longrightarrow> live su t" for s t
    by (erule jstepE) (rule live_step)
  show "live su s \<Longrightarrow> \<not> all_done su s \<Longrightarrow> \<exists>t. jstep su s t \<and> code_size t < code_size s" for s
    by (meson live_moves)
qed

section \<open>Failures of a child\<close>

text \<open>A party that has left or is stuck executes nothing any more.\<close>

definition dead :: "js \<Rightarrow> party \<Rightarrow> bool" where
  "dead s p \<longleftrightarrow> stat s p = Failed \<or> stat s p = Stuck"

text \<open>What the failure argument needs to know about the states: a finished party has no code left,
  and the second child does not run before the fork.\<close>

definition settled :: "js \<Rightarrow> bool" where
  "settled s \<longleftrightarrow> (\<forall>p. stat s p = Finished \<longrightarrow> code s p = [])
     \<and> (stat s Child2 = Waiting \<or> (Child1, Fork) \<in> set (trace s))
     \<and> stat s Agent \<noteq> Waiting \<and> stat s Child1 \<noteq> Waiting"

lemma final_quit: "Quit \<notin> set (butlast (final_code su))" "final_code su \<noteq> []"
  by (simp_all add: final_code_def butlast_append)

lemma code_quit: "Quit \<notin> set (butlast (code_of su p))"
  by (cases p; cases "pidns (su_plan su)")
    (simp_all add: code_of_def agent_code_def child1_code_def child2_code_def butlast_append final_quit)

lemma quit_is_last:
  assumes "follows su s" "code s p = Quit # is"
  shows "is = []"
proof (rule ccontr)
  assume "is \<noteq> []"
  moreover have "by_party p (trace s) @ Quit # is = code_of su p" using assms by (metis follows_def)
  ultimately show False using code_quit [of su p] by (metis butlast.simps(2) butlast_append list.distinct(1)
      list.set_intros(1) Un_iff set_append)
qed

text \<open>What a step does to the states of the parties.\<close>

lemma pstep_stat:
  assumes "pstep su p s = Some t"
  shows "stat s p = Running"
    and "q \<noteq> p \<Longrightarrow> code t q = code s q"
    and "q \<noteq> p \<Longrightarrow> stat t q = stat s q \<or> q = Child2 \<and> stat t q = Running \<and> (\<exists>is. code s p = Fork # is) \<and> (p, Fork) \<in> set (trace t)"
    and "stat t p = Finished \<Longrightarrow> code s p = [] \<and> code t p = [] \<or> (\<exists>is. code s p = Quit # is \<and> code t p = is)"
    and "stat t p \<noteq> Waiting"
    and "set (trace s) \<subseteq> set (trace t)"
proof -
  show r: "stat s p = Running" using assms by (auto simp: pstep_def split: if_splits)
  show "q \<noteq> p \<Longrightarrow> code t q = code s q"
    using assms by (auto elim!: pstep_cases simp: executes_def same_progress_def)
  show "set (trace s) \<subseteq> set (trace t)"
    using assms by (auto elim!: pstep_cases simp: executes_def same_progress_def)
  show "stat t p \<noteq> Waiting"
    using assms r by (auto simp: pstep_def call_def fail_def advance_def fork_child_def Let_def
        split: list.splits instr.splits if_splits prod.splits res.splits)
  show "stat t p = Finished \<Longrightarrow> code s p = [] \<and> code t p = [] \<or> (\<exists>is. code s p = Quit # is \<and> code t p = is)"
    using assms r by (auto simp: pstep_def call_def fail_def advance_def fork_child_def Let_def
        split: list.splits instr.splits if_splits prod.splits res.splits)
  show "q \<noteq> p \<Longrightarrow> stat t q = stat s q \<or> q = Child2 \<and> stat t q = Running \<and> (\<exists>is. code s p = Fork # is) \<and> (p, Fork) \<in> set (trace t)"
    using assms r by (auto simp: pstep_def call_def fail_def advance_def fork_child_def executes_def pipes_after_def Let_def
        split: list.splits instr.splits if_splits prod.splits res.splits)
qed

lemma fork_once:
  assumes "follows su s" "(Child1, Fork) \<in> set (trace s)"
  shows "Fork \<notin> set (code s p)"
proof
  assume f: "Fork \<in> set (code s p)"
  then have "p = Child1" using code_suffix [OF assms(1)] fork_only_child1 by blast
  with f have f1: "filter (\<lambda>i. i = Fork) (code s Child1) \<noteq> []" by (auto simp: filter_empty_conv)
  have "Fork \<in> set (by_party Child1 (trace s))" using assms(2) by (simp add: in_by_party)
  then have f2: "filter (\<lambda>i. i = Fork) (by_party Child1 (trace s)) \<noteq> []" by (auto simp: filter_empty_conv)
  have "by_party Child1 (trace s) @ code s Child1 = child1_code su"
    using assms(1) by (metis code_of_def follows_def party.simps(8))
  then have "length (filter (\<lambda>i. i = Fork) (by_party Child1 (trace s))) + length (filter (\<lambda>i. i = Fork) (code s Child1)) \<le> 1"
    using one_fork [of su] by (metis filter_append length_append)
  moreover have "0 < length (filter (\<lambda>i. i = Fork) (by_party Child1 (trace s)))"
    "0 < length (filter (\<lambda>i. i = Fork) (code s Child1))" using f1 f2 by simp_all
  ultimately show False by linarith
qed

lemma settled_step:
  assumes f: "follows su s" and s: "settled s" and st: "pstep su p s = Some t"
  shows "settled t"
proof -
  note ps = pstep_stat [OF st]
  have "code t q = []" if q: "stat t q = Finished" for q
  proof (cases "q = p")
    case True
    with ps(4) q quit_is_last [OF f] show ?thesis by metis
  next
    case False
    with ps(3) [OF False] q have "stat s q = Finished" by auto
    with s ps(2) [OF False] show ?thesis by (simp add: settled_def)
  qed
  moreover have "stat t Child2 = Waiting \<or> (Child1, Fork) \<in> set (trace t)"
  proof (cases "stat s Child2 = Waiting")
    case True
    then have "p \<noteq> Child2" using ps(1) by auto
    with ps(3) [of Child2] True code_suffix [OF f, of p] fork_only_child1 [of su p] show ?thesis by auto
  next
    case False
    with s ps(6) show ?thesis by (auto simp: settled_def)
  qed
  moreover have "stat t q \<noteq> Waiting" if "q \<noteq> Child2" for q
    using ps(3) [of q] ps(5) that s by (cases "q = p") (auto simp: settled_def, (cases q, auto)+)
  ultimately show ?thesis by (simp add: settled_def)
qed

lemma reachable_settled: "join_reachable su s \<Longrightarrow> settled s"
proof (rule join.reachable_rel)
  show "jinit su s \<Longrightarrow> settled s" for s by (auto simp: jinit_def settled_def start_state_def split: if_splits)
  show "follows su s \<Longrightarrow> settled s \<Longrightarrow> jstep su s t \<Longrightarrow> settled t" for s t by (auto intro: settled_step)
qed

lemma dead_step:
  assumes r: "join_reachable su s" and d: "dead s q" and st: "jstep su s t"
  shows "dead t q \<and> code t q = code s q"
proof -
  obtain p where p: "pstep su p s = Some t" using st by auto
  note ps = pstep_stat [OF p]
  have f: "follows su s" using r by (rule join.reachable_inv)
  have qp: "q \<noteq> p" using d ps(1) by (auto simp: dead_def)
  have "\<not> (q = Child2 \<and> (\<exists>is. code s p = Fork # is))"
  proof
    assume h: "q = Child2 \<and> (\<exists>is. code s p = Fork # is)"
    then have "(Child1, Fork) \<in> set (trace s)"
      using reachable_settled [OF r] d by (auto simp: settled_def dead_def)
    with fork_once [OF f this, of p] h show False by auto
  qed
  with ps(3) [OF qp] have "stat t q = stat s q" by blast
  with d ps(2) [OF qp] show ?thesis by (simp add: dead_def)
qed

lemma dead_stays:
  assumes "(jstep su)\<^sup>*\<^sup>* s t" "join_reachable su s" "dead s q"
  shows "dead t q \<and> code t q = code s q \<and> join_reachable su t"
  using assms
proof (induction rule: rtranclp_induct)
  case (step t u)
  then have t: "dead t q" "code t q = code s q" "join_reachable su t" by simp_all
  from dead_step [OF t(3,1) step(2)] reachable_step [OF t(3) step(2)] t(2) show ?case by simp
qed simp

text \<open>After a message of a child to the agent, the agent still has one to receive.\<close>

lemma script_up_received:
  "list_all (\<lambda>rest. list_all (\<lambda>e. fst e \<noteq> Agent \<and> (\<exists>m. snd e = Send Up m) \<longrightarrow> by_party Agent rest \<noteq> []) rest)
     (suffixes (script su))"
  by (cases "pidns (su_plan su)"; cases "su_init su") (simp_all add: script_def last_child_def)

lemma agent_finished_script:
  assumes "join_reachable su s" "stat s Agent = Finished"
  shows "code s Agent = []" "by_party Agent (trace s) = agent_code su"
    and "p \<noteq> Agent \<Longrightarrow> Send Up m \<notin> set (code s p)"
proof -
  have f: "follows su s" using assms(1) by (rule join.reachable_inv)
  show c: "code s Agent = []" using reachable_settled [OF assms(1)] assms(2) by (simp add: settled_def)
  have "by_party Agent (trace s) @ code s Agent = code_of su Agent" using f by (simp add: follows_def)
  with c show "by_party Agent (trace s) = agent_code su" by (simp add: code_of_def)
  obtain rest where r: "script su = filter (\<lambda>e. is_sync (snd e)) (trace s) @ rest" using f by (auto simp: follows_def)
  note rp = rest_of_party [OF f r]
  have "rest \<in> set (suffixes (script su))" using r by (auto simp: suffix_def)
  then have "list_all (\<lambda>e. fst e \<noteq> Agent \<and> (\<exists>m. snd e = Send Up m) \<longrightarrow> by_party Agent rest \<noteq> []) rest"
    using script_up_received by (auto simp: list_all_iff)
  moreover have "by_party Agent rest = []" using rp [of Agent] c by simp
  ultimately have none: "(p, Send Up m) \<notin> set rest" if "p \<noteq> Agent" using that by (auto simp: list_all_iff)
  show "p \<noteq> Agent \<Longrightarrow> Send Up m \<notin> set (code s p)"
  proof
    assume "p \<noteq> Agent" "Send Up m \<in> set (code s p)"
    then have "Send Up m \<in> set (by_party p rest)" by (simp flip: rp)
    with none \<open>p \<noteq> Agent\<close> show False by (simp add: in_by_party)
  qed
qed

section \<open>Small runs\<close>

text \<open>Up to \<open>n\<close> steps of one party.\<close>

primrec steps_of :: "startup \<Rightarrow> party \<Rightarrow> nat \<Rightarrow> js \<Rightarrow> js" where
  "steps_of su p 0 s = s"
| "steps_of su p (Suc n) s = (case pstep su p s of None \<Rightarrow> s | Some t \<Rightarrow> steps_of su p n t)"

lemma steps_of_run: "(jstep su)\<^sup>*\<^sup>* s (steps_of su p n s)"
  by (induction n arbitrary: s)
    (auto split: option.split intro: converse_rtranclp_into_rtranclp party_step)

text \<open>A specification without a process: the first child leaves before its first message.\<close>

definition bad_start :: startup where
  "bad_start = small_start\<lparr>su_spec := small_spec\<rparr>"

definition bad_state :: js where
  "bad_state = steps_of bad_start Child1 3 (start_state bad_start quiet)"

lemma bad_state_reachable: "join_reachable bad_start bad_state"
  unfolding bad_state_def reachable_def
  by (rule exI [of _ "start_state bad_start quiet"]) (auto simp: jinit_def steps_of_run)

lemma bad_state_dead: "dead bad_state Child1" "Send Up 0 \<in> set (code bad_state Child1)"
  by (simp_all add: bad_state_def numeral_3_eq_3 pstep_def start_state_def code_of_def child1_code_def
      four_ends_def advance_def call_def fail_def dead_def spec_process_def bad_start_def small_start_def small_spec_def)

text \<open>Under a reliable kernel every task of the small start-up returns.\<close>

lemma has_pid_flags: "has_flags CLONE_NEWPID CLONE_NEWUSER = False" "has_flags CLONE_NEWPID CLONE_NEWNS = False"
    "has_flags CLONE_NEWPID CLONE_NEWUTS = False"
  by (simp_all add: has_flags_def clone_flags)

lemma small_tasks: "Do x \<in> set (code_of small_start p) \<Longrightarrow>
   x \<in> {Prestart, Poststart, NeedProcess, OomScore, Rlimits, JoinNs, UnshareRest, Canon, SetMountNs,
     Stdio, ChangeDir, UserIds, NoNewPrivs, Caps, Fifo, Exec}"
  by (cases p) (auto simp: codes onlyif_def small_start_def userns_def userns_of_def news_def has_pid_flags
      small_linux_def empty_linux_def split: if_splits)

text \<open>Actions that return a value when the kernel does not fail.\<close>

definition returns :: "'a io \<Rightarrow> bool" where
  "returns m \<longleftrightarrow> (\<forall>w. reliable w \<longrightarrow> (\<exists>x w'. m w = (Ok x, w') \<and> reliable w'))"

lemma returns_ret: "returns (ret x)" and returns_gets: "returns (getsR f)"
  by (simp_all add: returns_def)

lemma returns_bind:
  assumes "returns m" "\<And>x. returns (f x)"
  shows "returns (bindR m f)"
  unfolding returns_def
proof (intro allI impI)
  fix w assume "reliable w"
  then obtain x u where m: "m w = (Ok x, u)" "reliable u" using assms(1) by (auto simp: returns_def)
  with assms(2) [of x] show "\<exists>y w'. bindR m f w = (Ok y, w') \<and> reliable w'" by (simp add: returns_def)
qed

lemma returns_then: "returns m \<Longrightarrow> returns k \<Longrightarrow> returns (thenR m k)"
  by (simp add: thenR_def returns_bind)

lemma returns_when: "(b \<Longrightarrow> returns m) \<Longrightarrow> returns (whenR b m)"
  by (cases b) (simp_all add: returns_ret del: act_basic)

lemma returns_sys_with: "returns (sys_with mk p)"
  unfolding returns_def
proof (intro allI impI)
  fix w assume "reliable w"
  then show "\<exists>x w'. sys_with mk p w = (Ok x, w') \<and> reliable w'"
    by (cases rule: sys_with_cases [of w p mk]) (auto dest: reliableD)
qed

lemma returns_nix: "returns (nix_sys p)" "returns (nix_do p)" "returns (io_sys p)"
  unfolding nix_sys_def nix_do_def io_sys_def by (intro returns_then returns_ret returns_sys_with)+

lemma returns_ignore: "returns m \<Longrightarrow> returns (ignoreR m)"
  unfolding returns_def by (meson ignoreR_step(1))

lemma returns_catch: "returns m \<Longrightarrow> returns (catchR m h)"
  unfolding returns_def by (meson catchR_step(1))

lemma returns_canonicalize: "returns (fs_canonicalize p)"
  unfolding fs_canonicalize_def by (intro returns_then returns_nix returns_gets)

lemma returns_Ok: "returns (liftR (Ok x))"
  by (simp add: returns_def)

lemmas returns_rules = returns_ret returns_gets returns_bind returns_then returns_when returns_nix
  returns_ignore returns_catch returns_canonicalize returns_Ok

lemma returnsD: "returns (m :: unit io) \<Longrightarrow> reliable w \<Longrightarrow> \<exists>w'. m w = (Ok (), w') \<and> reliable w'"
  by (auto simp: returns_def)

lemma small_returns: "tasks_return small_start"
  unfolding tasks_return_def
proof (intro allI impI returnsD)
  fix p x assume x: "Do x \<in> set (code_of small_start p)"
  note defs = small_start_def small_spec_def true_process_def small_process_def small_linux_def empty_linux_def
  have e: "returns (exec_program small_start)"
    unfolding returns_def
    by (simp add: exec_program_def defs do_exec_def c_args_def reliable_sys)
  show "returns (run_task small_start x)"
    using small_tasks [OF x] e
    by (elim insertE emptyE; simp add: defs run_hooks_def spec_process_def spec_root_def mount_fds_def
        setup_stdio_def dup_stream_def close_high_def close_fd_def fd_of_def user_ids_def wait_fifo_def
        del: act_basic)
      (intro returns_rules | simp)+
qed

section \<open>Properties\<close>

text \<open>C7: when every task returns, the start-up can always be completed: from every reachable state there
  is a run in which the agent and the children come to their end, and the agent then knows the pid
  of the last child.\<close>
theorem start_completes:
  assumes "tasks_return su" "reliable w" "(jstep su)\<^sup>*\<^sup>* (start_state su w) s"
  shows "\<exists>t. (jstep su)\<^sup>*\<^sup>* s t \<and> all_done su t
    \<and> pid_var t = (if pidns (su_plan su) then su_pid2 su else su_pid1 su)"
proof -
  have "reachable (live_init su) (jstep su) s"
    using assms by (auto simp: reachable_def live_init_def)
  from join_live.reachable_can_reach_goal [OF this] obtain t where t: "(jstep su)\<^sup>*\<^sup>* s t" "all_done su t"
    by blast
  have r: "join_reachable su t"
    using rtranclp_trans [OF assms(3) t(1)] by (auto simp: reachable_def jinit_def)
  then have f: "follows su t" by (rule join.reachable_inv)
  have "by_party Agent (trace t) = agent_code su"
    using agent_finished_script(2) [OF r] t(2) by (auto simp: all_done_def)
  then have "pid_var t = (if RecvPid Up \<in> set (agent_code su) then su_pid2 su else su_pid1 su)"
    using f by (simp add: follows_def flip: in_by_party)
  with t show ?thesis by (auto simp: agent_code_def)
qed

lemma start_completes_witness: "\<exists>t. all_done small_start t \<and> pid_var t = 101"
  using start_completes [OF small_returns reliable_quiet rtranclp.rtrancl_refl] by (auto simp: small_start_def)

lemma agent_returns_ready_parts:
  assumes "join_reachable su s" "stat s Agent = Finished"
  shows "pid_var s = (if pidns (su_plan su) then su_pid2 su else su_pid1 su)"
    and "su_init su \<Longrightarrow> (last_child su, Do Caps) \<in> set (trace s)"
    and "su_init su \<Longrightarrow> (Agent, Do Prestart) \<in> set (trace s) \<and> (Agent, Do Poststart) \<in> set (trace s)"
proof -
  have f: "follows su s" using assms(1) by (rule join.reachable_inv)
  note all = agent_finished_script(2) [OF assms]
  then have "pid_var s = (if RecvPid Up \<in> set (agent_code su) then su_pid2 su else su_pid1 su)"
    using f by (simp add: follows_def flip: in_by_party)
  then show "pid_var s = (if pidns (su_plan su) then su_pid2 su else su_pid1 su)"
    by (auto simp: agent_code_def)
  show hooks: "su_init su \<Longrightarrow> (Agent, Do Prestart) \<in> set (trace s) \<and> (Agent, Do Poststart) \<in> set (trace s)"
    by (simp add: all agent_code_def flip: in_by_party)
  show "su_init su \<Longrightarrow> (last_child su, Do Caps) \<in> set (trace s)"
    using happens_before [OF assms(1)] hooks_and_child(3) [of su] hooks by blast
qed

text \<open>\<open>start\<close> returns to its caller without an error only after the last child has entered the
  container and, for a first process, dropped its capabilities, and with its pid, however the calls
  end.\<close>
lemma agent_returns_ready:
  assumes "join_reachable su s" "stat s Agent = Finished"
  shows "pid_var s = (if pidns (su_plan su) then su_pid2 su else su_pid1 su)
    \<and> (su_init su \<longrightarrow> (last_child su, Do Caps) \<in> set (trace s)
        \<and> (Agent, Do Prestart) \<in> set (trace s) \<and> (Agent, Do Poststart) \<in> set (trace s))"
  using agent_returns_ready_parts [OF assms] by blast

lemma finished_small: "\<exists>s. join_reachable small_start s \<and> stat s Agent = Finished"
proof -
  have "live_init small_start (start_state small_start quiet)" 
    unfolding live_init_def using small_returns reliable_quiet by blast
  then obtain t where t: "(jstep small_start)\<^sup>*\<^sup>* (start_state small_start quiet) t" "all_done small_start t"
    using join_live.can_reach_goal [OF live_start] by blast
  then show ?thesis by (auto simp: all_done_def reachable_def jinit_def)
qed

lemma agent_returns_ready_witness: "\<exists>s :: js. stat s Agent = Finished \<and> pid_var s = 101 \<and> (Child2, Do Caps) \<in> set (trace s)"
proof -
  from finished_small obtain s where s: "join_reachable small_start s" "stat s Agent = Finished" by blast
  have "pid_var s = 101 \<and> (Child2, Do Caps) \<in> set (trace s)"
    using agent_returns_ready [OF s] by (simp add: small_start_def last_child_def)
  with s(2) show ?thesis by blast
qed

text \<open>C8: in every run, failures included, the id mappings are written before the first child takes
  the root ids of its new user namespace; it is in its cgroups, with their limits set, before it
  enters any namespace; the prestart hooks run after the mounts of the container are made and before
  the root changes; the program starts after them; the poststart hooks run once the container process
  has dropped its capabilities.\<close>
theorem start_order:
  assumes "join_reachable su s"
  shows "(userns su \<and> (Child1, Do RootIds) \<in> set (trace s)
        \<longrightarrow> (Agent, Do UidMap) \<in> set (trace s) \<and> (Agent, Do GidMap) \<in> set (trace s))
    \<and> (lx_Resources (su_linux su) \<noteq> None \<and> (Child1, Do JoinNs) \<in> set (trace s)
        \<longrightarrow> (Agent, Do CgApply) \<in> set (trace s) \<and> (su_init su \<longrightarrow> (Agent, Do CgSet) \<in> set (trace s)))
    \<and> (su_init su \<and> news su CLONE_NEWNS \<and> (Agent, Do Prestart) \<in> set (trace s)
        \<longrightarrow> (last_child su, Do InitRootfs) \<in> set (trace s))
    \<and> (su_init su \<and> news su CLONE_NEWNS \<and> (last_child su, Do ChangeRoot) \<in> set (trace s)
        \<longrightarrow> (Agent, Do Prestart) \<in> set (trace s))
    \<and> (su_init su \<and> (last_child su, Do Exec) \<in> set (trace s) \<longrightarrow> (Agent, Do Prestart) \<in> set (trace s))
    \<and> (su_init su \<and> (Agent, Do Poststart) \<in> set (trace s) \<longrightarrow> (last_child su, Do Caps) \<in> set (trace s))"
  using start_order_parts [OF assms] by blast

lemma start_order_witness:
  "\<exists>s :: js. (Agent, Do Poststart) \<in> set (trace s) \<and> (Child2, Do Caps) \<in> set (trace s)"
proof -
  from finished_small obtain s where s: "join_reachable small_start s" "stat s Agent = Finished" by blast
  have "(Agent, Do Poststart) \<in> set (trace s)"
    using agent_returns_ready_parts(3) [OF s] by (simp add: small_start_def)
  with start_order [OF s(1)] show ?thesis by (auto simp: small_start_def last_child_def)
qed



end
