(* ===== verification/Container_Start.thy ===== *)
theory Container_Start
  imports Join_Live
begin

text \<open>
  \<open>LinuxContainer::start\<close> and \<open>run\<close> around the protocol of \<open>Join_Sync\<close>: what the agent does before it
  calls \<open>join_namespaces\<close> and after it has returned. The outcome of the call for the agent (the pid of
  the last child, or an error) is the parameter \<open>join\<close>; \<open>Join_Live\<close> says what it can be.
\<close>

section \<open>Before the fork\<close>

definition make_fifo :: "LinuxContainer \<Rightarrow> int io" where
  "make_fifo c =
     bindR (path_exists (fifo_path c)) (\<lambda>ex. if ex then throw (ErrorCode ''exec fifo exists'')
       else thenR (proc_do (SysMkfifo (fifo_path c) 402)) (nix_sys (FsOpen (fifo_path c) ''O_PATH|O_CLOEXEC'')))"

text \<open>The descriptor of the fifo, the namespaces and the state for the hooks.\<close>

definition start_prepare :: "int \<Rightarrow> LinuxContainer \<Rightarrow> bool \<Rightarrow> (int \<times> g_Spec \<times> g_Linux \<times> ns_plan \<times> OCIState) io" where
  "start_prepare self_pid c init =
     bindR (if init then make_fifo c else ret (- 1)) (\<lambda>fifofd.
     case co_spec (c_config c) of None \<Rightarrow> throw (ErrorCode ''no spec'')
     | Some spec \<Rightarrow> (case sp_Linux spec of None \<Rightarrow> throw (ErrorCode ''no linux config'')
       | Some linux \<Rightarrow>
          bindR (get_namespaces self_pid linux init (init_process_pid c)) (\<lambda>nses.
          bindR (plan_namespaces nses no_plan) (\<lambda>plan.
          bindR (oci_state c) (\<lambda>st. ret (fifofd, spec, linux, plan, st))))))"

section \<open>After the children are set up\<close>

text \<open>The master of the terminal that the child sends; a malformed message is a negative answer.\<close>

definition receive_terminal :: "Process \<Rightarrow> int \<Rightarrow> Process io" where
  "receive_terminal p console_fd =
     bindR (nix_sys (SysProc (SysRecvmsg console_fd))) (\<lambda>fd.
     if fd < 0 then throw (ErrorCode ''error in send/recvmsg!'')
     else thenR (run_all [close_fd (parent_console_socket p), close_fd (console_socket p)])
       (ret (p\<lparr>term_master := Some fd\<rparr>)))"

definition store_process :: "Process \<Rightarrow> LinuxContainer \<Rightarrow> LinuxContainer" where
  "store_process p c = c\<lparr>c_processes := AList.update (p_pid p) p (c_processes c)\<rparr>"

definition start_agent :: "int \<Rightarrow> int \<Rightarrow> (u64 \<times> int) list \<Rightarrow> Process \<Rightarrow> unit cact" where
  "start_agent child fifofd joined proc =
     (let p = proc\<lparr>p_pid := child\<rparr>
      in thenR (modC (\<lambda>c. c\<lparr>c_status := Some ''created''\<rparr>))
        (thenR (whenR (p_init p) (thenR (modC (\<lambda>c. c\<lparr>init_process_pid := child\<rparr>)) (osC (nix_do (SysClose fifofd)))))
        (thenR (osC (run_all [close_fd (p_stdin p), close_fd (p_stderr p), close_fd (p_stdout p),
            for_each joined (\<lambda>(_, fd). ignoreR (nix_do (SysClose fd)))]))
        (bindR (osC (catchR (nix_pair (SysProc (SysPipe2 ''exit''))) (\<lambda>_. throw (Msg ''failed to create pipe'')))) (\<lambda>(r, w).
          let p = p\<lparr>exit_pipe_w := Some w, exit_pipe_r := Some r\<rparr>
          in case parent_console_socket p of
              None \<Rightarrow> modC (store_process p)
            | Some console_fd \<Rightarrow> bindR (osC (receive_terminal p console_fd)) (\<lambda>q. modC (store_process q)))))))"

text \<open>The arguments of the protocol for a container and a process; \<open>env\<close> carries the parameters of
  \<open>Join_Sync\<close> for code that is not the program's, and the numbers the forks will return.\<close>

definition startup_for :: "startup \<Rightarrow> LinuxContainer \<Rightarrow> Process \<Rightarrow> int \<times> g_Spec \<times> g_Linux \<times> ns_plan \<times> OCIState \<Rightarrow> startup res" where
  "startup_for env c p = (\<lambda>(fifofd, spec, linux, plan, st). map_res (\<lambda>cm.
     env\<lparr>su_spec := spec, su_linux := linux, su_plan := plan, su_init := p_init p,
       su_no_pivot := no_pivot_root (c_config c), su_cm := cm, su_process := p, su_fifofd := fifofd\<rparr>)
     (unwrap (cgroup_manager c)))"

definition container_start :: "(startup \<Rightarrow> int io) \<Rightarrow> startup \<Rightarrow> int \<Rightarrow> Process \<Rightarrow> unit cact" where
  "container_start join env self_pid p =
     bindR (getC (\<lambda>c. c)) (\<lambda>c.
     bindR (osC (start_prepare self_pid c (p_init p))) (\<lambda>prep.
     bindR (liftR (startup_for env c p prep)) (\<lambda>su.
     bindR (osC (join su)) (\<lambda>child.
     start_agent child (su_fifofd su) (to_join (su_plan su)) p))))"

definition container_run :: "(startup \<Rightarrow> int io) \<Rightarrow> startup \<Rightarrow> int \<Rightarrow> u64 \<Rightarrow> Process \<Rightarrow> unit cact" where
  "container_run join env self_pid now p =
     thenR (container_start join env self_pid p)
       (whenR (p_init p) (thenR (container_exec now) (modC (\<lambda>c. c\<lparr>c_status := Some ''running''\<rparr>))))"

section \<open>The type of a container\<close>

text \<open>The states a container can be in, and its table of processes.\<close>

definition status_ok :: "string option \<Rightarrow> bool" where
  "status_ok st \<longleftrightarrow> st \<in> {Some ''stopped'', Some ''created'', Some ''running''}"

definition table_ok :: "(int \<times> Process) list \<Rightarrow> bool" where
  "table_ok ps \<longleftrightarrow> distinct (map fst ps) \<and> list_all (\<lambda>(pid, p). p_pid p = pid) ps"

definition container_ok :: "LinuxContainer \<Rightarrow> bool" where
  "container_ok c \<longleftrightarrow> status_ok (c_status c) \<and> table_ok (c_processes c)"

text \<open>A step that keeps the type of a container, and its id.\<close>

definition steady :: "LinuxContainer \<Rightarrow> LinuxContainer \<Rightarrow> bool" where
  "steady c d \<longleftrightarrow> c_id d = c_id c \<and> (container_ok c \<longrightarrow> container_ok d)"

definition stays_ok :: "LinuxContainer \<times> world \<Rightarrow> LinuxContainer \<times> world \<Rightarrow> bool" where
  "stays_ok s t \<longleftrightarrow> steady (fst s) (fst t)"

lemma stays_ok_rel [simp]: "reflp stays_ok" "transp stays_ok"
  by (auto simp: stays_ok_def steady_def reflp_def intro: transpI)

lemma keeps_osC: "keeps stays_ok (osC m)"
  by (rule keepsI) (auto simp: osC_def stays_ok_def steady_def split: prod.splits)

lemma keeps_getC: "keeps stays_ok (getC f)"
  by (rule keepsI) (auto simp: getC_def stays_ok_def steady_def split: prod.splits)

lemma keeps_modC: "(\<And>c. steady c (f c)) \<Longrightarrow> keeps stays_ok (modC f)"
  by (rule keepsI) (auto simp: modC_def stays_ok_def split: prod.splits)

lemma table_store:
  assumes "table_ok ps"
  shows "table_ok (AList.update (p_pid p) p ps)"
proof -
  have "distinct (map fst (AList.update (p_pid p) p ps))"
    using assms by (simp add: table_ok_def distinct_update)
  moreover have "list_all (\<lambda>(pid, q). p_pid q = pid) (AList.update (p_pid p) p ps)"
    using assms unfolding table_ok_def by (induction ps) auto
  ultimately show ?thesis by (simp add: table_ok_def)
qed

lemma ok_steps:
  "steady c (store_process p c)"
  "st \<in> {''stopped'', ''created'', ''running''} \<Longrightarrow> steady c (c\<lparr>c_status := Some st\<rparr>)"
  "steady c (c\<lparr>init_process_pid := i\<rparr>)"
  "steady c (c\<lparr>init_process_start_time := n, c_status := Some ''running''\<rparr>)"
  "steady c (c\<lparr>c_config := g\<rparr>)"
  by (auto simp: steady_def container_ok_def status_ok_def store_process_def table_store)

lemma start_agent_ok: "keeps stays_ok (start_agent child fifofd joined p)"
  unfolding start_agent_def Let_def
  by (intro keeps_then keeps_bind keeps_when keeps_osC keeps_modC ok_steps)
    (auto split: option.split intro!: keeps_bind keeps_modC keeps_osC ok_steps)

lemma container_start_ok: "keeps stays_ok (container_start join env self p)"
  unfolding container_start_def
  by (intro keeps_bind keeps_getC keeps_osC keeps_lift start_agent_ok) simp_all

lemma container_exec_ok: "keeps stays_ok (container_exec now)"
  unfolding container_exec_def run_all.simps
  by (intro keeps_bind keeps_then keeps_getC keeps_osC keeps_ret keeps_modC ok_steps) simp_all

lemma container_destroy_ok: "keeps stays_ok (container_destroy runs)"
  unfolding container_destroy_def run_all.simps
  by (intro keeps_bind keeps_then keeps_getC keeps_osC keeps_ret keeps_lift keeps_modC ok_steps)
    (auto split: option.split intro: keeps_ret keeps_osC simp del: act_basic)

lemma container_set_ok: "keeps stays_ok (container_set r)"
  unfolding container_set_def
  by (intro keeps_bind keeps_then keeps_getC)
    (auto split: option.split intro!: keeps_ret keeps_osC keeps_panic keeps_modC ok_steps simp del: act_basic)

lemma container_run_ok: "keeps stays_ok (container_run join env self now p)"
  unfolding container_run_def
  by (intro keeps_then keeps_when container_start_ok container_exec_ok keeps_modC ok_steps) simp_all

lemma stays_okD: "keeps stays_ok m \<Longrightarrow> container_ok c \<Longrightarrow> container_ok (fst (snd (m (c, w))))"
  by (auto simp: keeps_def stays_ok_def steady_def)

lemma container_new_ok: "container_new ids now i base config w = (Ok c, w') \<Longrightarrow> container_ok c \<and> c_id c = i"
  by (auto simp: container_new_def Let_def thenR_Ok_iff bindR_Ok_iff container_ok_def status_ok_def table_ok_def
      split: option.splits)

section \<open>Properties\<close>


definition small_container :: LinuxContainer where
  "small_container = \<lparr>c_id = ''c'', c_root = ''/run/c'', c_config = small_conf, cgroup_manager = None,
     init_process_pid = - 1, init_process_start_time = 0, uid_map_path = [], gid_map_path = [],
     c_processes = [], c_status = Some ''created''\<rparr>"


end
