(* ===== verification/Sandbox_Ops.thy ===== *)
theory Sandbox_Ops
  imports Agent_Mount Container_Start
begin

text \<open>
  \<open>src/sandbox.rs\<close> apart from the storage counters (\<open>Agent_Mount\<close>), and \<open>src/namespace.rs\<close>: the table of
  containers, the namespaces that all containers share, putting processors and memory online. The
  operations run under the lock of the sandbox; the lock itself is taken by their callers.
\<close>

section \<open>The table of containers\<close>

definition get_container :: "string \<Rightarrow> LinuxContainer option ag" where
  "get_container i = getsR (\<lambda>s. map_of (sb_containers (ag_sandbox s)) i)"

definition add_container :: "LinuxContainer \<Rightarrow> Sandbox \<Rightarrow> Sandbox" where
  "add_container c sb = sb\<lparr>sb_containers := AList.update (c_id c) c (sb_containers sb)\<rparr>"

text \<open>An operation on the container stored under \<open>i\<close>, which is changed in place; \<open>unwrap\<close> when it is
  not there.\<close>

definition on_container :: "string \<Rightarrow> 'a cact \<Rightarrow> 'a ag" where
  "on_container i m = (\<lambda>s. let sb = ag_sandbox s in case map_of (sb_containers sb) i of
     None \<Rightarrow> (Panic, s)
   | Some c \<Rightarrow> (case m (c, ag_world s) of (r, (c', w)) \<Rightarrow>
       (r, s\<lparr>ag_sandbox := sb\<lparr>sb_containers := AList.update i c' (sb_containers sb)\<rparr>, ag_world := w\<rparr>)))"

text \<open>The first container, in the order of the table, that has a process \<open>pid\<close>.\<close>

definition find_process_pid :: "int \<Rightarrow> Sandbox \<Rightarrow> (string \<times> Process) option" where
  "find_process_pid pid sb = (case find (\<lambda>(_, c). map_of (c_processes c) pid \<noteq> None) (sb_containers sb) of
     None \<Rightarrow> None
   | Some (i, c) \<Rightarrow> map_option (\<lambda>p. (i, p)) (map_of (c_processes c) pid))"

definition sandbox_destroy :: "(g_Hook \<Rightarrow> hook_run) \<Rightarrow> unit ag" where
  "sandbox_destroy runs = bindR (getsR (\<lambda>s. map fst (sb_containers (ag_sandbox s)))) (\<lambda>ids.
     for_each ids (\<lambda>i. on_container i (container_destroy runs)))"

section \<open>Shared namespaces\<close>

definition PERSISTENT_NS_DIR :: string where
  "PERSISTENT_NS_DIR = ''/var/run/sandbox-ns''"

definition CLONE_FLAG_TABLE :: "string \<Rightarrow> u64 option" where
  "CLONE_FLAG_TABLE = [''ipc'' \<mapsto> CLONE_NEWIPC, ''uts'' \<mapsto> CLONE_NEWUTS]"

definition get_current_thread_ns_path :: "int \<Rightarrow> int \<Rightarrow> string \<Rightarrow> string" where
  "get_current_thread_ns_path pid tid ns_type =
     ''/proc/'' @ show_int pid @ ''/task/'' @ show_int tid @ ''/ns/'' @ ns_type"

text \<open>
  The mount is made by a thread of its own, \<open>tid\<close>, which enters a new namespace. The error of the
  function is a text; the operating system's part of it is left out.
\<close>

definition or_msg :: "string \<Rightarrow> 'a io \<Rightarrow> 'a io" where
  "or_msg t m = catchR m (\<lambda>_. throw (ErrorCode t))"

definition setup_persistent_ns :: "int \<Rightarrow> int \<Rightarrow> string \<Rightarrow> string io" where
  "setup_persistent_ns pid tid ns_type =
     (let new_ns_path = PERSISTENT_NS_DIR @ ''/'' @ ns_type;
          origin_ns_path = get_current_thread_ns_path pid tid ns_type
      in thenR (or_msg ''create directory'' (fs_create_dir_all PERSISTENT_NS_DIR))
        (thenR (or_msg ''create file'' (io_sys (FsCreate new_ns_path)))
        (thenR (or_msg ''open'' (io_sys (FsOpen origin_ns_path ''r'')))
        (case CLONE_FLAG_TABLE ns_type of None \<Rightarrow> throw (ErrorCode ''Failed to get ns type'')
         | Some cf \<Rightarrow>
            thenR (or_msg ''unshare'' (nix_do (SysProc (SysUnshare cf))))
            (thenR (or_msg ''Failed to mount'' (bare_mount \<lparr>bm_source = origin_ns_path,
                bm_destination = new_ns_path, bm_fs_type = ''none'', bm_flags = MS_BIND OR MS_REC,
                bm_options = []\<rparr>))
            (ret new_ns_path))))))"

definition setup_shared_namespaces :: "int \<Rightarrow> int \<times> int \<Rightarrow> bool ag" where
  "setup_shared_namespaces pid tids =
     bindR (os (or_msg ''Failed to setup persisten IPC namespace'' (setup_persistent_ns pid (fst tids) ''ipc'')))
       (\<lambda>ipc. thenR (modifyR (\<lambda>s. s\<lparr>ag_sandbox := (ag_sandbox s)\<lparr>sb_shared_ipcns := ipc\<rparr>\<rparr>))
     (bindR (os (or_msg ''Failed to setup persisten UTS namespace'' (setup_persistent_ns pid (snd tids) ''uts'')))
       (\<lambda>uts. thenR (modifyR (\<lambda>s. s\<lparr>ag_sandbox := (ag_sandbox s)\<lparr>sb_shared_utsns := uts\<rparr>\<rparr>)) (ret True))))"

section \<open>Processors and memory\<close>

text \<open>The pattern \<open>cpu[0-9]+\<close>, not anchored: the word, with a digit behind it, anywhere in the name.\<close>

definition starts_with_digit :: "string \<Rightarrow> bool" where
  "starts_with_digit s = (case s of [] \<Rightarrow> False | c # _ \<Rightarrow> digit_val c \<noteq> None \<and> the (digit_val c) < 10)"

fun matches_numbered :: "string \<Rightarrow> string \<Rightarrow> bool" where
  "matches_numbered word [] = False"
| "matches_numbered word (c # cs) \<longleftrightarrow>
     prefix word (c # cs) \<and> starts_with_digit (drop (length word) (c # cs)) \<or> matches_numbered word cs"

definition CPU_ONLINE_PATH :: string where "CPU_ONLINE_PATH = ''/sys/devices/system/cpu''"
definition MEMORY_ONLINE_PATH :: string where "MEMORY_ONLINE_PATH = ''/sys/devices/system/memory''"

definition online_file :: "string \<Rightarrow> string \<Rightarrow> string" where
  "online_file path name = path @ ''/'' @ name @ ''/online''"

text \<open>The loop over the entries of the directory; \<open>count\<close> is what has been put online so far.\<close>

fun online_loop :: "string \<Rightarrow> string \<Rightarrow> int \<Rightarrow> int \<Rightarrow> string list \<Rightarrow> int io" where
  "online_loop path word num count [] = ret (if 0 < num then count else 0)"
| "online_loop path word num count (name # es) =
     (if matches_numbered word name then
        bindR (fs_read (online_file path name)) (\<lambda>c.
          if contains ''0'' (trim c) then
            thenR (fs_write (online_file path name) ''1'')
              (if 0 < num \<and> count + 1 = num then ret (count + 1)
               else online_loop path word num (count + 1) es)
          else online_loop path word num count es)
      else online_loop path word num count es)"

declare matches_numbered.simps [simp del] online_loop.simps(2) [simp del]

definition online_resources :: "string \<Rightarrow> string \<Rightarrow> int \<Rightarrow> int io" where
  "online_resources path word num = bindR (fs_read_dir path) (online_loop path word num 0)"

definition online_cpus :: "int \<Rightarrow> int io" where
  "online_cpus num = online_resources CPU_ONLINE_PATH ''cpu'' num"

definition online_memory :: "unit io" where
  "online_memory = thenR (online_resources MEMORY_ONLINE_PATH ''memory'' (- 1)) (ret ())"

record OnlineCPUMemRequest =
  oc_wait :: bool
  oc_nb_cpus :: u32
  oc_cpu_only :: bool

definition update_cpuset_of :: "string \<Rightarrow> LinuxContainer \<Rightarrow> unit io" where
  "update_cpuset_of cpuset c = bindR (liftR (unwrap (cgroup_manager c))) (\<lambda>m. update_cpuset_path m cpuset)"

definition online_cpu_memory :: "OnlineCPUMemRequest \<Rightarrow> unit ag" where
  "online_cpu_memory req = run_all
     [whenR (0 < oc_nb_cpus req) (os (thenR (online_cpus (sint (oc_nb_cpus req))) (ret ()))),
      whenR (\<not> oc_cpu_only req) (os online_memory),
      bindR (os get_guest_cpuset) (\<lambda>cpuset.
      bindR (getsR (\<lambda>s. map snd (sb_containers (ag_sandbox s)))) (\<lambda>cs.
        for_each cs (\<lambda>c. os (update_cpuset_of cpuset c))))]"

section \<open>Lemmas\<close>

text \<open>The entries that are put online: those that match and are offline, the first \<open>num\<close> of them.\<close>

definition offline :: "world \<Rightarrow> string \<Rightarrow> string \<Rightarrow> string \<Rightarrow> bool" where
  "offline w path word name \<longleftrightarrow> matches_numbered word name
     \<and> (case files w (online_file path name) of None \<Rightarrow> False | Some c \<Rightarrow> contains ''0'' (trim c))"

definition chosen :: "world \<Rightarrow> string \<Rightarrow> string \<Rightarrow> int \<Rightarrow> string list \<Rightarrow> string list" where
  "chosen w path word num es = (let off = filter (offline w path word) es
     in if 0 < num then take (nat num) off else off)"

definition switched_on :: "string \<Rightarrow> string list \<Rightarrow> (string \<Rightarrow> string option) \<Rightarrow> string \<Rightarrow> string option" where
  "switched_on path es m = (\<lambda>p. if p \<in> online_file path ` set es then Some ''1'' else m p)"

lemma online_file_inj [simp]: "online_file path a = online_file path b \<longleftrightarrow> a = b"
  by (simp add: online_file_def)

lemma switched_on_simps [simp]:
  "switched_on path [] m = m"
  "switched_on path es (m(online_file path e \<mapsto> ''1'')) = switched_on path (e # es) m"
  by (auto simp: switched_on_def)

lemma offline_files: "files u = files w \<Longrightarrow> offline u = offline w"
  by (simp add: offline_def fun_eq_iff)

lemma offline_other:
  assumes "files u = (files w)(online_file path e \<mapsto> c)" "e \<notin> set es"
  shows "filter (offline u path word) es = filter (offline w path word) es"
  using assms by (intro filter_cong) (auto simp: offline_def)

text \<open>One round of the loop: the entry is skipped, or it is switched on.\<close>

lemma online_loop_step:
  assumes "reliable w" "matches_numbered word e \<longrightarrow> files w (online_file path e) \<noteq> None"
  obtains (skip) u where "\<not> offline w path word e" "reliable u" "files u = files w"
      "\<And>num count es. online_loop path word num count (e # es) w = online_loop path word num count es u"
  | (switch) u where "offline w path word e" "reliable u" "files u = (files w)(online_file path e \<mapsto> ''1'')"
      "\<And>num count es. online_loop path word num count (e # es) w =
         (if 0 < num \<and> count + 1 = num then (Ok (count + 1), u) else online_loop path word num (count + 1) es u)"
proof (cases "matches_numbered word e")
  case False
  with skip [of w] assms(1) show ?thesis by (simp add: offline_def online_loop.simps(2))
next
  case True
  with assms(2) obtain c where c: "files w (online_file path e) = Some c" by auto
  let ?f = "online_file path e"
  let ?v = "w\<lparr>hist := hist w @ [FsRead ?f]\<rparr>"
  let ?u = "?v\<lparr>hist := hist ?v @ [FsWrite ?f ''1''], files := (files ?v)(?f \<mapsto> ''1'')\<rparr>"
  have r: "fs_read ?f w = (Ok c, ?v)" using c by (simp add: reliable_read [OF assms(1)])
  have v: "reliable ?v" "reliable ?u" using assms(1) by (simp_all add: reliable_def)
  show ?thesis
  proof (cases "contains ''0'' (trim c)")
    case True
    have wr: "fs_write ?f ''1'' ?v = (Ok (), ?u)" using v(1) by (rule reliable_write)
    show ?thesis
      by (rule switch [of ?u]) (use True \<open>matches_numbered word e\<close> c v r wr in \<open>simp_all add: offline_def online_loop.simps(2)\<close>)
  next
    case False
    show ?thesis
      by (rule skip [of ?v]) (use False \<open>matches_numbered word e\<close> c v r in \<open>simp_all add: offline_def online_loop.simps(2)\<close>)
  qed
qed

lemma online_loop_all:
  assumes "reliable w" "distinct es" "num \<le> 0"
    and "\<forall>e \<in> set es. matches_numbered word e \<longrightarrow> files w (online_file path e) \<noteq> None"
  shows "\<exists>w'. online_loop path word num count es w = (Ok 0, w')
    \<and> files w' = switched_on path (filter (offline w path word) es) (files w)"
  using assms
proof (induction es arbitrary: w count)
  case (Cons e es)
  from Cons.prems(4) have "matches_numbered word e \<longrightarrow> files w (online_file path e) \<noteq> None" by simp
  from Cons.prems(1) this show ?case
  proof (cases rule: online_loop_step)
    case (skip u)
    have "\<forall>e \<in> set es. matches_numbered word e \<longrightarrow> files u (online_file path e) \<noteq> None"
      using Cons.prems(4) by (simp add: skip(3))
    with Cons.IH [OF skip(2), of count] Cons.prems(2,3) show ?thesis
      by (simp add: skip(1,3,4) offline_files [OF skip(3)])
  next
    case (switch u)
    have "\<forall>e \<in> set es. matches_numbered word e \<longrightarrow> files u (online_file path e) \<noteq> None"
      using Cons.prems(4) by (simp add: switch(3))
    with Cons.IH [OF switch(2), of "count + 1"] Cons.prems(2,3) show ?thesis
      by (simp add: switch(1,4) offline_other [OF switch(3)]) (simp add: switch(3))
  qed
qed simp

lemma online_loop_some:
  assumes "reliable w" "distinct es" "count < num" "0 \<le> count"
    and "\<forall>e \<in> set es. matches_numbered word e \<longrightarrow> files w (online_file path e) \<noteq> None"
  shows "\<exists>w'. online_loop path word num count es w =
      (Ok (count + int (length (take (nat (num - count)) (filter (offline w path word) es)))), w')
    \<and> files w' = switched_on path (take (nat (num - count)) (filter (offline w path word) es)) (files w)"
  using assms
proof (induction es arbitrary: w count)
  case (Cons e es)
  from Cons.prems(5) have "matches_numbered word e \<longrightarrow> files w (online_file path e) \<noteq> None" by simp
  from Cons.prems(1) this show ?case
  proof (cases rule: online_loop_step)
    case (skip u)
    have "\<forall>e \<in> set es. matches_numbered word e \<longrightarrow> files u (online_file path e) \<noteq> None"
      using Cons.prems(5) by (simp add: skip(3))
    with Cons.IH [OF skip(2), of count] Cons.prems(2-4) show ?thesis
      by (simp add: skip(1,3,4) offline_files [OF skip(3)])
  next
    case (switch u)
    have n: "nat (num - count) = Suc (nat (num - (count + 1)))" using Cons.prems(3) by simp
    show ?thesis
    proof (cases "count + 1 = num")
      case False
      have "\<forall>e \<in> set es. matches_numbered word e \<longrightarrow> files u (online_file path e) \<noteq> None"
        using Cons.prems(5) by (simp add: switch(3))
      with Cons.IH [OF switch(2), of "count + 1"] Cons.prems(2-4) False show ?thesis
        by (simp add: n switch(1,4) offline_other [OF switch(3)]) (simp add: switch(3) algebra_simps)
    next
      case True
      then show ?thesis using Cons.prems(4) by (simp add: n switch(1,4)) (simp add: switch(3) switched_on_def fun_eq_iff)
    qed
  qed
qed simp

section \<open>Properties\<close>

text \<open>C38: on a kernel that refuses nothing, putting processors or memory online writes "1" to the
  \<open>online\<close> files of the first \<open>num\<close> numbered entries that are offline, in the order of the directory
  (of all of them when \<open>num\<close> is not positive), changes no other file, and returns how many they were;
  that they are fewer than asked for is not an error.\<close>
theorem online_first:
  assumes "reliable w" "distinct (listing w path)"
    and "\<forall>e \<in> set (listing w path). matches_numbered word e \<longrightarrow> files w (online_file path e) \<noteq> None"
  shows "\<exists>w'. online_resources path word num w =
      (Ok (if 0 < num then int (length (chosen w path word num (listing w path))) else 0), w')
    \<and> files w' = switched_on path (chosen w path word num (listing w path)) (files w)"
proof -
  let ?u = "w\<lparr>hist := hist w @ [FsReadDir path]\<rparr>"
  obtain v where "kernel w (hist w) (FsReadDir path) = Inr v" using assms(1) by (auto simp: reliable_def)
  then have dir: "fs_read_dir path w = (Ok (listing w path), ?u)"
    by (simp add: fs_read_dir_def io_sys_def sys_with_def)
  have u: "reliable ?u" "offline ?u = offline w" "files ?u = files w"
    using assms(1) by (simp_all add: reliable_def offline_def fun_eq_iff)
  have run: "online_resources path word num w = online_loop path word num 0 (listing w path) ?u"
    by (simp add: online_resources_def dir)
  show ?thesis
  proof (cases "0 < num")
    case True
    with online_loop_some [OF u(1) assms(2), of 0 num word path] assms(3) show ?thesis
      unfolding run chosen_def Let_def u(2,3) by simp
  next
    case False
    with online_loop_all [OF u(1) assms(2), of num word path 0] assms(3) show ?thesis
      unfolding run chosen_def Let_def u(2,3) by simp
  qed
qed

definition two_cpus :: world where
  "two_cpus = quiet\<lparr>listing := (\<lambda>_. [''cpu0'', ''cpufreq'', ''cpu1'', ''cpu2'']),
     files := [online_file CPU_ONLINE_PATH ''cpu0'' \<mapsto> ''1'', online_file CPU_ONLINE_PATH ''cpu1'' \<mapsto> ''0'',
       online_file CPU_ONLINE_PATH ''cpu2'' \<mapsto> ''0'']\<rparr>"

lemma online_first_witness:
  "\<exists>w'. online_cpus 1 two_cpus = (Ok 1, w') \<and> files w' (online_file CPU_ONLINE_PATH ''cpu1'') = Some ''1''
    \<and> files w' (online_file CPU_ONLINE_PATH ''cpu2'') = Some ''0''"
proof -
  have m: "matches_numbered ''cpu'' ''cpu0''" "\<not> matches_numbered ''cpu'' ''cpufreq''"
    "matches_numbered ''cpu'' ''cpu1''" "matches_numbered ''cpu'' ''cpu2''"
    "trim ''0'' = ''0''" "trim ''1'' = ''1''"
    by code_simp+
  have l: "listing two_cpus p = [''cpu0'', ''cpufreq'', ''cpu1'', ''cpu2'']"
    and f: "files two_cpus = [online_file CPU_ONLINE_PATH ''cpu0'' \<mapsto> ''1'',
       online_file CPU_ONLINE_PATH ''cpu1'' \<mapsto> ''0'', online_file CPU_ONLINE_PATH ''cpu2'' \<mapsto> ''0'']"
    and r: "reliable two_cpus" for p
    by (simp_all add: two_cpus_def reliable_def quiet_def)
  have c: "chosen two_cpus CPU_ONLINE_PATH ''cpu'' 1 (listing two_cpus CPU_ONLINE_PATH) = [''cpu1'']"
    by (simp add: chosen_def offline_def f l m)
  have "\<forall>e \<in> set (listing two_cpus CPU_ONLINE_PATH). matches_numbered ''cpu'' e
      \<longrightarrow> files two_cpus (online_file CPU_ONLINE_PATH e) \<noteq> None"
    by (simp add: l f m)
  then obtain w' where "online_resources CPU_ONLINE_PATH ''cpu'' 1 two_cpus = (Ok 1, w')"
    "files w' = switched_on CPU_ONLINE_PATH [''cpu1''] (files two_cpus)"
    using online_first [OF r, of CPU_ONLINE_PATH "''cpu''" 1] unfolding c by (auto simp: l)
  then show ?thesis by (auto simp: online_cpus_def switched_on_def f)
qed

end
