(* ===== verification/Json.thy ===== *)
theory Json
  imports Text
begin

text \<open>
  The data model of \<open>serde\<close>: JSON values and what the derived \<open>Serialize\<close> and \<open>Deserialize\<close> of a
  struct do with its fields. A field is left out when its \<open>skip_serializing_if\<close> test says so; when
  it is missing from the input it gets its default, if it has one (an \<open>Option\<close> always has); a field
  that occurs twice is an error, an unknown field is ignored. Text is printed and parsed by
  \<open>serde_json\<close>, which is a package of its own; a struct given as a JSON array is not modelled.
\<close>

datatype json = JNull | JBool bool | JNum int | JStr string | JArr "json list" | JObj "(string \<times> json) list"

section \<open>Values\<close>

definition enc_bool :: "bool \<Rightarrow> json" where "enc_bool = JBool"
definition enc_string :: "string \<Rightarrow> json" where "enc_string = JStr"
definition enc_int :: "int \<Rightarrow> json" where "enc_int = JNum"
definition enc_word :: "'a::len word \<Rightarrow> json" where "enc_word n = JNum (uint n)"

definition dec_bool :: "json \<Rightarrow> bool option" where
  "dec_bool j = (case j of JBool b \<Rightarrow> Some b | _ \<Rightarrow> None)"

definition dec_string :: "json \<Rightarrow> string option" where
  "dec_string j = (case j of JStr s \<Rightarrow> Some s | _ \<Rightarrow> None)"

text \<open>A signed number of \<open>n\<close> bits, and an unsigned one.\<close>

definition in_range :: "nat \<Rightarrow> int \<Rightarrow> bool" where
  "in_range n i \<longleftrightarrow> - (2 ^ (n - 1)) \<le> i \<and> i < 2 ^ (n - 1)"

definition dec_int :: "nat \<Rightarrow> json \<Rightarrow> int option" where
  "dec_int n j = (case j of JNum i \<Rightarrow> if in_range n i then Some i else None | _ \<Rightarrow> None)"

definition dec_word :: "json \<Rightarrow> 'a::len word option" where
  "dec_word j = (case j of JNum i \<Rightarrow> if 0 \<le> i \<and> i < 2 ^ LENGTH('a) then Some (word_of_int i) else None | _ \<Rightarrow> None)"

definition enc_list :: "('a \<Rightarrow> json) \<Rightarrow> 'a list \<Rightarrow> json" where
  "enc_list enc xs = JArr (map enc xs)"

definition dec_list :: "(json \<Rightarrow> 'a option) \<Rightarrow> json \<Rightarrow> 'a list option" where
  "dec_list dec j = (case j of JArr js \<Rightarrow> those (map dec js) | _ \<Rightarrow> None)"

definition enc_opt :: "('a \<Rightarrow> json) \<Rightarrow> 'a option \<Rightarrow> json" where
  "enc_opt enc x = (case x of None \<Rightarrow> JNull | Some v \<Rightarrow> enc v)"

definition dec_opt :: "(json \<Rightarrow> 'a option) \<Rightarrow> json \<Rightarrow> 'a option option" where
  "dec_opt dec j = (case j of JNull \<Rightarrow> Some None | _ \<Rightarrow> map_option Some (dec j))"

text \<open>A hash map, as an association list in iteration order: a later entry replaces an earlier one.\<close>

definition enc_map :: "('a \<Rightarrow> json) \<Rightarrow> (string \<times> 'a) list \<Rightarrow> json" where
  "enc_map enc m = JObj (map (\<lambda>(k, v). (k, enc v)) m)"

definition dec_map :: "(json \<Rightarrow> 'a option) \<Rightarrow> json \<Rightarrow> (string \<times> 'a) list option" where
  "dec_map dec j = (case j of JObj fs \<Rightarrow>
      map_option (\<lambda>kvs. fold (\<lambda>(k, v). AList.update k v) kvs [])
        (those (map (\<lambda>(k, v). map_option (Pair k) (dec v)) fs)) | _ \<Rightarrow> None)"

section \<open>Fields\<close>

definition put :: "string \<Rightarrow> bool \<Rightarrow> json \<Rightarrow> (string \<times> json) list" where
  "put name skip v = (if skip then [] else [(name, v)])"

definition pick :: "string \<Rightarrow> (string \<times> json) list \<Rightarrow> (string \<times> json) list" where
  "pick name fs = filter (\<lambda>f. fst f = name) fs"

definition field :: "(string \<times> json) list \<Rightarrow> string \<Rightarrow> 'a option \<Rightarrow> (json \<Rightarrow> 'a option) \<Rightarrow> 'a option" where
  "field fs name dflt dec = (case pick name fs of [] \<Rightarrow> dflt | [(_, j)] \<Rightarrow> dec j | _ \<Rightarrow> None)"

text \<open>The fields of an object.\<close>

definition obj_fields :: "json \<Rightarrow> (string \<times> json) list option" where
  "obj_fields j = (case j of JObj fs \<Rightarrow> Some fs | _ \<Rightarrow> None)"

lemma obj_fields_simps [simp]: "obj_fields (JObj fs) = Some fs"
  by (simp add: obj_fields_def)

lemma pick_simps [simp]:
  "pick k [] = []"
  "pick k (put k s v) = put k s v"
  "k \<noteq> n \<Longrightarrow> pick k (put n s v) = []"
  "pick k (fs @ gs) = pick k fs @ pick k gs"
  by (simp_all add: pick_def put_def)

lemma field_put: "pick name fs = put n s v \<Longrightarrow> field fs name d dec = (if s then d else dec v)"
  by (simp add: field_def put_def)

lemma field_defaults [simp]:
  "(if xs = [] then Some [] else Some xs) = Some xs"
  "(if x = None then Some None else Some x) = Some x"
  by auto

section \<open>The contract of an encoding\<close>

text \<open>What is written is read back, for the values that satisfy \<open>ok\<close>; and a value is never written
  as \<open>null\<close>, so that an optional value can be.\<close>

locale codec =
  fixes enc :: "'a \<Rightarrow> json"
    and dec :: "json \<Rightarrow> 'a option"
    and ok :: "'a \<Rightarrow> bool"
  assumes roundtrip: "ok x \<Longrightarrow> dec (enc x) = Some x"
    and not_null: "enc x \<noteq> JNull"
begin

lemma value_roundtrip [simp]: "ok x \<Longrightarrow> dec (enc x) = Some x"
  by (rule roundtrip)

lemma list_roundtrip [simp]: "list_all ok xs \<Longrightarrow> dec_list dec (enc_list enc xs) = Some xs"
  unfolding dec_list_def enc_list_def by (induction xs) (auto simp: roundtrip)

lemma opt_roundtrip [simp]: "pred_option ok x \<Longrightarrow> dec_opt dec (enc_opt enc x) = Some x"
proof (cases x)
  case (Some v)
  assume "pred_option ok x"
  with Some have "dec (enc v) = Some v" by (simp add: roundtrip)
  with Some not_null [of v] show ?thesis by (auto simp: dec_opt_def enc_opt_def split: json.split)
qed (simp add: dec_opt_def enc_opt_def)

lemma those_pairs:
  "list_all (\<lambda>(k, v). ok v) m \<Longrightarrow> those (map (\<lambda>(k, v). map_option (Pair k) (dec v)) (map (\<lambda>(k, v). (k, enc v)) m)) = Some m"
  by (induction m) (auto simp: roundtrip)

lemma map_roundtrip [simp]:
  assumes "list_all (\<lambda>(k, v). ok v) m" "distinct (map fst m)"
  shows "dec_map dec (enc_map enc m) = Some m"
proof -
  have "fold (\<lambda>(k, v). AList.update k v) xs ys = ys @ xs"
    if "distinct (map fst (ys @ xs))" for xs ys :: "(string \<times> 'a) list"
    using that
  proof (induction xs arbitrary: ys)
    case (Cons x xs)
    have "AList.update (fst x) (snd x) ys = ys @ [x]"
      using Cons.prems by (induction ys) auto
    with Cons.IH [of "ys @ [x]"] Cons.prems show ?case by (cases x) simp
  qed simp
  from this [of "[]" m] assms(2) those_pairs [OF assms(1)] show ?thesis
    by (simp add: dec_map_def enc_map_def)
qed

end

lemma any_list [simp]: "list_all (\<lambda>_. True) xs"
  and any_pairs [simp]: "list_all (\<lambda>(k, v). True) kvs"
  and any_opt [simp]: "pred_option (\<lambda>_. True) x"
  by (auto simp: list_all_iff option.pred_set)

interpretation bool: codec enc_bool dec_bool "\<lambda>_. True"
  by unfold_locales (simp_all add: enc_bool_def dec_bool_def)

interpretation string: codec enc_string dec_string "\<lambda>_. True"
  by unfold_locales (simp_all add: enc_string_def dec_string_def)

interpretation int: codec enc_int "dec_int n" "in_range n" for n
  by unfold_locales (simp_all add: enc_int_def dec_int_def)

interpretation word: codec "enc_word :: 'a::len word \<Rightarrow> json" dec_word "\<lambda>_. True"
  by unfold_locales (auto simp: enc_word_def dec_word_def)

end
