(* ===== verification/Oci_Json.thy ===== *)
theory Oci_Json
  imports Json Oci_Types
begin

text \<open>
  The types of the crate \<open>oci\<close> (\<open>oci/src/lib.rs\<close>): the OCI specification as it is stored in
  \<open>config.json\<close>, one record per struct with the struct's field names behind a prefix, and the
  JSON encoding that its \<open>serde\<close> attributes describe. \<open>ok_\<close>\<open>T\<close> says that the signed numbers are
  in the range of their type and that the keys of the hash maps are distinct; every value of the
  Rust type satisfies it.
\<close>

record o_Box =
  obo_height :: u32
  obo_width :: u32

definition enc_Box :: "o_Box \<Rightarrow> json" where
  "enc_Box x = JObj (
    put ''height'' (False) (enc_word (obo_height x)) @
    put ''width'' (False) (enc_word (obo_width x)))"

definition dec_Box :: "json \<Rightarrow> o_Box option" where
  "dec_Box j = Option.bind (obj_fields j) (\<lambda>fs.
    Option.bind (field fs ''height'' (Some 0) dec_word) (\<lambda>v0.
    Option.bind (field fs ''width'' (Some 0) dec_word) (\<lambda>v1.
    Some \<lparr>obo_height = v0, obo_width = v1\<rparr>)))"

interpretation box_json: codec enc_Box dec_Box "\<lambda>_. True"
proof
  fix x :: o_Box
  show "dec_Box (enc_Box x) = Some x"
    by (simp add: enc_Box_def dec_Box_def field_put cong: if_cong split del: if_split)
qed (simp add: enc_Box_def)

record o_User =
  ous_uid :: u32
  ous_gid :: u32
  ous_additional_gids :: "u32 list"
  ous_username :: string

definition enc_User :: "o_User \<Rightarrow> json" where
  "enc_User x = JObj (
    put ''uid'' (False) (enc_word (ous_uid x)) @
    put ''gid'' (False) (enc_word (ous_gid x)) @
    put ''addtionalGids'' (ous_additional_gids x = []) ((enc_list enc_word) (ous_additional_gids x)) @
    put ''username'' (ous_username x = []) (enc_string (ous_username x)))"

definition dec_User :: "json \<Rightarrow> o_User option" where
  "dec_User j = Option.bind (obj_fields j) (\<lambda>fs.
    Option.bind (field fs ''uid'' (Some 0) dec_word) (\<lambda>v0.
    Option.bind (field fs ''gid'' (Some 0) dec_word) (\<lambda>v1.
    Option.bind (field fs ''addtionalGids'' (Some []) (dec_list dec_word)) (\<lambda>v2.
    Option.bind (field fs ''username'' (Some []) dec_string) (\<lambda>v3.
    Some \<lparr>ous_uid = v0, ous_gid = v1, ous_additional_gids = v2, ous_username = v3\<rparr>)))))"

interpretation user_json: codec enc_User dec_User "\<lambda>_. True"
proof
  fix x :: o_User
  show "dec_User (enc_User x) = Some x"
    by (simp add: enc_User_def dec_User_def field_put cong: if_cong split del: if_split)
qed (simp add: enc_User_def)

record o_LinuxCapabilities =
  olc_bounding :: "string list"
  olc_effective :: "string list"
  olc_inheritable :: "string list"
  olc_permitted :: "string list"
  olc_ambient :: "string list"

definition enc_LinuxCapabilities :: "o_LinuxCapabilities \<Rightarrow> json" where
  "enc_LinuxCapabilities x = JObj (
    put ''bounding'' (olc_bounding x = []) ((enc_list enc_string) (olc_bounding x)) @
    put ''effective'' (olc_effective x = []) ((enc_list enc_string) (olc_effective x)) @
    put ''inheritable'' (olc_inheritable x = []) ((enc_list enc_string) (olc_inheritable x)) @
    put ''permitted'' (olc_permitted x = []) ((enc_list enc_string) (olc_permitted x)) @
    put ''ambient'' (olc_ambient x = []) ((enc_list enc_string) (olc_ambient x)))"

definition dec_LinuxCapabilities :: "json \<Rightarrow> o_LinuxCapabilities option" where
  "dec_LinuxCapabilities j = Option.bind (obj_fields j) (\<lambda>fs.
    Option.bind (field fs ''bounding'' (Some []) (dec_list dec_string)) (\<lambda>v0.
    Option.bind (field fs ''effective'' (Some []) (dec_list dec_string)) (\<lambda>v1.
    Option.bind (field fs ''inheritable'' (Some []) (dec_list dec_string)) (\<lambda>v2.
    Option.bind (field fs ''permitted'' (Some []) (dec_list dec_string)) (\<lambda>v3.
    Option.bind (field fs ''ambient'' (Some []) (dec_list dec_string)) (\<lambda>v4.
    Some \<lparr>olc_bounding = v0, olc_effective = v1, olc_inheritable = v2, olc_permitted = v3, olc_ambient = v4\<rparr>))))))"

interpretation linuxCapabilities_json: codec enc_LinuxCapabilities dec_LinuxCapabilities "\<lambda>_. True"
proof
  fix x :: o_LinuxCapabilities
  show "dec_LinuxCapabilities (enc_LinuxCapabilities x) = Some x"
    by (simp add: enc_LinuxCapabilities_def dec_LinuxCapabilities_def field_put cong: if_cong split del: if_split)
qed (simp add: enc_LinuxCapabilities_def)

record o_POSIXRlimit =
  oposixr_type :: string
  oposixr_hard :: u64
  oposixr_soft :: u64

definition enc_POSIXRlimit :: "o_POSIXRlimit \<Rightarrow> json" where
  "enc_POSIXRlimit x = JObj (
    put ''type'' (False) (enc_string (oposixr_type x)) @
    put ''hard'' (False) (enc_word (oposixr_hard x)) @
    put ''soft'' (False) (enc_word (oposixr_soft x)))"

definition dec_POSIXRlimit :: "json \<Rightarrow> o_POSIXRlimit option" where
  "dec_POSIXRlimit j = Option.bind (obj_fields j) (\<lambda>fs.
    Option.bind (field fs ''type'' (Some []) dec_string) (\<lambda>v0.
    Option.bind (field fs ''hard'' (Some 0) dec_word) (\<lambda>v1.
    Option.bind (field fs ''soft'' (Some 0) dec_word) (\<lambda>v2.
    Some \<lparr>oposixr_type = v0, oposixr_hard = v1, oposixr_soft = v2\<rparr>))))"

interpretation pOSIXRlimit_json: codec enc_POSIXRlimit dec_POSIXRlimit "\<lambda>_. True"
proof
  fix x :: o_POSIXRlimit
  show "dec_POSIXRlimit (enc_POSIXRlimit x) = Some x"
    by (simp add: enc_POSIXRlimit_def dec_POSIXRlimit_def field_put cong: if_cong split del: if_split)
qed (simp add: enc_POSIXRlimit_def)

record o_Process =
  opr_terminal :: bool
  opr_console_size :: "o_Box option"
  opr_user :: o_User
  opr_args :: "string list"
  opr_env :: "string list"
  opr_cwd :: string
  opr_capabilities :: "o_LinuxCapabilities option"
  opr_rlimits :: "o_POSIXRlimit list"
  opr_no_new_privileges :: bool
  opr_apparmor_profile :: string
  opr_oom_score_adj :: "i32 option"
  opr_selinux_label :: string

definition enc_Process :: "o_Process \<Rightarrow> json" where
  "enc_Process x = JObj (
    put ''terminal'' (False) (enc_bool (opr_terminal x)) @
    put ''consoleSize'' (opr_console_size x = None) ((enc_opt enc_Box) (opr_console_size x)) @
    put ''user'' (False) (enc_User (opr_user x)) @
    put ''args'' (opr_args x = []) ((enc_list enc_string) (opr_args x)) @
    put ''env'' (opr_env x = []) ((enc_list enc_string) (opr_env x)) @
    put ''cwd'' (opr_cwd x = []) (enc_string (opr_cwd x)) @
    put ''capabilities'' (opr_capabilities x = None) ((enc_opt enc_LinuxCapabilities) (opr_capabilities x)) @
    put ''rlimits'' (opr_rlimits x = []) ((enc_list enc_POSIXRlimit) (opr_rlimits x)) @
    put ''noNewPrivileges'' (False) (enc_bool (opr_no_new_privileges x)) @
    put ''apparmorProfile'' (opr_apparmor_profile x = []) (enc_string (opr_apparmor_profile x)) @
    put ''oomScoreAdj'' (opr_oom_score_adj x = None) ((enc_opt enc_int) (opr_oom_score_adj x)) @
    put ''selinuxLabel'' (opr_selinux_label x = []) (enc_string (opr_selinux_label x)))"

definition dec_Process :: "json \<Rightarrow> o_Process option" where
  "dec_Process j = Option.bind (obj_fields j) (\<lambda>fs.
    Option.bind (field fs ''terminal'' (Some False) dec_bool) (\<lambda>v0.
    Option.bind (field fs ''consoleSize'' (Some None) (dec_opt dec_Box)) (\<lambda>v1.
    Option.bind (field fs ''user'' None dec_User) (\<lambda>v2.
    Option.bind (field fs ''args'' (Some []) (dec_list dec_string)) (\<lambda>v3.
    Option.bind (field fs ''env'' (Some []) (dec_list dec_string)) (\<lambda>v4.
    Option.bind (field fs ''cwd'' (Some []) dec_string) (\<lambda>v5.
    Option.bind (field fs ''capabilities'' (Some None) (dec_opt dec_LinuxCapabilities)) (\<lambda>v6.
    Option.bind (field fs ''rlimits'' (Some []) (dec_list dec_POSIXRlimit)) (\<lambda>v7.
    Option.bind (field fs ''noNewPrivileges'' (Some False) dec_bool) (\<lambda>v8.
    Option.bind (field fs ''apparmorProfile'' (Some []) dec_string) (\<lambda>v9.
    Option.bind (field fs ''oomScoreAdj'' (Some None) (dec_opt (dec_int 32))) (\<lambda>v10.
    Option.bind (field fs ''selinuxLabel'' (Some []) dec_string) (\<lambda>v11.
    Some \<lparr>opr_terminal = v0, opr_console_size = v1, opr_user = v2, opr_args = v3, opr_env = v4, opr_cwd = v5, opr_capabilities = v6, opr_rlimits = v7, opr_no_new_privileges = v8, opr_apparmor_profile = v9, opr_oom_score_adj = v10, opr_selinux_label = v11\<rparr>)))))))))))))"

definition ok_Process :: "o_Process \<Rightarrow> bool" where
  "ok_Process x \<longleftrightarrow> pred_option (in_range 32) (opr_oom_score_adj x)"

interpretation process_json: codec enc_Process dec_Process ok_Process
proof
  fix x :: o_Process
  assume "ok_Process x"
  then show "dec_Process (enc_Process x) = Some x"
    by (simp add: enc_Process_def dec_Process_def ok_Process_def field_put cong: if_cong split del: if_split)
qed (simp add: enc_Process_def)

record o_Root =
  oro_path :: string
  oro_readonly :: bool

definition enc_Root :: "o_Root \<Rightarrow> json" where
  "enc_Root x = JObj (
    put ''path'' (oro_path x = []) (enc_string (oro_path x)) @
    put ''readonly'' (False) (enc_bool (oro_readonly x)))"

definition dec_Root :: "json \<Rightarrow> o_Root option" where
  "dec_Root j = Option.bind (obj_fields j) (\<lambda>fs.
    Option.bind (field fs ''path'' (Some []) dec_string) (\<lambda>v0.
    Option.bind (field fs ''readonly'' (Some False) dec_bool) (\<lambda>v1.
    Some \<lparr>oro_path = v0, oro_readonly = v1\<rparr>)))"

interpretation root_json: codec enc_Root dec_Root "\<lambda>_. True"
proof
  fix x :: o_Root
  show "dec_Root (enc_Root x) = Some x"
    by (simp add: enc_Root_def dec_Root_def field_put cong: if_cong split del: if_split)
qed (simp add: enc_Root_def)

record o_Mount =
  omo_destination :: string
  omo_type :: string
  omo_source :: string
  omo_options :: "string list"

definition enc_Mount :: "o_Mount \<Rightarrow> json" where
  "enc_Mount x = JObj (
    put ''destination'' (False) (enc_string (omo_destination x)) @
    put ''type'' (omo_type x = []) (enc_string (omo_type x)) @
    put ''source'' (omo_source x = []) (enc_string (omo_source x)) @
    put ''options'' (omo_options x = []) ((enc_list enc_string) (omo_options x)))"

definition dec_Mount :: "json \<Rightarrow> o_Mount option" where
  "dec_Mount j = Option.bind (obj_fields j) (\<lambda>fs.
    Option.bind (field fs ''destination'' (Some []) dec_string) (\<lambda>v0.
    Option.bind (field fs ''type'' (Some []) dec_string) (\<lambda>v1.
    Option.bind (field fs ''source'' (Some []) dec_string) (\<lambda>v2.
    Option.bind (field fs ''options'' (Some []) (dec_list dec_string)) (\<lambda>v3.
    Some \<lparr>omo_destination = v0, omo_type = v1, omo_source = v2, omo_options = v3\<rparr>)))))"

interpretation mount_json: codec enc_Mount dec_Mount "\<lambda>_. True"
proof
  fix x :: o_Mount
  show "dec_Mount (enc_Mount x) = Some x"
    by (simp add: enc_Mount_def dec_Mount_def field_put cong: if_cong split del: if_split)
qed (simp add: enc_Mount_def)

record o_Hook =
  oho_path :: string
  oho_args :: "string list"
  oho_env :: "string list"
  oho_timeout :: "i32 option"

definition enc_Hook :: "o_Hook \<Rightarrow> json" where
  "enc_Hook x = JObj (
    put ''path'' (oho_path x = []) (enc_string (oho_path x)) @
    put ''args'' (oho_args x = []) ((enc_list enc_string) (oho_args x)) @
    put ''env'' (oho_env x = []) ((enc_list enc_string) (oho_env x)) @
    put ''timeout'' (oho_timeout x = None) ((enc_opt enc_int) (oho_timeout x)))"

definition dec_Hook :: "json \<Rightarrow> o_Hook option" where
  "dec_Hook j = Option.bind (obj_fields j) (\<lambda>fs.
    Option.bind (field fs ''path'' (Some []) dec_string) (\<lambda>v0.
    Option.bind (field fs ''args'' (Some []) (dec_list dec_string)) (\<lambda>v1.
    Option.bind (field fs ''env'' (Some []) (dec_list dec_string)) (\<lambda>v2.
    Option.bind (field fs ''timeout'' (Some None) (dec_opt (dec_int 32))) (\<lambda>v3.
    Some \<lparr>oho_path = v0, oho_args = v1, oho_env = v2, oho_timeout = v3\<rparr>)))))"

definition ok_Hook :: "o_Hook \<Rightarrow> bool" where
  "ok_Hook x \<longleftrightarrow> pred_option (in_range 32) (oho_timeout x)"

interpretation hook_json: codec enc_Hook dec_Hook ok_Hook
proof
  fix x :: o_Hook
  assume "ok_Hook x"
  then show "dec_Hook (enc_Hook x) = Some x"
    by (simp add: enc_Hook_def dec_Hook_def ok_Hook_def field_put cong: if_cong split del: if_split)
qed (simp add: enc_Hook_def)

record o_Hooks =
  ohks_prestart :: "o_Hook list"
  ohks_poststart :: "o_Hook list"
  ohks_poststop :: "o_Hook list"

definition enc_Hooks :: "o_Hooks \<Rightarrow> json" where
  "enc_Hooks x = JObj (
    put ''prestart'' (ohks_prestart x = []) ((enc_list enc_Hook) (ohks_prestart x)) @
    put ''poststart'' (ohks_poststart x = []) ((enc_list enc_Hook) (ohks_poststart x)) @
    put ''poststop'' (ohks_poststop x = []) ((enc_list enc_Hook) (ohks_poststop x)))"

definition dec_Hooks :: "json \<Rightarrow> o_Hooks option" where
  "dec_Hooks j = Option.bind (obj_fields j) (\<lambda>fs.
    Option.bind (field fs ''prestart'' (Some []) (dec_list dec_Hook)) (\<lambda>v0.
    Option.bind (field fs ''poststart'' (Some []) (dec_list dec_Hook)) (\<lambda>v1.
    Option.bind (field fs ''poststop'' (Some []) (dec_list dec_Hook)) (\<lambda>v2.
    Some \<lparr>ohks_prestart = v0, ohks_poststart = v1, ohks_poststop = v2\<rparr>))))"

definition ok_Hooks :: "o_Hooks \<Rightarrow> bool" where
  "ok_Hooks x \<longleftrightarrow> list_all ok_Hook (ohks_prestart x) \<and> list_all ok_Hook (ohks_poststart x) \<and> list_all ok_Hook (ohks_poststop x)"

interpretation hooks_json: codec enc_Hooks dec_Hooks ok_Hooks
proof
  fix x :: o_Hooks
  assume "ok_Hooks x"
  then show "dec_Hooks (enc_Hooks x) = Some x"
    by (simp add: enc_Hooks_def dec_Hooks_def ok_Hooks_def field_put cong: if_cong split del: if_split)
qed (simp add: enc_Hooks_def)

record o_LinuxIDMapping =
  olidm_container_id :: u32
  olidm_host_id :: u32
  olidm_size :: u32

definition enc_LinuxIDMapping :: "o_LinuxIDMapping \<Rightarrow> json" where
  "enc_LinuxIDMapping x = JObj (
    put ''containerID'' (False) (enc_word (olidm_container_id x)) @
    put ''hostID'' (False) (enc_word (olidm_host_id x)) @
    put ''size'' (False) (enc_word (olidm_size x)))"

definition dec_LinuxIDMapping :: "json \<Rightarrow> o_LinuxIDMapping option" where
  "dec_LinuxIDMapping j = Option.bind (obj_fields j) (\<lambda>fs.
    Option.bind (field fs ''containerID'' (Some 0) dec_word) (\<lambda>v0.
    Option.bind (field fs ''hostID'' (Some 0) dec_word) (\<lambda>v1.
    Option.bind (field fs ''size'' (Some 0) dec_word) (\<lambda>v2.
    Some \<lparr>olidm_container_id = v0, olidm_host_id = v1, olidm_size = v2\<rparr>))))"

interpretation linuxIDMapping_json: codec enc_LinuxIDMapping dec_LinuxIDMapping "\<lambda>_. True"
proof
  fix x :: o_LinuxIDMapping
  show "dec_LinuxIDMapping (enc_LinuxIDMapping x) = Some x"
    by (simp add: enc_LinuxIDMapping_def dec_LinuxIDMapping_def field_put cong: if_cong split del: if_split)
qed (simp add: enc_LinuxIDMapping_def)

record o_LinuxDeviceCgroup =
  oldc_allow :: bool
  oldc_type :: string
  oldc_major :: "i64 option"
  oldc_minor :: "i64 option"
  oldc_access :: string

definition enc_LinuxDeviceCgroup :: "o_LinuxDeviceCgroup \<Rightarrow> json" where
  "enc_LinuxDeviceCgroup x = JObj (
    put ''allow'' (False) (enc_bool (oldc_allow x)) @
    put ''type'' (oldc_type x = []) (enc_string (oldc_type x)) @
    put ''major'' (oldc_major x = None) ((enc_opt enc_int) (oldc_major x)) @
    put ''minor'' (oldc_minor x = None) ((enc_opt enc_int) (oldc_minor x)) @
    put ''access'' (oldc_access x = []) (enc_string (oldc_access x)))"

definition dec_LinuxDeviceCgroup :: "json \<Rightarrow> o_LinuxDeviceCgroup option" where
  "dec_LinuxDeviceCgroup j = Option.bind (obj_fields j) (\<lambda>fs.
    Option.bind (field fs ''allow'' (Some False) dec_bool) (\<lambda>v0.
    Option.bind (field fs ''type'' (Some []) dec_string) (\<lambda>v1.
    Option.bind (field fs ''major'' (Some None) (dec_opt (dec_int 64))) (\<lambda>v2.
    Option.bind (field fs ''minor'' (Some None) (dec_opt (dec_int 64))) (\<lambda>v3.
    Option.bind (field fs ''access'' (Some []) dec_string) (\<lambda>v4.
    Some \<lparr>oldc_allow = v0, oldc_type = v1, oldc_major = v2, oldc_minor = v3, oldc_access = v4\<rparr>))))))"

definition ok_LinuxDeviceCgroup :: "o_LinuxDeviceCgroup \<Rightarrow> bool" where
  "ok_LinuxDeviceCgroup x \<longleftrightarrow> pred_option (in_range 64) (oldc_major x) \<and> pred_option (in_range 64) (oldc_minor x)"

interpretation linuxDeviceCgroup_json: codec enc_LinuxDeviceCgroup dec_LinuxDeviceCgroup ok_LinuxDeviceCgroup
proof
  fix x :: o_LinuxDeviceCgroup
  assume "ok_LinuxDeviceCgroup x"
  then show "dec_LinuxDeviceCgroup (enc_LinuxDeviceCgroup x) = Some x"
    by (simp add: enc_LinuxDeviceCgroup_def dec_LinuxDeviceCgroup_def ok_LinuxDeviceCgroup_def field_put cong: if_cong split del: if_split)
qed (simp add: enc_LinuxDeviceCgroup_def)

record o_LinuxMemory =
  olm_limit :: "i64 option"
  olm_reservation :: "i64 option"
  olm_swap :: "i64 option"
  olm_kernel :: "i64 option"
  olm_kernel_tcp :: "i64 option"
  olm_swapiness :: "i64 option"
  olm_disable_oom_killer :: "bool option"

definition enc_LinuxMemory :: "o_LinuxMemory \<Rightarrow> json" where
  "enc_LinuxMemory x = JObj (
    put ''limit'' (olm_limit x = None) ((enc_opt enc_int) (olm_limit x)) @
    put ''reservation'' (olm_reservation x = None) ((enc_opt enc_int) (olm_reservation x)) @
    put ''swap'' (olm_swap x = None) ((enc_opt enc_int) (olm_swap x)) @
    put ''kernel'' (olm_kernel x = None) ((enc_opt enc_int) (olm_kernel x)) @
    put ''kernelTCP'' (olm_kernel_tcp x = None) ((enc_opt enc_int) (olm_kernel_tcp x)) @
    put ''swapiness'' (olm_swapiness x = None) ((enc_opt enc_int) (olm_swapiness x)) @
    put ''disableOOMKiller'' (olm_disable_oom_killer x = None) ((enc_opt enc_bool) (olm_disable_oom_killer x)))"

definition dec_LinuxMemory :: "json \<Rightarrow> o_LinuxMemory option" where
  "dec_LinuxMemory j = Option.bind (obj_fields j) (\<lambda>fs.
    Option.bind (field fs ''limit'' (Some None) (dec_opt (dec_int 64))) (\<lambda>v0.
    Option.bind (field fs ''reservation'' (Some None) (dec_opt (dec_int 64))) (\<lambda>v1.
    Option.bind (field fs ''swap'' (Some None) (dec_opt (dec_int 64))) (\<lambda>v2.
    Option.bind (field fs ''kernel'' (Some None) (dec_opt (dec_int 64))) (\<lambda>v3.
    Option.bind (field fs ''kernelTCP'' (Some None) (dec_opt (dec_int 64))) (\<lambda>v4.
    Option.bind (field fs ''swapiness'' (Some None) (dec_opt (dec_int 64))) (\<lambda>v5.
    Option.bind (field fs ''disableOOMKiller'' (Some None) (dec_opt dec_bool)) (\<lambda>v6.
    Some \<lparr>olm_limit = v0, olm_reservation = v1, olm_swap = v2, olm_kernel = v3, olm_kernel_tcp = v4, olm_swapiness = v5, olm_disable_oom_killer = v6\<rparr>))))))))"

definition ok_LinuxMemory :: "o_LinuxMemory \<Rightarrow> bool" where
  "ok_LinuxMemory x \<longleftrightarrow> pred_option (in_range 64) (olm_limit x) \<and> pred_option (in_range 64) (olm_reservation x) \<and> pred_option (in_range 64) (olm_swap x) \<and> pred_option (in_range 64) (olm_kernel x) \<and> pred_option (in_range 64) (olm_kernel_tcp x) \<and> pred_option (in_range 64) (olm_swapiness x)"

interpretation linuxMemory_json: codec enc_LinuxMemory dec_LinuxMemory ok_LinuxMemory
proof
  fix x :: o_LinuxMemory
  assume "ok_LinuxMemory x"
  then show "dec_LinuxMemory (enc_LinuxMemory x) = Some x"
    by (simp add: enc_LinuxMemory_def dec_LinuxMemory_def ok_LinuxMemory_def field_put cong: if_cong split del: if_split)
qed (simp add: enc_LinuxMemory_def)

record o_LinuxCPU =
  olcpu_shares :: "u64 option"
  olcpu_quota :: "i64 option"
  olcpu_period :: "u64 option"
  olcpu_realtime_runtime :: "i64 option"
  olcpu_realtime_period :: "u64 option"
  olcpu_cpus :: string
  olcpu_mems :: string

definition enc_LinuxCPU :: "o_LinuxCPU \<Rightarrow> json" where
  "enc_LinuxCPU x = JObj (
    put ''shares'' (olcpu_shares x = None) ((enc_opt enc_word) (olcpu_shares x)) @
    put ''quota'' (olcpu_quota x = None) ((enc_opt enc_int) (olcpu_quota x)) @
    put ''period'' (olcpu_period x = None) ((enc_opt enc_word) (olcpu_period x)) @
    put ''realtimeRuntime'' (olcpu_realtime_runtime x = None) ((enc_opt enc_int) (olcpu_realtime_runtime x)) @
    put ''realtimePeriod'' (olcpu_realtime_period x = None) ((enc_opt enc_word) (olcpu_realtime_period x)) @
    put ''cpus'' (olcpu_cpus x = []) (enc_string (olcpu_cpus x)) @
    put ''mems'' (olcpu_mems x = []) (enc_string (olcpu_mems x)))"

definition dec_LinuxCPU :: "json \<Rightarrow> o_LinuxCPU option" where
  "dec_LinuxCPU j = Option.bind (obj_fields j) (\<lambda>fs.
    Option.bind (field fs ''shares'' (Some None) (dec_opt dec_word)) (\<lambda>v0.
    Option.bind (field fs ''quota'' (Some None) (dec_opt (dec_int 64))) (\<lambda>v1.
    Option.bind (field fs ''period'' (Some None) (dec_opt dec_word)) (\<lambda>v2.
    Option.bind (field fs ''realtimeRuntime'' (Some None) (dec_opt (dec_int 64))) (\<lambda>v3.
    Option.bind (field fs ''realtimePeriod'' (Some None) (dec_opt dec_word)) (\<lambda>v4.
    Option.bind (field fs ''cpus'' (Some []) dec_string) (\<lambda>v5.
    Option.bind (field fs ''mems'' (Some []) dec_string) (\<lambda>v6.
    Some \<lparr>olcpu_shares = v0, olcpu_quota = v1, olcpu_period = v2, olcpu_realtime_runtime = v3, olcpu_realtime_period = v4, olcpu_cpus = v5, olcpu_mems = v6\<rparr>))))))))"

definition ok_LinuxCPU :: "o_LinuxCPU \<Rightarrow> bool" where
  "ok_LinuxCPU x \<longleftrightarrow> pred_option (in_range 64) (olcpu_quota x) \<and> pred_option (in_range 64) (olcpu_realtime_runtime x)"

interpretation linuxCPU_json: codec enc_LinuxCPU dec_LinuxCPU ok_LinuxCPU
proof
  fix x :: o_LinuxCPU
  assume "ok_LinuxCPU x"
  then show "dec_LinuxCPU (enc_LinuxCPU x) = Some x"
    by (simp add: enc_LinuxCPU_def dec_LinuxCPU_def ok_LinuxCPU_def field_put cong: if_cong split del: if_split)
qed (simp add: enc_LinuxCPU_def)

record o_LinuxPids =
  olp_limit :: i64

definition enc_LinuxPids :: "o_LinuxPids \<Rightarrow> json" where
  "enc_LinuxPids x = JObj (
    put ''limit'' (False) (enc_int (olp_limit x)))"

definition dec_LinuxPids :: "json \<Rightarrow> o_LinuxPids option" where
  "dec_LinuxPids j = Option.bind (obj_fields j) (\<lambda>fs.
    Option.bind (field fs ''limit'' (Some 0) (dec_int 64)) (\<lambda>v0.
    Some \<lparr>olp_limit = v0\<rparr>))"

definition ok_LinuxPids :: "o_LinuxPids \<Rightarrow> bool" where
  "ok_LinuxPids x \<longleftrightarrow> (in_range 64) (olp_limit x)"

interpretation linuxPids_json: codec enc_LinuxPids dec_LinuxPids ok_LinuxPids
proof
  fix x :: o_LinuxPids
  assume "ok_LinuxPids x"
  then show "dec_LinuxPids (enc_LinuxPids x) = Some x"
    by (simp add: enc_LinuxPids_def dec_LinuxPids_def ok_LinuxPids_def field_put cong: if_cong split del: if_split)
qed (simp add: enc_LinuxPids_def)

record o_LinuxBlockIODevice =
  olbiod_major :: i64
  olbiod_minor :: i64

definition enc_LinuxBlockIODevice :: "o_LinuxBlockIODevice \<Rightarrow> json" where
  "enc_LinuxBlockIODevice x = JObj (
    put ''major'' (False) (enc_int (olbiod_major x)) @
    put ''minor'' (False) (enc_int (olbiod_minor x)))"

definition dec_LinuxBlockIODevice :: "json \<Rightarrow> o_LinuxBlockIODevice option" where
  "dec_LinuxBlockIODevice j = Option.bind (obj_fields j) (\<lambda>fs.
    Option.bind (field fs ''major'' (Some 0) (dec_int 64)) (\<lambda>v0.
    Option.bind (field fs ''minor'' (Some 0) (dec_int 64)) (\<lambda>v1.
    Some \<lparr>olbiod_major = v0, olbiod_minor = v1\<rparr>)))"

definition ok_LinuxBlockIODevice :: "o_LinuxBlockIODevice \<Rightarrow> bool" where
  "ok_LinuxBlockIODevice x \<longleftrightarrow> (in_range 64) (olbiod_major x) \<and> (in_range 64) (olbiod_minor x)"

interpretation linuxBlockIODevice_json: codec enc_LinuxBlockIODevice dec_LinuxBlockIODevice ok_LinuxBlockIODevice
proof
  fix x :: o_LinuxBlockIODevice
  assume "ok_LinuxBlockIODevice x"
  then show "dec_LinuxBlockIODevice (enc_LinuxBlockIODevice x) = Some x"
    by (simp add: enc_LinuxBlockIODevice_def dec_LinuxBlockIODevice_def ok_LinuxBlockIODevice_def field_put cong: if_cong split del: if_split)
qed (simp add: enc_LinuxBlockIODevice_def)

record o_LinuxWeightDevice =
  olwd_blk :: o_LinuxBlockIODevice
  olwd_weight :: "u16 option"
  olwd_leaf_weight :: "u16 option"

definition enc_LinuxWeightDevice :: "o_LinuxWeightDevice \<Rightarrow> json" where
  "enc_LinuxWeightDevice x = JObj (
    put ''blk'' (False) (enc_LinuxBlockIODevice (olwd_blk x)) @
    put ''weight'' (olwd_weight x = None) ((enc_opt enc_word) (olwd_weight x)) @
    put ''leafWeight'' (olwd_leaf_weight x = None) ((enc_opt enc_word) (olwd_leaf_weight x)))"

definition dec_LinuxWeightDevice :: "json \<Rightarrow> o_LinuxWeightDevice option" where
  "dec_LinuxWeightDevice j = Option.bind (obj_fields j) (\<lambda>fs.
    Option.bind (field fs ''blk'' None dec_LinuxBlockIODevice) (\<lambda>v0.
    Option.bind (field fs ''weight'' (Some None) (dec_opt dec_word)) (\<lambda>v1.
    Option.bind (field fs ''leafWeight'' (Some None) (dec_opt dec_word)) (\<lambda>v2.
    Some \<lparr>olwd_blk = v0, olwd_weight = v1, olwd_leaf_weight = v2\<rparr>))))"

definition ok_LinuxWeightDevice :: "o_LinuxWeightDevice \<Rightarrow> bool" where
  "ok_LinuxWeightDevice x \<longleftrightarrow> ok_LinuxBlockIODevice (olwd_blk x)"

interpretation linuxWeightDevice_json: codec enc_LinuxWeightDevice dec_LinuxWeightDevice ok_LinuxWeightDevice
proof
  fix x :: o_LinuxWeightDevice
  assume "ok_LinuxWeightDevice x"
  then show "dec_LinuxWeightDevice (enc_LinuxWeightDevice x) = Some x"
    by (simp add: enc_LinuxWeightDevice_def dec_LinuxWeightDevice_def ok_LinuxWeightDevice_def field_put cong: if_cong split del: if_split)
qed (simp add: enc_LinuxWeightDevice_def)

record o_LinuxThrottleDevice =
  oltd_blk :: o_LinuxBlockIODevice
  oltd_rate :: u64

definition enc_LinuxThrottleDevice :: "o_LinuxThrottleDevice \<Rightarrow> json" where
  "enc_LinuxThrottleDevice x = JObj (
    put ''blk'' (False) (enc_LinuxBlockIODevice (oltd_blk x)) @
    put ''rate'' (False) (enc_word (oltd_rate x)))"

definition dec_LinuxThrottleDevice :: "json \<Rightarrow> o_LinuxThrottleDevice option" where
  "dec_LinuxThrottleDevice j = Option.bind (obj_fields j) (\<lambda>fs.
    Option.bind (field fs ''blk'' None dec_LinuxBlockIODevice) (\<lambda>v0.
    Option.bind (field fs ''rate'' (Some 0) dec_word) (\<lambda>v1.
    Some \<lparr>oltd_blk = v0, oltd_rate = v1\<rparr>)))"

definition ok_LinuxThrottleDevice :: "o_LinuxThrottleDevice \<Rightarrow> bool" where
  "ok_LinuxThrottleDevice x \<longleftrightarrow> ok_LinuxBlockIODevice (oltd_blk x)"

interpretation linuxThrottleDevice_json: codec enc_LinuxThrottleDevice dec_LinuxThrottleDevice ok_LinuxThrottleDevice
proof
  fix x :: o_LinuxThrottleDevice
  assume "ok_LinuxThrottleDevice x"
  then show "dec_LinuxThrottleDevice (enc_LinuxThrottleDevice x) = Some x"
    by (simp add: enc_LinuxThrottleDevice_def dec_LinuxThrottleDevice_def ok_LinuxThrottleDevice_def field_put cong: if_cong split del: if_split)
qed (simp add: enc_LinuxThrottleDevice_def)

record o_LinuxBlockIO =
  olbio_weight :: "u16 option"
  olbio_leaf_weight :: "u16 option"
  olbio_weight_device :: "o_LinuxWeightDevice list"
  olbio_throttle_read_bps_device :: "o_LinuxThrottleDevice list"
  olbio_throttle_write_bps_device :: "o_LinuxThrottleDevice list"
  olbio_throttle_read_iops_device :: "o_LinuxThrottleDevice list"
  olbio_throttle_write_iops_device :: "o_LinuxThrottleDevice list"

definition enc_LinuxBlockIO :: "o_LinuxBlockIO \<Rightarrow> json" where
  "enc_LinuxBlockIO x = JObj (
    put ''weight'' (olbio_weight x = None) ((enc_opt enc_word) (olbio_weight x)) @
    put ''leafWeight'' (olbio_leaf_weight x = None) ((enc_opt enc_word) (olbio_leaf_weight x)) @
    put ''weightDevice'' (olbio_weight_device x = []) ((enc_list enc_LinuxWeightDevice) (olbio_weight_device x)) @
    put ''throttleReadBpsDevice'' (olbio_throttle_read_bps_device x = []) ((enc_list enc_LinuxThrottleDevice) (olbio_throttle_read_bps_device x)) @
    put ''throttleWriteBpsDevice'' (olbio_throttle_write_bps_device x = []) ((enc_list enc_LinuxThrottleDevice) (olbio_throttle_write_bps_device x)) @
    put ''throttleReadIOPSDevice'' (olbio_throttle_read_iops_device x = []) ((enc_list enc_LinuxThrottleDevice) (olbio_throttle_read_iops_device x)) @
    put ''throttleWriteIOPSDevice'' (olbio_throttle_write_iops_device x = []) ((enc_list enc_LinuxThrottleDevice) (olbio_throttle_write_iops_device x)))"

definition dec_LinuxBlockIO :: "json \<Rightarrow> o_LinuxBlockIO option" where
  "dec_LinuxBlockIO j = Option.bind (obj_fields j) (\<lambda>fs.
    Option.bind (field fs ''weight'' (Some None) (dec_opt dec_word)) (\<lambda>v0.
    Option.bind (field fs ''leafWeight'' (Some None) (dec_opt dec_word)) (\<lambda>v1.
    Option.bind (field fs ''weightDevice'' (Some []) (dec_list dec_LinuxWeightDevice)) (\<lambda>v2.
    Option.bind (field fs ''throttleReadBpsDevice'' (Some []) (dec_list dec_LinuxThrottleDevice)) (\<lambda>v3.
    Option.bind (field fs ''throttleWriteBpsDevice'' (Some []) (dec_list dec_LinuxThrottleDevice)) (\<lambda>v4.
    Option.bind (field fs ''throttleReadIOPSDevice'' (Some []) (dec_list dec_LinuxThrottleDevice)) (\<lambda>v5.
    Option.bind (field fs ''throttleWriteIOPSDevice'' (Some []) (dec_list dec_LinuxThrottleDevice)) (\<lambda>v6.
    Some \<lparr>olbio_weight = v0, olbio_leaf_weight = v1, olbio_weight_device = v2, olbio_throttle_read_bps_device = v3, olbio_throttle_write_bps_device = v4, olbio_throttle_read_iops_device = v5, olbio_throttle_write_iops_device = v6\<rparr>))))))))"

definition ok_LinuxBlockIO :: "o_LinuxBlockIO \<Rightarrow> bool" where
  "ok_LinuxBlockIO x \<longleftrightarrow> list_all ok_LinuxWeightDevice (olbio_weight_device x) \<and> list_all ok_LinuxThrottleDevice (olbio_throttle_read_bps_device x) \<and> list_all ok_LinuxThrottleDevice (olbio_throttle_write_bps_device x) \<and> list_all ok_LinuxThrottleDevice (olbio_throttle_read_iops_device x) \<and> list_all ok_LinuxThrottleDevice (olbio_throttle_write_iops_device x)"

interpretation linuxBlockIO_json: codec enc_LinuxBlockIO dec_LinuxBlockIO ok_LinuxBlockIO
proof
  fix x :: o_LinuxBlockIO
  assume "ok_LinuxBlockIO x"
  then show "dec_LinuxBlockIO (enc_LinuxBlockIO x) = Some x"
    by (simp add: enc_LinuxBlockIO_def dec_LinuxBlockIO_def ok_LinuxBlockIO_def field_put cong: if_cong split del: if_split)
qed (simp add: enc_LinuxBlockIO_def)

record o_LinuxHugepageLimit =
  olhl_page_size :: string
  olhl_limit :: u64

definition enc_LinuxHugepageLimit :: "o_LinuxHugepageLimit \<Rightarrow> json" where
  "enc_LinuxHugepageLimit x = JObj (
    put ''pageSize'' (olhl_page_size x = []) (enc_string (olhl_page_size x)) @
    put ''limit'' (False) (enc_word (olhl_limit x)))"

definition dec_LinuxHugepageLimit :: "json \<Rightarrow> o_LinuxHugepageLimit option" where
  "dec_LinuxHugepageLimit j = Option.bind (obj_fields j) (\<lambda>fs.
    Option.bind (field fs ''pageSize'' (Some []) dec_string) (\<lambda>v0.
    Option.bind (field fs ''limit'' (Some 0) dec_word) (\<lambda>v1.
    Some \<lparr>olhl_page_size = v0, olhl_limit = v1\<rparr>)))"

interpretation linuxHugepageLimit_json: codec enc_LinuxHugepageLimit dec_LinuxHugepageLimit "\<lambda>_. True"
proof
  fix x :: o_LinuxHugepageLimit
  show "dec_LinuxHugepageLimit (enc_LinuxHugepageLimit x) = Some x"
    by (simp add: enc_LinuxHugepageLimit_def dec_LinuxHugepageLimit_def field_put cong: if_cong split del: if_split)
qed (simp add: enc_LinuxHugepageLimit_def)

record o_LinuxInterfacePriority =
  olip_name :: string
  olip_priority :: u32

definition enc_LinuxInterfacePriority :: "o_LinuxInterfacePriority \<Rightarrow> json" where
  "enc_LinuxInterfacePriority x = JObj (
    put ''name'' (olip_name x = []) (enc_string (olip_name x)) @
    put ''priority'' (False) (enc_word (olip_priority x)))"

definition dec_LinuxInterfacePriority :: "json \<Rightarrow> o_LinuxInterfacePriority option" where
  "dec_LinuxInterfacePriority j = Option.bind (obj_fields j) (\<lambda>fs.
    Option.bind (field fs ''name'' (Some []) dec_string) (\<lambda>v0.
    Option.bind (field fs ''priority'' (Some 0) dec_word) (\<lambda>v1.
    Some \<lparr>olip_name = v0, olip_priority = v1\<rparr>)))"

interpretation linuxInterfacePriority_json: codec enc_LinuxInterfacePriority dec_LinuxInterfacePriority "\<lambda>_. True"
proof
  fix x :: o_LinuxInterfacePriority
  show "dec_LinuxInterfacePriority (enc_LinuxInterfacePriority x) = Some x"
    by (simp add: enc_LinuxInterfacePriority_def dec_LinuxInterfacePriority_def field_put cong: if_cong split del: if_split)
qed (simp add: enc_LinuxInterfacePriority_def)

record o_LinuxNetwork =
  olrk_class_id :: "u32 option"
  olrk_priorities :: "o_LinuxInterfacePriority list"

definition enc_LinuxNetwork :: "o_LinuxNetwork \<Rightarrow> json" where
  "enc_LinuxNetwork x = JObj (
    put ''classID'' (olrk_class_id x = None) ((enc_opt enc_word) (olrk_class_id x)) @
    put ''priorities'' (olrk_priorities x = []) ((enc_list enc_LinuxInterfacePriority) (olrk_priorities x)))"

definition dec_LinuxNetwork :: "json \<Rightarrow> o_LinuxNetwork option" where
  "dec_LinuxNetwork j = Option.bind (obj_fields j) (\<lambda>fs.
    Option.bind (field fs ''classID'' (Some None) (dec_opt dec_word)) (\<lambda>v0.
    Option.bind (field fs ''priorities'' (Some []) (dec_list dec_LinuxInterfacePriority)) (\<lambda>v1.
    Some \<lparr>olrk_class_id = v0, olrk_priorities = v1\<rparr>)))"

interpretation linuxNetwork_json: codec enc_LinuxNetwork dec_LinuxNetwork "\<lambda>_. True"
proof
  fix x :: o_LinuxNetwork
  show "dec_LinuxNetwork (enc_LinuxNetwork x) = Some x"
    by (simp add: enc_LinuxNetwork_def dec_LinuxNetwork_def field_put cong: if_cong split del: if_split)
qed (simp add: enc_LinuxNetwork_def)

record o_LinuxRdma =
  olr_hca_handles :: "u32 option"
  olr_hca_objects :: "u32 option"

definition enc_LinuxRdma :: "o_LinuxRdma \<Rightarrow> json" where
  "enc_LinuxRdma x = JObj (
    put ''hcaHandles'' (olr_hca_handles x = None) ((enc_opt enc_word) (olr_hca_handles x)) @
    put ''hcaObjects'' (olr_hca_objects x = None) ((enc_opt enc_word) (olr_hca_objects x)))"

definition dec_LinuxRdma :: "json \<Rightarrow> o_LinuxRdma option" where
  "dec_LinuxRdma j = Option.bind (obj_fields j) (\<lambda>fs.
    Option.bind (field fs ''hcaHandles'' (Some None) (dec_opt dec_word)) (\<lambda>v0.
    Option.bind (field fs ''hcaObjects'' (Some None) (dec_opt dec_word)) (\<lambda>v1.
    Some \<lparr>olr_hca_handles = v0, olr_hca_objects = v1\<rparr>)))"

interpretation linuxRdma_json: codec enc_LinuxRdma dec_LinuxRdma "\<lambda>_. True"
proof
  fix x :: o_LinuxRdma
  show "dec_LinuxRdma (enc_LinuxRdma x) = Some x"
    by (simp add: enc_LinuxRdma_def dec_LinuxRdma_def field_put cong: if_cong split del: if_split)
qed (simp add: enc_LinuxRdma_def)

record o_LinuxResources =
  oles_devices :: "o_LinuxDeviceCgroup list"
  oles_memory :: "o_LinuxMemory option"
  oles_cpu :: "o_LinuxCPU option"
  oles_pids :: "o_LinuxPids option"
  oles_block_io :: "o_LinuxBlockIO option"
  oles_hugepage_limits :: "o_LinuxHugepageLimit list"
  oles_network :: "o_LinuxNetwork option"
  oles_rdma :: "(string \<times> o_LinuxRdma) list"

definition enc_LinuxResources :: "o_LinuxResources \<Rightarrow> json" where
  "enc_LinuxResources x = JObj (
    put ''devices'' (oles_devices x = []) ((enc_list enc_LinuxDeviceCgroup) (oles_devices x)) @
    put ''memory'' (oles_memory x = None) ((enc_opt enc_LinuxMemory) (oles_memory x)) @
    put ''cpu'' (oles_cpu x = None) ((enc_opt enc_LinuxCPU) (oles_cpu x)) @
    put ''pids'' (oles_pids x = None) ((enc_opt enc_LinuxPids) (oles_pids x)) @
    put ''blockIO'' (oles_block_io x = None) ((enc_opt enc_LinuxBlockIO) (oles_block_io x)) @
    put ''hugepageLimits'' (oles_hugepage_limits x = []) ((enc_list enc_LinuxHugepageLimit) (oles_hugepage_limits x)) @
    put ''network'' (oles_network x = None) ((enc_opt enc_LinuxNetwork) (oles_network x)) @
    put ''rdma'' (oles_rdma x = []) ((enc_map enc_LinuxRdma) (oles_rdma x)))"

definition dec_LinuxResources :: "json \<Rightarrow> o_LinuxResources option" where
  "dec_LinuxResources j = Option.bind (obj_fields j) (\<lambda>fs.
    Option.bind (field fs ''devices'' (Some []) (dec_list dec_LinuxDeviceCgroup)) (\<lambda>v0.
    Option.bind (field fs ''memory'' (Some None) (dec_opt dec_LinuxMemory)) (\<lambda>v1.
    Option.bind (field fs ''cpu'' (Some None) (dec_opt dec_LinuxCPU)) (\<lambda>v2.
    Option.bind (field fs ''pids'' (Some None) (dec_opt dec_LinuxPids)) (\<lambda>v3.
    Option.bind (field fs ''blockIO'' (Some None) (dec_opt dec_LinuxBlockIO)) (\<lambda>v4.
    Option.bind (field fs ''hugepageLimits'' (Some []) (dec_list dec_LinuxHugepageLimit)) (\<lambda>v5.
    Option.bind (field fs ''network'' (Some None) (dec_opt dec_LinuxNetwork)) (\<lambda>v6.
    Option.bind (field fs ''rdma'' (Some []) (dec_map dec_LinuxRdma)) (\<lambda>v7.
    Some \<lparr>oles_devices = v0, oles_memory = v1, oles_cpu = v2, oles_pids = v3, oles_block_io = v4, oles_hugepage_limits = v5, oles_network = v6, oles_rdma = v7\<rparr>)))))))))"

definition ok_LinuxResources :: "o_LinuxResources \<Rightarrow> bool" where
  "ok_LinuxResources x \<longleftrightarrow> list_all ok_LinuxDeviceCgroup (oles_devices x) \<and> pred_option ok_LinuxMemory (oles_memory x) \<and> pred_option ok_LinuxCPU (oles_cpu x) \<and> pred_option ok_LinuxPids (oles_pids x) \<and> pred_option ok_LinuxBlockIO (oles_block_io x) \<and> distinct (map fst (oles_rdma x))"

interpretation linuxResources_json: codec enc_LinuxResources dec_LinuxResources ok_LinuxResources
proof
  fix x :: o_LinuxResources
  assume "ok_LinuxResources x"
  then show "dec_LinuxResources (enc_LinuxResources x) = Some x"
    by (simp add: enc_LinuxResources_def dec_LinuxResources_def ok_LinuxResources_def field_put cong: if_cong split del: if_split)
qed (simp add: enc_LinuxResources_def)

record o_LinuxNamespace =
  oln_type :: string
  oln_path :: string

definition enc_LinuxNamespace :: "o_LinuxNamespace \<Rightarrow> json" where
  "enc_LinuxNamespace x = JObj (
    put ''type'' (oln_type x = []) (enc_string (oln_type x)) @
    put ''path'' (oln_path x = []) (enc_string (oln_path x)))"

definition dec_LinuxNamespace :: "json \<Rightarrow> o_LinuxNamespace option" where
  "dec_LinuxNamespace j = Option.bind (obj_fields j) (\<lambda>fs.
    Option.bind (field fs ''type'' (Some []) dec_string) (\<lambda>v0.
    Option.bind (field fs ''path'' (Some []) dec_string) (\<lambda>v1.
    Some \<lparr>oln_type = v0, oln_path = v1\<rparr>)))"

interpretation linuxNamespace_json: codec enc_LinuxNamespace dec_LinuxNamespace "\<lambda>_. True"
proof
  fix x :: o_LinuxNamespace
  show "dec_LinuxNamespace (enc_LinuxNamespace x) = Some x"
    by (simp add: enc_LinuxNamespace_def dec_LinuxNamespace_def field_put cong: if_cong split del: if_split)
qed (simp add: enc_LinuxNamespace_def)

record o_LinuxDevice =
  old_path :: string
  old_type :: string
  old_major :: i64
  old_minor :: i64
  old_file_mode :: "u32 option"
  old_uid :: "u32 option"
  old_gid :: "u32 option"

definition enc_LinuxDevice :: "o_LinuxDevice \<Rightarrow> json" where
  "enc_LinuxDevice x = JObj (
    put ''path'' (old_path x = []) (enc_string (old_path x)) @
    put ''type'' (old_type x = []) (enc_string (old_type x)) @
    put ''major'' (False) (enc_int (old_major x)) @
    put ''minor'' (False) (enc_int (old_minor x)) @
    put ''fileMode'' (old_file_mode x = None) ((enc_opt enc_word) (old_file_mode x)) @
    put ''uid'' (old_uid x = None) ((enc_opt enc_word) (old_uid x)) @
    put ''gid'' (old_gid x = None) ((enc_opt enc_word) (old_gid x)))"

definition dec_LinuxDevice :: "json \<Rightarrow> o_LinuxDevice option" where
  "dec_LinuxDevice j = Option.bind (obj_fields j) (\<lambda>fs.
    Option.bind (field fs ''path'' (Some []) dec_string) (\<lambda>v0.
    Option.bind (field fs ''type'' (Some []) dec_string) (\<lambda>v1.
    Option.bind (field fs ''major'' (Some 0) (dec_int 64)) (\<lambda>v2.
    Option.bind (field fs ''minor'' (Some 0) (dec_int 64)) (\<lambda>v3.
    Option.bind (field fs ''fileMode'' (Some None) (dec_opt dec_word)) (\<lambda>v4.
    Option.bind (field fs ''uid'' (Some None) (dec_opt dec_word)) (\<lambda>v5.
    Option.bind (field fs ''gid'' (Some None) (dec_opt dec_word)) (\<lambda>v6.
    Some \<lparr>old_path = v0, old_type = v1, old_major = v2, old_minor = v3, old_file_mode = v4, old_uid = v5, old_gid = v6\<rparr>))))))))"

definition ok_LinuxDevice :: "o_LinuxDevice \<Rightarrow> bool" where
  "ok_LinuxDevice x \<longleftrightarrow> (in_range 64) (old_major x) \<and> (in_range 64) (old_minor x)"

interpretation linuxDevice_json: codec enc_LinuxDevice dec_LinuxDevice ok_LinuxDevice
proof
  fix x :: o_LinuxDevice
  assume "ok_LinuxDevice x"
  then show "dec_LinuxDevice (enc_LinuxDevice x) = Some x"
    by (simp add: enc_LinuxDevice_def dec_LinuxDevice_def ok_LinuxDevice_def field_put cong: if_cong split del: if_split)
qed (simp add: enc_LinuxDevice_def)

record o_LinuxSeccompArg =
  olsa_index :: u32
  olsa_value :: u64
  olsa_value_two :: u64
  olsa_op :: string

definition enc_LinuxSeccompArg :: "o_LinuxSeccompArg \<Rightarrow> json" where
  "enc_LinuxSeccompArg x = JObj (
    put ''index'' (False) (enc_word (olsa_index x)) @
    put ''value'' (False) (enc_word (olsa_value x)) @
    put ''valueTwo'' (False) (enc_word (olsa_value_two x)) @
    put ''op'' (False) (enc_string (olsa_op x)))"

definition dec_LinuxSeccompArg :: "json \<Rightarrow> o_LinuxSeccompArg option" where
  "dec_LinuxSeccompArg j = Option.bind (obj_fields j) (\<lambda>fs.
    Option.bind (field fs ''index'' (Some 0) dec_word) (\<lambda>v0.
    Option.bind (field fs ''value'' (Some 0) dec_word) (\<lambda>v1.
    Option.bind (field fs ''valueTwo'' (Some 0) dec_word) (\<lambda>v2.
    Option.bind (field fs ''op'' (Some []) dec_string) (\<lambda>v3.
    Some \<lparr>olsa_index = v0, olsa_value = v1, olsa_value_two = v2, olsa_op = v3\<rparr>)))))"

interpretation linuxSeccompArg_json: codec enc_LinuxSeccompArg dec_LinuxSeccompArg "\<lambda>_. True"
proof
  fix x :: o_LinuxSeccompArg
  show "dec_LinuxSeccompArg (enc_LinuxSeccompArg x) = Some x"
    by (simp add: enc_LinuxSeccompArg_def dec_LinuxSeccompArg_def field_put cong: if_cong split del: if_split)
qed (simp add: enc_LinuxSeccompArg_def)

record o_LinuxSyscall =
  olll_names :: "string list"
  olll_action :: string
  olll_args :: "o_LinuxSeccompArg list"

definition enc_LinuxSyscall :: "o_LinuxSyscall \<Rightarrow> json" where
  "enc_LinuxSyscall x = JObj (
    put ''names'' (olll_names x = []) ((enc_list enc_string) (olll_names x)) @
    put ''action'' (olll_action x = []) (enc_string (olll_action x)) @
    put ''args'' (olll_args x = []) ((enc_list enc_LinuxSeccompArg) (olll_args x)))"

definition dec_LinuxSyscall :: "json \<Rightarrow> o_LinuxSyscall option" where
  "dec_LinuxSyscall j = Option.bind (obj_fields j) (\<lambda>fs.
    Option.bind (field fs ''names'' (Some []) (dec_list dec_string)) (\<lambda>v0.
    Option.bind (field fs ''action'' (Some []) dec_string) (\<lambda>v1.
    Option.bind (field fs ''args'' (Some []) (dec_list dec_LinuxSeccompArg)) (\<lambda>v2.
    Some \<lparr>olll_names = v0, olll_action = v1, olll_args = v2\<rparr>))))"

interpretation linuxSyscall_json: codec enc_LinuxSyscall dec_LinuxSyscall "\<lambda>_. True"
proof
  fix x :: o_LinuxSyscall
  show "dec_LinuxSyscall (enc_LinuxSyscall x) = Some x"
    by (simp add: enc_LinuxSyscall_def dec_LinuxSyscall_def field_put cong: if_cong split del: if_split)
qed (simp add: enc_LinuxSyscall_def)

record o_LinuxSeccomp =
  ols_default_action :: string
  ols_architectures :: "string list"
  ols_syscalls :: "o_LinuxSyscall list"

definition enc_LinuxSeccomp :: "o_LinuxSeccomp \<Rightarrow> json" where
  "enc_LinuxSeccomp x = JObj (
    put ''defaultAction'' (False) (enc_string (ols_default_action x)) @
    put ''architectures'' (ols_architectures x = []) ((enc_list enc_string) (ols_architectures x)) @
    put ''syscalls'' (ols_syscalls x = []) ((enc_list enc_LinuxSyscall) (ols_syscalls x)))"

definition dec_LinuxSeccomp :: "json \<Rightarrow> o_LinuxSeccomp option" where
  "dec_LinuxSeccomp j = Option.bind (obj_fields j) (\<lambda>fs.
    Option.bind (field fs ''defaultAction'' (Some []) dec_string) (\<lambda>v0.
    Option.bind (field fs ''architectures'' (Some []) (dec_list dec_string)) (\<lambda>v1.
    Option.bind (field fs ''syscalls'' (Some []) (dec_list dec_LinuxSyscall)) (\<lambda>v2.
    Some \<lparr>ols_default_action = v0, ols_architectures = v1, ols_syscalls = v2\<rparr>))))"

interpretation linuxSeccomp_json: codec enc_LinuxSeccomp dec_LinuxSeccomp "\<lambda>_. True"
proof
  fix x :: o_LinuxSeccomp
  show "dec_LinuxSeccomp (enc_LinuxSeccomp x) = Some x"
    by (simp add: enc_LinuxSeccomp_def dec_LinuxSeccomp_def field_put cong: if_cong split del: if_split)
qed (simp add: enc_LinuxSeccomp_def)

record o_LinuxIntelRdt =
  olir_l3_cache_schema :: string

definition enc_LinuxIntelRdt :: "o_LinuxIntelRdt \<Rightarrow> json" where
  "enc_LinuxIntelRdt x = JObj (
    put ''l3CacheSchema'' (olir_l3_cache_schema x = []) (enc_string (olir_l3_cache_schema x)))"

definition dec_LinuxIntelRdt :: "json \<Rightarrow> o_LinuxIntelRdt option" where
  "dec_LinuxIntelRdt j = Option.bind (obj_fields j) (\<lambda>fs.
    Option.bind (field fs ''l3CacheSchema'' (Some []) dec_string) (\<lambda>v0.
    Some \<lparr>olir_l3_cache_schema = v0\<rparr>))"

interpretation linuxIntelRdt_json: codec enc_LinuxIntelRdt dec_LinuxIntelRdt "\<lambda>_. True"
proof
  fix x :: o_LinuxIntelRdt
  show "dec_LinuxIntelRdt (enc_LinuxIntelRdt x) = Some x"
    by (simp add: enc_LinuxIntelRdt_def dec_LinuxIntelRdt_def field_put cong: if_cong split del: if_split)
qed (simp add: enc_LinuxIntelRdt_def)

record o_Linux =
  oli_uid_mappings :: "o_LinuxIDMapping list"
  oli_gid_mappings :: "o_LinuxIDMapping list"
  oli_sysctl :: "(string \<times> string) list"
  oli_resources :: "o_LinuxResources option"
  oli_cgroups_path :: string
  oli_namespaces :: "o_LinuxNamespace list"
  oli_devices :: "o_LinuxDevice list"
  oli_seccomp :: "o_LinuxSeccomp option"
  oli_rootfs_propagation :: string
  oli_masked_paths :: "string list"
  oli_readonly_paths :: "string list"
  oli_mount_label :: string
  oli_intel_rdt :: "o_LinuxIntelRdt option"

definition enc_Linux :: "o_Linux \<Rightarrow> json" where
  "enc_Linux x = JObj (
    put ''uidMappings'' (oli_uid_mappings x = []) ((enc_list enc_LinuxIDMapping) (oli_uid_mappings x)) @
    put ''gidMappings'' (oli_gid_mappings x = []) ((enc_list enc_LinuxIDMapping) (oli_gid_mappings x)) @
    put ''sysctl'' (oli_sysctl x = []) ((enc_map enc_string) (oli_sysctl x)) @
    put ''resources'' (oli_resources x = None) ((enc_opt enc_LinuxResources) (oli_resources x)) @
    put ''cgroupsPath'' (oli_cgroups_path x = []) (enc_string (oli_cgroups_path x)) @
    put ''namespaces'' (oli_namespaces x = []) ((enc_list enc_LinuxNamespace) (oli_namespaces x)) @
    put ''devices'' (oli_devices x = []) ((enc_list enc_LinuxDevice) (oli_devices x)) @
    put ''seccomp'' (oli_seccomp x = None) ((enc_opt enc_LinuxSeccomp) (oli_seccomp x)) @
    put ''rootfsPropagation'' (oli_rootfs_propagation x = []) (enc_string (oli_rootfs_propagation x)) @
    put ''maskedPaths'' (oli_masked_paths x = []) ((enc_list enc_string) (oli_masked_paths x)) @
    put ''readonlyPaths'' (oli_readonly_paths x = []) ((enc_list enc_string) (oli_readonly_paths x)) @
    put ''mountLabel'' (oli_mount_label x = []) (enc_string (oli_mount_label x)) @
    put ''intelRdt'' (oli_intel_rdt x = None) ((enc_opt enc_LinuxIntelRdt) (oli_intel_rdt x)))"

definition dec_Linux :: "json \<Rightarrow> o_Linux option" where
  "dec_Linux j = Option.bind (obj_fields j) (\<lambda>fs.
    Option.bind (field fs ''uidMappings'' (Some []) (dec_list dec_LinuxIDMapping)) (\<lambda>v0.
    Option.bind (field fs ''gidMappings'' (Some []) (dec_list dec_LinuxIDMapping)) (\<lambda>v1.
    Option.bind (field fs ''sysctl'' (Some []) (dec_map dec_string)) (\<lambda>v2.
    Option.bind (field fs ''resources'' (Some None) (dec_opt dec_LinuxResources)) (\<lambda>v3.
    Option.bind (field fs ''cgroupsPath'' (Some []) dec_string) (\<lambda>v4.
    Option.bind (field fs ''namespaces'' (Some []) (dec_list dec_LinuxNamespace)) (\<lambda>v5.
    Option.bind (field fs ''devices'' (Some []) (dec_list dec_LinuxDevice)) (\<lambda>v6.
    Option.bind (field fs ''seccomp'' (Some None) (dec_opt dec_LinuxSeccomp)) (\<lambda>v7.
    Option.bind (field fs ''rootfsPropagation'' (Some []) dec_string) (\<lambda>v8.
    Option.bind (field fs ''maskedPaths'' (Some []) (dec_list dec_string)) (\<lambda>v9.
    Option.bind (field fs ''readonlyPaths'' (Some []) (dec_list dec_string)) (\<lambda>v10.
    Option.bind (field fs ''mountLabel'' (Some []) dec_string) (\<lambda>v11.
    Option.bind (field fs ''intelRdt'' (Some None) (dec_opt dec_LinuxIntelRdt)) (\<lambda>v12.
    Some \<lparr>oli_uid_mappings = v0, oli_gid_mappings = v1, oli_sysctl = v2, oli_resources = v3, oli_cgroups_path = v4, oli_namespaces = v5, oli_devices = v6, oli_seccomp = v7, oli_rootfs_propagation = v8, oli_masked_paths = v9, oli_readonly_paths = v10, oli_mount_label = v11, oli_intel_rdt = v12\<rparr>))))))))))))))"

definition ok_Linux :: "o_Linux \<Rightarrow> bool" where
  "ok_Linux x \<longleftrightarrow> distinct (map fst (oli_sysctl x)) \<and> pred_option ok_LinuxResources (oli_resources x) \<and> list_all ok_LinuxDevice (oli_devices x)"

interpretation linux_json: codec enc_Linux dec_Linux ok_Linux
proof
  fix x :: o_Linux
  assume "ok_Linux x"
  then show "dec_Linux (enc_Linux x) = Some x"
    by (simp add: enc_Linux_def dec_Linux_def ok_Linux_def field_put cong: if_cong split del: if_split)
qed (simp add: enc_Linux_def)

record o_SolarisAnet =
  osa_link_name :: string
  osa_lower_link :: string
  osa_allowed_addr :: string
  osa_config_allowed_addr :: string
  osa_defrouter :: string
  osa_link_protection :: string
  osa_mac_address :: string

definition enc_SolarisAnet :: "o_SolarisAnet \<Rightarrow> json" where
  "enc_SolarisAnet x = JObj (
    put ''linkname'' (osa_link_name x = []) (enc_string (osa_link_name x)) @
    put ''lowerLink'' (osa_lower_link x = []) (enc_string (osa_lower_link x)) @
    put ''allowdAddress'' (osa_allowed_addr x = []) (enc_string (osa_allowed_addr x)) @
    put ''configureAllowedAddress'' (osa_config_allowed_addr x = []) (enc_string (osa_config_allowed_addr x)) @
    put ''defrouter'' (osa_defrouter x = []) (enc_string (osa_defrouter x)) @
    put ''linkProtection'' (osa_link_protection x = []) (enc_string (osa_link_protection x)) @
    put ''macAddress'' (osa_mac_address x = []) (enc_string (osa_mac_address x)))"

definition dec_SolarisAnet :: "json \<Rightarrow> o_SolarisAnet option" where
  "dec_SolarisAnet j = Option.bind (obj_fields j) (\<lambda>fs.
    Option.bind (field fs ''linkname'' (Some []) dec_string) (\<lambda>v0.
    Option.bind (field fs ''lowerLink'' (Some []) dec_string) (\<lambda>v1.
    Option.bind (field fs ''allowdAddress'' (Some []) dec_string) (\<lambda>v2.
    Option.bind (field fs ''configureAllowedAddress'' (Some []) dec_string) (\<lambda>v3.
    Option.bind (field fs ''defrouter'' (Some []) dec_string) (\<lambda>v4.
    Option.bind (field fs ''linkProtection'' (Some []) dec_string) (\<lambda>v5.
    Option.bind (field fs ''macAddress'' (Some []) dec_string) (\<lambda>v6.
    Some \<lparr>osa_link_name = v0, osa_lower_link = v1, osa_allowed_addr = v2, osa_config_allowed_addr = v3, osa_defrouter = v4, osa_link_protection = v5, osa_mac_address = v6\<rparr>))))))))"

interpretation solarisAnet_json: codec enc_SolarisAnet dec_SolarisAnet "\<lambda>_. True"
proof
  fix x :: o_SolarisAnet
  show "dec_SolarisAnet (enc_SolarisAnet x) = Some x"
    by (simp add: enc_SolarisAnet_def dec_SolarisAnet_def field_put cong: if_cong split del: if_split)
qed (simp add: enc_SolarisAnet_def)

record o_SolarisCappedCPU =
  osccpu_ncpus :: string

definition enc_SolarisCappedCPU :: "o_SolarisCappedCPU \<Rightarrow> json" where
  "enc_SolarisCappedCPU x = JObj (
    put ''ncpus'' (osccpu_ncpus x = []) (enc_string (osccpu_ncpus x)))"

definition dec_SolarisCappedCPU :: "json \<Rightarrow> o_SolarisCappedCPU option" where
  "dec_SolarisCappedCPU j = Option.bind (obj_fields j) (\<lambda>fs.
    Option.bind (field fs ''ncpus'' (Some []) dec_string) (\<lambda>v0.
    Some \<lparr>osccpu_ncpus = v0\<rparr>))"

interpretation solarisCappedCPU_json: codec enc_SolarisCappedCPU dec_SolarisCappedCPU "\<lambda>_. True"
proof
  fix x :: o_SolarisCappedCPU
  show "dec_SolarisCappedCPU (enc_SolarisCappedCPU x) = Some x"
    by (simp add: enc_SolarisCappedCPU_def dec_SolarisCappedCPU_def field_put cong: if_cong split del: if_split)
qed (simp add: enc_SolarisCappedCPU_def)

record o_SolarisCappedMemory =
  oscm_physical :: string
  oscm_swap :: string

definition enc_SolarisCappedMemory :: "o_SolarisCappedMemory \<Rightarrow> json" where
  "enc_SolarisCappedMemory x = JObj (
    put ''physical'' (oscm_physical x = []) (enc_string (oscm_physical x)) @
    put ''swap'' (oscm_swap x = []) (enc_string (oscm_swap x)))"

definition dec_SolarisCappedMemory :: "json \<Rightarrow> o_SolarisCappedMemory option" where
  "dec_SolarisCappedMemory j = Option.bind (obj_fields j) (\<lambda>fs.
    Option.bind (field fs ''physical'' (Some []) dec_string) (\<lambda>v0.
    Option.bind (field fs ''swap'' (Some []) dec_string) (\<lambda>v1.
    Some \<lparr>oscm_physical = v0, oscm_swap = v1\<rparr>)))"

interpretation solarisCappedMemory_json: codec enc_SolarisCappedMemory dec_SolarisCappedMemory "\<lambda>_. True"
proof
  fix x :: o_SolarisCappedMemory
  show "dec_SolarisCappedMemory (enc_SolarisCappedMemory x) = Some x"
    by (simp add: enc_SolarisCappedMemory_def dec_SolarisCappedMemory_def field_put cong: if_cong split del: if_split)
qed (simp add: enc_SolarisCappedMemory_def)

record o_Solaris =
  oso_milestone :: string
  oso_limitpriv :: string
  oso_max_shm_memory :: string
  oso_anet :: "o_SolarisAnet list"
  oso_capped_cpu :: "o_SolarisCappedCPU option"
  oso_capped_memory :: "o_SolarisCappedMemory option"

definition enc_Solaris :: "o_Solaris \<Rightarrow> json" where
  "enc_Solaris x = JObj (
    put ''milestone'' (oso_milestone x = []) (enc_string (oso_milestone x)) @
    put ''limitpriv'' (oso_limitpriv x = []) (enc_string (oso_limitpriv x)) @
    put ''maxShmMemory'' (oso_max_shm_memory x = []) (enc_string (oso_max_shm_memory x)) @
    put ''anet'' (oso_anet x = []) ((enc_list enc_SolarisAnet) (oso_anet x)) @
    put ''cappedCPU'' (oso_capped_cpu x = None) ((enc_opt enc_SolarisCappedCPU) (oso_capped_cpu x)) @
    put ''cappedMemory'' (oso_capped_memory x = None) ((enc_opt enc_SolarisCappedMemory) (oso_capped_memory x)))"

definition dec_Solaris :: "json \<Rightarrow> o_Solaris option" where
  "dec_Solaris j = Option.bind (obj_fields j) (\<lambda>fs.
    Option.bind (field fs ''milestone'' (Some []) dec_string) (\<lambda>v0.
    Option.bind (field fs ''limitpriv'' (Some []) dec_string) (\<lambda>v1.
    Option.bind (field fs ''maxShmMemory'' (Some []) dec_string) (\<lambda>v2.
    Option.bind (field fs ''anet'' (Some []) (dec_list dec_SolarisAnet)) (\<lambda>v3.
    Option.bind (field fs ''cappedCPU'' (Some None) (dec_opt dec_SolarisCappedCPU)) (\<lambda>v4.
    Option.bind (field fs ''cappedMemory'' (Some None) (dec_opt dec_SolarisCappedMemory)) (\<lambda>v5.
    Some \<lparr>oso_milestone = v0, oso_limitpriv = v1, oso_max_shm_memory = v2, oso_anet = v3, oso_capped_cpu = v4, oso_capped_memory = v5\<rparr>)))))))"

interpretation solaris_json: codec enc_Solaris dec_Solaris "\<lambda>_. True"
proof
  fix x :: o_Solaris
  show "dec_Solaris (enc_Solaris x) = Some x"
    by (simp add: enc_Solaris_def dec_Solaris_def field_put cong: if_cong split del: if_split)
qed (simp add: enc_Solaris_def)

record o_WindowsMemoryResources =
  owmr_limit :: "u64 option"

definition enc_WindowsMemoryResources :: "o_WindowsMemoryResources \<Rightarrow> json" where
  "enc_WindowsMemoryResources x = JObj (
    put ''limit'' (owmr_limit x = None) ((enc_opt enc_word) (owmr_limit x)))"

definition dec_WindowsMemoryResources :: "json \<Rightarrow> o_WindowsMemoryResources option" where
  "dec_WindowsMemoryResources j = Option.bind (obj_fields j) (\<lambda>fs.
    Option.bind (field fs ''limit'' (Some None) (dec_opt dec_word)) (\<lambda>v0.
    Some \<lparr>owmr_limit = v0\<rparr>))"

interpretation windowsMemoryResources_json: codec enc_WindowsMemoryResources dec_WindowsMemoryResources "\<lambda>_. True"
proof
  fix x :: o_WindowsMemoryResources
  show "dec_WindowsMemoryResources (enc_WindowsMemoryResources x) = Some x"
    by (simp add: enc_WindowsMemoryResources_def dec_WindowsMemoryResources_def field_put cong: if_cong split del: if_split)
qed (simp add: enc_WindowsMemoryResources_def)

record o_WindowsCPUResources =
  owcpur_count :: "u64 option"
  owcpur_shares :: "u64 option"
  owcpur_maximum :: "u64 option"

definition enc_WindowsCPUResources :: "o_WindowsCPUResources \<Rightarrow> json" where
  "enc_WindowsCPUResources x = JObj (
    put ''count'' (owcpur_count x = None) ((enc_opt enc_word) (owcpur_count x)) @
    put ''shares'' (owcpur_shares x = None) ((enc_opt enc_word) (owcpur_shares x)) @
    put ''maximum'' (owcpur_maximum x = None) ((enc_opt enc_word) (owcpur_maximum x)))"

definition dec_WindowsCPUResources :: "json \<Rightarrow> o_WindowsCPUResources option" where
  "dec_WindowsCPUResources j = Option.bind (obj_fields j) (\<lambda>fs.
    Option.bind (field fs ''count'' (Some None) (dec_opt dec_word)) (\<lambda>v0.
    Option.bind (field fs ''shares'' (Some None) (dec_opt dec_word)) (\<lambda>v1.
    Option.bind (field fs ''maximum'' (Some None) (dec_opt dec_word)) (\<lambda>v2.
    Some \<lparr>owcpur_count = v0, owcpur_shares = v1, owcpur_maximum = v2\<rparr>))))"

interpretation windowsCPUResources_json: codec enc_WindowsCPUResources dec_WindowsCPUResources "\<lambda>_. True"
proof
  fix x :: o_WindowsCPUResources
  show "dec_WindowsCPUResources (enc_WindowsCPUResources x) = Some x"
    by (simp add: enc_WindowsCPUResources_def dec_WindowsCPUResources_def field_put cong: if_cong split del: if_split)
qed (simp add: enc_WindowsCPUResources_def)

record o_WindowsStorageResources =
  owsr_iops :: "u64 option"
  owsr_bps :: "u64 option"
  owsr_sandbox_size :: "u64 option"

definition enc_WindowsStorageResources :: "o_WindowsStorageResources \<Rightarrow> json" where
  "enc_WindowsStorageResources x = JObj (
    put ''iops'' (owsr_iops x = None) ((enc_opt enc_word) (owsr_iops x)) @
    put ''bps'' (owsr_bps x = None) ((enc_opt enc_word) (owsr_bps x)) @
    put ''sandboxSize'' (owsr_sandbox_size x = None) ((enc_opt enc_word) (owsr_sandbox_size x)))"

definition dec_WindowsStorageResources :: "json \<Rightarrow> o_WindowsStorageResources option" where
  "dec_WindowsStorageResources j = Option.bind (obj_fields j) (\<lambda>fs.
    Option.bind (field fs ''iops'' (Some None) (dec_opt dec_word)) (\<lambda>v0.
    Option.bind (field fs ''bps'' (Some None) (dec_opt dec_word)) (\<lambda>v1.
    Option.bind (field fs ''sandboxSize'' (Some None) (dec_opt dec_word)) (\<lambda>v2.
    Some \<lparr>owsr_iops = v0, owsr_bps = v1, owsr_sandbox_size = v2\<rparr>))))"

interpretation windowsStorageResources_json: codec enc_WindowsStorageResources dec_WindowsStorageResources "\<lambda>_. True"
proof
  fix x :: o_WindowsStorageResources
  show "dec_WindowsStorageResources (enc_WindowsStorageResources x) = Some x"
    by (simp add: enc_WindowsStorageResources_def dec_WindowsStorageResources_def field_put cong: if_cong split del: if_split)
qed (simp add: enc_WindowsStorageResources_def)

record o_WindowsResources =
  owr_memory :: "o_WindowsMemoryResources option"
  owr_cpu :: "o_WindowsCPUResources option"
  owr_storage :: "o_WindowsStorageResources option"

definition enc_WindowsResources :: "o_WindowsResources \<Rightarrow> json" where
  "enc_WindowsResources x = JObj (
    put ''memory'' (owr_memory x = None) ((enc_opt enc_WindowsMemoryResources) (owr_memory x)) @
    put ''cpu'' (owr_cpu x = None) ((enc_opt enc_WindowsCPUResources) (owr_cpu x)) @
    put ''storage'' (owr_storage x = None) ((enc_opt enc_WindowsStorageResources) (owr_storage x)))"

definition dec_WindowsResources :: "json \<Rightarrow> o_WindowsResources option" where
  "dec_WindowsResources j = Option.bind (obj_fields j) (\<lambda>fs.
    Option.bind (field fs ''memory'' (Some None) (dec_opt dec_WindowsMemoryResources)) (\<lambda>v0.
    Option.bind (field fs ''cpu'' (Some None) (dec_opt dec_WindowsCPUResources)) (\<lambda>v1.
    Option.bind (field fs ''storage'' (Some None) (dec_opt dec_WindowsStorageResources)) (\<lambda>v2.
    Some \<lparr>owr_memory = v0, owr_cpu = v1, owr_storage = v2\<rparr>))))"

interpretation windowsResources_json: codec enc_WindowsResources dec_WindowsResources "\<lambda>_. True"
proof
  fix x :: o_WindowsResources
  show "dec_WindowsResources (enc_WindowsResources x) = Some x"
    by (simp add: enc_WindowsResources_def dec_WindowsResources_def field_put cong: if_cong split del: if_split)
qed (simp add: enc_WindowsResources_def)

record o_WindowsHyperV =
  owhv_utility_vm_path :: string

definition enc_WindowsHyperV :: "o_WindowsHyperV \<Rightarrow> json" where
  "enc_WindowsHyperV x = JObj (
    put ''utilityVMPath'' (owhv_utility_vm_path x = []) (enc_string (owhv_utility_vm_path x)))"

definition dec_WindowsHyperV :: "json \<Rightarrow> o_WindowsHyperV option" where
  "dec_WindowsHyperV j = Option.bind (obj_fields j) (\<lambda>fs.
    Option.bind (field fs ''utilityVMPath'' (Some []) dec_string) (\<lambda>v0.
    Some \<lparr>owhv_utility_vm_path = v0\<rparr>))"

interpretation windowsHyperV_json: codec enc_WindowsHyperV dec_WindowsHyperV "\<lambda>_. True"
proof
  fix x :: o_WindowsHyperV
  show "dec_WindowsHyperV (enc_WindowsHyperV x) = Some x"
    by (simp add: enc_WindowsHyperV_def dec_WindowsHyperV_def field_put cong: if_cong split del: if_split)
qed (simp add: enc_WindowsHyperV_def)

record o_WindowsNetwork =
  own_endpoint_list :: "string list"
  own_allow_unqualified_dns_query :: bool
  own_dns_search_list :: "string list"
  own_network_shared_container_name :: string

definition enc_WindowsNetwork :: "o_WindowsNetwork \<Rightarrow> json" where
  "enc_WindowsNetwork x = JObj (
    put ''endpointList'' (own_endpoint_list x = []) ((enc_list enc_string) (own_endpoint_list x)) @
    put ''allowUnqualifiedDNSQuery'' (False) (enc_bool (own_allow_unqualified_dns_query x)) @
    put ''DNSSearchList'' (own_dns_search_list x = []) ((enc_list enc_string) (own_dns_search_list x)) @
    put ''nwtworkSharedContainerName'' (own_network_shared_container_name x = []) (enc_string (own_network_shared_container_name x)))"

definition dec_WindowsNetwork :: "json \<Rightarrow> o_WindowsNetwork option" where
  "dec_WindowsNetwork j = Option.bind (obj_fields j) (\<lambda>fs.
    Option.bind (field fs ''endpointList'' (Some []) (dec_list dec_string)) (\<lambda>v0.
    Option.bind (field fs ''allowUnqualifiedDNSQuery'' (Some False) dec_bool) (\<lambda>v1.
    Option.bind (field fs ''DNSSearchList'' (Some []) (dec_list dec_string)) (\<lambda>v2.
    Option.bind (field fs ''nwtworkSharedContainerName'' (Some []) dec_string) (\<lambda>v3.
    Some \<lparr>own_endpoint_list = v0, own_allow_unqualified_dns_query = v1, own_dns_search_list = v2, own_network_shared_container_name = v3\<rparr>)))))"

interpretation windowsNetwork_json: codec enc_WindowsNetwork dec_WindowsNetwork "\<lambda>_. True"
proof
  fix x :: o_WindowsNetwork
  show "dec_WindowsNetwork (enc_WindowsNetwork x) = Some x"
    by (simp add: enc_WindowsNetwork_def dec_WindowsNetwork_def field_put cong: if_cong split del: if_split)
qed (simp add: enc_WindowsNetwork_def)

record o_Windows =
  owi_layer_folders :: "string list"
  owi_resources :: "o_WindowsResources option"
  owi_credential_spec :: string
  owi_servicing :: bool
  owi_ignore_flushes_during_boot :: bool
  owi_hyperv :: "o_WindowsHyperV option"
  owi_network :: "o_WindowsNetwork option"

definition enc_Windows :: "o_Windows \<Rightarrow> json" where
  "enc_Windows x = JObj (
    put ''layerFolders'' (owi_layer_folders x = []) ((enc_list enc_string) (owi_layer_folders x)) @
    put ''resources'' (owi_resources x = None) ((enc_opt enc_WindowsResources) (owi_resources x)) @
    put ''credentialSpec'' (False) (enc_string (owi_credential_spec x)) @
    put ''servicing'' (False) (enc_bool (owi_servicing x)) @
    put ''ignoreFlushesDuringBoot'' (False) (enc_bool (owi_ignore_flushes_during_boot x)) @
    put ''hyperv'' (owi_hyperv x = None) ((enc_opt enc_WindowsHyperV) (owi_hyperv x)) @
    put ''network'' (owi_network x = None) ((enc_opt enc_WindowsNetwork) (owi_network x)))"

definition dec_Windows :: "json \<Rightarrow> o_Windows option" where
  "dec_Windows j = Option.bind (obj_fields j) (\<lambda>fs.
    Option.bind (field fs ''layerFolders'' (Some []) (dec_list dec_string)) (\<lambda>v0.
    Option.bind (field fs ''resources'' (Some None) (dec_opt dec_WindowsResources)) (\<lambda>v1.
    Option.bind (field fs ''credentialSpec'' (Some []) dec_string) (\<lambda>v2.
    Option.bind (field fs ''servicing'' (Some False) dec_bool) (\<lambda>v3.
    Option.bind (field fs ''ignoreFlushesDuringBoot'' (Some False) dec_bool) (\<lambda>v4.
    Option.bind (field fs ''hyperv'' (Some None) (dec_opt dec_WindowsHyperV)) (\<lambda>v5.
    Option.bind (field fs ''network'' (Some None) (dec_opt dec_WindowsNetwork)) (\<lambda>v6.
    Some \<lparr>owi_layer_folders = v0, owi_resources = v1, owi_credential_spec = v2, owi_servicing = v3, owi_ignore_flushes_during_boot = v4, owi_hyperv = v5, owi_network = v6\<rparr>))))))))"

interpretation windows_json: codec enc_Windows dec_Windows "\<lambda>_. True"
proof
  fix x :: o_Windows
  show "dec_Windows (enc_Windows x) = Some x"
    by (simp add: enc_Windows_def dec_Windows_def field_put cong: if_cong split del: if_split)
qed (simp add: enc_Windows_def)

record o_VMHypervisor =
  ovmh_path :: string
  ovmh_parameters :: string

definition enc_VMHypervisor :: "o_VMHypervisor \<Rightarrow> json" where
  "enc_VMHypervisor x = JObj (
    put ''path'' (False) (enc_string (ovmh_path x)) @
    put ''parameters'' (ovmh_parameters x = []) (enc_string (ovmh_parameters x)))"

definition dec_VMHypervisor :: "json \<Rightarrow> o_VMHypervisor option" where
  "dec_VMHypervisor j = Option.bind (obj_fields j) (\<lambda>fs.
    Option.bind (field fs ''path'' (Some []) dec_string) (\<lambda>v0.
    Option.bind (field fs ''parameters'' (Some []) dec_string) (\<lambda>v1.
    Some \<lparr>ovmh_path = v0, ovmh_parameters = v1\<rparr>)))"

interpretation vMHypervisor_json: codec enc_VMHypervisor dec_VMHypervisor "\<lambda>_. True"
proof
  fix x :: o_VMHypervisor
  show "dec_VMHypervisor (enc_VMHypervisor x) = Some x"
    by (simp add: enc_VMHypervisor_def dec_VMHypervisor_def field_put cong: if_cong split del: if_split)
qed (simp add: enc_VMHypervisor_def)

record o_VMKernel =
  ovmk_path :: string
  ovmk_parameters :: string
  ovmk_initrd :: string

definition enc_VMKernel :: "o_VMKernel \<Rightarrow> json" where
  "enc_VMKernel x = JObj (
    put ''path'' (False) (enc_string (ovmk_path x)) @
    put ''parameters'' (ovmk_parameters x = []) (enc_string (ovmk_parameters x)) @
    put ''initrd'' (ovmk_initrd x = []) (enc_string (ovmk_initrd x)))"

definition dec_VMKernel :: "json \<Rightarrow> o_VMKernel option" where
  "dec_VMKernel j = Option.bind (obj_fields j) (\<lambda>fs.
    Option.bind (field fs ''path'' (Some []) dec_string) (\<lambda>v0.
    Option.bind (field fs ''parameters'' (Some []) dec_string) (\<lambda>v1.
    Option.bind (field fs ''initrd'' (Some []) dec_string) (\<lambda>v2.
    Some \<lparr>ovmk_path = v0, ovmk_parameters = v1, ovmk_initrd = v2\<rparr>))))"

interpretation vMKernel_json: codec enc_VMKernel dec_VMKernel "\<lambda>_. True"
proof
  fix x :: o_VMKernel
  show "dec_VMKernel (enc_VMKernel x) = Some x"
    by (simp add: enc_VMKernel_def dec_VMKernel_def field_put cong: if_cong split del: if_split)
qed (simp add: enc_VMKernel_def)

record o_VMImage =
  ovmi_path :: string
  ovmi_format :: string

definition enc_VMImage :: "o_VMImage \<Rightarrow> json" where
  "enc_VMImage x = JObj (
    put ''path'' (False) (enc_string (ovmi_path x)) @
    put ''format'' (False) (enc_string (ovmi_format x)))"

definition dec_VMImage :: "json \<Rightarrow> o_VMImage option" where
  "dec_VMImage j = Option.bind (obj_fields j) (\<lambda>fs.
    Option.bind (field fs ''path'' (Some []) dec_string) (\<lambda>v0.
    Option.bind (field fs ''format'' (Some []) dec_string) (\<lambda>v1.
    Some \<lparr>ovmi_path = v0, ovmi_format = v1\<rparr>)))"

interpretation vMImage_json: codec enc_VMImage dec_VMImage "\<lambda>_. True"
proof
  fix x :: o_VMImage
  show "dec_VMImage (enc_VMImage x) = Some x"
    by (simp add: enc_VMImage_def dec_VMImage_def field_put cong: if_cong split del: if_split)
qed (simp add: enc_VMImage_def)

record o_VM =
  ovm_hypervisor :: o_VMHypervisor
  ovm_kernel :: o_VMKernel
  ovm_image :: o_VMImage

definition enc_VM :: "o_VM \<Rightarrow> json" where
  "enc_VM x = JObj (
    put ''hypervisor'' (False) (enc_VMHypervisor (ovm_hypervisor x)) @
    put ''kernel'' (False) (enc_VMKernel (ovm_kernel x)) @
    put ''image'' (False) (enc_VMImage (ovm_image x)))"

definition dec_VM :: "json \<Rightarrow> o_VM option" where
  "dec_VM j = Option.bind (obj_fields j) (\<lambda>fs.
    Option.bind (field fs ''hypervisor'' None dec_VMHypervisor) (\<lambda>v0.
    Option.bind (field fs ''kernel'' None dec_VMKernel) (\<lambda>v1.
    Option.bind (field fs ''image'' None dec_VMImage) (\<lambda>v2.
    Some \<lparr>ovm_hypervisor = v0, ovm_kernel = v1, ovm_image = v2\<rparr>))))"

interpretation vM_json: codec enc_VM dec_VM "\<lambda>_. True"
proof
  fix x :: o_VM
  show "dec_VM (enc_VM x) = Some x"
    by (simp add: enc_VM_def dec_VM_def field_put cong: if_cong split del: if_split)
qed (simp add: enc_VM_def)

record o_Spec =
  osp_version :: string
  osp_process :: "o_Process option"
  osp_root :: "o_Root option"
  osp_hostname :: string
  osp_mounts :: "o_Mount list"
  osp_hooks :: "o_Hooks option"
  osp_annotations :: "(string \<times> string) list"
  osp_linux :: "o_Linux option"
  osp_solaris :: "o_Solaris option"
  osp_windows :: "o_Windows option"
  osp_vm :: "o_VM option"

definition enc_Spec :: "o_Spec \<Rightarrow> json" where
  "enc_Spec x = JObj (
    put ''ociVersion'' (osp_version x = []) (enc_string (osp_version x)) @
    put ''process'' (osp_process x = None) ((enc_opt enc_Process) (osp_process x)) @
    put ''root'' (osp_root x = None) ((enc_opt enc_Root) (osp_root x)) @
    put ''hostname'' (osp_hostname x = []) (enc_string (osp_hostname x)) @
    put ''mounts'' (osp_mounts x = []) ((enc_list enc_Mount) (osp_mounts x)) @
    put ''hooks'' (osp_hooks x = None) ((enc_opt enc_Hooks) (osp_hooks x)) @
    put ''annotations'' (osp_annotations x = []) ((enc_map enc_string) (osp_annotations x)) @
    put ''linux'' (osp_linux x = None) ((enc_opt enc_Linux) (osp_linux x)) @
    put ''solaris'' (osp_solaris x = None) ((enc_opt enc_Solaris) (osp_solaris x)) @
    put ''windows'' (osp_windows x = None) ((enc_opt enc_Windows) (osp_windows x)) @
    put ''vm'' (osp_vm x = None) ((enc_opt enc_VM) (osp_vm x)))"

definition dec_Spec :: "json \<Rightarrow> o_Spec option" where
  "dec_Spec j = Option.bind (obj_fields j) (\<lambda>fs.
    Option.bind (field fs ''ociVersion'' (Some []) dec_string) (\<lambda>v0.
    Option.bind (field fs ''process'' (Some None) (dec_opt dec_Process)) (\<lambda>v1.
    Option.bind (field fs ''root'' (Some None) (dec_opt dec_Root)) (\<lambda>v2.
    Option.bind (field fs ''hostname'' (Some []) dec_string) (\<lambda>v3.
    Option.bind (field fs ''mounts'' (Some []) (dec_list dec_Mount)) (\<lambda>v4.
    Option.bind (field fs ''hooks'' (Some None) (dec_opt dec_Hooks)) (\<lambda>v5.
    Option.bind (field fs ''annotations'' (Some []) (dec_map dec_string)) (\<lambda>v6.
    Option.bind (field fs ''linux'' (Some None) (dec_opt dec_Linux)) (\<lambda>v7.
    Option.bind (field fs ''solaris'' (Some None) (dec_opt dec_Solaris)) (\<lambda>v8.
    Option.bind (field fs ''windows'' (Some None) (dec_opt dec_Windows)) (\<lambda>v9.
    Option.bind (field fs ''vm'' (Some None) (dec_opt dec_VM)) (\<lambda>v10.
    Some \<lparr>osp_version = v0, osp_process = v1, osp_root = v2, osp_hostname = v3, osp_mounts = v4, osp_hooks = v5, osp_annotations = v6, osp_linux = v7, osp_solaris = v8, osp_windows = v9, osp_vm = v10\<rparr>))))))))))))"

definition ok_Spec :: "o_Spec \<Rightarrow> bool" where
  "ok_Spec x \<longleftrightarrow> pred_option ok_Process (osp_process x) \<and> pred_option ok_Hooks (osp_hooks x) \<and> distinct (map fst (osp_annotations x)) \<and> pred_option ok_Linux (osp_linux x)"

interpretation spec_json: codec enc_Spec dec_Spec ok_Spec
proof
  fix x :: o_Spec
  assume "ok_Spec x"
  then show "dec_Spec (enc_Spec x) = Some x"
    by (simp add: enc_Spec_def dec_Spec_def ok_Spec_def field_put cong: if_cong split del: if_split)
qed (simp add: enc_Spec_def)

end
