(* ===== verification/Spec_Convert.thy ===== *)
theory Spec_Convert
  imports Oci_Json
begin

text \<open>
  \<open>rustjail/src/lib.rs\<close>: the specification of a gRPC message as the specification of the crate \<open>oci\<close>,
  which the agent writes to \<open>config.json\<close> for the hooks. The narrowing casts are written out. A
  process without a user gets an all-zero \<open>User\<close> (\<open>MaybeUninit::zeroed\<close>), whose vectors have a null
  pointer: undefined behaviour. The conversions in the other direction have no code.
\<close>

section \<open>Casts\<close>

text \<open>\<open>as i32\<close> of an \<open>i64\<close>, \<open>as i64\<close> of a \<open>u64\<close>, \<open>as u16\<close> of a \<open>u32\<close>, \<open>as u32\<close> of a \<open>u64\<close>.\<close>

definition as_i32 :: "i64 \<Rightarrow> i32" where
  "as_i32 n = sint (word_of_int n :: u32)"

definition as_i64 :: "u64 \<Rightarrow> i64" where
  "as_i64 n = sint n"

definition as_u16 :: "u32 \<Rightarrow> u16" where
  "as_u16 n = ucast n"

definition as_u32 :: "u64 \<Rightarrow> u32" where
  "as_u32 n = ucast n"

section \<open>Process, root, mounts, hooks\<close>

definition box_grpc_to_oci :: "g_Box \<Rightarrow> o_Box" where
  "box_grpc_to_oci c = \<lparr>obo_height = bx_Height c, obo_width = bx_Width c\<rparr>"

definition user_grpc_to_oci :: "g_User \<Rightarrow> o_User" where
  "user_grpc_to_oci u = \<lparr>ous_uid = us_UID u, ous_gid = us_GID u,
     ous_additional_gids = us_AdditionalGids u, ous_username = us_Username u\<rparr>"

definition capabilities_grpc_to_oci :: "g_LinuxCapabilities \<Rightarrow> o_LinuxCapabilities" where
  "capabilities_grpc_to_oci c = \<lparr>olc_bounding = lc_Bounding c, olc_effective = lc_Effective c,
     olc_inheritable = lc_Inheritable c, olc_permitted = lc_Permitted c, olc_ambient = lc_Ambient c\<rparr>"

definition rlimit_grpc_to_oci :: "g_POSIXRlimit \<Rightarrow> o_POSIXRlimit" where
  "rlimit_grpc_to_oci lm = \<lparr>oposixr_type = rl_Type lm, oposixr_hard = rl_Hard lm, oposixr_soft = rl_Soft lm\<rparr>"

definition process_grpc_to_oci :: "g_Process \<Rightarrow> o_Process res" where
  "process_grpc_to_oci p = (case pr_User p of None \<Rightarrow> Undefined
     | Some u \<Rightarrow> Ok \<lparr>opr_terminal = pr_Terminal p,
         opr_console_size = map_option box_grpc_to_oci (pr_ConsoleSize p),
         opr_user = user_grpc_to_oci u, opr_args = pr_Args p, opr_env = pr_Env p, opr_cwd = pr_Cwd p,
         opr_capabilities = map_option capabilities_grpc_to_oci (pr_Capabilities p),
         opr_rlimits = map rlimit_grpc_to_oci (pr_Rlimits p), opr_no_new_privileges = pr_NoNewPrivileges p,
         opr_apparmor_profile = pr_ApparmorProfile p,
         opr_oom_score_adj = Some (as_i32 (pr_OOMScoreAdj p)), opr_selinux_label = pr_SelinuxLabel p\<rparr>)"

definition root_grpc_to_oci :: "g_Root \<Rightarrow> o_Root" where
  "root_grpc_to_oci r = \<lparr>oro_path = rt_Path r, oro_readonly = rt_Readonly r\<rparr>"

definition mount_grpc_to_oci :: "g_Mount \<Rightarrow> o_Mount" where
  "mount_grpc_to_oci m = \<lparr>omo_destination = mt_destination m, omo_type = mt_field_type m,
     omo_source = mt_source m, omo_options = mt_options m\<rparr>"

definition one_hook :: "g_Hook \<Rightarrow> o_Hook" where
  "one_hook e = \<lparr>oho_path = hk_Path e, oho_args = hk_Args e, oho_env = hk_Env e,
     oho_timeout = Some (as_i32 (hk_Timeout e))\<rparr>"

definition hook_grpc_to_oci :: "g_Hook list \<Rightarrow> o_Hook list" where
  "hook_grpc_to_oci h = map one_hook h"

definition hooks_grpc_to_oci :: "g_Hooks \<Rightarrow> o_Hooks" where
  "hooks_grpc_to_oci h = \<lparr>ohks_prestart = hook_grpc_to_oci (hs_Prestart h),
     ohks_poststart = hook_grpc_to_oci (hs_Poststart h), ohks_poststop = hook_grpc_to_oci (hs_Poststop h)\<rparr>"

section \<open>Resources\<close>

definition idmap_grpc_to_oci :: "g_LinuxIDMapping \<Rightarrow> o_LinuxIDMapping" where
  "idmap_grpc_to_oci im = \<lparr>olidm_container_id = im_ContainerID im, olidm_host_id = im_HostID im,
     olidm_size = im_Size im\<rparr>"

definition throttle_device :: "g_LinuxThrottleDevice \<Rightarrow> o_LinuxThrottleDevice" where
  "throttle_device t = \<lparr>oltd_blk = \<lparr>olbiod_major = td_Major t, olbiod_minor = td_Minor t\<rparr>,
     oltd_rate = td_Rate t\<rparr>"

definition weight_device :: "g_LinuxWeightDevice \<Rightarrow> o_LinuxWeightDevice" where
  "weight_device w = \<lparr>olwd_blk = \<lparr>olbiod_major = wd_Major w, olbiod_minor = wd_Minor w\<rparr>,
     olwd_weight = Some (as_u16 (wd_Weight w)), olwd_leaf_weight = Some (as_u16 (wd_LeafWeight w))\<rparr>"

definition blockio_grpc_to_oci :: "g_LinuxBlockIO \<Rightarrow> o_LinuxBlockIO" where
  "blockio_grpc_to_oci b = \<lparr>olbio_weight = Some (as_u16 (bl_Weight b)),
     olbio_leaf_weight = Some (as_u16 (bl_LeafWeight b)),
     olbio_weight_device = map weight_device (bl_WeightDevice b),
     olbio_throttle_read_bps_device = map throttle_device (bl_ThrottleReadBpsDevice b),
     olbio_throttle_write_bps_device = map throttle_device (bl_ThrottleWriteBpsDevice b),
     olbio_throttle_read_iops_device = map throttle_device (bl_ThrottleReadIOPSDevice b),
     olbio_throttle_write_iops_device = map throttle_device (bl_ThrottleWriteIOPSDevice b)\<rparr>"

text \<open>The number -1 stands for every major or minor number.\<close>

definition any_number :: "i64 \<Rightarrow> i64 option" where
  "any_number n = (if n = - 1 then None else Some n)"

definition cgroup_device :: "g_LinuxDeviceCgroup \<Rightarrow> o_LinuxDeviceCgroup" where
  "cgroup_device d = \<lparr>oldc_allow = dc_Allow d, oldc_type = dc_Type d, oldc_major = any_number (dc_Major d),
     oldc_minor = any_number (dc_Minor d), oldc_access = dc_Access d\<rparr>"

definition memory_grpc_to_oci :: "g_LinuxMemory \<Rightarrow> o_LinuxMemory" where
  "memory_grpc_to_oci m = \<lparr>olm_limit = Some (me_Limit m), olm_reservation = Some (me_Reservation m),
     olm_swap = Some (me_Swap m), olm_kernel = Some (me_Kernel m), olm_kernel_tcp = Some (me_KernelTCP m),
     olm_swapiness = Some (as_i64 (me_Swappiness m)), olm_disable_oom_killer = Some (me_DisableOOMKiller m)\<rparr>"

definition cpu_grpc_to_oci :: "g_LinuxCPU \<Rightarrow> o_LinuxCPU" where
  "cpu_grpc_to_oci c = \<lparr>olcpu_shares = Some (cu_Shares c), olcpu_quota = Some (cu_Quota c),
     olcpu_period = Some (cu_Period c), olcpu_realtime_runtime = Some (cu_RealtimeRuntime c),
     olcpu_realtime_period = Some (cu_RealtimePeriod c), olcpu_cpus = cu_Cpus c, olcpu_mems = cu_Mems c\<rparr>"

definition network_grpc_to_oci :: "g_LinuxNetwork \<Rightarrow> o_LinuxNetwork" where
  "network_grpc_to_oci n = \<lparr>olrk_class_id = Some (nw_ClassID n),
     olrk_priorities = map (\<lambda>p. \<lparr>olip_name = ip_Name p, olip_priority = ip_Priority p\<rparr>) (nw_Priorities n)\<rparr>"

definition resources_grpc_to_oci :: "g_LinuxResources \<Rightarrow> o_LinuxResources" where
  "resources_grpc_to_oci r = \<lparr>oles_devices = map cgroup_device (rs_Devices r),
     oles_memory = map_option memory_grpc_to_oci (rs_Memory r), oles_cpu = map_option cpu_grpc_to_oci (rs_CPU r),
     oles_pids = map_option (\<lambda>p. \<lparr>olp_limit = pd_Limit p\<rparr>) (rs_Pids r),
     oles_block_io = map_option blockio_grpc_to_oci (rs_BlockIO r),
     oles_hugepage_limits = map (\<lambda>h. \<lparr>olhl_page_size = hl_Pagesize h, olhl_limit = hl_Limit h\<rparr>) (rs_HugepageLimits r),
     oles_network = map_option network_grpc_to_oci (rs_Network r), oles_rdma = []\<rparr>"

definition seccomp_arg :: "g_LinuxSeccompArg \<Rightarrow> o_LinuxSeccompArg" where
  "seccomp_arg a = \<lparr>olsa_index = as_u32 (sa_Index a), olsa_value = sa_Value a, olsa_value_two = sa_ValueTwo a,
     olsa_op = sa_Op a\<rparr>"

definition seccomp_grpc_to_oci :: "g_LinuxSeccomp \<Rightarrow> o_LinuxSeccomp" where
  "seccomp_grpc_to_oci s = \<lparr>ols_default_action = se_DefaultAction s, ols_architectures = se_Architectures s,
     ols_syscalls = map (\<lambda>y. \<lparr>olll_names = sy_Names y, olll_action = sy_Action y,
       olll_args = map seccomp_arg (sy_Args y)\<rparr>) (se_Syscalls s)\<rparr>"

definition one_device :: "g_LinuxDevice \<Rightarrow> o_LinuxDevice" where
  "one_device d = \<lparr>old_path = ld_Path d, old_type = ld_Type d, old_major = ld_Major d, old_minor = ld_Minor d,
     old_file_mode = Some (ld_FileMode d), old_uid = Some (ld_UID d), old_gid = Some (ld_GID d)\<rparr>"

section \<open>The specification\<close>

definition linux_grpc_to_oci :: "g_Linux \<Rightarrow> o_Linux" where
  "linux_grpc_to_oci l = \<lparr>oli_uid_mappings = map idmap_grpc_to_oci (lx_UIDMappings l),
     oli_gid_mappings = map idmap_grpc_to_oci (lx_GIDMappings l), oli_sysctl = lx_Sysctl l,
     oli_resources = map_option resources_grpc_to_oci (lx_Resources l), oli_cgroups_path = lx_CgroupsPath l,
     oli_namespaces = map (\<lambda>n. \<lparr>oln_type = ns_Type n, oln_path = ns_Path n\<rparr>) (lx_Namespaces l),
     oli_devices = map one_device (lx_Devices l), oli_seccomp = map_option seccomp_grpc_to_oci (lx_Seccomp l),
     oli_rootfs_propagation = lx_RootfsPropagation l, oli_masked_paths = lx_MaskedPaths l,
     oli_readonly_paths = lx_ReadonlyPaths l, oli_mount_label = lx_MountLabel l,
     oli_intel_rdt = map_option (\<lambda>r. \<lparr>olir_l3_cache_schema = ir_L3CacheSchema r\<rparr>) (lx_IntelRdt l)\<rparr>"

definition opt_res :: "('a \<Rightarrow> 'b res) \<Rightarrow> 'a option \<Rightarrow> 'b option res" where
  "opt_res f x = (case x of None \<Rightarrow> Ok None | Some v \<Rightarrow> map_res Some (f v))"

definition grpc_to_oci :: "g_Spec \<Rightarrow> o_Spec res" where
  "grpc_to_oci g = map_res (\<lambda>process. \<lparr>osp_version = sp_Version g, osp_process = process,
     osp_root = map_option root_grpc_to_oci (sp_Root g), osp_hostname = sp_Hostname g,
     osp_mounts = map mount_grpc_to_oci (sp_Mounts g), osp_hooks = map_option hooks_grpc_to_oci (sp_Hooks g),
     osp_annotations = sp_Annotations g, osp_linux = map_option linux_grpc_to_oci (sp_Linux g),
     osp_solaris = None, osp_windows = None, osp_vm = None\<rparr>)
     (opt_res process_grpc_to_oci (sp_Process g))"

section \<open>What the conversion keeps\<close>

text \<open>A conversion that loses nothing about the values that satisfy \<open>fits\<close>.\<close>

locale lossless =
  fixes conv :: "'a \<Rightarrow> 'b"
    and fits :: "'a \<Rightarrow> bool"
  assumes conv_inj: "fits x \<Longrightarrow> fits y \<Longrightarrow> conv x = conv y \<Longrightarrow> x = y"
begin

lemma conv_list: "list_all fits xs \<Longrightarrow> list_all fits ys \<Longrightarrow> map conv xs = map conv ys \<Longrightarrow> xs = ys"
proof (induction xs arbitrary: ys)
  case (Cons x xs)
  from Cons.prems(3) obtain y zs where ys: "ys = y # zs" "conv x = conv y" "map conv xs = map conv zs" by auto
  from Cons.prems(1,2) ys(1) have ok: "fits x" "fits y" "list_all fits xs" "list_all fits zs" by simp_all
  have "x = y" using ok(1,2) ys(2) by (rule conv_inj)
  moreover have "xs = zs" using ok(3,4) ys(3) by (rule Cons.IH)
  ultimately show ?case by (simp add: ys(1))
qed simp

lemma conv_opt: "pred_option fits x \<Longrightarrow> pred_option fits y \<Longrightarrow> map_option conv x = map_option conv y \<Longrightarrow> x = y"
  by (cases x; cases y) (auto intro: conv_inj)

end

definition fits_process :: "g_Process \<Rightarrow> bool" where
  "fits_process p \<longleftrightarrow> in_range 32 (pr_OOMScoreAdj p)"

definition fits_hook :: "g_Hook \<Rightarrow> bool" where
  "fits_hook h \<longleftrightarrow> in_range 32 (hk_Timeout h)"

definition fits_hooks :: "g_Hooks \<Rightarrow> bool" where
  "fits_hooks h \<longleftrightarrow> list_all fits_hook (hs_Prestart h) \<and> list_all fits_hook (hs_Poststart h)
     \<and> list_all fits_hook (hs_Poststop h)"

definition fits_weight :: "g_LinuxWeightDevice \<Rightarrow> bool" where
  "fits_weight w \<longleftrightarrow> unat (wd_Weight w) < 2 ^ 16 \<and> unat (wd_LeafWeight w) < 2 ^ 16"

definition fits_blockio :: "g_LinuxBlockIO \<Rightarrow> bool" where
  "fits_blockio b \<longleftrightarrow> unat (bl_Weight b) < 2 ^ 16 \<and> unat (bl_LeafWeight b) < 2 ^ 16
     \<and> list_all fits_weight (bl_WeightDevice b)"

definition fits_resources :: "g_LinuxResources \<Rightarrow> bool" where
  "fits_resources r \<longleftrightarrow> pred_option fits_blockio (rs_BlockIO r)"

definition fits_arg :: "g_LinuxSeccompArg \<Rightarrow> bool" where
  "fits_arg a \<longleftrightarrow> unat (sa_Index a) < 2 ^ 32"

definition fits_syscall :: "g_LinuxSyscall \<Rightarrow> bool" where
  "fits_syscall y \<longleftrightarrow> list_all fits_arg (sy_Args y)"

definition fits_seccomp :: "g_LinuxSeccomp \<Rightarrow> bool" where
  "fits_seccomp s \<longleftrightarrow> list_all fits_syscall (se_Syscalls s)"

definition fits_linux :: "g_Linux \<Rightarrow> bool" where
  "fits_linux l \<longleftrightarrow> pred_option fits_resources (lx_Resources l) \<and> pred_option fits_seccomp (lx_Seccomp l)"

text \<open>Every number of the specification fits the narrower type of its target.\<close>

definition fits_spec :: "g_Spec \<Rightarrow> bool" where
  "fits_spec g \<longleftrightarrow> pred_option fits_process (sp_Process g) \<and> pred_option fits_hooks (sp_Hooks g)
     \<and> pred_option fits_linux (sp_Linux g)"

lemma as_i32_id: "in_range 32 n \<Longrightarrow> as_i32 n = n"
  unfolding as_i32_def in_range_def by (simp add: signed_of_int signed_take_bit_int_eq_self)

lemma as_u16_inj:
  assumes "unat m < 2 ^ 16" "unat n < 2 ^ 16" "as_u16 m = as_u16 n"
  shows "m = n"
proof -
  have small: "unat (as_u16 k) = unat k" if "unat k < 2 ^ 16" for k
    using that by (simp add: as_u16_def unsigned_ucast_eq take_bit_nat_eq_self)
  then show ?thesis using assms by (metis word_unat_eq_iff)
qed

lemma as_u32_inj:
  assumes "unat m < 2 ^ 32" "unat n < 2 ^ 32" "as_u32 m = as_u32 n"
  shows "m = n"
proof -
  have small: "unat (as_u32 k) = unat k" if "unat k < 2 ^ 32" for k
    using that by (simp add: as_u32_def unsigned_ucast_eq take_bit_nat_eq_self)
  then show ?thesis using assms by (metis word_unat_eq_iff)
qed

lemma as_i64_inj: "as_i64 m = as_i64 n \<longleftrightarrow> m = n"
  by (simp add: as_i64_def signed_word_eqI) (metis signed_word_eqI)

lemma any_number_inj: "any_number m = any_number n \<longleftrightarrow> m = n"
  by (auto simp: any_number_def split: if_splits)

interpretation box: lossless box_grpc_to_oci "\<lambda>_. True"
  by unfold_locales (auto simp: box_grpc_to_oci_def any_number_inj as_i64_inj intro: g_Box.equality)

interpretation user: lossless user_grpc_to_oci "\<lambda>_. True"
  by unfold_locales (auto simp: user_grpc_to_oci_def any_number_inj as_i64_inj intro: g_User.equality)

interpretation capabilities: lossless capabilities_grpc_to_oci "\<lambda>_. True"
  by unfold_locales (auto simp: capabilities_grpc_to_oci_def any_number_inj as_i64_inj intro: g_LinuxCapabilities.equality)

interpretation rlimit: lossless rlimit_grpc_to_oci "\<lambda>_. True"
  by unfold_locales (auto simp: rlimit_grpc_to_oci_def any_number_inj as_i64_inj intro: g_POSIXRlimit.equality)

interpretation root: lossless root_grpc_to_oci "\<lambda>_. True"
  by unfold_locales (auto simp: root_grpc_to_oci_def any_number_inj as_i64_inj intro: g_Root.equality)

interpretation mount: lossless mount_grpc_to_oci "\<lambda>_. True"
  by unfold_locales (auto simp: mount_grpc_to_oci_def any_number_inj as_i64_inj intro: g_Mount.equality)

interpretation idmap: lossless idmap_grpc_to_oci "\<lambda>_. True"
  by unfold_locales (auto simp: idmap_grpc_to_oci_def any_number_inj as_i64_inj intro: g_LinuxIDMapping.equality)

interpretation throttle: lossless throttle_device "\<lambda>_. True"
  by unfold_locales (auto simp: throttle_device_def any_number_inj as_i64_inj intro: g_LinuxThrottleDevice.equality)

interpretation dev_rule: lossless cgroup_device "\<lambda>_. True"
  by unfold_locales (auto simp: cgroup_device_def any_number_inj as_i64_inj intro: g_LinuxDeviceCgroup.equality)

interpretation memory: lossless memory_grpc_to_oci "\<lambda>_. True"
  by unfold_locales (auto simp: memory_grpc_to_oci_def any_number_inj as_i64_inj intro: g_LinuxMemory.equality)

interpretation cpu: lossless cpu_grpc_to_oci "\<lambda>_. True"
  by unfold_locales (auto simp: cpu_grpc_to_oci_def any_number_inj as_i64_inj intro: g_LinuxCPU.equality)

interpretation dev: lossless one_device "\<lambda>_. True"
  by unfold_locales (auto simp: one_device_def any_number_inj as_i64_inj intro: g_LinuxDevice.equality)

interpretation priority: lossless "(\<lambda>p :: g_LinuxInterfacePriority. \<lparr>olip_name = ip_Name p, olip_priority = ip_Priority p\<rparr>)" "\<lambda>_. True"
  by unfold_locales (auto intro: g_LinuxInterfacePriority.equality)

interpretation pids: lossless "(\<lambda>p :: g_LinuxPids. \<lparr>olp_limit = pd_Limit p\<rparr>)" "\<lambda>_. True"
  by unfold_locales (auto intro: g_LinuxPids.equality)

interpretation hugepage: lossless "(\<lambda>h :: g_LinuxHugepageLimit. \<lparr>olhl_page_size = hl_Pagesize h, olhl_limit = hl_Limit h\<rparr>)" "\<lambda>_. True"
  by unfold_locales (auto intro: g_LinuxHugepageLimit.equality)

interpretation namespace: lossless "(\<lambda>n :: g_LinuxNamespace. \<lparr>oln_type = ns_Type n, oln_path = ns_Path n\<rparr>)" "\<lambda>_. True"
  by unfold_locales (auto intro: g_LinuxNamespace.equality)

interpretation rdt: lossless "(\<lambda>r :: g_LinuxIntelRdt. \<lparr>olir_l3_cache_schema = ir_L3CacheSchema r\<rparr>)" "\<lambda>_. True"
  by unfold_locales (auto intro: g_LinuxIntelRdt.equality)

interpretation hook: lossless one_hook fits_hook
  by unfold_locales (auto simp: one_hook_def fits_hook_def as_i32_id intro: g_Hook.equality)

interpretation hooks: lossless hooks_grpc_to_oci fits_hooks
  by unfold_locales (auto simp: hooks_grpc_to_oci_def hook_grpc_to_oci_def fits_hooks_def
    intro: g_Hooks.equality hook.conv_list)

interpretation weight: lossless weight_device fits_weight
  by unfold_locales (auto simp: weight_device_def fits_weight_def intro!: g_LinuxWeightDevice.equality as_u16_inj)

interpretation blockio: lossless blockio_grpc_to_oci fits_blockio
  by unfold_locales (auto simp: blockio_grpc_to_oci_def fits_blockio_def
    intro!: g_LinuxBlockIO.equality as_u16_inj weight.conv_list throttle.conv_list)

interpretation network: lossless network_grpc_to_oci "\<lambda>_. True"
  by unfold_locales (auto simp: network_grpc_to_oci_def intro!: g_LinuxNetwork.equality priority.conv_list)

interpretation resources: lossless resources_grpc_to_oci fits_resources
  by unfold_locales (auto simp: resources_grpc_to_oci_def fits_resources_def
    intro!: g_LinuxResources.equality dev_rule.conv_list memory.conv_opt cpu.conv_opt pids.conv_opt
      blockio.conv_opt hugepage.conv_list network.conv_opt)

interpretation arg: lossless seccomp_arg fits_arg
  by unfold_locales (auto simp: seccomp_arg_def fits_arg_def intro!: g_LinuxSeccompArg.equality as_u32_inj)

interpretation syscall: lossless "\<lambda>y :: g_LinuxSyscall. \<lparr>olll_names = sy_Names y, olll_action = sy_Action y,
    olll_args = map seccomp_arg (sy_Args y)\<rparr>" fits_syscall
  by unfold_locales (auto simp: fits_syscall_def intro!: g_LinuxSyscall.equality arg.conv_list)

interpretation seccomp: lossless seccomp_grpc_to_oci fits_seccomp
  by unfold_locales (auto simp: seccomp_grpc_to_oci_def fits_seccomp_def
    intro!: g_LinuxSeccomp.equality syscall.conv_list)

interpretation linux: lossless linux_grpc_to_oci fits_linux
  by unfold_locales (auto simp: linux_grpc_to_oci_def fits_linux_def
    intro!: g_Linux.equality idmap.conv_list resources.conv_opt namespace.conv_list dev.conv_list
      seccomp.conv_opt rdt.conv_opt)

lemma process_inj:
  assumes "process_grpc_to_oci p = Ok x" "process_grpc_to_oci q = Ok x" "fits_process p" "fits_process q"
  shows "p = q"
proof -
  obtain u v where uv: "pr_User p = Some u" "pr_User q = Some v"
    using assms(1,2) by (auto simp: process_grpc_to_oci_def split: option.splits)
  have "user_grpc_to_oci u = user_grpc_to_oci v"
    using assms(1,2) uv by (auto simp: process_grpc_to_oci_def)
  then have "u = v" by (rule user.conv_inj [OF TrueI TrueI])
  with assms uv show ?thesis
    by (auto simp: process_grpc_to_oci_def fits_process_def as_i32_id
      intro!: g_Process.equality box.conv_opt capabilities.conv_opt rlimit.conv_list)
qed

lemma spec_inj:
  assumes "grpc_to_oci a = Ok x" "grpc_to_oci b = Ok x" "fits_spec a" "fits_spec b"
  shows "a = b"
proof -
  obtain p q where pq: "opt_res process_grpc_to_oci (sp_Process a) = Ok p"
      "opt_res process_grpc_to_oci (sp_Process b) = Ok q" "p = q"
    using assms(1,2) by (auto simp: grpc_to_oci_def map_res_Ok)
  then have "sp_Process a = sp_Process b"
    using assms(3,4) process_inj by (auto simp: opt_res_def map_res_Ok fits_spec_def split: option.splits)
  with assms show ?thesis
    by (auto simp: grpc_to_oci_def map_res_Ok fits_spec_def
      intro!: g_Spec.equality root.conv_opt mount.conv_list hooks.conv_opt linux.conv_opt)
qed

section \<open>Properties\<close>

text \<open>C21: what is written to \<open>config.json\<close> is read back as the same specification, for every value of the
  Rust type: no field is dropped by its \<open>skip_serializing_if\<close> that its default would not restore.\<close>
theorem config_json_roundtrip:
  assumes "ok_Spec x"
  shows "dec_Spec (enc_Spec x) = Some x"
  using assms by (rule spec_json.roundtrip)

text \<open>Two different gRPC specifications whose numbers fit the narrower types of the \<open>oci\<close> crate (weights,
  timeouts, the score of the OOM killer, the index of a system call argument) are written to
  different \<open>config.json\<close> values: a hook sees every difference.\<close>
lemma config_json_distinguishes:
  assumes "grpc_to_oci a = Ok x" "grpc_to_oci b = Ok y" "fits_spec a" "fits_spec b"
    and "ok_Spec x" "ok_Spec y" "a \<noteq> b"
  shows "enc_Spec x \<noteq> enc_Spec y"
  using assms spec_inj spec_json.roundtrip by (metis option.inject)

definition named_spec :: "string \<Rightarrow> g_Spec" where
  "named_spec h = \<lparr>sp_Version = ''1.0'', sp_Process = None, sp_Root = Some \<lparr>rt_Path = ''/r'', rt_Readonly = True\<rparr>,
     sp_Hostname = h, sp_Mounts = [], sp_Hooks = None, sp_Annotations = [(''k'', ''v'')], sp_Linux = None\<rparr>"

definition named_oci :: "string \<Rightarrow> o_Spec" where
  "named_oci h = \<lparr>osp_version = ''1.0'', osp_process = None,
     osp_root = Some \<lparr>oro_path = ''/r'', oro_readonly = True\<rparr>, osp_hostname = h, osp_mounts = [],
     osp_hooks = None, osp_annotations = [(''k'', ''v'')], osp_linux = None, osp_solaris = None,
     osp_windows = None, osp_vm = None\<rparr>"

lemma named_converts: "grpc_to_oci (named_spec h) = Ok (named_oci h)" "fits_spec (named_spec h)" "ok_Spec (named_oci h)"
  by (simp_all add: grpc_to_oci_def named_spec_def named_oci_def opt_res_def root_grpc_to_oci_def fits_spec_def ok_Spec_def)

lemma config_json_roundtrip_witness: "dec_Spec (enc_Spec (named_oci ''a'')) = Some (named_oci ''a'')"
  by (rule config_json_roundtrip [OF named_converts(3)])

lemma config_json_distinguishes_witness: "enc_Spec (named_oci ''a'') \<noteq> enc_Spec (named_oci ''b'')"
  by (rule config_json_distinguishes [OF named_converts(1) named_converts(1) named_converts(2) named_converts(2)
      named_converts(3) named_converts(3)]) (simp add: named_spec_def)

end
