(* ===== verification/Rpc_Container.thy ===== *)
theory Rpc_Container
  imports Sandbox_Ops Spec_Convert Netlink_Handle
begin

text \<open>
  \<open>src/grpc.rs\<close>: the requests about containers and their processes (the \<open>do_...\<close> methods and the
  functions they call). A request runs under the lock of the sandbox; what it does before it takes
  the lock, or after it has given it back, is outside of \<open>locked\<close>. Code that is not the program's
  (\<open>serde_json\<close>, \<open>ps\<close>, the programs of the hooks) and what varies from one request to the next (the
  time, the bytes that arrive, whether a thread is late) is in \<open>rpc_env\<close>.
\<close>

section \<open>Parameters of a request\<close>

record rpc_env =
  en_join :: "startup \<Rightarrow> int io"
  en_startup :: startup
  en_hooks :: "g_Hook \<Rightarrow> hook_run"
  en_self :: int
  en_tids :: "int \<times> int"
  en_ids :: "u32 \<times> u32"
  en_now :: u64
  en_ticks :: "u64 \<Rightarrow> u64"
  en_pagesizes :: "string list"
  en_json :: "json \<Rightarrow> string"
  en_late :: bool
  en_bytes :: "sysop list \<Rightarrow> string"
  en_ps :: "string list \<Rightarrow> string res"
  en_cstr :: "string \<Rightarrow> string"
  en_fuel :: nat
  en_scan :: scanners
  en_family :: u8

section \<open>Finding a process\<close>

text \<open>The process, with the key of its container's table; the first process when no exec id is given.\<close>

definition find_process :: "string \<Rightarrow> string \<Rightarrow> bool \<Rightarrow> Sandbox \<Rightarrow> (int \<times> Process) res" where
  "find_process cid eid init sb = (case map_of (sb_containers sb) cid of
     None \<Rightarrow> Err (ErrorCode ''Invalid container id'')
   | Some ctr \<Rightarrow>
       if init \<and> eid = [] then (case map_of (c_processes ctr) (init_process_pid ctr) of
           None \<Rightarrow> Err (ErrorCode ''cannot find init process!'')
         | Some p \<Rightarrow> Ok (init_process_pid ctr, p))
       else (case find (\<lambda>(_, p). eid = exec_id p) (c_processes ctr) of
           None \<Rightarrow> Err (ErrorCode ''Invalid exec id'')
         | Some kp \<Rightarrow> Ok kp))"

definition the_process :: "string \<Rightarrow> string \<Rightarrow> bool \<Rightarrow> (int \<times> Process) ag" where
  "the_process cid eid init = (\<lambda>s. (find_process cid eid init (ag_sandbox s), s))"

text \<open>A process in place: the entry \<open>pid\<close> of the table of the container \<open>cid\<close>.\<close>

definition set_process :: "int \<Rightarrow> (Process \<Rightarrow> Process) \<Rightarrow> unit cact" where
  "set_process pid f = modC (\<lambda>c. c\<lparr>c_processes :=
     map (\<lambda>(k, p). if k = pid then (k, f p) else (k, p)) (c_processes c)\<rparr>)"

section \<open>Creating a container\<close>

record CreateContainerRequest =
  cr_container_id :: string
  cr_exec_id :: string
  cr_devices :: "device list"
  cr_storages :: "Storage list"
  cr_OCI :: "g_Spec option"

definition CONTAINER_BASE :: string where
  "CONTAINER_BASE = ''/run/agent''"

definition NSTYPEPID :: string where "NSTYPEPID = ''pid''"
definition NSTYPEIPC :: string where "NSTYPEIPC = ''ipc''"
definition NSTYPEUTS :: string where "NSTYPEUTS = ''uts''"

definition share_namespace :: "Sandbox \<Rightarrow> g_LinuxNamespace \<Rightarrow> g_LinuxNamespace" where
  "share_namespace sb n = (if ns_Type n = NSTYPEPID then n
     else if ns_Type n = NSTYPEIPC then n\<lparr>ns_Path := sb_shared_ipcns sb\<rparr>
     else if ns_Type n = NSTYPEUTS then n\<lparr>ns_Path := sb_shared_utsns sb\<rparr> else n)"

definition update_container_namespaces :: "Sandbox \<Rightarrow> g_Spec \<Rightarrow> g_Spec res" where
  "update_container_namespaces sb spec = (case sp_Linux spec of
     None \<Rightarrow> Err (ErrorCode ''Spec didn't container linux field'')
   | Some linux \<Rightarrow>
      (let nss = map (share_namespace sb) (lx_Namespaces linux);
           pidNs = list_ex (\<lambda>n. ns_Type n = NSTYPEPID) (lx_Namespaces linux)
       in Ok (spec\<lparr>sp_Linux := Some (linux\<lparr>lx_Namespaces :=
            if \<not> pidNs \<and> \<not> sb_sandbox_pid_ns sb then nss @ [\<lparr>ns_Type = NSTYPEPID, ns_Path = []\<rparr>]
            else nss\<rparr>)\<rparr>)))"

text \<open>\<open>oci.save\<close>: the file is created and the value written to it; the caller drops the error.\<close>

definition spec_save :: "(json \<Rightarrow> string) \<Rightarrow> o_Spec \<Rightarrow> string \<Rightarrow> unit io" where
  "spec_save text x path = thenR (io_sys (FsCreate path)) (fs_write path (text (enc_Spec x)))"

text \<open>The log line of the function unwraps the process of the specification.\<close>

definition setup_bundle :: "(json \<Rightarrow> string) \<Rightarrow> g_Spec \<Rightarrow> unit io" where
  "setup_bundle text gspec = (case sp_Root gspec of
     None \<Rightarrow> throw (Nix EINVAL)
   | Some rt \<Rightarrow>
      bindR (fs_canonicalize (rt_Path rt)) (\<lambda>rootfs.
      bindR (liftR (unwrap (path_parent rootfs))) (\<lambda>bundle_path.
      bindR (liftR (grpc_to_oci gspec)) (\<lambda>oci.
      bindR (liftR (unwrap (osp_process oci))) (\<lambda>_.
      thenR (ignoreR (spec_save text oci (bundle_path @ ''/config.json'')))
        (nix_chdir bundle_path))))))"

definition create_opts :: "Sandbox \<Rightarrow> g_Spec \<Rightarrow> CreateOpts" where
  "create_opts sb spec = \<lparr>cgroup_name = [], use_systemd_cgroup = False, no_pivot_root = sb_no_pivot_root sb,
     no_new_keyring = False, co_spec = Some spec, rootless_euid = False, rootless_cgroup = False\<rparr>"

text \<open>\<open>start\<close> on a container that is not in the table yet.\<close>

definition start_new :: "rpc_env \<Rightarrow> LinuxContainer \<Rightarrow> Process \<Rightarrow> LinuxContainer io" where
  "start_new env ctr p = (\<lambda>w. case container_start (en_join env) (en_startup env) (en_self env) p (ctr, w) of
     (r, (c, w')) \<Rightarrow> (map_res (\<lambda>_. c) r, w'))"

definition make_container :: "rpc_env \<Rightarrow> string \<Rightarrow> string \<Rightarrow> CreateOpts \<Rightarrow> g_Spec \<Rightarrow> LinuxContainer io" where
  "make_container env cid eid opts spec =
     bindR (container_new (en_ids env) (en_now env) cid CONTAINER_BASE opts) (\<lambda>ctr.
     bindR (case sp_Process spec of None \<Rightarrow> throw (Nix EINVAL)
       | Some oci_process \<Rightarrow> process_new oci_process eid True) (\<lambda>p.
     start_new env ctr p))"

definition note_mounts :: "string \<Rightarrow> string list \<Rightarrow> Sandbox \<Rightarrow> Sandbox" where
  "note_mounts cid m sb = sb\<lparr>sb_container_mounts := AList.update cid m (sb_container_mounts sb)\<rparr>"

definition set_sandbox :: "(Sandbox \<Rightarrow> Sandbox) \<Rightarrow> unit ag" where
  "set_sandbox f = modifyR (\<lambda>s. s\<lparr>ag_sandbox := f (ag_sandbox s)\<rparr>)"

definition do_create_container :: "rpc_env \<Rightarrow> CreateContainerRequest \<Rightarrow> unit ag" where
  "do_create_container env req =
     (let cid = cr_container_id req
      in bindR (liftR (unwrap (cr_OCI req))) (\<lambda>spec0.
         thenR (os (catchR rescan_pci_bus (\<lambda>_. throw (Msg ''Could not rescan PCI bus''))))
         (bindR (add_devices (cr_devices req) spec0) (\<lambda>spec1.
          bindR (add_storages (cr_storages req)) (\<lambda>m.
          locked (thenR (set_sandbox (note_mounts cid m))
            (bindR (getsR (\<lambda>s. ag_sandbox s)) (\<lambda>sb.
             bindR (liftR (update_container_namespaces sb spec1)) (\<lambda>spec.
             thenR (os (setup_bundle (en_json env) spec))
             (bindR (os (make_container env cid (cr_exec_id req) (create_opts sb spec) spec)) (\<lambda>ctr.
              set_sandbox (add_container ctr))))))))))))"

section \<open>Starting and removing a container\<close>

definition do_start_container :: "rpc_env \<Rightarrow> string \<Rightarrow> unit ag" where
  "do_start_container env cid = locked (bindR (get_container cid) (\<lambda>c. case c of
     None \<Rightarrow> throw (Nix EINVAL)
   | Some _ \<Rightarrow> on_container cid (container_exec (en_now env))))"

text \<open>What both branches of \<open>do_remove_container\<close> do after the container is destroyed.\<close>

definition forget_container :: "string \<Rightarrow> Sandbox \<Rightarrow> Sandbox" where
  "forget_container cid sb = sb\<lparr>sb_container_mounts := AList.delete cid (sb_container_mounts sb),
     sb_containers := AList.delete cid (sb_containers sb)\<rparr>"

definition clean_container :: "string \<Rightarrow> unit ag" where
  "clean_container cid = bindR (getsR ag_sandbox) (\<lambda>sb.
     thenR (case map_of (sb_container_mounts sb) cid of
         None \<Rightarrow> ret ()
       | Some mounts \<Rightarrow> thenR (os (remove_mounts mounts))
           (for_each (filter (\<lambda>m. sb_storages sb m \<noteq> None) mounts) unset_and_remove_sandbox_storage))
     (set_sandbox (forget_container cid)))"

definition ETIME_error :: error where "ETIME_error = Nix ETIME"

text \<open>
  With a timeout a thread destroys the container; when it panics (also on a lock that is poisoned), or
  is late, or never ends, the channel gives nothing in time.
\<close>

definition destroy_in_thread :: "rpc_env \<Rightarrow> string \<Rightarrow> unit ag" where
  "destroy_in_thread env cid = (\<lambda>s.
     case locked (catchR (on_container cid (container_destroy (en_hooks env))) (\<lambda>_. panicR)) s of
       (Ok _, t) \<Rightarrow> (if en_late env then Err ETIME_error else Ok (), t)
     | (Undefined, t) \<Rightarrow> (Undefined, t)
     | (_, t) \<Rightarrow> (Err ETIME_error, t))"

definition do_remove_container :: "rpc_env \<Rightarrow> string \<Rightarrow> u32 \<Rightarrow> unit ag" where
  "do_remove_container env cid timeout =
     (if timeout = 0 then locked (thenR (on_container cid (container_destroy (en_hooks env))) (clean_container cid))
      else thenR (destroy_in_thread env cid) (locked (clean_container cid)))"

section \<open>Processes\<close>

definition do_exec_process :: "rpc_env \<Rightarrow> string \<Rightarrow> string \<Rightarrow> g_Process option \<Rightarrow> unit ag" where
  "do_exec_process env cid eid process = locked (case process of
     None \<Rightarrow> throw (Nix EINVAL)
   | Some ocip \<Rightarrow> bindR (os (process_new ocip eid False)) (\<lambda>p.
       bindR (get_container cid) (\<lambda>c. case c of
         None \<Rightarrow> throw (Nix EINVAL)
       | Some _ \<Rightarrow> on_container cid
           (container_run (en_join env) (en_startup env) (en_self env) (en_now env) p))))"

definition SIGTERM :: int where "SIGTERM = 15"

text \<open>\<open>Signal::from_c_int\<close>: the signals 1 to 31; a real-time signal is none of them.\<close>

definition signal_from_int :: "int \<Rightarrow> int option" where
  "signal_from_int n = (if 1 \<le> n \<and> n \<le> 31 then Some n else None)"

text \<open>The mask of caught signals, from the first line of the status file that starts with its name.\<close>

definition caught_mask :: "string \<Rightarrow> u64 option" where
  "caught_mask text = (case find (prefix ''SigCgt:'') (lines text) of
     None \<Rightarrow> None
   | Some line \<Rightarrow> (case split_on CHR '':'' line of
       [_, sig_cgt_str] \<Rightarrow> (case from_str_radix (2 ^ 64) 16 sig_cgt_str of Ok m \<Rightarrow> Some (of_nat m) | _ \<Rightarrow> None)
     | _ \<Rightarrow> None))"

definition status_file :: "int \<Rightarrow> string" where
  "status_file pid = ''/proc/'' @ show_int pid @ ''/status''"

definition is_signal_handled :: "int \<Rightarrow> u32 \<Rightarrow> bool io" where
  "is_signal_handled pid signum =
     (let sig_mask = push_bit (unat (signum - 1)) (1 :: u64)
      in catchR (bindR (fs_read (status_file pid)) (\<lambda>text.
           ret (case caught_mask text of None \<Rightarrow> False | Some m \<Rightarrow> m AND sig_mask = sig_mask))) (\<lambda>_. ret False))"

definition do_signal_process :: "string \<Rightarrow> string \<Rightarrow> u32 \<Rightarrow> unit ag" where
  "do_signal_process cid eid sig = locked (
     bindR (the_process cid eid True) (\<lambda>(_, p).
     bindR (liftR (unwrap (signal_from_int (sint sig)))) (\<lambda>n.
     bindR (if p_init p \<and> n = SIGTERM
         then bindR (os (is_signal_handled (p_pid p) sig)) (\<lambda>h. ret (if \<not> h then SIGKILL else n)) else ret n) (\<lambda>n.
     os (process_signal p n)))))"

text \<open>The three parts of \<open>do_wait_process\<close>: find the process, wait for the end of its exit pipe without the
  lock, and take the process out of the table.\<close>

definition wait_begin :: "string \<Rightarrow> string \<Rightarrow> (int \<times> int) ag" where
  "wait_begin cid eid = locked (bindR (the_process cid eid False) (\<lambda>(_, p).
     ret (p_pid p, case exit_pipe_r p of None \<Rightarrow> - 1 | Some fdn \<Rightarrow> fdn)))"

definition wait_read :: "int \<Rightarrow> unit io" where
  "wait_read fdn = whenR (fdn \<noteq> - 1) (ignoreR (nix_do (SysRead fdn 2)))"

definition close_opt :: "int option \<Rightarrow> unit io" where
  "close_opt x = (case x of None \<Rightarrow> ret () | Some fdn \<Rightarrow> ignoreR (nix_do (SysClose fdn)))"

definition reap_process :: "int \<Rightarrow> int cact" where
  "reap_process pid = bindR (getC (\<lambda>c. map_of (c_processes c) pid)) (\<lambda>entry.
     bindR (liftR (unwrap entry)) (\<lambda>p.
     thenR (osC (run_all [close_opt (parent_stdin p), close_opt (parent_stdout p), close_opt (parent_stderr p),
         close_opt (term_master p), close_opt (exit_pipe_r p)]))
     (thenR (modC (\<lambda>c. c\<lparr>c_processes := AList.delete pid (c_processes c)\<rparr>)) (ret (exit_code p)))))"

definition wait_end :: "string \<Rightarrow> int \<Rightarrow> int ag" where
  "wait_end cid pid = locked (on_container cid (reap_process pid))"

definition do_wait_process :: "string \<Rightarrow> string \<Rightarrow> int ag" where
  "do_wait_process cid eid = bindR (wait_begin cid eid) (\<lambda>(pid, fdn).
     thenR (os (wait_read fdn)) (wait_end cid pid))"

section \<open>Streams\<close>

definition write_fd :: "Process \<Rightarrow> int res" where
  "write_fd p = (case term_master p of Some fdn \<Rightarrow> Ok fdn | None \<Rightarrow> unwrap (parent_stdin p))"

definition do_write_stream :: "string \<Rightarrow> string \<Rightarrow> string \<Rightarrow> u32 ag" where
  "do_write_stream cid eid data = locked (bindR (the_process cid eid False) (\<lambda>(_, p).
     bindR (liftR (write_fd p)) (\<lambda>fdn.
     os (catchR (bindR (nix_sys (SysWrite fdn data)) (\<lambda>v.
           ret (word_of_int (if v < int (length data) then v else int (length data)))))
         (\<lambda>e. if e = Nix EAGAIN then ret 0 else throw (Nix EIO))))))"

definition read_fd :: "bool \<Rightarrow> Process \<Rightarrow> int res" where
  "read_fd stdout p = (case term_master p of Some fdn \<Rightarrow> Ok fdn
     | None \<Rightarrow> if stdout then Ok (case parent_stdout p of None \<Rightarrow> - 1 | Some fdn \<Rightarrow> fdn)
         else unwrap (parent_stderr p))"

text \<open>The buffer has \<open>l\<close> bytes; a read of 0 bytes is the end of the stream, an error for the caller.\<close>

definition read_stream :: "(sysop list \<Rightarrow> string) \<Rightarrow> int \<Rightarrow> nat \<Rightarrow> string io" where
  "read_stream bytes fdn l = bindR (getsR hist) (\<lambda>h.
     catchR (bindR (nix_sys (SysRead fdn l)) (\<lambda>len.
         if len = 0 then throw (ErrorCode ''read  meet eof'') else ret (take (nat len) (bytes h))))
       (\<lambda>e. if e = Nix EAGAIN then ret [] else throw e))"

definition do_read_stream :: "rpc_env \<Rightarrow> string \<Rightarrow> string \<Rightarrow> u32 \<Rightarrow> bool \<Rightarrow> string ag" where
  "do_read_stream env cid eid l stdout =
     bindR (locked (bindR (the_process cid eid False) (\<lambda>(_, p). liftR (read_fd stdout p)))) (\<lambda>fdn.
     if fdn = - 1 then throw (Nix EINVAL) else os (read_stream (en_bytes env) fdn (unat l)))"

end
