(* ===== verification/Rpc_Guest.thy ===== *)
theory Rpc_Guest
  imports Rpc_Container
begin

text \<open>
  The other requests of \<open>src/grpc.rs\<close>: listings and statistics of a container, its streams and
  terminal, and the requests about the guest (memory, time, files, random numbers, the sandbox), with
  their answers. A handler answers, or panics, or never answers.
\<close>

datatype status = Internal | InvalidArgument | Unavailable | FailedPrecondition

datatype 'r reply = Success 'r | Failure status string | NoReply

text \<open>The frame of most handlers: an error is answered with a fixed status and text.\<close>

definition respond :: "status \<Rightarrow> string \<Rightarrow> ('s, 'r) act \<Rightarrow> ('s, 'r reply) act" where
  "respond st msg m = catchR (bindR m (\<lambda>x. ret (Success x))) (\<lambda>_. ret (Failure st msg))"

section \<open>Listing the processes of a container\<close>

text \<open>The lines of \<open>ps\<close> behind its header: those of the processes are appended to the result.\<close>

fun ps_lines :: "int list \<Rightarrow> nat \<Rightarrow> string list \<Rightarrow> string res" where
  "ps_lines pids ix [] = Ok []"
| "ps_lines pids ix (l # ls) =
     (if trim l = [] then ps_lines pids ix ls
      else let fields = split_whitespace l in
        if length fields < ix + 1 then ps_lines pids ix ls
        else bind_res (unwrap_res (parse_i32 (trim (fields ! ix)))) (\<lambda>pid.
          map_res (\<lambda>rest. concat (map (\<lambda>p. if pid = p then l else []) pids) @ rest) (ps_lines pids ix ls)))"

fun position :: "string \<Rightarrow> string list \<Rightarrow> nat option" where
  "position x [] = None"
| "position x (y # ys) = (if y = x then Some 0 else map_option Suc (position x ys))"

definition ps_table :: "int list \<Rightarrow> string \<Rightarrow> string res" where
  "ps_table pids out = (case split_on nl out of [] \<Rightarrow> Panic
     | header # ls \<Rightarrow> bind_res (unwrap (position ''PID'' (split_whitespace header))) (\<lambda>ix.
         map_res (\<lambda>rest. header @ rest) (ps_lines pids ix ls)))"

definition list_processes :: "rpc_env \<Rightarrow> string \<Rightarrow> string \<Rightarrow> string list \<Rightarrow> string reply ag" where
  "list_processes env cid format args = locked (bindR (get_container cid) (\<lambda>c.
     bindR (liftR (unwrap c)) (\<lambda>ctr. let pids = c_pids ctr in
       if format = ''table'' then
         bindR (liftR (bind_res (en_ps env (if args = [] then [''-ef''] else args)) (ps_table pids)))
           (\<lambda>table. ret (Success table))
       else if format = ''json'' then ret (Success (en_json env (JArr (map JNum pids))))
       else ret (Failure InvalidArgument ''invalid format''))))"

section \<open>Resources and streams\<close>

definition update_container :: "string \<Rightarrow> g_LinuxResources option \<Rightarrow> unit reply ag" where
  "update_container cid res = locked (respond Internal ''internal error''
     (on_container cid (case res of None \<Rightarrow> ret () | Some r \<Rightarrow> container_set r)))"

definition stats_container :: "rpc_env \<Rightarrow> string \<Rightarrow> CgroupStats option reply ag" where
  "stats_container env cid = locked (respond Internal ''internal error!''
     (on_container cid (bindR (getC (\<lambda>c. c)) (\<lambda>c. osC (container_stats (en_ticks env) (en_pagesizes env) c)))))"

definition close_stdin :: "string \<Rightarrow> string \<Rightarrow> unit reply ag" where
  "close_stdin cid eid = locked (respond InvalidArgument ''invalid argument''
     (bindR (the_process cid eid False) (\<lambda>(k, p).
      thenR (os (run_all [close_opt (term_master p), close_opt (parent_stdin p)]))
        (on_container cid (set_process k (\<lambda>p. p\<lparr>term_master := None, parent_stdin := None\<rparr>))))))"

definition tty_win_resize :: "string \<Rightarrow> string \<Rightarrow> u32 \<Rightarrow> u32 \<Rightarrow> unit reply ag" where
  "tty_win_resize cid eid row column = locked (bindR (catchR (the_process cid eid False) (\<lambda>_. panicR)) (\<lambda>(_, p).
     case term_master p of None \<Rightarrow> ret (Failure Unavailable ''no tty'')
     | Some fdn \<Rightarrow> respond Internal ''ioctl error''
         (os (nix_do (SysIoctl fdn ''TIOCSWINSZ'' [uint (ucast row :: u16), uint (ucast column :: u16)])))))"

section \<open>The guest\<close>

definition SYSFS_MEMORY_BLOCK_SIZE_PATH :: string where
  "SYSFS_MEMORY_BLOCK_SIZE_PATH = ''/sys/devices/system/memory/block_size_bytes''"

definition SYSFS_MEMORY_HOTPLUG_PROBE_PATH :: string where
  "SYSFS_MEMORY_HOTPLUG_PROBE_PATH = ''/sys/devices/system/memory/probe''"

definition block_size :: "u64 io" where
  "block_size = bindR (catchR (bindR (fs_read SYSFS_MEMORY_BLOCK_SIZE_PATH) (\<lambda>v. ret (Some v)))
       (\<lambda>e. if e = Io ENOENT then ret None else throw e)) (\<lambda>v. case v of
     None \<Rightarrow> ret 0
   | Some v \<Rightarrow> if v = [] then throw (ErrorCode ''Invalid block size'') else liftR (parse_u64 (trim v)))"

definition hotplug_probe :: "bool io" where
  "hotplug_probe = catchR (thenR (nix_do (SysStat SYSFS_MEMORY_HOTPLUG_PROBE_PATH)) (ret True))
     (\<lambda>e. if e = Nix ENOENT then ret False else throw e)"

definition get_memory_info :: "bool \<Rightarrow> bool \<Rightarrow> (u64 \<times> bool) io" where
  "get_memory_info bs plug =
     bindR (if bs then block_size else ret 0) (\<lambda>n. bindR (if plug then hotplug_probe else ret False) (\<lambda>p. ret (n, p)))"

record AgentDetails =
  ad_version :: string
  ad_init_daemon :: bool
  ad_device_handlers :: "string list"
  ad_storage_handlers :: "string list"
  ad_supports_seccomp :: bool

definition AGENT_VERSION :: string where "AGENT_VERSION = ''1.4.5''"
definition API_VERSION :: string where "API_VERSION = ''0.0.1''"

definition get_agent_details :: "int \<Rightarrow> AgentDetails" where
  "get_agent_details self = \<lparr>ad_version = AGENT_VERSION, ad_init_daemon = (self = 1), ad_device_handlers = [],
     ad_storage_handlers = [''blk'', ''9p'', ''virtio-fs'', ''ephemeral'', ''mmioblk'', ''local'', ''scsi''],
     ad_supports_seccomp = False\<rparr>"

definition get_guest_details :: "rpc_env \<Rightarrow> bool \<Rightarrow> bool \<Rightarrow> (u64 \<times> bool \<times> AgentDetails) reply io" where
  "get_guest_details env bs plug = respond Internal ''internal error''
     (bindR (get_memory_info bs plug) (\<lambda>(n, p). ret (n, p, get_agent_details (en_self env))))"

definition do_mem_hotplug_by_probe :: "u64 list \<Rightarrow> unit io" where
  "do_mem_hotplug_by_probe addrs = for_each addrs (\<lambda>addr.
     fs_write SYSFS_MEMORY_HOTPLUG_PROBE_PATH (''0x'' @ show_radix 16 (unat addr)))"

definition do_set_guest_date_time :: "int \<Rightarrow> int \<Rightarrow> unit io" where
  "do_set_guest_date_time sec usec = nix_do (SysSettime sec usec)"

definition RNGDEV :: string where "RNGDEV = ''/dev/random''"

definition reseed_rng :: "string \<Rightarrow> unit io" where
  "reseed_rng data = thenR (fs_write RNGDEV data)
     (bindR (nix_sys (FsOpen RNGDEV ''O_RDWR'')) (\<lambda>fdn.
      thenR (nix_do (SysIoctl fdn ''RNDADDTOENTCNT'' [int (length data)]))
        (nix_do (SysIoctl fdn ''RNDRESEEDRNG'' [0]))))"

section \<open>Copying a file into the guest\<close>

record CopyFileRequest =
  cf_path :: string
  cf_file_size :: int
  cf_file_mode :: u32
  cf_dir_mode :: u32
  cf_uid :: int
  cf_gid :: int
  cf_offset :: int
  cf_data :: string

text \<open>\<open>Path::starts_with\<close>, by whole components, for a path as \<open>canonicalize\<close> returns it.\<close>

definition path_starts_with :: "string \<Rightarrow> string \<Rightarrow> bool" where
  "path_starts_with p base \<longleftrightarrow> p = base \<or> prefix (base @ ''/'') p"

text \<open>\<open>PathBuf::set_extension\<close>: a dot at the beginning of the name does not start an extension.\<close>

definition file_stem :: "string \<Rightarrow> string" where
  "file_stem name = (case before_last CHR ''.'' name of None \<Rightarrow> name | Some s \<Rightarrow> if s = [] then name else s)"

definition set_extension :: "string \<Rightarrow> string \<Rightarrow> string" where
  "set_extension p ext = (case before_last CHR ''/'' p of
     None \<Rightarrow> if p = [] then p else file_stem p @ ''.'' @ ext
   | Some d \<Rightarrow> if after_last CHR ''/'' p = [] then p
       else d @ ''/'' @ file_stem (after_last CHR ''/'' p) @ ''.'' @ ext)"

text \<open>The contents after a write at an offset; a hole is filled with zeros.\<close>

definition patch :: "nat \<Rightarrow> string \<Rightarrow> string \<Rightarrow> string" where
  "patch off data old = take off (old @ replicate (off - length old) (CHR 0x00)) @ data
     @ drop (off + length data) old"

definition open_create :: "string \<Rightarrow> unit io" where
  "open_create p = thenR (io_sys (FsOpen p ''w'')) (modifyR (\<lambda>w. w\<lparr>files := (files w)(p :=
     Some (case files w p of None \<Rightarrow> [] | Some c \<Rightarrow> c))\<rparr>))"

definition write_all_at :: "string \<Rightarrow> string \<Rightarrow> nat \<Rightarrow> unit io" where
  "write_all_at p data off = whenR (data \<noteq> []) (thenR (io_sys (SysWriteAt p data off))
     (modifyR (\<lambda>w. w\<lparr>files := (files w)(p := map_option (patch off data) (files w p))\<rparr>)))"

definition file_length :: "string \<Rightarrow> int io" where
  "file_length p = thenR (nix_do (SysStat p)) (getsR (\<lambda>w. case files w p of None \<Rightarrow> 0 | Some c \<Rightarrow> int (length c)))"

definition fs_rename :: "string \<Rightarrow> string \<Rightarrow> unit io" where
  "fs_rename p q = thenR (io_sys (SysRename p q)) (modifyR (\<lambda>w. if p = q then w
     else w\<lparr>files := (files w)(q := files w p, p := None)\<rparr>))"

text \<open>
  \<open>cstr\<close>: \<open>chmod\<close> gets the address of a Rust string, which has no zero at its end; what the kernel
  reads there is \<open>cstr p\<close>.
\<close>

definition do_copy_file :: "(string \<Rightarrow> string) \<Rightarrow> CopyFileRequest \<Rightarrow> unit io" where
  "do_copy_file cstr req =
     bindR (fs_canonicalize (cf_path req)) (\<lambda>path.
     if \<not> path_starts_with path CONTAINER_BASE then throw (Nix EINVAL)
     else let dir = (case path_parent path of None \<Rightarrow> ''/'' | Some d \<Rightarrow> d);
              tmpfile = set_extension path ''tmp''
       in run_all
         [catchR (fs_create_dir_all dir) (\<lambda>e. if e = Io EEXIST then ret () else throw e),
          nix_do (SysChmod (cstr dir) (cf_dir_mode req)),
          open_create tmpfile,
          write_all_at tmpfile (cf_data req) (nat (cf_offset req mod 2 ^ 64)),
          bindR (file_length tmpfile) (\<lambda>n. whenR (n = cf_file_size req) (run_all
            [nix_do (SysChmod (cstr tmpfile) (cf_file_mode req)),
             nix_do (SysChown tmpfile (word_of_int (cf_uid req)) (word_of_int (cf_gid req))),
             fs_rename tmpfile path]))])"

section \<open>The sandbox\<close>

record CreateSandboxRequest =
  cs_hostname :: string
  cs_storages :: "Storage list"
  cs_sandbox_id :: string

definition name_sandbox :: "CreateSandboxRequest \<Rightarrow> Sandbox \<Rightarrow> Sandbox" where
  "name_sandbox req sb = sb\<lparr>sb_hostname := cs_hostname req, sb_running := True,
     sb_id := (if cs_sandbox_id req \<noteq> [] then cs_sandbox_id req else sb_id sb)\<rparr>"

definition create_sandbox :: "rpc_env \<Rightarrow> CreateSandboxRequest \<Rightarrow> unit reply ag" where
  "create_sandbox env req = respond FailedPrecondition ''create sandbox''
     (thenR (locked (run_all
        [os (ignoreR (fs_remove_dir_all CONTAINER_BASE)), os (ignoreR (fs_create_dir_all CONTAINER_BASE)),
         set_sandbox (name_sandbox req),
         thenR (setup_shared_namespaces (en_self env) (en_tids env)) (ret ())]))
     (bindR (add_storages (cs_storages req)) (\<lambda>m. locked (set_sandbox (\<lambda>sb. sb\<lparr>sb_mounts := m\<rparr>)))))"

definition online_cpu_mem :: "OnlineCPUMemRequest \<Rightarrow> unit reply ag" where
  "online_cpu_mem req = locked (respond Internal ''Internal error'' (online_cpu_memory req))"

end
