(* ===== verification/Rpc.thy ===== *)
theory Rpc
  imports Rpc_Guest
begin

text \<open>
  The service of \<open>src/grpc.rs\<close>: its state (the agent, the netlink handle and the shutdown channel that
  \<open>Sandbox\<close> also holds, the counter of \<open>agentService\<close>), the requests about the network, and \<open>serve\<close>,
  which runs the handler of a request. Requests are served one after the other here: a handler holds
  the lock of the sandbox while it works (what the handlers do outside of the lock concerns one
  request alone, but for \<open>wait_process\<close>, which \<open>Reaper\<close> takes apart).
\<close>

record service =
  sv_agent :: agent
  sv_rtnl :: "handle option"
  sv_nl :: nl
  sv_sender :: bool
  sv_test :: u32

type_synonym 'a sva = "(service, 'a) act"

definition onA :: "'a ag \<Rightarrow> 'a sva" where
  "onA m = (\<lambda>s. case m (sv_agent s) of (r, a) \<Rightarrow> (r, s\<lparr>sv_agent := a\<rparr>))"

definition onW :: "'a io \<Rightarrow> 'a sva" where
  "onW m = onA (os m)"

text \<open>The lock of the sandbox around an operation that needs more of the service.\<close>

definition set_lock :: "lock \<Rightarrow> service \<Rightarrow> service" where
  "set_lock l s = s\<lparr>sv_agent := (sv_agent s)\<lparr>ag_lock := l\<rparr>\<rparr>"

definition lockedS :: "'a sva \<Rightarrow> 'a sva" where
  "lockedS m = (\<lambda>s. case ag_lock (sv_agent s) of Poisoned \<Rightarrow> (Panic, s) | Held \<Rightarrow> (Hang, s)
     | Free \<Rightarrow> (case m s of (Panic, t) \<Rightarrow> (Panic, set_lock Poisoned t) | (Hang, t) \<Rightarrow> (Hang, set_lock Held t)
         | r \<Rightarrow> r))"

section \<open>The network\<close>

text \<open>The netlink handle is opened by the first request that needs it, and kept.\<close>

definition onN :: "'a nla \<Rightarrow> 'a sva" where
  "onN m = (\<lambda>s. case m (sv_nl s) of (r, n) \<Rightarrow> (r, s\<lparr>sv_nl := n\<rparr>))"

definition open_rtnl :: "handle sva" where
  "open_rtnl = bindR (getsR sv_rtnl) (\<lambda>h. case h of Some h \<Rightarrow> ret h | None \<Rightarrow> onN (unwrapR (rtnl_new 0 0)))"

definition with_rtnl :: "'a nla \<Rightarrow> 'a sva" where
  "with_rtnl m = bindR open_rtnl (\<lambda>h s. case m ((sv_nl s)\<lparr>cur := h\<rparr>) of
     (r, n) \<Rightarrow> (r, s\<lparr>sv_rtnl := Some (cur n), sv_nl := n\<rparr>))"

definition rpc_update_interface :: "rpc_env \<Rightarrow> Interface option \<Rightarrow> Interface reply sva" where
  "rpc_update_interface env interface = lockedS (respond Internal ''update interface''
     (with_rtnl (bindR (liftR (unwrap interface)) (update_interface (en_fuel env) (en_scan env)))))"

definition rpc_update_routes :: "rpc_env \<Rightarrow> Route list option \<Rightarrow> Route list reply sva" where
  "rpc_update_routes env routes = bindR (liftR (unwrap routes)) (\<lambda>rs.
     lockedS (respond Internal ''update routes'' (with_rtnl (bindR (list_routes (en_fuel env)) (\<lambda>crs.
       catchR (update_routes (en_fuel env) (en_family env) (en_scan env) rs) (\<lambda>_. ret crs))))))"

definition rpc_list_interfaces :: "rpc_env \<Rightarrow> Interface list reply sva" where
  "rpc_list_interfaces env = lockedS (respond Internal ''list interface''
     (with_rtnl (list_interfaces (en_fuel env))))"

definition rpc_list_routes :: "rpc_env \<Rightarrow> Route list reply sva" where
  "rpc_list_routes env = lockedS (respond Internal ''list routes'' (with_rtnl (list_routes (en_fuel env))))"

definition destroy_sandbox :: "rpc_env \<Rightarrow> unit reply sva" where
  "destroy_sandbox env = lockedS (
     thenR (onA (catchR (sandbox_destroy (en_hooks env)) (\<lambda>_. panicR)))
     (bindR (getsR sv_sender) (\<lambda>b. if \<not> b then panicR
       else thenR (modifyR (\<lambda>s. s\<lparr>sv_sender := False\<rparr>)) (ret (Success ())))))"

section \<open>Requests\<close>

datatype rpc =
    CreateContainer CreateContainerRequest
  | StartContainer string
  | RemoveContainer string u32
  | ExecProcess string string "g_Process option"
  | SignalProcess string string u32
  | WaitProcess string string
  | ListProcesses string string "string list"
  | UpdateContainer string "g_LinuxResources option"
  | StatsContainer string
  | PauseContainer string
  | ResumeContainer string
  | WriteStdin string string string
  | ReadStdout string string u32
  | ReadStderr string string u32
  | CloseStdin string string
  | TtyWinResize string string u32 u32
  | UpdateInterface "Interface option"
  | UpdateRoutes "Route list option"
  | ListInterfaces
  | ListRoutes
  | StartTracing
  | StopTracing
  | CreateSandbox CreateSandboxRequest
  | DestroySandbox
  | OnlineCPUMem OnlineCPUMemRequest
  | ReseedRandomDev string
  | GetGuestDetails bool bool
  | MemHotplugByProbe "u64 list"
  | SetGuestDateTime int int
  | CopyFile CopyFileRequest
  | HealthCheck
  | HealthVersion

datatype response = Empty | Exited int | Written u32 | Data string | Processes string
  | Stats "CgroupStats option" | AnInterface Interface | Interfaces "Interface list" | Routes "Route list"
  | Details u64 bool AgentDetails | Serving | Version string string

primrec map_reply :: "('a \<Rightarrow> 'b) \<Rightarrow> 'a reply \<Rightarrow> 'b reply" where
  "map_reply f (Success x) = Success (f x)"
| "map_reply f (Failure st msg) = Failure st msg"
| "map_reply f NoReply = NoReply"

definition answer :: "('a \<Rightarrow> response) \<Rightarrow> ('s, 'a reply) act \<Rightarrow> ('s, response reply) act" where
  "answer f m = bindR m (\<lambda>r. ret (map_reply f r))"

abbreviation empty_answer :: "status \<Rightarrow> string \<Rightarrow> ('s, unit) act \<Rightarrow> ('s, response reply) act" where
  "empty_answer st msg m \<equiv> answer (\<lambda>_. Empty) (respond st msg m)"

text \<open>One definition for each handler that has none yet; the others are above and in \<open>Rpc_Guest\<close>.\<close>

definition rpc_create_container :: "rpc_env \<Rightarrow> CreateContainerRequest \<Rightarrow> response reply sva" where
  "rpc_create_container env req = onA (empty_answer Internal ''fail to create container'' (do_create_container env req))"

definition rpc_start_container :: "rpc_env \<Rightarrow> string \<Rightarrow> response reply sva" where
  "rpc_start_container env cid = onA (empty_answer Internal ''fail to find container'' (do_start_container env cid))"

definition rpc_remove_container :: "rpc_env \<Rightarrow> string \<Rightarrow> u32 \<Rightarrow> response reply sva" where
  "rpc_remove_container env cid t = onA (empty_answer Internal ''fail to remove container'' (do_remove_container env cid t))"

definition rpc_exec_process :: "rpc_env \<Rightarrow> string \<Rightarrow> string \<Rightarrow> g_Process option \<Rightarrow> response reply sva" where
  "rpc_exec_process env cid eid p = onA (empty_answer Internal ''fail to exec process!'' (do_exec_process env cid eid p))"

definition rpc_signal_process :: "string \<Rightarrow> string \<Rightarrow> u32 \<Rightarrow> response reply sva" where
  "rpc_signal_process cid eid n = onA (empty_answer Internal ''fail to signal process!'' (do_signal_process cid eid n))"

definition rpc_wait_process :: "string \<Rightarrow> string \<Rightarrow> response reply sva" where
  "rpc_wait_process cid eid = onA (answer Exited (respond Internal ''fail to wait process!'' (do_wait_process cid eid)))"

definition rpc_write_stdin :: "string \<Rightarrow> string \<Rightarrow> string \<Rightarrow> response reply sva" where
  "rpc_write_stdin cid eid d = onA (answer Written (respond InvalidArgument ''write stream failed'' (do_write_stream cid eid d)))"

definition rpc_read_stdout :: "rpc_env \<Rightarrow> string \<Rightarrow> string \<Rightarrow> u32 \<Rightarrow> response reply sva" where
  "rpc_read_stdout env cid eid n = onA (answer Data (respond Internal ''failed to read stdout'' (do_read_stream env cid eid n True)))"

definition rpc_read_stderr :: "rpc_env \<Rightarrow> string \<Rightarrow> string \<Rightarrow> u32 \<Rightarrow> response reply sva" where
  "rpc_read_stderr env cid eid n = onA (answer Data (respond Internal ''failed to read stderr'' (do_read_stream env cid eid n False)))"

definition rpc_start_tracing :: "response reply sva" where
  "rpc_start_tracing = thenR (modifyR (\<lambda>s. s\<lparr>sv_test := 2\<rparr>)) (ret (Success Empty))"

definition rpc_reseed_random_dev :: "string \<Rightarrow> response reply sva" where
  "rpc_reseed_random_dev d = onW (empty_answer Internal ''Internal error'' (reseed_rng d))"

definition rpc_mem_hotplug_by_probe :: "u64 list \<Rightarrow> response reply sva" where
  "rpc_mem_hotplug_by_probe addrs = onW (empty_answer Internal ''internal error!'' (do_mem_hotplug_by_probe addrs))"

definition rpc_set_guest_date_time :: "int \<Rightarrow> int \<Rightarrow> response reply sva" where
  "rpc_set_guest_date_time sec usec = onW (empty_answer Internal ''internal error!'' (do_set_guest_date_time sec usec))"

definition rpc_copy_file :: "rpc_env \<Rightarrow> CopyFileRequest \<Rightarrow> response reply sva" where
  "rpc_copy_file env req = onW (empty_answer Internal ''Internal error!'' (do_copy_file (en_cstr env) req))"

lemmas handler_defs [simp] = rpc_create_container_def rpc_start_container_def rpc_remove_container_def
  rpc_exec_process_def rpc_signal_process_def rpc_wait_process_def rpc_write_stdin_def rpc_read_stdout_def
  rpc_read_stderr_def rpc_start_tracing_def rpc_reseed_random_dev_def rpc_mem_hotplug_by_probe_def
  rpc_set_guest_date_time_def rpc_copy_file_def

fun serve :: "rpc_env \<Rightarrow> rpc \<Rightarrow> response reply sva" where
  "serve env (CreateContainer req) = rpc_create_container env req"
| "serve env (StartContainer cid) = rpc_start_container env cid"
| "serve env (RemoveContainer cid t) = rpc_remove_container env cid t"
| "serve env (ExecProcess cid eid p) = rpc_exec_process env cid eid p"
| "serve env (SignalProcess cid eid n) = rpc_signal_process cid eid n"
| "serve env (WaitProcess cid eid) = rpc_wait_process cid eid"
| "serve env (ListProcesses cid f args) = onA (answer Processes (list_processes env cid f args))"
| "serve env (UpdateContainer cid r) = onA (answer (\<lambda>_. Empty) (update_container cid r))"
| "serve env (StatsContainer cid) = onA (answer Stats (stats_container env cid))"
| "serve env (PauseContainer cid) = ret NoReply"
| "serve env (ResumeContainer cid) = ret NoReply"
| "serve env (WriteStdin cid eid d) = rpc_write_stdin cid eid d"
| "serve env (ReadStdout cid eid n) = rpc_read_stdout env cid eid n"
| "serve env (ReadStderr cid eid n) = rpc_read_stderr env cid eid n"
| "serve env (CloseStdin cid eid) = onA (answer (\<lambda>_. Empty) (close_stdin cid eid))"
| "serve env (TtyWinResize cid eid r c) = onA (answer (\<lambda>_. Empty) (tty_win_resize cid eid r c))"
| "serve env (UpdateInterface i) = answer AnInterface (rpc_update_interface env i)"
| "serve env (UpdateRoutes rs) = answer Routes (rpc_update_routes env rs)"
| "serve env ListInterfaces = answer Interfaces (rpc_list_interfaces env)"
| "serve env ListRoutes = answer Routes (rpc_list_routes env)"
| "serve env StartTracing = rpc_start_tracing"
| "serve env StopTracing = ret (Success Empty)"
| "serve env (CreateSandbox req) = onA (answer (\<lambda>_. Empty) (create_sandbox env req))"
| "serve env DestroySandbox = answer (\<lambda>_. Empty) (destroy_sandbox env)"
| "serve env (OnlineCPUMem req) = onA (answer (\<lambda>_. Empty) (online_cpu_mem req))"
| "serve env (ReseedRandomDev d) = rpc_reseed_random_dev d"
| "serve env (GetGuestDetails b p) = onW (answer (\<lambda>(n, plug, d). Details n plug d) (get_guest_details env b p))"
| "serve env (MemHotplugByProbe addrs) = rpc_mem_hotplug_by_probe addrs"
| "serve env (SetGuestDateTime sec usec) = rpc_set_guest_date_time sec usec"
| "serve env (CopyFile req) = rpc_copy_file env req"
| "serve env HealthCheck = ret (Success Serving)"
| "serve env HealthVersion = ret (Success (Version AGENT_VERSION API_VERSION))"

section \<open>The start of the agent\<close>

text \<open>\<open>Sandbox::new\<close>: the handle is opened at once, and a failure to do so is a panic.\<close>

definition TYPEROOTFS :: string where "TYPEROOTFS = ''rootfs''"

definition sandbox_new :: "unit sva" where
  "sandbox_new = bindR (onW (get_mount_fs_type ''/'')) (\<lambda>fs_type.
     bindR (onN (unwrapR (rtnl_new 0 0))) (\<lambda>h.
     modifyR (\<lambda>s. s\<lparr>sv_rtnl := Some h, sv_sender := False, sv_agent := (sv_agent s)\<lparr>ag_lock := Free,
       ag_sandbox := empty_sandbox\<lparr>sb_no_pivot_root := (fs_type = TYPEROOTFS)\<rparr>\<rparr>\<rparr>)))"

end
