(* ===== verification/Agent_Main.thy ===== *)
theory Agent_Main
  imports Rpc
begin

text \<open>
  \<open>src/main.rs\<close> around the server: the flags of the kernel command line, the debug console, the
  set-up of the guest when the agent is its init process, the sandbox with its shutdown channel, and
  the end of the program once \<open>destroy_sandbox\<close> has used that channel. The thread that reaps the children is in \<open>Reaper\<close>, the one that watches for devices in \<open>Hotplug\<close>.
\<close>

section \<open>The kernel command line\<close>

definition DEV_MODE_FLAG :: string where "DEV_MODE_FLAG = ''agent.devmode''"
definition DEBUG_CONSOLE_FLAG :: string where "DEBUG_CONSOLE_FLAG = ''agent.debug_console''"
definition KERNEL_CMDLINE_FILE :: string where "KERNEL_CMDLINE_FILE = ''/proc/cmdline''"
definition CONSOLE_PATH :: string where "CONSOLE_PATH = ''/dev/console''"

definition SHELLS :: "string list" where
  "SHELLS = [''/bin/bash'', ''/bin/sh'']"

definition is_ascii_ws :: "char \<Rightarrow> bool" where
  "is_ascii_ws c \<longleftrightarrow> c \<in> {CHR '' '', CHR 0x09, CHR 0x0A, CHR 0x0C, CHR 0x0D}"

text \<open>\<open>str::split_ascii_whitespace\<close>: the pieces between white space that are not empty.\<close>

fun words_from :: "string \<Rightarrow> string \<Rightarrow> string list" where
  "words_from acc [] = (if acc = [] then [] else [acc])"
| "words_from acc (c # cs) =
     (if is_ascii_ws c then (if acc = [] then [] else [acc]) @ words_from [] cs else words_from (acc @ [c]) cs)"

definition split_ascii_whitespace :: "string \<Rightarrow> string list" where
  "split_ascii_whitespace s = words_from [] s"

text \<open>The two flags are statics, \<open>False\<close> at the start, and only ever set.\<close>

record agent_flags =
  DEBUG_CONSOLE :: bool
  DEV_MODE :: bool

definition flag_param :: "string \<Rightarrow> agent_flags \<Rightarrow> agent_flags" where
  "flag_param p fl = (let fl = (if prefix DEBUG_CONSOLE_FLAG p then fl\<lparr>DEBUG_CONSOLE := True\<rparr> else fl)
     in if prefix DEV_MODE_FLAG p then fl\<lparr>DEV_MODE := True\<rparr> else fl)"

definition parse_cmdline :: "string \<Rightarrow> agent_flags \<Rightarrow> agent_flags io" where
  "parse_cmdline file fl = bindR (fs_read file) (\<lambda>cmdline. ret (fold flag_param (split_ascii_whitespace cmdline) fl))"

section \<open>The debug console\<close>

text \<open>The descriptor is given to three streams of the shell, and each of them closes it.\<close>

definition setup_debug_console :: "string list \<Rightarrow> unit io" where
  "setup_debug_console shells = (case shells of [] \<Rightarrow> throw (ErrorCode ''no shell'')
   | shell # _ \<Rightarrow> bindR (path_exists shell) (\<lambda>found.
       if \<not> found then throw (ErrorCode ''invalid shell'')
       else bindR (nix_sys (FsOpen CONSOLE_PATH ''O_RDWR'')) (\<lambda>f.
         let close3 = run_all (replicate 3 (ignoreR (nix_do (SysClose f))))
         in thenR (catchR (thenR (io_sys (SysHook shell)) (ret ()))
                (\<lambda>_. thenR close3 (throw (ErrorCode ''failed to spawn shell''))))
              (thenR close3 (thenR (io_sys (SysOther ''wait'' 0)) (ret ()))))))"

section \<open>The start of the agent\<close>

definition init_agent_as_init :: "unit io" where
  "init_agent_as_init = run_all
     [general_mount, cgroups_mount,
      thenR (io_sys (FsRemove ''/dev/ptmx'')) (ret ()),
      thenR (io_sys (FsSymlink ''/dev/pts/ptmx'' ''/dev/ptmx'')) (ret ()),
      nix_do (SysProc SysSetsid),
      ignoreR (nix_do (SysIoctl 0 ''TIOCSCTTY'' [1])),
      ret ()]"

text \<open>The first part of \<open>setup_signal_handler\<close>, before its thread is started.\<close>

definition setup_signal_handler :: "unit io" where
  "setup_signal_handler = thenR
     (catchR (nix_do (SysProc (SysPrctl ''PR_SET_CHILD_SUBREAPER'' True)))
        (\<lambda>_. throw (Msg ''failed to setup agent as a child subreaper'')))
     (thenR (io_sys (SysOther ''signals'' 17)) (ret ()))"

definition set_sender :: "bool \<Rightarrow> service \<Rightarrow> service" where
  "set_sender b s = s\<lparr>sv_sender := b\<rparr>"

definition agent_start :: "int \<Rightarrow> agent_flags sva" where
  "agent_start pid = bindR (onW (parse_cmdline KERNEL_CMDLINE_FILE \<lparr>DEBUG_CONSOLE = False, DEV_MODE = False\<rparr>)) (\<lambda>fl.
     thenR (whenR (pid = 1) (onW init_agent_as_init))
     (thenR sandbox_new
     (thenR (onW (catchR setup_signal_handler (\<lambda>_. panicR)))
     (thenR (lockedS (modifyR (set_sender True)))
     (ret fl)))))"

section \<open>The end of the agent\<close>

text \<open>
  The main thread waits for the message of \<open>destroy_sandbox\<close>, which takes the sender with it; \<open>console\<close>
  is how the thread of the debug console ends, and \<open>stop\<close> what stopping the server does. Without the
  console the handle of that thread is zeroed memory, which is dropped when \<open>main\<close> returns.
\<close>

definition fs_remove_file :: "string \<Rightarrow> unit io" where
  "fs_remove_file p = thenR (io_sys (FsRemove p)) (modifyR (\<lambda>w. w\<lparr>files := (files w)(p := None)\<rparr>))"

definition agent_end :: "unit res \<Rightarrow> unit sva \<Rightarrow> agent_flags \<Rightarrow> unit sva" where
  "agent_end console stop fl = bindR (getsR sv_sender) (\<lambda>waiting.
     if waiting then hangR
     else run_all
       [whenR (DEBUG_CONSOLE fl) (liftR console),
        ignoreR stop,
        onW (ignoreR (fs_remove_file ''/tmp/testagent'')),
        whenR (\<not> DEBUG_CONSOLE fl) (liftR Undefined)])"

section \<open>Lemmas\<close>

lemma remove_file_ignored: "\<exists>w'. onW (ignoreR (fs_remove_file p)) s = (Ok (), s\<lparr>sv_agent := (sv_agent s)\<lparr>ag_world := w'\<rparr>\<rparr>)"
proof -
  obtain w' where "ignoreR (fs_remove_file p) (ag_world (sv_agent s)) = (Ok (), w')"
    by (cases "io_sys (FsRemove p) (ag_world (sv_agent s))")
      (auto simp: fs_remove_file_def ignoreR_def thenR_def bindR_def io_sys_def sys_with_def Let_def modifyR_def
        split: sum.splits)
  then show ?thesis by (auto simp: onW_def onA_def os_def)
qed

text \<open>The program ends only after \<open>destroy_sandbox\<close>, and then properly only with a debug console whose
  shell has ended: in the ordinary case the last thing it does is undefined.\<close>

lemma ends_after_destroy:
  "sv_sender s \<Longrightarrow> fst (agent_end console stop fl s) = Hang"
  "destroy_sandbox env s = (Ok (Success ()), t) \<Longrightarrow> \<not> DEBUG_CONSOLE fl \<Longrightarrow>
     fst (stop t) \<in> {Ok (), Err e} \<Longrightarrow> fst (agent_end console stop fl t) = Undefined"
  "destroy_sandbox env s = (Ok (Success ()), t) \<Longrightarrow> DEBUG_CONSOLE fl \<Longrightarrow> console = Hang \<Longrightarrow>
     fst (agent_end console stop fl t) = Hang"
proof -
  show "fst (agent_end console stop fl s) = Hang" if "sv_sender s"
    using that by (simp add: agent_end_def)
next
  assume d: "destroy_sandbox env s = (Ok (Success ()), t)"
  have sent: "\<not> sv_sender t"
    using d by (auto simp: destroy_sandbox_def lockedS_def thenR_def bindR_Ok_iff split: lock.splits prod.splits res.splits if_splits)
  show "fst (agent_end console stop fl t) = Undefined"
    if "\<not> DEBUG_CONSOLE fl" "fst (stop t) \<in> {Ok (), Err e}"
  proof -
    obtain r u where st: "stop t = (r, u)" by (cases "stop t")
    obtain v where "onW (ignoreR (fs_remove_file ''/tmp/testagent'')) u = (Ok (), v)"
      using remove_file_ignored [of _ u] by blast
    then show ?thesis using that sent st by (auto simp: agent_end_def)
  qed
  show "fst (agent_end console stop fl t) = Hang" if "DEBUG_CONSOLE fl" "console = Hang"
    using that sent by (simp add: agent_end_def)
qed


text \<open>A text has the flag when the flag stands at its beginning or behind white space.\<close>

definition has_flag :: "string \<Rightarrow> string \<Rightarrow> bool" where
  "has_flag flag s \<longleftrightarrow> (\<exists>a b. s = a @ flag @ b \<and> (a = [] \<or> is_ascii_ws (last a)))"

lemma fold_flags:
  "DEBUG_CONSOLE (fold flag_param ps fl) \<longleftrightarrow> DEBUG_CONSOLE fl \<or> list_ex (prefix DEBUG_CONSOLE_FLAG) ps"
  "DEV_MODE (fold flag_param ps fl) \<longleftrightarrow> DEV_MODE fl \<or> list_ex (prefix DEV_MODE_FLAG) ps"
  by (induction ps arbitrary: fl) (auto simp: flag_param_def Let_def)

text \<open>With \<open>acc\<close> the beginning of a word: the flag starts a later word, or this one.\<close>

lemma words_flag:
  assumes "flag \<noteq> []" "list_all (\<lambda>c. \<not> is_ascii_ws c) flag" "list_all (\<lambda>c. \<not> is_ascii_ws c) acc"
  shows "list_ex (prefix flag) (words_from acc s) \<longleftrightarrow>
    prefix flag (acc @ s) \<or> (\<exists>a b c. s = a @ c # flag @ b \<and> is_ascii_ws c)"
  using assms(3)
proof (induction acc s rule: words_from.induct)
  case (1 acc)
  then show ?case using assms(1) by auto
next
  case (2 acc c cs)
  show ?case
  proof (cases "is_ascii_ws c")
    case True
    have head: "prefix flag (acc @ c # cs) \<longleftrightarrow> prefix flag acc"
    proof
      assume "prefix flag (acc @ c # cs)"
      then show "prefix flag acc"
        using True assms(2) by (auto simp: prefix_append prefix_Cons list_all_iff)
    qed (simp add: prefix_order.order_trans [of _ acc])
    have tail: "(\<exists>a b d. c # cs = a @ d # flag @ b \<and> is_ascii_ws d) \<longleftrightarrow>
        prefix flag cs \<or> (\<exists>a b d. cs = a @ d # flag @ b \<and> is_ascii_ws d)"
      using True by (auto simp: Cons_eq_append_conv prefix_def)
    have "list_ex (prefix flag) (words_from [] cs) \<longleftrightarrow>
        prefix flag cs \<or> (\<exists>a b d. cs = a @ d # flag @ b \<and> is_ascii_ws d)"
      using 2(1) True by simp
    then show ?thesis using True assms(1) unfolding head tail by auto
  next
    case False
    have "(\<exists>a b d. c # cs = a @ d # flag @ b \<and> is_ascii_ws d) \<longleftrightarrow>
        (\<exists>a b d. cs = a @ d # flag @ b \<and> is_ascii_ws d)"
      using False by (auto simp: Cons_eq_append_conv)
    with 2 False show ?thesis by simp
  qed
qed

lemma flag_in_words:
  assumes "flag \<noteq> []" "list_all (\<lambda>c. \<not> is_ascii_ws c) flag"
  shows "list_ex (prefix flag) (split_ascii_whitespace s) \<longleftrightarrow> has_flag flag s"
proof -
  have "(prefix flag s \<or> (\<exists>a b c. s = a @ c # flag @ b \<and> is_ascii_ws c)) \<longleftrightarrow> has_flag flag s"
  proof
    assume "prefix flag s \<or> (\<exists>a b c. s = a @ c # flag @ b \<and> is_ascii_ws c)"
    then show "has_flag flag s"
    proof
      assume "prefix flag s"
      then obtain b where "s = [] @ flag @ b" by (auto simp: prefix_def)
      then show ?thesis unfolding has_flag_def by blast
    next
      assume "\<exists>a b c. s = a @ c # flag @ b \<and> is_ascii_ws c"
      then obtain a b c where "s = (a @ [c]) @ flag @ b" "is_ascii_ws (last (a @ [c]))" by auto
      then show ?thesis unfolding has_flag_def by blast
    qed
  next
    assume "has_flag flag s"
    then obtain a b where s: "s = a @ flag @ b" and a: "a = [] \<or> is_ascii_ws (last a)"
      by (auto simp: has_flag_def)
    show "prefix flag s \<or> (\<exists>a b c. s = a @ c # flag @ b \<and> is_ascii_ws c)"
    proof (cases a rule: rev_cases)
      case (snoc a' c)
      with s a show ?thesis by auto
    qed (simp add: s)
  qed
  with words_flag [OF assms, of "[]" s] show ?thesis by (simp add: split_ascii_whitespace_def)
qed

lemma flags_plain:
  "DEBUG_CONSOLE_FLAG \<noteq> []" "list_all (\<lambda>c. \<not> is_ascii_ws c) DEBUG_CONSOLE_FLAG"
  "DEV_MODE_FLAG \<noteq> []" "list_all (\<lambda>c. \<not> is_ascii_ws c) DEV_MODE_FLAG"
  by (simp_all add: DEBUG_CONSOLE_FLAG_def DEV_MODE_FLAG_def is_ascii_ws_def)

text \<open>The command line is read once; when that works the console is on exactly when the flag stands
  at the beginning of the text or behind white space (or was on before), whatever follows the flag;
  the same for the developer mode.\<close>
lemma cmdline_flags:
  assumes "parse_cmdline file fl w = (Ok fl', w')"
  shows "\<exists>cmd. files w file = Some cmd
    \<and> DEBUG_CONSOLE fl' = (DEBUG_CONSOLE fl \<or> has_flag DEBUG_CONSOLE_FLAG cmd)
    \<and> DEV_MODE fl' = (DEV_MODE fl \<or> has_flag DEV_MODE_FLAG cmd)"
proof -
  obtain cmd u where r: "fs_read file w = (Ok cmd, u)" and "fl' = fold flag_param (split_ascii_whitespace cmd) fl"
    using assms by (auto simp: parse_cmdline_def bindR_Ok_iff)
  moreover have "files w file = Some cmd" using fs.rd_ok [OF r] ..
  ultimately show ?thesis using flags_plain by (simp add: fold_flags flag_in_words)
qed

lemma cmdline_flags_witness:
  "\<exists>w fl' w'. files w ''/proc/cmdline'' = Some ''quiet agent.debug_console=1''
    \<and> parse_cmdline ''/proc/cmdline'' \<lparr>DEBUG_CONSOLE = False, DEV_MODE = False\<rparr> w = (Ok fl', w') \<and> DEBUG_CONSOLE fl'"
proof -
  let ?w = "quiet\<lparr>files := [''/proc/cmdline'' \<mapsto> ''quiet agent.debug_console=1'']\<rparr>"
  let ?fl = "\<lparr>DEBUG_CONSOLE = False, DEV_MODE = False\<rparr>"
  have "reliable ?w" by (simp add: reliable_def quiet_def)
  then obtain fl' w' where run: "parse_cmdline ''/proc/cmdline'' ?fl ?w = (Ok fl', w')"
    by (simp add: parse_cmdline_def reliable_read)
  have f: "files ?w ''/proc/cmdline'' = Some ''quiet agent.debug_console=1''" by simp
  have "''quiet agent.debug_console=1'' = ''quiet '' @ DEBUG_CONSOLE_FLAG @ ''=1''" "is_ascii_ws (last ''quiet '')"
    by (simp_all add: DEBUG_CONSOLE_FLAG_def is_ascii_ws_def)
  then have "has_flag DEBUG_CONSOLE_FLAG ''quiet agent.debug_console=1''" unfolding has_flag_def by blast
  with cmdline_flags [OF run] have "DEBUG_CONSOLE fl'" by simp
  with run f show ?thesis by blast
qed

end
