(* ===== verification/Rpc_Props.thy ===== *)
theory Rpc_Props
  imports Agent_Main
begin

text \<open>
  The type of the table of containers is an invariant of the service, whatever requests it gets and
  however their calls end.
\<close>

section \<open>The type of the sandbox\<close>

definition sandbox_ok :: "Sandbox \<Rightarrow> bool" where
  "sandbox_ok sb \<longleftrightarrow> distinct (map fst (sb_containers sb))
     \<and> list_all (\<lambda>(i, c). c_id c = i \<and> container_ok c) (sb_containers sb)"

definition ok_kept :: "agent \<Rightarrow> agent \<Rightarrow> bool" where
  "ok_kept s t \<longleftrightarrow> (sandbox_ok (ag_sandbox s) \<longrightarrow> sandbox_ok (ag_sandbox t))"

lemma ok_kept_rel [simp]: "reflp ok_kept" "transp ok_kept"
  by (auto simp: ok_kept_def reflp_def intro: transpI)

lemma sandbox_ok_store:
  assumes "sandbox_ok sb" "c_id c = i" "container_ok c"
  shows "sandbox_ok (sb\<lparr>sb_containers := AList.update i c (sb_containers sb)\<rparr>)"
proof -
  have "list_all (\<lambda>(i, c). c_id c = i \<and> container_ok c) (AList.update i c cs)"
    if "list_all (\<lambda>(i, c). c_id c = i \<and> container_ok c) cs" for cs
    using that assms(2,3) by (induction cs) auto
  with assms(1) show ?thesis by (simp add: sandbox_ok_def distinct_update)
qed

lemma sandbox_ok_same: "sb_containers t = sb_containers s \<Longrightarrow> sandbox_ok t = sandbox_ok s"
  by (simp add: sandbox_ok_def)

lemma ok_os: "keeps ok_kept (os m)"
  by (rule keepsI) (auto simp: ok_kept_def dest: os_keeps_sandbox)

lemma ok_lock: "ok_kept s (t\<lparr>ag_lock := l\<rparr>) = ok_kept s t"
  by (simp add: ok_kept_def)

lemma ok_locked: "keeps ok_kept m \<Longrightarrow> keeps ok_kept (locked m)"
proof (rule keepsI)
  fix s r t assume m: "keeps ok_kept m" and run: "locked m s = (r, t)"
  obtain q u where u: "m s = (q, u)" by fastforce
  have "ok_kept s u" using m u by (rule keepsD)
  with run u show "ok_kept s t"
    by (cases "ag_lock s"; cases q) (auto simp: locked_def ok_lock ok_kept_def)
qed

lemma ok_sandbox: "(\<And>sb. sandbox_ok sb \<Longrightarrow> sandbox_ok (f sb)) \<Longrightarrow> keeps ok_kept (set_sandbox f)"
  by (rule keepsI) (auto simp: set_sandbox_def ok_kept_def)

lemma ok_sb_mod: "(\<And>sb. sandbox_ok sb \<Longrightarrow> sandbox_ok (f sb)) \<Longrightarrow> keeps ok_kept (sb_mod f)"
  unfolding sb_mod_def by (rule ok_locked) (auto simp: keeps_def ok_kept_def)

lemma ok_sb_get: "keeps ok_kept (sb_get f)"
  unfolding sb_get_def by (intro ok_locked keeps_gets) simp

lemma ok_on_container:
  assumes "keeps stays_ok m"
  shows "keeps ok_kept (on_container i m)"
proof (rule keepsI)
  fix s r t assume run: "on_container i m s = (r, t)"
  show "ok_kept s t"
  proof (cases "map_of (sb_containers (ag_sandbox s)) i")
    case None
    with run show ?thesis by (simp add: on_container_def ok_kept_def)
  next
    case (Some c)
    obtain q c' w where m: "m (c, ag_world s) = (q, (c', w))" by (metis prod.exhaust)
    have st: "steady c c'" using keepsD [OF assms m] by (simp add: stays_ok_def)
    have "sandbox_ok (ag_sandbox s) \<Longrightarrow> c_id c = i \<and> container_ok c"
      using map_of_SomeD [OF Some] by (auto simp: sandbox_ok_def list_all_iff)
    with st have "sandbox_ok (ag_sandbox s) \<Longrightarrow> sandbox_ok (ag_sandbox t)"
      using run Some m sandbox_ok_store [of "ag_sandbox s" c' i]
      by (auto simp: on_container_def steady_def Let_def)
    then show ?thesis by (simp add: ok_kept_def)
  qed
qed

lemma ok_storage: "keeps ok_kept (sb_run (set_sandbox_storage p))" "keeps ok_kept (sb_run (unset_sandbox_storage p))"
  by (auto intro!: keepsI simp: sb_run_def set_sandbox_storage_def unset_sandbox_storage_def ok_kept_def
      sandbox_ok_def Let_def split: option.splits if_splits)

lemmas ok_intros = keeps_intros ok_os ok_locked ok_sb_mod ok_sb_get ok_on_container ok_storage

section \<open>Every request keeps it\<close>

text \<open>Devices and storages do not touch the table of containers.\<close>

lemma ok_get_device_name: "keeps ok_kept (get_device_name a)"
  unfolding get_device_name_def
  by (intro keeps_bind ok_sb_get) (auto split: option.split intro!: keeps_bind keeps_then keeps_gets
      keeps_ret keeps_throw ok_sb_mod simp: sandbox_ok_def simp del: act_basic)

lemma ok_device_names: "keeps ok_kept (get_scsi_device_name a)" "keeps ok_kept (get_pci_device_name a)"
  unfolding get_scsi_device_name_def get_pci_device_name_def
  by (intro keeps_bind keeps_then ok_os ok_get_device_name; simp)+

lemma ok_device_handler: "DEVICEHANDLERLIST ty = Some h \<Longrightarrow> keeps ok_kept (h d spec)"
  by (auto simp: DEVICEHANDLERLIST_def virtio_blk_device_handler_def virtiommio_blk_device_handler_def
      virtio_nvdimm_device_handler_def virtio_scsi_device_handler_def simp del: act_basic
      intro!: keeps_bind keeps_throw ok_os ok_device_names split: if_splits)

lemma ok_add_devices: "keeps ok_kept (add_devices ds spec)"
proof (induction ds arbitrary: spec)
  case (Cons d ds)
  have "keeps ok_kept (add_device d spec)"
    unfolding add_device_def
    by (auto simp del: act_basic intro: keeps_throw ok_device_handler split: option.split)
  then show ?case by (simp del: act_basic add: keeps_bind Cons)
qed (simp del: act_basic add: keeps_ret)

lemma ok_storage_handler: "STORAGEHANDLERLIST ty = Some h \<Longrightarrow> keeps ok_kept (h st)"
  by (auto simp: STORAGEHANDLERLIST_def virtio_blk_storage_handler_def virtiommio_blk_storage_handler_def
      virtio9p_storage_handler_def virtiofs_storage_handler_def virtio_scsi_storage_handler_def
      ephemeral_storage_handler_def local_storage_handler_def simp del: act_basic
      intro!: ok_locked keeps_bind keeps_then keeps_throw keeps_ret keeps_lift ok_os ok_device_names ok_storage
      split: if_splits option.splits)

lemma ok_add_storages: "keeps ok_kept (add_storages sts)"
proof -
  have "keeps ok_kept (add_storages_loop sts ms)" for ms
    by (induction sts ms rule: add_storages_loop.induct)
      (auto simp del: act_basic intro: keeps_ret keeps_throw keeps_bind ok_storage_handler split: option.split)
  then show ?thesis by (simp add: add_storages_def)
qed

lemma ok_the_process: "keeps ok_kept (the_process cid eid init)"
  by (rule keepsI) (auto simp: the_process_def ok_kept_def)

lemma ok_get_container: "keeps ok_kept (get_container cid)"
  unfolding get_container_def by (intro keeps_gets) simp

text \<open>The container that a request made is stored under its own id.\<close>

lemma make_container_ok: "make_container env cid eid opts spec w = (Ok c, w') \<Longrightarrow> container_ok c"
proof -
  assume run: "make_container env cid eid opts spec w = (Ok c, w')"
  then obtain d p u v where d: "container_new (en_ids env) (en_now env) cid CONTAINER_BASE opts w = (Ok d, u)"
    and c: "start_new env d p v = (Ok c, w')"
    by (auto simp: make_container_def bindR_Ok_iff)
  obtain r x where "container_start (en_join env) (en_startup env) (en_self env) p (d, v) = (r, (c, x))"
    using c by (auto simp: start_new_def map_res_Ok split: prod.splits)
  then have "steady d c" using keepsD [OF container_start_ok] by (fastforce simp: stays_ok_def)
  with container_new_ok [OF d] show ?thesis by (simp add: steady_def)
qed

lemma ok_do_create: "keeps ok_kept (do_create_container env req)"
proof -
  have "keeps ok_kept (set_sandbox (add_container c))" if "container_ok c" for c
    using that by (intro ok_sandbox) (simp add: add_container_def sandbox_ok_store)
  then have made: "keeps ok_kept (bindR (os (make_container env cid eid opts spec)) (\<lambda>c. set_sandbox (add_container c)))"
    for cid eid opts spec
    by (intro keeps_bind_value ok_os) (auto simp: os_def dest: make_container_ok split: prod.splits)
  show ?thesis
    unfolding do_create_container_def Let_def
    by (intro keeps_bind keeps_then keeps_lift ok_os ok_add_devices ok_add_storages ok_locked ok_sandbox keeps_gets made)
      (simp_all add: note_mounts_def sandbox_ok_def)
qed

lemma ok_destroy: "keeps ok_kept (on_container i (container_destroy runs))"
  by (intro ok_on_container container_destroy_ok)

lemma ok_destroy_in_thread: "keeps ok_kept (destroy_in_thread env cid)"
proof (rule keepsI)
  fix s r t assume run: "destroy_in_thread env cid s = (r, t)"
  let ?m = "locked (catchR (on_container cid (container_destroy (en_hooks env))) (\<lambda>_. panicR))"
  obtain q u where u: "?m s = (q, u)" by fastforce
  have "keeps ok_kept ?m" by (intro ok_locked keeps_catch ok_destroy keeps_panic) simp_all
  then have "ok_kept s u" using u by (rule keepsD)
  moreover have "t = u" using run u by (cases q) (auto simp: destroy_in_thread_def)
  ultimately show "ok_kept s t" by simp
qed

lemma in_delete: "x \<in> set (AList.delete k xs) \<Longrightarrow> x \<in> set xs"
  by (simp add: AList.delete_eq)

lemma ok_forget: "sandbox_ok sb \<Longrightarrow> sandbox_ok (forget_container cid sb)"
  by (auto simp: forget_container_def sandbox_ok_def distinct_delete list_all_iff dest: in_delete)

lemma ok_clean: "keeps ok_kept (clean_container cid)"
  unfolding clean_container_def unset_and_remove_sandbox_storage_def
  by (intro keeps_bind keeps_then keeps_gets ok_sandbox ok_forget)
    (auto simp del: act_basic split: option.split
      intro!: keeps_ret keeps_then keeps_bind keeps_for_each keeps_when ok_os ok_storage)

lemma ok_do_remove: "keeps ok_kept (do_remove_container env cid timeout)"
  unfolding do_remove_container_def
  by (auto simp del: act_basic intro!: keeps_then ok_locked ok_destroy ok_clean ok_destroy_in_thread)

lemma ok_do_start: "keeps ok_kept (do_start_container env cid)"
  unfolding do_start_container_def
  by (intro ok_locked keeps_bind ok_get_container)
    (auto simp del: act_basic split: option.split intro: keeps_throw ok_on_container container_exec_ok)

lemma ok_do_exec: "keeps ok_kept (do_exec_process env cid eid process)"
  unfolding do_exec_process_def
  by (rule ok_locked) (auto simp del: act_basic split: option.split
      intro!: keeps_throw keeps_bind ok_os ok_get_container ok_on_container container_run_ok)

lemma ok_do_signal: "keeps ok_kept (do_signal_process cid eid sig)"
  unfolding do_signal_process_def
  by (intro ok_locked keeps_bind ok_the_process)
    (auto simp del: act_basic intro!: keeps_bind keeps_lift ok_os keeps_ret)

text \<open>Changes to one entry of a table of processes.\<close>

lemma table_delete: "table_ok ps \<Longrightarrow> table_ok (AList.delete pid ps)"
  by (auto simp: table_ok_def distinct_delete list_all_iff dest: in_delete)

lemma table_map:
  assumes "\<And>p. p_pid (f p) = p_pid p"
  shows "table_ok (map (\<lambda>(k, p). if k = pid then (k, f p) else (k, p)) ps) = table_ok ps"
proof -
  have "map fst (map (\<lambda>(k, p). if k = pid then (k, f p) else (k, p)) ps) = map fst ps"
    by (induction ps) auto
  moreover have "list_all (\<lambda>(k, p). p_pid p = k) (map (\<lambda>(k, p). if k = pid then (k, f p) else (k, p)) ps)
      = list_all (\<lambda>(k, p). p_pid p = k) ps"
    using assms by (induction ps) (auto split: if_splits)
  ultimately show ?thesis unfolding table_ok_def by (simp only:)
qed

lemma set_process_ok: "(\<And>p. p_pid (f p) = p_pid p) \<Longrightarrow> keeps stays_ok (set_process pid f)"
  unfolding set_process_def
  by (intro keeps_modC) (simp add: steady_def container_ok_def table_map)

lemma reap_process_ok: "keeps stays_ok (reap_process pid)"
  unfolding reap_process_def
  by (intro keeps_bind keeps_then keeps_getC keeps_lift keeps_osC keeps_modC keeps_ret)
    (simp_all add: steady_def container_ok_def table_delete)

lemma ok_wait_begin: "keeps ok_kept (wait_begin cid eid)"
  unfolding wait_begin_def
  by (intro ok_locked keeps_bind ok_the_process) (auto simp del: act_basic intro: keeps_ret)

lemma ok_wait_end: "keeps ok_kept (wait_end cid pid)"
  unfolding wait_end_def by (intro ok_locked ok_on_container reap_process_ok)

lemma ok_do_wait: "keeps ok_kept (do_wait_process cid eid)"
  unfolding do_wait_process_def
  by (intro keeps_bind ok_wait_begin) (auto simp del: act_basic intro!: keeps_then ok_os ok_wait_end)

lemma ok_do_write: "keeps ok_kept (do_write_stream cid eid data)"
  unfolding do_write_stream_def
  by (intro ok_locked keeps_bind ok_the_process) (auto simp del: act_basic intro!: keeps_bind keeps_lift ok_os)

lemma ok_do_read: "keeps ok_kept (do_read_stream env cid eid n stdout)"
  unfolding do_read_stream_def
  by (intro keeps_bind ok_locked ok_the_process)
    (auto simp del: act_basic intro!: keeps_lift keeps_throw ok_os)

lemma ok_respond: "keeps ok_kept m \<Longrightarrow> keeps ok_kept (respond st msg m)"
  unfolding respond_def by (intro keeps_catch keeps_bind keeps_ret) simp_all

lemma ok_list_processes: "keeps ok_kept (list_processes env cid f args)"
  unfolding list_processes_def Let_def
  by (intro ok_locked keeps_bind ok_get_container keeps_lift)
    (auto simp del: act_basic intro!: keeps_bind keeps_lift keeps_ret)

lemma ok_update_container: "keeps ok_kept (update_container cid r)"
  unfolding update_container_def
  by (intro ok_locked ok_respond ok_on_container)
    (auto simp del: act_basic intro: keeps_ret container_set_ok split: option.split)

lemma ok_stats: "keeps ok_kept (stats_container env cid)"
  unfolding stats_container_def
  by (intro ok_locked ok_respond ok_on_container keeps_bind keeps_getC keeps_osC) simp

lemma ok_close_stdin: "keeps ok_kept (close_stdin cid eid)"
  unfolding close_stdin_def
  by (intro ok_locked ok_respond keeps_bind ok_the_process)
    (auto simp del: act_basic intro!: keeps_then ok_os ok_on_container set_process_ok)

lemma ok_tty: "keeps ok_kept (tty_win_resize cid eid r c)"
  unfolding tty_win_resize_def
  by (intro ok_locked keeps_bind keeps_catch ok_the_process keeps_panic)
    (auto simp del: act_basic intro!: keeps_ret ok_respond ok_os split: option.split)

lemma ok_shared_namespaces: "keeps ok_kept (setup_shared_namespaces pid tids)"
  unfolding setup_shared_namespaces_def
  by (intro keeps_bind keeps_then ok_os keeps_ret) (auto simp: keeps_def ok_kept_def sandbox_ok_def)

lemma ok_create_sandbox: "keeps ok_kept (create_sandbox env req)"
  unfolding create_sandbox_def run_all.simps
  by (intro ok_respond keeps_then keeps_bind ok_locked ok_os ok_sandbox keeps_ret ok_shared_namespaces ok_add_storages)
    (simp_all add: name_sandbox_def sandbox_ok_def)

lemma ok_sandbox_destroy: "keeps ok_kept (sandbox_destroy runs)"
  unfolding sandbox_destroy_def by (intro keeps_bind keeps_gets keeps_for_each ok_destroy) simp_all

lemma ok_online: "keeps ok_kept (online_cpu_mem req)"
  unfolding online_cpu_mem_def online_cpu_memory_def run_all.simps
  by (intro ok_locked ok_respond keeps_then keeps_when keeps_bind keeps_gets keeps_for_each ok_os keeps_ret) simp_all

text \<open>The same for the service around the agent.\<close>

definition served_ok :: "service \<Rightarrow> service \<Rightarrow> bool" where
  "served_ok s t \<longleftrightarrow> ok_kept (sv_agent s) (sv_agent t)"

lemma served_ok_rel [simp]: "reflp served_ok" "transp served_ok"
  by (auto simp: served_ok_def ok_kept_def reflp_def intro: transpI)

lemma served_onA: "keeps ok_kept m \<Longrightarrow> keeps served_ok (onA m)"
  by (rule keepsI) (auto simp: onA_def served_ok_def dest: keepsD split: prod.splits)

lemma served_onW: "keeps served_ok (onW m)"
  unfolding onW_def by (intro served_onA ok_os)

lemma served_lockedS: "keeps served_ok m \<Longrightarrow> keeps served_ok (lockedS m)"
proof (rule keepsI)
  fix s r t assume m: "keeps served_ok m" and run: "lockedS m s = (r, t)"
  obtain q u where u: "m s = (q, u)" by fastforce
  have "served_ok s u" using m u by (rule keepsD)
  with run u show "served_ok s t"
    by (cases "ag_lock (sv_agent s)"; cases q) (auto simp: lockedS_def set_lock_def served_ok_def ok_kept_def)
qed

lemma served_onN: "keeps served_ok (onN m)"
  by (rule keepsI) (auto simp: onN_def served_ok_def ok_kept_def split: prod.splits)

lemma served_rtnl: "keeps served_ok (with_rtnl m)"
proof -
  have "keeps served_ok open_rtnl"
    unfolding open_rtnl_def
    by (intro keeps_bind keeps_gets) (auto simp del: act_basic intro: keeps_ret served_onN split: option.split)
  then show ?thesis
    unfolding with_rtnl_def
    by (intro keeps_bind) (auto intro!: keepsI simp: served_ok_def ok_kept_def split: prod.splits)
qed

lemma served_respond: "keeps served_ok m \<Longrightarrow> keeps served_ok (respond st msg m)"
  unfolding respond_def by (intro keeps_catch keeps_bind keeps_ret) simp_all

lemma served_answer: "keeps served_ok m \<Longrightarrow> keeps served_ok (answer f m)"
  unfolding answer_def by (intro keeps_bind keeps_ret) simp_all

lemma ok_answer: "keeps ok_kept m \<Longrightarrow> keeps ok_kept (answer f m)"
  unfolding answer_def by (intro keeps_bind keeps_ret) simp_all

lemmas handlers_ok = ok_do_create ok_do_start ok_do_remove ok_do_exec ok_do_signal ok_do_wait ok_list_processes
  ok_update_container ok_stats ok_do_write ok_do_read ok_close_stdin ok_tty ok_create_sandbox ok_online

lemma destroy_sandbox_ok: "keeps served_ok (destroy_sandbox env)"
  unfolding destroy_sandbox_def
  by (intro served_lockedS keeps_then keeps_bind keeps_gets served_onA keeps_catch ok_sandbox_destroy keeps_panic)
    (auto simp del: act_basic intro!: keeps_panic keeps_then keeps_ret, auto simp: keeps_def served_ok_def ok_kept_def)

lemma network_ok:
  "keeps served_ok (rpc_update_interface env i)" "keeps served_ok (rpc_update_routes env rs)"
  "keeps served_ok (rpc_list_interfaces env)" "keeps served_ok (rpc_list_routes env)"
  unfolding rpc_update_interface_def rpc_update_routes_def rpc_list_interfaces_def rpc_list_routes_def
  by (intro served_lockedS served_respond served_rtnl keeps_bind keeps_lift; simp)+

lemma serve_ok: "keeps served_ok (serve env r)"
proof (cases r)
  case StartTracing
  show ?thesis unfolding StartTracing serve.simps rpc_start_tracing_def
    by (intro keeps_then keeps_ret) (auto simp: keeps_def served_ok_def ok_kept_def)
qed (auto simp del: act_basic intro!: served_onA ok_answer ok_respond handlers_ok served_answer network_ok
    destroy_sandbox_ok served_onW keeps_ret)

section \<open>Runs of the service\<close>

text \<open>The agent starts as \<open>agent_start\<close> does and serves requests, each with parameters of its own.\<close>

definition service_new :: "service \<Rightarrow> bool" where
  "service_new s \<longleftrightarrow> (\<exists>pid s0 fl. agent_start pid s0 = (Ok fl, s))"

inductive served :: "service \<Rightarrow> service \<Rightarrow> bool" where
  request: "served s (snd (serve env r s))"

abbreviation served_all :: "service \<Rightarrow> service \<Rightarrow> bool" where
  "served_all \<equiv> served\<^sup>*\<^sup>*"

lemma sandbox_new_ok:
  assumes "sandbox_new s0 = (Ok (), s)"
  shows "sandbox_ok (ag_sandbox (sv_agent s))" "ag_lock (sv_agent s) = Free"
    "sb_containers (ag_sandbox (sv_agent s)) = []"
  using assms by (auto simp: sandbox_new_def bindR_Ok_iff sandbox_ok_def empty_sandbox_def)

lemma service_new_ok:
  assumes "service_new s"
  shows "sandbox_ok (ag_sandbox (sv_agent s))" "ag_lock (sv_agent s) = Free" "sv_sender s"
    "sb_containers (ag_sandbox (sv_agent s)) = []"
proof -
  obtain pid s0 fl where "agent_start pid s0 = (Ok fl, s)" using assms by (auto simp: service_new_def)
  then obtain a b c q where new: "sandbox_new a = (Ok (), b)"
    and h: "onW (catchR setup_signal_handler (\<lambda>_. panicR)) b = (Ok q, c)"
    and l: "lockedS (modifyR (set_sender True)) c = (Ok (), s)"
    by (auto simp: agent_start_def bindR_Ok_iff thenR_Ok_iff)
  have "ag_sandbox (sv_agent c) = ag_sandbox (sv_agent b)"
    using h by (auto simp: onW_def onA_def os_def split: prod.splits)
  then have ok: "sandbox_ok (ag_sandbox (sv_agent c))" "sb_containers (ag_sandbox (sv_agent c)) = []"
    using sandbox_new_ok [OF new] by simp_all
  have "ag_lock (sv_agent c) = Free \<and> s = set_sender True c"
    using l by (cases "ag_lock (sv_agent c)") (simp_all add: lockedS_def)
  with ok show "sandbox_ok (ag_sandbox (sv_agent s))" "ag_lock (sv_agent s) = Free" "sv_sender s"
    "sb_containers (ag_sandbox (sv_agent s)) = []"
    by (simp_all add: set_sender_def)
qed

interpretation service: safe_system service_new served "\<lambda>s. sandbox_ok (ag_sandbox (sv_agent s))"
proof
  fix s assume "service_new s"
  then show "sandbox_ok (ag_sandbox (sv_agent s))" by (rule service_new_ok)
next
  fix s t assume ok: "sandbox_ok (ag_sandbox (sv_agent s))" and st: "served s t"
  from st show "sandbox_ok (ag_sandbox (sv_agent t))"
    by cases (use serve_ok ok in \<open>auto simp: keeps_def served_ok_def ok_kept_def\<close>)
qed


text \<open>A guest in which the agent starts.\<close>

definition boot :: service where
  "boot = \<lparr>sv_agent = \<lparr>ag_sandbox = empty_sandbox,
       ag_world = quiet\<lparr>files := [''/proc/cmdline'' \<mapsto> [],
         ''/proc/self/mountstats'' \<mapsto> ''device rootfs mounted on / with fstype rootfs'']\<rparr>,
       ag_hotplug = Map.empty, ag_lock = Free\<rparr>,
     sv_rtnl = None, sv_nl = \<lparr>nl_kernel = (\<lambda>_ _. Inr 3), nl_name = (\<lambda>_. (AF_NETLINK, 7, 12)),
       nl_data = (\<lambda>_. \<lparr>dg_pid = 0, dg_trunc = False, dg_data = []\<rparr>), nl_hist = [],
       cur = \<lparr>fd = 0, local_pid = 0, seq = 0, dump = 0\<rparr>\<rparr>, sv_sender = False, sv_test = 0\<rparr>"

lemma boot_fstype:
  "List.map_filter (match_fstype ''/'') (lines ''device rootfs mounted on / with fstype rootfs'') = [''rootfs'']"
  by code_simp

lemma boot_starts: "\<exists>fl. agent_start 2 boot = (Ok fl, snd (agent_start 2 boot))"
  by (simp add: agent_start_def boot_def parse_cmdline_def fs_read_def sandbox_new_def get_mount_fs_type_def
      get_mount_fs_type_from_file_def boot_fstype onW_def onA_def onN_def os_def quiet_def io_sys_def sys_with_def
      bindR_def thenR_def unwrapR_def rtnl_new_def nl_sys_def or_close_def ignoreR_def getsockname_def now_def
      setup_signal_handler_def nix_do_def nix_sys_def catchR_def lockedS_def set_sender_def
      KERNEL_CMDLINE_FILE_def)

lemma service_new_boot: "service_new (snd (agent_start 2 boot))"
  using boot_starts by (auto simp: service_new_def)


end
