(* ===== verification/Rpc_Lock.thy ===== *)
theory Rpc_Lock
  imports Rpc_Props
begin

text \<open>
  The lock of the sandbox. A lock that is poisoned, or held by a thread that never returns, stays so
  for ever, and no request that needs it succeeds any more; and which requests of a client poison it:
  a handler that panics while it holds the lock.
\<close>

section \<open>A lock that is not free\<close>

text \<open>What does not get the lock changes neither the sandbox nor the lock.\<close>

definition frozen :: "agent \<Rightarrow> agent \<Rightarrow> bool" where
  "frozen s t \<longleftrightarrow> (ag_lock s \<noteq> Free \<longrightarrow> ag_lock t = ag_lock s \<and> ag_sandbox t = ag_sandbox s)"

definition never :: "'a ag \<Rightarrow> bool" where
  "never m \<longleftrightarrow> (\<forall>s. ag_lock s \<noteq> Free \<longrightarrow> (\<forall>x. fst (m s) \<noteq> Ok x))"

lemma frozen_rel [simp]: "reflp frozen" "transp frozen"
  by (auto simp: frozen_def reflp_def intro: transpI)

lemma frozen_locked: "keeps frozen (locked m)"
  by (rule keepsI) (auto simp: frozen_def locked_def split: lock.splits prod.splits res.splits)

lemma frozen_os: "keeps frozen (os m)"
  by (rule keepsI) (auto simp: frozen_def os_def split: prod.splits)

lemma never_locked: "never (locked m)"
  by (auto simp: never_def locked_def split: lock.splits)

lemma never_first: "never m \<Longrightarrow> never (bindR m f)"
  by (auto simp: never_def bindR_def split: prod.splits res.splits)

lemma never_later: "keeps frozen m \<Longrightarrow> (\<And>x. never (f x)) \<Longrightarrow> never (bindR m f)"
  unfolding never_def frozen_def keeps_def
  by (auto simp: bindR_def split: prod.splits res.splits)

lemma never_then: "keeps frozen m \<Longrightarrow> never k \<Longrightarrow> never (thenR m k)"
  by (simp add: thenR_def never_later)

lemma frozen_sb: "keeps frozen (sb_get f)" "keeps frozen (sb_mod g)"
  by (simp_all add: sb_get_def sb_mod_def frozen_locked)

lemma frozen_get_device_name: "keeps frozen (get_device_name a)"
  unfolding get_device_name_def
  by (intro keeps_bind frozen_sb) (auto simp del: act_basic split: option.split
      intro!: keeps_bind keeps_then keeps_gets keeps_ret keeps_throw frozen_sb)

lemma frozen_device_names: "keeps frozen (get_scsi_device_name a)" "keeps frozen (get_pci_device_name a)"
  unfolding get_scsi_device_name_def get_pci_device_name_def
  by (intro keeps_bind keeps_then frozen_os frozen_get_device_name; simp)+

lemma frozen_add_devices: "keeps frozen (add_devices ds spec)"
proof (induction ds arbitrary: spec)
  case (Cons d ds)
  have "DEVICEHANDLERLIST ty = Some h \<Longrightarrow> keeps frozen (h d spec)" for ty h
    by (auto simp: DEVICEHANDLERLIST_def virtio_blk_device_handler_def virtiommio_blk_device_handler_def
        virtio_nvdimm_device_handler_def virtio_scsi_device_handler_def simp del: act_basic
        intro!: keeps_bind keeps_throw frozen_os frozen_device_names split: if_splits)
  then have "keeps frozen (add_device d spec)"
    unfolding add_device_def by (auto simp del: act_basic intro: keeps_throw split: option.split)
  then show ?case by (simp del: act_basic add: keeps_bind Cons)
qed (simp del: act_basic add: keeps_ret)

lemma frozen_add_storages: "keeps frozen (add_storages sts)"
proof -
  have h: "STORAGEHANDLERLIST ty = Some h \<Longrightarrow> keeps frozen (h st)" for ty h st
    by (auto simp: STORAGEHANDLERLIST_def virtio_blk_storage_handler_def virtiommio_blk_storage_handler_def
        virtio9p_storage_handler_def virtiofs_storage_handler_def virtio_scsi_storage_handler_def
        ephemeral_storage_handler_def local_storage_handler_def simp del: act_basic
        intro!: frozen_locked keeps_bind keeps_throw frozen_os frozen_device_names split: if_splits)
  have "keeps frozen (add_storages_loop sts ms)" for ms
    by (induction sts ms rule: add_storages_loop.induct)
      (auto simp del: act_basic intro: keeps_ret keeps_throw keeps_bind h split: option.split)
  then show ?thesis by (simp add: add_storages_def)
qed

lemma frozen_respond: "keeps frozen m \<Longrightarrow> keeps frozen (respond st msg m)"
  unfolding respond_def by (intro keeps_catch keeps_bind keeps_ret) simp_all

lemma frozen_answer: "keeps frozen m \<Longrightarrow> keeps frozen (answer f m)"
  unfolding answer_def by (intro keeps_bind keeps_ret) simp_all

lemma destroy_in_thread_blocked:
  "ag_lock s \<noteq> Free \<Longrightarrow> destroy_in_thread env cid s = (Err ETIME_error, s)"
  by (cases "ag_lock s") (simp_all add: destroy_in_thread_def)

lemma frozen_destroy_in_thread: "keeps frozen (destroy_in_thread env cid)"
  by (auto simp: keeps_def frozen_def destroy_in_thread_blocked)

lemma frozen_create: "keeps frozen (do_create_container env req)" and never_create: "never (do_create_container env req)"
  unfolding do_create_container_def Let_def
  by (intro keeps_bind keeps_then never_later never_then keeps_lift frozen_os frozen_add_devices
      frozen_add_storages frozen_locked never_locked; simp)+

lemma frozen_remove: "keeps frozen (do_remove_container env cid timeout)"
  and never_remove: "never (do_remove_container env cid timeout)"
  unfolding do_remove_container_def
  by (auto simp del: act_basic intro!: frozen_locked never_locked never_then frozen_destroy_in_thread keeps_then)

lemma frozen_wait: "keeps frozen (do_wait_process cid eid)" and never_wait: "never (do_wait_process cid eid)"
  unfolding do_wait_process_def wait_begin_def wait_end_def
  by (auto simp del: act_basic intro!: keeps_bind keeps_then frozen_locked frozen_os never_first never_locked)

lemma frozen_read: "keeps frozen (do_read_stream env cid eid n stdout)"
  and never_read: "never (do_read_stream env cid eid n stdout)"
  unfolding do_read_stream_def
  by (auto simp del: act_basic intro!: keeps_bind keeps_throw frozen_locked frozen_os never_first never_locked)

lemma frozen_create_sandbox: "keeps frozen (create_sandbox env req)"
  unfolding create_sandbox_def
  by (intro frozen_respond keeps_then keeps_bind frozen_locked frozen_add_storages) simp_all

text \<open>A handler that is one critical section.\<close>

lemma frozen_sections:
  "keeps frozen (do_start_container env cid)" "keeps frozen (do_exec_process env cid eid process)"
  "keeps frozen (do_signal_process cid eid sig)" "keeps frozen (do_write_stream cid eid data)"
  "keeps frozen (list_processes env cid format args)" "keeps frozen (update_container cid r)"
  "keeps frozen (stats_container env cid)" "keeps frozen (close_stdin cid eid)"
  "keeps frozen (tty_win_resize cid eid row column)" "keeps frozen (online_cpu_mem oreq)"
  unfolding do_start_container_def do_exec_process_def do_signal_process_def do_write_stream_def
    list_processes_def update_container_def stats_container_def close_stdin_def tty_win_resize_def
    online_cpu_mem_def
  by (rule frozen_locked)+

lemma never_sections:
  "never (do_start_container env cid)" "never (do_exec_process env cid eid process)"
  "never (do_signal_process cid eid sig)" "never (do_write_stream cid eid data)"
  "never (list_processes env cid format args)" "never (update_container cid r)"
  "never (stats_container env cid)" "never (close_stdin cid eid)"
  "never (tty_win_resize cid eid row column)" "never (online_cpu_mem oreq)"
  unfolding do_start_container_def do_exec_process_def do_signal_process_def do_write_stream_def
    list_processes_def update_container_def stats_container_def close_stdin_def tty_win_resize_def
    online_cpu_mem_def
  by (rule never_locked)+

lemma never_replies:
  "never (list_processes env cid format args)" "never (update_container cid r)"
  "never (stats_container env cid)" "never (close_stdin cid eid)"
  "never (tty_win_resize cid eid row column)" "never (online_cpu_mem oreq)"
  by (rule never_sections)+

definition frozenS :: "service \<Rightarrow> service \<Rightarrow> bool" where
  "frozenS s t \<longleftrightarrow> frozen (sv_agent s) (sv_agent t)"

lemma frozenS_rel [simp]: "reflp frozenS" "transp frozenS"
  by (auto simp: frozenS_def frozen_def reflp_def intro: transpI)

lemma frozen_onA: "keeps frozen m \<Longrightarrow> keeps frozenS (onA m)"
  by (rule keepsI) (auto simp: onA_def frozenS_def dest: keepsD split: prod.splits)

lemma frozen_lockedS: "keeps frozenS (lockedS m)"
  by (rule keepsI) (auto simp: frozenS_def frozen_def lockedS_def split: lock.splits prod.splits res.splits)

lemma frozenS_answer: "keeps frozenS m \<Longrightarrow> keeps frozenS (answer f m)"
  unfolding answer_def by (intro keeps_bind keeps_ret) simp_all

lemmas frozen_handlers = frozen_create frozen_remove frozen_wait frozen_read frozen_create_sandbox frozen_sections

lemma frozen_network:
  "keeps frozenS (rpc_update_interface env i)" "keeps frozenS (rpc_update_routes env rs)"
  "keeps frozenS (rpc_list_interfaces env)" "keeps frozenS (rpc_list_routes env)"
  "keeps frozenS (destroy_sandbox env)"
  unfolding rpc_update_interface_def rpc_update_routes_def rpc_list_interfaces_def rpc_list_routes_def
    destroy_sandbox_def
  by (intro frozen_lockedS keeps_bind keeps_lift; simp)+

lemma serve_frozen: "keeps frozenS (serve env r)"
proof (cases r)
  case StartTracing
  show ?thesis unfolding StartTracing serve.simps rpc_start_tracing_def
    by (intro keeps_then keeps_ret) (auto simp: keeps_def frozenS_def frozen_def)
qed (auto simp del: act_basic simp: onW_def intro!: frozen_onA frozen_answer frozen_respond frozen_handlers
    frozenS_answer frozen_network frozen_os keeps_ret)

text \<open>An answer with a result, and the handlers that do not give one without the lock.\<close>

definition successful :: "'r reply res \<Rightarrow> bool" where
  "successful r \<longleftrightarrow> (case r of Ok (Success _) \<Rightarrow> True | _ \<Rightarrow> False)"

definition unanswered :: "'r reply ag \<Rightarrow> bool" where
  "unanswered m \<longleftrightarrow> (\<forall>s. ag_lock s \<noteq> Free \<longrightarrow> \<not> successful (fst (m s)))"

lemma successful_simps [simp]:
  "successful (Ok (Success x))" "\<not> successful (Ok (Failure st msg))" "\<not> successful (Ok NoReply)"
  "\<not> successful (Err e)" "\<not> successful Panic" "\<not> successful Hang" "\<not> successful Undefined"
  by (simp_all add: successful_def)

lemma unanswered_never: "never m \<Longrightarrow> unanswered m"
  by (auto simp: never_def unanswered_def successful_def split: res.splits reply.splits)

lemma unanswered_respond: "never m \<Longrightarrow> unanswered (respond st msg m)"
  unfolding never_def unanswered_def
proof (intro allI impI)
  fix s :: agent assume m: "\<forall>s. ag_lock s \<noteq> Free \<longrightarrow> (\<forall>x. fst (m s) \<noteq> Ok x)" and s: "ag_lock s \<noteq> Free"
  obtain q u where "m s = (q, u)" by fastforce
  with m s show "\<not> successful (fst (respond st msg m s))"
    by (cases q) (auto simp: respond_def dest: spec [of _ s])
qed

lemma successful_answer: "successful (fst (answer f m s)) = successful (fst (m s))"
proof -
  obtain q u where m: "m s = (q, u)" by fastforce
  show ?thesis
  proof (cases q)
    case (Ok r)
    with m show ?thesis by (cases r) (auto simp: answer_def)
  qed (use m in \<open>auto simp: answer_def\<close>)
qed

lemma successful_onA: "successful (fst (onA m s)) = successful (fst (m (sv_agent s)))"
  by (simp add: onA_def split: prod.splits)

lemma lockedS_fails: "ag_lock (sv_agent s) \<noteq> Free \<Longrightarrow> \<not> successful (fst (lockedS m s))"
  by (auto simp: lockedS_def split: lock.splits)

fun needs_lock :: "rpc \<Rightarrow> bool" where
  "needs_lock (PauseContainer _) = False"
| "needs_lock (ResumeContainer _) = False"
| "needs_lock StartTracing = False"
| "needs_lock StopTracing = False"
| "needs_lock (ReseedRandomDev _) = False"
| "needs_lock (GetGuestDetails _ _) = False"
| "needs_lock (MemHotplugByProbe _) = False"
| "needs_lock (SetGuestDateTime _ _) = False"
| "needs_lock (CopyFile _) = False"
| "needs_lock HealthCheck = False"
| "needs_lock HealthVersion = False"
| "needs_lock _ = True"

lemma never_create_sandbox: "unanswered (create_sandbox env req)"
  unfolding create_sandbox_def
  by (intro unanswered_respond, unfold thenR_def) (rule never_first, rule never_locked)

lemma network_fails:
  assumes "ag_lock (sv_agent s) \<noteq> Free"
  shows "\<not> successful (fst (rpc_update_interface env i s))" "\<not> successful (fst (rpc_update_routes env rs s))"
    "\<not> successful (fst (rpc_list_interfaces env s))" "\<not> successful (fst (rpc_list_routes env s))"
    "\<not> successful (fst (destroy_sandbox env s))"
proof -
  show "\<not> successful (fst (rpc_update_routes env rs s))"
    using lockedS_fails [OF assms] by (cases rs) (simp_all add: rpc_update_routes_def)
qed (use lockedS_fails [OF assms] in
    \<open>simp_all add: rpc_update_interface_def rpc_list_interfaces_def rpc_list_routes_def destroy_sandbox_def\<close>)

lemma serve_fails:
  assumes "ag_lock (sv_agent s) \<noteq> Free" "needs_lock r"
  shows "\<not> successful (fst (serve env r s))"
proof -
  have h: "unanswered m \<Longrightarrow> \<not> successful (fst (onA (answer f m) s))" for m :: "'r reply ag" and f
    using assms(1) by (simp add: successful_onA successful_answer unanswered_def)
  note answers = unanswered_respond never_create never_remove never_wait never_read never_sections
    never_replies [THEN unanswered_never] never_create_sandbox
  show ?thesis
    using assms by (cases r) (auto intro!: h answers simp: successful_answer network_fails)
qed

section \<open>Properties of the lock\<close>

text \<open>C11: once a handler has panicked or hung while it held the lock of the sandbox, the agent is lost: in
  every later state the lock and the sandbox are the same, and no request that needs the lock is
  answered with success.\<close>
theorem lock_lost_for_ever:
  assumes "ag_lock (sv_agent s) \<noteq> Free" "served_all s t"
  shows "ag_lock (sv_agent t) = ag_lock (sv_agent s) \<and> ag_sandbox (sv_agent t) = ag_sandbox (sv_agent s)
    \<and> (\<forall>env r. needs_lock r \<longrightarrow> \<not> successful (fst (serve env r t)))"
proof -
  have "frozenS s t"
    using assms(2)
  proof induction
    case base
    then show ?case using frozenS_rel(1) by (simp add: reflp_def)
  next
    case (step t u)
    from step.hyps(2) have "frozenS t u" by cases (use serve_frozen in \<open>auto simp: keeps_def\<close>)
    with step.IH show ?case using frozenS_rel(2) by (meson transpD)
  qed
  with assms(1) show ?thesis by (auto simp: frozenS_def frozen_def serve_fails)
qed

lemma boot_free: "ag_lock (sv_agent (snd (agent_start 2 boot))) = Free"
    "sb_containers (ag_sandbox (sv_agent (snd (agent_start 2 boot)))) = []"
  by (simp_all add: service_new_ok [OF service_new_boot])

lemma lock_lost_for_ever_witness:
  "\<forall>env. let s = snd (serve env (RemoveContainer ''c'' 0) (snd (agent_start 2 boot)));
           t = snd (serve env (StartContainer ''c'') s)
     in ag_lock (sv_agent t) = Poisoned \<and> \<not> successful (fst (serve env (StatsContainer ''c'') t))"
proof
  fix env
  let ?s = "snd (serve env (RemoveContainer ''c'' 0) (snd (agent_start 2 boot)))"
  let ?t = "snd (serve env (StartContainer ''c'') ?s)"
  have s: "ag_lock (sv_agent ?s) = Poisoned"
    using boot_free by (simp add: onA_def answer_def respond_def do_remove_container_def locked_def
        on_container_def bindR_def catchR_def thenR_def)
  have "served_all ?s ?t" by (rule r_into_rtranclp) (rule served.request)
  from lock_lost_for_ever [OF _ this] s
  show "let s = ?s; t = snd (serve env (StartContainer ''c'') s)
     in ag_lock (sv_agent t) = Poisoned \<and> \<not> successful (fst (serve env (StatsContainer ''c'') t))"
    by (simp add: Let_def del: serve.simps)
qed

end
