(* ===== verification/Rpc_Requests.thy ===== *)
theory Rpc_Requests
  imports Rpc_Lock
begin

text \<open>
  What single requests do, and short sequences of them: a container that is not there, a signal, the
  end of a process, a stream after it is closed, the removal of a container.
\<close>

section \<open>Requests about a container that is not there\<close>

text \<open>The requests that look their container up first, and how each of them is answered without it.\<close>

fun looks_up :: "rpc \<Rightarrow> string option" where
  "looks_up (StartContainer cid) = Some cid"
| "looks_up (RemoveContainer cid _) = Some cid"
| "looks_up (SignalProcess cid _ _) = Some cid"
| "looks_up (WaitProcess cid _) = Some cid"
| "looks_up (ListProcesses cid _ _) = Some cid"
| "looks_up (UpdateContainer cid r) = (case r of None \<Rightarrow> Some cid | Some _ \<Rightarrow> Some cid)"
| "looks_up (StatsContainer cid) = Some cid"
| "looks_up (WriteStdin cid _ _) = Some cid"
| "looks_up (ReadStdout cid _ _) = Some cid"
| "looks_up (ReadStderr cid _ _) = Some cid"
| "looks_up (CloseStdin cid _) = Some cid"
| "looks_up (TtyWinResize cid _ _ _) = Some cid"
| "looks_up _ = None"

fun answer_without :: "rpc \<Rightarrow> response reply res" where
  "answer_without (StartContainer _) = Ok (Failure Internal ''fail to find container'')"
| "answer_without (RemoveContainer _ t) = (if t = 0 then Panic else Ok (Failure Internal ''fail to remove container''))"
| "answer_without (SignalProcess _ _ _) = Ok (Failure Internal ''fail to signal process!'')"
| "answer_without (WaitProcess _ _) = Ok (Failure Internal ''fail to wait process!'')"
| "answer_without (WriteStdin _ _ _) = Ok (Failure InvalidArgument ''write stream failed'')"
| "answer_without (ReadStdout _ _ _) = Ok (Failure Internal ''failed to read stdout'')"
| "answer_without (ReadStderr _ _ _) = Ok (Failure Internal ''failed to read stderr'')"
| "answer_without (CloseStdin _ _) = Ok (Failure InvalidArgument ''invalid argument'')"
| "answer_without _ = Panic"

text \<open>The requests that unwrap the container while they hold the lock.\<close>

fun unwraps_container :: "rpc \<Rightarrow> bool" where
  "unwraps_container (RemoveContainer _ _) = True"
| "unwraps_container (ListProcesses _ _ _) = True"
| "unwraps_container (UpdateContainer _ _) = True"
| "unwraps_container (StatsContainer _) = True"
| "unwraps_container (TtyWinResize _ _ _ _) = True"
| "unwraps_container _ = False"

lemmas run_defs = bindR_def catchR_def thenR_def

lemma onA_step: "m (sv_agent s) = (r, t) \<Longrightarrow> onA m s = (r, s\<lparr>sv_agent := t\<rparr>)"
  by (simp add: onA_def)

lemma respond_steps:
  "m s = (Ok x, t) \<Longrightarrow> respond st msg m s = (Ok (Success x), t)"
  "m s = (Err e, t) \<Longrightarrow> respond st msg m s = (Ok (Failure st msg), t)"
  "m s = (Panic, t) \<Longrightarrow> respond st msg m s = (Panic, t)"
  by (simp_all add: respond_def)

lemma answer_steps:
  "m s = (Ok r, t) \<Longrightarrow> answer f m s = (Ok (map_reply f r), t)"
  "m s = (Panic, t) \<Longrightarrow> answer f m s = (Panic, t)"
  by (simp_all add: answer_def)

lemma no_process: "map_of (sb_containers sb) cid = None \<Longrightarrow>
    find_process cid eid init sb = Err (ErrorCode ''Invalid container id'')"
  by (simp add: find_process_def)



section \<open>Signals\<close>

text \<open>A line of the status file as the kernel writes it: a tab follows the colon.\<close>

definition kernel_status :: "string \<Rightarrow> bool" where
  "kernel_status status \<longleftrightarrow> list_all (\<lambda>l. prefix ''SigCgt:'' l \<longrightarrow> prefix (''SigCgt:'' @ [CHR 0x09]) l) (lines status)"

lemma tab_is_no_digit: "from_str_radix b 16 (CHR 0x09 # s) = Err Parse"
  by (simp add: from_str_radix_def digit_val_def)

lemma caught_mask_None:
  assumes "kernel_status status"
  shows "caught_mask status = None"
proof (cases "find (prefix ''SigCgt:'') (lines status)")
  case (Some l)
  then have "l \<in> set (lines status)" "prefix ''SigCgt:'' l" by (auto simp: find_Some_iff)
  with assms have "prefix (''SigCgt:'' @ [CHR 0x09]) l" by (simp add: kernel_status_def list_all_iff)
  then obtain m where l: "l = ''SigCgt'' @ CHR '':'' # CHR 0x09 # m" by (auto simp: prefix_def)
  obtain p ps where "split_on CHR '':'' m = p # ps" by (meson split_on_nonempty list.exhaust)
  then have "split_on CHR '':'' l = ''SigCgt'' # (CHR 0x09 # p) # ps"
    unfolding l by (subst split_on_append_sep) simp_all
  with Some show ?thesis by (simp add: caught_mask_def tab_is_no_digit split: list.split)
qed (simp add: caught_mask_def)

text \<open>C39: a first process is never asked to end: whatever signals its status file says it catches, SIGTERM
  is turned into SIGKILL, since the mask is parsed with the tab that the kernel writes in front of it.\<close>
theorem sigterm_kills_init:
  assumes "ag_lock (sv_agent s) = Free" "reliable (ag_world (sv_agent s))"
    and "find_process cid eid True (ag_sandbox (sv_agent s)) = Ok (k, p)" "p_init p"
    and "files (ag_world (sv_agent s)) (status_file (p_pid p)) = Some status" "kernel_status status"
  shows "\<exists>t. serve env (SignalProcess cid eid 15) s = (Ok (Success Empty), t)
    \<and> hist (ag_world (sv_agent t)) = hist (ag_world (sv_agent s))
        @ [FsRead (status_file (p_pid p)), SysKill (p_pid p) SIGKILL]"
proof -
  let ?w = "ag_world (sv_agent s)"
  let ?v = "?w\<lparr>hist := hist ?w @ [FsRead (status_file (p_pid p))]\<rparr>"
  have h: "is_signal_handled (p_pid p) 15 ?w = (Ok False, ?v)"
    using assms(5) by (simp add: is_signal_handled_def Let_def reliable_read [OF assms(2)]
        caught_mask_None [OF assms(6)] run_defs)
  have k: "process_signal p SIGKILL ?v = (Ok (), ?v\<lparr>hist := hist ?v @ [SysKill (p_pid p) SIGKILL]\<rparr>)"
    unfolding process_signal_def by (rule reliable_sys) (use assms(2) in simp)
  have n: "signal_from_int 15 = Some SIGTERM"
    by (simp add: signal_from_int_def SIGTERM_def)
  have p: "the_process cid eid True (sv_agent s) = (Ok (k, p), sv_agent s)"
    using assms(3) by (simp add: the_process_def)
  have "do_signal_process cid eid 15 (sv_agent s) = (Ok (), (sv_agent s)\<lparr>ag_world :=
      ?v\<lparr>hist := hist ?v @ [SysKill (p_pid p) SIGKILL]\<rparr>\<rparr>)"
    using assms(1,4) k by (simp add: do_signal_process_def locked_def p n h os_def run_defs)
  then show ?thesis by (simp add: onA_def answer_def respond_def run_defs)
qed

text \<open>A guest with a container whose only process, with pid 42, catches SIGTERM.\<close>

definition a_process :: Process where
  "a_process = small_process\<lparr>exec_id := ''e'', p_pid := 42, exit_pipe_r := Some 20, exit_pipe_w := Some 21\<rparr>"

definition a_container :: LinuxContainer where
  "a_container = small_container\<lparr>init_process_pid := 42, c_processes := [(42, a_process)]\<rparr>"

definition a_service :: service where
  "a_service = boot\<lparr>sv_agent := \<lparr>ag_sandbox = empty_sandbox\<lparr>sb_containers := [(''c'', a_container)]\<rparr>,
     ag_world = quiet\<lparr>files := [''/proc/42/status'' \<mapsto>
       ''Pid:'' @ CHR 0x09 # ''42'' @ nl # ''SigCgt:'' @ CHR 0x09 # ''0000000000004000'' @ [nl]]\<rparr>,
     ag_hotplug = Map.empty, ag_lock = Free\<rparr>\<rparr>"

lemma a_service_simps [simp]:
  "ag_lock (sv_agent a_service) = Free" "reliable (ag_world (sv_agent a_service))"
  "sb_containers (ag_sandbox (sv_agent a_service)) = [(''c'', a_container)]"
  "c_processes a_container = [(42, a_process)]" "init_process_pid a_container = 42"
  "p_pid a_process = 42" "p_init a_process" "exec_id a_process = ''e''" "term_master a_process = None"
  "exit_code a_process = 0" "exit_pipe_r a_process = Some 20" "exit_pipe_w a_process = Some 21"
  by (simp_all add: a_service_def a_container_def a_process_def small_process_def reliable_def quiet_def)

lemma a_process_found:
  "find_process ''c'' [] True (ag_sandbox (sv_agent a_service)) = Ok (42, a_process)"
  "find_process ''c'' ''e'' False (ag_sandbox (sv_agent a_service)) = Ok (42, a_process)"
  by (simp_all add: find_process_def)

lemma sigterm_kills_init_witness:
  "\<forall>env. \<exists>t. serve env (SignalProcess ''c'' [] 15) a_service = (Ok (Success Empty), t)
    \<and> hist (ag_world (sv_agent t)) = [FsRead ''/proc/42/status'', SysKill 42 SIGKILL]"
proof
  fix env
  let ?st = "''Pid:'' @ CHR 0x09 # ''42'' @ nl # ''SigCgt:'' @ CHR 0x09 # ''0000000000004000'' @ [nl]"
  have path: "status_file 42 = ''/proc/42/status''" by code_simp
  have f: "files (ag_world (sv_agent a_service)) (status_file (p_pid a_process)) = Some ?st"
    unfolding a_service_simps path by (simp add: a_service_def)
  have k: "kernel_status ?st" by code_simp
  have "hist (ag_world (sv_agent a_service)) = []" by (simp add: a_service_def quiet_def)
  with sigterm_kills_init [OF _ _ a_process_found(1) _ f k, of env]
  show "\<exists>t. serve env (SignalProcess ''c'' [] 15) a_service = (Ok (Success Empty), t)
    \<and> hist (ag_world (sv_agent t)) = [FsRead ''/proc/42/status'', SysKill 42 SIGKILL]"
    by (simp add: path del: serve.simps)
qed

section \<open>Streams\<close>

lemma find_process_exec:
  "find_process cid eid False sb = Ok (k, p) \<longleftrightarrow> (\<exists>c. map_of (sb_containers sb) cid = Some c
     \<and> find (\<lambda>(_, p). eid = exec_id p) (c_processes c) = Some (k, p))"
  by (auto simp: find_process_def split: option.split)

text \<open>A change of the entry \<open>k\<close> that keeps the exec ids: the same entry is found again, changed.\<close>

lemma find_changed:
  assumes "find (\<lambda>(_, p). eid = exec_id p) ps = Some (k, p)" "\<And>p. exec_id (f p) = exec_id p"
  shows "find (\<lambda>(_, p). eid = exec_id p) (map (\<lambda>(i, p). if i = k then (i, f p) else (i, p)) ps) = Some (k, f p)"
  using assms by (induction ps) (auto split: if_splits)

lemma locked_OkD: "locked m s = (Ok x, t) \<Longrightarrow> ag_lock s = Free \<and> m s = (Ok x, t)"
  by (auto simp: locked_def split: lock.splits prod.splits res.splits)

lemma respond_SuccessD: "respond st msg m s = (Ok (Success x), t) \<Longrightarrow> m s = (Ok x, t)"
  by (auto simp: respond_def catchR_def bindR_def split: prod.splits res.splits)

lemma answer_SuccessD: "answer f m s = (Ok (Success y), t) \<Longrightarrow> \<exists>x. m s = (Ok (Success x), t) \<and> y = f x"
  by (auto simp: answer_def bindR_Ok_iff) (metis map_reply.simps reply.distinct reply.exhaust reply.inject(1))

lemma onA_OkD: "onA m s = (Ok x, t) \<Longrightarrow> m (sv_agent s) = (Ok x, sv_agent t) \<and> t = s\<lparr>sv_agent := sv_agent t\<rparr>"
  by (auto simp: onA_def split: prod.splits)

lemmas success_dests = onA_OkD answer_SuccessD respond_SuccessD locked_OkD bindR_OkD thenR_OkD

text \<open>After its input is closed a process is still found, without a descriptor to write to.\<close>

lemma closed_stdin:
  assumes "close_stdin cid eid s = (Ok (Success x), t)"
  shows "ag_lock t = Free \<and> (\<exists>k p. find_process cid eid False (ag_sandbox t) = Ok (k, p) \<and> write_fd p = Panic)"
proof -
  have free: "ag_lock s = Free" and run: "bindR (the_process cid eid False) (\<lambda>(k, p).
      thenR (os (run_all [close_opt (term_master p), close_opt (parent_stdin p)]))
        (on_container cid (set_process k (\<lambda>p. p\<lparr>term_master := None, parent_stdin := None\<rparr>)))) s = (Ok x, t)"
    using assms by (auto simp: close_stdin_def dest!: locked_OkD respond_SuccessD)
  then obtain k p u where f: "find_process cid eid False (ag_sandbox s) = Ok (k, p)"
    and o: "\<exists>r. os (run_all [close_opt (term_master p), close_opt (parent_stdin p)]) s = (Ok r, u)"
    and c: "on_container cid (set_process k (\<lambda>p. p\<lparr>term_master := None, parent_stdin := None\<rparr>)) u = (Ok x, t)"
    by (auto simp: the_process_def bindR_Ok_iff thenR_Ok_iff)
  have u: "ag_sandbox u = ag_sandbox s" "ag_lock u = Free"
    using o free by (auto simp: os_def split: prod.splits)
  obtain d where d: "map_of (sb_containers (ag_sandbox s)) cid = Some d"
    and fd: "find (\<lambda>(_, p). eid = exec_id p) (c_processes d) = Some (k, p)"
    using f by (auto simp: find_process_exec)
  show ?thesis
    using c d u find_changed [OF fd, of "\<lambda>p. p\<lparr>term_master := None, parent_stdin := None\<rparr>"]
    by (auto simp: on_container_def set_process_def modC_def find_process_exec write_fd_def Let_def update_conv')
qed

text \<open>Writing to a process after its input was closed is not an error for the client that does it: the
  handler unwraps the missing descriptor under the lock, and the sandbox is lost.\<close>
lemma write_after_close:
  assumes "serve env (CloseStdin cid eid) s = (Ok (Success x), t)"
  shows "serve env' (WriteStdin cid eid chars) t = (Panic, set_lock Poisoned t)"
proof -
  have "close_stdin cid eid (sv_agent s) = (Ok (Success ()), sv_agent t)"
    using assms by (auto dest!: onA_OkD answer_SuccessD)
  from closed_stdin [OF this] obtain k p where free: "ag_lock (sv_agent t) = Free"
    and f: "find_process cid eid False (ag_sandbox (sv_agent t)) = Ok (k, p)" and fd: "write_fd p = Panic" by auto
  have "do_write_stream cid eid chars (sv_agent t) = (Panic, (sv_agent t)\<lparr>ag_lock := Poisoned\<rparr>)"
    using free by (simp add: do_write_stream_def locked_def the_process_def f fd run_defs)
  then show ?thesis by (simp add: onA_def answer_def respond_def run_defs set_lock_def)
qed

lemma close_opt_run: "close_opt x w = (Ok (), w\<lparr>hist := hist w @ (case x of None \<Rightarrow> [] | Some f \<Rightarrow> [SysClose f])\<rparr>)"
  by (cases x) (auto simp: close_opt_def ignoreR_def nix_do_def nix_sys_def sys_with_def Let_def run_defs split: sum.split)

lemma write_after_close_witness:
  "\<forall>env. \<exists>t. serve env (CloseStdin ''c'' ''e'') a_service = (Ok (Success Empty), t)
    \<and> serve env (WriteStdin ''c'' ''e'' ''x'') t = (Panic, set_lock Poisoned t)"
proof
  fix env
  have "\<exists>t. serve env (CloseStdin ''c'' ''e'') a_service = (Ok (Success Empty), t)"
    by (simp add: close_stdin_def locked_def the_process_def a_process_found os_def close_opt_run on_container_def
        set_process_def modC_def onA_def answer_def respond_def run_defs)
  with write_after_close [of env "''c''" "''e''" a_service Empty _ env "''x''"]
  show "\<exists>t. serve env (CloseStdin ''c'' ''e'') a_service = (Ok (Success Empty), t)
    \<and> serve env (WriteStdin ''c'' ''e'' ''x'') t = (Panic, set_lock Poisoned t)" by blast
qed

section \<open>The end of a process\<close>

text \<open>The descriptors of a process that the agent closes when it is waited for.\<close>

definition held_fds :: "Process \<Rightarrow> int list" where
  "held_fds p = List.map_filter id
     [parent_stdin p, parent_stdout p, parent_stderr p, term_master p, exit_pipe_r p]"

lemma close_list: "run_all (map close_opt xs) w = (Ok (), w\<lparr>hist := hist w @ map SysClose (List.map_filter id xs)\<rparr>)"
proof (induction xs arbitrary: w)
  case (Cons x xs)
  then show ?case by (cases x) (simp_all add: close_opt_run)
qed simp

lemma reap_run:
  assumes "map_of (c_processes c) pid = Some p"
  shows "reap_process pid (c, w) = (Ok (exit_code p),
    c\<lparr>c_processes := AList.delete pid (c_processes c)\<rparr>, w\<lparr>hist := hist w @ map SysClose (held_fds p)\<rparr>)"
  using assms close_list [of "[parent_stdin p, parent_stdout p, parent_stderr p, term_master p, exit_pipe_r p]" w]
  by (simp add: reap_process_def getC_def osC_def modC_def held_fds_def run_defs)

lemma reap_missing: "map_of (c_processes c) pid = None \<Longrightarrow> reap_process pid (c, w) = (Panic, c, w)"
  by (simp add: reap_process_def getC_def run_defs)

definition without_process :: "string \<Rightarrow> int \<Rightarrow> Sandbox \<Rightarrow> Sandbox" where
  "without_process cid pid sb = (case map_of (sb_containers sb) cid of None \<Rightarrow> sb
   | Some c \<Rightarrow> sb\<lparr>sb_containers := AList.update cid (c\<lparr>c_processes := AList.delete pid (c_processes c)\<rparr>)
       (sb_containers sb)\<rparr>)"

lemma wait_end_run:
  assumes "ag_lock s = Free" "map_of (sb_containers (ag_sandbox s)) cid = Some c" "map_of (c_processes c) pid = Some p"
  shows "wait_end cid pid s = (Ok (exit_code p), s\<lparr>ag_sandbox := without_process cid pid (ag_sandbox s),
    ag_world := (ag_world s)\<lparr>hist := hist (ag_world s) @ map SysClose (held_fds p)\<rparr>\<rparr>)"
  using assms by (simp add: wait_end_def on_container_def reap_run without_process_def Let_def)

text \<open>In a sandbox of its type, the process that is found is the one stored under its pid.\<close>

lemma found_stored:
  assumes "sandbox_ok sb" "find_process cid eid init sb = Ok (k, p)"
  obtains c where "map_of (sb_containers sb) cid = Some c" "map_of (c_processes c) k = Some p" "p_pid p = k"
proof -
  obtain c where c: "map_of (sb_containers sb) cid = Some c"
    using assms(2) by (auto simp: find_process_def split: option.splits)
  have "container_ok c" using map_of_SomeD [OF c] assms(1) by (auto simp: sandbox_ok_def list_all_iff)
  then have ok: "distinct (map fst (c_processes c))" "\<forall>(i, q) \<in> set (c_processes c). p_pid q = i"
    by (simp_all add: container_ok_def table_ok_def list_all_iff)
  have "(k, p) \<in> set (c_processes c)"
    using assms(2) c by (auto simp: find_process_def find_Some_iff split: option.splits if_splits dest: map_of_SomeD nth_mem)
  with ok have "map_of (c_processes c) k = Some p" "p_pid p = k" by auto
  with c show ?thesis by (rule that)
qed

lemma wait_begin_run:
  assumes "ag_lock s = Free" "find_process cid eid False (ag_sandbox s) = Ok (k, p)"
  shows "wait_begin cid eid s = (Ok (p_pid p, case exit_pipe_r p of None \<Rightarrow> - 1 | Some f \<Rightarrow> f), s)"
  using assms by (simp add: wait_begin_def locked_def the_process_def run_defs)

lemma wait_read_run: "\<exists>h. os (wait_read f) s = (Ok (), s\<lparr>ag_world := (ag_world s)\<lparr>hist := h\<rparr>\<rparr>)"
  by (cases "f = - 1") (auto simp: wait_read_def os_def ignoreR_def nix_do_def nix_sys_def sys_with_def
      Let_def run_defs split: sum.split intro: exI [of _ "hist (ag_world s)"])

text \<open>One request for a process: the exit code that is stored, and the process is gone.\<close>

lemma wait_run:
  assumes "ag_lock s = Free" "sandbox_ok (ag_sandbox s)" "find_process cid eid False (ag_sandbox s) = Ok (k, p)"
  shows "\<exists>h. do_wait_process cid eid s = (Ok (exit_code p), s\<lparr>ag_sandbox := without_process cid k (ag_sandbox s),
    ag_world := (ag_world s)\<lparr>hist := h @ map SysClose (held_fds p)\<rparr>\<rparr>)"
proof -
  obtain c where c: "map_of (sb_containers (ag_sandbox s)) cid = Some c" "map_of (c_processes c) k = Some p"
    and k: "p_pid p = k" using assms(2,3) by (rule found_stored)
  let ?f = "case exit_pipe_r p of None \<Rightarrow> - 1 | Some f \<Rightarrow> f"
  obtain h where r: "os (wait_read ?f) s = (Ok (), s\<lparr>ag_world := (ag_world s)\<lparr>hist := h\<rparr>\<rparr>)"
    using wait_read_run by blast
  have "wait_end cid k (s\<lparr>ag_world := (ag_world s)\<lparr>hist := h\<rparr>\<rparr>) = (Ok (exit_code p),
      s\<lparr>ag_sandbox := without_process cid k (ag_sandbox s),
        ag_world := (ag_world s)\<lparr>hist := h @ map SysClose (held_fds p)\<rparr>\<rparr>)"
    using wait_end_run [of "s\<lparr>ag_world := (ag_world s)\<lparr>hist := h\<rparr>\<rparr>" cid c k p] assms(1) c by simp
  then show ?thesis using wait_begin_run [OF assms(1,3)] r k
    by (auto simp: do_wait_process_def run_defs)
qed

text \<open>Two clients that wait for one process: the first one to be woken gets the exit code and takes the
  process away; the other one then finds nothing under the pid it has noted, panics under the lock and
  poisons it.\<close>
lemma second_waiter_poisons:
  assumes "ag_lock s = Free" "sandbox_ok (ag_sandbox s)" "wait_begin cid eid s = (Ok (pid, f), s)"
    and "do_wait_process cid eid s = (Ok xc, t)"
  shows "wait_end cid pid t = (Panic, t\<lparr>ag_lock := Poisoned\<rparr>)"
proof -
  obtain k p where f: "find_process cid eid False (ag_sandbox s) = Ok (k, p)"
    using assms(3) by (auto simp: wait_begin_def the_process_def bindR_Ok_iff dest!: locked_OkD)
  obtain c where c: "map_of (sb_containers (ag_sandbox s)) cid = Some c" and k: "p_pid p = k"
    using assms(2) f by (rule found_stored)
  have "pid = k" using assms(3) wait_begin_run [OF assms(1) f] k by simp
  moreover obtain h where "t = s\<lparr>ag_sandbox := without_process cid k (ag_sandbox s),
      ag_world := (ag_world s)\<lparr>hist := h\<rparr>\<rparr>"
    using wait_run [OF assms(1,2) f] assms(4) by auto
  ultimately show ?thesis
    using assms(1) c reap_missing [of "c\<lparr>c_processes := AList.delete k (c_processes c)\<rparr>" k]
    by (simp add: wait_end_def locked_def on_container_def without_process_def update_conv' delete_conv' Let_def)
qed

lemma second_waiter_poisons_witness:
  "\<exists>t. do_wait_process ''c'' ''e'' (sv_agent a_service) = (Ok 0, t) \<and> wait_end ''c'' 42 t = (Panic, t\<lparr>ag_lock := Poisoned\<rparr>)"
proof -
  have ok: "sandbox_ok (ag_sandbox (sv_agent a_service))"
    by (simp add: sandbox_ok_def container_ok_def table_ok_def status_ok_def)
      (simp add: a_container_def small_container_def)
  note b = wait_begin_run [OF _ a_process_found(2), simplified]
  obtain t where t: "do_wait_process ''c'' ''e'' (sv_agent a_service) = (Ok 0, t)"
    using wait_run [OF _ ok a_process_found(2)] by auto
  from second_waiter_poisons [OF _ ok b t] t show ?thesis by auto
qed

section \<open>Removing a container\<close>

text \<open>The containers other than \<open>cid\<close>, and the mounts noted for them, are not touched.\<close>

definition others_kept :: "string \<Rightarrow> agent \<Rightarrow> agent \<Rightarrow> bool" where
  "others_kept cid s t \<longleftrightarrow> (\<forall>i. i \<noteq> cid \<longrightarrow>
     map_of (sb_containers (ag_sandbox t)) i = map_of (sb_containers (ag_sandbox s)) i
     \<and> map_of (sb_container_mounts (ag_sandbox t)) i = map_of (sb_container_mounts (ag_sandbox s)) i)"

lemma others_rel [simp]: "reflp (others_kept cid)" "transp (others_kept cid)"
  by (auto simp: others_kept_def reflp_def intro: transpI)

lemma others_os: "keeps (others_kept cid) (os m)"
  by (rule keepsI) (auto simp: others_kept_def dest: os_keeps_sandbox)

lemma others_locked: "keeps (others_kept cid) m \<Longrightarrow> keeps (others_kept cid) (locked m)"
proof (rule keepsI)
  fix s r t assume m: "keeps (others_kept cid) m" and run: "locked m s = (r, t)"
  obtain q u where u: "m s = (q, u)" by fastforce
  have "others_kept cid s u" using m u by (rule keepsD)
  with run u show "others_kept cid s t"
    by (cases "ag_lock s"; cases q) (auto simp: locked_def others_kept_def)
qed

lemma others_container: "keeps (others_kept cid) (on_container cid m)"
  by (rule keepsI)
    (auto simp: others_kept_def on_container_def Let_def update_conv' split: option.splits prod.splits)

lemma others_storage: "keeps (others_kept cid) (unset_and_remove_sandbox_storage m)"
proof -
  have "keeps (others_kept cid) (sb_run (unset_sandbox_storage m))"
    by (auto intro!: keepsI simp: sb_run_def unset_sandbox_storage_def others_kept_def Let_def
        split: option.splits if_splits)
  then show ?thesis
    unfolding unset_and_remove_sandbox_storage_def
    by (auto simp del: act_basic intro!: keeps_bind keeps_when keeps_then keeps_ret others_os)
qed

lemma others_clean: "keeps (others_kept cid) (clean_container cid)"
proof -
  have "keeps (others_kept cid) (set_sandbox (forget_container cid))"
    by (rule keepsI) (auto simp: set_sandbox_def forget_container_def others_kept_def delete_conv')
  then show ?thesis
    unfolding clean_container_def
    by (auto simp del: act_basic split: option.split
        intro!: keeps_bind keeps_then keeps_gets keeps_ret keeps_for_each others_os others_storage)
qed

lemma others_remove: "keeps (others_kept cid) (do_remove_container env cid timeout)"
proof -
  have "keeps (others_kept cid) (destroy_in_thread env cid)"
  proof (rule keepsI)
    fix s r t assume run: "destroy_in_thread env cid s = (r, t)"
    let ?m = "locked (catchR (on_container cid (container_destroy (en_hooks env))) (\<lambda>_. panicR))"
    obtain q u where u: "?m s = (q, u)" by fastforce
    have "keeps (others_kept cid) ?m" by (intro others_locked keeps_catch others_container keeps_panic) simp_all
    then have "others_kept cid s u" using u by (rule keepsD)
    moreover have "t = u" using run u by (cases q) (auto simp: destroy_in_thread_def)
    ultimately show "others_kept cid s t" by simp
  qed
  then show ?thesis
    unfolding do_remove_container_def
    by (auto simp del: act_basic intro!: keeps_then others_locked others_container others_clean)
qed

lemma cleaned: "clean_container cid s = (Ok x, t) \<Longrightarrow>
    map_of (sb_containers (ag_sandbox t)) cid = None \<and> map_of (sb_container_mounts (ag_sandbox t)) cid = None"
  by (auto simp: clean_container_def bindR_Ok_iff thenR_Ok_iff set_sandbox_def forget_container_def delete_conv')



end
