(* ===== verification/Reaper.thy ===== *)
theory Reaper
  imports Rpc_Requests
begin

text \<open>
  The thread of \<open>src/main.rs\<close> (\<open>setup_signal_handler\<close>) that collects the children of the agent, and the
  protocol between it and \<open>wait_process\<close>: the reaper stores the exit code and closes its end of the exit
  pipe, both under the lock; the client's thread reads the other end without the lock and then takes
  the process out of the table.
\<close>

section \<open>The reaper\<close>

text \<open>\<open>WaitStatus\<close> of the \<open>nix\<close> package: an exit, a signal, another change of state of a process.\<close>

datatype wait_status = Exited int int | Signaled int int | OtherChange int | StillAlive

fun ws_pid :: "wait_status \<Rightarrow> int option" where
  "ws_pid (Exited pid _) = Some pid"
| "ws_pid (Signaled pid _) = Some pid"
| "ws_pid (OtherChange pid) = Some pid"
| "ws_pid StillAlive = None"

fun ws_code :: "wait_status \<Rightarrow> int option" where
  "ws_code (Exited _ c) = Some c"
| "ws_code (Signaled _ sig) = Some sig"
| "ws_code _ = None"

definition reap_child :: "wait_status \<Rightarrow> unit ag" where
  "reap_child st = (case ws_pid st of None \<Rightarrow> ret ()
   | Some pid \<Rightarrow> locked (bindR (getsR (\<lambda>s. find_process_pid pid (ag_sandbox s))) (\<lambda>found. case found of
       None \<Rightarrow> ret ()
     | Some (i, p) \<Rightarrow> (case exit_pipe_w p of None \<Rightarrow> ret ()
         | Some pipe_write \<Rightarrow> (case ws_code st of None \<Rightarrow> ret ()
             | Some c \<Rightarrow> thenR (on_container i (set_process pid (\<lambda>p. p\<lparr>exit_code := c\<rparr>)))
                 (os (ignoreR (nix_do (SysClose pipe_write)))))))))"

text \<open>The inner loop, on the answers of \<open>waitpid\<close>: it ends when no child is left to collect, or with an error.\<close>

fun reap_loop :: "wait_status res list \<Rightarrow> unit ag" where
  "reap_loop [] = ret ()"
| "reap_loop (a # as) = (case a of Ok st \<Rightarrow> if st = StillAlive then ret () else thenR (reap_child st) (reap_loop as)
     | _ \<Rightarrow> ret ())"

section \<open>The table of processes\<close>

definition process_at :: "Sandbox \<Rightarrow> string \<times> int \<Rightarrow> Process option" where
  "process_at sb = (\<lambda>(i, pid). case map_of (sb_containers sb) i of None \<Rightarrow> None
     | Some c \<Rightarrow> map_of (c_processes c) pid)"

lemma map_of_changed:
  "map_of (map (\<lambda>(i, p). if i = k then (i, f p) else (i, p)) ps) = (\<lambda>x. if x = k then map_option f (map_of ps k) else map_of ps x)"
  by (induction ps) (auto simp: fun_eq_iff)

lemma process_at_changed:
  assumes "map_of (sb_containers sb) i = Some c"
  shows "process_at (sb\<lparr>sb_containers := AList.update i d (sb_containers sb)\<rparr>)
    = (\<lambda>(j, pid). if j = i then map_of (c_processes d) pid else process_at sb (j, pid))"
  using assms by (auto simp: process_at_def fun_eq_iff update_conv')

lemma find_process_pid_at:
  assumes "find_process_pid pid sb = Some (i, p)" "distinct (map fst (sb_containers sb))"
  shows "process_at sb (i, pid) = Some p"
proof -
  obtain c where f: "find (\<lambda>(_, c). map_of (c_processes c) pid \<noteq> None) (sb_containers sb) = Some (i, c)"
    and p: "map_of (c_processes c) pid = Some p"
    using assms(1) by (auto simp: find_process_pid_def split: option.splits)
  have "(i, c) \<in> set (sb_containers sb)" using f by (auto simp: find_Some_iff dest: nth_mem)
  with assms(2) p show ?thesis by (simp add: process_at_def)
qed

text \<open>What the reaper does with the status of a process that it knows.\<close>

lemma reap_child_run:
  assumes "ag_lock s = Free" "ws_pid st = Some pid" "find_process_pid pid (ag_sandbox s) = Some (i, p)"
    and "distinct (map fst (sb_containers (ag_sandbox s)))" "exit_pipe_w p = Some w" "ws_code st = Some c"
  shows "\<exists>t. reap_child st s = (Ok (), t) \<and> ag_lock t = Free
    \<and> process_at (ag_sandbox t) = (process_at (ag_sandbox s))((i, pid) \<mapsto> p\<lparr>exit_code := c\<rparr>)
    \<and> hist (ag_world t) = hist (ag_world s) @ [SysClose w]"
proof -
  have at: "process_at (ag_sandbox s) (i, pid) = Some p" using find_process_pid_at assms(3,4) .
  then obtain d where d: "map_of (sb_containers (ag_sandbox s)) i = Some d" "map_of (c_processes d) pid = Some p"
    by (auto simp: process_at_def split: option.splits)
  let ?d = "d\<lparr>c_processes := map (\<lambda>(k, q). if k = pid then (k, q\<lparr>exit_code := c\<rparr>) else (k, q)) (c_processes d)\<rparr>"
  let ?s = "s\<lparr>ag_sandbox := (ag_sandbox s)\<lparr>sb_containers := AList.update i ?d (sb_containers (ag_sandbox s))\<rparr>\<rparr>"
  have c: "on_container i (set_process pid (\<lambda>p. p\<lparr>exit_code := c\<rparr>)) s = (Ok (), ?s)"
    using d by (simp add: on_container_def set_process_def modC_def Let_def)
  have w: "os (ignoreR (nix_do (SysClose w))) ?s = (Ok (), ?s\<lparr>ag_world := (ag_world s)\<lparr>hist := hist (ag_world s) @ [SysClose w]\<rparr>\<rparr>)"
    by (auto simp: os_def ignoreR_def nix_do_def nix_sys_def sys_with_def Let_def run_defs split: sum.split)
  have i: "process_at (ag_sandbox s) (i, k) = map_of (c_processes d) k" for k using d by (simp add: process_at_def)
  have "process_at (ag_sandbox ?s) = (process_at (ag_sandbox s))((i, pid) \<mapsto> p\<lparr>exit_code := c\<rparr>)"
    using d i by (auto simp: process_at_changed [OF d(1)] map_of_changed fun_eq_iff)
  then show ?thesis
    using assms c w by (simp add: reap_child_def)
qed

text \<open>The other statuses and processes: nothing is changed.\<close>

lemma reap_child_skips:
  assumes "reap_child st s = (Ok x, t)" "\<nexists>pid i p w c. ws_pid st = Some pid
    \<and> find_process_pid pid (ag_sandbox s) = Some (i, p) \<and> exit_pipe_w p = Some w \<and> ws_code st = Some c"
  shows "t = s"
  using assms by (auto simp: reap_child_def split: option.splits dest!: locked_OkD)

section \<open>Waiting for a process\<close>

text \<open>
  One client's \<open>wait_process\<close> for the process \<open>eid\<close> of the container \<open>cid\<close>, among the reaper, the starts
  of processes and the other clients that wait. \<open>ws_eof\<close> are the read ends of exit pipes whose write
  end is closed, which is what a read on them waits for; \<open>ws_status\<close> is the exit status that \<open>waitpid\<close>
  gave for the process in an entry; \<open>ws_reading\<close> is what the client has noted, when it is reading.
\<close>

record waiting =
  ws_agent :: agent
  ws_eof :: "int set"
  ws_status :: "string \<times> int \<Rightarrow> int option"
  ws_reading :: "(int \<times> int) option"

abbreviation table :: "waiting \<Rightarrow> string \<times> int \<Rightarrow> Process option" where
  "table s \<equiv> process_at (ag_sandbox (ws_agent s))"

definition pipe_end :: "Process \<Rightarrow> int set" where
  "pipe_end p = set_option (exit_pipe_r p)"

text \<open>What the end of a child means for the pipe and the record, as the state is before it is collected.\<close>

definition noted :: "wait_status \<Rightarrow> waiting \<Rightarrow> waiting" where
  "noted st s = (case ws_pid st of None \<Rightarrow> s
   | Some pid \<Rightarrow> (case find_process_pid pid (ag_sandbox (ws_agent s)) of None \<Rightarrow> s
     | Some (i, p) \<Rightarrow> (case exit_pipe_w p of None \<Rightarrow> s
       | Some _ \<Rightarrow> (case ws_code st of None \<Rightarrow> s
         | Some c \<Rightarrow> s\<lparr>ws_eof := ws_eof s \<union> pipe_end p, ws_status := (ws_status s)((i, pid) \<mapsto> c)\<rparr>))))"

inductive wait_step :: "string \<Rightarrow> string \<Rightarrow> waiting \<Rightarrow> waiting \<Rightarrow> bool" for cid eid where
  begins: "ws_reading s = None \<Longrightarrow> wait_begin cid eid (ws_agent s) = (Ok r, a) \<Longrightarrow>
    wait_step cid eid s (s\<lparr>ws_agent := a, ws_reading := Some r\<rparr>)"
| reaps: "reap_child st (ws_agent s) = (Ok (), a) \<Longrightarrow> wait_step cid eid s ((noted st s)\<lparr>ws_agent := a\<rparr>)"
| starts: "on_container i (modC (store_process p)) (ws_agent s) = (Ok (), a) \<Longrightarrow> table s (i, p_pid p) = None \<Longrightarrow>
    exit_pipe_r p = Some r \<Longrightarrow> r \<notin> ws_eof s \<Longrightarrow> (\<forall>x q. table s x = Some q \<longrightarrow> r \<notin> pipe_end q) \<Longrightarrow>
    wait_step cid eid s (s\<lparr>ws_agent := a, ws_status := (ws_status s)((i, p_pid p) := None)\<rparr>)"
| collects: "table s (i, pid) = Some p \<Longrightarrow> wait_end i pid (ws_agent s) = (Ok c, a) \<Longrightarrow>
    i \<noteq> cid \<or> map_option fst (ws_reading s) \<noteq> Some pid \<Longrightarrow>
    wait_step cid eid s (s\<lparr>ws_agent := a, ws_eof := ws_eof s - pipe_end p\<rparr>)"
| calls: "os (m :: unit io) (ws_agent s) = (Ok x, a) \<Longrightarrow> wait_step cid eid s (s\<lparr>ws_agent := a\<rparr>)"

definition wait_init :: "waiting \<Rightarrow> bool" where
  "wait_init s \<longleftrightarrow> sandbox_ok (ag_sandbox (ws_agent s)) \<and> (\<forall>x. table s x = None) \<and> ws_eof s = {} \<and> ws_reading s = None"

text \<open>The invariant, over the table of processes.\<close>

definition table_inv :: "string \<Rightarrow> (string \<times> int \<Rightarrow> Process option) \<Rightarrow> int set \<Rightarrow> (string \<times> int \<Rightarrow> int option)
    \<Rightarrow> (int \<times> int) option \<Rightarrow> bool" where
  "table_inv cid tab eof status reading \<longleftrightarrow>
     (\<forall>x p. tab x = Some p \<longrightarrow> (\<exists>r. exit_pipe_r p = Some r \<and> (r \<in> eof \<longrightarrow> status x = Some (exit_code p))))
     \<and> (\<forall>x y p q. tab x = Some p \<longrightarrow> tab y = Some q \<longrightarrow> exit_pipe_r p = exit_pipe_r q \<longrightarrow> x = y)
     \<and> (\<forall>pid f. reading = Some (pid, f) \<longrightarrow> (\<exists>p. tab (cid, pid) = Some p \<and> exit_pipe_r p = Some f))"

definition wait_inv :: "string \<Rightarrow> waiting \<Rightarrow> bool" where
  "wait_inv cid s \<longleftrightarrow> sandbox_ok (ag_sandbox (ws_agent s))
     \<and> table_inv cid (table s) (ws_eof s) (ws_status s) (ws_reading s)"

lemma table_invI:
  assumes "\<And>x p. tab x = Some p \<Longrightarrow> \<exists>r. exit_pipe_r p = Some r \<and> (r \<in> eof \<longrightarrow> status x = Some (exit_code p))"
    and "\<And>x y p q. tab x = Some p \<Longrightarrow> tab y = Some q \<Longrightarrow> exit_pipe_r p = exit_pipe_r q \<Longrightarrow> x = y"
    and "\<And>pid f. reading = Some (pid, f) \<Longrightarrow> \<exists>p. tab (cid, pid) = Some p \<and> exit_pipe_r p = Some f"
  shows "table_inv cid tab eof status reading"
  using assms unfolding table_inv_def by blast

lemma table_invD:
  assumes "table_inv cid tab eof status reading"
  shows "tab x = Some p \<Longrightarrow> \<exists>r. exit_pipe_r p = Some r \<and> (r \<in> eof \<longrightarrow> status x = Some (exit_code p))"
    and "tab x = Some p \<Longrightarrow> tab y = Some q \<Longrightarrow> exit_pipe_r p = exit_pipe_r q \<Longrightarrow> x = y"
    and "reading = Some (pid, f) \<Longrightarrow> \<exists>p. tab (cid, pid) = Some p \<and> exit_pipe_r p = Some f"
  using assms unfolding table_inv_def by blast+

lemma inv_begin:
  "table_inv cid tab eof status None \<Longrightarrow> tab (cid, pid) = Some p \<Longrightarrow> exit_pipe_r p = Some f \<Longrightarrow>
    table_inv cid tab eof status (Some (pid, f))"
  by (simp add: table_inv_def)

lemma inv_reap:
  assumes inv: "table_inv cid tab eof status reading" and p: "tab x = Some p"
  shows "table_inv cid (tab(x \<mapsto> p\<lparr>exit_code := c\<rparr>)) (eof \<union> pipe_end p) (status(x \<mapsto> c)) reading"
proof (rule table_invI)
  fix y q assume y: "(tab(x \<mapsto> p\<lparr>exit_code := c\<rparr>)) y = Some q"
  show "\<exists>r. exit_pipe_r q = Some r \<and> (r \<in> eof \<union> pipe_end p \<longrightarrow> (status(x \<mapsto> c)) y = Some (exit_code q))"
  proof (cases "y = x")
    case True
    with y table_invD(1) [OF inv p] show ?thesis by auto
  next
    case False
    with y have q: "tab y = Some q" by simp
    with False have "exit_pipe_r q \<noteq> exit_pipe_r p" using table_invD(2) [OF inv q p] by blast
    with table_invD(1) [OF inv q] False show ?thesis by (auto simp: pipe_end_def)
  qed
next
  fix y z q r assume "(tab(x \<mapsto> p\<lparr>exit_code := c\<rparr>)) y = Some q" "(tab(x \<mapsto> p\<lparr>exit_code := c\<rparr>)) z = Some r"
    and e: "exit_pipe_r q = exit_pipe_r r"
  then obtain q' r' where "tab y = Some q'" "tab z = Some r'" "exit_pipe_r q' = exit_pipe_r r'"
    using p by (auto split: if_splits)
  then show "y = z" by (rule table_invD(2) [OF inv])
next
  fix pid f assume "reading = Some (pid, f)"
  from table_invD(3) [OF inv this] p
  show "\<exists>q. (tab(x \<mapsto> p\<lparr>exit_code := c\<rparr>)) (cid, pid) = Some q \<and> exit_pipe_r q = Some f" by auto
qed

lemma inv_start:
  assumes inv: "table_inv cid tab eof status reading" and new: "tab x = None"
    and r: "exit_pipe_r p = Some r" "r \<notin> eof" "\<forall>y q. tab y = Some q \<longrightarrow> r \<notin> pipe_end q"
  shows "table_inv cid (tab(x \<mapsto> p)) eof (status(x := None)) reading"
proof (rule table_invI)
  fix y q assume "(tab(x \<mapsto> p)) y = Some q"
  then show "\<exists>r. exit_pipe_r q = Some r \<and> (r \<in> eof \<longrightarrow> (status(x := None)) y = Some (exit_code q))"
    using r table_invD(1) [OF inv] by (cases "y = x") auto
next
  fix y z q q' assume y: "(tab(x \<mapsto> p)) y = Some q" and z: "(tab(x \<mapsto> p)) z = Some q'"
    and e: "exit_pipe_r q = exit_pipe_r q'"
  have old: "tab v = Some u \<Longrightarrow> exit_pipe_r u \<noteq> Some r" for u v using r(3) by (metis pipe_end_def option.set_intros)
  show "y = z"
    using y z e r(1) old table_invD(2) [OF inv, of y q z q'] by (cases "y = x"; cases "z = x") auto
next
  fix pid f assume "reading = Some (pid, f)"
  from table_invD(3) [OF inv this] new
  show "\<exists>q. (tab(x \<mapsto> p)) (cid, pid) = Some q \<and> exit_pipe_r q = Some f" by auto
qed

lemma inv_collect:
  assumes inv: "table_inv cid tab eof status reading"
    and other: "x = (i, pid)" "i \<noteq> cid \<or> map_option fst reading \<noteq> Some pid"
  shows "table_inv cid (tab(x := None)) (eof - pipe_end p) status reading"
proof (rule table_invI)
  fix y q assume "(tab(x := None)) y = Some q"
  then show "\<exists>r. exit_pipe_r q = Some r \<and> (r \<in> eof - pipe_end p \<longrightarrow> status y = Some (exit_code q))"
    using table_invD(1) [OF inv, of y q] by (auto split: if_splits)
next
  fix y z q r assume "(tab(x := None)) y = Some q" "(tab(x := None)) z = Some r" "exit_pipe_r q = exit_pipe_r r"
  then show "y = z" using table_invD(2) [OF inv, of y q z r] by (auto split: if_splits)
next
  fix k f assume "reading = Some (k, f)"
  from table_invD(3) [OF inv this] this other
  show "\<exists>q. (tab(x := None)) (cid, k) = Some q \<and> exit_pipe_r q = Some f" by auto
qed

text \<open>How the steps change the table.\<close>

lemma at_begin: "wait_begin cid eid s = (Ok (pid, f), t) \<Longrightarrow> sandbox_ok (ag_sandbox s) \<Longrightarrow>
    t = s \<and> (\<exists>p. process_at (ag_sandbox s) (cid, pid) = Some p \<and> f = (case exit_pipe_r p of None \<Rightarrow> - 1 | Some f \<Rightarrow> f))"
  by (auto simp: wait_begin_def the_process_def bindR_Ok_iff process_at_def dest!: locked_OkD elim: found_stored
      intro: found_stored)
    (metis (no_types, lifting) found_stored option.simps(5))+

lemma at_end:
  assumes "process_at (ag_sandbox s) (i, pid) = Some p" "wait_end i pid s = (r, t)" "ag_lock s = Free"
  shows "r = Ok (exit_code p) \<and> process_at (ag_sandbox t) = (process_at (ag_sandbox s))((i, pid) := None)"
proof -
  obtain c where c: "map_of (sb_containers (ag_sandbox s)) i = Some c" "map_of (c_processes c) pid = Some p"
    using assms(1) by (auto simp: process_at_def split: option.splits)
  have i: "process_at (ag_sandbox s) (i, k) = map_of (c_processes c) k" for k using c by (simp add: process_at_def)
  from wait_end_run [OF assms(3) c] assms(2) show ?thesis
    using c i by (auto simp: without_process_def process_at_changed [OF c(1)] delete_conv' fun_eq_iff)
qed

lemma at_store:
  assumes "on_container i (modC (store_process p)) s = (Ok x, t)"
  shows "process_at (ag_sandbox t) = (process_at (ag_sandbox s))((i, p_pid p) \<mapsto> p)"
proof -
  obtain c where c: "map_of (sb_containers (ag_sandbox s)) i = Some c"
    using assms by (auto simp: on_container_def Let_def split: option.splits)
  have "process_at (ag_sandbox s) (i, k) = map_of (c_processes c) k" for k using c by (simp add: process_at_def)
  then show ?thesis
    using assms c by (auto simp: on_container_def modC_def Let_def store_process_def process_at_changed [OF c]
        update_conv' fun_eq_iff)
qed

lemma ok_reap: "keeps ok_kept (reap_child st)"
  unfolding reap_child_def
  by (auto simp del: act_basic split: option.split
      intro!: keeps_ret ok_locked keeps_bind keeps_gets keeps_then ok_on_container set_process_ok ok_os)

lemma ok_store: "keeps ok_kept (on_container i (modC (store_process p)))"
proof -
  have "steady c (store_process p c)" for c
    by (auto simp: steady_def container_ok_def status_ok_def store_process_def table_store)
  then show ?thesis by (intro ok_on_container) (simp add: keeps_modC)
qed

lemma wait_init_inv: "wait_init s \<Longrightarrow> wait_inv cid s"
  by (simp add: wait_init_def wait_inv_def table_inv_def)

lemma wait_step_inv:
  assumes "wait_inv cid s" "wait_step cid eid s t"
  shows "wait_inv cid t"
proof -
  have ok: "sandbox_ok (ag_sandbox (ws_agent s))"
    and inv: "table_inv cid (table s) (ws_eof s) (ws_status s) (ws_reading s)"
    using assms(1) by (simp_all add: wait_inv_def)
  from assms(2) show ?thesis
  proof cases
    case (begins r a)
    obtain pid f where r: "r = (pid, f)" by fastforce
    from at_begin [OF begins(3) [unfolded r] ok] obtain p where a: "a = ws_agent s"
      and p: "table s (cid, pid) = Some p" "f = (case exit_pipe_r p of None \<Rightarrow> - 1 | Some f \<Rightarrow> f)" by blast
    then have "exit_pipe_r p = Some f" using table_invD(1) [OF inv p(1)] by auto
    then have "table_inv cid (table s) (ws_eof s) (ws_status s) (Some (pid, f))"
      using inv p(1) unfolding begins(2) by (intro inv_begin)
    with ok show ?thesis by (simp add: begins(1) wait_inv_def a r)
  next
    case (reaps st a)
    have "sandbox_ok (ag_sandbox a)" using keepsD [OF ok_reap reaps(2)] ok by (simp add: ok_kept_def)
    moreover have "table_inv cid (process_at (ag_sandbox a)) (ws_eof (noted st s)) (ws_status (noted st s)) (ws_reading s)"
    proof (cases "\<exists>pid i p w c. ws_pid st = Some pid \<and> find_process_pid pid (ag_sandbox (ws_agent s)) = Some (i, p)
        \<and> exit_pipe_w p = Some w \<and> ws_code st = Some c")
      case True
      then obtain pid i p w c where h: "ws_pid st = Some pid" "find_process_pid pid (ag_sandbox (ws_agent s)) = Some (i, p)"
        "exit_pipe_w p = Some w" "ws_code st = Some c" by blast
      have d: "distinct (map fst (sb_containers (ag_sandbox (ws_agent s))))" using ok by (simp add: sandbox_ok_def)
      have "ag_lock (ws_agent s) = Free" using reaps(2) h(1) by (auto simp: reap_child_def dest: locked_OkD)
      from reap_child_run [OF this h(1,2) d h(3,4)] reaps(2)
      have "process_at (ag_sandbox a) = (table s)((i, pid) \<mapsto> p\<lparr>exit_code := c\<rparr>)" by auto
      then show ?thesis using inv_reap [OF inv find_process_pid_at [OF h(2) d], of c] h by (simp add: noted_def)
    next
      case False
      then have "a = ws_agent s" by (rule reap_child_skips [OF reaps(2)])
      moreover have "noted st s = s" using False by (auto simp: noted_def split: option.split)
      ultimately show ?thesis using inv by simp
    qed
    moreover have "ws_reading (noted st s) = ws_reading s" by (simp add: noted_def split: option.split)
    ultimately show ?thesis by (simp add: reaps(1) wait_inv_def)
  next
    case (starts i p a r)
    have "sandbox_ok (ag_sandbox a)" using keepsD [OF ok_store starts(2)] ok by (simp add: ok_kept_def)
    with inv_start [OF inv starts(3,4,5,6)] show ?thesis
      by (simp add: starts(1) wait_inv_def at_store [OF starts(2)])
  next
    case (collects i pid p c a)
    have "sandbox_ok (ag_sandbox a)" using keepsD [OF ok_wait_end collects(3)] ok by (simp add: ok_kept_def)
    moreover have "ag_lock (ws_agent s) = Free" using collects(3) by (auto simp: wait_end_def dest: locked_OkD)
    ultimately show ?thesis using at_end [OF collects(2,3)] inv_collect [OF inv refl collects(4), of p]
      by (simp add: collects(1) wait_inv_def)
  next
    case (calls m x a)
    with ok inv show ?thesis by (auto simp: wait_inv_def dest: os_keeps_sandbox)
  qed
qed

interpretation waits: safe_system wait_init "wait_step cid eid" "wait_inv cid"
  using wait_init_inv wait_step_inv by unfold_locales



end
