(* ===== verification/Rpc_Create.thy ===== *)
theory Rpc_Create
  imports Rpc_Requests
begin

text \<open>
  \<open>create_container\<close> of \<open>src/grpc.rs\<close>: the namespaces that containers share, and what the sandbox has
  after a container was created.
\<close>

section \<open>Creating a container\<close>

text \<open>The namespaces of the sandbox: those of the types it shares get its path, and a new pid namespace is
  asked for when the client did not and the sandbox has none to share.\<close>

lemma shared_namespaces:
  assumes "update_container_namespaces sb spec = Ok spec'"
  shows "\<exists>l l'. sp_Linux spec = Some l \<and> sp_Linux spec' = Some l'
    \<and> list_all (\<lambda>n. (ns_Type n = NSTYPEIPC \<longrightarrow> ns_Path n = sb_shared_ipcns sb)
        \<and> (ns_Type n = NSTYPEUTS \<longrightarrow> ns_Path n = sb_shared_utsns sb)) (lx_Namespaces l')
    \<and> (sb_sandbox_pid_ns sb \<or> list_ex (\<lambda>n. ns_Type n = NSTYPEPID) (lx_Namespaces l'))
    \<and> map ns_Type (lx_Namespaces l) = take (length (lx_Namespaces l)) (map ns_Type (lx_Namespaces l'))"
proof -
  have d: "NSTYPEPID \<noteq> NSTYPEIPC" "NSTYPEPID \<noteq> NSTYPEUTS" "NSTYPEIPC \<noteq> NSTYPEUTS"
    by (simp_all add: NSTYPEPID_def NSTYPEIPC_def NSTYPEUTS_def)
  have same: "ns_Type (share_namespace sb n) = ns_Type n" for n by (simp add: share_namespace_def)
  have "list_all (\<lambda>n. (ns_Type n = NSTYPEIPC \<longrightarrow> ns_Path n = sb_shared_ipcns sb)
      \<and> (ns_Type n = NSTYPEUTS \<longrightarrow> ns_Path n = sb_shared_utsns sb)) (map (share_namespace sb) ns)" for ns
    using d by (auto simp: list_all_iff share_namespace_def)
  moreover have "map ns_Type (map (share_namespace sb) ns) = map ns_Type ns" for ns by (simp add: same)
  moreover have "list_ex (\<lambda>n. ns_Type n = NSTYPEPID) (map (share_namespace sb) ns) = list_ex (\<lambda>n. ns_Type n = NSTYPEPID) ns" for ns
    by (simp add: list_ex_iff same)
  ultimately show ?thesis
    using assms d by (auto simp: update_container_namespaces_def Let_def split: option.splits if_splits)
qed

lemma locked_keeps_Free: "locked m s = (Ok x, t) \<Longrightarrow> m s = (Ok x, t)"
  by (rule locked_OkD [THEN conjunct2])

lemma os_Ok_iff: "os m s = (Ok x, t) \<longleftrightarrow> (\<exists>w. m (ag_world s) = (Ok x, w) \<and> t = s\<lparr>ag_world := w\<rparr>)"
  by (auto simp: os_def split: prod.splits)

lemma osC_Ok_iff: "osC m (c, w) = (Ok x, t) \<longleftrightarrow> (\<exists>v. m w = (Ok x, v) \<and> t = (c, v))"
  by (auto simp: osC_def split: prod.splits)

text \<open>A first process that is started is stored under the pid that the container notes as its own.\<close>

lemma started_first:
  assumes "container_start join env self p (c, w) = (Ok x, (d, v))" "p_init p"
  shows "\<exists>q. map_of (c_processes d) (init_process_pid d) = Some q \<and> exec_id q = exec_id p \<and> p_init q
    \<and> exit_pipe_r q \<noteq> None \<and> exit_pipe_w q \<noteq> None \<and> c_status d = Some ''created''"
  using assms
  by (auto simp: container_start_def start_agent_def Let_def bindR_Ok_iff thenR_Ok_iff whenR_def getC_def osC_Ok_iff
      modC_def receive_terminal_def store_process_def update_conv' simp del: run_all.simps split: option.splits if_splits)

lemma make_container_first:
  assumes "make_container env cid eid opts spec w = (Ok c, w')"
  shows "c_id c = cid \<and> (\<exists>q. map_of (c_processes c) (init_process_pid c) = Some q \<and> exec_id q = eid \<and> p_init q
    \<and> exit_pipe_r q \<noteq> None \<and> exit_pipe_w q \<noteq> None \<and> c_status c = Some ''created'')"
proof -
  obtain d p u v op x where d: "container_new (en_ids env) (en_now env) cid CONTAINER_BASE opts w = (Ok d, u)"
    and p: "process_new op eid True x = (Ok p, v)" and c: "start_new env d p v = (Ok c, w')"
    using assms by (auto simp: make_container_def bindR_Ok_iff split: option.splits)
  have pi: "p_init p" "exec_id p = eid" using p by (auto simp: process_new_def bindR_Ok_iff split: if_splits)
  obtain y where s: "container_start (en_join env) (en_startup env) (en_self env) p (d, v) = (Ok y, (c, w'))"
    using c by (auto simp: start_new_def map_res_Ok split: prod.splits)
  then have "steady d c" using keepsD [OF container_start_ok] by (fastforce simp: stays_ok_def)
  with container_new_ok [OF d] started_first [OF s pi(1)] pi(2) show ?thesis by (simp add: steady_def)
qed

text \<open>C13: when the creation of a container is answered with success, the sandbox has it under the id that the
  client gave, well-formed and in the state "created", and its first process, with the exec id of the
  request and an exit pipe, is the one that a request without an exec id finds.\<close>
theorem created_container:
  assumes "serve env (CreateContainer req) s = (Ok (Success x), t)"
  shows "\<exists>c q. map_of (sb_containers (ag_sandbox (sv_agent t))) (cr_container_id req) = Some c
    \<and> container_ok c \<and> c_status c = Some ''created''
    \<and> find_process (cr_container_id req) [] True (ag_sandbox (sv_agent t)) = Ok (init_process_pid c, q)
    \<and> p_init q \<and> exec_id q = cr_exec_id req \<and> exit_pipe_r q \<noteq> None \<and> exit_pipe_w q \<noteq> None"
proof -
  have "do_create_container env req (sv_agent s) = (Ok (), sv_agent t)"
    using assms by (auto dest!: onA_OkD answer_SuccessD respond_SuccessD)
  then obtain opts spec c u v w sb where m: "make_container env (cr_container_id req) (cr_exec_id req) opts spec w = (Ok c, v)"
    and "u\<lparr>ag_world := v, ag_sandbox := add_container c sb\<rparr> = sv_agent t"
    unfolding do_create_container_def Let_def
    by (auto simp: bindR_Ok_iff thenR_Ok_iff set_sandbox_def os_Ok_iff dest!: locked_keeps_Free)
  then have t: "ag_sandbox (sv_agent t) = add_container c sb" by (auto dest: sym)
  have "find_process (cr_container_id req) [] True (ag_sandbox (sv_agent t)) = Ok (init_process_pid c, q)"
    if "map_of (c_processes c) (init_process_pid c) = Some q" for q
    using that make_container_first [OF m] by (simp add: find_process_def t add_container_def update_conv')
  then show ?thesis using make_container_first [OF m] make_container_ok [OF m]
    by (auto simp: t add_container_def update_conv')
qed

text \<open>A container that is created: every call succeeds, and the protocol of the start-up returns the pid 42.\<close>

definition plain_env :: rpc_env where
  "plain_env = \<lparr>en_join = (\<lambda>_. ret 42), en_startup = small_start, en_hooks = (\<lambda>_. HookEnds (HookExit 0) 1),
     en_self = 2, en_tids = (3, 4), en_ids = (0, 0), en_now = 5, en_ticks = id, en_pagesizes = [], en_json = (\<lambda>_. []),
     en_late = False, en_bytes = (\<lambda>_. []), en_ps = (\<lambda>_. Panic), en_cstr = id, en_fuel = 1,
     en_scan = \<lparr>scan_hw = (\<lambda>_. Panic), scan_u8 = (\<lambda>_. Panic), scan_cidr = (\<lambda>_. Panic)\<rparr>, en_family = 0\<rparr>"

definition plain_request :: CreateContainerRequest where
  "plain_request = \<lparr>cr_container_id = ''c'', cr_exec_id = ''e'', cr_devices = [], cr_storages = [],
     cr_OCI = Some (small_spec\<lparr>sp_Process := Some (true_process\<lparr>pr_User := Some \<lparr>us_UID = 0, us_GID = 0,
       us_AdditionalGids = [], us_Username = []\<rparr>\<rparr>)\<rparr>)\<rparr>"

definition plain_service :: service where
  "plain_service = boot\<lparr>sv_agent := (sv_agent boot)\<lparr>ag_world := quiet\<lparr>files :=
     [''/proc/self/cgroup'' \<mapsto> [], ''/proc/self/mountinfo'' \<mapsto> []],
     kernel := (\<lambda>h p. if p = SysStat ''/run/agent/c/exec.fifo'' then Inl ENOENT else Inr 0)\<rparr>\<rparr>\<rparr>"

lemma plain_created:
  "case fst (do_create_container plain_env plain_request (sv_agent plain_service)) of Ok _ \<Rightarrow> True | _ \<Rightarrow> False"
  by code_simp


lemma created_container_witness:
  "\<exists>t c q. serve plain_env (CreateContainer plain_request) plain_service = (Ok (Success Empty), t)
    \<and> map_of (sb_containers (ag_sandbox (sv_agent t))) ''c'' = Some c \<and> c_status c = Some ''created''
    \<and> find_process ''c'' [] True (ag_sandbox (sv_agent t)) = Ok (init_process_pid c, q) \<and> exec_id q = ''e''"
proof -
  obtain r a where run: "do_create_container plain_env plain_request (sv_agent plain_service) = (r, a)" by fastforce
  obtain x where "r = Ok x" using plain_created run by (cases r) simp_all
  then have "serve plain_env (CreateContainer plain_request) plain_service
      = (Ok (Success Empty), plain_service\<lparr>sv_agent := a\<rparr>)"
    using run by (simp add: onA_def answer_def respond_def run_defs)
  from created_container [OF this] this show ?thesis by (auto simp: plain_request_def)
qed

end
