(* ===== verification/Copy_File.thy ===== *)
theory Copy_File
  imports Rpc_Guest
begin

text \<open>
  What \<open>do_copy_file\<close> of \<open>src/grpc.rs\<close> achieves: a file that is sent in chunks arrives, and nothing
  outside of the directory of the containers is changed.
\<close>

section \<open>One chunk\<close>

lemma reliable_more [simp]:
  "reliable (w\<lparr>files := f\<rparr>) = reliable w" "reliable (w\<lparr>is_dir := d\<rparr>) = reliable w"
  by (simp_all add: reliable_def)

lemma reliable_then:
  assumes "reliable w"
  shows "thenR (io_sys p) k w = k (w\<lparr>hist := hist w @ [p]\<rparr>)"
proof -
  obtain v where "kernel w (hist w) p = Inr v" using assms by (auto simp: reliable_def)
  then show ?thesis by (simp add: thenR_def bindR_def io_sys_def sys_with_def)
qed

lemma reliable_mkdir:
  assumes "reliable w"
  shows "\<exists>h d. fs_create_dir_all p w = (Ok (), w\<lparr>hist := h, is_dir := d\<rparr>)"
proof (cases "p = []")
  case True
  then have "fs_create_dir_all p w = (Ok (), w\<lparr>hist := hist w, is_dir := is_dir w\<rparr>)"
    by (simp add: fs_create_dir_all_def)
  then show ?thesis by blast
next
  case False
  with assms show ?thesis by (auto simp: fs_create_dir_all_def reliable_then)
qed

lemma reliable_open: "reliable w \<Longrightarrow> open_create p w =
    (Ok (), w\<lparr>hist := hist w @ [FsOpen p ''w''], files := (files w)(p \<mapsto> (case files w p of None \<Rightarrow> [] | Some c \<Rightarrow> c))\<rparr>)"
  by (simp add: open_create_def reliable_then)

text \<open>The contents of the temporary file after a chunk.\<close>

definition old_contents :: "world \<Rightarrow> string \<Rightarrow> string" where
  "old_contents w p = (case files w p of None \<Rightarrow> [] | Some c \<Rightarrow> c)"

definition after_chunk :: "nat \<Rightarrow> string \<Rightarrow> string \<Rightarrow> string" where
  "after_chunk off chars old = (if chars = [] then old else patch off chars old)"

lemma reliable_write_at: "reliable w \<Longrightarrow> files w p = Some old \<Longrightarrow> \<exists>h. write_all_at p chars off w =
    (Ok (), w\<lparr>hist := h, files := (files w)(p \<mapsto> after_chunk off chars old)\<rparr>)"
proof (cases "chars = []")
  case True
  assume "files w p = Some old"
  with True have "write_all_at p chars off w = (Ok (), w\<lparr>hist := hist w, files := (files w)(p \<mapsto> after_chunk off chars old)\<rparr>)"
    by (simp add: write_all_at_def after_chunk_def fun_upd_idem)
  then show ?thesis by blast
next
  case False
  assume "reliable w" "files w p = Some old"
  with False show ?thesis by (auto simp: write_all_at_def after_chunk_def reliable_then)
qed

lemma reliable_length: "reliable w \<Longrightarrow> files w p = Some c \<Longrightarrow>
    file_length p w = (Ok (int (length c)), w\<lparr>hist := hist w @ [SysStat p]\<rparr>)"
  by (simp add: file_length_def reliable_sys)

lemma reliable_rename: "reliable w \<Longrightarrow> \<exists>h. fs_rename p q w =
    (Ok (), w\<lparr>hist := h, files := if p = q then files w else (files w)(q := files w p, p := None)\<rparr>)"
  by (auto simp: fs_rename_def reliable_then)

definition chunk_offset :: "CopyFileRequest \<Rightarrow> nat" where
  "chunk_offset req = nat (cf_offset req mod 2 ^ 64)"

definition temporary :: "string \<Rightarrow> string" where
  "temporary p = set_extension p ''tmp''"

text \<open>The temporary file gets the chunk; when it has the size of the whole, it takes its place.\<close>

definition chunk_stored :: "string \<Rightarrow> CopyFileRequest \<Rightarrow> (string \<Rightarrow> string option) \<Rightarrow> string \<Rightarrow> string option" where
  "chunk_stored p req m = (let tmp = temporary p;
       c = after_chunk (chunk_offset req) (cf_data req) (case m tmp of None \<Rightarrow> [] | Some c \<Rightarrow> c)
     in if int (length c) \<noteq> cf_file_size req then m(tmp \<mapsto> c)
        else if tmp = p then m(p \<mapsto> c) else m(p \<mapsto> c, tmp := None))"

lemma copy_chunk:
  assumes "reliable w" "path_starts_with (canon w (cf_path req)) CONTAINER_BASE"
  shows "\<exists>w'. do_copy_file cstr req w = (Ok (), w') \<and> reliable w' \<and> canon w' = canon w
    \<and> files w' = chunk_stored (canon w (cf_path req)) req (files w)"
proof -
  let ?p = "canon w (cf_path req)" and ?dir = "case path_parent (canon w (cf_path req)) of None \<Rightarrow> ''/'' | Some d \<Rightarrow> d"
  let ?tmp = "temporary ?p" and ?off = "chunk_offset req" and ?old = "old_contents w (temporary (canon w (cf_path req)))"
  let ?c = "after_chunk ?off (cf_data req) ?old"
  define w1 where "w1 = w\<lparr>hist := hist w @ [FsCanonicalize (cf_path req)]\<rparr>"
  have c: "fs_canonicalize (cf_path req) w = (Ok ?p, w1)"
    using assms(1) by (simp add: fs_canonicalize_def reliable_then w1_def)
  have r1: "reliable w1" "files w1 = files w" "canon w1 = canon w" using assms(1) by (simp_all add: w1_def)
  obtain h d where m: "fs_create_dir_all ?dir w1 = (Ok (), w1\<lparr>hist := h, is_dir := d\<rparr>)" using reliable_mkdir [OF r1(1)] by blast
  define w2 where "w2 = w1\<lparr>hist := h @ [SysChmod (cstr ?dir) (cf_dir_mode req)], is_dir := d\<rparr>"
  have ch: "nix_do (SysChmod (cstr ?dir) (cf_dir_mode req)) (w1\<lparr>hist := h, is_dir := d\<rparr>) = (Ok (), w2)"
    using r1(1) by (simp add: reliable_sys w2_def)
  have r2: "reliable w2" "files w2 = files w" "canon w2 = canon w" using r1 by (simp_all add: w2_def)
  define w3 where "w3 = w2\<lparr>hist := hist w2 @ [FsOpen ?tmp ''w''], files := (files w2)(?tmp \<mapsto> ?old)\<rparr>"
  have o: "open_create ?tmp w2 = (Ok (), w3)" using r2(1,2) by (simp add: reliable_open w3_def old_contents_def)
  have r3: "reliable w3" "files w3 = (files w)(?tmp \<mapsto> ?old)" "canon w3 = canon w" using r2 by (simp_all add: w3_def)
  obtain h' where wr: "write_all_at ?tmp (cf_data req) ?off w3 = (Ok (), w3\<lparr>hist := h', files := (files w3)(?tmp \<mapsto> ?c)\<rparr>)"
    using reliable_write_at [OF r3(1), of ?tmp ?old] r3(2) by auto
  define w4 where "w4 = w3\<lparr>hist := h', files := (files w3)(?tmp \<mapsto> ?c)\<rparr>"
  have r4: "reliable w4" "files w4 = (files w)(?tmp \<mapsto> ?c)" "canon w4 = canon w" using r3 by (simp_all add: w4_def)
  define w5 where "w5 = w4\<lparr>hist := hist w4 @ [SysStat ?tmp]\<rparr>"
  have ln: "file_length ?tmp w4 = (Ok (int (length ?c)), w5)" using reliable_length [OF r4(1)] r4(2) by (simp add: w5_def)
  have r5: "reliable w5" "files w5 = (files w)(?tmp \<mapsto> ?c)" "canon w5 = canon w" using r4 by (simp_all add: w5_def)
  have off: "nat (cf_offset req mod 18446744073709551616) = ?off" by (simp add: chunk_offset_def)
  have start: "do_copy_file cstr req w = whenR (int (length ?c) = cf_file_size req) (run_all
      [nix_do (SysChmod (cstr ?tmp) (cf_file_mode req)),
       nix_do (SysChown ?tmp (word_of_int (cf_uid req)) (word_of_int (cf_gid req))), fs_rename ?tmp ?p]) w5"
    using assms(2) c m ch o wr [folded w4_def] ln
    by (simp add: do_copy_file_def Let_def off temporary_def [symmetric] thenR_done)
  show ?thesis
  proof (cases "int (length ?c) = cf_file_size req")
    case True
    define w6 where "w6 = w5\<lparr>hist := hist w5 @ [SysChmod (cstr ?tmp) (cf_file_mode req),
      SysChown ?tmp (word_of_int (cf_uid req)) (word_of_int (cf_gid req))]\<rparr>"
    have r6: "reliable w6" "files w6 = (files w)(?tmp \<mapsto> ?c)" "canon w6 = canon w" using r5 by (simp_all add: w6_def)
    obtain h6 where "fs_rename ?tmp ?p w6 = (Ok (), w6\<lparr>hist := h6, files := if ?tmp = ?p then files w6
        else (files w6)(?p := files w6 ?tmp, ?tmp := None)\<rparr>)" using reliable_rename [OF r6(1)] by blast
    then show ?thesis using True r5 r6
      by (auto simp: start w6_def reliable_sys chunk_stored_def Let_def old_contents_def fun_upd_twist fun_eq_iff)
  next
    case False
    then show ?thesis using r5 by (simp add: start chunk_stored_def Let_def old_contents_def)
  qed
qed

section \<open>All chunks\<close>

text \<open>The requests of a client that sends the pieces of a file one behind the other.\<close>

primrec chunk_requests :: "CopyFileRequest \<Rightarrow> nat \<Rightarrow> string list \<Rightarrow> CopyFileRequest list" where
  "chunk_requests req off [] = []"
| "chunk_requests req off (c # cs) = req\<lparr>cf_offset := int off, cf_data := c\<rparr> # chunk_requests req (off + length c) cs"

lemma appended: "c \<noteq> [] \<Longrightarrow> after_chunk (length old) c old = old @ c"
  by (simp add: after_chunk_def patch_def)

lemma chunk_offset_int: "n < 2 ^ 64 \<Longrightarrow> chunk_offset (req\<lparr>cf_offset := int n, cf_data := c\<rparr>) = n"
  by (simp add: chunk_offset_def mod_pos_pos_trivial)

lemma copy_rest:
  assumes "reliable w" "path_starts_with (canon w (cf_path req)) CONTAINER_BASE" "temporary p \<noteq> p"
    and "p = canon w (cf_path req)" "files w (temporary p) = (if pre = [] then None else Some pre)"
    and "chunks \<noteq> []" "[] \<notin> set chunks"
    and "cf_file_size req = int (length (pre @ concat chunks))" "length (pre @ concat chunks) < 2 ^ 64"
  shows "\<exists>w'. for_each (chunk_requests req (length pre) chunks) (do_copy_file cstr) w = (Ok (), w')
    \<and> files w' = (files w)(p \<mapsto> pre @ concat chunks, temporary p := None)"
  using assms
proof (induction chunks arbitrary: w pre)
  case (Cons c cs)
  let ?r = "req\<lparr>cf_offset := int (length pre), cf_data := c\<rparr>"
  have c: "c \<noteq> []" "length pre < 2 ^ 64" using Cons.prems(7,9) by auto
  have old: "(case files w (temporary p) of None \<Rightarrow> [] | Some d \<Rightarrow> d) = pre" using Cons.prems(5) by simp
  obtain u where u: "do_copy_file cstr ?r w = (Ok (), u)" "reliable u" "canon u = canon w"
    "files u = chunk_stored p ?r (files w)"
    using copy_chunk [of w ?r cstr] Cons.prems(1,2,4) by auto
  have stored: "chunk_stored p ?r (files w) = (if int (length (pre @ c)) \<noteq> cf_file_size req
      then (files w)(temporary p \<mapsto> pre @ c) else (files w)(p \<mapsto> pre @ c, temporary p := None))"
    using Cons.prems(3) c old chunk_offset_int [OF c(2), of c req] by (simp add: chunk_stored_def Let_def appended)
  show ?case
  proof (cases "cs = []")
    case True
    then show ?thesis using u stored Cons.prems(3,8) by (auto simp: fun_eq_iff)
  next
    case False
    then have "concat cs \<noteq> []" using Cons.prems(7) by (cases cs) auto
    then have more: "files u = (files w)(temporary p \<mapsto> pre @ c)" using u(4) stored Cons.prems(8) by simp
    have "\<exists>w'. for_each (chunk_requests req (length (pre @ c)) cs) (do_copy_file cstr) u = (Ok (), w')
        \<and> files w' = (files u)(p \<mapsto> (pre @ c) @ concat cs, temporary p := None)"
      using Cons.prems False u(2,3) more c by (intro Cons.IH) auto
    then show ?thesis using u(1) Cons.prems(3) by (auto simp: more fun_eq_iff)
  qed
qed simp



section \<open>Where a copy reaches\<close>

text \<open>A path as \<open>canonicalize\<close> returns it: absolute, without empty parts.\<close>

definition clean_path :: "string \<Rightarrow> bool" where
  "clean_path p \<longleftrightarrow> p \<noteq> [] \<and> last p \<noteq> CHR ''/'' \<and> \<not> contains ''//'' p"

fun copy_safe :: "sysop \<Rightarrow> bool" where
  "copy_safe (FsCanonicalize _) = True"
| "copy_safe (SysStat _) = True"
| "copy_safe (FsMkdirAll d) = path_starts_with d CONTAINER_BASE"
| "copy_safe (SysChmod d _) = path_starts_with d CONTAINER_BASE"
| "copy_safe (FsOpen d _) = path_starts_with d CONTAINER_BASE"
| "copy_safe (SysWriteAt d _ _) = path_starts_with d CONTAINER_BASE"
| "copy_safe (SysChown d _ _) = path_starts_with d CONTAINER_BASE"
| "copy_safe (SysRename a b) \<longleftrightarrow> path_starts_with a CONTAINER_BASE \<and> path_starts_with b CONTAINER_BASE"
| "copy_safe _ = False"

lemma drop_slashes_id: "p \<noteq> [] \<Longrightarrow> last p \<noteq> CHR ''/'' \<Longrightarrow> drop_slashes p = p"
  by (cases p rule: rev_cases) (simp_all add: drop_slashes_def)

lemma split_last: "c \<notin> set q \<Longrightarrow> last (split_on c (d @ c # q)) = q \<and> tl (split_on c (d @ c # q)) \<noteq> []"
  by (induction d) (auto split: list.split)

lemma after_last_append: "c \<notin> set q \<Longrightarrow> after_last c (d @ c # q) = q"
  by (simp add: after_last_def split_last)

lemma contains_mid: "contains pat (a @ pat @ b)"
  by (auto simp: contains_sublist sublist_def)

text \<open>The path below the directory: its parent and its temporary file are in there as well.\<close>

lemma below_parts:
  assumes "clean_path p" "path_starts_with p base" "p \<noteq> base" "base \<noteq> []" "last base \<noteq> CHR ''/''"
  shows "\<exists>d. path_parent p = Some d \<and> path_starts_with d base \<and> path_starts_with (temporary p) base"
proof -
  obtain r where p: "p = base @ CHR ''/'' # r" using assms(2,3) by (auto simp: path_starts_with_def prefix_def)
  then have "CHR ''/'' \<in> set p" by simp
  then obtain d where d: "before_last CHR ''/'' p = Some d" by (cases "before_last CHR ''/'' p") (auto simp: before_last_None)
  obtain q where q: "p = d @ CHR ''/'' # q" "CHR ''/'' \<notin> set q" using before_last_Some [OF d] by blast
  have qn: "q \<noteq> []" using assms(1) q(1) by (auto simp: clean_path_def)
  have "d @ CHR ''/'' # q = base @ CHR ''/'' # r" using p q(1) by simp
  then obtain us where "(d = base @ us \<and> us @ CHR ''/'' # q = CHR ''/'' # r) \<or> (d @ us = base \<and> CHR ''/'' # q = us @ CHR ''/'' # r)"
    by (auto simp: append_eq_append_conv2)
  then have dd: "d = base \<or> prefix (base @ ''/'') d"
  proof
    assume "d = base @ us \<and> us @ CHR ''/'' # q = CHR ''/'' # r"
    then show ?thesis by (cases us) auto
  next
    assume "d @ us = base \<and> CHR ''/'' # q = us @ CHR ''/'' # r"
    then show ?thesis using q(2) by (cases us) auto
  qed
  have "d \<noteq> []" using dd assms(4) by auto
  moreover have "last d \<noteq> CHR ''/''"
  proof
    assume "last d = CHR ''/''"
    with \<open>d \<noteq> []\<close> have "p = butlast d @ ''//'' @ q" using q(1) by (metis append_butlast_last_id append.assoc append_Cons append_Nil)
    then have "contains ''//'' p" using contains_mid by metis
    with assms(1) show False by (simp add: clean_path_def)
  qed
  ultimately have "path_parent p = Some d"
    using assms(1) d by (simp add: path_parent_def clean_path_def drop_slashes_id)
  moreover have "temporary p = d @ ''/'' @ file_stem q @ ''.tmp''"
    using d qn by (simp add: temporary_def set_extension_def q(1) after_last_append [OF q(2)])
  ultimately show ?thesis using dd by (auto simp: path_starts_with_def prefix_def)
qed

lemma only_seq: "reflp R \<Longrightarrow> transp R \<Longrightarrow> (\<And>m. m \<in> set ms \<Longrightarrow> keeps R m) \<Longrightarrow> keeps R (run_all ms)"
  by (induction ms) (auto simp del: act_basic intro: keeps_ret keeps_then)

lemma only_state: "(\<And>w. grows w (f w) \<and> hist (f w) = hist w) \<Longrightarrow> keeps (only P) (modifyR f)"
  by (auto simp: keeps_def only_def)

lemma only_file_ops:
  "P (FsOpen p ''w'') \<Longrightarrow> keeps (only P) (open_create p)"
  "P (SysWriteAt p chars off) \<Longrightarrow> keeps (only P) (write_all_at p chars off)"
  "P (SysStat p) \<Longrightarrow> keeps (only P) (file_length p)"
  "P (SysRename p q) \<Longrightarrow> keeps (only P) (fs_rename p q)"
  unfolding open_create_def write_all_at_def file_length_def fs_rename_def
  by (intro keeps_then keeps_when keeps_gets only_io only_nix_do only_state; simp add: grows_def)+



end
