(* ===== verification/Logging.thy ===== *)
theory Logging
  imports State
begin

text \<open>
  \<open>src/logging.rs\<close>: the drains of the logger, down to the package that writes JSON. A record comes with
  its own key-value pairs and those of the loggers it was made by, the newest logger first; a pair
  has the texts that \<open>format!\<close> makes of the key and the value.
\<close>

section \<open>The serializer\<close>

text \<open>The fields of the \<open>HashMap\<close>, in the order in which they are added.\<close>

type_synonym fields = "(string \<times> string) list"

definition add_field :: "string \<Rightarrow> string \<Rightarrow> fields \<Rightarrow> fields" where
  "add_field key val fs = (if map_of fs key = None then fs @ [(key, val)] else fs)"

definition remove_field :: "string \<Rightarrow> fields \<Rightarrow> fields" where
  "remove_field key fs = AList.delete key fs"

definition serialize :: "fields \<Rightarrow> fields" where
  "serialize kvs = fold (\<lambda>(k, v). add_field k v) kvs []"

section \<open>The drains\<close>

text \<open>\<open>Level\<close> of the \<open>slog\<close> package: a smaller number is more severe.\<close>

datatype level = Critical | Error | Warning | Info | Debug | Trace

fun as_usize :: "level \<Rightarrow> nat" where
  "as_usize Critical = 1" | "as_usize Error = 2" | "as_usize Warning = 3"
| "as_usize Info = 4" | "as_usize Debug = 5" | "as_usize Trace = 6"

definition is_at_least :: "level \<Rightarrow> level \<Rightarrow> bool" where
  "is_at_least l m \<longleftrightarrow> as_usize l \<le> as_usize m"

record log_record =
  lr_level :: level
  lr_msg :: string
  lr_kv :: fields

text \<open>
  The state of the drains is that of \<open>RuntimeLevelFilter\<close>: the level and the lock around it, which is
  held while the drain below works. A drain gets the record and the pairs of its loggers; \<open>down\<close> is
  the drain below, \<open>writer\<close> the one of \<open>slog_json\<close>.
\<close>

record level_filter =
  rf_level :: level
  rf_lock :: lock

type_synonym 'a drain = "log_record \<Rightarrow> fields \<Rightarrow> (level_filter, 'a) act"

definition unique_fields :: "fields \<Rightarrow> fields \<Rightarrow> fields \<times> fields" where
  "unique_fields record_kvs logger_kvs = (let rs = serialize record_kvs
     in (rs, fold (\<lambda>(k, _). remove_field k) rs (serialize logger_kvs)))"

definition unique_log :: "'a drain \<Rightarrow> unit drain" where
  "unique_log down rc vals = (case unique_fields (lr_kv rc) vals of (rs, ls) \<Rightarrow>
     catchR (thenR (down (rc\<lparr>lr_kv := rs\<rparr>) ls) (ret ())) (\<lambda>_. throw (Msg ''failed to drain log'')))"

definition set_level :: "level \<Rightarrow> (level_filter, unit) act" where
  "set_level l = (\<lambda>s. case rf_lock s of Poisoned \<Rightarrow> (Panic, s) | Held \<Rightarrow> (Hang, s)
     | Free \<Rightarrow> (Ok (), s\<lparr>rf_level := l\<rparr>))"

definition filter_log :: "'a drain \<Rightarrow> unit drain" where
  "filter_log down rc vals = (\<lambda>s. case rf_lock s of Poisoned \<Rightarrow> (Panic, s) | Held \<Rightarrow> (Hang, s)
     | Free \<Rightarrow> if is_at_least (lr_level rc) (rf_level s)
         then (case thenR (down rc vals) (ret ()) s of
             (Panic, t) \<Rightarrow> (Panic, t\<lparr>rf_lock := Poisoned\<rparr>) | (Hang, t) \<Rightarrow> (Hang, t\<lparr>rf_lock := Held\<rparr>) | r \<Rightarrow> r)
         else (Ok (), s))"

text \<open>\<open>fuse\<close> of the \<open>slog\<close> package: an error of the drain is a panic.\<close>

definition fuse :: "'a drain \<Rightarrow> unit drain" where
  "fuse down rc vals = catchR (thenR (down rc vals) (ret ())) (\<lambda>_. panicR)"

text \<open>\<open>create_logger\<close>: the filter above the unique fields above the writer (the thread that \<open>slog_async\<close>
  puts in front of them is left out), and the fields of the root.\<close>

definition root_fields :: "string \<Rightarrow> string \<Rightarrow> string \<Rightarrow> string \<Rightarrow> fields" where
  "root_fields version pid name source = [(''version'', version), (''subsystem'', ''root''), (''pid'', pid),
     (''name'', name), (''source'', source)]"

definition logger :: "'a drain \<Rightarrow> unit drain" where
  "logger writer = fuse (filter_log (fuse (unique_log (fuse writer))))"

definition level_filter_new :: "level \<Rightarrow> level_filter" where
  "level_filter_new l = \<lparr>rf_level = l, rf_lock = Free\<rparr>"

section \<open>Lemmas\<close>

lemma add_field_map: "map_of (add_field k v fs) = map_of (fs @ [(k, v)])"
  by (auto simp: add_field_def fun_eq_iff map_add_def split: option.split)

lemma add_field_distinct: "distinct (map fst fs) \<Longrightarrow> distinct (map fst (add_field k v fs))"
  by (auto simp: add_field_def map_of_eq_None_iff)

lemma serialize_from:
  "map_of (fold (\<lambda>(k, v). add_field k v) kvs fs) = map_of (fs @ kvs)"
  by (induction kvs arbitrary: fs) (auto simp: add_field_map map_add_def fun_eq_iff split: option.split)

lemma serialize_map: "map_of (serialize kvs) = map_of kvs"
  by (simp add: serialize_def serialize_from)

lemma serialize_distinct: "distinct (map fst (serialize kvs))"
proof -
  have "distinct (map fst fs) \<Longrightarrow> distinct (map fst (fold (\<lambda>(k, v). add_field k v) kvs fs))" for fs
    by (induction kvs arbitrary: fs) (auto simp: add_field_distinct)
  then show ?thesis by (simp add: serialize_def)
qed

lemma removed_map:
  "map_of (fold (\<lambda>(k, _). remove_field k) rs fs) = (\<lambda>k. if k \<in> fst ` set rs then None else map_of fs k)"
  by (induction rs arbitrary: fs) (auto simp: remove_field_def delete_conv' fun_eq_iff)

lemma removed_distinct: "distinct (map fst fs) \<Longrightarrow> distinct (map fst (fold (\<lambda>(k, _). remove_field k) rs fs))"
  by (induction rs arbitrary: fs) (auto simp: remove_field_def distinct_delete)

section \<open>Property\<close>

text \<open>C40: whatever pairs a record and its loggers have, what the agent hands to the JSON writer has every key
  once, and its value is the record's first one, or else the one of the newest logger that has the key.\<close>
theorem log_fields_unique:
  "distinct (map fst (fst (unique_fields rs ls) @ snd (unique_fields rs ls)))
    \<and> map_of (fst (unique_fields rs ls) @ snd (unique_fields rs ls)) = map_of (rs @ ls)"
proof -
  let ?r = "serialize rs" and ?l = "fold (\<lambda>(k, _). remove_field k) (serialize rs) (serialize ls)"
  have keys: "fst ` set (serialize kvs) = fst ` set kvs" for kvs
    by (metis dom_map_of_conv_image_fst serialize_map)
  have "dom (map_of ?l) \<inter> fst ` set ?r = {}" by (simp add: disjoint_iff dom_def removed_map)
  then have "distinct (map fst (?r @ ?l))"
    by (simp add: serialize_distinct removed_distinct dom_map_of_conv_image_fst Int_commute)
  moreover have "map_of (?r @ ?l) = map_of (rs @ ls)"
    by (simp add: fun_eq_iff map_add_def serialize_map removed_map keys split: option.split)
      (simp add: dom_map_of_conv_image_fst [symmetric] domIff)
  ultimately show ?thesis by (simp add: unique_fields_def Let_def)
qed

text \<open>
  The filter and the fields together: a record that is too unimportant is dropped without an error,
  any other gets to the writer with its fields made unique; and the first record that the writer fails
  on ends the logging, because the panic of \<open>fuse\<close> poisons the lock of the level.
\<close>

lemma logger_drops:
  "rf_lock s = Free \<Longrightarrow> \<not> is_at_least (lr_level rc) (rf_level s) \<Longrightarrow> logger writer rc vals s = (Ok (), s)"
  by (simp add: logger_def fuse_def filter_log_def)

lemma logger_passes:
  assumes "rf_lock s = Free" "is_at_least (lr_level rc) (rf_level s)"
    and "writer (rc\<lparr>lr_kv := fst (unique_fields (lr_kv rc) vals)\<rparr>) (snd (unique_fields (lr_kv rc) vals)) s = (Ok x, t)"
  shows "logger writer rc vals s = (Ok (), t)"
  using assms by (cases "unique_fields (lr_kv rc) vals") (simp add: logger_def fuse_def filter_log_def unique_log_def)

lemma logger_ends:
  assumes "rf_lock s = Free" "is_at_least (lr_level rc) (rf_level s)"
    and "writer (rc\<lparr>lr_kv := fst (unique_fields (lr_kv rc) vals)\<rparr>) (snd (unique_fields (lr_kv rc) vals)) s = (Err e, t)"
  shows "logger writer rc vals s = (Panic, t\<lparr>rf_lock := Poisoned\<rparr>)"
    and "logger writer rc' vals' (t\<lparr>rf_lock := Poisoned\<rparr>) = (Panic, t\<lparr>rf_lock := Poisoned\<rparr>)"
    and "set_level l (t\<lparr>rf_lock := Poisoned\<rparr>) = (Panic, t\<lparr>rf_lock := Poisoned\<rparr>)"
  using assms by (cases "unique_fields (lr_kv rc) vals";
      simp add: logger_def fuse_def filter_log_def unique_log_def set_level_def)+

end
