(* ===== verification/Pb_Runtime.thy ===== *)
theory Pb_Runtime
  imports Text
begin

text \<open>
  What the generated code of \<open>protocols/src\<close> uses of the \<open>protobuf\<close> package, which is not in the
  repository. \<open>runtime\<close> collects its functions: a stream is the list of the bytes that are left up to its
  limit, \<open>'u\<close> is the type of \<open>UnknownFields\<close>, and a write is the bytes it appends. \<open>protobuf\<close> is what the
  documentation of the wire format promises of them: what is written with a field number is read back,
  and the size that is computed is the number of bytes written. The parts of the generated code that are the
  same in every message follow, and the interface \<open>message\<close> that each of the messages satisfies.
\<close>

section \<open>The package\<close>

datatype wire_type = WireTypeVarint | WireTypeFixed64 | WireTypeLengthDelimited | WireTypeStartGroup
  | WireTypeEndGroup | WireTypeFixed32

type_synonym 'a reader = "(bytes, 'a) act"

text \<open>
  The reading half. A length-delimited message is given as its bytes; \<open>merges_again\<close> says whether a second
  occurrence of a message field is merged into the first one or replaces it. \<open>read_enum\<close> gets the test
  for the numbers of the enumeration, and stores any other number in the unknown fields.
\<close>

record 'u runtime =
  no_unknown :: 'u
  unexpected_wire_type :: "wire_type \<Rightarrow> error"
  read_tag_unpack :: "(u32 \<times> wire_type) reader"
  read_bool :: "bool reader"
  read_int32 :: "u32 reader"
  read_uint32 :: "u32 reader"
  read_int64 :: "u64 reader"
  read_uint64 :: "u64 reader"
  read_string :: "wire_type \<Rightarrow> string reader"
  read_bytes :: "wire_type \<Rightarrow> bytes reader"
  read_uint32s :: "wire_type \<Rightarrow> u32 list reader"
  read_uint64s :: "wire_type \<Rightarrow> u64 list reader"
  read_enum :: "(u32 \<Rightarrow> bool) \<Rightarrow> wire_type \<Rightarrow> u32 \<Rightarrow> 'u \<Rightarrow> (u32 option \<times> 'u) reader"
  read_map_string :: "wire_type \<Rightarrow> (string \<times> string) reader"
  read_map_uint64 :: "wire_type \<Rightarrow> (string \<times> u64) reader"
  read_map_message :: "wire_type \<Rightarrow> (string \<times> bytes) reader"
  read_message :: "wire_type \<Rightarrow> bytes reader"
  merges_again :: bool
  read_unknown :: "u32 \<Rightarrow> wire_type \<Rightarrow> 'u \<Rightarrow> 'u reader"
  write_tag :: "u32 \<Rightarrow> wire_type \<Rightarrow> bytes res"
  write_raw_varint32 :: "u32 \<Rightarrow> bytes res"
  write_bool :: "u32 \<Rightarrow> bool \<Rightarrow> bytes res"
  write_int32 :: "u32 \<Rightarrow> u32 \<Rightarrow> bytes res"
  write_uint32 :: "u32 \<Rightarrow> u32 \<Rightarrow> bytes res"
  write_int64 :: "u32 \<Rightarrow> u64 \<Rightarrow> bytes res"
  write_uint64 :: "u32 \<Rightarrow> u64 \<Rightarrow> bytes res"
  write_enum :: "u32 \<Rightarrow> u32 \<Rightarrow> bytes res"
  write_string :: "u32 \<Rightarrow> string \<Rightarrow> bytes res"
  write_bytes :: "u32 \<Rightarrow> bytes \<Rightarrow> bytes res"
  write_map_string :: "u32 \<Rightarrow> (string \<times> string) list \<Rightarrow> bytes res"
  write_map_uint64 :: "u32 \<Rightarrow> (string \<times> u64) list \<Rightarrow> bytes res"
  write_map_message :: "u32 \<Rightarrow> (string \<times> u32 \<times> bytes res) list \<Rightarrow> bytes res"
  write_unknown_fields :: "'u \<Rightarrow> bytes res"
  raw_varint32_size :: "u32 \<Rightarrow> u32"
  size_int32 :: "u32 \<Rightarrow> u32 \<Rightarrow> u32"
  size_uint32 :: "u32 \<Rightarrow> u32 \<Rightarrow> u32"
  size_int64 :: "u32 \<Rightarrow> u64 \<Rightarrow> u32"
  size_uint64 :: "u32 \<Rightarrow> u64 \<Rightarrow> u32"
  enum_size :: "u32 \<Rightarrow> u32 \<Rightarrow> u32"
  string_size :: "u32 \<Rightarrow> string \<Rightarrow> u32"
  bytes_size :: "u32 \<Rightarrow> bytes \<Rightarrow> u32"
  map_string_size :: "u32 \<Rightarrow> (string \<times> string) list \<Rightarrow> u32"
  map_uint64_size :: "u32 \<Rightarrow> (string \<times> u64) list \<Rightarrow> u32"
  map_message_size :: "u32 \<Rightarrow> (string \<times> u32) list \<Rightarrow> u32"
  unknown_fields_size :: "'u \<Rightarrow> u32"

section \<open>The common parts of the generated code\<close>

text \<open>Writing: the parts one after the other, a part under a condition, a part for an optional field or
  for each element. Sizes are added up in \<open>u32\<close>.\<close>

fun catW :: "bytes res list \<Rightarrow> bytes res" where
  "catW [] = Ok []"
| "catW (w # ws) = bind_res w (\<lambda>b. map_res (\<lambda>c. b @ c) (catW ws))"

definition whenW :: "bool \<Rightarrow> bytes res \<Rightarrow> bytes res" where
  "whenW c w = (if c then w else Ok [])"

definition optW :: "'a option \<Rightarrow> ('a \<Rightarrow> bytes res) \<Rightarrow> bytes res" where
  "optW x f = (case x of None \<Rightarrow> Ok [] | Some v \<Rightarrow> f v)"

definition eachW :: "'a list \<Rightarrow> ('a \<Rightarrow> bytes res) \<Rightarrow> bytes res" where
  "eachW xs f = catW (map f xs)"

definition whenS :: "bool \<Rightarrow> u32 \<Rightarrow> u32" where
  "whenS c z = (if c then z else 0)"

definition optS :: "'a option \<Rightarrow> ('a \<Rightarrow> u32) \<Rightarrow> u32" where
  "optS x f = (case x of None \<Rightarrow> 0 | Some v \<Rightarrow> f v)"

definition eachS :: "'a list \<Rightarrow> ('a \<Rightarrow> u32) \<Rightarrow> u32" where
  "eachS xs f = sum_list (map f xs)"

text \<open>A message as a field. The size that \<open>get_cached_size\<close> returns is the one \<open>compute_size\<close> has stored:
  \<open>write_to\<close> calls it before it writes, and nothing changes the message in between.\<close>

definition write_embedded :: "'u runtime \<Rightarrow> u32 \<Rightarrow> u32 \<Rightarrow> bytes res \<Rightarrow> bytes res" where
  "write_embedded rt n len w = catW [write_tag rt n WireTypeLengthDelimited, write_raw_varint32 rt len, w]"

definition embedded_size :: "'u runtime \<Rightarrow> u32 \<Rightarrow> u32 \<Rightarrow> u32" where
  "embedded_size rt c len = c + raw_varint32_size rt len + len"

text \<open>Reading: the arms of the \<open>match\<close> on the field number. \<open>upd\<close> is the update of the field.\<close>

type_synonym 'm arm = "wire_type \<Rightarrow> 'm \<Rightarrow> 'm reader"

definition varint_into :: "'u runtime \<Rightarrow> 'a reader \<Rightarrow> (('a \<Rightarrow> 'a) \<Rightarrow> 'm \<Rightarrow> 'm) \<Rightarrow> 'm arm" where
  "varint_into rt rd upd wire_type m = (if wire_type \<noteq> WireTypeVarint then throw (unexpected_wire_type rt wire_type)
     else bindR rd (\<lambda>tmp. ret (upd (\<lambda>_. tmp) m)))"

definition singular_into :: "(wire_type \<Rightarrow> 'a reader) \<Rightarrow> (('a \<Rightarrow> 'a) \<Rightarrow> 'm \<Rightarrow> 'm) \<Rightarrow> 'm arm" where
  "singular_into rd upd wire_type m = bindR (rd wire_type) (\<lambda>v. ret (upd (\<lambda>_. v) m))"

definition repeated_into :: "(wire_type \<Rightarrow> 'a reader) \<Rightarrow> (('a list \<Rightarrow> 'a list) \<Rightarrow> 'm \<Rightarrow> 'm) \<Rightarrow> 'm arm" where
  "repeated_into rd upd wire_type m = bindR (rd wire_type) (\<lambda>v. ret (upd (\<lambda>vs. vs @ [v]) m))"

definition packed_into :: "(wire_type \<Rightarrow> 'a list reader) \<Rightarrow> (('a list \<Rightarrow> 'a list) \<Rightarrow> 'm \<Rightarrow> 'm) \<Rightarrow> 'm arm" where
  "packed_into rd upd wire_type m = bindR (rd wire_type) (\<lambda>ws. ret (upd (\<lambda>vs. vs @ ws) m))"

definition map_into :: "(wire_type \<Rightarrow> ('k \<times> 'v) reader) \<Rightarrow> ((('k \<times> 'v) list \<Rightarrow> ('k \<times> 'v) list) \<Rightarrow> 'm \<Rightarrow> 'm) \<Rightarrow> 'm arm" where
  "map_into rd upd wire_type m = bindR (rd wire_type) (\<lambda>(k, v). ret (upd (AList.update k v) m))"

text \<open>The bytes of an embedded message are a stream of their own.\<close>

definition parse_message :: "('m \<Rightarrow> 'm reader) \<Rightarrow> 'm \<Rightarrow> bytes \<Rightarrow> 'm res" where
  "parse_message merge start b = fst (merge start b)"

definition message_into :: "'u runtime \<Rightarrow> ('u runtime \<Rightarrow> 'n \<Rightarrow> 'n reader) \<Rightarrow> ('u runtime \<Rightarrow> 'n) \<Rightarrow> ('m \<Rightarrow> 'n option)
    \<Rightarrow> (('n option \<Rightarrow> 'n option) \<Rightarrow> 'm \<Rightarrow> 'm) \<Rightarrow> 'm arm" where
  "message_into rt merge new get upd wire_type m = bindR (read_message rt wire_type) (\<lambda>b.
     bindR (liftR (parse_message (merge rt)
         (case get m of Some v \<Rightarrow> if merges_again rt then v else new rt | None \<Rightarrow> new rt) b))
       (\<lambda>v. ret (upd (\<lambda>_. Some v) m)))"

definition messages_into :: "'u runtime \<Rightarrow> ('u runtime \<Rightarrow> 'n \<Rightarrow> 'n reader) \<Rightarrow> ('u runtime \<Rightarrow> 'n)
    \<Rightarrow> (('n list \<Rightarrow> 'n list) \<Rightarrow> 'm \<Rightarrow> 'm) \<Rightarrow> 'm arm" where
  "messages_into rt merge new upd = repeated_into (\<lambda>wire_type. bindR (read_message rt wire_type) (\<lambda>b.
     liftR (parse_message (merge rt) (new rt) b))) upd"

definition message_map_into :: "'u runtime \<Rightarrow> ('u runtime \<Rightarrow> 'n \<Rightarrow> 'n reader) \<Rightarrow> ('u runtime \<Rightarrow> 'n)
    \<Rightarrow> (((string \<times> 'n) list \<Rightarrow> (string \<times> 'n) list) \<Rightarrow> 'm \<Rightarrow> 'm) \<Rightarrow> 'm arm" where
  "message_map_into rt merge new upd = map_into (\<lambda>wire_type. bindR (read_map_message rt wire_type) (\<lambda>(k, b).
     bindR (liftR (parse_message (merge rt) (new rt) b)) (\<lambda>v. ret (k, v)))) upd"

text \<open>An enumeration by its numbers; an unknown number leaves the field as it is.\<close>

definition enum_into :: "'u runtime \<Rightarrow> (u32 \<Rightarrow> 'e option) \<Rightarrow> u32 \<Rightarrow> ('m \<Rightarrow> 'u) \<Rightarrow> (('u \<Rightarrow> 'u) \<Rightarrow> 'm \<Rightarrow> 'm)
    \<Rightarrow> (('e \<Rightarrow> 'e) \<Rightarrow> 'm \<Rightarrow> 'm) \<Rightarrow> 'm arm" where
  "enum_into rt from_i32 n unknown upd_unknown upd wire_type m =
     bindR (read_enum rt (\<lambda>v. from_i32 v \<noteq> None) wire_type n (unknown m)) (\<lambda>(v, u).
       ret (case Option.bind v from_i32 of None \<Rightarrow> upd_unknown (\<lambda>_. u) m | Some e \<Rightarrow> upd_unknown (\<lambda>_. u) (upd (\<lambda>_. e) m)))"

definition unknown_into :: "'u runtime \<Rightarrow> u32 \<Rightarrow> ('m \<Rightarrow> 'u) \<Rightarrow> (('u \<Rightarrow> 'u) \<Rightarrow> 'm \<Rightarrow> 'm) \<Rightarrow> 'm arm" where
  "unknown_into rt n unknown upd wire_type m = bindR (read_unknown rt n wire_type (unknown m)) (\<lambda>u. ret (upd (\<lambda>_. u) m))"

text \<open>\<open>while !is.eof()? { ... }\<close>: every round reads a tag of at least one byte, so one round for each byte that
  is left is enough.\<close>

fun merge_loop :: "'u runtime \<Rightarrow> nat \<Rightarrow> (u32 \<Rightarrow> 'm arm) \<Rightarrow> 'm \<Rightarrow> 'm reader" where
  "merge_loop rt 0 arms m bs = (Hang, bs)"
| "merge_loop rt (Suc k) arms m bs = (if bs = [] then (Ok m, bs)
     else bindR (read_tag_unpack rt) (\<lambda>(field_number, wire_type).
       bindR (arms field_number wire_type m) (merge_loop rt k arms)) bs)"

definition merge_fields :: "'u runtime \<Rightarrow> (u32 \<Rightarrow> 'm arm) \<Rightarrow> 'm \<Rightarrow> 'm reader" where
  "merge_fields rt arms m bs = merge_loop rt (Suc (length bs)) arms m bs"

end
