(* ===== verification/Pb_Message.thy ===== *)
theory Pb_Message
  imports Pb_Runtime
begin

text \<open>
  The contract of the \<open>protobuf\<close> package (\<open>protobuf\<close>), that of a message (\<open>message\<close>), and the step from
  one to the other: a rule for each kind of field, which the proof for a message strings together.
\<close>

section \<open>The contract of the package\<close>

definition field_number :: "u32 \<Rightarrow> bool" where
  "field_number n \<longleftrightarrow> 0 < n \<and> n < 0x20000000"

definition tag_len :: "u32 \<Rightarrow> nat" where
  "tag_len n = (if n < 0x10 then 1 else if n < 0x800 then 2 else if n < 0x40000 then 3 else if n < 0x2000000 then 4 else 5)"

definition utf8 :: "string \<Rightarrow> bool" where
  "utf8 s \<longleftrightarrow> valid_utf8 (bytes_of s)"

text \<open>
  \<open>w\<close> is a tag and a payload of \<open>z\<close> bytes together, and \<open>rd\<close> reads \<open>v\<close> from the payload. Messages of
  4 GB and more are no messages: their size does not fit.
\<close>

definition carries :: "'u runtime \<Rightarrow> u32 \<Rightarrow> wire_type \<Rightarrow> bytes res \<Rightarrow> u32 \<Rightarrow> 'a reader \<Rightarrow> 'a \<Rightarrow> bool" where
  "carries rt n wt w z rd v \<longleftrightarrow> (\<exists>t p. write_tag rt n wt = Ok t \<and> w = Ok (t @ p) \<and>
     (length (t @ p) < 2 ^ 32 \<longrightarrow> z = of_nat (length (t @ p)) \<and> (\<forall>rest. rd (p @ rest) = (Ok v, rest))))"

locale protobuf =
  fixes rt :: "'u runtime"
  assumes tag: "field_number n \<Longrightarrow> \<exists>t. write_tag rt n wt = Ok t \<and> length t = tag_len n
      \<and> (\<forall>rest. read_tag_unpack rt (t @ rest) = (Ok (n, wt), rest))"
    and bool: "field_number n \<Longrightarrow> carries rt n WireTypeVarint (write_bool rt n b) (of_nat (tag_len n + 1)) (read_bool rt) b"
    and int32: "field_number n \<Longrightarrow> carries rt n WireTypeVarint (write_int32 rt n i) (size_int32 rt n i) (read_int32 rt) i"
    and uint32: "field_number n \<Longrightarrow> carries rt n WireTypeVarint (write_uint32 rt n i) (size_uint32 rt n i) (read_uint32 rt) i"
    and int64: "field_number n \<Longrightarrow> carries rt n WireTypeVarint (write_int64 rt n l) (size_int64 rt n l) (read_int64 rt) l"
    and uint64: "field_number n \<Longrightarrow> carries rt n WireTypeVarint (write_uint64 rt n l) (size_uint64 rt n l) (read_uint64 rt) l"
    and uint32s: "field_number n \<Longrightarrow> carries rt n WireTypeVarint (write_uint32 rt n i) (size_uint32 rt n i)
      (read_uint32s rt WireTypeVarint) [i]"
    and uint64s: "field_number n \<Longrightarrow> carries rt n WireTypeVarint (write_uint64 rt n l) (size_uint64 rt n l)
      (read_uint64s rt WireTypeVarint) [l]"
    and enum: "field_number n \<Longrightarrow> known i \<Longrightarrow> carries rt n WireTypeVarint (write_enum rt n i) (enum_size rt n i)
      (read_enum rt known WireTypeVarint n u) (Some i, u)"
    and string: "field_number n \<Longrightarrow> utf8 s \<Longrightarrow> carries rt n WireTypeLengthDelimited (write_string rt n s) (string_size rt n s)
      (read_string rt WireTypeLengthDelimited) s"
    and bytes: "field_number n \<Longrightarrow> carries rt n WireTypeLengthDelimited (write_bytes rt n bs) (bytes_size rt n bs)
      (read_bytes rt WireTypeLengthDelimited) bs"
    and varint: "length bs < 2 ^ 32 \<Longrightarrow> \<exists>l. write_raw_varint32 rt (of_nat (length bs)) = Ok l
      \<and> raw_varint32_size rt (of_nat (length bs)) = of_nat (length l)
      \<and> (\<forall>rest. read_message rt WireTypeLengthDelimited (l @ bs @ rest) = (Ok bs, rest))"
    and varint_ok: "\<exists>l. write_raw_varint32 rt i = Ok l"
    and map_string: "field_number n \<Longrightarrow> utf8 k \<Longrightarrow> utf8 s \<Longrightarrow> carries rt n WireTypeLengthDelimited
      (write_map_string rt n [(k, s)]) (map_string_size rt n [(k, s)]) (read_map_string rt WireTypeLengthDelimited) (k, s)"
    and map_strings: "write_map_string rt n kvs = eachW kvs (\<lambda>e. write_map_string rt n [e])"
      "map_string_size rt n kvs = eachS kvs (\<lambda>e. map_string_size rt n [e])"
    and map_uint64: "field_number n \<Longrightarrow> utf8 k \<Longrightarrow> carries rt n WireTypeLengthDelimited
      (write_map_uint64 rt n [(k, l)]) (map_uint64_size rt n [(k, l)]) (read_map_uint64 rt WireTypeLengthDelimited) (k, l)"
    and map_uint64s: "write_map_uint64 rt n ls = eachW ls (\<lambda>e. write_map_uint64 rt n [e])"
      "map_uint64_size rt n ls = eachS ls (\<lambda>e. map_uint64_size rt n [e])"
    and map_message: "field_number n \<Longrightarrow> utf8 k \<Longrightarrow> carries rt n WireTypeLengthDelimited
      (write_map_message rt n [(k, of_nat (length bs), Ok bs)]) (map_message_size rt n [(k, of_nat (length bs))])
      (read_map_message rt WireTypeLengthDelimited) (k, bs)"
    and map_message_tag: "field_number n \<Longrightarrow> \<exists>t p. write_tag rt n WireTypeLengthDelimited = Ok t
      \<and> write_map_message rt n [(k, z, Ok bs)] = Ok (t @ p) \<and> length bs \<le> length p"
    and map_messages: "write_map_message rt n es = eachW es (\<lambda>e. write_map_message rt n [e])"
      "map_message_size rt n zs = eachS zs (\<lambda>e. map_message_size rt n [e])"
    and unknown: "write_unknown_fields rt (no_unknown rt) = Ok []" "unknown_fields_size rt (no_unknown rt) = 0"

section \<open>Any bytes at all\<close>

text \<open>
  A reader that gives a value or an error for every stream, and takes nothing but bytes from its front. The
  readers of the package do, also for bytes that no writer has written, and a tag takes at least one.
\<close>

definition answers :: "'a res \<Rightarrow> bool" where
  "answers r \<longleftrightarrow> (\<exists>x. r = Ok x) \<or> (\<exists>e. r = Err e)"

definition robust :: "'a reader \<Rightarrow> bool" where
  "robust rd \<longleftrightarrow> (\<forall>bs. answers (fst (rd bs)) \<and> length (snd (rd bs)) \<le> length bs)"

locale protobuf_readers =
  fixes rt :: "'u runtime"
  assumes robust_tag: "answers (fst (read_tag_unpack rt bs))"
      "fst (read_tag_unpack rt bs) = Ok t \<Longrightarrow> length (snd (read_tag_unpack rt bs)) < length bs"
      "length (snd (read_tag_unpack rt bs)) \<le> length bs"
    and robust_numbers: "robust (read_bool rt)" "robust (read_int32 rt)" "robust (read_uint32 rt)"
      "robust (read_int64 rt)" "robust (read_uint64 rt)"
    and robust_fields: "robust (read_string rt wt)" "robust (read_bytes rt wt)" "robust (read_uint32s rt wt)"
      "robust (read_uint64s rt wt)" "robust (read_enum rt known wt n u)" "robust (read_map_string rt wt)"
      "robust (read_map_uint64 rt wt)" "robust (read_map_message rt wt)" "robust (read_message rt wt)"
      "robust (read_unknown rt n wt u)"

lemma robust_basic: "robust (ret x)" "robust (throw e)" "answers r \<Longrightarrow> robust (liftR r)"
  by (simp_all add: robust_def answers_def)

lemma robust_bind:
  assumes "robust rd" "\<And>x. robust (f x)"
  shows "robust (bindR rd f)"
  unfolding robust_def
proof
  fix bs
  obtain r cs where rd: "rd bs = (r, cs)" by fastforce
  with assms(1) have r: "answers r" "length cs \<le> length bs" by (auto simp: robust_def dest: spec [of _ bs])
  from assms(2) have "answers (fst (f x cs)) \<and> length (snd (f x cs)) \<le> length cs" for x by (simp add: robust_def)
  with rd r show "answers (fst (bindR rd f bs)) \<and> length (snd (bindR rd f bs)) \<le> length bs"
    by (auto simp: answers_def bindR_def split: res.splits intro: le_trans)
qed

lemma robust_if: "robust a \<Longrightarrow> robust b \<Longrightarrow> robust (if c then a else b)"
  by simp

context protobuf_readers begin

lemma robust_loop:
  assumes "\<And>n wt m. robust (arms n wt m)"
  shows "length bs < k \<Longrightarrow> answers (fst (merge_loop rt k arms m bs)) \<and> length (snd (merge_loop rt k arms m bs)) \<le> length bs"
proof (induction k arbitrary: m bs)
  case (Suc k)
  show ?case
  proof (cases "bs = []")
    case False
    obtain r cs where tag: "read_tag_unpack rt bs = (r, cs)" by fastforce
    show ?thesis
    proof (cases r)
      case (Ok t)
      obtain n wt where t: "t = (n, wt)" by fastforce
      from robust_tag(2) [of bs t] tag Ok have cs: "length cs < length bs" by simp
      obtain q ds where arm: "arms n wt m cs = (q, ds)" by fastforce
      with assms [of n wt m] have q: "answers q" "length ds \<le> length cs" by (auto simp: robust_def dest: spec [of _ cs])
      have rest: "answers (fst (merge_loop rt k arms m' ds)) \<and> length (snd (merge_loop rt k arms m' ds)) \<le> length ds" for m'
        using Suc.IH Suc.prems cs q(2) by simp
      from q(1) consider x where "q = Ok x" | e where "q = Err e" by (auto simp: answers_def)
      then show ?thesis
      proof cases
        case 1
        with tag Ok t arm q(2) cs False rest [of x] show ?thesis by simp
      next
        case 2
        with tag Ok t arm q cs False show ?thesis by simp
      qed
    qed (use tag False robust_tag(1,3) [of bs] in \<open>auto simp: answers_def\<close>)
  qed (simp add: answers_def)
qed simp

lemma robust_merge:
  assumes "\<And>n wt m. robust (arms n wt m)"
  shows "robust (merge_fields rt arms m)"
  unfolding robust_def
proof
  fix bs
  show "answers (fst (merge_fields rt arms m bs)) \<and> length (snd (merge_fields rt arms m bs)) \<le> length bs"
    unfolding merge_fields_def by (rule robust_loop [OF assms lessI])
qed

lemma robust_into:
  "robust rd \<Longrightarrow> robust (varint_into rt rd upd wt m)"
  "(\<And>wt. robust (f wt)) \<Longrightarrow> robust (singular_into f upd wt m)"
  "(\<And>wt. robust (f wt)) \<Longrightarrow> robust (repeated_into f rupd wt m)"
  "(\<And>wt. robust (g wt)) \<Longrightarrow> robust (packed_into g rupd wt m)"
  "(\<And>wt. robust (h wt)) \<Longrightarrow> robust (map_into h mupd wt m)"
  "robust (enum_into rt from_i32 n unk upd_unk eupd wt m)"
  "robust (unknown_into rt n unk upd_unk wt m)"
  by (auto simp: varint_into_def singular_into_def repeated_into_def packed_into_def map_into_def enum_into_def
      unknown_into_def intro!: robust_bind robust_basic robust_fields split: prod.split)

lemma robust_messages:
  assumes "\<And>m. robust (merge rt m)"
  shows "answers (parse_message (merge rt) start b)"
    and "robust (message_into rt merge new get upd wt m)"
    and "robust (messages_into rt merge new rupd wt m)"
    and "robust (message_map_into rt merge new mupd wt m)"
proof -
  show parse: "answers (parse_message (merge rt) start b)" for start b
    using assms [of start] by (simp add: parse_message_def robust_def)
  show "robust (message_into rt merge new get upd wt m)" "robust (messages_into rt merge new rupd wt m)"
    "robust (message_map_into rt merge new mupd wt m)"
    unfolding message_into_def messages_into_def message_map_into_def
    by (auto intro!: robust_bind robust_basic robust_fields robust_into parse split: prod.split)
qed

end

section \<open>Fields\<close>

text \<open>Reading \<open>b\<close> off the front of a stream turns \<open>m\<close> into \<open>m'\<close>, in at most as many rounds as it has bytes.\<close>

definition feeds :: "'u runtime \<Rightarrow> (u32 \<Rightarrow> 'm arm) \<Rightarrow> bytes \<Rightarrow> 'm \<Rightarrow> 'm \<Rightarrow> bool" where
  "feeds rt arms b m m' \<longleftrightarrow> (\<exists>j \<le> length b. \<forall>k rest. merge_loop rt (j + k) arms m (b @ rest) = merge_loop rt k arms m' rest)"

lemma feeds_nil: "feeds rt arms [] m m"
  by (auto simp: feeds_def)

lemma feeds_append:
  assumes "feeds rt arms b m m'" "feeds rt arms c m' m''"
  shows "feeds rt arms (b @ c) m m''"
proof -
  from assms(1) obtain i where i: "i \<le> length b"
    "\<And>k rest. merge_loop rt (i + k) arms m (b @ rest) = merge_loop rt k arms m' rest" by (auto simp: feeds_def)
  from assms(2) obtain j where j: "j \<le> length c"
    "\<And>k rest. merge_loop rt (j + k) arms m' (c @ rest) = merge_loop rt k arms m'' rest" by (auto simp: feeds_def)
  have "merge_loop rt (i + j + k) arms m ((b @ c) @ rest) = merge_loop rt k arms m'' rest" for k rest
    using i(2) [of "j + k" "c @ rest"] j(2) [of k rest] by (simp add: add.assoc)
  then show ?thesis using i(1) j(1) by (auto simp: feeds_def intro!: exI [of _ "i + j"])
qed

lemma feeds_end: "feeds rt arms b m m' \<Longrightarrow> merge_fields rt arms m b = (Ok m', [])"
proof -
  assume "feeds rt arms b m m'"
  then obtain j where j: "j \<le> length b"
    "\<And>k rest. merge_loop rt (j + k) arms m (b @ rest) = merge_loop rt k arms m' rest" by (auto simp: feeds_def)
  then show ?thesis using j(2) [of "Suc (length b - j)" "[]"] by (simp add: merge_fields_def)
qed

text \<open>What a part of a message is written as, and its share of the size.\<close>

definition codes :: "'u runtime \<Rightarrow> (u32 \<Rightarrow> 'm arm) \<Rightarrow> bytes res \<Rightarrow> u32 \<Rightarrow> 'm \<Rightarrow> 'm \<Rightarrow> bool" where
  "codes rt arms w z m m' \<longleftrightarrow> (\<exists>b. w = Ok b \<and> (length b < 2 ^ 32 \<longrightarrow> z = of_nat (length b) \<and> feeds rt arms b m m'))"

lemma codes_nil: "codes rt arms (catW []) (sum_list []) m m"
  by (simp add: codes_def feeds_nil)

lemma codes_Cons:
  assumes "codes rt arms w z m m'" "codes rt arms (catW ws) (sum_list zs) m' m''"
  shows "codes rt arms (catW (w # ws)) (sum_list (z # zs)) m m''"
  using assms by (auto simp: codes_def intro: feeds_append)

lemma codes_skip: "codes rt arms (Ok []) 0 m m"
  by (simp add: codes_def feeds_nil)

lemma codes_when:
  assumes "c \<Longrightarrow> codes rt arms w z m m'" "\<not> c \<Longrightarrow> m' = m"
  shows "codes rt arms (whenW c w) (whenS c z) m m'"
  using assms codes_skip by (auto simp: whenW_def whenS_def)

lemma codes_opt:
  assumes "\<And>v. x = Some v \<Longrightarrow> codes rt arms (f v) (g v) m m'" "x = None \<Longrightarrow> m' = m"
  shows "codes rt arms (optW x f) (optS x g) m m'"
  using assms codes_skip by (auto simp: optW_def optS_def split: option.split)

lemma each_map: "eachW (map h xs) f = eachW xs (\<lambda>x. f (h x))" "eachS (map h xs) g = eachS xs (\<lambda>x. g (h x))"
  by (simp_all add: eachW_def eachS_def comp_def)

lemma codes_each:
  assumes "\<And>v k. v \<in> set xs \<Longrightarrow> codes rt arms (f v) (g v) (upd (\<lambda>vs. vs @ k) m) (upd (\<lambda>vs. vs @ k @ [v]) m)"
    and "upd (\<lambda>vs. vs) m = m"
  shows "codes rt arms (eachW xs f) (eachS xs g) m (upd (\<lambda>vs. vs @ xs) m)"
proof -
  have "codes rt arms (catW (map f ys)) (sum_list (map g ys)) (upd (\<lambda>vs. vs @ k) m) (upd (\<lambda>vs. vs @ k @ ys) m)"
    if "set ys \<subseteq> set xs" for ys k
    using that
  proof (induction ys arbitrary: k)
    case Nil
    then show ?case using codes_nil by simp
  next
    case (Cons y ys)
    then show ?case using codes_Cons [OF assms(1) [of y k] Cons.IH [of "k @ [y]"]] by simp
  qed
  from this [of xs "[]"] assms(2) show ?thesis by (simp add: eachW_def eachS_def)
qed

section \<open>The fields of each kind\<close>

context protobuf begin

lemma codes_item:
  assumes "field_number n" "carries rt n wt w z rd v"
    and "\<And>bs rest. rd bs = (Ok v, rest) \<Longrightarrow> arms n wt m bs = (Ok m', rest)"
  shows "codes rt arms w z m m'"
proof -
  from assms(2) obtain t p where w: "write_tag rt n wt = Ok t" "w = Ok (t @ p)"
    and p: "length (t @ p) < 2 ^ 32 \<longrightarrow> z = of_nat (length (t @ p)) \<and> (\<forall>rest. rd (p @ rest) = (Ok v, rest))"
    by (auto simp: carries_def)
  from tag [OF assms(1), of wt] w(1) have t: "length t = tag_len n"
    "\<And>rest. read_tag_unpack rt (t @ rest) = (Ok (n, wt), rest)" by auto
  have "t \<noteq> []" using t(1) by (auto simp: tag_len_def split: if_splits)
  then have "feeds rt arms (t @ p) m m'" if "\<forall>rest. rd (p @ rest) = (Ok v, rest)"
    using that t(2) assms(3) by (auto simp: feeds_def neq_Nil_conv intro!: exI [of _ "Suc 0"])
  with w(2) p show ?thesis by (auto simp: codes_def)
qed

lemma varint_field:
  assumes "field_number n" "carries rt n WireTypeVarint w z rd v"
    and "arms n = varint_into rt rd upd" "upd (\<lambda>_. d) m = m"
  shows "codes rt arms (whenW (v \<noteq> d) w) (whenS (v \<noteq> d) z) m (upd (\<lambda>_. v) m)"
  using assms(3,4) by (intro codes_when codes_item [OF assms(1,2)]) (auto simp: varint_into_def)

lemma bool_field:
  assumes "field_number n" "c = of_nat (tag_len n + 1)" "arms n = varint_into rt (read_bool rt) upd" "upd (\<lambda>_. d) m = m"
  shows "codes rt arms (whenW (v \<noteq> d) (write_bool rt n v)) (whenS (v \<noteq> d) c) m (upd (\<lambda>_. v) m)"
  using varint_field [where rd = "read_bool rt" and v = v, OF assms(1) bool [OF assms(1)]] assms by simp

lemmas int32_field = varint_field [OF _ int32]
  and uint32_field = varint_field [OF _ uint32]
  and int64_field = varint_field [OF _ int64]
  and uint64_field = varint_field [OF _ uint64]

lemma singular_field:
  assumes "field_number n" "carries rt n wt w z (rd wt) v"
    and "arms n = singular_into rd upd" "upd (\<lambda>_. d) m = m"
  shows "codes rt arms (whenW (v \<noteq> d) w) (whenS (v \<noteq> d) z) m (upd (\<lambda>_. v) m)"
  using assms(3,4) by (intro codes_when codes_item [OF assms(1,2)]) (auto simp: singular_into_def)

lemmas string_field = singular_field [where rd = "read_string rt", OF _ string]
  and bytes_field = singular_field [where rd = "read_bytes rt", OF _ bytes]

lemma enum_field:
  assumes "field_number n" "arms n = enum_into rt from_i32 n unknown upd_unknown upd"
    and "from_i32 (num e) = Some e" "upd (\<lambda>_. d) m = m"
    and "\<And>m. upd_unknown (\<lambda>_. unknown m) m = m" "unknown (upd (\<lambda>_. e) m) = unknown m"
  shows "codes rt arms (whenW (e \<noteq> d) (write_enum rt n (num e))) (whenS (e \<noteq> d) (enum_size rt n (num e))) m (upd (\<lambda>_. e) m)"
proof (rule codes_when)
  have known: "carries rt n WireTypeVarint (write_enum rt n (num e)) (enum_size rt n (num e))
      (read_enum rt (\<lambda>v. from_i32 v \<noteq> None) WireTypeVarint n (unknown m)) (Some (num e), unknown m)"
    using assms(1,3) by (intro enum) auto
  have "upd_unknown (\<lambda>_. unknown m) (upd (\<lambda>_. e) m) = upd (\<lambda>_. e) m"
    using assms(5) [of "upd (\<lambda>_. e) m"] assms(6) by simp
  then show "codes rt arms (write_enum rt n (num e)) (enum_size rt n (num e)) m (upd (\<lambda>_. e) m)"
    by (intro codes_item [OF assms(1) known]) (simp add: assms(2,3) enum_into_def)
qed (use assms in simp)

text \<open>Fields that come once for each element.\<close>

lemma repeated_field:
  assumes "field_number n" "\<And>v. v \<in> set xs \<Longrightarrow> carries rt n wt (f v) (g v) (rd wt) v"
    and "arms n = repeated_into rd upd" "\<And>h k. upd h (upd k m) = upd (\<lambda>x. h (k x)) m" "upd (\<lambda>vs. vs) m = m"
  shows "codes rt arms (eachW xs f) (eachS xs g) m (upd (\<lambda>vs. vs @ xs) m)"
  using assms(3-5) by (intro codes_each codes_item [OF assms(1) assms(2)]) (auto simp: repeated_into_def)

lemma strings_field:
  assumes "field_number n" "list_all utf8 xs"
    and "arms n = repeated_into (read_string rt) upd" "\<And>h k. upd h (upd k m) = upd (\<lambda>x. h (k x)) m" "upd (\<lambda>vs. vs) m = m"
  shows "codes rt arms (eachW xs (write_string rt n)) (eachS xs (string_size rt n)) m (upd (\<lambda>vs. vs @ xs) m)"
  using assms by (intro repeated_field) (auto simp: list_all_iff intro: string)

lemma packed_field:
  assumes "field_number n" "\<And>v. v \<in> set xs \<Longrightarrow> carries rt n wt (f v) (g v) (rd wt) [v]"
    and "arms n = packed_into rd upd" "\<And>h k. upd h (upd k m) = upd (\<lambda>x. h (k x)) m" "upd (\<lambda>vs. vs) m = m"
  shows "codes rt arms (eachW xs f) (eachS xs g) m (upd (\<lambda>vs. vs @ xs) m)"
  using assms(3-5) by (intro codes_each codes_item [OF assms(1) assms(2)]) (auto simp: packed_into_def)

lemmas uint32s_field = packed_field [where rd = "read_uint32s rt", OF _ uint32s]
  and uint64s_field = packed_field [where rd = "read_uint64s rt", OF _ uint64s]

text \<open>A map is written entry by entry; distinct keys come back in the same order.\<close>

lemma update_fresh: "k \<notin> fst ` set kvs \<Longrightarrow> AList.update k v kvs = kvs @ [(k, v)]"
  by (induction kvs) auto

lemma map_field:
  assumes "field_number n" "\<And>k v. (k, v) \<in> set kvs \<Longrightarrow> carries rt n wt (f (k, v)) (g (k, v)) (rd wt) (k, v)"
    and "arms n = map_into rd upd" "\<And>h k. upd h (upd k m) = upd (\<lambda>x. h (k x)) m" "upd (\<lambda>_. []) m = m"
    and "distinct (map fst kvs)"
  shows "codes rt arms (eachW kvs f) (eachS kvs g) m (upd (\<lambda>_. kvs) m)"
proof -
  have "codes rt arms (catW (map f es)) (sum_list (map g es)) (upd (\<lambda>_. fs) m) (upd (\<lambda>_. fs @ es) m)"
    if "set es \<subseteq> set kvs" "distinct (map fst (fs @ es))" for es fs
    using that
  proof (induction es arbitrary: fs)
    case Nil
    then show ?case using codes_nil by simp
  next
    case (Cons e es)
    obtain k v where e: "e = (k, v)" by fastforce
    have "codes rt arms (f (k, v)) (g (k, v)) (upd (\<lambda>_. fs) m) (upd (\<lambda>_. fs @ [(k, v)]) m)"
      using Cons.prems assms(3,4) e
      by (intro codes_item [OF assms(1) assms(2)]) (auto simp: map_into_def update_fresh)
    then have "codes rt arms (f e) (g e) (upd (\<lambda>_. fs) m) (upd (\<lambda>_. fs @ [e]) m)" using e by simp
    then show ?case using codes_Cons Cons.IH [of "fs @ [e]"] Cons.prems by fastforce
  qed
  from this [of kvs "[]"] assms(5,6) show ?thesis by (simp add: eachW_def eachS_def)
qed

lemma string_map_field:
  assumes "field_number n" "list_all (\<lambda>(k, v). utf8 k \<and> utf8 v) kvs" "distinct (map fst kvs)"
    and "arms n = map_into (read_map_string rt) upd" "\<And>h k. upd h (upd k m) = upd (\<lambda>x. h (k x)) m" "upd (\<lambda>_. []) m = m"
  shows "codes rt arms (write_map_string rt n kvs) (map_string_size rt n kvs) m (upd (\<lambda>_. kvs) m)"
  unfolding map_strings [of n kvs] using assms
  by (intro map_field) (auto simp: list_all_iff intro!: map_string)

lemma uint64_map_field:
  assumes "field_number n" "list_all (\<lambda>(k, v). utf8 k) kvs" "distinct (map fst kvs)"
    and "arms n = map_into (read_map_uint64 rt) upd" "\<And>h k. upd h (upd k m) = upd (\<lambda>x. h (k x)) m" "upd (\<lambda>_. []) m = m"
  shows "codes rt arms (write_map_uint64 rt n kvs) (map_uint64_size rt n kvs) m (upd (\<lambda>_. kvs) m)"
  unfolding map_uint64s [of n kvs] using assms
  by (intro map_field) (auto simp: list_all_iff intro!: map_uint64)

lemma unknown_field: "u = no_unknown rt \<Longrightarrow> codes rt arms (write_unknown_fields rt u) (unknown_fields_size rt u) m m"
  using codes_skip unknown by simp

end

section \<open>The contract of a message\<close>

locale message =
  fixes new :: "'u runtime \<Rightarrow> 'm"
    and merge :: "'u runtime \<Rightarrow> 'm \<Rightarrow> 'm reader"
    and size :: "'u runtime \<Rightarrow> 'm \<Rightarrow> u32"
    and wr :: "'u runtime \<Rightarrow> 'm \<Rightarrow> bytes res"
    and ok :: "'u runtime \<Rightarrow> 'm \<Rightarrow> bool"
    and clear :: "'u runtime \<Rightarrow> 'm \<Rightarrow> 'm"
  assumes clear_new: "clear rt m = new rt"
    and transfer: "protobuf rt \<Longrightarrow> ok rt m \<Longrightarrow> \<exists>b. wr rt m = Ok b \<and>
      (length b < 2 ^ 32 \<longrightarrow> size rt m = of_nat (length b) \<and> merge rt (new rt) b = (Ok m, []))"
    and robust_merge: "protobuf_readers rt \<Longrightarrow> robust (merge rt m)"
begin

text \<open>A message as a whole: it is read back, and any bytes are read to a message or an error.\<close>

lemma parsed:
  "protobuf rt \<Longrightarrow> ok rt m \<Longrightarrow> wr rt m = Ok b \<Longrightarrow> length b < 2 ^ 32 \<Longrightarrow> parse_message (merge rt) (new rt) b = Ok m"
  using transfer [of rt m] by (auto simp: parse_message_def)

lemma parse_answers: "protobuf_readers rt \<Longrightarrow> answers (parse_message (merge rt) (new rt) b)"
  by (rule protobuf_readers.robust_messages(1) [OF _ robust_merge])

text \<open>An embedded message.\<close>

lemma embedded:
  assumes rt: "protobuf rt" and n: "field_number n" "c = of_nat (tag_len n)" and v: "ok rt v"
  shows "carries rt n WireTypeLengthDelimited (write_embedded rt n (size rt v) (wr rt v))
    (embedded_size rt c (size rt v))
    (bindR (read_message rt WireTypeLengthDelimited) (\<lambda>b. liftR (parse_message (merge rt) (new rt) b))) v"
proof -
  from transfer [OF rt v] obtain b where b: "wr rt v = Ok b"
    "length b < 2 ^ 32 \<longrightarrow> size rt v = of_nat (length b) \<and> merge rt (new rt) b = (Ok v, [])" by auto
  from protobuf.tag [OF rt n(1)] obtain t where t: "write_tag rt n WireTypeLengthDelimited = Ok t" "length t = tag_len n"
    by blast
  from protobuf.varint_ok [OF rt] obtain l where l: "write_raw_varint32 rt (size rt v) = Ok l" by blast
  have "embedded_size rt c (size rt v) = of_nat (length (t @ l @ b))"
    and "bindR (read_message rt WireTypeLengthDelimited) (\<lambda>b. liftR (parse_message (merge rt) (new rt) b)) (l @ b @ rest)
      = (Ok v, rest)" if "length (t @ l @ b) < 2 ^ 32" for rest
  proof -
    from that have len: "length b < 2 ^ 32" by simp
    with protobuf.varint [OF rt this] l b(2) show "embedded_size rt c (size rt v) = of_nat (length (t @ l @ b))"
      "bindR (read_message rt WireTypeLengthDelimited) (\<lambda>b. liftR (parse_message (merge rt) (new rt) b)) (l @ b @ rest)
        = (Ok v, rest)"
      using n(2) t(2) by (auto simp: embedded_size_def parse_message_def)
  qed
  then show ?thesis using t(1) l b(1) by (auto simp: carries_def write_embedded_def)
qed

lemmas robust_field = protobuf_readers.robust_messages(2-4) [OF _ robust_merge]

lemma message_field:
  assumes rt: "protobuf rt" and n: "field_number n" "c = of_nat (tag_len n)" and ok: "pred_option (ok rt) x"
    and upd: "arms n = message_into rt merge new get upd" "get m = None" "upd (\<lambda>_. None) m = m"
  shows "codes rt arms (optW x (\<lambda>v. write_embedded rt n (size rt v) (wr rt v)))
    (optS x (\<lambda>v. embedded_size rt c (size rt v))) m (upd (\<lambda>_. x) m)"
proof (rule codes_opt)
  fix v assume "x = Some v"
  with ok have v: "ok rt v" by simp
  show "codes rt arms (write_embedded rt n (size rt v) (wr rt v)) (embedded_size rt c (size rt v)) m (upd (\<lambda>_. x) m)"
    using upd \<open>x = Some v\<close>
    by (intro protobuf.codes_item [OF rt n(1) embedded [OF rt n v]])
      (auto simp: message_into_def bindR_Ok_iff)
qed (use upd(3) in simp)

lemma messages_field:
  assumes rt: "protobuf rt" and n: "field_number n" "c = of_nat (tag_len n)" and ok: "list_all (ok rt) xs"
    and upd: "arms n = messages_into rt merge new upd"
      "\<And>h k. upd h (upd k m) = upd (\<lambda>x. h (k x)) m" "upd (\<lambda>vs. vs) m = m"
  shows "codes rt arms (eachW xs (\<lambda>v. write_embedded rt n (size rt v) (wr rt v)))
    (eachS xs (\<lambda>v. embedded_size rt c (size rt v))) m (upd (\<lambda>vs. vs @ xs) m)"
  using upd ok unfolding messages_into_def
  by (intro protobuf.repeated_field [OF rt n(1)]) (auto simp: list_all_iff intro: embedded [OF rt n])

lemma message_map_field:
  assumes rt: "protobuf rt" and n: "field_number n" and ok: "list_all (\<lambda>(k, v). utf8 k \<and> ok rt v) kvs" "distinct (map fst kvs)"
    and upd: "arms n = message_map_into rt merge new upd"
      "\<And>h k. upd h (upd k m) = upd (\<lambda>x. h (k x)) m" "upd (\<lambda>_. []) m = m"
  shows "codes rt arms (write_map_message rt n (map (\<lambda>(k, v). (k, size rt v, wr rt v)) kvs))
    (map_message_size rt n (map (\<lambda>(k, v). (k, size rt v)) kvs)) m (upd (\<lambda>_. kvs) m)"
proof -
  let ?f = "\<lambda>(k, v). write_map_message rt n [(k, size rt v, wr rt v)]"
  let ?g = "\<lambda>(k, v). map_message_size rt n [(k, size rt v)]"
  let ?rd = "\<lambda>wire_type. bindR (read_map_message rt wire_type) (\<lambda>(k, b).
     bindR (liftR (parse_message (merge rt) (new rt) b)) (\<lambda>v. ret (k, v)))"
  have item: "carries rt n WireTypeLengthDelimited (?f (k, v)) (?g (k, v)) (?rd WireTypeLengthDelimited) (k, v)"
    if "(k, v) \<in> set kvs" for k v
  proof -
    from that ok have k: "utf8 k" and v: "ok rt v" by (auto simp: list_all_iff)
    from transfer [OF rt v] obtain b where b: "wr rt v = Ok b"
      "length b < 2 ^ 32 \<longrightarrow> size rt v = of_nat (length b) \<and> merge rt (new rt) b = (Ok v, [])" by auto
    show ?thesis
    proof (cases "length b < 2 ^ 32")
      case True
      with protobuf.map_message [OF rt n k, of b] b show ?thesis
        by (auto simp: carries_def parse_message_def)
    next
      case False
      with protobuf.map_message_tag [OF rt n, of k "size rt v" b] b(1) show ?thesis
        by (fastforce simp: carries_def)
    qed
  qed
  have "codes rt arms (eachW kvs ?f) (eachS kvs ?g) m (upd (\<lambda>_. kvs) m)"
    using item ok(2) upd
    by (intro protobuf.map_field [OF rt n, where rd = ?rd and wt = WireTypeLengthDelimited])
      (simp_all add: message_map_into_def)
  then show ?thesis
    unfolding protobuf.map_messages(1) [OF rt, of n "map (\<lambda>(k, v). (k, size rt v, wr rt v)) kvs"]
      protobuf.map_messages(2) [OF rt, of n "map (\<lambda>(k, v). (k, size rt v)) kvs"] each_map
    by (simp add: case_prod_beta')
qed

end

text \<open>A message keeps the contract when its parts are carried one after the other: the rules for that are
  \<open>field_rules\<close>, with those of the embedded messages.\<close>

lemma messageI:
  fixes merge :: "'u runtime \<Rightarrow> 'm \<Rightarrow> 'm reader"
  assumes "\<And>rt. merge rt = merge_fields rt (arms rt)" "\<And>rt m. clear rt m = new rt"
    and "\<And>rt n wt m. protobuf_readers rt \<Longrightarrow> robust (arms rt n wt m)"
    and "\<And>rt m. protobuf rt \<Longrightarrow> ok rt m \<Longrightarrow> codes rt (arms rt) (wr rt m) (sz rt m) (new rt) m"
  shows "message new merge sz wr ok clear"
proof
  fix rt m
  assume "protobuf rt" "ok rt m"
  with assms(4) have "codes rt (arms rt) (wr rt m) (sz rt m) (new rt) m" by blast
  then show "\<exists>b. wr rt m = Ok b \<and> (length b < 2 ^ 32 \<longrightarrow> sz rt m = of_nat (length b) \<and> merge rt (new rt) b = (Ok m, []))"
    by (auto simp: codes_def assms(1) dest: feeds_end)
next
  fix rt :: "'u runtime" and m
  assume "protobuf_readers rt"
  with assms(3) show "robust (merge rt m)" by (auto simp: assms(1) intro: protobuf_readers.robust_merge)
qed (rule assms(2))

lemmas robust_rules = protobuf_readers.robust_into protobuf_readers.robust_numbers protobuf_readers.robust_fields

lemma codes_to: "codes rt arms w z m m' \<Longrightarrow> m' = m'' \<Longrightarrow> codes rt arms w z m m''"
  by simp

lemmas field_rules = codes_Cons codes_nil protobuf.unknown_field protobuf.bool_field protobuf.int32_field
  protobuf.uint32_field protobuf.int64_field protobuf.uint64_field protobuf.string_field protobuf.bytes_field
  protobuf.enum_field protobuf.strings_field protobuf.uint32s_field protobuf.uint64s_field
  protobuf.string_map_field protobuf.uint64_map_field

end
