(* ===== verification/Pb_Types.thy ===== *)
theory Pb_Types
  imports Pb_Message Netlink_Decode
begin

text \<open>
  \<open>protocols/src/types.rs\<close>, \<open>empty.rs\<close> and \<open>health.rs\<close>: for each message its record, with the bookkeeping
  of unknown fields (\<open>cached_size\<close> is left out, see \<open>write_embedded\<close>), its new value, \<open>clear\<close>, \<open>merge_from\<close> with
  the arms of its \<open>match\<close>, \<open>compute_size\<close>, \<open>write_to_with_cached_sizes\<close>, and that it keeps the contract
  \<open>message\<close>. \<open>T_ok\<close> holds of every value of the Rust type that has no unknown fields: its
  strings are UTF-8 and the keys of its maps distinct. A signed number is the word of its bits. The
  accessors are the selectors and updates of the record.
\<close>

text \<open>The numbers of the enumerations.\<close>

fun IPFamily_value :: "IPFamily \<Rightarrow> u32" where
  "IPFamily_value v4 = 0" | "IPFamily_value v6 = 1"

definition IPFamily_from_i32 :: "u32 \<Rightarrow> IPFamily option" where
  "IPFamily_from_i32 n = (if n = 0 then Some v4 else if n = 1 then Some v6 else None)"

lemma IPFamily_numbers: "IPFamily_from_i32 (IPFamily_value e) = Some e"
  by (cases e) (simp_all add: IPFamily_from_i32_def)

datatype HealthCheckResponse_ServingStatus = UNKNOWN | SERVING | NOT_SERVING

fun HealthCheckResponse_ServingStatus_value :: "HealthCheckResponse_ServingStatus \<Rightarrow> u32" where
  "HealthCheckResponse_ServingStatus_value UNKNOWN = 0"
| "HealthCheckResponse_ServingStatus_value SERVING = 1"
| "HealthCheckResponse_ServingStatus_value NOT_SERVING = 2"

definition HealthCheckResponse_ServingStatus_from_i32 :: "u32 \<Rightarrow> HealthCheckResponse_ServingStatus option" where
  "HealthCheckResponse_ServingStatus_from_i32 n =
     (if n = 0 then Some UNKNOWN else if n = 1 then Some SERVING else if n = 2 then Some NOT_SERVING else None)"

lemma HealthCheckResponse_ServingStatus_numbers:
  "HealthCheckResponse_ServingStatus_from_i32 (HealthCheckResponse_ServingStatus_value e) = Some e"
  by (cases e) (simp_all add: HealthCheckResponse_ServingStatus_from_i32_def)

section \<open>\<open>IPAddress\<close>\<close>

record 'u pb_IPAddress =
  IPAddress_family :: IPFamily
  IPAddress_address :: string
  IPAddress_mask :: string
  IPAddress_unknown_fields :: 'u

definition IPAddress_new :: "'u runtime \<Rightarrow> 'u pb_IPAddress" where
  "IPAddress_new rt = \<lparr>IPAddress_family = v4, IPAddress_address = [], IPAddress_mask = [], IPAddress_unknown_fields = no_unknown rt\<rparr>"

definition IPAddress_clear :: "'u runtime \<Rightarrow> 'u pb_IPAddress \<Rightarrow> 'u pb_IPAddress" where
  "IPAddress_clear rt m = m\<lparr>IPAddress_family := v4, IPAddress_address := [], IPAddress_mask := [], IPAddress_unknown_fields := no_unknown rt\<rparr>"

definition IPAddress_is_initialized :: "'u pb_IPAddress \<Rightarrow> bool" where
  "IPAddress_is_initialized m \<longleftrightarrow> True"

definition IPAddress_arms :: "'u runtime \<Rightarrow> u32 \<Rightarrow> 'u pb_IPAddress arm" where
  "IPAddress_arms rt n =
     (if n = 1 then enum_into rt IPFamily_from_i32 1 IPAddress_unknown_fields IPAddress_unknown_fields_update IPAddress_family_update
      else if n = 2 then singular_into (read_string rt) IPAddress_address_update
      else if n = 3 then singular_into (read_string rt) IPAddress_mask_update
      else unknown_into rt n IPAddress_unknown_fields IPAddress_unknown_fields_update)"

definition IPAddress_merge_from :: "'u runtime \<Rightarrow> 'u pb_IPAddress \<Rightarrow> 'u pb_IPAddress reader" where
  "IPAddress_merge_from rt = merge_fields rt (IPAddress_arms rt)"

definition IPAddress_compute_size :: "'u runtime \<Rightarrow> 'u pb_IPAddress \<Rightarrow> u32" where
  "IPAddress_compute_size rt m = sum_list [
     whenS (IPAddress_family m \<noteq> v4) (enum_size rt 1 (IPFamily_value (IPAddress_family m))),
     whenS (IPAddress_address m \<noteq> []) (string_size rt 2 (IPAddress_address m)),
     whenS (IPAddress_mask m \<noteq> []) (string_size rt 3 (IPAddress_mask m)),
     unknown_fields_size rt (IPAddress_unknown_fields m)]"

definition IPAddress_write_to :: "'u runtime \<Rightarrow> 'u pb_IPAddress \<Rightarrow> bytes res" where
  "IPAddress_write_to rt m = catW [
     whenW (IPAddress_family m \<noteq> v4) (write_enum rt 1 (IPFamily_value (IPAddress_family m))),
     whenW (IPAddress_address m \<noteq> []) (write_string rt 2 (IPAddress_address m)),
     whenW (IPAddress_mask m \<noteq> []) (write_string rt 3 (IPAddress_mask m)),
     write_unknown_fields rt (IPAddress_unknown_fields m)]"

definition IPAddress_ok :: "'u runtime \<Rightarrow> 'u pb_IPAddress \<Rightarrow> bool" where
  "IPAddress_ok rt m \<longleftrightarrow> IPAddress_unknown_fields m = no_unknown rt \<and>
     utf8 (IPAddress_address m) \<and>
     utf8 (IPAddress_mask m)"

lemma IPAddress_arm:
  "IPAddress_arms rt 1 = enum_into rt IPFamily_from_i32 1 IPAddress_unknown_fields IPAddress_unknown_fields_update IPAddress_family_update"
  "IPAddress_arms rt 2 = singular_into (read_string rt) IPAddress_address_update"
  "IPAddress_arms rt 3 = singular_into (read_string rt) IPAddress_mask_update"
  by (simp_all add: IPAddress_arms_def)

interpretation IPAddress_pb: message IPAddress_new IPAddress_merge_from IPAddress_compute_size IPAddress_write_to IPAddress_ok IPAddress_clear
  by (rule messageI [OF IPAddress_merge_from_def], simp add: IPAddress_clear_def IPAddress_new_def,
      unfold IPAddress_arms_def, (rule robust_if robust_rules | assumption | simp only: if_distribR)+,
      unfold IPAddress_compute_size_def IPAddress_write_to_def IPAddress_ok_def, rule codes_to,
      (rule field_rules IPAddress_arm | assumption
        | simp add: field_number_def tag_len_def IPAddress_new_def IPFamily_numbers)+)

section \<open>\<open>Interface\<close>\<close>

record 'u pb_Interface =
  Interface_device :: string
  Interface_name :: string
  Interface_IPAddresses :: "'u pb_IPAddress list"
  Interface_mtu :: u64
  Interface_hwAddr :: string
  Interface_pciAddr :: string
  Interface_field_type :: string
  Interface_raw_flags :: u32
  Interface_unknown_fields :: 'u

definition Interface_new :: "'u runtime \<Rightarrow> 'u pb_Interface" where
  "Interface_new rt = \<lparr>Interface_device = [], Interface_name = [], Interface_IPAddresses = [], Interface_mtu = 0, Interface_hwAddr = [], Interface_pciAddr = [], Interface_field_type = [], Interface_raw_flags = 0, Interface_unknown_fields = no_unknown rt\<rparr>"

definition Interface_clear :: "'u runtime \<Rightarrow> 'u pb_Interface \<Rightarrow> 'u pb_Interface" where
  "Interface_clear rt m = m\<lparr>Interface_device := [], Interface_name := [], Interface_IPAddresses := [], Interface_mtu := 0, Interface_hwAddr := [], Interface_pciAddr := [], Interface_field_type := [], Interface_raw_flags := 0, Interface_unknown_fields := no_unknown rt\<rparr>"

definition Interface_is_initialized :: "'u pb_Interface \<Rightarrow> bool" where
  "Interface_is_initialized m \<longleftrightarrow> list_all IPAddress_is_initialized (Interface_IPAddresses m)"

definition Interface_arms :: "'u runtime \<Rightarrow> u32 \<Rightarrow> 'u pb_Interface arm" where
  "Interface_arms rt n =
     (if n = 1 then singular_into (read_string rt) Interface_device_update
      else if n = 2 then singular_into (read_string rt) Interface_name_update
      else if n = 3 then messages_into rt IPAddress_merge_from IPAddress_new Interface_IPAddresses_update
      else if n = 4 then varint_into rt (read_uint64 rt) Interface_mtu_update
      else if n = 5 then singular_into (read_string rt) Interface_hwAddr_update
      else if n = 6 then singular_into (read_string rt) Interface_pciAddr_update
      else if n = 7 then singular_into (read_string rt) Interface_field_type_update
      else if n = 8 then varint_into rt (read_uint32 rt) Interface_raw_flags_update
      else unknown_into rt n Interface_unknown_fields Interface_unknown_fields_update)"

definition Interface_merge_from :: "'u runtime \<Rightarrow> 'u pb_Interface \<Rightarrow> 'u pb_Interface reader" where
  "Interface_merge_from rt = merge_fields rt (Interface_arms rt)"

definition Interface_compute_size :: "'u runtime \<Rightarrow> 'u pb_Interface \<Rightarrow> u32" where
  "Interface_compute_size rt m = sum_list [
     whenS (Interface_device m \<noteq> []) (string_size rt 1 (Interface_device m)),
     whenS (Interface_name m \<noteq> []) (string_size rt 2 (Interface_name m)),
     eachS (Interface_IPAddresses m) (\<lambda>v. embedded_size rt 1 (IPAddress_compute_size rt v)),
     whenS (Interface_mtu m \<noteq> 0) (size_uint64 rt 4 (Interface_mtu m)),
     whenS (Interface_hwAddr m \<noteq> []) (string_size rt 5 (Interface_hwAddr m)),
     whenS (Interface_pciAddr m \<noteq> []) (string_size rt 6 (Interface_pciAddr m)),
     whenS (Interface_field_type m \<noteq> []) (string_size rt 7 (Interface_field_type m)),
     whenS (Interface_raw_flags m \<noteq> 0) (size_uint32 rt 8 (Interface_raw_flags m)),
     unknown_fields_size rt (Interface_unknown_fields m)]"

definition Interface_write_to :: "'u runtime \<Rightarrow> 'u pb_Interface \<Rightarrow> bytes res" where
  "Interface_write_to rt m = catW [
     whenW (Interface_device m \<noteq> []) (write_string rt 1 (Interface_device m)),
     whenW (Interface_name m \<noteq> []) (write_string rt 2 (Interface_name m)),
     eachW (Interface_IPAddresses m) (\<lambda>v. write_embedded rt 3 (IPAddress_compute_size rt v) (IPAddress_write_to rt v)),
     whenW (Interface_mtu m \<noteq> 0) (write_uint64 rt 4 (Interface_mtu m)),
     whenW (Interface_hwAddr m \<noteq> []) (write_string rt 5 (Interface_hwAddr m)),
     whenW (Interface_pciAddr m \<noteq> []) (write_string rt 6 (Interface_pciAddr m)),
     whenW (Interface_field_type m \<noteq> []) (write_string rt 7 (Interface_field_type m)),
     whenW (Interface_raw_flags m \<noteq> 0) (write_uint32 rt 8 (Interface_raw_flags m)),
     write_unknown_fields rt (Interface_unknown_fields m)]"

definition Interface_ok :: "'u runtime \<Rightarrow> 'u pb_Interface \<Rightarrow> bool" where
  "Interface_ok rt m \<longleftrightarrow> Interface_unknown_fields m = no_unknown rt \<and>
     utf8 (Interface_device m) \<and>
     utf8 (Interface_name m) \<and>
     list_all (IPAddress_ok rt) (Interface_IPAddresses m) \<and>
     utf8 (Interface_hwAddr m) \<and>
     utf8 (Interface_pciAddr m) \<and>
     utf8 (Interface_field_type m)"

lemma Interface_arm:
  "Interface_arms rt 1 = singular_into (read_string rt) Interface_device_update"
  "Interface_arms rt 2 = singular_into (read_string rt) Interface_name_update"
  "Interface_arms rt 3 = messages_into rt IPAddress_merge_from IPAddress_new Interface_IPAddresses_update"
  "Interface_arms rt 4 = varint_into rt (read_uint64 rt) Interface_mtu_update"
  "Interface_arms rt 5 = singular_into (read_string rt) Interface_hwAddr_update"
  "Interface_arms rt 6 = singular_into (read_string rt) Interface_pciAddr_update"
  "Interface_arms rt 7 = singular_into (read_string rt) Interface_field_type_update"
  "Interface_arms rt 8 = varint_into rt (read_uint32 rt) Interface_raw_flags_update"
  by (simp_all add: Interface_arms_def)

interpretation Interface_pb: message Interface_new Interface_merge_from Interface_compute_size Interface_write_to Interface_ok Interface_clear
  by (rule messageI [OF Interface_merge_from_def], simp add: Interface_clear_def Interface_new_def,
      unfold Interface_arms_def, (rule robust_if robust_rules IPAddress_pb.robust_field | assumption | simp only: if_distribR)+,
      unfold Interface_compute_size_def Interface_write_to_def Interface_ok_def, rule codes_to,
      (rule field_rules IPAddress_pb.messages_field Interface_arm | assumption
        | simp add: field_number_def tag_len_def Interface_new_def)+)

section \<open>\<open>Route\<close>\<close>

record 'u pb_Route =
  Route_dest :: string
  Route_gateway :: string
  Route_device :: string
  Route_source :: string
  Route_scope :: u32
  Route_unknown_fields :: 'u

definition Route_new :: "'u runtime \<Rightarrow> 'u pb_Route" where
  "Route_new rt = \<lparr>Route_dest = [], Route_gateway = [], Route_device = [], Route_source = [], Route_scope = 0, Route_unknown_fields = no_unknown rt\<rparr>"

definition Route_clear :: "'u runtime \<Rightarrow> 'u pb_Route \<Rightarrow> 'u pb_Route" where
  "Route_clear rt m = m\<lparr>Route_dest := [], Route_gateway := [], Route_device := [], Route_source := [], Route_scope := 0, Route_unknown_fields := no_unknown rt\<rparr>"

definition Route_is_initialized :: "'u pb_Route \<Rightarrow> bool" where
  "Route_is_initialized m \<longleftrightarrow> True"

definition Route_arms :: "'u runtime \<Rightarrow> u32 \<Rightarrow> 'u pb_Route arm" where
  "Route_arms rt n =
     (if n = 1 then singular_into (read_string rt) Route_dest_update
      else if n = 2 then singular_into (read_string rt) Route_gateway_update
      else if n = 3 then singular_into (read_string rt) Route_device_update
      else if n = 4 then singular_into (read_string rt) Route_source_update
      else if n = 5 then varint_into rt (read_uint32 rt) Route_scope_update
      else unknown_into rt n Route_unknown_fields Route_unknown_fields_update)"

definition Route_merge_from :: "'u runtime \<Rightarrow> 'u pb_Route \<Rightarrow> 'u pb_Route reader" where
  "Route_merge_from rt = merge_fields rt (Route_arms rt)"

definition Route_compute_size :: "'u runtime \<Rightarrow> 'u pb_Route \<Rightarrow> u32" where
  "Route_compute_size rt m = sum_list [
     whenS (Route_dest m \<noteq> []) (string_size rt 1 (Route_dest m)),
     whenS (Route_gateway m \<noteq> []) (string_size rt 2 (Route_gateway m)),
     whenS (Route_device m \<noteq> []) (string_size rt 3 (Route_device m)),
     whenS (Route_source m \<noteq> []) (string_size rt 4 (Route_source m)),
     whenS (Route_scope m \<noteq> 0) (size_uint32 rt 5 (Route_scope m)),
     unknown_fields_size rt (Route_unknown_fields m)]"

definition Route_write_to :: "'u runtime \<Rightarrow> 'u pb_Route \<Rightarrow> bytes res" where
  "Route_write_to rt m = catW [
     whenW (Route_dest m \<noteq> []) (write_string rt 1 (Route_dest m)),
     whenW (Route_gateway m \<noteq> []) (write_string rt 2 (Route_gateway m)),
     whenW (Route_device m \<noteq> []) (write_string rt 3 (Route_device m)),
     whenW (Route_source m \<noteq> []) (write_string rt 4 (Route_source m)),
     whenW (Route_scope m \<noteq> 0) (write_uint32 rt 5 (Route_scope m)),
     write_unknown_fields rt (Route_unknown_fields m)]"

definition Route_ok :: "'u runtime \<Rightarrow> 'u pb_Route \<Rightarrow> bool" where
  "Route_ok rt m \<longleftrightarrow> Route_unknown_fields m = no_unknown rt \<and>
     utf8 (Route_dest m) \<and>
     utf8 (Route_gateway m) \<and>
     utf8 (Route_device m) \<and>
     utf8 (Route_source m)"

lemma Route_arm:
  "Route_arms rt 1 = singular_into (read_string rt) Route_dest_update"
  "Route_arms rt 2 = singular_into (read_string rt) Route_gateway_update"
  "Route_arms rt 3 = singular_into (read_string rt) Route_device_update"
  "Route_arms rt 4 = singular_into (read_string rt) Route_source_update"
  "Route_arms rt 5 = varint_into rt (read_uint32 rt) Route_scope_update"
  by (simp_all add: Route_arms_def)

interpretation Route_pb: message Route_new Route_merge_from Route_compute_size Route_write_to Route_ok Route_clear
  by (rule messageI [OF Route_merge_from_def], simp add: Route_clear_def Route_new_def,
      unfold Route_arms_def, (rule robust_if robust_rules | assumption | simp only: if_distribR)+,
      unfold Route_compute_size_def Route_write_to_def Route_ok_def, rule codes_to,
      (rule field_rules Route_arm | assumption
        | simp add: field_number_def tag_len_def Route_new_def)+)

section \<open>\<open>Empty\<close>\<close>

record 'u pb_Empty =
  Empty_unknown_fields :: 'u

definition Empty_new :: "'u runtime \<Rightarrow> 'u pb_Empty" where
  "Empty_new rt = \<lparr>Empty_unknown_fields = no_unknown rt\<rparr>"

definition Empty_clear :: "'u runtime \<Rightarrow> 'u pb_Empty \<Rightarrow> 'u pb_Empty" where
  "Empty_clear rt m = m\<lparr>Empty_unknown_fields := no_unknown rt\<rparr>"

definition Empty_is_initialized :: "'u pb_Empty \<Rightarrow> bool" where
  "Empty_is_initialized m \<longleftrightarrow> True"

definition Empty_arms :: "'u runtime \<Rightarrow> u32 \<Rightarrow> 'u pb_Empty arm" where
  "Empty_arms rt n =
     unknown_into rt n Empty_unknown_fields Empty_unknown_fields_update"

definition Empty_merge_from :: "'u runtime \<Rightarrow> 'u pb_Empty \<Rightarrow> 'u pb_Empty reader" where
  "Empty_merge_from rt = merge_fields rt (Empty_arms rt)"

definition Empty_compute_size :: "'u runtime \<Rightarrow> 'u pb_Empty \<Rightarrow> u32" where
  "Empty_compute_size rt m = sum_list [
     unknown_fields_size rt (Empty_unknown_fields m)]"

definition Empty_write_to :: "'u runtime \<Rightarrow> 'u pb_Empty \<Rightarrow> bytes res" where
  "Empty_write_to rt m = catW [
     write_unknown_fields rt (Empty_unknown_fields m)]"

definition Empty_ok :: "'u runtime \<Rightarrow> 'u pb_Empty \<Rightarrow> bool" where
  "Empty_ok rt m \<longleftrightarrow> Empty_unknown_fields m = no_unknown rt"

interpretation Empty_pb: message Empty_new Empty_merge_from Empty_compute_size Empty_write_to Empty_ok Empty_clear
  by (rule messageI [OF Empty_merge_from_def], simp add: Empty_clear_def Empty_new_def,
      unfold Empty_arms_def, (rule robust_rules | assumption | simp only: if_distribR)+,
      unfold Empty_compute_size_def Empty_write_to_def Empty_ok_def, rule codes_to,
      (rule field_rules | assumption
        | simp add: field_number_def tag_len_def Empty_new_def)+)

section \<open>\<open>CheckRequest\<close>\<close>

record 'u pb_CheckRequest =
  CheckRequest_service :: string
  CheckRequest_unknown_fields :: 'u

definition CheckRequest_new :: "'u runtime \<Rightarrow> 'u pb_CheckRequest" where
  "CheckRequest_new rt = \<lparr>CheckRequest_service = [], CheckRequest_unknown_fields = no_unknown rt\<rparr>"

definition CheckRequest_clear :: "'u runtime \<Rightarrow> 'u pb_CheckRequest \<Rightarrow> 'u pb_CheckRequest" where
  "CheckRequest_clear rt m = m\<lparr>CheckRequest_service := [], CheckRequest_unknown_fields := no_unknown rt\<rparr>"

definition CheckRequest_is_initialized :: "'u pb_CheckRequest \<Rightarrow> bool" where
  "CheckRequest_is_initialized m \<longleftrightarrow> True"

definition CheckRequest_arms :: "'u runtime \<Rightarrow> u32 \<Rightarrow> 'u pb_CheckRequest arm" where
  "CheckRequest_arms rt n =
     (if n = 1 then singular_into (read_string rt) CheckRequest_service_update
      else unknown_into rt n CheckRequest_unknown_fields CheckRequest_unknown_fields_update)"

definition CheckRequest_merge_from :: "'u runtime \<Rightarrow> 'u pb_CheckRequest \<Rightarrow> 'u pb_CheckRequest reader" where
  "CheckRequest_merge_from rt = merge_fields rt (CheckRequest_arms rt)"

definition CheckRequest_compute_size :: "'u runtime \<Rightarrow> 'u pb_CheckRequest \<Rightarrow> u32" where
  "CheckRequest_compute_size rt m = sum_list [
     whenS (CheckRequest_service m \<noteq> []) (string_size rt 1 (CheckRequest_service m)),
     unknown_fields_size rt (CheckRequest_unknown_fields m)]"

definition CheckRequest_write_to :: "'u runtime \<Rightarrow> 'u pb_CheckRequest \<Rightarrow> bytes res" where
  "CheckRequest_write_to rt m = catW [
     whenW (CheckRequest_service m \<noteq> []) (write_string rt 1 (CheckRequest_service m)),
     write_unknown_fields rt (CheckRequest_unknown_fields m)]"

definition CheckRequest_ok :: "'u runtime \<Rightarrow> 'u pb_CheckRequest \<Rightarrow> bool" where
  "CheckRequest_ok rt m \<longleftrightarrow> CheckRequest_unknown_fields m = no_unknown rt \<and>
     utf8 (CheckRequest_service m)"

lemma CheckRequest_arm:
  "CheckRequest_arms rt 1 = singular_into (read_string rt) CheckRequest_service_update"
  by (simp_all add: CheckRequest_arms_def)

interpretation CheckRequest_pb: message CheckRequest_new CheckRequest_merge_from CheckRequest_compute_size CheckRequest_write_to CheckRequest_ok CheckRequest_clear
  by (rule messageI [OF CheckRequest_merge_from_def], simp add: CheckRequest_clear_def CheckRequest_new_def,
      unfold CheckRequest_arms_def, (rule robust_if robust_rules | assumption | simp only: if_distribR)+,
      unfold CheckRequest_compute_size_def CheckRequest_write_to_def CheckRequest_ok_def, rule codes_to,
      (rule field_rules CheckRequest_arm | assumption
        | simp add: field_number_def tag_len_def CheckRequest_new_def)+)

section \<open>\<open>HealthCheckResponse\<close>\<close>

record 'u pb_HealthCheckResponse =
  HealthCheckResponse_status :: HealthCheckResponse_ServingStatus
  HealthCheckResponse_unknown_fields :: 'u

definition HealthCheckResponse_new :: "'u runtime \<Rightarrow> 'u pb_HealthCheckResponse" where
  "HealthCheckResponse_new rt = \<lparr>HealthCheckResponse_status = UNKNOWN, HealthCheckResponse_unknown_fields = no_unknown rt\<rparr>"

definition HealthCheckResponse_clear :: "'u runtime \<Rightarrow> 'u pb_HealthCheckResponse \<Rightarrow> 'u pb_HealthCheckResponse" where
  "HealthCheckResponse_clear rt m = m\<lparr>HealthCheckResponse_status := UNKNOWN, HealthCheckResponse_unknown_fields := no_unknown rt\<rparr>"

definition HealthCheckResponse_is_initialized :: "'u pb_HealthCheckResponse \<Rightarrow> bool" where
  "HealthCheckResponse_is_initialized m \<longleftrightarrow> True"

definition HealthCheckResponse_arms :: "'u runtime \<Rightarrow> u32 \<Rightarrow> 'u pb_HealthCheckResponse arm" where
  "HealthCheckResponse_arms rt n =
     (if n = 1 then enum_into rt HealthCheckResponse_ServingStatus_from_i32 1 HealthCheckResponse_unknown_fields HealthCheckResponse_unknown_fields_update HealthCheckResponse_status_update
      else unknown_into rt n HealthCheckResponse_unknown_fields HealthCheckResponse_unknown_fields_update)"

definition HealthCheckResponse_merge_from :: "'u runtime \<Rightarrow> 'u pb_HealthCheckResponse \<Rightarrow> 'u pb_HealthCheckResponse reader" where
  "HealthCheckResponse_merge_from rt = merge_fields rt (HealthCheckResponse_arms rt)"

definition HealthCheckResponse_compute_size :: "'u runtime \<Rightarrow> 'u pb_HealthCheckResponse \<Rightarrow> u32" where
  "HealthCheckResponse_compute_size rt m = sum_list [
     whenS (HealthCheckResponse_status m \<noteq> UNKNOWN) (enum_size rt 1 (HealthCheckResponse_ServingStatus_value (HealthCheckResponse_status m))),
     unknown_fields_size rt (HealthCheckResponse_unknown_fields m)]"

definition HealthCheckResponse_write_to :: "'u runtime \<Rightarrow> 'u pb_HealthCheckResponse \<Rightarrow> bytes res" where
  "HealthCheckResponse_write_to rt m = catW [
     whenW (HealthCheckResponse_status m \<noteq> UNKNOWN) (write_enum rt 1 (HealthCheckResponse_ServingStatus_value (HealthCheckResponse_status m))),
     write_unknown_fields rt (HealthCheckResponse_unknown_fields m)]"

definition HealthCheckResponse_ok :: "'u runtime \<Rightarrow> 'u pb_HealthCheckResponse \<Rightarrow> bool" where
  "HealthCheckResponse_ok rt m \<longleftrightarrow> HealthCheckResponse_unknown_fields m = no_unknown rt"

lemma HealthCheckResponse_arm:
  "HealthCheckResponse_arms rt 1 = enum_into rt HealthCheckResponse_ServingStatus_from_i32 1 HealthCheckResponse_unknown_fields HealthCheckResponse_unknown_fields_update HealthCheckResponse_status_update"
  by (simp_all add: HealthCheckResponse_arms_def)

interpretation HealthCheckResponse_pb: message HealthCheckResponse_new HealthCheckResponse_merge_from HealthCheckResponse_compute_size HealthCheckResponse_write_to HealthCheckResponse_ok HealthCheckResponse_clear
  by (rule messageI [OF HealthCheckResponse_merge_from_def], simp add: HealthCheckResponse_clear_def HealthCheckResponse_new_def,
      unfold HealthCheckResponse_arms_def, (rule robust_if robust_rules | assumption | simp only: if_distribR)+,
      unfold HealthCheckResponse_compute_size_def HealthCheckResponse_write_to_def HealthCheckResponse_ok_def, rule codes_to,
      (rule field_rules HealthCheckResponse_arm | assumption
        | simp add: field_number_def tag_len_def HealthCheckResponse_new_def HealthCheckResponse_ServingStatus_numbers)+)

section \<open>\<open>VersionCheckResponse\<close>\<close>

record 'u pb_VersionCheckResponse =
  VersionCheckResponse_grpc_version :: string
  VersionCheckResponse_agent_version :: string
  VersionCheckResponse_unknown_fields :: 'u

definition VersionCheckResponse_new :: "'u runtime \<Rightarrow> 'u pb_VersionCheckResponse" where
  "VersionCheckResponse_new rt = \<lparr>VersionCheckResponse_grpc_version = [], VersionCheckResponse_agent_version = [], VersionCheckResponse_unknown_fields = no_unknown rt\<rparr>"

definition VersionCheckResponse_clear :: "'u runtime \<Rightarrow> 'u pb_VersionCheckResponse \<Rightarrow> 'u pb_VersionCheckResponse" where
  "VersionCheckResponse_clear rt m = m\<lparr>VersionCheckResponse_grpc_version := [], VersionCheckResponse_agent_version := [], VersionCheckResponse_unknown_fields := no_unknown rt\<rparr>"

definition VersionCheckResponse_is_initialized :: "'u pb_VersionCheckResponse \<Rightarrow> bool" where
  "VersionCheckResponse_is_initialized m \<longleftrightarrow> True"

definition VersionCheckResponse_arms :: "'u runtime \<Rightarrow> u32 \<Rightarrow> 'u pb_VersionCheckResponse arm" where
  "VersionCheckResponse_arms rt n =
     (if n = 1 then singular_into (read_string rt) VersionCheckResponse_grpc_version_update
      else if n = 2 then singular_into (read_string rt) VersionCheckResponse_agent_version_update
      else unknown_into rt n VersionCheckResponse_unknown_fields VersionCheckResponse_unknown_fields_update)"

definition VersionCheckResponse_merge_from :: "'u runtime \<Rightarrow> 'u pb_VersionCheckResponse \<Rightarrow> 'u pb_VersionCheckResponse reader" where
  "VersionCheckResponse_merge_from rt = merge_fields rt (VersionCheckResponse_arms rt)"

definition VersionCheckResponse_compute_size :: "'u runtime \<Rightarrow> 'u pb_VersionCheckResponse \<Rightarrow> u32" where
  "VersionCheckResponse_compute_size rt m = sum_list [
     whenS (VersionCheckResponse_grpc_version m \<noteq> []) (string_size rt 1 (VersionCheckResponse_grpc_version m)),
     whenS (VersionCheckResponse_agent_version m \<noteq> []) (string_size rt 2 (VersionCheckResponse_agent_version m)),
     unknown_fields_size rt (VersionCheckResponse_unknown_fields m)]"

definition VersionCheckResponse_write_to :: "'u runtime \<Rightarrow> 'u pb_VersionCheckResponse \<Rightarrow> bytes res" where
  "VersionCheckResponse_write_to rt m = catW [
     whenW (VersionCheckResponse_grpc_version m \<noteq> []) (write_string rt 1 (VersionCheckResponse_grpc_version m)),
     whenW (VersionCheckResponse_agent_version m \<noteq> []) (write_string rt 2 (VersionCheckResponse_agent_version m)),
     write_unknown_fields rt (VersionCheckResponse_unknown_fields m)]"

definition VersionCheckResponse_ok :: "'u runtime \<Rightarrow> 'u pb_VersionCheckResponse \<Rightarrow> bool" where
  "VersionCheckResponse_ok rt m \<longleftrightarrow> VersionCheckResponse_unknown_fields m = no_unknown rt \<and>
     utf8 (VersionCheckResponse_grpc_version m) \<and>
     utf8 (VersionCheckResponse_agent_version m)"

lemma VersionCheckResponse_arm:
  "VersionCheckResponse_arms rt 1 = singular_into (read_string rt) VersionCheckResponse_grpc_version_update"
  "VersionCheckResponse_arms rt 2 = singular_into (read_string rt) VersionCheckResponse_agent_version_update"
  by (simp_all add: VersionCheckResponse_arms_def)

interpretation VersionCheckResponse_pb: message VersionCheckResponse_new VersionCheckResponse_merge_from VersionCheckResponse_compute_size VersionCheckResponse_write_to VersionCheckResponse_ok VersionCheckResponse_clear
  by (rule messageI [OF VersionCheckResponse_merge_from_def], simp add: VersionCheckResponse_clear_def VersionCheckResponse_new_def,
      unfold VersionCheckResponse_arms_def, (rule robust_if robust_rules | assumption | simp only: if_distribR)+,
      unfold VersionCheckResponse_compute_size_def VersionCheckResponse_write_to_def VersionCheckResponse_ok_def, rule codes_to,
      (rule field_rules VersionCheckResponse_arm | assumption
        | simp add: field_number_def tag_len_def VersionCheckResponse_new_def)+)

end
