(* ===== verification/Pb_Oci.thy ===== *)
theory Pb_Oci
  imports Pb_Message
begin

text \<open>
  \<open>protocols/src/oci.rs\<close>: the messages of the OCI specification, each as in \<open>Pb_Types\<close>.
\<close>

section \<open>\<open>Box\<close>\<close>

record 'u pb_Box =
  Box_Height :: u32
  Box_Width :: u32
  Box_unknown_fields :: 'u

definition Box_new :: "'u runtime \<Rightarrow> 'u pb_Box" where
  "Box_new rt = \<lparr>Box_Height = 0, Box_Width = 0, Box_unknown_fields = no_unknown rt\<rparr>"

definition Box_clear :: "'u runtime \<Rightarrow> 'u pb_Box \<Rightarrow> 'u pb_Box" where
  "Box_clear rt m = m\<lparr>Box_Height := 0, Box_Width := 0, Box_unknown_fields := no_unknown rt\<rparr>"

definition Box_is_initialized :: "'u pb_Box \<Rightarrow> bool" where
  "Box_is_initialized m \<longleftrightarrow> True"

definition Box_arms :: "'u runtime \<Rightarrow> u32 \<Rightarrow> 'u pb_Box arm" where
  "Box_arms rt n =
     (if n = 1 then varint_into rt (read_uint32 rt) Box_Height_update
      else if n = 2 then varint_into rt (read_uint32 rt) Box_Width_update
      else unknown_into rt n Box_unknown_fields Box_unknown_fields_update)"

definition Box_merge_from :: "'u runtime \<Rightarrow> 'u pb_Box \<Rightarrow> 'u pb_Box reader" where
  "Box_merge_from rt = merge_fields rt (Box_arms rt)"

definition Box_compute_size :: "'u runtime \<Rightarrow> 'u pb_Box \<Rightarrow> u32" where
  "Box_compute_size rt m = sum_list [
     whenS (Box_Height m \<noteq> 0) (size_uint32 rt 1 (Box_Height m)),
     whenS (Box_Width m \<noteq> 0) (size_uint32 rt 2 (Box_Width m)),
     unknown_fields_size rt (Box_unknown_fields m)]"

definition Box_write_to :: "'u runtime \<Rightarrow> 'u pb_Box \<Rightarrow> bytes res" where
  "Box_write_to rt m = catW [
     whenW (Box_Height m \<noteq> 0) (write_uint32 rt 1 (Box_Height m)),
     whenW (Box_Width m \<noteq> 0) (write_uint32 rt 2 (Box_Width m)),
     write_unknown_fields rt (Box_unknown_fields m)]"

definition Box_ok :: "'u runtime \<Rightarrow> 'u pb_Box \<Rightarrow> bool" where
  "Box_ok rt m \<longleftrightarrow> Box_unknown_fields m = no_unknown rt"

lemma Box_arm:
  "Box_arms rt 1 = varint_into rt (read_uint32 rt) Box_Height_update"
  "Box_arms rt 2 = varint_into rt (read_uint32 rt) Box_Width_update"
  by (simp_all add: Box_arms_def)

interpretation Box_pb: message Box_new Box_merge_from Box_compute_size Box_write_to Box_ok Box_clear
  by (rule messageI [OF Box_merge_from_def], simp add: Box_clear_def Box_new_def,
      unfold Box_arms_def, (rule robust_if robust_rules | assumption | simp only: if_distribR)+,
      unfold Box_compute_size_def Box_write_to_def Box_ok_def, rule codes_to,
      (rule field_rules Box_arm | assumption
        | simp add: field_number_def tag_len_def Box_new_def)+)

section \<open>\<open>User\<close>\<close>

record 'u pb_User =
  User_UID :: u32
  User_GID :: u32
  User_AdditionalGids :: "u32 list"
  User_Username :: string
  User_unknown_fields :: 'u

definition User_new :: "'u runtime \<Rightarrow> 'u pb_User" where
  "User_new rt = \<lparr>User_UID = 0, User_GID = 0, User_AdditionalGids = [], User_Username = [], User_unknown_fields = no_unknown rt\<rparr>"

definition User_clear :: "'u runtime \<Rightarrow> 'u pb_User \<Rightarrow> 'u pb_User" where
  "User_clear rt m = m\<lparr>User_UID := 0, User_GID := 0, User_AdditionalGids := [], User_Username := [], User_unknown_fields := no_unknown rt\<rparr>"

definition User_is_initialized :: "'u pb_User \<Rightarrow> bool" where
  "User_is_initialized m \<longleftrightarrow> True"

definition User_arms :: "'u runtime \<Rightarrow> u32 \<Rightarrow> 'u pb_User arm" where
  "User_arms rt n =
     (if n = 1 then varint_into rt (read_uint32 rt) User_UID_update
      else if n = 2 then varint_into rt (read_uint32 rt) User_GID_update
      else if n = 3 then packed_into (read_uint32s rt) User_AdditionalGids_update
      else if n = 4 then singular_into (read_string rt) User_Username_update
      else unknown_into rt n User_unknown_fields User_unknown_fields_update)"

definition User_merge_from :: "'u runtime \<Rightarrow> 'u pb_User \<Rightarrow> 'u pb_User reader" where
  "User_merge_from rt = merge_fields rt (User_arms rt)"

definition User_compute_size :: "'u runtime \<Rightarrow> 'u pb_User \<Rightarrow> u32" where
  "User_compute_size rt m = sum_list [
     whenS (User_UID m \<noteq> 0) (size_uint32 rt 1 (User_UID m)),
     whenS (User_GID m \<noteq> 0) (size_uint32 rt 2 (User_GID m)),
     eachS (User_AdditionalGids m) (size_uint32 rt 3),
     whenS (User_Username m \<noteq> []) (string_size rt 4 (User_Username m)),
     unknown_fields_size rt (User_unknown_fields m)]"

definition User_write_to :: "'u runtime \<Rightarrow> 'u pb_User \<Rightarrow> bytes res" where
  "User_write_to rt m = catW [
     whenW (User_UID m \<noteq> 0) (write_uint32 rt 1 (User_UID m)),
     whenW (User_GID m \<noteq> 0) (write_uint32 rt 2 (User_GID m)),
     eachW (User_AdditionalGids m) (write_uint32 rt 3),
     whenW (User_Username m \<noteq> []) (write_string rt 4 (User_Username m)),
     write_unknown_fields rt (User_unknown_fields m)]"

definition User_ok :: "'u runtime \<Rightarrow> 'u pb_User \<Rightarrow> bool" where
  "User_ok rt m \<longleftrightarrow> User_unknown_fields m = no_unknown rt \<and>
     utf8 (User_Username m)"

lemma User_arm:
  "User_arms rt 1 = varint_into rt (read_uint32 rt) User_UID_update"
  "User_arms rt 2 = varint_into rt (read_uint32 rt) User_GID_update"
  "User_arms rt 3 = packed_into (read_uint32s rt) User_AdditionalGids_update"
  "User_arms rt 4 = singular_into (read_string rt) User_Username_update"
  by (simp_all add: User_arms_def)

interpretation User_pb: message User_new User_merge_from User_compute_size User_write_to User_ok User_clear
  by (rule messageI [OF User_merge_from_def], simp add: User_clear_def User_new_def,
      unfold User_arms_def, (rule robust_if robust_rules | assumption | simp only: if_distribR)+,
      unfold User_compute_size_def User_write_to_def User_ok_def, rule codes_to,
      (rule field_rules User_arm | assumption
        | simp add: field_number_def tag_len_def User_new_def)+)

section \<open>\<open>LinuxCapabilities\<close>\<close>

record 'u pb_LinuxCapabilities =
  LinuxCapabilities_Bounding :: "string list"
  LinuxCapabilities_Effective :: "string list"
  LinuxCapabilities_Inheritable :: "string list"
  LinuxCapabilities_Permitted :: "string list"
  LinuxCapabilities_Ambient :: "string list"
  LinuxCapabilities_unknown_fields :: 'u

definition LinuxCapabilities_new :: "'u runtime \<Rightarrow> 'u pb_LinuxCapabilities" where
  "LinuxCapabilities_new rt = \<lparr>LinuxCapabilities_Bounding = [], LinuxCapabilities_Effective = [], LinuxCapabilities_Inheritable = [], LinuxCapabilities_Permitted = [], LinuxCapabilities_Ambient = [], LinuxCapabilities_unknown_fields = no_unknown rt\<rparr>"

definition LinuxCapabilities_clear :: "'u runtime \<Rightarrow> 'u pb_LinuxCapabilities \<Rightarrow> 'u pb_LinuxCapabilities" where
  "LinuxCapabilities_clear rt m = m\<lparr>LinuxCapabilities_Bounding := [], LinuxCapabilities_Effective := [], LinuxCapabilities_Inheritable := [], LinuxCapabilities_Permitted := [], LinuxCapabilities_Ambient := [], LinuxCapabilities_unknown_fields := no_unknown rt\<rparr>"

definition LinuxCapabilities_is_initialized :: "'u pb_LinuxCapabilities \<Rightarrow> bool" where
  "LinuxCapabilities_is_initialized m \<longleftrightarrow> True"

definition LinuxCapabilities_arms :: "'u runtime \<Rightarrow> u32 \<Rightarrow> 'u pb_LinuxCapabilities arm" where
  "LinuxCapabilities_arms rt n =
     (if n = 1 then repeated_into (read_string rt) LinuxCapabilities_Bounding_update
      else if n = 2 then repeated_into (read_string rt) LinuxCapabilities_Effective_update
      else if n = 3 then repeated_into (read_string rt) LinuxCapabilities_Inheritable_update
      else if n = 4 then repeated_into (read_string rt) LinuxCapabilities_Permitted_update
      else if n = 5 then repeated_into (read_string rt) LinuxCapabilities_Ambient_update
      else unknown_into rt n LinuxCapabilities_unknown_fields LinuxCapabilities_unknown_fields_update)"

definition LinuxCapabilities_merge_from :: "'u runtime \<Rightarrow> 'u pb_LinuxCapabilities \<Rightarrow> 'u pb_LinuxCapabilities reader" where
  "LinuxCapabilities_merge_from rt = merge_fields rt (LinuxCapabilities_arms rt)"

definition LinuxCapabilities_compute_size :: "'u runtime \<Rightarrow> 'u pb_LinuxCapabilities \<Rightarrow> u32" where
  "LinuxCapabilities_compute_size rt m = sum_list [
     eachS (LinuxCapabilities_Bounding m) (string_size rt 1),
     eachS (LinuxCapabilities_Effective m) (string_size rt 2),
     eachS (LinuxCapabilities_Inheritable m) (string_size rt 3),
     eachS (LinuxCapabilities_Permitted m) (string_size rt 4),
     eachS (LinuxCapabilities_Ambient m) (string_size rt 5),
     unknown_fields_size rt (LinuxCapabilities_unknown_fields m)]"

definition LinuxCapabilities_write_to :: "'u runtime \<Rightarrow> 'u pb_LinuxCapabilities \<Rightarrow> bytes res" where
  "LinuxCapabilities_write_to rt m = catW [
     eachW (LinuxCapabilities_Bounding m) (write_string rt 1),
     eachW (LinuxCapabilities_Effective m) (write_string rt 2),
     eachW (LinuxCapabilities_Inheritable m) (write_string rt 3),
     eachW (LinuxCapabilities_Permitted m) (write_string rt 4),
     eachW (LinuxCapabilities_Ambient m) (write_string rt 5),
     write_unknown_fields rt (LinuxCapabilities_unknown_fields m)]"

definition LinuxCapabilities_ok :: "'u runtime \<Rightarrow> 'u pb_LinuxCapabilities \<Rightarrow> bool" where
  "LinuxCapabilities_ok rt m \<longleftrightarrow> LinuxCapabilities_unknown_fields m = no_unknown rt \<and>
     list_all utf8 (LinuxCapabilities_Bounding m) \<and>
     list_all utf8 (LinuxCapabilities_Effective m) \<and>
     list_all utf8 (LinuxCapabilities_Inheritable m) \<and>
     list_all utf8 (LinuxCapabilities_Permitted m) \<and>
     list_all utf8 (LinuxCapabilities_Ambient m)"

lemma LinuxCapabilities_arm:
  "LinuxCapabilities_arms rt 1 = repeated_into (read_string rt) LinuxCapabilities_Bounding_update"
  "LinuxCapabilities_arms rt 2 = repeated_into (read_string rt) LinuxCapabilities_Effective_update"
  "LinuxCapabilities_arms rt 3 = repeated_into (read_string rt) LinuxCapabilities_Inheritable_update"
  "LinuxCapabilities_arms rt 4 = repeated_into (read_string rt) LinuxCapabilities_Permitted_update"
  "LinuxCapabilities_arms rt 5 = repeated_into (read_string rt) LinuxCapabilities_Ambient_update"
  by (simp_all add: LinuxCapabilities_arms_def)

interpretation LinuxCapabilities_pb: message LinuxCapabilities_new LinuxCapabilities_merge_from LinuxCapabilities_compute_size LinuxCapabilities_write_to LinuxCapabilities_ok LinuxCapabilities_clear
  by (rule messageI [OF LinuxCapabilities_merge_from_def], simp add: LinuxCapabilities_clear_def LinuxCapabilities_new_def,
      unfold LinuxCapabilities_arms_def, (rule robust_if robust_rules | assumption | simp only: if_distribR)+,
      unfold LinuxCapabilities_compute_size_def LinuxCapabilities_write_to_def LinuxCapabilities_ok_def, rule codes_to,
      (rule field_rules LinuxCapabilities_arm | assumption
        | simp add: field_number_def tag_len_def LinuxCapabilities_new_def)+)

section \<open>\<open>POSIXRlimit\<close>\<close>

record 'u pb_POSIXRlimit =
  POSIXRlimit_Type :: string
  POSIXRlimit_Hard :: u64
  POSIXRlimit_Soft :: u64
  POSIXRlimit_unknown_fields :: 'u

definition POSIXRlimit_new :: "'u runtime \<Rightarrow> 'u pb_POSIXRlimit" where
  "POSIXRlimit_new rt = \<lparr>POSIXRlimit_Type = [], POSIXRlimit_Hard = 0, POSIXRlimit_Soft = 0, POSIXRlimit_unknown_fields = no_unknown rt\<rparr>"

definition POSIXRlimit_clear :: "'u runtime \<Rightarrow> 'u pb_POSIXRlimit \<Rightarrow> 'u pb_POSIXRlimit" where
  "POSIXRlimit_clear rt m = m\<lparr>POSIXRlimit_Type := [], POSIXRlimit_Hard := 0, POSIXRlimit_Soft := 0, POSIXRlimit_unknown_fields := no_unknown rt\<rparr>"

definition POSIXRlimit_is_initialized :: "'u pb_POSIXRlimit \<Rightarrow> bool" where
  "POSIXRlimit_is_initialized m \<longleftrightarrow> True"

definition POSIXRlimit_arms :: "'u runtime \<Rightarrow> u32 \<Rightarrow> 'u pb_POSIXRlimit arm" where
  "POSIXRlimit_arms rt n =
     (if n = 1 then singular_into (read_string rt) POSIXRlimit_Type_update
      else if n = 2 then varint_into rt (read_uint64 rt) POSIXRlimit_Hard_update
      else if n = 3 then varint_into rt (read_uint64 rt) POSIXRlimit_Soft_update
      else unknown_into rt n POSIXRlimit_unknown_fields POSIXRlimit_unknown_fields_update)"

definition POSIXRlimit_merge_from :: "'u runtime \<Rightarrow> 'u pb_POSIXRlimit \<Rightarrow> 'u pb_POSIXRlimit reader" where
  "POSIXRlimit_merge_from rt = merge_fields rt (POSIXRlimit_arms rt)"

definition POSIXRlimit_compute_size :: "'u runtime \<Rightarrow> 'u pb_POSIXRlimit \<Rightarrow> u32" where
  "POSIXRlimit_compute_size rt m = sum_list [
     whenS (POSIXRlimit_Type m \<noteq> []) (string_size rt 1 (POSIXRlimit_Type m)),
     whenS (POSIXRlimit_Hard m \<noteq> 0) (size_uint64 rt 2 (POSIXRlimit_Hard m)),
     whenS (POSIXRlimit_Soft m \<noteq> 0) (size_uint64 rt 3 (POSIXRlimit_Soft m)),
     unknown_fields_size rt (POSIXRlimit_unknown_fields m)]"

definition POSIXRlimit_write_to :: "'u runtime \<Rightarrow> 'u pb_POSIXRlimit \<Rightarrow> bytes res" where
  "POSIXRlimit_write_to rt m = catW [
     whenW (POSIXRlimit_Type m \<noteq> []) (write_string rt 1 (POSIXRlimit_Type m)),
     whenW (POSIXRlimit_Hard m \<noteq> 0) (write_uint64 rt 2 (POSIXRlimit_Hard m)),
     whenW (POSIXRlimit_Soft m \<noteq> 0) (write_uint64 rt 3 (POSIXRlimit_Soft m)),
     write_unknown_fields rt (POSIXRlimit_unknown_fields m)]"

definition POSIXRlimit_ok :: "'u runtime \<Rightarrow> 'u pb_POSIXRlimit \<Rightarrow> bool" where
  "POSIXRlimit_ok rt m \<longleftrightarrow> POSIXRlimit_unknown_fields m = no_unknown rt \<and>
     utf8 (POSIXRlimit_Type m)"

lemma POSIXRlimit_arm:
  "POSIXRlimit_arms rt 1 = singular_into (read_string rt) POSIXRlimit_Type_update"
  "POSIXRlimit_arms rt 2 = varint_into rt (read_uint64 rt) POSIXRlimit_Hard_update"
  "POSIXRlimit_arms rt 3 = varint_into rt (read_uint64 rt) POSIXRlimit_Soft_update"
  by (simp_all add: POSIXRlimit_arms_def)

interpretation POSIXRlimit_pb: message POSIXRlimit_new POSIXRlimit_merge_from POSIXRlimit_compute_size POSIXRlimit_write_to POSIXRlimit_ok POSIXRlimit_clear
  by (rule messageI [OF POSIXRlimit_merge_from_def], simp add: POSIXRlimit_clear_def POSIXRlimit_new_def,
      unfold POSIXRlimit_arms_def, (rule robust_if robust_rules | assumption | simp only: if_distribR)+,
      unfold POSIXRlimit_compute_size_def POSIXRlimit_write_to_def POSIXRlimit_ok_def, rule codes_to,
      (rule field_rules POSIXRlimit_arm | assumption
        | simp add: field_number_def tag_len_def POSIXRlimit_new_def)+)

section \<open>\<open>Process\<close>\<close>

record 'u pb_Process =
  Process_Terminal :: bool
  Process_ConsoleSize :: "'u pb_Box option"
  Process_User :: "'u pb_User option"
  Process_Args :: "string list"
  Process_Env :: "string list"
  Process_Cwd :: string
  Process_Capabilities :: "'u pb_LinuxCapabilities option"
  Process_Rlimits :: "'u pb_POSIXRlimit list"
  Process_NoNewPrivileges :: bool
  Process_ApparmorProfile :: string
  Process_OOMScoreAdj :: u64
  Process_SelinuxLabel :: string
  Process_unknown_fields :: 'u

definition Process_new :: "'u runtime \<Rightarrow> 'u pb_Process" where
  "Process_new rt = \<lparr>Process_Terminal = False, Process_ConsoleSize = None, Process_User = None, Process_Args = [], Process_Env = [], Process_Cwd = [], Process_Capabilities = None, Process_Rlimits = [], Process_NoNewPrivileges = False, Process_ApparmorProfile = [], Process_OOMScoreAdj = 0, Process_SelinuxLabel = [], Process_unknown_fields = no_unknown rt\<rparr>"

definition Process_clear :: "'u runtime \<Rightarrow> 'u pb_Process \<Rightarrow> 'u pb_Process" where
  "Process_clear rt m = m\<lparr>Process_Terminal := False, Process_ConsoleSize := None, Process_User := None, Process_Args := [], Process_Env := [], Process_Cwd := [], Process_Capabilities := None, Process_Rlimits := [], Process_NoNewPrivileges := False, Process_ApparmorProfile := [], Process_OOMScoreAdj := 0, Process_SelinuxLabel := [], Process_unknown_fields := no_unknown rt\<rparr>"

definition Process_is_initialized :: "'u pb_Process \<Rightarrow> bool" where
  "Process_is_initialized m \<longleftrightarrow> pred_option Box_is_initialized (Process_ConsoleSize m) \<and> pred_option User_is_initialized (Process_User m) \<and> pred_option LinuxCapabilities_is_initialized (Process_Capabilities m) \<and> list_all POSIXRlimit_is_initialized (Process_Rlimits m)"

definition Process_arms :: "'u runtime \<Rightarrow> u32 \<Rightarrow> 'u pb_Process arm" where
  "Process_arms rt n =
     (if n = 1 then varint_into rt (read_bool rt) Process_Terminal_update
      else if n = 2 then message_into rt Box_merge_from Box_new Process_ConsoleSize Process_ConsoleSize_update
      else if n = 3 then message_into rt User_merge_from User_new Process_User Process_User_update
      else if n = 4 then repeated_into (read_string rt) Process_Args_update
      else if n = 5 then repeated_into (read_string rt) Process_Env_update
      else if n = 6 then singular_into (read_string rt) Process_Cwd_update
      else if n = 7 then message_into rt LinuxCapabilities_merge_from LinuxCapabilities_new Process_Capabilities Process_Capabilities_update
      else if n = 8 then messages_into rt POSIXRlimit_merge_from POSIXRlimit_new Process_Rlimits_update
      else if n = 9 then varint_into rt (read_bool rt) Process_NoNewPrivileges_update
      else if n = 10 then singular_into (read_string rt) Process_ApparmorProfile_update
      else if n = 11 then varint_into rt (read_int64 rt) Process_OOMScoreAdj_update
      else if n = 12 then singular_into (read_string rt) Process_SelinuxLabel_update
      else unknown_into rt n Process_unknown_fields Process_unknown_fields_update)"

definition Process_merge_from :: "'u runtime \<Rightarrow> 'u pb_Process \<Rightarrow> 'u pb_Process reader" where
  "Process_merge_from rt = merge_fields rt (Process_arms rt)"

definition Process_compute_size :: "'u runtime \<Rightarrow> 'u pb_Process \<Rightarrow> u32" where
  "Process_compute_size rt m = sum_list [
     whenS (Process_Terminal m \<noteq> False) 2,
     optS (Process_ConsoleSize m) (\<lambda>v. embedded_size rt 1 (Box_compute_size rt v)),
     optS (Process_User m) (\<lambda>v. embedded_size rt 1 (User_compute_size rt v)),
     eachS (Process_Args m) (string_size rt 4),
     eachS (Process_Env m) (string_size rt 5),
     whenS (Process_Cwd m \<noteq> []) (string_size rt 6 (Process_Cwd m)),
     optS (Process_Capabilities m) (\<lambda>v. embedded_size rt 1 (LinuxCapabilities_compute_size rt v)),
     eachS (Process_Rlimits m) (\<lambda>v. embedded_size rt 1 (POSIXRlimit_compute_size rt v)),
     whenS (Process_NoNewPrivileges m \<noteq> False) 2,
     whenS (Process_ApparmorProfile m \<noteq> []) (string_size rt 10 (Process_ApparmorProfile m)),
     whenS (Process_OOMScoreAdj m \<noteq> 0) (size_int64 rt 11 (Process_OOMScoreAdj m)),
     whenS (Process_SelinuxLabel m \<noteq> []) (string_size rt 12 (Process_SelinuxLabel m)),
     unknown_fields_size rt (Process_unknown_fields m)]"

definition Process_write_to :: "'u runtime \<Rightarrow> 'u pb_Process \<Rightarrow> bytes res" where
  "Process_write_to rt m = catW [
     whenW (Process_Terminal m \<noteq> False) (write_bool rt 1 (Process_Terminal m)),
     optW (Process_ConsoleSize m) (\<lambda>v. write_embedded rt 2 (Box_compute_size rt v) (Box_write_to rt v)),
     optW (Process_User m) (\<lambda>v. write_embedded rt 3 (User_compute_size rt v) (User_write_to rt v)),
     eachW (Process_Args m) (write_string rt 4),
     eachW (Process_Env m) (write_string rt 5),
     whenW (Process_Cwd m \<noteq> []) (write_string rt 6 (Process_Cwd m)),
     optW (Process_Capabilities m) (\<lambda>v. write_embedded rt 7 (LinuxCapabilities_compute_size rt v) (LinuxCapabilities_write_to rt v)),
     eachW (Process_Rlimits m) (\<lambda>v. write_embedded rt 8 (POSIXRlimit_compute_size rt v) (POSIXRlimit_write_to rt v)),
     whenW (Process_NoNewPrivileges m \<noteq> False) (write_bool rt 9 (Process_NoNewPrivileges m)),
     whenW (Process_ApparmorProfile m \<noteq> []) (write_string rt 10 (Process_ApparmorProfile m)),
     whenW (Process_OOMScoreAdj m \<noteq> 0) (write_int64 rt 11 (Process_OOMScoreAdj m)),
     whenW (Process_SelinuxLabel m \<noteq> []) (write_string rt 12 (Process_SelinuxLabel m)),
     write_unknown_fields rt (Process_unknown_fields m)]"

definition Process_ok :: "'u runtime \<Rightarrow> 'u pb_Process \<Rightarrow> bool" where
  "Process_ok rt m \<longleftrightarrow> Process_unknown_fields m = no_unknown rt \<and>
     pred_option (Box_ok rt) (Process_ConsoleSize m) \<and>
     pred_option (User_ok rt) (Process_User m) \<and>
     list_all utf8 (Process_Args m) \<and>
     list_all utf8 (Process_Env m) \<and>
     utf8 (Process_Cwd m) \<and>
     pred_option (LinuxCapabilities_ok rt) (Process_Capabilities m) \<and>
     list_all (POSIXRlimit_ok rt) (Process_Rlimits m) \<and>
     utf8 (Process_ApparmorProfile m) \<and>
     utf8 (Process_SelinuxLabel m)"

lemma Process_arm:
  "Process_arms rt 1 = varint_into rt (read_bool rt) Process_Terminal_update"
  "Process_arms rt 2 = message_into rt Box_merge_from Box_new Process_ConsoleSize Process_ConsoleSize_update"
  "Process_arms rt 3 = message_into rt User_merge_from User_new Process_User Process_User_update"
  "Process_arms rt 4 = repeated_into (read_string rt) Process_Args_update"
  "Process_arms rt 5 = repeated_into (read_string rt) Process_Env_update"
  "Process_arms rt 6 = singular_into (read_string rt) Process_Cwd_update"
  "Process_arms rt 7 = message_into rt LinuxCapabilities_merge_from LinuxCapabilities_new Process_Capabilities Process_Capabilities_update"
  "Process_arms rt 8 = messages_into rt POSIXRlimit_merge_from POSIXRlimit_new Process_Rlimits_update"
  "Process_arms rt 9 = varint_into rt (read_bool rt) Process_NoNewPrivileges_update"
  "Process_arms rt 10 = singular_into (read_string rt) Process_ApparmorProfile_update"
  "Process_arms rt 11 = varint_into rt (read_int64 rt) Process_OOMScoreAdj_update"
  "Process_arms rt 12 = singular_into (read_string rt) Process_SelinuxLabel_update"
  by (simp_all add: Process_arms_def)

interpretation Process_pb: message Process_new Process_merge_from Process_compute_size Process_write_to Process_ok Process_clear
  by (rule messageI [OF Process_merge_from_def], simp add: Process_clear_def Process_new_def,
      unfold Process_arms_def, (rule robust_if robust_rules Box_pb.robust_field User_pb.robust_field LinuxCapabilities_pb.robust_field
        POSIXRlimit_pb.robust_field | assumption | simp only: if_distribR)+,
      unfold Process_compute_size_def Process_write_to_def Process_ok_def, rule codes_to,
      (rule field_rules Box_pb.message_field User_pb.message_field LinuxCapabilities_pb.message_field
        POSIXRlimit_pb.messages_field Process_arm | assumption
        | simp add: field_number_def tag_len_def Process_new_def)+)

section \<open>\<open>Root\<close>\<close>

record 'u pb_Root =
  Root_Path :: string
  Root_Readonly :: bool
  Root_unknown_fields :: 'u

definition Root_new :: "'u runtime \<Rightarrow> 'u pb_Root" where
  "Root_new rt = \<lparr>Root_Path = [], Root_Readonly = False, Root_unknown_fields = no_unknown rt\<rparr>"

definition Root_clear :: "'u runtime \<Rightarrow> 'u pb_Root \<Rightarrow> 'u pb_Root" where
  "Root_clear rt m = m\<lparr>Root_Path := [], Root_Readonly := False, Root_unknown_fields := no_unknown rt\<rparr>"

definition Root_is_initialized :: "'u pb_Root \<Rightarrow> bool" where
  "Root_is_initialized m \<longleftrightarrow> True"

definition Root_arms :: "'u runtime \<Rightarrow> u32 \<Rightarrow> 'u pb_Root arm" where
  "Root_arms rt n =
     (if n = 1 then singular_into (read_string rt) Root_Path_update
      else if n = 2 then varint_into rt (read_bool rt) Root_Readonly_update
      else unknown_into rt n Root_unknown_fields Root_unknown_fields_update)"

definition Root_merge_from :: "'u runtime \<Rightarrow> 'u pb_Root \<Rightarrow> 'u pb_Root reader" where
  "Root_merge_from rt = merge_fields rt (Root_arms rt)"

definition Root_compute_size :: "'u runtime \<Rightarrow> 'u pb_Root \<Rightarrow> u32" where
  "Root_compute_size rt m = sum_list [
     whenS (Root_Path m \<noteq> []) (string_size rt 1 (Root_Path m)),
     whenS (Root_Readonly m \<noteq> False) 2,
     unknown_fields_size rt (Root_unknown_fields m)]"

definition Root_write_to :: "'u runtime \<Rightarrow> 'u pb_Root \<Rightarrow> bytes res" where
  "Root_write_to rt m = catW [
     whenW (Root_Path m \<noteq> []) (write_string rt 1 (Root_Path m)),
     whenW (Root_Readonly m \<noteq> False) (write_bool rt 2 (Root_Readonly m)),
     write_unknown_fields rt (Root_unknown_fields m)]"

definition Root_ok :: "'u runtime \<Rightarrow> 'u pb_Root \<Rightarrow> bool" where
  "Root_ok rt m \<longleftrightarrow> Root_unknown_fields m = no_unknown rt \<and>
     utf8 (Root_Path m)"

lemma Root_arm:
  "Root_arms rt 1 = singular_into (read_string rt) Root_Path_update"
  "Root_arms rt 2 = varint_into rt (read_bool rt) Root_Readonly_update"
  by (simp_all add: Root_arms_def)

interpretation Root_pb: message Root_new Root_merge_from Root_compute_size Root_write_to Root_ok Root_clear
  by (rule messageI [OF Root_merge_from_def], simp add: Root_clear_def Root_new_def,
      unfold Root_arms_def, (rule robust_if robust_rules | assumption | simp only: if_distribR)+,
      unfold Root_compute_size_def Root_write_to_def Root_ok_def, rule codes_to,
      (rule field_rules Root_arm | assumption
        | simp add: field_number_def tag_len_def Root_new_def)+)

section \<open>\<open>Mount\<close>\<close>

record 'u pb_Mount =
  Mount_destination :: string
  Mount_source :: string
  Mount_field_type :: string
  Mount_options :: "string list"
  Mount_unknown_fields :: 'u

definition Mount_new :: "'u runtime \<Rightarrow> 'u pb_Mount" where
  "Mount_new rt = \<lparr>Mount_destination = [], Mount_source = [], Mount_field_type = [], Mount_options = [], Mount_unknown_fields = no_unknown rt\<rparr>"

definition Mount_clear :: "'u runtime \<Rightarrow> 'u pb_Mount \<Rightarrow> 'u pb_Mount" where
  "Mount_clear rt m = m\<lparr>Mount_destination := [], Mount_source := [], Mount_field_type := [], Mount_options := [], Mount_unknown_fields := no_unknown rt\<rparr>"

definition Mount_is_initialized :: "'u pb_Mount \<Rightarrow> bool" where
  "Mount_is_initialized m \<longleftrightarrow> True"

definition Mount_arms :: "'u runtime \<Rightarrow> u32 \<Rightarrow> 'u pb_Mount arm" where
  "Mount_arms rt n =
     (if n = 1 then singular_into (read_string rt) Mount_destination_update
      else if n = 2 then singular_into (read_string rt) Mount_source_update
      else if n = 3 then singular_into (read_string rt) Mount_field_type_update
      else if n = 4 then repeated_into (read_string rt) Mount_options_update
      else unknown_into rt n Mount_unknown_fields Mount_unknown_fields_update)"

definition Mount_merge_from :: "'u runtime \<Rightarrow> 'u pb_Mount \<Rightarrow> 'u pb_Mount reader" where
  "Mount_merge_from rt = merge_fields rt (Mount_arms rt)"

definition Mount_compute_size :: "'u runtime \<Rightarrow> 'u pb_Mount \<Rightarrow> u32" where
  "Mount_compute_size rt m = sum_list [
     whenS (Mount_destination m \<noteq> []) (string_size rt 1 (Mount_destination m)),
     whenS (Mount_source m \<noteq> []) (string_size rt 2 (Mount_source m)),
     whenS (Mount_field_type m \<noteq> []) (string_size rt 3 (Mount_field_type m)),
     eachS (Mount_options m) (string_size rt 4),
     unknown_fields_size rt (Mount_unknown_fields m)]"

definition Mount_write_to :: "'u runtime \<Rightarrow> 'u pb_Mount \<Rightarrow> bytes res" where
  "Mount_write_to rt m = catW [
     whenW (Mount_destination m \<noteq> []) (write_string rt 1 (Mount_destination m)),
     whenW (Mount_source m \<noteq> []) (write_string rt 2 (Mount_source m)),
     whenW (Mount_field_type m \<noteq> []) (write_string rt 3 (Mount_field_type m)),
     eachW (Mount_options m) (write_string rt 4),
     write_unknown_fields rt (Mount_unknown_fields m)]"

definition Mount_ok :: "'u runtime \<Rightarrow> 'u pb_Mount \<Rightarrow> bool" where
  "Mount_ok rt m \<longleftrightarrow> Mount_unknown_fields m = no_unknown rt \<and>
     utf8 (Mount_destination m) \<and>
     utf8 (Mount_source m) \<and>
     utf8 (Mount_field_type m) \<and>
     list_all utf8 (Mount_options m)"

lemma Mount_arm:
  "Mount_arms rt 1 = singular_into (read_string rt) Mount_destination_update"
  "Mount_arms rt 2 = singular_into (read_string rt) Mount_source_update"
  "Mount_arms rt 3 = singular_into (read_string rt) Mount_field_type_update"
  "Mount_arms rt 4 = repeated_into (read_string rt) Mount_options_update"
  by (simp_all add: Mount_arms_def)

interpretation Mount_pb: message Mount_new Mount_merge_from Mount_compute_size Mount_write_to Mount_ok Mount_clear
  by (rule messageI [OF Mount_merge_from_def], simp add: Mount_clear_def Mount_new_def,
      unfold Mount_arms_def, (rule robust_if robust_rules | assumption | simp only: if_distribR)+,
      unfold Mount_compute_size_def Mount_write_to_def Mount_ok_def, rule codes_to,
      (rule field_rules Mount_arm | assumption
        | simp add: field_number_def tag_len_def Mount_new_def)+)

section \<open>\<open>Hook\<close>\<close>

record 'u pb_Hook =
  Hook_Path :: string
  Hook_Args :: "string list"
  Hook_Env :: "string list"
  Hook_Timeout :: u64
  Hook_unknown_fields :: 'u

definition Hook_new :: "'u runtime \<Rightarrow> 'u pb_Hook" where
  "Hook_new rt = \<lparr>Hook_Path = [], Hook_Args = [], Hook_Env = [], Hook_Timeout = 0, Hook_unknown_fields = no_unknown rt\<rparr>"

definition Hook_clear :: "'u runtime \<Rightarrow> 'u pb_Hook \<Rightarrow> 'u pb_Hook" where
  "Hook_clear rt m = m\<lparr>Hook_Path := [], Hook_Args := [], Hook_Env := [], Hook_Timeout := 0, Hook_unknown_fields := no_unknown rt\<rparr>"

definition Hook_is_initialized :: "'u pb_Hook \<Rightarrow> bool" where
  "Hook_is_initialized m \<longleftrightarrow> True"

definition Hook_arms :: "'u runtime \<Rightarrow> u32 \<Rightarrow> 'u pb_Hook arm" where
  "Hook_arms rt n =
     (if n = 1 then singular_into (read_string rt) Hook_Path_update
      else if n = 2 then repeated_into (read_string rt) Hook_Args_update
      else if n = 3 then repeated_into (read_string rt) Hook_Env_update
      else if n = 4 then varint_into rt (read_int64 rt) Hook_Timeout_update
      else unknown_into rt n Hook_unknown_fields Hook_unknown_fields_update)"

definition Hook_merge_from :: "'u runtime \<Rightarrow> 'u pb_Hook \<Rightarrow> 'u pb_Hook reader" where
  "Hook_merge_from rt = merge_fields rt (Hook_arms rt)"

definition Hook_compute_size :: "'u runtime \<Rightarrow> 'u pb_Hook \<Rightarrow> u32" where
  "Hook_compute_size rt m = sum_list [
     whenS (Hook_Path m \<noteq> []) (string_size rt 1 (Hook_Path m)),
     eachS (Hook_Args m) (string_size rt 2),
     eachS (Hook_Env m) (string_size rt 3),
     whenS (Hook_Timeout m \<noteq> 0) (size_int64 rt 4 (Hook_Timeout m)),
     unknown_fields_size rt (Hook_unknown_fields m)]"

definition Hook_write_to :: "'u runtime \<Rightarrow> 'u pb_Hook \<Rightarrow> bytes res" where
  "Hook_write_to rt m = catW [
     whenW (Hook_Path m \<noteq> []) (write_string rt 1 (Hook_Path m)),
     eachW (Hook_Args m) (write_string rt 2),
     eachW (Hook_Env m) (write_string rt 3),
     whenW (Hook_Timeout m \<noteq> 0) (write_int64 rt 4 (Hook_Timeout m)),
     write_unknown_fields rt (Hook_unknown_fields m)]"

definition Hook_ok :: "'u runtime \<Rightarrow> 'u pb_Hook \<Rightarrow> bool" where
  "Hook_ok rt m \<longleftrightarrow> Hook_unknown_fields m = no_unknown rt \<and>
     utf8 (Hook_Path m) \<and>
     list_all utf8 (Hook_Args m) \<and>
     list_all utf8 (Hook_Env m)"

lemma Hook_arm:
  "Hook_arms rt 1 = singular_into (read_string rt) Hook_Path_update"
  "Hook_arms rt 2 = repeated_into (read_string rt) Hook_Args_update"
  "Hook_arms rt 3 = repeated_into (read_string rt) Hook_Env_update"
  "Hook_arms rt 4 = varint_into rt (read_int64 rt) Hook_Timeout_update"
  by (simp_all add: Hook_arms_def)

interpretation Hook_pb: message Hook_new Hook_merge_from Hook_compute_size Hook_write_to Hook_ok Hook_clear
  by (rule messageI [OF Hook_merge_from_def], simp add: Hook_clear_def Hook_new_def,
      unfold Hook_arms_def, (rule robust_if robust_rules | assumption | simp only: if_distribR)+,
      unfold Hook_compute_size_def Hook_write_to_def Hook_ok_def, rule codes_to,
      (rule field_rules Hook_arm | assumption
        | simp add: field_number_def tag_len_def Hook_new_def)+)

section \<open>\<open>Hooks\<close>\<close>

record 'u pb_Hooks =
  Hooks_Prestart :: "'u pb_Hook list"
  Hooks_Poststart :: "'u pb_Hook list"
  Hooks_Poststop :: "'u pb_Hook list"
  Hooks_unknown_fields :: 'u

definition Hooks_new :: "'u runtime \<Rightarrow> 'u pb_Hooks" where
  "Hooks_new rt = \<lparr>Hooks_Prestart = [], Hooks_Poststart = [], Hooks_Poststop = [], Hooks_unknown_fields = no_unknown rt\<rparr>"

definition Hooks_clear :: "'u runtime \<Rightarrow> 'u pb_Hooks \<Rightarrow> 'u pb_Hooks" where
  "Hooks_clear rt m = m\<lparr>Hooks_Prestart := [], Hooks_Poststart := [], Hooks_Poststop := [], Hooks_unknown_fields := no_unknown rt\<rparr>"

definition Hooks_is_initialized :: "'u pb_Hooks \<Rightarrow> bool" where
  "Hooks_is_initialized m \<longleftrightarrow> list_all Hook_is_initialized (Hooks_Prestart m) \<and> list_all Hook_is_initialized (Hooks_Poststart m) \<and> list_all Hook_is_initialized (Hooks_Poststop m)"

definition Hooks_arms :: "'u runtime \<Rightarrow> u32 \<Rightarrow> 'u pb_Hooks arm" where
  "Hooks_arms rt n =
     (if n = 1 then messages_into rt Hook_merge_from Hook_new Hooks_Prestart_update
      else if n = 2 then messages_into rt Hook_merge_from Hook_new Hooks_Poststart_update
      else if n = 3 then messages_into rt Hook_merge_from Hook_new Hooks_Poststop_update
      else unknown_into rt n Hooks_unknown_fields Hooks_unknown_fields_update)"

definition Hooks_merge_from :: "'u runtime \<Rightarrow> 'u pb_Hooks \<Rightarrow> 'u pb_Hooks reader" where
  "Hooks_merge_from rt = merge_fields rt (Hooks_arms rt)"

definition Hooks_compute_size :: "'u runtime \<Rightarrow> 'u pb_Hooks \<Rightarrow> u32" where
  "Hooks_compute_size rt m = sum_list [
     eachS (Hooks_Prestart m) (\<lambda>v. embedded_size rt 1 (Hook_compute_size rt v)),
     eachS (Hooks_Poststart m) (\<lambda>v. embedded_size rt 1 (Hook_compute_size rt v)),
     eachS (Hooks_Poststop m) (\<lambda>v. embedded_size rt 1 (Hook_compute_size rt v)),
     unknown_fields_size rt (Hooks_unknown_fields m)]"

definition Hooks_write_to :: "'u runtime \<Rightarrow> 'u pb_Hooks \<Rightarrow> bytes res" where
  "Hooks_write_to rt m = catW [
     eachW (Hooks_Prestart m) (\<lambda>v. write_embedded rt 1 (Hook_compute_size rt v) (Hook_write_to rt v)),
     eachW (Hooks_Poststart m) (\<lambda>v. write_embedded rt 2 (Hook_compute_size rt v) (Hook_write_to rt v)),
     eachW (Hooks_Poststop m) (\<lambda>v. write_embedded rt 3 (Hook_compute_size rt v) (Hook_write_to rt v)),
     write_unknown_fields rt (Hooks_unknown_fields m)]"

definition Hooks_ok :: "'u runtime \<Rightarrow> 'u pb_Hooks \<Rightarrow> bool" where
  "Hooks_ok rt m \<longleftrightarrow> Hooks_unknown_fields m = no_unknown rt \<and>
     list_all (Hook_ok rt) (Hooks_Prestart m) \<and>
     list_all (Hook_ok rt) (Hooks_Poststart m) \<and>
     list_all (Hook_ok rt) (Hooks_Poststop m)"

lemma Hooks_arm:
  "Hooks_arms rt 1 = messages_into rt Hook_merge_from Hook_new Hooks_Prestart_update"
  "Hooks_arms rt 2 = messages_into rt Hook_merge_from Hook_new Hooks_Poststart_update"
  "Hooks_arms rt 3 = messages_into rt Hook_merge_from Hook_new Hooks_Poststop_update"
  by (simp_all add: Hooks_arms_def)

interpretation Hooks_pb: message Hooks_new Hooks_merge_from Hooks_compute_size Hooks_write_to Hooks_ok Hooks_clear
  by (rule messageI [OF Hooks_merge_from_def], simp add: Hooks_clear_def Hooks_new_def,
      unfold Hooks_arms_def, (rule robust_if robust_rules Hook_pb.robust_field | assumption | simp only: if_distribR)+,
      unfold Hooks_compute_size_def Hooks_write_to_def Hooks_ok_def, rule codes_to,
      (rule field_rules Hook_pb.messages_field Hooks_arm | assumption
        | simp add: field_number_def tag_len_def Hooks_new_def)+)

section \<open>\<open>LinuxIDMapping\<close>\<close>

record 'u pb_LinuxIDMapping =
  LinuxIDMapping_HostID :: u32
  LinuxIDMapping_ContainerID :: u32
  LinuxIDMapping_Size :: u32
  LinuxIDMapping_unknown_fields :: 'u

definition LinuxIDMapping_new :: "'u runtime \<Rightarrow> 'u pb_LinuxIDMapping" where
  "LinuxIDMapping_new rt = \<lparr>LinuxIDMapping_HostID = 0, LinuxIDMapping_ContainerID = 0, LinuxIDMapping_Size = 0, LinuxIDMapping_unknown_fields = no_unknown rt\<rparr>"

definition LinuxIDMapping_clear :: "'u runtime \<Rightarrow> 'u pb_LinuxIDMapping \<Rightarrow> 'u pb_LinuxIDMapping" where
  "LinuxIDMapping_clear rt m = m\<lparr>LinuxIDMapping_HostID := 0, LinuxIDMapping_ContainerID := 0, LinuxIDMapping_Size := 0, LinuxIDMapping_unknown_fields := no_unknown rt\<rparr>"

definition LinuxIDMapping_is_initialized :: "'u pb_LinuxIDMapping \<Rightarrow> bool" where
  "LinuxIDMapping_is_initialized m \<longleftrightarrow> True"

definition LinuxIDMapping_arms :: "'u runtime \<Rightarrow> u32 \<Rightarrow> 'u pb_LinuxIDMapping arm" where
  "LinuxIDMapping_arms rt n =
     (if n = 1 then varint_into rt (read_uint32 rt) LinuxIDMapping_HostID_update
      else if n = 2 then varint_into rt (read_uint32 rt) LinuxIDMapping_ContainerID_update
      else if n = 3 then varint_into rt (read_uint32 rt) LinuxIDMapping_Size_update
      else unknown_into rt n LinuxIDMapping_unknown_fields LinuxIDMapping_unknown_fields_update)"

definition LinuxIDMapping_merge_from :: "'u runtime \<Rightarrow> 'u pb_LinuxIDMapping \<Rightarrow> 'u pb_LinuxIDMapping reader" where
  "LinuxIDMapping_merge_from rt = merge_fields rt (LinuxIDMapping_arms rt)"

definition LinuxIDMapping_compute_size :: "'u runtime \<Rightarrow> 'u pb_LinuxIDMapping \<Rightarrow> u32" where
  "LinuxIDMapping_compute_size rt m = sum_list [
     whenS (LinuxIDMapping_HostID m \<noteq> 0) (size_uint32 rt 1 (LinuxIDMapping_HostID m)),
     whenS (LinuxIDMapping_ContainerID m \<noteq> 0) (size_uint32 rt 2 (LinuxIDMapping_ContainerID m)),
     whenS (LinuxIDMapping_Size m \<noteq> 0) (size_uint32 rt 3 (LinuxIDMapping_Size m)),
     unknown_fields_size rt (LinuxIDMapping_unknown_fields m)]"

definition LinuxIDMapping_write_to :: "'u runtime \<Rightarrow> 'u pb_LinuxIDMapping \<Rightarrow> bytes res" where
  "LinuxIDMapping_write_to rt m = catW [
     whenW (LinuxIDMapping_HostID m \<noteq> 0) (write_uint32 rt 1 (LinuxIDMapping_HostID m)),
     whenW (LinuxIDMapping_ContainerID m \<noteq> 0) (write_uint32 rt 2 (LinuxIDMapping_ContainerID m)),
     whenW (LinuxIDMapping_Size m \<noteq> 0) (write_uint32 rt 3 (LinuxIDMapping_Size m)),
     write_unknown_fields rt (LinuxIDMapping_unknown_fields m)]"

definition LinuxIDMapping_ok :: "'u runtime \<Rightarrow> 'u pb_LinuxIDMapping \<Rightarrow> bool" where
  "LinuxIDMapping_ok rt m \<longleftrightarrow> LinuxIDMapping_unknown_fields m = no_unknown rt"

lemma LinuxIDMapping_arm:
  "LinuxIDMapping_arms rt 1 = varint_into rt (read_uint32 rt) LinuxIDMapping_HostID_update"
  "LinuxIDMapping_arms rt 2 = varint_into rt (read_uint32 rt) LinuxIDMapping_ContainerID_update"
  "LinuxIDMapping_arms rt 3 = varint_into rt (read_uint32 rt) LinuxIDMapping_Size_update"
  by (simp_all add: LinuxIDMapping_arms_def)

interpretation LinuxIDMapping_pb: message LinuxIDMapping_new LinuxIDMapping_merge_from LinuxIDMapping_compute_size LinuxIDMapping_write_to LinuxIDMapping_ok LinuxIDMapping_clear
  by (rule messageI [OF LinuxIDMapping_merge_from_def], simp add: LinuxIDMapping_clear_def LinuxIDMapping_new_def,
      unfold LinuxIDMapping_arms_def, (rule robust_if robust_rules | assumption | simp only: if_distribR)+,
      unfold LinuxIDMapping_compute_size_def LinuxIDMapping_write_to_def LinuxIDMapping_ok_def, rule codes_to,
      (rule field_rules LinuxIDMapping_arm | assumption
        | simp add: field_number_def tag_len_def LinuxIDMapping_new_def)+)

section \<open>\<open>LinuxDeviceCgroup\<close>\<close>

record 'u pb_LinuxDeviceCgroup =
  LinuxDeviceCgroup_Allow :: bool
  LinuxDeviceCgroup_Type :: string
  LinuxDeviceCgroup_Major :: u64
  LinuxDeviceCgroup_Minor :: u64
  LinuxDeviceCgroup_Access :: string
  LinuxDeviceCgroup_unknown_fields :: 'u

definition LinuxDeviceCgroup_new :: "'u runtime \<Rightarrow> 'u pb_LinuxDeviceCgroup" where
  "LinuxDeviceCgroup_new rt = \<lparr>LinuxDeviceCgroup_Allow = False, LinuxDeviceCgroup_Type = [], LinuxDeviceCgroup_Major = 0, LinuxDeviceCgroup_Minor = 0, LinuxDeviceCgroup_Access = [], LinuxDeviceCgroup_unknown_fields = no_unknown rt\<rparr>"

definition LinuxDeviceCgroup_clear :: "'u runtime \<Rightarrow> 'u pb_LinuxDeviceCgroup \<Rightarrow> 'u pb_LinuxDeviceCgroup" where
  "LinuxDeviceCgroup_clear rt m = m\<lparr>LinuxDeviceCgroup_Allow := False, LinuxDeviceCgroup_Type := [], LinuxDeviceCgroup_Major := 0, LinuxDeviceCgroup_Minor := 0, LinuxDeviceCgroup_Access := [], LinuxDeviceCgroup_unknown_fields := no_unknown rt\<rparr>"

definition LinuxDeviceCgroup_is_initialized :: "'u pb_LinuxDeviceCgroup \<Rightarrow> bool" where
  "LinuxDeviceCgroup_is_initialized m \<longleftrightarrow> True"

definition LinuxDeviceCgroup_arms :: "'u runtime \<Rightarrow> u32 \<Rightarrow> 'u pb_LinuxDeviceCgroup arm" where
  "LinuxDeviceCgroup_arms rt n =
     (if n = 1 then varint_into rt (read_bool rt) LinuxDeviceCgroup_Allow_update
      else if n = 2 then singular_into (read_string rt) LinuxDeviceCgroup_Type_update
      else if n = 3 then varint_into rt (read_int64 rt) LinuxDeviceCgroup_Major_update
      else if n = 4 then varint_into rt (read_int64 rt) LinuxDeviceCgroup_Minor_update
      else if n = 5 then singular_into (read_string rt) LinuxDeviceCgroup_Access_update
      else unknown_into rt n LinuxDeviceCgroup_unknown_fields LinuxDeviceCgroup_unknown_fields_update)"

definition LinuxDeviceCgroup_merge_from :: "'u runtime \<Rightarrow> 'u pb_LinuxDeviceCgroup \<Rightarrow> 'u pb_LinuxDeviceCgroup reader" where
  "LinuxDeviceCgroup_merge_from rt = merge_fields rt (LinuxDeviceCgroup_arms rt)"

definition LinuxDeviceCgroup_compute_size :: "'u runtime \<Rightarrow> 'u pb_LinuxDeviceCgroup \<Rightarrow> u32" where
  "LinuxDeviceCgroup_compute_size rt m = sum_list [
     whenS (LinuxDeviceCgroup_Allow m \<noteq> False) 2,
     whenS (LinuxDeviceCgroup_Type m \<noteq> []) (string_size rt 2 (LinuxDeviceCgroup_Type m)),
     whenS (LinuxDeviceCgroup_Major m \<noteq> 0) (size_int64 rt 3 (LinuxDeviceCgroup_Major m)),
     whenS (LinuxDeviceCgroup_Minor m \<noteq> 0) (size_int64 rt 4 (LinuxDeviceCgroup_Minor m)),
     whenS (LinuxDeviceCgroup_Access m \<noteq> []) (string_size rt 5 (LinuxDeviceCgroup_Access m)),
     unknown_fields_size rt (LinuxDeviceCgroup_unknown_fields m)]"

definition LinuxDeviceCgroup_write_to :: "'u runtime \<Rightarrow> 'u pb_LinuxDeviceCgroup \<Rightarrow> bytes res" where
  "LinuxDeviceCgroup_write_to rt m = catW [
     whenW (LinuxDeviceCgroup_Allow m \<noteq> False) (write_bool rt 1 (LinuxDeviceCgroup_Allow m)),
     whenW (LinuxDeviceCgroup_Type m \<noteq> []) (write_string rt 2 (LinuxDeviceCgroup_Type m)),
     whenW (LinuxDeviceCgroup_Major m \<noteq> 0) (write_int64 rt 3 (LinuxDeviceCgroup_Major m)),
     whenW (LinuxDeviceCgroup_Minor m \<noteq> 0) (write_int64 rt 4 (LinuxDeviceCgroup_Minor m)),
     whenW (LinuxDeviceCgroup_Access m \<noteq> []) (write_string rt 5 (LinuxDeviceCgroup_Access m)),
     write_unknown_fields rt (LinuxDeviceCgroup_unknown_fields m)]"

definition LinuxDeviceCgroup_ok :: "'u runtime \<Rightarrow> 'u pb_LinuxDeviceCgroup \<Rightarrow> bool" where
  "LinuxDeviceCgroup_ok rt m \<longleftrightarrow> LinuxDeviceCgroup_unknown_fields m = no_unknown rt \<and>
     utf8 (LinuxDeviceCgroup_Type m) \<and>
     utf8 (LinuxDeviceCgroup_Access m)"

lemma LinuxDeviceCgroup_arm:
  "LinuxDeviceCgroup_arms rt 1 = varint_into rt (read_bool rt) LinuxDeviceCgroup_Allow_update"
  "LinuxDeviceCgroup_arms rt 2 = singular_into (read_string rt) LinuxDeviceCgroup_Type_update"
  "LinuxDeviceCgroup_arms rt 3 = varint_into rt (read_int64 rt) LinuxDeviceCgroup_Major_update"
  "LinuxDeviceCgroup_arms rt 4 = varint_into rt (read_int64 rt) LinuxDeviceCgroup_Minor_update"
  "LinuxDeviceCgroup_arms rt 5 = singular_into (read_string rt) LinuxDeviceCgroup_Access_update"
  by (simp_all add: LinuxDeviceCgroup_arms_def)

interpretation LinuxDeviceCgroup_pb: message LinuxDeviceCgroup_new LinuxDeviceCgroup_merge_from LinuxDeviceCgroup_compute_size LinuxDeviceCgroup_write_to LinuxDeviceCgroup_ok LinuxDeviceCgroup_clear
  by (rule messageI [OF LinuxDeviceCgroup_merge_from_def], simp add: LinuxDeviceCgroup_clear_def LinuxDeviceCgroup_new_def,
      unfold LinuxDeviceCgroup_arms_def, (rule robust_if robust_rules | assumption | simp only: if_distribR)+,
      unfold LinuxDeviceCgroup_compute_size_def LinuxDeviceCgroup_write_to_def LinuxDeviceCgroup_ok_def, rule codes_to,
      (rule field_rules LinuxDeviceCgroup_arm | assumption
        | simp add: field_number_def tag_len_def LinuxDeviceCgroup_new_def)+)

section \<open>\<open>LinuxMemory\<close>\<close>

record 'u pb_LinuxMemory =
  LinuxMemory_Limit :: u64
  LinuxMemory_Reservation :: u64
  LinuxMemory_Swap :: u64
  LinuxMemory_Kernel :: u64
  LinuxMemory_KernelTCP :: u64
  LinuxMemory_Swappiness :: u64
  LinuxMemory_DisableOOMKiller :: bool
  LinuxMemory_unknown_fields :: 'u

definition LinuxMemory_new :: "'u runtime \<Rightarrow> 'u pb_LinuxMemory" where
  "LinuxMemory_new rt = \<lparr>LinuxMemory_Limit = 0, LinuxMemory_Reservation = 0, LinuxMemory_Swap = 0, LinuxMemory_Kernel = 0, LinuxMemory_KernelTCP = 0, LinuxMemory_Swappiness = 0, LinuxMemory_DisableOOMKiller = False, LinuxMemory_unknown_fields = no_unknown rt\<rparr>"

definition LinuxMemory_clear :: "'u runtime \<Rightarrow> 'u pb_LinuxMemory \<Rightarrow> 'u pb_LinuxMemory" where
  "LinuxMemory_clear rt m = m\<lparr>LinuxMemory_Limit := 0, LinuxMemory_Reservation := 0, LinuxMemory_Swap := 0, LinuxMemory_Kernel := 0, LinuxMemory_KernelTCP := 0, LinuxMemory_Swappiness := 0, LinuxMemory_DisableOOMKiller := False, LinuxMemory_unknown_fields := no_unknown rt\<rparr>"

definition LinuxMemory_is_initialized :: "'u pb_LinuxMemory \<Rightarrow> bool" where
  "LinuxMemory_is_initialized m \<longleftrightarrow> True"

definition LinuxMemory_arms :: "'u runtime \<Rightarrow> u32 \<Rightarrow> 'u pb_LinuxMemory arm" where
  "LinuxMemory_arms rt n =
     (if n = 1 then varint_into rt (read_int64 rt) LinuxMemory_Limit_update
      else if n = 2 then varint_into rt (read_int64 rt) LinuxMemory_Reservation_update
      else if n = 3 then varint_into rt (read_int64 rt) LinuxMemory_Swap_update
      else if n = 4 then varint_into rt (read_int64 rt) LinuxMemory_Kernel_update
      else if n = 5 then varint_into rt (read_int64 rt) LinuxMemory_KernelTCP_update
      else if n = 6 then varint_into rt (read_uint64 rt) LinuxMemory_Swappiness_update
      else if n = 7 then varint_into rt (read_bool rt) LinuxMemory_DisableOOMKiller_update
      else unknown_into rt n LinuxMemory_unknown_fields LinuxMemory_unknown_fields_update)"

definition LinuxMemory_merge_from :: "'u runtime \<Rightarrow> 'u pb_LinuxMemory \<Rightarrow> 'u pb_LinuxMemory reader" where
  "LinuxMemory_merge_from rt = merge_fields rt (LinuxMemory_arms rt)"

definition LinuxMemory_compute_size :: "'u runtime \<Rightarrow> 'u pb_LinuxMemory \<Rightarrow> u32" where
  "LinuxMemory_compute_size rt m = sum_list [
     whenS (LinuxMemory_Limit m \<noteq> 0) (size_int64 rt 1 (LinuxMemory_Limit m)),
     whenS (LinuxMemory_Reservation m \<noteq> 0) (size_int64 rt 2 (LinuxMemory_Reservation m)),
     whenS (LinuxMemory_Swap m \<noteq> 0) (size_int64 rt 3 (LinuxMemory_Swap m)),
     whenS (LinuxMemory_Kernel m \<noteq> 0) (size_int64 rt 4 (LinuxMemory_Kernel m)),
     whenS (LinuxMemory_KernelTCP m \<noteq> 0) (size_int64 rt 5 (LinuxMemory_KernelTCP m)),
     whenS (LinuxMemory_Swappiness m \<noteq> 0) (size_uint64 rt 6 (LinuxMemory_Swappiness m)),
     whenS (LinuxMemory_DisableOOMKiller m \<noteq> False) 2,
     unknown_fields_size rt (LinuxMemory_unknown_fields m)]"

definition LinuxMemory_write_to :: "'u runtime \<Rightarrow> 'u pb_LinuxMemory \<Rightarrow> bytes res" where
  "LinuxMemory_write_to rt m = catW [
     whenW (LinuxMemory_Limit m \<noteq> 0) (write_int64 rt 1 (LinuxMemory_Limit m)),
     whenW (LinuxMemory_Reservation m \<noteq> 0) (write_int64 rt 2 (LinuxMemory_Reservation m)),
     whenW (LinuxMemory_Swap m \<noteq> 0) (write_int64 rt 3 (LinuxMemory_Swap m)),
     whenW (LinuxMemory_Kernel m \<noteq> 0) (write_int64 rt 4 (LinuxMemory_Kernel m)),
     whenW (LinuxMemory_KernelTCP m \<noteq> 0) (write_int64 rt 5 (LinuxMemory_KernelTCP m)),
     whenW (LinuxMemory_Swappiness m \<noteq> 0) (write_uint64 rt 6 (LinuxMemory_Swappiness m)),
     whenW (LinuxMemory_DisableOOMKiller m \<noteq> False) (write_bool rt 7 (LinuxMemory_DisableOOMKiller m)),
     write_unknown_fields rt (LinuxMemory_unknown_fields m)]"

definition LinuxMemory_ok :: "'u runtime \<Rightarrow> 'u pb_LinuxMemory \<Rightarrow> bool" where
  "LinuxMemory_ok rt m \<longleftrightarrow> LinuxMemory_unknown_fields m = no_unknown rt"

lemma LinuxMemory_arm:
  "LinuxMemory_arms rt 1 = varint_into rt (read_int64 rt) LinuxMemory_Limit_update"
  "LinuxMemory_arms rt 2 = varint_into rt (read_int64 rt) LinuxMemory_Reservation_update"
  "LinuxMemory_arms rt 3 = varint_into rt (read_int64 rt) LinuxMemory_Swap_update"
  "LinuxMemory_arms rt 4 = varint_into rt (read_int64 rt) LinuxMemory_Kernel_update"
  "LinuxMemory_arms rt 5 = varint_into rt (read_int64 rt) LinuxMemory_KernelTCP_update"
  "LinuxMemory_arms rt 6 = varint_into rt (read_uint64 rt) LinuxMemory_Swappiness_update"
  "LinuxMemory_arms rt 7 = varint_into rt (read_bool rt) LinuxMemory_DisableOOMKiller_update"
  by (simp_all add: LinuxMemory_arms_def)

interpretation LinuxMemory_pb: message LinuxMemory_new LinuxMemory_merge_from LinuxMemory_compute_size LinuxMemory_write_to LinuxMemory_ok LinuxMemory_clear
  by (rule messageI [OF LinuxMemory_merge_from_def], simp add: LinuxMemory_clear_def LinuxMemory_new_def,
      unfold LinuxMemory_arms_def, (rule robust_if robust_rules | assumption | simp only: if_distribR)+,
      unfold LinuxMemory_compute_size_def LinuxMemory_write_to_def LinuxMemory_ok_def, rule codes_to,
      (rule field_rules LinuxMemory_arm | assumption
        | simp add: field_number_def tag_len_def LinuxMemory_new_def)+)

section \<open>\<open>LinuxCPU\<close>\<close>

record 'u pb_LinuxCPU =
  LinuxCPU_Shares :: u64
  LinuxCPU_Quota :: u64
  LinuxCPU_Period :: u64
  LinuxCPU_RealtimeRuntime :: u64
  LinuxCPU_RealtimePeriod :: u64
  LinuxCPU_Cpus :: string
  LinuxCPU_Mems :: string
  LinuxCPU_unknown_fields :: 'u

definition LinuxCPU_new :: "'u runtime \<Rightarrow> 'u pb_LinuxCPU" where
  "LinuxCPU_new rt = \<lparr>LinuxCPU_Shares = 0, LinuxCPU_Quota = 0, LinuxCPU_Period = 0, LinuxCPU_RealtimeRuntime = 0, LinuxCPU_RealtimePeriod = 0, LinuxCPU_Cpus = [], LinuxCPU_Mems = [], LinuxCPU_unknown_fields = no_unknown rt\<rparr>"

definition LinuxCPU_clear :: "'u runtime \<Rightarrow> 'u pb_LinuxCPU \<Rightarrow> 'u pb_LinuxCPU" where
  "LinuxCPU_clear rt m = m\<lparr>LinuxCPU_Shares := 0, LinuxCPU_Quota := 0, LinuxCPU_Period := 0, LinuxCPU_RealtimeRuntime := 0, LinuxCPU_RealtimePeriod := 0, LinuxCPU_Cpus := [], LinuxCPU_Mems := [], LinuxCPU_unknown_fields := no_unknown rt\<rparr>"

definition LinuxCPU_is_initialized :: "'u pb_LinuxCPU \<Rightarrow> bool" where
  "LinuxCPU_is_initialized m \<longleftrightarrow> True"

definition LinuxCPU_arms :: "'u runtime \<Rightarrow> u32 \<Rightarrow> 'u pb_LinuxCPU arm" where
  "LinuxCPU_arms rt n =
     (if n = 1 then varint_into rt (read_uint64 rt) LinuxCPU_Shares_update
      else if n = 2 then varint_into rt (read_int64 rt) LinuxCPU_Quota_update
      else if n = 3 then varint_into rt (read_uint64 rt) LinuxCPU_Period_update
      else if n = 4 then varint_into rt (read_int64 rt) LinuxCPU_RealtimeRuntime_update
      else if n = 5 then varint_into rt (read_uint64 rt) LinuxCPU_RealtimePeriod_update
      else if n = 6 then singular_into (read_string rt) LinuxCPU_Cpus_update
      else if n = 7 then singular_into (read_string rt) LinuxCPU_Mems_update
      else unknown_into rt n LinuxCPU_unknown_fields LinuxCPU_unknown_fields_update)"

definition LinuxCPU_merge_from :: "'u runtime \<Rightarrow> 'u pb_LinuxCPU \<Rightarrow> 'u pb_LinuxCPU reader" where
  "LinuxCPU_merge_from rt = merge_fields rt (LinuxCPU_arms rt)"

definition LinuxCPU_compute_size :: "'u runtime \<Rightarrow> 'u pb_LinuxCPU \<Rightarrow> u32" where
  "LinuxCPU_compute_size rt m = sum_list [
     whenS (LinuxCPU_Shares m \<noteq> 0) (size_uint64 rt 1 (LinuxCPU_Shares m)),
     whenS (LinuxCPU_Quota m \<noteq> 0) (size_int64 rt 2 (LinuxCPU_Quota m)),
     whenS (LinuxCPU_Period m \<noteq> 0) (size_uint64 rt 3 (LinuxCPU_Period m)),
     whenS (LinuxCPU_RealtimeRuntime m \<noteq> 0) (size_int64 rt 4 (LinuxCPU_RealtimeRuntime m)),
     whenS (LinuxCPU_RealtimePeriod m \<noteq> 0) (size_uint64 rt 5 (LinuxCPU_RealtimePeriod m)),
     whenS (LinuxCPU_Cpus m \<noteq> []) (string_size rt 6 (LinuxCPU_Cpus m)),
     whenS (LinuxCPU_Mems m \<noteq> []) (string_size rt 7 (LinuxCPU_Mems m)),
     unknown_fields_size rt (LinuxCPU_unknown_fields m)]"

definition LinuxCPU_write_to :: "'u runtime \<Rightarrow> 'u pb_LinuxCPU \<Rightarrow> bytes res" where
  "LinuxCPU_write_to rt m = catW [
     whenW (LinuxCPU_Shares m \<noteq> 0) (write_uint64 rt 1 (LinuxCPU_Shares m)),
     whenW (LinuxCPU_Quota m \<noteq> 0) (write_int64 rt 2 (LinuxCPU_Quota m)),
     whenW (LinuxCPU_Period m \<noteq> 0) (write_uint64 rt 3 (LinuxCPU_Period m)),
     whenW (LinuxCPU_RealtimeRuntime m \<noteq> 0) (write_int64 rt 4 (LinuxCPU_RealtimeRuntime m)),
     whenW (LinuxCPU_RealtimePeriod m \<noteq> 0) (write_uint64 rt 5 (LinuxCPU_RealtimePeriod m)),
     whenW (LinuxCPU_Cpus m \<noteq> []) (write_string rt 6 (LinuxCPU_Cpus m)),
     whenW (LinuxCPU_Mems m \<noteq> []) (write_string rt 7 (LinuxCPU_Mems m)),
     write_unknown_fields rt (LinuxCPU_unknown_fields m)]"

definition LinuxCPU_ok :: "'u runtime \<Rightarrow> 'u pb_LinuxCPU \<Rightarrow> bool" where
  "LinuxCPU_ok rt m \<longleftrightarrow> LinuxCPU_unknown_fields m = no_unknown rt \<and>
     utf8 (LinuxCPU_Cpus m) \<and>
     utf8 (LinuxCPU_Mems m)"

lemma LinuxCPU_arm:
  "LinuxCPU_arms rt 1 = varint_into rt (read_uint64 rt) LinuxCPU_Shares_update"
  "LinuxCPU_arms rt 2 = varint_into rt (read_int64 rt) LinuxCPU_Quota_update"
  "LinuxCPU_arms rt 3 = varint_into rt (read_uint64 rt) LinuxCPU_Period_update"
  "LinuxCPU_arms rt 4 = varint_into rt (read_int64 rt) LinuxCPU_RealtimeRuntime_update"
  "LinuxCPU_arms rt 5 = varint_into rt (read_uint64 rt) LinuxCPU_RealtimePeriod_update"
  "LinuxCPU_arms rt 6 = singular_into (read_string rt) LinuxCPU_Cpus_update"
  "LinuxCPU_arms rt 7 = singular_into (read_string rt) LinuxCPU_Mems_update"
  by (simp_all add: LinuxCPU_arms_def)

interpretation LinuxCPU_pb: message LinuxCPU_new LinuxCPU_merge_from LinuxCPU_compute_size LinuxCPU_write_to LinuxCPU_ok LinuxCPU_clear
  by (rule messageI [OF LinuxCPU_merge_from_def], simp add: LinuxCPU_clear_def LinuxCPU_new_def,
      unfold LinuxCPU_arms_def, (rule robust_if robust_rules | assumption | simp only: if_distribR)+,
      unfold LinuxCPU_compute_size_def LinuxCPU_write_to_def LinuxCPU_ok_def, rule codes_to,
      (rule field_rules LinuxCPU_arm | assumption
        | simp add: field_number_def tag_len_def LinuxCPU_new_def)+)

section \<open>\<open>LinuxPids\<close>\<close>

record 'u pb_LinuxPids =
  LinuxPids_Limit :: u64
  LinuxPids_unknown_fields :: 'u

definition LinuxPids_new :: "'u runtime \<Rightarrow> 'u pb_LinuxPids" where
  "LinuxPids_new rt = \<lparr>LinuxPids_Limit = 0, LinuxPids_unknown_fields = no_unknown rt\<rparr>"

definition LinuxPids_clear :: "'u runtime \<Rightarrow> 'u pb_LinuxPids \<Rightarrow> 'u pb_LinuxPids" where
  "LinuxPids_clear rt m = m\<lparr>LinuxPids_Limit := 0, LinuxPids_unknown_fields := no_unknown rt\<rparr>"

definition LinuxPids_is_initialized :: "'u pb_LinuxPids \<Rightarrow> bool" where
  "LinuxPids_is_initialized m \<longleftrightarrow> True"

definition LinuxPids_arms :: "'u runtime \<Rightarrow> u32 \<Rightarrow> 'u pb_LinuxPids arm" where
  "LinuxPids_arms rt n =
     (if n = 1 then varint_into rt (read_int64 rt) LinuxPids_Limit_update
      else unknown_into rt n LinuxPids_unknown_fields LinuxPids_unknown_fields_update)"

definition LinuxPids_merge_from :: "'u runtime \<Rightarrow> 'u pb_LinuxPids \<Rightarrow> 'u pb_LinuxPids reader" where
  "LinuxPids_merge_from rt = merge_fields rt (LinuxPids_arms rt)"

definition LinuxPids_compute_size :: "'u runtime \<Rightarrow> 'u pb_LinuxPids \<Rightarrow> u32" where
  "LinuxPids_compute_size rt m = sum_list [
     whenS (LinuxPids_Limit m \<noteq> 0) (size_int64 rt 1 (LinuxPids_Limit m)),
     unknown_fields_size rt (LinuxPids_unknown_fields m)]"

definition LinuxPids_write_to :: "'u runtime \<Rightarrow> 'u pb_LinuxPids \<Rightarrow> bytes res" where
  "LinuxPids_write_to rt m = catW [
     whenW (LinuxPids_Limit m \<noteq> 0) (write_int64 rt 1 (LinuxPids_Limit m)),
     write_unknown_fields rt (LinuxPids_unknown_fields m)]"

definition LinuxPids_ok :: "'u runtime \<Rightarrow> 'u pb_LinuxPids \<Rightarrow> bool" where
  "LinuxPids_ok rt m \<longleftrightarrow> LinuxPids_unknown_fields m = no_unknown rt"

lemma LinuxPids_arm:
  "LinuxPids_arms rt 1 = varint_into rt (read_int64 rt) LinuxPids_Limit_update"
  by (simp_all add: LinuxPids_arms_def)

interpretation LinuxPids_pb: message LinuxPids_new LinuxPids_merge_from LinuxPids_compute_size LinuxPids_write_to LinuxPids_ok LinuxPids_clear
  by (rule messageI [OF LinuxPids_merge_from_def], simp add: LinuxPids_clear_def LinuxPids_new_def,
      unfold LinuxPids_arms_def, (rule robust_if robust_rules | assumption | simp only: if_distribR)+,
      unfold LinuxPids_compute_size_def LinuxPids_write_to_def LinuxPids_ok_def, rule codes_to,
      (rule field_rules LinuxPids_arm | assumption
        | simp add: field_number_def tag_len_def LinuxPids_new_def)+)

section \<open>\<open>LinuxWeightDevice\<close>\<close>

record 'u pb_LinuxWeightDevice =
  LinuxWeightDevice_Major :: u64
  LinuxWeightDevice_Minor :: u64
  LinuxWeightDevice_Weight :: u32
  LinuxWeightDevice_LeafWeight :: u32
  LinuxWeightDevice_unknown_fields :: 'u

definition LinuxWeightDevice_new :: "'u runtime \<Rightarrow> 'u pb_LinuxWeightDevice" where
  "LinuxWeightDevice_new rt = \<lparr>LinuxWeightDevice_Major = 0, LinuxWeightDevice_Minor = 0, LinuxWeightDevice_Weight = 0, LinuxWeightDevice_LeafWeight = 0, LinuxWeightDevice_unknown_fields = no_unknown rt\<rparr>"

definition LinuxWeightDevice_clear :: "'u runtime \<Rightarrow> 'u pb_LinuxWeightDevice \<Rightarrow> 'u pb_LinuxWeightDevice" where
  "LinuxWeightDevice_clear rt m = m\<lparr>LinuxWeightDevice_Major := 0, LinuxWeightDevice_Minor := 0, LinuxWeightDevice_Weight := 0, LinuxWeightDevice_LeafWeight := 0, LinuxWeightDevice_unknown_fields := no_unknown rt\<rparr>"

definition LinuxWeightDevice_is_initialized :: "'u pb_LinuxWeightDevice \<Rightarrow> bool" where
  "LinuxWeightDevice_is_initialized m \<longleftrightarrow> True"

definition LinuxWeightDevice_arms :: "'u runtime \<Rightarrow> u32 \<Rightarrow> 'u pb_LinuxWeightDevice arm" where
  "LinuxWeightDevice_arms rt n =
     (if n = 1 then varint_into rt (read_int64 rt) LinuxWeightDevice_Major_update
      else if n = 2 then varint_into rt (read_int64 rt) LinuxWeightDevice_Minor_update
      else if n = 3 then varint_into rt (read_uint32 rt) LinuxWeightDevice_Weight_update
      else if n = 4 then varint_into rt (read_uint32 rt) LinuxWeightDevice_LeafWeight_update
      else unknown_into rt n LinuxWeightDevice_unknown_fields LinuxWeightDevice_unknown_fields_update)"

definition LinuxWeightDevice_merge_from :: "'u runtime \<Rightarrow> 'u pb_LinuxWeightDevice \<Rightarrow> 'u pb_LinuxWeightDevice reader" where
  "LinuxWeightDevice_merge_from rt = merge_fields rt (LinuxWeightDevice_arms rt)"

definition LinuxWeightDevice_compute_size :: "'u runtime \<Rightarrow> 'u pb_LinuxWeightDevice \<Rightarrow> u32" where
  "LinuxWeightDevice_compute_size rt m = sum_list [
     whenS (LinuxWeightDevice_Major m \<noteq> 0) (size_int64 rt 1 (LinuxWeightDevice_Major m)),
     whenS (LinuxWeightDevice_Minor m \<noteq> 0) (size_int64 rt 2 (LinuxWeightDevice_Minor m)),
     whenS (LinuxWeightDevice_Weight m \<noteq> 0) (size_uint32 rt 3 (LinuxWeightDevice_Weight m)),
     whenS (LinuxWeightDevice_LeafWeight m \<noteq> 0) (size_uint32 rt 4 (LinuxWeightDevice_LeafWeight m)),
     unknown_fields_size rt (LinuxWeightDevice_unknown_fields m)]"

definition LinuxWeightDevice_write_to :: "'u runtime \<Rightarrow> 'u pb_LinuxWeightDevice \<Rightarrow> bytes res" where
  "LinuxWeightDevice_write_to rt m = catW [
     whenW (LinuxWeightDevice_Major m \<noteq> 0) (write_int64 rt 1 (LinuxWeightDevice_Major m)),
     whenW (LinuxWeightDevice_Minor m \<noteq> 0) (write_int64 rt 2 (LinuxWeightDevice_Minor m)),
     whenW (LinuxWeightDevice_Weight m \<noteq> 0) (write_uint32 rt 3 (LinuxWeightDevice_Weight m)),
     whenW (LinuxWeightDevice_LeafWeight m \<noteq> 0) (write_uint32 rt 4 (LinuxWeightDevice_LeafWeight m)),
     write_unknown_fields rt (LinuxWeightDevice_unknown_fields m)]"

definition LinuxWeightDevice_ok :: "'u runtime \<Rightarrow> 'u pb_LinuxWeightDevice \<Rightarrow> bool" where
  "LinuxWeightDevice_ok rt m \<longleftrightarrow> LinuxWeightDevice_unknown_fields m = no_unknown rt"

lemma LinuxWeightDevice_arm:
  "LinuxWeightDevice_arms rt 1 = varint_into rt (read_int64 rt) LinuxWeightDevice_Major_update"
  "LinuxWeightDevice_arms rt 2 = varint_into rt (read_int64 rt) LinuxWeightDevice_Minor_update"
  "LinuxWeightDevice_arms rt 3 = varint_into rt (read_uint32 rt) LinuxWeightDevice_Weight_update"
  "LinuxWeightDevice_arms rt 4 = varint_into rt (read_uint32 rt) LinuxWeightDevice_LeafWeight_update"
  by (simp_all add: LinuxWeightDevice_arms_def)

interpretation LinuxWeightDevice_pb: message LinuxWeightDevice_new LinuxWeightDevice_merge_from LinuxWeightDevice_compute_size LinuxWeightDevice_write_to LinuxWeightDevice_ok LinuxWeightDevice_clear
  by (rule messageI [OF LinuxWeightDevice_merge_from_def], simp add: LinuxWeightDevice_clear_def LinuxWeightDevice_new_def,
      unfold LinuxWeightDevice_arms_def, (rule robust_if robust_rules | assumption | simp only: if_distribR)+,
      unfold LinuxWeightDevice_compute_size_def LinuxWeightDevice_write_to_def LinuxWeightDevice_ok_def, rule codes_to,
      (rule field_rules LinuxWeightDevice_arm | assumption
        | simp add: field_number_def tag_len_def LinuxWeightDevice_new_def)+)

section \<open>\<open>LinuxThrottleDevice\<close>\<close>

record 'u pb_LinuxThrottleDevice =
  LinuxThrottleDevice_Major :: u64
  LinuxThrottleDevice_Minor :: u64
  LinuxThrottleDevice_Rate :: u64
  LinuxThrottleDevice_unknown_fields :: 'u

definition LinuxThrottleDevice_new :: "'u runtime \<Rightarrow> 'u pb_LinuxThrottleDevice" where
  "LinuxThrottleDevice_new rt = \<lparr>LinuxThrottleDevice_Major = 0, LinuxThrottleDevice_Minor = 0, LinuxThrottleDevice_Rate = 0, LinuxThrottleDevice_unknown_fields = no_unknown rt\<rparr>"

definition LinuxThrottleDevice_clear :: "'u runtime \<Rightarrow> 'u pb_LinuxThrottleDevice \<Rightarrow> 'u pb_LinuxThrottleDevice" where
  "LinuxThrottleDevice_clear rt m = m\<lparr>LinuxThrottleDevice_Major := 0, LinuxThrottleDevice_Minor := 0, LinuxThrottleDevice_Rate := 0, LinuxThrottleDevice_unknown_fields := no_unknown rt\<rparr>"

definition LinuxThrottleDevice_is_initialized :: "'u pb_LinuxThrottleDevice \<Rightarrow> bool" where
  "LinuxThrottleDevice_is_initialized m \<longleftrightarrow> True"

definition LinuxThrottleDevice_arms :: "'u runtime \<Rightarrow> u32 \<Rightarrow> 'u pb_LinuxThrottleDevice arm" where
  "LinuxThrottleDevice_arms rt n =
     (if n = 1 then varint_into rt (read_int64 rt) LinuxThrottleDevice_Major_update
      else if n = 2 then varint_into rt (read_int64 rt) LinuxThrottleDevice_Minor_update
      else if n = 3 then varint_into rt (read_uint64 rt) LinuxThrottleDevice_Rate_update
      else unknown_into rt n LinuxThrottleDevice_unknown_fields LinuxThrottleDevice_unknown_fields_update)"

definition LinuxThrottleDevice_merge_from :: "'u runtime \<Rightarrow> 'u pb_LinuxThrottleDevice \<Rightarrow> 'u pb_LinuxThrottleDevice reader" where
  "LinuxThrottleDevice_merge_from rt = merge_fields rt (LinuxThrottleDevice_arms rt)"

definition LinuxThrottleDevice_compute_size :: "'u runtime \<Rightarrow> 'u pb_LinuxThrottleDevice \<Rightarrow> u32" where
  "LinuxThrottleDevice_compute_size rt m = sum_list [
     whenS (LinuxThrottleDevice_Major m \<noteq> 0) (size_int64 rt 1 (LinuxThrottleDevice_Major m)),
     whenS (LinuxThrottleDevice_Minor m \<noteq> 0) (size_int64 rt 2 (LinuxThrottleDevice_Minor m)),
     whenS (LinuxThrottleDevice_Rate m \<noteq> 0) (size_uint64 rt 3 (LinuxThrottleDevice_Rate m)),
     unknown_fields_size rt (LinuxThrottleDevice_unknown_fields m)]"

definition LinuxThrottleDevice_write_to :: "'u runtime \<Rightarrow> 'u pb_LinuxThrottleDevice \<Rightarrow> bytes res" where
  "LinuxThrottleDevice_write_to rt m = catW [
     whenW (LinuxThrottleDevice_Major m \<noteq> 0) (write_int64 rt 1 (LinuxThrottleDevice_Major m)),
     whenW (LinuxThrottleDevice_Minor m \<noteq> 0) (write_int64 rt 2 (LinuxThrottleDevice_Minor m)),
     whenW (LinuxThrottleDevice_Rate m \<noteq> 0) (write_uint64 rt 3 (LinuxThrottleDevice_Rate m)),
     write_unknown_fields rt (LinuxThrottleDevice_unknown_fields m)]"

definition LinuxThrottleDevice_ok :: "'u runtime \<Rightarrow> 'u pb_LinuxThrottleDevice \<Rightarrow> bool" where
  "LinuxThrottleDevice_ok rt m \<longleftrightarrow> LinuxThrottleDevice_unknown_fields m = no_unknown rt"

lemma LinuxThrottleDevice_arm:
  "LinuxThrottleDevice_arms rt 1 = varint_into rt (read_int64 rt) LinuxThrottleDevice_Major_update"
  "LinuxThrottleDevice_arms rt 2 = varint_into rt (read_int64 rt) LinuxThrottleDevice_Minor_update"
  "LinuxThrottleDevice_arms rt 3 = varint_into rt (read_uint64 rt) LinuxThrottleDevice_Rate_update"
  by (simp_all add: LinuxThrottleDevice_arms_def)

interpretation LinuxThrottleDevice_pb: message LinuxThrottleDevice_new LinuxThrottleDevice_merge_from LinuxThrottleDevice_compute_size LinuxThrottleDevice_write_to LinuxThrottleDevice_ok LinuxThrottleDevice_clear
  by (rule messageI [OF LinuxThrottleDevice_merge_from_def], simp add: LinuxThrottleDevice_clear_def LinuxThrottleDevice_new_def,
      unfold LinuxThrottleDevice_arms_def, (rule robust_if robust_rules | assumption | simp only: if_distribR)+,
      unfold LinuxThrottleDevice_compute_size_def LinuxThrottleDevice_write_to_def LinuxThrottleDevice_ok_def, rule codes_to,
      (rule field_rules LinuxThrottleDevice_arm | assumption
        | simp add: field_number_def tag_len_def LinuxThrottleDevice_new_def)+)

section \<open>\<open>LinuxBlockIO\<close>\<close>

record 'u pb_LinuxBlockIO =
  LinuxBlockIO_Weight :: u32
  LinuxBlockIO_LeafWeight :: u32
  LinuxBlockIO_WeightDevice :: "'u pb_LinuxWeightDevice list"
  LinuxBlockIO_ThrottleReadBpsDevice :: "'u pb_LinuxThrottleDevice list"
  LinuxBlockIO_ThrottleWriteBpsDevice :: "'u pb_LinuxThrottleDevice list"
  LinuxBlockIO_ThrottleReadIOPSDevice :: "'u pb_LinuxThrottleDevice list"
  LinuxBlockIO_ThrottleWriteIOPSDevice :: "'u pb_LinuxThrottleDevice list"
  LinuxBlockIO_unknown_fields :: 'u

definition LinuxBlockIO_new :: "'u runtime \<Rightarrow> 'u pb_LinuxBlockIO" where
  "LinuxBlockIO_new rt = \<lparr>LinuxBlockIO_Weight = 0, LinuxBlockIO_LeafWeight = 0, LinuxBlockIO_WeightDevice = [], LinuxBlockIO_ThrottleReadBpsDevice = [], LinuxBlockIO_ThrottleWriteBpsDevice = [], LinuxBlockIO_ThrottleReadIOPSDevice = [], LinuxBlockIO_ThrottleWriteIOPSDevice = [], LinuxBlockIO_unknown_fields = no_unknown rt\<rparr>"

definition LinuxBlockIO_clear :: "'u runtime \<Rightarrow> 'u pb_LinuxBlockIO \<Rightarrow> 'u pb_LinuxBlockIO" where
  "LinuxBlockIO_clear rt m = m\<lparr>LinuxBlockIO_Weight := 0, LinuxBlockIO_LeafWeight := 0, LinuxBlockIO_WeightDevice := [], LinuxBlockIO_ThrottleReadBpsDevice := [], LinuxBlockIO_ThrottleWriteBpsDevice := [], LinuxBlockIO_ThrottleReadIOPSDevice := [], LinuxBlockIO_ThrottleWriteIOPSDevice := [], LinuxBlockIO_unknown_fields := no_unknown rt\<rparr>"

definition LinuxBlockIO_is_initialized :: "'u pb_LinuxBlockIO \<Rightarrow> bool" where
  "LinuxBlockIO_is_initialized m \<longleftrightarrow> list_all LinuxWeightDevice_is_initialized (LinuxBlockIO_WeightDevice m) \<and> list_all LinuxThrottleDevice_is_initialized (LinuxBlockIO_ThrottleReadBpsDevice m) \<and> list_all LinuxThrottleDevice_is_initialized (LinuxBlockIO_ThrottleWriteBpsDevice m) \<and> list_all LinuxThrottleDevice_is_initialized (LinuxBlockIO_ThrottleReadIOPSDevice m) \<and> list_all LinuxThrottleDevice_is_initialized (LinuxBlockIO_ThrottleWriteIOPSDevice m)"

definition LinuxBlockIO_arms :: "'u runtime \<Rightarrow> u32 \<Rightarrow> 'u pb_LinuxBlockIO arm" where
  "LinuxBlockIO_arms rt n =
     (if n = 1 then varint_into rt (read_uint32 rt) LinuxBlockIO_Weight_update
      else if n = 2 then varint_into rt (read_uint32 rt) LinuxBlockIO_LeafWeight_update
      else if n = 3 then messages_into rt LinuxWeightDevice_merge_from LinuxWeightDevice_new LinuxBlockIO_WeightDevice_update
      else if n = 4 then messages_into rt LinuxThrottleDevice_merge_from LinuxThrottleDevice_new LinuxBlockIO_ThrottleReadBpsDevice_update
      else if n = 5 then messages_into rt LinuxThrottleDevice_merge_from LinuxThrottleDevice_new LinuxBlockIO_ThrottleWriteBpsDevice_update
      else if n = 6 then messages_into rt LinuxThrottleDevice_merge_from LinuxThrottleDevice_new LinuxBlockIO_ThrottleReadIOPSDevice_update
      else if n = 7 then messages_into rt LinuxThrottleDevice_merge_from LinuxThrottleDevice_new LinuxBlockIO_ThrottleWriteIOPSDevice_update
      else unknown_into rt n LinuxBlockIO_unknown_fields LinuxBlockIO_unknown_fields_update)"

definition LinuxBlockIO_merge_from :: "'u runtime \<Rightarrow> 'u pb_LinuxBlockIO \<Rightarrow> 'u pb_LinuxBlockIO reader" where
  "LinuxBlockIO_merge_from rt = merge_fields rt (LinuxBlockIO_arms rt)"

definition LinuxBlockIO_compute_size :: "'u runtime \<Rightarrow> 'u pb_LinuxBlockIO \<Rightarrow> u32" where
  "LinuxBlockIO_compute_size rt m = sum_list [
     whenS (LinuxBlockIO_Weight m \<noteq> 0) (size_uint32 rt 1 (LinuxBlockIO_Weight m)),
     whenS (LinuxBlockIO_LeafWeight m \<noteq> 0) (size_uint32 rt 2 (LinuxBlockIO_LeafWeight m)),
     eachS (LinuxBlockIO_WeightDevice m) (\<lambda>v. embedded_size rt 1 (LinuxWeightDevice_compute_size rt v)),
     eachS (LinuxBlockIO_ThrottleReadBpsDevice m) (\<lambda>v. embedded_size rt 1 (LinuxThrottleDevice_compute_size rt v)),
     eachS (LinuxBlockIO_ThrottleWriteBpsDevice m) (\<lambda>v. embedded_size rt 1 (LinuxThrottleDevice_compute_size rt v)),
     eachS (LinuxBlockIO_ThrottleReadIOPSDevice m) (\<lambda>v. embedded_size rt 1 (LinuxThrottleDevice_compute_size rt v)),
     eachS (LinuxBlockIO_ThrottleWriteIOPSDevice m) (\<lambda>v. embedded_size rt 1 (LinuxThrottleDevice_compute_size rt v)),
     unknown_fields_size rt (LinuxBlockIO_unknown_fields m)]"

definition LinuxBlockIO_write_to :: "'u runtime \<Rightarrow> 'u pb_LinuxBlockIO \<Rightarrow> bytes res" where
  "LinuxBlockIO_write_to rt m = catW [
     whenW (LinuxBlockIO_Weight m \<noteq> 0) (write_uint32 rt 1 (LinuxBlockIO_Weight m)),
     whenW (LinuxBlockIO_LeafWeight m \<noteq> 0) (write_uint32 rt 2 (LinuxBlockIO_LeafWeight m)),
     eachW (LinuxBlockIO_WeightDevice m) (\<lambda>v. write_embedded rt 3 (LinuxWeightDevice_compute_size rt v) (LinuxWeightDevice_write_to rt v)),
     eachW (LinuxBlockIO_ThrottleReadBpsDevice m) (\<lambda>v. write_embedded rt 4 (LinuxThrottleDevice_compute_size rt v) (LinuxThrottleDevice_write_to rt v)),
     eachW (LinuxBlockIO_ThrottleWriteBpsDevice m) (\<lambda>v. write_embedded rt 5 (LinuxThrottleDevice_compute_size rt v) (LinuxThrottleDevice_write_to rt v)),
     eachW (LinuxBlockIO_ThrottleReadIOPSDevice m) (\<lambda>v. write_embedded rt 6 (LinuxThrottleDevice_compute_size rt v) (LinuxThrottleDevice_write_to rt v)),
     eachW (LinuxBlockIO_ThrottleWriteIOPSDevice m) (\<lambda>v. write_embedded rt 7 (LinuxThrottleDevice_compute_size rt v) (LinuxThrottleDevice_write_to rt v)),
     write_unknown_fields rt (LinuxBlockIO_unknown_fields m)]"

definition LinuxBlockIO_ok :: "'u runtime \<Rightarrow> 'u pb_LinuxBlockIO \<Rightarrow> bool" where
  "LinuxBlockIO_ok rt m \<longleftrightarrow> LinuxBlockIO_unknown_fields m = no_unknown rt \<and>
     list_all (LinuxWeightDevice_ok rt) (LinuxBlockIO_WeightDevice m) \<and>
     list_all (LinuxThrottleDevice_ok rt) (LinuxBlockIO_ThrottleReadBpsDevice m) \<and>
     list_all (LinuxThrottleDevice_ok rt) (LinuxBlockIO_ThrottleWriteBpsDevice m) \<and>
     list_all (LinuxThrottleDevice_ok rt) (LinuxBlockIO_ThrottleReadIOPSDevice m) \<and>
     list_all (LinuxThrottleDevice_ok rt) (LinuxBlockIO_ThrottleWriteIOPSDevice m)"

lemma LinuxBlockIO_arm:
  "LinuxBlockIO_arms rt 1 = varint_into rt (read_uint32 rt) LinuxBlockIO_Weight_update"
  "LinuxBlockIO_arms rt 2 = varint_into rt (read_uint32 rt) LinuxBlockIO_LeafWeight_update"
  "LinuxBlockIO_arms rt 3 = messages_into rt LinuxWeightDevice_merge_from LinuxWeightDevice_new LinuxBlockIO_WeightDevice_update"
  "LinuxBlockIO_arms rt 4 = messages_into rt LinuxThrottleDevice_merge_from LinuxThrottleDevice_new LinuxBlockIO_ThrottleReadBpsDevice_update"
  "LinuxBlockIO_arms rt 5 = messages_into rt LinuxThrottleDevice_merge_from LinuxThrottleDevice_new LinuxBlockIO_ThrottleWriteBpsDevice_update"
  "LinuxBlockIO_arms rt 6 = messages_into rt LinuxThrottleDevice_merge_from LinuxThrottleDevice_new LinuxBlockIO_ThrottleReadIOPSDevice_update"
  "LinuxBlockIO_arms rt 7 = messages_into rt LinuxThrottleDevice_merge_from LinuxThrottleDevice_new LinuxBlockIO_ThrottleWriteIOPSDevice_update"
  by (simp_all add: LinuxBlockIO_arms_def)

interpretation LinuxBlockIO_pb: message LinuxBlockIO_new LinuxBlockIO_merge_from LinuxBlockIO_compute_size LinuxBlockIO_write_to LinuxBlockIO_ok LinuxBlockIO_clear
  by (rule messageI [OF LinuxBlockIO_merge_from_def], simp add: LinuxBlockIO_clear_def LinuxBlockIO_new_def,
      unfold LinuxBlockIO_arms_def, (rule robust_if robust_rules LinuxWeightDevice_pb.robust_field LinuxThrottleDevice_pb.robust_field | assumption | simp only: if_distribR)+,
      unfold LinuxBlockIO_compute_size_def LinuxBlockIO_write_to_def LinuxBlockIO_ok_def, rule codes_to,
      (rule field_rules LinuxWeightDevice_pb.messages_field LinuxThrottleDevice_pb.messages_field
        LinuxBlockIO_arm | assumption
        | simp add: field_number_def tag_len_def LinuxBlockIO_new_def)+)

section \<open>\<open>LinuxHugepageLimit\<close>\<close>

record 'u pb_LinuxHugepageLimit =
  LinuxHugepageLimit_Pagesize :: string
  LinuxHugepageLimit_Limit :: u64
  LinuxHugepageLimit_unknown_fields :: 'u

definition LinuxHugepageLimit_new :: "'u runtime \<Rightarrow> 'u pb_LinuxHugepageLimit" where
  "LinuxHugepageLimit_new rt = \<lparr>LinuxHugepageLimit_Pagesize = [], LinuxHugepageLimit_Limit = 0, LinuxHugepageLimit_unknown_fields = no_unknown rt\<rparr>"

definition LinuxHugepageLimit_clear :: "'u runtime \<Rightarrow> 'u pb_LinuxHugepageLimit \<Rightarrow> 'u pb_LinuxHugepageLimit" where
  "LinuxHugepageLimit_clear rt m = m\<lparr>LinuxHugepageLimit_Pagesize := [], LinuxHugepageLimit_Limit := 0, LinuxHugepageLimit_unknown_fields := no_unknown rt\<rparr>"

definition LinuxHugepageLimit_is_initialized :: "'u pb_LinuxHugepageLimit \<Rightarrow> bool" where
  "LinuxHugepageLimit_is_initialized m \<longleftrightarrow> True"

definition LinuxHugepageLimit_arms :: "'u runtime \<Rightarrow> u32 \<Rightarrow> 'u pb_LinuxHugepageLimit arm" where
  "LinuxHugepageLimit_arms rt n =
     (if n = 1 then singular_into (read_string rt) LinuxHugepageLimit_Pagesize_update
      else if n = 2 then varint_into rt (read_uint64 rt) LinuxHugepageLimit_Limit_update
      else unknown_into rt n LinuxHugepageLimit_unknown_fields LinuxHugepageLimit_unknown_fields_update)"

definition LinuxHugepageLimit_merge_from :: "'u runtime \<Rightarrow> 'u pb_LinuxHugepageLimit \<Rightarrow> 'u pb_LinuxHugepageLimit reader" where
  "LinuxHugepageLimit_merge_from rt = merge_fields rt (LinuxHugepageLimit_arms rt)"

definition LinuxHugepageLimit_compute_size :: "'u runtime \<Rightarrow> 'u pb_LinuxHugepageLimit \<Rightarrow> u32" where
  "LinuxHugepageLimit_compute_size rt m = sum_list [
     whenS (LinuxHugepageLimit_Pagesize m \<noteq> []) (string_size rt 1 (LinuxHugepageLimit_Pagesize m)),
     whenS (LinuxHugepageLimit_Limit m \<noteq> 0) (size_uint64 rt 2 (LinuxHugepageLimit_Limit m)),
     unknown_fields_size rt (LinuxHugepageLimit_unknown_fields m)]"

definition LinuxHugepageLimit_write_to :: "'u runtime \<Rightarrow> 'u pb_LinuxHugepageLimit \<Rightarrow> bytes res" where
  "LinuxHugepageLimit_write_to rt m = catW [
     whenW (LinuxHugepageLimit_Pagesize m \<noteq> []) (write_string rt 1 (LinuxHugepageLimit_Pagesize m)),
     whenW (LinuxHugepageLimit_Limit m \<noteq> 0) (write_uint64 rt 2 (LinuxHugepageLimit_Limit m)),
     write_unknown_fields rt (LinuxHugepageLimit_unknown_fields m)]"

definition LinuxHugepageLimit_ok :: "'u runtime \<Rightarrow> 'u pb_LinuxHugepageLimit \<Rightarrow> bool" where
  "LinuxHugepageLimit_ok rt m \<longleftrightarrow> LinuxHugepageLimit_unknown_fields m = no_unknown rt \<and>
     utf8 (LinuxHugepageLimit_Pagesize m)"

lemma LinuxHugepageLimit_arm:
  "LinuxHugepageLimit_arms rt 1 = singular_into (read_string rt) LinuxHugepageLimit_Pagesize_update"
  "LinuxHugepageLimit_arms rt 2 = varint_into rt (read_uint64 rt) LinuxHugepageLimit_Limit_update"
  by (simp_all add: LinuxHugepageLimit_arms_def)

interpretation LinuxHugepageLimit_pb: message LinuxHugepageLimit_new LinuxHugepageLimit_merge_from LinuxHugepageLimit_compute_size LinuxHugepageLimit_write_to LinuxHugepageLimit_ok LinuxHugepageLimit_clear
  by (rule messageI [OF LinuxHugepageLimit_merge_from_def], simp add: LinuxHugepageLimit_clear_def LinuxHugepageLimit_new_def,
      unfold LinuxHugepageLimit_arms_def, (rule robust_if robust_rules | assumption | simp only: if_distribR)+,
      unfold LinuxHugepageLimit_compute_size_def LinuxHugepageLimit_write_to_def LinuxHugepageLimit_ok_def, rule codes_to,
      (rule field_rules LinuxHugepageLimit_arm | assumption
        | simp add: field_number_def tag_len_def LinuxHugepageLimit_new_def)+)

section \<open>\<open>LinuxInterfacePriority\<close>\<close>

record 'u pb_LinuxInterfacePriority =
  LinuxInterfacePriority_Name :: string
  LinuxInterfacePriority_Priority :: u32
  LinuxInterfacePriority_unknown_fields :: 'u

definition LinuxInterfacePriority_new :: "'u runtime \<Rightarrow> 'u pb_LinuxInterfacePriority" where
  "LinuxInterfacePriority_new rt = \<lparr>LinuxInterfacePriority_Name = [], LinuxInterfacePriority_Priority = 0, LinuxInterfacePriority_unknown_fields = no_unknown rt\<rparr>"

definition LinuxInterfacePriority_clear :: "'u runtime \<Rightarrow> 'u pb_LinuxInterfacePriority \<Rightarrow> 'u pb_LinuxInterfacePriority" where
  "LinuxInterfacePriority_clear rt m = m\<lparr>LinuxInterfacePriority_Name := [], LinuxInterfacePriority_Priority := 0, LinuxInterfacePriority_unknown_fields := no_unknown rt\<rparr>"

definition LinuxInterfacePriority_is_initialized :: "'u pb_LinuxInterfacePriority \<Rightarrow> bool" where
  "LinuxInterfacePriority_is_initialized m \<longleftrightarrow> True"

definition LinuxInterfacePriority_arms :: "'u runtime \<Rightarrow> u32 \<Rightarrow> 'u pb_LinuxInterfacePriority arm" where
  "LinuxInterfacePriority_arms rt n =
     (if n = 1 then singular_into (read_string rt) LinuxInterfacePriority_Name_update
      else if n = 2 then varint_into rt (read_uint32 rt) LinuxInterfacePriority_Priority_update
      else unknown_into rt n LinuxInterfacePriority_unknown_fields LinuxInterfacePriority_unknown_fields_update)"

definition LinuxInterfacePriority_merge_from :: "'u runtime \<Rightarrow> 'u pb_LinuxInterfacePriority \<Rightarrow> 'u pb_LinuxInterfacePriority reader" where
  "LinuxInterfacePriority_merge_from rt = merge_fields rt (LinuxInterfacePriority_arms rt)"

definition LinuxInterfacePriority_compute_size :: "'u runtime \<Rightarrow> 'u pb_LinuxInterfacePriority \<Rightarrow> u32" where
  "LinuxInterfacePriority_compute_size rt m = sum_list [
     whenS (LinuxInterfacePriority_Name m \<noteq> []) (string_size rt 1 (LinuxInterfacePriority_Name m)),
     whenS (LinuxInterfacePriority_Priority m \<noteq> 0) (size_uint32 rt 2 (LinuxInterfacePriority_Priority m)),
     unknown_fields_size rt (LinuxInterfacePriority_unknown_fields m)]"

definition LinuxInterfacePriority_write_to :: "'u runtime \<Rightarrow> 'u pb_LinuxInterfacePriority \<Rightarrow> bytes res" where
  "LinuxInterfacePriority_write_to rt m = catW [
     whenW (LinuxInterfacePriority_Name m \<noteq> []) (write_string rt 1 (LinuxInterfacePriority_Name m)),
     whenW (LinuxInterfacePriority_Priority m \<noteq> 0) (write_uint32 rt 2 (LinuxInterfacePriority_Priority m)),
     write_unknown_fields rt (LinuxInterfacePriority_unknown_fields m)]"

definition LinuxInterfacePriority_ok :: "'u runtime \<Rightarrow> 'u pb_LinuxInterfacePriority \<Rightarrow> bool" where
  "LinuxInterfacePriority_ok rt m \<longleftrightarrow> LinuxInterfacePriority_unknown_fields m = no_unknown rt \<and>
     utf8 (LinuxInterfacePriority_Name m)"

lemma LinuxInterfacePriority_arm:
  "LinuxInterfacePriority_arms rt 1 = singular_into (read_string rt) LinuxInterfacePriority_Name_update"
  "LinuxInterfacePriority_arms rt 2 = varint_into rt (read_uint32 rt) LinuxInterfacePriority_Priority_update"
  by (simp_all add: LinuxInterfacePriority_arms_def)

interpretation LinuxInterfacePriority_pb: message LinuxInterfacePriority_new LinuxInterfacePriority_merge_from LinuxInterfacePriority_compute_size LinuxInterfacePriority_write_to LinuxInterfacePriority_ok LinuxInterfacePriority_clear
  by (rule messageI [OF LinuxInterfacePriority_merge_from_def], simp add: LinuxInterfacePriority_clear_def LinuxInterfacePriority_new_def,
      unfold LinuxInterfacePriority_arms_def, (rule robust_if robust_rules | assumption | simp only: if_distribR)+,
      unfold LinuxInterfacePriority_compute_size_def LinuxInterfacePriority_write_to_def LinuxInterfacePriority_ok_def, rule codes_to,
      (rule field_rules LinuxInterfacePriority_arm | assumption
        | simp add: field_number_def tag_len_def LinuxInterfacePriority_new_def)+)

section \<open>\<open>LinuxNetwork\<close>\<close>

record 'u pb_LinuxNetwork =
  LinuxNetwork_ClassID :: u32
  LinuxNetwork_Priorities :: "'u pb_LinuxInterfacePriority list"
  LinuxNetwork_unknown_fields :: 'u

definition LinuxNetwork_new :: "'u runtime \<Rightarrow> 'u pb_LinuxNetwork" where
  "LinuxNetwork_new rt = \<lparr>LinuxNetwork_ClassID = 0, LinuxNetwork_Priorities = [], LinuxNetwork_unknown_fields = no_unknown rt\<rparr>"

definition LinuxNetwork_clear :: "'u runtime \<Rightarrow> 'u pb_LinuxNetwork \<Rightarrow> 'u pb_LinuxNetwork" where
  "LinuxNetwork_clear rt m = m\<lparr>LinuxNetwork_ClassID := 0, LinuxNetwork_Priorities := [], LinuxNetwork_unknown_fields := no_unknown rt\<rparr>"

definition LinuxNetwork_is_initialized :: "'u pb_LinuxNetwork \<Rightarrow> bool" where
  "LinuxNetwork_is_initialized m \<longleftrightarrow> list_all LinuxInterfacePriority_is_initialized (LinuxNetwork_Priorities m)"

definition LinuxNetwork_arms :: "'u runtime \<Rightarrow> u32 \<Rightarrow> 'u pb_LinuxNetwork arm" where
  "LinuxNetwork_arms rt n =
     (if n = 1 then varint_into rt (read_uint32 rt) LinuxNetwork_ClassID_update
      else if n = 2 then messages_into rt LinuxInterfacePriority_merge_from LinuxInterfacePriority_new LinuxNetwork_Priorities_update
      else unknown_into rt n LinuxNetwork_unknown_fields LinuxNetwork_unknown_fields_update)"

definition LinuxNetwork_merge_from :: "'u runtime \<Rightarrow> 'u pb_LinuxNetwork \<Rightarrow> 'u pb_LinuxNetwork reader" where
  "LinuxNetwork_merge_from rt = merge_fields rt (LinuxNetwork_arms rt)"

definition LinuxNetwork_compute_size :: "'u runtime \<Rightarrow> 'u pb_LinuxNetwork \<Rightarrow> u32" where
  "LinuxNetwork_compute_size rt m = sum_list [
     whenS (LinuxNetwork_ClassID m \<noteq> 0) (size_uint32 rt 1 (LinuxNetwork_ClassID m)),
     eachS (LinuxNetwork_Priorities m) (\<lambda>v. embedded_size rt 1 (LinuxInterfacePriority_compute_size rt v)),
     unknown_fields_size rt (LinuxNetwork_unknown_fields m)]"

definition LinuxNetwork_write_to :: "'u runtime \<Rightarrow> 'u pb_LinuxNetwork \<Rightarrow> bytes res" where
  "LinuxNetwork_write_to rt m = catW [
     whenW (LinuxNetwork_ClassID m \<noteq> 0) (write_uint32 rt 1 (LinuxNetwork_ClassID m)),
     eachW (LinuxNetwork_Priorities m) (\<lambda>v. write_embedded rt 2 (LinuxInterfacePriority_compute_size rt v) (LinuxInterfacePriority_write_to rt v)),
     write_unknown_fields rt (LinuxNetwork_unknown_fields m)]"

definition LinuxNetwork_ok :: "'u runtime \<Rightarrow> 'u pb_LinuxNetwork \<Rightarrow> bool" where
  "LinuxNetwork_ok rt m \<longleftrightarrow> LinuxNetwork_unknown_fields m = no_unknown rt \<and>
     list_all (LinuxInterfacePriority_ok rt) (LinuxNetwork_Priorities m)"

lemma LinuxNetwork_arm:
  "LinuxNetwork_arms rt 1 = varint_into rt (read_uint32 rt) LinuxNetwork_ClassID_update"
  "LinuxNetwork_arms rt 2 = messages_into rt LinuxInterfacePriority_merge_from LinuxInterfacePriority_new LinuxNetwork_Priorities_update"
  by (simp_all add: LinuxNetwork_arms_def)

interpretation LinuxNetwork_pb: message LinuxNetwork_new LinuxNetwork_merge_from LinuxNetwork_compute_size LinuxNetwork_write_to LinuxNetwork_ok LinuxNetwork_clear
  by (rule messageI [OF LinuxNetwork_merge_from_def], simp add: LinuxNetwork_clear_def LinuxNetwork_new_def,
      unfold LinuxNetwork_arms_def, (rule robust_if robust_rules LinuxInterfacePriority_pb.robust_field | assumption | simp only: if_distribR)+,
      unfold LinuxNetwork_compute_size_def LinuxNetwork_write_to_def LinuxNetwork_ok_def, rule codes_to,
      (rule field_rules LinuxInterfacePriority_pb.messages_field LinuxNetwork_arm | assumption
        | simp add: field_number_def tag_len_def LinuxNetwork_new_def)+)

section \<open>\<open>LinuxResources\<close>\<close>

record 'u pb_LinuxResources =
  LinuxResources_Devices :: "'u pb_LinuxDeviceCgroup list"
  LinuxResources_Memory :: "'u pb_LinuxMemory option"
  LinuxResources_CPU :: "'u pb_LinuxCPU option"
  LinuxResources_Pids :: "'u pb_LinuxPids option"
  LinuxResources_BlockIO :: "'u pb_LinuxBlockIO option"
  LinuxResources_HugepageLimits :: "'u pb_LinuxHugepageLimit list"
  LinuxResources_Network :: "'u pb_LinuxNetwork option"
  LinuxResources_unknown_fields :: 'u

definition LinuxResources_new :: "'u runtime \<Rightarrow> 'u pb_LinuxResources" where
  "LinuxResources_new rt = \<lparr>LinuxResources_Devices = [], LinuxResources_Memory = None, LinuxResources_CPU = None, LinuxResources_Pids = None, LinuxResources_BlockIO = None, LinuxResources_HugepageLimits = [], LinuxResources_Network = None, LinuxResources_unknown_fields = no_unknown rt\<rparr>"

definition LinuxResources_clear :: "'u runtime \<Rightarrow> 'u pb_LinuxResources \<Rightarrow> 'u pb_LinuxResources" where
  "LinuxResources_clear rt m = m\<lparr>LinuxResources_Devices := [], LinuxResources_Memory := None, LinuxResources_CPU := None, LinuxResources_Pids := None, LinuxResources_BlockIO := None, LinuxResources_HugepageLimits := [], LinuxResources_Network := None, LinuxResources_unknown_fields := no_unknown rt\<rparr>"

definition LinuxResources_is_initialized :: "'u pb_LinuxResources \<Rightarrow> bool" where
  "LinuxResources_is_initialized m \<longleftrightarrow> list_all LinuxDeviceCgroup_is_initialized (LinuxResources_Devices m) \<and> pred_option LinuxMemory_is_initialized (LinuxResources_Memory m) \<and> pred_option LinuxCPU_is_initialized (LinuxResources_CPU m) \<and> pred_option LinuxPids_is_initialized (LinuxResources_Pids m) \<and> pred_option LinuxBlockIO_is_initialized (LinuxResources_BlockIO m) \<and> list_all LinuxHugepageLimit_is_initialized (LinuxResources_HugepageLimits m) \<and> pred_option LinuxNetwork_is_initialized (LinuxResources_Network m)"

definition LinuxResources_arms :: "'u runtime \<Rightarrow> u32 \<Rightarrow> 'u pb_LinuxResources arm" where
  "LinuxResources_arms rt n =
     (if n = 1 then messages_into rt LinuxDeviceCgroup_merge_from LinuxDeviceCgroup_new LinuxResources_Devices_update
      else if n = 2 then message_into rt LinuxMemory_merge_from LinuxMemory_new LinuxResources_Memory LinuxResources_Memory_update
      else if n = 3 then message_into rt LinuxCPU_merge_from LinuxCPU_new LinuxResources_CPU LinuxResources_CPU_update
      else if n = 4 then message_into rt LinuxPids_merge_from LinuxPids_new LinuxResources_Pids LinuxResources_Pids_update
      else if n = 5 then message_into rt LinuxBlockIO_merge_from LinuxBlockIO_new LinuxResources_BlockIO LinuxResources_BlockIO_update
      else if n = 6 then messages_into rt LinuxHugepageLimit_merge_from LinuxHugepageLimit_new LinuxResources_HugepageLimits_update
      else if n = 7 then message_into rt LinuxNetwork_merge_from LinuxNetwork_new LinuxResources_Network LinuxResources_Network_update
      else unknown_into rt n LinuxResources_unknown_fields LinuxResources_unknown_fields_update)"

definition LinuxResources_merge_from :: "'u runtime \<Rightarrow> 'u pb_LinuxResources \<Rightarrow> 'u pb_LinuxResources reader" where
  "LinuxResources_merge_from rt = merge_fields rt (LinuxResources_arms rt)"

definition LinuxResources_compute_size :: "'u runtime \<Rightarrow> 'u pb_LinuxResources \<Rightarrow> u32" where
  "LinuxResources_compute_size rt m = sum_list [
     eachS (LinuxResources_Devices m) (\<lambda>v. embedded_size rt 1 (LinuxDeviceCgroup_compute_size rt v)),
     optS (LinuxResources_Memory m) (\<lambda>v. embedded_size rt 1 (LinuxMemory_compute_size rt v)),
     optS (LinuxResources_CPU m) (\<lambda>v. embedded_size rt 1 (LinuxCPU_compute_size rt v)),
     optS (LinuxResources_Pids m) (\<lambda>v. embedded_size rt 1 (LinuxPids_compute_size rt v)),
     optS (LinuxResources_BlockIO m) (\<lambda>v. embedded_size rt 1 (LinuxBlockIO_compute_size rt v)),
     eachS (LinuxResources_HugepageLimits m) (\<lambda>v. embedded_size rt 1 (LinuxHugepageLimit_compute_size rt v)),
     optS (LinuxResources_Network m) (\<lambda>v. embedded_size rt 1 (LinuxNetwork_compute_size rt v)),
     unknown_fields_size rt (LinuxResources_unknown_fields m)]"

definition LinuxResources_write_to :: "'u runtime \<Rightarrow> 'u pb_LinuxResources \<Rightarrow> bytes res" where
  "LinuxResources_write_to rt m = catW [
     eachW (LinuxResources_Devices m) (\<lambda>v. write_embedded rt 1 (LinuxDeviceCgroup_compute_size rt v) (LinuxDeviceCgroup_write_to rt v)),
     optW (LinuxResources_Memory m) (\<lambda>v. write_embedded rt 2 (LinuxMemory_compute_size rt v) (LinuxMemory_write_to rt v)),
     optW (LinuxResources_CPU m) (\<lambda>v. write_embedded rt 3 (LinuxCPU_compute_size rt v) (LinuxCPU_write_to rt v)),
     optW (LinuxResources_Pids m) (\<lambda>v. write_embedded rt 4 (LinuxPids_compute_size rt v) (LinuxPids_write_to rt v)),
     optW (LinuxResources_BlockIO m) (\<lambda>v. write_embedded rt 5 (LinuxBlockIO_compute_size rt v) (LinuxBlockIO_write_to rt v)),
     eachW (LinuxResources_HugepageLimits m) (\<lambda>v. write_embedded rt 6 (LinuxHugepageLimit_compute_size rt v) (LinuxHugepageLimit_write_to rt v)),
     optW (LinuxResources_Network m) (\<lambda>v. write_embedded rt 7 (LinuxNetwork_compute_size rt v) (LinuxNetwork_write_to rt v)),
     write_unknown_fields rt (LinuxResources_unknown_fields m)]"

definition LinuxResources_ok :: "'u runtime \<Rightarrow> 'u pb_LinuxResources \<Rightarrow> bool" where
  "LinuxResources_ok rt m \<longleftrightarrow> LinuxResources_unknown_fields m = no_unknown rt \<and>
     list_all (LinuxDeviceCgroup_ok rt) (LinuxResources_Devices m) \<and>
     pred_option (LinuxMemory_ok rt) (LinuxResources_Memory m) \<and>
     pred_option (LinuxCPU_ok rt) (LinuxResources_CPU m) \<and>
     pred_option (LinuxPids_ok rt) (LinuxResources_Pids m) \<and>
     pred_option (LinuxBlockIO_ok rt) (LinuxResources_BlockIO m) \<and>
     list_all (LinuxHugepageLimit_ok rt) (LinuxResources_HugepageLimits m) \<and>
     pred_option (LinuxNetwork_ok rt) (LinuxResources_Network m)"

lemma LinuxResources_arm:
  "LinuxResources_arms rt 1 = messages_into rt LinuxDeviceCgroup_merge_from LinuxDeviceCgroup_new LinuxResources_Devices_update"
  "LinuxResources_arms rt 2 = message_into rt LinuxMemory_merge_from LinuxMemory_new LinuxResources_Memory LinuxResources_Memory_update"
  "LinuxResources_arms rt 3 = message_into rt LinuxCPU_merge_from LinuxCPU_new LinuxResources_CPU LinuxResources_CPU_update"
  "LinuxResources_arms rt 4 = message_into rt LinuxPids_merge_from LinuxPids_new LinuxResources_Pids LinuxResources_Pids_update"
  "LinuxResources_arms rt 5 = message_into rt LinuxBlockIO_merge_from LinuxBlockIO_new LinuxResources_BlockIO LinuxResources_BlockIO_update"
  "LinuxResources_arms rt 6 = messages_into rt LinuxHugepageLimit_merge_from LinuxHugepageLimit_new LinuxResources_HugepageLimits_update"
  "LinuxResources_arms rt 7 = message_into rt LinuxNetwork_merge_from LinuxNetwork_new LinuxResources_Network LinuxResources_Network_update"
  by (simp_all add: LinuxResources_arms_def)

interpretation LinuxResources_pb: message LinuxResources_new LinuxResources_merge_from LinuxResources_compute_size LinuxResources_write_to LinuxResources_ok LinuxResources_clear
  by (rule messageI [OF LinuxResources_merge_from_def], simp add: LinuxResources_clear_def LinuxResources_new_def,
      unfold LinuxResources_arms_def, (rule robust_if robust_rules LinuxDeviceCgroup_pb.robust_field LinuxMemory_pb.robust_field LinuxCPU_pb.robust_field
        LinuxPids_pb.robust_field LinuxBlockIO_pb.robust_field LinuxHugepageLimit_pb.robust_field
        LinuxNetwork_pb.robust_field | assumption | simp only: if_distribR)+,
      unfold LinuxResources_compute_size_def LinuxResources_write_to_def LinuxResources_ok_def, rule codes_to,
      (rule field_rules LinuxDeviceCgroup_pb.messages_field LinuxMemory_pb.message_field
        LinuxCPU_pb.message_field LinuxPids_pb.message_field LinuxBlockIO_pb.message_field
        LinuxHugepageLimit_pb.messages_field LinuxNetwork_pb.message_field LinuxResources_arm | assumption
        | simp add: field_number_def tag_len_def LinuxResources_new_def)+)

section \<open>\<open>LinuxNamespace\<close>\<close>

record 'u pb_LinuxNamespace =
  LinuxNamespace_Type :: string
  LinuxNamespace_Path :: string
  LinuxNamespace_unknown_fields :: 'u

definition LinuxNamespace_new :: "'u runtime \<Rightarrow> 'u pb_LinuxNamespace" where
  "LinuxNamespace_new rt = \<lparr>LinuxNamespace_Type = [], LinuxNamespace_Path = [], LinuxNamespace_unknown_fields = no_unknown rt\<rparr>"

definition LinuxNamespace_clear :: "'u runtime \<Rightarrow> 'u pb_LinuxNamespace \<Rightarrow> 'u pb_LinuxNamespace" where
  "LinuxNamespace_clear rt m = m\<lparr>LinuxNamespace_Type := [], LinuxNamespace_Path := [], LinuxNamespace_unknown_fields := no_unknown rt\<rparr>"

definition LinuxNamespace_is_initialized :: "'u pb_LinuxNamespace \<Rightarrow> bool" where
  "LinuxNamespace_is_initialized m \<longleftrightarrow> True"

definition LinuxNamespace_arms :: "'u runtime \<Rightarrow> u32 \<Rightarrow> 'u pb_LinuxNamespace arm" where
  "LinuxNamespace_arms rt n =
     (if n = 1 then singular_into (read_string rt) LinuxNamespace_Type_update
      else if n = 2 then singular_into (read_string rt) LinuxNamespace_Path_update
      else unknown_into rt n LinuxNamespace_unknown_fields LinuxNamespace_unknown_fields_update)"

definition LinuxNamespace_merge_from :: "'u runtime \<Rightarrow> 'u pb_LinuxNamespace \<Rightarrow> 'u pb_LinuxNamespace reader" where
  "LinuxNamespace_merge_from rt = merge_fields rt (LinuxNamespace_arms rt)"

definition LinuxNamespace_compute_size :: "'u runtime \<Rightarrow> 'u pb_LinuxNamespace \<Rightarrow> u32" where
  "LinuxNamespace_compute_size rt m = sum_list [
     whenS (LinuxNamespace_Type m \<noteq> []) (string_size rt 1 (LinuxNamespace_Type m)),
     whenS (LinuxNamespace_Path m \<noteq> []) (string_size rt 2 (LinuxNamespace_Path m)),
     unknown_fields_size rt (LinuxNamespace_unknown_fields m)]"

definition LinuxNamespace_write_to :: "'u runtime \<Rightarrow> 'u pb_LinuxNamespace \<Rightarrow> bytes res" where
  "LinuxNamespace_write_to rt m = catW [
     whenW (LinuxNamespace_Type m \<noteq> []) (write_string rt 1 (LinuxNamespace_Type m)),
     whenW (LinuxNamespace_Path m \<noteq> []) (write_string rt 2 (LinuxNamespace_Path m)),
     write_unknown_fields rt (LinuxNamespace_unknown_fields m)]"

definition LinuxNamespace_ok :: "'u runtime \<Rightarrow> 'u pb_LinuxNamespace \<Rightarrow> bool" where
  "LinuxNamespace_ok rt m \<longleftrightarrow> LinuxNamespace_unknown_fields m = no_unknown rt \<and>
     utf8 (LinuxNamespace_Type m) \<and>
     utf8 (LinuxNamespace_Path m)"

lemma LinuxNamespace_arm:
  "LinuxNamespace_arms rt 1 = singular_into (read_string rt) LinuxNamespace_Type_update"
  "LinuxNamespace_arms rt 2 = singular_into (read_string rt) LinuxNamespace_Path_update"
  by (simp_all add: LinuxNamespace_arms_def)

interpretation LinuxNamespace_pb: message LinuxNamespace_new LinuxNamespace_merge_from LinuxNamespace_compute_size LinuxNamespace_write_to LinuxNamespace_ok LinuxNamespace_clear
  by (rule messageI [OF LinuxNamespace_merge_from_def], simp add: LinuxNamespace_clear_def LinuxNamespace_new_def,
      unfold LinuxNamespace_arms_def, (rule robust_if robust_rules | assumption | simp only: if_distribR)+,
      unfold LinuxNamespace_compute_size_def LinuxNamespace_write_to_def LinuxNamespace_ok_def, rule codes_to,
      (rule field_rules LinuxNamespace_arm | assumption
        | simp add: field_number_def tag_len_def LinuxNamespace_new_def)+)

section \<open>\<open>LinuxDevice\<close>\<close>

record 'u pb_LinuxDevice =
  LinuxDevice_Path :: string
  LinuxDevice_Type :: string
  LinuxDevice_Major :: u64
  LinuxDevice_Minor :: u64
  LinuxDevice_FileMode :: u32
  LinuxDevice_UID :: u32
  LinuxDevice_GID :: u32
  LinuxDevice_unknown_fields :: 'u

definition LinuxDevice_new :: "'u runtime \<Rightarrow> 'u pb_LinuxDevice" where
  "LinuxDevice_new rt = \<lparr>LinuxDevice_Path = [], LinuxDevice_Type = [], LinuxDevice_Major = 0, LinuxDevice_Minor = 0, LinuxDevice_FileMode = 0, LinuxDevice_UID = 0, LinuxDevice_GID = 0, LinuxDevice_unknown_fields = no_unknown rt\<rparr>"

definition LinuxDevice_clear :: "'u runtime \<Rightarrow> 'u pb_LinuxDevice \<Rightarrow> 'u pb_LinuxDevice" where
  "LinuxDevice_clear rt m = m\<lparr>LinuxDevice_Path := [], LinuxDevice_Type := [], LinuxDevice_Major := 0, LinuxDevice_Minor := 0, LinuxDevice_FileMode := 0, LinuxDevice_UID := 0, LinuxDevice_GID := 0, LinuxDevice_unknown_fields := no_unknown rt\<rparr>"

definition LinuxDevice_is_initialized :: "'u pb_LinuxDevice \<Rightarrow> bool" where
  "LinuxDevice_is_initialized m \<longleftrightarrow> True"

definition LinuxDevice_arms :: "'u runtime \<Rightarrow> u32 \<Rightarrow> 'u pb_LinuxDevice arm" where
  "LinuxDevice_arms rt n =
     (if n = 1 then singular_into (read_string rt) LinuxDevice_Path_update
      else if n = 2 then singular_into (read_string rt) LinuxDevice_Type_update
      else if n = 3 then varint_into rt (read_int64 rt) LinuxDevice_Major_update
      else if n = 4 then varint_into rt (read_int64 rt) LinuxDevice_Minor_update
      else if n = 5 then varint_into rt (read_uint32 rt) LinuxDevice_FileMode_update
      else if n = 6 then varint_into rt (read_uint32 rt) LinuxDevice_UID_update
      else if n = 7 then varint_into rt (read_uint32 rt) LinuxDevice_GID_update
      else unknown_into rt n LinuxDevice_unknown_fields LinuxDevice_unknown_fields_update)"

definition LinuxDevice_merge_from :: "'u runtime \<Rightarrow> 'u pb_LinuxDevice \<Rightarrow> 'u pb_LinuxDevice reader" where
  "LinuxDevice_merge_from rt = merge_fields rt (LinuxDevice_arms rt)"

definition LinuxDevice_compute_size :: "'u runtime \<Rightarrow> 'u pb_LinuxDevice \<Rightarrow> u32" where
  "LinuxDevice_compute_size rt m = sum_list [
     whenS (LinuxDevice_Path m \<noteq> []) (string_size rt 1 (LinuxDevice_Path m)),
     whenS (LinuxDevice_Type m \<noteq> []) (string_size rt 2 (LinuxDevice_Type m)),
     whenS (LinuxDevice_Major m \<noteq> 0) (size_int64 rt 3 (LinuxDevice_Major m)),
     whenS (LinuxDevice_Minor m \<noteq> 0) (size_int64 rt 4 (LinuxDevice_Minor m)),
     whenS (LinuxDevice_FileMode m \<noteq> 0) (size_uint32 rt 5 (LinuxDevice_FileMode m)),
     whenS (LinuxDevice_UID m \<noteq> 0) (size_uint32 rt 6 (LinuxDevice_UID m)),
     whenS (LinuxDevice_GID m \<noteq> 0) (size_uint32 rt 7 (LinuxDevice_GID m)),
     unknown_fields_size rt (LinuxDevice_unknown_fields m)]"

definition LinuxDevice_write_to :: "'u runtime \<Rightarrow> 'u pb_LinuxDevice \<Rightarrow> bytes res" where
  "LinuxDevice_write_to rt m = catW [
     whenW (LinuxDevice_Path m \<noteq> []) (write_string rt 1 (LinuxDevice_Path m)),
     whenW (LinuxDevice_Type m \<noteq> []) (write_string rt 2 (LinuxDevice_Type m)),
     whenW (LinuxDevice_Major m \<noteq> 0) (write_int64 rt 3 (LinuxDevice_Major m)),
     whenW (LinuxDevice_Minor m \<noteq> 0) (write_int64 rt 4 (LinuxDevice_Minor m)),
     whenW (LinuxDevice_FileMode m \<noteq> 0) (write_uint32 rt 5 (LinuxDevice_FileMode m)),
     whenW (LinuxDevice_UID m \<noteq> 0) (write_uint32 rt 6 (LinuxDevice_UID m)),
     whenW (LinuxDevice_GID m \<noteq> 0) (write_uint32 rt 7 (LinuxDevice_GID m)),
     write_unknown_fields rt (LinuxDevice_unknown_fields m)]"

definition LinuxDevice_ok :: "'u runtime \<Rightarrow> 'u pb_LinuxDevice \<Rightarrow> bool" where
  "LinuxDevice_ok rt m \<longleftrightarrow> LinuxDevice_unknown_fields m = no_unknown rt \<and>
     utf8 (LinuxDevice_Path m) \<and>
     utf8 (LinuxDevice_Type m)"

lemma LinuxDevice_arm:
  "LinuxDevice_arms rt 1 = singular_into (read_string rt) LinuxDevice_Path_update"
  "LinuxDevice_arms rt 2 = singular_into (read_string rt) LinuxDevice_Type_update"
  "LinuxDevice_arms rt 3 = varint_into rt (read_int64 rt) LinuxDevice_Major_update"
  "LinuxDevice_arms rt 4 = varint_into rt (read_int64 rt) LinuxDevice_Minor_update"
  "LinuxDevice_arms rt 5 = varint_into rt (read_uint32 rt) LinuxDevice_FileMode_update"
  "LinuxDevice_arms rt 6 = varint_into rt (read_uint32 rt) LinuxDevice_UID_update"
  "LinuxDevice_arms rt 7 = varint_into rt (read_uint32 rt) LinuxDevice_GID_update"
  by (simp_all add: LinuxDevice_arms_def)

interpretation LinuxDevice_pb: message LinuxDevice_new LinuxDevice_merge_from LinuxDevice_compute_size LinuxDevice_write_to LinuxDevice_ok LinuxDevice_clear
  by (rule messageI [OF LinuxDevice_merge_from_def], simp add: LinuxDevice_clear_def LinuxDevice_new_def,
      unfold LinuxDevice_arms_def, (rule robust_if robust_rules | assumption | simp only: if_distribR)+,
      unfold LinuxDevice_compute_size_def LinuxDevice_write_to_def LinuxDevice_ok_def, rule codes_to,
      (rule field_rules LinuxDevice_arm | assumption
        | simp add: field_number_def tag_len_def LinuxDevice_new_def)+)

section \<open>\<open>LinuxSeccompArg\<close>\<close>

record 'u pb_LinuxSeccompArg =
  LinuxSeccompArg_Index :: u64
  LinuxSeccompArg_Value :: u64
  LinuxSeccompArg_ValueTwo :: u64
  LinuxSeccompArg_Op :: string
  LinuxSeccompArg_unknown_fields :: 'u

definition LinuxSeccompArg_new :: "'u runtime \<Rightarrow> 'u pb_LinuxSeccompArg" where
  "LinuxSeccompArg_new rt = \<lparr>LinuxSeccompArg_Index = 0, LinuxSeccompArg_Value = 0, LinuxSeccompArg_ValueTwo = 0, LinuxSeccompArg_Op = [], LinuxSeccompArg_unknown_fields = no_unknown rt\<rparr>"

definition LinuxSeccompArg_clear :: "'u runtime \<Rightarrow> 'u pb_LinuxSeccompArg \<Rightarrow> 'u pb_LinuxSeccompArg" where
  "LinuxSeccompArg_clear rt m = m\<lparr>LinuxSeccompArg_Index := 0, LinuxSeccompArg_Value := 0, LinuxSeccompArg_ValueTwo := 0, LinuxSeccompArg_Op := [], LinuxSeccompArg_unknown_fields := no_unknown rt\<rparr>"

definition LinuxSeccompArg_is_initialized :: "'u pb_LinuxSeccompArg \<Rightarrow> bool" where
  "LinuxSeccompArg_is_initialized m \<longleftrightarrow> True"

definition LinuxSeccompArg_arms :: "'u runtime \<Rightarrow> u32 \<Rightarrow> 'u pb_LinuxSeccompArg arm" where
  "LinuxSeccompArg_arms rt n =
     (if n = 1 then varint_into rt (read_uint64 rt) LinuxSeccompArg_Index_update
      else if n = 2 then varint_into rt (read_uint64 rt) LinuxSeccompArg_Value_update
      else if n = 3 then varint_into rt (read_uint64 rt) LinuxSeccompArg_ValueTwo_update
      else if n = 4 then singular_into (read_string rt) LinuxSeccompArg_Op_update
      else unknown_into rt n LinuxSeccompArg_unknown_fields LinuxSeccompArg_unknown_fields_update)"

definition LinuxSeccompArg_merge_from :: "'u runtime \<Rightarrow> 'u pb_LinuxSeccompArg \<Rightarrow> 'u pb_LinuxSeccompArg reader" where
  "LinuxSeccompArg_merge_from rt = merge_fields rt (LinuxSeccompArg_arms rt)"

definition LinuxSeccompArg_compute_size :: "'u runtime \<Rightarrow> 'u pb_LinuxSeccompArg \<Rightarrow> u32" where
  "LinuxSeccompArg_compute_size rt m = sum_list [
     whenS (LinuxSeccompArg_Index m \<noteq> 0) (size_uint64 rt 1 (LinuxSeccompArg_Index m)),
     whenS (LinuxSeccompArg_Value m \<noteq> 0) (size_uint64 rt 2 (LinuxSeccompArg_Value m)),
     whenS (LinuxSeccompArg_ValueTwo m \<noteq> 0) (size_uint64 rt 3 (LinuxSeccompArg_ValueTwo m)),
     whenS (LinuxSeccompArg_Op m \<noteq> []) (string_size rt 4 (LinuxSeccompArg_Op m)),
     unknown_fields_size rt (LinuxSeccompArg_unknown_fields m)]"

definition LinuxSeccompArg_write_to :: "'u runtime \<Rightarrow> 'u pb_LinuxSeccompArg \<Rightarrow> bytes res" where
  "LinuxSeccompArg_write_to rt m = catW [
     whenW (LinuxSeccompArg_Index m \<noteq> 0) (write_uint64 rt 1 (LinuxSeccompArg_Index m)),
     whenW (LinuxSeccompArg_Value m \<noteq> 0) (write_uint64 rt 2 (LinuxSeccompArg_Value m)),
     whenW (LinuxSeccompArg_ValueTwo m \<noteq> 0) (write_uint64 rt 3 (LinuxSeccompArg_ValueTwo m)),
     whenW (LinuxSeccompArg_Op m \<noteq> []) (write_string rt 4 (LinuxSeccompArg_Op m)),
     write_unknown_fields rt (LinuxSeccompArg_unknown_fields m)]"

definition LinuxSeccompArg_ok :: "'u runtime \<Rightarrow> 'u pb_LinuxSeccompArg \<Rightarrow> bool" where
  "LinuxSeccompArg_ok rt m \<longleftrightarrow> LinuxSeccompArg_unknown_fields m = no_unknown rt \<and>
     utf8 (LinuxSeccompArg_Op m)"

lemma LinuxSeccompArg_arm:
  "LinuxSeccompArg_arms rt 1 = varint_into rt (read_uint64 rt) LinuxSeccompArg_Index_update"
  "LinuxSeccompArg_arms rt 2 = varint_into rt (read_uint64 rt) LinuxSeccompArg_Value_update"
  "LinuxSeccompArg_arms rt 3 = varint_into rt (read_uint64 rt) LinuxSeccompArg_ValueTwo_update"
  "LinuxSeccompArg_arms rt 4 = singular_into (read_string rt) LinuxSeccompArg_Op_update"
  by (simp_all add: LinuxSeccompArg_arms_def)

interpretation LinuxSeccompArg_pb: message LinuxSeccompArg_new LinuxSeccompArg_merge_from LinuxSeccompArg_compute_size LinuxSeccompArg_write_to LinuxSeccompArg_ok LinuxSeccompArg_clear
  by (rule messageI [OF LinuxSeccompArg_merge_from_def], simp add: LinuxSeccompArg_clear_def LinuxSeccompArg_new_def,
      unfold LinuxSeccompArg_arms_def, (rule robust_if robust_rules | assumption | simp only: if_distribR)+,
      unfold LinuxSeccompArg_compute_size_def LinuxSeccompArg_write_to_def LinuxSeccompArg_ok_def, rule codes_to,
      (rule field_rules LinuxSeccompArg_arm | assumption
        | simp add: field_number_def tag_len_def LinuxSeccompArg_new_def)+)

section \<open>\<open>LinuxSyscall\<close>\<close>

record 'u pb_LinuxSyscall =
  LinuxSyscall_Names :: "string list"
  LinuxSyscall_Action :: string
  LinuxSyscall_Args :: "'u pb_LinuxSeccompArg list"
  LinuxSyscall_unknown_fields :: 'u

definition LinuxSyscall_new :: "'u runtime \<Rightarrow> 'u pb_LinuxSyscall" where
  "LinuxSyscall_new rt = \<lparr>LinuxSyscall_Names = [], LinuxSyscall_Action = [], LinuxSyscall_Args = [], LinuxSyscall_unknown_fields = no_unknown rt\<rparr>"

definition LinuxSyscall_clear :: "'u runtime \<Rightarrow> 'u pb_LinuxSyscall \<Rightarrow> 'u pb_LinuxSyscall" where
  "LinuxSyscall_clear rt m = m\<lparr>LinuxSyscall_Names := [], LinuxSyscall_Action := [], LinuxSyscall_Args := [], LinuxSyscall_unknown_fields := no_unknown rt\<rparr>"

definition LinuxSyscall_is_initialized :: "'u pb_LinuxSyscall \<Rightarrow> bool" where
  "LinuxSyscall_is_initialized m \<longleftrightarrow> list_all LinuxSeccompArg_is_initialized (LinuxSyscall_Args m)"

definition LinuxSyscall_arms :: "'u runtime \<Rightarrow> u32 \<Rightarrow> 'u pb_LinuxSyscall arm" where
  "LinuxSyscall_arms rt n =
     (if n = 1 then repeated_into (read_string rt) LinuxSyscall_Names_update
      else if n = 2 then singular_into (read_string rt) LinuxSyscall_Action_update
      else if n = 3 then messages_into rt LinuxSeccompArg_merge_from LinuxSeccompArg_new LinuxSyscall_Args_update
      else unknown_into rt n LinuxSyscall_unknown_fields LinuxSyscall_unknown_fields_update)"

definition LinuxSyscall_merge_from :: "'u runtime \<Rightarrow> 'u pb_LinuxSyscall \<Rightarrow> 'u pb_LinuxSyscall reader" where
  "LinuxSyscall_merge_from rt = merge_fields rt (LinuxSyscall_arms rt)"

definition LinuxSyscall_compute_size :: "'u runtime \<Rightarrow> 'u pb_LinuxSyscall \<Rightarrow> u32" where
  "LinuxSyscall_compute_size rt m = sum_list [
     eachS (LinuxSyscall_Names m) (string_size rt 1),
     whenS (LinuxSyscall_Action m \<noteq> []) (string_size rt 2 (LinuxSyscall_Action m)),
     eachS (LinuxSyscall_Args m) (\<lambda>v. embedded_size rt 1 (LinuxSeccompArg_compute_size rt v)),
     unknown_fields_size rt (LinuxSyscall_unknown_fields m)]"

definition LinuxSyscall_write_to :: "'u runtime \<Rightarrow> 'u pb_LinuxSyscall \<Rightarrow> bytes res" where
  "LinuxSyscall_write_to rt m = catW [
     eachW (LinuxSyscall_Names m) (write_string rt 1),
     whenW (LinuxSyscall_Action m \<noteq> []) (write_string rt 2 (LinuxSyscall_Action m)),
     eachW (LinuxSyscall_Args m) (\<lambda>v. write_embedded rt 3 (LinuxSeccompArg_compute_size rt v) (LinuxSeccompArg_write_to rt v)),
     write_unknown_fields rt (LinuxSyscall_unknown_fields m)]"

definition LinuxSyscall_ok :: "'u runtime \<Rightarrow> 'u pb_LinuxSyscall \<Rightarrow> bool" where
  "LinuxSyscall_ok rt m \<longleftrightarrow> LinuxSyscall_unknown_fields m = no_unknown rt \<and>
     list_all utf8 (LinuxSyscall_Names m) \<and>
     utf8 (LinuxSyscall_Action m) \<and>
     list_all (LinuxSeccompArg_ok rt) (LinuxSyscall_Args m)"

lemma LinuxSyscall_arm:
  "LinuxSyscall_arms rt 1 = repeated_into (read_string rt) LinuxSyscall_Names_update"
  "LinuxSyscall_arms rt 2 = singular_into (read_string rt) LinuxSyscall_Action_update"
  "LinuxSyscall_arms rt 3 = messages_into rt LinuxSeccompArg_merge_from LinuxSeccompArg_new LinuxSyscall_Args_update"
  by (simp_all add: LinuxSyscall_arms_def)

interpretation LinuxSyscall_pb: message LinuxSyscall_new LinuxSyscall_merge_from LinuxSyscall_compute_size LinuxSyscall_write_to LinuxSyscall_ok LinuxSyscall_clear
  by (rule messageI [OF LinuxSyscall_merge_from_def], simp add: LinuxSyscall_clear_def LinuxSyscall_new_def,
      unfold LinuxSyscall_arms_def, (rule robust_if robust_rules LinuxSeccompArg_pb.robust_field | assumption | simp only: if_distribR)+,
      unfold LinuxSyscall_compute_size_def LinuxSyscall_write_to_def LinuxSyscall_ok_def, rule codes_to,
      (rule field_rules LinuxSeccompArg_pb.messages_field LinuxSyscall_arm | assumption
        | simp add: field_number_def tag_len_def LinuxSyscall_new_def)+)

section \<open>\<open>LinuxSeccomp\<close>\<close>

record 'u pb_LinuxSeccomp =
  LinuxSeccomp_DefaultAction :: string
  LinuxSeccomp_Architectures :: "string list"
  LinuxSeccomp_Syscalls :: "'u pb_LinuxSyscall list"
  LinuxSeccomp_unknown_fields :: 'u

definition LinuxSeccomp_new :: "'u runtime \<Rightarrow> 'u pb_LinuxSeccomp" where
  "LinuxSeccomp_new rt = \<lparr>LinuxSeccomp_DefaultAction = [], LinuxSeccomp_Architectures = [], LinuxSeccomp_Syscalls = [], LinuxSeccomp_unknown_fields = no_unknown rt\<rparr>"

definition LinuxSeccomp_clear :: "'u runtime \<Rightarrow> 'u pb_LinuxSeccomp \<Rightarrow> 'u pb_LinuxSeccomp" where
  "LinuxSeccomp_clear rt m = m\<lparr>LinuxSeccomp_DefaultAction := [], LinuxSeccomp_Architectures := [], LinuxSeccomp_Syscalls := [], LinuxSeccomp_unknown_fields := no_unknown rt\<rparr>"

definition LinuxSeccomp_is_initialized :: "'u pb_LinuxSeccomp \<Rightarrow> bool" where
  "LinuxSeccomp_is_initialized m \<longleftrightarrow> list_all LinuxSyscall_is_initialized (LinuxSeccomp_Syscalls m)"

definition LinuxSeccomp_arms :: "'u runtime \<Rightarrow> u32 \<Rightarrow> 'u pb_LinuxSeccomp arm" where
  "LinuxSeccomp_arms rt n =
     (if n = 1 then singular_into (read_string rt) LinuxSeccomp_DefaultAction_update
      else if n = 2 then repeated_into (read_string rt) LinuxSeccomp_Architectures_update
      else if n = 3 then messages_into rt LinuxSyscall_merge_from LinuxSyscall_new LinuxSeccomp_Syscalls_update
      else unknown_into rt n LinuxSeccomp_unknown_fields LinuxSeccomp_unknown_fields_update)"

definition LinuxSeccomp_merge_from :: "'u runtime \<Rightarrow> 'u pb_LinuxSeccomp \<Rightarrow> 'u pb_LinuxSeccomp reader" where
  "LinuxSeccomp_merge_from rt = merge_fields rt (LinuxSeccomp_arms rt)"

definition LinuxSeccomp_compute_size :: "'u runtime \<Rightarrow> 'u pb_LinuxSeccomp \<Rightarrow> u32" where
  "LinuxSeccomp_compute_size rt m = sum_list [
     whenS (LinuxSeccomp_DefaultAction m \<noteq> []) (string_size rt 1 (LinuxSeccomp_DefaultAction m)),
     eachS (LinuxSeccomp_Architectures m) (string_size rt 2),
     eachS (LinuxSeccomp_Syscalls m) (\<lambda>v. embedded_size rt 1 (LinuxSyscall_compute_size rt v)),
     unknown_fields_size rt (LinuxSeccomp_unknown_fields m)]"

definition LinuxSeccomp_write_to :: "'u runtime \<Rightarrow> 'u pb_LinuxSeccomp \<Rightarrow> bytes res" where
  "LinuxSeccomp_write_to rt m = catW [
     whenW (LinuxSeccomp_DefaultAction m \<noteq> []) (write_string rt 1 (LinuxSeccomp_DefaultAction m)),
     eachW (LinuxSeccomp_Architectures m) (write_string rt 2),
     eachW (LinuxSeccomp_Syscalls m) (\<lambda>v. write_embedded rt 3 (LinuxSyscall_compute_size rt v) (LinuxSyscall_write_to rt v)),
     write_unknown_fields rt (LinuxSeccomp_unknown_fields m)]"

definition LinuxSeccomp_ok :: "'u runtime \<Rightarrow> 'u pb_LinuxSeccomp \<Rightarrow> bool" where
  "LinuxSeccomp_ok rt m \<longleftrightarrow> LinuxSeccomp_unknown_fields m = no_unknown rt \<and>
     utf8 (LinuxSeccomp_DefaultAction m) \<and>
     list_all utf8 (LinuxSeccomp_Architectures m) \<and>
     list_all (LinuxSyscall_ok rt) (LinuxSeccomp_Syscalls m)"

lemma LinuxSeccomp_arm:
  "LinuxSeccomp_arms rt 1 = singular_into (read_string rt) LinuxSeccomp_DefaultAction_update"
  "LinuxSeccomp_arms rt 2 = repeated_into (read_string rt) LinuxSeccomp_Architectures_update"
  "LinuxSeccomp_arms rt 3 = messages_into rt LinuxSyscall_merge_from LinuxSyscall_new LinuxSeccomp_Syscalls_update"
  by (simp_all add: LinuxSeccomp_arms_def)

interpretation LinuxSeccomp_pb: message LinuxSeccomp_new LinuxSeccomp_merge_from LinuxSeccomp_compute_size LinuxSeccomp_write_to LinuxSeccomp_ok LinuxSeccomp_clear
  by (rule messageI [OF LinuxSeccomp_merge_from_def], simp add: LinuxSeccomp_clear_def LinuxSeccomp_new_def,
      unfold LinuxSeccomp_arms_def, (rule robust_if robust_rules LinuxSyscall_pb.robust_field | assumption | simp only: if_distribR)+,
      unfold LinuxSeccomp_compute_size_def LinuxSeccomp_write_to_def LinuxSeccomp_ok_def, rule codes_to,
      (rule field_rules LinuxSyscall_pb.messages_field LinuxSeccomp_arm | assumption
        | simp add: field_number_def tag_len_def LinuxSeccomp_new_def)+)

section \<open>\<open>LinuxIntelRdt\<close>\<close>

record 'u pb_LinuxIntelRdt =
  LinuxIntelRdt_L3CacheSchema :: string
  LinuxIntelRdt_unknown_fields :: 'u

definition LinuxIntelRdt_new :: "'u runtime \<Rightarrow> 'u pb_LinuxIntelRdt" where
  "LinuxIntelRdt_new rt = \<lparr>LinuxIntelRdt_L3CacheSchema = [], LinuxIntelRdt_unknown_fields = no_unknown rt\<rparr>"

definition LinuxIntelRdt_clear :: "'u runtime \<Rightarrow> 'u pb_LinuxIntelRdt \<Rightarrow> 'u pb_LinuxIntelRdt" where
  "LinuxIntelRdt_clear rt m = m\<lparr>LinuxIntelRdt_L3CacheSchema := [], LinuxIntelRdt_unknown_fields := no_unknown rt\<rparr>"

definition LinuxIntelRdt_is_initialized :: "'u pb_LinuxIntelRdt \<Rightarrow> bool" where
  "LinuxIntelRdt_is_initialized m \<longleftrightarrow> True"

definition LinuxIntelRdt_arms :: "'u runtime \<Rightarrow> u32 \<Rightarrow> 'u pb_LinuxIntelRdt arm" where
  "LinuxIntelRdt_arms rt n =
     (if n = 1 then singular_into (read_string rt) LinuxIntelRdt_L3CacheSchema_update
      else unknown_into rt n LinuxIntelRdt_unknown_fields LinuxIntelRdt_unknown_fields_update)"

definition LinuxIntelRdt_merge_from :: "'u runtime \<Rightarrow> 'u pb_LinuxIntelRdt \<Rightarrow> 'u pb_LinuxIntelRdt reader" where
  "LinuxIntelRdt_merge_from rt = merge_fields rt (LinuxIntelRdt_arms rt)"

definition LinuxIntelRdt_compute_size :: "'u runtime \<Rightarrow> 'u pb_LinuxIntelRdt \<Rightarrow> u32" where
  "LinuxIntelRdt_compute_size rt m = sum_list [
     whenS (LinuxIntelRdt_L3CacheSchema m \<noteq> []) (string_size rt 1 (LinuxIntelRdt_L3CacheSchema m)),
     unknown_fields_size rt (LinuxIntelRdt_unknown_fields m)]"

definition LinuxIntelRdt_write_to :: "'u runtime \<Rightarrow> 'u pb_LinuxIntelRdt \<Rightarrow> bytes res" where
  "LinuxIntelRdt_write_to rt m = catW [
     whenW (LinuxIntelRdt_L3CacheSchema m \<noteq> []) (write_string rt 1 (LinuxIntelRdt_L3CacheSchema m)),
     write_unknown_fields rt (LinuxIntelRdt_unknown_fields m)]"

definition LinuxIntelRdt_ok :: "'u runtime \<Rightarrow> 'u pb_LinuxIntelRdt \<Rightarrow> bool" where
  "LinuxIntelRdt_ok rt m \<longleftrightarrow> LinuxIntelRdt_unknown_fields m = no_unknown rt \<and>
     utf8 (LinuxIntelRdt_L3CacheSchema m)"

lemma LinuxIntelRdt_arm:
  "LinuxIntelRdt_arms rt 1 = singular_into (read_string rt) LinuxIntelRdt_L3CacheSchema_update"
  by (simp_all add: LinuxIntelRdt_arms_def)

interpretation LinuxIntelRdt_pb: message LinuxIntelRdt_new LinuxIntelRdt_merge_from LinuxIntelRdt_compute_size LinuxIntelRdt_write_to LinuxIntelRdt_ok LinuxIntelRdt_clear
  by (rule messageI [OF LinuxIntelRdt_merge_from_def], simp add: LinuxIntelRdt_clear_def LinuxIntelRdt_new_def,
      unfold LinuxIntelRdt_arms_def, (rule robust_if robust_rules | assumption | simp only: if_distribR)+,
      unfold LinuxIntelRdt_compute_size_def LinuxIntelRdt_write_to_def LinuxIntelRdt_ok_def, rule codes_to,
      (rule field_rules LinuxIntelRdt_arm | assumption
        | simp add: field_number_def tag_len_def LinuxIntelRdt_new_def)+)

section \<open>\<open>Linux\<close>\<close>

record 'u pb_Linux =
  Linux_UIDMappings :: "'u pb_LinuxIDMapping list"
  Linux_GIDMappings :: "'u pb_LinuxIDMapping list"
  Linux_Sysctl :: "(string \<times> string) list"
  Linux_Resources :: "'u pb_LinuxResources option"
  Linux_CgroupsPath :: string
  Linux_Namespaces :: "'u pb_LinuxNamespace list"
  Linux_Devices :: "'u pb_LinuxDevice list"
  Linux_Seccomp :: "'u pb_LinuxSeccomp option"
  Linux_RootfsPropagation :: string
  Linux_MaskedPaths :: "string list"
  Linux_ReadonlyPaths :: "string list"
  Linux_MountLabel :: string
  Linux_IntelRdt :: "'u pb_LinuxIntelRdt option"
  Linux_unknown_fields :: 'u

definition Linux_new :: "'u runtime \<Rightarrow> 'u pb_Linux" where
  "Linux_new rt = \<lparr>Linux_UIDMappings = [], Linux_GIDMappings = [], Linux_Sysctl = [], Linux_Resources = None, Linux_CgroupsPath = [], Linux_Namespaces = [], Linux_Devices = [], Linux_Seccomp = None, Linux_RootfsPropagation = [], Linux_MaskedPaths = [], Linux_ReadonlyPaths = [], Linux_MountLabel = [], Linux_IntelRdt = None, Linux_unknown_fields = no_unknown rt\<rparr>"

definition Linux_clear :: "'u runtime \<Rightarrow> 'u pb_Linux \<Rightarrow> 'u pb_Linux" where
  "Linux_clear rt m = m\<lparr>Linux_UIDMappings := [], Linux_GIDMappings := [], Linux_Sysctl := [], Linux_Resources := None, Linux_CgroupsPath := [], Linux_Namespaces := [], Linux_Devices := [], Linux_Seccomp := None, Linux_RootfsPropagation := [], Linux_MaskedPaths := [], Linux_ReadonlyPaths := [], Linux_MountLabel := [], Linux_IntelRdt := None, Linux_unknown_fields := no_unknown rt\<rparr>"

definition Linux_is_initialized :: "'u pb_Linux \<Rightarrow> bool" where
  "Linux_is_initialized m \<longleftrightarrow> list_all LinuxIDMapping_is_initialized (Linux_UIDMappings m) \<and> list_all LinuxIDMapping_is_initialized (Linux_GIDMappings m) \<and> pred_option LinuxResources_is_initialized (Linux_Resources m) \<and> list_all LinuxNamespace_is_initialized (Linux_Namespaces m) \<and> list_all LinuxDevice_is_initialized (Linux_Devices m) \<and> pred_option LinuxSeccomp_is_initialized (Linux_Seccomp m) \<and> pred_option LinuxIntelRdt_is_initialized (Linux_IntelRdt m)"

definition Linux_arms :: "'u runtime \<Rightarrow> u32 \<Rightarrow> 'u pb_Linux arm" where
  "Linux_arms rt n =
     (if n = 1 then messages_into rt LinuxIDMapping_merge_from LinuxIDMapping_new Linux_UIDMappings_update
      else if n = 2 then messages_into rt LinuxIDMapping_merge_from LinuxIDMapping_new Linux_GIDMappings_update
      else if n = 3 then map_into (read_map_string rt) Linux_Sysctl_update
      else if n = 4 then message_into rt LinuxResources_merge_from LinuxResources_new Linux_Resources Linux_Resources_update
      else if n = 5 then singular_into (read_string rt) Linux_CgroupsPath_update
      else if n = 6 then messages_into rt LinuxNamespace_merge_from LinuxNamespace_new Linux_Namespaces_update
      else if n = 7 then messages_into rt LinuxDevice_merge_from LinuxDevice_new Linux_Devices_update
      else if n = 8 then message_into rt LinuxSeccomp_merge_from LinuxSeccomp_new Linux_Seccomp Linux_Seccomp_update
      else if n = 9 then singular_into (read_string rt) Linux_RootfsPropagation_update
      else if n = 10 then repeated_into (read_string rt) Linux_MaskedPaths_update
      else if n = 11 then repeated_into (read_string rt) Linux_ReadonlyPaths_update
      else if n = 12 then singular_into (read_string rt) Linux_MountLabel_update
      else if n = 13 then message_into rt LinuxIntelRdt_merge_from LinuxIntelRdt_new Linux_IntelRdt Linux_IntelRdt_update
      else unknown_into rt n Linux_unknown_fields Linux_unknown_fields_update)"

definition Linux_merge_from :: "'u runtime \<Rightarrow> 'u pb_Linux \<Rightarrow> 'u pb_Linux reader" where
  "Linux_merge_from rt = merge_fields rt (Linux_arms rt)"

definition Linux_compute_size :: "'u runtime \<Rightarrow> 'u pb_Linux \<Rightarrow> u32" where
  "Linux_compute_size rt m = sum_list [
     eachS (Linux_UIDMappings m) (\<lambda>v. embedded_size rt 1 (LinuxIDMapping_compute_size rt v)),
     eachS (Linux_GIDMappings m) (\<lambda>v. embedded_size rt 1 (LinuxIDMapping_compute_size rt v)),
     map_string_size rt 3 (Linux_Sysctl m),
     optS (Linux_Resources m) (\<lambda>v. embedded_size rt 1 (LinuxResources_compute_size rt v)),
     whenS (Linux_CgroupsPath m \<noteq> []) (string_size rt 5 (Linux_CgroupsPath m)),
     eachS (Linux_Namespaces m) (\<lambda>v. embedded_size rt 1 (LinuxNamespace_compute_size rt v)),
     eachS (Linux_Devices m) (\<lambda>v. embedded_size rt 1 (LinuxDevice_compute_size rt v)),
     optS (Linux_Seccomp m) (\<lambda>v. embedded_size rt 1 (LinuxSeccomp_compute_size rt v)),
     whenS (Linux_RootfsPropagation m \<noteq> []) (string_size rt 9 (Linux_RootfsPropagation m)),
     eachS (Linux_MaskedPaths m) (string_size rt 10),
     eachS (Linux_ReadonlyPaths m) (string_size rt 11),
     whenS (Linux_MountLabel m \<noteq> []) (string_size rt 12 (Linux_MountLabel m)),
     optS (Linux_IntelRdt m) (\<lambda>v. embedded_size rt 1 (LinuxIntelRdt_compute_size rt v)),
     unknown_fields_size rt (Linux_unknown_fields m)]"

definition Linux_write_to :: "'u runtime \<Rightarrow> 'u pb_Linux \<Rightarrow> bytes res" where
  "Linux_write_to rt m = catW [
     eachW (Linux_UIDMappings m) (\<lambda>v. write_embedded rt 1 (LinuxIDMapping_compute_size rt v) (LinuxIDMapping_write_to rt v)),
     eachW (Linux_GIDMappings m) (\<lambda>v. write_embedded rt 2 (LinuxIDMapping_compute_size rt v) (LinuxIDMapping_write_to rt v)),
     write_map_string rt 3 (Linux_Sysctl m),
     optW (Linux_Resources m) (\<lambda>v. write_embedded rt 4 (LinuxResources_compute_size rt v) (LinuxResources_write_to rt v)),
     whenW (Linux_CgroupsPath m \<noteq> []) (write_string rt 5 (Linux_CgroupsPath m)),
     eachW (Linux_Namespaces m) (\<lambda>v. write_embedded rt 6 (LinuxNamespace_compute_size rt v) (LinuxNamespace_write_to rt v)),
     eachW (Linux_Devices m) (\<lambda>v. write_embedded rt 7 (LinuxDevice_compute_size rt v) (LinuxDevice_write_to rt v)),
     optW (Linux_Seccomp m) (\<lambda>v. write_embedded rt 8 (LinuxSeccomp_compute_size rt v) (LinuxSeccomp_write_to rt v)),
     whenW (Linux_RootfsPropagation m \<noteq> []) (write_string rt 9 (Linux_RootfsPropagation m)),
     eachW (Linux_MaskedPaths m) (write_string rt 10),
     eachW (Linux_ReadonlyPaths m) (write_string rt 11),
     whenW (Linux_MountLabel m \<noteq> []) (write_string rt 12 (Linux_MountLabel m)),
     optW (Linux_IntelRdt m) (\<lambda>v. write_embedded rt 13 (LinuxIntelRdt_compute_size rt v) (LinuxIntelRdt_write_to rt v)),
     write_unknown_fields rt (Linux_unknown_fields m)]"

definition Linux_ok :: "'u runtime \<Rightarrow> 'u pb_Linux \<Rightarrow> bool" where
  "Linux_ok rt m \<longleftrightarrow> Linux_unknown_fields m = no_unknown rt \<and>
     list_all (LinuxIDMapping_ok rt) (Linux_UIDMappings m) \<and>
     list_all (LinuxIDMapping_ok rt) (Linux_GIDMappings m) \<and>
     list_all (\<lambda>(k, v). utf8 k \<and> utf8 v) (Linux_Sysctl m) \<and>
     distinct (map fst (Linux_Sysctl m)) \<and>
     pred_option (LinuxResources_ok rt) (Linux_Resources m) \<and>
     utf8 (Linux_CgroupsPath m) \<and>
     list_all (LinuxNamespace_ok rt) (Linux_Namespaces m) \<and>
     list_all (LinuxDevice_ok rt) (Linux_Devices m) \<and>
     pred_option (LinuxSeccomp_ok rt) (Linux_Seccomp m) \<and>
     utf8 (Linux_RootfsPropagation m) \<and>
     list_all utf8 (Linux_MaskedPaths m) \<and>
     list_all utf8 (Linux_ReadonlyPaths m) \<and>
     utf8 (Linux_MountLabel m) \<and>
     pred_option (LinuxIntelRdt_ok rt) (Linux_IntelRdt m)"

lemma Linux_arm:
  "Linux_arms rt 1 = messages_into rt LinuxIDMapping_merge_from LinuxIDMapping_new Linux_UIDMappings_update"
  "Linux_arms rt 2 = messages_into rt LinuxIDMapping_merge_from LinuxIDMapping_new Linux_GIDMappings_update"
  "Linux_arms rt 3 = map_into (read_map_string rt) Linux_Sysctl_update"
  "Linux_arms rt 4 = message_into rt LinuxResources_merge_from LinuxResources_new Linux_Resources Linux_Resources_update"
  "Linux_arms rt 5 = singular_into (read_string rt) Linux_CgroupsPath_update"
  "Linux_arms rt 6 = messages_into rt LinuxNamespace_merge_from LinuxNamespace_new Linux_Namespaces_update"
  "Linux_arms rt 7 = messages_into rt LinuxDevice_merge_from LinuxDevice_new Linux_Devices_update"
  "Linux_arms rt 8 = message_into rt LinuxSeccomp_merge_from LinuxSeccomp_new Linux_Seccomp Linux_Seccomp_update"
  "Linux_arms rt 9 = singular_into (read_string rt) Linux_RootfsPropagation_update"
  "Linux_arms rt 10 = repeated_into (read_string rt) Linux_MaskedPaths_update"
  "Linux_arms rt 11 = repeated_into (read_string rt) Linux_ReadonlyPaths_update"
  "Linux_arms rt 12 = singular_into (read_string rt) Linux_MountLabel_update"
  "Linux_arms rt 13 = message_into rt LinuxIntelRdt_merge_from LinuxIntelRdt_new Linux_IntelRdt Linux_IntelRdt_update"
  by (simp_all add: Linux_arms_def)

interpretation Linux_pb: message Linux_new Linux_merge_from Linux_compute_size Linux_write_to Linux_ok Linux_clear
  by (rule messageI [OF Linux_merge_from_def], simp add: Linux_clear_def Linux_new_def,
      unfold Linux_arms_def, (rule robust_if robust_rules LinuxIDMapping_pb.robust_field LinuxResources_pb.robust_field
        LinuxNamespace_pb.robust_field LinuxDevice_pb.robust_field LinuxSeccomp_pb.robust_field
        LinuxIntelRdt_pb.robust_field | assumption | simp only: if_distribR)+,
      unfold Linux_compute_size_def Linux_write_to_def Linux_ok_def, rule codes_to,
      (rule field_rules LinuxIDMapping_pb.messages_field LinuxResources_pb.message_field
        LinuxNamespace_pb.messages_field LinuxDevice_pb.messages_field LinuxSeccomp_pb.message_field
        LinuxIntelRdt_pb.message_field Linux_arm | assumption
        | simp add: field_number_def tag_len_def Linux_new_def)+)

section \<open>\<open>Solaris\<close>\<close>

record 'u pb_Solaris =
  Solaris_dummy :: string
  Solaris_unknown_fields :: 'u

definition Solaris_new :: "'u runtime \<Rightarrow> 'u pb_Solaris" where
  "Solaris_new rt = \<lparr>Solaris_dummy = [], Solaris_unknown_fields = no_unknown rt\<rparr>"

definition Solaris_clear :: "'u runtime \<Rightarrow> 'u pb_Solaris \<Rightarrow> 'u pb_Solaris" where
  "Solaris_clear rt m = m\<lparr>Solaris_dummy := [], Solaris_unknown_fields := no_unknown rt\<rparr>"

definition Solaris_is_initialized :: "'u pb_Solaris \<Rightarrow> bool" where
  "Solaris_is_initialized m \<longleftrightarrow> True"

definition Solaris_arms :: "'u runtime \<Rightarrow> u32 \<Rightarrow> 'u pb_Solaris arm" where
  "Solaris_arms rt n =
     (if n = 1 then singular_into (read_string rt) Solaris_dummy_update
      else unknown_into rt n Solaris_unknown_fields Solaris_unknown_fields_update)"

definition Solaris_merge_from :: "'u runtime \<Rightarrow> 'u pb_Solaris \<Rightarrow> 'u pb_Solaris reader" where
  "Solaris_merge_from rt = merge_fields rt (Solaris_arms rt)"

definition Solaris_compute_size :: "'u runtime \<Rightarrow> 'u pb_Solaris \<Rightarrow> u32" where
  "Solaris_compute_size rt m = sum_list [
     whenS (Solaris_dummy m \<noteq> []) (string_size rt 1 (Solaris_dummy m)),
     unknown_fields_size rt (Solaris_unknown_fields m)]"

definition Solaris_write_to :: "'u runtime \<Rightarrow> 'u pb_Solaris \<Rightarrow> bytes res" where
  "Solaris_write_to rt m = catW [
     whenW (Solaris_dummy m \<noteq> []) (write_string rt 1 (Solaris_dummy m)),
     write_unknown_fields rt (Solaris_unknown_fields m)]"

definition Solaris_ok :: "'u runtime \<Rightarrow> 'u pb_Solaris \<Rightarrow> bool" where
  "Solaris_ok rt m \<longleftrightarrow> Solaris_unknown_fields m = no_unknown rt \<and>
     utf8 (Solaris_dummy m)"

lemma Solaris_arm:
  "Solaris_arms rt 1 = singular_into (read_string rt) Solaris_dummy_update"
  by (simp_all add: Solaris_arms_def)

interpretation Solaris_pb: message Solaris_new Solaris_merge_from Solaris_compute_size Solaris_write_to Solaris_ok Solaris_clear
  by (rule messageI [OF Solaris_merge_from_def], simp add: Solaris_clear_def Solaris_new_def,
      unfold Solaris_arms_def, (rule robust_if robust_rules | assumption | simp only: if_distribR)+,
      unfold Solaris_compute_size_def Solaris_write_to_def Solaris_ok_def, rule codes_to,
      (rule field_rules Solaris_arm | assumption
        | simp add: field_number_def tag_len_def Solaris_new_def)+)

section \<open>\<open>Windows\<close>\<close>

record 'u pb_Windows =
  Windows_dummy :: string
  Windows_unknown_fields :: 'u

definition Windows_new :: "'u runtime \<Rightarrow> 'u pb_Windows" where
  "Windows_new rt = \<lparr>Windows_dummy = [], Windows_unknown_fields = no_unknown rt\<rparr>"

definition Windows_clear :: "'u runtime \<Rightarrow> 'u pb_Windows \<Rightarrow> 'u pb_Windows" where
  "Windows_clear rt m = m\<lparr>Windows_dummy := [], Windows_unknown_fields := no_unknown rt\<rparr>"

definition Windows_is_initialized :: "'u pb_Windows \<Rightarrow> bool" where
  "Windows_is_initialized m \<longleftrightarrow> True"

definition Windows_arms :: "'u runtime \<Rightarrow> u32 \<Rightarrow> 'u pb_Windows arm" where
  "Windows_arms rt n =
     (if n = 1 then singular_into (read_string rt) Windows_dummy_update
      else unknown_into rt n Windows_unknown_fields Windows_unknown_fields_update)"

definition Windows_merge_from :: "'u runtime \<Rightarrow> 'u pb_Windows \<Rightarrow> 'u pb_Windows reader" where
  "Windows_merge_from rt = merge_fields rt (Windows_arms rt)"

definition Windows_compute_size :: "'u runtime \<Rightarrow> 'u pb_Windows \<Rightarrow> u32" where
  "Windows_compute_size rt m = sum_list [
     whenS (Windows_dummy m \<noteq> []) (string_size rt 1 (Windows_dummy m)),
     unknown_fields_size rt (Windows_unknown_fields m)]"

definition Windows_write_to :: "'u runtime \<Rightarrow> 'u pb_Windows \<Rightarrow> bytes res" where
  "Windows_write_to rt m = catW [
     whenW (Windows_dummy m \<noteq> []) (write_string rt 1 (Windows_dummy m)),
     write_unknown_fields rt (Windows_unknown_fields m)]"

definition Windows_ok :: "'u runtime \<Rightarrow> 'u pb_Windows \<Rightarrow> bool" where
  "Windows_ok rt m \<longleftrightarrow> Windows_unknown_fields m = no_unknown rt \<and>
     utf8 (Windows_dummy m)"

lemma Windows_arm:
  "Windows_arms rt 1 = singular_into (read_string rt) Windows_dummy_update"
  by (simp_all add: Windows_arms_def)

interpretation Windows_pb: message Windows_new Windows_merge_from Windows_compute_size Windows_write_to Windows_ok Windows_clear
  by (rule messageI [OF Windows_merge_from_def], simp add: Windows_clear_def Windows_new_def,
      unfold Windows_arms_def, (rule robust_if robust_rules | assumption | simp only: if_distribR)+,
      unfold Windows_compute_size_def Windows_write_to_def Windows_ok_def, rule codes_to,
      (rule field_rules Windows_arm | assumption
        | simp add: field_number_def tag_len_def Windows_new_def)+)

section \<open>\<open>Spec\<close>\<close>

record 'u pb_Spec =
  Spec_Version :: string
  Spec_Process :: "'u pb_Process option"
  Spec_Root :: "'u pb_Root option"
  Spec_Hostname :: string
  Spec_Mounts :: "'u pb_Mount list"
  Spec_Hooks :: "'u pb_Hooks option"
  Spec_Annotations :: "(string \<times> string) list"
  Spec_Linux :: "'u pb_Linux option"
  Spec_Solaris :: "'u pb_Solaris option"
  Spec_Windows :: "'u pb_Windows option"
  Spec_unknown_fields :: 'u

definition Spec_new :: "'u runtime \<Rightarrow> 'u pb_Spec" where
  "Spec_new rt = \<lparr>Spec_Version = [], Spec_Process = None, Spec_Root = None, Spec_Hostname = [], Spec_Mounts = [], Spec_Hooks = None, Spec_Annotations = [], Spec_Linux = None, Spec_Solaris = None, Spec_Windows = None, Spec_unknown_fields = no_unknown rt\<rparr>"

definition Spec_clear :: "'u runtime \<Rightarrow> 'u pb_Spec \<Rightarrow> 'u pb_Spec" where
  "Spec_clear rt m = m\<lparr>Spec_Version := [], Spec_Process := None, Spec_Root := None, Spec_Hostname := [], Spec_Mounts := [], Spec_Hooks := None, Spec_Annotations := [], Spec_Linux := None, Spec_Solaris := None, Spec_Windows := None, Spec_unknown_fields := no_unknown rt\<rparr>"

definition Spec_is_initialized :: "'u pb_Spec \<Rightarrow> bool" where
  "Spec_is_initialized m \<longleftrightarrow> pred_option Process_is_initialized (Spec_Process m) \<and> pred_option Root_is_initialized (Spec_Root m) \<and> list_all Mount_is_initialized (Spec_Mounts m) \<and> pred_option Hooks_is_initialized (Spec_Hooks m) \<and> pred_option Linux_is_initialized (Spec_Linux m) \<and> pred_option Solaris_is_initialized (Spec_Solaris m) \<and> pred_option Windows_is_initialized (Spec_Windows m)"

definition Spec_arms :: "'u runtime \<Rightarrow> u32 \<Rightarrow> 'u pb_Spec arm" where
  "Spec_arms rt n =
     (if n = 1 then singular_into (read_string rt) Spec_Version_update
      else if n = 2 then message_into rt Process_merge_from Process_new Spec_Process Spec_Process_update
      else if n = 3 then message_into rt Root_merge_from Root_new Spec_Root Spec_Root_update
      else if n = 4 then singular_into (read_string rt) Spec_Hostname_update
      else if n = 5 then messages_into rt Mount_merge_from Mount_new Spec_Mounts_update
      else if n = 6 then message_into rt Hooks_merge_from Hooks_new Spec_Hooks Spec_Hooks_update
      else if n = 7 then map_into (read_map_string rt) Spec_Annotations_update
      else if n = 8 then message_into rt Linux_merge_from Linux_new Spec_Linux Spec_Linux_update
      else if n = 9 then message_into rt Solaris_merge_from Solaris_new Spec_Solaris Spec_Solaris_update
      else if n = 10 then message_into rt Windows_merge_from Windows_new Spec_Windows Spec_Windows_update
      else unknown_into rt n Spec_unknown_fields Spec_unknown_fields_update)"

definition Spec_merge_from :: "'u runtime \<Rightarrow> 'u pb_Spec \<Rightarrow> 'u pb_Spec reader" where
  "Spec_merge_from rt = merge_fields rt (Spec_arms rt)"

definition Spec_compute_size :: "'u runtime \<Rightarrow> 'u pb_Spec \<Rightarrow> u32" where
  "Spec_compute_size rt m = sum_list [
     whenS (Spec_Version m \<noteq> []) (string_size rt 1 (Spec_Version m)),
     optS (Spec_Process m) (\<lambda>v. embedded_size rt 1 (Process_compute_size rt v)),
     optS (Spec_Root m) (\<lambda>v. embedded_size rt 1 (Root_compute_size rt v)),
     whenS (Spec_Hostname m \<noteq> []) (string_size rt 4 (Spec_Hostname m)),
     eachS (Spec_Mounts m) (\<lambda>v. embedded_size rt 1 (Mount_compute_size rt v)),
     optS (Spec_Hooks m) (\<lambda>v. embedded_size rt 1 (Hooks_compute_size rt v)),
     map_string_size rt 7 (Spec_Annotations m),
     optS (Spec_Linux m) (\<lambda>v. embedded_size rt 1 (Linux_compute_size rt v)),
     optS (Spec_Solaris m) (\<lambda>v. embedded_size rt 1 (Solaris_compute_size rt v)),
     optS (Spec_Windows m) (\<lambda>v. embedded_size rt 1 (Windows_compute_size rt v)),
     unknown_fields_size rt (Spec_unknown_fields m)]"

definition Spec_write_to :: "'u runtime \<Rightarrow> 'u pb_Spec \<Rightarrow> bytes res" where
  "Spec_write_to rt m = catW [
     whenW (Spec_Version m \<noteq> []) (write_string rt 1 (Spec_Version m)),
     optW (Spec_Process m) (\<lambda>v. write_embedded rt 2 (Process_compute_size rt v) (Process_write_to rt v)),
     optW (Spec_Root m) (\<lambda>v. write_embedded rt 3 (Root_compute_size rt v) (Root_write_to rt v)),
     whenW (Spec_Hostname m \<noteq> []) (write_string rt 4 (Spec_Hostname m)),
     eachW (Spec_Mounts m) (\<lambda>v. write_embedded rt 5 (Mount_compute_size rt v) (Mount_write_to rt v)),
     optW (Spec_Hooks m) (\<lambda>v. write_embedded rt 6 (Hooks_compute_size rt v) (Hooks_write_to rt v)),
     write_map_string rt 7 (Spec_Annotations m),
     optW (Spec_Linux m) (\<lambda>v. write_embedded rt 8 (Linux_compute_size rt v) (Linux_write_to rt v)),
     optW (Spec_Solaris m) (\<lambda>v. write_embedded rt 9 (Solaris_compute_size rt v) (Solaris_write_to rt v)),
     optW (Spec_Windows m) (\<lambda>v. write_embedded rt 10 (Windows_compute_size rt v) (Windows_write_to rt v)),
     write_unknown_fields rt (Spec_unknown_fields m)]"

definition Spec_ok :: "'u runtime \<Rightarrow> 'u pb_Spec \<Rightarrow> bool" where
  "Spec_ok rt m \<longleftrightarrow> Spec_unknown_fields m = no_unknown rt \<and>
     utf8 (Spec_Version m) \<and>
     pred_option (Process_ok rt) (Spec_Process m) \<and>
     pred_option (Root_ok rt) (Spec_Root m) \<and>
     utf8 (Spec_Hostname m) \<and>
     list_all (Mount_ok rt) (Spec_Mounts m) \<and>
     pred_option (Hooks_ok rt) (Spec_Hooks m) \<and>
     list_all (\<lambda>(k, v). utf8 k \<and> utf8 v) (Spec_Annotations m) \<and>
     distinct (map fst (Spec_Annotations m)) \<and>
     pred_option (Linux_ok rt) (Spec_Linux m) \<and>
     pred_option (Solaris_ok rt) (Spec_Solaris m) \<and>
     pred_option (Windows_ok rt) (Spec_Windows m)"

lemma Spec_arm:
  "Spec_arms rt 1 = singular_into (read_string rt) Spec_Version_update"
  "Spec_arms rt 2 = message_into rt Process_merge_from Process_new Spec_Process Spec_Process_update"
  "Spec_arms rt 3 = message_into rt Root_merge_from Root_new Spec_Root Spec_Root_update"
  "Spec_arms rt 4 = singular_into (read_string rt) Spec_Hostname_update"
  "Spec_arms rt 5 = messages_into rt Mount_merge_from Mount_new Spec_Mounts_update"
  "Spec_arms rt 6 = message_into rt Hooks_merge_from Hooks_new Spec_Hooks Spec_Hooks_update"
  "Spec_arms rt 7 = map_into (read_map_string rt) Spec_Annotations_update"
  "Spec_arms rt 8 = message_into rt Linux_merge_from Linux_new Spec_Linux Spec_Linux_update"
  "Spec_arms rt 9 = message_into rt Solaris_merge_from Solaris_new Spec_Solaris Spec_Solaris_update"
  "Spec_arms rt 10 = message_into rt Windows_merge_from Windows_new Spec_Windows Spec_Windows_update"
  by (simp_all add: Spec_arms_def)

interpretation Spec_pb: message Spec_new Spec_merge_from Spec_compute_size Spec_write_to Spec_ok Spec_clear
  by (rule messageI [OF Spec_merge_from_def], simp add: Spec_clear_def Spec_new_def,
      unfold Spec_arms_def, (rule robust_if robust_rules Process_pb.robust_field Root_pb.robust_field Mount_pb.robust_field
        Hooks_pb.robust_field Linux_pb.robust_field Solaris_pb.robust_field Windows_pb.robust_field | assumption | simp only: if_distribR)+,
      unfold Spec_compute_size_def Spec_write_to_def Spec_ok_def, rule codes_to,
      (rule field_rules Process_pb.message_field Root_pb.message_field Mount_pb.messages_field
        Hooks_pb.message_field Linux_pb.message_field Solaris_pb.message_field Windows_pb.message_field
        Spec_arm | assumption
        | simp add: field_number_def tag_len_def Spec_new_def)+)

end
