(* ===== verification/Pb_Agent.thy ===== *)
theory Pb_Agent
  imports Pb_Types Pb_Oci
begin

text \<open>
  \<open>protocols/src/agent.rs\<close>: the requests and answers of the agent, each as in \<open>Pb_Types\<close>.
\<close>

section \<open>\<open>StringUser\<close>\<close>

record 'u pb_StringUser =
  StringUser_uid :: string
  StringUser_gid :: string
  StringUser_additionalGids :: "string list"
  StringUser_unknown_fields :: 'u

definition StringUser_new :: "'u runtime \<Rightarrow> 'u pb_StringUser" where
  "StringUser_new rt = \<lparr>StringUser_uid = [], StringUser_gid = [], StringUser_additionalGids = [], StringUser_unknown_fields = no_unknown rt\<rparr>"

definition StringUser_clear :: "'u runtime \<Rightarrow> 'u pb_StringUser \<Rightarrow> 'u pb_StringUser" where
  "StringUser_clear rt m = m\<lparr>StringUser_uid := [], StringUser_gid := [], StringUser_additionalGids := [], StringUser_unknown_fields := no_unknown rt\<rparr>"

definition StringUser_is_initialized :: "'u pb_StringUser \<Rightarrow> bool" where
  "StringUser_is_initialized m \<longleftrightarrow> True"

definition StringUser_arms :: "'u runtime \<Rightarrow> u32 \<Rightarrow> 'u pb_StringUser arm" where
  "StringUser_arms rt n =
     (if n = 1 then singular_into (read_string rt) StringUser_uid_update
      else if n = 2 then singular_into (read_string rt) StringUser_gid_update
      else if n = 3 then repeated_into (read_string rt) StringUser_additionalGids_update
      else unknown_into rt n StringUser_unknown_fields StringUser_unknown_fields_update)"

definition StringUser_merge_from :: "'u runtime \<Rightarrow> 'u pb_StringUser \<Rightarrow> 'u pb_StringUser reader" where
  "StringUser_merge_from rt = merge_fields rt (StringUser_arms rt)"

definition StringUser_compute_size :: "'u runtime \<Rightarrow> 'u pb_StringUser \<Rightarrow> u32" where
  "StringUser_compute_size rt m = sum_list [
     whenS (StringUser_uid m \<noteq> []) (string_size rt 1 (StringUser_uid m)),
     whenS (StringUser_gid m \<noteq> []) (string_size rt 2 (StringUser_gid m)),
     eachS (StringUser_additionalGids m) (string_size rt 3),
     unknown_fields_size rt (StringUser_unknown_fields m)]"

definition StringUser_write_to :: "'u runtime \<Rightarrow> 'u pb_StringUser \<Rightarrow> bytes res" where
  "StringUser_write_to rt m = catW [
     whenW (StringUser_uid m \<noteq> []) (write_string rt 1 (StringUser_uid m)),
     whenW (StringUser_gid m \<noteq> []) (write_string rt 2 (StringUser_gid m)),
     eachW (StringUser_additionalGids m) (write_string rt 3),
     write_unknown_fields rt (StringUser_unknown_fields m)]"

definition StringUser_ok :: "'u runtime \<Rightarrow> 'u pb_StringUser \<Rightarrow> bool" where
  "StringUser_ok rt m \<longleftrightarrow> StringUser_unknown_fields m = no_unknown rt \<and>
     utf8 (StringUser_uid m) \<and>
     utf8 (StringUser_gid m) \<and>
     list_all utf8 (StringUser_additionalGids m)"

lemma StringUser_arm:
  "StringUser_arms rt 1 = singular_into (read_string rt) StringUser_uid_update"
  "StringUser_arms rt 2 = singular_into (read_string rt) StringUser_gid_update"
  "StringUser_arms rt 3 = repeated_into (read_string rt) StringUser_additionalGids_update"
  by (simp_all add: StringUser_arms_def)

interpretation StringUser_pb: message StringUser_new StringUser_merge_from StringUser_compute_size StringUser_write_to StringUser_ok StringUser_clear
  by (rule messageI [OF StringUser_merge_from_def], simp add: StringUser_clear_def StringUser_new_def,
      unfold StringUser_arms_def, (rule robust_if robust_rules | assumption | simp only: if_distribR)+,
      unfold StringUser_compute_size_def StringUser_write_to_def StringUser_ok_def, rule codes_to,
      (rule field_rules StringUser_arm | assumption
        | simp add: field_number_def tag_len_def StringUser_new_def)+)

section \<open>\<open>Device\<close>\<close>

record 'u pb_Device =
  Device_id :: string
  Device_field_type :: string
  Device_vm_path :: string
  Device_container_path :: string
  Device_options :: "string list"
  Device_unknown_fields :: 'u

definition Device_new :: "'u runtime \<Rightarrow> 'u pb_Device" where
  "Device_new rt = \<lparr>Device_id = [], Device_field_type = [], Device_vm_path = [], Device_container_path = [], Device_options = [], Device_unknown_fields = no_unknown rt\<rparr>"

definition Device_clear :: "'u runtime \<Rightarrow> 'u pb_Device \<Rightarrow> 'u pb_Device" where
  "Device_clear rt m = m\<lparr>Device_id := [], Device_field_type := [], Device_vm_path := [], Device_container_path := [], Device_options := [], Device_unknown_fields := no_unknown rt\<rparr>"

definition Device_is_initialized :: "'u pb_Device \<Rightarrow> bool" where
  "Device_is_initialized m \<longleftrightarrow> True"

definition Device_arms :: "'u runtime \<Rightarrow> u32 \<Rightarrow> 'u pb_Device arm" where
  "Device_arms rt n =
     (if n = 1 then singular_into (read_string rt) Device_id_update
      else if n = 2 then singular_into (read_string rt) Device_field_type_update
      else if n = 3 then singular_into (read_string rt) Device_vm_path_update
      else if n = 4 then singular_into (read_string rt) Device_container_path_update
      else if n = 5 then repeated_into (read_string rt) Device_options_update
      else unknown_into rt n Device_unknown_fields Device_unknown_fields_update)"

definition Device_merge_from :: "'u runtime \<Rightarrow> 'u pb_Device \<Rightarrow> 'u pb_Device reader" where
  "Device_merge_from rt = merge_fields rt (Device_arms rt)"

definition Device_compute_size :: "'u runtime \<Rightarrow> 'u pb_Device \<Rightarrow> u32" where
  "Device_compute_size rt m = sum_list [
     whenS (Device_id m \<noteq> []) (string_size rt 1 (Device_id m)),
     whenS (Device_field_type m \<noteq> []) (string_size rt 2 (Device_field_type m)),
     whenS (Device_vm_path m \<noteq> []) (string_size rt 3 (Device_vm_path m)),
     whenS (Device_container_path m \<noteq> []) (string_size rt 4 (Device_container_path m)),
     eachS (Device_options m) (string_size rt 5),
     unknown_fields_size rt (Device_unknown_fields m)]"

definition Device_write_to :: "'u runtime \<Rightarrow> 'u pb_Device \<Rightarrow> bytes res" where
  "Device_write_to rt m = catW [
     whenW (Device_id m \<noteq> []) (write_string rt 1 (Device_id m)),
     whenW (Device_field_type m \<noteq> []) (write_string rt 2 (Device_field_type m)),
     whenW (Device_vm_path m \<noteq> []) (write_string rt 3 (Device_vm_path m)),
     whenW (Device_container_path m \<noteq> []) (write_string rt 4 (Device_container_path m)),
     eachW (Device_options m) (write_string rt 5),
     write_unknown_fields rt (Device_unknown_fields m)]"

definition Device_ok :: "'u runtime \<Rightarrow> 'u pb_Device \<Rightarrow> bool" where
  "Device_ok rt m \<longleftrightarrow> Device_unknown_fields m = no_unknown rt \<and>
     utf8 (Device_id m) \<and>
     utf8 (Device_field_type m) \<and>
     utf8 (Device_vm_path m) \<and>
     utf8 (Device_container_path m) \<and>
     list_all utf8 (Device_options m)"

lemma Device_arm:
  "Device_arms rt 1 = singular_into (read_string rt) Device_id_update"
  "Device_arms rt 2 = singular_into (read_string rt) Device_field_type_update"
  "Device_arms rt 3 = singular_into (read_string rt) Device_vm_path_update"
  "Device_arms rt 4 = singular_into (read_string rt) Device_container_path_update"
  "Device_arms rt 5 = repeated_into (read_string rt) Device_options_update"
  by (simp_all add: Device_arms_def)

interpretation Device_pb: message Device_new Device_merge_from Device_compute_size Device_write_to Device_ok Device_clear
  by (rule messageI [OF Device_merge_from_def], simp add: Device_clear_def Device_new_def,
      unfold Device_arms_def, (rule robust_if robust_rules | assumption | simp only: if_distribR)+,
      unfold Device_compute_size_def Device_write_to_def Device_ok_def, rule codes_to,
      (rule field_rules Device_arm | assumption
        | simp add: field_number_def tag_len_def Device_new_def)+)

section \<open>\<open>Storage\<close>\<close>

record 'u pb_Storage =
  Storage_driver :: string
  Storage_driver_options :: "string list"
  Storage_source :: string
  Storage_fstype :: string
  Storage_options :: "string list"
  Storage_mount_point :: string
  Storage_unknown_fields :: 'u

definition Storage_new :: "'u runtime \<Rightarrow> 'u pb_Storage" where
  "Storage_new rt = \<lparr>Storage_driver = [], Storage_driver_options = [], Storage_source = [], Storage_fstype = [], Storage_options = [], Storage_mount_point = [], Storage_unknown_fields = no_unknown rt\<rparr>"

definition Storage_clear :: "'u runtime \<Rightarrow> 'u pb_Storage \<Rightarrow> 'u pb_Storage" where
  "Storage_clear rt m = m\<lparr>Storage_driver := [], Storage_driver_options := [], Storage_source := [], Storage_fstype := [], Storage_options := [], Storage_mount_point := [], Storage_unknown_fields := no_unknown rt\<rparr>"

definition Storage_is_initialized :: "'u pb_Storage \<Rightarrow> bool" where
  "Storage_is_initialized m \<longleftrightarrow> True"

definition Storage_arms :: "'u runtime \<Rightarrow> u32 \<Rightarrow> 'u pb_Storage arm" where
  "Storage_arms rt n =
     (if n = 1 then singular_into (read_string rt) Storage_driver_update
      else if n = 2 then repeated_into (read_string rt) Storage_driver_options_update
      else if n = 3 then singular_into (read_string rt) Storage_source_update
      else if n = 4 then singular_into (read_string rt) Storage_fstype_update
      else if n = 5 then repeated_into (read_string rt) Storage_options_update
      else if n = 6 then singular_into (read_string rt) Storage_mount_point_update
      else unknown_into rt n Storage_unknown_fields Storage_unknown_fields_update)"

definition Storage_merge_from :: "'u runtime \<Rightarrow> 'u pb_Storage \<Rightarrow> 'u pb_Storage reader" where
  "Storage_merge_from rt = merge_fields rt (Storage_arms rt)"

definition Storage_compute_size :: "'u runtime \<Rightarrow> 'u pb_Storage \<Rightarrow> u32" where
  "Storage_compute_size rt m = sum_list [
     whenS (Storage_driver m \<noteq> []) (string_size rt 1 (Storage_driver m)),
     eachS (Storage_driver_options m) (string_size rt 2),
     whenS (Storage_source m \<noteq> []) (string_size rt 3 (Storage_source m)),
     whenS (Storage_fstype m \<noteq> []) (string_size rt 4 (Storage_fstype m)),
     eachS (Storage_options m) (string_size rt 5),
     whenS (Storage_mount_point m \<noteq> []) (string_size rt 6 (Storage_mount_point m)),
     unknown_fields_size rt (Storage_unknown_fields m)]"

definition Storage_write_to :: "'u runtime \<Rightarrow> 'u pb_Storage \<Rightarrow> bytes res" where
  "Storage_write_to rt m = catW [
     whenW (Storage_driver m \<noteq> []) (write_string rt 1 (Storage_driver m)),
     eachW (Storage_driver_options m) (write_string rt 2),
     whenW (Storage_source m \<noteq> []) (write_string rt 3 (Storage_source m)),
     whenW (Storage_fstype m \<noteq> []) (write_string rt 4 (Storage_fstype m)),
     eachW (Storage_options m) (write_string rt 5),
     whenW (Storage_mount_point m \<noteq> []) (write_string rt 6 (Storage_mount_point m)),
     write_unknown_fields rt (Storage_unknown_fields m)]"

definition Storage_ok :: "'u runtime \<Rightarrow> 'u pb_Storage \<Rightarrow> bool" where
  "Storage_ok rt m \<longleftrightarrow> Storage_unknown_fields m = no_unknown rt \<and>
     utf8 (Storage_driver m) \<and>
     list_all utf8 (Storage_driver_options m) \<and>
     utf8 (Storage_source m) \<and>
     utf8 (Storage_fstype m) \<and>
     list_all utf8 (Storage_options m) \<and>
     utf8 (Storage_mount_point m)"

lemma Storage_arm:
  "Storage_arms rt 1 = singular_into (read_string rt) Storage_driver_update"
  "Storage_arms rt 2 = repeated_into (read_string rt) Storage_driver_options_update"
  "Storage_arms rt 3 = singular_into (read_string rt) Storage_source_update"
  "Storage_arms rt 4 = singular_into (read_string rt) Storage_fstype_update"
  "Storage_arms rt 5 = repeated_into (read_string rt) Storage_options_update"
  "Storage_arms rt 6 = singular_into (read_string rt) Storage_mount_point_update"
  by (simp_all add: Storage_arms_def)

interpretation Storage_pb: message Storage_new Storage_merge_from Storage_compute_size Storage_write_to Storage_ok Storage_clear
  by (rule messageI [OF Storage_merge_from_def], simp add: Storage_clear_def Storage_new_def,
      unfold Storage_arms_def, (rule robust_if robust_rules | assumption | simp only: if_distribR)+,
      unfold Storage_compute_size_def Storage_write_to_def Storage_ok_def, rule codes_to,
      (rule field_rules Storage_arm | assumption
        | simp add: field_number_def tag_len_def Storage_new_def)+)

section \<open>\<open>CreateContainerRequest\<close>\<close>

record 'u pb_CreateContainerRequest =
  CreateContainerRequest_container_id :: string
  CreateContainerRequest_exec_id :: string
  CreateContainerRequest_string_user :: "'u pb_StringUser option"
  CreateContainerRequest_devices :: "'u pb_Device list"
  CreateContainerRequest_storages :: "'u pb_Storage list"
  CreateContainerRequest_OCI :: "'u pb_Spec option"
  CreateContainerRequest_sandbox_pidns :: bool
  CreateContainerRequest_unknown_fields :: 'u

definition CreateContainerRequest_new :: "'u runtime \<Rightarrow> 'u pb_CreateContainerRequest" where
  "CreateContainerRequest_new rt = \<lparr>CreateContainerRequest_container_id = [], CreateContainerRequest_exec_id = [], CreateContainerRequest_string_user = None, CreateContainerRequest_devices = [], CreateContainerRequest_storages = [], CreateContainerRequest_OCI = None, CreateContainerRequest_sandbox_pidns = False, CreateContainerRequest_unknown_fields = no_unknown rt\<rparr>"

definition CreateContainerRequest_clear :: "'u runtime \<Rightarrow> 'u pb_CreateContainerRequest \<Rightarrow> 'u pb_CreateContainerRequest" where
  "CreateContainerRequest_clear rt m = m\<lparr>CreateContainerRequest_container_id := [], CreateContainerRequest_exec_id := [], CreateContainerRequest_string_user := None, CreateContainerRequest_devices := [], CreateContainerRequest_storages := [], CreateContainerRequest_OCI := None, CreateContainerRequest_sandbox_pidns := False, CreateContainerRequest_unknown_fields := no_unknown rt\<rparr>"

definition CreateContainerRequest_is_initialized :: "'u pb_CreateContainerRequest \<Rightarrow> bool" where
  "CreateContainerRequest_is_initialized m \<longleftrightarrow> pred_option StringUser_is_initialized (CreateContainerRequest_string_user m) \<and> list_all Device_is_initialized (CreateContainerRequest_devices m) \<and> list_all Storage_is_initialized (CreateContainerRequest_storages m) \<and> pred_option Spec_is_initialized (CreateContainerRequest_OCI m)"

definition CreateContainerRequest_arms :: "'u runtime \<Rightarrow> u32 \<Rightarrow> 'u pb_CreateContainerRequest arm" where
  "CreateContainerRequest_arms rt n =
     (if n = 1 then singular_into (read_string rt) CreateContainerRequest_container_id_update
      else if n = 2 then singular_into (read_string rt) CreateContainerRequest_exec_id_update
      else if n = 3 then message_into rt StringUser_merge_from StringUser_new CreateContainerRequest_string_user CreateContainerRequest_string_user_update
      else if n = 4 then messages_into rt Device_merge_from Device_new CreateContainerRequest_devices_update
      else if n = 5 then messages_into rt Storage_merge_from Storage_new CreateContainerRequest_storages_update
      else if n = 6 then message_into rt Spec_merge_from Spec_new CreateContainerRequest_OCI CreateContainerRequest_OCI_update
      else if n = 7 then varint_into rt (read_bool rt) CreateContainerRequest_sandbox_pidns_update
      else unknown_into rt n CreateContainerRequest_unknown_fields CreateContainerRequest_unknown_fields_update)"

definition CreateContainerRequest_merge_from :: "'u runtime \<Rightarrow> 'u pb_CreateContainerRequest \<Rightarrow> 'u pb_CreateContainerRequest reader" where
  "CreateContainerRequest_merge_from rt = merge_fields rt (CreateContainerRequest_arms rt)"

definition CreateContainerRequest_compute_size :: "'u runtime \<Rightarrow> 'u pb_CreateContainerRequest \<Rightarrow> u32" where
  "CreateContainerRequest_compute_size rt m = sum_list [
     whenS (CreateContainerRequest_container_id m \<noteq> []) (string_size rt 1 (CreateContainerRequest_container_id m)),
     whenS (CreateContainerRequest_exec_id m \<noteq> []) (string_size rt 2 (CreateContainerRequest_exec_id m)),
     optS (CreateContainerRequest_string_user m) (\<lambda>v. embedded_size rt 1 (StringUser_compute_size rt v)),
     eachS (CreateContainerRequest_devices m) (\<lambda>v. embedded_size rt 1 (Device_compute_size rt v)),
     eachS (CreateContainerRequest_storages m) (\<lambda>v. embedded_size rt 1 (Storage_compute_size rt v)),
     optS (CreateContainerRequest_OCI m) (\<lambda>v. embedded_size rt 1 (Spec_compute_size rt v)),
     whenS (CreateContainerRequest_sandbox_pidns m \<noteq> False) 2,
     unknown_fields_size rt (CreateContainerRequest_unknown_fields m)]"

definition CreateContainerRequest_write_to :: "'u runtime \<Rightarrow> 'u pb_CreateContainerRequest \<Rightarrow> bytes res" where
  "CreateContainerRequest_write_to rt m = catW [
     whenW (CreateContainerRequest_container_id m \<noteq> []) (write_string rt 1 (CreateContainerRequest_container_id m)),
     whenW (CreateContainerRequest_exec_id m \<noteq> []) (write_string rt 2 (CreateContainerRequest_exec_id m)),
     optW (CreateContainerRequest_string_user m) (\<lambda>v. write_embedded rt 3 (StringUser_compute_size rt v) (StringUser_write_to rt v)),
     eachW (CreateContainerRequest_devices m) (\<lambda>v. write_embedded rt 4 (Device_compute_size rt v) (Device_write_to rt v)),
     eachW (CreateContainerRequest_storages m) (\<lambda>v. write_embedded rt 5 (Storage_compute_size rt v) (Storage_write_to rt v)),
     optW (CreateContainerRequest_OCI m) (\<lambda>v. write_embedded rt 6 (Spec_compute_size rt v) (Spec_write_to rt v)),
     whenW (CreateContainerRequest_sandbox_pidns m \<noteq> False) (write_bool rt 7 (CreateContainerRequest_sandbox_pidns m)),
     write_unknown_fields rt (CreateContainerRequest_unknown_fields m)]"

definition CreateContainerRequest_ok :: "'u runtime \<Rightarrow> 'u pb_CreateContainerRequest \<Rightarrow> bool" where
  "CreateContainerRequest_ok rt m \<longleftrightarrow> CreateContainerRequest_unknown_fields m = no_unknown rt \<and>
     utf8 (CreateContainerRequest_container_id m) \<and>
     utf8 (CreateContainerRequest_exec_id m) \<and>
     pred_option (StringUser_ok rt) (CreateContainerRequest_string_user m) \<and>
     list_all (Device_ok rt) (CreateContainerRequest_devices m) \<and>
     list_all (Storage_ok rt) (CreateContainerRequest_storages m) \<and>
     pred_option (Spec_ok rt) (CreateContainerRequest_OCI m)"

lemma CreateContainerRequest_arm:
  "CreateContainerRequest_arms rt 1 = singular_into (read_string rt) CreateContainerRequest_container_id_update"
  "CreateContainerRequest_arms rt 2 = singular_into (read_string rt) CreateContainerRequest_exec_id_update"
  "CreateContainerRequest_arms rt 3 = message_into rt StringUser_merge_from StringUser_new CreateContainerRequest_string_user CreateContainerRequest_string_user_update"
  "CreateContainerRequest_arms rt 4 = messages_into rt Device_merge_from Device_new CreateContainerRequest_devices_update"
  "CreateContainerRequest_arms rt 5 = messages_into rt Storage_merge_from Storage_new CreateContainerRequest_storages_update"
  "CreateContainerRequest_arms rt 6 = message_into rt Spec_merge_from Spec_new CreateContainerRequest_OCI CreateContainerRequest_OCI_update"
  "CreateContainerRequest_arms rt 7 = varint_into rt (read_bool rt) CreateContainerRequest_sandbox_pidns_update"
  by (simp_all add: CreateContainerRequest_arms_def)

interpretation CreateContainerRequest_pb: message CreateContainerRequest_new CreateContainerRequest_merge_from CreateContainerRequest_compute_size CreateContainerRequest_write_to CreateContainerRequest_ok CreateContainerRequest_clear
  by (rule messageI [OF CreateContainerRequest_merge_from_def], simp add: CreateContainerRequest_clear_def CreateContainerRequest_new_def,
      unfold CreateContainerRequest_arms_def, (rule robust_if robust_rules StringUser_pb.robust_field Device_pb.robust_field Storage_pb.robust_field
        Spec_pb.robust_field | assumption | simp only: if_distribR)+,
      unfold CreateContainerRequest_compute_size_def CreateContainerRequest_write_to_def CreateContainerRequest_ok_def, rule codes_to,
      (rule field_rules StringUser_pb.message_field Device_pb.messages_field Storage_pb.messages_field
        Spec_pb.message_field CreateContainerRequest_arm | assumption
        | simp add: field_number_def tag_len_def CreateContainerRequest_new_def)+)

section \<open>\<open>StartContainerRequest\<close>\<close>

record 'u pb_StartContainerRequest =
  StartContainerRequest_container_id :: string
  StartContainerRequest_unknown_fields :: 'u

definition StartContainerRequest_new :: "'u runtime \<Rightarrow> 'u pb_StartContainerRequest" where
  "StartContainerRequest_new rt = \<lparr>StartContainerRequest_container_id = [], StartContainerRequest_unknown_fields = no_unknown rt\<rparr>"

definition StartContainerRequest_clear :: "'u runtime \<Rightarrow> 'u pb_StartContainerRequest \<Rightarrow> 'u pb_StartContainerRequest" where
  "StartContainerRequest_clear rt m = m\<lparr>StartContainerRequest_container_id := [], StartContainerRequest_unknown_fields := no_unknown rt\<rparr>"

definition StartContainerRequest_is_initialized :: "'u pb_StartContainerRequest \<Rightarrow> bool" where
  "StartContainerRequest_is_initialized m \<longleftrightarrow> True"

definition StartContainerRequest_arms :: "'u runtime \<Rightarrow> u32 \<Rightarrow> 'u pb_StartContainerRequest arm" where
  "StartContainerRequest_arms rt n =
     (if n = 1 then singular_into (read_string rt) StartContainerRequest_container_id_update
      else unknown_into rt n StartContainerRequest_unknown_fields StartContainerRequest_unknown_fields_update)"

definition StartContainerRequest_merge_from :: "'u runtime \<Rightarrow> 'u pb_StartContainerRequest \<Rightarrow> 'u pb_StartContainerRequest reader" where
  "StartContainerRequest_merge_from rt = merge_fields rt (StartContainerRequest_arms rt)"

definition StartContainerRequest_compute_size :: "'u runtime \<Rightarrow> 'u pb_StartContainerRequest \<Rightarrow> u32" where
  "StartContainerRequest_compute_size rt m = sum_list [
     whenS (StartContainerRequest_container_id m \<noteq> []) (string_size rt 1 (StartContainerRequest_container_id m)),
     unknown_fields_size rt (StartContainerRequest_unknown_fields m)]"

definition StartContainerRequest_write_to :: "'u runtime \<Rightarrow> 'u pb_StartContainerRequest \<Rightarrow> bytes res" where
  "StartContainerRequest_write_to rt m = catW [
     whenW (StartContainerRequest_container_id m \<noteq> []) (write_string rt 1 (StartContainerRequest_container_id m)),
     write_unknown_fields rt (StartContainerRequest_unknown_fields m)]"

definition StartContainerRequest_ok :: "'u runtime \<Rightarrow> 'u pb_StartContainerRequest \<Rightarrow> bool" where
  "StartContainerRequest_ok rt m \<longleftrightarrow> StartContainerRequest_unknown_fields m = no_unknown rt \<and>
     utf8 (StartContainerRequest_container_id m)"

lemma StartContainerRequest_arm:
  "StartContainerRequest_arms rt 1 = singular_into (read_string rt) StartContainerRequest_container_id_update"
  by (simp_all add: StartContainerRequest_arms_def)

interpretation StartContainerRequest_pb: message StartContainerRequest_new StartContainerRequest_merge_from StartContainerRequest_compute_size StartContainerRequest_write_to StartContainerRequest_ok StartContainerRequest_clear
  by (rule messageI [OF StartContainerRequest_merge_from_def], simp add: StartContainerRequest_clear_def StartContainerRequest_new_def,
      unfold StartContainerRequest_arms_def, (rule robust_if robust_rules | assumption | simp only: if_distribR)+,
      unfold StartContainerRequest_compute_size_def StartContainerRequest_write_to_def StartContainerRequest_ok_def, rule codes_to,
      (rule field_rules StartContainerRequest_arm | assumption
        | simp add: field_number_def tag_len_def StartContainerRequest_new_def)+)

section \<open>\<open>RemoveContainerRequest\<close>\<close>

record 'u pb_RemoveContainerRequest =
  RemoveContainerRequest_container_id :: string
  RemoveContainerRequest_timeout :: u32
  RemoveContainerRequest_unknown_fields :: 'u

definition RemoveContainerRequest_new :: "'u runtime \<Rightarrow> 'u pb_RemoveContainerRequest" where
  "RemoveContainerRequest_new rt = \<lparr>RemoveContainerRequest_container_id = [], RemoveContainerRequest_timeout = 0, RemoveContainerRequest_unknown_fields = no_unknown rt\<rparr>"

definition RemoveContainerRequest_clear :: "'u runtime \<Rightarrow> 'u pb_RemoveContainerRequest \<Rightarrow> 'u pb_RemoveContainerRequest" where
  "RemoveContainerRequest_clear rt m = m\<lparr>RemoveContainerRequest_container_id := [], RemoveContainerRequest_timeout := 0, RemoveContainerRequest_unknown_fields := no_unknown rt\<rparr>"

definition RemoveContainerRequest_is_initialized :: "'u pb_RemoveContainerRequest \<Rightarrow> bool" where
  "RemoveContainerRequest_is_initialized m \<longleftrightarrow> True"

definition RemoveContainerRequest_arms :: "'u runtime \<Rightarrow> u32 \<Rightarrow> 'u pb_RemoveContainerRequest arm" where
  "RemoveContainerRequest_arms rt n =
     (if n = 1 then singular_into (read_string rt) RemoveContainerRequest_container_id_update
      else if n = 2 then varint_into rt (read_uint32 rt) RemoveContainerRequest_timeout_update
      else unknown_into rt n RemoveContainerRequest_unknown_fields RemoveContainerRequest_unknown_fields_update)"

definition RemoveContainerRequest_merge_from :: "'u runtime \<Rightarrow> 'u pb_RemoveContainerRequest \<Rightarrow> 'u pb_RemoveContainerRequest reader" where
  "RemoveContainerRequest_merge_from rt = merge_fields rt (RemoveContainerRequest_arms rt)"

definition RemoveContainerRequest_compute_size :: "'u runtime \<Rightarrow> 'u pb_RemoveContainerRequest \<Rightarrow> u32" where
  "RemoveContainerRequest_compute_size rt m = sum_list [
     whenS (RemoveContainerRequest_container_id m \<noteq> []) (string_size rt 1 (RemoveContainerRequest_container_id m)),
     whenS (RemoveContainerRequest_timeout m \<noteq> 0) (size_uint32 rt 2 (RemoveContainerRequest_timeout m)),
     unknown_fields_size rt (RemoveContainerRequest_unknown_fields m)]"

definition RemoveContainerRequest_write_to :: "'u runtime \<Rightarrow> 'u pb_RemoveContainerRequest \<Rightarrow> bytes res" where
  "RemoveContainerRequest_write_to rt m = catW [
     whenW (RemoveContainerRequest_container_id m \<noteq> []) (write_string rt 1 (RemoveContainerRequest_container_id m)),
     whenW (RemoveContainerRequest_timeout m \<noteq> 0) (write_uint32 rt 2 (RemoveContainerRequest_timeout m)),
     write_unknown_fields rt (RemoveContainerRequest_unknown_fields m)]"

definition RemoveContainerRequest_ok :: "'u runtime \<Rightarrow> 'u pb_RemoveContainerRequest \<Rightarrow> bool" where
  "RemoveContainerRequest_ok rt m \<longleftrightarrow> RemoveContainerRequest_unknown_fields m = no_unknown rt \<and>
     utf8 (RemoveContainerRequest_container_id m)"

lemma RemoveContainerRequest_arm:
  "RemoveContainerRequest_arms rt 1 = singular_into (read_string rt) RemoveContainerRequest_container_id_update"
  "RemoveContainerRequest_arms rt 2 = varint_into rt (read_uint32 rt) RemoveContainerRequest_timeout_update"
  by (simp_all add: RemoveContainerRequest_arms_def)

interpretation RemoveContainerRequest_pb: message RemoveContainerRequest_new RemoveContainerRequest_merge_from RemoveContainerRequest_compute_size RemoveContainerRequest_write_to RemoveContainerRequest_ok RemoveContainerRequest_clear
  by (rule messageI [OF RemoveContainerRequest_merge_from_def], simp add: RemoveContainerRequest_clear_def RemoveContainerRequest_new_def,
      unfold RemoveContainerRequest_arms_def, (rule robust_if robust_rules | assumption | simp only: if_distribR)+,
      unfold RemoveContainerRequest_compute_size_def RemoveContainerRequest_write_to_def RemoveContainerRequest_ok_def, rule codes_to,
      (rule field_rules RemoveContainerRequest_arm | assumption
        | simp add: field_number_def tag_len_def RemoveContainerRequest_new_def)+)

section \<open>\<open>ExecProcessRequest\<close>\<close>

record 'u pb_ExecProcessRequest =
  ExecProcessRequest_container_id :: string
  ExecProcessRequest_exec_id :: string
  ExecProcessRequest_string_user :: "'u pb_StringUser option"
  ExecProcessRequest_process :: "'u pb_Process option"
  ExecProcessRequest_unknown_fields :: 'u

definition ExecProcessRequest_new :: "'u runtime \<Rightarrow> 'u pb_ExecProcessRequest" where
  "ExecProcessRequest_new rt = \<lparr>ExecProcessRequest_container_id = [], ExecProcessRequest_exec_id = [], ExecProcessRequest_string_user = None, ExecProcessRequest_process = None, ExecProcessRequest_unknown_fields = no_unknown rt\<rparr>"

definition ExecProcessRequest_clear :: "'u runtime \<Rightarrow> 'u pb_ExecProcessRequest \<Rightarrow> 'u pb_ExecProcessRequest" where
  "ExecProcessRequest_clear rt m = m\<lparr>ExecProcessRequest_container_id := [], ExecProcessRequest_exec_id := [], ExecProcessRequest_string_user := None, ExecProcessRequest_process := None, ExecProcessRequest_unknown_fields := no_unknown rt\<rparr>"

definition ExecProcessRequest_is_initialized :: "'u pb_ExecProcessRequest \<Rightarrow> bool" where
  "ExecProcessRequest_is_initialized m \<longleftrightarrow> pred_option StringUser_is_initialized (ExecProcessRequest_string_user m) \<and> pred_option Process_is_initialized (ExecProcessRequest_process m)"

definition ExecProcessRequest_arms :: "'u runtime \<Rightarrow> u32 \<Rightarrow> 'u pb_ExecProcessRequest arm" where
  "ExecProcessRequest_arms rt n =
     (if n = 1 then singular_into (read_string rt) ExecProcessRequest_container_id_update
      else if n = 2 then singular_into (read_string rt) ExecProcessRequest_exec_id_update
      else if n = 3 then message_into rt StringUser_merge_from StringUser_new ExecProcessRequest_string_user ExecProcessRequest_string_user_update
      else if n = 4 then message_into rt Process_merge_from Process_new ExecProcessRequest_process ExecProcessRequest_process_update
      else unknown_into rt n ExecProcessRequest_unknown_fields ExecProcessRequest_unknown_fields_update)"

definition ExecProcessRequest_merge_from :: "'u runtime \<Rightarrow> 'u pb_ExecProcessRequest \<Rightarrow> 'u pb_ExecProcessRequest reader" where
  "ExecProcessRequest_merge_from rt = merge_fields rt (ExecProcessRequest_arms rt)"

definition ExecProcessRequest_compute_size :: "'u runtime \<Rightarrow> 'u pb_ExecProcessRequest \<Rightarrow> u32" where
  "ExecProcessRequest_compute_size rt m = sum_list [
     whenS (ExecProcessRequest_container_id m \<noteq> []) (string_size rt 1 (ExecProcessRequest_container_id m)),
     whenS (ExecProcessRequest_exec_id m \<noteq> []) (string_size rt 2 (ExecProcessRequest_exec_id m)),
     optS (ExecProcessRequest_string_user m) (\<lambda>v. embedded_size rt 1 (StringUser_compute_size rt v)),
     optS (ExecProcessRequest_process m) (\<lambda>v. embedded_size rt 1 (Process_compute_size rt v)),
     unknown_fields_size rt (ExecProcessRequest_unknown_fields m)]"

definition ExecProcessRequest_write_to :: "'u runtime \<Rightarrow> 'u pb_ExecProcessRequest \<Rightarrow> bytes res" where
  "ExecProcessRequest_write_to rt m = catW [
     whenW (ExecProcessRequest_container_id m \<noteq> []) (write_string rt 1 (ExecProcessRequest_container_id m)),
     whenW (ExecProcessRequest_exec_id m \<noteq> []) (write_string rt 2 (ExecProcessRequest_exec_id m)),
     optW (ExecProcessRequest_string_user m) (\<lambda>v. write_embedded rt 3 (StringUser_compute_size rt v) (StringUser_write_to rt v)),
     optW (ExecProcessRequest_process m) (\<lambda>v. write_embedded rt 4 (Process_compute_size rt v) (Process_write_to rt v)),
     write_unknown_fields rt (ExecProcessRequest_unknown_fields m)]"

definition ExecProcessRequest_ok :: "'u runtime \<Rightarrow> 'u pb_ExecProcessRequest \<Rightarrow> bool" where
  "ExecProcessRequest_ok rt m \<longleftrightarrow> ExecProcessRequest_unknown_fields m = no_unknown rt \<and>
     utf8 (ExecProcessRequest_container_id m) \<and>
     utf8 (ExecProcessRequest_exec_id m) \<and>
     pred_option (StringUser_ok rt) (ExecProcessRequest_string_user m) \<and>
     pred_option (Process_ok rt) (ExecProcessRequest_process m)"

lemma ExecProcessRequest_arm:
  "ExecProcessRequest_arms rt 1 = singular_into (read_string rt) ExecProcessRequest_container_id_update"
  "ExecProcessRequest_arms rt 2 = singular_into (read_string rt) ExecProcessRequest_exec_id_update"
  "ExecProcessRequest_arms rt 3 = message_into rt StringUser_merge_from StringUser_new ExecProcessRequest_string_user ExecProcessRequest_string_user_update"
  "ExecProcessRequest_arms rt 4 = message_into rt Process_merge_from Process_new ExecProcessRequest_process ExecProcessRequest_process_update"
  by (simp_all add: ExecProcessRequest_arms_def)

interpretation ExecProcessRequest_pb: message ExecProcessRequest_new ExecProcessRequest_merge_from ExecProcessRequest_compute_size ExecProcessRequest_write_to ExecProcessRequest_ok ExecProcessRequest_clear
  by (rule messageI [OF ExecProcessRequest_merge_from_def], simp add: ExecProcessRequest_clear_def ExecProcessRequest_new_def,
      unfold ExecProcessRequest_arms_def, (rule robust_if robust_rules StringUser_pb.robust_field Process_pb.robust_field | assumption | simp only: if_distribR)+,
      unfold ExecProcessRequest_compute_size_def ExecProcessRequest_write_to_def ExecProcessRequest_ok_def, rule codes_to,
      (rule field_rules StringUser_pb.message_field Process_pb.message_field ExecProcessRequest_arm | assumption
        | simp add: field_number_def tag_len_def ExecProcessRequest_new_def)+)

section \<open>\<open>SignalProcessRequest\<close>\<close>

record 'u pb_SignalProcessRequest =
  SignalProcessRequest_container_id :: string
  SignalProcessRequest_exec_id :: string
  SignalProcessRequest_signal :: u32
  SignalProcessRequest_unknown_fields :: 'u

definition SignalProcessRequest_new :: "'u runtime \<Rightarrow> 'u pb_SignalProcessRequest" where
  "SignalProcessRequest_new rt = \<lparr>SignalProcessRequest_container_id = [], SignalProcessRequest_exec_id = [], SignalProcessRequest_signal = 0, SignalProcessRequest_unknown_fields = no_unknown rt\<rparr>"

definition SignalProcessRequest_clear :: "'u runtime \<Rightarrow> 'u pb_SignalProcessRequest \<Rightarrow> 'u pb_SignalProcessRequest" where
  "SignalProcessRequest_clear rt m = m\<lparr>SignalProcessRequest_container_id := [], SignalProcessRequest_exec_id := [], SignalProcessRequest_signal := 0, SignalProcessRequest_unknown_fields := no_unknown rt\<rparr>"

definition SignalProcessRequest_is_initialized :: "'u pb_SignalProcessRequest \<Rightarrow> bool" where
  "SignalProcessRequest_is_initialized m \<longleftrightarrow> True"

definition SignalProcessRequest_arms :: "'u runtime \<Rightarrow> u32 \<Rightarrow> 'u pb_SignalProcessRequest arm" where
  "SignalProcessRequest_arms rt n =
     (if n = 1 then singular_into (read_string rt) SignalProcessRequest_container_id_update
      else if n = 2 then singular_into (read_string rt) SignalProcessRequest_exec_id_update
      else if n = 3 then varint_into rt (read_uint32 rt) SignalProcessRequest_signal_update
      else unknown_into rt n SignalProcessRequest_unknown_fields SignalProcessRequest_unknown_fields_update)"

definition SignalProcessRequest_merge_from :: "'u runtime \<Rightarrow> 'u pb_SignalProcessRequest \<Rightarrow> 'u pb_SignalProcessRequest reader" where
  "SignalProcessRequest_merge_from rt = merge_fields rt (SignalProcessRequest_arms rt)"

definition SignalProcessRequest_compute_size :: "'u runtime \<Rightarrow> 'u pb_SignalProcessRequest \<Rightarrow> u32" where
  "SignalProcessRequest_compute_size rt m = sum_list [
     whenS (SignalProcessRequest_container_id m \<noteq> []) (string_size rt 1 (SignalProcessRequest_container_id m)),
     whenS (SignalProcessRequest_exec_id m \<noteq> []) (string_size rt 2 (SignalProcessRequest_exec_id m)),
     whenS (SignalProcessRequest_signal m \<noteq> 0) (size_uint32 rt 3 (SignalProcessRequest_signal m)),
     unknown_fields_size rt (SignalProcessRequest_unknown_fields m)]"

definition SignalProcessRequest_write_to :: "'u runtime \<Rightarrow> 'u pb_SignalProcessRequest \<Rightarrow> bytes res" where
  "SignalProcessRequest_write_to rt m = catW [
     whenW (SignalProcessRequest_container_id m \<noteq> []) (write_string rt 1 (SignalProcessRequest_container_id m)),
     whenW (SignalProcessRequest_exec_id m \<noteq> []) (write_string rt 2 (SignalProcessRequest_exec_id m)),
     whenW (SignalProcessRequest_signal m \<noteq> 0) (write_uint32 rt 3 (SignalProcessRequest_signal m)),
     write_unknown_fields rt (SignalProcessRequest_unknown_fields m)]"

definition SignalProcessRequest_ok :: "'u runtime \<Rightarrow> 'u pb_SignalProcessRequest \<Rightarrow> bool" where
  "SignalProcessRequest_ok rt m \<longleftrightarrow> SignalProcessRequest_unknown_fields m = no_unknown rt \<and>
     utf8 (SignalProcessRequest_container_id m) \<and>
     utf8 (SignalProcessRequest_exec_id m)"

lemma SignalProcessRequest_arm:
  "SignalProcessRequest_arms rt 1 = singular_into (read_string rt) SignalProcessRequest_container_id_update"
  "SignalProcessRequest_arms rt 2 = singular_into (read_string rt) SignalProcessRequest_exec_id_update"
  "SignalProcessRequest_arms rt 3 = varint_into rt (read_uint32 rt) SignalProcessRequest_signal_update"
  by (simp_all add: SignalProcessRequest_arms_def)

interpretation SignalProcessRequest_pb: message SignalProcessRequest_new SignalProcessRequest_merge_from SignalProcessRequest_compute_size SignalProcessRequest_write_to SignalProcessRequest_ok SignalProcessRequest_clear
  by (rule messageI [OF SignalProcessRequest_merge_from_def], simp add: SignalProcessRequest_clear_def SignalProcessRequest_new_def,
      unfold SignalProcessRequest_arms_def, (rule robust_if robust_rules | assumption | simp only: if_distribR)+,
      unfold SignalProcessRequest_compute_size_def SignalProcessRequest_write_to_def SignalProcessRequest_ok_def, rule codes_to,
      (rule field_rules SignalProcessRequest_arm | assumption
        | simp add: field_number_def tag_len_def SignalProcessRequest_new_def)+)

section \<open>\<open>WaitProcessRequest\<close>\<close>

record 'u pb_WaitProcessRequest =
  WaitProcessRequest_container_id :: string
  WaitProcessRequest_exec_id :: string
  WaitProcessRequest_unknown_fields :: 'u

definition WaitProcessRequest_new :: "'u runtime \<Rightarrow> 'u pb_WaitProcessRequest" where
  "WaitProcessRequest_new rt = \<lparr>WaitProcessRequest_container_id = [], WaitProcessRequest_exec_id = [], WaitProcessRequest_unknown_fields = no_unknown rt\<rparr>"

definition WaitProcessRequest_clear :: "'u runtime \<Rightarrow> 'u pb_WaitProcessRequest \<Rightarrow> 'u pb_WaitProcessRequest" where
  "WaitProcessRequest_clear rt m = m\<lparr>WaitProcessRequest_container_id := [], WaitProcessRequest_exec_id := [], WaitProcessRequest_unknown_fields := no_unknown rt\<rparr>"

definition WaitProcessRequest_is_initialized :: "'u pb_WaitProcessRequest \<Rightarrow> bool" where
  "WaitProcessRequest_is_initialized m \<longleftrightarrow> True"

definition WaitProcessRequest_arms :: "'u runtime \<Rightarrow> u32 \<Rightarrow> 'u pb_WaitProcessRequest arm" where
  "WaitProcessRequest_arms rt n =
     (if n = 1 then singular_into (read_string rt) WaitProcessRequest_container_id_update
      else if n = 2 then singular_into (read_string rt) WaitProcessRequest_exec_id_update
      else unknown_into rt n WaitProcessRequest_unknown_fields WaitProcessRequest_unknown_fields_update)"

definition WaitProcessRequest_merge_from :: "'u runtime \<Rightarrow> 'u pb_WaitProcessRequest \<Rightarrow> 'u pb_WaitProcessRequest reader" where
  "WaitProcessRequest_merge_from rt = merge_fields rt (WaitProcessRequest_arms rt)"

definition WaitProcessRequest_compute_size :: "'u runtime \<Rightarrow> 'u pb_WaitProcessRequest \<Rightarrow> u32" where
  "WaitProcessRequest_compute_size rt m = sum_list [
     whenS (WaitProcessRequest_container_id m \<noteq> []) (string_size rt 1 (WaitProcessRequest_container_id m)),
     whenS (WaitProcessRequest_exec_id m \<noteq> []) (string_size rt 2 (WaitProcessRequest_exec_id m)),
     unknown_fields_size rt (WaitProcessRequest_unknown_fields m)]"

definition WaitProcessRequest_write_to :: "'u runtime \<Rightarrow> 'u pb_WaitProcessRequest \<Rightarrow> bytes res" where
  "WaitProcessRequest_write_to rt m = catW [
     whenW (WaitProcessRequest_container_id m \<noteq> []) (write_string rt 1 (WaitProcessRequest_container_id m)),
     whenW (WaitProcessRequest_exec_id m \<noteq> []) (write_string rt 2 (WaitProcessRequest_exec_id m)),
     write_unknown_fields rt (WaitProcessRequest_unknown_fields m)]"

definition WaitProcessRequest_ok :: "'u runtime \<Rightarrow> 'u pb_WaitProcessRequest \<Rightarrow> bool" where
  "WaitProcessRequest_ok rt m \<longleftrightarrow> WaitProcessRequest_unknown_fields m = no_unknown rt \<and>
     utf8 (WaitProcessRequest_container_id m) \<and>
     utf8 (WaitProcessRequest_exec_id m)"

lemma WaitProcessRequest_arm:
  "WaitProcessRequest_arms rt 1 = singular_into (read_string rt) WaitProcessRequest_container_id_update"
  "WaitProcessRequest_arms rt 2 = singular_into (read_string rt) WaitProcessRequest_exec_id_update"
  by (simp_all add: WaitProcessRequest_arms_def)

interpretation WaitProcessRequest_pb: message WaitProcessRequest_new WaitProcessRequest_merge_from WaitProcessRequest_compute_size WaitProcessRequest_write_to WaitProcessRequest_ok WaitProcessRequest_clear
  by (rule messageI [OF WaitProcessRequest_merge_from_def], simp add: WaitProcessRequest_clear_def WaitProcessRequest_new_def,
      unfold WaitProcessRequest_arms_def, (rule robust_if robust_rules | assumption | simp only: if_distribR)+,
      unfold WaitProcessRequest_compute_size_def WaitProcessRequest_write_to_def WaitProcessRequest_ok_def, rule codes_to,
      (rule field_rules WaitProcessRequest_arm | assumption
        | simp add: field_number_def tag_len_def WaitProcessRequest_new_def)+)

section \<open>\<open>WaitProcessResponse\<close>\<close>

record 'u pb_WaitProcessResponse =
  WaitProcessResponse_status :: u32
  WaitProcessResponse_unknown_fields :: 'u

definition WaitProcessResponse_new :: "'u runtime \<Rightarrow> 'u pb_WaitProcessResponse" where
  "WaitProcessResponse_new rt = \<lparr>WaitProcessResponse_status = 0, WaitProcessResponse_unknown_fields = no_unknown rt\<rparr>"

definition WaitProcessResponse_clear :: "'u runtime \<Rightarrow> 'u pb_WaitProcessResponse \<Rightarrow> 'u pb_WaitProcessResponse" where
  "WaitProcessResponse_clear rt m = m\<lparr>WaitProcessResponse_status := 0, WaitProcessResponse_unknown_fields := no_unknown rt\<rparr>"

definition WaitProcessResponse_is_initialized :: "'u pb_WaitProcessResponse \<Rightarrow> bool" where
  "WaitProcessResponse_is_initialized m \<longleftrightarrow> True"

definition WaitProcessResponse_arms :: "'u runtime \<Rightarrow> u32 \<Rightarrow> 'u pb_WaitProcessResponse arm" where
  "WaitProcessResponse_arms rt n =
     (if n = 1 then varint_into rt (read_int32 rt) WaitProcessResponse_status_update
      else unknown_into rt n WaitProcessResponse_unknown_fields WaitProcessResponse_unknown_fields_update)"

definition WaitProcessResponse_merge_from :: "'u runtime \<Rightarrow> 'u pb_WaitProcessResponse \<Rightarrow> 'u pb_WaitProcessResponse reader" where
  "WaitProcessResponse_merge_from rt = merge_fields rt (WaitProcessResponse_arms rt)"

definition WaitProcessResponse_compute_size :: "'u runtime \<Rightarrow> 'u pb_WaitProcessResponse \<Rightarrow> u32" where
  "WaitProcessResponse_compute_size rt m = sum_list [
     whenS (WaitProcessResponse_status m \<noteq> 0) (size_int32 rt 1 (WaitProcessResponse_status m)),
     unknown_fields_size rt (WaitProcessResponse_unknown_fields m)]"

definition WaitProcessResponse_write_to :: "'u runtime \<Rightarrow> 'u pb_WaitProcessResponse \<Rightarrow> bytes res" where
  "WaitProcessResponse_write_to rt m = catW [
     whenW (WaitProcessResponse_status m \<noteq> 0) (write_int32 rt 1 (WaitProcessResponse_status m)),
     write_unknown_fields rt (WaitProcessResponse_unknown_fields m)]"

definition WaitProcessResponse_ok :: "'u runtime \<Rightarrow> 'u pb_WaitProcessResponse \<Rightarrow> bool" where
  "WaitProcessResponse_ok rt m \<longleftrightarrow> WaitProcessResponse_unknown_fields m = no_unknown rt"

lemma WaitProcessResponse_arm:
  "WaitProcessResponse_arms rt 1 = varint_into rt (read_int32 rt) WaitProcessResponse_status_update"
  by (simp_all add: WaitProcessResponse_arms_def)

interpretation WaitProcessResponse_pb: message WaitProcessResponse_new WaitProcessResponse_merge_from WaitProcessResponse_compute_size WaitProcessResponse_write_to WaitProcessResponse_ok WaitProcessResponse_clear
  by (rule messageI [OF WaitProcessResponse_merge_from_def], simp add: WaitProcessResponse_clear_def WaitProcessResponse_new_def,
      unfold WaitProcessResponse_arms_def, (rule robust_if robust_rules | assumption | simp only: if_distribR)+,
      unfold WaitProcessResponse_compute_size_def WaitProcessResponse_write_to_def WaitProcessResponse_ok_def, rule codes_to,
      (rule field_rules WaitProcessResponse_arm | assumption
        | simp add: field_number_def tag_len_def WaitProcessResponse_new_def)+)

section \<open>\<open>ListProcessesRequest\<close>\<close>

record 'u pb_ListProcessesRequest =
  ListProcessesRequest_container_id :: string
  ListProcessesRequest_format :: string
  ListProcessesRequest_args :: "string list"
  ListProcessesRequest_unknown_fields :: 'u

definition ListProcessesRequest_new :: "'u runtime \<Rightarrow> 'u pb_ListProcessesRequest" where
  "ListProcessesRequest_new rt = \<lparr>ListProcessesRequest_container_id = [], ListProcessesRequest_format = [], ListProcessesRequest_args = [], ListProcessesRequest_unknown_fields = no_unknown rt\<rparr>"

definition ListProcessesRequest_clear :: "'u runtime \<Rightarrow> 'u pb_ListProcessesRequest \<Rightarrow> 'u pb_ListProcessesRequest" where
  "ListProcessesRequest_clear rt m = m\<lparr>ListProcessesRequest_container_id := [], ListProcessesRequest_format := [], ListProcessesRequest_args := [], ListProcessesRequest_unknown_fields := no_unknown rt\<rparr>"

definition ListProcessesRequest_is_initialized :: "'u pb_ListProcessesRequest \<Rightarrow> bool" where
  "ListProcessesRequest_is_initialized m \<longleftrightarrow> True"

definition ListProcessesRequest_arms :: "'u runtime \<Rightarrow> u32 \<Rightarrow> 'u pb_ListProcessesRequest arm" where
  "ListProcessesRequest_arms rt n =
     (if n = 1 then singular_into (read_string rt) ListProcessesRequest_container_id_update
      else if n = 2 then singular_into (read_string rt) ListProcessesRequest_format_update
      else if n = 3 then repeated_into (read_string rt) ListProcessesRequest_args_update
      else unknown_into rt n ListProcessesRequest_unknown_fields ListProcessesRequest_unknown_fields_update)"

definition ListProcessesRequest_merge_from :: "'u runtime \<Rightarrow> 'u pb_ListProcessesRequest \<Rightarrow> 'u pb_ListProcessesRequest reader" where
  "ListProcessesRequest_merge_from rt = merge_fields rt (ListProcessesRequest_arms rt)"

definition ListProcessesRequest_compute_size :: "'u runtime \<Rightarrow> 'u pb_ListProcessesRequest \<Rightarrow> u32" where
  "ListProcessesRequest_compute_size rt m = sum_list [
     whenS (ListProcessesRequest_container_id m \<noteq> []) (string_size rt 1 (ListProcessesRequest_container_id m)),
     whenS (ListProcessesRequest_format m \<noteq> []) (string_size rt 2 (ListProcessesRequest_format m)),
     eachS (ListProcessesRequest_args m) (string_size rt 3),
     unknown_fields_size rt (ListProcessesRequest_unknown_fields m)]"

definition ListProcessesRequest_write_to :: "'u runtime \<Rightarrow> 'u pb_ListProcessesRequest \<Rightarrow> bytes res" where
  "ListProcessesRequest_write_to rt m = catW [
     whenW (ListProcessesRequest_container_id m \<noteq> []) (write_string rt 1 (ListProcessesRequest_container_id m)),
     whenW (ListProcessesRequest_format m \<noteq> []) (write_string rt 2 (ListProcessesRequest_format m)),
     eachW (ListProcessesRequest_args m) (write_string rt 3),
     write_unknown_fields rt (ListProcessesRequest_unknown_fields m)]"

definition ListProcessesRequest_ok :: "'u runtime \<Rightarrow> 'u pb_ListProcessesRequest \<Rightarrow> bool" where
  "ListProcessesRequest_ok rt m \<longleftrightarrow> ListProcessesRequest_unknown_fields m = no_unknown rt \<and>
     utf8 (ListProcessesRequest_container_id m) \<and>
     utf8 (ListProcessesRequest_format m) \<and>
     list_all utf8 (ListProcessesRequest_args m)"

lemma ListProcessesRequest_arm:
  "ListProcessesRequest_arms rt 1 = singular_into (read_string rt) ListProcessesRequest_container_id_update"
  "ListProcessesRequest_arms rt 2 = singular_into (read_string rt) ListProcessesRequest_format_update"
  "ListProcessesRequest_arms rt 3 = repeated_into (read_string rt) ListProcessesRequest_args_update"
  by (simp_all add: ListProcessesRequest_arms_def)

interpretation ListProcessesRequest_pb: message ListProcessesRequest_new ListProcessesRequest_merge_from ListProcessesRequest_compute_size ListProcessesRequest_write_to ListProcessesRequest_ok ListProcessesRequest_clear
  by (rule messageI [OF ListProcessesRequest_merge_from_def], simp add: ListProcessesRequest_clear_def ListProcessesRequest_new_def,
      unfold ListProcessesRequest_arms_def, (rule robust_if robust_rules | assumption | simp only: if_distribR)+,
      unfold ListProcessesRequest_compute_size_def ListProcessesRequest_write_to_def ListProcessesRequest_ok_def, rule codes_to,
      (rule field_rules ListProcessesRequest_arm | assumption
        | simp add: field_number_def tag_len_def ListProcessesRequest_new_def)+)

section \<open>\<open>ListProcessesResponse\<close>\<close>

record 'u pb_ListProcessesResponse =
  ListProcessesResponse_process_list :: bytes
  ListProcessesResponse_unknown_fields :: 'u

definition ListProcessesResponse_new :: "'u runtime \<Rightarrow> 'u pb_ListProcessesResponse" where
  "ListProcessesResponse_new rt = \<lparr>ListProcessesResponse_process_list = [], ListProcessesResponse_unknown_fields = no_unknown rt\<rparr>"

definition ListProcessesResponse_clear :: "'u runtime \<Rightarrow> 'u pb_ListProcessesResponse \<Rightarrow> 'u pb_ListProcessesResponse" where
  "ListProcessesResponse_clear rt m = m\<lparr>ListProcessesResponse_process_list := [], ListProcessesResponse_unknown_fields := no_unknown rt\<rparr>"

definition ListProcessesResponse_is_initialized :: "'u pb_ListProcessesResponse \<Rightarrow> bool" where
  "ListProcessesResponse_is_initialized m \<longleftrightarrow> True"

definition ListProcessesResponse_arms :: "'u runtime \<Rightarrow> u32 \<Rightarrow> 'u pb_ListProcessesResponse arm" where
  "ListProcessesResponse_arms rt n =
     (if n = 1 then singular_into (read_bytes rt) ListProcessesResponse_process_list_update
      else unknown_into rt n ListProcessesResponse_unknown_fields ListProcessesResponse_unknown_fields_update)"

definition ListProcessesResponse_merge_from :: "'u runtime \<Rightarrow> 'u pb_ListProcessesResponse \<Rightarrow> 'u pb_ListProcessesResponse reader" where
  "ListProcessesResponse_merge_from rt = merge_fields rt (ListProcessesResponse_arms rt)"

definition ListProcessesResponse_compute_size :: "'u runtime \<Rightarrow> 'u pb_ListProcessesResponse \<Rightarrow> u32" where
  "ListProcessesResponse_compute_size rt m = sum_list [
     whenS (ListProcessesResponse_process_list m \<noteq> []) (bytes_size rt 1 (ListProcessesResponse_process_list m)),
     unknown_fields_size rt (ListProcessesResponse_unknown_fields m)]"

definition ListProcessesResponse_write_to :: "'u runtime \<Rightarrow> 'u pb_ListProcessesResponse \<Rightarrow> bytes res" where
  "ListProcessesResponse_write_to rt m = catW [
     whenW (ListProcessesResponse_process_list m \<noteq> []) (write_bytes rt 1 (ListProcessesResponse_process_list m)),
     write_unknown_fields rt (ListProcessesResponse_unknown_fields m)]"

definition ListProcessesResponse_ok :: "'u runtime \<Rightarrow> 'u pb_ListProcessesResponse \<Rightarrow> bool" where
  "ListProcessesResponse_ok rt m \<longleftrightarrow> ListProcessesResponse_unknown_fields m = no_unknown rt"

lemma ListProcessesResponse_arm:
  "ListProcessesResponse_arms rt 1 = singular_into (read_bytes rt) ListProcessesResponse_process_list_update"
  by (simp_all add: ListProcessesResponse_arms_def)

interpretation ListProcessesResponse_pb: message ListProcessesResponse_new ListProcessesResponse_merge_from ListProcessesResponse_compute_size ListProcessesResponse_write_to ListProcessesResponse_ok ListProcessesResponse_clear
  by (rule messageI [OF ListProcessesResponse_merge_from_def], simp add: ListProcessesResponse_clear_def ListProcessesResponse_new_def,
      unfold ListProcessesResponse_arms_def, (rule robust_if robust_rules | assumption | simp only: if_distribR)+,
      unfold ListProcessesResponse_compute_size_def ListProcessesResponse_write_to_def ListProcessesResponse_ok_def, rule codes_to,
      (rule field_rules ListProcessesResponse_arm | assumption
        | simp add: field_number_def tag_len_def ListProcessesResponse_new_def)+)

section \<open>\<open>UpdateContainerRequest\<close>\<close>

record 'u pb_UpdateContainerRequest =
  UpdateContainerRequest_container_id :: string
  UpdateContainerRequest_resources :: "'u pb_LinuxResources option"
  UpdateContainerRequest_unknown_fields :: 'u

definition UpdateContainerRequest_new :: "'u runtime \<Rightarrow> 'u pb_UpdateContainerRequest" where
  "UpdateContainerRequest_new rt = \<lparr>UpdateContainerRequest_container_id = [], UpdateContainerRequest_resources = None, UpdateContainerRequest_unknown_fields = no_unknown rt\<rparr>"

definition UpdateContainerRequest_clear :: "'u runtime \<Rightarrow> 'u pb_UpdateContainerRequest \<Rightarrow> 'u pb_UpdateContainerRequest" where
  "UpdateContainerRequest_clear rt m = m\<lparr>UpdateContainerRequest_container_id := [], UpdateContainerRequest_resources := None, UpdateContainerRequest_unknown_fields := no_unknown rt\<rparr>"

definition UpdateContainerRequest_is_initialized :: "'u pb_UpdateContainerRequest \<Rightarrow> bool" where
  "UpdateContainerRequest_is_initialized m \<longleftrightarrow> pred_option LinuxResources_is_initialized (UpdateContainerRequest_resources m)"

definition UpdateContainerRequest_arms :: "'u runtime \<Rightarrow> u32 \<Rightarrow> 'u pb_UpdateContainerRequest arm" where
  "UpdateContainerRequest_arms rt n =
     (if n = 1 then singular_into (read_string rt) UpdateContainerRequest_container_id_update
      else if n = 2 then message_into rt LinuxResources_merge_from LinuxResources_new UpdateContainerRequest_resources UpdateContainerRequest_resources_update
      else unknown_into rt n UpdateContainerRequest_unknown_fields UpdateContainerRequest_unknown_fields_update)"

definition UpdateContainerRequest_merge_from :: "'u runtime \<Rightarrow> 'u pb_UpdateContainerRequest \<Rightarrow> 'u pb_UpdateContainerRequest reader" where
  "UpdateContainerRequest_merge_from rt = merge_fields rt (UpdateContainerRequest_arms rt)"

definition UpdateContainerRequest_compute_size :: "'u runtime \<Rightarrow> 'u pb_UpdateContainerRequest \<Rightarrow> u32" where
  "UpdateContainerRequest_compute_size rt m = sum_list [
     whenS (UpdateContainerRequest_container_id m \<noteq> []) (string_size rt 1 (UpdateContainerRequest_container_id m)),
     optS (UpdateContainerRequest_resources m) (\<lambda>v. embedded_size rt 1 (LinuxResources_compute_size rt v)),
     unknown_fields_size rt (UpdateContainerRequest_unknown_fields m)]"

definition UpdateContainerRequest_write_to :: "'u runtime \<Rightarrow> 'u pb_UpdateContainerRequest \<Rightarrow> bytes res" where
  "UpdateContainerRequest_write_to rt m = catW [
     whenW (UpdateContainerRequest_container_id m \<noteq> []) (write_string rt 1 (UpdateContainerRequest_container_id m)),
     optW (UpdateContainerRequest_resources m) (\<lambda>v. write_embedded rt 2 (LinuxResources_compute_size rt v) (LinuxResources_write_to rt v)),
     write_unknown_fields rt (UpdateContainerRequest_unknown_fields m)]"

definition UpdateContainerRequest_ok :: "'u runtime \<Rightarrow> 'u pb_UpdateContainerRequest \<Rightarrow> bool" where
  "UpdateContainerRequest_ok rt m \<longleftrightarrow> UpdateContainerRequest_unknown_fields m = no_unknown rt \<and>
     utf8 (UpdateContainerRequest_container_id m) \<and>
     pred_option (LinuxResources_ok rt) (UpdateContainerRequest_resources m)"

lemma UpdateContainerRequest_arm:
  "UpdateContainerRequest_arms rt 1 = singular_into (read_string rt) UpdateContainerRequest_container_id_update"
  "UpdateContainerRequest_arms rt 2 = message_into rt LinuxResources_merge_from LinuxResources_new UpdateContainerRequest_resources UpdateContainerRequest_resources_update"
  by (simp_all add: UpdateContainerRequest_arms_def)

interpretation UpdateContainerRequest_pb: message UpdateContainerRequest_new UpdateContainerRequest_merge_from UpdateContainerRequest_compute_size UpdateContainerRequest_write_to UpdateContainerRequest_ok UpdateContainerRequest_clear
  by (rule messageI [OF UpdateContainerRequest_merge_from_def], simp add: UpdateContainerRequest_clear_def UpdateContainerRequest_new_def,
      unfold UpdateContainerRequest_arms_def, (rule robust_if robust_rules LinuxResources_pb.robust_field | assumption | simp only: if_distribR)+,
      unfold UpdateContainerRequest_compute_size_def UpdateContainerRequest_write_to_def UpdateContainerRequest_ok_def, rule codes_to,
      (rule field_rules LinuxResources_pb.message_field UpdateContainerRequest_arm | assumption
        | simp add: field_number_def tag_len_def UpdateContainerRequest_new_def)+)

section \<open>\<open>StatsContainerRequest\<close>\<close>

record 'u pb_StatsContainerRequest =
  StatsContainerRequest_container_id :: string
  StatsContainerRequest_unknown_fields :: 'u

definition StatsContainerRequest_new :: "'u runtime \<Rightarrow> 'u pb_StatsContainerRequest" where
  "StatsContainerRequest_new rt = \<lparr>StatsContainerRequest_container_id = [], StatsContainerRequest_unknown_fields = no_unknown rt\<rparr>"

definition StatsContainerRequest_clear :: "'u runtime \<Rightarrow> 'u pb_StatsContainerRequest \<Rightarrow> 'u pb_StatsContainerRequest" where
  "StatsContainerRequest_clear rt m = m\<lparr>StatsContainerRequest_container_id := [], StatsContainerRequest_unknown_fields := no_unknown rt\<rparr>"

definition StatsContainerRequest_is_initialized :: "'u pb_StatsContainerRequest \<Rightarrow> bool" where
  "StatsContainerRequest_is_initialized m \<longleftrightarrow> True"

definition StatsContainerRequest_arms :: "'u runtime \<Rightarrow> u32 \<Rightarrow> 'u pb_StatsContainerRequest arm" where
  "StatsContainerRequest_arms rt n =
     (if n = 1 then singular_into (read_string rt) StatsContainerRequest_container_id_update
      else unknown_into rt n StatsContainerRequest_unknown_fields StatsContainerRequest_unknown_fields_update)"

definition StatsContainerRequest_merge_from :: "'u runtime \<Rightarrow> 'u pb_StatsContainerRequest \<Rightarrow> 'u pb_StatsContainerRequest reader" where
  "StatsContainerRequest_merge_from rt = merge_fields rt (StatsContainerRequest_arms rt)"

definition StatsContainerRequest_compute_size :: "'u runtime \<Rightarrow> 'u pb_StatsContainerRequest \<Rightarrow> u32" where
  "StatsContainerRequest_compute_size rt m = sum_list [
     whenS (StatsContainerRequest_container_id m \<noteq> []) (string_size rt 1 (StatsContainerRequest_container_id m)),
     unknown_fields_size rt (StatsContainerRequest_unknown_fields m)]"

definition StatsContainerRequest_write_to :: "'u runtime \<Rightarrow> 'u pb_StatsContainerRequest \<Rightarrow> bytes res" where
  "StatsContainerRequest_write_to rt m = catW [
     whenW (StatsContainerRequest_container_id m \<noteq> []) (write_string rt 1 (StatsContainerRequest_container_id m)),
     write_unknown_fields rt (StatsContainerRequest_unknown_fields m)]"

definition StatsContainerRequest_ok :: "'u runtime \<Rightarrow> 'u pb_StatsContainerRequest \<Rightarrow> bool" where
  "StatsContainerRequest_ok rt m \<longleftrightarrow> StatsContainerRequest_unknown_fields m = no_unknown rt \<and>
     utf8 (StatsContainerRequest_container_id m)"

lemma StatsContainerRequest_arm:
  "StatsContainerRequest_arms rt 1 = singular_into (read_string rt) StatsContainerRequest_container_id_update"
  by (simp_all add: StatsContainerRequest_arms_def)

interpretation StatsContainerRequest_pb: message StatsContainerRequest_new StatsContainerRequest_merge_from StatsContainerRequest_compute_size StatsContainerRequest_write_to StatsContainerRequest_ok StatsContainerRequest_clear
  by (rule messageI [OF StatsContainerRequest_merge_from_def], simp add: StatsContainerRequest_clear_def StatsContainerRequest_new_def,
      unfold StatsContainerRequest_arms_def, (rule robust_if robust_rules | assumption | simp only: if_distribR)+,
      unfold StatsContainerRequest_compute_size_def StatsContainerRequest_write_to_def StatsContainerRequest_ok_def, rule codes_to,
      (rule field_rules StatsContainerRequest_arm | assumption
        | simp add: field_number_def tag_len_def StatsContainerRequest_new_def)+)

section \<open>\<open>PauseContainerRequest\<close>\<close>

record 'u pb_PauseContainerRequest =
  PauseContainerRequest_container_id :: string
  PauseContainerRequest_unknown_fields :: 'u

definition PauseContainerRequest_new :: "'u runtime \<Rightarrow> 'u pb_PauseContainerRequest" where
  "PauseContainerRequest_new rt = \<lparr>PauseContainerRequest_container_id = [], PauseContainerRequest_unknown_fields = no_unknown rt\<rparr>"

definition PauseContainerRequest_clear :: "'u runtime \<Rightarrow> 'u pb_PauseContainerRequest \<Rightarrow> 'u pb_PauseContainerRequest" where
  "PauseContainerRequest_clear rt m = m\<lparr>PauseContainerRequest_container_id := [], PauseContainerRequest_unknown_fields := no_unknown rt\<rparr>"

definition PauseContainerRequest_is_initialized :: "'u pb_PauseContainerRequest \<Rightarrow> bool" where
  "PauseContainerRequest_is_initialized m \<longleftrightarrow> True"

definition PauseContainerRequest_arms :: "'u runtime \<Rightarrow> u32 \<Rightarrow> 'u pb_PauseContainerRequest arm" where
  "PauseContainerRequest_arms rt n =
     (if n = 1 then singular_into (read_string rt) PauseContainerRequest_container_id_update
      else unknown_into rt n PauseContainerRequest_unknown_fields PauseContainerRequest_unknown_fields_update)"

definition PauseContainerRequest_merge_from :: "'u runtime \<Rightarrow> 'u pb_PauseContainerRequest \<Rightarrow> 'u pb_PauseContainerRequest reader" where
  "PauseContainerRequest_merge_from rt = merge_fields rt (PauseContainerRequest_arms rt)"

definition PauseContainerRequest_compute_size :: "'u runtime \<Rightarrow> 'u pb_PauseContainerRequest \<Rightarrow> u32" where
  "PauseContainerRequest_compute_size rt m = sum_list [
     whenS (PauseContainerRequest_container_id m \<noteq> []) (string_size rt 1 (PauseContainerRequest_container_id m)),
     unknown_fields_size rt (PauseContainerRequest_unknown_fields m)]"

definition PauseContainerRequest_write_to :: "'u runtime \<Rightarrow> 'u pb_PauseContainerRequest \<Rightarrow> bytes res" where
  "PauseContainerRequest_write_to rt m = catW [
     whenW (PauseContainerRequest_container_id m \<noteq> []) (write_string rt 1 (PauseContainerRequest_container_id m)),
     write_unknown_fields rt (PauseContainerRequest_unknown_fields m)]"

definition PauseContainerRequest_ok :: "'u runtime \<Rightarrow> 'u pb_PauseContainerRequest \<Rightarrow> bool" where
  "PauseContainerRequest_ok rt m \<longleftrightarrow> PauseContainerRequest_unknown_fields m = no_unknown rt \<and>
     utf8 (PauseContainerRequest_container_id m)"

lemma PauseContainerRequest_arm:
  "PauseContainerRequest_arms rt 1 = singular_into (read_string rt) PauseContainerRequest_container_id_update"
  by (simp_all add: PauseContainerRequest_arms_def)

interpretation PauseContainerRequest_pb: message PauseContainerRequest_new PauseContainerRequest_merge_from PauseContainerRequest_compute_size PauseContainerRequest_write_to PauseContainerRequest_ok PauseContainerRequest_clear
  by (rule messageI [OF PauseContainerRequest_merge_from_def], simp add: PauseContainerRequest_clear_def PauseContainerRequest_new_def,
      unfold PauseContainerRequest_arms_def, (rule robust_if robust_rules | assumption | simp only: if_distribR)+,
      unfold PauseContainerRequest_compute_size_def PauseContainerRequest_write_to_def PauseContainerRequest_ok_def, rule codes_to,
      (rule field_rules PauseContainerRequest_arm | assumption
        | simp add: field_number_def tag_len_def PauseContainerRequest_new_def)+)

section \<open>\<open>ResumeContainerRequest\<close>\<close>

record 'u pb_ResumeContainerRequest =
  ResumeContainerRequest_container_id :: string
  ResumeContainerRequest_unknown_fields :: 'u

definition ResumeContainerRequest_new :: "'u runtime \<Rightarrow> 'u pb_ResumeContainerRequest" where
  "ResumeContainerRequest_new rt = \<lparr>ResumeContainerRequest_container_id = [], ResumeContainerRequest_unknown_fields = no_unknown rt\<rparr>"

definition ResumeContainerRequest_clear :: "'u runtime \<Rightarrow> 'u pb_ResumeContainerRequest \<Rightarrow> 'u pb_ResumeContainerRequest" where
  "ResumeContainerRequest_clear rt m = m\<lparr>ResumeContainerRequest_container_id := [], ResumeContainerRequest_unknown_fields := no_unknown rt\<rparr>"

definition ResumeContainerRequest_is_initialized :: "'u pb_ResumeContainerRequest \<Rightarrow> bool" where
  "ResumeContainerRequest_is_initialized m \<longleftrightarrow> True"

definition ResumeContainerRequest_arms :: "'u runtime \<Rightarrow> u32 \<Rightarrow> 'u pb_ResumeContainerRequest arm" where
  "ResumeContainerRequest_arms rt n =
     (if n = 1 then singular_into (read_string rt) ResumeContainerRequest_container_id_update
      else unknown_into rt n ResumeContainerRequest_unknown_fields ResumeContainerRequest_unknown_fields_update)"

definition ResumeContainerRequest_merge_from :: "'u runtime \<Rightarrow> 'u pb_ResumeContainerRequest \<Rightarrow> 'u pb_ResumeContainerRequest reader" where
  "ResumeContainerRequest_merge_from rt = merge_fields rt (ResumeContainerRequest_arms rt)"

definition ResumeContainerRequest_compute_size :: "'u runtime \<Rightarrow> 'u pb_ResumeContainerRequest \<Rightarrow> u32" where
  "ResumeContainerRequest_compute_size rt m = sum_list [
     whenS (ResumeContainerRequest_container_id m \<noteq> []) (string_size rt 1 (ResumeContainerRequest_container_id m)),
     unknown_fields_size rt (ResumeContainerRequest_unknown_fields m)]"

definition ResumeContainerRequest_write_to :: "'u runtime \<Rightarrow> 'u pb_ResumeContainerRequest \<Rightarrow> bytes res" where
  "ResumeContainerRequest_write_to rt m = catW [
     whenW (ResumeContainerRequest_container_id m \<noteq> []) (write_string rt 1 (ResumeContainerRequest_container_id m)),
     write_unknown_fields rt (ResumeContainerRequest_unknown_fields m)]"

definition ResumeContainerRequest_ok :: "'u runtime \<Rightarrow> 'u pb_ResumeContainerRequest \<Rightarrow> bool" where
  "ResumeContainerRequest_ok rt m \<longleftrightarrow> ResumeContainerRequest_unknown_fields m = no_unknown rt \<and>
     utf8 (ResumeContainerRequest_container_id m)"

lemma ResumeContainerRequest_arm:
  "ResumeContainerRequest_arms rt 1 = singular_into (read_string rt) ResumeContainerRequest_container_id_update"
  by (simp_all add: ResumeContainerRequest_arms_def)

interpretation ResumeContainerRequest_pb: message ResumeContainerRequest_new ResumeContainerRequest_merge_from ResumeContainerRequest_compute_size ResumeContainerRequest_write_to ResumeContainerRequest_ok ResumeContainerRequest_clear
  by (rule messageI [OF ResumeContainerRequest_merge_from_def], simp add: ResumeContainerRequest_clear_def ResumeContainerRequest_new_def,
      unfold ResumeContainerRequest_arms_def, (rule robust_if robust_rules | assumption | simp only: if_distribR)+,
      unfold ResumeContainerRequest_compute_size_def ResumeContainerRequest_write_to_def ResumeContainerRequest_ok_def, rule codes_to,
      (rule field_rules ResumeContainerRequest_arm | assumption
        | simp add: field_number_def tag_len_def ResumeContainerRequest_new_def)+)

section \<open>\<open>CpuUsage\<close>\<close>

record 'u pb_CpuUsage =
  CpuUsage_total_usage :: u64
  CpuUsage_percpu_usage :: "u64 list"
  CpuUsage_usage_in_kernelmode :: u64
  CpuUsage_usage_in_usermode :: u64
  CpuUsage_unknown_fields :: 'u

definition CpuUsage_new :: "'u runtime \<Rightarrow> 'u pb_CpuUsage" where
  "CpuUsage_new rt = \<lparr>CpuUsage_total_usage = 0, CpuUsage_percpu_usage = [], CpuUsage_usage_in_kernelmode = 0, CpuUsage_usage_in_usermode = 0, CpuUsage_unknown_fields = no_unknown rt\<rparr>"

definition CpuUsage_clear :: "'u runtime \<Rightarrow> 'u pb_CpuUsage \<Rightarrow> 'u pb_CpuUsage" where
  "CpuUsage_clear rt m = m\<lparr>CpuUsage_total_usage := 0, CpuUsage_percpu_usage := [], CpuUsage_usage_in_kernelmode := 0, CpuUsage_usage_in_usermode := 0, CpuUsage_unknown_fields := no_unknown rt\<rparr>"

definition CpuUsage_is_initialized :: "'u pb_CpuUsage \<Rightarrow> bool" where
  "CpuUsage_is_initialized m \<longleftrightarrow> True"

definition CpuUsage_arms :: "'u runtime \<Rightarrow> u32 \<Rightarrow> 'u pb_CpuUsage arm" where
  "CpuUsage_arms rt n =
     (if n = 1 then varint_into rt (read_uint64 rt) CpuUsage_total_usage_update
      else if n = 2 then packed_into (read_uint64s rt) CpuUsage_percpu_usage_update
      else if n = 3 then varint_into rt (read_uint64 rt) CpuUsage_usage_in_kernelmode_update
      else if n = 4 then varint_into rt (read_uint64 rt) CpuUsage_usage_in_usermode_update
      else unknown_into rt n CpuUsage_unknown_fields CpuUsage_unknown_fields_update)"

definition CpuUsage_merge_from :: "'u runtime \<Rightarrow> 'u pb_CpuUsage \<Rightarrow> 'u pb_CpuUsage reader" where
  "CpuUsage_merge_from rt = merge_fields rt (CpuUsage_arms rt)"

definition CpuUsage_compute_size :: "'u runtime \<Rightarrow> 'u pb_CpuUsage \<Rightarrow> u32" where
  "CpuUsage_compute_size rt m = sum_list [
     whenS (CpuUsage_total_usage m \<noteq> 0) (size_uint64 rt 1 (CpuUsage_total_usage m)),
     eachS (CpuUsage_percpu_usage m) (size_uint64 rt 2),
     whenS (CpuUsage_usage_in_kernelmode m \<noteq> 0) (size_uint64 rt 3 (CpuUsage_usage_in_kernelmode m)),
     whenS (CpuUsage_usage_in_usermode m \<noteq> 0) (size_uint64 rt 4 (CpuUsage_usage_in_usermode m)),
     unknown_fields_size rt (CpuUsage_unknown_fields m)]"

definition CpuUsage_write_to :: "'u runtime \<Rightarrow> 'u pb_CpuUsage \<Rightarrow> bytes res" where
  "CpuUsage_write_to rt m = catW [
     whenW (CpuUsage_total_usage m \<noteq> 0) (write_uint64 rt 1 (CpuUsage_total_usage m)),
     eachW (CpuUsage_percpu_usage m) (write_uint64 rt 2),
     whenW (CpuUsage_usage_in_kernelmode m \<noteq> 0) (write_uint64 rt 3 (CpuUsage_usage_in_kernelmode m)),
     whenW (CpuUsage_usage_in_usermode m \<noteq> 0) (write_uint64 rt 4 (CpuUsage_usage_in_usermode m)),
     write_unknown_fields rt (CpuUsage_unknown_fields m)]"

definition CpuUsage_ok :: "'u runtime \<Rightarrow> 'u pb_CpuUsage \<Rightarrow> bool" where
  "CpuUsage_ok rt m \<longleftrightarrow> CpuUsage_unknown_fields m = no_unknown rt"

lemma CpuUsage_arm:
  "CpuUsage_arms rt 1 = varint_into rt (read_uint64 rt) CpuUsage_total_usage_update"
  "CpuUsage_arms rt 2 = packed_into (read_uint64s rt) CpuUsage_percpu_usage_update"
  "CpuUsage_arms rt 3 = varint_into rt (read_uint64 rt) CpuUsage_usage_in_kernelmode_update"
  "CpuUsage_arms rt 4 = varint_into rt (read_uint64 rt) CpuUsage_usage_in_usermode_update"
  by (simp_all add: CpuUsage_arms_def)

interpretation CpuUsage_pb: message CpuUsage_new CpuUsage_merge_from CpuUsage_compute_size CpuUsage_write_to CpuUsage_ok CpuUsage_clear
  by (rule messageI [OF CpuUsage_merge_from_def], simp add: CpuUsage_clear_def CpuUsage_new_def,
      unfold CpuUsage_arms_def, (rule robust_if robust_rules | assumption | simp only: if_distribR)+,
      unfold CpuUsage_compute_size_def CpuUsage_write_to_def CpuUsage_ok_def, rule codes_to,
      (rule field_rules CpuUsage_arm | assumption
        | simp add: field_number_def tag_len_def CpuUsage_new_def)+)

section \<open>\<open>ThrottlingData\<close>\<close>

record 'u pb_ThrottlingData =
  ThrottlingData_periods :: u64
  ThrottlingData_throttled_periods :: u64
  ThrottlingData_throttled_time :: u64
  ThrottlingData_unknown_fields :: 'u

definition ThrottlingData_new :: "'u runtime \<Rightarrow> 'u pb_ThrottlingData" where
  "ThrottlingData_new rt = \<lparr>ThrottlingData_periods = 0, ThrottlingData_throttled_periods = 0, ThrottlingData_throttled_time = 0, ThrottlingData_unknown_fields = no_unknown rt\<rparr>"

definition ThrottlingData_clear :: "'u runtime \<Rightarrow> 'u pb_ThrottlingData \<Rightarrow> 'u pb_ThrottlingData" where
  "ThrottlingData_clear rt m = m\<lparr>ThrottlingData_periods := 0, ThrottlingData_throttled_periods := 0, ThrottlingData_throttled_time := 0, ThrottlingData_unknown_fields := no_unknown rt\<rparr>"

definition ThrottlingData_is_initialized :: "'u pb_ThrottlingData \<Rightarrow> bool" where
  "ThrottlingData_is_initialized m \<longleftrightarrow> True"

definition ThrottlingData_arms :: "'u runtime \<Rightarrow> u32 \<Rightarrow> 'u pb_ThrottlingData arm" where
  "ThrottlingData_arms rt n =
     (if n = 1 then varint_into rt (read_uint64 rt) ThrottlingData_periods_update
      else if n = 2 then varint_into rt (read_uint64 rt) ThrottlingData_throttled_periods_update
      else if n = 3 then varint_into rt (read_uint64 rt) ThrottlingData_throttled_time_update
      else unknown_into rt n ThrottlingData_unknown_fields ThrottlingData_unknown_fields_update)"

definition ThrottlingData_merge_from :: "'u runtime \<Rightarrow> 'u pb_ThrottlingData \<Rightarrow> 'u pb_ThrottlingData reader" where
  "ThrottlingData_merge_from rt = merge_fields rt (ThrottlingData_arms rt)"

definition ThrottlingData_compute_size :: "'u runtime \<Rightarrow> 'u pb_ThrottlingData \<Rightarrow> u32" where
  "ThrottlingData_compute_size rt m = sum_list [
     whenS (ThrottlingData_periods m \<noteq> 0) (size_uint64 rt 1 (ThrottlingData_periods m)),
     whenS (ThrottlingData_throttled_periods m \<noteq> 0) (size_uint64 rt 2 (ThrottlingData_throttled_periods m)),
     whenS (ThrottlingData_throttled_time m \<noteq> 0) (size_uint64 rt 3 (ThrottlingData_throttled_time m)),
     unknown_fields_size rt (ThrottlingData_unknown_fields m)]"

definition ThrottlingData_write_to :: "'u runtime \<Rightarrow> 'u pb_ThrottlingData \<Rightarrow> bytes res" where
  "ThrottlingData_write_to rt m = catW [
     whenW (ThrottlingData_periods m \<noteq> 0) (write_uint64 rt 1 (ThrottlingData_periods m)),
     whenW (ThrottlingData_throttled_periods m \<noteq> 0) (write_uint64 rt 2 (ThrottlingData_throttled_periods m)),
     whenW (ThrottlingData_throttled_time m \<noteq> 0) (write_uint64 rt 3 (ThrottlingData_throttled_time m)),
     write_unknown_fields rt (ThrottlingData_unknown_fields m)]"

definition ThrottlingData_ok :: "'u runtime \<Rightarrow> 'u pb_ThrottlingData \<Rightarrow> bool" where
  "ThrottlingData_ok rt m \<longleftrightarrow> ThrottlingData_unknown_fields m = no_unknown rt"

lemma ThrottlingData_arm:
  "ThrottlingData_arms rt 1 = varint_into rt (read_uint64 rt) ThrottlingData_periods_update"
  "ThrottlingData_arms rt 2 = varint_into rt (read_uint64 rt) ThrottlingData_throttled_periods_update"
  "ThrottlingData_arms rt 3 = varint_into rt (read_uint64 rt) ThrottlingData_throttled_time_update"
  by (simp_all add: ThrottlingData_arms_def)

interpretation ThrottlingData_pb: message ThrottlingData_new ThrottlingData_merge_from ThrottlingData_compute_size ThrottlingData_write_to ThrottlingData_ok ThrottlingData_clear
  by (rule messageI [OF ThrottlingData_merge_from_def], simp add: ThrottlingData_clear_def ThrottlingData_new_def,
      unfold ThrottlingData_arms_def, (rule robust_if robust_rules | assumption | simp only: if_distribR)+,
      unfold ThrottlingData_compute_size_def ThrottlingData_write_to_def ThrottlingData_ok_def, rule codes_to,
      (rule field_rules ThrottlingData_arm | assumption
        | simp add: field_number_def tag_len_def ThrottlingData_new_def)+)

section \<open>\<open>CpuStats\<close>\<close>

record 'u pb_CpuStats =
  CpuStats_cpu_usage :: "'u pb_CpuUsage option"
  CpuStats_throttling_data :: "'u pb_ThrottlingData option"
  CpuStats_unknown_fields :: 'u

definition CpuStats_new :: "'u runtime \<Rightarrow> 'u pb_CpuStats" where
  "CpuStats_new rt = \<lparr>CpuStats_cpu_usage = None, CpuStats_throttling_data = None, CpuStats_unknown_fields = no_unknown rt\<rparr>"

definition CpuStats_clear :: "'u runtime \<Rightarrow> 'u pb_CpuStats \<Rightarrow> 'u pb_CpuStats" where
  "CpuStats_clear rt m = m\<lparr>CpuStats_cpu_usage := None, CpuStats_throttling_data := None, CpuStats_unknown_fields := no_unknown rt\<rparr>"

definition CpuStats_is_initialized :: "'u pb_CpuStats \<Rightarrow> bool" where
  "CpuStats_is_initialized m \<longleftrightarrow> pred_option CpuUsage_is_initialized (CpuStats_cpu_usage m) \<and> pred_option ThrottlingData_is_initialized (CpuStats_throttling_data m)"

definition CpuStats_arms :: "'u runtime \<Rightarrow> u32 \<Rightarrow> 'u pb_CpuStats arm" where
  "CpuStats_arms rt n =
     (if n = 1 then message_into rt CpuUsage_merge_from CpuUsage_new CpuStats_cpu_usage CpuStats_cpu_usage_update
      else if n = 2 then message_into rt ThrottlingData_merge_from ThrottlingData_new CpuStats_throttling_data CpuStats_throttling_data_update
      else unknown_into rt n CpuStats_unknown_fields CpuStats_unknown_fields_update)"

definition CpuStats_merge_from :: "'u runtime \<Rightarrow> 'u pb_CpuStats \<Rightarrow> 'u pb_CpuStats reader" where
  "CpuStats_merge_from rt = merge_fields rt (CpuStats_arms rt)"

definition CpuStats_compute_size :: "'u runtime \<Rightarrow> 'u pb_CpuStats \<Rightarrow> u32" where
  "CpuStats_compute_size rt m = sum_list [
     optS (CpuStats_cpu_usage m) (\<lambda>v. embedded_size rt 1 (CpuUsage_compute_size rt v)),
     optS (CpuStats_throttling_data m) (\<lambda>v. embedded_size rt 1 (ThrottlingData_compute_size rt v)),
     unknown_fields_size rt (CpuStats_unknown_fields m)]"

definition CpuStats_write_to :: "'u runtime \<Rightarrow> 'u pb_CpuStats \<Rightarrow> bytes res" where
  "CpuStats_write_to rt m = catW [
     optW (CpuStats_cpu_usage m) (\<lambda>v. write_embedded rt 1 (CpuUsage_compute_size rt v) (CpuUsage_write_to rt v)),
     optW (CpuStats_throttling_data m) (\<lambda>v. write_embedded rt 2 (ThrottlingData_compute_size rt v) (ThrottlingData_write_to rt v)),
     write_unknown_fields rt (CpuStats_unknown_fields m)]"

definition CpuStats_ok :: "'u runtime \<Rightarrow> 'u pb_CpuStats \<Rightarrow> bool" where
  "CpuStats_ok rt m \<longleftrightarrow> CpuStats_unknown_fields m = no_unknown rt \<and>
     pred_option (CpuUsage_ok rt) (CpuStats_cpu_usage m) \<and>
     pred_option (ThrottlingData_ok rt) (CpuStats_throttling_data m)"

lemma CpuStats_arm:
  "CpuStats_arms rt 1 = message_into rt CpuUsage_merge_from CpuUsage_new CpuStats_cpu_usage CpuStats_cpu_usage_update"
  "CpuStats_arms rt 2 = message_into rt ThrottlingData_merge_from ThrottlingData_new CpuStats_throttling_data CpuStats_throttling_data_update"
  by (simp_all add: CpuStats_arms_def)

interpretation CpuStats_pb: message CpuStats_new CpuStats_merge_from CpuStats_compute_size CpuStats_write_to CpuStats_ok CpuStats_clear
  by (rule messageI [OF CpuStats_merge_from_def], simp add: CpuStats_clear_def CpuStats_new_def,
      unfold CpuStats_arms_def, (rule robust_if robust_rules CpuUsage_pb.robust_field ThrottlingData_pb.robust_field | assumption | simp only: if_distribR)+,
      unfold CpuStats_compute_size_def CpuStats_write_to_def CpuStats_ok_def, rule codes_to,
      (rule field_rules CpuUsage_pb.message_field ThrottlingData_pb.message_field CpuStats_arm | assumption
        | simp add: field_number_def tag_len_def CpuStats_new_def)+)

section \<open>\<open>PidsStats\<close>\<close>

record 'u pb_PidsStats =
  PidsStats_current :: u64
  PidsStats_limit :: u64
  PidsStats_unknown_fields :: 'u

definition PidsStats_new :: "'u runtime \<Rightarrow> 'u pb_PidsStats" where
  "PidsStats_new rt = \<lparr>PidsStats_current = 0, PidsStats_limit = 0, PidsStats_unknown_fields = no_unknown rt\<rparr>"

definition PidsStats_clear :: "'u runtime \<Rightarrow> 'u pb_PidsStats \<Rightarrow> 'u pb_PidsStats" where
  "PidsStats_clear rt m = m\<lparr>PidsStats_current := 0, PidsStats_limit := 0, PidsStats_unknown_fields := no_unknown rt\<rparr>"

definition PidsStats_is_initialized :: "'u pb_PidsStats \<Rightarrow> bool" where
  "PidsStats_is_initialized m \<longleftrightarrow> True"

definition PidsStats_arms :: "'u runtime \<Rightarrow> u32 \<Rightarrow> 'u pb_PidsStats arm" where
  "PidsStats_arms rt n =
     (if n = 1 then varint_into rt (read_uint64 rt) PidsStats_current_update
      else if n = 2 then varint_into rt (read_uint64 rt) PidsStats_limit_update
      else unknown_into rt n PidsStats_unknown_fields PidsStats_unknown_fields_update)"

definition PidsStats_merge_from :: "'u runtime \<Rightarrow> 'u pb_PidsStats \<Rightarrow> 'u pb_PidsStats reader" where
  "PidsStats_merge_from rt = merge_fields rt (PidsStats_arms rt)"

definition PidsStats_compute_size :: "'u runtime \<Rightarrow> 'u pb_PidsStats \<Rightarrow> u32" where
  "PidsStats_compute_size rt m = sum_list [
     whenS (PidsStats_current m \<noteq> 0) (size_uint64 rt 1 (PidsStats_current m)),
     whenS (PidsStats_limit m \<noteq> 0) (size_uint64 rt 2 (PidsStats_limit m)),
     unknown_fields_size rt (PidsStats_unknown_fields m)]"

definition PidsStats_write_to :: "'u runtime \<Rightarrow> 'u pb_PidsStats \<Rightarrow> bytes res" where
  "PidsStats_write_to rt m = catW [
     whenW (PidsStats_current m \<noteq> 0) (write_uint64 rt 1 (PidsStats_current m)),
     whenW (PidsStats_limit m \<noteq> 0) (write_uint64 rt 2 (PidsStats_limit m)),
     write_unknown_fields rt (PidsStats_unknown_fields m)]"

definition PidsStats_ok :: "'u runtime \<Rightarrow> 'u pb_PidsStats \<Rightarrow> bool" where
  "PidsStats_ok rt m \<longleftrightarrow> PidsStats_unknown_fields m = no_unknown rt"

lemma PidsStats_arm:
  "PidsStats_arms rt 1 = varint_into rt (read_uint64 rt) PidsStats_current_update"
  "PidsStats_arms rt 2 = varint_into rt (read_uint64 rt) PidsStats_limit_update"
  by (simp_all add: PidsStats_arms_def)

interpretation PidsStats_pb: message PidsStats_new PidsStats_merge_from PidsStats_compute_size PidsStats_write_to PidsStats_ok PidsStats_clear
  by (rule messageI [OF PidsStats_merge_from_def], simp add: PidsStats_clear_def PidsStats_new_def,
      unfold PidsStats_arms_def, (rule robust_if robust_rules | assumption | simp only: if_distribR)+,
      unfold PidsStats_compute_size_def PidsStats_write_to_def PidsStats_ok_def, rule codes_to,
      (rule field_rules PidsStats_arm | assumption
        | simp add: field_number_def tag_len_def PidsStats_new_def)+)

section \<open>\<open>MemoryData\<close>\<close>

record 'u pb_MemoryData =
  MemoryData_usage :: u64
  MemoryData_max_usage :: u64
  MemoryData_failcnt :: u64
  MemoryData_limit :: u64
  MemoryData_unknown_fields :: 'u

definition MemoryData_new :: "'u runtime \<Rightarrow> 'u pb_MemoryData" where
  "MemoryData_new rt = \<lparr>MemoryData_usage = 0, MemoryData_max_usage = 0, MemoryData_failcnt = 0, MemoryData_limit = 0, MemoryData_unknown_fields = no_unknown rt\<rparr>"

definition MemoryData_clear :: "'u runtime \<Rightarrow> 'u pb_MemoryData \<Rightarrow> 'u pb_MemoryData" where
  "MemoryData_clear rt m = m\<lparr>MemoryData_usage := 0, MemoryData_max_usage := 0, MemoryData_failcnt := 0, MemoryData_limit := 0, MemoryData_unknown_fields := no_unknown rt\<rparr>"

definition MemoryData_is_initialized :: "'u pb_MemoryData \<Rightarrow> bool" where
  "MemoryData_is_initialized m \<longleftrightarrow> True"

definition MemoryData_arms :: "'u runtime \<Rightarrow> u32 \<Rightarrow> 'u pb_MemoryData arm" where
  "MemoryData_arms rt n =
     (if n = 1 then varint_into rt (read_uint64 rt) MemoryData_usage_update
      else if n = 2 then varint_into rt (read_uint64 rt) MemoryData_max_usage_update
      else if n = 3 then varint_into rt (read_uint64 rt) MemoryData_failcnt_update
      else if n = 4 then varint_into rt (read_uint64 rt) MemoryData_limit_update
      else unknown_into rt n MemoryData_unknown_fields MemoryData_unknown_fields_update)"

definition MemoryData_merge_from :: "'u runtime \<Rightarrow> 'u pb_MemoryData \<Rightarrow> 'u pb_MemoryData reader" where
  "MemoryData_merge_from rt = merge_fields rt (MemoryData_arms rt)"

definition MemoryData_compute_size :: "'u runtime \<Rightarrow> 'u pb_MemoryData \<Rightarrow> u32" where
  "MemoryData_compute_size rt m = sum_list [
     whenS (MemoryData_usage m \<noteq> 0) (size_uint64 rt 1 (MemoryData_usage m)),
     whenS (MemoryData_max_usage m \<noteq> 0) (size_uint64 rt 2 (MemoryData_max_usage m)),
     whenS (MemoryData_failcnt m \<noteq> 0) (size_uint64 rt 3 (MemoryData_failcnt m)),
     whenS (MemoryData_limit m \<noteq> 0) (size_uint64 rt 4 (MemoryData_limit m)),
     unknown_fields_size rt (MemoryData_unknown_fields m)]"

definition MemoryData_write_to :: "'u runtime \<Rightarrow> 'u pb_MemoryData \<Rightarrow> bytes res" where
  "MemoryData_write_to rt m = catW [
     whenW (MemoryData_usage m \<noteq> 0) (write_uint64 rt 1 (MemoryData_usage m)),
     whenW (MemoryData_max_usage m \<noteq> 0) (write_uint64 rt 2 (MemoryData_max_usage m)),
     whenW (MemoryData_failcnt m \<noteq> 0) (write_uint64 rt 3 (MemoryData_failcnt m)),
     whenW (MemoryData_limit m \<noteq> 0) (write_uint64 rt 4 (MemoryData_limit m)),
     write_unknown_fields rt (MemoryData_unknown_fields m)]"

definition MemoryData_ok :: "'u runtime \<Rightarrow> 'u pb_MemoryData \<Rightarrow> bool" where
  "MemoryData_ok rt m \<longleftrightarrow> MemoryData_unknown_fields m = no_unknown rt"

lemma MemoryData_arm:
  "MemoryData_arms rt 1 = varint_into rt (read_uint64 rt) MemoryData_usage_update"
  "MemoryData_arms rt 2 = varint_into rt (read_uint64 rt) MemoryData_max_usage_update"
  "MemoryData_arms rt 3 = varint_into rt (read_uint64 rt) MemoryData_failcnt_update"
  "MemoryData_arms rt 4 = varint_into rt (read_uint64 rt) MemoryData_limit_update"
  by (simp_all add: MemoryData_arms_def)

interpretation MemoryData_pb: message MemoryData_new MemoryData_merge_from MemoryData_compute_size MemoryData_write_to MemoryData_ok MemoryData_clear
  by (rule messageI [OF MemoryData_merge_from_def], simp add: MemoryData_clear_def MemoryData_new_def,
      unfold MemoryData_arms_def, (rule robust_if robust_rules | assumption | simp only: if_distribR)+,
      unfold MemoryData_compute_size_def MemoryData_write_to_def MemoryData_ok_def, rule codes_to,
      (rule field_rules MemoryData_arm | assumption
        | simp add: field_number_def tag_len_def MemoryData_new_def)+)

section \<open>\<open>MemoryStats\<close>\<close>

record 'u pb_MemoryStats =
  MemoryStats_cache :: u64
  MemoryStats_usage :: "'u pb_MemoryData option"
  MemoryStats_swap_usage :: "'u pb_MemoryData option"
  MemoryStats_kernel_usage :: "'u pb_MemoryData option"
  MemoryStats_use_hierarchy :: bool
  MemoryStats_stats :: "(string \<times> u64) list"
  MemoryStats_unknown_fields :: 'u

definition MemoryStats_new :: "'u runtime \<Rightarrow> 'u pb_MemoryStats" where
  "MemoryStats_new rt = \<lparr>MemoryStats_cache = 0, MemoryStats_usage = None, MemoryStats_swap_usage = None, MemoryStats_kernel_usage = None, MemoryStats_use_hierarchy = False, MemoryStats_stats = [], MemoryStats_unknown_fields = no_unknown rt\<rparr>"

definition MemoryStats_clear :: "'u runtime \<Rightarrow> 'u pb_MemoryStats \<Rightarrow> 'u pb_MemoryStats" where
  "MemoryStats_clear rt m = m\<lparr>MemoryStats_cache := 0, MemoryStats_usage := None, MemoryStats_swap_usage := None, MemoryStats_kernel_usage := None, MemoryStats_use_hierarchy := False, MemoryStats_stats := [], MemoryStats_unknown_fields := no_unknown rt\<rparr>"

definition MemoryStats_is_initialized :: "'u pb_MemoryStats \<Rightarrow> bool" where
  "MemoryStats_is_initialized m \<longleftrightarrow> pred_option MemoryData_is_initialized (MemoryStats_usage m) \<and> pred_option MemoryData_is_initialized (MemoryStats_swap_usage m) \<and> pred_option MemoryData_is_initialized (MemoryStats_kernel_usage m)"

definition MemoryStats_arms :: "'u runtime \<Rightarrow> u32 \<Rightarrow> 'u pb_MemoryStats arm" where
  "MemoryStats_arms rt n =
     (if n = 1 then varint_into rt (read_uint64 rt) MemoryStats_cache_update
      else if n = 2 then message_into rt MemoryData_merge_from MemoryData_new MemoryStats_usage MemoryStats_usage_update
      else if n = 3 then message_into rt MemoryData_merge_from MemoryData_new MemoryStats_swap_usage MemoryStats_swap_usage_update
      else if n = 4 then message_into rt MemoryData_merge_from MemoryData_new MemoryStats_kernel_usage MemoryStats_kernel_usage_update
      else if n = 5 then varint_into rt (read_bool rt) MemoryStats_use_hierarchy_update
      else if n = 6 then map_into (read_map_uint64 rt) MemoryStats_stats_update
      else unknown_into rt n MemoryStats_unknown_fields MemoryStats_unknown_fields_update)"

definition MemoryStats_merge_from :: "'u runtime \<Rightarrow> 'u pb_MemoryStats \<Rightarrow> 'u pb_MemoryStats reader" where
  "MemoryStats_merge_from rt = merge_fields rt (MemoryStats_arms rt)"

definition MemoryStats_compute_size :: "'u runtime \<Rightarrow> 'u pb_MemoryStats \<Rightarrow> u32" where
  "MemoryStats_compute_size rt m = sum_list [
     whenS (MemoryStats_cache m \<noteq> 0) (size_uint64 rt 1 (MemoryStats_cache m)),
     optS (MemoryStats_usage m) (\<lambda>v. embedded_size rt 1 (MemoryData_compute_size rt v)),
     optS (MemoryStats_swap_usage m) (\<lambda>v. embedded_size rt 1 (MemoryData_compute_size rt v)),
     optS (MemoryStats_kernel_usage m) (\<lambda>v. embedded_size rt 1 (MemoryData_compute_size rt v)),
     whenS (MemoryStats_use_hierarchy m \<noteq> False) 2,
     map_uint64_size rt 6 (MemoryStats_stats m),
     unknown_fields_size rt (MemoryStats_unknown_fields m)]"

definition MemoryStats_write_to :: "'u runtime \<Rightarrow> 'u pb_MemoryStats \<Rightarrow> bytes res" where
  "MemoryStats_write_to rt m = catW [
     whenW (MemoryStats_cache m \<noteq> 0) (write_uint64 rt 1 (MemoryStats_cache m)),
     optW (MemoryStats_usage m) (\<lambda>v. write_embedded rt 2 (MemoryData_compute_size rt v) (MemoryData_write_to rt v)),
     optW (MemoryStats_swap_usage m) (\<lambda>v. write_embedded rt 3 (MemoryData_compute_size rt v) (MemoryData_write_to rt v)),
     optW (MemoryStats_kernel_usage m) (\<lambda>v. write_embedded rt 4 (MemoryData_compute_size rt v) (MemoryData_write_to rt v)),
     whenW (MemoryStats_use_hierarchy m \<noteq> False) (write_bool rt 5 (MemoryStats_use_hierarchy m)),
     write_map_uint64 rt 6 (MemoryStats_stats m),
     write_unknown_fields rt (MemoryStats_unknown_fields m)]"

definition MemoryStats_ok :: "'u runtime \<Rightarrow> 'u pb_MemoryStats \<Rightarrow> bool" where
  "MemoryStats_ok rt m \<longleftrightarrow> MemoryStats_unknown_fields m = no_unknown rt \<and>
     pred_option (MemoryData_ok rt) (MemoryStats_usage m) \<and>
     pred_option (MemoryData_ok rt) (MemoryStats_swap_usage m) \<and>
     pred_option (MemoryData_ok rt) (MemoryStats_kernel_usage m) \<and>
     list_all (\<lambda>(k, v). utf8 k) (MemoryStats_stats m) \<and>
     distinct (map fst (MemoryStats_stats m))"

lemma MemoryStats_arm:
  "MemoryStats_arms rt 1 = varint_into rt (read_uint64 rt) MemoryStats_cache_update"
  "MemoryStats_arms rt 2 = message_into rt MemoryData_merge_from MemoryData_new MemoryStats_usage MemoryStats_usage_update"
  "MemoryStats_arms rt 3 = message_into rt MemoryData_merge_from MemoryData_new MemoryStats_swap_usage MemoryStats_swap_usage_update"
  "MemoryStats_arms rt 4 = message_into rt MemoryData_merge_from MemoryData_new MemoryStats_kernel_usage MemoryStats_kernel_usage_update"
  "MemoryStats_arms rt 5 = varint_into rt (read_bool rt) MemoryStats_use_hierarchy_update"
  "MemoryStats_arms rt 6 = map_into (read_map_uint64 rt) MemoryStats_stats_update"
  by (simp_all add: MemoryStats_arms_def)

interpretation MemoryStats_pb: message MemoryStats_new MemoryStats_merge_from MemoryStats_compute_size MemoryStats_write_to MemoryStats_ok MemoryStats_clear
  by (rule messageI [OF MemoryStats_merge_from_def], simp add: MemoryStats_clear_def MemoryStats_new_def,
      unfold MemoryStats_arms_def, (rule robust_if robust_rules MemoryData_pb.robust_field | assumption | simp only: if_distribR)+,
      unfold MemoryStats_compute_size_def MemoryStats_write_to_def MemoryStats_ok_def, rule codes_to,
      (rule field_rules MemoryData_pb.message_field MemoryStats_arm | assumption
        | simp add: field_number_def tag_len_def MemoryStats_new_def)+)

section \<open>\<open>BlkioStatsEntry\<close>\<close>

record 'u pb_BlkioStatsEntry =
  BlkioStatsEntry_major :: u64
  BlkioStatsEntry_minor :: u64
  BlkioStatsEntry_op :: string
  BlkioStatsEntry_value :: u64
  BlkioStatsEntry_unknown_fields :: 'u

definition BlkioStatsEntry_new :: "'u runtime \<Rightarrow> 'u pb_BlkioStatsEntry" where
  "BlkioStatsEntry_new rt = \<lparr>BlkioStatsEntry_major = 0, BlkioStatsEntry_minor = 0, BlkioStatsEntry_op = [], BlkioStatsEntry_value = 0, BlkioStatsEntry_unknown_fields = no_unknown rt\<rparr>"

definition BlkioStatsEntry_clear :: "'u runtime \<Rightarrow> 'u pb_BlkioStatsEntry \<Rightarrow> 'u pb_BlkioStatsEntry" where
  "BlkioStatsEntry_clear rt m = m\<lparr>BlkioStatsEntry_major := 0, BlkioStatsEntry_minor := 0, BlkioStatsEntry_op := [], BlkioStatsEntry_value := 0, BlkioStatsEntry_unknown_fields := no_unknown rt\<rparr>"

definition BlkioStatsEntry_is_initialized :: "'u pb_BlkioStatsEntry \<Rightarrow> bool" where
  "BlkioStatsEntry_is_initialized m \<longleftrightarrow> True"

definition BlkioStatsEntry_arms :: "'u runtime \<Rightarrow> u32 \<Rightarrow> 'u pb_BlkioStatsEntry arm" where
  "BlkioStatsEntry_arms rt n =
     (if n = 1 then varint_into rt (read_uint64 rt) BlkioStatsEntry_major_update
      else if n = 2 then varint_into rt (read_uint64 rt) BlkioStatsEntry_minor_update
      else if n = 3 then singular_into (read_string rt) BlkioStatsEntry_op_update
      else if n = 4 then varint_into rt (read_uint64 rt) BlkioStatsEntry_value_update
      else unknown_into rt n BlkioStatsEntry_unknown_fields BlkioStatsEntry_unknown_fields_update)"

definition BlkioStatsEntry_merge_from :: "'u runtime \<Rightarrow> 'u pb_BlkioStatsEntry \<Rightarrow> 'u pb_BlkioStatsEntry reader" where
  "BlkioStatsEntry_merge_from rt = merge_fields rt (BlkioStatsEntry_arms rt)"

definition BlkioStatsEntry_compute_size :: "'u runtime \<Rightarrow> 'u pb_BlkioStatsEntry \<Rightarrow> u32" where
  "BlkioStatsEntry_compute_size rt m = sum_list [
     whenS (BlkioStatsEntry_major m \<noteq> 0) (size_uint64 rt 1 (BlkioStatsEntry_major m)),
     whenS (BlkioStatsEntry_minor m \<noteq> 0) (size_uint64 rt 2 (BlkioStatsEntry_minor m)),
     whenS (BlkioStatsEntry_op m \<noteq> []) (string_size rt 3 (BlkioStatsEntry_op m)),
     whenS (BlkioStatsEntry_value m \<noteq> 0) (size_uint64 rt 4 (BlkioStatsEntry_value m)),
     unknown_fields_size rt (BlkioStatsEntry_unknown_fields m)]"

definition BlkioStatsEntry_write_to :: "'u runtime \<Rightarrow> 'u pb_BlkioStatsEntry \<Rightarrow> bytes res" where
  "BlkioStatsEntry_write_to rt m = catW [
     whenW (BlkioStatsEntry_major m \<noteq> 0) (write_uint64 rt 1 (BlkioStatsEntry_major m)),
     whenW (BlkioStatsEntry_minor m \<noteq> 0) (write_uint64 rt 2 (BlkioStatsEntry_minor m)),
     whenW (BlkioStatsEntry_op m \<noteq> []) (write_string rt 3 (BlkioStatsEntry_op m)),
     whenW (BlkioStatsEntry_value m \<noteq> 0) (write_uint64 rt 4 (BlkioStatsEntry_value m)),
     write_unknown_fields rt (BlkioStatsEntry_unknown_fields m)]"

definition BlkioStatsEntry_ok :: "'u runtime \<Rightarrow> 'u pb_BlkioStatsEntry \<Rightarrow> bool" where
  "BlkioStatsEntry_ok rt m \<longleftrightarrow> BlkioStatsEntry_unknown_fields m = no_unknown rt \<and>
     utf8 (BlkioStatsEntry_op m)"

lemma BlkioStatsEntry_arm:
  "BlkioStatsEntry_arms rt 1 = varint_into rt (read_uint64 rt) BlkioStatsEntry_major_update"
  "BlkioStatsEntry_arms rt 2 = varint_into rt (read_uint64 rt) BlkioStatsEntry_minor_update"
  "BlkioStatsEntry_arms rt 3 = singular_into (read_string rt) BlkioStatsEntry_op_update"
  "BlkioStatsEntry_arms rt 4 = varint_into rt (read_uint64 rt) BlkioStatsEntry_value_update"
  by (simp_all add: BlkioStatsEntry_arms_def)

interpretation BlkioStatsEntry_pb: message BlkioStatsEntry_new BlkioStatsEntry_merge_from BlkioStatsEntry_compute_size BlkioStatsEntry_write_to BlkioStatsEntry_ok BlkioStatsEntry_clear
  by (rule messageI [OF BlkioStatsEntry_merge_from_def], simp add: BlkioStatsEntry_clear_def BlkioStatsEntry_new_def,
      unfold BlkioStatsEntry_arms_def, (rule robust_if robust_rules | assumption | simp only: if_distribR)+,
      unfold BlkioStatsEntry_compute_size_def BlkioStatsEntry_write_to_def BlkioStatsEntry_ok_def, rule codes_to,
      (rule field_rules BlkioStatsEntry_arm | assumption
        | simp add: field_number_def tag_len_def BlkioStatsEntry_new_def)+)

section \<open>\<open>BlkioStats\<close>\<close>

record 'u pb_BlkioStats =
  BlkioStats_io_service_bytes_recursive :: "'u pb_BlkioStatsEntry list"
  BlkioStats_io_serviced_recursive :: "'u pb_BlkioStatsEntry list"
  BlkioStats_io_queued_recursive :: "'u pb_BlkioStatsEntry list"
  BlkioStats_io_service_time_recursive :: "'u pb_BlkioStatsEntry list"
  BlkioStats_io_wait_time_recursive :: "'u pb_BlkioStatsEntry list"
  BlkioStats_io_merged_recursive :: "'u pb_BlkioStatsEntry list"
  BlkioStats_io_time_recursive :: "'u pb_BlkioStatsEntry list"
  BlkioStats_sectors_recursive :: "'u pb_BlkioStatsEntry list"
  BlkioStats_unknown_fields :: 'u

definition BlkioStats_new :: "'u runtime \<Rightarrow> 'u pb_BlkioStats" where
  "BlkioStats_new rt = \<lparr>BlkioStats_io_service_bytes_recursive = [], BlkioStats_io_serviced_recursive = [], BlkioStats_io_queued_recursive = [], BlkioStats_io_service_time_recursive = [], BlkioStats_io_wait_time_recursive = [], BlkioStats_io_merged_recursive = [], BlkioStats_io_time_recursive = [], BlkioStats_sectors_recursive = [], BlkioStats_unknown_fields = no_unknown rt\<rparr>"

definition BlkioStats_clear :: "'u runtime \<Rightarrow> 'u pb_BlkioStats \<Rightarrow> 'u pb_BlkioStats" where
  "BlkioStats_clear rt m = m\<lparr>BlkioStats_io_service_bytes_recursive := [], BlkioStats_io_serviced_recursive := [], BlkioStats_io_queued_recursive := [], BlkioStats_io_service_time_recursive := [], BlkioStats_io_wait_time_recursive := [], BlkioStats_io_merged_recursive := [], BlkioStats_io_time_recursive := [], BlkioStats_sectors_recursive := [], BlkioStats_unknown_fields := no_unknown rt\<rparr>"

definition BlkioStats_is_initialized :: "'u pb_BlkioStats \<Rightarrow> bool" where
  "BlkioStats_is_initialized m \<longleftrightarrow> list_all BlkioStatsEntry_is_initialized (BlkioStats_io_service_bytes_recursive m) \<and> list_all BlkioStatsEntry_is_initialized (BlkioStats_io_serviced_recursive m) \<and> list_all BlkioStatsEntry_is_initialized (BlkioStats_io_queued_recursive m) \<and> list_all BlkioStatsEntry_is_initialized (BlkioStats_io_service_time_recursive m) \<and> list_all BlkioStatsEntry_is_initialized (BlkioStats_io_wait_time_recursive m) \<and> list_all BlkioStatsEntry_is_initialized (BlkioStats_io_merged_recursive m) \<and> list_all BlkioStatsEntry_is_initialized (BlkioStats_io_time_recursive m) \<and> list_all BlkioStatsEntry_is_initialized (BlkioStats_sectors_recursive m)"

definition BlkioStats_arms :: "'u runtime \<Rightarrow> u32 \<Rightarrow> 'u pb_BlkioStats arm" where
  "BlkioStats_arms rt n =
     (if n = 1 then messages_into rt BlkioStatsEntry_merge_from BlkioStatsEntry_new BlkioStats_io_service_bytes_recursive_update
      else if n = 2 then messages_into rt BlkioStatsEntry_merge_from BlkioStatsEntry_new BlkioStats_io_serviced_recursive_update
      else if n = 3 then messages_into rt BlkioStatsEntry_merge_from BlkioStatsEntry_new BlkioStats_io_queued_recursive_update
      else if n = 4 then messages_into rt BlkioStatsEntry_merge_from BlkioStatsEntry_new BlkioStats_io_service_time_recursive_update
      else if n = 5 then messages_into rt BlkioStatsEntry_merge_from BlkioStatsEntry_new BlkioStats_io_wait_time_recursive_update
      else if n = 6 then messages_into rt BlkioStatsEntry_merge_from BlkioStatsEntry_new BlkioStats_io_merged_recursive_update
      else if n = 7 then messages_into rt BlkioStatsEntry_merge_from BlkioStatsEntry_new BlkioStats_io_time_recursive_update
      else if n = 8 then messages_into rt BlkioStatsEntry_merge_from BlkioStatsEntry_new BlkioStats_sectors_recursive_update
      else unknown_into rt n BlkioStats_unknown_fields BlkioStats_unknown_fields_update)"

definition BlkioStats_merge_from :: "'u runtime \<Rightarrow> 'u pb_BlkioStats \<Rightarrow> 'u pb_BlkioStats reader" where
  "BlkioStats_merge_from rt = merge_fields rt (BlkioStats_arms rt)"

definition BlkioStats_compute_size :: "'u runtime \<Rightarrow> 'u pb_BlkioStats \<Rightarrow> u32" where
  "BlkioStats_compute_size rt m = sum_list [
     eachS (BlkioStats_io_service_bytes_recursive m) (\<lambda>v. embedded_size rt 1 (BlkioStatsEntry_compute_size rt v)),
     eachS (BlkioStats_io_serviced_recursive m) (\<lambda>v. embedded_size rt 1 (BlkioStatsEntry_compute_size rt v)),
     eachS (BlkioStats_io_queued_recursive m) (\<lambda>v. embedded_size rt 1 (BlkioStatsEntry_compute_size rt v)),
     eachS (BlkioStats_io_service_time_recursive m) (\<lambda>v. embedded_size rt 1 (BlkioStatsEntry_compute_size rt v)),
     eachS (BlkioStats_io_wait_time_recursive m) (\<lambda>v. embedded_size rt 1 (BlkioStatsEntry_compute_size rt v)),
     eachS (BlkioStats_io_merged_recursive m) (\<lambda>v. embedded_size rt 1 (BlkioStatsEntry_compute_size rt v)),
     eachS (BlkioStats_io_time_recursive m) (\<lambda>v. embedded_size rt 1 (BlkioStatsEntry_compute_size rt v)),
     eachS (BlkioStats_sectors_recursive m) (\<lambda>v. embedded_size rt 1 (BlkioStatsEntry_compute_size rt v)),
     unknown_fields_size rt (BlkioStats_unknown_fields m)]"

definition BlkioStats_write_to :: "'u runtime \<Rightarrow> 'u pb_BlkioStats \<Rightarrow> bytes res" where
  "BlkioStats_write_to rt m = catW [
     eachW (BlkioStats_io_service_bytes_recursive m) (\<lambda>v. write_embedded rt 1 (BlkioStatsEntry_compute_size rt v) (BlkioStatsEntry_write_to rt v)),
     eachW (BlkioStats_io_serviced_recursive m) (\<lambda>v. write_embedded rt 2 (BlkioStatsEntry_compute_size rt v) (BlkioStatsEntry_write_to rt v)),
     eachW (BlkioStats_io_queued_recursive m) (\<lambda>v. write_embedded rt 3 (BlkioStatsEntry_compute_size rt v) (BlkioStatsEntry_write_to rt v)),
     eachW (BlkioStats_io_service_time_recursive m) (\<lambda>v. write_embedded rt 4 (BlkioStatsEntry_compute_size rt v) (BlkioStatsEntry_write_to rt v)),
     eachW (BlkioStats_io_wait_time_recursive m) (\<lambda>v. write_embedded rt 5 (BlkioStatsEntry_compute_size rt v) (BlkioStatsEntry_write_to rt v)),
     eachW (BlkioStats_io_merged_recursive m) (\<lambda>v. write_embedded rt 6 (BlkioStatsEntry_compute_size rt v) (BlkioStatsEntry_write_to rt v)),
     eachW (BlkioStats_io_time_recursive m) (\<lambda>v. write_embedded rt 7 (BlkioStatsEntry_compute_size rt v) (BlkioStatsEntry_write_to rt v)),
     eachW (BlkioStats_sectors_recursive m) (\<lambda>v. write_embedded rt 8 (BlkioStatsEntry_compute_size rt v) (BlkioStatsEntry_write_to rt v)),
     write_unknown_fields rt (BlkioStats_unknown_fields m)]"

definition BlkioStats_ok :: "'u runtime \<Rightarrow> 'u pb_BlkioStats \<Rightarrow> bool" where
  "BlkioStats_ok rt m \<longleftrightarrow> BlkioStats_unknown_fields m = no_unknown rt \<and>
     list_all (BlkioStatsEntry_ok rt) (BlkioStats_io_service_bytes_recursive m) \<and>
     list_all (BlkioStatsEntry_ok rt) (BlkioStats_io_serviced_recursive m) \<and>
     list_all (BlkioStatsEntry_ok rt) (BlkioStats_io_queued_recursive m) \<and>
     list_all (BlkioStatsEntry_ok rt) (BlkioStats_io_service_time_recursive m) \<and>
     list_all (BlkioStatsEntry_ok rt) (BlkioStats_io_wait_time_recursive m) \<and>
     list_all (BlkioStatsEntry_ok rt) (BlkioStats_io_merged_recursive m) \<and>
     list_all (BlkioStatsEntry_ok rt) (BlkioStats_io_time_recursive m) \<and>
     list_all (BlkioStatsEntry_ok rt) (BlkioStats_sectors_recursive m)"

lemma BlkioStats_arm:
  "BlkioStats_arms rt 1 = messages_into rt BlkioStatsEntry_merge_from BlkioStatsEntry_new BlkioStats_io_service_bytes_recursive_update"
  "BlkioStats_arms rt 2 = messages_into rt BlkioStatsEntry_merge_from BlkioStatsEntry_new BlkioStats_io_serviced_recursive_update"
  "BlkioStats_arms rt 3 = messages_into rt BlkioStatsEntry_merge_from BlkioStatsEntry_new BlkioStats_io_queued_recursive_update"
  "BlkioStats_arms rt 4 = messages_into rt BlkioStatsEntry_merge_from BlkioStatsEntry_new BlkioStats_io_service_time_recursive_update"
  "BlkioStats_arms rt 5 = messages_into rt BlkioStatsEntry_merge_from BlkioStatsEntry_new BlkioStats_io_wait_time_recursive_update"
  "BlkioStats_arms rt 6 = messages_into rt BlkioStatsEntry_merge_from BlkioStatsEntry_new BlkioStats_io_merged_recursive_update"
  "BlkioStats_arms rt 7 = messages_into rt BlkioStatsEntry_merge_from BlkioStatsEntry_new BlkioStats_io_time_recursive_update"
  "BlkioStats_arms rt 8 = messages_into rt BlkioStatsEntry_merge_from BlkioStatsEntry_new BlkioStats_sectors_recursive_update"
  by (simp_all add: BlkioStats_arms_def)

interpretation BlkioStats_pb: message BlkioStats_new BlkioStats_merge_from BlkioStats_compute_size BlkioStats_write_to BlkioStats_ok BlkioStats_clear
  by (rule messageI [OF BlkioStats_merge_from_def], simp add: BlkioStats_clear_def BlkioStats_new_def,
      unfold BlkioStats_arms_def, (rule robust_if robust_rules BlkioStatsEntry_pb.robust_field | assumption | simp only: if_distribR)+,
      unfold BlkioStats_compute_size_def BlkioStats_write_to_def BlkioStats_ok_def, rule codes_to,
      (rule field_rules BlkioStatsEntry_pb.messages_field BlkioStats_arm | assumption
        | simp add: field_number_def tag_len_def BlkioStats_new_def)+)

section \<open>\<open>HugetlbStats\<close>\<close>

record 'u pb_HugetlbStats =
  HugetlbStats_usage :: u64
  HugetlbStats_max_usage :: u64
  HugetlbStats_failcnt :: u64
  HugetlbStats_unknown_fields :: 'u

definition HugetlbStats_new :: "'u runtime \<Rightarrow> 'u pb_HugetlbStats" where
  "HugetlbStats_new rt = \<lparr>HugetlbStats_usage = 0, HugetlbStats_max_usage = 0, HugetlbStats_failcnt = 0, HugetlbStats_unknown_fields = no_unknown rt\<rparr>"

definition HugetlbStats_clear :: "'u runtime \<Rightarrow> 'u pb_HugetlbStats \<Rightarrow> 'u pb_HugetlbStats" where
  "HugetlbStats_clear rt m = m\<lparr>HugetlbStats_usage := 0, HugetlbStats_max_usage := 0, HugetlbStats_failcnt := 0, HugetlbStats_unknown_fields := no_unknown rt\<rparr>"

definition HugetlbStats_is_initialized :: "'u pb_HugetlbStats \<Rightarrow> bool" where
  "HugetlbStats_is_initialized m \<longleftrightarrow> True"

definition HugetlbStats_arms :: "'u runtime \<Rightarrow> u32 \<Rightarrow> 'u pb_HugetlbStats arm" where
  "HugetlbStats_arms rt n =
     (if n = 1 then varint_into rt (read_uint64 rt) HugetlbStats_usage_update
      else if n = 2 then varint_into rt (read_uint64 rt) HugetlbStats_max_usage_update
      else if n = 3 then varint_into rt (read_uint64 rt) HugetlbStats_failcnt_update
      else unknown_into rt n HugetlbStats_unknown_fields HugetlbStats_unknown_fields_update)"

definition HugetlbStats_merge_from :: "'u runtime \<Rightarrow> 'u pb_HugetlbStats \<Rightarrow> 'u pb_HugetlbStats reader" where
  "HugetlbStats_merge_from rt = merge_fields rt (HugetlbStats_arms rt)"

definition HugetlbStats_compute_size :: "'u runtime \<Rightarrow> 'u pb_HugetlbStats \<Rightarrow> u32" where
  "HugetlbStats_compute_size rt m = sum_list [
     whenS (HugetlbStats_usage m \<noteq> 0) (size_uint64 rt 1 (HugetlbStats_usage m)),
     whenS (HugetlbStats_max_usage m \<noteq> 0) (size_uint64 rt 2 (HugetlbStats_max_usage m)),
     whenS (HugetlbStats_failcnt m \<noteq> 0) (size_uint64 rt 3 (HugetlbStats_failcnt m)),
     unknown_fields_size rt (HugetlbStats_unknown_fields m)]"

definition HugetlbStats_write_to :: "'u runtime \<Rightarrow> 'u pb_HugetlbStats \<Rightarrow> bytes res" where
  "HugetlbStats_write_to rt m = catW [
     whenW (HugetlbStats_usage m \<noteq> 0) (write_uint64 rt 1 (HugetlbStats_usage m)),
     whenW (HugetlbStats_max_usage m \<noteq> 0) (write_uint64 rt 2 (HugetlbStats_max_usage m)),
     whenW (HugetlbStats_failcnt m \<noteq> 0) (write_uint64 rt 3 (HugetlbStats_failcnt m)),
     write_unknown_fields rt (HugetlbStats_unknown_fields m)]"

definition HugetlbStats_ok :: "'u runtime \<Rightarrow> 'u pb_HugetlbStats \<Rightarrow> bool" where
  "HugetlbStats_ok rt m \<longleftrightarrow> HugetlbStats_unknown_fields m = no_unknown rt"

lemma HugetlbStats_arm:
  "HugetlbStats_arms rt 1 = varint_into rt (read_uint64 rt) HugetlbStats_usage_update"
  "HugetlbStats_arms rt 2 = varint_into rt (read_uint64 rt) HugetlbStats_max_usage_update"
  "HugetlbStats_arms rt 3 = varint_into rt (read_uint64 rt) HugetlbStats_failcnt_update"
  by (simp_all add: HugetlbStats_arms_def)

interpretation HugetlbStats_pb: message HugetlbStats_new HugetlbStats_merge_from HugetlbStats_compute_size HugetlbStats_write_to HugetlbStats_ok HugetlbStats_clear
  by (rule messageI [OF HugetlbStats_merge_from_def], simp add: HugetlbStats_clear_def HugetlbStats_new_def,
      unfold HugetlbStats_arms_def, (rule robust_if robust_rules | assumption | simp only: if_distribR)+,
      unfold HugetlbStats_compute_size_def HugetlbStats_write_to_def HugetlbStats_ok_def, rule codes_to,
      (rule field_rules HugetlbStats_arm | assumption
        | simp add: field_number_def tag_len_def HugetlbStats_new_def)+)

section \<open>\<open>CgroupStats\<close>\<close>

record 'u pb_CgroupStats =
  CgroupStats_cpu_stats :: "'u pb_CpuStats option"
  CgroupStats_memory_stats :: "'u pb_MemoryStats option"
  CgroupStats_pids_stats :: "'u pb_PidsStats option"
  CgroupStats_blkio_stats :: "'u pb_BlkioStats option"
  CgroupStats_hugetlb_stats :: "(string \<times> 'u pb_HugetlbStats) list"
  CgroupStats_unknown_fields :: 'u

definition CgroupStats_new :: "'u runtime \<Rightarrow> 'u pb_CgroupStats" where
  "CgroupStats_new rt = \<lparr>CgroupStats_cpu_stats = None, CgroupStats_memory_stats = None, CgroupStats_pids_stats = None, CgroupStats_blkio_stats = None, CgroupStats_hugetlb_stats = [], CgroupStats_unknown_fields = no_unknown rt\<rparr>"

definition CgroupStats_clear :: "'u runtime \<Rightarrow> 'u pb_CgroupStats \<Rightarrow> 'u pb_CgroupStats" where
  "CgroupStats_clear rt m = m\<lparr>CgroupStats_cpu_stats := None, CgroupStats_memory_stats := None, CgroupStats_pids_stats := None, CgroupStats_blkio_stats := None, CgroupStats_hugetlb_stats := [], CgroupStats_unknown_fields := no_unknown rt\<rparr>"

definition CgroupStats_is_initialized :: "'u pb_CgroupStats \<Rightarrow> bool" where
  "CgroupStats_is_initialized m \<longleftrightarrow> pred_option CpuStats_is_initialized (CgroupStats_cpu_stats m) \<and> pred_option MemoryStats_is_initialized (CgroupStats_memory_stats m) \<and> pred_option PidsStats_is_initialized (CgroupStats_pids_stats m) \<and> pred_option BlkioStats_is_initialized (CgroupStats_blkio_stats m)"

definition CgroupStats_arms :: "'u runtime \<Rightarrow> u32 \<Rightarrow> 'u pb_CgroupStats arm" where
  "CgroupStats_arms rt n =
     (if n = 1 then message_into rt CpuStats_merge_from CpuStats_new CgroupStats_cpu_stats CgroupStats_cpu_stats_update
      else if n = 2 then message_into rt MemoryStats_merge_from MemoryStats_new CgroupStats_memory_stats CgroupStats_memory_stats_update
      else if n = 3 then message_into rt PidsStats_merge_from PidsStats_new CgroupStats_pids_stats CgroupStats_pids_stats_update
      else if n = 4 then message_into rt BlkioStats_merge_from BlkioStats_new CgroupStats_blkio_stats CgroupStats_blkio_stats_update
      else if n = 5 then message_map_into rt HugetlbStats_merge_from HugetlbStats_new CgroupStats_hugetlb_stats_update
      else unknown_into rt n CgroupStats_unknown_fields CgroupStats_unknown_fields_update)"

definition CgroupStats_merge_from :: "'u runtime \<Rightarrow> 'u pb_CgroupStats \<Rightarrow> 'u pb_CgroupStats reader" where
  "CgroupStats_merge_from rt = merge_fields rt (CgroupStats_arms rt)"

definition CgroupStats_compute_size :: "'u runtime \<Rightarrow> 'u pb_CgroupStats \<Rightarrow> u32" where
  "CgroupStats_compute_size rt m = sum_list [
     optS (CgroupStats_cpu_stats m) (\<lambda>v. embedded_size rt 1 (CpuStats_compute_size rt v)),
     optS (CgroupStats_memory_stats m) (\<lambda>v. embedded_size rt 1 (MemoryStats_compute_size rt v)),
     optS (CgroupStats_pids_stats m) (\<lambda>v. embedded_size rt 1 (PidsStats_compute_size rt v)),
     optS (CgroupStats_blkio_stats m) (\<lambda>v. embedded_size rt 1 (BlkioStats_compute_size rt v)),
     map_message_size rt 5 (map (\<lambda>(k, v). (k, HugetlbStats_compute_size rt v)) (CgroupStats_hugetlb_stats m)),
     unknown_fields_size rt (CgroupStats_unknown_fields m)]"

definition CgroupStats_write_to :: "'u runtime \<Rightarrow> 'u pb_CgroupStats \<Rightarrow> bytes res" where
  "CgroupStats_write_to rt m = catW [
     optW (CgroupStats_cpu_stats m) (\<lambda>v. write_embedded rt 1 (CpuStats_compute_size rt v) (CpuStats_write_to rt v)),
     optW (CgroupStats_memory_stats m) (\<lambda>v. write_embedded rt 2 (MemoryStats_compute_size rt v) (MemoryStats_write_to rt v)),
     optW (CgroupStats_pids_stats m) (\<lambda>v. write_embedded rt 3 (PidsStats_compute_size rt v) (PidsStats_write_to rt v)),
     optW (CgroupStats_blkio_stats m) (\<lambda>v. write_embedded rt 4 (BlkioStats_compute_size rt v) (BlkioStats_write_to rt v)),
     write_map_message rt 5 (map (\<lambda>(k, v). (k, HugetlbStats_compute_size rt v, HugetlbStats_write_to rt v)) (CgroupStats_hugetlb_stats m)),
     write_unknown_fields rt (CgroupStats_unknown_fields m)]"

definition CgroupStats_ok :: "'u runtime \<Rightarrow> 'u pb_CgroupStats \<Rightarrow> bool" where
  "CgroupStats_ok rt m \<longleftrightarrow> CgroupStats_unknown_fields m = no_unknown rt \<and>
     pred_option (CpuStats_ok rt) (CgroupStats_cpu_stats m) \<and>
     pred_option (MemoryStats_ok rt) (CgroupStats_memory_stats m) \<and>
     pred_option (PidsStats_ok rt) (CgroupStats_pids_stats m) \<and>
     pred_option (BlkioStats_ok rt) (CgroupStats_blkio_stats m) \<and>
     list_all (\<lambda>(k, v). utf8 k \<and> HugetlbStats_ok rt v) (CgroupStats_hugetlb_stats m) \<and>
     distinct (map fst (CgroupStats_hugetlb_stats m))"

lemma CgroupStats_arm:
  "CgroupStats_arms rt 1 = message_into rt CpuStats_merge_from CpuStats_new CgroupStats_cpu_stats CgroupStats_cpu_stats_update"
  "CgroupStats_arms rt 2 = message_into rt MemoryStats_merge_from MemoryStats_new CgroupStats_memory_stats CgroupStats_memory_stats_update"
  "CgroupStats_arms rt 3 = message_into rt PidsStats_merge_from PidsStats_new CgroupStats_pids_stats CgroupStats_pids_stats_update"
  "CgroupStats_arms rt 4 = message_into rt BlkioStats_merge_from BlkioStats_new CgroupStats_blkio_stats CgroupStats_blkio_stats_update"
  "CgroupStats_arms rt 5 = message_map_into rt HugetlbStats_merge_from HugetlbStats_new CgroupStats_hugetlb_stats_update"
  by (simp_all add: CgroupStats_arms_def)

interpretation CgroupStats_pb: message CgroupStats_new CgroupStats_merge_from CgroupStats_compute_size CgroupStats_write_to CgroupStats_ok CgroupStats_clear
  by (rule messageI [OF CgroupStats_merge_from_def], simp add: CgroupStats_clear_def CgroupStats_new_def,
      unfold CgroupStats_arms_def, (rule robust_if robust_rules CpuStats_pb.robust_field MemoryStats_pb.robust_field PidsStats_pb.robust_field
        BlkioStats_pb.robust_field HugetlbStats_pb.robust_field | assumption | simp only: if_distribR)+,
      unfold CgroupStats_compute_size_def CgroupStats_write_to_def CgroupStats_ok_def, rule codes_to,
      (rule field_rules CpuStats_pb.message_field MemoryStats_pb.message_field PidsStats_pb.message_field
        BlkioStats_pb.message_field HugetlbStats_pb.message_map_field CgroupStats_arm | assumption
        | simp add: field_number_def tag_len_def CgroupStats_new_def)+)

section \<open>\<open>NetworkStats\<close>\<close>

record 'u pb_NetworkStats =
  NetworkStats_name :: string
  NetworkStats_rx_bytes :: u64
  NetworkStats_rx_packets :: u64
  NetworkStats_rx_errors :: u64
  NetworkStats_rx_dropped :: u64
  NetworkStats_tx_bytes :: u64
  NetworkStats_tx_packets :: u64
  NetworkStats_tx_errors :: u64
  NetworkStats_tx_dropped :: u64
  NetworkStats_unknown_fields :: 'u

definition NetworkStats_new :: "'u runtime \<Rightarrow> 'u pb_NetworkStats" where
  "NetworkStats_new rt = \<lparr>NetworkStats_name = [], NetworkStats_rx_bytes = 0, NetworkStats_rx_packets = 0, NetworkStats_rx_errors = 0, NetworkStats_rx_dropped = 0, NetworkStats_tx_bytes = 0, NetworkStats_tx_packets = 0, NetworkStats_tx_errors = 0, NetworkStats_tx_dropped = 0, NetworkStats_unknown_fields = no_unknown rt\<rparr>"

definition NetworkStats_clear :: "'u runtime \<Rightarrow> 'u pb_NetworkStats \<Rightarrow> 'u pb_NetworkStats" where
  "NetworkStats_clear rt m = m\<lparr>NetworkStats_name := [], NetworkStats_rx_bytes := 0, NetworkStats_rx_packets := 0, NetworkStats_rx_errors := 0, NetworkStats_rx_dropped := 0, NetworkStats_tx_bytes := 0, NetworkStats_tx_packets := 0, NetworkStats_tx_errors := 0, NetworkStats_tx_dropped := 0, NetworkStats_unknown_fields := no_unknown rt\<rparr>"

definition NetworkStats_is_initialized :: "'u pb_NetworkStats \<Rightarrow> bool" where
  "NetworkStats_is_initialized m \<longleftrightarrow> True"

definition NetworkStats_arms :: "'u runtime \<Rightarrow> u32 \<Rightarrow> 'u pb_NetworkStats arm" where
  "NetworkStats_arms rt n =
     (if n = 1 then singular_into (read_string rt) NetworkStats_name_update
      else if n = 2 then varint_into rt (read_uint64 rt) NetworkStats_rx_bytes_update
      else if n = 3 then varint_into rt (read_uint64 rt) NetworkStats_rx_packets_update
      else if n = 4 then varint_into rt (read_uint64 rt) NetworkStats_rx_errors_update
      else if n = 5 then varint_into rt (read_uint64 rt) NetworkStats_rx_dropped_update
      else if n = 6 then varint_into rt (read_uint64 rt) NetworkStats_tx_bytes_update
      else if n = 7 then varint_into rt (read_uint64 rt) NetworkStats_tx_packets_update
      else if n = 8 then varint_into rt (read_uint64 rt) NetworkStats_tx_errors_update
      else if n = 9 then varint_into rt (read_uint64 rt) NetworkStats_tx_dropped_update
      else unknown_into rt n NetworkStats_unknown_fields NetworkStats_unknown_fields_update)"

definition NetworkStats_merge_from :: "'u runtime \<Rightarrow> 'u pb_NetworkStats \<Rightarrow> 'u pb_NetworkStats reader" where
  "NetworkStats_merge_from rt = merge_fields rt (NetworkStats_arms rt)"

definition NetworkStats_compute_size :: "'u runtime \<Rightarrow> 'u pb_NetworkStats \<Rightarrow> u32" where
  "NetworkStats_compute_size rt m = sum_list [
     whenS (NetworkStats_name m \<noteq> []) (string_size rt 1 (NetworkStats_name m)),
     whenS (NetworkStats_rx_bytes m \<noteq> 0) (size_uint64 rt 2 (NetworkStats_rx_bytes m)),
     whenS (NetworkStats_rx_packets m \<noteq> 0) (size_uint64 rt 3 (NetworkStats_rx_packets m)),
     whenS (NetworkStats_rx_errors m \<noteq> 0) (size_uint64 rt 4 (NetworkStats_rx_errors m)),
     whenS (NetworkStats_rx_dropped m \<noteq> 0) (size_uint64 rt 5 (NetworkStats_rx_dropped m)),
     whenS (NetworkStats_tx_bytes m \<noteq> 0) (size_uint64 rt 6 (NetworkStats_tx_bytes m)),
     whenS (NetworkStats_tx_packets m \<noteq> 0) (size_uint64 rt 7 (NetworkStats_tx_packets m)),
     whenS (NetworkStats_tx_errors m \<noteq> 0) (size_uint64 rt 8 (NetworkStats_tx_errors m)),
     whenS (NetworkStats_tx_dropped m \<noteq> 0) (size_uint64 rt 9 (NetworkStats_tx_dropped m)),
     unknown_fields_size rt (NetworkStats_unknown_fields m)]"

definition NetworkStats_write_to :: "'u runtime \<Rightarrow> 'u pb_NetworkStats \<Rightarrow> bytes res" where
  "NetworkStats_write_to rt m = catW [
     whenW (NetworkStats_name m \<noteq> []) (write_string rt 1 (NetworkStats_name m)),
     whenW (NetworkStats_rx_bytes m \<noteq> 0) (write_uint64 rt 2 (NetworkStats_rx_bytes m)),
     whenW (NetworkStats_rx_packets m \<noteq> 0) (write_uint64 rt 3 (NetworkStats_rx_packets m)),
     whenW (NetworkStats_rx_errors m \<noteq> 0) (write_uint64 rt 4 (NetworkStats_rx_errors m)),
     whenW (NetworkStats_rx_dropped m \<noteq> 0) (write_uint64 rt 5 (NetworkStats_rx_dropped m)),
     whenW (NetworkStats_tx_bytes m \<noteq> 0) (write_uint64 rt 6 (NetworkStats_tx_bytes m)),
     whenW (NetworkStats_tx_packets m \<noteq> 0) (write_uint64 rt 7 (NetworkStats_tx_packets m)),
     whenW (NetworkStats_tx_errors m \<noteq> 0) (write_uint64 rt 8 (NetworkStats_tx_errors m)),
     whenW (NetworkStats_tx_dropped m \<noteq> 0) (write_uint64 rt 9 (NetworkStats_tx_dropped m)),
     write_unknown_fields rt (NetworkStats_unknown_fields m)]"

definition NetworkStats_ok :: "'u runtime \<Rightarrow> 'u pb_NetworkStats \<Rightarrow> bool" where
  "NetworkStats_ok rt m \<longleftrightarrow> NetworkStats_unknown_fields m = no_unknown rt \<and>
     utf8 (NetworkStats_name m)"

lemma NetworkStats_arm:
  "NetworkStats_arms rt 1 = singular_into (read_string rt) NetworkStats_name_update"
  "NetworkStats_arms rt 2 = varint_into rt (read_uint64 rt) NetworkStats_rx_bytes_update"
  "NetworkStats_arms rt 3 = varint_into rt (read_uint64 rt) NetworkStats_rx_packets_update"
  "NetworkStats_arms rt 4 = varint_into rt (read_uint64 rt) NetworkStats_rx_errors_update"
  "NetworkStats_arms rt 5 = varint_into rt (read_uint64 rt) NetworkStats_rx_dropped_update"
  "NetworkStats_arms rt 6 = varint_into rt (read_uint64 rt) NetworkStats_tx_bytes_update"
  "NetworkStats_arms rt 7 = varint_into rt (read_uint64 rt) NetworkStats_tx_packets_update"
  "NetworkStats_arms rt 8 = varint_into rt (read_uint64 rt) NetworkStats_tx_errors_update"
  "NetworkStats_arms rt 9 = varint_into rt (read_uint64 rt) NetworkStats_tx_dropped_update"
  by (simp_all add: NetworkStats_arms_def)

interpretation NetworkStats_pb: message NetworkStats_new NetworkStats_merge_from NetworkStats_compute_size NetworkStats_write_to NetworkStats_ok NetworkStats_clear
  by (rule messageI [OF NetworkStats_merge_from_def], simp add: NetworkStats_clear_def NetworkStats_new_def,
      unfold NetworkStats_arms_def, (rule robust_if robust_rules | assumption | simp only: if_distribR)+,
      unfold NetworkStats_compute_size_def NetworkStats_write_to_def NetworkStats_ok_def, rule codes_to,
      (rule field_rules NetworkStats_arm | assumption
        | simp add: field_number_def tag_len_def NetworkStats_new_def)+)

section \<open>\<open>StatsContainerResponse\<close>\<close>

record 'u pb_StatsContainerResponse =
  StatsContainerResponse_cgroup_stats :: "'u pb_CgroupStats option"
  StatsContainerResponse_network_stats :: "'u pb_NetworkStats list"
  StatsContainerResponse_unknown_fields :: 'u

definition StatsContainerResponse_new :: "'u runtime \<Rightarrow> 'u pb_StatsContainerResponse" where
  "StatsContainerResponse_new rt = \<lparr>StatsContainerResponse_cgroup_stats = None, StatsContainerResponse_network_stats = [], StatsContainerResponse_unknown_fields = no_unknown rt\<rparr>"

definition StatsContainerResponse_clear :: "'u runtime \<Rightarrow> 'u pb_StatsContainerResponse \<Rightarrow> 'u pb_StatsContainerResponse" where
  "StatsContainerResponse_clear rt m = m\<lparr>StatsContainerResponse_cgroup_stats := None, StatsContainerResponse_network_stats := [], StatsContainerResponse_unknown_fields := no_unknown rt\<rparr>"

definition StatsContainerResponse_is_initialized :: "'u pb_StatsContainerResponse \<Rightarrow> bool" where
  "StatsContainerResponse_is_initialized m \<longleftrightarrow> pred_option CgroupStats_is_initialized (StatsContainerResponse_cgroup_stats m) \<and> list_all NetworkStats_is_initialized (StatsContainerResponse_network_stats m)"

definition StatsContainerResponse_arms :: "'u runtime \<Rightarrow> u32 \<Rightarrow> 'u pb_StatsContainerResponse arm" where
  "StatsContainerResponse_arms rt n =
     (if n = 1 then message_into rt CgroupStats_merge_from CgroupStats_new StatsContainerResponse_cgroup_stats StatsContainerResponse_cgroup_stats_update
      else if n = 2 then messages_into rt NetworkStats_merge_from NetworkStats_new StatsContainerResponse_network_stats_update
      else unknown_into rt n StatsContainerResponse_unknown_fields StatsContainerResponse_unknown_fields_update)"

definition StatsContainerResponse_merge_from :: "'u runtime \<Rightarrow> 'u pb_StatsContainerResponse \<Rightarrow> 'u pb_StatsContainerResponse reader" where
  "StatsContainerResponse_merge_from rt = merge_fields rt (StatsContainerResponse_arms rt)"

definition StatsContainerResponse_compute_size :: "'u runtime \<Rightarrow> 'u pb_StatsContainerResponse \<Rightarrow> u32" where
  "StatsContainerResponse_compute_size rt m = sum_list [
     optS (StatsContainerResponse_cgroup_stats m) (\<lambda>v. embedded_size rt 1 (CgroupStats_compute_size rt v)),
     eachS (StatsContainerResponse_network_stats m) (\<lambda>v. embedded_size rt 1 (NetworkStats_compute_size rt v)),
     unknown_fields_size rt (StatsContainerResponse_unknown_fields m)]"

definition StatsContainerResponse_write_to :: "'u runtime \<Rightarrow> 'u pb_StatsContainerResponse \<Rightarrow> bytes res" where
  "StatsContainerResponse_write_to rt m = catW [
     optW (StatsContainerResponse_cgroup_stats m) (\<lambda>v. write_embedded rt 1 (CgroupStats_compute_size rt v) (CgroupStats_write_to rt v)),
     eachW (StatsContainerResponse_network_stats m) (\<lambda>v. write_embedded rt 2 (NetworkStats_compute_size rt v) (NetworkStats_write_to rt v)),
     write_unknown_fields rt (StatsContainerResponse_unknown_fields m)]"

definition StatsContainerResponse_ok :: "'u runtime \<Rightarrow> 'u pb_StatsContainerResponse \<Rightarrow> bool" where
  "StatsContainerResponse_ok rt m \<longleftrightarrow> StatsContainerResponse_unknown_fields m = no_unknown rt \<and>
     pred_option (CgroupStats_ok rt) (StatsContainerResponse_cgroup_stats m) \<and>
     list_all (NetworkStats_ok rt) (StatsContainerResponse_network_stats m)"

lemma StatsContainerResponse_arm:
  "StatsContainerResponse_arms rt 1 = message_into rt CgroupStats_merge_from CgroupStats_new StatsContainerResponse_cgroup_stats StatsContainerResponse_cgroup_stats_update"
  "StatsContainerResponse_arms rt 2 = messages_into rt NetworkStats_merge_from NetworkStats_new StatsContainerResponse_network_stats_update"
  by (simp_all add: StatsContainerResponse_arms_def)

interpretation StatsContainerResponse_pb: message StatsContainerResponse_new StatsContainerResponse_merge_from StatsContainerResponse_compute_size StatsContainerResponse_write_to StatsContainerResponse_ok StatsContainerResponse_clear
  by (rule messageI [OF StatsContainerResponse_merge_from_def], simp add: StatsContainerResponse_clear_def StatsContainerResponse_new_def,
      unfold StatsContainerResponse_arms_def, (rule robust_if robust_rules CgroupStats_pb.robust_field NetworkStats_pb.robust_field | assumption | simp only: if_distribR)+,
      unfold StatsContainerResponse_compute_size_def StatsContainerResponse_write_to_def StatsContainerResponse_ok_def, rule codes_to,
      (rule field_rules CgroupStats_pb.message_field NetworkStats_pb.messages_field StatsContainerResponse_arm | assumption
        | simp add: field_number_def tag_len_def StatsContainerResponse_new_def)+)

section \<open>\<open>WriteStreamRequest\<close>\<close>

record 'u pb_WriteStreamRequest =
  WriteStreamRequest_container_id :: string
  WriteStreamRequest_exec_id :: string
  WriteStreamRequest_data :: bytes
  WriteStreamRequest_unknown_fields :: 'u

definition WriteStreamRequest_new :: "'u runtime \<Rightarrow> 'u pb_WriteStreamRequest" where
  "WriteStreamRequest_new rt = \<lparr>WriteStreamRequest_container_id = [], WriteStreamRequest_exec_id = [], WriteStreamRequest_data = [], WriteStreamRequest_unknown_fields = no_unknown rt\<rparr>"

definition WriteStreamRequest_clear :: "'u runtime \<Rightarrow> 'u pb_WriteStreamRequest \<Rightarrow> 'u pb_WriteStreamRequest" where
  "WriteStreamRequest_clear rt m = m\<lparr>WriteStreamRequest_container_id := [], WriteStreamRequest_exec_id := [], WriteStreamRequest_data := [], WriteStreamRequest_unknown_fields := no_unknown rt\<rparr>"

definition WriteStreamRequest_is_initialized :: "'u pb_WriteStreamRequest \<Rightarrow> bool" where
  "WriteStreamRequest_is_initialized m \<longleftrightarrow> True"

definition WriteStreamRequest_arms :: "'u runtime \<Rightarrow> u32 \<Rightarrow> 'u pb_WriteStreamRequest arm" where
  "WriteStreamRequest_arms rt n =
     (if n = 1 then singular_into (read_string rt) WriteStreamRequest_container_id_update
      else if n = 2 then singular_into (read_string rt) WriteStreamRequest_exec_id_update
      else if n = 3 then singular_into (read_bytes rt) WriteStreamRequest_data_update
      else unknown_into rt n WriteStreamRequest_unknown_fields WriteStreamRequest_unknown_fields_update)"

definition WriteStreamRequest_merge_from :: "'u runtime \<Rightarrow> 'u pb_WriteStreamRequest \<Rightarrow> 'u pb_WriteStreamRequest reader" where
  "WriteStreamRequest_merge_from rt = merge_fields rt (WriteStreamRequest_arms rt)"

definition WriteStreamRequest_compute_size :: "'u runtime \<Rightarrow> 'u pb_WriteStreamRequest \<Rightarrow> u32" where
  "WriteStreamRequest_compute_size rt m = sum_list [
     whenS (WriteStreamRequest_container_id m \<noteq> []) (string_size rt 1 (WriteStreamRequest_container_id m)),
     whenS (WriteStreamRequest_exec_id m \<noteq> []) (string_size rt 2 (WriteStreamRequest_exec_id m)),
     whenS (WriteStreamRequest_data m \<noteq> []) (bytes_size rt 3 (WriteStreamRequest_data m)),
     unknown_fields_size rt (WriteStreamRequest_unknown_fields m)]"

definition WriteStreamRequest_write_to :: "'u runtime \<Rightarrow> 'u pb_WriteStreamRequest \<Rightarrow> bytes res" where
  "WriteStreamRequest_write_to rt m = catW [
     whenW (WriteStreamRequest_container_id m \<noteq> []) (write_string rt 1 (WriteStreamRequest_container_id m)),
     whenW (WriteStreamRequest_exec_id m \<noteq> []) (write_string rt 2 (WriteStreamRequest_exec_id m)),
     whenW (WriteStreamRequest_data m \<noteq> []) (write_bytes rt 3 (WriteStreamRequest_data m)),
     write_unknown_fields rt (WriteStreamRequest_unknown_fields m)]"

definition WriteStreamRequest_ok :: "'u runtime \<Rightarrow> 'u pb_WriteStreamRequest \<Rightarrow> bool" where
  "WriteStreamRequest_ok rt m \<longleftrightarrow> WriteStreamRequest_unknown_fields m = no_unknown rt \<and>
     utf8 (WriteStreamRequest_container_id m) \<and>
     utf8 (WriteStreamRequest_exec_id m)"

lemma WriteStreamRequest_arm:
  "WriteStreamRequest_arms rt 1 = singular_into (read_string rt) WriteStreamRequest_container_id_update"
  "WriteStreamRequest_arms rt 2 = singular_into (read_string rt) WriteStreamRequest_exec_id_update"
  "WriteStreamRequest_arms rt 3 = singular_into (read_bytes rt) WriteStreamRequest_data_update"
  by (simp_all add: WriteStreamRequest_arms_def)

interpretation WriteStreamRequest_pb: message WriteStreamRequest_new WriteStreamRequest_merge_from WriteStreamRequest_compute_size WriteStreamRequest_write_to WriteStreamRequest_ok WriteStreamRequest_clear
  by (rule messageI [OF WriteStreamRequest_merge_from_def], simp add: WriteStreamRequest_clear_def WriteStreamRequest_new_def,
      unfold WriteStreamRequest_arms_def, (rule robust_if robust_rules | assumption | simp only: if_distribR)+,
      unfold WriteStreamRequest_compute_size_def WriteStreamRequest_write_to_def WriteStreamRequest_ok_def, rule codes_to,
      (rule field_rules WriteStreamRequest_arm | assumption
        | simp add: field_number_def tag_len_def WriteStreamRequest_new_def)+)

section \<open>\<open>WriteStreamResponse\<close>\<close>

record 'u pb_WriteStreamResponse =
  WriteStreamResponse_len :: u32
  WriteStreamResponse_unknown_fields :: 'u

definition WriteStreamResponse_new :: "'u runtime \<Rightarrow> 'u pb_WriteStreamResponse" where
  "WriteStreamResponse_new rt = \<lparr>WriteStreamResponse_len = 0, WriteStreamResponse_unknown_fields = no_unknown rt\<rparr>"

definition WriteStreamResponse_clear :: "'u runtime \<Rightarrow> 'u pb_WriteStreamResponse \<Rightarrow> 'u pb_WriteStreamResponse" where
  "WriteStreamResponse_clear rt m = m\<lparr>WriteStreamResponse_len := 0, WriteStreamResponse_unknown_fields := no_unknown rt\<rparr>"

definition WriteStreamResponse_is_initialized :: "'u pb_WriteStreamResponse \<Rightarrow> bool" where
  "WriteStreamResponse_is_initialized m \<longleftrightarrow> True"

definition WriteStreamResponse_arms :: "'u runtime \<Rightarrow> u32 \<Rightarrow> 'u pb_WriteStreamResponse arm" where
  "WriteStreamResponse_arms rt n =
     (if n = 1 then varint_into rt (read_uint32 rt) WriteStreamResponse_len_update
      else unknown_into rt n WriteStreamResponse_unknown_fields WriteStreamResponse_unknown_fields_update)"

definition WriteStreamResponse_merge_from :: "'u runtime \<Rightarrow> 'u pb_WriteStreamResponse \<Rightarrow> 'u pb_WriteStreamResponse reader" where
  "WriteStreamResponse_merge_from rt = merge_fields rt (WriteStreamResponse_arms rt)"

definition WriteStreamResponse_compute_size :: "'u runtime \<Rightarrow> 'u pb_WriteStreamResponse \<Rightarrow> u32" where
  "WriteStreamResponse_compute_size rt m = sum_list [
     whenS (WriteStreamResponse_len m \<noteq> 0) (size_uint32 rt 1 (WriteStreamResponse_len m)),
     unknown_fields_size rt (WriteStreamResponse_unknown_fields m)]"

definition WriteStreamResponse_write_to :: "'u runtime \<Rightarrow> 'u pb_WriteStreamResponse \<Rightarrow> bytes res" where
  "WriteStreamResponse_write_to rt m = catW [
     whenW (WriteStreamResponse_len m \<noteq> 0) (write_uint32 rt 1 (WriteStreamResponse_len m)),
     write_unknown_fields rt (WriteStreamResponse_unknown_fields m)]"

definition WriteStreamResponse_ok :: "'u runtime \<Rightarrow> 'u pb_WriteStreamResponse \<Rightarrow> bool" where
  "WriteStreamResponse_ok rt m \<longleftrightarrow> WriteStreamResponse_unknown_fields m = no_unknown rt"

lemma WriteStreamResponse_arm:
  "WriteStreamResponse_arms rt 1 = varint_into rt (read_uint32 rt) WriteStreamResponse_len_update"
  by (simp_all add: WriteStreamResponse_arms_def)

interpretation WriteStreamResponse_pb: message WriteStreamResponse_new WriteStreamResponse_merge_from WriteStreamResponse_compute_size WriteStreamResponse_write_to WriteStreamResponse_ok WriteStreamResponse_clear
  by (rule messageI [OF WriteStreamResponse_merge_from_def], simp add: WriteStreamResponse_clear_def WriteStreamResponse_new_def,
      unfold WriteStreamResponse_arms_def, (rule robust_if robust_rules | assumption | simp only: if_distribR)+,
      unfold WriteStreamResponse_compute_size_def WriteStreamResponse_write_to_def WriteStreamResponse_ok_def, rule codes_to,
      (rule field_rules WriteStreamResponse_arm | assumption
        | simp add: field_number_def tag_len_def WriteStreamResponse_new_def)+)

section \<open>\<open>ReadStreamRequest\<close>\<close>

record 'u pb_ReadStreamRequest =
  ReadStreamRequest_container_id :: string
  ReadStreamRequest_exec_id :: string
  ReadStreamRequest_len :: u32
  ReadStreamRequest_unknown_fields :: 'u

definition ReadStreamRequest_new :: "'u runtime \<Rightarrow> 'u pb_ReadStreamRequest" where
  "ReadStreamRequest_new rt = \<lparr>ReadStreamRequest_container_id = [], ReadStreamRequest_exec_id = [], ReadStreamRequest_len = 0, ReadStreamRequest_unknown_fields = no_unknown rt\<rparr>"

definition ReadStreamRequest_clear :: "'u runtime \<Rightarrow> 'u pb_ReadStreamRequest \<Rightarrow> 'u pb_ReadStreamRequest" where
  "ReadStreamRequest_clear rt m = m\<lparr>ReadStreamRequest_container_id := [], ReadStreamRequest_exec_id := [], ReadStreamRequest_len := 0, ReadStreamRequest_unknown_fields := no_unknown rt\<rparr>"

definition ReadStreamRequest_is_initialized :: "'u pb_ReadStreamRequest \<Rightarrow> bool" where
  "ReadStreamRequest_is_initialized m \<longleftrightarrow> True"

definition ReadStreamRequest_arms :: "'u runtime \<Rightarrow> u32 \<Rightarrow> 'u pb_ReadStreamRequest arm" where
  "ReadStreamRequest_arms rt n =
     (if n = 1 then singular_into (read_string rt) ReadStreamRequest_container_id_update
      else if n = 2 then singular_into (read_string rt) ReadStreamRequest_exec_id_update
      else if n = 3 then varint_into rt (read_uint32 rt) ReadStreamRequest_len_update
      else unknown_into rt n ReadStreamRequest_unknown_fields ReadStreamRequest_unknown_fields_update)"

definition ReadStreamRequest_merge_from :: "'u runtime \<Rightarrow> 'u pb_ReadStreamRequest \<Rightarrow> 'u pb_ReadStreamRequest reader" where
  "ReadStreamRequest_merge_from rt = merge_fields rt (ReadStreamRequest_arms rt)"

definition ReadStreamRequest_compute_size :: "'u runtime \<Rightarrow> 'u pb_ReadStreamRequest \<Rightarrow> u32" where
  "ReadStreamRequest_compute_size rt m = sum_list [
     whenS (ReadStreamRequest_container_id m \<noteq> []) (string_size rt 1 (ReadStreamRequest_container_id m)),
     whenS (ReadStreamRequest_exec_id m \<noteq> []) (string_size rt 2 (ReadStreamRequest_exec_id m)),
     whenS (ReadStreamRequest_len m \<noteq> 0) (size_uint32 rt 3 (ReadStreamRequest_len m)),
     unknown_fields_size rt (ReadStreamRequest_unknown_fields m)]"

definition ReadStreamRequest_write_to :: "'u runtime \<Rightarrow> 'u pb_ReadStreamRequest \<Rightarrow> bytes res" where
  "ReadStreamRequest_write_to rt m = catW [
     whenW (ReadStreamRequest_container_id m \<noteq> []) (write_string rt 1 (ReadStreamRequest_container_id m)),
     whenW (ReadStreamRequest_exec_id m \<noteq> []) (write_string rt 2 (ReadStreamRequest_exec_id m)),
     whenW (ReadStreamRequest_len m \<noteq> 0) (write_uint32 rt 3 (ReadStreamRequest_len m)),
     write_unknown_fields rt (ReadStreamRequest_unknown_fields m)]"

definition ReadStreamRequest_ok :: "'u runtime \<Rightarrow> 'u pb_ReadStreamRequest \<Rightarrow> bool" where
  "ReadStreamRequest_ok rt m \<longleftrightarrow> ReadStreamRequest_unknown_fields m = no_unknown rt \<and>
     utf8 (ReadStreamRequest_container_id m) \<and>
     utf8 (ReadStreamRequest_exec_id m)"

lemma ReadStreamRequest_arm:
  "ReadStreamRequest_arms rt 1 = singular_into (read_string rt) ReadStreamRequest_container_id_update"
  "ReadStreamRequest_arms rt 2 = singular_into (read_string rt) ReadStreamRequest_exec_id_update"
  "ReadStreamRequest_arms rt 3 = varint_into rt (read_uint32 rt) ReadStreamRequest_len_update"
  by (simp_all add: ReadStreamRequest_arms_def)

interpretation ReadStreamRequest_pb: message ReadStreamRequest_new ReadStreamRequest_merge_from ReadStreamRequest_compute_size ReadStreamRequest_write_to ReadStreamRequest_ok ReadStreamRequest_clear
  by (rule messageI [OF ReadStreamRequest_merge_from_def], simp add: ReadStreamRequest_clear_def ReadStreamRequest_new_def,
      unfold ReadStreamRequest_arms_def, (rule robust_if robust_rules | assumption | simp only: if_distribR)+,
      unfold ReadStreamRequest_compute_size_def ReadStreamRequest_write_to_def ReadStreamRequest_ok_def, rule codes_to,
      (rule field_rules ReadStreamRequest_arm | assumption
        | simp add: field_number_def tag_len_def ReadStreamRequest_new_def)+)

section \<open>\<open>ReadStreamResponse\<close>\<close>

record 'u pb_ReadStreamResponse =
  ReadStreamResponse_data :: bytes
  ReadStreamResponse_unknown_fields :: 'u

definition ReadStreamResponse_new :: "'u runtime \<Rightarrow> 'u pb_ReadStreamResponse" where
  "ReadStreamResponse_new rt = \<lparr>ReadStreamResponse_data = [], ReadStreamResponse_unknown_fields = no_unknown rt\<rparr>"

definition ReadStreamResponse_clear :: "'u runtime \<Rightarrow> 'u pb_ReadStreamResponse \<Rightarrow> 'u pb_ReadStreamResponse" where
  "ReadStreamResponse_clear rt m = m\<lparr>ReadStreamResponse_data := [], ReadStreamResponse_unknown_fields := no_unknown rt\<rparr>"

definition ReadStreamResponse_is_initialized :: "'u pb_ReadStreamResponse \<Rightarrow> bool" where
  "ReadStreamResponse_is_initialized m \<longleftrightarrow> True"

definition ReadStreamResponse_arms :: "'u runtime \<Rightarrow> u32 \<Rightarrow> 'u pb_ReadStreamResponse arm" where
  "ReadStreamResponse_arms rt n =
     (if n = 1 then singular_into (read_bytes rt) ReadStreamResponse_data_update
      else unknown_into rt n ReadStreamResponse_unknown_fields ReadStreamResponse_unknown_fields_update)"

definition ReadStreamResponse_merge_from :: "'u runtime \<Rightarrow> 'u pb_ReadStreamResponse \<Rightarrow> 'u pb_ReadStreamResponse reader" where
  "ReadStreamResponse_merge_from rt = merge_fields rt (ReadStreamResponse_arms rt)"

definition ReadStreamResponse_compute_size :: "'u runtime \<Rightarrow> 'u pb_ReadStreamResponse \<Rightarrow> u32" where
  "ReadStreamResponse_compute_size rt m = sum_list [
     whenS (ReadStreamResponse_data m \<noteq> []) (bytes_size rt 1 (ReadStreamResponse_data m)),
     unknown_fields_size rt (ReadStreamResponse_unknown_fields m)]"

definition ReadStreamResponse_write_to :: "'u runtime \<Rightarrow> 'u pb_ReadStreamResponse \<Rightarrow> bytes res" where
  "ReadStreamResponse_write_to rt m = catW [
     whenW (ReadStreamResponse_data m \<noteq> []) (write_bytes rt 1 (ReadStreamResponse_data m)),
     write_unknown_fields rt (ReadStreamResponse_unknown_fields m)]"

definition ReadStreamResponse_ok :: "'u runtime \<Rightarrow> 'u pb_ReadStreamResponse \<Rightarrow> bool" where
  "ReadStreamResponse_ok rt m \<longleftrightarrow> ReadStreamResponse_unknown_fields m = no_unknown rt"

lemma ReadStreamResponse_arm:
  "ReadStreamResponse_arms rt 1 = singular_into (read_bytes rt) ReadStreamResponse_data_update"
  by (simp_all add: ReadStreamResponse_arms_def)

interpretation ReadStreamResponse_pb: message ReadStreamResponse_new ReadStreamResponse_merge_from ReadStreamResponse_compute_size ReadStreamResponse_write_to ReadStreamResponse_ok ReadStreamResponse_clear
  by (rule messageI [OF ReadStreamResponse_merge_from_def], simp add: ReadStreamResponse_clear_def ReadStreamResponse_new_def,
      unfold ReadStreamResponse_arms_def, (rule robust_if robust_rules | assumption | simp only: if_distribR)+,
      unfold ReadStreamResponse_compute_size_def ReadStreamResponse_write_to_def ReadStreamResponse_ok_def, rule codes_to,
      (rule field_rules ReadStreamResponse_arm | assumption
        | simp add: field_number_def tag_len_def ReadStreamResponse_new_def)+)

section \<open>\<open>CloseStdinRequest\<close>\<close>

record 'u pb_CloseStdinRequest =
  CloseStdinRequest_container_id :: string
  CloseStdinRequest_exec_id :: string
  CloseStdinRequest_unknown_fields :: 'u

definition CloseStdinRequest_new :: "'u runtime \<Rightarrow> 'u pb_CloseStdinRequest" where
  "CloseStdinRequest_new rt = \<lparr>CloseStdinRequest_container_id = [], CloseStdinRequest_exec_id = [], CloseStdinRequest_unknown_fields = no_unknown rt\<rparr>"

definition CloseStdinRequest_clear :: "'u runtime \<Rightarrow> 'u pb_CloseStdinRequest \<Rightarrow> 'u pb_CloseStdinRequest" where
  "CloseStdinRequest_clear rt m = m\<lparr>CloseStdinRequest_container_id := [], CloseStdinRequest_exec_id := [], CloseStdinRequest_unknown_fields := no_unknown rt\<rparr>"

definition CloseStdinRequest_is_initialized :: "'u pb_CloseStdinRequest \<Rightarrow> bool" where
  "CloseStdinRequest_is_initialized m \<longleftrightarrow> True"

definition CloseStdinRequest_arms :: "'u runtime \<Rightarrow> u32 \<Rightarrow> 'u pb_CloseStdinRequest arm" where
  "CloseStdinRequest_arms rt n =
     (if n = 1 then singular_into (read_string rt) CloseStdinRequest_container_id_update
      else if n = 2 then singular_into (read_string rt) CloseStdinRequest_exec_id_update
      else unknown_into rt n CloseStdinRequest_unknown_fields CloseStdinRequest_unknown_fields_update)"

definition CloseStdinRequest_merge_from :: "'u runtime \<Rightarrow> 'u pb_CloseStdinRequest \<Rightarrow> 'u pb_CloseStdinRequest reader" where
  "CloseStdinRequest_merge_from rt = merge_fields rt (CloseStdinRequest_arms rt)"

definition CloseStdinRequest_compute_size :: "'u runtime \<Rightarrow> 'u pb_CloseStdinRequest \<Rightarrow> u32" where
  "CloseStdinRequest_compute_size rt m = sum_list [
     whenS (CloseStdinRequest_container_id m \<noteq> []) (string_size rt 1 (CloseStdinRequest_container_id m)),
     whenS (CloseStdinRequest_exec_id m \<noteq> []) (string_size rt 2 (CloseStdinRequest_exec_id m)),
     unknown_fields_size rt (CloseStdinRequest_unknown_fields m)]"

definition CloseStdinRequest_write_to :: "'u runtime \<Rightarrow> 'u pb_CloseStdinRequest \<Rightarrow> bytes res" where
  "CloseStdinRequest_write_to rt m = catW [
     whenW (CloseStdinRequest_container_id m \<noteq> []) (write_string rt 1 (CloseStdinRequest_container_id m)),
     whenW (CloseStdinRequest_exec_id m \<noteq> []) (write_string rt 2 (CloseStdinRequest_exec_id m)),
     write_unknown_fields rt (CloseStdinRequest_unknown_fields m)]"

definition CloseStdinRequest_ok :: "'u runtime \<Rightarrow> 'u pb_CloseStdinRequest \<Rightarrow> bool" where
  "CloseStdinRequest_ok rt m \<longleftrightarrow> CloseStdinRequest_unknown_fields m = no_unknown rt \<and>
     utf8 (CloseStdinRequest_container_id m) \<and>
     utf8 (CloseStdinRequest_exec_id m)"

lemma CloseStdinRequest_arm:
  "CloseStdinRequest_arms rt 1 = singular_into (read_string rt) CloseStdinRequest_container_id_update"
  "CloseStdinRequest_arms rt 2 = singular_into (read_string rt) CloseStdinRequest_exec_id_update"
  by (simp_all add: CloseStdinRequest_arms_def)

interpretation CloseStdinRequest_pb: message CloseStdinRequest_new CloseStdinRequest_merge_from CloseStdinRequest_compute_size CloseStdinRequest_write_to CloseStdinRequest_ok CloseStdinRequest_clear
  by (rule messageI [OF CloseStdinRequest_merge_from_def], simp add: CloseStdinRequest_clear_def CloseStdinRequest_new_def,
      unfold CloseStdinRequest_arms_def, (rule robust_if robust_rules | assumption | simp only: if_distribR)+,
      unfold CloseStdinRequest_compute_size_def CloseStdinRequest_write_to_def CloseStdinRequest_ok_def, rule codes_to,
      (rule field_rules CloseStdinRequest_arm | assumption
        | simp add: field_number_def tag_len_def CloseStdinRequest_new_def)+)

section \<open>\<open>TtyWinResizeRequest\<close>\<close>

record 'u pb_TtyWinResizeRequest =
  TtyWinResizeRequest_container_id :: string
  TtyWinResizeRequest_exec_id :: string
  TtyWinResizeRequest_row :: u32
  TtyWinResizeRequest_column :: u32
  TtyWinResizeRequest_unknown_fields :: 'u

definition TtyWinResizeRequest_new :: "'u runtime \<Rightarrow> 'u pb_TtyWinResizeRequest" where
  "TtyWinResizeRequest_new rt = \<lparr>TtyWinResizeRequest_container_id = [], TtyWinResizeRequest_exec_id = [], TtyWinResizeRequest_row = 0, TtyWinResizeRequest_column = 0, TtyWinResizeRequest_unknown_fields = no_unknown rt\<rparr>"

definition TtyWinResizeRequest_clear :: "'u runtime \<Rightarrow> 'u pb_TtyWinResizeRequest \<Rightarrow> 'u pb_TtyWinResizeRequest" where
  "TtyWinResizeRequest_clear rt m = m\<lparr>TtyWinResizeRequest_container_id := [], TtyWinResizeRequest_exec_id := [], TtyWinResizeRequest_row := 0, TtyWinResizeRequest_column := 0, TtyWinResizeRequest_unknown_fields := no_unknown rt\<rparr>"

definition TtyWinResizeRequest_is_initialized :: "'u pb_TtyWinResizeRequest \<Rightarrow> bool" where
  "TtyWinResizeRequest_is_initialized m \<longleftrightarrow> True"

definition TtyWinResizeRequest_arms :: "'u runtime \<Rightarrow> u32 \<Rightarrow> 'u pb_TtyWinResizeRequest arm" where
  "TtyWinResizeRequest_arms rt n =
     (if n = 1 then singular_into (read_string rt) TtyWinResizeRequest_container_id_update
      else if n = 2 then singular_into (read_string rt) TtyWinResizeRequest_exec_id_update
      else if n = 3 then varint_into rt (read_uint32 rt) TtyWinResizeRequest_row_update
      else if n = 4 then varint_into rt (read_uint32 rt) TtyWinResizeRequest_column_update
      else unknown_into rt n TtyWinResizeRequest_unknown_fields TtyWinResizeRequest_unknown_fields_update)"

definition TtyWinResizeRequest_merge_from :: "'u runtime \<Rightarrow> 'u pb_TtyWinResizeRequest \<Rightarrow> 'u pb_TtyWinResizeRequest reader" where
  "TtyWinResizeRequest_merge_from rt = merge_fields rt (TtyWinResizeRequest_arms rt)"

definition TtyWinResizeRequest_compute_size :: "'u runtime \<Rightarrow> 'u pb_TtyWinResizeRequest \<Rightarrow> u32" where
  "TtyWinResizeRequest_compute_size rt m = sum_list [
     whenS (TtyWinResizeRequest_container_id m \<noteq> []) (string_size rt 1 (TtyWinResizeRequest_container_id m)),
     whenS (TtyWinResizeRequest_exec_id m \<noteq> []) (string_size rt 2 (TtyWinResizeRequest_exec_id m)),
     whenS (TtyWinResizeRequest_row m \<noteq> 0) (size_uint32 rt 3 (TtyWinResizeRequest_row m)),
     whenS (TtyWinResizeRequest_column m \<noteq> 0) (size_uint32 rt 4 (TtyWinResizeRequest_column m)),
     unknown_fields_size rt (TtyWinResizeRequest_unknown_fields m)]"

definition TtyWinResizeRequest_write_to :: "'u runtime \<Rightarrow> 'u pb_TtyWinResizeRequest \<Rightarrow> bytes res" where
  "TtyWinResizeRequest_write_to rt m = catW [
     whenW (TtyWinResizeRequest_container_id m \<noteq> []) (write_string rt 1 (TtyWinResizeRequest_container_id m)),
     whenW (TtyWinResizeRequest_exec_id m \<noteq> []) (write_string rt 2 (TtyWinResizeRequest_exec_id m)),
     whenW (TtyWinResizeRequest_row m \<noteq> 0) (write_uint32 rt 3 (TtyWinResizeRequest_row m)),
     whenW (TtyWinResizeRequest_column m \<noteq> 0) (write_uint32 rt 4 (TtyWinResizeRequest_column m)),
     write_unknown_fields rt (TtyWinResizeRequest_unknown_fields m)]"

definition TtyWinResizeRequest_ok :: "'u runtime \<Rightarrow> 'u pb_TtyWinResizeRequest \<Rightarrow> bool" where
  "TtyWinResizeRequest_ok rt m \<longleftrightarrow> TtyWinResizeRequest_unknown_fields m = no_unknown rt \<and>
     utf8 (TtyWinResizeRequest_container_id m) \<and>
     utf8 (TtyWinResizeRequest_exec_id m)"

lemma TtyWinResizeRequest_arm:
  "TtyWinResizeRequest_arms rt 1 = singular_into (read_string rt) TtyWinResizeRequest_container_id_update"
  "TtyWinResizeRequest_arms rt 2 = singular_into (read_string rt) TtyWinResizeRequest_exec_id_update"
  "TtyWinResizeRequest_arms rt 3 = varint_into rt (read_uint32 rt) TtyWinResizeRequest_row_update"
  "TtyWinResizeRequest_arms rt 4 = varint_into rt (read_uint32 rt) TtyWinResizeRequest_column_update"
  by (simp_all add: TtyWinResizeRequest_arms_def)

interpretation TtyWinResizeRequest_pb: message TtyWinResizeRequest_new TtyWinResizeRequest_merge_from TtyWinResizeRequest_compute_size TtyWinResizeRequest_write_to TtyWinResizeRequest_ok TtyWinResizeRequest_clear
  by (rule messageI [OF TtyWinResizeRequest_merge_from_def], simp add: TtyWinResizeRequest_clear_def TtyWinResizeRequest_new_def,
      unfold TtyWinResizeRequest_arms_def, (rule robust_if robust_rules | assumption | simp only: if_distribR)+,
      unfold TtyWinResizeRequest_compute_size_def TtyWinResizeRequest_write_to_def TtyWinResizeRequest_ok_def, rule codes_to,
      (rule field_rules TtyWinResizeRequest_arm | assumption
        | simp add: field_number_def tag_len_def TtyWinResizeRequest_new_def)+)

section \<open>\<open>CreateSandboxRequest\<close>\<close>

record 'u pb_CreateSandboxRequest =
  CreateSandboxRequest_hostname :: string
  CreateSandboxRequest_dns :: "string list"
  CreateSandboxRequest_storages :: "'u pb_Storage list"
  CreateSandboxRequest_sandbox_pidns :: bool
  CreateSandboxRequest_sandbox_id :: string
  CreateSandboxRequest_guest_hook_path :: string
  CreateSandboxRequest_unknown_fields :: 'u

definition CreateSandboxRequest_new :: "'u runtime \<Rightarrow> 'u pb_CreateSandboxRequest" where
  "CreateSandboxRequest_new rt = \<lparr>CreateSandboxRequest_hostname = [], CreateSandboxRequest_dns = [], CreateSandboxRequest_storages = [], CreateSandboxRequest_sandbox_pidns = False, CreateSandboxRequest_sandbox_id = [], CreateSandboxRequest_guest_hook_path = [], CreateSandboxRequest_unknown_fields = no_unknown rt\<rparr>"

definition CreateSandboxRequest_clear :: "'u runtime \<Rightarrow> 'u pb_CreateSandboxRequest \<Rightarrow> 'u pb_CreateSandboxRequest" where
  "CreateSandboxRequest_clear rt m = m\<lparr>CreateSandboxRequest_hostname := [], CreateSandboxRequest_dns := [], CreateSandboxRequest_storages := [], CreateSandboxRequest_sandbox_pidns := False, CreateSandboxRequest_sandbox_id := [], CreateSandboxRequest_guest_hook_path := [], CreateSandboxRequest_unknown_fields := no_unknown rt\<rparr>"

definition CreateSandboxRequest_is_initialized :: "'u pb_CreateSandboxRequest \<Rightarrow> bool" where
  "CreateSandboxRequest_is_initialized m \<longleftrightarrow> list_all Storage_is_initialized (CreateSandboxRequest_storages m)"

definition CreateSandboxRequest_arms :: "'u runtime \<Rightarrow> u32 \<Rightarrow> 'u pb_CreateSandboxRequest arm" where
  "CreateSandboxRequest_arms rt n =
     (if n = 1 then singular_into (read_string rt) CreateSandboxRequest_hostname_update
      else if n = 2 then repeated_into (read_string rt) CreateSandboxRequest_dns_update
      else if n = 3 then messages_into rt Storage_merge_from Storage_new CreateSandboxRequest_storages_update
      else if n = 4 then varint_into rt (read_bool rt) CreateSandboxRequest_sandbox_pidns_update
      else if n = 5 then singular_into (read_string rt) CreateSandboxRequest_sandbox_id_update
      else if n = 6 then singular_into (read_string rt) CreateSandboxRequest_guest_hook_path_update
      else unknown_into rt n CreateSandboxRequest_unknown_fields CreateSandboxRequest_unknown_fields_update)"

definition CreateSandboxRequest_merge_from :: "'u runtime \<Rightarrow> 'u pb_CreateSandboxRequest \<Rightarrow> 'u pb_CreateSandboxRequest reader" where
  "CreateSandboxRequest_merge_from rt = merge_fields rt (CreateSandboxRequest_arms rt)"

definition CreateSandboxRequest_compute_size :: "'u runtime \<Rightarrow> 'u pb_CreateSandboxRequest \<Rightarrow> u32" where
  "CreateSandboxRequest_compute_size rt m = sum_list [
     whenS (CreateSandboxRequest_hostname m \<noteq> []) (string_size rt 1 (CreateSandboxRequest_hostname m)),
     eachS (CreateSandboxRequest_dns m) (string_size rt 2),
     eachS (CreateSandboxRequest_storages m) (\<lambda>v. embedded_size rt 1 (Storage_compute_size rt v)),
     whenS (CreateSandboxRequest_sandbox_pidns m \<noteq> False) 2,
     whenS (CreateSandboxRequest_sandbox_id m \<noteq> []) (string_size rt 5 (CreateSandboxRequest_sandbox_id m)),
     whenS (CreateSandboxRequest_guest_hook_path m \<noteq> []) (string_size rt 6 (CreateSandboxRequest_guest_hook_path m)),
     unknown_fields_size rt (CreateSandboxRequest_unknown_fields m)]"

definition CreateSandboxRequest_write_to :: "'u runtime \<Rightarrow> 'u pb_CreateSandboxRequest \<Rightarrow> bytes res" where
  "CreateSandboxRequest_write_to rt m = catW [
     whenW (CreateSandboxRequest_hostname m \<noteq> []) (write_string rt 1 (CreateSandboxRequest_hostname m)),
     eachW (CreateSandboxRequest_dns m) (write_string rt 2),
     eachW (CreateSandboxRequest_storages m) (\<lambda>v. write_embedded rt 3 (Storage_compute_size rt v) (Storage_write_to rt v)),
     whenW (CreateSandboxRequest_sandbox_pidns m \<noteq> False) (write_bool rt 4 (CreateSandboxRequest_sandbox_pidns m)),
     whenW (CreateSandboxRequest_sandbox_id m \<noteq> []) (write_string rt 5 (CreateSandboxRequest_sandbox_id m)),
     whenW (CreateSandboxRequest_guest_hook_path m \<noteq> []) (write_string rt 6 (CreateSandboxRequest_guest_hook_path m)),
     write_unknown_fields rt (CreateSandboxRequest_unknown_fields m)]"

definition CreateSandboxRequest_ok :: "'u runtime \<Rightarrow> 'u pb_CreateSandboxRequest \<Rightarrow> bool" where
  "CreateSandboxRequest_ok rt m \<longleftrightarrow> CreateSandboxRequest_unknown_fields m = no_unknown rt \<and>
     utf8 (CreateSandboxRequest_hostname m) \<and>
     list_all utf8 (CreateSandboxRequest_dns m) \<and>
     list_all (Storage_ok rt) (CreateSandboxRequest_storages m) \<and>
     utf8 (CreateSandboxRequest_sandbox_id m) \<and>
     utf8 (CreateSandboxRequest_guest_hook_path m)"

lemma CreateSandboxRequest_arm:
  "CreateSandboxRequest_arms rt 1 = singular_into (read_string rt) CreateSandboxRequest_hostname_update"
  "CreateSandboxRequest_arms rt 2 = repeated_into (read_string rt) CreateSandboxRequest_dns_update"
  "CreateSandboxRequest_arms rt 3 = messages_into rt Storage_merge_from Storage_new CreateSandboxRequest_storages_update"
  "CreateSandboxRequest_arms rt 4 = varint_into rt (read_bool rt) CreateSandboxRequest_sandbox_pidns_update"
  "CreateSandboxRequest_arms rt 5 = singular_into (read_string rt) CreateSandboxRequest_sandbox_id_update"
  "CreateSandboxRequest_arms rt 6 = singular_into (read_string rt) CreateSandboxRequest_guest_hook_path_update"
  by (simp_all add: CreateSandboxRequest_arms_def)

interpretation CreateSandboxRequest_pb: message CreateSandboxRequest_new CreateSandboxRequest_merge_from CreateSandboxRequest_compute_size CreateSandboxRequest_write_to CreateSandboxRequest_ok CreateSandboxRequest_clear
  by (rule messageI [OF CreateSandboxRequest_merge_from_def], simp add: CreateSandboxRequest_clear_def CreateSandboxRequest_new_def,
      unfold CreateSandboxRequest_arms_def, (rule robust_if robust_rules Storage_pb.robust_field | assumption | simp only: if_distribR)+,
      unfold CreateSandboxRequest_compute_size_def CreateSandboxRequest_write_to_def CreateSandboxRequest_ok_def, rule codes_to,
      (rule field_rules Storage_pb.messages_field CreateSandboxRequest_arm | assumption
        | simp add: field_number_def tag_len_def CreateSandboxRequest_new_def)+)

section \<open>\<open>DestroySandboxRequest\<close>\<close>

record 'u pb_DestroySandboxRequest =
  DestroySandboxRequest_unknown_fields :: 'u

definition DestroySandboxRequest_new :: "'u runtime \<Rightarrow> 'u pb_DestroySandboxRequest" where
  "DestroySandboxRequest_new rt = \<lparr>DestroySandboxRequest_unknown_fields = no_unknown rt\<rparr>"

definition DestroySandboxRequest_clear :: "'u runtime \<Rightarrow> 'u pb_DestroySandboxRequest \<Rightarrow> 'u pb_DestroySandboxRequest" where
  "DestroySandboxRequest_clear rt m = m\<lparr>DestroySandboxRequest_unknown_fields := no_unknown rt\<rparr>"

definition DestroySandboxRequest_is_initialized :: "'u pb_DestroySandboxRequest \<Rightarrow> bool" where
  "DestroySandboxRequest_is_initialized m \<longleftrightarrow> True"

definition DestroySandboxRequest_arms :: "'u runtime \<Rightarrow> u32 \<Rightarrow> 'u pb_DestroySandboxRequest arm" where
  "DestroySandboxRequest_arms rt n =
     unknown_into rt n DestroySandboxRequest_unknown_fields DestroySandboxRequest_unknown_fields_update"

definition DestroySandboxRequest_merge_from :: "'u runtime \<Rightarrow> 'u pb_DestroySandboxRequest \<Rightarrow> 'u pb_DestroySandboxRequest reader" where
  "DestroySandboxRequest_merge_from rt = merge_fields rt (DestroySandboxRequest_arms rt)"

definition DestroySandboxRequest_compute_size :: "'u runtime \<Rightarrow> 'u pb_DestroySandboxRequest \<Rightarrow> u32" where
  "DestroySandboxRequest_compute_size rt m = sum_list [
     unknown_fields_size rt (DestroySandboxRequest_unknown_fields m)]"

definition DestroySandboxRequest_write_to :: "'u runtime \<Rightarrow> 'u pb_DestroySandboxRequest \<Rightarrow> bytes res" where
  "DestroySandboxRequest_write_to rt m = catW [
     write_unknown_fields rt (DestroySandboxRequest_unknown_fields m)]"

definition DestroySandboxRequest_ok :: "'u runtime \<Rightarrow> 'u pb_DestroySandboxRequest \<Rightarrow> bool" where
  "DestroySandboxRequest_ok rt m \<longleftrightarrow> DestroySandboxRequest_unknown_fields m = no_unknown rt"

interpretation DestroySandboxRequest_pb: message DestroySandboxRequest_new DestroySandboxRequest_merge_from DestroySandboxRequest_compute_size DestroySandboxRequest_write_to DestroySandboxRequest_ok DestroySandboxRequest_clear
  by (rule messageI [OF DestroySandboxRequest_merge_from_def], simp add: DestroySandboxRequest_clear_def DestroySandboxRequest_new_def,
      unfold DestroySandboxRequest_arms_def, (rule robust_rules | assumption | simp only: if_distribR)+,
      unfold DestroySandboxRequest_compute_size_def DestroySandboxRequest_write_to_def DestroySandboxRequest_ok_def, rule codes_to,
      (rule field_rules | assumption
        | simp add: field_number_def tag_len_def DestroySandboxRequest_new_def)+)

section \<open>\<open>Interfaces\<close>\<close>

record 'u pb_Interfaces =
  Interfaces_Interfaces :: "'u pb_Interface list"
  Interfaces_unknown_fields :: 'u

definition Interfaces_new :: "'u runtime \<Rightarrow> 'u pb_Interfaces" where
  "Interfaces_new rt = \<lparr>Interfaces_Interfaces = [], Interfaces_unknown_fields = no_unknown rt\<rparr>"

definition Interfaces_clear :: "'u runtime \<Rightarrow> 'u pb_Interfaces \<Rightarrow> 'u pb_Interfaces" where
  "Interfaces_clear rt m = m\<lparr>Interfaces_Interfaces := [], Interfaces_unknown_fields := no_unknown rt\<rparr>"

definition Interfaces_is_initialized :: "'u pb_Interfaces \<Rightarrow> bool" where
  "Interfaces_is_initialized m \<longleftrightarrow> list_all Interface_is_initialized (Interfaces_Interfaces m)"

definition Interfaces_arms :: "'u runtime \<Rightarrow> u32 \<Rightarrow> 'u pb_Interfaces arm" where
  "Interfaces_arms rt n =
     (if n = 1 then messages_into rt Interface_merge_from Interface_new Interfaces_Interfaces_update
      else unknown_into rt n Interfaces_unknown_fields Interfaces_unknown_fields_update)"

definition Interfaces_merge_from :: "'u runtime \<Rightarrow> 'u pb_Interfaces \<Rightarrow> 'u pb_Interfaces reader" where
  "Interfaces_merge_from rt = merge_fields rt (Interfaces_arms rt)"

definition Interfaces_compute_size :: "'u runtime \<Rightarrow> 'u pb_Interfaces \<Rightarrow> u32" where
  "Interfaces_compute_size rt m = sum_list [
     eachS (Interfaces_Interfaces m) (\<lambda>v. embedded_size rt 1 (Interface_compute_size rt v)),
     unknown_fields_size rt (Interfaces_unknown_fields m)]"

definition Interfaces_write_to :: "'u runtime \<Rightarrow> 'u pb_Interfaces \<Rightarrow> bytes res" where
  "Interfaces_write_to rt m = catW [
     eachW (Interfaces_Interfaces m) (\<lambda>v. write_embedded rt 1 (Interface_compute_size rt v) (Interface_write_to rt v)),
     write_unknown_fields rt (Interfaces_unknown_fields m)]"

definition Interfaces_ok :: "'u runtime \<Rightarrow> 'u pb_Interfaces \<Rightarrow> bool" where
  "Interfaces_ok rt m \<longleftrightarrow> Interfaces_unknown_fields m = no_unknown rt \<and>
     list_all (Interface_ok rt) (Interfaces_Interfaces m)"

lemma Interfaces_arm:
  "Interfaces_arms rt 1 = messages_into rt Interface_merge_from Interface_new Interfaces_Interfaces_update"
  by (simp_all add: Interfaces_arms_def)

interpretation Interfaces_pb: message Interfaces_new Interfaces_merge_from Interfaces_compute_size Interfaces_write_to Interfaces_ok Interfaces_clear
  by (rule messageI [OF Interfaces_merge_from_def], simp add: Interfaces_clear_def Interfaces_new_def,
      unfold Interfaces_arms_def, (rule robust_if robust_rules Interface_pb.robust_field | assumption | simp only: if_distribR)+,
      unfold Interfaces_compute_size_def Interfaces_write_to_def Interfaces_ok_def, rule codes_to,
      (rule field_rules Interface_pb.messages_field Interfaces_arm | assumption
        | simp add: field_number_def tag_len_def Interfaces_new_def)+)

section \<open>\<open>Routes\<close>\<close>

record 'u pb_Routes =
  Routes_Routes :: "'u pb_Route list"
  Routes_unknown_fields :: 'u

definition Routes_new :: "'u runtime \<Rightarrow> 'u pb_Routes" where
  "Routes_new rt = \<lparr>Routes_Routes = [], Routes_unknown_fields = no_unknown rt\<rparr>"

definition Routes_clear :: "'u runtime \<Rightarrow> 'u pb_Routes \<Rightarrow> 'u pb_Routes" where
  "Routes_clear rt m = m\<lparr>Routes_Routes := [], Routes_unknown_fields := no_unknown rt\<rparr>"

definition Routes_is_initialized :: "'u pb_Routes \<Rightarrow> bool" where
  "Routes_is_initialized m \<longleftrightarrow> list_all Route_is_initialized (Routes_Routes m)"

definition Routes_arms :: "'u runtime \<Rightarrow> u32 \<Rightarrow> 'u pb_Routes arm" where
  "Routes_arms rt n =
     (if n = 1 then messages_into rt Route_merge_from Route_new Routes_Routes_update
      else unknown_into rt n Routes_unknown_fields Routes_unknown_fields_update)"

definition Routes_merge_from :: "'u runtime \<Rightarrow> 'u pb_Routes \<Rightarrow> 'u pb_Routes reader" where
  "Routes_merge_from rt = merge_fields rt (Routes_arms rt)"

definition Routes_compute_size :: "'u runtime \<Rightarrow> 'u pb_Routes \<Rightarrow> u32" where
  "Routes_compute_size rt m = sum_list [
     eachS (Routes_Routes m) (\<lambda>v. embedded_size rt 1 (Route_compute_size rt v)),
     unknown_fields_size rt (Routes_unknown_fields m)]"

definition Routes_write_to :: "'u runtime \<Rightarrow> 'u pb_Routes \<Rightarrow> bytes res" where
  "Routes_write_to rt m = catW [
     eachW (Routes_Routes m) (\<lambda>v. write_embedded rt 1 (Route_compute_size rt v) (Route_write_to rt v)),
     write_unknown_fields rt (Routes_unknown_fields m)]"

definition Routes_ok :: "'u runtime \<Rightarrow> 'u pb_Routes \<Rightarrow> bool" where
  "Routes_ok rt m \<longleftrightarrow> Routes_unknown_fields m = no_unknown rt \<and>
     list_all (Route_ok rt) (Routes_Routes m)"

lemma Routes_arm:
  "Routes_arms rt 1 = messages_into rt Route_merge_from Route_new Routes_Routes_update"
  by (simp_all add: Routes_arms_def)

interpretation Routes_pb: message Routes_new Routes_merge_from Routes_compute_size Routes_write_to Routes_ok Routes_clear
  by (rule messageI [OF Routes_merge_from_def], simp add: Routes_clear_def Routes_new_def,
      unfold Routes_arms_def, (rule robust_if robust_rules Route_pb.robust_field | assumption | simp only: if_distribR)+,
      unfold Routes_compute_size_def Routes_write_to_def Routes_ok_def, rule codes_to,
      (rule field_rules Route_pb.messages_field Routes_arm | assumption
        | simp add: field_number_def tag_len_def Routes_new_def)+)

section \<open>\<open>UpdateInterfaceRequest\<close>\<close>

record 'u pb_UpdateInterfaceRequest =
  UpdateInterfaceRequest_interface :: "'u pb_Interface option"
  UpdateInterfaceRequest_unknown_fields :: 'u

definition UpdateInterfaceRequest_new :: "'u runtime \<Rightarrow> 'u pb_UpdateInterfaceRequest" where
  "UpdateInterfaceRequest_new rt = \<lparr>UpdateInterfaceRequest_interface = None, UpdateInterfaceRequest_unknown_fields = no_unknown rt\<rparr>"

definition UpdateInterfaceRequest_clear :: "'u runtime \<Rightarrow> 'u pb_UpdateInterfaceRequest \<Rightarrow> 'u pb_UpdateInterfaceRequest" where
  "UpdateInterfaceRequest_clear rt m = m\<lparr>UpdateInterfaceRequest_interface := None, UpdateInterfaceRequest_unknown_fields := no_unknown rt\<rparr>"

definition UpdateInterfaceRequest_is_initialized :: "'u pb_UpdateInterfaceRequest \<Rightarrow> bool" where
  "UpdateInterfaceRequest_is_initialized m \<longleftrightarrow> pred_option Interface_is_initialized (UpdateInterfaceRequest_interface m)"

definition UpdateInterfaceRequest_arms :: "'u runtime \<Rightarrow> u32 \<Rightarrow> 'u pb_UpdateInterfaceRequest arm" where
  "UpdateInterfaceRequest_arms rt n =
     (if n = 1 then message_into rt Interface_merge_from Interface_new UpdateInterfaceRequest_interface UpdateInterfaceRequest_interface_update
      else unknown_into rt n UpdateInterfaceRequest_unknown_fields UpdateInterfaceRequest_unknown_fields_update)"

definition UpdateInterfaceRequest_merge_from :: "'u runtime \<Rightarrow> 'u pb_UpdateInterfaceRequest \<Rightarrow> 'u pb_UpdateInterfaceRequest reader" where
  "UpdateInterfaceRequest_merge_from rt = merge_fields rt (UpdateInterfaceRequest_arms rt)"

definition UpdateInterfaceRequest_compute_size :: "'u runtime \<Rightarrow> 'u pb_UpdateInterfaceRequest \<Rightarrow> u32" where
  "UpdateInterfaceRequest_compute_size rt m = sum_list [
     optS (UpdateInterfaceRequest_interface m) (\<lambda>v. embedded_size rt 1 (Interface_compute_size rt v)),
     unknown_fields_size rt (UpdateInterfaceRequest_unknown_fields m)]"

definition UpdateInterfaceRequest_write_to :: "'u runtime \<Rightarrow> 'u pb_UpdateInterfaceRequest \<Rightarrow> bytes res" where
  "UpdateInterfaceRequest_write_to rt m = catW [
     optW (UpdateInterfaceRequest_interface m) (\<lambda>v. write_embedded rt 1 (Interface_compute_size rt v) (Interface_write_to rt v)),
     write_unknown_fields rt (UpdateInterfaceRequest_unknown_fields m)]"

definition UpdateInterfaceRequest_ok :: "'u runtime \<Rightarrow> 'u pb_UpdateInterfaceRequest \<Rightarrow> bool" where
  "UpdateInterfaceRequest_ok rt m \<longleftrightarrow> UpdateInterfaceRequest_unknown_fields m = no_unknown rt \<and>
     pred_option (Interface_ok rt) (UpdateInterfaceRequest_interface m)"

lemma UpdateInterfaceRequest_arm:
  "UpdateInterfaceRequest_arms rt 1 = message_into rt Interface_merge_from Interface_new UpdateInterfaceRequest_interface UpdateInterfaceRequest_interface_update"
  by (simp_all add: UpdateInterfaceRequest_arms_def)

interpretation UpdateInterfaceRequest_pb: message UpdateInterfaceRequest_new UpdateInterfaceRequest_merge_from UpdateInterfaceRequest_compute_size UpdateInterfaceRequest_write_to UpdateInterfaceRequest_ok UpdateInterfaceRequest_clear
  by (rule messageI [OF UpdateInterfaceRequest_merge_from_def], simp add: UpdateInterfaceRequest_clear_def UpdateInterfaceRequest_new_def,
      unfold UpdateInterfaceRequest_arms_def, (rule robust_if robust_rules Interface_pb.robust_field | assumption | simp only: if_distribR)+,
      unfold UpdateInterfaceRequest_compute_size_def UpdateInterfaceRequest_write_to_def UpdateInterfaceRequest_ok_def, rule codes_to,
      (rule field_rules Interface_pb.message_field UpdateInterfaceRequest_arm | assumption
        | simp add: field_number_def tag_len_def UpdateInterfaceRequest_new_def)+)

section \<open>\<open>UpdateRoutesRequest\<close>\<close>

record 'u pb_UpdateRoutesRequest =
  UpdateRoutesRequest_routes :: "'u pb_Routes option"
  UpdateRoutesRequest_unknown_fields :: 'u

definition UpdateRoutesRequest_new :: "'u runtime \<Rightarrow> 'u pb_UpdateRoutesRequest" where
  "UpdateRoutesRequest_new rt = \<lparr>UpdateRoutesRequest_routes = None, UpdateRoutesRequest_unknown_fields = no_unknown rt\<rparr>"

definition UpdateRoutesRequest_clear :: "'u runtime \<Rightarrow> 'u pb_UpdateRoutesRequest \<Rightarrow> 'u pb_UpdateRoutesRequest" where
  "UpdateRoutesRequest_clear rt m = m\<lparr>UpdateRoutesRequest_routes := None, UpdateRoutesRequest_unknown_fields := no_unknown rt\<rparr>"

definition UpdateRoutesRequest_is_initialized :: "'u pb_UpdateRoutesRequest \<Rightarrow> bool" where
  "UpdateRoutesRequest_is_initialized m \<longleftrightarrow> pred_option Routes_is_initialized (UpdateRoutesRequest_routes m)"

definition UpdateRoutesRequest_arms :: "'u runtime \<Rightarrow> u32 \<Rightarrow> 'u pb_UpdateRoutesRequest arm" where
  "UpdateRoutesRequest_arms rt n =
     (if n = 1 then message_into rt Routes_merge_from Routes_new UpdateRoutesRequest_routes UpdateRoutesRequest_routes_update
      else unknown_into rt n UpdateRoutesRequest_unknown_fields UpdateRoutesRequest_unknown_fields_update)"

definition UpdateRoutesRequest_merge_from :: "'u runtime \<Rightarrow> 'u pb_UpdateRoutesRequest \<Rightarrow> 'u pb_UpdateRoutesRequest reader" where
  "UpdateRoutesRequest_merge_from rt = merge_fields rt (UpdateRoutesRequest_arms rt)"

definition UpdateRoutesRequest_compute_size :: "'u runtime \<Rightarrow> 'u pb_UpdateRoutesRequest \<Rightarrow> u32" where
  "UpdateRoutesRequest_compute_size rt m = sum_list [
     optS (UpdateRoutesRequest_routes m) (\<lambda>v. embedded_size rt 1 (Routes_compute_size rt v)),
     unknown_fields_size rt (UpdateRoutesRequest_unknown_fields m)]"

definition UpdateRoutesRequest_write_to :: "'u runtime \<Rightarrow> 'u pb_UpdateRoutesRequest \<Rightarrow> bytes res" where
  "UpdateRoutesRequest_write_to rt m = catW [
     optW (UpdateRoutesRequest_routes m) (\<lambda>v. write_embedded rt 1 (Routes_compute_size rt v) (Routes_write_to rt v)),
     write_unknown_fields rt (UpdateRoutesRequest_unknown_fields m)]"

definition UpdateRoutesRequest_ok :: "'u runtime \<Rightarrow> 'u pb_UpdateRoutesRequest \<Rightarrow> bool" where
  "UpdateRoutesRequest_ok rt m \<longleftrightarrow> UpdateRoutesRequest_unknown_fields m = no_unknown rt \<and>
     pred_option (Routes_ok rt) (UpdateRoutesRequest_routes m)"

lemma UpdateRoutesRequest_arm:
  "UpdateRoutesRequest_arms rt 1 = message_into rt Routes_merge_from Routes_new UpdateRoutesRequest_routes UpdateRoutesRequest_routes_update"
  by (simp_all add: UpdateRoutesRequest_arms_def)

interpretation UpdateRoutesRequest_pb: message UpdateRoutesRequest_new UpdateRoutesRequest_merge_from UpdateRoutesRequest_compute_size UpdateRoutesRequest_write_to UpdateRoutesRequest_ok UpdateRoutesRequest_clear
  by (rule messageI [OF UpdateRoutesRequest_merge_from_def], simp add: UpdateRoutesRequest_clear_def UpdateRoutesRequest_new_def,
      unfold UpdateRoutesRequest_arms_def, (rule robust_if robust_rules Routes_pb.robust_field | assumption | simp only: if_distribR)+,
      unfold UpdateRoutesRequest_compute_size_def UpdateRoutesRequest_write_to_def UpdateRoutesRequest_ok_def, rule codes_to,
      (rule field_rules Routes_pb.message_field UpdateRoutesRequest_arm | assumption
        | simp add: field_number_def tag_len_def UpdateRoutesRequest_new_def)+)

section \<open>\<open>ListInterfacesRequest\<close>\<close>

record 'u pb_ListInterfacesRequest =
  ListInterfacesRequest_unknown_fields :: 'u

definition ListInterfacesRequest_new :: "'u runtime \<Rightarrow> 'u pb_ListInterfacesRequest" where
  "ListInterfacesRequest_new rt = \<lparr>ListInterfacesRequest_unknown_fields = no_unknown rt\<rparr>"

definition ListInterfacesRequest_clear :: "'u runtime \<Rightarrow> 'u pb_ListInterfacesRequest \<Rightarrow> 'u pb_ListInterfacesRequest" where
  "ListInterfacesRequest_clear rt m = m\<lparr>ListInterfacesRequest_unknown_fields := no_unknown rt\<rparr>"

definition ListInterfacesRequest_is_initialized :: "'u pb_ListInterfacesRequest \<Rightarrow> bool" where
  "ListInterfacesRequest_is_initialized m \<longleftrightarrow> True"

definition ListInterfacesRequest_arms :: "'u runtime \<Rightarrow> u32 \<Rightarrow> 'u pb_ListInterfacesRequest arm" where
  "ListInterfacesRequest_arms rt n =
     unknown_into rt n ListInterfacesRequest_unknown_fields ListInterfacesRequest_unknown_fields_update"

definition ListInterfacesRequest_merge_from :: "'u runtime \<Rightarrow> 'u pb_ListInterfacesRequest \<Rightarrow> 'u pb_ListInterfacesRequest reader" where
  "ListInterfacesRequest_merge_from rt = merge_fields rt (ListInterfacesRequest_arms rt)"

definition ListInterfacesRequest_compute_size :: "'u runtime \<Rightarrow> 'u pb_ListInterfacesRequest \<Rightarrow> u32" where
  "ListInterfacesRequest_compute_size rt m = sum_list [
     unknown_fields_size rt (ListInterfacesRequest_unknown_fields m)]"

definition ListInterfacesRequest_write_to :: "'u runtime \<Rightarrow> 'u pb_ListInterfacesRequest \<Rightarrow> bytes res" where
  "ListInterfacesRequest_write_to rt m = catW [
     write_unknown_fields rt (ListInterfacesRequest_unknown_fields m)]"

definition ListInterfacesRequest_ok :: "'u runtime \<Rightarrow> 'u pb_ListInterfacesRequest \<Rightarrow> bool" where
  "ListInterfacesRequest_ok rt m \<longleftrightarrow> ListInterfacesRequest_unknown_fields m = no_unknown rt"

interpretation ListInterfacesRequest_pb: message ListInterfacesRequest_new ListInterfacesRequest_merge_from ListInterfacesRequest_compute_size ListInterfacesRequest_write_to ListInterfacesRequest_ok ListInterfacesRequest_clear
  by (rule messageI [OF ListInterfacesRequest_merge_from_def], simp add: ListInterfacesRequest_clear_def ListInterfacesRequest_new_def,
      unfold ListInterfacesRequest_arms_def, (rule robust_rules | assumption | simp only: if_distribR)+,
      unfold ListInterfacesRequest_compute_size_def ListInterfacesRequest_write_to_def ListInterfacesRequest_ok_def, rule codes_to,
      (rule field_rules | assumption
        | simp add: field_number_def tag_len_def ListInterfacesRequest_new_def)+)

section \<open>\<open>ListRoutesRequest\<close>\<close>

record 'u pb_ListRoutesRequest =
  ListRoutesRequest_unknown_fields :: 'u

definition ListRoutesRequest_new :: "'u runtime \<Rightarrow> 'u pb_ListRoutesRequest" where
  "ListRoutesRequest_new rt = \<lparr>ListRoutesRequest_unknown_fields = no_unknown rt\<rparr>"

definition ListRoutesRequest_clear :: "'u runtime \<Rightarrow> 'u pb_ListRoutesRequest \<Rightarrow> 'u pb_ListRoutesRequest" where
  "ListRoutesRequest_clear rt m = m\<lparr>ListRoutesRequest_unknown_fields := no_unknown rt\<rparr>"

definition ListRoutesRequest_is_initialized :: "'u pb_ListRoutesRequest \<Rightarrow> bool" where
  "ListRoutesRequest_is_initialized m \<longleftrightarrow> True"

definition ListRoutesRequest_arms :: "'u runtime \<Rightarrow> u32 \<Rightarrow> 'u pb_ListRoutesRequest arm" where
  "ListRoutesRequest_arms rt n =
     unknown_into rt n ListRoutesRequest_unknown_fields ListRoutesRequest_unknown_fields_update"

definition ListRoutesRequest_merge_from :: "'u runtime \<Rightarrow> 'u pb_ListRoutesRequest \<Rightarrow> 'u pb_ListRoutesRequest reader" where
  "ListRoutesRequest_merge_from rt = merge_fields rt (ListRoutesRequest_arms rt)"

definition ListRoutesRequest_compute_size :: "'u runtime \<Rightarrow> 'u pb_ListRoutesRequest \<Rightarrow> u32" where
  "ListRoutesRequest_compute_size rt m = sum_list [
     unknown_fields_size rt (ListRoutesRequest_unknown_fields m)]"

definition ListRoutesRequest_write_to :: "'u runtime \<Rightarrow> 'u pb_ListRoutesRequest \<Rightarrow> bytes res" where
  "ListRoutesRequest_write_to rt m = catW [
     write_unknown_fields rt (ListRoutesRequest_unknown_fields m)]"

definition ListRoutesRequest_ok :: "'u runtime \<Rightarrow> 'u pb_ListRoutesRequest \<Rightarrow> bool" where
  "ListRoutesRequest_ok rt m \<longleftrightarrow> ListRoutesRequest_unknown_fields m = no_unknown rt"

interpretation ListRoutesRequest_pb: message ListRoutesRequest_new ListRoutesRequest_merge_from ListRoutesRequest_compute_size ListRoutesRequest_write_to ListRoutesRequest_ok ListRoutesRequest_clear
  by (rule messageI [OF ListRoutesRequest_merge_from_def], simp add: ListRoutesRequest_clear_def ListRoutesRequest_new_def,
      unfold ListRoutesRequest_arms_def, (rule robust_rules | assumption | simp only: if_distribR)+,
      unfold ListRoutesRequest_compute_size_def ListRoutesRequest_write_to_def ListRoutesRequest_ok_def, rule codes_to,
      (rule field_rules | assumption
        | simp add: field_number_def tag_len_def ListRoutesRequest_new_def)+)

section \<open>\<open>OnlineCPUMemRequest\<close>\<close>

record 'u pb_OnlineCPUMemRequest =
  OnlineCPUMemRequest_wait :: bool
  OnlineCPUMemRequest_nb_cpus :: u32
  OnlineCPUMemRequest_cpu_only :: bool
  OnlineCPUMemRequest_unknown_fields :: 'u

definition OnlineCPUMemRequest_new :: "'u runtime \<Rightarrow> 'u pb_OnlineCPUMemRequest" where
  "OnlineCPUMemRequest_new rt = \<lparr>OnlineCPUMemRequest_wait = False, OnlineCPUMemRequest_nb_cpus = 0, OnlineCPUMemRequest_cpu_only = False, OnlineCPUMemRequest_unknown_fields = no_unknown rt\<rparr>"

definition OnlineCPUMemRequest_clear :: "'u runtime \<Rightarrow> 'u pb_OnlineCPUMemRequest \<Rightarrow> 'u pb_OnlineCPUMemRequest" where
  "OnlineCPUMemRequest_clear rt m = m\<lparr>OnlineCPUMemRequest_wait := False, OnlineCPUMemRequest_nb_cpus := 0, OnlineCPUMemRequest_cpu_only := False, OnlineCPUMemRequest_unknown_fields := no_unknown rt\<rparr>"

definition OnlineCPUMemRequest_is_initialized :: "'u pb_OnlineCPUMemRequest \<Rightarrow> bool" where
  "OnlineCPUMemRequest_is_initialized m \<longleftrightarrow> True"

definition OnlineCPUMemRequest_arms :: "'u runtime \<Rightarrow> u32 \<Rightarrow> 'u pb_OnlineCPUMemRequest arm" where
  "OnlineCPUMemRequest_arms rt n =
     (if n = 1 then varint_into rt (read_bool rt) OnlineCPUMemRequest_wait_update
      else if n = 2 then varint_into rt (read_uint32 rt) OnlineCPUMemRequest_nb_cpus_update
      else if n = 3 then varint_into rt (read_bool rt) OnlineCPUMemRequest_cpu_only_update
      else unknown_into rt n OnlineCPUMemRequest_unknown_fields OnlineCPUMemRequest_unknown_fields_update)"

definition OnlineCPUMemRequest_merge_from :: "'u runtime \<Rightarrow> 'u pb_OnlineCPUMemRequest \<Rightarrow> 'u pb_OnlineCPUMemRequest reader" where
  "OnlineCPUMemRequest_merge_from rt = merge_fields rt (OnlineCPUMemRequest_arms rt)"

definition OnlineCPUMemRequest_compute_size :: "'u runtime \<Rightarrow> 'u pb_OnlineCPUMemRequest \<Rightarrow> u32" where
  "OnlineCPUMemRequest_compute_size rt m = sum_list [
     whenS (OnlineCPUMemRequest_wait m \<noteq> False) 2,
     whenS (OnlineCPUMemRequest_nb_cpus m \<noteq> 0) (size_uint32 rt 2 (OnlineCPUMemRequest_nb_cpus m)),
     whenS (OnlineCPUMemRequest_cpu_only m \<noteq> False) 2,
     unknown_fields_size rt (OnlineCPUMemRequest_unknown_fields m)]"

definition OnlineCPUMemRequest_write_to :: "'u runtime \<Rightarrow> 'u pb_OnlineCPUMemRequest \<Rightarrow> bytes res" where
  "OnlineCPUMemRequest_write_to rt m = catW [
     whenW (OnlineCPUMemRequest_wait m \<noteq> False) (write_bool rt 1 (OnlineCPUMemRequest_wait m)),
     whenW (OnlineCPUMemRequest_nb_cpus m \<noteq> 0) (write_uint32 rt 2 (OnlineCPUMemRequest_nb_cpus m)),
     whenW (OnlineCPUMemRequest_cpu_only m \<noteq> False) (write_bool rt 3 (OnlineCPUMemRequest_cpu_only m)),
     write_unknown_fields rt (OnlineCPUMemRequest_unknown_fields m)]"

definition OnlineCPUMemRequest_ok :: "'u runtime \<Rightarrow> 'u pb_OnlineCPUMemRequest \<Rightarrow> bool" where
  "OnlineCPUMemRequest_ok rt m \<longleftrightarrow> OnlineCPUMemRequest_unknown_fields m = no_unknown rt"

lemma OnlineCPUMemRequest_arm:
  "OnlineCPUMemRequest_arms rt 1 = varint_into rt (read_bool rt) OnlineCPUMemRequest_wait_update"
  "OnlineCPUMemRequest_arms rt 2 = varint_into rt (read_uint32 rt) OnlineCPUMemRequest_nb_cpus_update"
  "OnlineCPUMemRequest_arms rt 3 = varint_into rt (read_bool rt) OnlineCPUMemRequest_cpu_only_update"
  by (simp_all add: OnlineCPUMemRequest_arms_def)

interpretation OnlineCPUMemRequest_pb: message OnlineCPUMemRequest_new OnlineCPUMemRequest_merge_from OnlineCPUMemRequest_compute_size OnlineCPUMemRequest_write_to OnlineCPUMemRequest_ok OnlineCPUMemRequest_clear
  by (rule messageI [OF OnlineCPUMemRequest_merge_from_def], simp add: OnlineCPUMemRequest_clear_def OnlineCPUMemRequest_new_def,
      unfold OnlineCPUMemRequest_arms_def, (rule robust_if robust_rules | assumption | simp only: if_distribR)+,
      unfold OnlineCPUMemRequest_compute_size_def OnlineCPUMemRequest_write_to_def OnlineCPUMemRequest_ok_def, rule codes_to,
      (rule field_rules OnlineCPUMemRequest_arm | assumption
        | simp add: field_number_def tag_len_def OnlineCPUMemRequest_new_def)+)

section \<open>\<open>ReseedRandomDevRequest\<close>\<close>

record 'u pb_ReseedRandomDevRequest =
  ReseedRandomDevRequest_data :: bytes
  ReseedRandomDevRequest_unknown_fields :: 'u

definition ReseedRandomDevRequest_new :: "'u runtime \<Rightarrow> 'u pb_ReseedRandomDevRequest" where
  "ReseedRandomDevRequest_new rt = \<lparr>ReseedRandomDevRequest_data = [], ReseedRandomDevRequest_unknown_fields = no_unknown rt\<rparr>"

definition ReseedRandomDevRequest_clear :: "'u runtime \<Rightarrow> 'u pb_ReseedRandomDevRequest \<Rightarrow> 'u pb_ReseedRandomDevRequest" where
  "ReseedRandomDevRequest_clear rt m = m\<lparr>ReseedRandomDevRequest_data := [], ReseedRandomDevRequest_unknown_fields := no_unknown rt\<rparr>"

definition ReseedRandomDevRequest_is_initialized :: "'u pb_ReseedRandomDevRequest \<Rightarrow> bool" where
  "ReseedRandomDevRequest_is_initialized m \<longleftrightarrow> True"

definition ReseedRandomDevRequest_arms :: "'u runtime \<Rightarrow> u32 \<Rightarrow> 'u pb_ReseedRandomDevRequest arm" where
  "ReseedRandomDevRequest_arms rt n =
     (if n = 2 then singular_into (read_bytes rt) ReseedRandomDevRequest_data_update
      else unknown_into rt n ReseedRandomDevRequest_unknown_fields ReseedRandomDevRequest_unknown_fields_update)"

definition ReseedRandomDevRequest_merge_from :: "'u runtime \<Rightarrow> 'u pb_ReseedRandomDevRequest \<Rightarrow> 'u pb_ReseedRandomDevRequest reader" where
  "ReseedRandomDevRequest_merge_from rt = merge_fields rt (ReseedRandomDevRequest_arms rt)"

definition ReseedRandomDevRequest_compute_size :: "'u runtime \<Rightarrow> 'u pb_ReseedRandomDevRequest \<Rightarrow> u32" where
  "ReseedRandomDevRequest_compute_size rt m = sum_list [
     whenS (ReseedRandomDevRequest_data m \<noteq> []) (bytes_size rt 2 (ReseedRandomDevRequest_data m)),
     unknown_fields_size rt (ReseedRandomDevRequest_unknown_fields m)]"

definition ReseedRandomDevRequest_write_to :: "'u runtime \<Rightarrow> 'u pb_ReseedRandomDevRequest \<Rightarrow> bytes res" where
  "ReseedRandomDevRequest_write_to rt m = catW [
     whenW (ReseedRandomDevRequest_data m \<noteq> []) (write_bytes rt 2 (ReseedRandomDevRequest_data m)),
     write_unknown_fields rt (ReseedRandomDevRequest_unknown_fields m)]"

definition ReseedRandomDevRequest_ok :: "'u runtime \<Rightarrow> 'u pb_ReseedRandomDevRequest \<Rightarrow> bool" where
  "ReseedRandomDevRequest_ok rt m \<longleftrightarrow> ReseedRandomDevRequest_unknown_fields m = no_unknown rt"

lemma ReseedRandomDevRequest_arm:
  "ReseedRandomDevRequest_arms rt 2 = singular_into (read_bytes rt) ReseedRandomDevRequest_data_update"
  by (simp_all add: ReseedRandomDevRequest_arms_def)

interpretation ReseedRandomDevRequest_pb: message ReseedRandomDevRequest_new ReseedRandomDevRequest_merge_from ReseedRandomDevRequest_compute_size ReseedRandomDevRequest_write_to ReseedRandomDevRequest_ok ReseedRandomDevRequest_clear
  by (rule messageI [OF ReseedRandomDevRequest_merge_from_def], simp add: ReseedRandomDevRequest_clear_def ReseedRandomDevRequest_new_def,
      unfold ReseedRandomDevRequest_arms_def, (rule robust_if robust_rules | assumption | simp only: if_distribR)+,
      unfold ReseedRandomDevRequest_compute_size_def ReseedRandomDevRequest_write_to_def ReseedRandomDevRequest_ok_def, rule codes_to,
      (rule field_rules ReseedRandomDevRequest_arm | assumption
        | simp add: field_number_def tag_len_def ReseedRandomDevRequest_new_def)+)

section \<open>\<open>AgentDetails\<close>\<close>

record 'u pb_AgentDetails =
  AgentDetails_version :: string
  AgentDetails_init_daemon :: bool
  AgentDetails_device_handlers :: "string list"
  AgentDetails_storage_handlers :: "string list"
  AgentDetails_supports_seccomp :: bool
  AgentDetails_unknown_fields :: 'u

definition AgentDetails_new :: "'u runtime \<Rightarrow> 'u pb_AgentDetails" where
  "AgentDetails_new rt = \<lparr>AgentDetails_version = [], AgentDetails_init_daemon = False, AgentDetails_device_handlers = [], AgentDetails_storage_handlers = [], AgentDetails_supports_seccomp = False, AgentDetails_unknown_fields = no_unknown rt\<rparr>"

definition AgentDetails_clear :: "'u runtime \<Rightarrow> 'u pb_AgentDetails \<Rightarrow> 'u pb_AgentDetails" where
  "AgentDetails_clear rt m = m\<lparr>AgentDetails_version := [], AgentDetails_init_daemon := False, AgentDetails_device_handlers := [], AgentDetails_storage_handlers := [], AgentDetails_supports_seccomp := False, AgentDetails_unknown_fields := no_unknown rt\<rparr>"

definition AgentDetails_is_initialized :: "'u pb_AgentDetails \<Rightarrow> bool" where
  "AgentDetails_is_initialized m \<longleftrightarrow> True"

definition AgentDetails_arms :: "'u runtime \<Rightarrow> u32 \<Rightarrow> 'u pb_AgentDetails arm" where
  "AgentDetails_arms rt n =
     (if n = 1 then singular_into (read_string rt) AgentDetails_version_update
      else if n = 2 then varint_into rt (read_bool rt) AgentDetails_init_daemon_update
      else if n = 3 then repeated_into (read_string rt) AgentDetails_device_handlers_update
      else if n = 4 then repeated_into (read_string rt) AgentDetails_storage_handlers_update
      else if n = 5 then varint_into rt (read_bool rt) AgentDetails_supports_seccomp_update
      else unknown_into rt n AgentDetails_unknown_fields AgentDetails_unknown_fields_update)"

definition AgentDetails_merge_from :: "'u runtime \<Rightarrow> 'u pb_AgentDetails \<Rightarrow> 'u pb_AgentDetails reader" where
  "AgentDetails_merge_from rt = merge_fields rt (AgentDetails_arms rt)"

definition AgentDetails_compute_size :: "'u runtime \<Rightarrow> 'u pb_AgentDetails \<Rightarrow> u32" where
  "AgentDetails_compute_size rt m = sum_list [
     whenS (AgentDetails_version m \<noteq> []) (string_size rt 1 (AgentDetails_version m)),
     whenS (AgentDetails_init_daemon m \<noteq> False) 2,
     eachS (AgentDetails_device_handlers m) (string_size rt 3),
     eachS (AgentDetails_storage_handlers m) (string_size rt 4),
     whenS (AgentDetails_supports_seccomp m \<noteq> False) 2,
     unknown_fields_size rt (AgentDetails_unknown_fields m)]"

definition AgentDetails_write_to :: "'u runtime \<Rightarrow> 'u pb_AgentDetails \<Rightarrow> bytes res" where
  "AgentDetails_write_to rt m = catW [
     whenW (AgentDetails_version m \<noteq> []) (write_string rt 1 (AgentDetails_version m)),
     whenW (AgentDetails_init_daemon m \<noteq> False) (write_bool rt 2 (AgentDetails_init_daemon m)),
     eachW (AgentDetails_device_handlers m) (write_string rt 3),
     eachW (AgentDetails_storage_handlers m) (write_string rt 4),
     whenW (AgentDetails_supports_seccomp m \<noteq> False) (write_bool rt 5 (AgentDetails_supports_seccomp m)),
     write_unknown_fields rt (AgentDetails_unknown_fields m)]"

definition AgentDetails_ok :: "'u runtime \<Rightarrow> 'u pb_AgentDetails \<Rightarrow> bool" where
  "AgentDetails_ok rt m \<longleftrightarrow> AgentDetails_unknown_fields m = no_unknown rt \<and>
     utf8 (AgentDetails_version m) \<and>
     list_all utf8 (AgentDetails_device_handlers m) \<and>
     list_all utf8 (AgentDetails_storage_handlers m)"

lemma AgentDetails_arm:
  "AgentDetails_arms rt 1 = singular_into (read_string rt) AgentDetails_version_update"
  "AgentDetails_arms rt 2 = varint_into rt (read_bool rt) AgentDetails_init_daemon_update"
  "AgentDetails_arms rt 3 = repeated_into (read_string rt) AgentDetails_device_handlers_update"
  "AgentDetails_arms rt 4 = repeated_into (read_string rt) AgentDetails_storage_handlers_update"
  "AgentDetails_arms rt 5 = varint_into rt (read_bool rt) AgentDetails_supports_seccomp_update"
  by (simp_all add: AgentDetails_arms_def)

interpretation AgentDetails_pb: message AgentDetails_new AgentDetails_merge_from AgentDetails_compute_size AgentDetails_write_to AgentDetails_ok AgentDetails_clear
  by (rule messageI [OF AgentDetails_merge_from_def], simp add: AgentDetails_clear_def AgentDetails_new_def,
      unfold AgentDetails_arms_def, (rule robust_if robust_rules | assumption | simp only: if_distribR)+,
      unfold AgentDetails_compute_size_def AgentDetails_write_to_def AgentDetails_ok_def, rule codes_to,
      (rule field_rules AgentDetails_arm | assumption
        | simp add: field_number_def tag_len_def AgentDetails_new_def)+)

section \<open>\<open>GuestDetailsRequest\<close>\<close>

record 'u pb_GuestDetailsRequest =
  GuestDetailsRequest_mem_block_size :: bool
  GuestDetailsRequest_mem_hotplug_probe :: bool
  GuestDetailsRequest_unknown_fields :: 'u

definition GuestDetailsRequest_new :: "'u runtime \<Rightarrow> 'u pb_GuestDetailsRequest" where
  "GuestDetailsRequest_new rt = \<lparr>GuestDetailsRequest_mem_block_size = False, GuestDetailsRequest_mem_hotplug_probe = False, GuestDetailsRequest_unknown_fields = no_unknown rt\<rparr>"

definition GuestDetailsRequest_clear :: "'u runtime \<Rightarrow> 'u pb_GuestDetailsRequest \<Rightarrow> 'u pb_GuestDetailsRequest" where
  "GuestDetailsRequest_clear rt m = m\<lparr>GuestDetailsRequest_mem_block_size := False, GuestDetailsRequest_mem_hotplug_probe := False, GuestDetailsRequest_unknown_fields := no_unknown rt\<rparr>"

definition GuestDetailsRequest_is_initialized :: "'u pb_GuestDetailsRequest \<Rightarrow> bool" where
  "GuestDetailsRequest_is_initialized m \<longleftrightarrow> True"

definition GuestDetailsRequest_arms :: "'u runtime \<Rightarrow> u32 \<Rightarrow> 'u pb_GuestDetailsRequest arm" where
  "GuestDetailsRequest_arms rt n =
     (if n = 1 then varint_into rt (read_bool rt) GuestDetailsRequest_mem_block_size_update
      else if n = 2 then varint_into rt (read_bool rt) GuestDetailsRequest_mem_hotplug_probe_update
      else unknown_into rt n GuestDetailsRequest_unknown_fields GuestDetailsRequest_unknown_fields_update)"

definition GuestDetailsRequest_merge_from :: "'u runtime \<Rightarrow> 'u pb_GuestDetailsRequest \<Rightarrow> 'u pb_GuestDetailsRequest reader" where
  "GuestDetailsRequest_merge_from rt = merge_fields rt (GuestDetailsRequest_arms rt)"

definition GuestDetailsRequest_compute_size :: "'u runtime \<Rightarrow> 'u pb_GuestDetailsRequest \<Rightarrow> u32" where
  "GuestDetailsRequest_compute_size rt m = sum_list [
     whenS (GuestDetailsRequest_mem_block_size m \<noteq> False) 2,
     whenS (GuestDetailsRequest_mem_hotplug_probe m \<noteq> False) 2,
     unknown_fields_size rt (GuestDetailsRequest_unknown_fields m)]"

definition GuestDetailsRequest_write_to :: "'u runtime \<Rightarrow> 'u pb_GuestDetailsRequest \<Rightarrow> bytes res" where
  "GuestDetailsRequest_write_to rt m = catW [
     whenW (GuestDetailsRequest_mem_block_size m \<noteq> False) (write_bool rt 1 (GuestDetailsRequest_mem_block_size m)),
     whenW (GuestDetailsRequest_mem_hotplug_probe m \<noteq> False) (write_bool rt 2 (GuestDetailsRequest_mem_hotplug_probe m)),
     write_unknown_fields rt (GuestDetailsRequest_unknown_fields m)]"

definition GuestDetailsRequest_ok :: "'u runtime \<Rightarrow> 'u pb_GuestDetailsRequest \<Rightarrow> bool" where
  "GuestDetailsRequest_ok rt m \<longleftrightarrow> GuestDetailsRequest_unknown_fields m = no_unknown rt"

lemma GuestDetailsRequest_arm:
  "GuestDetailsRequest_arms rt 1 = varint_into rt (read_bool rt) GuestDetailsRequest_mem_block_size_update"
  "GuestDetailsRequest_arms rt 2 = varint_into rt (read_bool rt) GuestDetailsRequest_mem_hotplug_probe_update"
  by (simp_all add: GuestDetailsRequest_arms_def)

interpretation GuestDetailsRequest_pb: message GuestDetailsRequest_new GuestDetailsRequest_merge_from GuestDetailsRequest_compute_size GuestDetailsRequest_write_to GuestDetailsRequest_ok GuestDetailsRequest_clear
  by (rule messageI [OF GuestDetailsRequest_merge_from_def], simp add: GuestDetailsRequest_clear_def GuestDetailsRequest_new_def,
      unfold GuestDetailsRequest_arms_def, (rule robust_if robust_rules | assumption | simp only: if_distribR)+,
      unfold GuestDetailsRequest_compute_size_def GuestDetailsRequest_write_to_def GuestDetailsRequest_ok_def, rule codes_to,
      (rule field_rules GuestDetailsRequest_arm | assumption
        | simp add: field_number_def tag_len_def GuestDetailsRequest_new_def)+)

section \<open>\<open>GuestDetailsResponse\<close>\<close>

record 'u pb_GuestDetailsResponse =
  GuestDetailsResponse_mem_block_size_bytes :: u64
  GuestDetailsResponse_agent_details :: "'u pb_AgentDetails option"
  GuestDetailsResponse_support_mem_hotplug_probe :: bool
  GuestDetailsResponse_unknown_fields :: 'u

definition GuestDetailsResponse_new :: "'u runtime \<Rightarrow> 'u pb_GuestDetailsResponse" where
  "GuestDetailsResponse_new rt = \<lparr>GuestDetailsResponse_mem_block_size_bytes = 0, GuestDetailsResponse_agent_details = None, GuestDetailsResponse_support_mem_hotplug_probe = False, GuestDetailsResponse_unknown_fields = no_unknown rt\<rparr>"

definition GuestDetailsResponse_clear :: "'u runtime \<Rightarrow> 'u pb_GuestDetailsResponse \<Rightarrow> 'u pb_GuestDetailsResponse" where
  "GuestDetailsResponse_clear rt m = m\<lparr>GuestDetailsResponse_mem_block_size_bytes := 0, GuestDetailsResponse_agent_details := None, GuestDetailsResponse_support_mem_hotplug_probe := False, GuestDetailsResponse_unknown_fields := no_unknown rt\<rparr>"

definition GuestDetailsResponse_is_initialized :: "'u pb_GuestDetailsResponse \<Rightarrow> bool" where
  "GuestDetailsResponse_is_initialized m \<longleftrightarrow> pred_option AgentDetails_is_initialized (GuestDetailsResponse_agent_details m)"

definition GuestDetailsResponse_arms :: "'u runtime \<Rightarrow> u32 \<Rightarrow> 'u pb_GuestDetailsResponse arm" where
  "GuestDetailsResponse_arms rt n =
     (if n = 1 then varint_into rt (read_uint64 rt) GuestDetailsResponse_mem_block_size_bytes_update
      else if n = 2 then message_into rt AgentDetails_merge_from AgentDetails_new GuestDetailsResponse_agent_details GuestDetailsResponse_agent_details_update
      else if n = 3 then varint_into rt (read_bool rt) GuestDetailsResponse_support_mem_hotplug_probe_update
      else unknown_into rt n GuestDetailsResponse_unknown_fields GuestDetailsResponse_unknown_fields_update)"

definition GuestDetailsResponse_merge_from :: "'u runtime \<Rightarrow> 'u pb_GuestDetailsResponse \<Rightarrow> 'u pb_GuestDetailsResponse reader" where
  "GuestDetailsResponse_merge_from rt = merge_fields rt (GuestDetailsResponse_arms rt)"

definition GuestDetailsResponse_compute_size :: "'u runtime \<Rightarrow> 'u pb_GuestDetailsResponse \<Rightarrow> u32" where
  "GuestDetailsResponse_compute_size rt m = sum_list [
     whenS (GuestDetailsResponse_mem_block_size_bytes m \<noteq> 0) (size_uint64 rt 1 (GuestDetailsResponse_mem_block_size_bytes m)),
     optS (GuestDetailsResponse_agent_details m) (\<lambda>v. embedded_size rt 1 (AgentDetails_compute_size rt v)),
     whenS (GuestDetailsResponse_support_mem_hotplug_probe m \<noteq> False) 2,
     unknown_fields_size rt (GuestDetailsResponse_unknown_fields m)]"

definition GuestDetailsResponse_write_to :: "'u runtime \<Rightarrow> 'u pb_GuestDetailsResponse \<Rightarrow> bytes res" where
  "GuestDetailsResponse_write_to rt m = catW [
     whenW (GuestDetailsResponse_mem_block_size_bytes m \<noteq> 0) (write_uint64 rt 1 (GuestDetailsResponse_mem_block_size_bytes m)),
     optW (GuestDetailsResponse_agent_details m) (\<lambda>v. write_embedded rt 2 (AgentDetails_compute_size rt v) (AgentDetails_write_to rt v)),
     whenW (GuestDetailsResponse_support_mem_hotplug_probe m \<noteq> False) (write_bool rt 3 (GuestDetailsResponse_support_mem_hotplug_probe m)),
     write_unknown_fields rt (GuestDetailsResponse_unknown_fields m)]"

definition GuestDetailsResponse_ok :: "'u runtime \<Rightarrow> 'u pb_GuestDetailsResponse \<Rightarrow> bool" where
  "GuestDetailsResponse_ok rt m \<longleftrightarrow> GuestDetailsResponse_unknown_fields m = no_unknown rt \<and>
     pred_option (AgentDetails_ok rt) (GuestDetailsResponse_agent_details m)"

lemma GuestDetailsResponse_arm:
  "GuestDetailsResponse_arms rt 1 = varint_into rt (read_uint64 rt) GuestDetailsResponse_mem_block_size_bytes_update"
  "GuestDetailsResponse_arms rt 2 = message_into rt AgentDetails_merge_from AgentDetails_new GuestDetailsResponse_agent_details GuestDetailsResponse_agent_details_update"
  "GuestDetailsResponse_arms rt 3 = varint_into rt (read_bool rt) GuestDetailsResponse_support_mem_hotplug_probe_update"
  by (simp_all add: GuestDetailsResponse_arms_def)

interpretation GuestDetailsResponse_pb: message GuestDetailsResponse_new GuestDetailsResponse_merge_from GuestDetailsResponse_compute_size GuestDetailsResponse_write_to GuestDetailsResponse_ok GuestDetailsResponse_clear
  by (rule messageI [OF GuestDetailsResponse_merge_from_def], simp add: GuestDetailsResponse_clear_def GuestDetailsResponse_new_def,
      unfold GuestDetailsResponse_arms_def, (rule robust_if robust_rules AgentDetails_pb.robust_field | assumption | simp only: if_distribR)+,
      unfold GuestDetailsResponse_compute_size_def GuestDetailsResponse_write_to_def GuestDetailsResponse_ok_def, rule codes_to,
      (rule field_rules AgentDetails_pb.message_field GuestDetailsResponse_arm | assumption
        | simp add: field_number_def tag_len_def GuestDetailsResponse_new_def)+)

section \<open>\<open>MemHotplugByProbeRequest\<close>\<close>

record 'u pb_MemHotplugByProbeRequest =
  MemHotplugByProbeRequest_memHotplugProbeAddr :: "u64 list"
  MemHotplugByProbeRequest_unknown_fields :: 'u

definition MemHotplugByProbeRequest_new :: "'u runtime \<Rightarrow> 'u pb_MemHotplugByProbeRequest" where
  "MemHotplugByProbeRequest_new rt = \<lparr>MemHotplugByProbeRequest_memHotplugProbeAddr = [], MemHotplugByProbeRequest_unknown_fields = no_unknown rt\<rparr>"

definition MemHotplugByProbeRequest_clear :: "'u runtime \<Rightarrow> 'u pb_MemHotplugByProbeRequest \<Rightarrow> 'u pb_MemHotplugByProbeRequest" where
  "MemHotplugByProbeRequest_clear rt m = m\<lparr>MemHotplugByProbeRequest_memHotplugProbeAddr := [], MemHotplugByProbeRequest_unknown_fields := no_unknown rt\<rparr>"

definition MemHotplugByProbeRequest_is_initialized :: "'u pb_MemHotplugByProbeRequest \<Rightarrow> bool" where
  "MemHotplugByProbeRequest_is_initialized m \<longleftrightarrow> True"

definition MemHotplugByProbeRequest_arms :: "'u runtime \<Rightarrow> u32 \<Rightarrow> 'u pb_MemHotplugByProbeRequest arm" where
  "MemHotplugByProbeRequest_arms rt n =
     (if n = 1 then packed_into (read_uint64s rt) MemHotplugByProbeRequest_memHotplugProbeAddr_update
      else unknown_into rt n MemHotplugByProbeRequest_unknown_fields MemHotplugByProbeRequest_unknown_fields_update)"

definition MemHotplugByProbeRequest_merge_from :: "'u runtime \<Rightarrow> 'u pb_MemHotplugByProbeRequest \<Rightarrow> 'u pb_MemHotplugByProbeRequest reader" where
  "MemHotplugByProbeRequest_merge_from rt = merge_fields rt (MemHotplugByProbeRequest_arms rt)"

definition MemHotplugByProbeRequest_compute_size :: "'u runtime \<Rightarrow> 'u pb_MemHotplugByProbeRequest \<Rightarrow> u32" where
  "MemHotplugByProbeRequest_compute_size rt m = sum_list [
     eachS (MemHotplugByProbeRequest_memHotplugProbeAddr m) (size_uint64 rt 1),
     unknown_fields_size rt (MemHotplugByProbeRequest_unknown_fields m)]"

definition MemHotplugByProbeRequest_write_to :: "'u runtime \<Rightarrow> 'u pb_MemHotplugByProbeRequest \<Rightarrow> bytes res" where
  "MemHotplugByProbeRequest_write_to rt m = catW [
     eachW (MemHotplugByProbeRequest_memHotplugProbeAddr m) (write_uint64 rt 1),
     write_unknown_fields rt (MemHotplugByProbeRequest_unknown_fields m)]"

definition MemHotplugByProbeRequest_ok :: "'u runtime \<Rightarrow> 'u pb_MemHotplugByProbeRequest \<Rightarrow> bool" where
  "MemHotplugByProbeRequest_ok rt m \<longleftrightarrow> MemHotplugByProbeRequest_unknown_fields m = no_unknown rt"

lemma MemHotplugByProbeRequest_arm:
  "MemHotplugByProbeRequest_arms rt 1 = packed_into (read_uint64s rt) MemHotplugByProbeRequest_memHotplugProbeAddr_update"
  by (simp_all add: MemHotplugByProbeRequest_arms_def)

interpretation MemHotplugByProbeRequest_pb: message MemHotplugByProbeRequest_new MemHotplugByProbeRequest_merge_from MemHotplugByProbeRequest_compute_size MemHotplugByProbeRequest_write_to MemHotplugByProbeRequest_ok MemHotplugByProbeRequest_clear
  by (rule messageI [OF MemHotplugByProbeRequest_merge_from_def], simp add: MemHotplugByProbeRequest_clear_def MemHotplugByProbeRequest_new_def,
      unfold MemHotplugByProbeRequest_arms_def, (rule robust_if robust_rules | assumption | simp only: if_distribR)+,
      unfold MemHotplugByProbeRequest_compute_size_def MemHotplugByProbeRequest_write_to_def MemHotplugByProbeRequest_ok_def, rule codes_to,
      (rule field_rules MemHotplugByProbeRequest_arm | assumption
        | simp add: field_number_def tag_len_def MemHotplugByProbeRequest_new_def)+)

section \<open>\<open>SetGuestDateTimeRequest\<close>\<close>

record 'u pb_SetGuestDateTimeRequest =
  SetGuestDateTimeRequest_Sec :: u64
  SetGuestDateTimeRequest_Usec :: u64
  SetGuestDateTimeRequest_unknown_fields :: 'u

definition SetGuestDateTimeRequest_new :: "'u runtime \<Rightarrow> 'u pb_SetGuestDateTimeRequest" where
  "SetGuestDateTimeRequest_new rt = \<lparr>SetGuestDateTimeRequest_Sec = 0, SetGuestDateTimeRequest_Usec = 0, SetGuestDateTimeRequest_unknown_fields = no_unknown rt\<rparr>"

definition SetGuestDateTimeRequest_clear :: "'u runtime \<Rightarrow> 'u pb_SetGuestDateTimeRequest \<Rightarrow> 'u pb_SetGuestDateTimeRequest" where
  "SetGuestDateTimeRequest_clear rt m = m\<lparr>SetGuestDateTimeRequest_Sec := 0, SetGuestDateTimeRequest_Usec := 0, SetGuestDateTimeRequest_unknown_fields := no_unknown rt\<rparr>"

definition SetGuestDateTimeRequest_is_initialized :: "'u pb_SetGuestDateTimeRequest \<Rightarrow> bool" where
  "SetGuestDateTimeRequest_is_initialized m \<longleftrightarrow> True"

definition SetGuestDateTimeRequest_arms :: "'u runtime \<Rightarrow> u32 \<Rightarrow> 'u pb_SetGuestDateTimeRequest arm" where
  "SetGuestDateTimeRequest_arms rt n =
     (if n = 1 then varint_into rt (read_int64 rt) SetGuestDateTimeRequest_Sec_update
      else if n = 2 then varint_into rt (read_int64 rt) SetGuestDateTimeRequest_Usec_update
      else unknown_into rt n SetGuestDateTimeRequest_unknown_fields SetGuestDateTimeRequest_unknown_fields_update)"

definition SetGuestDateTimeRequest_merge_from :: "'u runtime \<Rightarrow> 'u pb_SetGuestDateTimeRequest \<Rightarrow> 'u pb_SetGuestDateTimeRequest reader" where
  "SetGuestDateTimeRequest_merge_from rt = merge_fields rt (SetGuestDateTimeRequest_arms rt)"

definition SetGuestDateTimeRequest_compute_size :: "'u runtime \<Rightarrow> 'u pb_SetGuestDateTimeRequest \<Rightarrow> u32" where
  "SetGuestDateTimeRequest_compute_size rt m = sum_list [
     whenS (SetGuestDateTimeRequest_Sec m \<noteq> 0) (size_int64 rt 1 (SetGuestDateTimeRequest_Sec m)),
     whenS (SetGuestDateTimeRequest_Usec m \<noteq> 0) (size_int64 rt 2 (SetGuestDateTimeRequest_Usec m)),
     unknown_fields_size rt (SetGuestDateTimeRequest_unknown_fields m)]"

definition SetGuestDateTimeRequest_write_to :: "'u runtime \<Rightarrow> 'u pb_SetGuestDateTimeRequest \<Rightarrow> bytes res" where
  "SetGuestDateTimeRequest_write_to rt m = catW [
     whenW (SetGuestDateTimeRequest_Sec m \<noteq> 0) (write_int64 rt 1 (SetGuestDateTimeRequest_Sec m)),
     whenW (SetGuestDateTimeRequest_Usec m \<noteq> 0) (write_int64 rt 2 (SetGuestDateTimeRequest_Usec m)),
     write_unknown_fields rt (SetGuestDateTimeRequest_unknown_fields m)]"

definition SetGuestDateTimeRequest_ok :: "'u runtime \<Rightarrow> 'u pb_SetGuestDateTimeRequest \<Rightarrow> bool" where
  "SetGuestDateTimeRequest_ok rt m \<longleftrightarrow> SetGuestDateTimeRequest_unknown_fields m = no_unknown rt"

lemma SetGuestDateTimeRequest_arm:
  "SetGuestDateTimeRequest_arms rt 1 = varint_into rt (read_int64 rt) SetGuestDateTimeRequest_Sec_update"
  "SetGuestDateTimeRequest_arms rt 2 = varint_into rt (read_int64 rt) SetGuestDateTimeRequest_Usec_update"
  by (simp_all add: SetGuestDateTimeRequest_arms_def)

interpretation SetGuestDateTimeRequest_pb: message SetGuestDateTimeRequest_new SetGuestDateTimeRequest_merge_from SetGuestDateTimeRequest_compute_size SetGuestDateTimeRequest_write_to SetGuestDateTimeRequest_ok SetGuestDateTimeRequest_clear
  by (rule messageI [OF SetGuestDateTimeRequest_merge_from_def], simp add: SetGuestDateTimeRequest_clear_def SetGuestDateTimeRequest_new_def,
      unfold SetGuestDateTimeRequest_arms_def, (rule robust_if robust_rules | assumption | simp only: if_distribR)+,
      unfold SetGuestDateTimeRequest_compute_size_def SetGuestDateTimeRequest_write_to_def SetGuestDateTimeRequest_ok_def, rule codes_to,
      (rule field_rules SetGuestDateTimeRequest_arm | assumption
        | simp add: field_number_def tag_len_def SetGuestDateTimeRequest_new_def)+)

section \<open>\<open>CopyFileRequest\<close>\<close>

record 'u pb_CopyFileRequest =
  CopyFileRequest_path :: string
  CopyFileRequest_file_size :: u64
  CopyFileRequest_file_mode :: u32
  CopyFileRequest_dir_mode :: u32
  CopyFileRequest_uid :: u32
  CopyFileRequest_gid :: u32
  CopyFileRequest_offset :: u64
  CopyFileRequest_data :: bytes
  CopyFileRequest_unknown_fields :: 'u

definition CopyFileRequest_new :: "'u runtime \<Rightarrow> 'u pb_CopyFileRequest" where
  "CopyFileRequest_new rt = \<lparr>CopyFileRequest_path = [], CopyFileRequest_file_size = 0, CopyFileRequest_file_mode = 0, CopyFileRequest_dir_mode = 0, CopyFileRequest_uid = 0, CopyFileRequest_gid = 0, CopyFileRequest_offset = 0, CopyFileRequest_data = [], CopyFileRequest_unknown_fields = no_unknown rt\<rparr>"

definition CopyFileRequest_clear :: "'u runtime \<Rightarrow> 'u pb_CopyFileRequest \<Rightarrow> 'u pb_CopyFileRequest" where
  "CopyFileRequest_clear rt m = m\<lparr>CopyFileRequest_path := [], CopyFileRequest_file_size := 0, CopyFileRequest_file_mode := 0, CopyFileRequest_dir_mode := 0, CopyFileRequest_uid := 0, CopyFileRequest_gid := 0, CopyFileRequest_offset := 0, CopyFileRequest_data := [], CopyFileRequest_unknown_fields := no_unknown rt\<rparr>"

definition CopyFileRequest_is_initialized :: "'u pb_CopyFileRequest \<Rightarrow> bool" where
  "CopyFileRequest_is_initialized m \<longleftrightarrow> True"

definition CopyFileRequest_arms :: "'u runtime \<Rightarrow> u32 \<Rightarrow> 'u pb_CopyFileRequest arm" where
  "CopyFileRequest_arms rt n =
     (if n = 1 then singular_into (read_string rt) CopyFileRequest_path_update
      else if n = 2 then varint_into rt (read_int64 rt) CopyFileRequest_file_size_update
      else if n = 3 then varint_into rt (read_uint32 rt) CopyFileRequest_file_mode_update
      else if n = 4 then varint_into rt (read_uint32 rt) CopyFileRequest_dir_mode_update
      else if n = 5 then varint_into rt (read_int32 rt) CopyFileRequest_uid_update
      else if n = 6 then varint_into rt (read_int32 rt) CopyFileRequest_gid_update
      else if n = 7 then varint_into rt (read_int64 rt) CopyFileRequest_offset_update
      else if n = 8 then singular_into (read_bytes rt) CopyFileRequest_data_update
      else unknown_into rt n CopyFileRequest_unknown_fields CopyFileRequest_unknown_fields_update)"

definition CopyFileRequest_merge_from :: "'u runtime \<Rightarrow> 'u pb_CopyFileRequest \<Rightarrow> 'u pb_CopyFileRequest reader" where
  "CopyFileRequest_merge_from rt = merge_fields rt (CopyFileRequest_arms rt)"

definition CopyFileRequest_compute_size :: "'u runtime \<Rightarrow> 'u pb_CopyFileRequest \<Rightarrow> u32" where
  "CopyFileRequest_compute_size rt m = sum_list [
     whenS (CopyFileRequest_path m \<noteq> []) (string_size rt 1 (CopyFileRequest_path m)),
     whenS (CopyFileRequest_file_size m \<noteq> 0) (size_int64 rt 2 (CopyFileRequest_file_size m)),
     whenS (CopyFileRequest_file_mode m \<noteq> 0) (size_uint32 rt 3 (CopyFileRequest_file_mode m)),
     whenS (CopyFileRequest_dir_mode m \<noteq> 0) (size_uint32 rt 4 (CopyFileRequest_dir_mode m)),
     whenS (CopyFileRequest_uid m \<noteq> 0) (size_int32 rt 5 (CopyFileRequest_uid m)),
     whenS (CopyFileRequest_gid m \<noteq> 0) (size_int32 rt 6 (CopyFileRequest_gid m)),
     whenS (CopyFileRequest_offset m \<noteq> 0) (size_int64 rt 7 (CopyFileRequest_offset m)),
     whenS (CopyFileRequest_data m \<noteq> []) (bytes_size rt 8 (CopyFileRequest_data m)),
     unknown_fields_size rt (CopyFileRequest_unknown_fields m)]"

definition CopyFileRequest_write_to :: "'u runtime \<Rightarrow> 'u pb_CopyFileRequest \<Rightarrow> bytes res" where
  "CopyFileRequest_write_to rt m = catW [
     whenW (CopyFileRequest_path m \<noteq> []) (write_string rt 1 (CopyFileRequest_path m)),
     whenW (CopyFileRequest_file_size m \<noteq> 0) (write_int64 rt 2 (CopyFileRequest_file_size m)),
     whenW (CopyFileRequest_file_mode m \<noteq> 0) (write_uint32 rt 3 (CopyFileRequest_file_mode m)),
     whenW (CopyFileRequest_dir_mode m \<noteq> 0) (write_uint32 rt 4 (CopyFileRequest_dir_mode m)),
     whenW (CopyFileRequest_uid m \<noteq> 0) (write_int32 rt 5 (CopyFileRequest_uid m)),
     whenW (CopyFileRequest_gid m \<noteq> 0) (write_int32 rt 6 (CopyFileRequest_gid m)),
     whenW (CopyFileRequest_offset m \<noteq> 0) (write_int64 rt 7 (CopyFileRequest_offset m)),
     whenW (CopyFileRequest_data m \<noteq> []) (write_bytes rt 8 (CopyFileRequest_data m)),
     write_unknown_fields rt (CopyFileRequest_unknown_fields m)]"

definition CopyFileRequest_ok :: "'u runtime \<Rightarrow> 'u pb_CopyFileRequest \<Rightarrow> bool" where
  "CopyFileRequest_ok rt m \<longleftrightarrow> CopyFileRequest_unknown_fields m = no_unknown rt \<and>
     utf8 (CopyFileRequest_path m)"

lemma CopyFileRequest_arm:
  "CopyFileRequest_arms rt 1 = singular_into (read_string rt) CopyFileRequest_path_update"
  "CopyFileRequest_arms rt 2 = varint_into rt (read_int64 rt) CopyFileRequest_file_size_update"
  "CopyFileRequest_arms rt 3 = varint_into rt (read_uint32 rt) CopyFileRequest_file_mode_update"
  "CopyFileRequest_arms rt 4 = varint_into rt (read_uint32 rt) CopyFileRequest_dir_mode_update"
  "CopyFileRequest_arms rt 5 = varint_into rt (read_int32 rt) CopyFileRequest_uid_update"
  "CopyFileRequest_arms rt 6 = varint_into rt (read_int32 rt) CopyFileRequest_gid_update"
  "CopyFileRequest_arms rt 7 = varint_into rt (read_int64 rt) CopyFileRequest_offset_update"
  "CopyFileRequest_arms rt 8 = singular_into (read_bytes rt) CopyFileRequest_data_update"
  by (simp_all add: CopyFileRequest_arms_def)

interpretation CopyFileRequest_pb: message CopyFileRequest_new CopyFileRequest_merge_from CopyFileRequest_compute_size CopyFileRequest_write_to CopyFileRequest_ok CopyFileRequest_clear
  by (rule messageI [OF CopyFileRequest_merge_from_def], simp add: CopyFileRequest_clear_def CopyFileRequest_new_def,
      unfold CopyFileRequest_arms_def, (rule robust_if robust_rules | assumption | simp only: if_distribR)+,
      unfold CopyFileRequest_compute_size_def CopyFileRequest_write_to_def CopyFileRequest_ok_def, rule codes_to,
      (rule field_rules CopyFileRequest_arm | assumption
        | simp add: field_number_def tag_len_def CopyFileRequest_new_def)+)

section \<open>\<open>StartTracingRequest\<close>\<close>

record 'u pb_StartTracingRequest =
  StartTracingRequest_unknown_fields :: 'u

definition StartTracingRequest_new :: "'u runtime \<Rightarrow> 'u pb_StartTracingRequest" where
  "StartTracingRequest_new rt = \<lparr>StartTracingRequest_unknown_fields = no_unknown rt\<rparr>"

definition StartTracingRequest_clear :: "'u runtime \<Rightarrow> 'u pb_StartTracingRequest \<Rightarrow> 'u pb_StartTracingRequest" where
  "StartTracingRequest_clear rt m = m\<lparr>StartTracingRequest_unknown_fields := no_unknown rt\<rparr>"

definition StartTracingRequest_is_initialized :: "'u pb_StartTracingRequest \<Rightarrow> bool" where
  "StartTracingRequest_is_initialized m \<longleftrightarrow> True"

definition StartTracingRequest_arms :: "'u runtime \<Rightarrow> u32 \<Rightarrow> 'u pb_StartTracingRequest arm" where
  "StartTracingRequest_arms rt n =
     unknown_into rt n StartTracingRequest_unknown_fields StartTracingRequest_unknown_fields_update"

definition StartTracingRequest_merge_from :: "'u runtime \<Rightarrow> 'u pb_StartTracingRequest \<Rightarrow> 'u pb_StartTracingRequest reader" where
  "StartTracingRequest_merge_from rt = merge_fields rt (StartTracingRequest_arms rt)"

definition StartTracingRequest_compute_size :: "'u runtime \<Rightarrow> 'u pb_StartTracingRequest \<Rightarrow> u32" where
  "StartTracingRequest_compute_size rt m = sum_list [
     unknown_fields_size rt (StartTracingRequest_unknown_fields m)]"

definition StartTracingRequest_write_to :: "'u runtime \<Rightarrow> 'u pb_StartTracingRequest \<Rightarrow> bytes res" where
  "StartTracingRequest_write_to rt m = catW [
     write_unknown_fields rt (StartTracingRequest_unknown_fields m)]"

definition StartTracingRequest_ok :: "'u runtime \<Rightarrow> 'u pb_StartTracingRequest \<Rightarrow> bool" where
  "StartTracingRequest_ok rt m \<longleftrightarrow> StartTracingRequest_unknown_fields m = no_unknown rt"

interpretation StartTracingRequest_pb: message StartTracingRequest_new StartTracingRequest_merge_from StartTracingRequest_compute_size StartTracingRequest_write_to StartTracingRequest_ok StartTracingRequest_clear
  by (rule messageI [OF StartTracingRequest_merge_from_def], simp add: StartTracingRequest_clear_def StartTracingRequest_new_def,
      unfold StartTracingRequest_arms_def, (rule robust_rules | assumption | simp only: if_distribR)+,
      unfold StartTracingRequest_compute_size_def StartTracingRequest_write_to_def StartTracingRequest_ok_def, rule codes_to,
      (rule field_rules | assumption
        | simp add: field_number_def tag_len_def StartTracingRequest_new_def)+)

section \<open>\<open>StopTracingRequest\<close>\<close>

record 'u pb_StopTracingRequest =
  StopTracingRequest_unknown_fields :: 'u

definition StopTracingRequest_new :: "'u runtime \<Rightarrow> 'u pb_StopTracingRequest" where
  "StopTracingRequest_new rt = \<lparr>StopTracingRequest_unknown_fields = no_unknown rt\<rparr>"

definition StopTracingRequest_clear :: "'u runtime \<Rightarrow> 'u pb_StopTracingRequest \<Rightarrow> 'u pb_StopTracingRequest" where
  "StopTracingRequest_clear rt m = m\<lparr>StopTracingRequest_unknown_fields := no_unknown rt\<rparr>"

definition StopTracingRequest_is_initialized :: "'u pb_StopTracingRequest \<Rightarrow> bool" where
  "StopTracingRequest_is_initialized m \<longleftrightarrow> True"

definition StopTracingRequest_arms :: "'u runtime \<Rightarrow> u32 \<Rightarrow> 'u pb_StopTracingRequest arm" where
  "StopTracingRequest_arms rt n =
     unknown_into rt n StopTracingRequest_unknown_fields StopTracingRequest_unknown_fields_update"

definition StopTracingRequest_merge_from :: "'u runtime \<Rightarrow> 'u pb_StopTracingRequest \<Rightarrow> 'u pb_StopTracingRequest reader" where
  "StopTracingRequest_merge_from rt = merge_fields rt (StopTracingRequest_arms rt)"

definition StopTracingRequest_compute_size :: "'u runtime \<Rightarrow> 'u pb_StopTracingRequest \<Rightarrow> u32" where
  "StopTracingRequest_compute_size rt m = sum_list [
     unknown_fields_size rt (StopTracingRequest_unknown_fields m)]"

definition StopTracingRequest_write_to :: "'u runtime \<Rightarrow> 'u pb_StopTracingRequest \<Rightarrow> bytes res" where
  "StopTracingRequest_write_to rt m = catW [
     write_unknown_fields rt (StopTracingRequest_unknown_fields m)]"

definition StopTracingRequest_ok :: "'u runtime \<Rightarrow> 'u pb_StopTracingRequest \<Rightarrow> bool" where
  "StopTracingRequest_ok rt m \<longleftrightarrow> StopTracingRequest_unknown_fields m = no_unknown rt"

interpretation StopTracingRequest_pb: message StopTracingRequest_new StopTracingRequest_merge_from StopTracingRequest_compute_size StopTracingRequest_write_to StopTracingRequest_ok StopTracingRequest_clear
  by (rule messageI [OF StopTracingRequest_merge_from_def], simp add: StopTracingRequest_clear_def StopTracingRequest_new_def,
      unfold StopTracingRequest_arms_def, (rule robust_rules | assumption | simp only: if_distribR)+,
      unfold StopTracingRequest_compute_size_def StopTracingRequest_write_to_def StopTracingRequest_ok_def, rule codes_to,
      (rule field_rules | assumption
        | simp add: field_number_def tag_len_def StopTracingRequest_new_def)+)

end
