(* ===== verification/Pb_Wire.thy ===== *)
theory Pb_Wire
  imports Pb_Message
begin

text \<open>
  The wire format of protocol buffers as its documentation describes it, as one instance of the \<open>protobuf\<close>
  package: variable-length integers of seven bits to the byte, a tag of field number and wire type before each
  field, strings, messages and the entries of a map behind their lengths. It shows that the contract
  \<open>protobuf\<close> can be kept, and it is the package that the witnesses run with.
\<close>

section \<open>Variable-length integers\<close>

fun varint :: "nat \<Rightarrow> bytes" where
  "varint n = (if n < 128 then [of_nat n] else of_nat (n mod 128 + 128) # varint (n div 128))"

declare varint.simps [simp del]

text \<open>At most \<open>k\<close> bytes.\<close>

fun unvarint :: "nat \<Rightarrow> bytes \<Rightarrow> (nat \<times> bytes) option" where
  "unvarint 0 bs = None"
| "unvarint (Suc k) [] = None"
| "unvarint (Suc k) (b # bs) = (if b < 128 then Some (unat b, bs)
     else map_option (\<lambda>(n, rest). (unat b - 128 + 128 * n, rest)) (unvarint k bs))"

lemma unat_byte: "n < 256 \<Longrightarrow> unat (of_nat n :: u8) = n"
  by (simp add: unat_of_nat take_bit_eq_mod)

lemma small_byte: "n < 256 \<Longrightarrow> (of_nat n :: u8) < 128 \<longleftrightarrow> n < 128"
  by (simp add: word_less_nat_alt unat_byte)

lemma unvarint_varint: "length (varint n) \<le> k \<Longrightarrow> unvarint k (varint n @ rest) = Some (n, rest)"
proof (induction n arbitrary: k rule: varint.induct)
  case (1 n)
  show ?case
  proof (cases "n < 128")
    case True
    with 1(2) show ?thesis
      by (cases k) (simp_all add: varint.simps [of n] small_byte unat_byte)
  next
    case False
    with 1(2) obtain j where k: "k = Suc j" "length (varint (n div 128)) \<le> j"
      by (cases k) (simp_all add: varint.simps [of n])
    have "n mod 128 + 128 < 256" by simp
    then have b: "unat (of_nat (n mod 128 + 128) :: u8) = n mod 128 + 128" "\<not> (of_nat (n mod 128 + 128) :: u8) < 128"
      by (simp_all only: unat_byte small_byte)
    from False 1(1) [OF _ k(2)] show ?thesis
      by (simp add: varint.simps [of n] k(1) b del: of_nat_add)
  qed
qed

lemma varint_bound: "n < 128 ^ Suc k \<Longrightarrow> length (varint n) \<le> Suc k"
proof (induction k arbitrary: n)
  case (Suc k)
  then have "n div 128 < 128 ^ Suc k" by (auto intro: less_mult_imp_div_less simp: algebra_simps)
  with Suc.IH show ?case by (simp add: varint.simps [of n])
qed (simp add: varint.simps)

definition wire_number :: "wire_type \<Rightarrow> nat" where
  "wire_number wt = (case wt of WireTypeVarint \<Rightarrow> 0 | WireTypeFixed64 \<Rightarrow> 1 | WireTypeLengthDelimited \<Rightarrow> 2
     | WireTypeStartGroup \<Rightarrow> 3 | WireTypeEndGroup \<Rightarrow> 4 | WireTypeFixed32 \<Rightarrow> 5)"

definition wire_type_of :: "nat \<Rightarrow> wire_type option" where
  "wire_type_of n = (if n < 6 then Some ([WireTypeVarint, WireTypeFixed64, WireTypeLengthDelimited,
     WireTypeStartGroup, WireTypeEndGroup, WireTypeFixed32] ! n) else None)"

lemma wire_types: "wire_type_of (wire_number wt) = Some wt" "wire_number wt < 8"
  by (cases wt; simp add: wire_number_def wire_type_of_def)+

definition tag_bytes :: "u32 \<Rightarrow> wire_type \<Rightarrow> bytes" where
  "tag_bytes n wt = varint (unat n * 8 + wire_number wt)"

definition varint64 :: "nat reader" where
  "varint64 bs = (case unvarint 10 bs of None \<Rightarrow> (Err Parse, bs) | Some (v, rest) \<Rightarrow> (Ok v, rest))"

definition wire_tag :: "(u32 \<times> wire_type) reader" where
  "wire_tag = bindR varint64 (\<lambda>v. case wire_type_of (v mod 8) of
     Some wt \<Rightarrow> if v div 8 = 0 \<or> 0x20000000 \<le> v div 8 then throw Parse else ret (of_nat (v div 8), wt)
   | None \<Rightarrow> throw Parse)"

lemma varint64_varint: "v < 2 ^ 64 \<Longrightarrow> varint64 (varint v @ rest) = (Ok v, rest)"
proof -
  assume "v < 2 ^ 64"
  then have "v < 128 ^ Suc 9" by simp
  from varint_bound [OF this] have "length (varint v) \<le> 10" by simp
  then show ?thesis by (simp add: varint64_def unvarint_varint)
qed

lemma field_number_nat: "field_number n \<longleftrightarrow> 0 < unat n \<and> unat n < 0x20000000"
  by (simp add: field_number_def word_less_nat_alt unat_gt_0)

lemma tag_len_nat: "tag_len n = (if unat n < 0x10 then 1 else if unat n < 0x800 then 2 else if unat n < 0x40000 then 3
    else if unat n < 0x2000000 then 4 else 5)"
  by (simp add: tag_len_def word_less_nat_alt)

lemma tag_bytes_len:
  assumes "field_number n"
  shows "length (tag_bytes n wt) = tag_len n"
proof -
  have w: "wire_number wt < 8" by (rule wire_types)
  have d: "(unat n * 8 + wire_number wt) div 128 = unat n div 16" using w by simp
  note v = varint.simps [of "unat n * 8 + wire_number wt"] varint.simps [of "unat n div 16"]
    varint.simps [of "unat n div 2048"] varint.simps [of "unat n div 262144"] varint.simps [of "unat n div 33554432"]
  have "unat n * 8 + wire_number wt < 128 \<longleftrightarrow> unat n < 16" using w by auto
  then show ?thesis using assms
    by (simp add: tag_bytes_def tag_len_nat field_number_nat v d div_mult2_eq [symmetric] less_eq_div_iff_mult_less_eq
        div_less_iff_less_mult)
qed

lemma tag_read:
  assumes "field_number n"
  shows "wire_tag (tag_bytes n wt @ rest) = (Ok (n, wt), rest)"
proof -
  have w: "wire_number wt < 8" by (rule wire_types)
  have n: "0 < unat n" "unat n < 0x20000000" using assms by (simp_all add: field_number_nat)
  then have "unat n * 8 + wire_number wt < 2 ^ 64" using w by simp
  from varint64_varint [OF this, of rest] show ?thesis
    using n w by (simp add: tag_bytes_def wire_tag_def wire_types)
qed

section \<open>The package\<close>

type_synonym unknown_fields = "(u32 \<times> wire_type \<times> bytes) list"

definition wire_take :: "nat \<Rightarrow> bytes reader" where
  "wire_take l bs = (if l \<le> length bs then (Ok (take l bs), drop l bs) else (Err Parse, bs))"

definition wire_chunk :: "bytes reader" where
  "wire_chunk = bindR varint64 wire_take"

definition delimited :: "bytes \<Rightarrow> bytes" where
  "delimited b = varint (length b) @ b"

definition expect :: "wire_type \<Rightarrow> 'a reader \<Rightarrow> wire_type \<Rightarrow> 'a reader" where
  "expect want rd wt = (if wt = want then rd else throw Parse)"

definition wire_text :: "string reader" where
  "wire_text = bindR wire_chunk (\<lambda>b. liftR (from_utf8 b))"

definition wire_put :: "u32 \<Rightarrow> wire_type \<Rightarrow> bytes \<Rightarrow> bytes res" where
  "wire_put n wt p = Ok (tag_bytes n wt @ p)"

definition wire_size :: "u32 \<Rightarrow> nat \<Rightarrow> u32" where
  "wire_size n l = of_nat (tag_len n + l)"

text \<open>The entry of a map: the key with field number 1, then the value with field number 2.\<close>

definition entry_bytes :: "string \<Rightarrow> wire_type \<Rightarrow> bytes \<Rightarrow> bytes" where
  "entry_bytes k wt p = tag_bytes 1 WireTypeLengthDelimited @ delimited (bytes_of k) @ tag_bytes 2 wt @ p"

definition wire_entry :: "wire_type \<Rightarrow> 'v reader \<Rightarrow> (string \<times> 'v) reader" where
  "wire_entry wt rd = bindR wire_chunk (\<lambda>e. liftR (fst (bindR wire_tag (\<lambda>t.
     if t \<noteq> (1, WireTypeLengthDelimited) then throw Parse
     else bindR wire_text (\<lambda>k. bindR wire_tag (\<lambda>t. if t \<noteq> (2, wt) then throw Parse
       else bindR rd (\<lambda>v. ret (k, v))))) e)))"

definition put_entry :: "u32 \<Rightarrow> wire_type \<Rightarrow> string \<Rightarrow> bytes \<Rightarrow> bytes res" where
  "put_entry n wt k p = wire_put n WireTypeLengthDelimited (delimited (entry_bytes k wt p))"

definition entry_size :: "u32 \<Rightarrow> string \<Rightarrow> nat \<Rightarrow> u32" where
  "entry_size n k l = (let e = 1 + length (delimited (bytes_of k)) + 1 + l in wire_size n (length (varint e) + e))"

definition wire_unknown :: "u32 \<Rightarrow> wire_type \<Rightarrow> unknown_fields \<Rightarrow> unknown_fields reader" where
  "wire_unknown n wt u = bindR (case wt of WireTypeVarint \<Rightarrow> bindR varint64 (\<lambda>v. ret (varint v))
       | WireTypeFixed64 \<Rightarrow> wire_take 8 | WireTypeFixed32 \<Rightarrow> wire_take 4
       | WireTypeLengthDelimited \<Rightarrow> bindR wire_chunk (\<lambda>b. ret (delimited b)) | _ \<Rightarrow> throw Parse)
     (\<lambda>p. ret (u @ [(n, wt, p)]))"

definition int_bits :: "u32 \<Rightarrow> nat" where
  "int_bits i = unat (scast i :: u64)"

definition wire :: "unknown_fields runtime" where
  "wire = \<lparr>no_unknown = [], unexpected_wire_type = (\<lambda>_. Parse), read_tag_unpack = wire_tag,
    read_bool = bindR varint64 (\<lambda>v. ret (v \<noteq> 0)),
    read_int32 = bindR varint64 (\<lambda>v. ret (of_nat v)), read_uint32 = bindR varint64 (\<lambda>v. ret (of_nat v)),
    read_int64 = bindR varint64 (\<lambda>v. ret (of_nat v)), read_uint64 = bindR varint64 (\<lambda>v. ret (of_nat v)),
    read_string = expect WireTypeLengthDelimited wire_text, read_bytes = expect WireTypeLengthDelimited wire_chunk,
    read_uint32s = expect WireTypeVarint (bindR varint64 (\<lambda>v. ret [of_nat v])),
    read_uint64s = expect WireTypeVarint (bindR varint64 (\<lambda>v. ret [of_nat v])),
    read_enum = (\<lambda>known wt n u. expect WireTypeVarint (bindR varint64 (\<lambda>v. ret (if known (of_nat v) then (Some (of_nat v), u)
       else (None, u @ [(n, wt, varint v)])))) wt),
    read_map_string = expect WireTypeLengthDelimited (wire_entry WireTypeLengthDelimited wire_text),
    read_map_uint64 = expect WireTypeLengthDelimited (wire_entry WireTypeVarint (bindR varint64 (\<lambda>v. ret (of_nat v)))),
    read_map_message = expect WireTypeLengthDelimited (wire_entry WireTypeLengthDelimited wire_chunk),
    read_message = expect WireTypeLengthDelimited wire_chunk, merges_again = True, read_unknown = wire_unknown,
    write_tag = (\<lambda>n wt. Ok (tag_bytes n wt)), write_raw_varint32 = (\<lambda>i. Ok (varint (unat i))),
    write_bool = (\<lambda>n b. wire_put n WireTypeVarint (varint (if b then 1 else 0))),
    write_int32 = (\<lambda>n i. wire_put n WireTypeVarint (varint (int_bits i))),
    write_uint32 = (\<lambda>n i. wire_put n WireTypeVarint (varint (unat i))),
    write_int64 = (\<lambda>n i. wire_put n WireTypeVarint (varint (unat i))),
    write_uint64 = (\<lambda>n i. wire_put n WireTypeVarint (varint (unat i))),
    write_enum = (\<lambda>n i. wire_put n WireTypeVarint (varint (unat i))),
    write_string = (\<lambda>n s. wire_put n WireTypeLengthDelimited (delimited (bytes_of s))),
    write_bytes = (\<lambda>n b. wire_put n WireTypeLengthDelimited (delimited b)),
    write_map_string = (\<lambda>n kvs. eachW kvs (\<lambda>(k, s). put_entry n WireTypeLengthDelimited k (delimited (bytes_of s)))),
    write_map_uint64 = (\<lambda>n kvs. eachW kvs (\<lambda>(k, l). put_entry n WireTypeVarint k (varint (unat l)))),
    write_map_message = (\<lambda>n kvs. eachW kvs (\<lambda>(k, l, w). bind_res w (\<lambda>b.
       put_entry n WireTypeLengthDelimited k (varint (unat l) @ b)))),
    write_unknown_fields = (\<lambda>u. eachW u (\<lambda>(n, wt, p). wire_put n wt p)),
    raw_varint32_size = (\<lambda>i. of_nat (length (varint (unat i)))),
    size_int32 = (\<lambda>n i. wire_size n (length (varint (int_bits i)))),
    size_uint32 = (\<lambda>n i. wire_size n (length (varint (unat i)))),
    size_int64 = (\<lambda>n i. wire_size n (length (varint (unat i)))),
    size_uint64 = (\<lambda>n i. wire_size n (length (varint (unat i)))),
    enum_size = (\<lambda>n i. wire_size n (length (varint (unat i)))),
    string_size = (\<lambda>n s. wire_size n (length (delimited (bytes_of s)))),
    bytes_size = (\<lambda>n b. wire_size n (length (delimited b))),
    map_string_size = (\<lambda>n kvs. eachS kvs (\<lambda>(k, s). entry_size n k (length (delimited (bytes_of s))))),
    map_uint64_size = (\<lambda>n kvs. eachS kvs (\<lambda>(k, l). entry_size n k (length (varint (unat l))))),
    map_message_size = (\<lambda>n kvs. eachS kvs (\<lambda>(k, l). entry_size n k (length (varint (unat l)) + unat l))),
    unknown_fields_size = (\<lambda>u. eachS u (\<lambda>(n, wt, p). wire_size n (length p)))\<rparr>"

section \<open>The contract\<close>

lemma carries_wire:
  assumes "field_number n" "z = wire_size n (length p)"
    and "length p < 2 ^ 32 \<Longrightarrow> (\<And>rest. rd (p @ rest) = (Ok v, rest))"
  shows "carries wire n wt (wire_put n wt p) z rd v"
  using assms by (auto simp: carries_def wire_def wire_put_def wire_size_def tag_bytes_len)

lemma read_number [simp]: "n < 2 ^ 64 \<Longrightarrow> bindR varint64 f (varint n @ rest) = f n rest"
  by (simp add: varint64_varint)

lemma wire_chunk_delimited: "length b < 2 ^ 64 \<Longrightarrow> wire_chunk (delimited b @ rest) = (Ok b, rest)"
  by (simp add: wire_chunk_def delimited_def wire_take_def)

lemma wire_text_delimited: "utf8 s \<Longrightarrow> length s < 2 ^ 64 \<Longrightarrow> wire_text (delimited (bytes_of s) @ rest) = (Ok s, rest)"
  by (simp add: wire_text_def wire_chunk_delimited utf8_def from_utf8_def bytes_of_length)

lemma wire_entry_read:
  assumes "utf8 k" "length (entry_bytes k wt p) < 2 ^ 32" "rd p = (Ok v, [])"
  shows "wire_entry wt rd (delimited (entry_bytes k wt p) @ rest) = (Ok (k, v), rest)"
proof -
  have "length k < 2 ^ 64" using assms(2) by (simp add: entry_bytes_def delimited_def bytes_of_def)
  moreover have "field_number 1" "field_number 2" by (simp_all add: field_number_def)
  ultimately show ?thesis using assms
    by (simp add: wire_entry_def wire_chunk_delimited entry_bytes_def [of k] tag_read wire_text_delimited)
qed

lemma each_one: "eachW [e] f = f e" "eachS [e] g = g e"
  by (cases "f e"; simp add: eachW_def eachS_def)+

lemma each_none: "eachW [] f = Ok []" "eachS [] g = 0"
  by (simp_all add: eachW_def eachS_def)

lemma carries_entry:
  assumes "field_number n" "utf8 k" "length p < 2 ^ 32 \<Longrightarrow> rd p = (Ok v, [])" "l = length p"
  shows "carries wire n WireTypeLengthDelimited (put_entry n wt k p) (entry_size n k l) (wire_entry wt rd) (k, v)"
  unfolding put_entry_def
proof (rule carries_wire [OF assms(1)])
  have "field_number 1" "field_number 2" by (simp_all add: field_number_def)
  then have "length (entry_bytes k wt p) = 1 + length (delimited (bytes_of k)) + 1 + length p"
    by (simp add: entry_bytes_def tag_bytes_len tag_len_def)
  then show "entry_size n k l = wire_size n (length (delimited (entry_bytes k wt p)))"
    by (simp add: entry_size_def delimited_def Let_def assms(4))
  show "wire_entry wt rd (delimited (entry_bytes k wt p) @ rest) = (Ok (k, v), rest)"
    if "length (delimited (entry_bytes k wt p)) < 2 ^ 32" for rest
    using that by (intro wire_entry_read [where wt = wt] assms(2,3)) (simp_all add: delimited_def entry_bytes_def)
qed

lemma int_bits_read: "of_nat (int_bits i) = i"
proof -
  have "of_nat (int_bits i) = (ucast (scast i :: u64) :: u32)"
    by (simp add: int_bits_def)
  also have "\<dots> = i"
    by (rule bit_word_eqI) (simp add: bit_simps)
  finally show ?thesis .
qed

lemma int_bits_less: "int_bits i < 2 ^ 64"
  using unsigned_less [of "scast i :: u64"] by (simp add: int_bits_def)

lemma word_bits_less: "unat (i :: u32) < 2 ^ 64" "unat (l :: u64) < 2 ^ 64"
proof -
  have "unat i < 2 ^ 32" using unsigned_less [of i] by simp
  then show "unat i < 2 ^ 64" by simp
  show "unat l < 2 ^ 64" using unsigned_less [of l] by simp
qed

text \<open>A field that holds one number, however the reader takes it.\<close>

lemma carries_number:
  assumes "field_number n" "v < 2 ^ 64" "\<And>rest. f v rest = (Ok x, rest)"
  shows "carries wire n WireTypeVarint (wire_put n WireTypeVarint (varint v)) (wire_size n (length (varint v)))
    (bindR varint64 f) x"
  using assms by (intro carries_wire) simp_all

lemma carries_delimited:
  assumes "field_number n" "\<And>rest. length b < 2 ^ 64 \<Longrightarrow> rd (delimited b @ rest) = (Ok v, rest)"
  shows "carries wire n WireTypeLengthDelimited (wire_put n WireTypeLengthDelimited (delimited b))
    (wire_size n (length (delimited b))) rd v"
  using assms by (intro carries_wire) (simp_all add: delimited_def)

lemma varint_bool: "wire_size n (length (varint (if b then 1 else 0))) = of_nat (tag_len n + 1)"
  by (simp add: wire_size_def varint.simps)

lemma wire_text_alone: "utf8 s \<Longrightarrow> length s < 2 ^ 64 \<Longrightarrow> wire_text (delimited (bytes_of s)) = (Ok s, [])"
  and wire_chunk_alone: "length b < 2 ^ 64 \<Longrightarrow> wire_chunk (delimited b) = (Ok b, [])"
  and number_alone: "n < 2 ^ 64 \<Longrightarrow> bindR varint64 f (varint n) = f n []"
  using wire_text_delimited [of s "[]"] wire_chunk_delimited [of b "[]"] read_number [of n f "[]"] by simp_all

interpretation wire: protobuf wire
proof (unfold_locales, goal_cases)
  case (1 n wt)
  then show ?case by (simp add: wire_def tag_read tag_bytes_len)
next
  case (2 n b)
  have "carries wire n WireTypeVarint (wire_put n WireTypeVarint (varint (if b then 1 else 0)))
      (wire_size n (length (varint (if b then 1 else 0)))) (bindR varint64 (\<lambda>v. ret (v \<noteq> 0))) b"
    using 2 by (intro carries_number) simp_all
  then show ?case by (simp only: varint_bool) (simp add: wire_def)
next
  case (3 n i)
  have "carries wire n WireTypeVarint (wire_put n WireTypeVarint (varint (int_bits i)))
      (wire_size n (length (varint (int_bits i)))) (bindR varint64 (\<lambda>v. ret (of_nat v))) i"
    using 3 by (intro carries_number int_bits_less) (simp_all add: int_bits_read)
  then show ?case by (simp add: wire_def)
next
  case (4 n i)
  have "carries wire n WireTypeVarint (wire_put n WireTypeVarint (varint (unat i)))
      (wire_size n (length (varint (unat i)))) (bindR varint64 (\<lambda>v. ret (of_nat v))) i"
    using 4 by (intro carries_number word_bits_less(1)) simp_all
  then show ?case by (simp add: wire_def)
next
  case (5 n l)
  have "carries wire n WireTypeVarint (wire_put n WireTypeVarint (varint (unat l)))
      (wire_size n (length (varint (unat l)))) (bindR varint64 (\<lambda>v. ret (of_nat v))) l"
    using 5 by (intro carries_number word_bits_less(2)) simp_all
  then show ?case by (simp add: wire_def)
next
  case (6 n l)
  have "carries wire n WireTypeVarint (wire_put n WireTypeVarint (varint (unat l)))
      (wire_size n (length (varint (unat l)))) (bindR varint64 (\<lambda>v. ret (of_nat v))) l"
    using 6 by (intro carries_number word_bits_less(2)) simp_all
  then show ?case by (simp add: wire_def)
next
  case (7 n i)
  have "carries wire n WireTypeVarint (wire_put n WireTypeVarint (varint (unat i)))
      (wire_size n (length (varint (unat i)))) (bindR varint64 (\<lambda>v. ret [of_nat v])) [i]"
    using 7 by (intro carries_number word_bits_less(1)) simp_all
  then show ?case by (simp add: wire_def expect_def)
next
  case (8 n l)
  have "carries wire n WireTypeVarint (wire_put n WireTypeVarint (varint (unat l)))
      (wire_size n (length (varint (unat l)))) (bindR varint64 (\<lambda>v. ret [of_nat v])) [l]"
    using 8 by (intro carries_number word_bits_less(2)) simp_all
  then show ?case by (simp add: wire_def expect_def)
next
  case (9 n known i u)
  have "carries wire n WireTypeVarint (wire_put n WireTypeVarint (varint (unat i))) (wire_size n (length (varint (unat i))))
      (bindR varint64 (\<lambda>v. ret (if known (of_nat v) then (Some (of_nat v), u)
        else (None, u @ [(n, WireTypeVarint, varint v)])))) (Some i, u)"
    using 9 by (intro carries_number word_bits_less(1)) simp_all
  then show ?case by (simp add: wire_def expect_def)
next
  case (10 n s)
  have "carries wire n WireTypeLengthDelimited (wire_put n WireTypeLengthDelimited (delimited (bytes_of s)))
      (wire_size n (length (delimited (bytes_of s)))) wire_text s"
    using 10 by (intro carries_delimited) (simp_all add: wire_text_delimited)
  then show ?case by (simp add: wire_def expect_def)
next
  case (11 n bs)
  have "carries wire n WireTypeLengthDelimited (wire_put n WireTypeLengthDelimited (delimited bs))
      (wire_size n (length (delimited bs))) wire_chunk bs"
    using 11 by (intro carries_delimited) (simp_all add: wire_chunk_delimited)
  then show ?case by (simp add: wire_def expect_def)
next
  case (12 bs)
  then have "unat (of_nat (length bs) :: u32) = length bs" by (simp add: unat_of_nat take_bit_eq_mod)
  with 12 wire_chunk_delimited [of bs] show ?case by (simp add: wire_def expect_def delimited_def)
next
  case (13 i)
  show ?case by (simp add: wire_def)
next
  case (14 n k s)
  have "carries wire n WireTypeLengthDelimited (put_entry n WireTypeLengthDelimited k (delimited (bytes_of s)))
      (entry_size n k (length (delimited (bytes_of s)))) (wire_entry WireTypeLengthDelimited wire_text) (k, s)"
    using 14 by (intro carries_entry wire_text_alone) (simp_all add: delimited_def)
  then show ?case by (simp add: wire_def expect_def each_one)
next
  case (17 n k l)
  have "carries wire n WireTypeLengthDelimited (put_entry n WireTypeVarint k (varint (unat l)))
      (entry_size n k (length (varint (unat l)))) (wire_entry WireTypeVarint (bindR varint64 (\<lambda>v. ret (of_nat v)))) (k, l)"
    using 17 by (intro carries_entry) (simp_all add: number_alone [OF word_bits_less(2)])
  then show ?case by (simp add: wire_def expect_def each_one)
next
  case (20 n k bs)
  show ?case
  proof (cases "length bs < 2 ^ 32")
    case True
    then have "unat (of_nat (length bs) :: u32) = length bs" by (simp add: unat_of_nat take_bit_eq_mod)
    moreover have "carries wire n WireTypeLengthDelimited (put_entry n WireTypeLengthDelimited k (delimited bs))
      (entry_size n k (length (delimited bs))) (wire_entry WireTypeLengthDelimited wire_chunk) (k, bs)"
      using 20 True by (intro carries_entry wire_chunk_alone) simp_all
    ultimately show ?thesis by (simp add: wire_def expect_def each_one delimited_def)
  next
    case False
    then show ?thesis
      by (auto simp: carries_def wire_def each_one put_entry_def wire_put_def delimited_def entry_bytes_def)
  qed
next
  case (21 n k z bs)
  then show ?case
    by (auto simp: wire_def each_one put_entry_def wire_put_def delimited_def entry_bytes_def)
qed (simp_all add: wire_def each_one each_none)

section \<open>Any bytes at all\<close>

lemma unvarint_shorter: "unvarint k bs = Some (v, rest) \<Longrightarrow> length rest < length bs"
proof (induction k bs arbitrary: v rest rule: unvarint.induct)
  case (3 k b bs)
  then show ?case by (auto split: if_splits intro: less_SucI)
qed simp_all

lemma varint64_shorter: "fst (varint64 bs) = Ok v \<Longrightarrow> length (snd (varint64 bs)) < length bs"
  by (auto simp: varint64_def dest: unvarint_shorter split: option.splits)

lemma robust_wire: "robust varint64" "robust (wire_take l)" "answers (from_utf8 bs)"
  by (auto simp: robust_def answers_def varint64_def wire_take_def from_utf8_def dest: unvarint_shorter split: option.split)

lemma robust_tag_reader: "robust wire_tag"
  unfolding wire_tag_def
  by (intro robust_bind robust_wire) (auto intro: robust_basic split: option.split)

lemma robust_chunks: "robust wire_chunk" "robust wire_text" "robust rd \<Longrightarrow> robust (expect want rd wt)"
  unfolding wire_chunk_def wire_text_def expect_def
  by (auto intro!: robust_bind robust_basic robust_wire)

lemma robust_entry: "robust rd \<Longrightarrow> robust (wire_entry wt rd)"
proof -
  assume rd: "robust rd"
  let ?e = "bindR wire_tag (\<lambda>t. if t \<noteq> (1, WireTypeLengthDelimited) then throw Parse
     else bindR wire_text (\<lambda>k. bindR wire_tag (\<lambda>t. if t \<noteq> (2, wt) then throw Parse else bindR rd (\<lambda>v. ret (k, v)))))"
  have "robust ?e" using rd
    by (auto intro!: robust_bind robust_basic robust_wire robust_chunks robust_tag_reader)
  then have "answers (fst (?e b))" for b by (simp add: robust_def)
  then show ?thesis unfolding wire_entry_def
    by (intro robust_bind robust_chunks robust_basic)
qed

lemma robust_unknown: "robust (wire_unknown n wt u)"
  unfolding wire_unknown_def
  by (intro robust_bind robust_basic; cases wt)
    (auto intro!: robust_bind robust_basic robust_wire robust_chunks)

interpretation wire_readers: protobuf_readers wire
proof
  fix bs t
  show "answers (fst (read_tag_unpack wire bs))" "length (snd (read_tag_unpack wire bs)) \<le> length bs"
    using robust_tag_reader by (simp_all add: wire_def robust_def)
  show "length (snd (read_tag_unpack wire bs)) < length bs" if "fst (read_tag_unpack wire bs) = Ok t"
    using that varint64_shorter [of bs]
    by (cases "varint64 bs") (auto simp: wire_def wire_tag_def bindR_def throw_def ret_def split: res.splits option.splits if_splits)
qed (auto simp: wire_def intro!: robust_bind robust_basic robust_wire robust_chunks robust_entry robust_unknown)

end
