(* ===== verification/Grpc_Service.thy ===== *)
theory Grpc_Service
  imports Pb_Agent Pb_Wire Rpc
begin

text \<open>
  \<open>protocols/src/agent_grpc.rs\<close> and \<open>health_grpc.rs\<close>: the names of the methods, the client that sends a
  request as a method name and the bytes of its message, and the services that take the message out
  of the bytes and call the handler (\<open>serve\<close> of \<open>Rpc\<close>). The \<open>grpcio\<close> package in between carries name and bytes; \<open>pb_ser\<close> and
  \<open>pb_de\<close> are \<open>write_to\<close> and \<open>merge_from\<close> into a new message.
\<close>

section \<open>The messages as the handlers use them\<close>

text \<open>The handlers read no unknown field, and a signed number as such.\<close>

definition g_of_Box :: "'u pb_Box \<Rightarrow> g_Box" where
  "g_of_Box m = \<lparr>bx_Height = Box_Height m, bx_Width = Box_Width m\<rparr>"

definition g_of_User :: "'u pb_User \<Rightarrow> g_User" where
  "g_of_User m = \<lparr>us_UID = User_UID m, us_GID = User_GID m, us_AdditionalGids = User_AdditionalGids m, us_Username = User_Username m\<rparr>"

definition g_of_LinuxCapabilities :: "'u pb_LinuxCapabilities \<Rightarrow> g_LinuxCapabilities" where
  "g_of_LinuxCapabilities m = \<lparr>lc_Bounding = LinuxCapabilities_Bounding m, lc_Effective = LinuxCapabilities_Effective m, lc_Inheritable = LinuxCapabilities_Inheritable m, lc_Permitted = LinuxCapabilities_Permitted m, lc_Ambient = LinuxCapabilities_Ambient m\<rparr>"

definition g_of_POSIXRlimit :: "'u pb_POSIXRlimit \<Rightarrow> g_POSIXRlimit" where
  "g_of_POSIXRlimit m = \<lparr>rl_Type = POSIXRlimit_Type m, rl_Hard = POSIXRlimit_Hard m, rl_Soft = POSIXRlimit_Soft m\<rparr>"

definition g_of_Process :: "'u pb_Process \<Rightarrow> g_Process" where
  "g_of_Process m = \<lparr>pr_Terminal = Process_Terminal m, pr_ConsoleSize = map_option g_of_Box (Process_ConsoleSize m), pr_User = map_option g_of_User (Process_User m), pr_Args = Process_Args m, pr_Env = Process_Env m, pr_Cwd = Process_Cwd m, pr_Capabilities = map_option g_of_LinuxCapabilities (Process_Capabilities m), pr_Rlimits = map g_of_POSIXRlimit (Process_Rlimits m), pr_NoNewPrivileges = Process_NoNewPrivileges m, pr_ApparmorProfile = Process_ApparmorProfile m, pr_OOMScoreAdj = sint (Process_OOMScoreAdj m), pr_SelinuxLabel = Process_SelinuxLabel m\<rparr>"

definition g_of_Mount :: "'u pb_Mount \<Rightarrow> g_Mount" where
  "g_of_Mount m = \<lparr>mt_destination = Mount_destination m, mt_source = Mount_source m, mt_field_type = Mount_field_type m, mt_options = Mount_options m\<rparr>"

definition g_of_Root :: "'u pb_Root \<Rightarrow> g_Root" where
  "g_of_Root m = \<lparr>rt_Path = Root_Path m, rt_Readonly = Root_Readonly m\<rparr>"

definition g_of_Hook :: "'u pb_Hook \<Rightarrow> g_Hook" where
  "g_of_Hook m = \<lparr>hk_Path = Hook_Path m, hk_Args = Hook_Args m, hk_Env = Hook_Env m, hk_Timeout = sint (Hook_Timeout m)\<rparr>"

definition g_of_Hooks :: "'u pb_Hooks \<Rightarrow> g_Hooks" where
  "g_of_Hooks m = \<lparr>hs_Prestart = map g_of_Hook (Hooks_Prestart m), hs_Poststart = map g_of_Hook (Hooks_Poststart m), hs_Poststop = map g_of_Hook (Hooks_Poststop m)\<rparr>"

definition g_of_LinuxIDMapping :: "'u pb_LinuxIDMapping \<Rightarrow> g_LinuxIDMapping" where
  "g_of_LinuxIDMapping m = \<lparr>im_HostID = LinuxIDMapping_HostID m, im_ContainerID = LinuxIDMapping_ContainerID m, im_Size = LinuxIDMapping_Size m\<rparr>"

definition g_of_LinuxNamespace :: "'u pb_LinuxNamespace \<Rightarrow> g_LinuxNamespace" where
  "g_of_LinuxNamespace m = \<lparr>ns_Type = LinuxNamespace_Type m, ns_Path = LinuxNamespace_Path m\<rparr>"

definition g_of_LinuxDevice :: "'u pb_LinuxDevice \<Rightarrow> g_LinuxDevice" where
  "g_of_LinuxDevice m = \<lparr>ld_Path = LinuxDevice_Path m, ld_Type = LinuxDevice_Type m, ld_Major = sint (LinuxDevice_Major m), ld_Minor = sint (LinuxDevice_Minor m), ld_FileMode = LinuxDevice_FileMode m, ld_UID = LinuxDevice_UID m, ld_GID = LinuxDevice_GID m\<rparr>"

definition g_of_LinuxMemory :: "'u pb_LinuxMemory \<Rightarrow> g_LinuxMemory" where
  "g_of_LinuxMemory m = \<lparr>me_Limit = sint (LinuxMemory_Limit m), me_Reservation = sint (LinuxMemory_Reservation m), me_Swap = sint (LinuxMemory_Swap m), me_Kernel = sint (LinuxMemory_Kernel m), me_KernelTCP = sint (LinuxMemory_KernelTCP m), me_Swappiness = LinuxMemory_Swappiness m, me_DisableOOMKiller = LinuxMemory_DisableOOMKiller m\<rparr>"

definition g_of_LinuxCPU :: "'u pb_LinuxCPU \<Rightarrow> g_LinuxCPU" where
  "g_of_LinuxCPU m = \<lparr>cu_Shares = LinuxCPU_Shares m, cu_Quota = sint (LinuxCPU_Quota m), cu_Period = LinuxCPU_Period m, cu_RealtimeRuntime = sint (LinuxCPU_RealtimeRuntime m), cu_RealtimePeriod = LinuxCPU_RealtimePeriod m, cu_Cpus = LinuxCPU_Cpus m, cu_Mems = LinuxCPU_Mems m\<rparr>"

definition g_of_LinuxWeightDevice :: "'u pb_LinuxWeightDevice \<Rightarrow> g_LinuxWeightDevice" where
  "g_of_LinuxWeightDevice m = \<lparr>wd_Major = sint (LinuxWeightDevice_Major m), wd_Minor = sint (LinuxWeightDevice_Minor m), wd_Weight = LinuxWeightDevice_Weight m, wd_LeafWeight = LinuxWeightDevice_LeafWeight m\<rparr>"

definition g_of_LinuxThrottleDevice :: "'u pb_LinuxThrottleDevice \<Rightarrow> g_LinuxThrottleDevice" where
  "g_of_LinuxThrottleDevice m = \<lparr>td_Major = sint (LinuxThrottleDevice_Major m), td_Minor = sint (LinuxThrottleDevice_Minor m), td_Rate = LinuxThrottleDevice_Rate m\<rparr>"

definition g_of_LinuxBlockIO :: "'u pb_LinuxBlockIO \<Rightarrow> g_LinuxBlockIO" where
  "g_of_LinuxBlockIO m = \<lparr>bl_Weight = LinuxBlockIO_Weight m, bl_LeafWeight = LinuxBlockIO_LeafWeight m, bl_WeightDevice = map g_of_LinuxWeightDevice (LinuxBlockIO_WeightDevice m), bl_ThrottleReadBpsDevice = map g_of_LinuxThrottleDevice (LinuxBlockIO_ThrottleReadBpsDevice m), bl_ThrottleWriteBpsDevice = map g_of_LinuxThrottleDevice (LinuxBlockIO_ThrottleWriteBpsDevice m), bl_ThrottleReadIOPSDevice = map g_of_LinuxThrottleDevice (LinuxBlockIO_ThrottleReadIOPSDevice m), bl_ThrottleWriteIOPSDevice = map g_of_LinuxThrottleDevice (LinuxBlockIO_ThrottleWriteIOPSDevice m)\<rparr>"

definition g_of_LinuxPids :: "'u pb_LinuxPids \<Rightarrow> g_LinuxPids" where
  "g_of_LinuxPids m = \<lparr>pd_Limit = sint (LinuxPids_Limit m)\<rparr>"

definition g_of_LinuxDeviceCgroup :: "'u pb_LinuxDeviceCgroup \<Rightarrow> g_LinuxDeviceCgroup" where
  "g_of_LinuxDeviceCgroup m = \<lparr>dc_Allow = LinuxDeviceCgroup_Allow m, dc_Type = LinuxDeviceCgroup_Type m, dc_Major = sint (LinuxDeviceCgroup_Major m), dc_Minor = sint (LinuxDeviceCgroup_Minor m), dc_Access = LinuxDeviceCgroup_Access m\<rparr>"

definition g_of_LinuxInterfacePriority :: "'u pb_LinuxInterfacePriority \<Rightarrow> g_LinuxInterfacePriority" where
  "g_of_LinuxInterfacePriority m = \<lparr>ip_Name = LinuxInterfacePriority_Name m, ip_Priority = LinuxInterfacePriority_Priority m\<rparr>"

definition g_of_LinuxNetwork :: "'u pb_LinuxNetwork \<Rightarrow> g_LinuxNetwork" where
  "g_of_LinuxNetwork m = \<lparr>nw_ClassID = LinuxNetwork_ClassID m, nw_Priorities = map g_of_LinuxInterfacePriority (LinuxNetwork_Priorities m)\<rparr>"

definition g_of_LinuxHugepageLimit :: "'u pb_LinuxHugepageLimit \<Rightarrow> g_LinuxHugepageLimit" where
  "g_of_LinuxHugepageLimit m = \<lparr>hl_Pagesize = LinuxHugepageLimit_Pagesize m, hl_Limit = LinuxHugepageLimit_Limit m\<rparr>"

definition g_of_LinuxResources :: "'u pb_LinuxResources \<Rightarrow> g_LinuxResources" where
  "g_of_LinuxResources m = \<lparr>rs_Devices = map g_of_LinuxDeviceCgroup (LinuxResources_Devices m), rs_Memory = map_option g_of_LinuxMemory (LinuxResources_Memory m), rs_CPU = map_option g_of_LinuxCPU (LinuxResources_CPU m), rs_Pids = map_option g_of_LinuxPids (LinuxResources_Pids m), rs_BlockIO = map_option g_of_LinuxBlockIO (LinuxResources_BlockIO m), rs_HugepageLimits = map g_of_LinuxHugepageLimit (LinuxResources_HugepageLimits m), rs_Network = map_option g_of_LinuxNetwork (LinuxResources_Network m)\<rparr>"

definition g_of_LinuxSeccompArg :: "'u pb_LinuxSeccompArg \<Rightarrow> g_LinuxSeccompArg" where
  "g_of_LinuxSeccompArg m = \<lparr>sa_Index = LinuxSeccompArg_Index m, sa_Value = LinuxSeccompArg_Value m, sa_ValueTwo = LinuxSeccompArg_ValueTwo m, sa_Op = LinuxSeccompArg_Op m\<rparr>"

definition g_of_LinuxSyscall :: "'u pb_LinuxSyscall \<Rightarrow> g_LinuxSyscall" where
  "g_of_LinuxSyscall m = \<lparr>sy_Names = LinuxSyscall_Names m, sy_Action = LinuxSyscall_Action m, sy_Args = map g_of_LinuxSeccompArg (LinuxSyscall_Args m)\<rparr>"

definition g_of_LinuxSeccomp :: "'u pb_LinuxSeccomp \<Rightarrow> g_LinuxSeccomp" where
  "g_of_LinuxSeccomp m = \<lparr>se_DefaultAction = LinuxSeccomp_DefaultAction m, se_Architectures = LinuxSeccomp_Architectures m, se_Syscalls = map g_of_LinuxSyscall (LinuxSeccomp_Syscalls m)\<rparr>"

definition g_of_LinuxIntelRdt :: "'u pb_LinuxIntelRdt \<Rightarrow> g_LinuxIntelRdt" where
  "g_of_LinuxIntelRdt m = \<lparr>ir_L3CacheSchema = LinuxIntelRdt_L3CacheSchema m\<rparr>"

definition g_of_Linux :: "'u pb_Linux \<Rightarrow> g_Linux" where
  "g_of_Linux m = \<lparr>lx_UIDMappings = map g_of_LinuxIDMapping (Linux_UIDMappings m), lx_GIDMappings = map g_of_LinuxIDMapping (Linux_GIDMappings m), lx_Sysctl = Linux_Sysctl m, lx_Resources = map_option g_of_LinuxResources (Linux_Resources m), lx_CgroupsPath = Linux_CgroupsPath m, lx_Namespaces = map g_of_LinuxNamespace (Linux_Namespaces m), lx_Devices = map g_of_LinuxDevice (Linux_Devices m), lx_Seccomp = map_option g_of_LinuxSeccomp (Linux_Seccomp m), lx_RootfsPropagation = Linux_RootfsPropagation m, lx_MaskedPaths = Linux_MaskedPaths m, lx_ReadonlyPaths = Linux_ReadonlyPaths m, lx_MountLabel = Linux_MountLabel m, lx_IntelRdt = map_option g_of_LinuxIntelRdt (Linux_IntelRdt m)\<rparr>"

definition g_of_Spec :: "'u pb_Spec \<Rightarrow> g_Spec" where
  "g_of_Spec m = \<lparr>sp_Version = Spec_Version m, sp_Process = map_option g_of_Process (Spec_Process m), sp_Root = map_option g_of_Root (Spec_Root m), sp_Hostname = Spec_Hostname m, sp_Mounts = map g_of_Mount (Spec_Mounts m), sp_Hooks = map_option g_of_Hooks (Spec_Hooks m), sp_Annotations = Spec_Annotations m, sp_Linux = map_option g_of_Linux (Spec_Linux m)\<rparr>"

definition device_of :: "'u pb_Device \<Rightarrow> device" where
  "device_of m = \<lparr>dv_id = Device_id m, dv_type = Device_field_type m, dv_vm_path = Device_vm_path m,
     dv_container_path = Device_container_path m, dv_options = Device_options m\<rparr>"

definition storage_of :: "'u pb_Storage \<Rightarrow> Storage" where
  "storage_of m = \<lparr>s_driver = Storage_driver m, s_driver_options = Storage_driver_options m, s_source = Storage_source m,
     s_fstype = Storage_fstype m, s_options = Storage_options m, s_mount_point = Storage_mount_point m\<rparr>"

definition address_of :: "'u pb_IPAddress \<Rightarrow> IPAddress" where
  "address_of m = \<lparr>ipa_family = IPAddress_family m, ipa_address = IPAddress_address m, ipa_mask = IPAddress_mask m\<rparr>"

definition interface_of :: "'u pb_Interface \<Rightarrow> Interface" where
  "interface_of m = \<lparr>if_device = Interface_device m, if_name = Interface_name m,
     if_IPAddresses = map address_of (Interface_IPAddresses m), if_mtu = Interface_mtu m, if_hwAddr = Interface_hwAddr m,
     if_pciAddr = Interface_pciAddr m, if_field_type = Interface_field_type m, if_raw_flags = Interface_raw_flags m\<rparr>"

definition route_of :: "'u pb_Route \<Rightarrow> Route" where
  "route_of m = \<lparr>rt_dest = Route_dest m, rt_gateway = Route_gateway m, rt_device = Route_device m,
     rt_source = Route_source m, rt_scope = Route_scope m\<rparr>"

definition to_CreateContainer :: "'u pb_CreateContainerRequest \<Rightarrow> rpc" where
  "to_CreateContainer m = CreateContainer \<lparr>cr_container_id = CreateContainerRequest_container_id m, cr_exec_id = CreateContainerRequest_exec_id m,
     cr_devices = map device_of (CreateContainerRequest_devices m), cr_storages = map storage_of (CreateContainerRequest_storages m),
     cr_OCI = map_option g_of_Spec (CreateContainerRequest_OCI m)\<rparr>"

definition to_StartContainer :: "'u pb_StartContainerRequest \<Rightarrow> rpc" where
  "to_StartContainer m = StartContainer (StartContainerRequest_container_id m)"

definition to_RemoveContainer :: "'u pb_RemoveContainerRequest \<Rightarrow> rpc" where
  "to_RemoveContainer m = RemoveContainer (RemoveContainerRequest_container_id m) (RemoveContainerRequest_timeout m)"

definition to_ExecProcess :: "'u pb_ExecProcessRequest \<Rightarrow> rpc" where
  "to_ExecProcess m = ExecProcess (ExecProcessRequest_container_id m) (ExecProcessRequest_exec_id m) (map_option g_of_Process (ExecProcessRequest_process m))"

definition to_SignalProcess :: "'u pb_SignalProcessRequest \<Rightarrow> rpc" where
  "to_SignalProcess m = SignalProcess (SignalProcessRequest_container_id m) (SignalProcessRequest_exec_id m) (SignalProcessRequest_signal m)"

definition to_WaitProcess :: "'u pb_WaitProcessRequest \<Rightarrow> rpc" where
  "to_WaitProcess m = WaitProcess (WaitProcessRequest_container_id m) (WaitProcessRequest_exec_id m)"

definition to_ListProcesses :: "'u pb_ListProcessesRequest \<Rightarrow> rpc" where
  "to_ListProcesses m = ListProcesses (ListProcessesRequest_container_id m) (ListProcessesRequest_format m) (ListProcessesRequest_args m)"

definition to_UpdateContainer :: "'u pb_UpdateContainerRequest \<Rightarrow> rpc" where
  "to_UpdateContainer m = UpdateContainer (UpdateContainerRequest_container_id m) (map_option g_of_LinuxResources (UpdateContainerRequest_resources m))"

definition to_StatsContainer :: "'u pb_StatsContainerRequest \<Rightarrow> rpc" where
  "to_StatsContainer m = StatsContainer (StatsContainerRequest_container_id m)"

definition to_PauseContainer :: "'u pb_PauseContainerRequest \<Rightarrow> rpc" where
  "to_PauseContainer m = PauseContainer (PauseContainerRequest_container_id m)"

definition to_ResumeContainer :: "'u pb_ResumeContainerRequest \<Rightarrow> rpc" where
  "to_ResumeContainer m = ResumeContainer (ResumeContainerRequest_container_id m)"

definition to_WriteStdin :: "'u pb_WriteStreamRequest \<Rightarrow> rpc" where
  "to_WriteStdin m = WriteStdin (WriteStreamRequest_container_id m) (WriteStreamRequest_exec_id m) (string_of (WriteStreamRequest_data m))"

definition to_ReadStdout :: "'u pb_ReadStreamRequest \<Rightarrow> rpc" where
  "to_ReadStdout m = ReadStdout (ReadStreamRequest_container_id m) (ReadStreamRequest_exec_id m) (ReadStreamRequest_len m)"

definition to_ReadStderr :: "'u pb_ReadStreamRequest \<Rightarrow> rpc" where
  "to_ReadStderr m = ReadStderr (ReadStreamRequest_container_id m) (ReadStreamRequest_exec_id m) (ReadStreamRequest_len m)"

definition to_CloseStdin :: "'u pb_CloseStdinRequest \<Rightarrow> rpc" where
  "to_CloseStdin m = CloseStdin (CloseStdinRequest_container_id m) (CloseStdinRequest_exec_id m)"

definition to_TtyWinResize :: "'u pb_TtyWinResizeRequest \<Rightarrow> rpc" where
  "to_TtyWinResize m = TtyWinResize (TtyWinResizeRequest_container_id m) (TtyWinResizeRequest_exec_id m) (TtyWinResizeRequest_row m) (TtyWinResizeRequest_column m)"

definition to_UpdateInterface :: "'u pb_UpdateInterfaceRequest \<Rightarrow> rpc" where
  "to_UpdateInterface m = UpdateInterface (map_option interface_of (UpdateInterfaceRequest_interface m))"

definition to_UpdateRoutes :: "'u pb_UpdateRoutesRequest \<Rightarrow> rpc" where
  "to_UpdateRoutes m = UpdateRoutes (map_option (\<lambda>r. map route_of (Routes_Routes r)) (UpdateRoutesRequest_routes m))"

definition to_ListInterfaces :: "'u pb_ListInterfacesRequest \<Rightarrow> rpc" where
  "to_ListInterfaces m = ListInterfaces"

definition to_ListRoutes :: "'u pb_ListRoutesRequest \<Rightarrow> rpc" where
  "to_ListRoutes m = ListRoutes"

definition to_StartTracing :: "'u pb_StartTracingRequest \<Rightarrow> rpc" where
  "to_StartTracing m = StartTracing"

definition to_StopTracing :: "'u pb_StopTracingRequest \<Rightarrow> rpc" where
  "to_StopTracing m = StopTracing"

definition to_CreateSandbox :: "'u pb_CreateSandboxRequest \<Rightarrow> rpc" where
  "to_CreateSandbox m = CreateSandbox \<lparr>cs_hostname = CreateSandboxRequest_hostname m, cs_storages = map storage_of (CreateSandboxRequest_storages m),
     cs_sandbox_id = CreateSandboxRequest_sandbox_id m\<rparr>"

definition to_DestroySandbox :: "'u pb_DestroySandboxRequest \<Rightarrow> rpc" where
  "to_DestroySandbox m = DestroySandbox"

definition to_OnlineCPUMem :: "'u pb_OnlineCPUMemRequest \<Rightarrow> rpc" where
  "to_OnlineCPUMem m = OnlineCPUMem \<lparr>oc_wait = OnlineCPUMemRequest_wait m, oc_nb_cpus = OnlineCPUMemRequest_nb_cpus m, oc_cpu_only = OnlineCPUMemRequest_cpu_only m\<rparr>"

definition to_ReseedRandomDev :: "'u pb_ReseedRandomDevRequest \<Rightarrow> rpc" where
  "to_ReseedRandomDev m = ReseedRandomDev (string_of (ReseedRandomDevRequest_data m))"

definition to_GetGuestDetails :: "'u pb_GuestDetailsRequest \<Rightarrow> rpc" where
  "to_GetGuestDetails m = GetGuestDetails (GuestDetailsRequest_mem_block_size m) (GuestDetailsRequest_mem_hotplug_probe m)"

definition to_MemHotplugByProbe :: "'u pb_MemHotplugByProbeRequest \<Rightarrow> rpc" where
  "to_MemHotplugByProbe m = MemHotplugByProbe (MemHotplugByProbeRequest_memHotplugProbeAddr m)"

definition to_SetGuestDateTime :: "'u pb_SetGuestDateTimeRequest \<Rightarrow> rpc" where
  "to_SetGuestDateTime m = SetGuestDateTime (sint (SetGuestDateTimeRequest_Sec m)) (sint (SetGuestDateTimeRequest_Usec m))"

definition to_CopyFile :: "'u pb_CopyFileRequest \<Rightarrow> rpc" where
  "to_CopyFile m = CopyFile \<lparr>cf_path = CopyFileRequest_path m, cf_file_size = sint (CopyFileRequest_file_size m), cf_file_mode = CopyFileRequest_file_mode m,
     cf_dir_mode = CopyFileRequest_dir_mode m, cf_uid = sint (CopyFileRequest_uid m), cf_gid = sint (CopyFileRequest_gid m),
     cf_offset = sint (CopyFileRequest_offset m), cf_data = string_of (CopyFileRequest_data m)\<rparr>"

definition to_HealthCheck :: "'u pb_CheckRequest \<Rightarrow> rpc" where
  "to_HealthCheck m = HealthCheck"

definition to_HealthVersion :: "'u pb_CheckRequest \<Rightarrow> rpc" where
  "to_HealthVersion m = HealthVersion"

section \<open>Methods\<close>

definition METHOD_AGENT_SERVICE_CREATE_CONTAINER :: string where "METHOD_AGENT_SERVICE_CREATE_CONTAINER = ''/grpc.AgentService/CreateContainer''"
definition METHOD_AGENT_SERVICE_START_CONTAINER :: string where "METHOD_AGENT_SERVICE_START_CONTAINER = ''/grpc.AgentService/StartContainer''"
definition METHOD_AGENT_SERVICE_REMOVE_CONTAINER :: string where "METHOD_AGENT_SERVICE_REMOVE_CONTAINER = ''/grpc.AgentService/RemoveContainer''"
definition METHOD_AGENT_SERVICE_EXEC_PROCESS :: string where "METHOD_AGENT_SERVICE_EXEC_PROCESS = ''/grpc.AgentService/ExecProcess''"
definition METHOD_AGENT_SERVICE_SIGNAL_PROCESS :: string where "METHOD_AGENT_SERVICE_SIGNAL_PROCESS = ''/grpc.AgentService/SignalProcess''"
definition METHOD_AGENT_SERVICE_WAIT_PROCESS :: string where "METHOD_AGENT_SERVICE_WAIT_PROCESS = ''/grpc.AgentService/WaitProcess''"
definition METHOD_AGENT_SERVICE_LIST_PROCESSES :: string where "METHOD_AGENT_SERVICE_LIST_PROCESSES = ''/grpc.AgentService/ListProcesses''"
definition METHOD_AGENT_SERVICE_UPDATE_CONTAINER :: string where "METHOD_AGENT_SERVICE_UPDATE_CONTAINER = ''/grpc.AgentService/UpdateContainer''"
definition METHOD_AGENT_SERVICE_STATS_CONTAINER :: string where "METHOD_AGENT_SERVICE_STATS_CONTAINER = ''/grpc.AgentService/StatsContainer''"
definition METHOD_AGENT_SERVICE_PAUSE_CONTAINER :: string where "METHOD_AGENT_SERVICE_PAUSE_CONTAINER = ''/grpc.AgentService/PauseContainer''"
definition METHOD_AGENT_SERVICE_RESUME_CONTAINER :: string where "METHOD_AGENT_SERVICE_RESUME_CONTAINER = ''/grpc.AgentService/ResumeContainer''"
definition METHOD_AGENT_SERVICE_WRITE_STDIN :: string where "METHOD_AGENT_SERVICE_WRITE_STDIN = ''/grpc.AgentService/WriteStdin''"
definition METHOD_AGENT_SERVICE_READ_STDOUT :: string where "METHOD_AGENT_SERVICE_READ_STDOUT = ''/grpc.AgentService/ReadStdout''"
definition METHOD_AGENT_SERVICE_READ_STDERR :: string where "METHOD_AGENT_SERVICE_READ_STDERR = ''/grpc.AgentService/ReadStderr''"
definition METHOD_AGENT_SERVICE_CLOSE_STDIN :: string where "METHOD_AGENT_SERVICE_CLOSE_STDIN = ''/grpc.AgentService/CloseStdin''"
definition METHOD_AGENT_SERVICE_TTY_WIN_RESIZE :: string where "METHOD_AGENT_SERVICE_TTY_WIN_RESIZE = ''/grpc.AgentService/TtyWinResize''"
definition METHOD_AGENT_SERVICE_UPDATE_INTERFACE :: string where "METHOD_AGENT_SERVICE_UPDATE_INTERFACE = ''/grpc.AgentService/UpdateInterface''"
definition METHOD_AGENT_SERVICE_UPDATE_ROUTES :: string where "METHOD_AGENT_SERVICE_UPDATE_ROUTES = ''/grpc.AgentService/UpdateRoutes''"
definition METHOD_AGENT_SERVICE_LIST_INTERFACES :: string where "METHOD_AGENT_SERVICE_LIST_INTERFACES = ''/grpc.AgentService/ListInterfaces''"
definition METHOD_AGENT_SERVICE_LIST_ROUTES :: string where "METHOD_AGENT_SERVICE_LIST_ROUTES = ''/grpc.AgentService/ListRoutes''"
definition METHOD_AGENT_SERVICE_START_TRACING :: string where "METHOD_AGENT_SERVICE_START_TRACING = ''/grpc.AgentService/StartTracing''"
definition METHOD_AGENT_SERVICE_STOP_TRACING :: string where "METHOD_AGENT_SERVICE_STOP_TRACING = ''/grpc.AgentService/StopTracing''"
definition METHOD_AGENT_SERVICE_CREATE_SANDBOX :: string where "METHOD_AGENT_SERVICE_CREATE_SANDBOX = ''/grpc.AgentService/CreateSandbox''"
definition METHOD_AGENT_SERVICE_DESTROY_SANDBOX :: string where "METHOD_AGENT_SERVICE_DESTROY_SANDBOX = ''/grpc.AgentService/DestroySandbox''"
definition METHOD_AGENT_SERVICE_ONLINE_CPU_MEM :: string where "METHOD_AGENT_SERVICE_ONLINE_CPU_MEM = ''/grpc.AgentService/OnlineCPUMem''"
definition METHOD_AGENT_SERVICE_RESEED_RANDOM_DEV :: string where "METHOD_AGENT_SERVICE_RESEED_RANDOM_DEV = ''/grpc.AgentService/ReseedRandomDev''"
definition METHOD_AGENT_SERVICE_GET_GUEST_DETAILS :: string where "METHOD_AGENT_SERVICE_GET_GUEST_DETAILS = ''/grpc.AgentService/GetGuestDetails''"
definition METHOD_AGENT_SERVICE_MEM_HOTPLUG_BY_PROBE :: string where "METHOD_AGENT_SERVICE_MEM_HOTPLUG_BY_PROBE = ''/grpc.AgentService/MemHotplugByProbe''"
definition METHOD_AGENT_SERVICE_SET_GUEST_DATE_TIME :: string where "METHOD_AGENT_SERVICE_SET_GUEST_DATE_TIME = ''/grpc.AgentService/SetGuestDateTime''"
definition METHOD_AGENT_SERVICE_COPY_FILE :: string where "METHOD_AGENT_SERVICE_COPY_FILE = ''/grpc.AgentService/CopyFile''"
definition METHOD_HEALTH_CHECK :: string where "METHOD_HEALTH_CHECK = ''/grpc.Health/Check''"
definition METHOD_HEALTH_VERSION :: string where "METHOD_HEALTH_VERSION = ''/grpc.Health/Version''"

text \<open>
  The \<open>grpcio\<close> package: the statuses that a call of an unknown method and one whose message cannot be read
  are answered with. Neither gets to a handler.
\<close>

record grpcio =
  unimplemented :: error
  undecodable :: "error \<Rightarrow> error"

text \<open>\<open>add_unary_handler\<close> with the coder \<open>pb_de\<close>, which parses into a new message.\<close>

definition unary_handler :: "grpcio \<Rightarrow> 'u runtime \<Rightarrow> ('u runtime \<Rightarrow> 'm \<Rightarrow> 'm reader) \<Rightarrow> ('u runtime \<Rightarrow> 'm)
    \<Rightarrow> ('m \<Rightarrow> response reply sva) \<Rightarrow> bytes \<Rightarrow> response reply sva" where
  "unary_handler gc rt merge new h b = (case parse_message (merge rt) (new rt) b of
     Err e \<Rightarrow> throw (undecodable gc e) | r \<Rightarrow> bindR (liftR r) h)"

definition create_agent_service :: "grpcio \<Rightarrow> 'u runtime \<Rightarrow> rpc_env \<Rightarrow> (string \<times> (bytes \<Rightarrow> response reply sva)) list" where
  "create_agent_service gc rt env = [
     (METHOD_AGENT_SERVICE_CREATE_CONTAINER, unary_handler gc rt CreateContainerRequest_merge_from CreateContainerRequest_new (\<lambda>m. serve env (to_CreateContainer m))),
     (METHOD_AGENT_SERVICE_START_CONTAINER, unary_handler gc rt StartContainerRequest_merge_from StartContainerRequest_new (\<lambda>m. serve env (to_StartContainer m))),
     (METHOD_AGENT_SERVICE_REMOVE_CONTAINER, unary_handler gc rt RemoveContainerRequest_merge_from RemoveContainerRequest_new (\<lambda>m. serve env (to_RemoveContainer m))),
     (METHOD_AGENT_SERVICE_EXEC_PROCESS, unary_handler gc rt ExecProcessRequest_merge_from ExecProcessRequest_new (\<lambda>m. serve env (to_ExecProcess m))),
     (METHOD_AGENT_SERVICE_SIGNAL_PROCESS, unary_handler gc rt SignalProcessRequest_merge_from SignalProcessRequest_new (\<lambda>m. serve env (to_SignalProcess m))),
     (METHOD_AGENT_SERVICE_WAIT_PROCESS, unary_handler gc rt WaitProcessRequest_merge_from WaitProcessRequest_new (\<lambda>m. serve env (to_WaitProcess m))),
     (METHOD_AGENT_SERVICE_LIST_PROCESSES, unary_handler gc rt ListProcessesRequest_merge_from ListProcessesRequest_new (\<lambda>m. serve env (to_ListProcesses m))),
     (METHOD_AGENT_SERVICE_UPDATE_CONTAINER, unary_handler gc rt UpdateContainerRequest_merge_from UpdateContainerRequest_new (\<lambda>m. serve env (to_UpdateContainer m))),
     (METHOD_AGENT_SERVICE_STATS_CONTAINER, unary_handler gc rt StatsContainerRequest_merge_from StatsContainerRequest_new (\<lambda>m. serve env (to_StatsContainer m))),
     (METHOD_AGENT_SERVICE_PAUSE_CONTAINER, unary_handler gc rt PauseContainerRequest_merge_from PauseContainerRequest_new (\<lambda>m. serve env (to_PauseContainer m))),
     (METHOD_AGENT_SERVICE_RESUME_CONTAINER, unary_handler gc rt ResumeContainerRequest_merge_from ResumeContainerRequest_new (\<lambda>m. serve env (to_ResumeContainer m))),
     (METHOD_AGENT_SERVICE_WRITE_STDIN, unary_handler gc rt WriteStreamRequest_merge_from WriteStreamRequest_new (\<lambda>m. serve env (to_WriteStdin m))),
     (METHOD_AGENT_SERVICE_READ_STDOUT, unary_handler gc rt ReadStreamRequest_merge_from ReadStreamRequest_new (\<lambda>m. serve env (to_ReadStdout m))),
     (METHOD_AGENT_SERVICE_READ_STDERR, unary_handler gc rt ReadStreamRequest_merge_from ReadStreamRequest_new (\<lambda>m. serve env (to_ReadStderr m))),
     (METHOD_AGENT_SERVICE_CLOSE_STDIN, unary_handler gc rt CloseStdinRequest_merge_from CloseStdinRequest_new (\<lambda>m. serve env (to_CloseStdin m))),
     (METHOD_AGENT_SERVICE_TTY_WIN_RESIZE, unary_handler gc rt TtyWinResizeRequest_merge_from TtyWinResizeRequest_new (\<lambda>m. serve env (to_TtyWinResize m))),
     (METHOD_AGENT_SERVICE_UPDATE_INTERFACE, unary_handler gc rt UpdateInterfaceRequest_merge_from UpdateInterfaceRequest_new (\<lambda>m. serve env (to_UpdateInterface m))),
     (METHOD_AGENT_SERVICE_UPDATE_ROUTES, unary_handler gc rt UpdateRoutesRequest_merge_from UpdateRoutesRequest_new (\<lambda>m. serve env (to_UpdateRoutes m))),
     (METHOD_AGENT_SERVICE_LIST_INTERFACES, unary_handler gc rt ListInterfacesRequest_merge_from ListInterfacesRequest_new (\<lambda>m. serve env (to_ListInterfaces m))),
     (METHOD_AGENT_SERVICE_LIST_ROUTES, unary_handler gc rt ListRoutesRequest_merge_from ListRoutesRequest_new (\<lambda>m. serve env (to_ListRoutes m))),
     (METHOD_AGENT_SERVICE_START_TRACING, unary_handler gc rt StartTracingRequest_merge_from StartTracingRequest_new (\<lambda>m. serve env (to_StartTracing m))),
     (METHOD_AGENT_SERVICE_STOP_TRACING, unary_handler gc rt StopTracingRequest_merge_from StopTracingRequest_new (\<lambda>m. serve env (to_StopTracing m))),
     (METHOD_AGENT_SERVICE_CREATE_SANDBOX, unary_handler gc rt CreateSandboxRequest_merge_from CreateSandboxRequest_new (\<lambda>m. serve env (to_CreateSandbox m))),
     (METHOD_AGENT_SERVICE_DESTROY_SANDBOX, unary_handler gc rt DestroySandboxRequest_merge_from DestroySandboxRequest_new (\<lambda>m. serve env (to_DestroySandbox m))),
     (METHOD_AGENT_SERVICE_ONLINE_CPU_MEM, unary_handler gc rt OnlineCPUMemRequest_merge_from OnlineCPUMemRequest_new (\<lambda>m. serve env (to_OnlineCPUMem m))),
     (METHOD_AGENT_SERVICE_RESEED_RANDOM_DEV, unary_handler gc rt ReseedRandomDevRequest_merge_from ReseedRandomDevRequest_new (\<lambda>m. serve env (to_ReseedRandomDev m))),
     (METHOD_AGENT_SERVICE_GET_GUEST_DETAILS, unary_handler gc rt GuestDetailsRequest_merge_from GuestDetailsRequest_new (\<lambda>m. serve env (to_GetGuestDetails m))),
     (METHOD_AGENT_SERVICE_MEM_HOTPLUG_BY_PROBE, unary_handler gc rt MemHotplugByProbeRequest_merge_from MemHotplugByProbeRequest_new (\<lambda>m. serve env (to_MemHotplugByProbe m))),
     (METHOD_AGENT_SERVICE_SET_GUEST_DATE_TIME, unary_handler gc rt SetGuestDateTimeRequest_merge_from SetGuestDateTimeRequest_new (\<lambda>m. serve env (to_SetGuestDateTime m))),
     (METHOD_AGENT_SERVICE_COPY_FILE, unary_handler gc rt CopyFileRequest_merge_from CopyFileRequest_new (\<lambda>m. serve env (to_CopyFile m)))]"

definition create_health :: "grpcio \<Rightarrow> 'u runtime \<Rightarrow> rpc_env \<Rightarrow> (string \<times> (bytes \<Rightarrow> response reply sva)) list" where
  "create_health gc rt env = [
     (METHOD_HEALTH_CHECK, unary_handler gc rt CheckRequest_merge_from CheckRequest_new (\<lambda>m. serve env (to_HealthCheck m))),
     (METHOD_HEALTH_VERSION, unary_handler gc rt CheckRequest_merge_from CheckRequest_new (\<lambda>m. serve env (to_HealthVersion m)))]"

text \<open>The server with both services registered (\<open>grpc::start\<close>).\<close>

definition server_call :: "grpcio \<Rightarrow> 'u runtime \<Rightarrow> rpc_env \<Rightarrow> string \<Rightarrow> bytes \<Rightarrow> response reply sva" where
  "server_call gc rt env name b = (case map_of (create_agent_service gc rt env @ create_health gc rt env) name of
     None \<Rightarrow> throw (unimplemented gc) | Some h \<Rightarrow> h b)"

text \<open>The calls of the two clients: a message for each method.\<close>

datatype 'u request =
    RqCreateContainer "'u pb_CreateContainerRequest"
  | RqStartContainer "'u pb_StartContainerRequest"
  | RqRemoveContainer "'u pb_RemoveContainerRequest"
  | RqExecProcess "'u pb_ExecProcessRequest"
  | RqSignalProcess "'u pb_SignalProcessRequest"
  | RqWaitProcess "'u pb_WaitProcessRequest"
  | RqListProcesses "'u pb_ListProcessesRequest"
  | RqUpdateContainer "'u pb_UpdateContainerRequest"
  | RqStatsContainer "'u pb_StatsContainerRequest"
  | RqPauseContainer "'u pb_PauseContainerRequest"
  | RqResumeContainer "'u pb_ResumeContainerRequest"
  | RqWriteStdin "'u pb_WriteStreamRequest"
  | RqReadStdout "'u pb_ReadStreamRequest"
  | RqReadStderr "'u pb_ReadStreamRequest"
  | RqCloseStdin "'u pb_CloseStdinRequest"
  | RqTtyWinResize "'u pb_TtyWinResizeRequest"
  | RqUpdateInterface "'u pb_UpdateInterfaceRequest"
  | RqUpdateRoutes "'u pb_UpdateRoutesRequest"
  | RqListInterfaces "'u pb_ListInterfacesRequest"
  | RqListRoutes "'u pb_ListRoutesRequest"
  | RqStartTracing "'u pb_StartTracingRequest"
  | RqStopTracing "'u pb_StopTracingRequest"
  | RqCreateSandbox "'u pb_CreateSandboxRequest"
  | RqDestroySandbox "'u pb_DestroySandboxRequest"
  | RqOnlineCPUMem "'u pb_OnlineCPUMemRequest"
  | RqReseedRandomDev "'u pb_ReseedRandomDevRequest"
  | RqGetGuestDetails "'u pb_GuestDetailsRequest"
  | RqMemHotplugByProbe "'u pb_MemHotplugByProbeRequest"
  | RqSetGuestDateTime "'u pb_SetGuestDateTimeRequest"
  | RqCopyFile "'u pb_CopyFileRequest"
  | RqHealthCheck "'u pb_CheckRequest"
  | RqHealthVersion "'u pb_CheckRequest"

fun client_call :: "'u runtime \<Rightarrow> 'u request \<Rightarrow> string \<times> bytes res" where
  "client_call rt (RqCreateContainer m) = (METHOD_AGENT_SERVICE_CREATE_CONTAINER, CreateContainerRequest_write_to rt m)"
| "client_call rt (RqStartContainer m) = (METHOD_AGENT_SERVICE_START_CONTAINER, StartContainerRequest_write_to rt m)"
| "client_call rt (RqRemoveContainer m) = (METHOD_AGENT_SERVICE_REMOVE_CONTAINER, RemoveContainerRequest_write_to rt m)"
| "client_call rt (RqExecProcess m) = (METHOD_AGENT_SERVICE_EXEC_PROCESS, ExecProcessRequest_write_to rt m)"
| "client_call rt (RqSignalProcess m) = (METHOD_AGENT_SERVICE_SIGNAL_PROCESS, SignalProcessRequest_write_to rt m)"
| "client_call rt (RqWaitProcess m) = (METHOD_AGENT_SERVICE_WAIT_PROCESS, WaitProcessRequest_write_to rt m)"
| "client_call rt (RqListProcesses m) = (METHOD_AGENT_SERVICE_LIST_PROCESSES, ListProcessesRequest_write_to rt m)"
| "client_call rt (RqUpdateContainer m) = (METHOD_AGENT_SERVICE_UPDATE_CONTAINER, UpdateContainerRequest_write_to rt m)"
| "client_call rt (RqStatsContainer m) = (METHOD_AGENT_SERVICE_STATS_CONTAINER, StatsContainerRequest_write_to rt m)"
| "client_call rt (RqPauseContainer m) = (METHOD_AGENT_SERVICE_PAUSE_CONTAINER, PauseContainerRequest_write_to rt m)"
| "client_call rt (RqResumeContainer m) = (METHOD_AGENT_SERVICE_RESUME_CONTAINER, ResumeContainerRequest_write_to rt m)"
| "client_call rt (RqWriteStdin m) = (METHOD_AGENT_SERVICE_WRITE_STDIN, WriteStreamRequest_write_to rt m)"
| "client_call rt (RqReadStdout m) = (METHOD_AGENT_SERVICE_READ_STDOUT, ReadStreamRequest_write_to rt m)"
| "client_call rt (RqReadStderr m) = (METHOD_AGENT_SERVICE_READ_STDERR, ReadStreamRequest_write_to rt m)"
| "client_call rt (RqCloseStdin m) = (METHOD_AGENT_SERVICE_CLOSE_STDIN, CloseStdinRequest_write_to rt m)"
| "client_call rt (RqTtyWinResize m) = (METHOD_AGENT_SERVICE_TTY_WIN_RESIZE, TtyWinResizeRequest_write_to rt m)"
| "client_call rt (RqUpdateInterface m) = (METHOD_AGENT_SERVICE_UPDATE_INTERFACE, UpdateInterfaceRequest_write_to rt m)"
| "client_call rt (RqUpdateRoutes m) = (METHOD_AGENT_SERVICE_UPDATE_ROUTES, UpdateRoutesRequest_write_to rt m)"
| "client_call rt (RqListInterfaces m) = (METHOD_AGENT_SERVICE_LIST_INTERFACES, ListInterfacesRequest_write_to rt m)"
| "client_call rt (RqListRoutes m) = (METHOD_AGENT_SERVICE_LIST_ROUTES, ListRoutesRequest_write_to rt m)"
| "client_call rt (RqStartTracing m) = (METHOD_AGENT_SERVICE_START_TRACING, StartTracingRequest_write_to rt m)"
| "client_call rt (RqStopTracing m) = (METHOD_AGENT_SERVICE_STOP_TRACING, StopTracingRequest_write_to rt m)"
| "client_call rt (RqCreateSandbox m) = (METHOD_AGENT_SERVICE_CREATE_SANDBOX, CreateSandboxRequest_write_to rt m)"
| "client_call rt (RqDestroySandbox m) = (METHOD_AGENT_SERVICE_DESTROY_SANDBOX, DestroySandboxRequest_write_to rt m)"
| "client_call rt (RqOnlineCPUMem m) = (METHOD_AGENT_SERVICE_ONLINE_CPU_MEM, OnlineCPUMemRequest_write_to rt m)"
| "client_call rt (RqReseedRandomDev m) = (METHOD_AGENT_SERVICE_RESEED_RANDOM_DEV, ReseedRandomDevRequest_write_to rt m)"
| "client_call rt (RqGetGuestDetails m) = (METHOD_AGENT_SERVICE_GET_GUEST_DETAILS, GuestDetailsRequest_write_to rt m)"
| "client_call rt (RqMemHotplugByProbe m) = (METHOD_AGENT_SERVICE_MEM_HOTPLUG_BY_PROBE, MemHotplugByProbeRequest_write_to rt m)"
| "client_call rt (RqSetGuestDateTime m) = (METHOD_AGENT_SERVICE_SET_GUEST_DATE_TIME, SetGuestDateTimeRequest_write_to rt m)"
| "client_call rt (RqCopyFile m) = (METHOD_AGENT_SERVICE_COPY_FILE, CopyFileRequest_write_to rt m)"
| "client_call rt (RqHealthCheck m) = (METHOD_HEALTH_CHECK, CheckRequest_write_to rt m)"
| "client_call rt (RqHealthVersion m) = (METHOD_HEALTH_VERSION, CheckRequest_write_to rt m)"

fun request_ok :: "'u runtime \<Rightarrow> 'u request \<Rightarrow> bool" where
  "request_ok rt (RqCreateContainer m) = CreateContainerRequest_ok rt m"
| "request_ok rt (RqStartContainer m) = StartContainerRequest_ok rt m"
| "request_ok rt (RqRemoveContainer m) = RemoveContainerRequest_ok rt m"
| "request_ok rt (RqExecProcess m) = ExecProcessRequest_ok rt m"
| "request_ok rt (RqSignalProcess m) = SignalProcessRequest_ok rt m"
| "request_ok rt (RqWaitProcess m) = WaitProcessRequest_ok rt m"
| "request_ok rt (RqListProcesses m) = ListProcessesRequest_ok rt m"
| "request_ok rt (RqUpdateContainer m) = UpdateContainerRequest_ok rt m"
| "request_ok rt (RqStatsContainer m) = StatsContainerRequest_ok rt m"
| "request_ok rt (RqPauseContainer m) = PauseContainerRequest_ok rt m"
| "request_ok rt (RqResumeContainer m) = ResumeContainerRequest_ok rt m"
| "request_ok rt (RqWriteStdin m) = WriteStreamRequest_ok rt m"
| "request_ok rt (RqReadStdout m) = ReadStreamRequest_ok rt m"
| "request_ok rt (RqReadStderr m) = ReadStreamRequest_ok rt m"
| "request_ok rt (RqCloseStdin m) = CloseStdinRequest_ok rt m"
| "request_ok rt (RqTtyWinResize m) = TtyWinResizeRequest_ok rt m"
| "request_ok rt (RqUpdateInterface m) = UpdateInterfaceRequest_ok rt m"
| "request_ok rt (RqUpdateRoutes m) = UpdateRoutesRequest_ok rt m"
| "request_ok rt (RqListInterfaces m) = ListInterfacesRequest_ok rt m"
| "request_ok rt (RqListRoutes m) = ListRoutesRequest_ok rt m"
| "request_ok rt (RqStartTracing m) = StartTracingRequest_ok rt m"
| "request_ok rt (RqStopTracing m) = StopTracingRequest_ok rt m"
| "request_ok rt (RqCreateSandbox m) = CreateSandboxRequest_ok rt m"
| "request_ok rt (RqDestroySandbox m) = DestroySandboxRequest_ok rt m"
| "request_ok rt (RqOnlineCPUMem m) = OnlineCPUMemRequest_ok rt m"
| "request_ok rt (RqReseedRandomDev m) = ReseedRandomDevRequest_ok rt m"
| "request_ok rt (RqGetGuestDetails m) = GuestDetailsRequest_ok rt m"
| "request_ok rt (RqMemHotplugByProbe m) = MemHotplugByProbeRequest_ok rt m"
| "request_ok rt (RqSetGuestDateTime m) = SetGuestDateTimeRequest_ok rt m"
| "request_ok rt (RqCopyFile m) = CopyFileRequest_ok rt m"
| "request_ok rt (RqHealthCheck m) = CheckRequest_ok rt m"
| "request_ok rt (RqHealthVersion m) = CheckRequest_ok rt m"

fun rpc_of :: "'u request \<Rightarrow> rpc" where
  "rpc_of (RqCreateContainer m) = to_CreateContainer m"
| "rpc_of (RqStartContainer m) = to_StartContainer m"
| "rpc_of (RqRemoveContainer m) = to_RemoveContainer m"
| "rpc_of (RqExecProcess m) = to_ExecProcess m"
| "rpc_of (RqSignalProcess m) = to_SignalProcess m"
| "rpc_of (RqWaitProcess m) = to_WaitProcess m"
| "rpc_of (RqListProcesses m) = to_ListProcesses m"
| "rpc_of (RqUpdateContainer m) = to_UpdateContainer m"
| "rpc_of (RqStatsContainer m) = to_StatsContainer m"
| "rpc_of (RqPauseContainer m) = to_PauseContainer m"
| "rpc_of (RqResumeContainer m) = to_ResumeContainer m"
| "rpc_of (RqWriteStdin m) = to_WriteStdin m"
| "rpc_of (RqReadStdout m) = to_ReadStdout m"
| "rpc_of (RqReadStderr m) = to_ReadStderr m"
| "rpc_of (RqCloseStdin m) = to_CloseStdin m"
| "rpc_of (RqTtyWinResize m) = to_TtyWinResize m"
| "rpc_of (RqUpdateInterface m) = to_UpdateInterface m"
| "rpc_of (RqUpdateRoutes m) = to_UpdateRoutes m"
| "rpc_of (RqListInterfaces m) = to_ListInterfaces m"
| "rpc_of (RqListRoutes m) = to_ListRoutes m"
| "rpc_of (RqStartTracing m) = to_StartTracing m"
| "rpc_of (RqStopTracing m) = to_StopTracing m"
| "rpc_of (RqCreateSandbox m) = to_CreateSandbox m"
| "rpc_of (RqDestroySandbox m) = to_DestroySandbox m"
| "rpc_of (RqOnlineCPUMem m) = to_OnlineCPUMem m"
| "rpc_of (RqReseedRandomDev m) = to_ReseedRandomDev m"
| "rpc_of (RqGetGuestDetails m) = to_GetGuestDetails m"
| "rpc_of (RqMemHotplugByProbe m) = to_MemHotplugByProbe m"
| "rpc_of (RqSetGuestDateTime m) = to_SetGuestDateTime m"
| "rpc_of (RqCopyFile m) = to_CopyFile m"
| "rpc_of (RqHealthCheck m) = to_HealthCheck m"
| "rpc_of (RqHealthVersion m) = to_HealthVersion m"

section \<open>Lemmas\<close>

lemmas method_names = METHOD_AGENT_SERVICE_CREATE_CONTAINER_def METHOD_AGENT_SERVICE_START_CONTAINER_def METHOD_AGENT_SERVICE_REMOVE_CONTAINER_def METHOD_AGENT_SERVICE_EXEC_PROCESS_def METHOD_AGENT_SERVICE_SIGNAL_PROCESS_def METHOD_AGENT_SERVICE_WAIT_PROCESS_def METHOD_AGENT_SERVICE_LIST_PROCESSES_def METHOD_AGENT_SERVICE_UPDATE_CONTAINER_def METHOD_AGENT_SERVICE_STATS_CONTAINER_def METHOD_AGENT_SERVICE_PAUSE_CONTAINER_def METHOD_AGENT_SERVICE_RESUME_CONTAINER_def METHOD_AGENT_SERVICE_WRITE_STDIN_def METHOD_AGENT_SERVICE_READ_STDOUT_def METHOD_AGENT_SERVICE_READ_STDERR_def METHOD_AGENT_SERVICE_CLOSE_STDIN_def METHOD_AGENT_SERVICE_TTY_WIN_RESIZE_def METHOD_AGENT_SERVICE_UPDATE_INTERFACE_def METHOD_AGENT_SERVICE_UPDATE_ROUTES_def METHOD_AGENT_SERVICE_LIST_INTERFACES_def METHOD_AGENT_SERVICE_LIST_ROUTES_def METHOD_AGENT_SERVICE_START_TRACING_def METHOD_AGENT_SERVICE_STOP_TRACING_def METHOD_AGENT_SERVICE_CREATE_SANDBOX_def METHOD_AGENT_SERVICE_DESTROY_SANDBOX_def METHOD_AGENT_SERVICE_ONLINE_CPU_MEM_def METHOD_AGENT_SERVICE_RESEED_RANDOM_DEV_def METHOD_AGENT_SERVICE_GET_GUEST_DETAILS_def METHOD_AGENT_SERVICE_MEM_HOTPLUG_BY_PROBE_def METHOD_AGENT_SERVICE_SET_GUEST_DATE_TIME_def METHOD_AGENT_SERVICE_COPY_FILE_def METHOD_HEALTH_CHECK_def METHOD_HEALTH_VERSION_def

text \<open>The handler registered under the name of a method.\<close>

lemma handlers:
  "map_of (create_agent_service gc rt env @ create_health gc rt env) METHOD_AGENT_SERVICE_CREATE_CONTAINER =
    Some (unary_handler gc rt CreateContainerRequest_merge_from CreateContainerRequest_new (\<lambda>m. serve env (to_CreateContainer m)))"
  "map_of (create_agent_service gc rt env @ create_health gc rt env) METHOD_AGENT_SERVICE_START_CONTAINER =
    Some (unary_handler gc rt StartContainerRequest_merge_from StartContainerRequest_new (\<lambda>m. serve env (to_StartContainer m)))"
  "map_of (create_agent_service gc rt env @ create_health gc rt env) METHOD_AGENT_SERVICE_REMOVE_CONTAINER =
    Some (unary_handler gc rt RemoveContainerRequest_merge_from RemoveContainerRequest_new (\<lambda>m. serve env (to_RemoveContainer m)))"
  "map_of (create_agent_service gc rt env @ create_health gc rt env) METHOD_AGENT_SERVICE_EXEC_PROCESS =
    Some (unary_handler gc rt ExecProcessRequest_merge_from ExecProcessRequest_new (\<lambda>m. serve env (to_ExecProcess m)))"
  "map_of (create_agent_service gc rt env @ create_health gc rt env) METHOD_AGENT_SERVICE_SIGNAL_PROCESS =
    Some (unary_handler gc rt SignalProcessRequest_merge_from SignalProcessRequest_new (\<lambda>m. serve env (to_SignalProcess m)))"
  "map_of (create_agent_service gc rt env @ create_health gc rt env) METHOD_AGENT_SERVICE_WAIT_PROCESS =
    Some (unary_handler gc rt WaitProcessRequest_merge_from WaitProcessRequest_new (\<lambda>m. serve env (to_WaitProcess m)))"
  "map_of (create_agent_service gc rt env @ create_health gc rt env) METHOD_AGENT_SERVICE_LIST_PROCESSES =
    Some (unary_handler gc rt ListProcessesRequest_merge_from ListProcessesRequest_new (\<lambda>m. serve env (to_ListProcesses m)))"
  "map_of (create_agent_service gc rt env @ create_health gc rt env) METHOD_AGENT_SERVICE_UPDATE_CONTAINER =
    Some (unary_handler gc rt UpdateContainerRequest_merge_from UpdateContainerRequest_new (\<lambda>m. serve env (to_UpdateContainer m)))"
  "map_of (create_agent_service gc rt env @ create_health gc rt env) METHOD_AGENT_SERVICE_STATS_CONTAINER =
    Some (unary_handler gc rt StatsContainerRequest_merge_from StatsContainerRequest_new (\<lambda>m. serve env (to_StatsContainer m)))"
  "map_of (create_agent_service gc rt env @ create_health gc rt env) METHOD_AGENT_SERVICE_PAUSE_CONTAINER =
    Some (unary_handler gc rt PauseContainerRequest_merge_from PauseContainerRequest_new (\<lambda>m. serve env (to_PauseContainer m)))"
  "map_of (create_agent_service gc rt env @ create_health gc rt env) METHOD_AGENT_SERVICE_RESUME_CONTAINER =
    Some (unary_handler gc rt ResumeContainerRequest_merge_from ResumeContainerRequest_new (\<lambda>m. serve env (to_ResumeContainer m)))"
  "map_of (create_agent_service gc rt env @ create_health gc rt env) METHOD_AGENT_SERVICE_WRITE_STDIN =
    Some (unary_handler gc rt WriteStreamRequest_merge_from WriteStreamRequest_new (\<lambda>m. serve env (to_WriteStdin m)))"
  "map_of (create_agent_service gc rt env @ create_health gc rt env) METHOD_AGENT_SERVICE_READ_STDOUT =
    Some (unary_handler gc rt ReadStreamRequest_merge_from ReadStreamRequest_new (\<lambda>m. serve env (to_ReadStdout m)))"
  "map_of (create_agent_service gc rt env @ create_health gc rt env) METHOD_AGENT_SERVICE_READ_STDERR =
    Some (unary_handler gc rt ReadStreamRequest_merge_from ReadStreamRequest_new (\<lambda>m. serve env (to_ReadStderr m)))"
  "map_of (create_agent_service gc rt env @ create_health gc rt env) METHOD_AGENT_SERVICE_CLOSE_STDIN =
    Some (unary_handler gc rt CloseStdinRequest_merge_from CloseStdinRequest_new (\<lambda>m. serve env (to_CloseStdin m)))"
  "map_of (create_agent_service gc rt env @ create_health gc rt env) METHOD_AGENT_SERVICE_TTY_WIN_RESIZE =
    Some (unary_handler gc rt TtyWinResizeRequest_merge_from TtyWinResizeRequest_new (\<lambda>m. serve env (to_TtyWinResize m)))"
  "map_of (create_agent_service gc rt env @ create_health gc rt env) METHOD_AGENT_SERVICE_UPDATE_INTERFACE =
    Some (unary_handler gc rt UpdateInterfaceRequest_merge_from UpdateInterfaceRequest_new (\<lambda>m. serve env (to_UpdateInterface m)))"
  "map_of (create_agent_service gc rt env @ create_health gc rt env) METHOD_AGENT_SERVICE_UPDATE_ROUTES =
    Some (unary_handler gc rt UpdateRoutesRequest_merge_from UpdateRoutesRequest_new (\<lambda>m. serve env (to_UpdateRoutes m)))"
  "map_of (create_agent_service gc rt env @ create_health gc rt env) METHOD_AGENT_SERVICE_LIST_INTERFACES =
    Some (unary_handler gc rt ListInterfacesRequest_merge_from ListInterfacesRequest_new (\<lambda>m. serve env (to_ListInterfaces m)))"
  "map_of (create_agent_service gc rt env @ create_health gc rt env) METHOD_AGENT_SERVICE_LIST_ROUTES =
    Some (unary_handler gc rt ListRoutesRequest_merge_from ListRoutesRequest_new (\<lambda>m. serve env (to_ListRoutes m)))"
  "map_of (create_agent_service gc rt env @ create_health gc rt env) METHOD_AGENT_SERVICE_START_TRACING =
    Some (unary_handler gc rt StartTracingRequest_merge_from StartTracingRequest_new (\<lambda>m. serve env (to_StartTracing m)))"
  "map_of (create_agent_service gc rt env @ create_health gc rt env) METHOD_AGENT_SERVICE_STOP_TRACING =
    Some (unary_handler gc rt StopTracingRequest_merge_from StopTracingRequest_new (\<lambda>m. serve env (to_StopTracing m)))"
  "map_of (create_agent_service gc rt env @ create_health gc rt env) METHOD_AGENT_SERVICE_CREATE_SANDBOX =
    Some (unary_handler gc rt CreateSandboxRequest_merge_from CreateSandboxRequest_new (\<lambda>m. serve env (to_CreateSandbox m)))"
  "map_of (create_agent_service gc rt env @ create_health gc rt env) METHOD_AGENT_SERVICE_DESTROY_SANDBOX =
    Some (unary_handler gc rt DestroySandboxRequest_merge_from DestroySandboxRequest_new (\<lambda>m. serve env (to_DestroySandbox m)))"
  "map_of (create_agent_service gc rt env @ create_health gc rt env) METHOD_AGENT_SERVICE_ONLINE_CPU_MEM =
    Some (unary_handler gc rt OnlineCPUMemRequest_merge_from OnlineCPUMemRequest_new (\<lambda>m. serve env (to_OnlineCPUMem m)))"
  "map_of (create_agent_service gc rt env @ create_health gc rt env) METHOD_AGENT_SERVICE_RESEED_RANDOM_DEV =
    Some (unary_handler gc rt ReseedRandomDevRequest_merge_from ReseedRandomDevRequest_new (\<lambda>m. serve env (to_ReseedRandomDev m)))"
  "map_of (create_agent_service gc rt env @ create_health gc rt env) METHOD_AGENT_SERVICE_GET_GUEST_DETAILS =
    Some (unary_handler gc rt GuestDetailsRequest_merge_from GuestDetailsRequest_new (\<lambda>m. serve env (to_GetGuestDetails m)))"
  "map_of (create_agent_service gc rt env @ create_health gc rt env) METHOD_AGENT_SERVICE_MEM_HOTPLUG_BY_PROBE =
    Some (unary_handler gc rt MemHotplugByProbeRequest_merge_from MemHotplugByProbeRequest_new (\<lambda>m. serve env (to_MemHotplugByProbe m)))"
  "map_of (create_agent_service gc rt env @ create_health gc rt env) METHOD_AGENT_SERVICE_SET_GUEST_DATE_TIME =
    Some (unary_handler gc rt SetGuestDateTimeRequest_merge_from SetGuestDateTimeRequest_new (\<lambda>m. serve env (to_SetGuestDateTime m)))"
  "map_of (create_agent_service gc rt env @ create_health gc rt env) METHOD_AGENT_SERVICE_COPY_FILE =
    Some (unary_handler gc rt CopyFileRequest_merge_from CopyFileRequest_new (\<lambda>m. serve env (to_CopyFile m)))"
  "map_of (create_agent_service gc rt env @ create_health gc rt env) METHOD_HEALTH_CHECK =
    Some (unary_handler gc rt CheckRequest_merge_from CheckRequest_new (\<lambda>m. serve env (to_HealthCheck m)))"
  "map_of (create_agent_service gc rt env @ create_health gc rt env) METHOD_HEALTH_VERSION =
    Some (unary_handler gc rt CheckRequest_merge_from CheckRequest_new (\<lambda>m. serve env (to_HealthVersion m)))"
  by (simp_all add: create_agent_service_def create_health_def method_names)

text \<open>Whatever is registered is the handler of some request.\<close>

lemma registered:
  assumes "map_of (create_agent_service gc rt env @ create_health gc rt env) name = Some h"
    and "P (unary_handler gc rt CreateContainerRequest_merge_from CreateContainerRequest_new (\<lambda>m. serve env (to_CreateContainer m)))"
    and "P (unary_handler gc rt StartContainerRequest_merge_from StartContainerRequest_new (\<lambda>m. serve env (to_StartContainer m)))"
    and "P (unary_handler gc rt RemoveContainerRequest_merge_from RemoveContainerRequest_new (\<lambda>m. serve env (to_RemoveContainer m)))"
    and "P (unary_handler gc rt ExecProcessRequest_merge_from ExecProcessRequest_new (\<lambda>m. serve env (to_ExecProcess m)))"
    and "P (unary_handler gc rt SignalProcessRequest_merge_from SignalProcessRequest_new (\<lambda>m. serve env (to_SignalProcess m)))"
    and "P (unary_handler gc rt WaitProcessRequest_merge_from WaitProcessRequest_new (\<lambda>m. serve env (to_WaitProcess m)))"
    and "P (unary_handler gc rt ListProcessesRequest_merge_from ListProcessesRequest_new (\<lambda>m. serve env (to_ListProcesses m)))"
    and "P (unary_handler gc rt UpdateContainerRequest_merge_from UpdateContainerRequest_new (\<lambda>m. serve env (to_UpdateContainer m)))"
    and "P (unary_handler gc rt StatsContainerRequest_merge_from StatsContainerRequest_new (\<lambda>m. serve env (to_StatsContainer m)))"
    and "P (unary_handler gc rt PauseContainerRequest_merge_from PauseContainerRequest_new (\<lambda>m. serve env (to_PauseContainer m)))"
    and "P (unary_handler gc rt ResumeContainerRequest_merge_from ResumeContainerRequest_new (\<lambda>m. serve env (to_ResumeContainer m)))"
    and "P (unary_handler gc rt WriteStreamRequest_merge_from WriteStreamRequest_new (\<lambda>m. serve env (to_WriteStdin m)))"
    and "P (unary_handler gc rt ReadStreamRequest_merge_from ReadStreamRequest_new (\<lambda>m. serve env (to_ReadStdout m)))"
    and "P (unary_handler gc rt ReadStreamRequest_merge_from ReadStreamRequest_new (\<lambda>m. serve env (to_ReadStderr m)))"
    and "P (unary_handler gc rt CloseStdinRequest_merge_from CloseStdinRequest_new (\<lambda>m. serve env (to_CloseStdin m)))"
    and "P (unary_handler gc rt TtyWinResizeRequest_merge_from TtyWinResizeRequest_new (\<lambda>m. serve env (to_TtyWinResize m)))"
    and "P (unary_handler gc rt UpdateInterfaceRequest_merge_from UpdateInterfaceRequest_new (\<lambda>m. serve env (to_UpdateInterface m)))"
    and "P (unary_handler gc rt UpdateRoutesRequest_merge_from UpdateRoutesRequest_new (\<lambda>m. serve env (to_UpdateRoutes m)))"
    and "P (unary_handler gc rt ListInterfacesRequest_merge_from ListInterfacesRequest_new (\<lambda>m. serve env (to_ListInterfaces m)))"
    and "P (unary_handler gc rt ListRoutesRequest_merge_from ListRoutesRequest_new (\<lambda>m. serve env (to_ListRoutes m)))"
    and "P (unary_handler gc rt StartTracingRequest_merge_from StartTracingRequest_new (\<lambda>m. serve env (to_StartTracing m)))"
    and "P (unary_handler gc rt StopTracingRequest_merge_from StopTracingRequest_new (\<lambda>m. serve env (to_StopTracing m)))"
    and "P (unary_handler gc rt CreateSandboxRequest_merge_from CreateSandboxRequest_new (\<lambda>m. serve env (to_CreateSandbox m)))"
    and "P (unary_handler gc rt DestroySandboxRequest_merge_from DestroySandboxRequest_new (\<lambda>m. serve env (to_DestroySandbox m)))"
    and "P (unary_handler gc rt OnlineCPUMemRequest_merge_from OnlineCPUMemRequest_new (\<lambda>m. serve env (to_OnlineCPUMem m)))"
    and "P (unary_handler gc rt ReseedRandomDevRequest_merge_from ReseedRandomDevRequest_new (\<lambda>m. serve env (to_ReseedRandomDev m)))"
    and "P (unary_handler gc rt GuestDetailsRequest_merge_from GuestDetailsRequest_new (\<lambda>m. serve env (to_GetGuestDetails m)))"
    and "P (unary_handler gc rt MemHotplugByProbeRequest_merge_from MemHotplugByProbeRequest_new (\<lambda>m. serve env (to_MemHotplugByProbe m)))"
    and "P (unary_handler gc rt SetGuestDateTimeRequest_merge_from SetGuestDateTimeRequest_new (\<lambda>m. serve env (to_SetGuestDateTime m)))"
    and "P (unary_handler gc rt CopyFileRequest_merge_from CopyFileRequest_new (\<lambda>m. serve env (to_CopyFile m)))"
    and "P (unary_handler gc rt CheckRequest_merge_from CheckRequest_new (\<lambda>m. serve env (to_HealthCheck m)))"
    and "P (unary_handler gc rt CheckRequest_merge_from CheckRequest_new (\<lambda>m. serve env (to_HealthVersion m)))"
  shows "P h"
  using map_of_SomeD [OF assms(1)] assms(2-) unfolding create_agent_service_def create_health_def by auto

lemma served:
  assumes "map_of (create_agent_service gc rt env @ create_health gc rt env) name = Some (unary_handler gc rt merge new h)"
    and "Pb_Message.message new merge sz wr ok clr" "protobuf rt" "ok rt m"
  shows "\<exists>name' b. (name, wr rt m) = (name', Ok b) \<and> (length b < 2 ^ 32 \<longrightarrow> server_call gc rt env name' b s = h m s)"
proof -
  from message.transfer [OF assms(2-4)] obtain b where b: "wr rt m = Ok b" by blast
  with message.parsed [OF assms(2-4) b] assms(1) show ?thesis
    by (auto simp: server_call_def unary_handler_def)
qed

lemma answered:
  assumes "Pb_Message.message new merge sz wr ok clr" "protobuf_readers rt"
  shows "(\<exists>q. unary_handler gc rt merge new (\<lambda>m. serve env (f m)) b s = serve env q s)
    \<or> (\<exists>e. unary_handler gc rt merge new (\<lambda>m. serve env (f m)) b s = (Err e, s))"
  using message.parse_answers [OF assms, of b] by (auto simp: unary_handler_def answers_def)

text \<open>Each message that the two services take.\<close>

lemmas request_messages = CreateContainerRequest_pb.message_axioms StartContainerRequest_pb.message_axioms RemoveContainerRequest_pb.message_axioms ExecProcessRequest_pb.message_axioms SignalProcessRequest_pb.message_axioms WaitProcessRequest_pb.message_axioms ListProcessesRequest_pb.message_axioms UpdateContainerRequest_pb.message_axioms StatsContainerRequest_pb.message_axioms PauseContainerRequest_pb.message_axioms ResumeContainerRequest_pb.message_axioms WriteStreamRequest_pb.message_axioms ReadStreamRequest_pb.message_axioms CloseStdinRequest_pb.message_axioms TtyWinResizeRequest_pb.message_axioms UpdateInterfaceRequest_pb.message_axioms UpdateRoutesRequest_pb.message_axioms ListInterfacesRequest_pb.message_axioms ListRoutesRequest_pb.message_axioms StartTracingRequest_pb.message_axioms StopTracingRequest_pb.message_axioms CreateSandboxRequest_pb.message_axioms DestroySandboxRequest_pb.message_axioms OnlineCPUMemRequest_pb.message_axioms ReseedRandomDevRequest_pb.message_axioms GuestDetailsRequest_pb.message_axioms MemHotplugByProbeRequest_pb.message_axioms SetGuestDateTimeRequest_pb.message_axioms CopyFileRequest_pb.message_axioms CheckRequest_pb.message_axioms

section \<open>A request from the client to its handler\<close>

text \<open>The client can write any request, and the server finds the handler and its message in the bytes.\<close>

lemma request_sent:
  assumes "protobuf rt" "request_ok rt r"
  shows "\<exists>name b. client_call rt r = (name, Ok b) \<and> (length b < 2 ^ 32 \<longrightarrow>
    server_call gc rt env name b s = serve env (rpc_of r) s)"
  using assms
  by (cases r) (simp only: client_call.simps request_ok.simps rpc_of.simps,
    rule handlers [THEN served], rule request_messages, assumption+)+

text \<open>C16: A request is served as it was sent: the client can write the message of any request, under the name of a method,
  and the server reads from these bytes, unless they are 4 GB or more, the very message and runs the handler that the
  method is meant for on it.\<close>

theorem request_served:
  assumes "protobuf rt" "request_ok rt r"
  shows "\<exists>name b. client_call rt r = (name, Ok b) \<and> (length b < 2 ^ 32 \<longrightarrow>
    server_call gc rt env name b s = serve env (rpc_of r) s)"
  using assms by (rule request_sent)

lemma start_bytes: "client_call wire (RqStartContainer \<lparr>StartContainerRequest_container_id = ''a'', StartContainerRequest_unknown_fields = []\<rparr>)
    = (METHOD_AGENT_SERVICE_START_CONTAINER, Ok [10, 1, 97])"
  by (simp add: StartContainerRequest_write_to_def wire_def wire_put_def tag_bytes_def varint.simps wire_number_def
      delimited_def bytes_of_def whenW_def eachW_def)

theorem request_served_witness:
  "client_call wire (RqStartContainer \<lparr>StartContainerRequest_container_id = ''a'', StartContainerRequest_unknown_fields = []\<rparr>)
    = (METHOD_AGENT_SERVICE_START_CONTAINER, Ok [10, 1, 97])
  \<and> (\<forall>gc env s. server_call gc wire env METHOD_AGENT_SERVICE_START_CONTAINER [10, 1, 97] s = serve env (StartContainer ''a'') s)"
proof (intro conjI allI)
  let ?r = "RqStartContainer \<lparr>StartContainerRequest_container_id = ''a'', StartContainerRequest_unknown_fields = []\<rparr>"
  fix gc env s
  have "request_ok wire ?r"
    by (simp add: StartContainerRequest_ok_def utf8_def bytes_of_def wire_def)
  from request_served [OF wire.protobuf_axioms this, of gc env s]
  show "server_call gc wire env METHOD_AGENT_SERVICE_START_CONTAINER [10, 1, 97] s = serve env (StartContainer ''a'') s"
    by (simp add: start_bytes to_StartContainer_def del: client_call.simps)
qed (rule start_bytes)

section \<open>Any bytes at all\<close>

text \<open>C17: Whatever name and bytes the server gets, it answers: it runs the handler of one request on them or, where
  there is no such method or no such message, refuses the call with an error and changes nothing.\<close>

theorem any_bytes_answered:
  assumes "protobuf_readers rt"
  shows "(\<exists>q. server_call gc rt env name b s = serve env q s) \<or> (\<exists>e. server_call gc rt env name b s = (Err e, s))"
proof (cases "map_of (create_agent_service gc rt env @ create_health gc rt env) name")
  case (Some h)
  have "(\<exists>q. h b s = serve env q s) \<or> (\<exists>e. h b s = (Err e, s))"
    by (rule registered [OF Some]; rule answered [OF _ assms], rule request_messages)
  with Some show ?thesis by (simp add: server_call_def)
qed (simp add: server_call_def del: map_of_append)

text \<open>The field of a text of 72 or more bytes of which none is there.\<close>

lemma cut_off: "unvarint 10 [200] = None" "unvarint 10 [10, 200] = Some (10, [200])"
    "wire_type_of 2 = Some WireTypeLengthDelimited"
  using unvarint.simps(3) [of 9] unvarint.simps(2) [of 8] by (simp_all add: wire_type_of_def)

theorem any_bytes_answered_witness:
  "(\<forall>gc env s. server_call gc wire env METHOD_AGENT_SERVICE_START_CONTAINER [10, 200] s = (Err (undecodable gc Parse), s))
  \<and> (\<forall>gc env s. (\<exists>q. server_call gc wire env METHOD_AGENT_SERVICE_START_CONTAINER [10, 200] s = serve env q s)
    \<or> (\<exists>e. server_call gc wire env METHOD_AGENT_SERVICE_START_CONTAINER [10, 200] s = (Err e, s)))"
proof (intro conjI allI)
  fix gc env s
  have "read_tag_unpack wire [10, 200] = (Ok (1, WireTypeLengthDelimited), [200])"
    "read_string wire WireTypeLengthDelimited [200] = (Err Parse, [200])"
    by (simp_all add: wire_def wire_tag_def expect_def wire_text_def wire_chunk_def varint64_def cut_off)
  then have "parse_message (StartContainerRequest_merge_from wire) (StartContainerRequest_new wire) [10, 200] = Err Parse"
    by (simp add: parse_message_def StartContainerRequest_merge_from_def merge_fields_def StartContainerRequest_arm singular_into_def)
  with handlers(2) [of gc wire env]
  show "server_call gc wire env METHOD_AGENT_SERVICE_START_CONTAINER [10, 200] s = (Err (undecodable gc Parse), s)"
    by (simp add: server_call_def unary_handler_def del: map_of_append)
qed (rule any_bytes_answered [OF wire_readers.protobuf_readers_axioms])

end
