(* ===== verification/Grpc_Answer.thy ===== *)
theory Grpc_Answer
  imports Grpc_Service
begin

text \<open>
  The way back of a call: the messages that the handlers answer with, their bytes, and the message that the
  client takes out of them. With the way there (\<open>Grpc_Service\<close>) a call over the wire is a call of the
  handler.
\<close>

section \<open>The messages of the answers\<close>

definition throttling_of :: "'u pb_ThrottlingData \<Rightarrow> ThrottlingData" where
  "throttling_of m = \<lparr>periods = ThrottlingData_periods m, throttled_periods = ThrottlingData_throttled_periods m,
     throttled_time = ThrottlingData_throttled_time m\<rparr>"

definition cpu_usage_of :: "'u pb_CpuUsage \<Rightarrow> CpuUsage" where
  "cpu_usage_of m = \<lparr>total_usage = CpuUsage_total_usage m, percpu_usage = CpuUsage_percpu_usage m,
     usage_in_kernelmode = CpuUsage_usage_in_kernelmode m, usage_in_usermode = CpuUsage_usage_in_usermode m\<rparr>"

definition cpu_stats_of :: "'u pb_CpuStats \<Rightarrow> CpuStats" where
  "cpu_stats_of m = \<lparr>cpu_usage = map_option cpu_usage_of (CpuStats_cpu_usage m),
     throttling_data = map_option throttling_of (CpuStats_throttling_data m)\<rparr>"

definition pids_stats_of :: "'u pb_PidsStats \<Rightarrow> PidsStats" where
  "pids_stats_of m = \<lparr>ps_current = PidsStats_current m, ps_limit = PidsStats_limit m\<rparr>"

definition memory_data_of :: "'u pb_MemoryData \<Rightarrow> MemoryData" where
  "memory_data_of m = \<lparr>md_usage = MemoryData_usage m, md_max_usage = MemoryData_max_usage m,
     md_failcnt = MemoryData_failcnt m, md_limit = MemoryData_limit m\<rparr>"

definition memory_stats_of :: "'u pb_MemoryStats \<Rightarrow> MemoryStats" where
  "memory_stats_of m = \<lparr>cache = MemoryStats_cache m, usage = map_option memory_data_of (MemoryStats_usage m),
     swap_usage = map_option memory_data_of (MemoryStats_swap_usage m),
     kernel_usage = map_option memory_data_of (MemoryStats_kernel_usage m),
     use_hierarchy = MemoryStats_use_hierarchy m, stats = map_of (MemoryStats_stats m)\<rparr>"

definition blkio_entry_of :: "'u pb_BlkioStatsEntry \<Rightarrow> BlkioStatsEntry" where
  "blkio_entry_of m = \<lparr>be_major = BlkioStatsEntry_major m, be_minor = BlkioStatsEntry_minor m, be_op = BlkioStatsEntry_op m,
     be_value = BlkioStatsEntry_value m\<rparr>"

definition blkio_stats_of :: "'u pb_BlkioStats \<Rightarrow> BlkioStats" where
  "blkio_stats_of m = \<lparr>io_service_bytes_recursive = map blkio_entry_of (BlkioStats_io_service_bytes_recursive m),
     io_serviced_recursive = map blkio_entry_of (BlkioStats_io_serviced_recursive m),
     io_queued_recursive = map blkio_entry_of (BlkioStats_io_queued_recursive m),
     io_service_time_recursive = map blkio_entry_of (BlkioStats_io_service_time_recursive m),
     io_wait_time_recursive = map blkio_entry_of (BlkioStats_io_wait_time_recursive m),
     io_merged_recursive = map blkio_entry_of (BlkioStats_io_merged_recursive m),
     io_time_recursive = map blkio_entry_of (BlkioStats_io_time_recursive m),
     sectors_recursive = map blkio_entry_of (BlkioStats_sectors_recursive m)\<rparr>"

definition hugetlb_stats_of :: "'u pb_HugetlbStats \<Rightarrow> HugetlbStats" where
  "hugetlb_stats_of m = \<lparr>hg_usage = HugetlbStats_usage m, hg_max_usage = HugetlbStats_max_usage m,
     hg_failcnt = HugetlbStats_failcnt m\<rparr>"

definition cgroup_stats_of :: "'u pb_CgroupStats \<Rightarrow> CgroupStats" where
  "cgroup_stats_of m = \<lparr>cpu_stats = map_option cpu_stats_of (CgroupStats_cpu_stats m),
     memory_stats = map_option memory_stats_of (CgroupStats_memory_stats m),
     pids_stats = map_option pids_stats_of (CgroupStats_pids_stats m),
     blkio_stats = map_option blkio_stats_of (CgroupStats_blkio_stats m),
     hugetlb_stats = (\<lambda>k. map_option hugetlb_stats_of (map_of (CgroupStats_hugetlb_stats m) k))\<rparr>"

definition agent_details_of :: "'u pb_AgentDetails \<Rightarrow> AgentDetails" where
  "agent_details_of m = \<lparr>ad_version = AgentDetails_version m, ad_init_daemon = AgentDetails_init_daemon m,
     ad_device_handlers = AgentDetails_device_handlers m, ad_storage_handlers = AgentDetails_storage_handlers m,
     ad_supports_seccomp = AgentDetails_supports_seccomp m\<rparr>"

datatype 'u reply_message =
    ReEmpty "'u pb_Empty"
  | ReWaitProcess "'u pb_WaitProcessResponse"
  | ReListProcesses "'u pb_ListProcessesResponse"
  | ReStatsContainer "'u pb_StatsContainerResponse"
  | ReWriteStream "'u pb_WriteStreamResponse"
  | ReReadStream "'u pb_ReadStreamResponse"
  | ReInterface "'u pb_Interface"
  | ReInterfaces "'u pb_Interfaces"
  | ReRoutes "'u pb_Routes"
  | ReGuestDetails "'u pb_GuestDetailsResponse"
  | ReHealthCheck "'u pb_HealthCheckResponse"
  | ReVersionCheck "'u pb_VersionCheckResponse"

text \<open>What a message says, where a handler can say it: the details are always there, and the health is \<open>SERVING\<close>.\<close>

fun response_of :: "'u reply_message \<Rightarrow> response option" where
  "response_of (ReEmpty m) = Some Empty"
| "response_of (ReWaitProcess m) = Some (Exited (sint (WaitProcessResponse_status m)))"
| "response_of (ReListProcesses m) = Some (Processes (string_of (ListProcessesResponse_process_list m)))"
| "response_of (ReStatsContainer m) = Some (Stats (map_option cgroup_stats_of (StatsContainerResponse_cgroup_stats m)))"
| "response_of (ReWriteStream m) = Some (Written (WriteStreamResponse_len m))"
| "response_of (ReReadStream m) = Some (Data (string_of (ReadStreamResponse_data m)))"
| "response_of (ReInterface m) = Some (AnInterface (interface_of m))"
| "response_of (ReInterfaces m) = Some (Interfaces (map interface_of (Interfaces_Interfaces m)))"
| "response_of (ReRoutes m) = Some (Routes (map route_of (Routes_Routes m)))"
| "response_of (ReGuestDetails m) = map_option (\<lambda>d. Details (GuestDetailsResponse_mem_block_size_bytes m)
     (GuestDetailsResponse_support_mem_hotplug_probe m) (agent_details_of d)) (GuestDetailsResponse_agent_details m)"
| "response_of (ReHealthCheck m) = (case HealthCheckResponse_status m of SERVING \<Rightarrow> Some Serving | _ \<Rightarrow> None)"
| "response_of (ReVersionCheck m) = Some (Version (VersionCheckResponse_agent_version m) (VersionCheckResponse_grpc_version m))"

section \<open>Server and client\<close>

text \<open>The coder of the answer on the server, and on the client the one of the method that it has called.\<close>

fun server_answer :: "'u runtime \<Rightarrow> 'u reply_message \<Rightarrow> bytes res" where
  "server_answer rt (ReEmpty m) = Empty_write_to rt m"
| "server_answer rt (ReWaitProcess m) = WaitProcessResponse_write_to rt m"
| "server_answer rt (ReListProcesses m) = ListProcessesResponse_write_to rt m"
| "server_answer rt (ReStatsContainer m) = StatsContainerResponse_write_to rt m"
| "server_answer rt (ReWriteStream m) = WriteStreamResponse_write_to rt m"
| "server_answer rt (ReReadStream m) = ReadStreamResponse_write_to rt m"
| "server_answer rt (ReInterface m) = Interface_write_to rt m"
| "server_answer rt (ReInterfaces m) = Interfaces_write_to rt m"
| "server_answer rt (ReRoutes m) = Routes_write_to rt m"
| "server_answer rt (ReGuestDetails m) = GuestDetailsResponse_write_to rt m"
| "server_answer rt (ReHealthCheck m) = HealthCheckResponse_write_to rt m"
| "server_answer rt (ReVersionCheck m) = VersionCheckResponse_write_to rt m"

fun reply_ok :: "'u runtime \<Rightarrow> 'u reply_message \<Rightarrow> bool" where
  "reply_ok rt (ReEmpty m) = Empty_ok rt m"
| "reply_ok rt (ReWaitProcess m) = WaitProcessResponse_ok rt m"
| "reply_ok rt (ReListProcesses m) = ListProcessesResponse_ok rt m"
| "reply_ok rt (ReStatsContainer m) = StatsContainerResponse_ok rt m"
| "reply_ok rt (ReWriteStream m) = WriteStreamResponse_ok rt m"
| "reply_ok rt (ReReadStream m) = ReadStreamResponse_ok rt m"
| "reply_ok rt (ReInterface m) = Interface_ok rt m"
| "reply_ok rt (ReInterfaces m) = Interfaces_ok rt m"
| "reply_ok rt (ReRoutes m) = Routes_ok rt m"
| "reply_ok rt (ReGuestDetails m) = GuestDetailsResponse_ok rt m"
| "reply_ok rt (ReHealthCheck m) = HealthCheckResponse_ok rt m"
| "reply_ok rt (ReVersionCheck m) = VersionCheckResponse_ok rt m"

definition receive :: "'u runtime \<Rightarrow> ('u runtime \<Rightarrow> 'm \<Rightarrow> 'm reader) \<Rightarrow> ('u runtime \<Rightarrow> 'm) \<Rightarrow> ('m \<Rightarrow> 'u reply_message)
    \<Rightarrow> bytes \<Rightarrow> 'u reply_message res" where
  "receive rt merge new c b = map_res c (parse_message (merge rt) (new rt) b)"

definition client_receive :: "'u runtime \<Rightarrow> 'u request \<Rightarrow> bytes \<Rightarrow> 'u reply_message res" where
  "client_receive rt r = (case r of
     RqWaitProcess _ \<Rightarrow> receive rt WaitProcessResponse_merge_from WaitProcessResponse_new ReWaitProcess
   | RqListProcesses _ \<Rightarrow> receive rt ListProcessesResponse_merge_from ListProcessesResponse_new ReListProcesses
   | RqStatsContainer _ \<Rightarrow> receive rt StatsContainerResponse_merge_from StatsContainerResponse_new ReStatsContainer
   | RqWriteStdin _ \<Rightarrow> receive rt WriteStreamResponse_merge_from WriteStreamResponse_new ReWriteStream
   | RqReadStdout _ \<Rightarrow> receive rt ReadStreamResponse_merge_from ReadStreamResponse_new ReReadStream
   | RqReadStderr _ \<Rightarrow> receive rt ReadStreamResponse_merge_from ReadStreamResponse_new ReReadStream
   | RqUpdateInterface _ \<Rightarrow> receive rt Interface_merge_from Interface_new ReInterface
   | RqUpdateRoutes _ \<Rightarrow> receive rt Routes_merge_from Routes_new ReRoutes
   | RqListInterfaces _ \<Rightarrow> receive rt Interfaces_merge_from Interfaces_new ReInterfaces
   | RqListRoutes _ \<Rightarrow> receive rt Routes_merge_from Routes_new ReRoutes
   | RqGetGuestDetails _ \<Rightarrow> receive rt GuestDetailsResponse_merge_from GuestDetailsResponse_new ReGuestDetails
   | RqHealthCheck _ \<Rightarrow> receive rt HealthCheckResponse_merge_from HealthCheckResponse_new ReHealthCheck
   | RqHealthVersion _ \<Rightarrow> receive rt VersionCheckResponse_merge_from VersionCheckResponse_new ReVersionCheck
   | _ \<Rightarrow> receive rt Empty_merge_from Empty_new ReEmpty)"

section \<open>The type of an answer\<close>

text \<open>The response that a request may have, as the methods are declared.\<close>

definition fits :: "rpc \<Rightarrow> response \<Rightarrow> bool" where
  "fits q x = (case q of
     WaitProcess _ _ \<Rightarrow> (case x of Exited _ \<Rightarrow> True | _ \<Rightarrow> False)
   | ListProcesses _ _ _ \<Rightarrow> (case x of Processes _ \<Rightarrow> True | _ \<Rightarrow> False)
   | StatsContainer _ \<Rightarrow> (case x of Stats _ \<Rightarrow> True | _ \<Rightarrow> False)
   | WriteStdin _ _ _ \<Rightarrow> (case x of Written _ \<Rightarrow> True | _ \<Rightarrow> False)
   | ReadStdout _ _ _ \<Rightarrow> (case x of Data _ \<Rightarrow> True | _ \<Rightarrow> False)
   | ReadStderr _ _ _ \<Rightarrow> (case x of Data _ \<Rightarrow> True | _ \<Rightarrow> False)
   | UpdateInterface _ \<Rightarrow> (case x of AnInterface _ \<Rightarrow> True | _ \<Rightarrow> False)
   | UpdateRoutes _ \<Rightarrow> (case x of Routes _ \<Rightarrow> True | _ \<Rightarrow> False)
   | ListInterfaces \<Rightarrow> (case x of Interfaces _ \<Rightarrow> True | _ \<Rightarrow> False)
   | ListRoutes \<Rightarrow> (case x of Routes _ \<Rightarrow> True | _ \<Rightarrow> False)
   | GetGuestDetails _ _ \<Rightarrow> (case x of Details _ _ _ \<Rightarrow> True | _ \<Rightarrow> False)
   | HealthCheck \<Rightarrow> x = Serving
   | HealthVersion \<Rightarrow> (case x of Version _ _ \<Rightarrow> True | _ \<Rightarrow> False)
   | _ \<Rightarrow> x = Empty)"

definition replies :: "(response \<Rightarrow> bool) \<Rightarrow> response reply sva \<Rightarrow> bool" where
  "replies P m \<longleftrightarrow> (\<forall>s x s'. m s = (Ok (Success x), s') \<longrightarrow> P x)"

lemmas request_rpcs = to_CreateContainer_def to_StartContainer_def to_RemoveContainer_def to_ExecProcess_def to_SignalProcess_def to_WaitProcess_def to_ListProcesses_def to_UpdateContainer_def to_StatsContainer_def to_PauseContainer_def to_ResumeContainer_def to_WriteStdin_def to_ReadStdout_def to_ReadStderr_def to_CloseStdin_def to_TtyWinResize_def to_UpdateInterface_def to_UpdateRoutes_def to_ListInterfaces_def to_ListRoutes_def to_StartTracing_def to_StopTracing_def to_CreateSandbox_def to_DestroySandbox_def to_OnlineCPUMem_def to_ReseedRandomDev_def to_GetGuestDetails_def to_MemHotplugByProbe_def to_SetGuestDateTime_def to_CopyFile_def to_HealthCheck_def to_HealthVersion_def

lemma map_reply_Success: "map_reply f r = Success x \<longleftrightarrow> (\<exists>y. r = Success y \<and> x = f y)"
  by (cases r) auto

lemma replies_answer: "(\<And>y. P (f y)) \<Longrightarrow> answer f m s = (Ok (Success x), s') \<Longrightarrow> P x"
  by (auto simp: answer_def bindR_def ret_def map_reply_Success split: prod.splits res.splits)

lemma replies_on:
  "(\<And>y. P (f y)) \<Longrightarrow> replies P (onA (answer f m))"
  "(\<And>y. P (f y)) \<Longrightarrow> replies P (onW (answer f m'))"
  "(\<And>y. P (f y)) \<Longrightarrow> replies P (answer f m'')"
  by (auto simp: replies_def onA_def onW_def os_def split: prod.splits dest: replies_answer)

lemma replies_ret:
  "replies P (ret NoReply)" "P x \<Longrightarrow> replies P (ret (Success x))" "P x \<Longrightarrow> replies P (thenR (modifyR f) (ret (Success x)))"
  by (auto simp: replies_def thenR_def)

lemma serve_fits: "replies (fits q) (serve env q)"
  by (cases q) (auto simp: fits_def intro!: replies_on replies_ret)

lemma received:
  assumes "Pb_Message.message new merge sz wr ok clr" "protobuf rt" "ok rt m"
  shows "\<exists>b. wr rt m = Ok b \<and> (length b < 2 ^ 32 \<longrightarrow> receive rt merge new c b = Ok (c m))"
proof -
  from message.transfer [OF assms] obtain b where b: "wr rt m = Ok b" by blast
  with message.parsed [OF assms b] show ?thesis by (auto simp: receive_def)
qed

lemmas reply_messages = Empty_pb.message_axioms WaitProcessResponse_pb.message_axioms
  ListProcessesResponse_pb.message_axioms StatsContainerResponse_pb.message_axioms
  WriteStreamResponse_pb.message_axioms ReadStreamResponse_pb.message_axioms Interface_pb.message_axioms
  Interfaces_pb.message_axioms Routes_pb.message_axioms GuestDetailsResponse_pb.message_axioms
  HealthCheckResponse_pb.message_axioms VersionCheckResponse_pb.message_axioms

lemma response_shape:
  "response_of a = Some Empty \<Longrightarrow> \<exists>m. a = ReEmpty m"
  "response_of a = Some (Exited k) \<Longrightarrow> \<exists>m. a = ReWaitProcess m"
  "response_of a = Some (Processes p) \<Longrightarrow> \<exists>m. a = ReListProcesses m"
  "response_of a = Some (Stats z) \<Longrightarrow> \<exists>m. a = ReStatsContainer m"
  "response_of a = Some (Written l) \<Longrightarrow> \<exists>m. a = ReWriteStream m"
  "response_of a = Some (Data d) \<Longrightarrow> \<exists>m. a = ReReadStream m"
  "response_of a = Some (AnInterface i) \<Longrightarrow> \<exists>m. a = ReInterface m"
  "response_of a = Some (Interfaces is) \<Longrightarrow> \<exists>m. a = ReInterfaces m"
  "response_of a = Some (Routes rs) \<Longrightarrow> \<exists>m. a = ReRoutes m"
  "response_of a = Some (Details n h y) \<Longrightarrow> \<exists>m. a = ReGuestDetails m"
  "response_of a = Some Serving \<Longrightarrow> \<exists>m. a = ReHealthCheck m"
  "response_of a = Some (Version v w) \<Longrightarrow> \<exists>m. a = ReVersionCheck m"
  by (cases a; simp split: HealthCheckResponse_ServingStatus.splits)+

text \<open>The message that a handler can answer the request with is the one that the client expects.\<close>

lemma reply_received:
  assumes "protobuf rt" "reply_ok rt a" "response_of a = Some x" "fits (rpc_of r) x"
  shows "\<exists>c. server_answer rt a = Ok c \<and> (length c < 2 ^ 32 \<longrightarrow> client_receive rt r c = Ok a)"
proof -
  note got = reply_messages [THEN received, OF assms(1)]
  have "client_receive rt r = (case a of
      ReEmpty _ \<Rightarrow> receive rt Empty_merge_from Empty_new ReEmpty
    | ReWaitProcess _ \<Rightarrow> receive rt WaitProcessResponse_merge_from WaitProcessResponse_new ReWaitProcess
    | ReListProcesses _ \<Rightarrow> receive rt ListProcessesResponse_merge_from ListProcessesResponse_new ReListProcesses
    | ReStatsContainer _ \<Rightarrow> receive rt StatsContainerResponse_merge_from StatsContainerResponse_new ReStatsContainer
    | ReWriteStream _ \<Rightarrow> receive rt WriteStreamResponse_merge_from WriteStreamResponse_new ReWriteStream
    | ReReadStream _ \<Rightarrow> receive rt ReadStreamResponse_merge_from ReadStreamResponse_new ReReadStream
    | ReInterface _ \<Rightarrow> receive rt Interface_merge_from Interface_new ReInterface
    | ReInterfaces _ \<Rightarrow> receive rt Interfaces_merge_from Interfaces_new ReInterfaces
    | ReRoutes _ \<Rightarrow> receive rt Routes_merge_from Routes_new ReRoutes
    | ReGuestDetails _ \<Rightarrow> receive rt GuestDetailsResponse_merge_from GuestDetailsResponse_new ReGuestDetails
    | ReHealthCheck _ \<Rightarrow> receive rt HealthCheckResponse_merge_from HealthCheckResponse_new ReHealthCheck
    | ReVersionCheck _ \<Rightarrow> receive rt VersionCheckResponse_merge_from VersionCheckResponse_new ReVersionCheck)"
    using assms(3,4)
    by (cases r) (auto simp: fits_def client_receive_def request_rpcs split: response.splits dest!: response_shape)
  then show ?thesis using assms(2)
    by (cases a) (simp only: server_answer.simps reply_ok.simps reply_message.case, rule got, assumption)+
qed

section \<open>The whole call\<close>

text \<open>C15: A call over the wire is a call of the handler: the bytes that the client writes for a request make the server
  run its handler, and where that succeeds, a message that says what it has answered is written to bytes that the
  client reads, under the type that it expects for this method, as the very same message.\<close>

theorem remote_call_is_local:
  assumes "protobuf rt" "request_ok rt r" "serve env (rpc_of r) s = (Ok (Success x), s')"
    and "response_of a = Some x" "reply_ok rt a"
  shows "\<exists>name b c. client_call rt r = (name, Ok b) \<and> server_answer rt a = Ok c \<and>
    (length b < 2 ^ 32 \<longrightarrow> server_call gc rt env name b s = (Ok (Success x), s')) \<and>
    (length c < 2 ^ 32 \<longrightarrow> client_receive rt r c = Ok a)"
proof -
  from serve_fits [of "rpc_of r" env] assms(3) have "fits (rpc_of r) x" by (auto simp: replies_def)
  from reply_received [OF assms(1,5,4) this] request_sent [OF assms(1,2), of gc env s] assms(3) show ?thesis by fastforce
qed

lemma version_bytes:
  "client_call wire (RqHealthVersion \<lparr>CheckRequest_service = [], CheckRequest_unknown_fields = []\<rparr>) = (METHOD_HEALTH_VERSION, Ok [])"
  "server_answer wire (ReVersionCheck \<lparr>VersionCheckResponse_grpc_version = ''0.0.1'',
      VersionCheckResponse_agent_version = ''1.4.5'', VersionCheckResponse_unknown_fields = []\<rparr>)
    = Ok [10, 5, 48, 46, 48, 46, 49, 18, 5, 49, 46, 52, 46, 53]"
  by (simp_all add: CheckRequest_write_to_def VersionCheckResponse_write_to_def wire_def wire_put_def tag_bytes_def
      varint.simps wire_number_def delimited_def bytes_of_def whenW_def eachW_def)

theorem remote_call_is_local_witness:
  "(\<forall>gc env s. server_call gc wire env METHOD_HEALTH_VERSION [] s = (Ok (Success (Version ''1.4.5'' ''0.0.1'')), s))
  \<and> client_receive wire (RqHealthVersion \<lparr>CheckRequest_service = [], CheckRequest_unknown_fields = []\<rparr>)
      [10, 5, 48, 46, 48, 46, 49, 18, 5, 49, 46, 52, 46, 53]
    = Ok (ReVersionCheck \<lparr>VersionCheckResponse_grpc_version = ''0.0.1'', VersionCheckResponse_agent_version = ''1.4.5'',
        VersionCheckResponse_unknown_fields = []\<rparr>)"
proof -
  let ?r = "RqHealthVersion \<lparr>CheckRequest_service = [], CheckRequest_unknown_fields = []\<rparr>"
  let ?a = "ReVersionCheck \<lparr>VersionCheckResponse_grpc_version = ''0.0.1'', VersionCheckResponse_agent_version = ''1.4.5'',
    VersionCheckResponse_unknown_fields = []\<rparr>"
  have serve: "serve env (rpc_of ?r) s = (Ok (Success (Version ''1.4.5'' ''0.0.1'')), s)" for env s
    by (simp add: to_HealthVersion_def AGENT_VERSION_def API_VERSION_def)
  have ok: "request_ok wire ?r" "reply_ok wire ?a"
    by (simp_all add: CheckRequest_ok_def VersionCheckResponse_ok_def utf8_def bytes_of_def wire_def)
  have says: "response_of ?a = Some (Version ''1.4.5'' ''0.0.1'')" by simp
  show ?thesis
    using remote_call_is_local [OF wire.protobuf_axioms ok(1) serve says ok(2)]
    by (simp add: version_bytes del: client_call.simps server_answer.simps)
qed

end
