(* ===== verification/Pb_Field.thy ===== *)
theory Pb_Field
  imports Pb_Runtime
begin

text \<open>
  The methods that the generated code has for a field of a message: a number, a truth value or an enumeration can be
  read, cleared and set (\<open>scalar_field\<close>), a field with memory of its own can also be borrowed and taken
  (\<open>owned_field\<close>), and one that holds a message can be asked for as well; while it is absent it reads as
  a new message (\<open>message_field\<close>). What they are good for is the contract \<open>field\<close>.
\<close>

record ('m, 'a) scalar_methods =
  m_get :: "'m \<Rightarrow> 'a"
  m_clear :: "'m \<Rightarrow> 'm"
  m_set :: "'a \<Rightarrow> 'm \<Rightarrow> 'm"

text \<open>Work on the borrowed value is a function; taking gives the value and what is left.\<close>

record ('m, 'a) owned_methods = "('m, 'a) scalar_methods" +
  m_mut :: "('a \<Rightarrow> 'a) \<Rightarrow> 'm \<Rightarrow> 'm"
  m_take :: "'m \<Rightarrow> 'a \<times> 'm"

record ('m, 'a) message_methods = "('m, 'a) owned_methods" +
  m_has :: "'m \<Rightarrow> bool"

definition scalar_field :: "('m \<Rightarrow> 'a) \<Rightarrow> (('a \<Rightarrow> 'a) \<Rightarrow> 'm \<Rightarrow> 'm) \<Rightarrow> 'a \<Rightarrow> ('m, 'a) scalar_methods" where
  "scalar_field sel upd d = \<lparr>m_get = sel, m_clear = upd (\<lambda>_. d), m_set = (\<lambda>v. upd (\<lambda>_. v))\<rparr>"

definition owned_field :: "('m \<Rightarrow> 'a) \<Rightarrow> (('a \<Rightarrow> 'a) \<Rightarrow> 'm \<Rightarrow> 'm) \<Rightarrow> 'a \<Rightarrow> ('m, 'a) owned_methods" where
  "owned_field sel upd d = \<lparr>m_get = sel, m_clear = upd (\<lambda>_. d), m_set = (\<lambda>v. upd (\<lambda>_. v)),
     m_mut = upd, m_take = (\<lambda>m. (sel m, upd (\<lambda>_. d) m))\<rparr>"

definition message_field :: "('m \<Rightarrow> 'a option) \<Rightarrow> (('a option \<Rightarrow> 'a option) \<Rightarrow> 'm \<Rightarrow> 'm) \<Rightarrow> 'a
    \<Rightarrow> ('m, 'a) message_methods" where
  "message_field sel upd new = \<lparr>m_get = (\<lambda>m. case sel m of None \<Rightarrow> new | Some v \<Rightarrow> v), m_clear = upd (\<lambda>_. None),
     m_set = (\<lambda>v. upd (\<lambda>_. Some v)),
     m_mut = (\<lambda>f. upd (\<lambda>x. Some (f (case x of None \<Rightarrow> new | Some v \<Rightarrow> v)))),
     m_take = (\<lambda>m. (case sel m of None \<Rightarrow> new | Some v \<Rightarrow> v, upd (\<lambda>_. None) m)),
     m_has = (\<lambda>m. sel m \<noteq> None)\<rparr>"

section \<open>The contract of a field\<close>

locale plain_field =
  fixes get :: "'m \<Rightarrow> 'a" and clear :: "'m \<Rightarrow> 'm" and put :: "'a \<Rightarrow> 'm \<Rightarrow> 'm" and d :: 'a
  assumes get_put: "get (put v m) = v"
    and put_put: "put v (put w m) = put v m"
    and get_clear: "get (clear m) = d"
    and put_clear: "put v (clear m) = put v m"
    and clear_put: "clear (put v m) = clear m"

locale field = plain_field +
  fixes change :: "('a \<Rightarrow> 'a) \<Rightarrow> 'm \<Rightarrow> 'm" and taking :: "'m \<Rightarrow> 'a \<times> 'm"
  assumes change: "change f m = put (f (get m)) m"
    and taking: "taking m = (get m, clear m)"
begin

text \<open>What was set is taken once, and the borrower sees what the last one has left.\<close>

lemma taken_once: "taking (put v m) = (v, clear m)" "fst (taking (snd (taking m))) = d"
  by (simp_all add: taking get_put clear_put get_clear)

lemma change_change: "change f (change g m) = change (\<lambda>x. f (g x)) m"
  by (simp add: change get_put put_put)

lemma change_put: "change f (put v m) = put (f v) m" "put v (change f m) = put v m"
  by (simp_all add: change get_put put_put)

end

section \<open>The fields of a record\<close>

definition lens :: "('m \<Rightarrow> 'a) \<Rightarrow> (('a \<Rightarrow> 'a) \<Rightarrow> 'm \<Rightarrow> 'm) \<Rightarrow> bool" where
  "lens sel upd \<longleftrightarrow> (\<forall>f m. sel (upd f m) = f (sel m)) \<and> (\<forall>f g m. upd f (upd g m) = upd (\<lambda>x. f (g x)) m)
     \<and> (\<forall>f m. upd f m = upd (\<lambda>_. f (sel m)) m)"

lemma lensI:
  assumes "\<And>f m. sel (upd f m) = f (sel m)" "\<And>f g m. upd f (upd g m) = upd (\<lambda>x. f (g x)) m"
    and "\<And>f m. upd f m = upd (\<lambda>_. f (sel m)) m"
  shows "lens sel upd"
  using assms unfolding lens_def by blast

lemma scalar_fieldI:
  assumes "acc = scalar_field sel upd d" "lens sel upd"
  shows "plain_field (m_get acc) (m_clear acc) (m_set acc) d"
  using assms(2) unfolding assms(1) lens_def by unfold_locales (simp_all add: scalar_field_def)

lemma owned_fieldI:
  assumes "acc = owned_field sel upd d" "lens sel upd"
  shows "field (m_get acc) (m_clear acc) (m_set acc) d (m_mut acc) (m_take acc)"
  using assms(2) unfolding assms(1) lens_def by unfold_locales (simp_all add: owned_field_def)

lemma message_fieldI:
  assumes "acc = message_field sel upd new" "lens sel upd"
  shows "field (m_get acc) (m_clear acc) (m_set acc) new (m_mut acc) (m_take acc)"
proof -
  from assms(2) have lens: "sel (upd f m) = f (sel m)" "upd f (upd g m) = upd (\<lambda>x. f (g x)) m" for f g m
    by (simp_all add: lens_def)
  from assms(2) have at: "upd f m = upd (\<lambda>_. f (sel m)) m" for f m
    unfolding lens_def by blast
  show ?thesis unfolding assms(1)
    by unfold_locales (simp_all add: message_field_def lens,
      rule at [where f = "\<lambda>x. Some (f (case x of None \<Rightarrow> new | Some v \<Rightarrow> v))" for f])
qed

end
