(* ===== verification/Pb_Types_Fields.thy ===== *)
theory Pb_Types_Fields
  imports Pb_Field Pb_Types
begin

text \<open>The methods for the fields of the messages of \<open>types.rs\<close>, \<open>health.rs\<close>, each an instance of the contract of a field.\<close>

section \<open>\<open>IPAddress\<close>\<close>

definition IPAddress_family_methods :: "('u pb_IPAddress, IPFamily) scalar_methods" where
  "IPAddress_family_methods = scalar_field IPAddress_family IPAddress_family_update v4"

definition IPAddress_address_methods :: "('u pb_IPAddress, string) owned_methods" where
  "IPAddress_address_methods = owned_field IPAddress_address IPAddress_address_update []"

definition IPAddress_mask_methods :: "('u pb_IPAddress, string) owned_methods" where
  "IPAddress_mask_methods = owned_field IPAddress_mask IPAddress_mask_update []"

interpretation IPAddress_family_field: plain_field "m_get IPAddress_family_methods" "m_clear IPAddress_family_methods" "m_set IPAddress_family_methods" "v4"
  by (rule scalar_fieldI [OF IPAddress_family_methods_def lensI]) simp_all
interpretation IPAddress_address_field: field "m_get IPAddress_address_methods" "m_clear IPAddress_address_methods" "m_set IPAddress_address_methods" "[]" "m_mut IPAddress_address_methods" "m_take IPAddress_address_methods"
  by (rule owned_fieldI [OF IPAddress_address_methods_def lensI]) simp_all
interpretation IPAddress_mask_field: field "m_get IPAddress_mask_methods" "m_clear IPAddress_mask_methods" "m_set IPAddress_mask_methods" "[]" "m_mut IPAddress_mask_methods" "m_take IPAddress_mask_methods"
  by (rule owned_fieldI [OF IPAddress_mask_methods_def lensI]) simp_all

section \<open>\<open>Interface\<close>\<close>

definition Interface_device_methods :: "('u pb_Interface, string) owned_methods" where
  "Interface_device_methods = owned_field Interface_device Interface_device_update []"

definition Interface_name_methods :: "('u pb_Interface, string) owned_methods" where
  "Interface_name_methods = owned_field Interface_name Interface_name_update []"

definition Interface_IPAddresses_methods :: "('u pb_Interface, 'u pb_IPAddress list) owned_methods" where
  "Interface_IPAddresses_methods = owned_field Interface_IPAddresses Interface_IPAddresses_update []"

definition Interface_mtu_methods :: "('u pb_Interface, u64) scalar_methods" where
  "Interface_mtu_methods = scalar_field Interface_mtu Interface_mtu_update 0"

definition Interface_hwAddr_methods :: "('u pb_Interface, string) owned_methods" where
  "Interface_hwAddr_methods = owned_field Interface_hwAddr Interface_hwAddr_update []"

definition Interface_pciAddr_methods :: "('u pb_Interface, string) owned_methods" where
  "Interface_pciAddr_methods = owned_field Interface_pciAddr Interface_pciAddr_update []"

definition Interface_field_type_methods :: "('u pb_Interface, string) owned_methods" where
  "Interface_field_type_methods = owned_field Interface_field_type Interface_field_type_update []"

definition Interface_raw_flags_methods :: "('u pb_Interface, u32) scalar_methods" where
  "Interface_raw_flags_methods = scalar_field Interface_raw_flags Interface_raw_flags_update 0"

interpretation Interface_device_field: field "m_get Interface_device_methods" "m_clear Interface_device_methods" "m_set Interface_device_methods" "[]" "m_mut Interface_device_methods" "m_take Interface_device_methods"
  by (rule owned_fieldI [OF Interface_device_methods_def lensI]) simp_all
interpretation Interface_name_field: field "m_get Interface_name_methods" "m_clear Interface_name_methods" "m_set Interface_name_methods" "[]" "m_mut Interface_name_methods" "m_take Interface_name_methods"
  by (rule owned_fieldI [OF Interface_name_methods_def lensI]) simp_all
interpretation Interface_IPAddresses_field: field "m_get Interface_IPAddresses_methods" "m_clear Interface_IPAddresses_methods" "m_set Interface_IPAddresses_methods" "[]" "m_mut Interface_IPAddresses_methods" "m_take Interface_IPAddresses_methods"
  by (rule owned_fieldI [OF Interface_IPAddresses_methods_def lensI]) simp_all
interpretation Interface_mtu_field: plain_field "m_get Interface_mtu_methods" "m_clear Interface_mtu_methods" "m_set Interface_mtu_methods" "0"
  by (rule scalar_fieldI [OF Interface_mtu_methods_def lensI]) simp_all
interpretation Interface_hwAddr_field: field "m_get Interface_hwAddr_methods" "m_clear Interface_hwAddr_methods" "m_set Interface_hwAddr_methods" "[]" "m_mut Interface_hwAddr_methods" "m_take Interface_hwAddr_methods"
  by (rule owned_fieldI [OF Interface_hwAddr_methods_def lensI]) simp_all
interpretation Interface_pciAddr_field: field "m_get Interface_pciAddr_methods" "m_clear Interface_pciAddr_methods" "m_set Interface_pciAddr_methods" "[]" "m_mut Interface_pciAddr_methods" "m_take Interface_pciAddr_methods"
  by (rule owned_fieldI [OF Interface_pciAddr_methods_def lensI]) simp_all
interpretation Interface_field_type_field: field "m_get Interface_field_type_methods" "m_clear Interface_field_type_methods" "m_set Interface_field_type_methods" "[]" "m_mut Interface_field_type_methods" "m_take Interface_field_type_methods"
  by (rule owned_fieldI [OF Interface_field_type_methods_def lensI]) simp_all
interpretation Interface_raw_flags_field: plain_field "m_get Interface_raw_flags_methods" "m_clear Interface_raw_flags_methods" "m_set Interface_raw_flags_methods" "0"
  by (rule scalar_fieldI [OF Interface_raw_flags_methods_def lensI]) simp_all

section \<open>\<open>Route\<close>\<close>

definition Route_dest_methods :: "('u pb_Route, string) owned_methods" where
  "Route_dest_methods = owned_field Route_dest Route_dest_update []"

definition Route_gateway_methods :: "('u pb_Route, string) owned_methods" where
  "Route_gateway_methods = owned_field Route_gateway Route_gateway_update []"

definition Route_device_methods :: "('u pb_Route, string) owned_methods" where
  "Route_device_methods = owned_field Route_device Route_device_update []"

definition Route_source_methods :: "('u pb_Route, string) owned_methods" where
  "Route_source_methods = owned_field Route_source Route_source_update []"

definition Route_scope_methods :: "('u pb_Route, u32) scalar_methods" where
  "Route_scope_methods = scalar_field Route_scope Route_scope_update 0"

interpretation Route_dest_field: field "m_get Route_dest_methods" "m_clear Route_dest_methods" "m_set Route_dest_methods" "[]" "m_mut Route_dest_methods" "m_take Route_dest_methods"
  by (rule owned_fieldI [OF Route_dest_methods_def lensI]) simp_all
interpretation Route_gateway_field: field "m_get Route_gateway_methods" "m_clear Route_gateway_methods" "m_set Route_gateway_methods" "[]" "m_mut Route_gateway_methods" "m_take Route_gateway_methods"
  by (rule owned_fieldI [OF Route_gateway_methods_def lensI]) simp_all
interpretation Route_device_field: field "m_get Route_device_methods" "m_clear Route_device_methods" "m_set Route_device_methods" "[]" "m_mut Route_device_methods" "m_take Route_device_methods"
  by (rule owned_fieldI [OF Route_device_methods_def lensI]) simp_all
interpretation Route_source_field: field "m_get Route_source_methods" "m_clear Route_source_methods" "m_set Route_source_methods" "[]" "m_mut Route_source_methods" "m_take Route_source_methods"
  by (rule owned_fieldI [OF Route_source_methods_def lensI]) simp_all
interpretation Route_scope_field: plain_field "m_get Route_scope_methods" "m_clear Route_scope_methods" "m_set Route_scope_methods" "0"
  by (rule scalar_fieldI [OF Route_scope_methods_def lensI]) simp_all

section \<open>\<open>CheckRequest\<close>\<close>

definition CheckRequest_service_methods :: "('u pb_CheckRequest, string) owned_methods" where
  "CheckRequest_service_methods = owned_field CheckRequest_service CheckRequest_service_update []"

interpretation CheckRequest_service_field: field "m_get CheckRequest_service_methods" "m_clear CheckRequest_service_methods" "m_set CheckRequest_service_methods" "[]" "m_mut CheckRequest_service_methods" "m_take CheckRequest_service_methods"
  by (rule owned_fieldI [OF CheckRequest_service_methods_def lensI]) simp_all

section \<open>\<open>HealthCheckResponse\<close>\<close>

definition HealthCheckResponse_status_methods :: "('u pb_HealthCheckResponse, HealthCheckResponse_ServingStatus) scalar_methods" where
  "HealthCheckResponse_status_methods = scalar_field HealthCheckResponse_status HealthCheckResponse_status_update UNKNOWN"

interpretation HealthCheckResponse_status_field: plain_field "m_get HealthCheckResponse_status_methods" "m_clear HealthCheckResponse_status_methods" "m_set HealthCheckResponse_status_methods" "UNKNOWN"
  by (rule scalar_fieldI [OF HealthCheckResponse_status_methods_def lensI]) simp_all

section \<open>\<open>VersionCheckResponse\<close>\<close>

definition VersionCheckResponse_grpc_version_methods :: "('u pb_VersionCheckResponse, string) owned_methods" where
  "VersionCheckResponse_grpc_version_methods = owned_field VersionCheckResponse_grpc_version VersionCheckResponse_grpc_version_update []"

definition VersionCheckResponse_agent_version_methods :: "('u pb_VersionCheckResponse, string) owned_methods" where
  "VersionCheckResponse_agent_version_methods = owned_field VersionCheckResponse_agent_version VersionCheckResponse_agent_version_update []"

interpretation VersionCheckResponse_grpc_version_field: field "m_get VersionCheckResponse_grpc_version_methods" "m_clear VersionCheckResponse_grpc_version_methods" "m_set VersionCheckResponse_grpc_version_methods" "[]" "m_mut VersionCheckResponse_grpc_version_methods" "m_take VersionCheckResponse_grpc_version_methods"
  by (rule owned_fieldI [OF VersionCheckResponse_grpc_version_methods_def lensI]) simp_all
interpretation VersionCheckResponse_agent_version_field: field "m_get VersionCheckResponse_agent_version_methods" "m_clear VersionCheckResponse_agent_version_methods" "m_set VersionCheckResponse_agent_version_methods" "[]" "m_mut VersionCheckResponse_agent_version_methods" "m_take VersionCheckResponse_agent_version_methods"
  by (rule owned_fieldI [OF VersionCheckResponse_agent_version_methods_def lensI]) simp_all

end
