(* ===== verification/Pb_Oci_Fields.thy ===== *)
theory Pb_Oci_Fields
  imports Pb_Field Pb_Oci
begin

text \<open>The methods for the fields of the messages of \<open>oci.rs\<close>, each an instance of the contract of a field.\<close>

section \<open>\<open>Spec\<close>\<close>

definition Spec_Version_methods :: "('u pb_Spec, string) owned_methods" where
  "Spec_Version_methods = owned_field Spec_Version Spec_Version_update []"

definition Spec_Process_methods :: "'u runtime \<Rightarrow> ('u pb_Spec, 'u pb_Process) message_methods" where
  "Spec_Process_methods rt = message_field Spec_Process Spec_Process_update (Process_new rt)"

definition Spec_Root_methods :: "'u runtime \<Rightarrow> ('u pb_Spec, 'u pb_Root) message_methods" where
  "Spec_Root_methods rt = message_field Spec_Root Spec_Root_update (Root_new rt)"

definition Spec_Hostname_methods :: "('u pb_Spec, string) owned_methods" where
  "Spec_Hostname_methods = owned_field Spec_Hostname Spec_Hostname_update []"

definition Spec_Mounts_methods :: "('u pb_Spec, 'u pb_Mount list) owned_methods" where
  "Spec_Mounts_methods = owned_field Spec_Mounts Spec_Mounts_update []"

definition Spec_Hooks_methods :: "'u runtime \<Rightarrow> ('u pb_Spec, 'u pb_Hooks) message_methods" where
  "Spec_Hooks_methods rt = message_field Spec_Hooks Spec_Hooks_update (Hooks_new rt)"

definition Spec_Annotations_methods :: "('u pb_Spec, (string \<times> string) list) owned_methods" where
  "Spec_Annotations_methods = owned_field Spec_Annotations Spec_Annotations_update []"

definition Spec_Linux_methods :: "'u runtime \<Rightarrow> ('u pb_Spec, 'u pb_Linux) message_methods" where
  "Spec_Linux_methods rt = message_field Spec_Linux Spec_Linux_update (Linux_new rt)"

definition Spec_Solaris_methods :: "'u runtime \<Rightarrow> ('u pb_Spec, 'u pb_Solaris) message_methods" where
  "Spec_Solaris_methods rt = message_field Spec_Solaris Spec_Solaris_update (Solaris_new rt)"

definition Spec_Windows_methods :: "'u runtime \<Rightarrow> ('u pb_Spec, 'u pb_Windows) message_methods" where
  "Spec_Windows_methods rt = message_field Spec_Windows Spec_Windows_update (Windows_new rt)"

interpretation Spec_Version_field: field "m_get Spec_Version_methods" "m_clear Spec_Version_methods" "m_set Spec_Version_methods" "[]" "m_mut Spec_Version_methods" "m_take Spec_Version_methods"
  by (rule owned_fieldI [OF Spec_Version_methods_def lensI]) simp_all
interpretation Spec_Process_field: field "m_get (Spec_Process_methods rt)" "m_clear (Spec_Process_methods rt)" "m_set (Spec_Process_methods rt)" "(Process_new rt)" "m_mut (Spec_Process_methods rt)" "m_take (Spec_Process_methods rt)" for rt
  by (rule message_fieldI [OF Spec_Process_methods_def lensI]) simp_all
interpretation Spec_Root_field: field "m_get (Spec_Root_methods rt)" "m_clear (Spec_Root_methods rt)" "m_set (Spec_Root_methods rt)" "(Root_new rt)" "m_mut (Spec_Root_methods rt)" "m_take (Spec_Root_methods rt)" for rt
  by (rule message_fieldI [OF Spec_Root_methods_def lensI]) simp_all
interpretation Spec_Hostname_field: field "m_get Spec_Hostname_methods" "m_clear Spec_Hostname_methods" "m_set Spec_Hostname_methods" "[]" "m_mut Spec_Hostname_methods" "m_take Spec_Hostname_methods"
  by (rule owned_fieldI [OF Spec_Hostname_methods_def lensI]) simp_all
interpretation Spec_Mounts_field: field "m_get Spec_Mounts_methods" "m_clear Spec_Mounts_methods" "m_set Spec_Mounts_methods" "[]" "m_mut Spec_Mounts_methods" "m_take Spec_Mounts_methods"
  by (rule owned_fieldI [OF Spec_Mounts_methods_def lensI]) simp_all
interpretation Spec_Hooks_field: field "m_get (Spec_Hooks_methods rt)" "m_clear (Spec_Hooks_methods rt)" "m_set (Spec_Hooks_methods rt)" "(Hooks_new rt)" "m_mut (Spec_Hooks_methods rt)" "m_take (Spec_Hooks_methods rt)" for rt
  by (rule message_fieldI [OF Spec_Hooks_methods_def lensI]) simp_all
interpretation Spec_Annotations_field: field "m_get Spec_Annotations_methods" "m_clear Spec_Annotations_methods" "m_set Spec_Annotations_methods" "[]" "m_mut Spec_Annotations_methods" "m_take Spec_Annotations_methods"
  by (rule owned_fieldI [OF Spec_Annotations_methods_def lensI]) simp_all
interpretation Spec_Linux_field: field "m_get (Spec_Linux_methods rt)" "m_clear (Spec_Linux_methods rt)" "m_set (Spec_Linux_methods rt)" "(Linux_new rt)" "m_mut (Spec_Linux_methods rt)" "m_take (Spec_Linux_methods rt)" for rt
  by (rule message_fieldI [OF Spec_Linux_methods_def lensI]) simp_all
interpretation Spec_Solaris_field: field "m_get (Spec_Solaris_methods rt)" "m_clear (Spec_Solaris_methods rt)" "m_set (Spec_Solaris_methods rt)" "(Solaris_new rt)" "m_mut (Spec_Solaris_methods rt)" "m_take (Spec_Solaris_methods rt)" for rt
  by (rule message_fieldI [OF Spec_Solaris_methods_def lensI]) simp_all
interpretation Spec_Windows_field: field "m_get (Spec_Windows_methods rt)" "m_clear (Spec_Windows_methods rt)" "m_set (Spec_Windows_methods rt)" "(Windows_new rt)" "m_mut (Spec_Windows_methods rt)" "m_take (Spec_Windows_methods rt)" for rt
  by (rule message_fieldI [OF Spec_Windows_methods_def lensI]) simp_all

section \<open>\<open>Process\<close>\<close>

definition Process_Terminal_methods :: "('u pb_Process, bool) scalar_methods" where
  "Process_Terminal_methods = scalar_field Process_Terminal Process_Terminal_update False"

definition Process_ConsoleSize_methods :: "'u runtime \<Rightarrow> ('u pb_Process, 'u pb_Box) message_methods" where
  "Process_ConsoleSize_methods rt = message_field Process_ConsoleSize Process_ConsoleSize_update (Box_new rt)"

definition Process_User_methods :: "'u runtime \<Rightarrow> ('u pb_Process, 'u pb_User) message_methods" where
  "Process_User_methods rt = message_field Process_User Process_User_update (User_new rt)"

definition Process_Args_methods :: "('u pb_Process, string list) owned_methods" where
  "Process_Args_methods = owned_field Process_Args Process_Args_update []"

definition Process_Env_methods :: "('u pb_Process, string list) owned_methods" where
  "Process_Env_methods = owned_field Process_Env Process_Env_update []"

definition Process_Cwd_methods :: "('u pb_Process, string) owned_methods" where
  "Process_Cwd_methods = owned_field Process_Cwd Process_Cwd_update []"

definition Process_Capabilities_methods :: "'u runtime \<Rightarrow> ('u pb_Process, 'u pb_LinuxCapabilities) message_methods" where
  "Process_Capabilities_methods rt = message_field Process_Capabilities Process_Capabilities_update (LinuxCapabilities_new rt)"

definition Process_Rlimits_methods :: "('u pb_Process, 'u pb_POSIXRlimit list) owned_methods" where
  "Process_Rlimits_methods = owned_field Process_Rlimits Process_Rlimits_update []"

definition Process_NoNewPrivileges_methods :: "('u pb_Process, bool) scalar_methods" where
  "Process_NoNewPrivileges_methods = scalar_field Process_NoNewPrivileges Process_NoNewPrivileges_update False"

definition Process_ApparmorProfile_methods :: "('u pb_Process, string) owned_methods" where
  "Process_ApparmorProfile_methods = owned_field Process_ApparmorProfile Process_ApparmorProfile_update []"

definition Process_OOMScoreAdj_methods :: "('u pb_Process, u64) scalar_methods" where
  "Process_OOMScoreAdj_methods = scalar_field Process_OOMScoreAdj Process_OOMScoreAdj_update 0"

definition Process_SelinuxLabel_methods :: "('u pb_Process, string) owned_methods" where
  "Process_SelinuxLabel_methods = owned_field Process_SelinuxLabel Process_SelinuxLabel_update []"

interpretation Process_Terminal_field: plain_field "m_get Process_Terminal_methods" "m_clear Process_Terminal_methods" "m_set Process_Terminal_methods" "False"
  by (rule scalar_fieldI [OF Process_Terminal_methods_def lensI]) simp_all
interpretation Process_ConsoleSize_field: field "m_get (Process_ConsoleSize_methods rt)" "m_clear (Process_ConsoleSize_methods rt)" "m_set (Process_ConsoleSize_methods rt)" "(Box_new rt)" "m_mut (Process_ConsoleSize_methods rt)" "m_take (Process_ConsoleSize_methods rt)" for rt
  by (rule message_fieldI [OF Process_ConsoleSize_methods_def lensI]) simp_all
interpretation Process_User_field: field "m_get (Process_User_methods rt)" "m_clear (Process_User_methods rt)" "m_set (Process_User_methods rt)" "(User_new rt)" "m_mut (Process_User_methods rt)" "m_take (Process_User_methods rt)" for rt
  by (rule message_fieldI [OF Process_User_methods_def lensI]) simp_all
interpretation Process_Args_field: field "m_get Process_Args_methods" "m_clear Process_Args_methods" "m_set Process_Args_methods" "[]" "m_mut Process_Args_methods" "m_take Process_Args_methods"
  by (rule owned_fieldI [OF Process_Args_methods_def lensI]) simp_all
interpretation Process_Env_field: field "m_get Process_Env_methods" "m_clear Process_Env_methods" "m_set Process_Env_methods" "[]" "m_mut Process_Env_methods" "m_take Process_Env_methods"
  by (rule owned_fieldI [OF Process_Env_methods_def lensI]) simp_all
interpretation Process_Cwd_field: field "m_get Process_Cwd_methods" "m_clear Process_Cwd_methods" "m_set Process_Cwd_methods" "[]" "m_mut Process_Cwd_methods" "m_take Process_Cwd_methods"
  by (rule owned_fieldI [OF Process_Cwd_methods_def lensI]) simp_all
interpretation Process_Capabilities_field: field "m_get (Process_Capabilities_methods rt)" "m_clear (Process_Capabilities_methods rt)" "m_set (Process_Capabilities_methods rt)" "(LinuxCapabilities_new rt)" "m_mut (Process_Capabilities_methods rt)" "m_take (Process_Capabilities_methods rt)" for rt
  by (rule message_fieldI [OF Process_Capabilities_methods_def lensI]) simp_all
interpretation Process_Rlimits_field: field "m_get Process_Rlimits_methods" "m_clear Process_Rlimits_methods" "m_set Process_Rlimits_methods" "[]" "m_mut Process_Rlimits_methods" "m_take Process_Rlimits_methods"
  by (rule owned_fieldI [OF Process_Rlimits_methods_def lensI]) simp_all
interpretation Process_NoNewPrivileges_field: plain_field "m_get Process_NoNewPrivileges_methods" "m_clear Process_NoNewPrivileges_methods" "m_set Process_NoNewPrivileges_methods" "False"
  by (rule scalar_fieldI [OF Process_NoNewPrivileges_methods_def lensI]) simp_all
interpretation Process_ApparmorProfile_field: field "m_get Process_ApparmorProfile_methods" "m_clear Process_ApparmorProfile_methods" "m_set Process_ApparmorProfile_methods" "[]" "m_mut Process_ApparmorProfile_methods" "m_take Process_ApparmorProfile_methods"
  by (rule owned_fieldI [OF Process_ApparmorProfile_methods_def lensI]) simp_all
interpretation Process_OOMScoreAdj_field: plain_field "m_get Process_OOMScoreAdj_methods" "m_clear Process_OOMScoreAdj_methods" "m_set Process_OOMScoreAdj_methods" "0"
  by (rule scalar_fieldI [OF Process_OOMScoreAdj_methods_def lensI]) simp_all
interpretation Process_SelinuxLabel_field: field "m_get Process_SelinuxLabel_methods" "m_clear Process_SelinuxLabel_methods" "m_set Process_SelinuxLabel_methods" "[]" "m_mut Process_SelinuxLabel_methods" "m_take Process_SelinuxLabel_methods"
  by (rule owned_fieldI [OF Process_SelinuxLabel_methods_def lensI]) simp_all

section \<open>\<open>Box\<close>\<close>

definition Box_Height_methods :: "('u pb_Box, u32) scalar_methods" where
  "Box_Height_methods = scalar_field Box_Height Box_Height_update 0"

definition Box_Width_methods :: "('u pb_Box, u32) scalar_methods" where
  "Box_Width_methods = scalar_field Box_Width Box_Width_update 0"

interpretation Box_Height_field: plain_field "m_get Box_Height_methods" "m_clear Box_Height_methods" "m_set Box_Height_methods" "0"
  by (rule scalar_fieldI [OF Box_Height_methods_def lensI]) simp_all
interpretation Box_Width_field: plain_field "m_get Box_Width_methods" "m_clear Box_Width_methods" "m_set Box_Width_methods" "0"
  by (rule scalar_fieldI [OF Box_Width_methods_def lensI]) simp_all

section \<open>\<open>User\<close>\<close>

definition User_UID_methods :: "('u pb_User, u32) scalar_methods" where
  "User_UID_methods = scalar_field User_UID User_UID_update 0"

definition User_GID_methods :: "('u pb_User, u32) scalar_methods" where
  "User_GID_methods = scalar_field User_GID User_GID_update 0"

definition User_AdditionalGids_methods :: "('u pb_User, u32 list) owned_methods" where
  "User_AdditionalGids_methods = owned_field User_AdditionalGids User_AdditionalGids_update []"

definition User_Username_methods :: "('u pb_User, string) owned_methods" where
  "User_Username_methods = owned_field User_Username User_Username_update []"

interpretation User_UID_field: plain_field "m_get User_UID_methods" "m_clear User_UID_methods" "m_set User_UID_methods" "0"
  by (rule scalar_fieldI [OF User_UID_methods_def lensI]) simp_all
interpretation User_GID_field: plain_field "m_get User_GID_methods" "m_clear User_GID_methods" "m_set User_GID_methods" "0"
  by (rule scalar_fieldI [OF User_GID_methods_def lensI]) simp_all
interpretation User_AdditionalGids_field: field "m_get User_AdditionalGids_methods" "m_clear User_AdditionalGids_methods" "m_set User_AdditionalGids_methods" "[]" "m_mut User_AdditionalGids_methods" "m_take User_AdditionalGids_methods"
  by (rule owned_fieldI [OF User_AdditionalGids_methods_def lensI]) simp_all
interpretation User_Username_field: field "m_get User_Username_methods" "m_clear User_Username_methods" "m_set User_Username_methods" "[]" "m_mut User_Username_methods" "m_take User_Username_methods"
  by (rule owned_fieldI [OF User_Username_methods_def lensI]) simp_all

section \<open>\<open>LinuxCapabilities\<close>\<close>

definition LinuxCapabilities_Bounding_methods :: "('u pb_LinuxCapabilities, string list) owned_methods" where
  "LinuxCapabilities_Bounding_methods = owned_field LinuxCapabilities_Bounding LinuxCapabilities_Bounding_update []"

definition LinuxCapabilities_Effective_methods :: "('u pb_LinuxCapabilities, string list) owned_methods" where
  "LinuxCapabilities_Effective_methods = owned_field LinuxCapabilities_Effective LinuxCapabilities_Effective_update []"

definition LinuxCapabilities_Inheritable_methods :: "('u pb_LinuxCapabilities, string list) owned_methods" where
  "LinuxCapabilities_Inheritable_methods = owned_field LinuxCapabilities_Inheritable LinuxCapabilities_Inheritable_update []"

definition LinuxCapabilities_Permitted_methods :: "('u pb_LinuxCapabilities, string list) owned_methods" where
  "LinuxCapabilities_Permitted_methods = owned_field LinuxCapabilities_Permitted LinuxCapabilities_Permitted_update []"

definition LinuxCapabilities_Ambient_methods :: "('u pb_LinuxCapabilities, string list) owned_methods" where
  "LinuxCapabilities_Ambient_methods = owned_field LinuxCapabilities_Ambient LinuxCapabilities_Ambient_update []"

interpretation LinuxCapabilities_Bounding_field: field "m_get LinuxCapabilities_Bounding_methods" "m_clear LinuxCapabilities_Bounding_methods" "m_set LinuxCapabilities_Bounding_methods" "[]" "m_mut LinuxCapabilities_Bounding_methods" "m_take LinuxCapabilities_Bounding_methods"
  by (rule owned_fieldI [OF LinuxCapabilities_Bounding_methods_def lensI]) simp_all
interpretation LinuxCapabilities_Effective_field: field "m_get LinuxCapabilities_Effective_methods" "m_clear LinuxCapabilities_Effective_methods" "m_set LinuxCapabilities_Effective_methods" "[]" "m_mut LinuxCapabilities_Effective_methods" "m_take LinuxCapabilities_Effective_methods"
  by (rule owned_fieldI [OF LinuxCapabilities_Effective_methods_def lensI]) simp_all
interpretation LinuxCapabilities_Inheritable_field: field "m_get LinuxCapabilities_Inheritable_methods" "m_clear LinuxCapabilities_Inheritable_methods" "m_set LinuxCapabilities_Inheritable_methods" "[]" "m_mut LinuxCapabilities_Inheritable_methods" "m_take LinuxCapabilities_Inheritable_methods"
  by (rule owned_fieldI [OF LinuxCapabilities_Inheritable_methods_def lensI]) simp_all
interpretation LinuxCapabilities_Permitted_field: field "m_get LinuxCapabilities_Permitted_methods" "m_clear LinuxCapabilities_Permitted_methods" "m_set LinuxCapabilities_Permitted_methods" "[]" "m_mut LinuxCapabilities_Permitted_methods" "m_take LinuxCapabilities_Permitted_methods"
  by (rule owned_fieldI [OF LinuxCapabilities_Permitted_methods_def lensI]) simp_all
interpretation LinuxCapabilities_Ambient_field: field "m_get LinuxCapabilities_Ambient_methods" "m_clear LinuxCapabilities_Ambient_methods" "m_set LinuxCapabilities_Ambient_methods" "[]" "m_mut LinuxCapabilities_Ambient_methods" "m_take LinuxCapabilities_Ambient_methods"
  by (rule owned_fieldI [OF LinuxCapabilities_Ambient_methods_def lensI]) simp_all

section \<open>\<open>POSIXRlimit\<close>\<close>

definition POSIXRlimit_Type_methods :: "('u pb_POSIXRlimit, string) owned_methods" where
  "POSIXRlimit_Type_methods = owned_field POSIXRlimit_Type POSIXRlimit_Type_update []"

definition POSIXRlimit_Hard_methods :: "('u pb_POSIXRlimit, u64) scalar_methods" where
  "POSIXRlimit_Hard_methods = scalar_field POSIXRlimit_Hard POSIXRlimit_Hard_update 0"

definition POSIXRlimit_Soft_methods :: "('u pb_POSIXRlimit, u64) scalar_methods" where
  "POSIXRlimit_Soft_methods = scalar_field POSIXRlimit_Soft POSIXRlimit_Soft_update 0"

interpretation POSIXRlimit_Type_field: field "m_get POSIXRlimit_Type_methods" "m_clear POSIXRlimit_Type_methods" "m_set POSIXRlimit_Type_methods" "[]" "m_mut POSIXRlimit_Type_methods" "m_take POSIXRlimit_Type_methods"
  by (rule owned_fieldI [OF POSIXRlimit_Type_methods_def lensI]) simp_all
interpretation POSIXRlimit_Hard_field: plain_field "m_get POSIXRlimit_Hard_methods" "m_clear POSIXRlimit_Hard_methods" "m_set POSIXRlimit_Hard_methods" "0"
  by (rule scalar_fieldI [OF POSIXRlimit_Hard_methods_def lensI]) simp_all
interpretation POSIXRlimit_Soft_field: plain_field "m_get POSIXRlimit_Soft_methods" "m_clear POSIXRlimit_Soft_methods" "m_set POSIXRlimit_Soft_methods" "0"
  by (rule scalar_fieldI [OF POSIXRlimit_Soft_methods_def lensI]) simp_all

section \<open>\<open>Mount\<close>\<close>

definition Mount_destination_methods :: "('u pb_Mount, string) owned_methods" where
  "Mount_destination_methods = owned_field Mount_destination Mount_destination_update []"

definition Mount_source_methods :: "('u pb_Mount, string) owned_methods" where
  "Mount_source_methods = owned_field Mount_source Mount_source_update []"

definition Mount_field_type_methods :: "('u pb_Mount, string) owned_methods" where
  "Mount_field_type_methods = owned_field Mount_field_type Mount_field_type_update []"

definition Mount_options_methods :: "('u pb_Mount, string list) owned_methods" where
  "Mount_options_methods = owned_field Mount_options Mount_options_update []"

interpretation Mount_destination_field: field "m_get Mount_destination_methods" "m_clear Mount_destination_methods" "m_set Mount_destination_methods" "[]" "m_mut Mount_destination_methods" "m_take Mount_destination_methods"
  by (rule owned_fieldI [OF Mount_destination_methods_def lensI]) simp_all
interpretation Mount_source_field: field "m_get Mount_source_methods" "m_clear Mount_source_methods" "m_set Mount_source_methods" "[]" "m_mut Mount_source_methods" "m_take Mount_source_methods"
  by (rule owned_fieldI [OF Mount_source_methods_def lensI]) simp_all
interpretation Mount_field_type_field: field "m_get Mount_field_type_methods" "m_clear Mount_field_type_methods" "m_set Mount_field_type_methods" "[]" "m_mut Mount_field_type_methods" "m_take Mount_field_type_methods"
  by (rule owned_fieldI [OF Mount_field_type_methods_def lensI]) simp_all
interpretation Mount_options_field: field "m_get Mount_options_methods" "m_clear Mount_options_methods" "m_set Mount_options_methods" "[]" "m_mut Mount_options_methods" "m_take Mount_options_methods"
  by (rule owned_fieldI [OF Mount_options_methods_def lensI]) simp_all

section \<open>\<open>Root\<close>\<close>

definition Root_Path_methods :: "('u pb_Root, string) owned_methods" where
  "Root_Path_methods = owned_field Root_Path Root_Path_update []"

definition Root_Readonly_methods :: "('u pb_Root, bool) scalar_methods" where
  "Root_Readonly_methods = scalar_field Root_Readonly Root_Readonly_update False"

interpretation Root_Path_field: field "m_get Root_Path_methods" "m_clear Root_Path_methods" "m_set Root_Path_methods" "[]" "m_mut Root_Path_methods" "m_take Root_Path_methods"
  by (rule owned_fieldI [OF Root_Path_methods_def lensI]) simp_all
interpretation Root_Readonly_field: plain_field "m_get Root_Readonly_methods" "m_clear Root_Readonly_methods" "m_set Root_Readonly_methods" "False"
  by (rule scalar_fieldI [OF Root_Readonly_methods_def lensI]) simp_all

section \<open>\<open>Hooks\<close>\<close>

definition Hooks_Prestart_methods :: "('u pb_Hooks, 'u pb_Hook list) owned_methods" where
  "Hooks_Prestart_methods = owned_field Hooks_Prestart Hooks_Prestart_update []"

definition Hooks_Poststart_methods :: "('u pb_Hooks, 'u pb_Hook list) owned_methods" where
  "Hooks_Poststart_methods = owned_field Hooks_Poststart Hooks_Poststart_update []"

definition Hooks_Poststop_methods :: "('u pb_Hooks, 'u pb_Hook list) owned_methods" where
  "Hooks_Poststop_methods = owned_field Hooks_Poststop Hooks_Poststop_update []"

interpretation Hooks_Prestart_field: field "m_get Hooks_Prestart_methods" "m_clear Hooks_Prestart_methods" "m_set Hooks_Prestart_methods" "[]" "m_mut Hooks_Prestart_methods" "m_take Hooks_Prestart_methods"
  by (rule owned_fieldI [OF Hooks_Prestart_methods_def lensI]) simp_all
interpretation Hooks_Poststart_field: field "m_get Hooks_Poststart_methods" "m_clear Hooks_Poststart_methods" "m_set Hooks_Poststart_methods" "[]" "m_mut Hooks_Poststart_methods" "m_take Hooks_Poststart_methods"
  by (rule owned_fieldI [OF Hooks_Poststart_methods_def lensI]) simp_all
interpretation Hooks_Poststop_field: field "m_get Hooks_Poststop_methods" "m_clear Hooks_Poststop_methods" "m_set Hooks_Poststop_methods" "[]" "m_mut Hooks_Poststop_methods" "m_take Hooks_Poststop_methods"
  by (rule owned_fieldI [OF Hooks_Poststop_methods_def lensI]) simp_all

section \<open>\<open>Hook\<close>\<close>

definition Hook_Path_methods :: "('u pb_Hook, string) owned_methods" where
  "Hook_Path_methods = owned_field Hook_Path Hook_Path_update []"

definition Hook_Args_methods :: "('u pb_Hook, string list) owned_methods" where
  "Hook_Args_methods = owned_field Hook_Args Hook_Args_update []"

definition Hook_Env_methods :: "('u pb_Hook, string list) owned_methods" where
  "Hook_Env_methods = owned_field Hook_Env Hook_Env_update []"

definition Hook_Timeout_methods :: "('u pb_Hook, u64) scalar_methods" where
  "Hook_Timeout_methods = scalar_field Hook_Timeout Hook_Timeout_update 0"

interpretation Hook_Path_field: field "m_get Hook_Path_methods" "m_clear Hook_Path_methods" "m_set Hook_Path_methods" "[]" "m_mut Hook_Path_methods" "m_take Hook_Path_methods"
  by (rule owned_fieldI [OF Hook_Path_methods_def lensI]) simp_all
interpretation Hook_Args_field: field "m_get Hook_Args_methods" "m_clear Hook_Args_methods" "m_set Hook_Args_methods" "[]" "m_mut Hook_Args_methods" "m_take Hook_Args_methods"
  by (rule owned_fieldI [OF Hook_Args_methods_def lensI]) simp_all
interpretation Hook_Env_field: field "m_get Hook_Env_methods" "m_clear Hook_Env_methods" "m_set Hook_Env_methods" "[]" "m_mut Hook_Env_methods" "m_take Hook_Env_methods"
  by (rule owned_fieldI [OF Hook_Env_methods_def lensI]) simp_all
interpretation Hook_Timeout_field: plain_field "m_get Hook_Timeout_methods" "m_clear Hook_Timeout_methods" "m_set Hook_Timeout_methods" "0"
  by (rule scalar_fieldI [OF Hook_Timeout_methods_def lensI]) simp_all

section \<open>\<open>Linux\<close>\<close>

definition Linux_UIDMappings_methods :: "('u pb_Linux, 'u pb_LinuxIDMapping list) owned_methods" where
  "Linux_UIDMappings_methods = owned_field Linux_UIDMappings Linux_UIDMappings_update []"

definition Linux_GIDMappings_methods :: "('u pb_Linux, 'u pb_LinuxIDMapping list) owned_methods" where
  "Linux_GIDMappings_methods = owned_field Linux_GIDMappings Linux_GIDMappings_update []"

definition Linux_Sysctl_methods :: "('u pb_Linux, (string \<times> string) list) owned_methods" where
  "Linux_Sysctl_methods = owned_field Linux_Sysctl Linux_Sysctl_update []"

definition Linux_Resources_methods :: "'u runtime \<Rightarrow> ('u pb_Linux, 'u pb_LinuxResources) message_methods" where
  "Linux_Resources_methods rt = message_field Linux_Resources Linux_Resources_update (LinuxResources_new rt)"

definition Linux_CgroupsPath_methods :: "('u pb_Linux, string) owned_methods" where
  "Linux_CgroupsPath_methods = owned_field Linux_CgroupsPath Linux_CgroupsPath_update []"

definition Linux_Namespaces_methods :: "('u pb_Linux, 'u pb_LinuxNamespace list) owned_methods" where
  "Linux_Namespaces_methods = owned_field Linux_Namespaces Linux_Namespaces_update []"

definition Linux_Devices_methods :: "('u pb_Linux, 'u pb_LinuxDevice list) owned_methods" where
  "Linux_Devices_methods = owned_field Linux_Devices Linux_Devices_update []"

definition Linux_Seccomp_methods :: "'u runtime \<Rightarrow> ('u pb_Linux, 'u pb_LinuxSeccomp) message_methods" where
  "Linux_Seccomp_methods rt = message_field Linux_Seccomp Linux_Seccomp_update (LinuxSeccomp_new rt)"

definition Linux_RootfsPropagation_methods :: "('u pb_Linux, string) owned_methods" where
  "Linux_RootfsPropagation_methods = owned_field Linux_RootfsPropagation Linux_RootfsPropagation_update []"

definition Linux_MaskedPaths_methods :: "('u pb_Linux, string list) owned_methods" where
  "Linux_MaskedPaths_methods = owned_field Linux_MaskedPaths Linux_MaskedPaths_update []"

definition Linux_ReadonlyPaths_methods :: "('u pb_Linux, string list) owned_methods" where
  "Linux_ReadonlyPaths_methods = owned_field Linux_ReadonlyPaths Linux_ReadonlyPaths_update []"

definition Linux_MountLabel_methods :: "('u pb_Linux, string) owned_methods" where
  "Linux_MountLabel_methods = owned_field Linux_MountLabel Linux_MountLabel_update []"

definition Linux_IntelRdt_methods :: "'u runtime \<Rightarrow> ('u pb_Linux, 'u pb_LinuxIntelRdt) message_methods" where
  "Linux_IntelRdt_methods rt = message_field Linux_IntelRdt Linux_IntelRdt_update (LinuxIntelRdt_new rt)"

interpretation Linux_UIDMappings_field: field "m_get Linux_UIDMappings_methods" "m_clear Linux_UIDMappings_methods" "m_set Linux_UIDMappings_methods" "[]" "m_mut Linux_UIDMappings_methods" "m_take Linux_UIDMappings_methods"
  by (rule owned_fieldI [OF Linux_UIDMappings_methods_def lensI]) simp_all
interpretation Linux_GIDMappings_field: field "m_get Linux_GIDMappings_methods" "m_clear Linux_GIDMappings_methods" "m_set Linux_GIDMappings_methods" "[]" "m_mut Linux_GIDMappings_methods" "m_take Linux_GIDMappings_methods"
  by (rule owned_fieldI [OF Linux_GIDMappings_methods_def lensI]) simp_all
interpretation Linux_Sysctl_field: field "m_get Linux_Sysctl_methods" "m_clear Linux_Sysctl_methods" "m_set Linux_Sysctl_methods" "[]" "m_mut Linux_Sysctl_methods" "m_take Linux_Sysctl_methods"
  by (rule owned_fieldI [OF Linux_Sysctl_methods_def lensI]) simp_all
interpretation Linux_Resources_field: field "m_get (Linux_Resources_methods rt)" "m_clear (Linux_Resources_methods rt)" "m_set (Linux_Resources_methods rt)" "(LinuxResources_new rt)" "m_mut (Linux_Resources_methods rt)" "m_take (Linux_Resources_methods rt)" for rt
  by (rule message_fieldI [OF Linux_Resources_methods_def lensI]) simp_all
interpretation Linux_CgroupsPath_field: field "m_get Linux_CgroupsPath_methods" "m_clear Linux_CgroupsPath_methods" "m_set Linux_CgroupsPath_methods" "[]" "m_mut Linux_CgroupsPath_methods" "m_take Linux_CgroupsPath_methods"
  by (rule owned_fieldI [OF Linux_CgroupsPath_methods_def lensI]) simp_all
interpretation Linux_Namespaces_field: field "m_get Linux_Namespaces_methods" "m_clear Linux_Namespaces_methods" "m_set Linux_Namespaces_methods" "[]" "m_mut Linux_Namespaces_methods" "m_take Linux_Namespaces_methods"
  by (rule owned_fieldI [OF Linux_Namespaces_methods_def lensI]) simp_all
interpretation Linux_Devices_field: field "m_get Linux_Devices_methods" "m_clear Linux_Devices_methods" "m_set Linux_Devices_methods" "[]" "m_mut Linux_Devices_methods" "m_take Linux_Devices_methods"
  by (rule owned_fieldI [OF Linux_Devices_methods_def lensI]) simp_all
interpretation Linux_Seccomp_field: field "m_get (Linux_Seccomp_methods rt)" "m_clear (Linux_Seccomp_methods rt)" "m_set (Linux_Seccomp_methods rt)" "(LinuxSeccomp_new rt)" "m_mut (Linux_Seccomp_methods rt)" "m_take (Linux_Seccomp_methods rt)" for rt
  by (rule message_fieldI [OF Linux_Seccomp_methods_def lensI]) simp_all
interpretation Linux_RootfsPropagation_field: field "m_get Linux_RootfsPropagation_methods" "m_clear Linux_RootfsPropagation_methods" "m_set Linux_RootfsPropagation_methods" "[]" "m_mut Linux_RootfsPropagation_methods" "m_take Linux_RootfsPropagation_methods"
  by (rule owned_fieldI [OF Linux_RootfsPropagation_methods_def lensI]) simp_all
interpretation Linux_MaskedPaths_field: field "m_get Linux_MaskedPaths_methods" "m_clear Linux_MaskedPaths_methods" "m_set Linux_MaskedPaths_methods" "[]" "m_mut Linux_MaskedPaths_methods" "m_take Linux_MaskedPaths_methods"
  by (rule owned_fieldI [OF Linux_MaskedPaths_methods_def lensI]) simp_all
interpretation Linux_ReadonlyPaths_field: field "m_get Linux_ReadonlyPaths_methods" "m_clear Linux_ReadonlyPaths_methods" "m_set Linux_ReadonlyPaths_methods" "[]" "m_mut Linux_ReadonlyPaths_methods" "m_take Linux_ReadonlyPaths_methods"
  by (rule owned_fieldI [OF Linux_ReadonlyPaths_methods_def lensI]) simp_all
interpretation Linux_MountLabel_field: field "m_get Linux_MountLabel_methods" "m_clear Linux_MountLabel_methods" "m_set Linux_MountLabel_methods" "[]" "m_mut Linux_MountLabel_methods" "m_take Linux_MountLabel_methods"
  by (rule owned_fieldI [OF Linux_MountLabel_methods_def lensI]) simp_all
interpretation Linux_IntelRdt_field: field "m_get (Linux_IntelRdt_methods rt)" "m_clear (Linux_IntelRdt_methods rt)" "m_set (Linux_IntelRdt_methods rt)" "(LinuxIntelRdt_new rt)" "m_mut (Linux_IntelRdt_methods rt)" "m_take (Linux_IntelRdt_methods rt)" for rt
  by (rule message_fieldI [OF Linux_IntelRdt_methods_def lensI]) simp_all

section \<open>\<open>Windows\<close>\<close>

definition Windows_dummy_methods :: "('u pb_Windows, string) owned_methods" where
  "Windows_dummy_methods = owned_field Windows_dummy Windows_dummy_update []"

interpretation Windows_dummy_field: field "m_get Windows_dummy_methods" "m_clear Windows_dummy_methods" "m_set Windows_dummy_methods" "[]" "m_mut Windows_dummy_methods" "m_take Windows_dummy_methods"
  by (rule owned_fieldI [OF Windows_dummy_methods_def lensI]) simp_all

section \<open>\<open>Solaris\<close>\<close>

definition Solaris_dummy_methods :: "('u pb_Solaris, string) owned_methods" where
  "Solaris_dummy_methods = owned_field Solaris_dummy Solaris_dummy_update []"

interpretation Solaris_dummy_field: field "m_get Solaris_dummy_methods" "m_clear Solaris_dummy_methods" "m_set Solaris_dummy_methods" "[]" "m_mut Solaris_dummy_methods" "m_take Solaris_dummy_methods"
  by (rule owned_fieldI [OF Solaris_dummy_methods_def lensI]) simp_all

section \<open>\<open>LinuxIDMapping\<close>\<close>

definition LinuxIDMapping_HostID_methods :: "('u pb_LinuxIDMapping, u32) scalar_methods" where
  "LinuxIDMapping_HostID_methods = scalar_field LinuxIDMapping_HostID LinuxIDMapping_HostID_update 0"

definition LinuxIDMapping_ContainerID_methods :: "('u pb_LinuxIDMapping, u32) scalar_methods" where
  "LinuxIDMapping_ContainerID_methods = scalar_field LinuxIDMapping_ContainerID LinuxIDMapping_ContainerID_update 0"

definition LinuxIDMapping_Size_methods :: "('u pb_LinuxIDMapping, u32) scalar_methods" where
  "LinuxIDMapping_Size_methods = scalar_field LinuxIDMapping_Size LinuxIDMapping_Size_update 0"

interpretation LinuxIDMapping_HostID_field: plain_field "m_get LinuxIDMapping_HostID_methods" "m_clear LinuxIDMapping_HostID_methods" "m_set LinuxIDMapping_HostID_methods" "0"
  by (rule scalar_fieldI [OF LinuxIDMapping_HostID_methods_def lensI]) simp_all
interpretation LinuxIDMapping_ContainerID_field: plain_field "m_get LinuxIDMapping_ContainerID_methods" "m_clear LinuxIDMapping_ContainerID_methods" "m_set LinuxIDMapping_ContainerID_methods" "0"
  by (rule scalar_fieldI [OF LinuxIDMapping_ContainerID_methods_def lensI]) simp_all
interpretation LinuxIDMapping_Size_field: plain_field "m_get LinuxIDMapping_Size_methods" "m_clear LinuxIDMapping_Size_methods" "m_set LinuxIDMapping_Size_methods" "0"
  by (rule scalar_fieldI [OF LinuxIDMapping_Size_methods_def lensI]) simp_all

section \<open>\<open>LinuxNamespace\<close>\<close>

definition LinuxNamespace_Type_methods :: "('u pb_LinuxNamespace, string) owned_methods" where
  "LinuxNamespace_Type_methods = owned_field LinuxNamespace_Type LinuxNamespace_Type_update []"

definition LinuxNamespace_Path_methods :: "('u pb_LinuxNamespace, string) owned_methods" where
  "LinuxNamespace_Path_methods = owned_field LinuxNamespace_Path LinuxNamespace_Path_update []"

interpretation LinuxNamespace_Type_field: field "m_get LinuxNamespace_Type_methods" "m_clear LinuxNamespace_Type_methods" "m_set LinuxNamespace_Type_methods" "[]" "m_mut LinuxNamespace_Type_methods" "m_take LinuxNamespace_Type_methods"
  by (rule owned_fieldI [OF LinuxNamespace_Type_methods_def lensI]) simp_all
interpretation LinuxNamespace_Path_field: field "m_get LinuxNamespace_Path_methods" "m_clear LinuxNamespace_Path_methods" "m_set LinuxNamespace_Path_methods" "[]" "m_mut LinuxNamespace_Path_methods" "m_take LinuxNamespace_Path_methods"
  by (rule owned_fieldI [OF LinuxNamespace_Path_methods_def lensI]) simp_all

section \<open>\<open>LinuxDevice\<close>\<close>

definition LinuxDevice_Path_methods :: "('u pb_LinuxDevice, string) owned_methods" where
  "LinuxDevice_Path_methods = owned_field LinuxDevice_Path LinuxDevice_Path_update []"

definition LinuxDevice_Type_methods :: "('u pb_LinuxDevice, string) owned_methods" where
  "LinuxDevice_Type_methods = owned_field LinuxDevice_Type LinuxDevice_Type_update []"

definition LinuxDevice_Major_methods :: "('u pb_LinuxDevice, u64) scalar_methods" where
  "LinuxDevice_Major_methods = scalar_field LinuxDevice_Major LinuxDevice_Major_update 0"

definition LinuxDevice_Minor_methods :: "('u pb_LinuxDevice, u64) scalar_methods" where
  "LinuxDevice_Minor_methods = scalar_field LinuxDevice_Minor LinuxDevice_Minor_update 0"

definition LinuxDevice_FileMode_methods :: "('u pb_LinuxDevice, u32) scalar_methods" where
  "LinuxDevice_FileMode_methods = scalar_field LinuxDevice_FileMode LinuxDevice_FileMode_update 0"

definition LinuxDevice_UID_methods :: "('u pb_LinuxDevice, u32) scalar_methods" where
  "LinuxDevice_UID_methods = scalar_field LinuxDevice_UID LinuxDevice_UID_update 0"

definition LinuxDevice_GID_methods :: "('u pb_LinuxDevice, u32) scalar_methods" where
  "LinuxDevice_GID_methods = scalar_field LinuxDevice_GID LinuxDevice_GID_update 0"

interpretation LinuxDevice_Path_field: field "m_get LinuxDevice_Path_methods" "m_clear LinuxDevice_Path_methods" "m_set LinuxDevice_Path_methods" "[]" "m_mut LinuxDevice_Path_methods" "m_take LinuxDevice_Path_methods"
  by (rule owned_fieldI [OF LinuxDevice_Path_methods_def lensI]) simp_all
interpretation LinuxDevice_Type_field: field "m_get LinuxDevice_Type_methods" "m_clear LinuxDevice_Type_methods" "m_set LinuxDevice_Type_methods" "[]" "m_mut LinuxDevice_Type_methods" "m_take LinuxDevice_Type_methods"
  by (rule owned_fieldI [OF LinuxDevice_Type_methods_def lensI]) simp_all
interpretation LinuxDevice_Major_field: plain_field "m_get LinuxDevice_Major_methods" "m_clear LinuxDevice_Major_methods" "m_set LinuxDevice_Major_methods" "0"
  by (rule scalar_fieldI [OF LinuxDevice_Major_methods_def lensI]) simp_all
interpretation LinuxDevice_Minor_field: plain_field "m_get LinuxDevice_Minor_methods" "m_clear LinuxDevice_Minor_methods" "m_set LinuxDevice_Minor_methods" "0"
  by (rule scalar_fieldI [OF LinuxDevice_Minor_methods_def lensI]) simp_all
interpretation LinuxDevice_FileMode_field: plain_field "m_get LinuxDevice_FileMode_methods" "m_clear LinuxDevice_FileMode_methods" "m_set LinuxDevice_FileMode_methods" "0"
  by (rule scalar_fieldI [OF LinuxDevice_FileMode_methods_def lensI]) simp_all
interpretation LinuxDevice_UID_field: plain_field "m_get LinuxDevice_UID_methods" "m_clear LinuxDevice_UID_methods" "m_set LinuxDevice_UID_methods" "0"
  by (rule scalar_fieldI [OF LinuxDevice_UID_methods_def lensI]) simp_all
interpretation LinuxDevice_GID_field: plain_field "m_get LinuxDevice_GID_methods" "m_clear LinuxDevice_GID_methods" "m_set LinuxDevice_GID_methods" "0"
  by (rule scalar_fieldI [OF LinuxDevice_GID_methods_def lensI]) simp_all

section \<open>\<open>LinuxResources\<close>\<close>

definition LinuxResources_Devices_methods :: "('u pb_LinuxResources, 'u pb_LinuxDeviceCgroup list) owned_methods" where
  "LinuxResources_Devices_methods = owned_field LinuxResources_Devices LinuxResources_Devices_update []"

definition LinuxResources_Memory_methods :: "'u runtime \<Rightarrow> ('u pb_LinuxResources, 'u pb_LinuxMemory) message_methods" where
  "LinuxResources_Memory_methods rt = message_field LinuxResources_Memory LinuxResources_Memory_update (LinuxMemory_new rt)"

definition LinuxResources_CPU_methods :: "'u runtime \<Rightarrow> ('u pb_LinuxResources, 'u pb_LinuxCPU) message_methods" where
  "LinuxResources_CPU_methods rt = message_field LinuxResources_CPU LinuxResources_CPU_update (LinuxCPU_new rt)"

definition LinuxResources_Pids_methods :: "'u runtime \<Rightarrow> ('u pb_LinuxResources, 'u pb_LinuxPids) message_methods" where
  "LinuxResources_Pids_methods rt = message_field LinuxResources_Pids LinuxResources_Pids_update (LinuxPids_new rt)"

definition LinuxResources_BlockIO_methods :: "'u runtime \<Rightarrow> ('u pb_LinuxResources, 'u pb_LinuxBlockIO) message_methods" where
  "LinuxResources_BlockIO_methods rt = message_field LinuxResources_BlockIO LinuxResources_BlockIO_update (LinuxBlockIO_new rt)"

definition LinuxResources_HugepageLimits_methods :: "('u pb_LinuxResources, 'u pb_LinuxHugepageLimit list) owned_methods" where
  "LinuxResources_HugepageLimits_methods = owned_field LinuxResources_HugepageLimits LinuxResources_HugepageLimits_update []"

definition LinuxResources_Network_methods :: "'u runtime \<Rightarrow> ('u pb_LinuxResources, 'u pb_LinuxNetwork) message_methods" where
  "LinuxResources_Network_methods rt = message_field LinuxResources_Network LinuxResources_Network_update (LinuxNetwork_new rt)"

interpretation LinuxResources_Devices_field: field "m_get LinuxResources_Devices_methods" "m_clear LinuxResources_Devices_methods" "m_set LinuxResources_Devices_methods" "[]" "m_mut LinuxResources_Devices_methods" "m_take LinuxResources_Devices_methods"
  by (rule owned_fieldI [OF LinuxResources_Devices_methods_def lensI]) simp_all
interpretation LinuxResources_Memory_field: field "m_get (LinuxResources_Memory_methods rt)" "m_clear (LinuxResources_Memory_methods rt)" "m_set (LinuxResources_Memory_methods rt)" "(LinuxMemory_new rt)" "m_mut (LinuxResources_Memory_methods rt)" "m_take (LinuxResources_Memory_methods rt)" for rt
  by (rule message_fieldI [OF LinuxResources_Memory_methods_def lensI]) simp_all
interpretation LinuxResources_CPU_field: field "m_get (LinuxResources_CPU_methods rt)" "m_clear (LinuxResources_CPU_methods rt)" "m_set (LinuxResources_CPU_methods rt)" "(LinuxCPU_new rt)" "m_mut (LinuxResources_CPU_methods rt)" "m_take (LinuxResources_CPU_methods rt)" for rt
  by (rule message_fieldI [OF LinuxResources_CPU_methods_def lensI]) simp_all
interpretation LinuxResources_Pids_field: field "m_get (LinuxResources_Pids_methods rt)" "m_clear (LinuxResources_Pids_methods rt)" "m_set (LinuxResources_Pids_methods rt)" "(LinuxPids_new rt)" "m_mut (LinuxResources_Pids_methods rt)" "m_take (LinuxResources_Pids_methods rt)" for rt
  by (rule message_fieldI [OF LinuxResources_Pids_methods_def lensI]) simp_all
interpretation LinuxResources_BlockIO_field: field "m_get (LinuxResources_BlockIO_methods rt)" "m_clear (LinuxResources_BlockIO_methods rt)" "m_set (LinuxResources_BlockIO_methods rt)" "(LinuxBlockIO_new rt)" "m_mut (LinuxResources_BlockIO_methods rt)" "m_take (LinuxResources_BlockIO_methods rt)" for rt
  by (rule message_fieldI [OF LinuxResources_BlockIO_methods_def lensI]) simp_all
interpretation LinuxResources_HugepageLimits_field: field "m_get LinuxResources_HugepageLimits_methods" "m_clear LinuxResources_HugepageLimits_methods" "m_set LinuxResources_HugepageLimits_methods" "[]" "m_mut LinuxResources_HugepageLimits_methods" "m_take LinuxResources_HugepageLimits_methods"
  by (rule owned_fieldI [OF LinuxResources_HugepageLimits_methods_def lensI]) simp_all
interpretation LinuxResources_Network_field: field "m_get (LinuxResources_Network_methods rt)" "m_clear (LinuxResources_Network_methods rt)" "m_set (LinuxResources_Network_methods rt)" "(LinuxNetwork_new rt)" "m_mut (LinuxResources_Network_methods rt)" "m_take (LinuxResources_Network_methods rt)" for rt
  by (rule message_fieldI [OF LinuxResources_Network_methods_def lensI]) simp_all

section \<open>\<open>LinuxMemory\<close>\<close>

definition LinuxMemory_Limit_methods :: "('u pb_LinuxMemory, u64) scalar_methods" where
  "LinuxMemory_Limit_methods = scalar_field LinuxMemory_Limit LinuxMemory_Limit_update 0"

definition LinuxMemory_Reservation_methods :: "('u pb_LinuxMemory, u64) scalar_methods" where
  "LinuxMemory_Reservation_methods = scalar_field LinuxMemory_Reservation LinuxMemory_Reservation_update 0"

definition LinuxMemory_Swap_methods :: "('u pb_LinuxMemory, u64) scalar_methods" where
  "LinuxMemory_Swap_methods = scalar_field LinuxMemory_Swap LinuxMemory_Swap_update 0"

definition LinuxMemory_Kernel_methods :: "('u pb_LinuxMemory, u64) scalar_methods" where
  "LinuxMemory_Kernel_methods = scalar_field LinuxMemory_Kernel LinuxMemory_Kernel_update 0"

definition LinuxMemory_KernelTCP_methods :: "('u pb_LinuxMemory, u64) scalar_methods" where
  "LinuxMemory_KernelTCP_methods = scalar_field LinuxMemory_KernelTCP LinuxMemory_KernelTCP_update 0"

definition LinuxMemory_Swappiness_methods :: "('u pb_LinuxMemory, u64) scalar_methods" where
  "LinuxMemory_Swappiness_methods = scalar_field LinuxMemory_Swappiness LinuxMemory_Swappiness_update 0"

definition LinuxMemory_DisableOOMKiller_methods :: "('u pb_LinuxMemory, bool) scalar_methods" where
  "LinuxMemory_DisableOOMKiller_methods = scalar_field LinuxMemory_DisableOOMKiller LinuxMemory_DisableOOMKiller_update False"

interpretation LinuxMemory_Limit_field: plain_field "m_get LinuxMemory_Limit_methods" "m_clear LinuxMemory_Limit_methods" "m_set LinuxMemory_Limit_methods" "0"
  by (rule scalar_fieldI [OF LinuxMemory_Limit_methods_def lensI]) simp_all
interpretation LinuxMemory_Reservation_field: plain_field "m_get LinuxMemory_Reservation_methods" "m_clear LinuxMemory_Reservation_methods" "m_set LinuxMemory_Reservation_methods" "0"
  by (rule scalar_fieldI [OF LinuxMemory_Reservation_methods_def lensI]) simp_all
interpretation LinuxMemory_Swap_field: plain_field "m_get LinuxMemory_Swap_methods" "m_clear LinuxMemory_Swap_methods" "m_set LinuxMemory_Swap_methods" "0"
  by (rule scalar_fieldI [OF LinuxMemory_Swap_methods_def lensI]) simp_all
interpretation LinuxMemory_Kernel_field: plain_field "m_get LinuxMemory_Kernel_methods" "m_clear LinuxMemory_Kernel_methods" "m_set LinuxMemory_Kernel_methods" "0"
  by (rule scalar_fieldI [OF LinuxMemory_Kernel_methods_def lensI]) simp_all
interpretation LinuxMemory_KernelTCP_field: plain_field "m_get LinuxMemory_KernelTCP_methods" "m_clear LinuxMemory_KernelTCP_methods" "m_set LinuxMemory_KernelTCP_methods" "0"
  by (rule scalar_fieldI [OF LinuxMemory_KernelTCP_methods_def lensI]) simp_all
interpretation LinuxMemory_Swappiness_field: plain_field "m_get LinuxMemory_Swappiness_methods" "m_clear LinuxMemory_Swappiness_methods" "m_set LinuxMemory_Swappiness_methods" "0"
  by (rule scalar_fieldI [OF LinuxMemory_Swappiness_methods_def lensI]) simp_all
interpretation LinuxMemory_DisableOOMKiller_field: plain_field "m_get LinuxMemory_DisableOOMKiller_methods" "m_clear LinuxMemory_DisableOOMKiller_methods" "m_set LinuxMemory_DisableOOMKiller_methods" "False"
  by (rule scalar_fieldI [OF LinuxMemory_DisableOOMKiller_methods_def lensI]) simp_all

section \<open>\<open>LinuxCPU\<close>\<close>

definition LinuxCPU_Shares_methods :: "('u pb_LinuxCPU, u64) scalar_methods" where
  "LinuxCPU_Shares_methods = scalar_field LinuxCPU_Shares LinuxCPU_Shares_update 0"

definition LinuxCPU_Quota_methods :: "('u pb_LinuxCPU, u64) scalar_methods" where
  "LinuxCPU_Quota_methods = scalar_field LinuxCPU_Quota LinuxCPU_Quota_update 0"

definition LinuxCPU_Period_methods :: "('u pb_LinuxCPU, u64) scalar_methods" where
  "LinuxCPU_Period_methods = scalar_field LinuxCPU_Period LinuxCPU_Period_update 0"

definition LinuxCPU_RealtimeRuntime_methods :: "('u pb_LinuxCPU, u64) scalar_methods" where
  "LinuxCPU_RealtimeRuntime_methods = scalar_field LinuxCPU_RealtimeRuntime LinuxCPU_RealtimeRuntime_update 0"

definition LinuxCPU_RealtimePeriod_methods :: "('u pb_LinuxCPU, u64) scalar_methods" where
  "LinuxCPU_RealtimePeriod_methods = scalar_field LinuxCPU_RealtimePeriod LinuxCPU_RealtimePeriod_update 0"

definition LinuxCPU_Cpus_methods :: "('u pb_LinuxCPU, string) owned_methods" where
  "LinuxCPU_Cpus_methods = owned_field LinuxCPU_Cpus LinuxCPU_Cpus_update []"

definition LinuxCPU_Mems_methods :: "('u pb_LinuxCPU, string) owned_methods" where
  "LinuxCPU_Mems_methods = owned_field LinuxCPU_Mems LinuxCPU_Mems_update []"

interpretation LinuxCPU_Shares_field: plain_field "m_get LinuxCPU_Shares_methods" "m_clear LinuxCPU_Shares_methods" "m_set LinuxCPU_Shares_methods" "0"
  by (rule scalar_fieldI [OF LinuxCPU_Shares_methods_def lensI]) simp_all
interpretation LinuxCPU_Quota_field: plain_field "m_get LinuxCPU_Quota_methods" "m_clear LinuxCPU_Quota_methods" "m_set LinuxCPU_Quota_methods" "0"
  by (rule scalar_fieldI [OF LinuxCPU_Quota_methods_def lensI]) simp_all
interpretation LinuxCPU_Period_field: plain_field "m_get LinuxCPU_Period_methods" "m_clear LinuxCPU_Period_methods" "m_set LinuxCPU_Period_methods" "0"
  by (rule scalar_fieldI [OF LinuxCPU_Period_methods_def lensI]) simp_all
interpretation LinuxCPU_RealtimeRuntime_field: plain_field "m_get LinuxCPU_RealtimeRuntime_methods" "m_clear LinuxCPU_RealtimeRuntime_methods" "m_set LinuxCPU_RealtimeRuntime_methods" "0"
  by (rule scalar_fieldI [OF LinuxCPU_RealtimeRuntime_methods_def lensI]) simp_all
interpretation LinuxCPU_RealtimePeriod_field: plain_field "m_get LinuxCPU_RealtimePeriod_methods" "m_clear LinuxCPU_RealtimePeriod_methods" "m_set LinuxCPU_RealtimePeriod_methods" "0"
  by (rule scalar_fieldI [OF LinuxCPU_RealtimePeriod_methods_def lensI]) simp_all
interpretation LinuxCPU_Cpus_field: field "m_get LinuxCPU_Cpus_methods" "m_clear LinuxCPU_Cpus_methods" "m_set LinuxCPU_Cpus_methods" "[]" "m_mut LinuxCPU_Cpus_methods" "m_take LinuxCPU_Cpus_methods"
  by (rule owned_fieldI [OF LinuxCPU_Cpus_methods_def lensI]) simp_all
interpretation LinuxCPU_Mems_field: field "m_get LinuxCPU_Mems_methods" "m_clear LinuxCPU_Mems_methods" "m_set LinuxCPU_Mems_methods" "[]" "m_mut LinuxCPU_Mems_methods" "m_take LinuxCPU_Mems_methods"
  by (rule owned_fieldI [OF LinuxCPU_Mems_methods_def lensI]) simp_all

section \<open>\<open>LinuxWeightDevice\<close>\<close>

definition LinuxWeightDevice_Major_methods :: "('u pb_LinuxWeightDevice, u64) scalar_methods" where
  "LinuxWeightDevice_Major_methods = scalar_field LinuxWeightDevice_Major LinuxWeightDevice_Major_update 0"

definition LinuxWeightDevice_Minor_methods :: "('u pb_LinuxWeightDevice, u64) scalar_methods" where
  "LinuxWeightDevice_Minor_methods = scalar_field LinuxWeightDevice_Minor LinuxWeightDevice_Minor_update 0"

definition LinuxWeightDevice_Weight_methods :: "('u pb_LinuxWeightDevice, u32) scalar_methods" where
  "LinuxWeightDevice_Weight_methods = scalar_field LinuxWeightDevice_Weight LinuxWeightDevice_Weight_update 0"

definition LinuxWeightDevice_LeafWeight_methods :: "('u pb_LinuxWeightDevice, u32) scalar_methods" where
  "LinuxWeightDevice_LeafWeight_methods = scalar_field LinuxWeightDevice_LeafWeight LinuxWeightDevice_LeafWeight_update 0"

interpretation LinuxWeightDevice_Major_field: plain_field "m_get LinuxWeightDevice_Major_methods" "m_clear LinuxWeightDevice_Major_methods" "m_set LinuxWeightDevice_Major_methods" "0"
  by (rule scalar_fieldI [OF LinuxWeightDevice_Major_methods_def lensI]) simp_all
interpretation LinuxWeightDevice_Minor_field: plain_field "m_get LinuxWeightDevice_Minor_methods" "m_clear LinuxWeightDevice_Minor_methods" "m_set LinuxWeightDevice_Minor_methods" "0"
  by (rule scalar_fieldI [OF LinuxWeightDevice_Minor_methods_def lensI]) simp_all
interpretation LinuxWeightDevice_Weight_field: plain_field "m_get LinuxWeightDevice_Weight_methods" "m_clear LinuxWeightDevice_Weight_methods" "m_set LinuxWeightDevice_Weight_methods" "0"
  by (rule scalar_fieldI [OF LinuxWeightDevice_Weight_methods_def lensI]) simp_all
interpretation LinuxWeightDevice_LeafWeight_field: plain_field "m_get LinuxWeightDevice_LeafWeight_methods" "m_clear LinuxWeightDevice_LeafWeight_methods" "m_set LinuxWeightDevice_LeafWeight_methods" "0"
  by (rule scalar_fieldI [OF LinuxWeightDevice_LeafWeight_methods_def lensI]) simp_all

section \<open>\<open>LinuxThrottleDevice\<close>\<close>

definition LinuxThrottleDevice_Major_methods :: "('u pb_LinuxThrottleDevice, u64) scalar_methods" where
  "LinuxThrottleDevice_Major_methods = scalar_field LinuxThrottleDevice_Major LinuxThrottleDevice_Major_update 0"

definition LinuxThrottleDevice_Minor_methods :: "('u pb_LinuxThrottleDevice, u64) scalar_methods" where
  "LinuxThrottleDevice_Minor_methods = scalar_field LinuxThrottleDevice_Minor LinuxThrottleDevice_Minor_update 0"

definition LinuxThrottleDevice_Rate_methods :: "('u pb_LinuxThrottleDevice, u64) scalar_methods" where
  "LinuxThrottleDevice_Rate_methods = scalar_field LinuxThrottleDevice_Rate LinuxThrottleDevice_Rate_update 0"

interpretation LinuxThrottleDevice_Major_field: plain_field "m_get LinuxThrottleDevice_Major_methods" "m_clear LinuxThrottleDevice_Major_methods" "m_set LinuxThrottleDevice_Major_methods" "0"
  by (rule scalar_fieldI [OF LinuxThrottleDevice_Major_methods_def lensI]) simp_all
interpretation LinuxThrottleDevice_Minor_field: plain_field "m_get LinuxThrottleDevice_Minor_methods" "m_clear LinuxThrottleDevice_Minor_methods" "m_set LinuxThrottleDevice_Minor_methods" "0"
  by (rule scalar_fieldI [OF LinuxThrottleDevice_Minor_methods_def lensI]) simp_all
interpretation LinuxThrottleDevice_Rate_field: plain_field "m_get LinuxThrottleDevice_Rate_methods" "m_clear LinuxThrottleDevice_Rate_methods" "m_set LinuxThrottleDevice_Rate_methods" "0"
  by (rule scalar_fieldI [OF LinuxThrottleDevice_Rate_methods_def lensI]) simp_all

section \<open>\<open>LinuxBlockIO\<close>\<close>

definition LinuxBlockIO_Weight_methods :: "('u pb_LinuxBlockIO, u32) scalar_methods" where
  "LinuxBlockIO_Weight_methods = scalar_field LinuxBlockIO_Weight LinuxBlockIO_Weight_update 0"

definition LinuxBlockIO_LeafWeight_methods :: "('u pb_LinuxBlockIO, u32) scalar_methods" where
  "LinuxBlockIO_LeafWeight_methods = scalar_field LinuxBlockIO_LeafWeight LinuxBlockIO_LeafWeight_update 0"

definition LinuxBlockIO_WeightDevice_methods :: "('u pb_LinuxBlockIO, 'u pb_LinuxWeightDevice list) owned_methods" where
  "LinuxBlockIO_WeightDevice_methods = owned_field LinuxBlockIO_WeightDevice LinuxBlockIO_WeightDevice_update []"

definition LinuxBlockIO_ThrottleReadBpsDevice_methods :: "('u pb_LinuxBlockIO, 'u pb_LinuxThrottleDevice list) owned_methods" where
  "LinuxBlockIO_ThrottleReadBpsDevice_methods = owned_field LinuxBlockIO_ThrottleReadBpsDevice LinuxBlockIO_ThrottleReadBpsDevice_update []"

definition LinuxBlockIO_ThrottleWriteBpsDevice_methods :: "('u pb_LinuxBlockIO, 'u pb_LinuxThrottleDevice list) owned_methods" where
  "LinuxBlockIO_ThrottleWriteBpsDevice_methods = owned_field LinuxBlockIO_ThrottleWriteBpsDevice LinuxBlockIO_ThrottleWriteBpsDevice_update []"

definition LinuxBlockIO_ThrottleReadIOPSDevice_methods :: "('u pb_LinuxBlockIO, 'u pb_LinuxThrottleDevice list) owned_methods" where
  "LinuxBlockIO_ThrottleReadIOPSDevice_methods = owned_field LinuxBlockIO_ThrottleReadIOPSDevice LinuxBlockIO_ThrottleReadIOPSDevice_update []"

definition LinuxBlockIO_ThrottleWriteIOPSDevice_methods :: "('u pb_LinuxBlockIO, 'u pb_LinuxThrottleDevice list) owned_methods" where
  "LinuxBlockIO_ThrottleWriteIOPSDevice_methods = owned_field LinuxBlockIO_ThrottleWriteIOPSDevice LinuxBlockIO_ThrottleWriteIOPSDevice_update []"

interpretation LinuxBlockIO_Weight_field: plain_field "m_get LinuxBlockIO_Weight_methods" "m_clear LinuxBlockIO_Weight_methods" "m_set LinuxBlockIO_Weight_methods" "0"
  by (rule scalar_fieldI [OF LinuxBlockIO_Weight_methods_def lensI]) simp_all
interpretation LinuxBlockIO_LeafWeight_field: plain_field "m_get LinuxBlockIO_LeafWeight_methods" "m_clear LinuxBlockIO_LeafWeight_methods" "m_set LinuxBlockIO_LeafWeight_methods" "0"
  by (rule scalar_fieldI [OF LinuxBlockIO_LeafWeight_methods_def lensI]) simp_all
interpretation LinuxBlockIO_WeightDevice_field: field "m_get LinuxBlockIO_WeightDevice_methods" "m_clear LinuxBlockIO_WeightDevice_methods" "m_set LinuxBlockIO_WeightDevice_methods" "[]" "m_mut LinuxBlockIO_WeightDevice_methods" "m_take LinuxBlockIO_WeightDevice_methods"
  by (rule owned_fieldI [OF LinuxBlockIO_WeightDevice_methods_def lensI]) simp_all
interpretation LinuxBlockIO_ThrottleReadBpsDevice_field: field "m_get LinuxBlockIO_ThrottleReadBpsDevice_methods" "m_clear LinuxBlockIO_ThrottleReadBpsDevice_methods" "m_set LinuxBlockIO_ThrottleReadBpsDevice_methods" "[]" "m_mut LinuxBlockIO_ThrottleReadBpsDevice_methods" "m_take LinuxBlockIO_ThrottleReadBpsDevice_methods"
  by (rule owned_fieldI [OF LinuxBlockIO_ThrottleReadBpsDevice_methods_def lensI]) simp_all
interpretation LinuxBlockIO_ThrottleWriteBpsDevice_field: field "m_get LinuxBlockIO_ThrottleWriteBpsDevice_methods" "m_clear LinuxBlockIO_ThrottleWriteBpsDevice_methods" "m_set LinuxBlockIO_ThrottleWriteBpsDevice_methods" "[]" "m_mut LinuxBlockIO_ThrottleWriteBpsDevice_methods" "m_take LinuxBlockIO_ThrottleWriteBpsDevice_methods"
  by (rule owned_fieldI [OF LinuxBlockIO_ThrottleWriteBpsDevice_methods_def lensI]) simp_all
interpretation LinuxBlockIO_ThrottleReadIOPSDevice_field: field "m_get LinuxBlockIO_ThrottleReadIOPSDevice_methods" "m_clear LinuxBlockIO_ThrottleReadIOPSDevice_methods" "m_set LinuxBlockIO_ThrottleReadIOPSDevice_methods" "[]" "m_mut LinuxBlockIO_ThrottleReadIOPSDevice_methods" "m_take LinuxBlockIO_ThrottleReadIOPSDevice_methods"
  by (rule owned_fieldI [OF LinuxBlockIO_ThrottleReadIOPSDevice_methods_def lensI]) simp_all
interpretation LinuxBlockIO_ThrottleWriteIOPSDevice_field: field "m_get LinuxBlockIO_ThrottleWriteIOPSDevice_methods" "m_clear LinuxBlockIO_ThrottleWriteIOPSDevice_methods" "m_set LinuxBlockIO_ThrottleWriteIOPSDevice_methods" "[]" "m_mut LinuxBlockIO_ThrottleWriteIOPSDevice_methods" "m_take LinuxBlockIO_ThrottleWriteIOPSDevice_methods"
  by (rule owned_fieldI [OF LinuxBlockIO_ThrottleWriteIOPSDevice_methods_def lensI]) simp_all

section \<open>\<open>LinuxPids\<close>\<close>

definition LinuxPids_Limit_methods :: "('u pb_LinuxPids, u64) scalar_methods" where
  "LinuxPids_Limit_methods = scalar_field LinuxPids_Limit LinuxPids_Limit_update 0"

interpretation LinuxPids_Limit_field: plain_field "m_get LinuxPids_Limit_methods" "m_clear LinuxPids_Limit_methods" "m_set LinuxPids_Limit_methods" "0"
  by (rule scalar_fieldI [OF LinuxPids_Limit_methods_def lensI]) simp_all

section \<open>\<open>LinuxDeviceCgroup\<close>\<close>

definition LinuxDeviceCgroup_Allow_methods :: "('u pb_LinuxDeviceCgroup, bool) scalar_methods" where
  "LinuxDeviceCgroup_Allow_methods = scalar_field LinuxDeviceCgroup_Allow LinuxDeviceCgroup_Allow_update False"

definition LinuxDeviceCgroup_Type_methods :: "('u pb_LinuxDeviceCgroup, string) owned_methods" where
  "LinuxDeviceCgroup_Type_methods = owned_field LinuxDeviceCgroup_Type LinuxDeviceCgroup_Type_update []"

definition LinuxDeviceCgroup_Major_methods :: "('u pb_LinuxDeviceCgroup, u64) scalar_methods" where
  "LinuxDeviceCgroup_Major_methods = scalar_field LinuxDeviceCgroup_Major LinuxDeviceCgroup_Major_update 0"

definition LinuxDeviceCgroup_Minor_methods :: "('u pb_LinuxDeviceCgroup, u64) scalar_methods" where
  "LinuxDeviceCgroup_Minor_methods = scalar_field LinuxDeviceCgroup_Minor LinuxDeviceCgroup_Minor_update 0"

definition LinuxDeviceCgroup_Access_methods :: "('u pb_LinuxDeviceCgroup, string) owned_methods" where
  "LinuxDeviceCgroup_Access_methods = owned_field LinuxDeviceCgroup_Access LinuxDeviceCgroup_Access_update []"

interpretation LinuxDeviceCgroup_Allow_field: plain_field "m_get LinuxDeviceCgroup_Allow_methods" "m_clear LinuxDeviceCgroup_Allow_methods" "m_set LinuxDeviceCgroup_Allow_methods" "False"
  by (rule scalar_fieldI [OF LinuxDeviceCgroup_Allow_methods_def lensI]) simp_all
interpretation LinuxDeviceCgroup_Type_field: field "m_get LinuxDeviceCgroup_Type_methods" "m_clear LinuxDeviceCgroup_Type_methods" "m_set LinuxDeviceCgroup_Type_methods" "[]" "m_mut LinuxDeviceCgroup_Type_methods" "m_take LinuxDeviceCgroup_Type_methods"
  by (rule owned_fieldI [OF LinuxDeviceCgroup_Type_methods_def lensI]) simp_all
interpretation LinuxDeviceCgroup_Major_field: plain_field "m_get LinuxDeviceCgroup_Major_methods" "m_clear LinuxDeviceCgroup_Major_methods" "m_set LinuxDeviceCgroup_Major_methods" "0"
  by (rule scalar_fieldI [OF LinuxDeviceCgroup_Major_methods_def lensI]) simp_all
interpretation LinuxDeviceCgroup_Minor_field: plain_field "m_get LinuxDeviceCgroup_Minor_methods" "m_clear LinuxDeviceCgroup_Minor_methods" "m_set LinuxDeviceCgroup_Minor_methods" "0"
  by (rule scalar_fieldI [OF LinuxDeviceCgroup_Minor_methods_def lensI]) simp_all
interpretation LinuxDeviceCgroup_Access_field: field "m_get LinuxDeviceCgroup_Access_methods" "m_clear LinuxDeviceCgroup_Access_methods" "m_set LinuxDeviceCgroup_Access_methods" "[]" "m_mut LinuxDeviceCgroup_Access_methods" "m_take LinuxDeviceCgroup_Access_methods"
  by (rule owned_fieldI [OF LinuxDeviceCgroup_Access_methods_def lensI]) simp_all

section \<open>\<open>LinuxNetwork\<close>\<close>

definition LinuxNetwork_ClassID_methods :: "('u pb_LinuxNetwork, u32) scalar_methods" where
  "LinuxNetwork_ClassID_methods = scalar_field LinuxNetwork_ClassID LinuxNetwork_ClassID_update 0"

definition LinuxNetwork_Priorities_methods :: "('u pb_LinuxNetwork, 'u pb_LinuxInterfacePriority list) owned_methods" where
  "LinuxNetwork_Priorities_methods = owned_field LinuxNetwork_Priorities LinuxNetwork_Priorities_update []"

interpretation LinuxNetwork_ClassID_field: plain_field "m_get LinuxNetwork_ClassID_methods" "m_clear LinuxNetwork_ClassID_methods" "m_set LinuxNetwork_ClassID_methods" "0"
  by (rule scalar_fieldI [OF LinuxNetwork_ClassID_methods_def lensI]) simp_all
interpretation LinuxNetwork_Priorities_field: field "m_get LinuxNetwork_Priorities_methods" "m_clear LinuxNetwork_Priorities_methods" "m_set LinuxNetwork_Priorities_methods" "[]" "m_mut LinuxNetwork_Priorities_methods" "m_take LinuxNetwork_Priorities_methods"
  by (rule owned_fieldI [OF LinuxNetwork_Priorities_methods_def lensI]) simp_all

section \<open>\<open>LinuxHugepageLimit\<close>\<close>

definition LinuxHugepageLimit_Pagesize_methods :: "('u pb_LinuxHugepageLimit, string) owned_methods" where
  "LinuxHugepageLimit_Pagesize_methods = owned_field LinuxHugepageLimit_Pagesize LinuxHugepageLimit_Pagesize_update []"

definition LinuxHugepageLimit_Limit_methods :: "('u pb_LinuxHugepageLimit, u64) scalar_methods" where
  "LinuxHugepageLimit_Limit_methods = scalar_field LinuxHugepageLimit_Limit LinuxHugepageLimit_Limit_update 0"

interpretation LinuxHugepageLimit_Pagesize_field: field "m_get LinuxHugepageLimit_Pagesize_methods" "m_clear LinuxHugepageLimit_Pagesize_methods" "m_set LinuxHugepageLimit_Pagesize_methods" "[]" "m_mut LinuxHugepageLimit_Pagesize_methods" "m_take LinuxHugepageLimit_Pagesize_methods"
  by (rule owned_fieldI [OF LinuxHugepageLimit_Pagesize_methods_def lensI]) simp_all
interpretation LinuxHugepageLimit_Limit_field: plain_field "m_get LinuxHugepageLimit_Limit_methods" "m_clear LinuxHugepageLimit_Limit_methods" "m_set LinuxHugepageLimit_Limit_methods" "0"
  by (rule scalar_fieldI [OF LinuxHugepageLimit_Limit_methods_def lensI]) simp_all

section \<open>\<open>LinuxInterfacePriority\<close>\<close>

definition LinuxInterfacePriority_Name_methods :: "('u pb_LinuxInterfacePriority, string) owned_methods" where
  "LinuxInterfacePriority_Name_methods = owned_field LinuxInterfacePriority_Name LinuxInterfacePriority_Name_update []"

definition LinuxInterfacePriority_Priority_methods :: "('u pb_LinuxInterfacePriority, u32) scalar_methods" where
  "LinuxInterfacePriority_Priority_methods = scalar_field LinuxInterfacePriority_Priority LinuxInterfacePriority_Priority_update 0"

interpretation LinuxInterfacePriority_Name_field: field "m_get LinuxInterfacePriority_Name_methods" "m_clear LinuxInterfacePriority_Name_methods" "m_set LinuxInterfacePriority_Name_methods" "[]" "m_mut LinuxInterfacePriority_Name_methods" "m_take LinuxInterfacePriority_Name_methods"
  by (rule owned_fieldI [OF LinuxInterfacePriority_Name_methods_def lensI]) simp_all
interpretation LinuxInterfacePriority_Priority_field: plain_field "m_get LinuxInterfacePriority_Priority_methods" "m_clear LinuxInterfacePriority_Priority_methods" "m_set LinuxInterfacePriority_Priority_methods" "0"
  by (rule scalar_fieldI [OF LinuxInterfacePriority_Priority_methods_def lensI]) simp_all

section \<open>\<open>LinuxSeccomp\<close>\<close>

definition LinuxSeccomp_DefaultAction_methods :: "('u pb_LinuxSeccomp, string) owned_methods" where
  "LinuxSeccomp_DefaultAction_methods = owned_field LinuxSeccomp_DefaultAction LinuxSeccomp_DefaultAction_update []"

definition LinuxSeccomp_Architectures_methods :: "('u pb_LinuxSeccomp, string list) owned_methods" where
  "LinuxSeccomp_Architectures_methods = owned_field LinuxSeccomp_Architectures LinuxSeccomp_Architectures_update []"

definition LinuxSeccomp_Syscalls_methods :: "('u pb_LinuxSeccomp, 'u pb_LinuxSyscall list) owned_methods" where
  "LinuxSeccomp_Syscalls_methods = owned_field LinuxSeccomp_Syscalls LinuxSeccomp_Syscalls_update []"

interpretation LinuxSeccomp_DefaultAction_field: field "m_get LinuxSeccomp_DefaultAction_methods" "m_clear LinuxSeccomp_DefaultAction_methods" "m_set LinuxSeccomp_DefaultAction_methods" "[]" "m_mut LinuxSeccomp_DefaultAction_methods" "m_take LinuxSeccomp_DefaultAction_methods"
  by (rule owned_fieldI [OF LinuxSeccomp_DefaultAction_methods_def lensI]) simp_all
interpretation LinuxSeccomp_Architectures_field: field "m_get LinuxSeccomp_Architectures_methods" "m_clear LinuxSeccomp_Architectures_methods" "m_set LinuxSeccomp_Architectures_methods" "[]" "m_mut LinuxSeccomp_Architectures_methods" "m_take LinuxSeccomp_Architectures_methods"
  by (rule owned_fieldI [OF LinuxSeccomp_Architectures_methods_def lensI]) simp_all
interpretation LinuxSeccomp_Syscalls_field: field "m_get LinuxSeccomp_Syscalls_methods" "m_clear LinuxSeccomp_Syscalls_methods" "m_set LinuxSeccomp_Syscalls_methods" "[]" "m_mut LinuxSeccomp_Syscalls_methods" "m_take LinuxSeccomp_Syscalls_methods"
  by (rule owned_fieldI [OF LinuxSeccomp_Syscalls_methods_def lensI]) simp_all

section \<open>\<open>LinuxSeccompArg\<close>\<close>

definition LinuxSeccompArg_Index_methods :: "('u pb_LinuxSeccompArg, u64) scalar_methods" where
  "LinuxSeccompArg_Index_methods = scalar_field LinuxSeccompArg_Index LinuxSeccompArg_Index_update 0"

definition LinuxSeccompArg_Value_methods :: "('u pb_LinuxSeccompArg, u64) scalar_methods" where
  "LinuxSeccompArg_Value_methods = scalar_field LinuxSeccompArg_Value LinuxSeccompArg_Value_update 0"

definition LinuxSeccompArg_ValueTwo_methods :: "('u pb_LinuxSeccompArg, u64) scalar_methods" where
  "LinuxSeccompArg_ValueTwo_methods = scalar_field LinuxSeccompArg_ValueTwo LinuxSeccompArg_ValueTwo_update 0"

definition LinuxSeccompArg_Op_methods :: "('u pb_LinuxSeccompArg, string) owned_methods" where
  "LinuxSeccompArg_Op_methods = owned_field LinuxSeccompArg_Op LinuxSeccompArg_Op_update []"

interpretation LinuxSeccompArg_Index_field: plain_field "m_get LinuxSeccompArg_Index_methods" "m_clear LinuxSeccompArg_Index_methods" "m_set LinuxSeccompArg_Index_methods" "0"
  by (rule scalar_fieldI [OF LinuxSeccompArg_Index_methods_def lensI]) simp_all
interpretation LinuxSeccompArg_Value_field: plain_field "m_get LinuxSeccompArg_Value_methods" "m_clear LinuxSeccompArg_Value_methods" "m_set LinuxSeccompArg_Value_methods" "0"
  by (rule scalar_fieldI [OF LinuxSeccompArg_Value_methods_def lensI]) simp_all
interpretation LinuxSeccompArg_ValueTwo_field: plain_field "m_get LinuxSeccompArg_ValueTwo_methods" "m_clear LinuxSeccompArg_ValueTwo_methods" "m_set LinuxSeccompArg_ValueTwo_methods" "0"
  by (rule scalar_fieldI [OF LinuxSeccompArg_ValueTwo_methods_def lensI]) simp_all
interpretation LinuxSeccompArg_Op_field: field "m_get LinuxSeccompArg_Op_methods" "m_clear LinuxSeccompArg_Op_methods" "m_set LinuxSeccompArg_Op_methods" "[]" "m_mut LinuxSeccompArg_Op_methods" "m_take LinuxSeccompArg_Op_methods"
  by (rule owned_fieldI [OF LinuxSeccompArg_Op_methods_def lensI]) simp_all

section \<open>\<open>LinuxSyscall\<close>\<close>

definition LinuxSyscall_Names_methods :: "('u pb_LinuxSyscall, string list) owned_methods" where
  "LinuxSyscall_Names_methods = owned_field LinuxSyscall_Names LinuxSyscall_Names_update []"

definition LinuxSyscall_Action_methods :: "('u pb_LinuxSyscall, string) owned_methods" where
  "LinuxSyscall_Action_methods = owned_field LinuxSyscall_Action LinuxSyscall_Action_update []"

definition LinuxSyscall_Args_methods :: "('u pb_LinuxSyscall, 'u pb_LinuxSeccompArg list) owned_methods" where
  "LinuxSyscall_Args_methods = owned_field LinuxSyscall_Args LinuxSyscall_Args_update []"

interpretation LinuxSyscall_Names_field: field "m_get LinuxSyscall_Names_methods" "m_clear LinuxSyscall_Names_methods" "m_set LinuxSyscall_Names_methods" "[]" "m_mut LinuxSyscall_Names_methods" "m_take LinuxSyscall_Names_methods"
  by (rule owned_fieldI [OF LinuxSyscall_Names_methods_def lensI]) simp_all
interpretation LinuxSyscall_Action_field: field "m_get LinuxSyscall_Action_methods" "m_clear LinuxSyscall_Action_methods" "m_set LinuxSyscall_Action_methods" "[]" "m_mut LinuxSyscall_Action_methods" "m_take LinuxSyscall_Action_methods"
  by (rule owned_fieldI [OF LinuxSyscall_Action_methods_def lensI]) simp_all
interpretation LinuxSyscall_Args_field: field "m_get LinuxSyscall_Args_methods" "m_clear LinuxSyscall_Args_methods" "m_set LinuxSyscall_Args_methods" "[]" "m_mut LinuxSyscall_Args_methods" "m_take LinuxSyscall_Args_methods"
  by (rule owned_fieldI [OF LinuxSyscall_Args_methods_def lensI]) simp_all

section \<open>\<open>LinuxIntelRdt\<close>\<close>

definition LinuxIntelRdt_L3CacheSchema_methods :: "('u pb_LinuxIntelRdt, string) owned_methods" where
  "LinuxIntelRdt_L3CacheSchema_methods = owned_field LinuxIntelRdt_L3CacheSchema LinuxIntelRdt_L3CacheSchema_update []"

interpretation LinuxIntelRdt_L3CacheSchema_field: field "m_get LinuxIntelRdt_L3CacheSchema_methods" "m_clear LinuxIntelRdt_L3CacheSchema_methods" "m_set LinuxIntelRdt_L3CacheSchema_methods" "[]" "m_mut LinuxIntelRdt_L3CacheSchema_methods" "m_take LinuxIntelRdt_L3CacheSchema_methods"
  by (rule owned_fieldI [OF LinuxIntelRdt_L3CacheSchema_methods_def lensI]) simp_all

end
