(* ===== verification/Pb_Agent_Fields.thy ===== *)
theory Pb_Agent_Fields
  imports Pb_Field Pb_Agent
begin

text \<open>The methods for the fields of the messages of \<open>agent.rs\<close>, each an instance of the contract of a field.\<close>

section \<open>\<open>CreateContainerRequest\<close>\<close>

definition CreateContainerRequest_container_id_methods :: "('u pb_CreateContainerRequest, string) owned_methods" where
  "CreateContainerRequest_container_id_methods = owned_field CreateContainerRequest_container_id CreateContainerRequest_container_id_update []"

definition CreateContainerRequest_exec_id_methods :: "('u pb_CreateContainerRequest, string) owned_methods" where
  "CreateContainerRequest_exec_id_methods = owned_field CreateContainerRequest_exec_id CreateContainerRequest_exec_id_update []"

definition CreateContainerRequest_string_user_methods :: "'u runtime \<Rightarrow> ('u pb_CreateContainerRequest, 'u pb_StringUser) message_methods" where
  "CreateContainerRequest_string_user_methods rt = message_field CreateContainerRequest_string_user CreateContainerRequest_string_user_update (StringUser_new rt)"

definition CreateContainerRequest_devices_methods :: "('u pb_CreateContainerRequest, 'u pb_Device list) owned_methods" where
  "CreateContainerRequest_devices_methods = owned_field CreateContainerRequest_devices CreateContainerRequest_devices_update []"

definition CreateContainerRequest_storages_methods :: "('u pb_CreateContainerRequest, 'u pb_Storage list) owned_methods" where
  "CreateContainerRequest_storages_methods = owned_field CreateContainerRequest_storages CreateContainerRequest_storages_update []"

definition CreateContainerRequest_OCI_methods :: "'u runtime \<Rightarrow> ('u pb_CreateContainerRequest, 'u pb_Spec) message_methods" where
  "CreateContainerRequest_OCI_methods rt = message_field CreateContainerRequest_OCI CreateContainerRequest_OCI_update (Spec_new rt)"

definition CreateContainerRequest_sandbox_pidns_methods :: "('u pb_CreateContainerRequest, bool) scalar_methods" where
  "CreateContainerRequest_sandbox_pidns_methods = scalar_field CreateContainerRequest_sandbox_pidns CreateContainerRequest_sandbox_pidns_update False"

interpretation CreateContainerRequest_container_id_field: field "m_get CreateContainerRequest_container_id_methods" "m_clear CreateContainerRequest_container_id_methods" "m_set CreateContainerRequest_container_id_methods" "[]" "m_mut CreateContainerRequest_container_id_methods" "m_take CreateContainerRequest_container_id_methods"
  by (rule owned_fieldI [OF CreateContainerRequest_container_id_methods_def lensI]) simp_all
interpretation CreateContainerRequest_exec_id_field: field "m_get CreateContainerRequest_exec_id_methods" "m_clear CreateContainerRequest_exec_id_methods" "m_set CreateContainerRequest_exec_id_methods" "[]" "m_mut CreateContainerRequest_exec_id_methods" "m_take CreateContainerRequest_exec_id_methods"
  by (rule owned_fieldI [OF CreateContainerRequest_exec_id_methods_def lensI]) simp_all
interpretation CreateContainerRequest_string_user_field: field "m_get (CreateContainerRequest_string_user_methods rt)" "m_clear (CreateContainerRequest_string_user_methods rt)" "m_set (CreateContainerRequest_string_user_methods rt)" "(StringUser_new rt)" "m_mut (CreateContainerRequest_string_user_methods rt)" "m_take (CreateContainerRequest_string_user_methods rt)" for rt
  by (rule message_fieldI [OF CreateContainerRequest_string_user_methods_def lensI]) simp_all
interpretation CreateContainerRequest_devices_field: field "m_get CreateContainerRequest_devices_methods" "m_clear CreateContainerRequest_devices_methods" "m_set CreateContainerRequest_devices_methods" "[]" "m_mut CreateContainerRequest_devices_methods" "m_take CreateContainerRequest_devices_methods"
  by (rule owned_fieldI [OF CreateContainerRequest_devices_methods_def lensI]) simp_all
interpretation CreateContainerRequest_storages_field: field "m_get CreateContainerRequest_storages_methods" "m_clear CreateContainerRequest_storages_methods" "m_set CreateContainerRequest_storages_methods" "[]" "m_mut CreateContainerRequest_storages_methods" "m_take CreateContainerRequest_storages_methods"
  by (rule owned_fieldI [OF CreateContainerRequest_storages_methods_def lensI]) simp_all
interpretation CreateContainerRequest_OCI_field: field "m_get (CreateContainerRequest_OCI_methods rt)" "m_clear (CreateContainerRequest_OCI_methods rt)" "m_set (CreateContainerRequest_OCI_methods rt)" "(Spec_new rt)" "m_mut (CreateContainerRequest_OCI_methods rt)" "m_take (CreateContainerRequest_OCI_methods rt)" for rt
  by (rule message_fieldI [OF CreateContainerRequest_OCI_methods_def lensI]) simp_all
interpretation CreateContainerRequest_sandbox_pidns_field: plain_field "m_get CreateContainerRequest_sandbox_pidns_methods" "m_clear CreateContainerRequest_sandbox_pidns_methods" "m_set CreateContainerRequest_sandbox_pidns_methods" "False"
  by (rule scalar_fieldI [OF CreateContainerRequest_sandbox_pidns_methods_def lensI]) simp_all

section \<open>\<open>StartContainerRequest\<close>\<close>

definition StartContainerRequest_container_id_methods :: "('u pb_StartContainerRequest, string) owned_methods" where
  "StartContainerRequest_container_id_methods = owned_field StartContainerRequest_container_id StartContainerRequest_container_id_update []"

interpretation StartContainerRequest_container_id_field: field "m_get StartContainerRequest_container_id_methods" "m_clear StartContainerRequest_container_id_methods" "m_set StartContainerRequest_container_id_methods" "[]" "m_mut StartContainerRequest_container_id_methods" "m_take StartContainerRequest_container_id_methods"
  by (rule owned_fieldI [OF StartContainerRequest_container_id_methods_def lensI]) simp_all

section \<open>\<open>RemoveContainerRequest\<close>\<close>

definition RemoveContainerRequest_container_id_methods :: "('u pb_RemoveContainerRequest, string) owned_methods" where
  "RemoveContainerRequest_container_id_methods = owned_field RemoveContainerRequest_container_id RemoveContainerRequest_container_id_update []"

definition RemoveContainerRequest_timeout_methods :: "('u pb_RemoveContainerRequest, u32) scalar_methods" where
  "RemoveContainerRequest_timeout_methods = scalar_field RemoveContainerRequest_timeout RemoveContainerRequest_timeout_update 0"

interpretation RemoveContainerRequest_container_id_field: field "m_get RemoveContainerRequest_container_id_methods" "m_clear RemoveContainerRequest_container_id_methods" "m_set RemoveContainerRequest_container_id_methods" "[]" "m_mut RemoveContainerRequest_container_id_methods" "m_take RemoveContainerRequest_container_id_methods"
  by (rule owned_fieldI [OF RemoveContainerRequest_container_id_methods_def lensI]) simp_all
interpretation RemoveContainerRequest_timeout_field: plain_field "m_get RemoveContainerRequest_timeout_methods" "m_clear RemoveContainerRequest_timeout_methods" "m_set RemoveContainerRequest_timeout_methods" "0"
  by (rule scalar_fieldI [OF RemoveContainerRequest_timeout_methods_def lensI]) simp_all

section \<open>\<open>ExecProcessRequest\<close>\<close>

definition ExecProcessRequest_container_id_methods :: "('u pb_ExecProcessRequest, string) owned_methods" where
  "ExecProcessRequest_container_id_methods = owned_field ExecProcessRequest_container_id ExecProcessRequest_container_id_update []"

definition ExecProcessRequest_exec_id_methods :: "('u pb_ExecProcessRequest, string) owned_methods" where
  "ExecProcessRequest_exec_id_methods = owned_field ExecProcessRequest_exec_id ExecProcessRequest_exec_id_update []"

definition ExecProcessRequest_string_user_methods :: "'u runtime \<Rightarrow> ('u pb_ExecProcessRequest, 'u pb_StringUser) message_methods" where
  "ExecProcessRequest_string_user_methods rt = message_field ExecProcessRequest_string_user ExecProcessRequest_string_user_update (StringUser_new rt)"

definition ExecProcessRequest_process_methods :: "'u runtime \<Rightarrow> ('u pb_ExecProcessRequest, 'u pb_Process) message_methods" where
  "ExecProcessRequest_process_methods rt = message_field ExecProcessRequest_process ExecProcessRequest_process_update (Process_new rt)"

interpretation ExecProcessRequest_container_id_field: field "m_get ExecProcessRequest_container_id_methods" "m_clear ExecProcessRequest_container_id_methods" "m_set ExecProcessRequest_container_id_methods" "[]" "m_mut ExecProcessRequest_container_id_methods" "m_take ExecProcessRequest_container_id_methods"
  by (rule owned_fieldI [OF ExecProcessRequest_container_id_methods_def lensI]) simp_all
interpretation ExecProcessRequest_exec_id_field: field "m_get ExecProcessRequest_exec_id_methods" "m_clear ExecProcessRequest_exec_id_methods" "m_set ExecProcessRequest_exec_id_methods" "[]" "m_mut ExecProcessRequest_exec_id_methods" "m_take ExecProcessRequest_exec_id_methods"
  by (rule owned_fieldI [OF ExecProcessRequest_exec_id_methods_def lensI]) simp_all
interpretation ExecProcessRequest_string_user_field: field "m_get (ExecProcessRequest_string_user_methods rt)" "m_clear (ExecProcessRequest_string_user_methods rt)" "m_set (ExecProcessRequest_string_user_methods rt)" "(StringUser_new rt)" "m_mut (ExecProcessRequest_string_user_methods rt)" "m_take (ExecProcessRequest_string_user_methods rt)" for rt
  by (rule message_fieldI [OF ExecProcessRequest_string_user_methods_def lensI]) simp_all
interpretation ExecProcessRequest_process_field: field "m_get (ExecProcessRequest_process_methods rt)" "m_clear (ExecProcessRequest_process_methods rt)" "m_set (ExecProcessRequest_process_methods rt)" "(Process_new rt)" "m_mut (ExecProcessRequest_process_methods rt)" "m_take (ExecProcessRequest_process_methods rt)" for rt
  by (rule message_fieldI [OF ExecProcessRequest_process_methods_def lensI]) simp_all

section \<open>\<open>SignalProcessRequest\<close>\<close>

definition SignalProcessRequest_container_id_methods :: "('u pb_SignalProcessRequest, string) owned_methods" where
  "SignalProcessRequest_container_id_methods = owned_field SignalProcessRequest_container_id SignalProcessRequest_container_id_update []"

definition SignalProcessRequest_exec_id_methods :: "('u pb_SignalProcessRequest, string) owned_methods" where
  "SignalProcessRequest_exec_id_methods = owned_field SignalProcessRequest_exec_id SignalProcessRequest_exec_id_update []"

definition SignalProcessRequest_signal_methods :: "('u pb_SignalProcessRequest, u32) scalar_methods" where
  "SignalProcessRequest_signal_methods = scalar_field SignalProcessRequest_signal SignalProcessRequest_signal_update 0"

interpretation SignalProcessRequest_container_id_field: field "m_get SignalProcessRequest_container_id_methods" "m_clear SignalProcessRequest_container_id_methods" "m_set SignalProcessRequest_container_id_methods" "[]" "m_mut SignalProcessRequest_container_id_methods" "m_take SignalProcessRequest_container_id_methods"
  by (rule owned_fieldI [OF SignalProcessRequest_container_id_methods_def lensI]) simp_all
interpretation SignalProcessRequest_exec_id_field: field "m_get SignalProcessRequest_exec_id_methods" "m_clear SignalProcessRequest_exec_id_methods" "m_set SignalProcessRequest_exec_id_methods" "[]" "m_mut SignalProcessRequest_exec_id_methods" "m_take SignalProcessRequest_exec_id_methods"
  by (rule owned_fieldI [OF SignalProcessRequest_exec_id_methods_def lensI]) simp_all
interpretation SignalProcessRequest_signal_field: plain_field "m_get SignalProcessRequest_signal_methods" "m_clear SignalProcessRequest_signal_methods" "m_set SignalProcessRequest_signal_methods" "0"
  by (rule scalar_fieldI [OF SignalProcessRequest_signal_methods_def lensI]) simp_all

section \<open>\<open>WaitProcessRequest\<close>\<close>

definition WaitProcessRequest_container_id_methods :: "('u pb_WaitProcessRequest, string) owned_methods" where
  "WaitProcessRequest_container_id_methods = owned_field WaitProcessRequest_container_id WaitProcessRequest_container_id_update []"

definition WaitProcessRequest_exec_id_methods :: "('u pb_WaitProcessRequest, string) owned_methods" where
  "WaitProcessRequest_exec_id_methods = owned_field WaitProcessRequest_exec_id WaitProcessRequest_exec_id_update []"

interpretation WaitProcessRequest_container_id_field: field "m_get WaitProcessRequest_container_id_methods" "m_clear WaitProcessRequest_container_id_methods" "m_set WaitProcessRequest_container_id_methods" "[]" "m_mut WaitProcessRequest_container_id_methods" "m_take WaitProcessRequest_container_id_methods"
  by (rule owned_fieldI [OF WaitProcessRequest_container_id_methods_def lensI]) simp_all
interpretation WaitProcessRequest_exec_id_field: field "m_get WaitProcessRequest_exec_id_methods" "m_clear WaitProcessRequest_exec_id_methods" "m_set WaitProcessRequest_exec_id_methods" "[]" "m_mut WaitProcessRequest_exec_id_methods" "m_take WaitProcessRequest_exec_id_methods"
  by (rule owned_fieldI [OF WaitProcessRequest_exec_id_methods_def lensI]) simp_all

section \<open>\<open>WaitProcessResponse\<close>\<close>

definition WaitProcessResponse_status_methods :: "('u pb_WaitProcessResponse, u32) scalar_methods" where
  "WaitProcessResponse_status_methods = scalar_field WaitProcessResponse_status WaitProcessResponse_status_update 0"

interpretation WaitProcessResponse_status_field: plain_field "m_get WaitProcessResponse_status_methods" "m_clear WaitProcessResponse_status_methods" "m_set WaitProcessResponse_status_methods" "0"
  by (rule scalar_fieldI [OF WaitProcessResponse_status_methods_def lensI]) simp_all

section \<open>\<open>ListProcessesRequest\<close>\<close>

definition ListProcessesRequest_container_id_methods :: "('u pb_ListProcessesRequest, string) owned_methods" where
  "ListProcessesRequest_container_id_methods = owned_field ListProcessesRequest_container_id ListProcessesRequest_container_id_update []"

definition ListProcessesRequest_format_methods :: "('u pb_ListProcessesRequest, string) owned_methods" where
  "ListProcessesRequest_format_methods = owned_field ListProcessesRequest_format ListProcessesRequest_format_update []"

definition ListProcessesRequest_args_methods :: "('u pb_ListProcessesRequest, string list) owned_methods" where
  "ListProcessesRequest_args_methods = owned_field ListProcessesRequest_args ListProcessesRequest_args_update []"

interpretation ListProcessesRequest_container_id_field: field "m_get ListProcessesRequest_container_id_methods" "m_clear ListProcessesRequest_container_id_methods" "m_set ListProcessesRequest_container_id_methods" "[]" "m_mut ListProcessesRequest_container_id_methods" "m_take ListProcessesRequest_container_id_methods"
  by (rule owned_fieldI [OF ListProcessesRequest_container_id_methods_def lensI]) simp_all
interpretation ListProcessesRequest_format_field: field "m_get ListProcessesRequest_format_methods" "m_clear ListProcessesRequest_format_methods" "m_set ListProcessesRequest_format_methods" "[]" "m_mut ListProcessesRequest_format_methods" "m_take ListProcessesRequest_format_methods"
  by (rule owned_fieldI [OF ListProcessesRequest_format_methods_def lensI]) simp_all
interpretation ListProcessesRequest_args_field: field "m_get ListProcessesRequest_args_methods" "m_clear ListProcessesRequest_args_methods" "m_set ListProcessesRequest_args_methods" "[]" "m_mut ListProcessesRequest_args_methods" "m_take ListProcessesRequest_args_methods"
  by (rule owned_fieldI [OF ListProcessesRequest_args_methods_def lensI]) simp_all

section \<open>\<open>ListProcessesResponse\<close>\<close>

definition ListProcessesResponse_process_list_methods :: "('u pb_ListProcessesResponse, bytes) owned_methods" where
  "ListProcessesResponse_process_list_methods = owned_field ListProcessesResponse_process_list ListProcessesResponse_process_list_update []"

interpretation ListProcessesResponse_process_list_field: field "m_get ListProcessesResponse_process_list_methods" "m_clear ListProcessesResponse_process_list_methods" "m_set ListProcessesResponse_process_list_methods" "[]" "m_mut ListProcessesResponse_process_list_methods" "m_take ListProcessesResponse_process_list_methods"
  by (rule owned_fieldI [OF ListProcessesResponse_process_list_methods_def lensI]) simp_all

section \<open>\<open>UpdateContainerRequest\<close>\<close>

definition UpdateContainerRequest_container_id_methods :: "('u pb_UpdateContainerRequest, string) owned_methods" where
  "UpdateContainerRequest_container_id_methods = owned_field UpdateContainerRequest_container_id UpdateContainerRequest_container_id_update []"

definition UpdateContainerRequest_resources_methods :: "'u runtime \<Rightarrow> ('u pb_UpdateContainerRequest, 'u pb_LinuxResources) message_methods" where
  "UpdateContainerRequest_resources_methods rt = message_field UpdateContainerRequest_resources UpdateContainerRequest_resources_update (LinuxResources_new rt)"

interpretation UpdateContainerRequest_container_id_field: field "m_get UpdateContainerRequest_container_id_methods" "m_clear UpdateContainerRequest_container_id_methods" "m_set UpdateContainerRequest_container_id_methods" "[]" "m_mut UpdateContainerRequest_container_id_methods" "m_take UpdateContainerRequest_container_id_methods"
  by (rule owned_fieldI [OF UpdateContainerRequest_container_id_methods_def lensI]) simp_all
interpretation UpdateContainerRequest_resources_field: field "m_get (UpdateContainerRequest_resources_methods rt)" "m_clear (UpdateContainerRequest_resources_methods rt)" "m_set (UpdateContainerRequest_resources_methods rt)" "(LinuxResources_new rt)" "m_mut (UpdateContainerRequest_resources_methods rt)" "m_take (UpdateContainerRequest_resources_methods rt)" for rt
  by (rule message_fieldI [OF UpdateContainerRequest_resources_methods_def lensI]) simp_all

section \<open>\<open>StatsContainerRequest\<close>\<close>

definition StatsContainerRequest_container_id_methods :: "('u pb_StatsContainerRequest, string) owned_methods" where
  "StatsContainerRequest_container_id_methods = owned_field StatsContainerRequest_container_id StatsContainerRequest_container_id_update []"

interpretation StatsContainerRequest_container_id_field: field "m_get StatsContainerRequest_container_id_methods" "m_clear StatsContainerRequest_container_id_methods" "m_set StatsContainerRequest_container_id_methods" "[]" "m_mut StatsContainerRequest_container_id_methods" "m_take StatsContainerRequest_container_id_methods"
  by (rule owned_fieldI [OF StatsContainerRequest_container_id_methods_def lensI]) simp_all

section \<open>\<open>PauseContainerRequest\<close>\<close>

definition PauseContainerRequest_container_id_methods :: "('u pb_PauseContainerRequest, string) owned_methods" where
  "PauseContainerRequest_container_id_methods = owned_field PauseContainerRequest_container_id PauseContainerRequest_container_id_update []"

interpretation PauseContainerRequest_container_id_field: field "m_get PauseContainerRequest_container_id_methods" "m_clear PauseContainerRequest_container_id_methods" "m_set PauseContainerRequest_container_id_methods" "[]" "m_mut PauseContainerRequest_container_id_methods" "m_take PauseContainerRequest_container_id_methods"
  by (rule owned_fieldI [OF PauseContainerRequest_container_id_methods_def lensI]) simp_all

section \<open>\<open>ResumeContainerRequest\<close>\<close>

definition ResumeContainerRequest_container_id_methods :: "('u pb_ResumeContainerRequest, string) owned_methods" where
  "ResumeContainerRequest_container_id_methods = owned_field ResumeContainerRequest_container_id ResumeContainerRequest_container_id_update []"

interpretation ResumeContainerRequest_container_id_field: field "m_get ResumeContainerRequest_container_id_methods" "m_clear ResumeContainerRequest_container_id_methods" "m_set ResumeContainerRequest_container_id_methods" "[]" "m_mut ResumeContainerRequest_container_id_methods" "m_take ResumeContainerRequest_container_id_methods"
  by (rule owned_fieldI [OF ResumeContainerRequest_container_id_methods_def lensI]) simp_all

section \<open>\<open>CpuUsage\<close>\<close>

definition CpuUsage_total_usage_methods :: "('u pb_CpuUsage, u64) scalar_methods" where
  "CpuUsage_total_usage_methods = scalar_field CpuUsage_total_usage CpuUsage_total_usage_update 0"

definition CpuUsage_percpu_usage_methods :: "('u pb_CpuUsage, u64 list) owned_methods" where
  "CpuUsage_percpu_usage_methods = owned_field CpuUsage_percpu_usage CpuUsage_percpu_usage_update []"

definition CpuUsage_usage_in_kernelmode_methods :: "('u pb_CpuUsage, u64) scalar_methods" where
  "CpuUsage_usage_in_kernelmode_methods = scalar_field CpuUsage_usage_in_kernelmode CpuUsage_usage_in_kernelmode_update 0"

definition CpuUsage_usage_in_usermode_methods :: "('u pb_CpuUsage, u64) scalar_methods" where
  "CpuUsage_usage_in_usermode_methods = scalar_field CpuUsage_usage_in_usermode CpuUsage_usage_in_usermode_update 0"

interpretation CpuUsage_total_usage_field: plain_field "m_get CpuUsage_total_usage_methods" "m_clear CpuUsage_total_usage_methods" "m_set CpuUsage_total_usage_methods" "0"
  by (rule scalar_fieldI [OF CpuUsage_total_usage_methods_def lensI]) simp_all
interpretation CpuUsage_percpu_usage_field: field "m_get CpuUsage_percpu_usage_methods" "m_clear CpuUsage_percpu_usage_methods" "m_set CpuUsage_percpu_usage_methods" "[]" "m_mut CpuUsage_percpu_usage_methods" "m_take CpuUsage_percpu_usage_methods"
  by (rule owned_fieldI [OF CpuUsage_percpu_usage_methods_def lensI]) simp_all
interpretation CpuUsage_usage_in_kernelmode_field: plain_field "m_get CpuUsage_usage_in_kernelmode_methods" "m_clear CpuUsage_usage_in_kernelmode_methods" "m_set CpuUsage_usage_in_kernelmode_methods" "0"
  by (rule scalar_fieldI [OF CpuUsage_usage_in_kernelmode_methods_def lensI]) simp_all
interpretation CpuUsage_usage_in_usermode_field: plain_field "m_get CpuUsage_usage_in_usermode_methods" "m_clear CpuUsage_usage_in_usermode_methods" "m_set CpuUsage_usage_in_usermode_methods" "0"
  by (rule scalar_fieldI [OF CpuUsage_usage_in_usermode_methods_def lensI]) simp_all

section \<open>\<open>ThrottlingData\<close>\<close>

definition ThrottlingData_periods_methods :: "('u pb_ThrottlingData, u64) scalar_methods" where
  "ThrottlingData_periods_methods = scalar_field ThrottlingData_periods ThrottlingData_periods_update 0"

definition ThrottlingData_throttled_periods_methods :: "('u pb_ThrottlingData, u64) scalar_methods" where
  "ThrottlingData_throttled_periods_methods = scalar_field ThrottlingData_throttled_periods ThrottlingData_throttled_periods_update 0"

definition ThrottlingData_throttled_time_methods :: "('u pb_ThrottlingData, u64) scalar_methods" where
  "ThrottlingData_throttled_time_methods = scalar_field ThrottlingData_throttled_time ThrottlingData_throttled_time_update 0"

interpretation ThrottlingData_periods_field: plain_field "m_get ThrottlingData_periods_methods" "m_clear ThrottlingData_periods_methods" "m_set ThrottlingData_periods_methods" "0"
  by (rule scalar_fieldI [OF ThrottlingData_periods_methods_def lensI]) simp_all
interpretation ThrottlingData_throttled_periods_field: plain_field "m_get ThrottlingData_throttled_periods_methods" "m_clear ThrottlingData_throttled_periods_methods" "m_set ThrottlingData_throttled_periods_methods" "0"
  by (rule scalar_fieldI [OF ThrottlingData_throttled_periods_methods_def lensI]) simp_all
interpretation ThrottlingData_throttled_time_field: plain_field "m_get ThrottlingData_throttled_time_methods" "m_clear ThrottlingData_throttled_time_methods" "m_set ThrottlingData_throttled_time_methods" "0"
  by (rule scalar_fieldI [OF ThrottlingData_throttled_time_methods_def lensI]) simp_all

section \<open>\<open>CpuStats\<close>\<close>

definition CpuStats_cpu_usage_methods :: "'u runtime \<Rightarrow> ('u pb_CpuStats, 'u pb_CpuUsage) message_methods" where
  "CpuStats_cpu_usage_methods rt = message_field CpuStats_cpu_usage CpuStats_cpu_usage_update (CpuUsage_new rt)"

definition CpuStats_throttling_data_methods :: "'u runtime \<Rightarrow> ('u pb_CpuStats, 'u pb_ThrottlingData) message_methods" where
  "CpuStats_throttling_data_methods rt = message_field CpuStats_throttling_data CpuStats_throttling_data_update (ThrottlingData_new rt)"

interpretation CpuStats_cpu_usage_field: field "m_get (CpuStats_cpu_usage_methods rt)" "m_clear (CpuStats_cpu_usage_methods rt)" "m_set (CpuStats_cpu_usage_methods rt)" "(CpuUsage_new rt)" "m_mut (CpuStats_cpu_usage_methods rt)" "m_take (CpuStats_cpu_usage_methods rt)" for rt
  by (rule message_fieldI [OF CpuStats_cpu_usage_methods_def lensI]) simp_all
interpretation CpuStats_throttling_data_field: field "m_get (CpuStats_throttling_data_methods rt)" "m_clear (CpuStats_throttling_data_methods rt)" "m_set (CpuStats_throttling_data_methods rt)" "(ThrottlingData_new rt)" "m_mut (CpuStats_throttling_data_methods rt)" "m_take (CpuStats_throttling_data_methods rt)" for rt
  by (rule message_fieldI [OF CpuStats_throttling_data_methods_def lensI]) simp_all

section \<open>\<open>PidsStats\<close>\<close>

definition PidsStats_current_methods :: "('u pb_PidsStats, u64) scalar_methods" where
  "PidsStats_current_methods = scalar_field PidsStats_current PidsStats_current_update 0"

definition PidsStats_limit_methods :: "('u pb_PidsStats, u64) scalar_methods" where
  "PidsStats_limit_methods = scalar_field PidsStats_limit PidsStats_limit_update 0"

interpretation PidsStats_current_field: plain_field "m_get PidsStats_current_methods" "m_clear PidsStats_current_methods" "m_set PidsStats_current_methods" "0"
  by (rule scalar_fieldI [OF PidsStats_current_methods_def lensI]) simp_all
interpretation PidsStats_limit_field: plain_field "m_get PidsStats_limit_methods" "m_clear PidsStats_limit_methods" "m_set PidsStats_limit_methods" "0"
  by (rule scalar_fieldI [OF PidsStats_limit_methods_def lensI]) simp_all

section \<open>\<open>MemoryData\<close>\<close>

definition MemoryData_usage_methods :: "('u pb_MemoryData, u64) scalar_methods" where
  "MemoryData_usage_methods = scalar_field MemoryData_usage MemoryData_usage_update 0"

definition MemoryData_max_usage_methods :: "('u pb_MemoryData, u64) scalar_methods" where
  "MemoryData_max_usage_methods = scalar_field MemoryData_max_usage MemoryData_max_usage_update 0"

definition MemoryData_failcnt_methods :: "('u pb_MemoryData, u64) scalar_methods" where
  "MemoryData_failcnt_methods = scalar_field MemoryData_failcnt MemoryData_failcnt_update 0"

definition MemoryData_limit_methods :: "('u pb_MemoryData, u64) scalar_methods" where
  "MemoryData_limit_methods = scalar_field MemoryData_limit MemoryData_limit_update 0"

interpretation MemoryData_usage_field: plain_field "m_get MemoryData_usage_methods" "m_clear MemoryData_usage_methods" "m_set MemoryData_usage_methods" "0"
  by (rule scalar_fieldI [OF MemoryData_usage_methods_def lensI]) simp_all
interpretation MemoryData_max_usage_field: plain_field "m_get MemoryData_max_usage_methods" "m_clear MemoryData_max_usage_methods" "m_set MemoryData_max_usage_methods" "0"
  by (rule scalar_fieldI [OF MemoryData_max_usage_methods_def lensI]) simp_all
interpretation MemoryData_failcnt_field: plain_field "m_get MemoryData_failcnt_methods" "m_clear MemoryData_failcnt_methods" "m_set MemoryData_failcnt_methods" "0"
  by (rule scalar_fieldI [OF MemoryData_failcnt_methods_def lensI]) simp_all
interpretation MemoryData_limit_field: plain_field "m_get MemoryData_limit_methods" "m_clear MemoryData_limit_methods" "m_set MemoryData_limit_methods" "0"
  by (rule scalar_fieldI [OF MemoryData_limit_methods_def lensI]) simp_all

section \<open>\<open>MemoryStats\<close>\<close>

definition MemoryStats_cache_methods :: "('u pb_MemoryStats, u64) scalar_methods" where
  "MemoryStats_cache_methods = scalar_field MemoryStats_cache MemoryStats_cache_update 0"

definition MemoryStats_usage_methods :: "'u runtime \<Rightarrow> ('u pb_MemoryStats, 'u pb_MemoryData) message_methods" where
  "MemoryStats_usage_methods rt = message_field MemoryStats_usage MemoryStats_usage_update (MemoryData_new rt)"

definition MemoryStats_swap_usage_methods :: "'u runtime \<Rightarrow> ('u pb_MemoryStats, 'u pb_MemoryData) message_methods" where
  "MemoryStats_swap_usage_methods rt = message_field MemoryStats_swap_usage MemoryStats_swap_usage_update (MemoryData_new rt)"

definition MemoryStats_kernel_usage_methods :: "'u runtime \<Rightarrow> ('u pb_MemoryStats, 'u pb_MemoryData) message_methods" where
  "MemoryStats_kernel_usage_methods rt = message_field MemoryStats_kernel_usage MemoryStats_kernel_usage_update (MemoryData_new rt)"

definition MemoryStats_use_hierarchy_methods :: "('u pb_MemoryStats, bool) scalar_methods" where
  "MemoryStats_use_hierarchy_methods = scalar_field MemoryStats_use_hierarchy MemoryStats_use_hierarchy_update False"

definition MemoryStats_stats_methods :: "('u pb_MemoryStats, (string \<times> u64) list) owned_methods" where
  "MemoryStats_stats_methods = owned_field MemoryStats_stats MemoryStats_stats_update []"

interpretation MemoryStats_cache_field: plain_field "m_get MemoryStats_cache_methods" "m_clear MemoryStats_cache_methods" "m_set MemoryStats_cache_methods" "0"
  by (rule scalar_fieldI [OF MemoryStats_cache_methods_def lensI]) simp_all
interpretation MemoryStats_usage_field: field "m_get (MemoryStats_usage_methods rt)" "m_clear (MemoryStats_usage_methods rt)" "m_set (MemoryStats_usage_methods rt)" "(MemoryData_new rt)" "m_mut (MemoryStats_usage_methods rt)" "m_take (MemoryStats_usage_methods rt)" for rt
  by (rule message_fieldI [OF MemoryStats_usage_methods_def lensI]) simp_all
interpretation MemoryStats_swap_usage_field: field "m_get (MemoryStats_swap_usage_methods rt)" "m_clear (MemoryStats_swap_usage_methods rt)" "m_set (MemoryStats_swap_usage_methods rt)" "(MemoryData_new rt)" "m_mut (MemoryStats_swap_usage_methods rt)" "m_take (MemoryStats_swap_usage_methods rt)" for rt
  by (rule message_fieldI [OF MemoryStats_swap_usage_methods_def lensI]) simp_all
interpretation MemoryStats_kernel_usage_field: field "m_get (MemoryStats_kernel_usage_methods rt)" "m_clear (MemoryStats_kernel_usage_methods rt)" "m_set (MemoryStats_kernel_usage_methods rt)" "(MemoryData_new rt)" "m_mut (MemoryStats_kernel_usage_methods rt)" "m_take (MemoryStats_kernel_usage_methods rt)" for rt
  by (rule message_fieldI [OF MemoryStats_kernel_usage_methods_def lensI]) simp_all
interpretation MemoryStats_use_hierarchy_field: plain_field "m_get MemoryStats_use_hierarchy_methods" "m_clear MemoryStats_use_hierarchy_methods" "m_set MemoryStats_use_hierarchy_methods" "False"
  by (rule scalar_fieldI [OF MemoryStats_use_hierarchy_methods_def lensI]) simp_all
interpretation MemoryStats_stats_field: field "m_get MemoryStats_stats_methods" "m_clear MemoryStats_stats_methods" "m_set MemoryStats_stats_methods" "[]" "m_mut MemoryStats_stats_methods" "m_take MemoryStats_stats_methods"
  by (rule owned_fieldI [OF MemoryStats_stats_methods_def lensI]) simp_all

section \<open>\<open>BlkioStatsEntry\<close>\<close>

definition BlkioStatsEntry_major_methods :: "('u pb_BlkioStatsEntry, u64) scalar_methods" where
  "BlkioStatsEntry_major_methods = scalar_field BlkioStatsEntry_major BlkioStatsEntry_major_update 0"

definition BlkioStatsEntry_minor_methods :: "('u pb_BlkioStatsEntry, u64) scalar_methods" where
  "BlkioStatsEntry_minor_methods = scalar_field BlkioStatsEntry_minor BlkioStatsEntry_minor_update 0"

definition BlkioStatsEntry_op_methods :: "('u pb_BlkioStatsEntry, string) owned_methods" where
  "BlkioStatsEntry_op_methods = owned_field BlkioStatsEntry_op BlkioStatsEntry_op_update []"

definition BlkioStatsEntry_value_methods :: "('u pb_BlkioStatsEntry, u64) scalar_methods" where
  "BlkioStatsEntry_value_methods = scalar_field BlkioStatsEntry_value BlkioStatsEntry_value_update 0"

interpretation BlkioStatsEntry_major_field: plain_field "m_get BlkioStatsEntry_major_methods" "m_clear BlkioStatsEntry_major_methods" "m_set BlkioStatsEntry_major_methods" "0"
  by (rule scalar_fieldI [OF BlkioStatsEntry_major_methods_def lensI]) simp_all
interpretation BlkioStatsEntry_minor_field: plain_field "m_get BlkioStatsEntry_minor_methods" "m_clear BlkioStatsEntry_minor_methods" "m_set BlkioStatsEntry_minor_methods" "0"
  by (rule scalar_fieldI [OF BlkioStatsEntry_minor_methods_def lensI]) simp_all
interpretation BlkioStatsEntry_op_field: field "m_get BlkioStatsEntry_op_methods" "m_clear BlkioStatsEntry_op_methods" "m_set BlkioStatsEntry_op_methods" "[]" "m_mut BlkioStatsEntry_op_methods" "m_take BlkioStatsEntry_op_methods"
  by (rule owned_fieldI [OF BlkioStatsEntry_op_methods_def lensI]) simp_all
interpretation BlkioStatsEntry_value_field: plain_field "m_get BlkioStatsEntry_value_methods" "m_clear BlkioStatsEntry_value_methods" "m_set BlkioStatsEntry_value_methods" "0"
  by (rule scalar_fieldI [OF BlkioStatsEntry_value_methods_def lensI]) simp_all

section \<open>\<open>BlkioStats\<close>\<close>

definition BlkioStats_io_service_bytes_recursive_methods :: "('u pb_BlkioStats, 'u pb_BlkioStatsEntry list) owned_methods" where
  "BlkioStats_io_service_bytes_recursive_methods = owned_field BlkioStats_io_service_bytes_recursive BlkioStats_io_service_bytes_recursive_update []"

definition BlkioStats_io_serviced_recursive_methods :: "('u pb_BlkioStats, 'u pb_BlkioStatsEntry list) owned_methods" where
  "BlkioStats_io_serviced_recursive_methods = owned_field BlkioStats_io_serviced_recursive BlkioStats_io_serviced_recursive_update []"

definition BlkioStats_io_queued_recursive_methods :: "('u pb_BlkioStats, 'u pb_BlkioStatsEntry list) owned_methods" where
  "BlkioStats_io_queued_recursive_methods = owned_field BlkioStats_io_queued_recursive BlkioStats_io_queued_recursive_update []"

definition BlkioStats_io_service_time_recursive_methods :: "('u pb_BlkioStats, 'u pb_BlkioStatsEntry list) owned_methods" where
  "BlkioStats_io_service_time_recursive_methods = owned_field BlkioStats_io_service_time_recursive BlkioStats_io_service_time_recursive_update []"

definition BlkioStats_io_wait_time_recursive_methods :: "('u pb_BlkioStats, 'u pb_BlkioStatsEntry list) owned_methods" where
  "BlkioStats_io_wait_time_recursive_methods = owned_field BlkioStats_io_wait_time_recursive BlkioStats_io_wait_time_recursive_update []"

definition BlkioStats_io_merged_recursive_methods :: "('u pb_BlkioStats, 'u pb_BlkioStatsEntry list) owned_methods" where
  "BlkioStats_io_merged_recursive_methods = owned_field BlkioStats_io_merged_recursive BlkioStats_io_merged_recursive_update []"

definition BlkioStats_io_time_recursive_methods :: "('u pb_BlkioStats, 'u pb_BlkioStatsEntry list) owned_methods" where
  "BlkioStats_io_time_recursive_methods = owned_field BlkioStats_io_time_recursive BlkioStats_io_time_recursive_update []"

definition BlkioStats_sectors_recursive_methods :: "('u pb_BlkioStats, 'u pb_BlkioStatsEntry list) owned_methods" where
  "BlkioStats_sectors_recursive_methods = owned_field BlkioStats_sectors_recursive BlkioStats_sectors_recursive_update []"

interpretation BlkioStats_io_service_bytes_recursive_field: field "m_get BlkioStats_io_service_bytes_recursive_methods" "m_clear BlkioStats_io_service_bytes_recursive_methods" "m_set BlkioStats_io_service_bytes_recursive_methods" "[]" "m_mut BlkioStats_io_service_bytes_recursive_methods" "m_take BlkioStats_io_service_bytes_recursive_methods"
  by (rule owned_fieldI [OF BlkioStats_io_service_bytes_recursive_methods_def lensI]) simp_all
interpretation BlkioStats_io_serviced_recursive_field: field "m_get BlkioStats_io_serviced_recursive_methods" "m_clear BlkioStats_io_serviced_recursive_methods" "m_set BlkioStats_io_serviced_recursive_methods" "[]" "m_mut BlkioStats_io_serviced_recursive_methods" "m_take BlkioStats_io_serviced_recursive_methods"
  by (rule owned_fieldI [OF BlkioStats_io_serviced_recursive_methods_def lensI]) simp_all
interpretation BlkioStats_io_queued_recursive_field: field "m_get BlkioStats_io_queued_recursive_methods" "m_clear BlkioStats_io_queued_recursive_methods" "m_set BlkioStats_io_queued_recursive_methods" "[]" "m_mut BlkioStats_io_queued_recursive_methods" "m_take BlkioStats_io_queued_recursive_methods"
  by (rule owned_fieldI [OF BlkioStats_io_queued_recursive_methods_def lensI]) simp_all
interpretation BlkioStats_io_service_time_recursive_field: field "m_get BlkioStats_io_service_time_recursive_methods" "m_clear BlkioStats_io_service_time_recursive_methods" "m_set BlkioStats_io_service_time_recursive_methods" "[]" "m_mut BlkioStats_io_service_time_recursive_methods" "m_take BlkioStats_io_service_time_recursive_methods"
  by (rule owned_fieldI [OF BlkioStats_io_service_time_recursive_methods_def lensI]) simp_all
interpretation BlkioStats_io_wait_time_recursive_field: field "m_get BlkioStats_io_wait_time_recursive_methods" "m_clear BlkioStats_io_wait_time_recursive_methods" "m_set BlkioStats_io_wait_time_recursive_methods" "[]" "m_mut BlkioStats_io_wait_time_recursive_methods" "m_take BlkioStats_io_wait_time_recursive_methods"
  by (rule owned_fieldI [OF BlkioStats_io_wait_time_recursive_methods_def lensI]) simp_all
interpretation BlkioStats_io_merged_recursive_field: field "m_get BlkioStats_io_merged_recursive_methods" "m_clear BlkioStats_io_merged_recursive_methods" "m_set BlkioStats_io_merged_recursive_methods" "[]" "m_mut BlkioStats_io_merged_recursive_methods" "m_take BlkioStats_io_merged_recursive_methods"
  by (rule owned_fieldI [OF BlkioStats_io_merged_recursive_methods_def lensI]) simp_all
interpretation BlkioStats_io_time_recursive_field: field "m_get BlkioStats_io_time_recursive_methods" "m_clear BlkioStats_io_time_recursive_methods" "m_set BlkioStats_io_time_recursive_methods" "[]" "m_mut BlkioStats_io_time_recursive_methods" "m_take BlkioStats_io_time_recursive_methods"
  by (rule owned_fieldI [OF BlkioStats_io_time_recursive_methods_def lensI]) simp_all
interpretation BlkioStats_sectors_recursive_field: field "m_get BlkioStats_sectors_recursive_methods" "m_clear BlkioStats_sectors_recursive_methods" "m_set BlkioStats_sectors_recursive_methods" "[]" "m_mut BlkioStats_sectors_recursive_methods" "m_take BlkioStats_sectors_recursive_methods"
  by (rule owned_fieldI [OF BlkioStats_sectors_recursive_methods_def lensI]) simp_all

section \<open>\<open>HugetlbStats\<close>\<close>

definition HugetlbStats_usage_methods :: "('u pb_HugetlbStats, u64) scalar_methods" where
  "HugetlbStats_usage_methods = scalar_field HugetlbStats_usage HugetlbStats_usage_update 0"

definition HugetlbStats_max_usage_methods :: "('u pb_HugetlbStats, u64) scalar_methods" where
  "HugetlbStats_max_usage_methods = scalar_field HugetlbStats_max_usage HugetlbStats_max_usage_update 0"

definition HugetlbStats_failcnt_methods :: "('u pb_HugetlbStats, u64) scalar_methods" where
  "HugetlbStats_failcnt_methods = scalar_field HugetlbStats_failcnt HugetlbStats_failcnt_update 0"

interpretation HugetlbStats_usage_field: plain_field "m_get HugetlbStats_usage_methods" "m_clear HugetlbStats_usage_methods" "m_set HugetlbStats_usage_methods" "0"
  by (rule scalar_fieldI [OF HugetlbStats_usage_methods_def lensI]) simp_all
interpretation HugetlbStats_max_usage_field: plain_field "m_get HugetlbStats_max_usage_methods" "m_clear HugetlbStats_max_usage_methods" "m_set HugetlbStats_max_usage_methods" "0"
  by (rule scalar_fieldI [OF HugetlbStats_max_usage_methods_def lensI]) simp_all
interpretation HugetlbStats_failcnt_field: plain_field "m_get HugetlbStats_failcnt_methods" "m_clear HugetlbStats_failcnt_methods" "m_set HugetlbStats_failcnt_methods" "0"
  by (rule scalar_fieldI [OF HugetlbStats_failcnt_methods_def lensI]) simp_all

section \<open>\<open>CgroupStats\<close>\<close>

definition CgroupStats_cpu_stats_methods :: "'u runtime \<Rightarrow> ('u pb_CgroupStats, 'u pb_CpuStats) message_methods" where
  "CgroupStats_cpu_stats_methods rt = message_field CgroupStats_cpu_stats CgroupStats_cpu_stats_update (CpuStats_new rt)"

definition CgroupStats_memory_stats_methods :: "'u runtime \<Rightarrow> ('u pb_CgroupStats, 'u pb_MemoryStats) message_methods" where
  "CgroupStats_memory_stats_methods rt = message_field CgroupStats_memory_stats CgroupStats_memory_stats_update (MemoryStats_new rt)"

definition CgroupStats_pids_stats_methods :: "'u runtime \<Rightarrow> ('u pb_CgroupStats, 'u pb_PidsStats) message_methods" where
  "CgroupStats_pids_stats_methods rt = message_field CgroupStats_pids_stats CgroupStats_pids_stats_update (PidsStats_new rt)"

definition CgroupStats_blkio_stats_methods :: "'u runtime \<Rightarrow> ('u pb_CgroupStats, 'u pb_BlkioStats) message_methods" where
  "CgroupStats_blkio_stats_methods rt = message_field CgroupStats_blkio_stats CgroupStats_blkio_stats_update (BlkioStats_new rt)"

definition CgroupStats_hugetlb_stats_methods :: "('u pb_CgroupStats, (string \<times> 'u pb_HugetlbStats) list) owned_methods" where
  "CgroupStats_hugetlb_stats_methods = owned_field CgroupStats_hugetlb_stats CgroupStats_hugetlb_stats_update []"

interpretation CgroupStats_cpu_stats_field: field "m_get (CgroupStats_cpu_stats_methods rt)" "m_clear (CgroupStats_cpu_stats_methods rt)" "m_set (CgroupStats_cpu_stats_methods rt)" "(CpuStats_new rt)" "m_mut (CgroupStats_cpu_stats_methods rt)" "m_take (CgroupStats_cpu_stats_methods rt)" for rt
  by (rule message_fieldI [OF CgroupStats_cpu_stats_methods_def lensI]) simp_all
interpretation CgroupStats_memory_stats_field: field "m_get (CgroupStats_memory_stats_methods rt)" "m_clear (CgroupStats_memory_stats_methods rt)" "m_set (CgroupStats_memory_stats_methods rt)" "(MemoryStats_new rt)" "m_mut (CgroupStats_memory_stats_methods rt)" "m_take (CgroupStats_memory_stats_methods rt)" for rt
  by (rule message_fieldI [OF CgroupStats_memory_stats_methods_def lensI]) simp_all
interpretation CgroupStats_pids_stats_field: field "m_get (CgroupStats_pids_stats_methods rt)" "m_clear (CgroupStats_pids_stats_methods rt)" "m_set (CgroupStats_pids_stats_methods rt)" "(PidsStats_new rt)" "m_mut (CgroupStats_pids_stats_methods rt)" "m_take (CgroupStats_pids_stats_methods rt)" for rt
  by (rule message_fieldI [OF CgroupStats_pids_stats_methods_def lensI]) simp_all
interpretation CgroupStats_blkio_stats_field: field "m_get (CgroupStats_blkio_stats_methods rt)" "m_clear (CgroupStats_blkio_stats_methods rt)" "m_set (CgroupStats_blkio_stats_methods rt)" "(BlkioStats_new rt)" "m_mut (CgroupStats_blkio_stats_methods rt)" "m_take (CgroupStats_blkio_stats_methods rt)" for rt
  by (rule message_fieldI [OF CgroupStats_blkio_stats_methods_def lensI]) simp_all
interpretation CgroupStats_hugetlb_stats_field: field "m_get CgroupStats_hugetlb_stats_methods" "m_clear CgroupStats_hugetlb_stats_methods" "m_set CgroupStats_hugetlb_stats_methods" "[]" "m_mut CgroupStats_hugetlb_stats_methods" "m_take CgroupStats_hugetlb_stats_methods"
  by (rule owned_fieldI [OF CgroupStats_hugetlb_stats_methods_def lensI]) simp_all

section \<open>\<open>NetworkStats\<close>\<close>

definition NetworkStats_name_methods :: "('u pb_NetworkStats, string) owned_methods" where
  "NetworkStats_name_methods = owned_field NetworkStats_name NetworkStats_name_update []"

definition NetworkStats_rx_bytes_methods :: "('u pb_NetworkStats, u64) scalar_methods" where
  "NetworkStats_rx_bytes_methods = scalar_field NetworkStats_rx_bytes NetworkStats_rx_bytes_update 0"

definition NetworkStats_rx_packets_methods :: "('u pb_NetworkStats, u64) scalar_methods" where
  "NetworkStats_rx_packets_methods = scalar_field NetworkStats_rx_packets NetworkStats_rx_packets_update 0"

definition NetworkStats_rx_errors_methods :: "('u pb_NetworkStats, u64) scalar_methods" where
  "NetworkStats_rx_errors_methods = scalar_field NetworkStats_rx_errors NetworkStats_rx_errors_update 0"

definition NetworkStats_rx_dropped_methods :: "('u pb_NetworkStats, u64) scalar_methods" where
  "NetworkStats_rx_dropped_methods = scalar_field NetworkStats_rx_dropped NetworkStats_rx_dropped_update 0"

definition NetworkStats_tx_bytes_methods :: "('u pb_NetworkStats, u64) scalar_methods" where
  "NetworkStats_tx_bytes_methods = scalar_field NetworkStats_tx_bytes NetworkStats_tx_bytes_update 0"

definition NetworkStats_tx_packets_methods :: "('u pb_NetworkStats, u64) scalar_methods" where
  "NetworkStats_tx_packets_methods = scalar_field NetworkStats_tx_packets NetworkStats_tx_packets_update 0"

definition NetworkStats_tx_errors_methods :: "('u pb_NetworkStats, u64) scalar_methods" where
  "NetworkStats_tx_errors_methods = scalar_field NetworkStats_tx_errors NetworkStats_tx_errors_update 0"

definition NetworkStats_tx_dropped_methods :: "('u pb_NetworkStats, u64) scalar_methods" where
  "NetworkStats_tx_dropped_methods = scalar_field NetworkStats_tx_dropped NetworkStats_tx_dropped_update 0"

interpretation NetworkStats_name_field: field "m_get NetworkStats_name_methods" "m_clear NetworkStats_name_methods" "m_set NetworkStats_name_methods" "[]" "m_mut NetworkStats_name_methods" "m_take NetworkStats_name_methods"
  by (rule owned_fieldI [OF NetworkStats_name_methods_def lensI]) simp_all
interpretation NetworkStats_rx_bytes_field: plain_field "m_get NetworkStats_rx_bytes_methods" "m_clear NetworkStats_rx_bytes_methods" "m_set NetworkStats_rx_bytes_methods" "0"
  by (rule scalar_fieldI [OF NetworkStats_rx_bytes_methods_def lensI]) simp_all
interpretation NetworkStats_rx_packets_field: plain_field "m_get NetworkStats_rx_packets_methods" "m_clear NetworkStats_rx_packets_methods" "m_set NetworkStats_rx_packets_methods" "0"
  by (rule scalar_fieldI [OF NetworkStats_rx_packets_methods_def lensI]) simp_all
interpretation NetworkStats_rx_errors_field: plain_field "m_get NetworkStats_rx_errors_methods" "m_clear NetworkStats_rx_errors_methods" "m_set NetworkStats_rx_errors_methods" "0"
  by (rule scalar_fieldI [OF NetworkStats_rx_errors_methods_def lensI]) simp_all
interpretation NetworkStats_rx_dropped_field: plain_field "m_get NetworkStats_rx_dropped_methods" "m_clear NetworkStats_rx_dropped_methods" "m_set NetworkStats_rx_dropped_methods" "0"
  by (rule scalar_fieldI [OF NetworkStats_rx_dropped_methods_def lensI]) simp_all
interpretation NetworkStats_tx_bytes_field: plain_field "m_get NetworkStats_tx_bytes_methods" "m_clear NetworkStats_tx_bytes_methods" "m_set NetworkStats_tx_bytes_methods" "0"
  by (rule scalar_fieldI [OF NetworkStats_tx_bytes_methods_def lensI]) simp_all
interpretation NetworkStats_tx_packets_field: plain_field "m_get NetworkStats_tx_packets_methods" "m_clear NetworkStats_tx_packets_methods" "m_set NetworkStats_tx_packets_methods" "0"
  by (rule scalar_fieldI [OF NetworkStats_tx_packets_methods_def lensI]) simp_all
interpretation NetworkStats_tx_errors_field: plain_field "m_get NetworkStats_tx_errors_methods" "m_clear NetworkStats_tx_errors_methods" "m_set NetworkStats_tx_errors_methods" "0"
  by (rule scalar_fieldI [OF NetworkStats_tx_errors_methods_def lensI]) simp_all
interpretation NetworkStats_tx_dropped_field: plain_field "m_get NetworkStats_tx_dropped_methods" "m_clear NetworkStats_tx_dropped_methods" "m_set NetworkStats_tx_dropped_methods" "0"
  by (rule scalar_fieldI [OF NetworkStats_tx_dropped_methods_def lensI]) simp_all

section \<open>\<open>StatsContainerResponse\<close>\<close>

definition StatsContainerResponse_cgroup_stats_methods :: "'u runtime \<Rightarrow> ('u pb_StatsContainerResponse, 'u pb_CgroupStats) message_methods" where
  "StatsContainerResponse_cgroup_stats_methods rt = message_field StatsContainerResponse_cgroup_stats StatsContainerResponse_cgroup_stats_update (CgroupStats_new rt)"

definition StatsContainerResponse_network_stats_methods :: "('u pb_StatsContainerResponse, 'u pb_NetworkStats list) owned_methods" where
  "StatsContainerResponse_network_stats_methods = owned_field StatsContainerResponse_network_stats StatsContainerResponse_network_stats_update []"

interpretation StatsContainerResponse_cgroup_stats_field: field "m_get (StatsContainerResponse_cgroup_stats_methods rt)" "m_clear (StatsContainerResponse_cgroup_stats_methods rt)" "m_set (StatsContainerResponse_cgroup_stats_methods rt)" "(CgroupStats_new rt)" "m_mut (StatsContainerResponse_cgroup_stats_methods rt)" "m_take (StatsContainerResponse_cgroup_stats_methods rt)" for rt
  by (rule message_fieldI [OF StatsContainerResponse_cgroup_stats_methods_def lensI]) simp_all
interpretation StatsContainerResponse_network_stats_field: field "m_get StatsContainerResponse_network_stats_methods" "m_clear StatsContainerResponse_network_stats_methods" "m_set StatsContainerResponse_network_stats_methods" "[]" "m_mut StatsContainerResponse_network_stats_methods" "m_take StatsContainerResponse_network_stats_methods"
  by (rule owned_fieldI [OF StatsContainerResponse_network_stats_methods_def lensI]) simp_all

section \<open>\<open>WriteStreamRequest\<close>\<close>

definition WriteStreamRequest_container_id_methods :: "('u pb_WriteStreamRequest, string) owned_methods" where
  "WriteStreamRequest_container_id_methods = owned_field WriteStreamRequest_container_id WriteStreamRequest_container_id_update []"

definition WriteStreamRequest_exec_id_methods :: "('u pb_WriteStreamRequest, string) owned_methods" where
  "WriteStreamRequest_exec_id_methods = owned_field WriteStreamRequest_exec_id WriteStreamRequest_exec_id_update []"

definition WriteStreamRequest_data_methods :: "('u pb_WriteStreamRequest, bytes) owned_methods" where
  "WriteStreamRequest_data_methods = owned_field WriteStreamRequest_data WriteStreamRequest_data_update []"

interpretation WriteStreamRequest_container_id_field: field "m_get WriteStreamRequest_container_id_methods" "m_clear WriteStreamRequest_container_id_methods" "m_set WriteStreamRequest_container_id_methods" "[]" "m_mut WriteStreamRequest_container_id_methods" "m_take WriteStreamRequest_container_id_methods"
  by (rule owned_fieldI [OF WriteStreamRequest_container_id_methods_def lensI]) simp_all
interpretation WriteStreamRequest_exec_id_field: field "m_get WriteStreamRequest_exec_id_methods" "m_clear WriteStreamRequest_exec_id_methods" "m_set WriteStreamRequest_exec_id_methods" "[]" "m_mut WriteStreamRequest_exec_id_methods" "m_take WriteStreamRequest_exec_id_methods"
  by (rule owned_fieldI [OF WriteStreamRequest_exec_id_methods_def lensI]) simp_all
interpretation WriteStreamRequest_data_field: field "m_get WriteStreamRequest_data_methods" "m_clear WriteStreamRequest_data_methods" "m_set WriteStreamRequest_data_methods" "[]" "m_mut WriteStreamRequest_data_methods" "m_take WriteStreamRequest_data_methods"
  by (rule owned_fieldI [OF WriteStreamRequest_data_methods_def lensI]) simp_all

section \<open>\<open>WriteStreamResponse\<close>\<close>

definition WriteStreamResponse_len_methods :: "('u pb_WriteStreamResponse, u32) scalar_methods" where
  "WriteStreamResponse_len_methods = scalar_field WriteStreamResponse_len WriteStreamResponse_len_update 0"

interpretation WriteStreamResponse_len_field: plain_field "m_get WriteStreamResponse_len_methods" "m_clear WriteStreamResponse_len_methods" "m_set WriteStreamResponse_len_methods" "0"
  by (rule scalar_fieldI [OF WriteStreamResponse_len_methods_def lensI]) simp_all

section \<open>\<open>ReadStreamRequest\<close>\<close>

definition ReadStreamRequest_container_id_methods :: "('u pb_ReadStreamRequest, string) owned_methods" where
  "ReadStreamRequest_container_id_methods = owned_field ReadStreamRequest_container_id ReadStreamRequest_container_id_update []"

definition ReadStreamRequest_exec_id_methods :: "('u pb_ReadStreamRequest, string) owned_methods" where
  "ReadStreamRequest_exec_id_methods = owned_field ReadStreamRequest_exec_id ReadStreamRequest_exec_id_update []"

definition ReadStreamRequest_len_methods :: "('u pb_ReadStreamRequest, u32) scalar_methods" where
  "ReadStreamRequest_len_methods = scalar_field ReadStreamRequest_len ReadStreamRequest_len_update 0"

interpretation ReadStreamRequest_container_id_field: field "m_get ReadStreamRequest_container_id_methods" "m_clear ReadStreamRequest_container_id_methods" "m_set ReadStreamRequest_container_id_methods" "[]" "m_mut ReadStreamRequest_container_id_methods" "m_take ReadStreamRequest_container_id_methods"
  by (rule owned_fieldI [OF ReadStreamRequest_container_id_methods_def lensI]) simp_all
interpretation ReadStreamRequest_exec_id_field: field "m_get ReadStreamRequest_exec_id_methods" "m_clear ReadStreamRequest_exec_id_methods" "m_set ReadStreamRequest_exec_id_methods" "[]" "m_mut ReadStreamRequest_exec_id_methods" "m_take ReadStreamRequest_exec_id_methods"
  by (rule owned_fieldI [OF ReadStreamRequest_exec_id_methods_def lensI]) simp_all
interpretation ReadStreamRequest_len_field: plain_field "m_get ReadStreamRequest_len_methods" "m_clear ReadStreamRequest_len_methods" "m_set ReadStreamRequest_len_methods" "0"
  by (rule scalar_fieldI [OF ReadStreamRequest_len_methods_def lensI]) simp_all

section \<open>\<open>ReadStreamResponse\<close>\<close>

definition ReadStreamResponse_data_methods :: "('u pb_ReadStreamResponse, bytes) owned_methods" where
  "ReadStreamResponse_data_methods = owned_field ReadStreamResponse_data ReadStreamResponse_data_update []"

interpretation ReadStreamResponse_data_field: field "m_get ReadStreamResponse_data_methods" "m_clear ReadStreamResponse_data_methods" "m_set ReadStreamResponse_data_methods" "[]" "m_mut ReadStreamResponse_data_methods" "m_take ReadStreamResponse_data_methods"
  by (rule owned_fieldI [OF ReadStreamResponse_data_methods_def lensI]) simp_all

section \<open>\<open>CloseStdinRequest\<close>\<close>

definition CloseStdinRequest_container_id_methods :: "('u pb_CloseStdinRequest, string) owned_methods" where
  "CloseStdinRequest_container_id_methods = owned_field CloseStdinRequest_container_id CloseStdinRequest_container_id_update []"

definition CloseStdinRequest_exec_id_methods :: "('u pb_CloseStdinRequest, string) owned_methods" where
  "CloseStdinRequest_exec_id_methods = owned_field CloseStdinRequest_exec_id CloseStdinRequest_exec_id_update []"

interpretation CloseStdinRequest_container_id_field: field "m_get CloseStdinRequest_container_id_methods" "m_clear CloseStdinRequest_container_id_methods" "m_set CloseStdinRequest_container_id_methods" "[]" "m_mut CloseStdinRequest_container_id_methods" "m_take CloseStdinRequest_container_id_methods"
  by (rule owned_fieldI [OF CloseStdinRequest_container_id_methods_def lensI]) simp_all
interpretation CloseStdinRequest_exec_id_field: field "m_get CloseStdinRequest_exec_id_methods" "m_clear CloseStdinRequest_exec_id_methods" "m_set CloseStdinRequest_exec_id_methods" "[]" "m_mut CloseStdinRequest_exec_id_methods" "m_take CloseStdinRequest_exec_id_methods"
  by (rule owned_fieldI [OF CloseStdinRequest_exec_id_methods_def lensI]) simp_all

section \<open>\<open>TtyWinResizeRequest\<close>\<close>

definition TtyWinResizeRequest_container_id_methods :: "('u pb_TtyWinResizeRequest, string) owned_methods" where
  "TtyWinResizeRequest_container_id_methods = owned_field TtyWinResizeRequest_container_id TtyWinResizeRequest_container_id_update []"

definition TtyWinResizeRequest_exec_id_methods :: "('u pb_TtyWinResizeRequest, string) owned_methods" where
  "TtyWinResizeRequest_exec_id_methods = owned_field TtyWinResizeRequest_exec_id TtyWinResizeRequest_exec_id_update []"

definition TtyWinResizeRequest_row_methods :: "('u pb_TtyWinResizeRequest, u32) scalar_methods" where
  "TtyWinResizeRequest_row_methods = scalar_field TtyWinResizeRequest_row TtyWinResizeRequest_row_update 0"

definition TtyWinResizeRequest_column_methods :: "('u pb_TtyWinResizeRequest, u32) scalar_methods" where
  "TtyWinResizeRequest_column_methods = scalar_field TtyWinResizeRequest_column TtyWinResizeRequest_column_update 0"

interpretation TtyWinResizeRequest_container_id_field: field "m_get TtyWinResizeRequest_container_id_methods" "m_clear TtyWinResizeRequest_container_id_methods" "m_set TtyWinResizeRequest_container_id_methods" "[]" "m_mut TtyWinResizeRequest_container_id_methods" "m_take TtyWinResizeRequest_container_id_methods"
  by (rule owned_fieldI [OF TtyWinResizeRequest_container_id_methods_def lensI]) simp_all
interpretation TtyWinResizeRequest_exec_id_field: field "m_get TtyWinResizeRequest_exec_id_methods" "m_clear TtyWinResizeRequest_exec_id_methods" "m_set TtyWinResizeRequest_exec_id_methods" "[]" "m_mut TtyWinResizeRequest_exec_id_methods" "m_take TtyWinResizeRequest_exec_id_methods"
  by (rule owned_fieldI [OF TtyWinResizeRequest_exec_id_methods_def lensI]) simp_all
interpretation TtyWinResizeRequest_row_field: plain_field "m_get TtyWinResizeRequest_row_methods" "m_clear TtyWinResizeRequest_row_methods" "m_set TtyWinResizeRequest_row_methods" "0"
  by (rule scalar_fieldI [OF TtyWinResizeRequest_row_methods_def lensI]) simp_all
interpretation TtyWinResizeRequest_column_field: plain_field "m_get TtyWinResizeRequest_column_methods" "m_clear TtyWinResizeRequest_column_methods" "m_set TtyWinResizeRequest_column_methods" "0"
  by (rule scalar_fieldI [OF TtyWinResizeRequest_column_methods_def lensI]) simp_all

section \<open>\<open>CreateSandboxRequest\<close>\<close>

definition CreateSandboxRequest_hostname_methods :: "('u pb_CreateSandboxRequest, string) owned_methods" where
  "CreateSandboxRequest_hostname_methods = owned_field CreateSandboxRequest_hostname CreateSandboxRequest_hostname_update []"

definition CreateSandboxRequest_dns_methods :: "('u pb_CreateSandboxRequest, string list) owned_methods" where
  "CreateSandboxRequest_dns_methods = owned_field CreateSandboxRequest_dns CreateSandboxRequest_dns_update []"

definition CreateSandboxRequest_storages_methods :: "('u pb_CreateSandboxRequest, 'u pb_Storage list) owned_methods" where
  "CreateSandboxRequest_storages_methods = owned_field CreateSandboxRequest_storages CreateSandboxRequest_storages_update []"

definition CreateSandboxRequest_sandbox_pidns_methods :: "('u pb_CreateSandboxRequest, bool) scalar_methods" where
  "CreateSandboxRequest_sandbox_pidns_methods = scalar_field CreateSandboxRequest_sandbox_pidns CreateSandboxRequest_sandbox_pidns_update False"

definition CreateSandboxRequest_sandbox_id_methods :: "('u pb_CreateSandboxRequest, string) owned_methods" where
  "CreateSandboxRequest_sandbox_id_methods = owned_field CreateSandboxRequest_sandbox_id CreateSandboxRequest_sandbox_id_update []"

definition CreateSandboxRequest_guest_hook_path_methods :: "('u pb_CreateSandboxRequest, string) owned_methods" where
  "CreateSandboxRequest_guest_hook_path_methods = owned_field CreateSandboxRequest_guest_hook_path CreateSandboxRequest_guest_hook_path_update []"

interpretation CreateSandboxRequest_hostname_field: field "m_get CreateSandboxRequest_hostname_methods" "m_clear CreateSandboxRequest_hostname_methods" "m_set CreateSandboxRequest_hostname_methods" "[]" "m_mut CreateSandboxRequest_hostname_methods" "m_take CreateSandboxRequest_hostname_methods"
  by (rule owned_fieldI [OF CreateSandboxRequest_hostname_methods_def lensI]) simp_all
interpretation CreateSandboxRequest_dns_field: field "m_get CreateSandboxRequest_dns_methods" "m_clear CreateSandboxRequest_dns_methods" "m_set CreateSandboxRequest_dns_methods" "[]" "m_mut CreateSandboxRequest_dns_methods" "m_take CreateSandboxRequest_dns_methods"
  by (rule owned_fieldI [OF CreateSandboxRequest_dns_methods_def lensI]) simp_all
interpretation CreateSandboxRequest_storages_field: field "m_get CreateSandboxRequest_storages_methods" "m_clear CreateSandboxRequest_storages_methods" "m_set CreateSandboxRequest_storages_methods" "[]" "m_mut CreateSandboxRequest_storages_methods" "m_take CreateSandboxRequest_storages_methods"
  by (rule owned_fieldI [OF CreateSandboxRequest_storages_methods_def lensI]) simp_all
interpretation CreateSandboxRequest_sandbox_pidns_field: plain_field "m_get CreateSandboxRequest_sandbox_pidns_methods" "m_clear CreateSandboxRequest_sandbox_pidns_methods" "m_set CreateSandboxRequest_sandbox_pidns_methods" "False"
  by (rule scalar_fieldI [OF CreateSandboxRequest_sandbox_pidns_methods_def lensI]) simp_all
interpretation CreateSandboxRequest_sandbox_id_field: field "m_get CreateSandboxRequest_sandbox_id_methods" "m_clear CreateSandboxRequest_sandbox_id_methods" "m_set CreateSandboxRequest_sandbox_id_methods" "[]" "m_mut CreateSandboxRequest_sandbox_id_methods" "m_take CreateSandboxRequest_sandbox_id_methods"
  by (rule owned_fieldI [OF CreateSandboxRequest_sandbox_id_methods_def lensI]) simp_all
interpretation CreateSandboxRequest_guest_hook_path_field: field "m_get CreateSandboxRequest_guest_hook_path_methods" "m_clear CreateSandboxRequest_guest_hook_path_methods" "m_set CreateSandboxRequest_guest_hook_path_methods" "[]" "m_mut CreateSandboxRequest_guest_hook_path_methods" "m_take CreateSandboxRequest_guest_hook_path_methods"
  by (rule owned_fieldI [OF CreateSandboxRequest_guest_hook_path_methods_def lensI]) simp_all

section \<open>\<open>Interfaces\<close>\<close>

definition Interfaces_Interfaces_methods :: "('u pb_Interfaces, 'u pb_Interface list) owned_methods" where
  "Interfaces_Interfaces_methods = owned_field Interfaces_Interfaces Interfaces_Interfaces_update []"

interpretation Interfaces_Interfaces_field: field "m_get Interfaces_Interfaces_methods" "m_clear Interfaces_Interfaces_methods" "m_set Interfaces_Interfaces_methods" "[]" "m_mut Interfaces_Interfaces_methods" "m_take Interfaces_Interfaces_methods"
  by (rule owned_fieldI [OF Interfaces_Interfaces_methods_def lensI]) simp_all

section \<open>\<open>Routes\<close>\<close>

definition Routes_Routes_methods :: "('u pb_Routes, 'u pb_Route list) owned_methods" where
  "Routes_Routes_methods = owned_field Routes_Routes Routes_Routes_update []"

interpretation Routes_Routes_field: field "m_get Routes_Routes_methods" "m_clear Routes_Routes_methods" "m_set Routes_Routes_methods" "[]" "m_mut Routes_Routes_methods" "m_take Routes_Routes_methods"
  by (rule owned_fieldI [OF Routes_Routes_methods_def lensI]) simp_all

section \<open>\<open>UpdateInterfaceRequest\<close>\<close>

definition UpdateInterfaceRequest_interface_methods :: "'u runtime \<Rightarrow> ('u pb_UpdateInterfaceRequest, 'u pb_Interface) message_methods" where
  "UpdateInterfaceRequest_interface_methods rt = message_field UpdateInterfaceRequest_interface UpdateInterfaceRequest_interface_update (Interface_new rt)"

interpretation UpdateInterfaceRequest_interface_field: field "m_get (UpdateInterfaceRequest_interface_methods rt)" "m_clear (UpdateInterfaceRequest_interface_methods rt)" "m_set (UpdateInterfaceRequest_interface_methods rt)" "(Interface_new rt)" "m_mut (UpdateInterfaceRequest_interface_methods rt)" "m_take (UpdateInterfaceRequest_interface_methods rt)" for rt
  by (rule message_fieldI [OF UpdateInterfaceRequest_interface_methods_def lensI]) simp_all

section \<open>\<open>UpdateRoutesRequest\<close>\<close>

definition UpdateRoutesRequest_routes_methods :: "'u runtime \<Rightarrow> ('u pb_UpdateRoutesRequest, 'u pb_Routes) message_methods" where
  "UpdateRoutesRequest_routes_methods rt = message_field UpdateRoutesRequest_routes UpdateRoutesRequest_routes_update (Routes_new rt)"

interpretation UpdateRoutesRequest_routes_field: field "m_get (UpdateRoutesRequest_routes_methods rt)" "m_clear (UpdateRoutesRequest_routes_methods rt)" "m_set (UpdateRoutesRequest_routes_methods rt)" "(Routes_new rt)" "m_mut (UpdateRoutesRequest_routes_methods rt)" "m_take (UpdateRoutesRequest_routes_methods rt)" for rt
  by (rule message_fieldI [OF UpdateRoutesRequest_routes_methods_def lensI]) simp_all

section \<open>\<open>OnlineCPUMemRequest\<close>\<close>

definition OnlineCPUMemRequest_wait_methods :: "('u pb_OnlineCPUMemRequest, bool) scalar_methods" where
  "OnlineCPUMemRequest_wait_methods = scalar_field OnlineCPUMemRequest_wait OnlineCPUMemRequest_wait_update False"

definition OnlineCPUMemRequest_nb_cpus_methods :: "('u pb_OnlineCPUMemRequest, u32) scalar_methods" where
  "OnlineCPUMemRequest_nb_cpus_methods = scalar_field OnlineCPUMemRequest_nb_cpus OnlineCPUMemRequest_nb_cpus_update 0"

definition OnlineCPUMemRequest_cpu_only_methods :: "('u pb_OnlineCPUMemRequest, bool) scalar_methods" where
  "OnlineCPUMemRequest_cpu_only_methods = scalar_field OnlineCPUMemRequest_cpu_only OnlineCPUMemRequest_cpu_only_update False"

interpretation OnlineCPUMemRequest_wait_field: plain_field "m_get OnlineCPUMemRequest_wait_methods" "m_clear OnlineCPUMemRequest_wait_methods" "m_set OnlineCPUMemRequest_wait_methods" "False"
  by (rule scalar_fieldI [OF OnlineCPUMemRequest_wait_methods_def lensI]) simp_all
interpretation OnlineCPUMemRequest_nb_cpus_field: plain_field "m_get OnlineCPUMemRequest_nb_cpus_methods" "m_clear OnlineCPUMemRequest_nb_cpus_methods" "m_set OnlineCPUMemRequest_nb_cpus_methods" "0"
  by (rule scalar_fieldI [OF OnlineCPUMemRequest_nb_cpus_methods_def lensI]) simp_all
interpretation OnlineCPUMemRequest_cpu_only_field: plain_field "m_get OnlineCPUMemRequest_cpu_only_methods" "m_clear OnlineCPUMemRequest_cpu_only_methods" "m_set OnlineCPUMemRequest_cpu_only_methods" "False"
  by (rule scalar_fieldI [OF OnlineCPUMemRequest_cpu_only_methods_def lensI]) simp_all

section \<open>\<open>ReseedRandomDevRequest\<close>\<close>

definition ReseedRandomDevRequest_data_methods :: "('u pb_ReseedRandomDevRequest, bytes) owned_methods" where
  "ReseedRandomDevRequest_data_methods = owned_field ReseedRandomDevRequest_data ReseedRandomDevRequest_data_update []"

interpretation ReseedRandomDevRequest_data_field: field "m_get ReseedRandomDevRequest_data_methods" "m_clear ReseedRandomDevRequest_data_methods" "m_set ReseedRandomDevRequest_data_methods" "[]" "m_mut ReseedRandomDevRequest_data_methods" "m_take ReseedRandomDevRequest_data_methods"
  by (rule owned_fieldI [OF ReseedRandomDevRequest_data_methods_def lensI]) simp_all

section \<open>\<open>AgentDetails\<close>\<close>

definition AgentDetails_version_methods :: "('u pb_AgentDetails, string) owned_methods" where
  "AgentDetails_version_methods = owned_field AgentDetails_version AgentDetails_version_update []"

definition AgentDetails_init_daemon_methods :: "('u pb_AgentDetails, bool) scalar_methods" where
  "AgentDetails_init_daemon_methods = scalar_field AgentDetails_init_daemon AgentDetails_init_daemon_update False"

definition AgentDetails_device_handlers_methods :: "('u pb_AgentDetails, string list) owned_methods" where
  "AgentDetails_device_handlers_methods = owned_field AgentDetails_device_handlers AgentDetails_device_handlers_update []"

definition AgentDetails_storage_handlers_methods :: "('u pb_AgentDetails, string list) owned_methods" where
  "AgentDetails_storage_handlers_methods = owned_field AgentDetails_storage_handlers AgentDetails_storage_handlers_update []"

definition AgentDetails_supports_seccomp_methods :: "('u pb_AgentDetails, bool) scalar_methods" where
  "AgentDetails_supports_seccomp_methods = scalar_field AgentDetails_supports_seccomp AgentDetails_supports_seccomp_update False"

interpretation AgentDetails_version_field: field "m_get AgentDetails_version_methods" "m_clear AgentDetails_version_methods" "m_set AgentDetails_version_methods" "[]" "m_mut AgentDetails_version_methods" "m_take AgentDetails_version_methods"
  by (rule owned_fieldI [OF AgentDetails_version_methods_def lensI]) simp_all
interpretation AgentDetails_init_daemon_field: plain_field "m_get AgentDetails_init_daemon_methods" "m_clear AgentDetails_init_daemon_methods" "m_set AgentDetails_init_daemon_methods" "False"
  by (rule scalar_fieldI [OF AgentDetails_init_daemon_methods_def lensI]) simp_all
interpretation AgentDetails_device_handlers_field: field "m_get AgentDetails_device_handlers_methods" "m_clear AgentDetails_device_handlers_methods" "m_set AgentDetails_device_handlers_methods" "[]" "m_mut AgentDetails_device_handlers_methods" "m_take AgentDetails_device_handlers_methods"
  by (rule owned_fieldI [OF AgentDetails_device_handlers_methods_def lensI]) simp_all
interpretation AgentDetails_storage_handlers_field: field "m_get AgentDetails_storage_handlers_methods" "m_clear AgentDetails_storage_handlers_methods" "m_set AgentDetails_storage_handlers_methods" "[]" "m_mut AgentDetails_storage_handlers_methods" "m_take AgentDetails_storage_handlers_methods"
  by (rule owned_fieldI [OF AgentDetails_storage_handlers_methods_def lensI]) simp_all
interpretation AgentDetails_supports_seccomp_field: plain_field "m_get AgentDetails_supports_seccomp_methods" "m_clear AgentDetails_supports_seccomp_methods" "m_set AgentDetails_supports_seccomp_methods" "False"
  by (rule scalar_fieldI [OF AgentDetails_supports_seccomp_methods_def lensI]) simp_all

section \<open>\<open>GuestDetailsRequest\<close>\<close>

definition GuestDetailsRequest_mem_block_size_methods :: "('u pb_GuestDetailsRequest, bool) scalar_methods" where
  "GuestDetailsRequest_mem_block_size_methods = scalar_field GuestDetailsRequest_mem_block_size GuestDetailsRequest_mem_block_size_update False"

definition GuestDetailsRequest_mem_hotplug_probe_methods :: "('u pb_GuestDetailsRequest, bool) scalar_methods" where
  "GuestDetailsRequest_mem_hotplug_probe_methods = scalar_field GuestDetailsRequest_mem_hotplug_probe GuestDetailsRequest_mem_hotplug_probe_update False"

interpretation GuestDetailsRequest_mem_block_size_field: plain_field "m_get GuestDetailsRequest_mem_block_size_methods" "m_clear GuestDetailsRequest_mem_block_size_methods" "m_set GuestDetailsRequest_mem_block_size_methods" "False"
  by (rule scalar_fieldI [OF GuestDetailsRequest_mem_block_size_methods_def lensI]) simp_all
interpretation GuestDetailsRequest_mem_hotplug_probe_field: plain_field "m_get GuestDetailsRequest_mem_hotplug_probe_methods" "m_clear GuestDetailsRequest_mem_hotplug_probe_methods" "m_set GuestDetailsRequest_mem_hotplug_probe_methods" "False"
  by (rule scalar_fieldI [OF GuestDetailsRequest_mem_hotplug_probe_methods_def lensI]) simp_all

section \<open>\<open>GuestDetailsResponse\<close>\<close>

definition GuestDetailsResponse_mem_block_size_bytes_methods :: "('u pb_GuestDetailsResponse, u64) scalar_methods" where
  "GuestDetailsResponse_mem_block_size_bytes_methods = scalar_field GuestDetailsResponse_mem_block_size_bytes GuestDetailsResponse_mem_block_size_bytes_update 0"

definition GuestDetailsResponse_agent_details_methods :: "'u runtime \<Rightarrow> ('u pb_GuestDetailsResponse, 'u pb_AgentDetails) message_methods" where
  "GuestDetailsResponse_agent_details_methods rt = message_field GuestDetailsResponse_agent_details GuestDetailsResponse_agent_details_update (AgentDetails_new rt)"

definition GuestDetailsResponse_support_mem_hotplug_probe_methods :: "('u pb_GuestDetailsResponse, bool) scalar_methods" where
  "GuestDetailsResponse_support_mem_hotplug_probe_methods = scalar_field GuestDetailsResponse_support_mem_hotplug_probe GuestDetailsResponse_support_mem_hotplug_probe_update False"

interpretation GuestDetailsResponse_mem_block_size_bytes_field: plain_field "m_get GuestDetailsResponse_mem_block_size_bytes_methods" "m_clear GuestDetailsResponse_mem_block_size_bytes_methods" "m_set GuestDetailsResponse_mem_block_size_bytes_methods" "0"
  by (rule scalar_fieldI [OF GuestDetailsResponse_mem_block_size_bytes_methods_def lensI]) simp_all
interpretation GuestDetailsResponse_agent_details_field: field "m_get (GuestDetailsResponse_agent_details_methods rt)" "m_clear (GuestDetailsResponse_agent_details_methods rt)" "m_set (GuestDetailsResponse_agent_details_methods rt)" "(AgentDetails_new rt)" "m_mut (GuestDetailsResponse_agent_details_methods rt)" "m_take (GuestDetailsResponse_agent_details_methods rt)" for rt
  by (rule message_fieldI [OF GuestDetailsResponse_agent_details_methods_def lensI]) simp_all
interpretation GuestDetailsResponse_support_mem_hotplug_probe_field: plain_field "m_get GuestDetailsResponse_support_mem_hotplug_probe_methods" "m_clear GuestDetailsResponse_support_mem_hotplug_probe_methods" "m_set GuestDetailsResponse_support_mem_hotplug_probe_methods" "False"
  by (rule scalar_fieldI [OF GuestDetailsResponse_support_mem_hotplug_probe_methods_def lensI]) simp_all

section \<open>\<open>MemHotplugByProbeRequest\<close>\<close>

definition MemHotplugByProbeRequest_memHotplugProbeAddr_methods :: "('u pb_MemHotplugByProbeRequest, u64 list) owned_methods" where
  "MemHotplugByProbeRequest_memHotplugProbeAddr_methods = owned_field MemHotplugByProbeRequest_memHotplugProbeAddr MemHotplugByProbeRequest_memHotplugProbeAddr_update []"

interpretation MemHotplugByProbeRequest_memHotplugProbeAddr_field: field "m_get MemHotplugByProbeRequest_memHotplugProbeAddr_methods" "m_clear MemHotplugByProbeRequest_memHotplugProbeAddr_methods" "m_set MemHotplugByProbeRequest_memHotplugProbeAddr_methods" "[]" "m_mut MemHotplugByProbeRequest_memHotplugProbeAddr_methods" "m_take MemHotplugByProbeRequest_memHotplugProbeAddr_methods"
  by (rule owned_fieldI [OF MemHotplugByProbeRequest_memHotplugProbeAddr_methods_def lensI]) simp_all

section \<open>\<open>SetGuestDateTimeRequest\<close>\<close>

definition SetGuestDateTimeRequest_Sec_methods :: "('u pb_SetGuestDateTimeRequest, u64) scalar_methods" where
  "SetGuestDateTimeRequest_Sec_methods = scalar_field SetGuestDateTimeRequest_Sec SetGuestDateTimeRequest_Sec_update 0"

definition SetGuestDateTimeRequest_Usec_methods :: "('u pb_SetGuestDateTimeRequest, u64) scalar_methods" where
  "SetGuestDateTimeRequest_Usec_methods = scalar_field SetGuestDateTimeRequest_Usec SetGuestDateTimeRequest_Usec_update 0"

interpretation SetGuestDateTimeRequest_Sec_field: plain_field "m_get SetGuestDateTimeRequest_Sec_methods" "m_clear SetGuestDateTimeRequest_Sec_methods" "m_set SetGuestDateTimeRequest_Sec_methods" "0"
  by (rule scalar_fieldI [OF SetGuestDateTimeRequest_Sec_methods_def lensI]) simp_all
interpretation SetGuestDateTimeRequest_Usec_field: plain_field "m_get SetGuestDateTimeRequest_Usec_methods" "m_clear SetGuestDateTimeRequest_Usec_methods" "m_set SetGuestDateTimeRequest_Usec_methods" "0"
  by (rule scalar_fieldI [OF SetGuestDateTimeRequest_Usec_methods_def lensI]) simp_all

section \<open>\<open>Storage\<close>\<close>

definition Storage_driver_methods :: "('u pb_Storage, string) owned_methods" where
  "Storage_driver_methods = owned_field Storage_driver Storage_driver_update []"

definition Storage_driver_options_methods :: "('u pb_Storage, string list) owned_methods" where
  "Storage_driver_options_methods = owned_field Storage_driver_options Storage_driver_options_update []"

definition Storage_source_methods :: "('u pb_Storage, string) owned_methods" where
  "Storage_source_methods = owned_field Storage_source Storage_source_update []"

definition Storage_fstype_methods :: "('u pb_Storage, string) owned_methods" where
  "Storage_fstype_methods = owned_field Storage_fstype Storage_fstype_update []"

definition Storage_options_methods :: "('u pb_Storage, string list) owned_methods" where
  "Storage_options_methods = owned_field Storage_options Storage_options_update []"

definition Storage_mount_point_methods :: "('u pb_Storage, string) owned_methods" where
  "Storage_mount_point_methods = owned_field Storage_mount_point Storage_mount_point_update []"

interpretation Storage_driver_field: field "m_get Storage_driver_methods" "m_clear Storage_driver_methods" "m_set Storage_driver_methods" "[]" "m_mut Storage_driver_methods" "m_take Storage_driver_methods"
  by (rule owned_fieldI [OF Storage_driver_methods_def lensI]) simp_all
interpretation Storage_driver_options_field: field "m_get Storage_driver_options_methods" "m_clear Storage_driver_options_methods" "m_set Storage_driver_options_methods" "[]" "m_mut Storage_driver_options_methods" "m_take Storage_driver_options_methods"
  by (rule owned_fieldI [OF Storage_driver_options_methods_def lensI]) simp_all
interpretation Storage_source_field: field "m_get Storage_source_methods" "m_clear Storage_source_methods" "m_set Storage_source_methods" "[]" "m_mut Storage_source_methods" "m_take Storage_source_methods"
  by (rule owned_fieldI [OF Storage_source_methods_def lensI]) simp_all
interpretation Storage_fstype_field: field "m_get Storage_fstype_methods" "m_clear Storage_fstype_methods" "m_set Storage_fstype_methods" "[]" "m_mut Storage_fstype_methods" "m_take Storage_fstype_methods"
  by (rule owned_fieldI [OF Storage_fstype_methods_def lensI]) simp_all
interpretation Storage_options_field: field "m_get Storage_options_methods" "m_clear Storage_options_methods" "m_set Storage_options_methods" "[]" "m_mut Storage_options_methods" "m_take Storage_options_methods"
  by (rule owned_fieldI [OF Storage_options_methods_def lensI]) simp_all
interpretation Storage_mount_point_field: field "m_get Storage_mount_point_methods" "m_clear Storage_mount_point_methods" "m_set Storage_mount_point_methods" "[]" "m_mut Storage_mount_point_methods" "m_take Storage_mount_point_methods"
  by (rule owned_fieldI [OF Storage_mount_point_methods_def lensI]) simp_all

section \<open>\<open>Device\<close>\<close>

definition Device_id_methods :: "('u pb_Device, string) owned_methods" where
  "Device_id_methods = owned_field Device_id Device_id_update []"

definition Device_field_type_methods :: "('u pb_Device, string) owned_methods" where
  "Device_field_type_methods = owned_field Device_field_type Device_field_type_update []"

definition Device_vm_path_methods :: "('u pb_Device, string) owned_methods" where
  "Device_vm_path_methods = owned_field Device_vm_path Device_vm_path_update []"

definition Device_container_path_methods :: "('u pb_Device, string) owned_methods" where
  "Device_container_path_methods = owned_field Device_container_path Device_container_path_update []"

definition Device_options_methods :: "('u pb_Device, string list) owned_methods" where
  "Device_options_methods = owned_field Device_options Device_options_update []"

interpretation Device_id_field: field "m_get Device_id_methods" "m_clear Device_id_methods" "m_set Device_id_methods" "[]" "m_mut Device_id_methods" "m_take Device_id_methods"
  by (rule owned_fieldI [OF Device_id_methods_def lensI]) simp_all
interpretation Device_field_type_field: field "m_get Device_field_type_methods" "m_clear Device_field_type_methods" "m_set Device_field_type_methods" "[]" "m_mut Device_field_type_methods" "m_take Device_field_type_methods"
  by (rule owned_fieldI [OF Device_field_type_methods_def lensI]) simp_all
interpretation Device_vm_path_field: field "m_get Device_vm_path_methods" "m_clear Device_vm_path_methods" "m_set Device_vm_path_methods" "[]" "m_mut Device_vm_path_methods" "m_take Device_vm_path_methods"
  by (rule owned_fieldI [OF Device_vm_path_methods_def lensI]) simp_all
interpretation Device_container_path_field: field "m_get Device_container_path_methods" "m_clear Device_container_path_methods" "m_set Device_container_path_methods" "[]" "m_mut Device_container_path_methods" "m_take Device_container_path_methods"
  by (rule owned_fieldI [OF Device_container_path_methods_def lensI]) simp_all
interpretation Device_options_field: field "m_get Device_options_methods" "m_clear Device_options_methods" "m_set Device_options_methods" "[]" "m_mut Device_options_methods" "m_take Device_options_methods"
  by (rule owned_fieldI [OF Device_options_methods_def lensI]) simp_all

section \<open>\<open>StringUser\<close>\<close>

definition StringUser_uid_methods :: "('u pb_StringUser, string) owned_methods" where
  "StringUser_uid_methods = owned_field StringUser_uid StringUser_uid_update []"

definition StringUser_gid_methods :: "('u pb_StringUser, string) owned_methods" where
  "StringUser_gid_methods = owned_field StringUser_gid StringUser_gid_update []"

definition StringUser_additionalGids_methods :: "('u pb_StringUser, string list) owned_methods" where
  "StringUser_additionalGids_methods = owned_field StringUser_additionalGids StringUser_additionalGids_update []"

interpretation StringUser_uid_field: field "m_get StringUser_uid_methods" "m_clear StringUser_uid_methods" "m_set StringUser_uid_methods" "[]" "m_mut StringUser_uid_methods" "m_take StringUser_uid_methods"
  by (rule owned_fieldI [OF StringUser_uid_methods_def lensI]) simp_all
interpretation StringUser_gid_field: field "m_get StringUser_gid_methods" "m_clear StringUser_gid_methods" "m_set StringUser_gid_methods" "[]" "m_mut StringUser_gid_methods" "m_take StringUser_gid_methods"
  by (rule owned_fieldI [OF StringUser_gid_methods_def lensI]) simp_all
interpretation StringUser_additionalGids_field: field "m_get StringUser_additionalGids_methods" "m_clear StringUser_additionalGids_methods" "m_set StringUser_additionalGids_methods" "[]" "m_mut StringUser_additionalGids_methods" "m_take StringUser_additionalGids_methods"
  by (rule owned_fieldI [OF StringUser_additionalGids_methods_def lensI]) simp_all

section \<open>\<open>CopyFileRequest\<close>\<close>

definition CopyFileRequest_path_methods :: "('u pb_CopyFileRequest, string) owned_methods" where
  "CopyFileRequest_path_methods = owned_field CopyFileRequest_path CopyFileRequest_path_update []"

definition CopyFileRequest_file_size_methods :: "('u pb_CopyFileRequest, u64) scalar_methods" where
  "CopyFileRequest_file_size_methods = scalar_field CopyFileRequest_file_size CopyFileRequest_file_size_update 0"

definition CopyFileRequest_file_mode_methods :: "('u pb_CopyFileRequest, u32) scalar_methods" where
  "CopyFileRequest_file_mode_methods = scalar_field CopyFileRequest_file_mode CopyFileRequest_file_mode_update 0"

definition CopyFileRequest_dir_mode_methods :: "('u pb_CopyFileRequest, u32) scalar_methods" where
  "CopyFileRequest_dir_mode_methods = scalar_field CopyFileRequest_dir_mode CopyFileRequest_dir_mode_update 0"

definition CopyFileRequest_uid_methods :: "('u pb_CopyFileRequest, u32) scalar_methods" where
  "CopyFileRequest_uid_methods = scalar_field CopyFileRequest_uid CopyFileRequest_uid_update 0"

definition CopyFileRequest_gid_methods :: "('u pb_CopyFileRequest, u32) scalar_methods" where
  "CopyFileRequest_gid_methods = scalar_field CopyFileRequest_gid CopyFileRequest_gid_update 0"

definition CopyFileRequest_offset_methods :: "('u pb_CopyFileRequest, u64) scalar_methods" where
  "CopyFileRequest_offset_methods = scalar_field CopyFileRequest_offset CopyFileRequest_offset_update 0"

definition CopyFileRequest_data_methods :: "('u pb_CopyFileRequest, bytes) owned_methods" where
  "CopyFileRequest_data_methods = owned_field CopyFileRequest_data CopyFileRequest_data_update []"

interpretation CopyFileRequest_path_field: field "m_get CopyFileRequest_path_methods" "m_clear CopyFileRequest_path_methods" "m_set CopyFileRequest_path_methods" "[]" "m_mut CopyFileRequest_path_methods" "m_take CopyFileRequest_path_methods"
  by (rule owned_fieldI [OF CopyFileRequest_path_methods_def lensI]) simp_all
interpretation CopyFileRequest_file_size_field: plain_field "m_get CopyFileRequest_file_size_methods" "m_clear CopyFileRequest_file_size_methods" "m_set CopyFileRequest_file_size_methods" "0"
  by (rule scalar_fieldI [OF CopyFileRequest_file_size_methods_def lensI]) simp_all
interpretation CopyFileRequest_file_mode_field: plain_field "m_get CopyFileRequest_file_mode_methods" "m_clear CopyFileRequest_file_mode_methods" "m_set CopyFileRequest_file_mode_methods" "0"
  by (rule scalar_fieldI [OF CopyFileRequest_file_mode_methods_def lensI]) simp_all
interpretation CopyFileRequest_dir_mode_field: plain_field "m_get CopyFileRequest_dir_mode_methods" "m_clear CopyFileRequest_dir_mode_methods" "m_set CopyFileRequest_dir_mode_methods" "0"
  by (rule scalar_fieldI [OF CopyFileRequest_dir_mode_methods_def lensI]) simp_all
interpretation CopyFileRequest_uid_field: plain_field "m_get CopyFileRequest_uid_methods" "m_clear CopyFileRequest_uid_methods" "m_set CopyFileRequest_uid_methods" "0"
  by (rule scalar_fieldI [OF CopyFileRequest_uid_methods_def lensI]) simp_all
interpretation CopyFileRequest_gid_field: plain_field "m_get CopyFileRequest_gid_methods" "m_clear CopyFileRequest_gid_methods" "m_set CopyFileRequest_gid_methods" "0"
  by (rule scalar_fieldI [OF CopyFileRequest_gid_methods_def lensI]) simp_all
interpretation CopyFileRequest_offset_field: plain_field "m_get CopyFileRequest_offset_methods" "m_clear CopyFileRequest_offset_methods" "m_set CopyFileRequest_offset_methods" "0"
  by (rule scalar_fieldI [OF CopyFileRequest_offset_methods_def lensI]) simp_all
interpretation CopyFileRequest_data_field: field "m_get CopyFileRequest_data_methods" "m_clear CopyFileRequest_data_methods" "m_set CopyFileRequest_data_methods" "[]" "m_mut CopyFileRequest_data_methods" "m_take CopyFileRequest_data_methods"
  by (rule owned_fieldI [OF CopyFileRequest_data_methods_def lensI]) simp_all

end
